(* ===== verification/Lance_Prelude.thy ===== *)
theory Lance_Prelude
  imports Main "HOL-Library.Word" "HOL-Library.Sublist"
begin

text \<open>
  Shared vocabulary of the development.  It holds the byte and word types of the
  wire formats, the two result types every component uses (a thrown C++ exception or a
  Rust \<open>Err\<close> is the left summand of a sum; a C++ function returning \<open>bool\<close> that may also
  throw has the three outcomes of \<open>outcome\<close>), the sequencing combinators over them with
  the congruence rules the function package needs, the little-endian byte codecs with
  their round trip, decimal printing of naturals (\<open>std::to_string\<close>) and UTF-8 validity
  (\<open>std::str::from_utf8\<close>), and the collections of facts that the component proofs use.
\<close>

unbundle bit_operations_syntax

named_theorems codec \<open>reading back what was written\<close>
named_theorems node_defs \<open>definitions of the message node encoders\<close>
named_theorems bytes_len \<open>lengths of encoded byte strings\<close>
named_theorems cursor_len \<open>what a cursor read leaves behind\<close>

type_synonym byte = "8 word"
type_synonym bytes = "byte list"
type_synonym u32 = "32 word"
type_synonym u64 = "64 word"
type_synonym i128 = "128 word"

text \<open>\<open>std::numeric_limits<uint32_t>::max()\<close>, as the bound the encoders compare sizes with.\<close>

abbreviation u32_max :: nat where
  "u32_max \<equiv> 4294967295"

text \<open>A \<open>std::string\<close> appended to a byte buffer: the characters as bytes.\<close>

definition string_bytes :: "string \<Rightarrow> bytes" where
  "string_bytes s = map of_char s"

definition bytes_string :: "bytes \<Rightarrow> string" where
  "bytes_string bs = map (\<lambda>b. char_of (unat b)) bs"

lemma unat_of_char [simp]: "unat (of_char c :: byte) = of_char c"
proof -
  have "unat (word_of_nat (of_char c) :: byte) = of_char c"
    using nat_of_char_less_256 [of c] by (simp add: unat_of_nat del: of_nat_of_char)
  then show ?thesis
    by (simp only: of_nat_of_char)
qed

lemma bytes_string_string_bytes [simp, codec]: "bytes_string (string_bytes s) = s"
  by (induction s) (simp_all add: bytes_string_def string_bytes_def)

lemma length_string_bytes [simp, bytes_len]: "length (string_bytes s) = length s"
  by (simp add: string_bytes_def)

lemma string_bytes_inj [simp]: "string_bytes s = string_bytes t \<longleftrightarrow> s = t"
  by (metis bytes_string_string_bytes)


section \<open>Results\<close>

text \<open>
  Sequencing of fallible computations: the C++ exception or the Rust \<open>?\<close> operator
  leaves the function at the first error.
\<close>

fun res_bind :: "'e + 'a \<Rightarrow> ('a \<Rightarrow> 'e + 'b) \<Rightarrow> 'e + 'b" where
  "res_bind (Inl e) f = Inl e"
| "res_bind (Inr x) f = f x"

lemma res_bind_cong [fundef_cong]:
  "\<lbrakk>m = m'; \<And>x. m' = Inr x \<Longrightarrow> f x = g x\<rbrakk> \<Longrightarrow> res_bind m f = res_bind m' g"
  by (cases m') auto

lemma res_bind_Inr_iff: "res_bind m f = Inr y \<longleftrightarrow> (\<exists>x. m = Inr x \<and> f x = Inr y)"
  by (cases m) auto

lemma res_bind_assoc: "res_bind (res_bind m f) g = res_bind m (\<lambda>x. res_bind (f x) g)"
  by (cases m) auto

lemma res_bind_Inl_iff:
  "res_bind m f = Inl e \<longleftrightarrow> m = Inl e \<or> (\<exists>x. m = Inr x \<and> f x = Inl e)"
  by (cases m) auto

text \<open>A loop that computes one result per element and stops at the first error.\<close>

fun res_map :: "('a \<Rightarrow> 'e + 'b) \<Rightarrow> 'a list \<Rightarrow> 'e + 'b list" where
  "res_map f [] = Inr []"
| "res_map f (x # xs) = res_bind (f x) (\<lambda>y. res_bind (res_map f xs) (\<lambda>ys. Inr (y # ys)))"

lemma res_map_cong [fundef_cong]:
  "\<lbrakk>xs = ys; \<And>x. x \<in> set ys \<Longrightarrow> f x = g x\<rbrakk> \<Longrightarrow> res_map f xs = res_map g ys"
  by (induction ys arbitrary: xs) auto

lemma res_map_Inr_list_all2:
  "res_map f xs = Inr ys \<longleftrightarrow> list_all2 (\<lambda>x y. f x = Inr y) xs ys"
  by (induction xs arbitrary: ys) (auto simp: res_bind_Inr_iff list_all2_Cons1)

lemma res_map_length: "res_map f xs = Inr ys \<Longrightarrow> length ys = length xs"
  by (metis res_map_Inr_list_all2 list_all2_lengthD)

text \<open>A loop that carries a buffer from element to element and stops at the first error.\<close>

fun res_foldl :: "('b \<Rightarrow> 'a \<Rightarrow> 'e + 'b) \<Rightarrow> 'b \<Rightarrow> 'a list \<Rightarrow> 'e + 'b" where
  "res_foldl f acc [] = Inr acc"
| "res_foldl f acc (x # xs) = res_bind (f acc x) (\<lambda>acc. res_foldl f acc xs)"

lemma res_foldl_cong [fundef_cong]:
  "\<lbrakk>acc = acc'; xs = ys; \<And>acc x. x \<in> set ys \<Longrightarrow> f acc x = g acc x\<rbrakk>
     \<Longrightarrow> res_foldl f acc xs = res_foldl g acc' ys"
proof (induction ys arbitrary: xs acc acc')
  case Nil
  then show ?case by simp
next
  case (Cons y ys)
  then have "f acc' y = g acc' y" and "\<And>acc. res_foldl f acc ys = res_foldl g acc ys"
    by simp_all
  with Cons.prems show ?case
    by (auto intro: res_bind_cong)
qed

lemma res_foldl_invariant:
  "\<lbrakk>res_foldl f s xs = Inr s'; P s; \<And>s x s'. \<lbrakk>x \<in> set xs; f s x = Inr s'; P s\<rbrakk> \<Longrightarrow> P s'\<rbrakk> \<Longrightarrow> P s'"
  by (induction xs arbitrary: s) (auto simp: res_bind_Inr_iff)

text \<open>
  A C++ function that returns \<open>true\<close> with its out parameter set, returns \<open>false\<close>, or throws.
\<close>

datatype ('e, 'a) outcome = Done 'a | Refused | Raised 'e

fun try_bind :: "('e, 'a) outcome \<Rightarrow> ('a \<Rightarrow> ('e, 'b) outcome) \<Rightarrow> ('e, 'b) outcome" where
  "try_bind (Done x) f = f x"
| "try_bind Refused f = Refused"
| "try_bind (Raised e) f = Raised e"

lemma try_bind_cong [fundef_cong]:
  "\<lbrakk>m = m'; \<And>x. m' = Done x \<Longrightarrow> f x = g x\<rbrakk> \<Longrightarrow> try_bind m f = try_bind m' g"
  by (cases m') auto

lemma try_bind_Done_iff: "try_bind m f = Done y \<longleftrightarrow> (\<exists>x. m = Done x \<and> f x = Done y)"
  by (cases m) auto

fun try_map :: "('a \<Rightarrow> ('e, 'b) outcome) \<Rightarrow> 'a list \<Rightarrow> ('e, 'b list) outcome" where
  "try_map f [] = Done []"
| "try_map f (x # xs) = try_bind (f x) (\<lambda>y. try_bind (try_map f xs) (\<lambda>ys. Done (y # ys)))"

lemma try_map_cong [fundef_cong]:
  "\<lbrakk>xs = ys; \<And>x. x \<in> set ys \<Longrightarrow> f x = g x\<rbrakk> \<Longrightarrow> try_map f xs = try_map g ys"
  by (induction ys arbitrary: xs) auto

lemma try_map_Done_list_all2:
  "try_map f xs = Done ys \<longleftrightarrow> list_all2 (\<lambda>x y. f x = Done y) xs ys"
  by (induction xs arbitrary: ys) (auto simp: try_bind_Done_iff list_all2_Cons1)

text \<open>\<open>try { ... return true; } catch (...) { return false; }\<close>\<close>

fun catch_all :: "'e + 'a \<Rightarrow> ('x, 'a) outcome" where
  "catch_all (Inl e) = Refused"
| "catch_all (Inr x) = Done x"

lemma catch_all_Done_iff [simp]: "catch_all r = Done x \<longleftrightarrow> r = Inr x"
  by (cases r) auto

text \<open>A function returning \<open>bool\<close> that never throws, used where an outcome is expected.\<close>

fun of_option :: "'a option \<Rightarrow> ('x, 'a) outcome" where
  "of_option None = Refused"
| "of_option (Some x) = Done x"

lemma of_option_Done_iff [simp]: "of_option r = Done x \<longleftrightarrow> r = Some x"
  by (cases r) auto

lemmas outcome_iffs = try_bind_Done_iff try_map_Done_list_all2 catch_all_Done_iff of_option_Done_iff


section \<open>Little-endian words\<close>

text \<open>Reference form of a little-endian encoding, least significant byte first.\<close>

primrec le_split :: "nat \<Rightarrow> 'a::len word \<Rightarrow> bytes" where
  "le_split 0 v = []"
| "le_split (Suc n) v = ucast v # le_split n (drop_bit 8 v)"

primrec le_join :: "bytes \<Rightarrow> 'a::len word" where
  "le_join [] = 0"
| "le_join (b # bs) = ucast b OR push_bit 8 (le_join bs)"

lemma length_le_split [simp, bytes_len]: "length (le_split n v) = n"
  by (induction n arbitrary: v) simp_all

lemma le_join_le_split: "le_join (le_split n v) = take_bit (8 * n) (v :: 'a::len word)"
proof (induction n arbitrary: v)
  case 0
  then show ?case by simp
next
  case (Suc n)
  show ?case
  proof (rule bit_word_eqI)
    fix k
    assume k: "k < LENGTH('a)"
    show "bit (le_join (le_split (Suc n) v) :: 'a word) k = bit (take_bit (8 * Suc n) v) k"
      using k by (auto simp: Suc.IH bit_simps not_less)
  qed
qed

lemma le_roundtrip [codec]:
  "8 * n = LENGTH('a) \<Longrightarrow> le_join (le_split n v) = (v :: 'a::len word)"
  by (simp add: le_join_le_split take_bit_word_eq_self)


lemma unat_plus_one: "a < b \<Longrightarrow> unat (a + 1) = Suc (unat a)" for a b :: "'a::len word"
proof -
  assume "a < b"
  then have "unat a + 1 < 2 ^ LENGTH('a)"
    by (metis Suc_eq_plus1 Suc_leI order_le_less_trans unsigned_less word_less_nat_alt)
  then show ?thesis
    by (simp add: unat_word_ariths)
qed


section \<open>Text\<close>

text \<open>\<open>std::to_string\<close> of an unsigned integer: its decimal digits, no leading zero.\<close>

definition digit_char :: "nat \<Rightarrow> char" where
  "digit_char d = char_of (48 + d)"

fun nat_to_string :: "nat \<Rightarrow> string" where
  "nat_to_string n =
     (if n < 10 then [digit_char n] else nat_to_string (n div 10) @ [digit_char (n mod 10)])"

declare nat_to_string.simps [simp del]

definition is_digit :: "char \<Rightarrow> bool" where
  "is_digit c \<longleftrightarrow> 48 \<le> (of_char c :: nat) \<and> (of_char c :: nat) \<le> 57"

definition digit_val :: "char \<Rightarrow> nat" where
  "digit_val c = of_char c - 48"

definition string_to_nat :: "string \<Rightarrow> nat" where
  "string_to_nat s = foldl (\<lambda>acc c. acc * 10 + digit_val c) 0 s"

lemma of_char_digit_char: "d < 10 \<Longrightarrow> (of_char (digit_char d) :: nat) = 48 + d"
  by (simp add: digit_char_def)

lemma is_digit_digit_char [simp]: "d < 10 \<Longrightarrow> is_digit (digit_char d)"
  by (simp add: is_digit_def of_char_digit_char)

lemma digit_val_digit_char [simp]: "d < 10 \<Longrightarrow> digit_val (digit_char d) = d"
  by (simp add: digit_val_def of_char_digit_char)

lemma nat_to_string_digits: "\<forall>c \<in> set (nat_to_string n). is_digit c"
proof (induction n rule: nat_to_string.induct)
  case (1 n)
  show ?case
    using 1 by (subst nat_to_string.simps) auto
qed

lemma nat_to_string_nonempty [simp]: "nat_to_string n \<noteq> []"
  by (subst nat_to_string.simps) simp

lemma string_to_nat_to_string [codec]: "string_to_nat (nat_to_string n) = n"
proof (induction n rule: nat_to_string.induct)
  case (1 n)
  show ?case
    using 1 by (subst nat_to_string.simps) (auto simp: string_to_nat_def)
qed

lemma nat_to_string_inj [simp]: "nat_to_string m = nat_to_string n \<longleftrightarrow> m = n"
  by (metis string_to_nat_to_string)

text \<open>
  \<open>std::string::find\<close>: the position of the first occurrence of a text, if there is one.
\<close>

fun find_sub :: "'a list \<Rightarrow> 'a list \<Rightarrow> nat option" where
  "find_sub p [] = (if p = [] then Some 0 else None)"
| "find_sub p (c # cs) = (if prefix p (c # cs) then Some 0 else map_option Suc (find_sub p cs))"

lemma find_sub_Some_iff:
  "find_sub p s = Some i \<longleftrightarrow>
     i \<le> length s \<and> prefix p (drop i s) \<and> (\<forall>j < i. \<not> prefix p (drop j s))"
proof (induction s arbitrary: i)
  case Nil
  then show ?case by auto
next
  case (Cons c cs)
  show ?case
  proof (cases i)
    case 0
    then show ?thesis by auto
  next
    case (Suc k)
    then show ?thesis
      by (auto simp: Cons.IH less_Suc_eq_0_disj)
  qed
qed

lemma find_sub_None_iff: "find_sub p s = None \<longleftrightarrow> (\<forall>i \<le> length s. \<not> prefix p (drop i s))"
proof (induction s)
  case Nil
  then show ?case by auto
next
  case (Cons c cs)
  have split: "(\<forall>i \<le> Suc n. Q i) \<longleftrightarrow> Q 0 \<and> (\<forall>i \<le> n. Q (Suc i))" for Q and n :: nat
    by (metis Suc_le_mono le0 not0_implies_Suc)
  have "(\<forall>i \<le> length (c # cs). \<not> prefix p (drop i (c # cs))) \<longleftrightarrow>
      \<not> prefix p (c # cs) \<and> (\<forall>i \<le> length cs. \<not> prefix p (drop i cs))"
    using split [of "length cs" "\<lambda>i. \<not> prefix p (drop i (c # cs))"] by simp
  then show ?case using Cons.IH by auto
qed

text \<open>
  \<open>std::str::from_utf8\<close> accepts exactly the well-formed UTF-8 byte sequences: no overlong
  forms, no surrogates, nothing above U+10FFFF.
\<close>

definition utf8_cont :: "byte \<Rightarrow> bool" where
  "utf8_cont b \<longleftrightarrow> 0x80 \<le> b \<and> b \<le> 0xBF"

definition utf8_lead3 :: "byte \<Rightarrow> byte \<Rightarrow> bool" where
  "utf8_lead3 a b \<longleftrightarrow>
     (if a = 0xE0 then 0xA0 \<le> b \<and> b \<le> 0xBF
      else if a = 0xED then 0x80 \<le> b \<and> b \<le> 0x9F
      else utf8_cont b)"

definition utf8_lead4 :: "byte \<Rightarrow> byte \<Rightarrow> bool" where
  "utf8_lead4 a b \<longleftrightarrow>
     (if a = 0xF0 then 0x90 \<le> b \<and> b \<le> 0xBF
      else if a = 0xF4 then 0x80 \<le> b \<and> b \<le> 0x8F
      else utf8_cont b)"

fun utf8_valid :: "bytes \<Rightarrow> bool" where
  "utf8_valid [] = True"
| "utf8_valid (a # bs) =
     (if a < 0x80 then utf8_valid bs
      else case bs of [] \<Rightarrow> False | b # cs \<Rightarrow>
        if 0xC2 \<le> a \<and> a \<le> 0xDF then utf8_cont b \<and> utf8_valid cs
        else case cs of [] \<Rightarrow> False | c # ds \<Rightarrow>
          if 0xE0 \<le> a \<and> a \<le> 0xEF then utf8_lead3 a b \<and> utf8_cont c \<and> utf8_valid ds
          else case ds of [] \<Rightarrow> False | d # es \<Rightarrow>
            0xF0 \<le> a \<and> a \<le> 0xF4 \<and> utf8_lead4 a b \<and> utf8_cont c \<and> utf8_cont d
              \<and> utf8_valid es)"

definition utf8_string :: "string \<Rightarrow> bool" where
  "utf8_string s \<longleftrightarrow> utf8_valid (string_bytes s)"

lemma utf8_valid_ascii: "(\<And>b. b \<in> set bs \<Longrightarrow> b < 0x80) \<Longrightarrow> utf8_valid bs"
  by (induction bs) simp_all

end
