(* ===== verification/Duck_Types.thy ===== *)
theory Duck_Types
  imports Lance_Prelude
begin

text \<open>
  The host database's objects as the extension inspects them.  DuckDB itself is not part of
  the repository: its types are described only through the members the extension reads
  (\<open>type().id()\<close>, \<open>IsNull()\<close>, \<open>children\<close>, \<open>column_ids\<close>, ...), and every DuckDB \<^emph>\<open>function\<close>
  the extension calls is a field of the record \<open>duckdb\<close>, which the modelled operations take as
  an argument.  What the proofs need of those functions is stated as named hypotheses over
  the record.  A \<open>unique_ptr\<close> that the code tests or dereferences is an \<open>option\<close>.
\<close>

section \<open>Exceptions\<close>

text \<open>
  The exception classes the extension throws, with the message; \<open>NullPointer\<close> is the
  internal error of dereferencing an empty DuckDB \<open>unique_ptr\<close>, \<open>OutOfRange\<close> the overflow
  error of \<open>hugeint_t\<close> arithmetic, \<open>CastError\<close> a failing \<open>Value::DefaultCastAs\<close>.
\<close>

datatype exn =
    NotImplementedException string
  | InvalidInputException string
  | InternalException string
  | IOException string
  | BinderException string
  | SerializationException string
  | NullPointer
  | OutOfRange
  | CastError


text \<open>Dereferencing a \<open>unique_ptr\<close>.\<close>

fun deref :: "'a option \<Rightarrow> exn + 'a" where
  "deref None = Inl NullPointer"
| "deref (Some x) = Inr x"

lemma deref_Inr_iff [simp]: "deref p = Inr x \<longleftrightarrow> p = Some x"
  by (cases p) auto

fun deref_try :: "'a option \<Rightarrow> (exn, 'a) outcome" where
  "deref_try None = Raised NullPointer"
| "deref_try (Some x) = Done x"

lemma deref_try_Done_iff [simp]: "deref_try p = Done x \<longleftrightarrow> p = Some x"
  by (cases p) auto


section \<open>Types and values\<close>

datatype LogicalTypeId =
    BOOLEAN | TINYINT | SMALLINT | INTEGER | BIGINT
  | UTINYINT | USMALLINT | UINTEGER | UBIGINT
  | FLOAT | DOUBLE | VARCHAR | DATE
  | TIMESTAMP | TIMESTAMP_SEC | TIMESTAMP_MS | TIMESTAMP_NS | TIMESTAMP_TZ
  | DECIMAL | STRUCT | OTHER_TYPE_ID nat

text \<open>
  A logical type: \<open>DECIMAL\<close> carries width and scale, \<open>STRUCT\<close> its named children, every other
  type is its id.
\<close>

datatype LogicalType =
    SimpleType LogicalTypeId
  | DecimalType byte byte
  | StructType "(string \<times> LogicalType) list"

fun type_id :: "LogicalType \<Rightarrow> LogicalTypeId" where
  "type_id (SimpleType i) = i"
| "type_id (DecimalType w s) = DECIMAL"
| "type_id (StructType fs) = STRUCT"

datatype PhysicalType = INT16 | INT32 | INT64 | INT128 | OTHER_PHYSICAL

text \<open>
  A \<open>Value\<close>: NULL of some type, or the payload the type's \<open>GetValue\<close> returns.  Integers are
  at the width of their type, floating-point payloads are their IEEE bit patterns (the code
  only ever copies them), dates and timestamps their counts, decimals the unscaled integer.
\<close>

datatype Value =
    NullValue LogicalType
  | BooleanValue bool
  | TinyIntValue "8 word"
  | SmallIntValue "16 word"
  | IntegerValue "32 word"
  | BigIntValue "64 word"
  | UTinyIntValue "8 word"
  | USmallIntValue "16 word"
  | UIntegerValue "32 word"
  | UBigIntValue "64 word"
  | FloatValue "32 word"
  | DoubleValue "64 word"
  | VarcharValue string
  | DateValue "32 word"
  | TimestampValue "64 word"
  | TimestampSecValue "64 word"
  | TimestampMsValue "64 word"
  | TimestampNsValue "64 word"
  | TimestampTzValue "64 word"
  | DecimalValue byte byte i128
  | OtherValue LogicalType

fun value_type :: "Value \<Rightarrow> LogicalType" where
  "value_type (NullValue t) = t"
| "value_type (BooleanValue b) = SimpleType BOOLEAN"
| "value_type (TinyIntValue v) = SimpleType TINYINT"
| "value_type (SmallIntValue v) = SimpleType SMALLINT"
| "value_type (IntegerValue v) = SimpleType INTEGER"
| "value_type (BigIntValue v) = SimpleType BIGINT"
| "value_type (UTinyIntValue v) = SimpleType UTINYINT"
| "value_type (USmallIntValue v) = SimpleType USMALLINT"
| "value_type (UIntegerValue v) = SimpleType UINTEGER"
| "value_type (UBigIntValue v) = SimpleType UBIGINT"
| "value_type (FloatValue v) = SimpleType FLOAT"
| "value_type (DoubleValue v) = SimpleType DOUBLE"
| "value_type (VarcharValue s) = SimpleType VARCHAR"
| "value_type (DateValue d) = SimpleType DATE"
| "value_type (TimestampValue v) = SimpleType TIMESTAMP"
| "value_type (TimestampSecValue v) = SimpleType TIMESTAMP_SEC"
| "value_type (TimestampMsValue v) = SimpleType TIMESTAMP_MS"
| "value_type (TimestampNsValue v) = SimpleType TIMESTAMP_NS"
| "value_type (TimestampTzValue v) = SimpleType TIMESTAMP_TZ"
| "value_type (DecimalValue w s v) = DecimalType w s"
| "value_type (OtherValue t) = t"

fun is_null :: "Value \<Rightarrow> bool" where
  "is_null (NullValue t) = True"
| "is_null v = False"


section \<open>Expressions\<close>

datatype ExpressionType =
    COMPARE_EQUAL | COMPARE_NOTEQUAL
  | COMPARE_LESSTHAN | COMPARE_LESSTHANOREQUALTO
  | COMPARE_GREATERTHAN | COMPARE_GREATERTHANOREQUALTO
  | COMPARE_DISTINCT_FROM | COMPARE_NOT_DISTINCT_FROM
  | COMPARE_IN | COMPARE_NOT_IN
  | CONJUNCTION_AND | CONJUNCTION_OR
  | OPERATOR_NOT | OPERATOR_IS_NULL | OPERATOR_IS_NOT_NULL
  | OTHER_EXPRESSION_TYPE nat

record ColumnBinding =
  table_index :: nat
  column_index :: nat

text \<open>
  Bound expressions, one constructor per expression class.  The first field of the classes
  that need it is \<open>return_type\<close>; the aggregate carries \<open>IsDistinct()\<close> and whether \<open>filter\<close> and
  \<open>order_bys\<close> are set; BETWEEN carries its two comparison types.
\<close>

datatype Expression =
    BoundColumnRef LogicalType ColumnBinding nat
  | BoundRef LogicalType string nat
  | BoundConstant Value
  | BoundCast LogicalType bool "Expression option"
  | BoundFunction LogicalType string "Expression option list"
  | BoundOperator LogicalType ExpressionType "Expression option list"
  | BoundComparison ExpressionType "Expression option" "Expression option"
  | BoundConjunction ExpressionType "Expression option list"
  | BoundCase LogicalType "(Expression option \<times> Expression option) list" "Expression option"
  | BoundBetween "Expression option" "Expression option" "Expression option"
      ExpressionType ExpressionType
  | BoundAggregate LogicalType string "Expression option list" bool bool bool
  | OtherExpression LogicalType nat

lemma size_Some_child:
  "Some e \<in> set cs \<Longrightarrow> size e < Suc (size_list (size_option size) cs)"
  by (induction cs) auto

lemma size_Some_pair_child:
  "(Some a, b) \<in> set cs \<Longrightarrow>
     size a < Suc (size_list (size_prod (size_option size) (size_option size)) cs)"
  "(b, Some a) \<in> set cs \<Longrightarrow>
     size a < Suc (size_list (size_prod (size_option size) (size_option size)) cs)"
  by (induction cs) auto

fun return_type :: "Expression \<Rightarrow> LogicalType" where
  "return_type (BoundColumnRef t b d) = t"
| "return_type (BoundRef t a i) = t"
| "return_type (BoundConstant v) = value_type v"
| "return_type (BoundCast t tc c) = t"
| "return_type (BoundFunction t n cs) = t"
| "return_type (BoundOperator t k cs) = t"
| "return_type (BoundComparison k l r) = SimpleType BOOLEAN"
| "return_type (BoundConjunction k cs) = SimpleType BOOLEAN"
| "return_type (BoundCase t cs e) = t"
| "return_type (BoundBetween i l u lo up) = SimpleType BOOLEAN"
| "return_type (BoundAggregate t n cs d f ob) = t"
| "return_type (OtherExpression t k) = t"


section \<open>Scans, filters and plan operators\<close>

text \<open>A projected column: its primary index, \<open>IsVirtualColumn()\<close>, and the child indexes.\<close>

datatype ColumnIndex = ColumnIndex nat bool "ColumnIndex list"

fun GetPrimaryIndex :: "ColumnIndex \<Rightarrow> nat" where
  "GetPrimaryIndex (ColumnIndex i v cs) = i"

fun IsVirtualColumn :: "ColumnIndex \<Rightarrow> bool" where
  "IsVirtualColumn (ColumnIndex i v cs) = v"

fun GetChildIndexes :: "ColumnIndex \<Rightarrow> ColumnIndex list" where
  "GetChildIndexes (ColumnIndex i v cs) = cs"

datatype TableFilter =
    OptionalFilter "TableFilter option"
  | ConstantFilter ExpressionType Value
  | IsNullFilter
  | IsNotNullFilter
  | InFilter "Value list"
  | ConjunctionAndFilter "TableFilter option list"
  | ConjunctionOrFilter "TableFilter option list"
  | ExpressionFilter "Expression option"
  | OtherFilter nat

text \<open>\<open>TableFilterSet::filters\<close>, an ordered map from column to filter, in iteration order.\<close>

type_synonym TableFilterSet = "(nat \<times> TableFilter option) list"

record LogicalGet =
  get_table_index :: nat
  get_column_ids :: "ColumnIndex list"
  table_filters :: TableFilterSet

text \<open>The members of \<open>LanceScanBindData\<close> the encoders read.\<close>

record LanceScanBindData =
  names :: "string list"
  types :: "LogicalType list"

datatype LogicalOperator =
    LogicalFilterOp "LogicalOperator option list"
  | LogicalProjectionOp nat "Expression option list" "LogicalOperator option list"
  | LogicalGetOp
  | OtherOperator nat "LogicalOperator option list"


text \<open>The members of \<open>TableFunctionInitInput\<close> that describe what a scan is asked for.\<close>

record TableFunctionInitInput =
  column_ids :: "nat list"
  filters :: "TableFilterSet option"


section \<open>Functions of the host\<close>

record duckdb =
  StringLower :: "string \<Rightarrow> string"
  CIEquals :: "string \<Rightarrow> string \<Rightarrow> bool"
  DefaultCastAs :: "Value \<Rightarrow> LogicalType \<Rightarrow> Value option"
  DecimalToString :: "Value \<Rightarrow> string"
  DateIsFinite :: "32 word \<Rightarrow> bool"
  TimestampIsFinite :: "64 word \<Rightarrow> bool"
  HugeMul :: "i128 \<Rightarrow> i128 \<Rightarrow> i128 option"
  HugeAdd :: "i128 \<Rightarrow> i128 \<Rightarrow> i128 option"
  HugeNeg :: "i128 \<Rightarrow> i128 option"
  InternalType :: "LogicalType \<Rightarrow> PhysicalType"
  ExpressionTypeToOperator :: "ExpressionType \<Rightarrow> string"
  GetName :: "Expression \<Rightarrow> string"
  HasParameter :: "Expression \<Rightarrow> bool"
  IsVolatile :: "Expression \<Rightarrow> bool"
  CanThrow :: "Expression \<Rightarrow> bool"
  COLUMN_IDENTIFIER_ROW_ID :: nat
  COLUMN_IDENTIFIER_EMPTY :: nat

text \<open>
  \<open>hugeint_t\<close> arithmetic: the exact result when it fits 128 signed bits; beyond that, an
  \<open>OutOfRangeException\<close> or the low 128 bits, depending on the operator's overload.
\<close>

definition in_i128 :: "int \<Rightarrow> bool" where
  "in_i128 n \<longleftrightarrow> - (2 ^ 127) \<le> n \<and> n < 2 ^ 127"

definition hugeint_exact :: "duckdb \<Rightarrow> bool" where
  "hugeint_exact db \<longleftrightarrow>
     (\<forall>a b. HugeMul db a b = Some (a * b) \<or> (\<not> in_i128 (sint a * sint b) \<and> HugeMul db a b = None)) \<and>
     (\<forall>a b. HugeAdd db a b = Some (a + b) \<or> (\<not> in_i128 (sint a + sint b) \<and> HugeAdd db a b = None)) \<and>
     (\<forall>a. HugeNeg db a = Some (- a) \<or> (\<not> in_i128 (- sint a) \<and> HugeNeg db a = None))"

text \<open>
  A text that spells the number \<open>n / 10 ^ s\<close>: a sign, an integer part, and a fractional part of at
  most \<open>s\<close> digits.  \<open>Value::ToString\<close> of a decimal prints such a text.
\<close>

definition decimal_spells :: "string \<Rightarrow> nat \<Rightarrow> int \<Rightarrow> bool" where
  "decimal_spells str s n \<longleftrightarrow>
     (\<exists>neg ip fp dot.
        str = (if neg then ''-'' else []) @ ip @ (if dot then ''.'' else []) @ fp \<and>
        list_all is_digit ip \<and> list_all is_digit fp \<and> (\<not> dot \<longrightarrow> fp = []) \<and> length fp \<le> s \<and>
        n = (if neg then -1 else 1) * int (string_to_nat (ip @ fp) * 10 ^ (s - length fp)))"

definition decimals_print :: "duckdb \<Rightarrow> bool" where
  "decimals_print db \<longleftrightarrow>
     (\<forall>w s v. decimal_spells (DecimalToString db (DecimalValue w s v)) (unat s) (sint v))"

lemma in_i128_sint: "in_i128 (sint (w :: i128))"
  using sint_ge [of w] sint_lt [of w] by (simp add: in_i128_def)

lemma sint_eq_in_i128: "in_i128 n \<Longrightarrow> sint (word_of_int n :: i128) = n"
  by (simp add: in_i128_def sint_sbintrunc' signed_take_bit_int_eq_self)

text \<open>
  \<open>StringUtil::Lower\<close> and \<open>StringUtil::CIEquals\<close> fold the case of the ASCII letters and of nothing
  else.
\<close>

definition ascii_lower :: "char \<Rightarrow> char" where
  "ascii_lower c =
     (if 65 \<le> (of_char c :: nat) \<and> (of_char c :: nat) \<le> 90 then char_of ((of_char c :: nat) + 32) else c)"

definition string_util :: "duckdb \<Rightarrow> bool" where
  "string_util db \<longleftrightarrow>
     (\<forall>s. StringLower db s = map ascii_lower s) \<and>
     (\<forall>a b. CIEquals db a b \<longleftrightarrow> map ascii_lower a = map ascii_lower b)"

lemma string_util_simps:
  "string_util db \<Longrightarrow> StringLower db s = map ascii_lower s"
  "string_util db \<Longrightarrow> CIEquals db a b \<longleftrightarrow> map ascii_lower a = map ascii_lower b"
  by (simp_all add: string_util_def)

lemma ascii_lower_idem [simp]: "ascii_lower (ascii_lower c) = ascii_lower c"
  by (simp add: ascii_lower_def)

end
