(* ===== verification/Exec_IR.thy ===== *)
theory Exec_IR
  imports Duck_Types
begin

text \<open>
  Aggregation pushdown (\<open>src/lance_exec_ir.cpp\<close>): a subtree scan, filter, projections, aggregate,
  order is described by one message with the magic \<open>LEX1\<close>.  Functions append to a buffer and
  collect the columns they read; they return \<open>false\<close> when something cannot be expressed, unless
  the environment variable \<open>LANCE_EXEC_PUSHDOWN_FAILFAST\<close> asks for an exception instead: that is
  the argument \<open>ff\<close> of the model.  The buffer and the set of column ids are passed explicitly;
  after \<open>false\<close> or an exception the caller discards them.
\<close>

section \<open>Plan operators\<close>

record LogicalAggregate =
  grouping_functions :: "nat list list"
  grouping_sets :: "nat list list"
  groups :: "Expression option list"
  expressions :: "Expression option list"
  agg_children :: "LogicalOperator option list"
  group_index :: nat
  aggregate_index :: nat

datatype OrderType = ASCENDING | DESCENDING | ORDER_DEFAULT

datatype OrderByNullType = NULLS_FIRST | NULLS_LAST | NULLS_DEFAULT

record BoundOrderByNode =
  order_type :: OrderType
  null_order :: OrderByNullType
  order_expression :: "Expression option"

record LogicalProjection =
  projection_table_index :: nat
  projection_expressions :: "Expression option list"
  projection_children :: "LogicalOperator option list"

text \<open>The \<open>return false\<close> that the fail-fast variable turns into an exception.\<close>

definition give_up :: "bool \<Rightarrow> string \<Rightarrow> (exn, 'a) outcome" where
  "give_up ff msg = (if ff then Raised (IOException msg) else Refused)"

lemma give_up_not_Done [simp]: "give_up ff msg \<noteq> Done x"
  by (simp add: give_up_def)


section \<open>Writing\<close>

definition WriteU8 :: "bytes \<Rightarrow> byte \<Rightarrow> bytes" where
  "WriteU8 out v = out @ [v]"

definition WriteU32 :: "bytes \<Rightarrow> u32 \<Rightarrow> bytes" where
  "WriteU32 out v = out @ map (\<lambda>i. ucast (drop_bit (i * 8) v AND 0xFF)) [0..<4]"

definition WriteI64 :: "bytes \<Rightarrow> u64 \<Rightarrow> bytes" where
  "WriteI64 out v = out @ map (\<lambda>i. ucast (drop_bit (i * 8) v AND 0xFF)) [0..<8]"

definition WriteF64 :: "bytes \<Rightarrow> u64 \<Rightarrow> bytes" where
  "WriteF64 out bits = out @ map (\<lambda>i. ucast (drop_bit (i * 8) bits AND 0xFF)) [0..<8]"

definition WriteBytes :: "bytes \<Rightarrow> bytes \<Rightarrow> bytes" where
  "WriteBytes out bs = out @ bs"

definition WriteHugeint :: "bytes \<Rightarrow> i128 \<Rightarrow> bytes" where
  "WriteHugeint out v =
     (let lower = (ucast v :: u64); upper = (ucast (drop_bit 64 v) :: u64) in
      out @ map (\<lambda>i. ucast (drop_bit (i * 8) lower AND 0xFF)) [0..<8]
          @ map (\<lambda>i. ucast (drop_bit (i * 8) upper AND 0xFF)) [0..<8])"

definition WriteString :: "bytes \<Rightarrow> string \<Rightarrow> (exn, bytes) outcome" where
  "WriteString out s =
     (if length (string_bytes s) > u32_max
      then Raised (InvalidInputException ''ExecIR string too large'')
      else Done (WriteBytes (WriteU32 out (word_of_nat (length (string_bytes s)))) (string_bytes s)))"

datatype ExecIrAggFunc = Agg_SUM | Agg_COUNT | Agg_COUNT_STAR | Agg_MIN | Agg_MAX | Agg_AVG

primrec agg_func_code :: "ExecIrAggFunc \<Rightarrow> byte" where
  "agg_func_code Agg_SUM = 1"
| "agg_func_code Agg_COUNT = 2"
| "agg_func_code Agg_COUNT_STAR = 3"
| "agg_func_code Agg_MIN = 4"
| "agg_func_code Agg_MAX = 5"
| "agg_func_code Agg_AVG = 6"

datatype ExecIrExprTag = Exec_COLUMN_REF | Exec_LITERAL | Exec_BINARY | Exec_CAST

primrec exec_tag_code :: "ExecIrExprTag \<Rightarrow> byte" where
  "exec_tag_code Exec_COLUMN_REF = 1"
| "exec_tag_code Exec_LITERAL = 2"
| "exec_tag_code Exec_BINARY = 3"
| "exec_tag_code Exec_CAST = 4"

datatype ExecIrLiteralTag =
  ExecLit_NULL | ExecLit_INT64 | ExecLit_DOUBLE | ExecLit_BOOL | ExecLit_STRING | ExecLit_DECIMAL128

primrec exec_literal_code :: "ExecIrLiteralTag \<Rightarrow> byte" where
  "exec_literal_code ExecLit_NULL = 0"
| "exec_literal_code ExecLit_INT64 = 1"
| "exec_literal_code ExecLit_DOUBLE = 2"
| "exec_literal_code ExecLit_BOOL = 3"
| "exec_literal_code ExecLit_STRING = 4"
| "exec_literal_code ExecLit_DECIMAL128 = 5"

datatype ExecIrBinaryOp = Exec_ADD | Exec_SUB | Exec_MUL | Exec_DIV

primrec exec_binary_code :: "ExecIrBinaryOp \<Rightarrow> byte" where
  "exec_binary_code Exec_ADD = 1"
| "exec_binary_code Exec_SUB = 2"
| "exec_binary_code Exec_MUL = 3"
| "exec_binary_code Exec_DIV = 4"

datatype ExecIrOutputTypeTag =
    Out_BOOL | Out_INT64 | Out_DOUBLE | Out_DATE | Out_TIMESTAMP_US | Out_VARCHAR | Out_DECIMAL

primrec output_type_code :: "ExecIrOutputTypeTag \<Rightarrow> byte" where
  "output_type_code Out_BOOL = 1"
| "output_type_code Out_INT64 = 2"
| "output_type_code Out_DOUBLE = 3"
| "output_type_code Out_DATE = 4"
| "output_type_code Out_TIMESTAMP_US = 5"
| "output_type_code Out_VARCHAR = 6"
| "output_type_code Out_DECIMAL = 7"

text \<open>Width and scale are \<open>uint8_t\<close>, so the source's range checks on them never fail.\<close>

fun TryEncodeOutputTypeHint :: "LogicalType \<Rightarrow> (exn, bytes) outcome" where
  "TryEncodeOutputTypeHint (SimpleType BOOLEAN) = Done (WriteU8 [] (output_type_code Out_BOOL))"
| "TryEncodeOutputTypeHint (SimpleType BIGINT) = Done (WriteU8 [] (output_type_code Out_INT64))"
| "TryEncodeOutputTypeHint (SimpleType DOUBLE) = Done (WriteU8 [] (output_type_code Out_DOUBLE))"
| "TryEncodeOutputTypeHint (SimpleType DATE) = Done (WriteU8 [] (output_type_code Out_DATE))"
| "TryEncodeOutputTypeHint (SimpleType TIMESTAMP) =
     Done (WriteU8 [] (output_type_code Out_TIMESTAMP_US))"
| "TryEncodeOutputTypeHint (SimpleType VARCHAR) = Done (WriteU8 [] (output_type_code Out_VARCHAR))"
| "TryEncodeOutputTypeHint (DecimalType width scale_u8) =
     Done (WriteU8 (WriteU8 (WriteU8 [] (output_type_code Out_DECIMAL)) width) scale_u8)"
| "TryEncodeOutputTypeHint t = Refused"

definition TryMapAggFunc :: "duckdb \<Rightarrow> string \<Rightarrow> Expression option list \<Rightarrow> ExecIrAggFunc option" where
  "TryMapAggFunc db fname children =
     (let name = StringLower db fname in
      if name = ''sum'' then Some Agg_SUM
      else if name = ''count_star'' then Some Agg_COUNT_STAR
      else if name = ''count'' then
        (if children = [] then Some Agg_COUNT_STAR
         else if length children = 1 then Some Agg_COUNT else None)
      else if name = ''min'' then Some Agg_MIN
      else if name = ''max'' then Some Agg_MAX
      else if name = ''avg'' \<or> name = ''average'' then Some Agg_AVG
      else None)"

definition TryMapBinaryOp :: "duckdb \<Rightarrow> string \<Rightarrow> Expression option list \<Rightarrow> ExecIrBinaryOp option" where
  "TryMapBinaryOp db fname children =
     (if length children \<noteq> 2 then None
      else let name = StringLower db fname in
        if name = ''+'' \<or> name = ''add'' then Some Exec_ADD
        else if name = ''-'' \<or> name = ''subtract'' then Some Exec_SUB
        else if name = ''*'' \<or> name = ''multiply'' then Some Exec_MUL
        else if name = ''/'' \<or> name = ''divide'' then Some Exec_DIV
        else None)"


section \<open>Literals\<close>

text \<open>
  \<open>v.DefaultCastAs(BIGINT).GetValue<int64_t>()\<close>, not inside a \<open>try\<close>: a failing cast leaves the
  encoder with an exception.
\<close>

definition cast_int64 :: "duckdb \<Rightarrow> Value \<Rightarrow> (exn, u64) outcome" where
  "cast_int64 db v = (case DefaultCastAs db v (SimpleType BIGINT) of
     Some (BigIntValue w) \<Rightarrow> Done w | _ \<Rightarrow> Raised CastError)"

definition cast_double :: "duckdb \<Rightarrow> Value \<Rightarrow> (exn, u64) outcome" where
  "cast_double db v = (case DefaultCastAs db v (SimpleType DOUBLE) of
     Some (DoubleValue w) \<Rightarrow> Done w | _ \<Rightarrow> Raised CastError)"

text \<open>The unscaled integer of a decimal, read at the width of its physical type.\<close>

definition decimal_payload :: "duckdb \<Rightarrow> LogicalType \<Rightarrow> i128 \<Rightarrow> (exn, i128) outcome" where
  "decimal_payload db t v =
     (case InternalType db t of
        INT16 \<Rightarrow> Done (scast (ucast v :: 16 word))
      | INT32 \<Rightarrow> Done (scast (ucast v :: 32 word))
      | INT64 \<Rightarrow> Done (scast (ucast v :: 64 word))
      | INT128 \<Rightarrow> Done v
      | OTHER_PHYSICAL \<Rightarrow> Refused)"

definition literal_start :: "bytes \<Rightarrow> ExecIrLiteralTag \<Rightarrow> bytes" where
  "literal_start out t = WriteU8 (WriteU8 out (exec_tag_code Exec_LITERAL)) (exec_literal_code t)"

definition write_int64 :: "duckdb \<Rightarrow> Value \<Rightarrow> bytes \<Rightarrow> (exn, bytes) outcome" where
  "write_int64 db v out =
     try_bind (cast_int64 db v) (\<lambda>i64. Done (WriteI64 (literal_start out ExecLit_INT64) i64))"

definition write_double :: "duckdb \<Rightarrow> Value \<Rightarrow> bytes \<Rightarrow> (exn, bytes) outcome" where
  "write_double db v out =
     try_bind (cast_double db v) (\<lambda>f64. Done (WriteF64 (literal_start out ExecLit_DOUBLE) f64))"

fun TryEncodeLiteral :: "duckdb \<Rightarrow> Value \<Rightarrow> bytes \<Rightarrow> (exn, bytes) outcome" where
  "TryEncodeLiteral db (NullValue t) out = Done (literal_start out ExecLit_NULL)"
| "TryEncodeLiteral db (BigIntValue v) out = write_int64 db (BigIntValue v) out"
| "TryEncodeLiteral db (IntegerValue v) out = write_int64 db (IntegerValue v) out"
| "TryEncodeLiteral db (SmallIntValue v) out = write_int64 db (SmallIntValue v) out"
| "TryEncodeLiteral db (TinyIntValue v) out = write_int64 db (TinyIntValue v) out"
| "TryEncodeLiteral db (UBigIntValue v) out = write_int64 db (UBigIntValue v) out"
| "TryEncodeLiteral db (UIntegerValue v) out = write_int64 db (UIntegerValue v) out"
| "TryEncodeLiteral db (USmallIntValue v) out = write_int64 db (USmallIntValue v) out"
| "TryEncodeLiteral db (UTinyIntValue v) out = write_int64 db (UTinyIntValue v) out"
| "TryEncodeLiteral db (DoubleValue v) out = write_double db (DoubleValue v) out"
| "TryEncodeLiteral db (FloatValue v) out = write_double db (FloatValue v) out"
| "TryEncodeLiteral db (BooleanValue b) out =
     Done (WriteU8 (literal_start out ExecLit_BOOL) (if b then 1 else 0))"
| "TryEncodeLiteral db (VarcharValue s) out = WriteString (literal_start out ExecLit_STRING) s"
| "TryEncodeLiteral db (DecimalValue width scale_u8 v) out =
     try_bind (decimal_payload db (DecimalType width scale_u8) v) (\<lambda>dec.
     Done (WriteHugeint
       (WriteU8 (WriteU8 (literal_start out ExecLit_DECIMAL128) width) scale_u8) dec))"
| "TryEncodeLiteral db v out = Refused"


section \<open>Which expressions may be pushed\<close>

definition IsExecIrSafeCast :: "LogicalType \<Rightarrow> LogicalType \<Rightarrow> bool" where
  "IsExecIrSafeCast from_type to_type =
     (if from_type = to_type then True
      else if type_id from_type = TIMESTAMP \<and> type_id to_type = DATE then True
      else if type_id from_type = DATE \<and> type_id to_type = TIMESTAMP then True
      else case (from_type, to_type) of
        (DecimalType from_width fs, DecimalType to_width ts) \<Rightarrow> to_width \<ge> from_width
      | _ \<Rightarrow>
          (type_id to_type = BIGINT \<and> type_id from_type \<in> {TINYINT, SMALLINT, INTEGER, BIGINT}) \<or>
          (type_id to_type = DOUBLE \<and>
             type_id from_type \<in> {TINYINT, SMALLINT, INTEGER, BIGINT, FLOAT, DOUBLE}))"

function (sequential) IsExecIrPushdownableExpr :: "duckdb \<Rightarrow> Expression \<Rightarrow> bool" where
  "IsExecIrPushdownableExpr db expr =
     (if HasParameter db expr \<or> IsVolatile db expr then False
      else if \<not> CanThrow db expr then True
      else case expr of
        BoundCast t try_cast (Some child) \<Rightarrow>
          IsExecIrSafeCast (return_type child) t \<and> IsExecIrPushdownableExpr db child
      | _ \<Rightarrow> False)"
  by pat_completeness auto
termination
  by (relation "measure (\<lambda>(db, e). size e)") auto

declare IsExecIrPushdownableExpr.simps [simp del]


section \<open>Expressions\<close>

text \<open>
  The state threaded through the expression encoder: the buffer and the set of columns read,
  kept as a list without duplicates.
\<close>

record exec_state =
  out :: bytes
  out_col_idxs :: "nat list"

definition write_scan_column ::
  "LogicalGet \<Rightarrow> LanceScanBindData \<Rightarrow> nat \<Rightarrow> exec_state \<Rightarrow> (exn, exec_state) outcome" where
  "write_scan_column g b i st =
     (let ids = get_column_ids g in
     if i \<ge> length ids then Refused
     else if IsVirtualColumn (ids ! i) then Refused
     else let col_id = GetPrimaryIndex (ids ! i) in
       if col_id \<ge> length (names b) then Refused
       else let name = names b ! col_id in
         if name = [] then Refused
         else try_bind (WriteString (WriteU8 (out st) (exec_tag_code Exec_COLUMN_REF)) name)
           (\<lambda>buf. Done \<lparr>out = buf, out_col_idxs = List.insert col_id (out_col_idxs st)\<rparr>))"

definition write_literal :: "duckdb \<Rightarrow> Value \<Rightarrow> exec_state \<Rightarrow> (exn, exec_state) outcome" where
  "write_literal db v st =
     try_bind (TryEncodeLiteral db v (out st)) (\<lambda>buf. Done (st\<lparr>out := buf\<rparr>))"

text \<open>A constant folded to the given type, inside \<open>try\<close>.\<close>

definition write_cast_literal ::
  "duckdb \<Rightarrow> LogicalType \<Rightarrow> Value \<Rightarrow> exec_state \<Rightarrow> (exn, exec_state) outcome" where
  "write_cast_literal db t v st =
     try_bind (of_option (DefaultCastAs db v t)) (\<lambda>w. write_literal db w st)"

definition is_decimal :: "Expression option \<Rightarrow> bool" where
  "is_decimal p = (case p of Some e \<Rightarrow> type_id (return_type e) = DECIMAL | None \<Rightarrow> False)"

text \<open>The decimal type constant operands are cast to: an operand's, otherwise the result's.\<close>

definition decimal_type ::
  "Expression option \<Rightarrow> Expression option \<Rightarrow> LogicalType \<Rightarrow> LogicalType option" where
  "decimal_type l r t =
     (if is_decimal l then Some (return_type (the l))
      else if is_decimal r then Some (return_type (the r))
      else if type_id t = DECIMAL then Some t
      else None)"

definition binary_start :: "ExecIrBinaryOp \<Rightarrow> exec_state \<Rightarrow> exec_state" where
  "binary_start op st =
     st\<lparr>out := WriteU8 (WriteU8 (out st) (exec_tag_code Exec_BINARY)) (exec_binary_code op)\<rparr>"

definition operator_of :: "string \<Rightarrow> ExecIrBinaryOp option" where
  "operator_of op_str =
     (if op_str = ''+'' then Some Exec_ADD else if op_str = ''-'' then Some Exec_SUB
      else if op_str = ''*'' then Some Exec_MUL else if op_str = ''/'' then Some Exec_DIV else None)"

text \<open>The value of a \<open>BOUND_CONSTANT\<close> expression.\<close>

fun constant_of :: "Expression \<Rightarrow> Value option" where
  "constant_of (BoundConstant v) = Some v"
| "constant_of e = None"

text \<open>
  \<open>encode_child\<close>: a missing operand is refused; a constant operand of a decimal operation is cast
  to the decimal type and written as a literal; anything else is encoded recursively.
\<close>

definition operand ::
  "duckdb \<Rightarrow> LogicalType option \<Rightarrow> Expression option \<Rightarrow> (exn, Value + Expression) outcome" where
  "operand db dt child =
     (case child of
        None \<Rightarrow> Refused
      | Some e \<Rightarrow>
          (case (dt, constant_of e) of
             (Some t, Some v) \<Rightarrow> try_bind (of_option (DefaultCastAs db v t)) (\<lambda>w. Done (Inl w))
           | _ \<Rightarrow> Done (Inr e)))"

lemma operand_expression: "operand db dt child = Done (Inr e) \<Longrightarrow> child = Some e"
  by (auto simp: operand_def try_bind_Done_iff split: option.splits)

text \<open>
  The projection stack lists the projections above the scan, outermost first; a reference that is
  not to the scan is expanded through the projection at the current offset.  The pointer test that
  a projected expression is not the expression itself holds for distinct projections and is left
  out.
\<close>

function (sequential) TryEncodeExecExpr ::
  "duckdb \<Rightarrow> LogicalGet \<Rightarrow> LanceScanBindData \<Rightarrow> Expression option list list \<Rightarrow> nat \<Rightarrow> Expression
     \<Rightarrow> exec_state \<Rightarrow> (exn, exec_state) outcome" where
  "TryEncodeExecExpr db g b stack offset (BoundColumnRef t binding depth) st =
     (if table_index binding \<noteq> get_table_index g then
        (if offset < length stack \<and> column_index binding < length (stack ! offset) then
           (case stack ! offset ! column_index binding of
              Some e \<Rightarrow> TryEncodeExecExpr db g b stack (offset + 1) e st
            | None \<Rightarrow> Refused)
         else Refused)
      else write_scan_column g b (column_index binding) st)"
| "TryEncodeExecExpr db g b stack offset (BoundConstant v) st = write_literal db v st"
| "TryEncodeExecExpr db g b stack offset (BoundCast t try_cast child) st =
     (case child of
        None \<Rightarrow> Refused
      | Some c \<Rightarrow>
          (case constant_of c of
             Some v \<Rightarrow> write_cast_literal db t v st
           | None \<Rightarrow>
               try_bind (TryEncodeOutputTypeHint t) (\<lambda>type_hint.
                 TryEncodeExecExpr db g b stack offset c
                   (st\<lparr>out := WriteBytes (WriteU8 (out st) (exec_tag_code Exec_CAST)) type_hint\<rparr>))))"
| "TryEncodeExecExpr db g b stack offset (BoundRef t nm i) st =
     (if offset < length stack \<and> i < length (stack ! offset) \<and> stack ! offset ! i \<noteq> None
      then TryEncodeExecExpr db g b stack (offset + 1) (the (stack ! offset ! i)) st
      else write_scan_column g b i st)"
| "TryEncodeExecExpr db g b stack offset (BoundFunction t fname children) st =
     (case TryMapBinaryOp db fname children of
        None \<Rightarrow> Refused
      | Some bop \<Rightarrow>
          (case children of
             [l, r] \<Rightarrow>
               try_bind
                 (try_bind (operand db (decimal_type l r t) l) (\<lambda>x. case x of
                      Inl w \<Rightarrow> write_literal db w (binary_start bop st)
                    | Inr e \<Rightarrow> TryEncodeExecExpr db g b stack offset e (binary_start bop st)))
                 (\<lambda>st. try_bind (operand db (decimal_type l r t) r) (\<lambda>x. case x of
                      Inl w \<Rightarrow> write_literal db w st
                    | Inr e \<Rightarrow> TryEncodeExecExpr db g b stack offset e st))
           | _ \<Rightarrow> Refused))"
| "TryEncodeExecExpr db g b stack offset (BoundOperator t k children) st =
     (case children of
        [Some l, Some r] \<Rightarrow>
          (case operator_of (ExpressionTypeToOperator db k) of
             None \<Rightarrow> Refused
           | Some bop \<Rightarrow>
               try_bind
                 (try_bind (operand db (decimal_type (Some l) (Some r) t) (Some l)) (\<lambda>x. case x of
                      Inl w \<Rightarrow> write_literal db w (binary_start bop st)
                    | Inr e \<Rightarrow> TryEncodeExecExpr db g b stack offset e (binary_start bop st)))
                 (\<lambda>st. try_bind (operand db (decimal_type (Some l) (Some r) t) (Some r)) (\<lambda>x. case x of
                      Inl w \<Rightarrow> write_literal db w st
                    | Inr e \<Rightarrow> TryEncodeExecExpr db g b stack offset e st)))
      | _ \<Rightarrow> Refused)"
| "TryEncodeExecExpr db g b stack offset e st = Refused"
  by pat_completeness auto
termination
  by (relation "measures [\<lambda>(db, g, b, stack, offset, e, st). length stack - offset,
        \<lambda>(db, g, b, stack, offset, e, st). size e]") (auto dest!: operand_expression)


section \<open>Groups and aggregates\<close>

record EncodedGroup =
  group_name :: string
  group_expr :: bytes
  group_type :: bytes

record EncodedAgg =
  agg_func :: ExecIrAggFunc
  agg_name :: string
  agg_args :: bytes
  agg_type :: bytes
  agg_count :: u32

text \<open>A grouping set must list all the groups.\<close>

definition check_grouping :: "bool \<Rightarrow> LogicalAggregate \<Rightarrow> (exn, unit) outcome" where
  "check_grouping ff agg =
     (if grouping_functions agg \<noteq> [] then give_up ff ''ExecIR grouping functions not supported''
      else case grouping_sets agg of
        [] \<Rightarrow> Done ()
      | [grouping_set] \<Rightarrow>
          if length grouping_set \<noteq> length (groups agg)
          then give_up ff ''ExecIR partial grouping set not supported''
          else if \<not> (\<forall>i \<in> set [0..<length (groups agg)]. i \<in> set grouping_set)
          then give_up ff ''ExecIR reordered grouping set not supported''
          else Done ()
      | _ \<Rightarrow> give_up ff ''ExecIR multiple grouping sets not supported'')"

function (sequential) is_supported_group_expr :: "Expression \<Rightarrow> bool" where
  "is_supported_group_expr (BoundColumnRef t binding depth) = True"
| "is_supported_group_expr (BoundRef t nm i) = True"
| "is_supported_group_expr (BoundCast t try_cast child) =
     (case child of None \<Rightarrow> False | Some c \<Rightarrow> is_supported_group_expr c)"
| "is_supported_group_expr e = False"
  by pat_completeness auto
termination
  by (relation "measure size") auto

definition empty_state :: exec_state where
  "empty_state = \<lparr>out = [], out_col_idxs = []\<rparr>"

definition encode_group ::
  "duckdb \<Rightarrow> bool \<Rightarrow> LogicalGet \<Rightarrow> LanceScanBindData \<Rightarrow> Expression option list list \<Rightarrow> Expression option
     \<Rightarrow> (exn, EncodedGroup \<times> nat list) outcome" where
  "encode_group db ff g b stack expr =
     (case expr of
        None \<Rightarrow> give_up ff ''ExecIR group expression is not pushdownable''
      | Some e \<Rightarrow>
          if \<not> IsExecIrPushdownableExpr db e
          then give_up ff ''ExecIR group expression is not pushdownable''
          else if \<not> is_supported_group_expr e
          then give_up ff ''ExecIR group expression not supported: %s''
          else case TryEncodeExecExpr db g b stack 0 e empty_state of
            Raised x \<Rightarrow> Raised x
          | Refused \<Rightarrow> give_up ff ''ExecIR group expr encode failed: %s''
          | Done st \<Rightarrow>
              (case TryEncodeOutputTypeHint (return_type e) of
                 Raised x \<Rightarrow> Raised x
               | Refused \<Rightarrow> give_up ff ''ExecIR group output type unsupported: %s''
               | Done type_hint \<Rightarrow>
                   Done (\<lparr>group_name = GetName db e, group_expr = out st, group_type = type_hint\<rparr>,
                     out_col_idxs st)))"

text \<open>
  The function of an aggregate expression and its argument, \<open>None\<close> for \<open>count(*)\<close>.  An
  aggregate may arrive as a bound aggregate or as a plain function.
\<close>

definition aggregate_argument ::
  "bool \<Rightarrow> ExecIrAggFunc \<Rightarrow> Expression option list
     \<Rightarrow> (exn, ExecIrAggFunc \<times> Expression option option) outcome" where
  "aggregate_argument ff func children =
     (if func = Agg_COUNT_STAR then
        (if children \<noteq> [] then give_up ff ''ExecIR count_star has args'' else Done (func, None))
      else case children of
        [arg] \<Rightarrow> Done (func, Some arg)
      | _ \<Rightarrow> give_up ff ''ExecIR aggregate arg count != 1'')"

definition function_agg :: "duckdb \<Rightarrow> string \<Rightarrow> Expression option list \<Rightarrow> ExecIrAggFunc option" where
  "function_agg db fname children =
     (let name = StringLower db fname in
      if name = ''sum'' then Some Agg_SUM
      else if name = ''count'' then Some (if children = [] then Agg_COUNT_STAR else Agg_COUNT)
      else if name = ''min'' then Some Agg_MIN
      else if name = ''max'' then Some Agg_MAX
      else if name = ''avg'' \<or> name = ''average'' then Some Agg_AVG
      else None)"

definition aggregate_call ::
  "duckdb \<Rightarrow> bool \<Rightarrow> Expression \<Rightarrow> (exn, ExecIrAggFunc \<times> Expression option option) outcome" where
  "aggregate_call db ff e =
     (case e of
        BoundAggregate t fname children is_distinct has_filter has_order_bys \<Rightarrow>
          if is_distinct \<or> has_filter \<or> has_order_bys
          then give_up ff ''ExecIR aggregate has DISTINCT/FILTER/ORDER BY''
          else (case TryMapAggFunc db fname children of
             None \<Rightarrow> give_up ff ''ExecIR unsupported aggregate: %s''
           | Some func \<Rightarrow> aggregate_argument ff func children)
      | BoundFunction t fname children \<Rightarrow>
          (case function_agg db fname children of
             None \<Rightarrow> give_up ff ''ExecIR unsupported aggregate function: %s''
           | Some func \<Rightarrow> aggregate_argument ff func children)
      | _ \<Rightarrow> give_up ff ''ExecIR unsupported aggregate expression class: %s'')"

definition encode_agg ::
  "duckdb \<Rightarrow> bool \<Rightarrow> LogicalGet \<Rightarrow> LanceScanBindData \<Rightarrow> Expression option list list \<Rightarrow> Expression option
     \<Rightarrow> (exn, EncodedAgg \<times> nat list) outcome" where
  "encode_agg db ff g b stack expr =
     (case expr of
        None \<Rightarrow> give_up ff ''ExecIR aggregate expression is null''
      | Some e \<Rightarrow> try_bind (aggregate_call db ff e) (\<lambda>(func, arg).
          case TryEncodeOutputTypeHint (return_type e) of
            Raised x \<Rightarrow> Raised x
          | Refused \<Rightarrow> give_up ff ''ExecIR aggregate output type unsupported: %s''
          | Done type_hint \<Rightarrow>
              (case arg of
                 None \<Rightarrow> Done (\<lparr>agg_func = func, agg_name = GetName db e, agg_args = [],
                   agg_type = type_hint, agg_count = 0\<rparr>, [])
               | Some None \<Rightarrow> Refused
               | Some (Some arg_expr) \<Rightarrow>
                   (case TryEncodeExecExpr db g b stack 0 arg_expr empty_state of
                      Raised x \<Rightarrow> Raised x
                    | Refused \<Rightarrow> give_up ff ''ExecIR aggregate arg encode failed: %s''
                    | Done st \<Rightarrow> Done (\<lparr>agg_func = func, agg_name = GetName db e, agg_args = out st,
                        agg_type = type_hint, agg_count = 1\<rparr>, out_col_idxs st)))))"

text \<open>The loops: each element is encoded and its columns are added to the set.\<close>

definition add_columns :: "nat list \<Rightarrow> nat list \<Rightarrow> nat list" where
  "add_columns new idxs = fold List.insert new idxs"

fun encode_all ::
  "('e \<Rightarrow> (exn, 'r \<times> nat list) outcome) \<Rightarrow> 'e list \<Rightarrow> nat list \<Rightarrow> (exn, 'r list \<times> nat list) outcome" where
  "encode_all f [] idxs = Done ([], idxs)"
| "encode_all f (e # es) idxs =
     try_bind (f e) (\<lambda>(r, new). try_bind (encode_all f es (add_columns new idxs))
       (\<lambda>(rs, idxs). Done (r # rs, idxs)))"

definition scan_projection_name :: "bool \<Rightarrow> LanceScanBindData \<Rightarrow> nat \<Rightarrow> (exn, string) outcome" where
  "scan_projection_name ff b idx =
     (if idx \<ge> length (names b) then give_up ff ''ExecIR scan projection index out of bounds: %d''
      else let name = names b ! idx in
        if name = [] then give_up ff ''ExecIR scan projection name is empty'' else Done name)"


section \<open>Renaming and ordering\<close>

text \<open>The expression under a chain of casts.\<close>

function (sequential) strip_casts :: "Expression \<Rightarrow> Expression option" where
  "strip_casts (BoundCast t try_cast child) = (case child of None \<Rightarrow> None | Some c \<Rightarrow> strip_casts c)"
| "strip_casts e = Some e"
  by pat_completeness auto
termination
  by (relation "measure size") auto

text \<open>The output column a projected expression stands for, if it is one.\<close>

definition projected_output :: "LogicalAggregate \<Rightarrow> nat \<Rightarrow> Expression \<Rightarrow> nat option" where
  "projected_output agg n_groups base =
     (case base of
        BoundRef t nm i \<Rightarrow> Some i
      | BoundColumnRef t binding depth \<Rightarrow>
          if table_index binding = group_index agg then Some (column_index binding)
          else if table_index binding = aggregate_index agg
          then Some (n_groups + column_index binding)
          else None
      | _ \<Rightarrow> None)"

text \<open>The output names and the names of groups and aggregates, which the renaming changes together.\<close>

record output_state =
  output_names :: "string list"
  out_groups :: "EncodedGroup list"
  out_aggs :: "EncodedAgg list"

definition rename_output :: "nat \<Rightarrow> string \<Rightarrow> output_state \<Rightarrow> output_state" where
  "rename_output i name os =
     (let n = length (out_groups os) in
      if i < n
      then os\<lparr>output_names := (output_names os)[i := name],
              out_groups := (out_groups os)[i := (out_groups os ! i)\<lparr>group_name := name\<rparr>]\<rparr>
      else os\<lparr>output_names := (output_names os)[i := name],
              out_aggs := (out_aggs os)[i - n := (out_aggs os ! (i - n))\<lparr>agg_name := name\<rparr>]\<rparr>)"

fun rename_loop ::
  "duckdb \<Rightarrow> bool \<Rightarrow> LogicalAggregate \<Rightarrow> Expression option list \<Rightarrow> nat \<Rightarrow> output_state
     \<Rightarrow> (exn, output_state) outcome" where
  "rename_loop db ff agg [] i os = Done os"
| "rename_loop db ff agg (expr # exprs) i os =
     (case expr of
        None \<Rightarrow> give_up ff ''ExecIR post projection expression not pushdownable''
      | Some e \<Rightarrow>
          if HasParameter db e \<or> IsVolatile db e \<or> CanThrow db e
          then give_up ff ''ExecIR post projection expression not pushdownable''
          else case strip_casts e of
            None \<Rightarrow> give_up ff ''ExecIR post projection cast child is null''
          | Some base \<Rightarrow>
              if projected_output agg (length (out_groups os)) base \<noteq> Some i \<or> i \<ge> length (output_names os)
              then give_up ff ''ExecIR post projection is not an identity mapping''
              else if GetName db e = [] then give_up ff ''ExecIR post projection output name is empty''
              else rename_loop db ff agg exprs (i + 1) (rename_output i (GetName db e) os))"

definition apply_post_projection ::
  "duckdb \<Rightarrow> bool \<Rightarrow> LogicalAggregate \<Rightarrow> LogicalProjection option \<Rightarrow> output_state
     \<Rightarrow> (exn, output_state) outcome" where
  "apply_post_projection db ff agg post os =
     (case post of
        None \<Rightarrow> Done os
      | Some p \<Rightarrow>
          if length (projection_children p) \<noteq> 1 \<or> hd (projection_children p) = None
          then give_up ff ''ExecIR post projection child shape not supported''
          else if length (projection_expressions p) \<noteq> length (output_names os)
          then give_up ff ''ExecIR post projection column count mismatch''
          else rename_loop db ff agg (projection_expressions p) 0 os)"

text \<open>The name an ORDER BY expression refers to.\<close>

definition order_column ::
  "bool \<Rightarrow> LogicalAggregate \<Rightarrow> LogicalProjection option \<Rightarrow> output_state \<Rightarrow> Expression
     \<Rightarrow> (exn, string) outcome" where
  "order_column ff agg post os e =
     (case e of
        BoundRef t nm i \<Rightarrow>
          if i \<ge> length (output_names os) then give_up ff ''ExecIR order by bound ref out of bounds''
          else Done (output_names os ! i)
      | BoundColumnRef t binding depth \<Rightarrow>
          let i = column_index binding in
          if table_index binding = group_index agg then
            (if i \<ge> length (out_groups os)
             then give_up ff ''ExecIR order by group column out of bounds''
             else Done (group_name (out_groups os ! i)))
          else if table_index binding = aggregate_index agg then
            (if i \<ge> length (out_aggs os)
             then give_up ff ''ExecIR order by aggregate column out of bounds''
             else Done (agg_name (out_aggs os ! i)))
          else if post \<noteq> None \<and> table_index binding = projection_table_index (the post) then
            (if i \<ge> length (output_names os)
             then give_up ff ''ExecIR order by post projection column out of bounds''
             else Done (output_names os ! i))
          else give_up ff ''ExecIR order by column ref uses unexpected binding''
      | _ \<Rightarrow> give_up ff ''ExecIR order by expression class not supported: %s'')"

definition order_entry ::
  "duckdb \<Rightarrow> bool \<Rightarrow> LogicalAggregate \<Rightarrow> LogicalProjection option \<Rightarrow> output_state \<Rightarrow> BoundOrderByNode
     \<Rightarrow> (exn, string \<times> bool \<times> bool) outcome" where
  "order_entry db ff agg post os node =
     (case order_expression node of
        None \<Rightarrow> give_up ff ''ExecIR order by expression not pushdownable''
      | Some e \<Rightarrow>
          if HasParameter db e \<or> IsVolatile db e \<or> CanThrow db e
          then give_up ff ''ExecIR order by expression not pushdownable''
          else try_bind (order_column ff agg post os e) (\<lambda>name.
            Done (name, order_type node = ASCENDING, null_order node = NULLS_FIRST)))"


section \<open>The message\<close>

text \<open>A loop that writes one element after the other.\<close>

fun write_all :: "(bytes \<Rightarrow> 'a \<Rightarrow> (exn, bytes) outcome) \<Rightarrow> bytes \<Rightarrow> 'a list \<Rightarrow> (exn, bytes) outcome" where
  "write_all f buf [] = Done buf"
| "write_all f buf (x # xs) = try_bind (f buf x) (\<lambda>buf. write_all f buf xs)"

text \<open>A list is written as its length, which must fit 32 bits, and its elements.\<close>

definition write_list :: "(bytes \<Rightarrow> 'a \<Rightarrow> (exn, bytes) outcome) \<Rightarrow> bytes \<Rightarrow> 'a list \<Rightarrow> (exn, bytes) outcome" where
  "write_list f buf xs =
     (if length xs > u32_max then Refused
      else write_all f (WriteU32 buf (word_of_nat (length xs))) xs)"

definition write_group :: "bytes \<Rightarrow> EncodedGroup \<Rightarrow> (exn, bytes) outcome" where
  "write_group buf gr = try_bind (WriteString buf (group_name gr)) (\<lambda>buf.
     Done (WriteBytes (WriteBytes buf (group_expr gr)) (group_type gr)))"

definition write_agg :: "bytes \<Rightarrow> EncodedAgg \<Rightarrow> (exn, bytes) outcome" where
  "write_agg buf ag = try_bind (WriteString (WriteU8 buf (agg_func_code (agg_func ag))) (agg_name ag)) (\<lambda>buf.
     Done (WriteBytes (WriteBytes (WriteU32 buf (agg_count ag)) (agg_args ag)) (agg_type ag)))"

definition write_order :: "bytes \<Rightarrow> string \<times> bool \<times> bool \<Rightarrow> (exn, bytes) outcome" where
  "write_order buf = (\<lambda>(name, asc, nulls_first). try_bind (WriteString buf name) (\<lambda>buf.
     Done (WriteU8 (WriteU8 buf (if asc then 1 else 0)) (if nulls_first then 1 else 0))))"

text \<open>The groups, aggregates and columns of the message, before anything is written.\<close>

record exec_parts =
  part_groups :: "EncodedGroup list"
  part_aggs :: "EncodedAgg list"
  part_projection :: "string list"

definition collect_parts ::
  "duckdb \<Rightarrow> bool \<Rightarrow> LogicalGet \<Rightarrow> LanceScanBindData \<Rightarrow> nat list \<Rightarrow> Expression option list list
     \<Rightarrow> LogicalAggregate \<Rightarrow> (exn, exec_parts) outcome" where
  "collect_parts db ff g b extra_ids stack agg =
     try_bind (check_grouping ff agg) (\<lambda>_.
     if length (agg_children agg) \<noteq> 1 \<or> hd (agg_children agg) = None then Refused
     else if length (names b) \<noteq> length (types b) then Refused
     else try_bind (encode_all (encode_group db ff g b stack) (groups agg) (add_columns extra_ids []))
       (\<lambda>(gs, idxs). try_bind (encode_all (encode_agg db ff g b stack) (expressions agg) idxs)
       (\<lambda>(ags, idxs). try_bind (try_map (scan_projection_name ff b) (sort idxs))
       (\<lambda>projection. Done \<lparr>part_groups = gs, part_aggs = ags, part_projection = projection\<rparr>))))"

definition write_body :: "bytes \<Rightarrow> exec_parts \<Rightarrow> (exn, bytes) outcome" where
  "write_body filter_ir_msg ps =
     (let buf = WriteU32 (WriteU32 (WriteBytes [] (string_bytes ''LEX1'')) 4) 0 in
      if length filter_ir_msg > u32_max then Refused
      else let buf = WriteBytes (WriteU32 buf (word_of_nat (length filter_ir_msg))) filter_ir_msg in
        try_bind (write_list WriteString buf (part_projection ps)) (\<lambda>buf.
        try_bind (write_list write_group buf (part_groups ps)) (\<lambda>buf.
        write_list write_agg buf (part_aggs ps))))"

definition TryEncodeLanceExecIRv1 ::
  "duckdb \<Rightarrow> bool \<Rightarrow> LogicalGet \<Rightarrow> LanceScanBindData \<Rightarrow> bytes \<Rightarrow> nat list \<Rightarrow> Expression option list list
     \<Rightarrow> LogicalAggregate \<Rightarrow> BoundOrderByNode list option \<Rightarrow> LogicalProjection option
     \<Rightarrow> (exn, bytes) outcome" where
  "TryEncodeLanceExecIRv1 db ff g b filter_ir_msg extra_ids stack agg order post =
     try_bind (collect_parts db ff g b extra_ids stack agg) (\<lambda>ps.
     try_bind (write_body filter_ir_msg ps) (\<lambda>buf.
     try_bind (apply_post_projection db ff agg post
         \<lparr>output_names = map group_name (part_groups ps) @ map agg_name (part_aggs ps),
          out_groups = part_groups ps, out_aggs = part_aggs ps\<rparr>) (\<lambda>os.
     try_bind (case order of None \<Rightarrow> Done [] | Some nodes \<Rightarrow> try_map (order_entry db ff agg post os) nodes)
       (\<lambda>order_by. write_list write_order buf order_by))))"

end
