(* ===== verification/Expr_IR_Decode.thy ===== *)
theory Expr_IR_Decode
  imports Lance_Prelude
begin

text \<open>
  The decoder of expression messages (\<open>rust/expr_ir.rs\<close>, \<open>rust/filter_ir.rs\<close>).  It reads the
  bytes through a cursor and builds a DataFusion expression.  DataFusion is not part of the
  repository: its expression type appears as the constructors the decoder applies, and the two
  functions it calls (resolving a function name in the session and compiling a regular
  expression) are the fields of \<open>datafusion\<close>.
\<close>

section \<open>DataFusion expressions\<close>

datatype Operator =
    Op_Plus | Op_Minus | Op_Multiply | Op_Divide
  | Op_Eq | Op_NotEq | Op_Lt | Op_LtEq | Op_Gt | Op_GtEq
  | Op_IsDistinctFrom | Op_IsNotDistinctFrom | Op_And | Op_Or

datatype TimeUnit = TU_Second | TU_Millisecond | TU_Microsecond | TU_Nanosecond

datatype ScalarValue =
    SV_Null | SV_Boolean bool | SV_Int64 u64 | SV_UInt64 u64 | SV_Float32 u32 | SV_Float64 u64
  | SV_Utf8 string | SV_Date32 u32 | SV_Timestamp TimeUnit u64 | SV_Decimal128 i128 byte byte

datatype DataType =
    DT_Boolean | DT_Int8 | DT_Int16 | DT_Int32 | DT_Int64 | DT_UInt8 | DT_UInt16 | DT_UInt32
  | DT_UInt64 | DT_Float32 | DT_Float64 | DT_Utf8 | DT_Date32 | DT_Timestamp TimeUnit
  | DT_Decimal128 byte byte

datatype ScalarUDF =
    Udf_getfield | Udf_regexp_like | Udf_starts_with | Udf_ends_with | Udf_contains
  | Udf_lower | Udf_upper | Udf_registered string

datatype Expr =
    E_Column string
  | E_Literal ScalarValue
  | E_Cast Expr DataType
  | E_BinaryExpr Expr Operator Expr
  | E_Not Expr
  | E_ScalarFunction ScalarUDF "Expr list"
  | E_Case "(Expr \<times> Expr) list" "Expr option"
  | E_IsNull Expr
  | E_IsNotNull Expr
  | E_InList Expr "Expr list" bool
  | E_Like bool Expr Expr "char option" bool

text \<open>The session's function registry, when there is a session, and \<open>compile_regex\<close>.\<close>

record datafusion =
  registry :: "(string \<Rightarrow> ScalarUDF option) option"
  compile_regex :: "string \<Rightarrow> string option \<Rightarrow> bool"

datatype ir_error =
    TooShort | MagicMismatch | TrailingBytes | TrailingSubexprBytes
  | UnexpectedEof | LengthOverflow | BadUtf8
  | InvalidTag byte | InvalidLiteralTag byte | InvalidTypeTag byte | InvalidTimestampUnit byte
  | InvalidBinaryOp byte | InvalidComparisonOp byte | InvalidConjunctionOp byte
  | NoSegments | NoChildren | NoBranches
  | UdfNotFound string | RegistryUnavailable string
  | RegexpOptions | UnsupportedRegexpOption char | RegexpPattern | InvalidRegexpMode byte
  | RegexpCompile
  | InvalidExecMagic | UnsupportedExecVersion u32 | TrailingExecBytes
  | InvalidAggFunc byte | InvalidOutputType byte | InvalidExecLiteral byte
  | InvalidExecBinaryOp byte | InvalidExecExpr byte | WrongAggArgs


section \<open>The cursor\<close>

record Cursor =
  cur_bytes :: bytes
  pos :: nat

definition new_cursor :: "bytes \<Rightarrow> Cursor" where
  "new_cursor bs = \<lparr>cur_bytes = bs, pos = 0\<rparr>"

definition is_eof :: "Cursor \<Rightarrow> bool" where
  "is_eof c \<longleftrightarrow> pos c = length (cur_bytes c)"

definition read_u8 :: "Cursor \<Rightarrow> ir_error + byte \<times> Cursor" where
  "read_u8 c = (if pos c < length (cur_bytes c)
                then Inr (cur_bytes c ! pos c, c\<lparr>pos := pos c + 1\<rparr>) else Inl UnexpectedEof)"

text \<open>The loop \<open>out |= (read_u8()? as uN) << (i * 8)\<close> of \<open>read_u32\<close> and \<open>read_u64\<close>.\<close>

definition read_shifted :: "nat \<Rightarrow> Cursor \<Rightarrow> ir_error + 'a::len word \<times> Cursor" where
  "read_shifted n c =
     res_foldl (\<lambda>(out, c) i. res_bind (read_u8 c)
       (\<lambda>(b, c). Inr (out OR push_bit (i * 8) (ucast b), c))) (0, c) [0..<n]"

definition read_u32 :: "Cursor \<Rightarrow> ir_error + u32 \<times> Cursor" where
  "read_u32 = read_shifted 4"

definition read_u64 :: "Cursor \<Rightarrow> ir_error + u64 \<times> Cursor" where
  "read_u64 = read_shifted 8"

definition read_i64 :: "Cursor \<Rightarrow> ir_error + u64 \<times> Cursor" where
  "read_i64 = read_u64"

definition read_bytes :: "nat \<Rightarrow> Cursor \<Rightarrow> ir_error + bytes \<times> Cursor" where
  "read_bytes len c =
     (if pos c + len \<ge> 2 ^ 64 then Inl LengthOverflow
      else if pos c + len > length (cur_bytes c) then Inl UnexpectedEof
      else Inr (take len (drop (pos c) (cur_bytes c)), c\<lparr>pos := pos c + len\<rparr>))"

text \<open>\<open>from_le_bytes\<close> of a slice of the right length.\<close>

definition read_le_bytes :: "nat \<Rightarrow> Cursor \<Rightarrow> ir_error + 'a::len word \<times> Cursor" where
  "read_le_bytes n c = res_bind (read_bytes n c) (\<lambda>(bs, c). Inr (le_join bs, c))"

definition read_i32 :: "Cursor \<Rightarrow> ir_error + u32 \<times> Cursor" where
  "read_i32 = read_le_bytes 4"

definition read_i128 :: "Cursor \<Rightarrow> ir_error + i128 \<times> Cursor" where
  "read_i128 = read_le_bytes 16"

definition read_f32 :: "Cursor \<Rightarrow> ir_error + u32 \<times> Cursor" where
  "read_f32 = read_le_bytes 4"

definition read_f64 :: "Cursor \<Rightarrow> ir_error + u64 \<times> Cursor" where
  "read_f64 = read_le_bytes 8"

definition read_len_prefixed_bytes :: "Cursor \<Rightarrow> ir_error + bytes \<times> Cursor" where
  "read_len_prefixed_bytes c = res_bind (read_u32 c) (\<lambda>(len, c). read_bytes (unat len) c)"

definition read_string :: "Cursor \<Rightarrow> ir_error + string \<times> Cursor" where
  "read_string c = res_bind (read_len_prefixed_bytes c) (\<lambda>(bs, c).
     if utf8_valid bs then Inr (bytes_string bs, c) else Inl BadUtf8)"

text \<open>Every read keeps the bytes; a length-prefixed slice is shorter than them.\<close>

lemma read_u8_len [cursor_len]:
  "read_u8 c = Inr (b, c') \<Longrightarrow> cur_bytes c' = cur_bytes c \<and> pos c' = Suc (pos c) \<and>
     pos c' \<le> length (cur_bytes c)"
  by (auto simp: read_u8_def split: if_splits)

lemma read_bytes_len [cursor_len]:
  "read_bytes n c = Inr (bs, c') \<Longrightarrow> cur_bytes c' = cur_bytes c \<and> pos c' = pos c + n \<and>
     length bs = n \<and> pos c + n \<le> length (cur_bytes c)"
  by (auto simp: read_bytes_def split: if_splits)

lemma read_shifted_loop_len:
  "res_foldl (\<lambda>(out, c) i. res_bind (read_u8 c)
     (\<lambda>(b, c). Inr (out OR push_bit (i * 8) (ucast b), c))) (v, c) is = Inr (w, c') \<Longrightarrow>
   cur_bytes c' = cur_bytes c \<and> pos c' = pos c + length is"
  by (induction "is" arbitrary: v c) (auto simp: res_bind_Inr_iff dest!: read_u8_len)

lemma read_shifted_len [cursor_len]:
  "read_shifted n c = Inr (w, c') \<Longrightarrow> cur_bytes c' = cur_bytes c \<and> pos c' = pos c + n"
  by (auto simp: read_shifted_def dest: read_shifted_loop_len)

lemma read_u32_len [cursor_len]:
  "read_u32 c = Inr (w, c') \<Longrightarrow> cur_bytes c' = cur_bytes c \<and> pos c' = pos c + 4"
  by (simp add: read_u32_def read_shifted_len)

lemma read_len_prefixed_bytes_len [cursor_len]:
  "read_len_prefixed_bytes c = Inr (bs, c') \<Longrightarrow>
     cur_bytes c' = cur_bytes c \<and> length bs < length (cur_bytes c)"
  by (auto simp: read_len_prefixed_bytes_def res_bind_Inr_iff
      dest!: read_u32_len read_bytes_len)

lemma read_string_len [cursor_len]:
  "read_string c = Inr (s, c') \<Longrightarrow> cur_bytes c' = cur_bytes c"
  by (auto simp: read_string_def res_bind_Inr_iff split: if_splits
      dest!: read_len_prefixed_bytes_len)


section \<open>Leaves\<close>

text \<open>The loop that reads the path segments.\<close>

fun read_strings :: "nat \<Rightarrow> Cursor \<Rightarrow> ir_error + string list \<times> Cursor" where
  "read_strings 0 c = Inr ([], c)"
| "read_strings (Suc n) c = res_bind (read_string c) (\<lambda>(s, c).
     res_bind (read_strings n c) (\<lambda>(ss, c). Inr (s # ss, c)))"

definition path_expr :: "string list \<Rightarrow> Expr" where
  "path_expr segments = foldl (\<lambda>e s. E_ScalarFunction Udf_getfield [e, E_Literal (SV_Utf8 s)])
     (E_Column (hd segments)) (tl segments)"

definition parse_column_ref :: "Cursor \<Rightarrow> ir_error + Expr \<times> Cursor" where
  "parse_column_ref c = res_bind (read_u32 c) (\<lambda>(n, c).
     if n = 0 then Inl NoSegments
     else res_bind (read_strings (unat n) c) (\<lambda>(segments, c). Inr (path_expr segments, c)))"

definition resolve_scalar_function :: "datafusion \<Rightarrow> string \<Rightarrow> ir_error + ScalarUDF" where
  "resolve_scalar_function df name =
     (if name = ''starts_with'' then Inr Udf_starts_with
      else if name = ''ends_with'' then Inr Udf_ends_with
      else if name = ''contains'' then Inr Udf_contains
      else if name = ''lower'' then Inr Udf_lower
      else if name = ''upper'' then Inr Udf_upper
      else case registry df of
        Some udf \<Rightarrow> (case udf name of Some f \<Rightarrow> Inr f | None \<Rightarrow> Inl (UdfNotFound name))
      | None \<Rightarrow> Inl (RegistryUnavailable name))"

definition parse_time_unit :: "byte \<Rightarrow> ir_error + TimeUnit" where
  "parse_time_unit b =
     (if b = 0 then Inr TU_Second else if b = 1 then Inr TU_Millisecond
      else if b = 2 then Inr TU_Microsecond else if b = 3 then Inr TU_Nanosecond
      else Inl (InvalidTimestampUnit b))"

definition read_as :: "(Cursor \<Rightarrow> ir_error + 'a \<times> Cursor) \<Rightarrow> ('a \<Rightarrow> 'b) \<Rightarrow> Cursor \<Rightarrow> ir_error + 'b \<times> Cursor"
where
  "read_as rd f c = res_bind (rd c) (\<lambda>(x, c). Inr (f x, c))"

definition parse_scalar :: "Cursor \<Rightarrow> ir_error + ScalarValue \<times> Cursor" where
  "parse_scalar c = res_bind (read_u8 c) (\<lambda>(t, c).
     if t = 0 then Inr (SV_Null, c)
     else if t = 1 then read_as read_u8 (\<lambda>b. SV_Boolean (b \<noteq> 0)) c
     else if t = 2 then read_as read_i64 SV_Int64 c
     else if t = 3 then read_as read_u64 SV_UInt64 c
     else if t = 4 then read_as read_f32 SV_Float32 c
     else if t = 5 then read_as read_f64 SV_Float64 c
     else if t = 6 then read_as read_string SV_Utf8 c
     else if t = 7 then read_as read_i32 SV_Date32 c
     else if t = 8 then
       res_bind (read_u8 c) (\<lambda>(unit, c). res_bind (read_i64 c) (\<lambda>(v, c).
         res_bind (parse_time_unit unit) (\<lambda>u. Inr (SV_Timestamp u v, c))))
     else if t = 9 then
       res_bind (read_u8 c) (\<lambda>(precision, c). res_bind (read_u8 c) (\<lambda>(scale, c).
         res_bind (read_i128 c) (\<lambda>(v, c). Inr (SV_Decimal128 v precision scale, c))))
     else Inl (InvalidLiteralTag t))"

definition parse_literal :: "Cursor \<Rightarrow> ir_error + Expr \<times> Cursor" where
  "parse_literal = read_as parse_scalar E_Literal"

definition parse_type :: "Cursor \<Rightarrow> ir_error + DataType \<times> Cursor" where
  "parse_type c = res_bind (read_u8 c) (\<lambda>(t, c).
     if t = 1 then Inr (DT_Boolean, c)
     else if t = 2 then Inr (DT_Int8, c)
     else if t = 3 then Inr (DT_Int16, c)
     else if t = 4 then Inr (DT_Int32, c)
     else if t = 5 then Inr (DT_Int64, c)
     else if t = 6 then Inr (DT_UInt8, c)
     else if t = 7 then Inr (DT_UInt16, c)
     else if t = 8 then Inr (DT_UInt32, c)
     else if t = 9 then Inr (DT_UInt64, c)
     else if t = 10 then Inr (DT_Float32, c)
     else if t = 11 then Inr (DT_Float64, c)
     else if t = 12 then Inr (DT_Utf8, c)
     else if t = 13 then Inr (DT_Date32, c)
     else if t = 14 then res_bind (read_u8 c) (\<lambda>(unit, c).
       res_bind (parse_time_unit unit) (\<lambda>u. Inr (DT_Timestamp u, c)))
     else if t = 15 then res_bind (read_u8 c) (\<lambda>(precision, c).
       res_bind (read_u8 c) (\<lambda>(scale, c). Inr (DT_Decimal128 precision scale, c)))
     else Inl (InvalidTypeTag t))"

lemma parse_type_len [cursor_len]:
  "parse_type c = Inr (t, c') \<Longrightarrow> cur_bytes c' = cur_bytes c"
  by (auto simp: parse_type_def res_bind_Inr_iff split: if_splits dest!: read_u8_len)


section \<open>Operators and regular expression options\<close>

definition parse_binary_op :: "byte \<Rightarrow> ir_error + Operator" where
  "parse_binary_op b =
     (if b = 1 then Inr Op_Plus else if b = 2 then Inr Op_Minus
      else if b = 3 then Inr Op_Multiply else if b = 4 then Inr Op_Divide
      else Inl (InvalidBinaryOp b))"

definition parse_comparison_op :: "byte \<Rightarrow> ir_error + Operator" where
  "parse_comparison_op b =
     (if b = 0 then Inr Op_Eq else if b = 1 then Inr Op_NotEq
      else if b = 2 then Inr Op_Lt else if b = 3 then Inr Op_LtEq
      else if b = 4 then Inr Op_Gt else if b = 5 then Inr Op_GtEq
      else if b = 6 then Inr Op_IsDistinctFrom else if b = 7 then Inr Op_IsNotDistinctFrom
      else Inl (InvalidComparisonOp b))"

definition parse_conjunction_op :: "byte \<Rightarrow> ir_error + Operator" where
  "parse_conjunction_op b =
     (if b = 1 then Inr Op_And else if b = 2 then Inr Op_Or else Inl (InvalidConjunctionOp b))"

fun utf8_literal :: "Expr \<Rightarrow> string option" where
  "utf8_literal (E_Literal (SV_Utf8 s)) = Some s"
| "utf8_literal e = None"

text \<open>The scan over the option characters: \<open>i\<close> and \<open>s\<close> are known, blanks are skipped.\<close>

fun scan_regexp_options :: "string \<Rightarrow> bool \<Rightarrow> bool \<Rightarrow> ir_error + bool \<times> bool" where
  "scan_regexp_options [] has_i has_s = Inr (has_i, has_s)"
| "scan_regexp_options (c # cs) has_i has_s =
     (if c = CHR ''i'' then scan_regexp_options cs True has_s
      else if c = CHR ''s'' then scan_regexp_options cs has_i True
      else if c = CHR '' '' \<or> c = CHR 0x09 \<or> c = CHR 0x0A then scan_regexp_options cs has_i has_s
      else Inl (UnsupportedRegexpOption c))"

definition normalize_regexp_options :: "Expr \<Rightarrow> ir_error + string option" where
  "normalize_regexp_options flags_expr =
     (case utf8_literal flags_expr of
        None \<Rightarrow> Inl RegexpOptions
      | Some s \<Rightarrow> res_bind (scan_regexp_options s False False) (\<lambda>(has_i, has_s).
          let normalized = (if has_i then ''i'' else []) @ (if has_s then ''s'' else [])
          in Inr (if normalized = [] then None else Some normalized)))"

text \<open>What \<open>parse_regexp\<close> does once its parts are read.\<close>

definition regexp_expr ::
  "datafusion \<Rightarrow> byte \<Rightarrow> Expr \<Rightarrow> Expr \<Rightarrow> string option \<Rightarrow> ir_error + Expr" where
  "regexp_expr df mode value_e pat flags =
     res_bind
       (if mode = 1 then
          (case utf8_literal pat of
             Some p \<Rightarrow> Inr (E_Literal (SV_Utf8 (''^(?:'' @ p @ '')$'')))
           | None \<Rightarrow> Inl RegexpPattern)
        else if mode \<noteq> 0 then Inl (InvalidRegexpMode mode)
        else Inr pat)
       (\<lambda>pat. case utf8_literal pat of
          None \<Rightarrow> Inl RegexpPattern
        | Some p \<Rightarrow>
            if \<not> compile_regex df p flags then Inl RegexpCompile
            else Inr (E_ScalarFunction Udf_regexp_like
              ([value_e, pat] @ (case flags of None \<Rightarrow> [] | Some f \<Rightarrow> [E_Literal (SV_Utf8 f)]))))"


section \<open>Nodes\<close>

text \<open>
  The pieces of \<open>parse_node\<close> that read children: one length-prefixed child, the counted loop
  over children, the loop over WHEN/THEN pairs, LIKE and the regular expression functions.
  They take the subexpression parser as an argument; their congruence rules say that it is
  applied to proper slices of the cursor's bytes only, which is why \<open>parse_node\<close> terminates.
\<close>

definition parse_slice ::
  "(bytes \<Rightarrow> ir_error + Expr) \<Rightarrow> Cursor \<Rightarrow> ir_error + Expr \<times> Cursor" where
  "parse_slice p c = res_bind (read_len_prefixed_bytes c) (\<lambda>(bs, c).
     res_bind (p bs) (\<lambda>expr. Inr (expr, c)))"

fun parse_slices ::
  "(bytes \<Rightarrow> ir_error + Expr) \<Rightarrow> nat \<Rightarrow> Cursor \<Rightarrow> ir_error + Expr list \<times> Cursor" where
  "parse_slices p 0 c = Inr ([], c)"
| "parse_slices p (Suc n) c = res_bind (parse_slice p c) (\<lambda>(expr, c).
     res_bind (parse_slices p n c) (\<lambda>(exprs, c). Inr (expr # exprs, c)))"

fun parse_pairs ::
  "(bytes \<Rightarrow> ir_error + Expr) \<Rightarrow> nat \<Rightarrow> Cursor \<Rightarrow> ir_error + (Expr \<times> Expr) list \<times> Cursor" where
  "parse_pairs p 0 c = Inr ([], c)"
| "parse_pairs p (Suc n) c =
     res_bind (parse_slice p c) (\<lambda>(when_expr, c). res_bind (parse_slice p c) (\<lambda>(then_expr, c).
     res_bind (parse_pairs p n c) (\<lambda>(checks, c). Inr ((when_expr, then_expr) # checks, c))))"

definition parse_like ::
  "(bytes \<Rightarrow> ir_error + Expr) \<Rightarrow> Cursor \<Rightarrow> ir_error + Expr \<times> Cursor" where
  "parse_like p c = res_bind (read_u8 c) (\<lambda>(flags, c).
     res_bind (parse_slice p c) (\<lambda>(expr, c). res_bind (parse_slice p c) (\<lambda>(pat, c).
     if flags AND 2 \<noteq> 0 then
       res_bind (read_u8 c) (\<lambda>(e, c).
         Inr (E_Like False expr pat (Some (char_of (unat e))) (flags AND 1 \<noteq> 0), c))
     else Inr (E_Like False expr pat None (flags AND 1 \<noteq> 0), c))))"

definition parse_regexp ::
  "datafusion \<Rightarrow> (bytes \<Rightarrow> ir_error + Expr) \<Rightarrow> Cursor \<Rightarrow> ir_error + Expr \<times> Cursor" where
  "parse_regexp df p c = res_bind (read_u8 c) (\<lambda>(mode, c). res_bind (read_u8 c) (\<lambda>(has_flags, c).
     res_bind (parse_slice p c) (\<lambda>(value_e, c). res_bind (parse_slice p c) (\<lambda>(pat, c).
     res_bind
       (if has_flags \<noteq> 0 then res_bind (parse_slice p c) (\<lambda>(flags_expr, c).
          res_bind (normalize_regexp_options flags_expr) (\<lambda>flags. Inr (flags, c)))
        else Inr (None, c))
       (\<lambda>(flags, c). res_bind (regexp_expr df mode value_e pat flags) (\<lambda>e. Inr (e, c)))))))"

lemma parse_slice_len [cursor_len]:
  "parse_slice p c = Inr (e, c') \<Longrightarrow> cur_bytes c' = cur_bytes c"
  by (auto simp: parse_slice_def res_bind_Inr_iff dest!: read_len_prefixed_bytes_len)

lemma parse_slices_len [cursor_len]:
  "parse_slices p n c = Inr (es, c') \<Longrightarrow> cur_bytes c' = cur_bytes c"
  by (induction n arbitrary: c es) (auto simp: res_bind_Inr_iff dest!: parse_slice_len)

lemma parse_pairs_len [cursor_len]:
  "parse_pairs p n c = Inr (es, c') \<Longrightarrow> cur_bytes c' = cur_bytes c"
  by (induction n arbitrary: c es) (auto simp: res_bind_Inr_iff dest!: parse_slice_len)

lemma parse_slice_cong [fundef_cong]:
  assumes "c = c'" and "\<And>bs. length bs < length (cur_bytes c') \<Longrightarrow> p bs = q bs"
  shows "parse_slice p c = parse_slice q c'"
  using assms
  by (auto simp: parse_slice_def intro!: res_bind_cong dest!: read_len_prefixed_bytes_len)

lemma parse_slices_cong [fundef_cong]:
  assumes "n = n'" and "c = c'" and "\<And>bs. length bs < length (cur_bytes c') \<Longrightarrow> p bs = q bs"
  shows "parse_slices p n c = parse_slices q n' c'"
  using assms
proof (induction n' arbitrary: n c c')
  case 0
  then show ?case by simp
next
  case (Suc n')
  have one: "parse_slice p c' = parse_slice q c'"
    by (rule parse_slice_cong) (use Suc.prems in auto)
  have more: "parse_slices p n' d = parse_slices q n' d" if "cur_bytes d = cur_bytes c'" for d
    by (rule Suc.IH) (use that Suc.prems in auto)
  have "parse_slices p (Suc n') c' = parse_slices q (Suc n') c'"
    unfolding parse_slices.simps one
    by (rule res_bind_cong) (auto dest!: parse_slice_len simp: more)
  then show ?case using Suc.prems by simp
qed

lemma parse_pairs_cong [fundef_cong]:
  assumes "n = n'" and "c = c'" and "\<And>bs. length bs < length (cur_bytes c') \<Longrightarrow> p bs = q bs"
  shows "parse_pairs p n c = parse_pairs q n' c'"
  using assms
proof (induction n' arbitrary: n c c')
  case 0
  then show ?case by simp
next
  case (Suc n')
  have one: "parse_slice p d = parse_slice q d" if "cur_bytes d = cur_bytes c'" for d
    by (rule parse_slice_cong) (use that Suc.prems in auto)
  have more: "parse_pairs p n' d = parse_pairs q n' d" if "cur_bytes d = cur_bytes c'" for d
    by (rule Suc.IH) (use that Suc.prems in auto)
  have "parse_pairs p (Suc n') c' = parse_pairs q (Suc n') c'"
    unfolding parse_pairs.simps
    by (auto intro!: res_bind_cong simp: one more dest!: parse_slice_len)
  then show ?case using Suc.prems by simp
qed

lemma parse_like_cong [fundef_cong]:
  assumes "c = c'" and "\<And>bs. length bs < length (cur_bytes c') \<Longrightarrow> p bs = q bs"
  shows "parse_like p c = parse_like q c'"
proof -
  have one: "parse_slice p d = parse_slice q d" if "cur_bytes d = cur_bytes c'" for d
    by (rule parse_slice_cong) (use that assms in auto)
  show ?thesis
    unfolding parse_like_def assms(1)
    by (auto intro!: res_bind_cong simp: one dest!: parse_slice_len read_u8_len)
qed

lemma parse_regexp_cong [fundef_cong]:
  assumes "df = df'" and "c = c'" and "\<And>bs. length bs < length (cur_bytes c') \<Longrightarrow> p bs = q bs"
  shows "parse_regexp df p c = parse_regexp df' q c'"
proof -
  have one: "parse_slice p d = parse_slice q d" if "cur_bytes d = cur_bytes c'" for d
    by (rule parse_slice_cong) (use that assms in auto)
  show ?thesis
    unfolding parse_regexp_def assms(1,2)
    by (auto intro!: res_bind_cong simp: one dest!: parse_slice_len read_u8_len)
qed

function (sequential)
  parse_node :: "datafusion \<Rightarrow> Cursor \<Rightarrow> ir_error + Expr \<times> Cursor" and
  parse_subexpr :: "datafusion \<Rightarrow> bytes \<Rightarrow> ir_error + Expr"
where
  "parse_node df c = res_bind (read_u8 c) (\<lambda>(tag, c).
     if tag = 1 then parse_column_ref c
     else if tag = 2 then parse_literal c
     else if tag = 3 then
       res_bind (parse_type c) (\<lambda>(data_type, c).
       res_bind (parse_slice (parse_subexpr df) c) (\<lambda>(child, c). Inr (E_Cast child data_type, c)))
     else if tag = 4 then
       res_bind (read_u8 c) (\<lambda>(o1, c). res_bind (parse_binary_op o1) (\<lambda>op.
       res_bind (parse_slice (parse_subexpr df) c) (\<lambda>(lhs, c).
       res_bind (parse_slice (parse_subexpr df) c) (\<lambda>(rhs, c).
       Inr (E_BinaryExpr lhs op rhs, c)))))
     else if tag = 5 then
       res_bind (read_u8 c) (\<lambda>(o1, c). res_bind (parse_comparison_op o1) (\<lambda>op.
       res_bind (parse_slice (parse_subexpr df) c) (\<lambda>(lhs, c).
       res_bind (parse_slice (parse_subexpr df) c) (\<lambda>(rhs, c).
       Inr (E_BinaryExpr lhs op rhs, c)))))
     else if tag = 6 then
       res_bind (read_u8 c) (\<lambda>(o1, c). res_bind (parse_conjunction_op o1) (\<lambda>op.
       res_bind (read_u32 c) (\<lambda>(child_count, c).
       if child_count = 0 then Inl NoChildren
       else res_bind (parse_slice (parse_subexpr df) c) (\<lambda>(first, c).
         res_bind (parse_slices (parse_subexpr df) (unat child_count - 1) c) (\<lambda>(others, c).
         Inr (foldl (\<lambda>expr rhs. E_BinaryExpr expr op rhs) first others, c))))))
     else if tag = 7 then
       res_bind (parse_slice (parse_subexpr df) c) (\<lambda>(child, c). Inr (E_Not child, c))
     else if tag = 8 then
       res_bind (read_string c) (\<lambda>(name, c). res_bind (read_u32 c) (\<lambda>(arg_count, c).
       res_bind (parse_slices (parse_subexpr df) (unat arg_count) c) (\<lambda>(args, c).
       res_bind (resolve_scalar_function df name) (\<lambda>udf. Inr (E_ScalarFunction udf args, c)))))
     else if tag = 9 then
       res_bind (read_u32 c) (\<lambda>(check_count, c).
       if check_count = 0 then Inl NoBranches
       else res_bind (parse_pairs (parse_subexpr df) (unat check_count) c) (\<lambda>(checks, c).
         res_bind (read_u8 c) (\<lambda>(has_else, c).
         if has_else \<noteq> 0 then
           res_bind (parse_slice (parse_subexpr df) c) (\<lambda>(e, c). Inr (E_Case checks (Some e), c))
         else Inr (E_Case checks None, c))))
     else if tag = 10 then
       res_bind (parse_slice (parse_subexpr df) c) (\<lambda>(child, c). Inr (E_IsNull child, c))
     else if tag = 11 then
       res_bind (parse_slice (parse_subexpr df) c) (\<lambda>(child, c). Inr (E_IsNotNull child, c))
     else if tag = 12 then
       res_bind (read_u8 c) (\<lambda>(negated, c).
       res_bind (parse_slice (parse_subexpr df) c) (\<lambda>(expr, c).
       res_bind (read_u32 c) (\<lambda>(item_count, c).
       res_bind (parse_slices (parse_subexpr df) (unat item_count) c) (\<lambda>(items, c).
       Inr (E_InList expr items (negated \<noteq> 0), c)))))
     else if tag = 13 then parse_like (parse_subexpr df) c
     else if tag = 14 then parse_regexp df (parse_subexpr df) c
     else Inl (InvalidTag tag))"
| "parse_subexpr df bs = res_bind (parse_node df (new_cursor bs)) (\<lambda>(expr, c).
     if is_eof c then Inr expr else Inl TrailingSubexprBytes)"
  by pat_completeness auto
termination
  by (relation "measures
      [\<lambda>x. case x of Inl (df, c) \<Rightarrow> length (cur_bytes c) | Inr (df, bs) \<Rightarrow> length bs,
       \<lambda>x. case x of Inl _ \<Rightarrow> 0 | Inr _ \<Rightarrow> 1]")
     (auto simp: new_cursor_def dest!: cursor_len)

declare parse_node.simps [simp del] parse_subexpr.simps [simp del]


section \<open>Messages\<close>

definition parse_expr_ir_payload :: "datafusion \<Rightarrow> bytes \<Rightarrow> ir_error + Expr" where
  "parse_expr_ir_payload df bs = res_bind (parse_node df (new_cursor bs)) (\<lambda>(expr, c).
     if is_eof c then Inr expr else Inl TrailingBytes)"

definition parse_expr_ir :: "datafusion \<Rightarrow> bytes \<Rightarrow> ir_error + Expr" where
  "parse_expr_ir df bs =
     (if length bs < 4 then Inl TooShort
      else if take 4 bs \<noteq> string_bytes ''LUE1'' then Inl MagicMismatch
      else parse_expr_ir_payload df (drop 4 bs))"

text \<open>Filter messages are decoded without a session, so without a function registry.\<close>

definition parse_filter_ir :: "datafusion \<Rightarrow> bytes \<Rightarrow> ir_error + Expr" where
  "parse_filter_ir df bs =
     (if length bs < 4 then Inl TooShort
      else if take 4 bs \<noteq> string_bytes ''LFT1'' then Inl MagicMismatch
      else parse_expr_ir_payload (df\<lparr>registry := None\<rparr>) (drop 4 bs))"


section \<open>Reading at a known position\<close>

text \<open>
  A cursor that has consumed \<open>pre\<close> and has \<open>rest\<close> left.  The rules of the collection \<open>codec\<close>
  rewrite a read at such a cursor to the value and the cursor behind it.
\<close>

definition at :: "bytes \<Rightarrow> bytes \<Rightarrow> Cursor" where
  "at pre rest = \<lparr>cur_bytes = pre @ rest, pos = length pre\<rparr>"

abbreviation fits :: "bytes \<Rightarrow> bytes \<Rightarrow> bool" where
  "fits pre rest \<equiv> length pre + length rest < 2 ^ 64"

lemma new_cursor_at: "new_cursor bs = at [] bs"
  by (simp add: new_cursor_def at_def)

lemma is_eof_at [simp]: "is_eof (at pre rest) \<longleftrightarrow> rest = []"
  by (auto simp: is_eof_def at_def)

lemma read_u8_at [codec]: "read_u8 (at pre (b # rest)) = Inr (b, at (pre @ [b]) rest)"
  by (simp add: read_u8_def at_def)

lemma read_bytes_at [codec]:
  "n = length bs \<Longrightarrow> fits pre (bs @ rest) \<Longrightarrow>
     read_bytes n (at pre (bs @ rest)) = Inr (bs, at (pre @ bs) rest)"
  by (simp add: read_bytes_def at_def)

lemma read_shifted_loop_at:
  "res_foldl (\<lambda>(out, c) i. res_bind (read_u8 c)
     (\<lambda>(b, c). Inr (out OR push_bit (i * 8) (ucast b), c))) (v, at pre (bs @ rest)) [k..<k + length bs]
   = Inr (v OR push_bit (8 * k) (le_join bs), at (pre @ bs) rest)"
proof (induction bs arbitrary: k v pre)
  case Nil
  then show ?case by simp
next
  case (Cons b bs)
  have "[k..<k + length (b # bs)] = k # [Suc k..<Suc k + length bs]"
    by (subst upt_rec) simp
  then show ?case
    using Cons.IH [of _ "pre @ [b]" "Suc k"]
    by (simp add: read_u8_at push_bit_or mult.commute or.assoc add.commute)
qed

lemma read_shifted_at [codec]:
  "n = length bs \<Longrightarrow> read_shifted n (at pre (bs @ rest)) = Inr (le_join bs, at (pre @ bs) rest)"
  using read_shifted_loop_at [of 0 pre bs rest 0] by (simp add: read_shifted_def)

lemma read_le_bytes_at [codec]:
  "n = length bs \<Longrightarrow> fits pre (bs @ rest) \<Longrightarrow>
     read_le_bytes n (at pre (bs @ rest)) = Inr (le_join bs, at (pre @ bs) rest)"
  by (simp add: read_le_bytes_def read_bytes_at)

end
