(* ===== verification/Exec_IR_Decode.thy ===== *)
theory Exec_IR_Decode
  imports Expr_IR_Decode
begin

text \<open>
  The decoder of aggregation plans (\<open>rust/exec_ir.rs\<close>) and the translation of a plan to DataFusion
  (\<open>rust/ffi/exec.rs\<close>, \<open>build_exec_df\<close>).  Its cursor is the one of the expression decoder, with its
  own integer reads.  The versions 1 to 4 of the message are all accepted.
\<close>

section \<open>Plans\<close>

datatype AggFunc = F_Sum | F_Count | F_CountStar | F_Min | F_Max | F_Avg

datatype OutputTypeHint =
    H_Bool | H_Int64 | H_Double | H_Date | H_TimestampUs | H_Utf8 | H_Decimal byte byte

datatype LiteralIr =
    L_Null | L_Int64 u64 | L_Double u64 | L_Bool bool | L_String string | L_Decimal128 i128 byte byte

datatype BinaryOp = B_Add | B_Sub | B_Mul | B_Div

datatype ExprIr =
    ColumnRef string
  | Literal LiteralIr
  | Binary BinaryOp ExprIr ExprIr
  | Cast OutputTypeHint ExprIr

record GroupIr =
  g_output_name :: string
  g_expr :: ExprIr
  g_output_type :: "OutputTypeHint option"

record AggIr =
  a_func :: AggFunc
  a_output_name :: string
  a_args :: "ExprIr list"
  a_output_type :: "OutputTypeHint option"

record OrderByIr =
  o_column :: string
  o_asc :: bool
  o_nulls_first :: bool

record ExecIr =
  x_filter_ir :: bytes
  x_scan_projection :: "string list"
  x_groups :: "GroupIr list"
  x_aggs :: "AggIr list"
  x_order_by :: "OrderByIr list"


section \<open>Leaves\<close>

definition exec_read_i64 :: "Cursor \<Rightarrow> ir_error + u64 \<times> Cursor" where
  "exec_read_i64 = read_shifted 8"

definition exec_read_f64 :: "Cursor \<Rightarrow> ir_error + u64 \<times> Cursor" where
  "exec_read_f64 = read_shifted 8"

definition parse_output_type_hint :: "Cursor \<Rightarrow> ir_error + OutputTypeHint \<times> Cursor" where
  "parse_output_type_hint c = res_bind (read_u8 c) (\<lambda>(t, c).
     if t = 1 then Inr (H_Bool, c)
     else if t = 2 then Inr (H_Int64, c)
     else if t = 3 then Inr (H_Double, c)
     else if t = 4 then Inr (H_Date, c)
     else if t = 5 then Inr (H_TimestampUs, c)
     else if t = 6 then Inr (H_Utf8, c)
     else if t = 7 then
       res_bind (read_u8 c) (\<lambda>(precision, c). res_bind (read_u8 c) (\<lambda>(scale, c).
       Inr (H_Decimal precision scale, c)))
     else Inl (InvalidOutputType t))"

definition parse_exec_literal :: "Cursor \<Rightarrow> ir_error + LiteralIr \<times> Cursor" where
  "parse_exec_literal c = res_bind (read_u8 c) (\<lambda>(t, c).
     if t = 0 then Inr (L_Null, c)
     else if t = 1 then res_bind (exec_read_i64 c) (\<lambda>(v, c). Inr (L_Int64 v, c))
     else if t = 2 then res_bind (exec_read_f64 c) (\<lambda>(v, c). Inr (L_Double v, c))
     else if t = 3 then res_bind (read_u8 c) (\<lambda>(v, c). Inr (L_Bool (v \<noteq> 0), c))
     else if t = 4 then res_bind (read_string c) (\<lambda>(s, c). Inr (L_String s, c))
     else if t = 5 then
       res_bind (read_u8 c) (\<lambda>(precision, c). res_bind (read_u8 c) (\<lambda>(scale, c).
       res_bind (read_le_bytes 16 c) (\<lambda>(v, c). Inr (L_Decimal128 v precision scale, c))))
     else Inl (InvalidExecLiteral t))"

definition binary_op :: "byte \<Rightarrow> ir_error + BinaryOp" where
  "binary_op t =
     (if t = 1 then Inr B_Add else if t = 2 then Inr B_Sub else if t = 3 then Inr B_Mul
      else if t = 4 then Inr B_Div else Inl (InvalidExecBinaryOp t))"

definition agg_func_of :: "byte \<Rightarrow> ir_error + AggFunc" where
  "agg_func_of t =
     (if t = 1 then Inr F_Sum else if t = 2 then Inr F_Count else if t = 3 then Inr F_CountStar
      else if t = 4 then Inr F_Min else if t = 5 then Inr F_Max else if t = 6 then Inr F_Avg
      else Inl (InvalidAggFunc t))"


section \<open>Expressions\<close>

text \<open>Each read moves the cursor forward within the same bytes.\<close>

definition advances :: "Cursor \<Rightarrow> Cursor \<Rightarrow> bool" where
  "advances c c' \<longleftrightarrow> cur_bytes c' = cur_bytes c \<and> pos c < pos c' \<and> pos c' \<le> length (cur_bytes c)"

definition stays :: "Cursor \<Rightarrow> Cursor \<Rightarrow> bool" where
  "stays c c' \<longleftrightarrow> c' = c \<or> advances c c'"

lemma advances_trans: "advances a b \<Longrightarrow> advances b c \<Longrightarrow> advances a c"
  by (auto simp: advances_def)

lemma advances_stays: "advances a b \<Longrightarrow> stays b c \<Longrightarrow> advances a c"
  by (auto simp: stays_def intro: advances_trans)

lemma read_u8_advances: "read_u8 c = Inr (b, c') \<Longrightarrow> advances c c'"
  by (auto simp: advances_def dest: read_u8_len)

lemma read_loop_advances:
  "res_foldl (\<lambda>(out, c) i. res_bind (read_u8 c)
     (\<lambda>(b, c). Inr (out OR push_bit (i * 8) (ucast b), c))) (v, c) is = Inr (w, c') \<Longrightarrow> stays c c'"
proof (induction "is" arbitrary: v c)
  case (Cons i ix)
  then obtain b c1 where "read_u8 c = Inr (b, c1)" and "stays c1 c'"
    by (auto simp: res_bind_Inr_iff)
  then show ?case by (auto simp: stays_def intro: advances_trans dest: read_u8_advances)
qed (simp add: stays_def)

lemma read_shifted_stays: "read_shifted n c = Inr (w, c') \<Longrightarrow> stays c c'"
  by (auto simp: read_shifted_def dest: read_loop_advances)

lemma read_bytes_stays: "read_bytes n c = Inr (bs, c') \<Longrightarrow> stays c c'"
  by (cases "n = 0") (auto simp: stays_def advances_def read_bytes_def split: if_splits)

lemma stays_trans: "stays a b \<Longrightarrow> stays b c \<Longrightarrow> stays a c"
  by (auto simp: stays_def intro: advances_trans)

lemma read_string_stays: "read_string c = Inr (s, c') \<Longrightarrow> stays c c'"
  by (auto simp: read_string_def read_len_prefixed_bytes_def read_u32_def res_bind_Inr_iff split: if_splits
      dest!: read_shifted_stays read_bytes_stays intro: stays_trans)

lemma parse_output_type_hint_advances: "parse_output_type_hint c = Inr (h, c') \<Longrightarrow> advances c c'"
  by (auto simp: parse_output_type_hint_def res_bind_Inr_iff split: if_splits
      dest!: read_u8_advances intro: advances_trans)

lemma parse_exec_literal_advances: "parse_exec_literal c = Inr (l, c') \<Longrightarrow> advances c c'"
  by (auto simp: parse_exec_literal_def exec_read_i64_def exec_read_f64_def read_le_bytes_def
      res_bind_Inr_iff split: if_splits
      dest!: read_u8_advances read_shifted_stays read_bytes_stays read_string_stays
      intro: advances_trans advances_stays)

function (sequential) parse_exec_expr :: "Cursor \<Rightarrow> ir_error + ExprIr \<times> Cursor" where
  "parse_exec_expr c = res_bind (read_u8 c) (\<lambda>(t, c).
     if t = 1 then res_bind (read_string c) (\<lambda>(s, c). Inr (ColumnRef s, c))
     else if t = 2 then res_bind (parse_exec_literal c) (\<lambda>(l, c). Inr (Literal l, c))
     else if t = 3 then
       res_bind (read_u8 c) (\<lambda>(o1, c). res_bind (binary_op o1) (\<lambda>bop.
       res_bind (parse_exec_expr c) (\<lambda>(lhs, c). res_bind (parse_exec_expr c) (\<lambda>(rhs, c).
       Inr (Binary bop lhs rhs, c)))))
     else if t = 4 then
       res_bind (parse_output_type_hint c) (\<lambda>(h, c). res_bind (parse_exec_expr c) (\<lambda>(e, c).
       Inr (Cast h e, c)))
     else Inl (InvalidExecExpr t))"
  by pat_completeness auto

lemma parse_exec_expr_advances:
  "parse_exec_expr_dom c \<Longrightarrow> parse_exec_expr c = Inr (e, c') \<Longrightarrow> advances c c'"
proof (induction c arbitrary: e c' rule: parse_exec_expr.pinduct)
  case (1 c)
  obtain t c1 where t: "read_u8 c = Inr (t, c1)" and "advances c c1"
    using "1.prems" "1.hyps" by (auto simp: parse_exec_expr.psimps res_bind_Inr_iff dest: read_u8_advances)
  from "1.prems" "1.hyps" t
  consider (col) s where "read_string c1 = Inr (s, c')" | (lit) l where "parse_exec_literal c1 = Inr (l, c')"
    | (bin) o1 bop lhs rhs c2 c3 where "t = 3" "read_u8 c1 = Inr (o1, c2)" "binary_op o1 = Inr bop"
        "parse_exec_expr c2 = Inr (lhs, c3)" "parse_exec_expr c3 = Inr (rhs, c')"
    | (cast) h c2 e1 where "t = 4" "parse_output_type_hint c1 = Inr (h, c2)" "parse_exec_expr c2 = Inr (e1, c')"
    by (auto simp: parse_exec_expr.psimps res_bind_Inr_iff split: if_splits)
  then show ?case
  proof cases
    case col
    then show ?thesis using \<open>advances c c1\<close> by (auto intro: advances_stays dest: read_string_stays)
  next
    case lit
    then show ?thesis using \<open>advances c c1\<close> by (auto intro: advances_trans dest: parse_exec_literal_advances)
  next
    case bin
    have "advances c2 c3" by (rule "1.IH"(1) [OF t]) (use bin in auto)
    moreover have "advances c3 c'" by (rule "1.IH"(2) [OF t]) (use bin in auto)
    ultimately show ?thesis
      using \<open>advances c c1\<close> read_u8_advances [OF bin(2)] by (blast intro: advances_trans)
  next
    case cast
    have "advances c2 c'" by (rule "1.IH"(3) [OF t]) (use cast in auto)
    then show ?thesis
      using \<open>advances c c1\<close> parse_output_type_hint_advances [OF cast(2)] by (blast intro: advances_trans)
  qed
qed

definition left_over :: "Cursor \<Rightarrow> nat" where
  "left_over c = length (cur_bytes c) - pos c"

lemma advances_left: "advances c c' \<Longrightarrow> left_over c' < left_over c"
  by (auto simp: advances_def left_over_def)

lemma parse_exec_expr_total: "All parse_exec_expr_dom"
proof (relation "measure left_over")
  show "wf (measure left_over)" by simp
qed (auto dest!: read_u8_advances parse_output_type_hint_advances parse_exec_expr_advances
    intro!: advances_left intro: advances_trans)

termination parse_exec_expr
  by (rule parse_exec_expr_total)

declare parse_exec_expr.simps [simp del]


section \<open>The message\<close>

text \<open>A \<open>for _ in 0..n\<close> loop that pushes what it reads.\<close>

fun read_n :: "(Cursor \<Rightarrow> ir_error + 'a \<times> Cursor) \<Rightarrow> nat \<Rightarrow> Cursor \<Rightarrow> ir_error + 'a list \<times> Cursor" where
  "read_n rd 0 c = Inr ([], c)"
| "read_n rd (Suc n) c = res_bind (rd c) (\<lambda>(x, c).
     res_bind (read_n rd n c) (\<lambda>(xs, c). Inr (x # xs, c)))"

definition parse_group :: "Cursor \<Rightarrow> ir_error + GroupIr \<times> Cursor" where
  "parse_group c =
     res_bind (read_string c) (\<lambda>(name, c).
     res_bind (parse_exec_expr c) (\<lambda>(e, c).
     res_bind (parse_output_type_hint c) (\<lambda>(h, c).
     Inr (\<lparr>g_output_name = name, g_expr = e, g_output_type = Some h\<rparr>, c))))"

definition parse_agg :: "u32 \<Rightarrow> Cursor \<Rightarrow> ir_error + AggIr \<times> Cursor" where
  "parse_agg version c =
     res_bind (read_u8 c) (\<lambda>(t, c).
     res_bind (agg_func_of t) (\<lambda>func.
     res_bind (read_string c) (\<lambda>(name, c).
     res_bind (read_u32 c) (\<lambda>(arg_count, c).
     res_bind (read_n parse_exec_expr (unat arg_count) c) (\<lambda>(args, c).
     res_bind (if version \<ge> 2
               then res_bind (parse_output_type_hint c) (\<lambda>(h, c). Inr (Some h, c))
               else Inr (None, c)) (\<lambda>(h, c).
     Inr (\<lparr>a_func = func, a_output_name = name, a_args = args, a_output_type = h\<rparr>, c)))))))"

definition parse_order :: "Cursor \<Rightarrow> ir_error + OrderByIr \<times> Cursor" where
  "parse_order c =
     res_bind (read_string c) (\<lambda>(column, c).
     res_bind (read_u8 c) (\<lambda>(asc, c).
     res_bind (read_u8 c) (\<lambda>(nulls_first, c).
     Inr (\<lparr>o_column = column, o_asc = (asc \<noteq> 0), o_nulls_first = (nulls_first \<noteq> 0)\<rparr>, c))))"

definition read_vec :: "(Cursor \<Rightarrow> ir_error + 'a \<times> Cursor) \<Rightarrow> Cursor \<Rightarrow> ir_error + 'a list \<times> Cursor" where
  "read_vec rd c = res_bind (read_u32 c) (\<lambda>(n, c). read_n rd (unat n) c)"

definition parse_exec_ir_v1 :: "bytes \<Rightarrow> ir_error + ExecIr" where
  "parse_exec_ir_v1 bytes =
     res_bind (read_bytes 4 (new_cursor bytes)) (\<lambda>(magic, c).
     if magic \<noteq> string_bytes ''LEX1'' then Inl InvalidExecMagic
     else
     res_bind (read_u32 c) (\<lambda>(version, c).
     if version \<noteq> 1 \<and> version \<noteq> 2 \<and> version \<noteq> 3 \<and> version \<noteq> 4 then Inl (UnsupportedExecVersion version)
     else
     res_bind (read_u32 c) (\<lambda>(flags, c).
     res_bind (read_u32 c) (\<lambda>(filter_len, c).
     res_bind (read_bytes (unat filter_len) c) (\<lambda>(filter_ir, c).
     res_bind (read_vec read_string c) (\<lambda>(scan_projection, c).
     res_bind (if version \<ge> 3 then read_vec parse_group c else Inr ([], c)) (\<lambda>(groups, c).
     res_bind (read_vec (parse_agg version) c) (\<lambda>(aggs, c).
     res_bind (if version \<ge> 3 then read_vec parse_order c else Inr ([], c)) (\<lambda>(order_by, c).
     if \<not> is_eof c then Inl TrailingExecBytes
     else Inr \<lparr>x_filter_ir = filter_ir, x_scan_projection = scan_projection, x_groups = groups,
               x_aggs = aggs, x_order_by = order_by\<rparr>)))))))))"


section \<open>Translation to DataFusion\<close>

definition output_type_to_arrow :: "OutputTypeHint \<Rightarrow> DataType" where
  "output_type_to_arrow h =
     (case h of
        H_Bool \<Rightarrow> DT_Boolean | H_Int64 \<Rightarrow> DT_Int64 | H_Double \<Rightarrow> DT_Float64 | H_Date \<Rightarrow> DT_Date32
      | H_TimestampUs \<Rightarrow> DT_Timestamp TU_Microsecond | H_Utf8 \<Rightarrow> DT_Utf8
      | H_Decimal p s \<Rightarrow> DT_Decimal128 p s)"

definition literal_ir_to_scalar :: "LiteralIr \<Rightarrow> ScalarValue" where
  "literal_ir_to_scalar l =
     (case l of
        L_Null \<Rightarrow> SV_Null | L_Int64 v \<Rightarrow> SV_Int64 v | L_Double v \<Rightarrow> SV_Float64 v
      | L_Bool b \<Rightarrow> SV_Boolean b | L_String s \<Rightarrow> SV_Utf8 s | L_Decimal128 v p s \<Rightarrow> SV_Decimal128 v p s)"

fun exec_operator :: "BinaryOp \<Rightarrow> Operator" where
  "exec_operator B_Add = Op_Plus"
| "exec_operator B_Sub = Op_Minus"
| "exec_operator B_Mul = Op_Multiply"
| "exec_operator B_Div = Op_Divide"

primrec expr_ir_to_df_expr :: "ExprIr \<Rightarrow> Expr" where
  "expr_ir_to_df_expr (ColumnRef name) = E_Column name"
| "expr_ir_to_df_expr (Literal l) = E_Literal (literal_ir_to_scalar l)"
| "expr_ir_to_df_expr (Binary bop l r) =
     E_BinaryExpr (expr_ir_to_df_expr l) (exec_operator bop) (expr_ir_to_df_expr r)"
| "expr_ir_to_df_expr (Cast h e) = E_Cast (expr_ir_to_df_expr e) (output_type_to_arrow h)"

text \<open>An aggregate call with its alias.\<close>

datatype AggExpr = AggExpr AggFunc Expr string

definition agg_ir_to_df_expr :: "AggIr \<Rightarrow> ir_error + AggExpr" where
  "agg_ir_to_df_expr agg =
     (if a_func agg = F_CountStar then
        if a_args agg \<noteq> [] then Inl WrongAggArgs
        else Inr (AggExpr F_Count (E_Literal (SV_Int64 1)) (a_output_name agg))
      else case a_args agg of
        [e] \<Rightarrow> Inr (AggExpr (a_func agg) (expr_ir_to_df_expr e) (a_output_name agg))
      | _ \<Rightarrow> Inl WrongAggArgs)"

text \<open>
  The data frame that \<open>build_exec_df\<close> builds, as the calls it makes: scan with a filter and a
  projection, aggregate, select with casts, sort.  The parse of the filter is the parameter.
\<close>

record data_frame =
  df_filter :: "Expr option"
  df_projection :: "string list"
  df_groups :: "(Expr \<times> string) list"
  df_aggs :: "AggExpr list"
  df_select :: "(string \<times> DataType option) list"
  df_sort :: "(string \<times> bool \<times> bool) list"

definition build_exec_df :: "(bytes \<Rightarrow> ir_error + Expr) \<Rightarrow> bytes \<Rightarrow> ir_error + data_frame" where
  "build_exec_df parse_filter exec_ir =
     res_bind (parse_exec_ir_v1 exec_ir) (\<lambda>x.
     res_bind (if x_filter_ir x = [] then Inr None
               else res_bind (parse_filter (x_filter_ir x)) (\<lambda>e. Inr (Some e))) (\<lambda>flt.
     res_bind (res_map agg_ir_to_df_expr (x_aggs x)) (\<lambda>aggs.
     Inr \<lparr>df_filter = flt, df_projection = x_scan_projection x,
          df_groups = map (\<lambda>g. (expr_ir_to_df_expr (g_expr g), g_output_name g)) (x_groups x),
          df_aggs = aggs,
          df_select =
            map (\<lambda>g. (g_output_name g, map_option output_type_to_arrow (g_output_type g))) (x_groups x) @
            map (\<lambda>a. (a_output_name a, map_option output_type_to_arrow (a_output_type a))) (x_aggs x),
          df_sort = map (\<lambda>o1. (o_column o1, o_asc o1, o_nulls_first o1)) (x_order_by x)\<rparr>)))"

end
