(* ===== verification/Expr_IR.thy ===== *)
theory Expr_IR
  imports Duck_Types
begin

text \<open>
  The encoder of scalar expressions (\<open>src/lance_expr_ir.cpp\<close>).  A message is the magic
  \<open>LUE1\<close> followed by one node; a node is a tag byte and its fields, children are
  length-prefixed byte strings.  Functions that fill an \<open>out\<close> buffer they clear first are
  modelled by the buffer they leave; the \<open>Append\<close> functions take the buffer and return it
  extended.  An exception is the left summand.
\<close>

section \<open>Supported types\<close>

fun LanceExprIRSupportsLogicalType :: "LogicalType \<Rightarrow> bool" where
  "LanceExprIRSupportsLogicalType t =
     (type_id t \<in> {BOOLEAN, TINYINT, SMALLINT, INTEGER, BIGINT, UTINYINT, USMALLINT, UINTEGER,
        UBIGINT, FLOAT, DOUBLE, VARCHAR, DATE, TIMESTAMP, TIMESTAMP_SEC, TIMESTAMP_MS,
        TIMESTAMP_NS, TIMESTAMP_TZ, DECIMAL, STRUCT})"


section \<open>Tags\<close>

definition LANCE_EXPR_IR_MAGIC :: bytes where
  "LANCE_EXPR_IR_MAGIC = string_bytes ''LUE1''"

datatype LanceUpdateExprIRTag =
    Tag_COLUMN_REF | Tag_LITERAL | Tag_CAST | Tag_BINARY | Tag_COMPARISON | Tag_CONJUNCTION
  | Tag_NOT | Tag_SCALAR_FUNCTION | Tag_CASE | Tag_IS_NULL | Tag_IS_NOT_NULL | Tag_IN_LIST
  | Tag_LIKE | Tag_REGEXP

primrec tag_code :: "LanceUpdateExprIRTag \<Rightarrow> byte" where
  "tag_code Tag_COLUMN_REF = 1"
| "tag_code Tag_LITERAL = 2"
| "tag_code Tag_CAST = 3"
| "tag_code Tag_BINARY = 4"
| "tag_code Tag_COMPARISON = 5"
| "tag_code Tag_CONJUNCTION = 6"
| "tag_code Tag_NOT = 7"
| "tag_code Tag_SCALAR_FUNCTION = 8"
| "tag_code Tag_CASE = 9"
| "tag_code Tag_IS_NULL = 10"
| "tag_code Tag_IS_NOT_NULL = 11"
| "tag_code Tag_IN_LIST = 12"
| "tag_code Tag_LIKE = 13"
| "tag_code Tag_REGEXP = 14"

datatype LanceUpdateExprIRLiteralTag =
    Lit_NULL_VALUE | Lit_BOOL | Lit_I64 | Lit_U64 | Lit_F32 | Lit_F64 | Lit_STRING
  | Lit_DATE32 | Lit_TIMESTAMP | Lit_DECIMAL128

primrec literal_tag_code :: "LanceUpdateExprIRLiteralTag \<Rightarrow> byte" where
  "literal_tag_code Lit_NULL_VALUE = 0"
| "literal_tag_code Lit_BOOL = 1"
| "literal_tag_code Lit_I64 = 2"
| "literal_tag_code Lit_U64 = 3"
| "literal_tag_code Lit_F32 = 4"
| "literal_tag_code Lit_F64 = 5"
| "literal_tag_code Lit_STRING = 6"
| "literal_tag_code Lit_DATE32 = 7"
| "literal_tag_code Lit_TIMESTAMP = 8"
| "literal_tag_code Lit_DECIMAL128 = 9"

datatype LanceUpdateExprIRTimestampUnit =
  Unit_SECOND | Unit_MILLISECOND | Unit_MICROSECOND | Unit_NANOSECOND

primrec unit_code :: "LanceUpdateExprIRTimestampUnit \<Rightarrow> byte" where
  "unit_code Unit_SECOND = 0"
| "unit_code Unit_MILLISECOND = 1"
| "unit_code Unit_MICROSECOND = 2"
| "unit_code Unit_NANOSECOND = 3"

datatype LanceUpdateExprIRTypeTag =
    Ty_BOOL | Ty_INT8 | Ty_INT16 | Ty_INT32 | Ty_INT64 | Ty_UINT8 | Ty_UINT16 | Ty_UINT32
  | Ty_UINT64 | Ty_FLOAT32 | Ty_FLOAT64 | Ty_VARCHAR | Ty_DATE32 | Ty_TIMESTAMP | Ty_DECIMAL128

primrec type_tag_code :: "LanceUpdateExprIRTypeTag \<Rightarrow> byte" where
  "type_tag_code Ty_BOOL = 1"
| "type_tag_code Ty_INT8 = 2"
| "type_tag_code Ty_INT16 = 3"
| "type_tag_code Ty_INT32 = 4"
| "type_tag_code Ty_INT64 = 5"
| "type_tag_code Ty_UINT8 = 6"
| "type_tag_code Ty_UINT16 = 7"
| "type_tag_code Ty_UINT32 = 8"
| "type_tag_code Ty_UINT64 = 9"
| "type_tag_code Ty_FLOAT32 = 10"
| "type_tag_code Ty_FLOAT64 = 11"
| "type_tag_code Ty_VARCHAR = 12"
| "type_tag_code Ty_DATE32 = 13"
| "type_tag_code Ty_TIMESTAMP = 14"
| "type_tag_code Ty_DECIMAL128 = 15"

datatype LanceUpdateExprIRBinaryOp = Bin_ADD | Bin_SUB | Bin_MUL | Bin_DIV

primrec binary_op_code :: "LanceUpdateExprIRBinaryOp \<Rightarrow> byte" where
  "binary_op_code Bin_ADD = 1"
| "binary_op_code Bin_SUB = 2"
| "binary_op_code Bin_MUL = 3"
| "binary_op_code Bin_DIV = 4"

datatype LanceUpdateExprIRComparisonOp =
    Cmp_EQ | Cmp_NOT_EQ | Cmp_LT | Cmp_LT_EQ | Cmp_GT | Cmp_GT_EQ
  | Cmp_DISTINCT_FROM | Cmp_NOT_DISTINCT_FROM

primrec comparison_op_code :: "LanceUpdateExprIRComparisonOp \<Rightarrow> byte" where
  "comparison_op_code Cmp_EQ = 0"
| "comparison_op_code Cmp_NOT_EQ = 1"
| "comparison_op_code Cmp_LT = 2"
| "comparison_op_code Cmp_LT_EQ = 3"
| "comparison_op_code Cmp_GT = 4"
| "comparison_op_code Cmp_GT_EQ = 5"
| "comparison_op_code Cmp_DISTINCT_FROM = 6"
| "comparison_op_code Cmp_NOT_DISTINCT_FROM = 7"

datatype LanceUpdateExprIRConjunctionOp = Conj_AND | Conj_OR

primrec conjunction_op_code :: "LanceUpdateExprIRConjunctionOp \<Rightarrow> byte" where
  "conjunction_op_code Conj_AND = 1"
| "conjunction_op_code Conj_OR = 2"

definition LANCE_EXPR_IR_LIKE_FLAG_CASE_INSENSITIVE :: byte where
  "LANCE_EXPR_IR_LIKE_FLAG_CASE_INSENSITIVE = 1"

definition LANCE_EXPR_IR_LIKE_FLAG_HAS_ESCAPE :: byte where
  "LANCE_EXPR_IR_LIKE_FLAG_HAS_ESCAPE = 2"

definition LANCE_EXPR_IR_REGEXP_MODE_PARTIAL_MATCH :: byte where
  "LANCE_EXPR_IR_REGEXP_MODE_PARTIAL_MATCH = 0"

definition LANCE_EXPR_IR_REGEXP_MODE_FULL_MATCH :: byte where
  "LANCE_EXPR_IR_REGEXP_MODE_FULL_MATCH = 1"


section \<open>Appending to the buffer\<close>

definition AppendU8 :: "bytes \<Rightarrow> byte \<Rightarrow> bytes" where
  "AppendU8 out v = out @ [v]"

definition AppendU32 :: "bytes \<Rightarrow> u32 \<Rightarrow> bytes" where
  "AppendU32 out v = out @
     [ucast (v AND 0xFF), ucast (drop_bit 8 v AND 0xFF),
      ucast (drop_bit 16 v AND 0xFF), ucast (drop_bit 24 v AND 0xFF)]"

text \<open>A signed 32-bit value is carried as its two's complement word; the cast is the identity.\<close>

definition AppendI32 :: "bytes \<Rightarrow> u32 \<Rightarrow> bytes" where
  "AppendI32 out v = AppendU32 out v"

definition AppendU64 :: "bytes \<Rightarrow> u64 \<Rightarrow> bytes" where
  "AppendU64 out v = out @ map (\<lambda>i. ucast (drop_bit (8 * i) v AND 0xFF)) [0..<8]"

definition AppendI64 :: "bytes \<Rightarrow> u64 \<Rightarrow> bytes" where
  "AppendI64 out v = AppendU64 out v"

text \<open>\<open>hugeint_t\<close> is written as its lower and then its upper 64 bits.\<close>

definition AppendI128 :: "bytes \<Rightarrow> i128 \<Rightarrow> bytes" where
  "AppendI128 out v = AppendU64 (AppendU64 out (ucast v)) (ucast (drop_bit 64 v))"

definition AppendF32 :: "bytes \<Rightarrow> u32 \<Rightarrow> bytes" where
  "AppendF32 out bits = AppendU32 out bits"

definition AppendF64 :: "bytes \<Rightarrow> u64 \<Rightarrow> bytes" where
  "AppendF64 out bits = AppendU64 out bits"

definition AppendBytes :: "bytes \<Rightarrow> bytes \<Rightarrow> bytes" where
  "AppendBytes out bs = out @ bs"

definition AppendLenPrefixed :: "bytes \<Rightarrow> bytes \<Rightarrow> exn + bytes" where
  "AppendLenPrefixed out bs =
     (if length bs > u32_max
      then Inl (InvalidInputException ''UpdateExprIR payload too large'')
      else Inr (AppendBytes (AppendU32 out (word_of_nat (length bs))) bs))"

definition AppendLenPrefixedString :: "bytes \<Rightarrow> string \<Rightarrow> exn + bytes" where
  "AppendLenPrefixedString out s = AppendLenPrefixed out (string_bytes s)"

text \<open>The \<open>for\<close> loops that append one length-prefixed child after the other.\<close>

fun append_all :: "bytes \<Rightarrow> bytes list \<Rightarrow> exn + bytes" where
  "append_all out [] = Inr out"
| "append_all out (c # cs) = res_bind (AppendLenPrefixed out c) (\<lambda>out. append_all out cs)"

definition EncodeMessage :: "bytes \<Rightarrow> bytes" where
  "EncodeMessage root = LANCE_EXPR_IR_MAGIC @ root"


section \<open>Column references\<close>

definition EncodeColumnRef :: "string list \<Rightarrow> exn + bytes" where
  "EncodeColumnRef segments =
     (if segments = [] then Inl (NotImplementedException
        ''Lance expression IR does not support empty column paths'')
      else if [] \<in> set segments then Inl (NotImplementedException
        ''Lance expression IR does not support empty column path segments'')
      else let out = AppendU8 [] (tag_code Tag_COLUMN_REF) in
        if length segments > u32_max
        then Inl (InvalidInputException ''ExprIR column path too deep'')
        else append_all (AppendU32 out (word_of_nat (length segments)))
               (map string_bytes segments))"

definition EncodeColumnRefName :: "string \<Rightarrow> exn + bytes" where
  "EncodeColumnRefName name = EncodeColumnRef [name]"


section \<open>Literals\<close>

text \<open>
  A decimal is encoded from its printed form.  \<open>decimal_digits\<close> is the scanning loop, with the
  accumulator, \<open>seen_dot\<close> and \<open>frac_digits\<close> as its state; \<open>decimal_pad\<close> the loop that supplies
  the missing fractional zeros.
\<close>

fun decimal_digits ::
  "duckdb \<Rightarrow> byte \<Rightarrow> string \<Rightarrow> i128 \<Rightarrow> bool \<Rightarrow> byte \<Rightarrow> exn + i128 \<times> byte" where
  "decimal_digits db scale [] acc seen_dot frac = Inr (acc, frac)"
| "decimal_digits db scale (c # cs) acc seen_dot frac =
     (if c = CHR ''.'' then
        (if seen_dot then Inl (NotImplementedException
           ''Lance UPDATE does not support malformed DECIMAL literals'')
         else decimal_digits db scale cs acc True frac)
      else if \<not> is_digit c then Inl (NotImplementedException
        ''Lance UPDATE does not support malformed DECIMAL literals'')
      else case HugeMul db acc 10 of None \<Rightarrow> Inl OutOfRange | Some m \<Rightarrow>
        (case HugeAdd db m (word_of_nat (digit_val c)) of None \<Rightarrow> Inl OutOfRange | Some acc' \<Rightarrow>
          if seen_dot then
            (if frac \<ge> scale then Inl (NotImplementedException
               ''Lance UPDATE does not support DECIMAL literals with excess fractional digits'')
             else decimal_digits db scale cs acc' seen_dot (frac + 1))
          else decimal_digits db scale cs acc' seen_dot frac))"

function decimal_pad :: "duckdb \<Rightarrow> byte \<Rightarrow> i128 \<Rightarrow> byte \<Rightarrow> exn + i128" where
  "decimal_pad db scale acc frac =
     (if frac < scale then
        (case HugeMul db acc 10 of None \<Rightarrow> Inl OutOfRange
         | Some acc' \<Rightarrow> decimal_pad db scale acc' (frac + 1))
      else Inr acc)"
  by pat_completeness auto
termination
proof (relation "measure (\<lambda>(db, scale, acc, frac). unat scale - unat frac)", goal_cases)
  case 1
  then show ?case by simp
next
  case (2 db scale acc frac acc')
  then have "unat (frac + 1) = Suc (unat frac)" and "unat frac < unat scale"
    by (simp_all add: unat_plus_one word_less_nat_alt)
  then show ?case by simp
qed

declare decimal_pad.simps [simp del]

definition decimal_unscaled :: "duckdb \<Rightarrow> byte \<Rightarrow> string \<Rightarrow> exn + i128" where
  "decimal_unscaled db scale str =
     (let signed = (str \<noteq> [] \<and> (hd str = CHR ''-'' \<or> hd str = CHR ''+''));
          neg = (signed \<and> hd str = CHR ''-'')
      in res_bind (decimal_digits db scale (if signed then tl str else str) 0 False 0)
           (\<lambda>(acc, frac). res_bind (decimal_pad db scale acc frac)
             (\<lambda>acc. if neg then (case HugeNeg db acc of None \<Rightarrow> Inl OutOfRange | Some d \<Rightarrow> Inr d)
                     else Inr acc)))"

text \<open>The literal tag of the buffer every branch starts from.\<close>

definition literal_head :: "LanceUpdateExprIRLiteralTag \<Rightarrow> bytes" where
  "literal_head t = AppendU8 (AppendU8 [] (tag_code Tag_LITERAL)) (literal_tag_code t)"

definition timestamp_literal ::
  "duckdb \<Rightarrow> LanceUpdateExprIRTimestampUnit \<Rightarrow> u64 \<Rightarrow> exn + bytes" where
  "timestamp_literal db unit v =
     (if \<not> TimestampIsFinite db v then Inl (NotImplementedException
        ''Lance UPDATE does not support infinite TIMESTAMP literals'')
      else Inr (AppendI64 (AppendU8 (literal_head Lit_TIMESTAMP) (unit_code unit)) v))"

fun EncodeLiteral :: "duckdb \<Rightarrow> Value \<Rightarrow> exn + bytes" where
  "EncodeLiteral db (NullValue t) = Inr (literal_head Lit_NULL_VALUE)"
| "EncodeLiteral db (BooleanValue b) = Inr (AppendU8 (literal_head Lit_BOOL) (if b then 1 else 0))"
| "EncodeLiteral db (TinyIntValue v) = Inr (AppendI64 (literal_head Lit_I64) (scast v))"
| "EncodeLiteral db (SmallIntValue v) = Inr (AppendI64 (literal_head Lit_I64) (scast v))"
| "EncodeLiteral db (IntegerValue v) = Inr (AppendI64 (literal_head Lit_I64) (scast v))"
| "EncodeLiteral db (BigIntValue v) = Inr (AppendI64 (literal_head Lit_I64) v)"
| "EncodeLiteral db (UTinyIntValue v) = Inr (AppendU64 (literal_head Lit_U64) (ucast v))"
| "EncodeLiteral db (USmallIntValue v) = Inr (AppendU64 (literal_head Lit_U64) (ucast v))"
| "EncodeLiteral db (UIntegerValue v) = Inr (AppendU64 (literal_head Lit_U64) (ucast v))"
| "EncodeLiteral db (UBigIntValue v) = Inr (AppendU64 (literal_head Lit_U64) v)"
| "EncodeLiteral db (FloatValue v) = Inr (AppendF32 (literal_head Lit_F32) v)"
| "EncodeLiteral db (DoubleValue v) = Inr (AppendF64 (literal_head Lit_F64) v)"
| "EncodeLiteral db (VarcharValue s) = AppendLenPrefixedString (literal_head Lit_STRING) s"
| "EncodeLiteral db (DateValue d) =
     (if \<not> DateIsFinite db d then Inl (NotImplementedException
        ''Lance UPDATE does not support infinite DATE literals'')
      else Inr (AppendI32 (literal_head Lit_DATE32) d))"
| "EncodeLiteral db (TimestampValue v) = timestamp_literal db Unit_MICROSECOND v"
| "EncodeLiteral db (TimestampSecValue v) = timestamp_literal db Unit_SECOND v"
| "EncodeLiteral db (TimestampMsValue v) = timestamp_literal db Unit_MILLISECOND v"
| "EncodeLiteral db (TimestampNsValue v) = timestamp_literal db Unit_NANOSECOND v"
| "EncodeLiteral db (TimestampTzValue v) = timestamp_literal db Unit_MICROSECOND v"
| "EncodeLiteral db (DecimalValue precision scale_u8 v) =
     (if scale_u8 > 127 then Inl (NotImplementedException
        ''Lance UPDATE does not support DECIMAL scale > 127'')
      else res_bind
        (decimal_unscaled db scale_u8 (DecimalToString db (DecimalValue precision scale_u8 v)))
        (\<lambda>dec. Inr (AppendI128
           (AppendU8 (AppendU8 (literal_head Lit_DECIMAL128) precision) scale_u8) dec)))"
| "EncodeLiteral db (OtherValue t) = Inl (NotImplementedException
     ''Lance UPDATE does not support literal type %s in SET expressions'')"


section \<open>Cast targets and comparison operators\<close>

definition type_head :: "LanceUpdateExprIRTypeTag \<Rightarrow> bytes" where
  "type_head t = AppendU8 [] (type_tag_code t)"

fun EncodeTypeHint :: "LogicalType \<Rightarrow> exn + bytes" where
  "EncodeTypeHint (SimpleType BOOLEAN) = Inr (type_head Ty_BOOL)"
| "EncodeTypeHint (SimpleType TINYINT) = Inr (type_head Ty_INT8)"
| "EncodeTypeHint (SimpleType SMALLINT) = Inr (type_head Ty_INT16)"
| "EncodeTypeHint (SimpleType INTEGER) = Inr (type_head Ty_INT32)"
| "EncodeTypeHint (SimpleType BIGINT) = Inr (type_head Ty_INT64)"
| "EncodeTypeHint (SimpleType UTINYINT) = Inr (type_head Ty_UINT8)"
| "EncodeTypeHint (SimpleType USMALLINT) = Inr (type_head Ty_UINT16)"
| "EncodeTypeHint (SimpleType UINTEGER) = Inr (type_head Ty_UINT32)"
| "EncodeTypeHint (SimpleType UBIGINT) = Inr (type_head Ty_UINT64)"
| "EncodeTypeHint (SimpleType FLOAT) = Inr (type_head Ty_FLOAT32)"
| "EncodeTypeHint (SimpleType DOUBLE) = Inr (type_head Ty_FLOAT64)"
| "EncodeTypeHint (SimpleType VARCHAR) = Inr (type_head Ty_VARCHAR)"
| "EncodeTypeHint (SimpleType DATE) = Inr (type_head Ty_DATE32)"
| "EncodeTypeHint (SimpleType TIMESTAMP) =
     Inr (AppendU8 (type_head Ty_TIMESTAMP) (unit_code Unit_MICROSECOND))"
| "EncodeTypeHint (SimpleType TIMESTAMP_SEC) =
     Inr (AppendU8 (type_head Ty_TIMESTAMP) (unit_code Unit_SECOND))"
| "EncodeTypeHint (SimpleType TIMESTAMP_MS) =
     Inr (AppendU8 (type_head Ty_TIMESTAMP) (unit_code Unit_MILLISECOND))"
| "EncodeTypeHint (SimpleType TIMESTAMP_NS) =
     Inr (AppendU8 (type_head Ty_TIMESTAMP) (unit_code Unit_NANOSECOND))"
| "EncodeTypeHint (SimpleType TIMESTAMP_TZ) =
     Inr (AppendU8 (type_head Ty_TIMESTAMP) (unit_code Unit_MICROSECOND))"
| "EncodeTypeHint (DecimalType precision scale_u8) =
     (if scale_u8 > 127 then Inl (NotImplementedException
        ''Lance UPDATE does not support DECIMAL scale > 127'')
      else Inr (AppendU8 (AppendU8 (type_head Ty_DECIMAL128) precision) scale_u8))"
| "EncodeTypeHint t = Inl (NotImplementedException
     ''Lance UPDATE does not support cast target type %s in SET expressions'')"

fun EncodeComparisonOp :: "ExpressionType \<Rightarrow> exn + byte" where
  "EncodeComparisonOp COMPARE_EQUAL = Inr (comparison_op_code Cmp_EQ)"
| "EncodeComparisonOp COMPARE_NOTEQUAL = Inr (comparison_op_code Cmp_NOT_EQ)"
| "EncodeComparisonOp COMPARE_LESSTHAN = Inr (comparison_op_code Cmp_LT)"
| "EncodeComparisonOp COMPARE_LESSTHANOREQUALTO = Inr (comparison_op_code Cmp_LT_EQ)"
| "EncodeComparisonOp COMPARE_GREATERTHAN = Inr (comparison_op_code Cmp_GT)"
| "EncodeComparisonOp COMPARE_GREATERTHANOREQUALTO = Inr (comparison_op_code Cmp_GT_EQ)"
| "EncodeComparisonOp COMPARE_DISTINCT_FROM = Inr (comparison_op_code Cmp_DISTINCT_FROM)"
| "EncodeComparisonOp COMPARE_NOT_DISTINCT_FROM = Inr (comparison_op_code Cmp_NOT_DISTINCT_FROM)"
| "EncodeComparisonOp t = Inl (NotImplementedException
     ''Lance UPDATE does not support comparison operator %s in SET expressions'')"

definition MapBinaryOpName :: "duckdb \<Rightarrow> string \<Rightarrow> exn + LanceUpdateExprIRBinaryOp" where
  "MapBinaryOpName db name =
     (let lowered = StringLower db name in
      if lowered = ''+'' \<or> lowered = ''add'' then Inr Bin_ADD
      else if lowered = ''-'' \<or> lowered = ''subtract'' then Inr Bin_SUB
      else if lowered = ''*'' \<or> lowered = ''multiply'' then Inr Bin_MUL
      else if lowered = ''/'' \<or> lowered = ''divide'' then Inr Bin_DIV
      else Inl (NotImplementedException
        ''Lance UPDATE does not support scalar function %s in SET expressions''))"


section \<open>Nodes\<close>

definition EncodeUnaryNode :: "LanceUpdateExprIRTag \<Rightarrow> bytes \<Rightarrow> exn + bytes" where
  "EncodeUnaryNode tag child = AppendLenPrefixed (AppendU8 [] (tag_code tag)) child"

definition EncodeBinaryNode ::
  "LanceUpdateExprIRBinaryOp \<Rightarrow> bytes \<Rightarrow> bytes \<Rightarrow> exn + bytes" where
  "EncodeBinaryNode op lhs rhs =
     res_bind (AppendLenPrefixed
       (AppendU8 (AppendU8 [] (tag_code Tag_BINARY)) (binary_op_code op)) lhs)
       (\<lambda>out. AppendLenPrefixed out rhs)"

definition EncodeComparisonNode :: "byte \<Rightarrow> bytes \<Rightarrow> bytes \<Rightarrow> exn + bytes" where
  "EncodeComparisonNode op lhs rhs =
     res_bind (AppendLenPrefixed (AppendU8 (AppendU8 [] (tag_code Tag_COMPARISON)) op) lhs)
       (\<lambda>out. AppendLenPrefixed out rhs)"

definition EncodeConjunctionNode ::
  "LanceUpdateExprIRConjunctionOp \<Rightarrow> bytes list \<Rightarrow> exn + bytes" where
  "EncodeConjunctionNode op children =
     (if children = [] then Inl (InternalException ''UpdateExprIR conjunction requires children'')
      else let out = AppendU8 (AppendU8 [] (tag_code Tag_CONJUNCTION)) (conjunction_op_code op) in
        if length children > u32_max
        then Inl (InvalidInputException ''UpdateExprIR conjunction too large'')
        else append_all (AppendU32 out (word_of_nat (length children))) children)"

definition EncodeFunctionNode :: "duckdb \<Rightarrow> string \<Rightarrow> bytes list \<Rightarrow> exn + bytes" where
  "EncodeFunctionNode db name args =
     (if length args > u32_max
      then Inl (InvalidInputException ''UpdateExprIR function arity too large'')
      else res_bind
        (AppendLenPrefixedString (AppendU8 [] (tag_code Tag_SCALAR_FUNCTION)) (StringLower db name))
        (\<lambda>out. append_all (AppendU32 out (word_of_nat (length args))) args))"

definition EncodeLikeNode ::
  "bool \<Rightarrow> bool \<Rightarrow> byte \<Rightarrow> bytes \<Rightarrow> bytes \<Rightarrow> exn + bytes" where
  "EncodeLikeNode case_insensitive has_escape escape_char expr pat =
     (let flags = (if case_insensitive then LANCE_EXPR_IR_LIKE_FLAG_CASE_INSENSITIVE else 0)
                  OR (if has_escape then LANCE_EXPR_IR_LIKE_FLAG_HAS_ESCAPE else 0)
      in res_bind (AppendLenPrefixed (AppendU8 (AppendU8 [] (tag_code Tag_LIKE)) flags) expr)
           (\<lambda>out. res_bind (AppendLenPrefixed out pat)
             (\<lambda>out. Inr (if has_escape then AppendU8 out escape_char else out))))"

definition EncodeRegexpNode ::
  "byte \<Rightarrow> bool \<Rightarrow> bytes \<Rightarrow> bytes \<Rightarrow> bytes \<Rightarrow> exn + bytes" where
  "EncodeRegexpNode mode has_flags expr pat flags =
     (if mode \<noteq> LANCE_EXPR_IR_REGEXP_MODE_PARTIAL_MATCH \<and>
         mode \<noteq> LANCE_EXPR_IR_REGEXP_MODE_FULL_MATCH
      then Inl (InvalidInputException ''ExprIR regexp mode is invalid'')
      else res_bind
        (AppendLenPrefixed
          (AppendU8 (AppendU8 (AppendU8 [] (tag_code Tag_REGEXP)) mode) (if has_flags then 1 else 0))
          expr)
        (\<lambda>out. res_bind (AppendLenPrefixed out pat)
          (\<lambda>out. if has_flags then AppendLenPrefixed out flags else Inr out)))"

text \<open>The loop over the WHEN/THEN pairs.\<close>

fun append_checks :: "bytes \<Rightarrow> (bytes \<times> bytes) list \<Rightarrow> exn + bytes" where
  "append_checks out [] = Inr out"
| "append_checks out ((w, t) # cs) =
     res_bind (AppendLenPrefixed out w) (\<lambda>out. res_bind (AppendLenPrefixed out t)
       (\<lambda>out. append_checks out cs))"

definition EncodeCaseNode :: "(bytes \<times> bytes) list \<Rightarrow> bytes option \<Rightarrow> exn + bytes" where
  "EncodeCaseNode checks else_ir =
     (if checks = [] then Inl (NotImplementedException
        ''Lance UPDATE does not support CASE without WHEN clauses'')
      else if length checks > u32_max
      then Inl (InvalidInputException ''UpdateExprIR CASE too large'')
      else res_bind
        (append_checks
          (AppendU32 (AppendU8 [] (tag_code Tag_CASE)) (word_of_nat (length checks))) checks)
        (\<lambda>out. case else_ir of
            None \<Rightarrow> Inr (AppendU8 out 0)
          | Some e \<Rightarrow> AppendLenPrefixed (AppendU8 out 1) e))"

text \<open>
  The IN node, as the update encoder writes it inline: the element count is cast to
  \<open>uint32_t\<close> without a check, unlike in \<open>TryEncodeLanceExprIRInList\<close> below.
\<close>

definition in_list_node :: "bool \<Rightarrow> bytes \<Rightarrow> bytes list \<Rightarrow> exn + bytes" where
  "in_list_node negated lhs items =
     res_bind (AppendLenPrefixed
       (AppendU8 (AppendU8 [] (tag_code Tag_IN_LIST)) (if negated then 1 else 0)) lhs)
       (\<lambda>out. append_all (AppendU32 out (word_of_nat (length items))) items)"


section \<open>The non-throwing interface\<close>

definition TryEncodeLanceExprIRColumnRef :: "string list \<Rightarrow> (exn, bytes) outcome" where
  "TryEncodeLanceExprIRColumnRef segments = catch_all (EncodeColumnRef segments)"

definition TryEncodeLanceExprIRColumnRefName :: "string \<Rightarrow> (exn, bytes) outcome" where
  "TryEncodeLanceExprIRColumnRefName name = catch_all (EncodeColumnRefName name)"

definition TryEncodeLanceExprIRLiteral :: "duckdb \<Rightarrow> Value \<Rightarrow> (exn, bytes) outcome" where
  "TryEncodeLanceExprIRLiteral db v = catch_all (EncodeLiteral db v)"

definition TryEncodeLanceExprIRComparisonOp :: "ExpressionType \<Rightarrow> (exn, byte) outcome" where
  "TryEncodeLanceExprIRComparisonOp t = catch_all (EncodeComparisonOp t)"

definition TryEncodeLanceExprIRAnd :: "bytes list \<Rightarrow> (exn, bytes) outcome" where
  "TryEncodeLanceExprIRAnd children = catch_all (EncodeConjunctionNode Conj_AND children)"

definition TryEncodeLanceExprIROr :: "bytes list \<Rightarrow> (exn, bytes) outcome" where
  "TryEncodeLanceExprIROr children = catch_all (EncodeConjunctionNode Conj_OR children)"

definition TryEncodeLanceExprIRNot :: "bytes \<Rightarrow> (exn, bytes) outcome" where
  "TryEncodeLanceExprIRNot child = catch_all (EncodeUnaryNode Tag_NOT child)"

definition TryEncodeLanceExprIRIsNull :: "bytes \<Rightarrow> (exn, bytes) outcome" where
  "TryEncodeLanceExprIRIsNull child = catch_all (EncodeUnaryNode Tag_IS_NULL child)"

definition TryEncodeLanceExprIRIsNotNull :: "bytes \<Rightarrow> (exn, bytes) outcome" where
  "TryEncodeLanceExprIRIsNotNull child = catch_all (EncodeUnaryNode Tag_IS_NOT_NULL child)"

definition TryEncodeLanceExprIRComparison ::
  "byte \<Rightarrow> bytes \<Rightarrow> bytes \<Rightarrow> (exn, bytes) outcome" where
  "TryEncodeLanceExprIRComparison op l r = catch_all (EncodeComparisonNode op l r)"

definition TryEncodeLanceExprIRInList ::
  "bool \<Rightarrow> bytes \<Rightarrow> bytes list \<Rightarrow> (exn, bytes) outcome" where
  "TryEncodeLanceExprIRInList negated expr list =
     try_bind (catch_all (AppendLenPrefixed
       (AppendU8 (AppendU8 [] (tag_code Tag_IN_LIST)) (if negated then 1 else 0)) expr))
       (\<lambda>out. if length list > u32_max then Refused
               else catch_all (append_all (AppendU32 out (word_of_nat (length list))) list))"

definition TryEncodeLanceExprIRScalarFunction ::
  "duckdb \<Rightarrow> string \<Rightarrow> bytes list \<Rightarrow> (exn, bytes) outcome" where
  "TryEncodeLanceExprIRScalarFunction db name args = catch_all (EncodeFunctionNode db name args)"

definition TryEncodeLanceExprIRLike ::
  "bool \<Rightarrow> bool \<Rightarrow> byte \<Rightarrow> bytes \<Rightarrow> bytes \<Rightarrow> (exn, bytes) outcome" where
  "TryEncodeLanceExprIRLike ci esc c expr pat = catch_all (EncodeLikeNode ci esc c expr pat)"

definition TryEncodeLanceExprIRRegexp ::
  "byte \<Rightarrow> bool \<Rightarrow> bytes \<Rightarrow> bytes \<Rightarrow> bytes \<Rightarrow> (exn, bytes) outcome" where
  "TryEncodeLanceExprIRRegexp mode has_flags expr pat flags =
     catch_all (EncodeRegexpNode mode has_flags expr pat flags)"

definition TryWrapLanceExprIRMessage :: "bytes \<Rightarrow> (exn, bytes) outcome" where
  "TryWrapLanceExprIRMessage root = Done (EncodeMessage root)"


section \<open>Update expressions\<close>

definition ResolveBaseColumnName :: "LogicalGet \<Rightarrow> LanceScanBindData \<Rightarrow> nat \<Rightarrow> exn + string" where
  "ResolveBaseColumnName scan_get scan_bind col =
     (let column_ids = get_column_ids scan_get in
      if col \<ge> length column_ids
      then Inl (InternalException ''Lance UPDATE expression references invalid column'')
      else let col_index = column_ids ! col in
        if IsVirtualColumn col_index then Inl (NotImplementedException
          ''Lance UPDATE does not support expressions referencing virtual columns'')
        else let col_id = GetPrimaryIndex col_index in
          if col_id \<ge> length (names scan_bind)
          then Inl (InternalException ''Lance UPDATE expression column id is out of range'')
          else let name = names scan_bind ! col_id in
            if name = [] then Inl (NotImplementedException
              ''Lance UPDATE does not support unnamed columns in SET expressions'')
            else Inr name)"

fun op_children :: "LogicalOperator \<Rightarrow> LogicalOperator option list" where
  "op_children (LogicalFilterOp cs) = cs"
| "op_children (LogicalProjectionOp t es cs) = cs"
| "op_children LogicalGetOp = []"
| "op_children (OtherOperator k cs) = cs"

fun GetSingleChildScope :: "LogicalOperator \<Rightarrow> exn + LogicalOperator" where
  "GetSingleChildScope op =
     (case op_children op of
        Some c # _ \<Rightarrow> Inr c
      | _ \<Rightarrow> Inl (InternalException ''Lance UPDATE scope operator has no child''))"

lemma GetSingleChildScope_smaller:
  "GetSingleChildScope op = Inr c \<Longrightarrow> size c < size op"
  by (cases op) (auto split: list.splits option.splits)

text \<open>The two-argument functions written as a binary operator node.\<close>

definition is_arithmetic_name :: "string \<Rightarrow> bool" where
  "is_arithmetic_name lowered \<longleftrightarrow>
     lowered \<in> {''+'', ''add'', ''-'', ''subtract'', ''*'', ''multiply'', ''/'', ''divide''}"

function (sequential)
  EncodeUpdateExprNode ::
    "duckdb \<Rightarrow> LogicalGet \<Rightarrow> LanceScanBindData \<Rightarrow> LogicalOperator \<Rightarrow> Expression \<Rightarrow> exn + bytes" and
  EncodeScopeColumnRef ::
    "duckdb \<Rightarrow> LogicalGet \<Rightarrow> LanceScanBindData \<Rightarrow> LogicalOperator \<Rightarrow> nat \<Rightarrow> exn + bytes" and
  EncodeScopeColumnBinding ::
    "duckdb \<Rightarrow> LogicalGet \<Rightarrow> LanceScanBindData \<Rightarrow> LogicalOperator \<Rightarrow> ColumnBinding \<Rightarrow> exn + bytes"
where
  "EncodeUpdateExprNode db g b scope (BoundColumnRef t binding depth) =
     EncodeScopeColumnBinding db g b scope binding"
| "EncodeUpdateExprNode db g b scope (BoundRef t alias index) =
     (if alias \<noteq> [] then EncodeColumnRefName alias
      else EncodeScopeColumnRef db g b scope index)"
| "EncodeUpdateExprNode db g b scope (BoundConstant v) = EncodeLiteral db v"
| "EncodeUpdateExprNode db g b scope (BoundCast t try_cast child) =
     (case child of
        None \<Rightarrow> Inl (InternalException ''Lance UPDATE cast expression is missing child'')
      | Some c \<Rightarrow>
          if try_cast then Inl (NotImplementedException
            ''Lance UPDATE does not support TRY_CAST in SET expressions'')
          else res_bind (EncodeUpdateExprNode db g b scope c) (\<lambda>child_ir.
            res_bind (EncodeTypeHint t) (\<lambda>type_ir.
              AppendLenPrefixed (AppendBytes (AppendU8 [] (tag_code Tag_CAST)) type_ir) child_ir)))"
| "EncodeUpdateExprNode db g b scope (BoundFunction t name children) =
     (if length children = 2 \<and> is_arithmetic_name (StringLower db name)
      then res_bind (res_map (\<lambda>c. res_bind (deref c) (EncodeUpdateExprNode db g b scope)) children)
        (\<lambda>irs. res_bind (MapBinaryOpName db name) (\<lambda>op. EncodeBinaryNode op (irs ! 0) (irs ! 1)))
      else res_bind
        (res_map (\<lambda>child. case child of
             None \<Rightarrow> Inl (InternalException ''Lance UPDATE function expression has null child'')
           | Some c \<Rightarrow> EncodeUpdateExprNode db g b scope c) children)
        (\<lambda>args. EncodeFunctionNode db name args))"
| "EncodeUpdateExprNode db g b scope (BoundOperator t k children) =
     (if k = OPERATOR_NOT then
        (case children of
           [Some c] \<Rightarrow> res_bind (EncodeUpdateExprNode db g b scope c) (EncodeUnaryNode Tag_NOT)
         | _ \<Rightarrow> Inl (InternalException ''Lance UPDATE NOT expression is malformed''))
      else if k = OPERATOR_IS_NULL \<or> k = OPERATOR_IS_NOT_NULL then
        (case children of
           [Some c] \<Rightarrow> res_bind (EncodeUpdateExprNode db g b scope c)
             (EncodeUnaryNode (if k = OPERATOR_IS_NULL then Tag_IS_NULL else Tag_IS_NOT_NULL))
         | _ \<Rightarrow> Inl (InternalException ''Lance UPDATE IS NULL expression is malformed''))
      else if k = COMPARE_IN \<or> k = COMPARE_NOT_IN then
        (case children of
           Some c # item # items \<Rightarrow>
             res_bind (EncodeUpdateExprNode db g b scope c) (\<lambda>lhs_ir.
             res_bind (AppendLenPrefixed
               (AppendU8 (AppendU8 [] (tag_code Tag_IN_LIST)) (if k = COMPARE_NOT_IN then 1 else 0))
               lhs_ir) (\<lambda>out.
             res_foldl (\<lambda>out child. res_bind (case child of
                 None \<Rightarrow> Inl (InternalException
                   ''Lance UPDATE IN expression has null list element'')
               | Some e \<Rightarrow> EncodeUpdateExprNode db g b scope e) (AppendLenPrefixed out))
               (AppendU32 out (word_of_nat (length children - 1))) (item # items)))
         | _ \<Rightarrow> Inl (InternalException ''Lance UPDATE IN expression is malformed''))
      else Inl (NotImplementedException
        ''Lance UPDATE does not support operator %s in SET expressions''))"
| "EncodeUpdateExprNode db g b scope (BoundComparison k l r) =
     res_bind (res_bind (deref l) (EncodeUpdateExprNode db g b scope)) (\<lambda>lhs_ir.
     res_bind (res_bind (deref r) (EncodeUpdateExprNode db g b scope)) (\<lambda>rhs_ir.
     res_bind (EncodeComparisonOp k) (\<lambda>op. EncodeComparisonNode op lhs_ir rhs_ir)))"
| "EncodeUpdateExprNode db g b scope (BoundConjunction k children) =
     (if k \<noteq> CONJUNCTION_AND \<and> k \<noteq> CONJUNCTION_OR then Inl (NotImplementedException
        ''Lance UPDATE does not support conjunction %s in SET expressions'')
      else res_bind
        (res_map (\<lambda>child. case child of
             None \<Rightarrow> Inl (InternalException ''Lance UPDATE conjunction expression has null child'')
           | Some c \<Rightarrow> EncodeUpdateExprNode db g b scope c) children)
        (EncodeConjunctionNode (if k = CONJUNCTION_AND then Conj_AND else Conj_OR)))"
| "EncodeUpdateExprNode db g b scope (BoundCase t checks else_expr) =
     res_bind
       (res_map (\<lambda>check. case check of
            (Some w, Some th) \<Rightarrow>
              res_bind (EncodeUpdateExprNode db g b scope w) (\<lambda>when_ir.
              res_bind (EncodeUpdateExprNode db g b scope th) (\<lambda>then_ir.
              Inr (when_ir, then_ir)))
          | _ \<Rightarrow> Inl (InternalException ''Lance UPDATE CASE expression has null branch'')) checks)
       (\<lambda>irs. case else_expr of
           None \<Rightarrow> EncodeCaseNode irs None
         | Some e \<Rightarrow> res_bind (EncodeUpdateExprNode db g b scope e)
             (\<lambda>else_ir. EncodeCaseNode irs (Some else_ir)))"
| "EncodeUpdateExprNode db g b scope (BoundBetween input lower upper lower_cmp upper_cmp) =
     res_bind (res_bind (deref input) (EncodeUpdateExprNode db g b scope)) (\<lambda>input_ir.
     res_bind (res_bind (deref lower) (EncodeUpdateExprNode db g b scope)) (\<lambda>lower_ir.
     res_bind (res_bind (deref upper) (EncodeUpdateExprNode db g b scope)) (\<lambda>upper_ir.
     res_bind (EncodeComparisonOp lower_cmp) (\<lambda>lower_op.
     res_bind (EncodeComparisonOp upper_cmp) (\<lambda>upper_op.
     res_bind (EncodeComparisonNode lower_op input_ir lower_ir) (\<lambda>lower_cmp_ir.
     res_bind (EncodeComparisonNode upper_op input_ir upper_ir) (\<lambda>upper_cmp_ir.
     EncodeConjunctionNode Conj_AND [lower_cmp_ir, upper_cmp_ir])))))))"
| "EncodeUpdateExprNode db g b scope e = Inl (NotImplementedException
     ''Lance UPDATE does not support expression class %s in SET expressions'')"
| "EncodeScopeColumnRef db g b scope col =
     (case scope of
        LogicalFilterOp cs \<Rightarrow> res_bind (GetSingleChildScope scope)
          (\<lambda>child. EncodeScopeColumnRef db g b child col)
      | LogicalProjectionOp t es cs \<Rightarrow>
          if col \<ge> length es \<or> es ! col = None then
            Inl (InternalException ''Lance UPDATE projection reference is out of range'')
          else res_bind (GetSingleChildScope scope) (\<lambda>child.
            EncodeUpdateExprNode db g b child (the (es ! col)))
      | LogicalGetOp \<Rightarrow> res_bind (ResolveBaseColumnName g b col) EncodeColumnRefName
      | OtherOperator k cs \<Rightarrow> Inl (NotImplementedException
          ''Lance UPDATE does not support this expression scope operator''))"
| "EncodeScopeColumnBinding db g b scope binding =
     (case scope of
        LogicalFilterOp cs \<Rightarrow> res_bind (GetSingleChildScope scope)
          (\<lambda>child. EncodeScopeColumnBinding db g b child binding)
      | LogicalProjectionOp t es cs \<Rightarrow>
          if table_index binding \<noteq> t then Inl (NotImplementedException
            ''Lance UPDATE does not support cross-scope binding in SET expressions'')
          else if column_index binding \<ge> length es \<or> es ! column_index binding = None then
            Inl (InternalException ''Lance UPDATE projection binding is out of range'')
          else res_bind (GetSingleChildScope scope) (\<lambda>child.
            EncodeUpdateExprNode db g b child (the (es ! column_index binding)))
      | LogicalGetOp \<Rightarrow>
          if table_index binding \<noteq> get_table_index g then Inl (NotImplementedException
            ''Lance UPDATE does not support non-scan bindings in SET expressions'')
          else res_bind (ResolveBaseColumnName g b (column_index binding)) EncodeColumnRefName
      | OtherOperator k cs \<Rightarrow> Inl (NotImplementedException
          ''Lance UPDATE does not support this expression scope operator''))"
  by pat_completeness auto
termination
proof (relation "measures
    [\<lambda>x. case x of Inl (db, g, b, sc, e) \<Rightarrow> size sc
        | Inr (Inl (db, g, b, sc, i)) \<Rightarrow> size sc | Inr (Inr (db, g, b, sc, i)) \<Rightarrow> size sc,
     \<lambda>x. case x of Inl (db, g, b, sc, e) \<Rightarrow> Suc (size e) | _ \<Rightarrow> 0]", goal_cases)
qed (auto simp del: GetSingleChildScope.simps dest!: GetSingleChildScope_smaller
       dest: size_Some_child size_Some_pair_child)

definition EncodeLanceExprIR ::
  "duckdb \<Rightarrow> LogicalGet \<Rightarrow> LanceScanBindData \<Rightarrow> LogicalOperator \<Rightarrow> Expression \<Rightarrow> exn + bytes" where
  "EncodeLanceExprIR db scan_get scan_bind scope expr =
     res_bind (EncodeUpdateExprNode db scan_get scan_bind scope expr) (\<lambda>root. Inr (EncodeMessage root))"

end
