(* ===== verification/Expr_IR_Wire.thy ===== *)
theory Expr_IR_Wire
  imports Expr_IR Expr_IR_Decode
begin

text \<open>
  The wire level shared by the C++ writer and the Rust reader: what the \<open>Append\<close> functions add
  to a buffer in closed form, and that each Rust read returns exactly what the matching append
  wrote.  The contract between a writer and its reader is the locale \<open>wire_codec\<close>; it is
  interpreted for every pair of the two files, and inside it a codec is shown to be
  uniquely decodable, so that no two values share an encoding, even when bytes follow.
\<close>

section \<open>What the append functions add\<close>

text \<open>A length-prefixed byte string.\<close>

definition prefixed :: "bytes \<Rightarrow> bytes" where
  "prefixed bs = le_split 4 (word_of_nat (length bs) :: u32) @ bs"

definition small :: "bytes \<Rightarrow> bool" where
  "small bs \<longleftrightarrow> length bs \<le> u32_max"

lemma AppendU8_eq: "AppendU8 out v = out @ [v]"
  by (simp add: AppendU8_def)

lemma le_split_eq_map:
  "le_split n v = map (\<lambda>i. ucast (drop_bit (8 * i) v)) [0..<n]"
proof (induction n arbitrary: v)
  case 0
  then show ?case by simp
next
  case (Suc n)
  have "map (\<lambda>i. ucast (drop_bit (8 * i) v)) [0..<Suc n]
        = ucast v # map (\<lambda>i. ucast (drop_bit (8 * Suc i) v) :: byte) [0..<n]"
    by (simp only: map_upt_Suc mult_0_right drop_bit_0 id_apply)
  also have "map (\<lambda>i. ucast (drop_bit (8 * Suc i) v) :: byte) [0..<n] = le_split n (drop_bit 8 v)"
    by (simp add: Suc.IH add.commute)
  finally show ?case by simp
qed

lemma ucast_and_byte: "(ucast (v AND 0xFF) :: byte) = ucast v" for v :: "'a::len word"
proof -
  have "v AND 0xFF = take_bit 8 v"
    by (simp add: take_bit_eq_mask mask_eq_exp_minus_1)
  moreover have "(ucast (take_bit 8 v) :: byte) = ucast v"
    by (rule bit_word_eqI) (auto simp: bit_simps)
  ultimately show ?thesis by simp
qed

lemma AppendU32_eq: "AppendU32 out v = out @ le_split 4 v"
  by (simp add: AppendU32_def ucast_and_byte numeral_eq_Suc)

lemma AppendU64_eq: "AppendU64 out v = out @ le_split 8 v"
  by (simp add: AppendU64_def le_split_eq_map ucast_and_byte)

lemma le_split_append:
  "le_split (m + n) v = le_split m v @ le_split n (drop_bit (8 * m) v)"
  by (induction m arbitrary: v) (simp_all add: add.commute)

lemma le_split_ucast:
  "8 * n \<le> LENGTH('b) \<Longrightarrow> le_split n (ucast v :: 'b::len word) = le_split n (v :: 'a::len word)"
proof -
  assume n: "8 * n \<le> LENGTH('b)"
  have "(ucast (drop_bit (8 * i) (ucast v :: 'b word)) :: byte) = ucast (drop_bit (8 * i) v)"
    if "i < n" for i
    by (rule bit_word_eqI) (use n that in \<open>auto simp: bit_simps dest: bit_imp_le_length\<close>)
  then show ?thesis
    by (simp add: le_split_eq_map)
qed

lemma AppendI128_eq: "AppendI128 out v = out @ le_split 16 v"
proof -
  have "le_split (8 + 8) v = le_split 8 v @ le_split 8 (drop_bit 64 v)"
    by (subst le_split_append) simp
  then show ?thesis
    by (simp add: AppendI128_def AppendU64_eq le_split_ucast)
qed

lemmas append_eqs =
  AppendU8_eq AppendU32_eq AppendU64_eq AppendI128_eq AppendI32_def AppendI64_def
  AppendF32_def AppendF64_def AppendBytes_def

lemma AppendLenPrefixed_Inr_iff:
  "AppendLenPrefixed out bs = Inr out' \<longleftrightarrow> small bs \<and> out' = out @ prefixed bs"
  by (auto simp: AppendLenPrefixed_def small_def prefixed_def append_eqs)

lemma AppendLenPrefixedString_Inr_iff:
  "AppendLenPrefixedString out s = Inr out' \<longleftrightarrow>
     small (string_bytes s) \<and> out' = out @ prefixed (string_bytes s)"
  by (simp add: AppendLenPrefixedString_def AppendLenPrefixed_Inr_iff)

lemma append_all_Inr_iff:
  "append_all out cs = Inr out' \<longleftrightarrow> list_all small cs \<and> out' = out @ concat (map prefixed cs)"
  by (induction cs arbitrary: out) (auto simp: res_bind_Inr_iff AppendLenPrefixed_Inr_iff)

lemma append_checks_Inr_iff:
  "append_checks out cs = Inr out' \<longleftrightarrow>
     list_all (\<lambda>(w, t). small w \<and> small t) cs \<and>
     out' = out @ concat (map (\<lambda>(w, t). prefixed w @ prefixed t) cs)"
  by (induction out cs rule: append_checks.induct)
     (auto simp: res_bind_Inr_iff AppendLenPrefixed_Inr_iff)

lemma res_foldl_append_Inr_iff:
  "res_foldl (\<lambda>out x. res_bind (f x) (AppendLenPrefixed out)) out xs = Inr out' \<longleftrightarrow>
     (\<exists>bs. res_map f xs = Inr bs \<and> append_all out bs = Inr out')"
  by (induction xs arbitrary: out) (auto simp: res_bind_Inr_iff)

lemmas append_iffs =
  AppendLenPrefixed_Inr_iff AppendLenPrefixedString_Inr_iff append_all_Inr_iff append_checks_Inr_iff


section \<open>Reading back\<close>

lemma read_u32_at [codec]:
  "read_u32 (at pre (le_split 4 v @ rest)) = Inr (v, at (pre @ le_split 4 v) rest)"
  by (simp add: read_u32_def read_shifted_at le_roundtrip)

lemma read_u64_at [codec]:
  "read_u64 (at pre (le_split 8 v @ rest)) = Inr (v, at (pre @ le_split 8 v) rest)"
  by (simp add: read_u64_def read_shifted_at le_roundtrip)

lemma read_i128_at [codec]:
  "fits pre (le_split 16 v @ rest) \<Longrightarrow>
     read_i128 (at pre (le_split 16 v @ rest)) = Inr (v, at (pre @ le_split 16 v) rest)"
  by (simp add: read_i128_def read_le_bytes_at le_roundtrip)

lemma read_i32_at [codec]:
  "fits pre (le_split 4 v @ rest) \<Longrightarrow>
     read_i32 (at pre (le_split 4 v @ rest)) = Inr (v, at (pre @ le_split 4 v) rest)"
  by (simp add: read_i32_def read_le_bytes_at le_roundtrip)

lemma read_f32_at [codec]:
  "fits pre (le_split 4 v @ rest) \<Longrightarrow>
     read_f32 (at pre (le_split 4 v @ rest)) = Inr (v, at (pre @ le_split 4 v) rest)"
  by (simp add: read_f32_def read_le_bytes_at le_roundtrip)

lemma read_f64_at [codec]:
  "fits pre (le_split 8 v @ rest) \<Longrightarrow>
     read_f64 (at pre (le_split 8 v @ rest)) = Inr (v, at (pre @ le_split 8 v) rest)"
  by (simp add: read_f64_def read_le_bytes_at le_roundtrip)

lemma unat_u32_of_nat: "n \<le> u32_max \<Longrightarrow> unat (word_of_nat n :: u32) = n"
  by (simp add: unat_of_nat)

lemma read_prefixed_at [codec]:
  assumes "small bs" and "fits pre (prefixed bs @ rest)"
  shows "read_len_prefixed_bytes (at pre (prefixed bs @ rest)) = Inr (bs, at (pre @ prefixed bs) rest)"
proof -
  have "unat (word_of_nat (length bs) :: u32) = length bs"
    using assms(1) by (simp add: small_def unat_u32_of_nat)
  with assms(2) show ?thesis
    by (simp add: read_len_prefixed_bytes_def prefixed_def read_u32_at read_bytes_at)
qed

lemma read_string_at [codec]:
  assumes "small (string_bytes s)" and "utf8_string s" and "fits pre (prefixed (string_bytes s) @ rest)"
  shows "read_string (at pre (prefixed (string_bytes s) @ rest))
         = Inr (s, at (pre @ prefixed (string_bytes s)) rest)"
  using assms by (simp add: read_string_def read_prefixed_at utf8_string_def)


section \<open>The contract between a writer and its reader\<close>

locale wire_codec =
  fixes wr :: "'a \<Rightarrow> bytes"
    and rd :: "Cursor \<Rightarrow> ir_error + 'a \<times> Cursor"
    and ok :: "'a \<Rightarrow> bool"
  assumes rd_wr: "ok x \<Longrightarrow> fits pre (wr x @ rest) \<Longrightarrow>
    rd (at pre (wr x @ rest)) = Inr (x, at (pre @ wr x) rest)"
begin

lemma uniquely_decodable:
  assumes "ok x" "ok y" "fits [] (wr x @ r)" and same: "wr x @ r = wr y @ s"
  shows "x = y \<and> r = s"
proof -
  have "rd (at [] (wr x @ r)) = Inr (x, at (wr x) r)"
    using rd_wr [of x "[]" r] assms by simp
  moreover have "rd (at [] (wr y @ s)) = Inr (y, at (wr y) s)"
    using rd_wr [of y "[]" s] assms by simp
  ultimately show ?thesis
    using same by simp
qed

fun rd_list :: "nat \<Rightarrow> Cursor \<Rightarrow> ir_error + 'a list \<times> Cursor" where
  "rd_list 0 c = Inr ([], c)"
| "rd_list (Suc n) c = res_bind (rd c) (\<lambda>(x, c).
     res_bind (rd_list n c) (\<lambda>(xs, c). Inr (x # xs, c)))"

lemma rd_list_wr:
  "list_all ok xs \<Longrightarrow> fits pre (concat (map wr xs) @ rest) \<Longrightarrow>
     rd_list (length xs) (at pre (concat (map wr xs) @ rest))
     = Inr (xs, at (pre @ concat (map wr xs)) rest)"
proof (induction xs arbitrary: pre)
  case Nil
  then show ?case by simp
next
  case (Cons x xs)
  have "rd (at pre (wr x @ concat (map wr xs) @ rest))
        = Inr (x, at (pre @ wr x) (concat (map wr xs) @ rest))"
    by (rule rd_wr) (use Cons.prems in auto)
  moreover have "rd_list (length xs) (at (pre @ wr x) (concat (map wr xs) @ rest))
        = Inr (xs, at ((pre @ wr x) @ concat (map wr xs)) rest)"
    by (rule Cons.IH) (use Cons.prems in auto)
  ultimately show ?case by simp
qed

end

interpretation u8_codec: wire_codec "\<lambda>b. [b]" read_u8 "\<lambda>_. True"
  by unfold_locales (simp add: read_u8_at)

interpretation u32_codec: wire_codec "le_split 4" read_u32 "\<lambda>_. True"
  by unfold_locales (simp add: read_u32_at)

interpretation u64_codec: wire_codec "le_split 8" read_u64 "\<lambda>_. True"
  by unfold_locales (simp add: read_u64_at)

interpretation i128_codec: wire_codec "le_split 16" read_i128 "\<lambda>_. True"
  by unfold_locales (simp add: read_i128_at)

interpretation slice_codec: wire_codec prefixed read_len_prefixed_bytes small
  by unfold_locales (simp add: read_prefixed_at)

interpretation string_codec:
  wire_codec "\<lambda>s. prefixed (string_bytes s)" read_string
    "\<lambda>s. small (string_bytes s) \<and> utf8_string s"
  by unfold_locales (simp add: read_string_at)

lemma read_strings_eq_rd_list: "read_strings n c = string_codec.rd_list n c"
  by (induction n arbitrary: c) simp_all

lemma read_strings_at [codec]:
  assumes "list_all (\<lambda>s. small (string_bytes s) \<and> utf8_string s) ss"
    and "fits pre (concat (map (\<lambda>s. prefixed (string_bytes s)) ss) @ rest)"
  shows "read_strings (length ss) (at pre (concat (map (\<lambda>s. prefixed (string_bytes s)) ss) @ rest))
         = Inr (ss, at (pre @ concat (map (\<lambda>s. prefixed (string_bytes s)) ss)) rest)"
  using string_codec.rd_list_wr [OF assms] by (simp add: read_strings_eq_rd_list)

end
