(* ===== verification/Exec_Wire.thy ===== *)
theory Exec_Wire
  imports Exec_IR Exec_IR_Decode Expr_IR_Wire
begin

text \<open>
  The wire format of aggregation plans: the bytes of every part of a plan, and that the Rust
  reader returns exactly the part whose bytes it is given.  The codecs are further
  interpretations of the interface \<open>wire_codec\<close>; vectors are read through it once and for all.
\<close>

section \<open>Closed forms of the writers\<close>

lemma WriteU8_eq: "WriteU8 buf v = buf @ [v]"
  by (simp add: WriteU8_def)

lemma WriteU32_eq: "WriteU32 buf v = buf @ le_split 4 v"
  by (simp add: WriteU32_def le_split_eq_map ucast_and_byte mult.commute)

lemma WriteI64_eq: "WriteI64 buf v = buf @ le_split 8 v"
  by (simp add: WriteI64_def le_split_eq_map ucast_and_byte mult.commute)

lemma WriteF64_eq: "WriteF64 buf v = buf @ le_split 8 v"
  by (simp add: WriteF64_def le_split_eq_map ucast_and_byte mult.commute)

lemma WriteHugeint_eq: "WriteHugeint buf v = buf @ le_split 16 v"
proof -
  have "le_split (8 + 8) v = le_split 8 (ucast v :: u64) @ le_split 8 (ucast (drop_bit 64 v) :: u64)"
    by (subst le_split_append) (simp add: le_split_ucast)
  then show ?thesis
    by (simp add: WriteHugeint_def le_split_eq_map [of 8] ucast_and_byte mult.commute Let_def)
qed

lemma WriteBytes_eq: "WriteBytes buf bs = buf @ bs"
  by (simp add: WriteBytes_def)

lemma WriteString_Done_iff:
  "WriteString buf s = Done buf' \<longleftrightarrow> small (string_bytes s) \<and> buf' = buf @ prefixed (string_bytes s)"
  by (auto simp: WriteString_def small_def prefixed_def WriteU32_eq WriteBytes_eq)

lemmas write_eqs = WriteU8_eq WriteU32_eq WriteI64_eq WriteF64_eq WriteHugeint_eq WriteBytes_eq

text \<open>A writer that appends the bytes of its argument when the argument can be written.\<close>

locale appender =
  fixes app :: "bytes \<Rightarrow> 'a \<Rightarrow> (exn, bytes) outcome"
    and enc :: "'a \<Rightarrow> bytes"
    and can :: "'a \<Rightarrow> bool"
  assumes app_iff: "app buf x = Done buf' \<longleftrightarrow> can x \<and> buf' = buf @ enc x"
begin

lemma write_all_iff:
  "write_all app buf xs = Done buf' \<longleftrightarrow> list_all can xs \<and> buf' = buf @ concat (map enc xs)"
  by (induction xs arbitrary: buf) (auto simp: try_bind_Done_iff app_iff)

lemma write_list_iff:
  "write_list app buf xs = Done buf' \<longleftrightarrow>
     length xs \<le> u32_max \<and> list_all can xs \<and>
     buf' = buf @ le_split 4 (word_of_nat (length xs) :: u32) @ concat (map enc xs)"
  by (auto simp: write_list_def write_all_iff WriteU32_eq)

end

abbreviation name_bytes :: "string \<Rightarrow> bytes" where
  "name_bytes s \<equiv> prefixed (string_bytes s)"

abbreviation name_small :: "string \<Rightarrow> bool" where
  "name_small s \<equiv> small (string_bytes s)"

interpretation string_appender: appender WriteString name_bytes name_small
  by unfold_locales (rule WriteString_Done_iff)

interpretation group_appender: appender write_group
  "\<lambda>g. name_bytes (group_name g) @ group_expr g @ group_type g" "\<lambda>g. name_small (group_name g)"
  by unfold_locales (auto simp: write_group_def try_bind_Done_iff WriteString_Done_iff write_eqs)

interpretation agg_appender: appender write_agg
  "\<lambda>a. agg_func_code (agg_func a) # name_bytes (agg_name a) @ le_split 4 (agg_count a) @ agg_args a @ agg_type a"
  "\<lambda>a. name_small (agg_name a)"
  by unfold_locales (auto simp: write_agg_def try_bind_Done_iff WriteString_Done_iff write_eqs)

interpretation order_appender: appender write_order
  "\<lambda>(name, asc, nulls_first). name_bytes name @ [if asc then 1 else 0, if nulls_first then 1 else 0]"
  "\<lambda>(name, asc, nulls_first). name_small name"
  by unfold_locales (auto simp: write_order_def try_bind_Done_iff WriteString_Done_iff write_eqs)


section \<open>Reading vectors\<close>

context wire_codec
begin

lemma read_n_eq: "read_n rd n c = rd_list n c"
  by (induction n arbitrary: c) simp_all

definition wr_vec :: "'a list \<Rightarrow> bytes" where
  "wr_vec xs = le_split 4 (word_of_nat (length xs) :: u32) @ concat (map wr xs)"

definition vec_ok :: "'a list \<Rightarrow> bool" where
  "vec_ok xs \<longleftrightarrow> length xs \<le> u32_max \<and> list_all ok xs"

lemma read_vec_wr:
  assumes "vec_ok xs" and "fits pre (wr_vec xs @ rest)"
  shows "read_vec rd (at pre (wr_vec xs @ rest)) = Inr (xs, at (pre @ wr_vec xs) rest)"
proof -
  let ?n = "le_split 4 (word_of_nat (length xs) :: u32)"
  have len: "unat (word_of_nat (length xs) :: u32) = length xs"
    using assms(1) by (simp add: vec_ok_def unat_u32_of_nat)
  have "read_n rd (length xs) (at (pre @ ?n) (concat (map wr xs) @ rest)) =
      Inr (xs, at ((pre @ ?n) @ concat (map wr xs)) rest)"
    unfolding read_n_eq by (rule rd_list_wr) (use assms in \<open>auto simp: vec_ok_def wr_vec_def\<close>)
  then show ?thesis by (simp add: read_vec_def wr_vec_def read_u32_at len)
qed

end


section \<open>Expressions\<close>

primrec hint_bytes :: "OutputTypeHint \<Rightarrow> bytes" where
  "hint_bytes H_Bool = [1]"
| "hint_bytes H_Int64 = [2]"
| "hint_bytes H_Double = [3]"
| "hint_bytes H_Date = [4]"
| "hint_bytes H_TimestampUs = [5]"
| "hint_bytes H_Utf8 = [6]"
| "hint_bytes (H_Decimal p s) = [7, p, s]"

primrec literal_bytes :: "LiteralIr \<Rightarrow> bytes" where
  "literal_bytes L_Null = [0]"
| "literal_bytes (L_Int64 v) = 1 # le_split 8 v"
| "literal_bytes (L_Double v) = 2 # le_split 8 v"
| "literal_bytes (L_Bool b) = [3, if b then 1 else 0]"
| "literal_bytes (L_String s) = 4 # name_bytes s"
| "literal_bytes (L_Decimal128 v p s) = 5 # p # s # le_split 16 v"

primrec binary_byte :: "BinaryOp \<Rightarrow> byte" where
  "binary_byte B_Add = 1"
| "binary_byte B_Sub = 2"
| "binary_byte B_Mul = 3"
| "binary_byte B_Div = 4"

primrec exec_expr_bytes :: "ExprIr \<Rightarrow> bytes" where
  "exec_expr_bytes (ColumnRef s) = 1 # name_bytes s"
| "exec_expr_bytes (Literal l) = 2 # literal_bytes l"
| "exec_expr_bytes (Binary bop l r) = 3 # binary_byte bop # exec_expr_bytes l @ exec_expr_bytes r"
| "exec_expr_bytes (Cast h e) = 4 # hint_bytes h @ exec_expr_bytes e"

abbreviation name_ok :: "string \<Rightarrow> bool" where
  "name_ok s \<equiv> name_small s \<and> utf8_string s"

fun literal_ok :: "LiteralIr \<Rightarrow> bool" where
  "literal_ok (L_String s) = name_ok s"
| "literal_ok l = True"

primrec exec_expr_ok :: "ExprIr \<Rightarrow> bool" where
  "exec_expr_ok (ColumnRef s) \<longleftrightarrow> name_ok s"
| "exec_expr_ok (Literal l) \<longleftrightarrow> literal_ok l"
| "exec_expr_ok (Binary bop l r) \<longleftrightarrow> exec_expr_ok l \<and> exec_expr_ok r"
| "exec_expr_ok (Cast h e) \<longleftrightarrow> exec_expr_ok e"

declare read_u8_at [simp]

lemma exec_read_at [codec]:
  "exec_read_i64 (at pre (le_split 8 v @ rest)) = Inr (v, at (pre @ le_split 8 v) rest)"
  "exec_read_f64 (at pre (le_split 8 v @ rest)) = Inr (v, at (pre @ le_split 8 v) rest)"
  by (simp_all add: exec_read_i64_def exec_read_f64_def read_shifted_at le_roundtrip)

lemma parse_output_type_hint_at [codec]:
  "parse_output_type_hint (at pre (hint_bytes h @ rest)) = Inr (h, at (pre @ hint_bytes h) rest)"
  by (cases h) (simp_all add: parse_output_type_hint_def)

lemma parse_exec_literal_at [codec]:
  "literal_ok l \<Longrightarrow> fits pre (literal_bytes l @ rest) \<Longrightarrow>
     parse_exec_literal (at pre (literal_bytes l @ rest)) = Inr (l, at (pre @ literal_bytes l) rest)"
  by (cases l)
    (auto simp: parse_exec_literal_def exec_read_at read_string_at read_le_bytes_at le_roundtrip)

lemma parse_exec_expr_at [codec]:
  "exec_expr_ok e \<Longrightarrow> fits pre (exec_expr_bytes e @ rest) \<Longrightarrow>
     parse_exec_expr (at pre (exec_expr_bytes e @ rest)) = Inr (e, at (pre @ exec_expr_bytes e) rest)"
proof (induction e arbitrary: pre rest)
  case (ColumnRef s)
  then show ?case by (subst parse_exec_expr.simps) (simp add: read_string_at)
next
  case (Literal l)
  then show ?case by (subst parse_exec_expr.simps) (simp add: parse_exec_literal_at)
next
  case (Binary bop l r)
  have op: "binary_op (binary_byte bop) = Inr bop" by (cases bop) (simp_all add: binary_op_def)
  have l: "parse_exec_expr (at (pre @ [3, binary_byte bop]) (exec_expr_bytes l @ exec_expr_bytes r @ rest)) =
      Inr (l, at ((pre @ [3, binary_byte bop]) @ exec_expr_bytes l) (exec_expr_bytes r @ rest))"
    by (rule Binary.IH(1)) (use Binary.prems in auto)
  have r: "parse_exec_expr (at ((pre @ [3, binary_byte bop]) @ exec_expr_bytes l) (exec_expr_bytes r @ rest)) =
      Inr (r, at (((pre @ [3, binary_byte bop]) @ exec_expr_bytes l) @ exec_expr_bytes r) rest)"
    by (rule Binary.IH(2)) (use Binary.prems in auto)
  show ?case using l r by (subst parse_exec_expr.simps) (simp add: op)
next
  case (Cast h e)
  have "parse_exec_expr (at ((pre @ [4]) @ hint_bytes h) (exec_expr_bytes e @ rest)) =
      Inr (e, at (((pre @ [4]) @ hint_bytes h) @ exec_expr_bytes e) rest)"
    by (rule Cast.IH) (use Cast.prems in auto)
  then show ?case by (subst parse_exec_expr.simps) (simp add: parse_output_type_hint_at)
qed

interpretation exec_expr_codec: wire_codec exec_expr_bytes parse_exec_expr exec_expr_ok
  by unfold_locales (rule parse_exec_expr_at)

interpretation hint_codec: wire_codec hint_bytes parse_output_type_hint "\<lambda>_. True"
  by unfold_locales (rule parse_output_type_hint_at)


section \<open>Groups, aggregates, orders\<close>

primrec agg_byte :: "AggFunc \<Rightarrow> byte" where
  "agg_byte F_Sum = 1"
| "agg_byte F_Count = 2"
| "agg_byte F_CountStar = 3"
| "agg_byte F_Min = 4"
| "agg_byte F_Max = 5"
| "agg_byte F_Avg = 6"

definition group_bytes :: "GroupIr \<Rightarrow> bytes" where
  "group_bytes g = name_bytes (g_output_name g) @ exec_expr_bytes (g_expr g) @
     (case g_output_type g of None \<Rightarrow> [] | Some h \<Rightarrow> hint_bytes h)"

definition group_ok :: "GroupIr \<Rightarrow> bool" where
  "group_ok g \<longleftrightarrow> name_ok (g_output_name g) \<and> exec_expr_ok (g_expr g) \<and> g_output_type g \<noteq> None"

definition agg_bytes :: "AggIr \<Rightarrow> bytes" where
  "agg_bytes a = agg_byte (a_func a) # name_bytes (a_output_name a) @ exec_expr_codec.wr_vec (a_args a) @
     (case a_output_type a of None \<Rightarrow> [] | Some h \<Rightarrow> hint_bytes h)"

definition agg_ok :: "AggIr \<Rightarrow> bool" where
  "agg_ok a \<longleftrightarrow> name_ok (a_output_name a) \<and> exec_expr_codec.vec_ok (a_args a) \<and> a_output_type a \<noteq> None"

definition order_bytes :: "OrderByIr \<Rightarrow> bytes" where
  "order_bytes o1 = name_bytes (o_column o1) @
     [if o_asc o1 then 1 else 0, if o_nulls_first o1 then 1 else 0]"

lemma parse_group_at:
  assumes "group_ok g" and "fits pre (group_bytes g @ rest)"
  shows "parse_group (at pre (group_bytes g @ rest)) = Inr (g, at (pre @ group_bytes g) rest)"
proof -
  obtain h where h: "g_output_type g = Some h" using assms(1) by (auto simp: group_ok_def)
  have "parse_exec_expr (at (pre @ name_bytes (g_output_name g)) (exec_expr_bytes (g_expr g) @ hint_bytes h @ rest)) =
      Inr (g_expr g, at ((pre @ name_bytes (g_output_name g)) @ exec_expr_bytes (g_expr g)) (hint_bytes h @ rest))"
    by (rule parse_exec_expr_at) (use assms h in \<open>auto simp: group_ok_def group_bytes_def\<close>)
  then show ?thesis
    using assms h by (simp add: parse_group_def group_bytes_def group_ok_def read_string_at parse_output_type_hint_at)
qed

lemma parse_agg_at:
  assumes "agg_ok a" and "fits pre (agg_bytes a @ rest)"
  shows "parse_agg 4 (at pre (agg_bytes a @ rest)) = Inr (a, at (pre @ agg_bytes a) rest)"
proof -
  obtain h where h: "a_output_type a = Some h" using assms(1) by (auto simp: agg_ok_def)
  have func: "agg_func_of (agg_byte (a_func a)) = Inr (a_func a)"
    by (cases "a_func a") (simp_all add: agg_func_of_def)
  let ?p = "(pre @ [agg_byte (a_func a)]) @ name_bytes (a_output_name a)"
  have vec: "read_vec parse_exec_expr (at ?p (exec_expr_codec.wr_vec (a_args a) @ hint_bytes h @ rest)) =
      Inr (a_args a, at (?p @ exec_expr_codec.wr_vec (a_args a)) (hint_bytes h @ rest))"
    by (rule exec_expr_codec.read_vec_wr) (use assms h in \<open>auto simp: agg_ok_def agg_bytes_def\<close>)
  have name: "read_string (at (pre @ [agg_byte (a_func a)])
        (name_bytes (a_output_name a) @ exec_expr_codec.wr_vec (a_args a) @ hint_bytes h @ rest)) =
      Inr (a_output_name a, at ?p (exec_expr_codec.wr_vec (a_args a) @ hint_bytes h @ rest))"
    by (rule read_string_at) (use assms h in \<open>auto simp: agg_ok_def agg_bytes_def\<close>)
  obtain n c where n: "read_u32 (at ?p (exec_expr_codec.wr_vec (a_args a) @ hint_bytes h @ rest)) = Inr (n, c)"
    and args: "read_n parse_exec_expr (unat n) c =
      Inr (a_args a, at (?p @ exec_expr_codec.wr_vec (a_args a)) (hint_bytes h @ rest))"
    using vec by (auto simp: read_vec_def res_bind_Inr_iff)
  have "a = \<lparr>a_func = a_func a, a_output_name = a_output_name a, a_args = a_args a, a_output_type = Some h\<rparr>"
    using h by simp
  then show ?thesis
    using name n args
    by (simp add: parse_agg_def agg_bytes_def h func parse_output_type_hint_at)
qed

lemma parse_order_at:
  assumes "name_ok (o_column o1)" and "fits pre (order_bytes o1 @ rest)"
  shows "parse_order (at pre (order_bytes o1 @ rest)) = Inr (o1, at (pre @ order_bytes o1) rest)"
  using assms by (simp add: parse_order_def order_bytes_def read_string_at)

interpretation group_codec: wire_codec group_bytes parse_group group_ok
  by unfold_locales (rule parse_group_at)

interpretation agg_codec: wire_codec agg_bytes "parse_agg 4" agg_ok
  by unfold_locales (rule parse_agg_at)

interpretation order_codec: wire_codec order_bytes parse_order "\<lambda>o1. name_ok (o_column o1)"
  by unfold_locales (rule parse_order_at)


section \<open>Plans\<close>

definition exec_bytes :: "ExecIr \<Rightarrow> bytes" where
  "exec_bytes x =
     string_bytes ''LEX1'' @ le_split 4 (4 :: u32) @ le_split 4 (0 :: u32) @ prefixed (x_filter_ir x) @
     string_codec.wr_vec (x_scan_projection x) @ group_codec.wr_vec (x_groups x) @
     agg_codec.wr_vec (x_aggs x) @ order_codec.wr_vec (x_order_by x)"

definition exec_ok :: "ExecIr \<Rightarrow> bool" where
  "exec_ok x \<longleftrightarrow>
     small (x_filter_ir x) \<and> string_codec.vec_ok (x_scan_projection x) \<and>
     group_codec.vec_ok (x_groups x) \<and> agg_codec.vec_ok (x_aggs x) \<and> order_codec.vec_ok (x_order_by x)"

lemma parse_exec_ir_v1_append:
  assumes "exec_ok x" and "length (exec_bytes x @ rest) < 2 ^ 64"
  shows "parse_exec_ir_v1 (exec_bytes x @ rest) = (if rest = [] then Inr x else Inl TrailingExecBytes)"
proof -
  let ?m = "string_bytes ''LEX1''" and ?v = "le_split 4 (4 :: u32)" and ?f = "le_split 4 (0 :: u32)"
  let ?flt = "prefixed (x_filter_ir x)" and ?P = "string_codec.wr_vec (x_scan_projection x)"
  let ?G = "group_codec.wr_vec (x_groups x)" and ?A = "agg_codec.wr_vec (x_aggs x)"
  let ?O = "order_codec.wr_vec (x_order_by x)"
  have len: "length ?m + length ?v + length ?f + length ?flt + length ?P + length ?G + length ?A + length ?O + length rest < 2 ^ 64"
    using assms(2) by (simp add: exec_bytes_def)
  have ok: "small (x_filter_ir x)" "string_codec.vec_ok (x_scan_projection x)" "group_codec.vec_ok (x_groups x)"
    "agg_codec.vec_ok (x_aggs x)" "order_codec.vec_ok (x_order_by x)"
    using assms(1) by (simp_all add: exec_ok_def)
  have s1: "read_bytes 4 (at [] (?m @ ?v @ ?f @ ?flt @ ?P @ ?G @ ?A @ ?O @ rest)) =
      Inr (?m, at ([] @ ?m) (?v @ ?f @ ?flt @ ?P @ ?G @ ?A @ ?O @ rest))"
    by (rule read_bytes_at) (use len in auto)
  have s2: "read_u32 (at ([] @ ?m) (?v @ ?f @ ?flt @ ?P @ ?G @ ?A @ ?O @ rest)) =
      Inr (4, at (([] @ ?m) @ ?v) (?f @ ?flt @ ?P @ ?G @ ?A @ ?O @ rest))"
    by (rule read_u32_at)
  have s3: "read_u32 (at (([] @ ?m) @ ?v) (?f @ ?flt @ ?P @ ?G @ ?A @ ?O @ rest)) =
      Inr (0, at ((([] @ ?m) @ ?v) @ ?f) (?flt @ ?P @ ?G @ ?A @ ?O @ rest))"
    by (rule read_u32_at)
  let ?p = "(([] @ ?m) @ ?v) @ ?f"
  have "read_len_prefixed_bytes (at ?p (?flt @ ?P @ ?G @ ?A @ ?O @ rest)) =
      Inr (x_filter_ir x, at (?p @ ?flt) (?P @ ?G @ ?A @ ?O @ rest))"
    by (rule read_prefixed_at) (use len ok in auto)
  then obtain n c where s4: "read_u32 (at ?p (?flt @ ?P @ ?G @ ?A @ ?O @ rest)) = Inr (n, c)"
    and s5: "read_bytes (unat n) c = Inr (x_filter_ir x, at (?p @ ?flt) (?P @ ?G @ ?A @ ?O @ rest))"
    by (auto simp: read_len_prefixed_bytes_def res_bind_Inr_iff)
  have s6: "read_vec read_string (at (?p @ ?flt) (?P @ ?G @ ?A @ ?O @ rest)) =
      Inr (x_scan_projection x, at ((?p @ ?flt) @ ?P) (?G @ ?A @ ?O @ rest))"
    by (rule string_codec.read_vec_wr) (use len ok in auto)
  have s7: "read_vec parse_group (at ((?p @ ?flt) @ ?P) (?G @ ?A @ ?O @ rest)) =
      Inr (x_groups x, at (((?p @ ?flt) @ ?P) @ ?G) (?A @ ?O @ rest))"
    by (rule group_codec.read_vec_wr) (use len ok in auto)
  have s8: "read_vec (parse_agg 4) (at (((?p @ ?flt) @ ?P) @ ?G) (?A @ ?O @ rest)) =
      Inr (x_aggs x, at ((((?p @ ?flt) @ ?P) @ ?G) @ ?A) (?O @ rest))"
    by (rule agg_codec.read_vec_wr) (use len ok in auto)
  have s9: "read_vec parse_order (at ((((?p @ ?flt) @ ?P) @ ?G) @ ?A) (?O @ rest)) =
      Inr (x_order_by x, at (((((?p @ ?flt) @ ?P) @ ?G) @ ?A) @ ?O) rest)"
    by (rule order_codec.read_vec_wr) (use len ok in auto)
  have start: "new_cursor (exec_bytes x @ rest) = at [] (?m @ ?v @ ?f @ ?flt @ ?P @ ?G @ ?A @ ?O @ rest)"
    by (simp add: new_cursor_def at_def exec_bytes_def)
  have eof: "is_eof (at (((((?p @ ?flt) @ ?P) @ ?G) @ ?A) @ ?O) rest) \<longleftrightarrow> rest = []"
    by (simp add: is_eof_def at_def)
  show ?thesis
    using s1 s2 s3 s4 s5 s6 s7 s8 s9 eof unfolding parse_exec_ir_v1_def start by simp
qed

lemma parse_exec_ir_v1_bytes:
  "exec_ok x \<Longrightarrow> length (exec_bytes x) < 2 ^ 64 \<Longrightarrow> parse_exec_ir_v1 (exec_bytes x) = Inr x"
  using parse_exec_ir_v1_append [of x "[]"] by simp


lemma empty_plan_ok:
  "exec_ok \<lparr>x_filter_ir = [], x_scan_projection = [], x_groups = [], x_aggs = [], x_order_by = []\<rparr>"
  unfolding exec_ok_def string_codec.vec_ok_def group_codec.vec_ok_def agg_codec.vec_ok_def order_codec.vec_ok_def
  by (simp add: small_def)

lemma empty_plan_short:
  "length (exec_bytes \<lparr>x_filter_ir = [], x_scan_projection = [], x_groups = [], x_aggs = [], x_order_by = []\<rparr> @ [0]) < 2 ^ 64"
  unfolding exec_bytes_def string_codec.wr_vec_def group_codec.wr_vec_def agg_codec.wr_vec_def order_codec.wr_vec_def
  by (simp add: prefixed_def)

end
