(* ===== verification/Exec_Correct.thy ===== *)
theory Exec_Correct
  imports Exec_Wire
begin

text \<open>
  Correctness of the aggregation pushdown encoder: the expression it writes for a bound
  expression, given as the relation \<open>denotes\<close> that resolves references through the projections;
  the plan it writes for a whole aggregate; that the Rust side reads this plan back; and that the
  scan projection of the plan covers every column the plan refers to.
\<close>

section \<open>Types and literals\<close>

fun hint_of :: "LogicalType \<Rightarrow> OutputTypeHint option" where
  "hint_of (SimpleType BOOLEAN) = Some H_Bool"
| "hint_of (SimpleType BIGINT) = Some H_Int64"
| "hint_of (SimpleType DOUBLE) = Some H_Double"
| "hint_of (SimpleType DATE) = Some H_Date"
| "hint_of (SimpleType TIMESTAMP) = Some H_TimestampUs"
| "hint_of (SimpleType VARCHAR) = Some H_Utf8"
| "hint_of (DecimalType w s) = Some (H_Decimal w s)"
| "hint_of t = None"

lemma TryEncodeOutputTypeHint_iff:
  "TryEncodeOutputTypeHint t = Done bs \<longleftrightarrow> (\<exists>h. hint_of t = Some h \<and> bs = hint_bytes h)"
  by (cases t rule: hint_of.cases) (auto simp: WriteU8_def)

fun done_option :: "('e, 'a) outcome \<Rightarrow> 'a option" where
  "done_option (Done x) = Some x"
| "done_option r = None"

lemma done_option_Some [simp]: "done_option r = Some x \<longleftrightarrow> r = Done x"
  by (cases r) auto

definition int_literal :: "duckdb \<Rightarrow> Value \<Rightarrow> LiteralIr option" where
  "int_literal db v = map_option L_Int64 (done_option (cast_int64 db v))"

definition double_literal :: "duckdb \<Rightarrow> Value \<Rightarrow> LiteralIr option" where
  "double_literal db v = map_option L_Double (done_option (cast_double db v))"

fun exec_literal :: "duckdb \<Rightarrow> Value \<Rightarrow> LiteralIr option" where
  "exec_literal db (NullValue t) = Some L_Null"
| "exec_literal db (BigIntValue v) = int_literal db (BigIntValue v)"
| "exec_literal db (IntegerValue v) = int_literal db (IntegerValue v)"
| "exec_literal db (SmallIntValue v) = int_literal db (SmallIntValue v)"
| "exec_literal db (TinyIntValue v) = int_literal db (TinyIntValue v)"
| "exec_literal db (UBigIntValue v) = int_literal db (UBigIntValue v)"
| "exec_literal db (UIntegerValue v) = int_literal db (UIntegerValue v)"
| "exec_literal db (USmallIntValue v) = int_literal db (USmallIntValue v)"
| "exec_literal db (UTinyIntValue v) = int_literal db (UTinyIntValue v)"
| "exec_literal db (DoubleValue v) = double_literal db (DoubleValue v)"
| "exec_literal db (FloatValue v) = double_literal db (FloatValue v)"
| "exec_literal db (BooleanValue b) = Some (L_Bool b)"
| "exec_literal db (VarcharValue s) = Some (L_String s)"
| "exec_literal db (DecimalValue w s v) =
     map_option (\<lambda>d. L_Decimal128 d w s) (done_option (decimal_payload db (DecimalType w s) v))"
| "exec_literal db v = None"

fun literal_small :: "LiteralIr \<Rightarrow> bool" where
  "literal_small (L_String s) = name_small s"
| "literal_small l = True"

primrec expr_small :: "ExprIr \<Rightarrow> bool" where
  "expr_small (ColumnRef s) \<longleftrightarrow> name_small s"
| "expr_small (Literal l) \<longleftrightarrow> literal_small l"
| "expr_small (Binary bop l r) \<longleftrightarrow> expr_small l \<and> expr_small r"
| "expr_small (Cast h e) \<longleftrightarrow> expr_small e"

lemma write_int64_iff:
  "write_int64 db v buf = Done buf' \<longleftrightarrow>
     (\<exists>l. int_literal db v = Some l \<and> literal_small l \<and> buf' = buf @ 2 # literal_bytes l)"
  by (auto simp: write_int64_def int_literal_def try_bind_Done_iff literal_start_def write_eqs)

lemma write_double_iff:
  "write_double db v buf = Done buf' \<longleftrightarrow>
     (\<exists>l. double_literal db v = Some l \<and> literal_small l \<and> buf' = buf @ 2 # literal_bytes l)"
  by (auto simp: write_double_def double_literal_def try_bind_Done_iff literal_start_def write_eqs)

lemma TryEncodeLiteral_iff:
  "TryEncodeLiteral db v buf = Done buf' \<longleftrightarrow>
     (\<exists>l. exec_literal db v = Some l \<and> literal_small l \<and> buf' = buf @ exec_expr_bytes (Literal l))"
  by (cases v) (auto simp: write_int64_iff write_double_iff literal_start_def write_eqs
      WriteString_Done_iff try_bind_Done_iff)


section \<open>Expressions\<close>

definition scan_column :: "LogicalGet \<Rightarrow> LanceScanBindData \<Rightarrow> nat \<Rightarrow> (nat \<times> string) option" where
  "scan_column g b i =
     (let ids = get_column_ids g in
      if i < length ids \<and> \<not> IsVirtualColumn (ids ! i) \<and> GetPrimaryIndex (ids ! i) < length (names b) \<and>
         names b ! GetPrimaryIndex (ids ! i) \<noteq> []
      then Some (GetPrimaryIndex (ids ! i), names b ! GetPrimaryIndex (ids ! i)) else None)"

definition appended :: "exec_state \<Rightarrow> ExprIr \<Rightarrow> nat list \<Rightarrow> exec_state" where
  "appended st ir cols =
     \<lparr>out = out st @ exec_expr_bytes ir, out_col_idxs = add_columns cols (out_col_idxs st)\<rparr>"

lemma add_columns_append: "add_columns (xs @ ys) idxs = add_columns ys (add_columns xs idxs)"
  by (simp add: add_columns_def)

lemma set_add_columns [simp]: "set (add_columns xs idxs) = set xs \<union> set idxs"
  by (induction xs arbitrary: idxs) (auto simp: add_columns_def)

lemma distinct_add_columns [simp]: "distinct idxs \<Longrightarrow> distinct (add_columns xs idxs)"
  by (induction xs arbitrary: idxs) (auto simp: add_columns_def)

lemma write_scan_column_iff:
  "write_scan_column g b i st = Done st' \<longleftrightarrow>
     (\<exists>col name. scan_column g b i = Some (col, name) \<and> name_small name \<and>
       st' = appended st (ColumnRef name) [col])"
  by (auto simp: write_scan_column_def scan_column_def Let_def try_bind_Done_iff WriteString_Done_iff
      write_eqs appended_def add_columns_def not_le)

lemma write_literal_iff:
  "write_literal db v st = Done st' \<longleftrightarrow>
     (\<exists>l. exec_literal db v = Some l \<and> literal_small l \<and> st' = appended st (Literal l) [])"
  by (auto simp: write_literal_def try_bind_Done_iff TryEncodeLiteral_iff appended_def add_columns_def)

fun ir_op :: "ExecIrBinaryOp \<Rightarrow> BinaryOp" where
  "ir_op Exec_ADD = B_Add"
| "ir_op Exec_SUB = B_Sub"
| "ir_op Exec_MUL = B_Mul"
| "ir_op Exec_DIV = B_Div"

lemma exec_binary_code_eq: "exec_binary_code bop = binary_byte (ir_op bop)"
  by (cases bop) simp_all

text \<open>
  The expression meant, and the columns of the scan it reads in the order they are met.  A
  reference to another table goes through the projection at the current depth; a positional
  reference does so where that projection has the position.
\<close>

inductive denotes :: "duckdb \<Rightarrow> LogicalGet \<Rightarrow> LanceScanBindData \<Rightarrow> Expression option list list
    \<Rightarrow> nat \<Rightarrow> Expression \<Rightarrow> ExprIr \<Rightarrow> nat list \<Rightarrow> bool"
  and denotes_operand :: "duckdb \<Rightarrow> LogicalGet \<Rightarrow> LanceScanBindData \<Rightarrow> Expression option list list
    \<Rightarrow> nat \<Rightarrow> Value + Expression \<Rightarrow> ExprIr \<Rightarrow> nat list \<Rightarrow> bool"
  for db g b stack where
  column_scan:
    "table_index binding = get_table_index g \<Longrightarrow> scan_column g b (column_index binding) = Some (col, name) \<Longrightarrow>
     denotes db g b stack off (BoundColumnRef t binding d) (ColumnRef name) [col]"
| column_projected:
    "table_index binding \<noteq> get_table_index g \<Longrightarrow> off < length stack \<Longrightarrow>
     column_index binding < length (stack ! off) \<Longrightarrow> stack ! off ! column_index binding = Some e \<Longrightarrow>
     denotes db g b stack (Suc off) e ir cols \<Longrightarrow>
     denotes db g b stack off (BoundColumnRef t binding d) ir cols"
| constant_value:
    "exec_literal db v = Some l \<Longrightarrow> denotes db g b stack off (BoundConstant v) (Literal l) []"
| cast_constant:
    "constant_of c = Some v \<Longrightarrow> DefaultCastAs db v t = Some w \<Longrightarrow> exec_literal db w = Some l \<Longrightarrow>
     denotes db g b stack off (BoundCast t try_cast (Some c)) (Literal l) []"
| cast_expr:
    "constant_of c = None \<Longrightarrow> hint_of t = Some h \<Longrightarrow> denotes db g b stack off c ir cols \<Longrightarrow>
     denotes db g b stack off (BoundCast t try_cast (Some c)) (Cast h ir) cols"
| ref_projected:
    "off < length stack \<Longrightarrow> i < length (stack ! off) \<Longrightarrow> stack ! off ! i = Some e \<Longrightarrow>
     denotes db g b stack (Suc off) e ir cols \<Longrightarrow> denotes db g b stack off (BoundRef t nm i) ir cols"
| ref_scan:
    "\<not> (off < length stack \<and> i < length (stack ! off) \<and> stack ! off ! i \<noteq> None) \<Longrightarrow>
     scan_column g b i = Some (col, name) \<Longrightarrow>
     denotes db g b stack off (BoundRef t nm i) (ColumnRef name) [col]"
| function_call:
    "TryMapBinaryOp db fname [l, r] = Some bop \<Longrightarrow>
     operand db (decimal_type l r t) l = Done x \<Longrightarrow> operand db (decimal_type l r t) r = Done y \<Longrightarrow>
     denotes_operand db g b stack off x irl cl \<Longrightarrow> denotes_operand db g b stack off y irr cr \<Longrightarrow>
     denotes db g b stack off (BoundFunction t fname [l, r]) (Binary (ir_op bop) irl irr) (cl @ cr)"
| operator_call:
    "operator_of (ExpressionTypeToOperator db k) = Some bop \<Longrightarrow>
     operand db (decimal_type (Some l) (Some r) t) (Some l) = Done x \<Longrightarrow>
     operand db (decimal_type (Some l) (Some r) t) (Some r) = Done y \<Longrightarrow>
     denotes_operand db g b stack off x irl cl \<Longrightarrow> denotes_operand db g b stack off y irr cr \<Longrightarrow>
     denotes db g b stack off (BoundOperator t k [Some l, Some r]) (Binary (ir_op bop) irl irr) (cl @ cr)"
| operand_literal:
    "exec_literal db w = Some l \<Longrightarrow> denotes_operand db g b stack off (Inl w) (Literal l) []"
| operand_expr:
    "denotes db g b stack off e ir cols \<Longrightarrow> denotes_operand db g b stack off (Inr e) ir cols"

text \<open>An encoding step that adds an expression to the buffer and its columns to the set.\<close>

definition adds :: "(ExprIr \<Rightarrow> nat list \<Rightarrow> bool) \<Rightarrow> exec_state \<Rightarrow> exec_state \<Rightarrow> bool" where
  "adds P st st' \<longleftrightarrow> (\<exists>ir cols. P ir cols \<and> expr_small ir \<and> st' = appended st ir cols)"

lemma addsI: "P ir cols \<Longrightarrow> expr_small ir \<Longrightarrow> adds P st (appended st ir cols)"
  by (auto simp: adds_def)

lemma adds_mono: "adds P st st' \<Longrightarrow> (\<And>ir cols. P ir cols \<Longrightarrow> Q ir cols) \<Longrightarrow> adds Q st st'"
  by (auto simp: adds_def)

lemma adds_binary:
  assumes "adds P (binary_start bop st) st1" and "adds Q st1 st2"
    and "\<And>irl cl irr cr. P irl cl \<Longrightarrow> Q irr cr \<Longrightarrow> R (Binary (ir_op bop) irl irr) (cl @ cr)"
  shows "adds R st st2"
proof -
  obtain irl cl irr cr where "P irl cl" "Q irr cr" "expr_small irl" "expr_small irr"
    and "st2 = appended (appended (binary_start bop st) irl cl) irr cr"
    using assms(1,2) by (auto simp: adds_def)
  moreover have "appended (appended (binary_start bop st) irl cl) irr cr =
      appended st (Binary (ir_op bop) irl irr) (cl @ cr)"
    by (simp add: appended_def binary_start_def write_eqs add_columns_append exec_binary_code_eq)
  ultimately show ?thesis using assms(3) by (auto intro!: addsI)
qed

lemma operand_step:
  assumes "try_bind (operand db dt child) (\<lambda>x. case x of
      Inl w \<Rightarrow> write_literal db w st | Inr e \<Rightarrow> F e) = Done st'"
    and "\<And>e. operand db dt child = Done (Inr e) \<Longrightarrow> F e = Done st' \<Longrightarrow> adds (denotes db g b stack off e) st st'"
  shows "\<exists>x. operand db dt child = Done x \<and> adds (denotes_operand db g b stack off x) st st'"
proof -
  obtain x where x: "operand db dt child = Done x"
    and step: "(case x of Inl w \<Rightarrow> write_literal db w st | Inr e \<Rightarrow> F e) = Done st'"
    using assms(1) by (auto simp: try_bind_Done_iff)
  show ?thesis
  proof (cases x)
    case (Inl w)
    then have "adds (denotes_operand db g b stack off x) st st'"
      using step by (auto simp: write_literal_iff intro!: addsI intro: operand_literal)
    with x show ?thesis by blast
  next
    case (Inr e)
    then have "adds (denotes db g b stack off e) st st'" using step x assms(2) by simp
    then have "adds (denotes_operand db g b stack off x) st st'"
      unfolding Inr by (rule adds_mono) (rule operand_expr)
    with x show ?thesis by blast
  qed
qed

lemma TryEncodeExecExpr_adds:
  "TryEncodeExecExpr db g b stack off e st = Done st' \<Longrightarrow> adds (denotes db g b stack off e) st st'"
proof (induction db g b stack off e st arbitrary: st' rule: TryEncodeExecExpr.induct)
  case (1 db g b stack off t binding depth st)
  show ?case
  proof (cases "table_index binding = get_table_index g")
    case True
    with "1.prems" show ?thesis by (auto simp: write_scan_column_iff intro!: addsI intro: column_scan)
  next
    case False
    with "1.prems" obtain e where e: "off < length stack" "column_index binding < length (stack ! off)"
        "stack ! off ! column_index binding = Some e" "TryEncodeExecExpr db g b stack (off + 1) e st = Done st'"
      by (auto split: if_splits option.splits)
    then have "adds (denotes db g b stack (off + 1) e) st st'" using "1.IH" False by blast
    then show ?thesis by (rule adds_mono) (use False e in \<open>auto intro: column_projected\<close>)
  qed
next
  case (2 db g b stack off v st)
  then show ?case by (auto simp: write_literal_iff intro!: addsI intro: constant_value)
next
  case (3 db g b stack off t try_cast child st)
  then obtain c where c: "child = Some c" by (auto split: option.splits)
  show ?case
  proof (cases "constant_of c")
    case (Some v)
    then show ?thesis
      using "3.prems" c
      by (auto simp: write_cast_literal_def try_bind_Done_iff write_literal_iff intro!: addsI intro: cast_constant)
  next
    case None
    then obtain h where h: "hint_of t = Some h"
      and enc: "TryEncodeExecExpr db g b stack off c
        (st\<lparr>out := WriteBytes (WriteU8 (out st) (exec_tag_code Exec_CAST)) (hint_bytes h)\<rparr>) = Done st'"
      using "3.prems" c by (auto simp: try_bind_Done_iff TryEncodeOutputTypeHint_iff)
    then have "adds (denotes db g b stack off c)
        (st\<lparr>out := WriteBytes (WriteU8 (out st) (exec_tag_code Exec_CAST)) (hint_bytes h)\<rparr>) st'"
      using "3.IH" c None by (auto simp: TryEncodeOutputTypeHint_iff)
    then obtain ir cols where "denotes db g b stack off c ir cols" "expr_small ir"
      and "st' = appended st (Cast h ir) cols"
      by (auto simp: adds_def appended_def write_eqs)
    then show ?thesis
      unfolding c using cast_expr [OF None h] by (auto intro!: addsI)
  qed
next
  case (4 db g b stack off t nm i st)
  show ?case
  proof (cases "off < length stack \<and> i < length (stack ! off) \<and> stack ! off ! i \<noteq> None")
    case True
    then have "adds (denotes db g b stack (off + 1) (the (stack ! off ! i))) st st'"
      using "4.IH" "4.prems" by auto
    then show ?thesis by (rule adds_mono) (use True in \<open>auto intro: ref_projected\<close>)
  next
    case False
    then show ?thesis
      using "4.prems" by (auto simp: write_scan_column_iff intro!: addsI intro: ref_scan)
  qed
next
  case (5 db g b stack off t fname children st)
  obtain bop l r st1 where bop: "TryMapBinaryOp db fname children = Some bop" and ch: "children = [l, r]"
    and lhs: "try_bind (operand db (decimal_type l r t) l) (\<lambda>x. case x of
        Inl w \<Rightarrow> write_literal db w (binary_start bop st)
      | Inr e \<Rightarrow> TryEncodeExecExpr db g b stack off e (binary_start bop st)) = Done st1"
    and rhs: "try_bind (operand db (decimal_type l r t) r) (\<lambda>x. case x of
        Inl w \<Rightarrow> write_literal db w st1
      | Inr e \<Rightarrow> TryEncodeExecExpr db g b stack off e st1) = Done st'"
    using "5.prems" by (auto simp: try_bind_Done_iff [of "try_bind _ _"] split: option.splits list.splits)
  obtain x where x: "operand db (decimal_type l r t) l = Done x"
      "adds (denotes_operand db g b stack off x) (binary_start bop st) st1"
    using operand_step [OF lhs, of g b stack off] "5.IH"(1) [OF bop ch] by blast
  obtain y where y: "operand db (decimal_type l r t) r = Done y"
      "adds (denotes_operand db g b stack off y) st1 st'"
    using operand_step [OF rhs, of g b stack off] "5.IH"(2) [OF bop ch] lhs by blast
  show ?case
    unfolding ch by (rule adds_binary [OF x(2) y(2)]) (rule function_call [OF bop [unfolded ch] x(1) y(1)])
next
  case (6 db g b stack off t k children st)
  obtain bop l r st1 where ch: "children = [Some l, Some r]"
    and bop: "operator_of (ExpressionTypeToOperator db k) = Some bop"
    and lhs: "try_bind (operand db (decimal_type (Some l) (Some r) t) (Some l)) (\<lambda>x. case x of
        Inl w \<Rightarrow> write_literal db w (binary_start bop st)
      | Inr e \<Rightarrow> TryEncodeExecExpr db g b stack off e (binary_start bop st)) = Done st1"
    and rhs: "try_bind (operand db (decimal_type (Some l) (Some r) t) (Some r)) (\<lambda>x. case x of
        Inl w \<Rightarrow> write_literal db w st1
      | Inr e \<Rightarrow> TryEncodeExecExpr db g b stack off e st1) = Done st'"
    using "6.prems" by (auto simp: try_bind_Done_iff [of "try_bind _ _"] split: option.splits list.splits)
  obtain x where x: "operand db (decimal_type (Some l) (Some r) t) (Some l) = Done x"
      "adds (denotes_operand db g b stack off x) (binary_start bop st) st1"
    using operand_step [OF lhs, of g b stack off] "6.IH"(1) [OF ch refl refl refl refl bop] by blast
  obtain y where y: "operand db (decimal_type (Some l) (Some r) t) (Some r) = Done y"
      "adds (denotes_operand db g b stack off y) st1 st'"
    using operand_step [OF rhs, of g b stack off] "6.IH"(2) [OF ch refl refl refl refl bop] lhs by blast
  show ?case
    unfolding ch by (rule adds_binary [OF x(2) y(2)]) (rule operator_call [OF bop x(1) y(1)])
qed auto


primrec expr_columns :: "ExprIr \<Rightarrow> string set" where
  "expr_columns (ColumnRef s) = {s}"
| "expr_columns (Literal l) = {}"
| "expr_columns (Binary bop l r) = expr_columns l \<union> expr_columns r"
| "expr_columns (Cast h e) = expr_columns e"

text \<open>The columns collected are the ones the expression refers to, by name.\<close>

lemma denotes_columns:
  "denotes db g b stack off e ir cols \<Longrightarrow>
     (\<forall>i \<in> set cols. i < length (names b)) \<and> expr_columns ir = (!) (names b) ` set cols"
  "denotes_operand db g b stack off x ir cols \<Longrightarrow>
     (\<forall>i \<in> set cols. i < length (names b)) \<and> expr_columns ir = (!) (names b) ` set cols"
  by (induction rule: denotes_denotes_operand.inducts)
    (auto simp: scan_column_def Let_def image_Un split: if_splits)


section \<open>Groups and aggregates\<close>

definition group_means ::
    "duckdb \<Rightarrow> LogicalGet \<Rightarrow> LanceScanBindData \<Rightarrow> Expression option list list \<Rightarrow> Expression option
       \<Rightarrow> GroupIr \<Rightarrow> nat list \<Rightarrow> bool" where
  "group_means db g b stack expr gi cols \<longleftrightarrow>
     (\<exists>e ir h. expr = Some e \<and> denotes db g b stack 0 e ir cols \<and> expr_small ir \<and>
        hint_of (return_type e) = Some h \<and>
        gi = \<lparr>g_output_name = GetName db e, g_expr = ir, g_output_type = Some h\<rparr>)"

definition encoded_group :: "GroupIr \<Rightarrow> EncodedGroup" where
  "encoded_group gi =
     \<lparr>group_name = g_output_name gi, group_expr = exec_expr_bytes (g_expr gi),
      group_type = (case g_output_type gi of None \<Rightarrow> [] | Some h \<Rightarrow> hint_bytes h)\<rparr>"

fun ir_func :: "ExecIrAggFunc \<Rightarrow> AggFunc" where
  "ir_func Agg_SUM = F_Sum"
| "ir_func Agg_COUNT = F_Count"
| "ir_func Agg_COUNT_STAR = F_CountStar"
| "ir_func Agg_MIN = F_Min"
| "ir_func Agg_MAX = F_Max"
| "ir_func Agg_AVG = F_Avg"

lemma agg_func_code_eq: "agg_func_code f = agg_byte (ir_func f)"
  by (cases f) simp_all

definition args_mean ::
    "duckdb \<Rightarrow> LogicalGet \<Rightarrow> LanceScanBindData \<Rightarrow> Expression option list list \<Rightarrow> Expression option option
       \<Rightarrow> ExprIr list \<Rightarrow> nat list \<Rightarrow> bool" where
  "args_mean db g b stack arg args cols \<longleftrightarrow>
     (case arg of
        None \<Rightarrow> args = [] \<and> cols = []
      | Some None \<Rightarrow> False
      | Some (Some a) \<Rightarrow> \<exists>ir. args = [ir] \<and> denotes db g b stack 0 a ir cols \<and> expr_small ir)"

definition agg_means ::
    "duckdb \<Rightarrow> LogicalGet \<Rightarrow> LanceScanBindData \<Rightarrow> Expression option list list \<Rightarrow> Expression option
       \<Rightarrow> AggIr \<Rightarrow> nat list \<Rightarrow> bool" where
  "agg_means db g b stack expr ai cols \<longleftrightarrow>
     (\<exists>e ff func arg args h. expr = Some e \<and> aggregate_call db ff e = Done (func, arg) \<and>
        args_mean db g b stack arg args cols \<and> hint_of (return_type e) = Some h \<and>
        ai = \<lparr>a_func = ir_func func, a_output_name = GetName db e, a_args = args, a_output_type = Some h\<rparr>)"

definition encodes_agg :: "AggIr \<Rightarrow> EncodedAgg \<Rightarrow> bool" where
  "encodes_agg ai ea \<longleftrightarrow>
     agg_func_code (agg_func ea) = agg_byte (a_func ai) \<and> agg_name ea = a_output_name ai \<and>
     agg_args ea = concat (map exec_expr_bytes (a_args ai)) \<and>
     agg_type ea = (case a_output_type ai of None \<Rightarrow> [] | Some h \<Rightarrow> hint_bytes h) \<and>
     agg_count ea = word_of_nat (length (a_args ai)) \<and> list_all expr_small (a_args ai) \<and>
     length (a_args ai) \<le> 1 \<and> a_output_type ai \<noteq> None"

lemma TryEncodeExecExpr_empty:
  assumes "TryEncodeExecExpr db g b stack 0 e empty_state = Done st"
  shows "\<exists>ir cols. denotes db g b stack 0 e ir cols \<and> expr_small ir \<and> out st = exec_expr_bytes ir \<and>
    out_col_idxs st = add_columns cols []"
proof -
  obtain ir cols where "denotes db g b stack 0 e ir cols" "expr_small ir" "st = appended empty_state ir cols"
    using TryEncodeExecExpr_adds [OF assms] unfolding adds_def by blast
  then show ?thesis
    by (intro exI [of _ ir] exI [of _ cols]) (simp add: appended_def empty_state_def)
qed

lemma encode_group_means:
  assumes "encode_group db ff g b stack expr = Done (eg, idxs)"
  shows "\<exists>gi cols. group_means db g b stack expr gi cols \<and> eg = encoded_group gi \<and> idxs = add_columns cols []"
proof -
  obtain e st hint where expr: "expr = Some e" and enc: "TryEncodeExecExpr db g b stack 0 e empty_state = Done st"
    and hint: "TryEncodeOutputTypeHint (return_type e) = Done hint"
    and eg: "eg = \<lparr>group_name = GetName db e, group_expr = out st, group_type = hint\<rparr>" "idxs = out_col_idxs st"
    using assms by (auto simp: encode_group_def split: option.splits if_splits outcome.splits)
  obtain ir cols where ir: "denotes db g b stack 0 e ir cols" "expr_small ir" "out st = exec_expr_bytes ir"
      "out_col_idxs st = add_columns cols []"
    using TryEncodeExecExpr_empty [OF enc] by blast
  obtain h where h: "hint_of (return_type e) = Some h" "hint = hint_bytes h"
    using hint by (auto simp: TryEncodeOutputTypeHint_iff)
  let ?gi = "\<lparr>g_output_name = GetName db e, g_expr = ir, g_output_type = Some h\<rparr>"
  have "group_means db g b stack expr ?gi cols" using expr ir h by (simp add: group_means_def)
  moreover have "eg = encoded_group ?gi" using eg ir h by (simp add: encoded_group_def)
  ultimately show ?thesis using eg(2) ir(4) by blast
qed

lemma encode_agg_means:
  assumes "encode_agg db ff g b stack expr = Done (ea, idxs)"
  shows "\<exists>ai cols. agg_means db g b stack expr ai cols \<and> encodes_agg ai ea \<and> idxs = add_columns cols []"
proof -
  obtain e func arg hint where expr: "expr = Some e" and call: "aggregate_call db ff e = Done (func, arg)"
    and hint: "TryEncodeOutputTypeHint (return_type e) = Done hint"
    and rest: "(case arg of
        None \<Rightarrow> Done (\<lparr>agg_func = func, agg_name = GetName db e, agg_args = [],
          agg_type = hint, agg_count = 0\<rparr>, [])
      | Some None \<Rightarrow> Refused
      | Some (Some arg_expr) \<Rightarrow>
          (case TryEncodeExecExpr db g b stack 0 arg_expr empty_state of
             Raised x \<Rightarrow> Raised x
           | Refused \<Rightarrow> give_up ff ''ExecIR aggregate arg encode failed: %s''
           | Done st \<Rightarrow> Done (\<lparr>agg_func = func, agg_name = GetName db e, agg_args = out st,
               agg_type = hint, agg_count = 1\<rparr>, out_col_idxs st))) = Done (ea, idxs)"
  proof -
    obtain e where expr: "expr = Some e" using assms by (cases expr) (auto simp: encode_agg_def)
    obtain func arg where call: "aggregate_call db ff e = Done (func, arg)"
      using assms by (cases "aggregate_call db ff e") (auto simp: encode_agg_def expr)
    obtain hint where hint: "TryEncodeOutputTypeHint (return_type e) = Done hint"
      using assms by (cases "TryEncodeOutputTypeHint (return_type e)") (auto simp: encode_agg_def expr call)
    show ?thesis
      by (rule that [OF expr call hint]) (use assms in \<open>simp add: encode_agg_def expr call hint\<close>)
  qed
  obtain h where h: "hint_of (return_type e) = Some h" "hint = hint_bytes h"
    using hint by (auto simp: TryEncodeOutputTypeHint_iff)
  have "\<exists>args cols. args_mean db g b stack arg args cols \<and> list_all expr_small args \<and> length args \<le> 1 \<and>
      ea = \<lparr>agg_func = func, agg_name = GetName db e, agg_args = concat (map exec_expr_bytes args),
            agg_type = hint, agg_count = word_of_nat (length args)\<rparr> \<and> idxs = add_columns cols []"
  proof (cases arg)
    case None
    then show ?thesis
      using rest by (intro exI [of _ "[]"]) (simp add: args_mean_def add_columns_def)
  next
    case (Some a)
    then obtain a' st where a': "a = Some a'" and enc: "TryEncodeExecExpr db g b stack 0 a' empty_state = Done st"
      and ea: "ea = \<lparr>agg_func = func, agg_name = GetName db e, agg_args = out st, agg_type = hint, agg_count = 1\<rparr>"
        "idxs = out_col_idxs st"
      using rest by (auto split: option.splits outcome.splits)
    obtain ir cols where "denotes db g b stack 0 a' ir cols" "expr_small ir" "out st = exec_expr_bytes ir"
        "out_col_idxs st = add_columns cols []"
      using TryEncodeExecExpr_empty [OF enc] by blast
    then show ?thesis
      using Some a' ea by (intro exI [of _ "[ir]"] exI [of _ cols]) (simp add: args_mean_def)
  qed
  then obtain args cols where args: "args_mean db g b stack arg args cols" "list_all expr_small args" "length args \<le> 1"
    and ea: "ea = \<lparr>agg_func = func, agg_name = GetName db e, agg_args = concat (map exec_expr_bytes args),
            agg_type = hint, agg_count = word_of_nat (length args)\<rparr>" "idxs = add_columns cols []" by blast
  let ?ai = "\<lparr>a_func = ir_func func, a_output_name = GetName db e, a_args = args, a_output_type = Some h\<rparr>"
  have "agg_means db g b stack expr ?ai cols" using expr call args h by (auto simp: agg_means_def)
  moreover have "encodes_agg ?ai ea" using ea args h by (simp add: encodes_agg_def agg_func_code_eq)
  ultimately show ?thesis using ea(2) by blast
qed

lemma encode_all_means:
  assumes "encode_all f es idxs = Done (rs, idxs')"
    and means: "\<And>e r new. f e = Done (r, new) \<Longrightarrow> \<exists>m cols. M e m cols \<and> R m r \<and> new = add_columns cols []"
  obtains ms where "list_all2 (\<lambda>e (m, cols). M e m cols) es ms" and "list_all2 (\<lambda>(m, cols) r. R m r) ms rs"
    and "set idxs' = set idxs \<union> \<Union> ((\<lambda>(m, cols). set cols) ` set ms)" and "distinct idxs \<longrightarrow> distinct idxs'"
  using assms(1)
proof (induction es arbitrary: idxs rs thesis)
  case (Cons e es)
  then obtain r new rs1 where f: "f e = Done (r, new)"
    and rest: "encode_all f es (add_columns new idxs) = Done (rs1, idxs')" and rs: "rs = r # rs1"
    by (auto simp: try_bind_Done_iff)
  obtain m cols where m: "M e m cols" "R m r" "new = add_columns cols []" using means [OF f] by blast
  obtain ms where ms: "list_all2 (\<lambda>e (m, cols). M e m cols) es ms" "list_all2 (\<lambda>(m, cols) r. R m r) ms rs1"
      "set idxs' = set (add_columns new idxs) \<union> \<Union> ((\<lambda>(m, cols). set cols) ` set ms)"
      "distinct (add_columns new idxs) \<longrightarrow> distinct idxs'"
    by (rule Cons.IH [OF _ rest]) blast
  show ?case
    by (rule Cons.prems(1) [of "(m, cols) # ms"]) (use m ms rs in auto)
qed simp


section \<open>Plans\<close>

definition order_ir :: "string \<times> bool \<times> bool \<Rightarrow> OrderByIr" where
  "order_ir = (\<lambda>(name, asc, nulls_first). \<lparr>o_column = name, o_asc = asc, o_nulls_first = nulls_first\<rparr>)"

definition initial_outputs :: "exec_parts \<Rightarrow> output_state" where
  "initial_outputs ps =
     \<lparr>output_names = map group_name (part_groups ps) @ map agg_name (part_aggs ps),
      out_groups = part_groups ps, out_aggs = part_aggs ps\<rparr>"

text \<open>
  The plan meant: groups and aggregates in order; the scan projection names the requested extra
  columns and every column read, sorted by index and without repetition; the order entries.
\<close>

definition plan_parts ::
    "duckdb \<Rightarrow> LogicalGet \<Rightarrow> LanceScanBindData \<Rightarrow> nat list \<Rightarrow> Expression option list list \<Rightarrow> LogicalAggregate
       \<Rightarrow> ExecIr \<Rightarrow> bool" where
  "plan_parts db g b extra stack agg x \<longleftrightarrow>
     (\<exists>gs as idxs.
        list_all2 (\<lambda>e (m, cols). group_means db g b stack e m cols) (groups agg) gs \<and> x_groups x = map fst gs \<and>
        list_all2 (\<lambda>e (m, cols). agg_means db g b stack e m cols) (expressions agg) as \<and> x_aggs x = map fst as \<and>
        sorted idxs \<and> distinct idxs \<and> (\<forall>i \<in> set idxs. i < length (names b) \<and> names b ! i \<noteq> []) \<and>
        set idxs = set extra \<union> \<Union> ((\<lambda>(m, cols). set cols) ` set gs) \<union> \<Union> ((\<lambda>(m, cols). set cols) ` set as) \<and>
        x_scan_projection x = map ((!) (names b)) idxs)"

definition encodes_parts :: "exec_parts \<Rightarrow> ExecIr \<Rightarrow> bool" where
  "encodes_parts ps x \<longleftrightarrow>
     part_groups ps = map encoded_group (x_groups x) \<and> list_all2 encodes_agg (x_aggs x) (part_aggs ps) \<and>
     part_projection ps = x_scan_projection x \<and>
     list_all (\<lambda>gi. expr_small (g_expr gi) \<and> g_output_type gi \<noteq> None) (x_groups x)"

lemma scan_projection_names:
  "try_map (scan_projection_name ff b) idxs = Done names' \<Longrightarrow>
     names' = map ((!) (names b)) idxs \<and> (\<forall>i \<in> set idxs. i < length (names b) \<and> names b ! i \<noteq> [])"
  by (induction idxs arbitrary: names')
    (auto simp: try_bind_Done_iff scan_projection_name_def Let_def split: if_splits)

lemma collect_parts_means:
  assumes "collect_parts db ff g b extra stack agg = Done ps"
  shows "\<exists>x. plan_parts db g b extra stack agg x \<and> encodes_parts ps x"
proof -
  obtain gs ags idxs1 idxs2 proj where
      G: "encode_all (encode_group db ff g b stack) (groups agg) (add_columns extra []) = Done (gs, idxs1)"
    and A: "encode_all (encode_agg db ff g b stack) (expressions agg) idxs1 = Done (ags, idxs2)"
    and P: "try_map (scan_projection_name ff b) (sort idxs2) = Done proj"
    and ps: "ps = \<lparr>part_groups = gs, part_aggs = ags, part_projection = proj\<rparr>"
    using assms by (auto simp: collect_parts_def try_bind_Done_iff split: if_splits)
  obtain gms where gms: "list_all2 (\<lambda>e (m, cols). group_means db g b stack e m cols) (groups agg) gms"
      "list_all2 (\<lambda>(m, cols) r. r = encoded_group m) gms gs"
      "set idxs1 = set (add_columns extra []) \<union> \<Union> ((\<lambda>(m, cols). set cols) ` set gms)"
      "distinct (add_columns extra []) \<longrightarrow> distinct idxs1"
  proof (rule encode_all_means [OF G, of "group_means db g b stack" "\<lambda>m r. r = encoded_group m"])
    fix e r new assume "encode_group db ff g b stack e = Done (r, new)"
    then show "\<exists>m cols. group_means db g b stack e m cols \<and> r = encoded_group m \<and> new = add_columns cols []"
      by (rule encode_group_means)
  qed
  obtain ams where ams: "list_all2 (\<lambda>e (m, cols). agg_means db g b stack e m cols) (expressions agg) ams"
      "list_all2 (\<lambda>(m, cols) r. encodes_agg m r) ams ags"
      "set idxs2 = set idxs1 \<union> \<Union> ((\<lambda>(m, cols). set cols) ` set ams)" "distinct idxs1 \<longrightarrow> distinct idxs2"
  proof (rule encode_all_means [OF A, of "agg_means db g b stack" encodes_agg])
    fix e r new assume "encode_agg db ff g b stack e = Done (r, new)"
    then show "\<exists>m cols. agg_means db g b stack e m cols \<and> encodes_agg m r \<and> new = add_columns cols []"
      by (rule encode_agg_means)
  qed
  let ?x = "\<lparr>x_filter_ir = [], x_scan_projection = proj, x_groups = map fst gms, x_aggs = map fst ams, x_order_by = []\<rparr>"
  have proj: "proj = map ((!) (names b)) (sort idxs2)"
      "\<forall>i \<in> set (sort idxs2). i < length (names b) \<and> names b ! i \<noteq> []"
    using scan_projection_names [OF P] by auto
  have idxs: "distinct idxs2" "set idxs2 = set extra \<union> \<Union> ((\<lambda>(m, cols). set cols) ` set gms) \<union>
      \<Union> ((\<lambda>(m, cols). set cols) ` set ams)"
    using gms(3,4) ams(3,4) by simp_all
  have "plan_parts db g b extra stack agg ?x"
    unfolding plan_parts_def
    by (rule exI [of _ gms], rule exI [of _ ams], rule exI [of _ "sort idxs2"])
      (intro conjI; use gms(1) ams(1) proj idxs in simp)
  moreover have "encodes_parts ps ?x"
  proof -
    have "gs = map encoded_group (map fst gms)"
      using gms(2) by (induction rule: list_all2_induct) auto
    moreover have "list_all2 encodes_agg (map fst ams) ags"
      using ams(2) by (auto simp: list_all2_map1 case_prod_beta elim: list_all2_mono)
    moreover have "list_all (\<lambda>gi. expr_small (g_expr gi) \<and> g_output_type gi \<noteq> None) (map fst gms)"
      using gms(1) by (induction rule: list_all2_induct) (auto simp: group_means_def)
    ultimately show ?thesis by (simp add: encodes_parts_def ps)
  qed
  ultimately show ?thesis by blast
qed



section \<open>Output names and ordering\<close>

definition outputs_ok :: "output_state \<Rightarrow> bool" where
  "outputs_ok os \<longleftrightarrow> output_names os = map group_name (out_groups os) @ map agg_name (out_aggs os)"

definition same_shape :: "output_state \<Rightarrow> output_state \<Rightarrow> bool" where
  "same_shape os os' \<longleftrightarrow> length (out_groups os') = length (out_groups os) \<and>
     length (out_aggs os') = length (out_aggs os)"

lemma outputs_ok_length: "outputs_ok os \<Longrightarrow> length (output_names os) = length (out_groups os) + length (out_aggs os)"
  by (simp add: outputs_ok_def)

lemma rename_output_keeps:
  assumes "outputs_ok os" and "i < length (output_names os)"
  shows "outputs_ok (rename_output i name os)" and "same_shape os (rename_output i name os)"
    and "output_names (rename_output i name os) = (output_names os)[i := name]"
  using assms
  by (auto simp: outputs_ok_def same_shape_def rename_output_def Let_def map_update list_update_append)

lemma rename_loop_names:
  assumes "rename_loop db ff agg exprs i os = Done os'" and "outputs_ok os"
    and "i + length exprs \<le> length (output_names os)"
  shows "outputs_ok os' \<and> same_shape os os' \<and>
    output_names os' = take i (output_names os) @ map (GetName db \<circ> the) exprs @ drop (i + length exprs) (output_names os)"
  using assms
proof (induction exprs arbitrary: i os)
  case (Cons expr exprs)
  obtain e where e: "expr = Some e" using Cons.prems(1) by (cases expr) auto
  let ?os = "rename_output i (GetName db e) os"
  have i: "i < length (output_names os)" using Cons.prems(3) by simp
  note kept = rename_output_keeps [OF Cons.prems(2) i, of "GetName db e"]
  have "rename_loop db ff agg exprs (i + 1) ?os = Done os'"
    using Cons.prems(1) e by (auto split: if_splits option.splits)
  from Cons.IH [OF this kept(1)]
  have IH: "outputs_ok os'" "same_shape ?os os'" "output_names os' = take (i + 1) (output_names ?os) @
      map (GetName db \<circ> the) exprs @ drop (i + 1 + length exprs) (output_names ?os)"
    using Cons.prems(3) kept(3) by auto
  have "take (i + 1) ((output_names os)[i := GetName db e]) = take i (output_names os) @ [GetName db e]"
    using i by (simp add: take_Suc_conv_app_nth)
  then show ?case
    using IH kept(2,3) e by (simp add: same_shape_def)
qed (simp add: same_shape_def)

text \<open>The columns of the result, in order: a post projection renames them all.\<close>

definition output_columns :: "duckdb \<Rightarrow> LogicalProjection option \<Rightarrow> ExecIr \<Rightarrow> string list" where
  "output_columns db post x =
     (case post of
        None \<Rightarrow> map g_output_name (x_groups x) @ map a_output_name (x_aggs x)
      | Some p \<Rightarrow> map (GetName db \<circ> the) (projection_expressions p))"

text \<open>The position in the result an ORDER BY expression refers to.\<close>

definition order_position :: "LogicalAggregate \<Rightarrow> nat \<Rightarrow> nat \<Rightarrow> LogicalProjection option \<Rightarrow> Expression \<Rightarrow> nat option" where
  "order_position agg n m post e =
     (case e of
        BoundRef t nm i \<Rightarrow> if i < n + m then Some i else None
      | BoundColumnRef t binding depth \<Rightarrow>
          let i = column_index binding in
          if table_index binding = group_index agg then (if i < n then Some i else None)
          else if table_index binding = aggregate_index agg then (if i < m then Some (n + i) else None)
          else if post \<noteq> None \<and> table_index binding = projection_table_index (the post)
          then (if i < n + m then Some i else None)
          else None
      | _ \<Rightarrow> None)"

definition order_means ::
    "duckdb \<Rightarrow> LogicalAggregate \<Rightarrow> LogicalProjection option \<Rightarrow> ExecIr \<Rightarrow> BoundOrderByNode \<Rightarrow> OrderByIr \<Rightarrow> bool" where
  "order_means db agg post x node ob \<longleftrightarrow>
     (\<exists>e i. order_expression node = Some e \<and>
        order_position agg (length (x_groups x)) (length (x_aggs x)) post e = Some i \<and>
        i < length (output_columns db post x) \<and>
        ob = \<lparr>o_column = output_columns db post x ! i, o_asc = (order_type node = ASCENDING),
              o_nulls_first = (null_order node = NULLS_FIRST)\<rparr>)"

lemma order_column_position:
  assumes "order_column ff agg post os e = Done name" and "outputs_ok os"
  shows "\<exists>i < length (output_names os).
    order_position agg (length (out_groups os)) (length (out_aggs os)) post e = Some i \<and> name = output_names os ! i"
proof (cases e)
  case (BoundRef t nm i)
  then show ?thesis
    using assms(1) outputs_ok_length [OF assms(2)] by (simp add: order_column_def order_position_def split: if_splits)
next
  case (BoundColumnRef t binding depth)
  have names: "i < length (out_groups os) \<Longrightarrow> output_names os ! i = group_name (out_groups os ! i)"
      "i < length (out_aggs os) \<Longrightarrow> output_names os ! (length (out_groups os) + i) = agg_name (out_aggs os ! i)" for i
    using assms(2) by (simp_all add: outputs_ok_def nth_append)
  show ?thesis
    using assms(1) outputs_ok_length [OF assms(2)] names unfolding BoundColumnRef
    by (simp add: order_column_def order_position_def Let_def split: if_splits) auto
qed (use assms(1) in \<open>simp_all add: order_column_def\<close>)

lemma encodes_parts_outputs:
  assumes "encodes_parts ps x"
  shows "outputs_ok (initial_outputs ps)" and "length (part_groups ps) = length (x_groups x)"
    and "length (part_aggs ps) = length (x_aggs x)"
    and "output_names (initial_outputs ps) = map g_output_name (x_groups x) @ map a_output_name (x_aggs x)"
proof -
  have aggs: "list_all2 encodes_agg (x_aggs x) (part_aggs ps)" using assms by (simp add: encodes_parts_def)
  then have "map agg_name (part_aggs ps) = map a_output_name (x_aggs x)"
    by (induction rule: list_all2_induct) (simp_all add: encodes_agg_def)
  then show "outputs_ok (initial_outputs ps)" "length (part_groups ps) = length (x_groups x)"
      "length (part_aggs ps) = length (x_aggs x)"
      "output_names (initial_outputs ps) = map g_output_name (x_groups x) @ map a_output_name (x_aggs x)"
    using assms aggs
    by (auto simp: outputs_ok_def initial_outputs_def encodes_parts_def encoded_group_def list_all2_lengthD)
qed

lemma apply_post_projection_names:
  assumes "apply_post_projection db ff agg post (initial_outputs ps) = Done os" and "encodes_parts ps x"
  shows "outputs_ok os" and "length (out_groups os) = length (x_groups x)"
    and "length (out_aggs os) = length (x_aggs x)" and "output_names os = output_columns db post x"
proof -
  note init = encodes_parts_outputs [OF assms(2)]
  have "outputs_ok os \<and> same_shape (initial_outputs ps) os \<and> output_names os = output_columns db post x"
  proof (cases post)
    case None
    then show ?thesis
      using assms(1) init by (auto simp: apply_post_projection_def same_shape_def output_columns_def)
  next
    case (Some p)
    then have loop: "rename_loop db ff agg (projection_expressions p) 0 (initial_outputs ps) = Done os"
      and len: "length (projection_expressions p) = length (output_names (initial_outputs ps))"
      using assms(1) by (auto simp: apply_post_projection_def split: if_splits)
    from rename_loop_names [OF loop init(1)] len show ?thesis
      by (simp add: output_columns_def Some)
  qed
  then show "outputs_ok os" "length (out_groups os) = length (x_groups x)"
      "length (out_aggs os) = length (x_aggs x)" "output_names os = output_columns db post x"
    using init by (simp_all add: same_shape_def initial_outputs_def)
qed



section \<open>The whole message\<close>

definition exec_means ::
    "duckdb \<Rightarrow> LogicalGet \<Rightarrow> LanceScanBindData \<Rightarrow> bytes \<Rightarrow> nat list \<Rightarrow> Expression option list list
       \<Rightarrow> LogicalAggregate \<Rightarrow> BoundOrderByNode list option \<Rightarrow> LogicalProjection option \<Rightarrow> ExecIr \<Rightarrow> bool" where
  "exec_means db g b filter_ir_msg extra stack agg order post x \<longleftrightarrow>
     plan_parts db g b extra stack agg x \<and> x_filter_ir x = filter_ir_msg \<and>
     list_all2 (order_means db agg post x) (case order of None \<Rightarrow> [] | Some nodes \<Rightarrow> nodes) (x_order_by x)"

lemma try_map_order_entries:
  assumes "try_map (order_entry db ff agg post os) nodes = Done entries"
    and "outputs_ok os" "length (out_groups os) = length (x_groups x)"
    "length (out_aggs os) = length (x_aggs x)" "output_names os = output_columns db post x"
  shows "list_all2 (order_means db agg post x) nodes (map order_ir entries)"
  using assms(1)
proof (induction nodes arbitrary: entries)
  case (Cons node nodes)
  then obtain en ens where en: "order_entry db ff agg post os node = Done en"
    and ens: "try_map (order_entry db ff agg post os) nodes = Done ens" and entries: "entries = en # ens"
    by (auto simp: try_bind_Done_iff)
  obtain e where e: "order_expression node = Some e" using en by (cases "order_expression node") (auto simp: order_entry_def)
  obtain name where name: "order_column ff agg post os e = Done name"
    and en': "en = (name, order_type node = ASCENDING, null_order node = NULLS_FIRST)"
    using en by (auto simp: order_entry_def e try_bind_Done_iff split: if_splits)
  have "order_means db agg post x node (order_ir en)"
    using order_column_position [OF name assms(2)] e en' assms(3-5) by (auto simp: order_means_def order_ir_def)
  then show ?case using Cons.IH [OF ens] entries by simp
qed simp

text \<open>What is required of the sizes, and not already checked while the parts are encoded.\<close>

definition exec_small :: "ExecIr \<Rightarrow> bool" where
  "exec_small x \<longleftrightarrow>
     small (x_filter_ir x) \<and> length (x_scan_projection x) \<le> u32_max \<and> list_all name_small (x_scan_projection x) \<and>
     length (x_groups x) \<le> u32_max \<and>
     list_all (\<lambda>gi. name_small (g_output_name gi) \<and> expr_small (g_expr gi) \<and> g_output_type gi \<noteq> None) (x_groups x) \<and>
     length (x_aggs x) \<le> u32_max \<and>
     list_all (\<lambda>ai. name_small (a_output_name ai) \<and> list_all expr_small (a_args ai) \<and>
       length (a_args ai) \<le> 1 \<and> a_output_type ai \<noteq> None) (x_aggs x) \<and>
     length (x_order_by x) \<le> u32_max \<and> list_all (\<lambda>ob. name_small (o_column ob)) (x_order_by x)"

lemma group_bytes_encoded:
  "concat (map (\<lambda>gr. name_bytes (group_name gr) @ group_expr gr @ group_type gr) (map encoded_group gs)) =
     concat (map group_bytes gs)"
  by (induction gs) (simp_all add: encoded_group_def group_bytes_def)

lemma agg_bytes_encoded:
  "list_all2 encodes_agg ais eas \<Longrightarrow>
     concat (map (\<lambda>a. agg_func_code (agg_func a) # name_bytes (agg_name a) @ le_split 4 (agg_count a) @
       agg_args a @ agg_type a) eas) = concat (map agg_bytes ais)"
  by (induction rule: list_all2_induct)
    (simp_all add: encodes_agg_def agg_bytes_def exec_expr_codec.wr_vec_def)

lemma order_bytes_entries:
  "concat (map (\<lambda>(name, asc, nulls_first). name_bytes name @ [if asc then 1 else 0, if nulls_first then 1 else 0]) es) =
     concat (map order_bytes (map order_ir es))"
  by (induction es) (auto simp: order_bytes_def order_ir_def)

lemma write_body_bytes:
  assumes "write_body filter_ir_msg ps = Done buf" and "encodes_parts ps x" and "x_filter_ir x = filter_ir_msg"
  shows "buf = string_bytes ''LEX1'' @ le_split 4 (4 :: u32) @ le_split 4 (0 :: u32) @ prefixed (x_filter_ir x) @
      string_codec.wr_vec (x_scan_projection x) @ group_codec.wr_vec (x_groups x) @ agg_codec.wr_vec (x_aggs x)"
    and "small (x_filter_ir x)" and "length (x_scan_projection x) \<le> u32_max"
    and "list_all name_small (x_scan_projection x)" and "length (x_groups x) \<le> u32_max"
    and "list_all (\<lambda>gi. name_small (g_output_name gi)) (x_groups x)" and "length (x_aggs x) \<le> u32_max"
    and "list_all (\<lambda>ai. name_small (a_output_name ai)) (x_aggs x)"
proof -
  have ps: "part_groups ps = map encoded_group (x_groups x)" "list_all2 encodes_agg (x_aggs x) (part_aggs ps)"
      "part_projection ps = x_scan_projection x"
    using assms(2) by (simp_all add: encodes_parts_def)
  have len: "length (part_aggs ps) = length (x_aggs x)" using ps(2) by (simp add: list_all2_lengthD)
  note body = assms(1) [unfolded write_body_def Let_def]
  have flt: "length filter_ir_msg \<le> u32_max" using body by (cases "u32_max < length filter_ir_msg") simp_all
  from body flt have body:
      "length (part_projection ps) \<le> u32_max \<and> list_all name_small (part_projection ps) \<and>
       length (part_groups ps) \<le> u32_max \<and> list_all (\<lambda>g. name_small (group_name g)) (part_groups ps) \<and>
       length (part_aggs ps) \<le> u32_max \<and> list_all (\<lambda>a. name_small (agg_name a)) (part_aggs ps) \<and>
       buf = string_bytes ''LEX1'' @ le_split 4 (4 :: u32) @ le_split 4 (0 :: u32) @ prefixed filter_ir_msg @
         string_codec.wr_vec (part_projection ps) @
         (le_split 4 (word_of_nat (length (part_groups ps)) :: u32) @
           concat (map (\<lambda>gr. name_bytes (group_name gr) @ group_expr gr @ group_type gr) (part_groups ps))) @
         (le_split 4 (word_of_nat (length (part_aggs ps)) :: u32) @
           concat (map (\<lambda>a. agg_func_code (agg_func a) # name_bytes (agg_name a) @ le_split 4 (agg_count a) @
             agg_args a @ agg_type a) (part_aggs ps)))"
    by (auto simp: try_bind_Done_iff string_appender.write_list_iff group_appender.write_list_iff
        agg_appender.write_list_iff string_codec.wr_vec_def prefixed_def [of filter_ir_msg] write_eqs)
  have names: "map agg_name (part_aggs ps) = map a_output_name (x_aggs x)"
    using ps(2) by (induction rule: list_all2_induct) (simp_all add: encodes_agg_def)
  have "list_all name_small (map agg_name (part_aggs ps))" using body by (simp add: list_all_iff)
  then show "list_all (\<lambda>ai. name_small (a_output_name ai)) (x_aggs x)" unfolding names by (simp add: list_all_iff)
  show "buf = string_bytes ''LEX1'' @ le_split 4 (4 :: u32) @ le_split 4 (0 :: u32) @ prefixed (x_filter_ir x) @
      string_codec.wr_vec (x_scan_projection x) @ group_codec.wr_vec (x_groups x) @ agg_codec.wr_vec (x_aggs x)"
    using body ps(3) assms(3) unfolding group_codec.wr_vec_def agg_codec.wr_vec_def
    by (simp add: ps(1) group_bytes_encoded agg_bytes_encoded [OF ps(2)] len del: map_map)
  show "small (x_filter_ir x)" using flt assms(3) by (simp add: small_def)
  show "length (x_scan_projection x) \<le> u32_max" "list_all name_small (x_scan_projection x)"
    "length (x_groups x) \<le> u32_max" "length (x_aggs x) \<le> u32_max"
    using body ps len by simp_all
  show "list_all (\<lambda>gi. name_small (g_output_name gi)) (x_groups x)"
    using body ps by (simp add: list_all_iff encoded_group_def)
qed

theorem TryEncodeLanceExecIRv1_means:
  assumes "TryEncodeLanceExecIRv1 db ff g b filter_ir_msg extra stack agg order post = Done bs"
  shows "\<exists>x. exec_means db g b filter_ir_msg extra stack agg order post x \<and> bs = exec_bytes x \<and> exec_small x"
proof -
  obtain ps buf os entries where
      parts: "collect_parts db ff g b extra stack agg = Done ps"
    and body: "write_body filter_ir_msg ps = Done buf"
    and post: "apply_post_projection db ff agg post (initial_outputs ps) = Done os"
    and entries: "(case order of None \<Rightarrow> Done [] | Some nodes \<Rightarrow> try_map (order_entry db ff agg post os) nodes) = Done entries"
    and last: "write_list write_order buf entries = Done bs"
    using assms unfolding TryEncodeLanceExecIRv1_def try_bind_Done_iff initial_outputs_def by blast
  obtain x0 where x0: "plan_parts db g b extra stack agg x0" "encodes_parts ps x0"
    using collect_parts_means [OF parts] by blast
  define x where "x = x0\<lparr>x_filter_ir := filter_ir_msg, x_order_by := map order_ir entries\<rparr>"
  have x: "plan_parts db g b extra stack agg x" "encodes_parts ps x" "x_filter_ir x = filter_ir_msg"
      "x_order_by x = map order_ir entries"
    using x0 by (simp_all add: x_def plan_parts_def encodes_parts_def)
  note names = apply_post_projection_names [OF post x(2)]
  note bytes = write_body_bytes [OF body x(2,3)]
  have order: "list_all2 (order_means db agg post x) (case order of None \<Rightarrow> [] | Some nodes \<Rightarrow> nodes) (x_order_by x)"
    using entries x(4) try_map_order_entries [OF _ names] by (cases order) auto
  have last: "length entries \<le> u32_max" "list_all (\<lambda>(name, asc, nulls_first). name_small name) entries"
      "bs = buf @ order_codec.wr_vec (x_order_by x)"
    using last order_bytes_entries [of entries]
    by (auto simp: order_appender.write_list_iff order_codec.wr_vec_def x(4))
  have "list_all (\<lambda>ob. name_small (o_column ob)) (x_order_by x)"
    using last(2) by (auto simp: x(4) list_all_iff order_ir_def)
  moreover have "list_all (\<lambda>ai. list_all expr_small (a_args ai) \<and> length (a_args ai) \<le> 1 \<and> a_output_type ai \<noteq> None) (x_aggs x)"
    using x(2) by (auto simp: encodes_parts_def encodes_agg_def list_all2_conv_all_nth list_all_length)
  moreover have "list_all (\<lambda>gi. expr_small (g_expr gi) \<and> g_output_type gi \<noteq> None) (x_groups x)"
    using x(2) by (simp add: encodes_parts_def)
  ultimately have "exec_small x"
    using bytes(2-8) last(1) x(4) by (auto simp: exec_small_def list_all_iff)
  moreover have "bs = exec_bytes x" using last(3) bytes(1) by (simp add: exec_bytes_def)
  ultimately show ?thesis using x(1,3) order unfolding exec_means_def by blast
qed

text \<open>Names and string constants must be UTF-8 for the reader to accept the message.\<close>

primrec expr_utf8 :: "ExprIr \<Rightarrow> bool" where
  "expr_utf8 (ColumnRef s) = utf8_string s"
| "expr_utf8 (Literal l) = (case l of L_String s \<Rightarrow> utf8_string s | _ \<Rightarrow> True)"
| "expr_utf8 (Binary bop l r) = (expr_utf8 l \<and> expr_utf8 r)"
| "expr_utf8 (Cast h e) = expr_utf8 e"

definition exec_utf8 :: "ExecIr \<Rightarrow> bool" where
  "exec_utf8 x \<longleftrightarrow> list_all utf8_string (x_scan_projection x) \<and>
     list_all (\<lambda>gi. utf8_string (g_output_name gi) \<and> expr_utf8 (g_expr gi)) (x_groups x) \<and>
     list_all (\<lambda>ai. utf8_string (a_output_name ai) \<and> list_all expr_utf8 (a_args ai)) (x_aggs x) \<and>
     list_all (\<lambda>ob. utf8_string (o_column ob)) (x_order_by x)"

lemma expr_ok_iff: "exec_expr_ok e \<longleftrightarrow> expr_small e \<and> expr_utf8 e"
  by (induction e) (auto split: LiteralIr.splits)

lemma exec_ok_small: "exec_small x \<Longrightarrow> exec_utf8 x \<Longrightarrow> exec_ok x"
  by (auto simp: exec_ok_def exec_small_def exec_utf8_def string_codec.vec_ok_def group_codec.vec_ok_def
      agg_codec.vec_ok_def order_codec.vec_ok_def exec_expr_codec.vec_ok_def group_ok_def agg_ok_def
      expr_ok_iff list_all_iff)



section \<open>The scan projection is sufficient, and no larger than needed\<close>

lemma list_all2_columns:
  assumes "list_all2 (\<lambda>e (m, cols). M e m cols) es ms"
    and "\<And>e m cols. M e m cols \<Longrightarrow> F m = h ` set cols"
  shows "\<Union> (F ` set (map fst ms)) = h ` \<Union> ((\<lambda>(m, cols). set cols) ` set ms)"
  using assms(1)
proof (induction rule: list_all2_induct)
  case (Cons e es p ms)
  obtain m cols where p: "p = (m, cols)" by (cases p)
  have "F m = h ` set cols" using Cons.hyps(1) unfolding p prod.case by (rule assms(2))
  then show ?case using Cons.IH by (simp add: p image_Un)
qed simp

lemma group_columns:
  "group_means db g b stack e gi cols \<Longrightarrow> expr_columns (g_expr gi) = (!) (names b) ` set cols"
  unfolding group_means_def using denotes_columns(1) by fastforce

lemma agg_columns:
  "agg_means db g b stack e ai cols \<Longrightarrow> \<Union> (expr_columns ` set (a_args ai)) = (!) (names b) ` set cols"
  unfolding agg_means_def args_mean_def using denotes_columns(1) by (fastforce split: option.splits)

definition exec_columns :: "ExecIr \<Rightarrow> string set" where
  "exec_columns x = \<Union> ((\<lambda>gi. expr_columns (g_expr gi)) ` set (x_groups x)) \<union>
     \<Union> ((\<lambda>ai. \<Union> (expr_columns ` set (a_args ai))) ` set (x_aggs x))"

lemma plan_columns_exact:
  assumes "plan_parts db g b extra stack agg x"
  shows "set (x_scan_projection x) = exec_columns x \<union> (!) (names b) ` set extra"
proof -
  obtain gs as idxs where gs: "list_all2 (\<lambda>e (m, cols). group_means db g b stack e m cols) (groups agg) gs"
      "x_groups x = map fst gs"
    and as: "list_all2 (\<lambda>e (m, cols). agg_means db g b stack e m cols) (expressions agg) as" "x_aggs x = map fst as"
    and idxs: "set idxs = set extra \<union> \<Union> ((\<lambda>(m, cols). set cols) ` set gs) \<union> \<Union> ((\<lambda>(m, cols). set cols) ` set as)"
      "x_scan_projection x = map ((!) (names b)) idxs"
    using assms unfolding plan_parts_def by (elim exE conjE) (rule that, assumption+)
  have "\<Union> ((\<lambda>gi. expr_columns (g_expr gi)) ` set (x_groups x)) = (!) (names b) ` \<Union> ((\<lambda>(m, cols). set cols) ` set gs)"
    unfolding gs(2) by (rule list_all2_columns [OF gs(1)]) (rule group_columns)
  moreover have "\<Union> ((\<lambda>ai. \<Union> (expr_columns ` set (a_args ai))) ` set (x_aggs x))
      = (!) (names b) ` \<Union> ((\<lambda>(m, cols). set cols) ` set as)"
    unfolding as(2) by (rule list_all2_columns [OF as(1)]) (rule agg_columns)
  ultimately show ?thesis
    unfolding exec_columns_def idxs(2) set_map idxs(1) image_Un by (simp only: Un_assoc Un_left_commute Un_commute)
qed

lemma plan_extra_columns:
  assumes "plan_parts db g b extra stack agg x"
  shows "\<exists>idxs. sorted idxs \<and> distinct idxs \<and> set extra \<subseteq> set idxs \<and> (\<forall>i \<in> set idxs. i < length (names b)) \<and>
    x_scan_projection x = map ((!) (names b)) idxs"
proof -
  obtain gs :: "(GroupIr \<times> nat list) list" and as :: "(AggIr \<times> nat list) list" and idxs
    where "sorted idxs" "distinct idxs" "\<forall>i \<in> set idxs. i < length (names b) \<and> names b ! i \<noteq> []"
    and idxs: "set idxs = set extra \<union> \<Union> ((\<lambda>(m, cols). set cols) ` set gs) \<union> \<Union> ((\<lambda>(m, cols). set cols) ` set as)"
    and "x_scan_projection x = map ((!) (names b)) idxs"
    using assms unfolding plan_parts_def by (elim exE conjE) (rule that, assumption+)
  moreover have "set extra \<subseteq> set idxs" unfolding idxs by auto
  ultimately show ?thesis by (intro exI [of _ idxs]) simp
qed

lemma list_all2_in_right: "list_all2 P xs ys \<Longrightarrow> y \<in> set ys \<Longrightarrow> \<exists>x \<in> set xs. P x y"
  by (induction rule: list_all2_induct) auto

lemma order_columns_are_outputs:
  assumes "exec_means db g b filter_ir_msg extra stack agg order post x" and "ob \<in> set (x_order_by x)"
  shows "o_column ob \<in> set (output_columns db post x)"
proof -
  have "list_all2 (order_means db agg post x) (case order of None \<Rightarrow> [] | Some nodes \<Rightarrow> nodes) (x_order_by x)"
    using assms(1) by (simp add: exec_means_def)
  from list_all2_in_right [OF this assms(2)] obtain node where "order_means db agg post x node ob" by (elim bexE)
  then show ?thesis by (auto simp: order_means_def)
qed

end
