(* ===== verification/Filter_IR.thy ===== *)
theory Filter_IR
  imports Expr_IR
begin

text \<open>
  Filter pushdown (\<open>src/lance_filter_ir.cpp\<close>): DuckDB's table filters and filter expressions
  are translated to expression nodes; the nodes of all filters are conjoined into one message
  with the magic \<open>LFT1\<close>.  The functions return \<open>true\<close> with the node, or \<open>false\<close> when the filter
  cannot be expressed; dereferencing a null \<open>unique_ptr\<close> throws.  The model's \<open>outcome\<close> keeps the
  three apart.
\<close>

section \<open>Node encoders\<close>

definition LanceFilterIRSupportsLogicalType :: "LogicalType \<Rightarrow> bool" where
  "LanceFilterIRSupportsLogicalType t = LanceExprIRSupportsLogicalType t"

definition LANCE_FILTER_IR_MAGIC :: bytes where
  "LANCE_FILTER_IR_MAGIC = string_bytes ''LFT1''"

datatype LanceFilterIRTag = Filter_AND | Filter_OR | Filter_NOT | Filter_IS_NULL | Filter_IS_NOT_NULL

definition LanceFilterIREncodeMessage :: "bytes \<Rightarrow> bytes" where
  "LanceFilterIREncodeMessage root = LANCE_FILTER_IR_MAGIC @ root"

definition TryEncodeLanceFilterIRColumnRef :: "string list \<Rightarrow> (exn, bytes) outcome" where
  "TryEncodeLanceFilterIRColumnRef segments = TryEncodeLanceExprIRColumnRef segments"

definition TryEncodeLanceFilterIRColumnRefName :: "string \<Rightarrow> (exn, bytes) outcome" where
  "TryEncodeLanceFilterIRColumnRefName name = TryEncodeLanceExprIRColumnRefName name"

definition TryEncodeLanceFilterIRLiteral :: "duckdb \<Rightarrow> Value \<Rightarrow> (exn, bytes) outcome" where
  "TryEncodeLanceFilterIRLiteral db v = TryEncodeLanceExprIRLiteral db v"

definition TryEncodeLanceFilterIRComparisonOp :: "ExpressionType \<Rightarrow> (exn, byte) outcome" where
  "TryEncodeLanceFilterIRComparisonOp t = TryEncodeLanceExprIRComparisonOp t"

definition TryEncodeLanceFilterIRConjunction ::
  "LanceFilterIRTag \<Rightarrow> bytes list \<Rightarrow> (exn, bytes) outcome" where
  "TryEncodeLanceFilterIRConjunction tag children =
     (if tag = Filter_AND then TryEncodeLanceExprIRAnd children
      else if tag = Filter_OR then TryEncodeLanceExprIROr children
      else Refused)"

definition TryEncodeLanceFilterIRUnary ::
  "LanceFilterIRTag \<Rightarrow> bytes \<Rightarrow> (exn, bytes) outcome" where
  "TryEncodeLanceFilterIRUnary tag child =
     (if tag = Filter_NOT then TryEncodeLanceExprIRNot child
      else if tag = Filter_IS_NULL then TryEncodeLanceExprIRIsNull child
      else if tag = Filter_IS_NOT_NULL then TryEncodeLanceExprIRIsNotNull child
      else Refused)"

definition TryEncodeLanceFilterIRComparison ::
  "byte \<Rightarrow> bytes \<Rightarrow> bytes \<Rightarrow> (exn, bytes) outcome" where
  "TryEncodeLanceFilterIRComparison op l r = TryEncodeLanceExprIRComparison op l r"

definition TryEncodeLanceFilterIRInList ::
  "bool \<Rightarrow> bytes \<Rightarrow> bytes list \<Rightarrow> (exn, bytes) outcome" where
  "TryEncodeLanceFilterIRInList negated expr list = TryEncodeLanceExprIRInList negated expr list"

definition TryEncodeLanceFilterIRLike ::
  "bool \<Rightarrow> bool \<Rightarrow> byte \<Rightarrow> bytes \<Rightarrow> bytes \<Rightarrow> (exn, bytes) outcome" where
  "TryEncodeLanceFilterIRLike ci esc c expr pat = TryEncodeLanceExprIRLike ci esc c expr pat"

definition TryEncodeLanceFilterIRRegexp ::
  "byte \<Rightarrow> bool \<Rightarrow> bytes \<Rightarrow> bytes \<Rightarrow> bytes \<Rightarrow> (exn, bytes) outcome" where
  "TryEncodeLanceFilterIRRegexp mode has_flags expr pat flags =
     TryEncodeLanceExprIRRegexp mode has_flags expr pat flags"

definition TryEncodeLanceFilterIRScalarFunction ::
  "duckdb \<Rightarrow> string \<Rightarrow> bytes list \<Rightarrow> (exn, bytes) outcome" where
  "TryEncodeLanceFilterIRScalarFunction db name args =
     TryEncodeLanceExprIRScalarFunction db name args"


section \<open>Constants\<close>

text \<open>
  \<open>v.DefaultCastAs(t)\<close> inside \<open>try\<close>; a cast to VARCHAR followed by \<open>GetValue<string>\<close>, which
  throws on a NULL result.
\<close>

definition try_cast_value :: "duckdb \<Rightarrow> Value \<Rightarrow> LogicalType \<Rightarrow> (exn, Value) outcome" where
  "try_cast_value db v t = of_option (DefaultCastAs db v t)"

definition varchar_of :: "duckdb \<Rightarrow> Value \<Rightarrow> (exn, string) outcome" where
  "varchar_of db v = try_bind (try_cast_value db v (SimpleType VARCHAR)) (\<lambda>w.
     case w of VarcharValue s \<Rightarrow> Done s | _ \<Rightarrow> Refused)"

fun TryGetNonNullVarcharConstant :: "duckdb \<Rightarrow> Expression \<Rightarrow> (exn, string) outcome" where
  "TryGetNonNullVarcharConstant db (BoundConstant v) =
     (if is_null v then Refused else varchar_of db v)"
| "TryGetNonNullVarcharConstant db (BoundCast t try_cast (Some (BoundConstant v))) =
     (if try_cast then Refused
      else if is_null v then Refused
      else try_bind (try_cast_value db v t) (varchar_of db))"
| "TryGetNonNullVarcharConstant db e = Refused"

text \<open>The elements of an IN list must be constants.\<close>

fun constant_literal :: "duckdb \<Rightarrow> Expression \<Rightarrow> (exn, bytes) outcome" where
  "constant_literal db (BoundConstant v) = TryEncodeLanceFilterIRLiteral db v"
| "constant_literal db e = Refused"

text \<open>A string constant operand (a needle, a pattern, regular expression options).\<close>

definition varchar_literal :: "duckdb \<Rightarrow> Expression \<Rightarrow> (exn, bytes) outcome" where
  "varchar_literal db e = try_bind (TryGetNonNullVarcharConstant db e)
     (\<lambda>s. TryEncodeLanceFilterIRLiteral db (VarcharValue s))"

text \<open>A cast of a constant is folded.\<close>

definition folded_cast :: "duckdb \<Rightarrow> LogicalType \<Rightarrow> Value \<Rightarrow> (exn, bytes) outcome" where
  "folded_cast db t v = try_bind (try_cast_value db v t) (TryEncodeLanceFilterIRLiteral db)"

definition conjunction_tag :: "ExpressionType \<Rightarrow> LanceFilterIRTag option" where
  "conjunction_tag k = (if k = CONJUNCTION_AND then Some Filter_AND
     else if k = CONJUNCTION_OR then Some Filter_OR else None)"

definition try_opt :: "('a \<Rightarrow> (exn, 'b) outcome) \<Rightarrow> 'a option \<Rightarrow> (exn, 'b) outcome" where
  "try_opt f p = (case p of None \<Rightarrow> Refused | Some x \<Rightarrow> f x)"

lemma try_opt_cong [fundef_cong]:
  "\<lbrakk>p = q; \<And>x. q = Some x \<Longrightarrow> f x = g x\<rbrakk> \<Longrightarrow> try_opt f p = try_opt g q"
  by (cases q) (auto simp: try_opt_def)

definition try_deref :: "('a \<Rightarrow> (exn, 'b) outcome) \<Rightarrow> 'a option \<Rightarrow> (exn, 'b) outcome" where
  "try_deref f p = (case p of None \<Rightarrow> Raised NullPointer | Some x \<Rightarrow> f x)"

lemma try_deref_cong [fundef_cong]:
  "\<lbrakk>p = q; \<And>x. q = Some x \<Longrightarrow> f x = g x\<rbrakk> \<Longrightarrow> try_deref f p = try_deref g q"
  by (cases q) (auto simp: try_deref_def)

lemma try_opt_Done_iff: "try_opt f p = Done y \<longleftrightarrow> (\<exists>x. p = Some x \<and> f x = Done y)"
  by (cases p) (auto simp: try_opt_def)

lemma try_deref_Done_iff: "try_deref f p = Done y \<longleftrightarrow> (\<exists>x. p = Some x \<and> f x = Done y)"
  by (cases p) (auto simp: try_deref_def)


section \<open>Table filters\<close>

text \<open>
  \<open>build_from_expr\<close>, the lambda for expression filters: every reference is the filtered column.
\<close>

function (sequential) build_from_expr ::
  "duckdb \<Rightarrow> bytes \<Rightarrow> Expression \<Rightarrow> (exn, bytes) outcome" where
  "build_from_expr db col (BoundRef t nm i) = Done col"
| "build_from_expr db col (BoundFunction t name children) =
     (if None \<in> set children then Refused
      else if name = ''lower'' \<or> name = ''upper'' then
        (case children of
           [Some c] \<Rightarrow> try_bind (build_from_expr db col c)
             (\<lambda>input_ir. TryEncodeLanceFilterIRScalarFunction db name [input_ir])
         | _ \<Rightarrow> Refused)
      else if name = ''starts_with'' \<or> name = ''ends_with'' \<or> name = ''contains'' then
        (case children of
           [Some c, Some needle] \<Rightarrow>
             try_bind (build_from_expr db col c) (\<lambda>input_ir.
             try_bind (varchar_literal db needle) (\<lambda>needle_ir.
             TryEncodeLanceFilterIRScalarFunction db name [input_ir, needle_ir]))
         | _ \<Rightarrow> Refused)
      else Refused)"
| "build_from_expr db col (BoundConstant v) = TryEncodeLanceFilterIRLiteral db v"
| "build_from_expr db col (BoundCast t try_cast child) =
     (if try_cast then Refused
      else case child of Some (BoundConstant v) \<Rightarrow> folded_cast db t v | _ \<Rightarrow> Refused)"
| "build_from_expr db col (BoundComparison k l r) =
     try_bind (TryEncodeLanceFilterIRComparisonOp k) (\<lambda>op.
       case (l, r) of
         (Some l, Some r) \<Rightarrow>
           try_bind (build_from_expr db col l) (\<lambda>lhs_ir.
           try_bind (build_from_expr db col r) (\<lambda>rhs_ir.
           TryEncodeLanceFilterIRComparison op lhs_ir rhs_ir))
       | _ \<Rightarrow> Refused)"
| "build_from_expr db col (BoundConjunction k children) =
     try_bind (of_option (conjunction_tag k)) (\<lambda>tag.
     try_bind (try_map (try_opt (build_from_expr db col)) children)
       (TryEncodeLanceFilterIRConjunction tag))"
| "build_from_expr db col (BoundOperator t k children) =
     (if k = OPERATOR_NOT then
        (case children of
           [Some c] \<Rightarrow> try_bind (build_from_expr db col c) (TryEncodeLanceFilterIRUnary Filter_NOT)
         | _ \<Rightarrow> Refused)
      else if k = OPERATOR_IS_NULL \<or> k = OPERATOR_IS_NOT_NULL then
        (case children of
           [Some c] \<Rightarrow> try_bind (build_from_expr db col c) (TryEncodeLanceFilterIRUnary
             (if k = OPERATOR_IS_NULL then Filter_IS_NULL else Filter_IS_NOT_NULL))
         | _ \<Rightarrow> Refused)
      else if k = COMPARE_IN \<or> k = COMPARE_NOT_IN then
        (case children of
           Some c # item # items \<Rightarrow>
             try_bind (build_from_expr db col c) (\<lambda>lhs_ir.
             try_bind (try_map (try_opt (constant_literal db)) (item # items))
               (TryEncodeLanceFilterIRInList (k = COMPARE_NOT_IN) lhs_ir))
         | _ \<Rightarrow> Refused)
      else Refused)"
| "build_from_expr db col e = Refused"
  by pat_completeness auto
termination
  by (relation "measure (\<lambda>(db, col, e). size e)") (auto dest: size_Some_child)

function (sequential) TryBuildLanceTableFilterIRExpr ::
  "duckdb \<Rightarrow> bytes \<Rightarrow> TableFilter \<Rightarrow> (exn, bytes) outcome" where
  "TryBuildLanceTableFilterIRExpr db col (OptionalFilter child) =
     try_opt (TryBuildLanceTableFilterIRExpr db col) child"
| "TryBuildLanceTableFilterIRExpr db col (ConstantFilter k v) =
     try_bind (TryEncodeLanceFilterIRComparisonOp k) (\<lambda>op.
     try_bind (TryEncodeLanceFilterIRLiteral db v) (\<lambda>lit_ir.
     TryEncodeLanceFilterIRComparison op col lit_ir))"
| "TryBuildLanceTableFilterIRExpr db col IsNullFilter =
     TryEncodeLanceFilterIRUnary Filter_IS_NULL col"
| "TryBuildLanceTableFilterIRExpr db col IsNotNullFilter =
     TryEncodeLanceFilterIRUnary Filter_IS_NOT_NULL col"
| "TryBuildLanceTableFilterIRExpr db col (InFilter vs) =
     try_bind (try_map (TryEncodeLanceFilterIRLiteral db) vs)
       (TryEncodeLanceFilterIRInList False col)"
| "TryBuildLanceTableFilterIRExpr db col (ConjunctionAndFilter fs) =
     try_bind (try_map (try_deref (TryBuildLanceTableFilterIRExpr db col)) fs)
       (TryEncodeLanceFilterIRConjunction Filter_AND)"
| "TryBuildLanceTableFilterIRExpr db col (ConjunctionOrFilter fs) =
     try_bind (try_map (try_deref (TryBuildLanceTableFilterIRExpr db col)) fs)
       (TryEncodeLanceFilterIRConjunction Filter_OR)"
| "TryBuildLanceTableFilterIRExpr db col (ExpressionFilter e) = try_opt (build_from_expr db col) e"
| "TryBuildLanceTableFilterIRExpr db col f = Refused"
  by pat_completeness auto
termination
  by (relation "measure (\<lambda>(db, col, f). size f)") (auto dest: size_Some_child)


section \<open>The filters of a scan\<close>

definition IsComputedSearchColumn :: "string \<Rightarrow> bool" where
  "IsComputedSearchColumn name \<longleftrightarrow>
     name = ''_distance'' \<or> name = ''_score'' \<or> name = ''_hybrid_score''"

record LanceFilterIRBuildResult =
  parts :: "bytes list"
  all_filters_pushed :: bool
  all_prefilterable_filters_pushed :: bool

definition empty_result :: LanceFilterIRBuildResult where
  "empty_result = \<lparr>parts = [], all_filters_pushed = True, all_prefilterable_filters_pushed = True\<rparr>"

definition not_pushed :: "LanceFilterIRBuildResult \<Rightarrow> LanceFilterIRBuildResult" where
  "not_pushed r = r\<lparr>all_filters_pushed := False, all_prefilterable_filters_pushed := False\<rparr>"

text \<open>One turn of the loop over the filter map.\<close>

definition build_part ::
  "duckdb \<Rightarrow> string list \<Rightarrow> LogicalType list \<Rightarrow> nat list \<Rightarrow> bool \<Rightarrow> LanceFilterIRBuildResult
     \<Rightarrow> nat \<times> TableFilter option \<Rightarrow> exn + LanceFilterIRBuildResult" where
  "build_part db nms tys ids exclude_computed result = (\<lambda>(scan_col_idx, entry).
     case entry of
       None \<Rightarrow> Inr (not_pushed result)
     | Some f \<Rightarrow>
         if scan_col_idx \<ge> length ids then Inr (not_pushed result)
         else let col_id = ids ! scan_col_idx in
           if col_id \<ge> length nms \<or> col_id \<ge> length tys then Inr (not_pushed result)
           else if exclude_computed \<and> IsComputedSearchColumn (nms ! col_id)
           then Inr (result\<lparr>all_filters_pushed := False\<rparr>)
           else if \<not> LanceFilterIRSupportsLogicalType (tys ! col_id) then Inr (not_pushed result)
           else case try_bind (TryEncodeLanceFilterIRColumnRefName (nms ! col_id))
               (\<lambda>col_ref_ir. TryBuildLanceTableFilterIRExpr db col_ref_ir f) of
             Done filter_ir \<Rightarrow> Inr (result\<lparr>parts := parts result @ [filter_ir]\<rparr>)
           | Refused \<Rightarrow> Inr (not_pushed result)
           | Raised e \<Rightarrow> Inl e)"

definition BuildLanceTableFilterIRParts ::
  "duckdb \<Rightarrow> string list \<Rightarrow> LogicalType list \<Rightarrow> TableFunctionInitInput \<Rightarrow> bool
     \<Rightarrow> exn + LanceFilterIRBuildResult" where
  "BuildLanceTableFilterIRParts db nms tys input exclude_computed =
     (case filters input of
        None \<Rightarrow> Inr empty_result
      | Some fs \<Rightarrow> res_foldl (build_part db nms tys (column_ids input) exclude_computed) empty_result fs)"

definition ProbeLanceTableFilterIR ::
  "duckdb \<Rightarrow> LogicalGet \<Rightarrow> string list \<Rightarrow> LogicalType list \<Rightarrow> exn + LanceFilterIRBuildResult" where
  "ProbeLanceTableFilterIR db get nms tys =
     (let fs = table_filters get in
      if fs = [] then Inr empty_result
      else if \<exists>(col_id, f) \<in> set fs. col_id \<ge> length nms \<or> col_id \<ge> length tys
      then Inr (not_pushed empty_result)
      else let max_col_id = foldl max 0 (map fst fs) in
        BuildLanceTableFilterIRParts db nms tys
          \<lparr>column_ids = [0..<max_col_id + 1], filters = Some fs\<rparr> False)"


section \<open>Columns of filter expressions\<close>

text \<open>
  The path below a projected column: a chain of single children; several siblings end the path
  and are appended one after the other.
\<close>

function (sequential) linearize_child_indexes :: "ColumnIndex list \<Rightarrow> nat list option" where
  "linearize_child_indexes [] = Some []"
| "linearize_child_indexes [child] =
     map_option (\<lambda>path. GetPrimaryIndex child # path) (linearize_child_indexes (GetChildIndexes child))"
| "linearize_child_indexes children =
     (if list_all (\<lambda>c. GetChildIndexes c = []) children
      then Some (map GetPrimaryIndex children) else None)"
  by pat_completeness auto
termination
proof (relation "measure (size_list size)", goal_cases)
  case (2 child)
  then show ?case by (cases child) simp
qed simp

definition struct_children :: "LogicalType \<Rightarrow> (string \<times> LogicalType) list" where
  "struct_children t = (case t of StructType fs \<Rightarrow> fs | _ \<Rightarrow> [])"

fun descend :: "LogicalType \<Rightarrow> nat list \<Rightarrow> (string list \<times> LogicalType) option" where
  "descend leaf_type [] = Some ([], leaf_type)"
| "descend leaf_type (child_idx # path) =
     (if type_id leaf_type \<noteq> STRUCT then None
      else if child_idx \<ge> length (struct_children leaf_type) then None
      else map_option (\<lambda>(segments, t). (fst (struct_children leaf_type ! child_idx) # segments, t))
             (descend (snd (struct_children leaf_type ! child_idx)) path))"

definition column_segments ::
  "LogicalGet \<Rightarrow> string list \<Rightarrow> LogicalType list \<Rightarrow> nat \<Rightarrow> (string list \<times> LogicalType) option" where
  "column_segments get nms tys i =
     (if i \<ge> length (get_column_ids get) then None
      else let col_index = get_column_ids get ! i in
        if IsVirtualColumn col_index then None
        else let col_id = GetPrimaryIndex col_index in
          if col_id \<ge> length nms \<or> col_id \<ge> length tys then None
          else case linearize_child_indexes (GetChildIndexes col_index) of
            None \<Rightarrow> None
          | Some child_path \<Rightarrow>
              map_option (\<lambda>(segments, t). (nms ! col_id # segments, t)) (descend (tys ! col_id) child_path))"

text \<open>The field that \<open>struct_extract\<close> names, or \<open>struct_extract_at\<close> numbers from one.\<close>

fun find_child :: "string \<Rightarrow> (string \<times> LogicalType) list \<Rightarrow> nat option" where
  "find_child name [] = None"
| "find_child name (c # cs) =
     (if fst c = name then Some 0 else map_option Suc (find_child name cs))"

definition extract_field ::
  "duckdb \<Rightarrow> string \<Rightarrow> (string \<times> LogicalType) list \<Rightarrow> Value \<Rightarrow> (string \<times> nat) option" where
  "extract_field db fname fs v =
     (if is_null v then None
      else if fname = ''struct_extract'' then
        (case v of
           VarcharValue child_name \<Rightarrow> map_option (Pair child_name) (find_child child_name fs)
         | _ \<Rightarrow> None)
      else case DefaultCastAs db v (SimpleType BIGINT) of
        Some (BigIntValue one_based) \<Rightarrow>
          if sint one_based \<le> 0 then None
          else let child_idx = nat (sint one_based - 1) in
            if child_idx \<ge> length fs then None
            else let child_name = fst (fs ! child_idx) in
              Some (if child_name = [] then nat_to_string (child_idx + 1) else child_name, child_idx)
      | _ \<Rightarrow> None)"

function (sequential) build_segments ::
  "duckdb \<Rightarrow> LogicalGet \<Rightarrow> string list \<Rightarrow> LogicalType list \<Rightarrow> Expression
     \<Rightarrow> (string list \<times> LogicalType) option" where
  "build_segments db get nms tys (BoundColumnRef t binding depth) =
     (if depth \<noteq> 0 then None
      else if table_index binding \<noteq> get_table_index get then None
      else column_segments get nms tys (column_index binding))"
| "build_segments db get nms tys (BoundRef t nm i) = column_segments get nms tys i"
| "build_segments db get nms tys (BoundFunction t fname children) =
     (if fname \<noteq> ''struct_extract'' \<and> fname \<noteq> ''struct_extract_at'' then None
      else case children of
        [Some base, Some key] \<Rightarrow>
          (case build_segments db get nms tys base of
             None \<Rightarrow> None
           | Some (base_segments, base_type) \<Rightarrow>
               if type_id base_type \<noteq> STRUCT then None
               else (case key of
                  BoundConstant v \<Rightarrow>
                    map_option (\<lambda>(child_name, child_idx).
                      (base_segments @ [child_name], snd (struct_children base_type ! child_idx)))
                      (extract_field db fname (struct_children base_type) v)
                | _ \<Rightarrow> None))
      | _ \<Rightarrow> None)"
| "build_segments db get nms tys e = None"
  by pat_completeness auto
termination
  by (relation "measure (\<lambda>(db, get, nms, tys, e). size e)") (auto dest: size_Some_child)

definition TryBuildLanceExprColumnRefIR ::
  "duckdb \<Rightarrow> LogicalGet \<Rightarrow> string list \<Rightarrow> LogicalType list \<Rightarrow> bool \<Rightarrow> Expression \<Rightarrow> (exn, bytes) outcome" where
  "TryBuildLanceExprColumnRefIR db get nms tys exclude_computed expr =
     (case build_segments db get nms tys expr of
        None \<Rightarrow> Refused
      | Some (segments, leaf_type) \<Rightarrow>
          if segments = [] then Refused
          else if exclude_computed \<and> IsComputedSearchColumn (hd segments) then Refused
          else if \<not> LanceFilterIRSupportsLogicalType leaf_type then Refused
          else TryEncodeLanceFilterIRColumnRef segments)"


section \<open>Filter expressions\<close>

text \<open>LIKE variants: case-insensitive, has escape.\<close>

definition like_variant :: "string \<Rightarrow> (bool \<times> bool) option" where
  "like_variant name =
     (if name = ''~~'' then Some (False, False)
      else if name = ''~~*'' then Some (True, False)
      else if name = ''like_escape'' then Some (False, True)
      else if name = ''ilike_escape'' then Some (True, True)
      else None)"

text \<open>Only the backslash, which the decoder assumes, is accepted as an escape character.\<close>

definition escape_char :: "duckdb \<Rightarrow> Expression \<Rightarrow> (exn, byte) outcome" where
  "escape_char db e = try_bind (TryGetNonNullVarcharConstant db e) (\<lambda>s.
     case string_bytes s of [c] \<Rightarrow> if c = 92 then Done c else Refused | _ \<Rightarrow> Refused)"

function (sequential) TryBuildLanceExprFilterIR ::
  "duckdb \<Rightarrow> LogicalGet \<Rightarrow> string list \<Rightarrow> LogicalType list \<Rightarrow> bool \<Rightarrow> Expression \<Rightarrow> (exn, bytes) outcome" where
  "TryBuildLanceExprFilterIR db get nms tys exc (BoundColumnRef t binding depth) =
     TryBuildLanceExprColumnRefIR db get nms tys exc (BoundColumnRef t binding depth)"
| "TryBuildLanceExprFilterIR db get nms tys exc (BoundRef t nm i) =
     TryBuildLanceExprColumnRefIR db get nms tys exc (BoundRef t nm i)"
| "TryBuildLanceExprFilterIR db get nms tys exc (BoundFunction t name children) =
     (if name = ''struct_extract'' \<or> name = ''struct_extract_at'' then
        TryBuildLanceExprColumnRefIR db get nms tys exc (BoundFunction t name children)
      else if name = ''lower'' \<or> name = ''upper'' then
        (case children of
           [Some c] \<Rightarrow> try_bind (TryBuildLanceExprFilterIR db get nms tys exc c)
             (\<lambda>input_ir. TryEncodeLanceFilterIRScalarFunction db name [input_ir])
         | _ \<Rightarrow> Refused)
      else if name = ''starts_with'' \<or> name = ''ends_with'' \<or> name = ''contains'' then
        (case children of
           [Some c, Some needle] \<Rightarrow>
             try_bind (TryBuildLanceExprFilterIR db get nms tys exc c) (\<lambda>input_ir.
             try_bind (varchar_literal db needle) (\<lambda>needle_ir.
             TryEncodeLanceFilterIRScalarFunction db name [input_ir, needle_ir]))
         | _ \<Rightarrow> Refused)
      else if name = ''regexp_matches'' \<or> name = ''regexp_full_match'' then
        (let mode = (if name = ''regexp_full_match'' then LANCE_EXPR_IR_REGEXP_MODE_FULL_MATCH
                     else LANCE_EXPR_IR_REGEXP_MODE_PARTIAL_MATCH) in
         case children of
           [Some c, Some pat] \<Rightarrow>
             try_bind (TryBuildLanceExprFilterIR db get nms tys exc c) (\<lambda>input_ir.
             try_bind (varchar_literal db pat) (\<lambda>pattern_ir.
             TryEncodeLanceFilterIRRegexp mode False input_ir pattern_ir []))
         | [Some c, Some pat, Some flags] \<Rightarrow>
             try_bind (TryBuildLanceExprFilterIR db get nms tys exc c) (\<lambda>input_ir.
             try_bind (varchar_literal db pat) (\<lambda>pattern_ir.
             try_bind (varchar_literal db flags) (\<lambda>flags_ir.
             TryEncodeLanceFilterIRRegexp mode True input_ir pattern_ir flags_ir)))
         | _ \<Rightarrow> Refused)
      else case like_variant name of
        None \<Rightarrow> Refused
      | Some (case_insensitive, has_escape) \<Rightarrow>
          (case children of
             [Some c, Some pat] \<Rightarrow>
               if has_escape then Refused
               else try_bind (TryBuildLanceExprFilterIR db get nms tys exc c) (\<lambda>input_ir.
                 try_bind (varchar_literal db pat) (\<lambda>pattern_ir.
                 TryEncodeLanceFilterIRLike case_insensitive False 0 input_ir pattern_ir))
           | [Some c, Some pat, Some esc] \<Rightarrow>
               if \<not> has_escape then Refused
               else try_bind (TryBuildLanceExprFilterIR db get nms tys exc c) (\<lambda>input_ir.
                 try_bind (varchar_literal db pat) (\<lambda>pattern_ir.
                 try_bind (escape_char db esc) (\<lambda>escape_char.
                 TryEncodeLanceFilterIRLike case_insensitive True escape_char input_ir pattern_ir)))
           | _ \<Rightarrow> Refused))"
| "TryBuildLanceExprFilterIR db get nms tys exc (BoundConstant v) = TryEncodeLanceFilterIRLiteral db v"
| "TryBuildLanceExprFilterIR db get nms tys exc (BoundCast t try_cast child) =
     (if try_cast then Refused
      else try_deref (\<lambda>c. case c of BoundConstant v \<Rightarrow> folded_cast db t v | _ \<Rightarrow> Refused) child)"
| "TryBuildLanceExprFilterIR db get nms tys exc (BoundComparison k l r) =
     try_bind (TryEncodeLanceFilterIRComparisonOp k) (\<lambda>op.
     try_bind (try_deref (TryBuildLanceExprFilterIR db get nms tys exc) l) (\<lambda>lhs_ir.
     try_bind (try_deref (TryBuildLanceExprFilterIR db get nms tys exc) r) (\<lambda>rhs_ir.
     TryEncodeLanceFilterIRComparison op lhs_ir rhs_ir)))"
| "TryBuildLanceExprFilterIR db get nms tys exc (BoundConjunction k children) =
     try_bind (of_option (conjunction_tag k)) (\<lambda>tag.
     try_bind (try_map (try_deref (TryBuildLanceExprFilterIR db get nms tys exc)) children)
       (TryEncodeLanceFilterIRConjunction tag))"
| "TryBuildLanceExprFilterIR db get nms tys exc (BoundOperator t k children) =
     (if k = OPERATOR_NOT then
        (case children of
           [c] \<Rightarrow> try_bind (try_deref (TryBuildLanceExprFilterIR db get nms tys exc) c)
             (TryEncodeLanceFilterIRUnary Filter_NOT)
         | _ \<Rightarrow> Refused)
      else if k = OPERATOR_IS_NULL \<or> k = OPERATOR_IS_NOT_NULL then
        (case children of
           [c] \<Rightarrow> try_bind (try_deref (TryBuildLanceExprFilterIR db get nms tys exc) c)
             (TryEncodeLanceFilterIRUnary
               (if k = OPERATOR_IS_NULL then Filter_IS_NULL else Filter_IS_NOT_NULL))
         | _ \<Rightarrow> Refused)
      else if k = COMPARE_IN \<or> k = COMPARE_NOT_IN then
        (case children of
           c # item # items \<Rightarrow>
             try_bind (try_deref (TryBuildLanceExprFilterIR db get nms tys exc) c) (\<lambda>lhs_ir.
             try_bind (try_map (try_deref (constant_literal db)) (item # items))
               (TryEncodeLanceFilterIRInList (k = COMPARE_NOT_IN) lhs_ir))
         | _ \<Rightarrow> Refused)
      else Refused)"
| "TryBuildLanceExprFilterIR db get nms tys exc (BoundBetween input lower upper lower_cmp upper_cmp) =
     try_bind (TryEncodeLanceFilterIRComparisonOp lower_cmp) (\<lambda>lower_op.
     try_bind (TryEncodeLanceFilterIRComparisonOp upper_cmp) (\<lambda>upper_op.
     try_bind (try_deref (TryBuildLanceExprFilterIR db get nms tys exc) input) (\<lambda>input_ir.
     try_bind (try_deref (TryBuildLanceExprFilterIR db get nms tys exc) lower) (\<lambda>lower_ir.
     try_bind (try_deref (TryBuildLanceExprFilterIR db get nms tys exc) upper) (\<lambda>upper_ir.
     try_bind (TryEncodeLanceFilterIRComparison lower_op input_ir lower_ir) (\<lambda>lower_cmp_ir.
     try_bind (TryEncodeLanceFilterIRComparison upper_op input_ir upper_ir) (\<lambda>upper_cmp_ir.
     TryEncodeLanceFilterIRConjunction Filter_AND [lower_cmp_ir, upper_cmp_ir])))))))"
| "TryBuildLanceExprFilterIR db get nms tys exc e = Refused"
  by pat_completeness auto
termination
  by (relation "measure (\<lambda>(db, get, nms, tys, exc, e). size e)") (auto dest: size_Some_child)


section \<open>Filter messages\<close>

text \<open>The part of one filter of the map; a null filter has none.\<close>

definition table_filter_part ::
  "duckdb \<Rightarrow> string list \<Rightarrow> LogicalType list \<Rightarrow> nat \<times> TableFilter option \<Rightarrow> (exn, bytes list) outcome" where
  "table_filter_part db nms tys = (\<lambda>(col_id, entry).
     case entry of
       None \<Rightarrow> Done []
     | Some f \<Rightarrow>
         if col_id = COLUMN_IDENTIFIER_ROW_ID db \<or> col_id = COLUMN_IDENTIFIER_EMPTY db then Refused
         else if col_id \<ge> length nms \<or> col_id \<ge> length tys then Refused
         else if \<not> LanceFilterIRSupportsLogicalType (tys ! col_id) then Refused
         else try_bind (TryEncodeLanceFilterIRColumnRefName (nms ! col_id)) (\<lambda>col_ref_ir.
           try_bind (TryBuildLanceTableFilterIRExpr db col_ref_ir f) (\<lambda>part_ir. Done [part_ir])))"

definition TryBuildLanceTableFilterIRParts ::
  "duckdb \<Rightarrow> string list \<Rightarrow> LogicalType list \<Rightarrow> TableFilterSet \<Rightarrow> (exn, bytes list) outcome" where
  "TryBuildLanceTableFilterIRParts db nms tys fs =
     try_bind (try_map (table_filter_part db nms tys) fs) (\<lambda>pss. Done (concat pss))"

text \<open>No parts make an empty message; one part is the root itself.\<close>

definition TryEncodeLanceFilterIRMessage :: "bytes list \<Rightarrow> (exn, bytes) outcome" where
  "TryEncodeLanceFilterIRMessage ps =
     (case ps of
        [] \<Rightarrow> Done []
      | [p] \<Rightarrow> Done (LanceFilterIREncodeMessage p)
      | _ \<Rightarrow> try_bind (TryEncodeLanceFilterIRConjunction Filter_AND ps)
          (\<lambda>root_node. Done (LanceFilterIREncodeMessage root_node)))"

definition TryBuildLanceTableFilterIRMessage ::
  "duckdb \<Rightarrow> string list \<Rightarrow> LogicalType list \<Rightarrow> TableFilterSet \<Rightarrow> (exn, bytes) outcome" where
  "TryBuildLanceTableFilterIRMessage db nms tys fs =
     try_bind (TryBuildLanceTableFilterIRParts db nms tys fs) TryEncodeLanceFilterIRMessage"

end
