(* ===== verification/Expr_IR_Spec.thy ===== *)
theory Expr_IR_Spec
  imports Expr_IR_Wire
begin

text \<open>
  The abstract syntax of expression messages, between the C++ encoders and the Rust decoder.
  \<open>ir_bytes\<close> composes the node encoders of \<open>Expr_IR\<close> bottom-up, as every client of them
  does; \<open>ir_df\<close> says which DataFusion expression (or error) a tree stands for.  The main result
  of this theory is that decoding the bytes of a tree gives exactly that.
\<close>

section \<open>Abstract syntax\<close>

datatype ir_literal =
    LitNull | LitBool bool | LitI64 u64 | LitU64 u64 | LitF32 u32 | LitF64 u64 | LitString string
  | LitDate32 u32 | LitTimestamp LanceUpdateExprIRTimestampUnit u64 | LitDecimal128 byte byte i128

datatype ir =
    IRColumn "string list"
  | IRLiteral ir_literal
  | IRCast LogicalType ir
  | IRBinary LanceUpdateExprIRBinaryOp ir ir
  | IRComparison LanceUpdateExprIRComparisonOp ir ir
  | IRConjunction LanceUpdateExprIRConjunctionOp "ir list"
  | IRNot ir
  | IRFunction string "ir list"
  | IRCase "(ir \<times> ir) list" "ir option"
  | IRIsNull ir
  | IRIsNotNull ir
  | IRInList bool ir "ir list"
  | IRLike bool "byte option" ir ir
  | IRRegexp byte ir ir "ir option"

fun literal_bytes :: "ir_literal \<Rightarrow> exn + bytes" where
  "literal_bytes LitNull = Inr (literal_head Lit_NULL_VALUE)"
| "literal_bytes (LitBool b) = Inr (AppendU8 (literal_head Lit_BOOL) (if b then 1 else 0))"
| "literal_bytes (LitI64 v) = Inr (AppendI64 (literal_head Lit_I64) v)"
| "literal_bytes (LitU64 v) = Inr (AppendU64 (literal_head Lit_U64) v)"
| "literal_bytes (LitF32 v) = Inr (AppendF32 (literal_head Lit_F32) v)"
| "literal_bytes (LitF64 v) = Inr (AppendF64 (literal_head Lit_F64) v)"
| "literal_bytes (LitString s) = AppendLenPrefixedString (literal_head Lit_STRING) s"
| "literal_bytes (LitDate32 d) = Inr (AppendI32 (literal_head Lit_DATE32) d)"
| "literal_bytes (LitTimestamp u v) =
     Inr (AppendI64 (AppendU8 (literal_head Lit_TIMESTAMP) (unit_code u)) v)"
| "literal_bytes (LitDecimal128 p s v) =
     Inr (AppendI128 (AppendU8 (AppendU8 (literal_head Lit_DECIMAL128) p) s) v)"

fun ir_bytes :: "duckdb \<Rightarrow> ir \<Rightarrow> exn + bytes" where
  "ir_bytes db (IRColumn ss) = EncodeColumnRef ss"
| "ir_bytes db (IRLiteral l) = literal_bytes l"
| "ir_bytes db (IRCast t n) = res_bind (ir_bytes db n) (\<lambda>c. res_bind (EncodeTypeHint t)
     (\<lambda>ty. AppendLenPrefixed (AppendBytes (AppendU8 [] (tag_code Tag_CAST)) ty) c))"
| "ir_bytes db (IRBinary op m n) = res_bind (ir_bytes db m) (\<lambda>l.
     res_bind (ir_bytes db n) (\<lambda>r. EncodeBinaryNode op l r))"
| "ir_bytes db (IRComparison op m n) = res_bind (ir_bytes db m) (\<lambda>l.
     res_bind (ir_bytes db n) (\<lambda>r. EncodeComparisonNode (comparison_op_code op) l r))"
| "ir_bytes db (IRConjunction op ns) =
     res_bind (res_map (ir_bytes db) ns) (EncodeConjunctionNode op)"
| "ir_bytes db (IRNot n) = res_bind (ir_bytes db n) (EncodeUnaryNode Tag_NOT)"
| "ir_bytes db (IRFunction name ns) =
     res_bind (res_map (ir_bytes db) ns) (EncodeFunctionNode db name)"
| "ir_bytes db (IRCase cs e) =
     res_bind (res_map (\<lambda>(w, t). res_bind (ir_bytes db w) (\<lambda>w.
        res_bind (ir_bytes db t) (\<lambda>t. Inr (w, t)))) cs)
       (\<lambda>irs. case e of None \<Rightarrow> EncodeCaseNode irs None
              | Some n \<Rightarrow> res_bind (ir_bytes db n) (\<lambda>e. EncodeCaseNode irs (Some e)))"
| "ir_bytes db (IRIsNull n) = res_bind (ir_bytes db n) (EncodeUnaryNode Tag_IS_NULL)"
| "ir_bytes db (IRIsNotNull n) = res_bind (ir_bytes db n) (EncodeUnaryNode Tag_IS_NOT_NULL)"
| "ir_bytes db (IRInList neg n ns) = res_bind (ir_bytes db n) (\<lambda>l.
     res_bind (res_map (ir_bytes db) ns) (in_list_node neg l))"
| "ir_bytes db (IRLike ci esc m n) = res_bind (ir_bytes db m) (\<lambda>l. res_bind (ir_bytes db n) (\<lambda>r.
     EncodeLikeNode ci (esc \<noteq> None) (case esc of None \<Rightarrow> 0 | Some c \<Rightarrow> c) l r))"
| "ir_bytes db (IRRegexp mode m n flags) =
     res_bind (ir_bytes db m) (\<lambda>l. res_bind (ir_bytes db n) (\<lambda>r. case flags of
         None \<Rightarrow> EncodeRegexpNode mode False l r []
       | Some f \<Rightarrow> res_bind (ir_bytes db f) (\<lambda>f. EncodeRegexpNode mode True l r f)))"


section \<open>Meaning\<close>

fun unit_df :: "LanceUpdateExprIRTimestampUnit \<Rightarrow> TimeUnit" where
  "unit_df Unit_SECOND = TU_Second"
| "unit_df Unit_MILLISECOND = TU_Millisecond"
| "unit_df Unit_MICROSECOND = TU_Microsecond"
| "unit_df Unit_NANOSECOND = TU_Nanosecond"

fun literal_df :: "ir_literal \<Rightarrow> ScalarValue" where
  "literal_df LitNull = SV_Null"
| "literal_df (LitBool b) = SV_Boolean b"
| "literal_df (LitI64 v) = SV_Int64 v"
| "literal_df (LitU64 v) = SV_UInt64 v"
| "literal_df (LitF32 v) = SV_Float32 v"
| "literal_df (LitF64 v) = SV_Float64 v"
| "literal_df (LitString s) = SV_Utf8 s"
| "literal_df (LitDate32 d) = SV_Date32 d"
| "literal_df (LitTimestamp u v) = SV_Timestamp (unit_df u) v"
| "literal_df (LitDecimal128 p s v) = SV_Decimal128 v p s"

text \<open>The Arrow type a cast target is decoded to; types without a code have none.\<close>

fun type_df :: "LogicalType \<Rightarrow> DataType option" where
  "type_df (SimpleType BOOLEAN) = Some DT_Boolean"
| "type_df (SimpleType TINYINT) = Some DT_Int8"
| "type_df (SimpleType SMALLINT) = Some DT_Int16"
| "type_df (SimpleType INTEGER) = Some DT_Int32"
| "type_df (SimpleType BIGINT) = Some DT_Int64"
| "type_df (SimpleType UTINYINT) = Some DT_UInt8"
| "type_df (SimpleType USMALLINT) = Some DT_UInt16"
| "type_df (SimpleType UINTEGER) = Some DT_UInt32"
| "type_df (SimpleType UBIGINT) = Some DT_UInt64"
| "type_df (SimpleType FLOAT) = Some DT_Float32"
| "type_df (SimpleType DOUBLE) = Some DT_Float64"
| "type_df (SimpleType VARCHAR) = Some DT_Utf8"
| "type_df (SimpleType DATE) = Some DT_Date32"
| "type_df (SimpleType TIMESTAMP) = Some (DT_Timestamp TU_Microsecond)"
| "type_df (SimpleType TIMESTAMP_SEC) = Some (DT_Timestamp TU_Second)"
| "type_df (SimpleType TIMESTAMP_MS) = Some (DT_Timestamp TU_Millisecond)"
| "type_df (SimpleType TIMESTAMP_NS) = Some (DT_Timestamp TU_Nanosecond)"
| "type_df (SimpleType TIMESTAMP_TZ) = Some (DT_Timestamp TU_Microsecond)"
| "type_df (DecimalType p s) = (if s > 127 then None else Some (DT_Decimal128 p s))"
| "type_df t = None"

fun binary_df :: "LanceUpdateExprIRBinaryOp \<Rightarrow> Operator" where
  "binary_df Bin_ADD = Op_Plus"
| "binary_df Bin_SUB = Op_Minus"
| "binary_df Bin_MUL = Op_Multiply"
| "binary_df Bin_DIV = Op_Divide"

fun comparison_df :: "LanceUpdateExprIRComparisonOp \<Rightarrow> Operator" where
  "comparison_df Cmp_EQ = Op_Eq"
| "comparison_df Cmp_NOT_EQ = Op_NotEq"
| "comparison_df Cmp_LT = Op_Lt"
| "comparison_df Cmp_LT_EQ = Op_LtEq"
| "comparison_df Cmp_GT = Op_Gt"
| "comparison_df Cmp_GT_EQ = Op_GtEq"
| "comparison_df Cmp_DISTINCT_FROM = Op_IsDistinctFrom"
| "comparison_df Cmp_NOT_DISTINCT_FROM = Op_IsNotDistinctFrom"

fun conjunction_df :: "LanceUpdateExprIRConjunctionOp \<Rightarrow> Operator" where
  "conjunction_df Conj_AND = Op_And"
| "conjunction_df Conj_OR = Op_Or"

text \<open>
  \<open>ir_df db df n\<close>: the DataFusion expression of a tree, or the error the decoder reports for
  it (an unknown function, an unsupported regular expression).
\<close>

fun ir_df :: "duckdb \<Rightarrow> datafusion \<Rightarrow> ir \<Rightarrow> ir_error + Expr" where
  "ir_df db df (IRColumn ss) = Inr (path_expr ss)"
| "ir_df db df (IRLiteral l) = Inr (E_Literal (literal_df l))"
| "ir_df db df (IRCast t n) =
     res_bind (ir_df db df n) (\<lambda>e. Inr (E_Cast e (the (type_df t))))"
| "ir_df db df (IRBinary op m n) = res_bind (ir_df db df m) (\<lambda>l.
     res_bind (ir_df db df n) (\<lambda>r. Inr (E_BinaryExpr l (binary_df op) r)))"
| "ir_df db df (IRComparison op m n) = res_bind (ir_df db df m) (\<lambda>l.
     res_bind (ir_df db df n) (\<lambda>r. Inr (E_BinaryExpr l (comparison_df op) r)))"
| "ir_df db df (IRConjunction op ns) = res_bind (res_map (ir_df db df) ns) (\<lambda>es.
     Inr (foldl (\<lambda>l r. E_BinaryExpr l (conjunction_df op) r) (hd es) (tl es)))"
| "ir_df db df (IRNot n) = res_bind (ir_df db df n) (\<lambda>e. Inr (E_Not e))"
| "ir_df db df (IRFunction name ns) = res_bind (res_map (ir_df db df) ns) (\<lambda>es.
     res_bind (resolve_scalar_function df (StringLower db name)) (\<lambda>f.
     Inr (E_ScalarFunction f es)))"
| "ir_df db df (IRCase cs e) =
     res_bind (res_map (\<lambda>(w, t). res_bind (ir_df db df w) (\<lambda>w.
        res_bind (ir_df db df t) (\<lambda>t. Inr (w, t)))) cs)
       (\<lambda>es. case e of None \<Rightarrow> Inr (E_Case es None)
              | Some n \<Rightarrow> res_bind (ir_df db df n) (\<lambda>e. Inr (E_Case es (Some e))))"
| "ir_df db df (IRIsNull n) = res_bind (ir_df db df n) (\<lambda>e. Inr (E_IsNull e))"
| "ir_df db df (IRIsNotNull n) = res_bind (ir_df db df n) (\<lambda>e. Inr (E_IsNotNull e))"
| "ir_df db df (IRInList neg n ns) = res_bind (ir_df db df n) (\<lambda>e.
     res_bind (res_map (ir_df db df) ns) (\<lambda>es. Inr (E_InList e es neg)))"
| "ir_df db df (IRLike ci esc m n) = res_bind (ir_df db df m) (\<lambda>e. res_bind (ir_df db df n) (\<lambda>p.
     Inr (E_Like False e p (map_option (\<lambda>b. char_of (unat b)) esc) ci)))"
| "ir_df db df (IRRegexp mode m n flags) =
     res_bind (ir_df db df m) (\<lambda>e. res_bind (ir_df db df n) (\<lambda>p.
     res_bind (case flags of None \<Rightarrow> Inr None
               | Some f \<Rightarrow> res_bind (ir_df db df f) normalize_regexp_options)
       (regexp_expr df mode e p)))"

text \<open>
  What the host guarantees of the trees: text is UTF-8 (DuckDB's VARCHAR values and Arrow's
  field names are), and an IN list has at most \<open>2\<^sup>3\<^sup>2 - 1\<close> elements.
\<close>

fun literal_ok :: "ir_literal \<Rightarrow> bool" where
  "literal_ok (LitString s) = utf8_string s"
| "literal_ok l = True"

fun ir_ok :: "duckdb \<Rightarrow> ir \<Rightarrow> bool" where
  "ir_ok db (IRColumn ss) = list_all utf8_string ss"
| "ir_ok db (IRLiteral l) = literal_ok l"
| "ir_ok db (IRCast t n) = ir_ok db n"
| "ir_ok db (IRBinary op m n) = (ir_ok db m \<and> ir_ok db n)"
| "ir_ok db (IRComparison op m n) = (ir_ok db m \<and> ir_ok db n)"
| "ir_ok db (IRConjunction op ns) = list_all (ir_ok db) ns"
| "ir_ok db (IRNot n) = ir_ok db n"
| "ir_ok db (IRFunction name ns) = (utf8_string (StringLower db name) \<and> list_all (ir_ok db) ns)"
| "ir_ok db (IRCase cs e) =
     (list_all (\<lambda>(w, t). ir_ok db w \<and> ir_ok db t) cs \<and>
      (case e of None \<Rightarrow> True | Some n \<Rightarrow> ir_ok db n))"
| "ir_ok db (IRIsNull n) = ir_ok db n"
| "ir_ok db (IRIsNotNull n) = ir_ok db n"
| "ir_ok db (IRInList neg n ns) =
     (ir_ok db n \<and> length ns \<le> u32_max \<and> list_all (ir_ok db) ns)"
| "ir_ok db (IRLike ci esc m n) = (ir_ok db m \<and> ir_ok db n)"
| "ir_ok db (IRRegexp mode m n flags) =
     (ir_ok db m \<and> ir_ok db n \<and> (case flags of None \<Rightarrow> True | Some f \<Rightarrow> ir_ok db f))"


section \<open>Children of a node\<close>

lemma parse_slice_at [codec]:
  assumes "small bs" and "fits pre (prefixed bs @ rest)"
  shows "parse_slice p (at pre (prefixed bs @ rest))
         = res_bind (p bs) (\<lambda>e. Inr (e, at (pre @ prefixed bs) rest))"
  using assms by (simp add: parse_slice_def read_prefixed_at)

lemmas parse_slice_end = parse_slice_at [where rest = "[]", simplified]

lemma parse_slices_at [codec]:
  assumes "list_all small bss" and "fits pre (concat (map prefixed bss) @ rest)"
  shows "parse_slices p (length bss) (at pre (concat (map prefixed bss) @ rest))
         = res_bind (res_map p bss) (\<lambda>es. Inr (es, at (pre @ concat (map prefixed bss)) rest))"
  using assms
proof (induction bss arbitrary: pre)
  case Nil
  then show ?case by simp
next
  case (Cons b bss)
  have "parse_slices p (length bss) (at (pre @ prefixed b) (concat (map prefixed bss) @ rest))
    = res_bind (res_map p bss)
        (\<lambda>es. Inr (es, at ((pre @ prefixed b) @ concat (map prefixed bss)) rest))"
    by (rule Cons.IH) (use Cons.prems in auto)
  with Cons.prems show ?case
    by (cases "p b"; cases "res_map p bss") (simp_all add: parse_slice_at)
qed

lemma parse_pairs_at [codec]:
  assumes "list_all (\<lambda>(w, t). small w \<and> small t) bss"
    and "fits pre (concat (map (\<lambda>(w, t). prefixed w @ prefixed t) bss) @ rest)"
  shows "parse_pairs p (length bss) (at pre (concat (map (\<lambda>(w, t). prefixed w @ prefixed t) bss) @ rest))
         = res_bind (res_map (\<lambda>(w, t). res_bind (p w) (\<lambda>w. res_bind (p t) (\<lambda>t. Inr (w, t)))) bss)
             (\<lambda>es. Inr (es, at (pre @ concat (map (\<lambda>(w, t). prefixed w @ prefixed t) bss)) rest))"
  using assms
proof (induction bss arbitrary: pre)
  case Nil
  then show ?case by simp
next
  case (Cons b bss)
  obtain w t where b: "b = (w, t)" by (cases b)
  let ?rest = "concat (map (\<lambda>(w, t). prefixed w @ prefixed t) bss) @ rest"
  have "parse_pairs p (length bss) (at (pre @ prefixed w @ prefixed t) ?rest)
    = res_bind (res_map (\<lambda>(w, t). res_bind (p w) (\<lambda>w. res_bind (p t) (\<lambda>t. Inr (w, t)))) bss)
        (\<lambda>es. Inr (es, at ((pre @ prefixed w @ prefixed t) @
           concat (map (\<lambda>(w, t). prefixed w @ prefixed t) bss)) rest))"
    by (rule Cons.IH) (use Cons.prems b in auto)
  then show ?case
    using Cons.prems b
    by (cases "p w"; cases "p t";
        cases "res_map (\<lambda>(w, t). res_bind (p w) (\<lambda>w. res_bind (p t) (\<lambda>t. Inr (w, t)))) bss")
       (simp_all add: parse_slice_at)
qed


section \<open>Leaves\<close>

lemma parse_time_unit_code [codec]: "parse_time_unit (unit_code u) = Inr (unit_df u)"
  by (cases u) (simp_all add: parse_time_unit_def)

lemma parse_binary_op_code [codec]: "parse_binary_op (binary_op_code op) = Inr (binary_df op)"
  by (cases op) (simp_all add: parse_binary_op_def)

lemma parse_comparison_op_code [codec]:
  "parse_comparison_op (comparison_op_code op) = Inr (comparison_df op)"
  by (cases op) (simp_all add: parse_comparison_op_def)

lemma parse_conjunction_op_code [codec]:
  "parse_conjunction_op (conjunction_op_code op) = Inr (conjunction_df op)"
  by (cases op) (simp_all add: parse_conjunction_op_def)

lemma AppendLenPrefixed_head: "AppendLenPrefixed out bs = Inr bs' \<Longrightarrow> \<exists>ys. bs' = out @ ys"
  by (auto simp: AppendLenPrefixed_Inr_iff)

lemma parse_literal_at:
  assumes "literal_bytes l = Inr bs" and "literal_ok l" and "fits [] bs"
  shows "\<exists>ys. bs = tag_code Tag_LITERAL # ys \<and>
           parse_literal (at [tag_code Tag_LITERAL] ys) = Inr (E_Literal (literal_df l), at bs [])"
  using assms
  by (cases l)
     (auto simp: literal_head_def append_eqs append_iffs parse_literal_def parse_scalar_def read_as_def
       read_i64_def read_u8_at read_u64_at [where rest = "[]", simplified]
       read_i128_at [where rest = "[]", simplified] read_f32_at [where rest = "[]", simplified]
       read_f64_at [where rest = "[]", simplified] read_i32_at [where rest = "[]", simplified]
       read_string_at [where rest = "[]", simplified] parse_time_unit_code)

lemma parse_type_at:
  assumes "EncodeTypeHint t = Inr ty"
  shows "\<exists>d. type_df t = Some d \<and> parse_type (at pre (ty @ rest)) = Inr (d, at (pre @ ty) rest)"
  using assms
  by (cases t rule: EncodeTypeHint.cases)
     (auto simp: type_head_def append_eqs parse_type_def read_u8_at parse_time_unit_def
       split: if_splits)

lemma parse_column_ref_at:
  assumes "EncodeColumnRef ss = Inr bs" and "list_all utf8_string ss" and "fits [] bs"
  shows "\<exists>ys. bs = tag_code Tag_COLUMN_REF # ys \<and>
           parse_column_ref (at [tag_code Tag_COLUMN_REF] ys) = Inr (path_expr ss, at bs [])"
proof -
  have ne: "ss \<noteq> []" and len: "length ss \<le> u32_max"
    and sm: "list_all (\<lambda>s. small (string_bytes s) \<and> utf8_string s) ss"
    and bs: "bs = tag_code Tag_COLUMN_REF # le_split 4 (word_of_nat (length ss) :: u32)
               @ concat (map (\<lambda>s. prefixed (string_bytes s)) ss)"
    using assms
    by (auto simp: EncodeColumnRef_def append_eqs append_iffs list_all_iff comp_def Let_def
        split: if_splits)
  have un: "unat (word_of_nat (length ss) :: u32) = length ss"
    using len by (rule unat_u32_of_nat)
  then have nz: "(word_of_nat (length ss) :: u32) \<noteq> 0"
    using ne by (metis length_0_conv unat_0)
  show ?thesis
    using read_strings_at [OF sm, where rest = "[]"] assms(3) nz
    by (auto simp: bs parse_column_ref_def read_u32_at un)
qed


section \<open>Decoding the bytes of a tree\<close>

text \<open>\<open>decodes p bs r\<close>: parsing the node \<open>bs\<close> gives \<open>r\<close> and consumes all of it.\<close>

definition decodes :: "datafusion \<Rightarrow> bytes \<Rightarrow> ir_error + Expr \<Rightarrow> bool" where
  "decodes df bs r \<longleftrightarrow> parse_node df (at [] bs) = res_bind r (\<lambda>e. Inr (e, at bs []))"

lemma decodes_subexpr: "decodes df bs r \<Longrightarrow> parse_subexpr df bs = r"
  by (cases r) (simp_all add: decodes_def parse_subexpr.simps new_cursor_at)

lemma decodes_payload: "decodes df bs r \<Longrightarrow> parse_expr_ir_payload df bs = r"
  by (cases r) (simp_all add: decodes_def parse_expr_ir_payload_def new_cursor_at)

text \<open>The count in front of a list of children.\<close>

abbreviation count32 :: "'a list \<Rightarrow> bytes" where
  "count32 cs \<equiv> le_split 4 (word_of_nat (length cs) :: u32)"

lemmas node_simps = decodes_def parse_node.simps append_eqs append_iffs res_bind_Inr_iff read_u8_at

lemma res_map_subexpr:
  assumes "res_map (ir_bytes db) ns = Inr bss"
    and "\<And>n bs. n \<in> set ns \<Longrightarrow> ir_bytes db n = Inr bs \<Longrightarrow> parse_subexpr df bs = ir_df db df n"
  shows "res_map (parse_subexpr df) bss = res_map (ir_df db df) ns"
  using assms by (induction ns arbitrary: bss) (auto simp: res_bind_Inr_iff intro!: res_bind_cong)

lemma decodes_unary:
  assumes "EncodeUnaryNode tag child = Inr bs" and "fits [] bs"
    and "tag \<in> {Tag_NOT, Tag_IS_NULL, Tag_IS_NOT_NULL}"
  shows "decodes df bs (res_bind (parse_subexpr df child) (\<lambda>e. Inr
     (if tag = Tag_NOT then E_Not e else if tag = Tag_IS_NULL then E_IsNull e else E_IsNotNull e)))"
  using assms
  by (cases "parse_subexpr df child")
     (auto simp: EncodeUnaryNode_def node_simps parse_slice_end)

lemma decodes_binary:
  assumes "EncodeBinaryNode op l r = Inr bs" and "fits [] bs"
  shows "decodes df bs (res_bind (parse_subexpr df l) (\<lambda>x.
     res_bind (parse_subexpr df r) (\<lambda>y. Inr (E_BinaryExpr x (binary_df op) y))))"
  using assms
  by (cases "parse_subexpr df l"; cases "parse_subexpr df r")
     (auto simp: EncodeBinaryNode_def node_simps parse_binary_op_code parse_slice_at
       parse_slice_end)

lemma decodes_comparison:
  assumes "EncodeComparisonNode (comparison_op_code op) l r = Inr bs" and "fits [] bs"
  shows "decodes df bs (res_bind (parse_subexpr df l) (\<lambda>x.
     res_bind (parse_subexpr df r) (\<lambda>y. Inr (E_BinaryExpr x (comparison_df op) y))))"
  using assms
  by (cases "parse_subexpr df l"; cases "parse_subexpr df r")
     (auto simp: EncodeComparisonNode_def node_simps parse_comparison_op_code parse_slice_at
       parse_slice_end)

lemma u32_count_nonzero:
  "cs \<noteq> [] \<Longrightarrow> length cs \<le> u32_max \<Longrightarrow> (word_of_nat (length cs) :: u32) \<noteq> 0"
  by (metis length_0_conv unat_0 unat_u32_of_nat)

lemma decodes_conjunction:
  assumes "EncodeConjunctionNode op cs = Inr bs" and "fits [] bs"
  shows "decodes df bs (res_bind (res_map (parse_subexpr df) cs) (\<lambda>es.
     Inr (foldl (\<lambda>l r. E_BinaryExpr l (conjunction_df op) r) (hd es) (tl es))))"
proof -
  from assms(1) obtain c cs' where cs: "cs = c # cs'"
    by (cases cs) (auto simp: EncodeConjunctionNode_def)
  have len: "length cs \<le> u32_max" and sm: "list_all small cs"
    and bs: "bs = [tag_code Tag_CONJUNCTION, conjunction_op_code op] @
       count32 cs @ prefixed c @ concat (map prefixed cs')"
    using assms(1)
    by (auto simp: cs EncodeConjunctionNode_def append_eqs append_iffs res_bind_Inr_iff Let_def
        split: if_splits)
  have un: "unat (word_of_nat (length cs) :: u32) = length cs"
    using len by (rule unat_u32_of_nat)
  have nz: "(word_of_nat (length cs) :: u32) \<noteq> 0"
    by (rule u32_count_nonzero) (use cs len in auto)
  let ?pre = "[tag_code Tag_CONJUNCTION, conjunction_op_code op] @
       count32 cs @ prefixed c"
  have rest: "parse_slices (parse_subexpr df) (length cs') (at ?pre (concat (map prefixed cs')))
    = res_bind (res_map (parse_subexpr df) cs') (\<lambda>es. Inr (es, at bs []))"
    using parse_slices_at [where bss = cs' and rest = "[]" and pre = ?pre] sm assms(2)
    by (simp add: bs cs)
  have parse: "parse_node df (at [] bs) = res_bind (parse_subexpr df c) (\<lambda>first.
     res_bind (res_map (parse_subexpr df) cs') (\<lambda>others.
       Inr (foldl (\<lambda>l r. E_BinaryExpr l (conjunction_df op) r) first others, at bs [])))"
  proof -
    have "parse_slice (parse_subexpr df)
        (at ([tag_code Tag_CONJUNCTION, conjunction_op_code op] @
             count32 cs) (prefixed c @ concat (map prefixed cs')))
      = res_bind (parse_subexpr df c) (\<lambda>e. Inr (e, at ?pre (concat (map prefixed cs'))))"
      using sm cs assms(2) bs by (simp add: parse_slice_at)
    with rest nz un show ?thesis
      by (cases "parse_subexpr df c"; cases "res_map (parse_subexpr df) cs'")
         (simp_all add: bs parse_node.simps read_u8_at read_u32_at parse_conjunction_op_code cs)
  qed
  then show ?thesis
    by (cases "parse_subexpr df c"; cases "res_map (parse_subexpr df) cs'")
       (simp_all add: decodes_def cs)
qed

text \<open>A count followed by that many length-prefixed children, at the end of a node.\<close>

lemma parse_counted_at:
  assumes "list_all small cs" and "length cs \<le> u32_max"
    and "fits pre (count32 cs @ concat (map prefixed cs))"
  shows "res_bind (read_u32 (at pre (count32 cs @ concat (map prefixed cs))))
      (\<lambda>(n, c). res_bind (parse_slices p (unat n) c) k)
    = res_bind (res_map p cs) (\<lambda>es.
        k (es, at (pre @ count32 cs @ concat (map prefixed cs)) []))"
  using assms parse_slices_at [of cs "pre @ count32 cs" "[]" p]
  by (cases "res_map p cs") (simp_all add: read_u32_at unat_u32_of_nat)

lemma decodes_function:
  assumes "EncodeFunctionNode db name cs = Inr bs" and "fits [] bs"
    and "utf8_string (StringLower db name)"
  shows "decodes df bs (res_bind (res_map (parse_subexpr df) cs) (\<lambda>es.
     res_bind (resolve_scalar_function df (StringLower db name)) (\<lambda>f.
     Inr (E_ScalarFunction f es))))"
proof -
  let ?s = "prefixed (string_bytes (StringLower db name))"
  have len: "length cs \<le> u32_max" and sm: "list_all small cs"
    and ss: "small (string_bytes (StringLower db name))"
    and bs: "bs = tag_code Tag_SCALAR_FUNCTION # ?s @
       count32 cs @ concat (map prefixed cs)"
    using assms(1)
    by (auto simp: EncodeFunctionNode_def append_eqs append_iffs res_bind_Inr_iff split: if_splits)
  have "parse_node df (at [] bs) = res_bind (read_u32 (at (tag_code Tag_SCALAR_FUNCTION # ?s)
      (count32 cs @ concat (map prefixed cs))))
      (\<lambda>(n, c). res_bind (parse_slices (parse_subexpr df) (unat n) c) (\<lambda>(args, c).
       res_bind (resolve_scalar_function df (StringLower db name)) (\<lambda>udf.
         Inr (E_ScalarFunction udf args, c))))"
    using assms(2,3) ss by (simp add: bs parse_node.simps read_u8_at read_string_at)
  also have "\<dots> = res_bind (res_map (parse_subexpr df) cs) (\<lambda>es.
       res_bind (resolve_scalar_function df (StringLower db name)) (\<lambda>udf.
         Inr (E_ScalarFunction udf es, at bs [])))"
    using sm len assms(2) by (subst parse_counted_at) (simp_all add: bs)
  finally show ?thesis
    by (cases "res_map (parse_subexpr df) cs";
        cases "resolve_scalar_function df (StringLower db name)") (simp_all add: decodes_def)
qed

lemma decodes_in_list:
  assumes "in_list_node neg l cs = Inr bs" and "fits [] bs" and "length cs \<le> u32_max"
  shows "decodes df bs (res_bind (parse_subexpr df l) (\<lambda>e.
     res_bind (res_map (parse_subexpr df) cs) (\<lambda>es. Inr (E_InList e es neg))))"
proof -
  have sm: "list_all small cs" "small l"
    and bs: "bs = [tag_code Tag_IN_LIST, if neg then 1 else 0] @ prefixed l @
       count32 cs @ concat (map prefixed cs)"
    using assms(1) by (auto simp: in_list_node_def append_eqs append_iffs res_bind_Inr_iff)
  have "parse_node df (at [] bs) = res_bind (parse_subexpr df l) (\<lambda>e.
      res_bind (read_u32 (at ([tag_code Tag_IN_LIST, if neg then 1 else 0] @ prefixed l)
        (count32 cs @ concat (map prefixed cs))))
      (\<lambda>(n, c). res_bind (parse_slices (parse_subexpr df) (unat n) c) (\<lambda>(items, c).
        Inr (E_InList e items neg, c))))"
    using assms(2) sm
    by (cases "parse_subexpr df l") (simp_all add: bs parse_node.simps read_u8_at parse_slice_at)
  also have "\<dots> = res_bind (parse_subexpr df l) (\<lambda>e. res_bind (res_map (parse_subexpr df) cs)
      (\<lambda>es. Inr (E_InList e es neg, at bs [])))"
    using sm assms by (subst parse_counted_at) (simp_all add: bs)
  finally show ?thesis
    by (cases "res_map (parse_subexpr df) cs"; cases "parse_subexpr df l")
       (simp_all add: decodes_def)
qed

lemma decodes_like:
  assumes "EncodeLikeNode ci (esc \<noteq> None) (case esc of None \<Rightarrow> 0 | Some c \<Rightarrow> c) l r = Inr bs"
    and "fits [] bs"
  shows "decodes df bs (res_bind (parse_subexpr df l) (\<lambda>e. res_bind (parse_subexpr df r) (\<lambda>p.
     Inr (E_Like False e p (map_option (\<lambda>b. char_of (unat b)) esc) ci))))"
proof -
  let ?flags = "(if ci then 1 else 0) OR (if esc \<noteq> None then 2 else 0) :: byte"
  have sm: "small l" "small r"
    and bs: "bs = [tag_code Tag_LIKE, ?flags] @ prefixed l @ prefixed r @
       (case esc of None \<Rightarrow> [] | Some c \<Rightarrow> [c])"
    using assms(1)
    by (auto simp: EncodeLikeNode_def LANCE_EXPR_IR_LIKE_FLAG_CASE_INSENSITIVE_def Let_def
        LANCE_EXPR_IR_LIKE_FLAG_HAS_ESCAPE_def append_eqs append_iffs res_bind_Inr_iff
        split: option.splits)
  show ?thesis
    using sm assms(2)
    by (cases esc; cases ci; cases "parse_subexpr df l"; cases "parse_subexpr df r")
       (simp_all add: bs decodes_def parse_node.simps parse_like_def read_u8_at parse_slice_at
         parse_slice_end)
qed

lemma decodes_regexp:
  assumes "EncodeRegexpNode mode has_flags l r f = Inr bs" and "fits [] bs"
  shows "decodes df bs (res_bind (parse_subexpr df l) (\<lambda>e. res_bind (parse_subexpr df r) (\<lambda>p.
     res_bind (if has_flags then res_bind (parse_subexpr df f) normalize_regexp_options else Inr None)
       (regexp_expr df mode e p))))"
proof -
  have sm: "small l" "small r" "has_flags \<Longrightarrow> small f"
    and bs: "bs = [tag_code Tag_REGEXP, mode, if has_flags then 1 else 0] @ prefixed l @ prefixed r @
       (if has_flags then prefixed f else [])"
    using assms(1)
    by (auto simp: EncodeRegexpNode_def append_eqs append_iffs res_bind_Inr_iff split: if_splits)
  show ?thesis
    using sm assms(2)
    by (cases has_flags)
       (simp_all add: bs decodes_def parse_node.simps parse_regexp_def read_u8_at parse_slice_at
         parse_slice_end res_bind_assoc)
qed

lemma decodes_case:
  assumes "EncodeCaseNode cs e = Inr bs" and "fits [] bs"
  shows "decodes df bs (res_bind (res_map (\<lambda>(w, t). res_bind (parse_subexpr df w) (\<lambda>w.
        res_bind (parse_subexpr df t) (\<lambda>t. Inr (w, t)))) cs)
     (\<lambda>es. case e of None \<Rightarrow> Inr (E_Case es None)
            | Some b \<Rightarrow> res_bind (parse_subexpr df b) (\<lambda>x. Inr (E_Case es (Some x)))))"
proof -
  let ?cs = "concat (map (\<lambda>(w, t). prefixed w @ prefixed t) cs)"
  let ?n = "count32 cs"
  let ?tl = "case e of None \<Rightarrow> [0] | Some b \<Rightarrow> 1 # prefixed b"
  have ne: "cs \<noteq> []" and len: "length cs \<le> u32_max"
    and sm: "list_all (\<lambda>(w, t). small w \<and> small t) cs" "\<And>b. e = Some b \<Longrightarrow> small b"
    and bs: "bs = tag_code Tag_CASE # ?n @ ?cs @ ?tl"
    using assms(1)
    by (auto simp: EncodeCaseNode_def append_eqs append_iffs res_bind_Inr_iff
        split: if_splits option.splits)
  have nz: "(word_of_nat (length cs) :: u32) \<noteq> 0"
    using ne len by (rule u32_count_nonzero)
  have pairs: "parse_pairs (parse_subexpr df) (length cs) (at (tag_code Tag_CASE # ?n) (?cs @ ?tl))
     = res_bind (res_map (\<lambda>(w, t). res_bind (parse_subexpr df w) (\<lambda>w.
        res_bind (parse_subexpr df t) (\<lambda>t. Inr (w, t)))) cs)
       (\<lambda>es. Inr (es, at (tag_code Tag_CASE # ?n @ ?cs) ?tl))"
    using parse_pairs_at [OF sm(1), of "tag_code Tag_CASE # ?n" ?tl] assms(2) by (simp add: bs)
  have else_part: "res_bind (read_u8 (at pre ?tl)) (\<lambda>(has_else, c).
         if has_else \<noteq> 0 then
           res_bind (parse_slice (parse_subexpr df) c) (\<lambda>(e, c). Inr (E_Case es (Some e), c))
         else Inr (E_Case es None, c))
     = res_bind (case e of None \<Rightarrow> Inr (E_Case es None)
            | Some b \<Rightarrow> res_bind (parse_subexpr df b) (\<lambda>x. Inr (E_Case es (Some x))))
         (\<lambda>x. Inr (x, at (pre @ ?tl) []))" if "fits pre ?tl" for es pre
  proof (cases e)
    case None
    then show ?thesis by (simp add: read_u8_at)
  next
    case (Some b)
    with sm that show ?thesis
      by (cases "parse_subexpr df b")
         (auto simp: read_u8_at parse_slice_end)
  qed
  show ?thesis
    using pairs nz len assms(2)
    by (cases "res_map (\<lambda>(w, t). res_bind (parse_subexpr df w) (\<lambda>w.
        res_bind (parse_subexpr df t) (\<lambda>t. Inr (w, t)))) cs")
       (simp_all add: decodes_def parse_node.simps bs read_u8_at read_u32_at unat_u32_of_nat
         else_part)
qed

text \<open>
  The bytes of a tree decode to its meaning: one lemma per kind of node, then induction over
  the tree.  A child's bytes are a length-prefixed slice of its node, so they fit as well.
\<close>

definition tree_decodes :: "duckdb \<Rightarrow> datafusion \<Rightarrow> ir \<Rightarrow> bool" where
  "tree_decodes db df n \<longleftrightarrow>
     (\<forall>bs. ir_bytes db n = Inr bs \<longrightarrow> ir_ok db n \<longrightarrow> fits [] bs \<longrightarrow> decodes df bs (ir_df db df n))"

lemma tree_decodesI:
  "(\<And>bs. ir_bytes db n = Inr bs \<Longrightarrow> ir_ok db n \<Longrightarrow> fits [] bs \<Longrightarrow> decodes df bs (ir_df db df n)) \<Longrightarrow>
     tree_decodes db df n"
  by (simp add: tree_decodes_def)

lemma tree_decodes_child:
  "tree_decodes db df n \<Longrightarrow> ir_bytes db n = Inr b \<Longrightarrow> ir_ok db n \<Longrightarrow> small b \<Longrightarrow>
     parse_subexpr df b = ir_df db df n"
  by (rule decodes_subexpr) (simp add: tree_decodes_def small_def)

lemma tree_decodes_children:
  assumes "\<And>n. n \<in> set ns \<Longrightarrow> tree_decodes db df n" and "res_map (ir_bytes db) ns = Inr bss"
    and "list_all (ir_ok db) ns" and "list_all small bss"
  shows "res_map (parse_subexpr df) bss = res_map (ir_df db df) ns"
  using assms
proof (induction ns arbitrary: bss)
  case Nil
  then show ?case by simp
next
  case (Cons n ns)
  then obtain b bss' where "ir_bytes db n = Inr b" "res_map (ir_bytes db) ns = Inr bss'"
    and bss: "bss = b # bss'"
    by (auto simp: res_bind_Inr_iff)
  with Cons show ?case
    using tree_decodes_child [of db df n b] by simp
qed

lemmas node_defs_all [node_defs] = EncodeUnaryNode_def EncodeBinaryNode_def EncodeComparisonNode_def
  EncodeConjunctionNode_def EncodeFunctionNode_def EncodeLikeNode_def EncodeRegexpNode_def
  EncodeCaseNode_def in_list_node_def

lemmas node_iffs = res_bind_Inr_iff append_iffs

lemma tree_decodes_leaf:
  "tree_decodes db df (IRColumn ss)" "tree_decodes db df (IRLiteral l)"
  by (rule tree_decodesI; insert parse_column_ref_at [of ss] parse_literal_at [of l];
      force simp: decodes_def parse_node.simps read_u8_at)+

lemma tree_decodes_cast:
  assumes "tree_decodes db df n"
  shows "tree_decodes db df (IRCast t n)"
proof (rule tree_decodesI)
  fix bs
  assume enc: "ir_bytes db (IRCast t n) = Inr bs" and ok: "ir_ok db (IRCast t n)" and fit: "fits [] bs"
  then obtain b ty where b: "ir_bytes db n = Inr b" and ty: "EncodeTypeHint t = Inr ty"
    and sm: "small b" and bs: "bs = tag_code Tag_CAST # ty @ prefixed b"
    by (auto simp: node_iffs append_eqs)
  obtain d where d: "type_df t = Some d"
    and pt: "parse_type (at [tag_code Tag_CAST] (ty @ prefixed b))
      = Inr (d, at (tag_code Tag_CAST # ty) (prefixed b))"
    using parse_type_at [OF ty, of "[tag_code Tag_CAST]" "prefixed b"] by auto
  have "parse_subexpr df b = ir_df db df n"
    using tree_decodes_child [OF assms b _ sm] ok by simp
  then show "decodes df bs (ir_df db df (IRCast t n))"
    using d pt sm fit
    by (cases "ir_df db df n")
       (auto simp: bs decodes_def parse_node.simps read_u8_at
         parse_slice_end)
qed

lemma tree_decodes_unary_node:
  assumes "tree_decodes db df n" and tag: "tag \<in> {Tag_NOT, Tag_IS_NULL, Tag_IS_NOT_NULL}"
    and m: "ir_bytes db m = res_bind (ir_bytes db n) (EncodeUnaryNode tag)" "ir_ok db m = ir_ok db n"
      "ir_df db df m = res_bind (ir_df db df n) (\<lambda>e. Inr (if tag = Tag_NOT then E_Not e
         else if tag = Tag_IS_NULL then E_IsNull e else E_IsNotNull e))"
  shows "tree_decodes db df m"
proof (rule tree_decodesI)
  fix bs
  assume "ir_bytes db m = Inr bs" and ok: "ir_ok db m" and fit: "fits [] bs"
  then obtain b where b: "ir_bytes db n = Inr b" and node: "EncodeUnaryNode tag b = Inr bs"
    by (auto simp: m res_bind_Inr_iff)
  then have "small b"
    by (auto simp: node_defs node_iffs)
  with decodes_unary [OF node fit tag, of df] ok m b assms(1) show "decodes df bs (ir_df db df m)"
    by (simp add: tree_decodes_child)
qed

lemma tree_decodes_unary:
  assumes "tree_decodes db df n"
  shows "tree_decodes db df (IRNot n)" "tree_decodes db df (IRIsNull n)" "tree_decodes db df (IRIsNotNull n)"
  using assms
  by (auto intro: tree_decodes_unary_node [where tag = Tag_NOT]
      tree_decodes_unary_node [where tag = Tag_IS_NULL]
      tree_decodes_unary_node [where tag = Tag_IS_NOT_NULL])

lemma tree_decodes_binary:
  assumes "tree_decodes db df m" "tree_decodes db df n"
  shows "tree_decodes db df (IRBinary op m n)"
proof (rule tree_decodesI)
  fix bs
  assume enc: "ir_bytes db (IRBinary op m n) = Inr bs" and ok: "ir_ok db (IRBinary op m n)"
    and fit: "fits [] bs"
  then obtain l r where lr: "ir_bytes db m = Inr l" "ir_bytes db n = Inr r"
    and node: "EncodeBinaryNode op l r = Inr bs"
    by (auto simp: res_bind_Inr_iff)
  then have "small l" "small r"
    by (auto simp: node_defs node_iffs)
  with decodes_binary [OF node fit, of df] ok lr assms show "decodes df bs (ir_df db df (IRBinary op m n))"
    by (simp add: tree_decodes_child)
qed

lemma tree_decodes_comparison:
  assumes "tree_decodes db df m" "tree_decodes db df n"
  shows "tree_decodes db df (IRComparison op m n)"
proof (rule tree_decodesI)
  fix bs
  assume enc: "ir_bytes db (IRComparison op m n) = Inr bs" and ok: "ir_ok db (IRComparison op m n)"
    and fit: "fits [] bs"
  then obtain l r where lr: "ir_bytes db m = Inr l" "ir_bytes db n = Inr r"
    and node: "EncodeComparisonNode (comparison_op_code op) l r = Inr bs"
    by (auto simp: res_bind_Inr_iff)
  then have "small l" "small r"
    by (auto simp: node_defs node_iffs)
  with decodes_comparison [OF node fit, of df] ok lr assms
  show "decodes df bs (ir_df db df (IRComparison op m n))"
    by (simp add: tree_decodes_child)
qed

lemma tree_decodes_conjunction:
  assumes "\<And>n. n \<in> set ns \<Longrightarrow> tree_decodes db df n"
  shows "tree_decodes db df (IRConjunction op ns)"
proof (rule tree_decodesI)
  fix bs
  assume enc: "ir_bytes db (IRConjunction op ns) = Inr bs" and ok: "ir_ok db (IRConjunction op ns)"
    and fit: "fits [] bs"
  then obtain bss where bss: "res_map (ir_bytes db) ns = Inr bss"
    and node: "EncodeConjunctionNode op bss = Inr bs"
    by (auto simp: res_bind_Inr_iff)
  then have "list_all small bss"
    by (auto simp: node_defs node_iffs Let_def split: if_splits)
  with tree_decodes_children [OF assms bss] decodes_conjunction [OF node fit, of df] ok
  show "decodes df bs (ir_df db df (IRConjunction op ns))" by simp
qed

lemma tree_decodes_function:
  assumes "\<And>n. n \<in> set ns \<Longrightarrow> tree_decodes db df n"
  shows "tree_decodes db df (IRFunction name ns)"
proof (rule tree_decodesI)
  fix bs
  assume enc: "ir_bytes db (IRFunction name ns) = Inr bs" and ok: "ir_ok db (IRFunction name ns)"
    and fit: "fits [] bs"
  then obtain bss where bss: "res_map (ir_bytes db) ns = Inr bss"
    and node: "EncodeFunctionNode db name bss = Inr bs"
    by (auto simp: res_bind_Inr_iff)
  then have "list_all small bss"
    by (auto simp: node_defs node_iffs split: if_splits)
  with tree_decodes_children [OF assms bss] decodes_function [OF node fit, of df] ok
  show "decodes df bs (ir_df db df (IRFunction name ns))" by simp
qed

lemma tree_decodes_in_list:
  assumes "tree_decodes db df n" and "\<And>n. n \<in> set ns \<Longrightarrow> tree_decodes db df n"
  shows "tree_decodes db df (IRInList neg n ns)"
proof (rule tree_decodesI)
  fix bs
  assume enc: "ir_bytes db (IRInList neg n ns) = Inr bs" and ok: "ir_ok db (IRInList neg n ns)"
    and fit: "fits [] bs"
  then obtain l bss where l: "ir_bytes db n = Inr l" and bss: "res_map (ir_bytes db) ns = Inr bss"
    and node: "in_list_node neg l bss = Inr bs"
    by (auto simp: res_bind_Inr_iff)
  then have "list_all small bss" "small l"
    by (auto simp: node_defs node_iffs)
  moreover have "length bss \<le> u32_max"
    using res_map_length [OF bss] ok by simp
  ultimately show "decodes df bs (ir_df db df (IRInList neg n ns))"
    using tree_decodes_children [OF assms(2) bss] tree_decodes_child [OF assms(1) l]
      decodes_in_list [OF node fit, of df] ok by simp
qed

lemma tree_decodes_like:
  assumes "tree_decodes db df m" "tree_decodes db df n"
  shows "tree_decodes db df (IRLike ci esc m n)"
proof (rule tree_decodesI)
  fix bs
  assume enc: "ir_bytes db (IRLike ci esc m n) = Inr bs" and ok: "ir_ok db (IRLike ci esc m n)"
    and fit: "fits [] bs"
  then obtain l r where lr: "ir_bytes db m = Inr l" "ir_bytes db n = Inr r"
    and node: "EncodeLikeNode ci (esc \<noteq> None) (case esc of None \<Rightarrow> 0 | Some c \<Rightarrow> c) l r = Inr bs"
    by (auto simp: res_bind_Inr_iff)
  then have "small l" "small r"
    by (auto simp: node_defs node_iffs Let_def)
  with decodes_like [OF node fit, of df] ok lr assms
  show "decodes df bs (ir_df db df (IRLike ci esc m n))"
    by (simp add: tree_decodes_child)
qed

lemma tree_decodes_regexp:
  assumes "tree_decodes db df m" "tree_decodes db df n" and "\<And>f. flags = Some f \<Longrightarrow> tree_decodes db df f"
  shows "tree_decodes db df (IRRegexp mode m n flags)"
proof (rule tree_decodesI)
  fix bs
  assume enc: "ir_bytes db (IRRegexp mode m n flags) = Inr bs" and ok: "ir_ok db (IRRegexp mode m n flags)"
    and fit: "fits [] bs"
  then obtain l r f where lr: "ir_bytes db m = Inr l" "ir_bytes db n = Inr r"
    and f: "\<And>g. flags = Some g \<Longrightarrow> ir_bytes db g = Inr f"
    and node: "EncodeRegexpNode mode (flags \<noteq> None) l r f = Inr bs"
    by (auto simp: res_bind_Inr_iff split: option.splits)
  then have "small l" "small r" "flags \<noteq> None \<Longrightarrow> small f"
    by (auto simp: node_defs node_iffs split: if_splits)
  with decodes_regexp [OF node fit, of df] ok lr f assms
  show "decodes df bs (ir_df db df (IRRegexp mode m n flags))"
    by (cases flags) (simp_all add: tree_decodes_child)
qed

lemma tree_decodes_pairs:
  assumes "\<And>w t. (w, t) \<in> set cs \<Longrightarrow> tree_decodes db df w \<and> tree_decodes db df t"
    and "res_map (\<lambda>(w, t). res_bind (ir_bytes db w) (\<lambda>w. res_bind (ir_bytes db t) (\<lambda>t. Inr (w, t)))) cs
         = Inr bss"
    and "list_all (\<lambda>(w, t). small w \<and> small t) bss" and "list_all (\<lambda>(w, t). ir_ok db w \<and> ir_ok db t) cs"
  shows "res_map (\<lambda>(w, t). res_bind (parse_subexpr df w) (\<lambda>w.
             res_bind (parse_subexpr df t) (\<lambda>t. Inr (w, t)))) bss
       = res_map (\<lambda>(w, t). res_bind (ir_df db df w) (\<lambda>w. res_bind (ir_df db df t) (\<lambda>t. Inr (w, t)))) cs"
  using assms
proof (induction cs arbitrary: bss)
  case Nil
  then show ?case by simp
next
  case (Cons c cs)
  obtain w t where c: "c = (w, t)" by (cases c)
  with Cons.prems obtain w' t' bss' where bs': "bss = (w', t') # bss'"
    and wt: "ir_bytes db w = Inr w'" "ir_bytes db t = Inr t'"
    and rest: "res_map (\<lambda>(w, t). res_bind (ir_bytes db w) (\<lambda>w.
        res_bind (ir_bytes db t) (\<lambda>t. Inr (w, t)))) cs = Inr bss'"
    by (auto simp: res_bind_Inr_iff)
  have "tree_decodes db df w" "tree_decodes db df t"
    using Cons.prems(1) [of w t] c by simp_all
  then have "parse_subexpr df w' = ir_df db df w" "parse_subexpr df t' = ir_df db df t"
    using wt Cons.prems(3,4) bs' c by (simp_all add: tree_decodes_child)
  moreover have "res_map (\<lambda>(w, t). res_bind (parse_subexpr df w) (\<lambda>w.
             res_bind (parse_subexpr df t) (\<lambda>t. Inr (w, t)))) bss'
       = res_map (\<lambda>(w, t). res_bind (ir_df db df w) (\<lambda>w. res_bind (ir_df db df t) (\<lambda>t. Inr (w, t)))) cs"
    by (rule Cons.IH) (use Cons.prems rest bs' in auto)
  ultimately show ?case
    by (simp add: bs' c)
qed

lemma tree_decodes_case:
  assumes cs: "\<And>w t. (w, t) \<in> set cs \<Longrightarrow> tree_decodes db df w \<and> tree_decodes db df t"
    and e: "\<And>n. e = Some n \<Longrightarrow> tree_decodes db df n"
  shows "tree_decodes db df (IRCase cs e)"
proof (rule tree_decodesI)
  fix bs
  assume enc: "ir_bytes db (IRCase cs e) = Inr bs" and ok: "ir_ok db (IRCase cs e)" and fit: "fits [] bs"
  then obtain bss b where
    bss: "res_map (\<lambda>(w, t). res_bind (ir_bytes db w) (\<lambda>w. res_bind (ir_bytes db t) (\<lambda>t. Inr (w, t)))) cs
          = Inr bss"
    and b: "\<And>n. e = Some n \<Longrightarrow> \<exists>x. b = Some x \<and> ir_bytes db n = Inr x" "e = None \<Longrightarrow> b = None"
    and node: "EncodeCaseNode bss b = Inr bs"
    by (auto simp: res_bind_Inr_iff split: option.splits)
  then have sm: "list_all (\<lambda>(w, t). small w \<and> small t) bss" "\<And>x. b = Some x \<Longrightarrow> small x"
    by (auto simp: node_defs node_iffs split: if_splits option.splits)
  show "decodes df bs (ir_df db df (IRCase cs e))"
    using decodes_case [OF node fit, of df] tree_decodes_pairs [OF cs bss sm(1)] b sm(2) ok e
    by (cases e) (auto simp: tree_decodes_child)
qed

lemma tree_decodes_all: "tree_decodes db df n"
  by (induction n)
     (auto intro!: tree_decodes_leaf tree_decodes_cast tree_decodes_unary tree_decodes_binary
       tree_decodes_comparison tree_decodes_conjunction tree_decodes_function tree_decodes_in_list
       tree_decodes_like tree_decodes_regexp tree_decodes_case)

text \<open>Decoding a message whose payload is the bytes of a tree.\<close>

lemma parse_payload_ir:
  assumes "ir_bytes db n = Inr bs" and "ir_ok db n" and "fits [] bs"
  shows "parse_expr_ir_payload df bs = ir_df db df n"
  using assms tree_decodes_all [of db df n] by (auto simp: tree_decodes_def intro: decodes_payload)

end
