(* ===== verification/Literal_Correct.thy ===== *)
theory Literal_Correct
  imports Expr_IR_Spec
begin

text \<open>
  What a literal node carries: the value itself.  Integers reach the decoder sign- or
  zero-extended to 64 bits, floating-point values bit by bit, and a decimal, which the encoder
  recovers from its printed form, as its unscaled 128-bit integer.
\<close>

section \<open>Decimals\<close>

text \<open>The scanning loop multiplies and adds as words do, whatever the range checks say.\<close>

definition digits_from :: "i128 \<Rightarrow> string \<Rightarrow> i128" where
  "digits_from acc cs = foldl (\<lambda>a c. a * 10 + word_of_nat (digit_val c)) acc cs"

lemma digits_from_eq:
  "digits_from (word_of_nat n) cs = word_of_nat (foldl (\<lambda>a c. a * 10 + digit_val c) n cs)"
proof (induction cs arbitrary: n)
  case Nil
  then show ?case by (simp add: digits_from_def)
next
  case (Cons c cs)
  have "word_of_nat n * 10 + word_of_nat (digit_val c) = (word_of_nat (n * 10 + digit_val c) :: i128)"
    by simp
  then show ?case
    using Cons.IH [of "n * 10 + digit_val c"] by (simp add: digits_from_def)
qed

lemma digits_from_0: "digits_from 0 cs = word_of_nat (string_to_nat cs)"
  using digits_from_eq [of 0 cs] by (simp add: string_to_nat_def)

lemma is_digit_not_dot: "is_digit c \<Longrightarrow> c \<noteq> CHR ''.''"
  by (auto simp: is_digit_def)

lemma hugeint_word:
  assumes "hugeint_exact db"
  shows "HugeMul db a b = Some c \<Longrightarrow> c = a * b" "HugeAdd db a b = Some c \<Longrightarrow> c = a + b"
    "HugeNeg db a = Some c \<Longrightarrow> c = - a"
  using assms unfolding hugeint_exact_def by (metis option.distinct(1) option.inject)+

lemma decimal_digits_int_part:
  assumes "hugeint_exact db" and "list_all is_digit ip"
    and "decimal_digits db sc (ip @ rest) acc False fr = Inr r"
  shows "decimal_digits db sc rest (digits_from acc ip) False fr = Inr r"
  using assms(2,3)
proof (induction ip arbitrary: acc)
  case Nil
  then show ?case by (simp add: digits_from_def)
next
  case (Cons c ip)
  then show ?case
    using is_digit_not_dot [of c] hugeint_word [OF assms(1)]
    by (fastforce simp: digits_from_def split: option.splits if_splits)
qed

lemma decimal_digits_frac_part:
  assumes "hugeint_exact db" and "list_all is_digit fp"
    and "decimal_digits db sc fp acc True fr = Inr (acc', fr')"
  shows "acc' = digits_from acc fp \<and> unat fr' = unat fr + length fp"
  using assms(2,3)
proof (induction fp arbitrary: acc fr)
  case Nil
  then show ?case by (simp add: digits_from_def)
next
  case (Cons c fp)
  then obtain m a where "HugeMul db acc 10 = Some m" "HugeAdd db m (word_of_nat (digit_val c)) = Some a"
    and fr: "fr < sc" and rest: "decimal_digits db sc fp a True (fr + 1) = Inr (acc', fr')"
    using is_digit_not_dot [of c] by (auto split: option.splits if_splits)
  then have "a = acc * 10 + word_of_nat (digit_val c)"
    using hugeint_word [OF assms(1)] by metis
  moreover have "acc' = digits_from a fp \<and> unat fr' = unat (fr + 1) + length fp"
    using Cons.IH rest Cons.prems(1) by simp
  ultimately show ?case
    using unat_plus_one [OF fr] by (simp add: digits_from_def)
qed

lemma decimal_pad_eq:
  assumes "hugeint_exact db" and "decimal_pad db sc acc fr = Inr r"
  shows "r = acc * 10 ^ (unat sc - unat fr)"
  using assms
proof (induction db sc acc fr rule: decimal_pad.induct)
  case (1 db sc acc fr)
  show ?case
  proof (cases "fr < sc")
    case True
    then obtain a where a: "HugeMul db acc 10 = Some a" and r: "decimal_pad db sc a (fr + 1) = Inr r"
      using 1(3) by (subst (asm) decimal_pad.simps) (auto split: option.splits)
    have "unat (fr + 1) = Suc (unat fr)" and "unat fr < unat sc"
      using True by (simp_all add: unat_plus_one word_less_nat_alt)
    then have "10 ^ (unat sc - unat fr) = (10 * 10 ^ (unat sc - unat (fr + 1)) :: i128)"
      by (simp add: Suc_diff_Suc flip: power_Suc)
    with 1(1) [OF True a 1(2) r] hugeint_word(1) [OF 1(2) a] show ?thesis
      by (simp add: mult.assoc)
  next
    case False
    with 1(3) show ?thesis
      by (subst (asm) decimal_pad.simps) (auto simp: word_less_nat_alt)
  qed
qed

text \<open>Taking the sign off a spelled decimal leaves its digits.\<close>

lemma sign_split:
  assumes "str = (if neg then ''-'' else []) @ ip @ (if dot then ''.'' else []) @ fp"
    and "list_all is_digit ip" and "list_all is_digit fp" and "\<not> dot \<longrightarrow> fp = []"
  shows "(if str \<noteq> [] \<and> (hd str = CHR ''-'' \<or> hd str = CHR ''+'') then tl str else str)
      = ip @ (if dot then ''.'' else []) @ fp"
    and "((str \<noteq> [] \<and> (hd str = CHR ''-'' \<or> hd str = CHR ''+'')) \<and> hd str = CHR ''-'') = neg"
proof -
  let ?body = "ip @ (if dot then ''.'' else []) @ fp"
  have "?body = [] \<or> (hd ?body \<noteq> CHR ''-'' \<and> hd ?body \<noteq> CHR ''+'')"
    using assms by (cases ip; cases dot) (auto simp: is_digit_def)
  then show "(if str \<noteq> [] \<and> (hd str = CHR ''-'' \<or> hd str = CHR ''+'') then tl str else str) = ?body"
    and "((str \<noteq> [] \<and> (hd str = CHR ''-'' \<or> hd str = CHR ''+'')) \<and> hd str = CHR ''-'') = neg"
    by (cases neg; auto simp: assms(1))+
qed

lemma decimal_unscaled_eq:
  assumes "hugeint_exact db" and "decimal_spells str (unat sc) n"
    and "decimal_unscaled db sc str = Inr d"
  shows "d = word_of_int n"
proof -
  from assms(2) obtain neg ip fp dot where
    str: "str = (if neg then ''-'' else []) @ ip @ (if dot then ''.'' else []) @ fp"
    and ip: "list_all is_digit ip" and fp: "list_all is_digit fp" and dot: "\<not> dot \<longrightarrow> fp = []"
    and n: "n = (if neg then -1 else 1) * int (string_to_nat (ip @ fp) * 10 ^ (unat sc - length fp))"
    by (auto simp: decimal_spells_def)
  let ?body = "ip @ (if dot then ''.'' else []) @ fp"
  obtain acc fr r where digits: "decimal_digits db sc ?body 0 False 0 = Inr (acc, fr)"
    and pad: "decimal_pad db sc acc fr = Inr r"
    and sign: "(if neg then (case HugeNeg db r of None \<Rightarrow> Inl OutOfRange | Some d \<Rightarrow> Inr d) else Inr r) = Inr d"
    using assms(3)
    unfolding decimal_unscaled_def Let_def sign_split [OF str ip fp dot]
    by (auto simp: res_bind_Inr_iff)
  have hneg: "neg \<Longrightarrow> HugeNeg db r = Some d"
    using sign by (simp split: option.splits)
  have d: "d = (if neg then - r else r)"
    using sign hneg hugeint_word(3) [OF assms(1)] by (cases neg) auto
  have "decimal_digits db sc ((if dot then ''.'' else []) @ fp) (digits_from 0 ip) False 0 = Inr (acc, fr)"
    using decimal_digits_int_part [OF assms(1) ip digits] .
  then have "acc = digits_from (digits_from 0 ip) fp \<and> unat fr = length fp"
    using decimal_digits_frac_part [OF assms(1) fp, of sc "digits_from 0 ip" 0 acc fr] dot
    by (cases dot) (auto simp: digits_from_def)
  then have "r = word_of_nat (string_to_nat (ip @ fp)) * 10 ^ (unat sc - length fp)"
    using decimal_pad_eq [OF assms(1) pad] digits_from_0 [of "ip @ fp"]
    by (simp add: digits_from_def)
  then show ?thesis by (simp add: d n)
qed

text \<open>Nothing is refused that fits: the accumulator never exceeds the final magnitude.\<close>

lemma digits_mono: "n \<le> foldl (\<lambda>a c. a * 10 + digit_val c) n cs" for n :: nat
proof (induction cs arbitrary: n)
  case (Cons c cs)
  show ?case using Cons.IH [of "n * 10 + digit_val c"] by simp
qed simp

lemma sint_of_small_nat: "n < 2 ^ 127 \<Longrightarrow> sint (word_of_nat n :: i128) = int n"
  using sint_eq_in_i128 [of "int n"] by (simp add: in_i128_def)

lemma hugeint_fits:
  assumes "hugeint_exact db"
  shows "in_i128 (sint a * sint b) \<Longrightarrow> HugeMul db a b = Some (a * b)"
    and "in_i128 (sint a + sint b) \<Longrightarrow> HugeAdd db a b = Some (a + b)"
    and "in_i128 (- sint a) \<Longrightarrow> HugeNeg db a = Some (- a)"
  using assms by (auto simp: hugeint_exact_def)

lemma huge_ops_small:
  assumes "hugeint_exact db" and "a * 10 + k < 2 ^ 127" and "k < 10"
  shows "HugeMul db (word_of_nat a) 10 = Some (word_of_nat (a * 10))"
    and "HugeAdd db (word_of_nat (a * 10)) (word_of_nat k) = Some (word_of_nat (a * 10 + k))"
proof -
  have "sint (10 :: i128) = 10" using sint_of_small_nat [of 10] by simp
  then show "HugeMul db (word_of_nat a) 10 = Some (word_of_nat (a * 10))"
    using assms hugeint_fits(1) [OF assms(1), of "word_of_nat a" 10]
    by (simp add: sint_of_small_nat in_i128_def)
  show "HugeAdd db (word_of_nat (a * 10)) (word_of_nat k) = Some (word_of_nat (a * 10 + k))"
    using assms(2) sint_of_small_nat [of "a * 10"] sint_of_small_nat [of k]
      hugeint_fits(2) [OF assms(1), of "word_of_nat (a * 10)" "word_of_nat k"]
    by (simp add: in_i128_def)
qed

lemma huge_neg_small:
  "hugeint_exact db \<Longrightarrow> m < 2 ^ 127 \<Longrightarrow> HugeNeg db (word_of_nat m) = Some (- word_of_nat m)"
  using sint_of_small_nat [of m] hugeint_fits(3) [of db "word_of_nat m"] by (simp add: in_i128_def)

lemma digit_val_less: "is_digit c \<Longrightarrow> digit_val c < 10"
  by (auto simp: is_digit_def digit_val_def)

lemma decimal_digits_int_total:
  assumes "hugeint_exact db" and "list_all is_digit ip"
    and "foldl (\<lambda>a c. a * 10 + digit_val c) a ip < 2 ^ 127"
  shows "decimal_digits db sc (ip @ rest) (word_of_nat a) False fr
    = decimal_digits db sc rest (word_of_nat (foldl (\<lambda>a c. a * 10 + digit_val c) a ip)) False fr"
  using assms(2,3)
proof (induction ip arbitrary: a)
  case (Cons c ip)
  have "a * 10 + digit_val c < 2 ^ 127"
    using digits_mono [of "a * 10 + digit_val c" ip] Cons.prems(2) by simp
  then show ?case
    using Cons huge_ops_small [OF assms(1), of a "digit_val c"] is_digit_not_dot [of c]
      digit_val_less [of c] by (simp flip: of_nat_mult of_nat_add)
qed simp

lemma decimal_digits_frac_total:
  assumes "hugeint_exact db" and "list_all is_digit fp"
    and "foldl (\<lambda>a c. a * 10 + digit_val c) a fp < 2 ^ 127" and "unat fr + length fp \<le> unat sc"
  shows "\<exists>fr'. unat fr' = unat fr + length fp \<and> decimal_digits db sc fp (word_of_nat a) True fr
    = Inr (word_of_nat (foldl (\<lambda>a c. a * 10 + digit_val c) a fp), fr')"
  using assms(2-4)
proof (induction fp arbitrary: a fr)
  case (Cons c fp)
  have "a * 10 + digit_val c < 2 ^ 127"
    using digits_mono [of "a * 10 + digit_val c" fp] Cons.prems(2) by simp
  moreover have "fr < sc" using Cons.prems(3) by (simp add: word_less_nat_alt)
  moreover from this have "unat (fr + 1) = Suc (unat fr)" by (rule unat_plus_one)
  ultimately show ?case
    using Cons.prems Cons.IH [of "a * 10 + digit_val c" "fr + 1"] is_digit_not_dot [of c]
      huge_ops_small [OF assms(1), of a "digit_val c"] digit_val_less [of c]
    by (simp flip: of_nat_mult of_nat_add)
qed auto

lemma decimal_pad_total:
  assumes "hugeint_exact db" and "a * 10 ^ (unat sc - unat fr) < 2 ^ 127"
  shows "decimal_pad db sc (word_of_nat a) fr = Inr (word_of_nat (a * 10 ^ (unat sc - unat fr)))"
  using assms(2)
proof (induction "unat sc - unat fr" arbitrary: a fr)
  case 0
  then show ?case by (subst decimal_pad.simps) (simp add: word_less_nat_alt)
next
  case (Suc k)
  then have lt: "fr < sc" by (simp add: word_less_nat_alt)
  then have fr: "unat (fr + 1) = Suc (unat fr)" by (rule unat_plus_one)
  have pow: "a * 10 ^ (unat sc - unat fr) = a * 10 * 10 ^ (unat sc - unat (fr + 1))"
    using Suc.hyps(2) fr lt by (simp add: word_less_nat_alt Suc_diff_Suc flip: power_Suc)
  have "a * 10 * 1 \<le> a * 10 * 10 ^ (unat sc - unat (fr + 1))"
    by (rule mult_le_mono2) simp
  then have "a * 10 < 2 ^ 127"
    using Suc.prems pow by linarith
  then have "HugeMul db (word_of_nat a) 10 = Some (word_of_nat (a * 10))"
    using huge_ops_small(1) [OF assms(1), of a 0] by simp
  moreover have "decimal_pad db sc (word_of_nat (a * 10)) (fr + 1)
      = Inr (word_of_nat (a * 10 ^ (unat sc - unat fr)))"
    unfolding pow using Suc.hyps fr Suc.prems [unfolded pow] by (intro Suc.hyps(1)) simp_all
  ultimately show ?case
    using lt by (subst decimal_pad.simps) simp
qed

lemma abs_int_less: "n = int m \<or> n = - int m \<Longrightarrow> \<bar>n\<bar> < 2 ^ 127 \<Longrightarrow> m < 2 ^ 127"
  by auto

lemma decimal_unscaled_total:
  assumes "hugeint_exact db" and "decimal_spells str (unat sc) n" and "\<bar>n\<bar> < 2 ^ 127"
  shows "decimal_unscaled db sc str = Inr (word_of_int n)"
proof -
  from assms(2) obtain neg ip fp dot where
    str: "str = (if neg then ''-'' else []) @ ip @ (if dot then ''.'' else []) @ fp"
    and ip: "list_all is_digit ip" and fp: "list_all is_digit fp" and dot: "\<not> dot \<longrightarrow> fp = []"
    and len: "length fp \<le> unat sc"
    and n: "n = (if neg then -1 else 1) * int (string_to_nat (ip @ fp) * 10 ^ (unat sc - length fp))"
    by (auto simp: decimal_spells_def)
  let ?m = "string_to_nat (ip @ fp) * 10 ^ (unat sc - length fp)"
  have "n = int ?m \<or> n = - int ?m" using n by (cases neg) simp_all
  then have m: "?m < 2 ^ 127" using assms(3) by (rule abs_int_less)
  have "string_to_nat (ip @ fp) * 1 \<le> ?m" by (rule mult_le_mono2) simp
  with m have s: "string_to_nat (ip @ fp) < 2 ^ 127" by linarith
  have fold: "foldl (\<lambda>a c. a * 10 + digit_val c) (string_to_nat ip) fp = string_to_nat (ip @ fp)"
    by (simp add: string_to_nat_def)
  have ip_lt: "string_to_nat ip < 2 ^ 127"
    using digits_mono [of "string_to_nat ip" fp] s by (simp add: fold)
  obtain fr where fr: "unat fr = length fp"
    and digits: "decimal_digits db sc (ip @ (if dot then ''.'' else []) @ fp) 0 False 0
      = Inr (word_of_nat (string_to_nat (ip @ fp)), fr)"
    using decimal_digits_int_total [OF assms(1) ip, of 0 sc "(if dot then ''.'' else []) @ fp" 0]
      decimal_digits_frac_total [OF assms(1) fp, of "string_to_nat ip" 0 sc] ip_lt s fold dot len
    by (cases dot) (auto simp: string_to_nat_def)
  have pad: "decimal_pad db sc (word_of_nat (string_to_nat (ip @ fp))) fr = Inr (word_of_nat ?m)"
    using decimal_pad_total [OF assms(1), of "string_to_nat (ip @ fp)" sc fr] m fr by simp
  have "HugeNeg db (word_of_nat ?m) = Some (- word_of_nat ?m)"
    by (rule huge_neg_small [OF assms(1) m])
  with digits pad show ?thesis
    unfolding decimal_unscaled_def Let_def sign_split [OF str ip fp dot]
    by (simp add: n)
qed


section \<open>Literals\<close>

text \<open>
  The literal node a DuckDB constant is to become, if it has one.  Recovering a decimal from its
  printed form can fail only on \<open>- 2\<^sup>1\<^sup>2\<^sup>7\<close>, which no DuckDB decimal (at most 38 digits) reaches:
  see \<open>decimal_recovered\<close>.
\<close>

fun literal_of :: "duckdb \<Rightarrow> Value \<Rightarrow> ir_literal option" where
  "literal_of db (NullValue t) = Some LitNull"
| "literal_of db (BooleanValue b) = Some (LitBool b)"
| "literal_of db (TinyIntValue v) = Some (LitI64 (word_of_int (sint v)))"
| "literal_of db (SmallIntValue v) = Some (LitI64 (word_of_int (sint v)))"
| "literal_of db (IntegerValue v) = Some (LitI64 (word_of_int (sint v)))"
| "literal_of db (BigIntValue v) = Some (LitI64 v)"
| "literal_of db (UTinyIntValue v) = Some (LitU64 (word_of_int (uint v)))"
| "literal_of db (USmallIntValue v) = Some (LitU64 (word_of_int (uint v)))"
| "literal_of db (UIntegerValue v) = Some (LitU64 (word_of_int (uint v)))"
| "literal_of db (UBigIntValue v) = Some (LitU64 v)"
| "literal_of db (FloatValue v) = Some (LitF32 v)"
| "literal_of db (DoubleValue v) = Some (LitF64 v)"
| "literal_of db (VarcharValue s) = Some (LitString s)"
| "literal_of db (DateValue d) = (if DateIsFinite db d then Some (LitDate32 d) else None)"
| "literal_of db (TimestampValue v) =
     (if TimestampIsFinite db v then Some (LitTimestamp Unit_MICROSECOND v) else None)"
| "literal_of db (TimestampSecValue v) =
     (if TimestampIsFinite db v then Some (LitTimestamp Unit_SECOND v) else None)"
| "literal_of db (TimestampMsValue v) =
     (if TimestampIsFinite db v then Some (LitTimestamp Unit_MILLISECOND v) else None)"
| "literal_of db (TimestampNsValue v) =
     (if TimestampIsFinite db v then Some (LitTimestamp Unit_NANOSECOND v) else None)"
| "literal_of db (TimestampTzValue v) =
     (if TimestampIsFinite db v then Some (LitTimestamp Unit_MICROSECOND v) else None)"
| "literal_of db (DecimalValue p s v) =
     (if s > 127 \<or> isl (decimal_unscaled db s (DecimalToString db (DecimalValue p s v))) then None
      else Some (LitDecimal128 p s v))"
| "literal_of db (OtherValue t) = None"

lemma decimal_recovered:
  assumes "hugeint_exact db" and "decimals_print db" and "v \<noteq> word_of_int (- (2 ^ 127))"
  shows "decimal_unscaled db s (DecimalToString db (DecimalValue p s v)) = Inr v"
proof -
  have v: "word_of_int (sint v) = v" by simp
  then have "sint v \<noteq> - (2 ^ 127)" using assms(3) by (metis (no_types))
  then have "\<bar>sint v\<bar> < 2 ^ 127"
    using in_i128_sint [of v] by (auto simp: in_i128_def)
  moreover have "decimal_spells (DecimalToString db (DecimalValue p s v)) (unat s) (sint v)"
    using assms(2) by (simp add: decimals_print_def)
  ultimately show ?thesis
    using decimal_unscaled_total [OF assms(1)] by (simp only: v)
qed

lemma EncodeLiteral_iff:
  assumes "hugeint_exact db" and "decimals_print db"
  shows "EncodeLiteral db v = Inr bs \<longleftrightarrow> (\<exists>l. literal_of db v = Some l \<and> literal_bytes l = Inr bs)"
proof (cases v)
  case (DecimalValue p s w)
  have "decimal_spells (DecimalToString db (DecimalValue p s w)) (unat s) (sint w)"
    using assms(2) by (simp add: decimals_print_def)
  then have "decimal_unscaled db s (DecimalToString db (DecimalValue p s w)) = Inr d \<Longrightarrow> d = w" for d
    using decimal_unscaled_eq [OF assms(1)] by fastforce
  then show ?thesis
    by (cases "decimal_unscaled db s (DecimalToString db (DecimalValue p s w))")
       (auto simp: DecimalValue)
qed (auto simp: timestamp_literal_def)

end
