(* ===== verification/Update_Correct.thy ===== *)
theory Update_Correct
  imports Literal_Correct
begin

text \<open>
  The expressions of UPDATE ... SET: what \<open>EncodeLanceExprIR\<close> writes is read back by
  \<open>parse_expr_ir\<close> as the expression meant.  \<open>lower_expr\<close> says what is meant: column bindings are
  resolved through the projections and filters between the update and the scan by substituting
  the projected expressions, and every construct without an exact counterpart has no meaning.
\<close>

section \<open>Meaning of a bound expression\<close>

fun comparison_of :: "ExpressionType \<Rightarrow> LanceUpdateExprIRComparisonOp option" where
  "comparison_of COMPARE_EQUAL = Some Cmp_EQ"
| "comparison_of COMPARE_NOTEQUAL = Some Cmp_NOT_EQ"
| "comparison_of COMPARE_LESSTHAN = Some Cmp_LT"
| "comparison_of COMPARE_LESSTHANOREQUALTO = Some Cmp_LT_EQ"
| "comparison_of COMPARE_GREATERTHAN = Some Cmp_GT"
| "comparison_of COMPARE_GREATERTHANOREQUALTO = Some Cmp_GT_EQ"
| "comparison_of COMPARE_DISTINCT_FROM = Some Cmp_DISTINCT_FROM"
| "comparison_of COMPARE_NOT_DISTINCT_FROM = Some Cmp_NOT_DISTINCT_FROM"
| "comparison_of t = None"

definition arithmetic_of :: "string \<Rightarrow> LanceUpdateExprIRBinaryOp option" where
  "arithmetic_of name =
     (if name \<in> {''+'', ''add''} then Some Bin_ADD
      else if name \<in> {''-'', ''subtract''} then Some Bin_SUB
      else if name \<in> {''*'', ''multiply''} then Some Bin_MUL
      else if name \<in> {''/'', ''divide''} then Some Bin_DIV else None)"

text \<open>The base column behind a position of the scan's output.\<close>

definition base_column :: "LogicalGet \<Rightarrow> LanceScanBindData \<Rightarrow> nat \<Rightarrow> string option" where
  "base_column g b i =
     (if i < length (get_column_ids g) \<and> \<not> IsVirtualColumn (get_column_ids g ! i) \<and>
         GetPrimaryIndex (get_column_ids g ! i) < length (names b) \<and>
         names b ! GetPrimaryIndex (get_column_ids g ! i) \<noteq> []
      then Some (names b ! GetPrimaryIndex (get_column_ids g ! i)) else None)"

fun only_child :: "LogicalOperator option list \<Rightarrow> LogicalOperator option" where
  "only_child (c # cs) = c"
| "only_child [] = None"

lemma only_child_smaller:
  "only_child cs = Some c \<Longrightarrow> size c < size (LogicalFilterOp cs)"
  "only_child cs = Some c \<Longrightarrow> size c < size (LogicalProjectionOp t es cs)"
  by (cases cs; auto)+

function (sequential)
  lower_expr ::
    "duckdb \<Rightarrow> LogicalGet \<Rightarrow> LanceScanBindData \<Rightarrow> LogicalOperator \<Rightarrow> Expression \<Rightarrow> ir option" and
  lower_column ::
    "duckdb \<Rightarrow> LogicalGet \<Rightarrow> LanceScanBindData \<Rightarrow> LogicalOperator \<Rightarrow> nat option \<Rightarrow> nat \<Rightarrow> ir option"
where
  "lower_expr db g b scope (BoundColumnRef t binding depth) =
     lower_column db g b scope (Some (table_index binding)) (column_index binding)"
| "lower_expr db g b scope (BoundRef t alias index) =
     (if alias \<noteq> [] then Some (IRColumn [alias]) else lower_column db g b scope None index)"
| "lower_expr db g b scope (BoundConstant v) = map_option IRLiteral (literal_of db v)"
| "lower_expr db g b scope (BoundCast t try_cast child) =
     (if try_cast then None
      else map_option (IRCast t) (Option.bind child (lower_expr db g b scope)))"
| "lower_expr db g b scope (BoundFunction t name children) =
     Option.bind (those (map (\<lambda>c. Option.bind c (lower_expr db g b scope)) children)) (\<lambda>ns.
       case (arithmetic_of (StringLower db name), ns) of
         (Some op, [l, r]) \<Rightarrow> Some (IRBinary op l r)
       | _ \<Rightarrow> Some (IRFunction name ns))"
| "lower_expr db g b scope (BoundOperator t k children) =
     Option.bind (those (map (\<lambda>c. Option.bind c (lower_expr db g b scope)) children)) (\<lambda>ns.
       case ns of
         [n] \<Rightarrow> if k = OPERATOR_NOT then Some (IRNot n)
                else if k = OPERATOR_IS_NULL then Some (IRIsNull n)
                else if k = OPERATOR_IS_NOT_NULL then Some (IRIsNotNull n) else None
       | n # m # ms \<Rightarrow>
           if k = COMPARE_IN then Some (IRInList False n (m # ms))
           else if k = COMPARE_NOT_IN then Some (IRInList True n (m # ms)) else None
       | [] \<Rightarrow> None)"
| "lower_expr db g b scope (BoundComparison k l r) =
     Option.bind (Option.bind l (lower_expr db g b scope)) (\<lambda>m.
     Option.bind (Option.bind r (lower_expr db g b scope)) (\<lambda>n.
     map_option (\<lambda>op. IRComparison op m n) (comparison_of k)))"
| "lower_expr db g b scope (BoundConjunction k children) =
     Option.bind (those (map (\<lambda>c. Option.bind c (lower_expr db g b scope)) children)) (\<lambda>ns.
       if k = CONJUNCTION_AND then Some (IRConjunction Conj_AND ns)
       else if k = CONJUNCTION_OR then Some (IRConjunction Conj_OR ns) else None)"
| "lower_expr db g b scope (BoundCase t checks else_expr) =
     Option.bind (those (map (\<lambda>(w, t).
         Option.bind (Option.bind w (lower_expr db g b scope)) (\<lambda>m.
         Option.bind (Option.bind t (lower_expr db g b scope)) (\<lambda>n. Some (m, n)))) checks))
       (\<lambda>cs. case else_expr of
           None \<Rightarrow> Some (IRCase cs None)
         | Some e \<Rightarrow> map_option (\<lambda>n. IRCase cs (Some n)) (lower_expr db g b scope e))"
| "lower_expr db g b scope (BoundBetween input lower upper lower_cmp upper_cmp) =
     Option.bind (Option.bind input (lower_expr db g b scope)) (\<lambda>n.
     Option.bind (Option.bind lower (lower_expr db g b scope)) (\<lambda>lo.
     Option.bind (Option.bind upper (lower_expr db g b scope)) (\<lambda>up.
     Option.bind (comparison_of lower_cmp) (\<lambda>lop.
     Option.bind (comparison_of upper_cmp) (\<lambda>uop.
     Some (IRConjunction Conj_AND [IRComparison lop n lo, IRComparison uop n up]))))))"
| "lower_expr db g b scope e = None"
| "lower_column db g b scope table i =
     (case scope of
        LogicalFilterOp cs \<Rightarrow> Option.bind (only_child cs) (\<lambda>c. lower_column db g b c table i)
      | LogicalProjectionOp t es cs \<Rightarrow>
          if (table = None \<or> table = Some t) \<and> i < length es
          then Option.bind (es ! i) (\<lambda>e. Option.bind (only_child cs) (\<lambda>c. lower_expr db g b c e))
          else None
      | LogicalGetOp \<Rightarrow>
          if table = None \<or> table = Some (get_table_index g)
          then map_option (\<lambda>name. IRColumn [name]) (base_column g b i) else None
      | OtherOperator k cs \<Rightarrow> None)"
  by pat_completeness auto
termination
proof (relation "measures
    [\<lambda>x. case x of Inl (db, g, b, sc, e) \<Rightarrow> size sc | Inr (db, g, b, sc, t, i) \<Rightarrow> size sc,
     \<lambda>x. case x of Inl (db, g, b, sc, e) \<Rightarrow> Suc (size e) | _ \<Rightarrow> 0]", goal_cases)
qed (auto dest: size_Some_child size_Some_pair_child only_child_smaller)


section \<open>The encoder writes the meaning\<close>

text \<open>
  \<open>realises h r s\<close>: the computation \<open>r\<close> succeeds exactly when \<open>s\<close> has a meaning that \<open>h\<close> can
  write, and then returns what \<open>h\<close> writes for it.
\<close>

definition realises :: "('n \<Rightarrow> exn + 'b) \<Rightarrow> exn + 'b \<Rightarrow> 'n option \<Rightarrow> bool" where
  "realises h r s \<longleftrightarrow> (\<forall>b. r = Inr b \<longleftrightarrow> (\<exists>n. s = Some n \<and> h n = Inr b))"

lemma realisesD: "realises h r s \<Longrightarrow> r = Inr b \<longleftrightarrow> (\<exists>n. s = Some n \<and> h n = Inr b)"
  by (simp add: realises_def)

lemma realises_refused: "realises h (Inl x) None"
  by (simp add: realises_def)

lemma realises_map:
  assumes "\<And>x. x \<in> set xs \<Longrightarrow> realises h (F x) (G x)"
  shows "realises (res_map h) (res_map F xs) (those (map G xs))"
  using assms
proof (induction xs)
  case Nil
  then show ?case by (simp add: realises_def)
next
  case (Cons x xs)
  have "realises h (F x) (G x)" and "realises (res_map h) (res_map F xs) (those (map G xs))"
    using Cons by simp_all
  then show ?case
    by (auto simp: realises_def res_bind_Inr_iff split: option.splits)
qed

abbreviation encodes ::
  "duckdb \<Rightarrow> LogicalGet \<Rightarrow> LanceScanBindData \<Rightarrow> LogicalOperator \<Rightarrow> Expression \<Rightarrow> bool" where
  "encodes db g b scope e \<equiv>
     realises (ir_bytes db) (EncodeUpdateExprNode db g b scope e) (lower_expr db g b scope e)"

text \<open>One child, and a list of children, whichever error a null pointer raises.\<close>

lemma encodes_child:
  assumes "\<And>e. c = Some e \<Longrightarrow> encodes db g b scope e"
  shows "res_bind (deref c) (EncodeUpdateExprNode db g b scope) = Inr bs
    \<longleftrightarrow> (\<exists>n. Option.bind c (lower_expr db g b scope) = Some n \<and> ir_bytes db n = Inr bs)"
  using assms by (cases c) (auto simp: realises_def)

lemma encodes_children:
  assumes "\<And>e. Some e \<in> set cs \<Longrightarrow> encodes db g b scope e"
    and "\<And>e. F (Some e) = EncodeUpdateExprNode db g b scope e" and "F None = Inl x"
  shows "res_map F cs = Inr bss \<longleftrightarrow>
    (\<exists>ns. those (map (\<lambda>c. Option.bind c (lower_expr db g b scope)) cs) = Some ns \<and>
       res_map (ir_bytes db) ns = Inr bss)"
proof (rule realisesD [OF realises_map])
  fix c assume c: "c \<in> set cs"
  show "realises (ir_bytes db) (F c) (Option.bind c (lower_expr db g b scope))"
    by (cases c) (use c assms in \<open>auto simp: realises_refused\<close>)
qed

lemma those_length: "those xs = Some ys \<Longrightarrow> length ys = length xs"
  by (induction xs arbitrary: ys) (auto split: option.splits)

lemma those_Cons_iff:
  "those (x # xs) = Some zs \<longleftrightarrow> (\<exists>y ys. x = Some y \<and> those xs = Some ys \<and> zs = y # ys)"
  by (auto split: option.splits)

lemma MapBinaryOpName_eq:
  "MapBinaryOpName db name = Inr op \<longleftrightarrow> arithmetic_of (StringLower db name) = Some op"
  by (auto simp: MapBinaryOpName_def arithmetic_of_def Let_def)

lemma is_arithmetic_name_iff: "is_arithmetic_name name \<longleftrightarrow> arithmetic_of name \<noteq> None"
  by (auto simp: is_arithmetic_name_def arithmetic_of_def)

lemma EncodeComparisonOp_iff:
  "EncodeComparisonOp k = Inr c \<longleftrightarrow> (\<exists>op. comparison_of k = Some op \<and> c = comparison_op_code op)"
  by (cases k) auto

lemma encodes_function:
  assumes "\<And>e. Some e \<in> set cs \<Longrightarrow> encodes db g b scope e"
  shows "encodes db g b scope (BoundFunction t name cs)"
proof -
  let ?irs = "\<lambda>ns bss. those (map (\<lambda>c. Option.bind c (lower_expr db g b scope)) cs) = Some ns \<and>
       res_map (ir_bytes db) ns = Inr bss"
  have 1: "res_map (\<lambda>c. res_bind (deref c) (EncodeUpdateExprNode db g b scope)) cs = Inr bss
      \<longleftrightarrow> (\<exists>ns. ?irs ns bss)" for bss
    by (rule encodes_children) (use assms in auto)
  have 2: "res_map (\<lambda>child. case child of
             None \<Rightarrow> Inl (InternalException ''Lance UPDATE function expression has null child'')
           | Some c \<Rightarrow> EncodeUpdateExprNode db g b scope c) cs = Inr bss
      \<longleftrightarrow> (\<exists>ns. ?irs ns bss)" for bss
    by (rule encodes_children) (use assms in auto)
  show ?thesis
  proof (cases "length cs = 2 \<and> is_arithmetic_name (StringLower db name)")
    case True
    then obtain op where op: "arithmetic_of (StringLower db name) = Some op"
      by (auto simp: is_arithmetic_name_iff)
    have "MapBinaryOpName db name = Inr op" using op by (simp add: MapBinaryOpName_eq)
    moreover have "those (map (\<lambda>c. Option.bind c (lower_expr db g b scope)) cs) = Some ns \<Longrightarrow>
        \<exists>m n. ns = [m, n]" for ns
      using True by (auto dest!: those_length simp: length_Suc_conv numeral_2_eq_2)
    ultimately show ?thesis
      using True op unfolding realises_def
      by (fastforce simp: res_bind_Inr_iff 1 bind_eq_Some_conv)
  next
    case False
    have "those (map (\<lambda>c. Option.bind c (lower_expr db g b scope)) cs) = Some ns \<Longrightarrow>
        (case (arithmetic_of (StringLower db name), ns) of
         (Some op, [l, r]) \<Rightarrow> Some (IRBinary op l r) | _ \<Rightarrow> Some (IRFunction name ns))
        = Some (IRFunction name ns)" for ns
      using False those_length [of "map (\<lambda>c. Option.bind c (lower_expr db g b scope)) cs" ns]
      by (auto simp: is_arithmetic_name_iff split: option.splits list.splits)
    then show ?thesis
      using False unfolding realises_def
      by (auto simp: res_bind_Inr_iff 2 bind_eq_Some_conv)
  qed
qed

lemma encodes_conjunction:
  assumes "\<And>e. Some e \<in> set cs \<Longrightarrow> encodes db g b scope e"
  shows "encodes db g b scope (BoundConjunction k cs)"
proof -
  have "res_map (\<lambda>child. case child of
             None \<Rightarrow> Inl (InternalException ''Lance UPDATE conjunction expression has null child'')
           | Some c \<Rightarrow> EncodeUpdateExprNode db g b scope c) cs = Inr bss
      \<longleftrightarrow> (\<exists>ns. those (map (\<lambda>c. Option.bind c (lower_expr db g b scope)) cs) = Some ns \<and>
       res_map (ir_bytes db) ns = Inr bss)" for bss
    by (rule encodes_children) (use assms in auto)
  then show ?thesis
    by (auto simp: realises_def res_bind_Inr_iff bind_eq_Some_conv)
qed

lemma encodes_in_list:
  assumes "\<And>e. Some e \<in> set (Some c # cs) \<Longrightarrow> encodes db g b scope e"
    and "cs \<noteq> []" and "k = COMPARE_IN \<or> k = COMPARE_NOT_IN"
  shows "encodes db g b scope (BoundOperator t k (Some c # cs))"
proof -
  let ?F = "\<lambda>child. case child of
      None \<Rightarrow> Inl (InternalException ''Lance UPDATE IN expression has null list element'')
    | Some e \<Rightarrow> EncodeUpdateExprNode db g b scope e"
  have items: "res_map ?F cs = Inr bss
      \<longleftrightarrow> (\<exists>ns. those (map (\<lambda>c. Option.bind c (lower_expr db g b scope)) cs) = Some ns \<and>
       res_map (ir_bytes db) ns = Inr bss)" for bss
    by (rule encodes_children) (use assms in auto)
  have head: "EncodeUpdateExprNode db g b scope c = Inr bs
      \<longleftrightarrow> (\<exists>n. lower_expr db g b scope c = Some n \<and> ir_bytes db n = Inr bs)" for bs
    by (rule realisesD) (use assms in auto)
  obtain item rest where cs: "cs = item # rest" using assms(2) by (cases cs) auto
  have len: "res_map ?F cs = Inr bss \<Longrightarrow> length bss = length cs" for bss
    by (rule res_map_length)
  have "EncodeUpdateExprNode db g b scope (BoundOperator t k (Some c # cs)) =
      res_bind (EncodeUpdateExprNode db g b scope c) (\<lambda>l. res_bind (AppendLenPrefixed
        (AppendU8 (AppendU8 [] (tag_code Tag_IN_LIST)) (if k = COMPARE_NOT_IN then 1 else 0)) l)
        (\<lambda>out. res_foldl (\<lambda>out x. res_bind (?F x) (AppendLenPrefixed out))
          (AppendU32 out (word_of_nat (length cs))) cs))"
    using assms(3) by (auto simp: cs)
  then have enc: "EncodeUpdateExprNode db g b scope (BoundOperator t k (Some c # cs)) = Inr bs \<longleftrightarrow>
      (\<exists>l bss. EncodeUpdateExprNode db g b scope c = Inr l \<and> res_map ?F cs = Inr bss \<and>
        in_list_node (k = COMPARE_NOT_IN) l bss = Inr bs)" for bs
    by (auto simp: res_bind_Inr_iff in_list_node_def res_foldl_append_Inr_iff len cong: conj_cong)
  have low: "lower_expr db g b scope (BoundOperator t k (Some c # cs)) = Some n \<longleftrightarrow>
      (\<exists>m ms. lower_expr db g b scope c = Some m \<and>
        those (map (\<lambda>c. Option.bind c (lower_expr db g b scope)) cs) = Some ms \<and>
        n = IRInList (k = COMPARE_NOT_IN) m ms)" for n
    using assms(3)
    by (auto simp: cs bind_eq_Some_conv those_Cons_iff simp del: those.simps(2))
  show ?thesis
    unfolding realises_def enc low head items by (auto simp: res_bind_Inr_iff)
qed

lemma encodes_single:
  "encodes db g b scope c \<Longrightarrow> encodes db g b scope (BoundOperator t k [Some c])"
  by (cases "lower_expr db g b scope c") (auto simp: realises_def res_bind_Inr_iff)

lemma encodes_operator:
  assumes "\<And>e. Some e \<in> set cs \<Longrightarrow> encodes db g b scope e"
  shows "encodes db g b scope (BoundOperator t k cs)"
proof -
  consider (empty) "cs = []" | (null) rest where "cs = None # rest"
    | (single) c where "cs = [Some c]" | (many) c item items where "cs = Some c # item # items"
    by (metis list.exhaust option.exhaust)
  then show ?thesis
  proof cases
    case (many c item items)
    show ?thesis
    proof (cases "k = COMPARE_IN \<or> k = COMPARE_NOT_IN")
      case True
      then show ?thesis using encodes_in_list assms many by blast
    next
      case False
      then show ?thesis
        by (auto simp: many realises_def those_Cons_iff bind_eq_Some_conv simp del: those.simps(2))
    qed
  qed (use assms encodes_single in \<open>auto simp: realises_def\<close>)
qed

lemma encodes_comparison:
  assumes "\<And>e. l = Some e \<or> r = Some e \<Longrightarrow> encodes db g b scope e"
  shows "encodes db g b scope (BoundComparison k l r)"
  using encodes_child [of l db g b scope] encodes_child [of r db g b scope] assms
  by (auto simp: realises_def res_bind_Inr_iff [of _ "\<lambda>x. res_bind _ (_ x)"] res_bind_Inr_iff
        EncodeComparisonOp_iff bind_eq_Some_conv)

lemma encodes_between:
  assumes "\<And>e. i = Some e \<or> l = Some e \<or> u = Some e \<Longrightarrow> encodes db g b scope e"
  shows "encodes db g b scope (BoundBetween i l u lc uc)"
  using assms
  by (cases i; cases l; cases u)
     (auto simp: realises_def res_bind_Inr_iff EncodeComparisonOp_iff bind_eq_Some_conv)

lemma encodes_case:
  assumes "\<And>w t e. (w, t) \<in> set checks \<Longrightarrow> w = Some e \<or> t = Some e \<Longrightarrow> encodes db g b scope e"
    and "\<And>e. else_expr = Some e \<Longrightarrow> encodes db g b scope e"
  shows "encodes db g b scope (BoundCase t checks else_expr)"
proof -
  let ?F = "\<lambda>check. case check of
      (Some w, Some th) \<Rightarrow>
        res_bind (EncodeUpdateExprNode db g b scope w) (\<lambda>when_ir.
        res_bind (EncodeUpdateExprNode db g b scope th) (\<lambda>then_ir. Inr (when_ir, then_ir)))
    | _ \<Rightarrow> Inl (InternalException ''Lance UPDATE CASE expression has null branch'')"
  let ?G = "\<lambda>(w, t). Option.bind (Option.bind w (lower_expr db g b scope)) (\<lambda>m.
      Option.bind (Option.bind t (lower_expr db g b scope)) (\<lambda>n. Some (m, n)))"
  let ?h = "\<lambda>(w, t). res_bind (ir_bytes db w) (\<lambda>w. res_bind (ir_bytes db t) (\<lambda>t. Inr (w, t)))"
  have branch: "realises ?h (?F (w, t)) (?G (w, t))" if "(w, t) \<in> set checks" for w t
  proof (cases w)
    case None
    then show ?thesis by (simp add: realises_refused)
  next
    case (Some e)
    show ?thesis
      using assms(1) [OF that, of e] assms(1) [OF that]
      by (cases t) (auto simp: Some realises_def res_bind_Inr_iff bind_eq_Some_conv)
  qed
  have "realises (res_map ?h) (res_map ?F checks) (those (map ?G checks))"
    by (rule realises_map) (use branch in auto)
  then have "res_map ?F checks = Inr irs \<longleftrightarrow>
      (\<exists>cs. those (map ?G checks) = Some cs \<and> res_map ?h cs = Inr irs)" for irs
    by (rule realisesD)
  then show ?thesis
    using assms(2)
    by (cases else_expr) (auto simp: realises_def res_bind_Inr_iff bind_eq_Some_conv)
qed

text \<open>Column references resolve as the scope says.\<close>

lemma ResolveBaseColumnName_iff:
  "ResolveBaseColumnName g b i = Inr name \<longleftrightarrow> base_column g b i = Some name"
  by (auto simp: ResolveBaseColumnName_def base_column_def Let_def)

lemma GetSingleChildScope_iff:
  "GetSingleChildScope op = Inr c \<longleftrightarrow> only_child (op_children op) = Some c"
  by (auto split: list.splits option.splits elim!: only_child.elims)

lemma encodes_base_column:
  "realises (ir_bytes db) (res_bind (ResolveBaseColumnName g b i) EncodeColumnRefName)
     (map_option (\<lambda>name. IRColumn [name]) (base_column g b i))"
  by (auto simp: realises_def res_bind_Inr_iff ResolveBaseColumnName_iff EncodeColumnRefName_def)

declare lower_column.simps [simp del] EncodeScopeColumnRef.simps [simp del]
  EncodeScopeColumnBinding.simps [simp del]

lemmas scope_filter_simps =
  lower_column.simps [where scope = "LogicalFilterOp cs" for cs, simplified LogicalOperator.case]
  EncodeScopeColumnRef.simps [where scope = "LogicalFilterOp cs" for cs, simplified LogicalOperator.case]
  EncodeScopeColumnBinding.simps [where scope = "LogicalFilterOp cs" for cs, simplified LogicalOperator.case]

lemmas scope_projection_simps =
  lower_column.simps [where scope = "LogicalProjectionOp t es cs" for t es cs, simplified LogicalOperator.case]
  EncodeScopeColumnRef.simps [where scope = "LogicalProjectionOp t es cs" for t es cs, simplified LogicalOperator.case]
  EncodeScopeColumnBinding.simps [where scope = "LogicalProjectionOp t es cs" for t es cs, simplified LogicalOperator.case]

lemmas scope_leaf_simps =
  lower_column.simps [where scope = LogicalGetOp, simplified LogicalOperator.case]
  EncodeScopeColumnRef.simps [where scope = LogicalGetOp, simplified LogicalOperator.case]
  EncodeScopeColumnBinding.simps [where scope = LogicalGetOp, simplified LogicalOperator.case]
  lower_column.simps [where scope = "OtherOperator k cs" for k cs, simplified LogicalOperator.case]
  EncodeScopeColumnRef.simps [where scope = "OtherOperator k cs" for k cs, simplified LogicalOperator.case]
  EncodeScopeColumnBinding.simps [where scope = "OtherOperator k cs" for k cs, simplified LogicalOperator.case]

lemmas scope_simps = scope_filter_simps scope_projection_simps scope_leaf_simps

lemma encodes_column_ref:
  assumes "\<And>cs c. scope = LogicalFilterOp cs \<Longrightarrow> only_child cs = Some c \<Longrightarrow>
      realises (ir_bytes db) (EncodeScopeColumnRef db g b c i) (lower_column db g b c None i)"
    and "\<And>t es cs c e. scope = LogicalProjectionOp t es cs \<Longrightarrow> i < length es \<Longrightarrow> es ! i = Some e \<Longrightarrow>
      only_child cs = Some c \<Longrightarrow> encodes db g b c e"
  shows "realises (ir_bytes db) (EncodeScopeColumnRef db g b scope i)
    (lower_column db g b scope None i)"
proof (cases scope)
  case LogicalGetOp
  then show ?thesis using encodes_base_column by (simp add: scope_simps)
qed (use assms in \<open>auto simp: realises_def res_bind_Inr_iff GetSingleChildScope_iff bind_eq_Some_conv
       scope_simps simp del: GetSingleChildScope.simps\<close>)

lemma encodes_column_binding:
  assumes "\<And>cs c. scope = LogicalFilterOp cs \<Longrightarrow> only_child cs = Some c \<Longrightarrow>
      realises (ir_bytes db) (EncodeScopeColumnBinding db g b c bd)
        (lower_column db g b c (Some (table_index bd)) (column_index bd))"
    and "\<And>t es cs c e. scope = LogicalProjectionOp t es cs \<Longrightarrow> table_index bd = t \<Longrightarrow>
      column_index bd < length es \<Longrightarrow> es ! column_index bd = Some e \<Longrightarrow>
      only_child cs = Some c \<Longrightarrow> encodes db g b c e"
  shows "realises (ir_bytes db) (EncodeScopeColumnBinding db g b scope bd)
    (lower_column db g b scope (Some (table_index bd)) (column_index bd))"
proof (cases scope)
  case LogicalGetOp
  then show ?thesis
    using encodes_base_column
    by (simp add: scope_simps realises_refused)
qed (use assms in \<open>auto simp: realises_def res_bind_Inr_iff GetSingleChildScope_iff bind_eq_Some_conv
       scope_simps simp del: GetSingleChildScope.simps\<close>)

lemma encodes_expr:
  assumes "hugeint_exact db" and "decimals_print db"
    and "\<And>i. realises (ir_bytes db) (EncodeScopeColumnRef db g b scope i) (lower_column db g b scope None i)"
    and "\<And>bd. realises (ir_bytes db) (EncodeScopeColumnBinding db g b scope bd)
      (lower_column db g b scope (Some (table_index bd)) (column_index bd))"
  shows "encodes db g b scope e"
proof (induction "size e" arbitrary: e rule: less_induct)
  case less
  then have IH: "encodes db g b scope c" if "size c < size e" for c using that by blast
  show ?case
  proof (cases e)
    case (BoundRef t nm i)
    then show ?thesis using assms(3) by (auto simp: realises_def EncodeColumnRefName_def)
  next
    case (BoundConstant v)
    then show ?thesis by (auto simp: realises_def EncodeLiteral_iff [OF assms(1,2)])
  next
    case (BoundCast t try_cast child)
    then show ?thesis
      using IH by (cases child) (auto simp: realises_def res_bind_Inr_iff)
  next
    case (BoundFunction t name cs)
    show ?thesis unfolding BoundFunction
      by (rule encodes_function) (auto intro!: IH dest: size_Some_child simp: BoundFunction)
  next
    case (BoundOperator t k cs)
    show ?thesis unfolding BoundOperator
      by (rule encodes_operator) (auto intro!: IH dest: size_Some_child simp: BoundOperator)
  next
    case (BoundComparison k l r)
    show ?thesis unfolding BoundComparison
      by (rule encodes_comparison) (auto intro!: IH simp: BoundComparison)
  next
    case (BoundConjunction k cs)
    show ?thesis unfolding BoundConjunction
      by (rule encodes_conjunction) (auto intro!: IH dest: size_Some_child simp: BoundConjunction)
  next
    case (BoundCase t checks else_expr)
    show ?thesis unfolding BoundCase
      by (rule encodes_case) (auto intro!: IH dest: size_Some_pair_child simp: BoundCase)
  next
    case (BoundBetween i l u lc uc)
    show ?thesis unfolding BoundBetween
      by (rule encodes_between) (auto intro!: IH simp: BoundBetween)
  qed (use assms(4) in \<open>simp_all add: realises_refused\<close>)
qed

theorem EncodeUpdateExprNode_realises:
  assumes "hugeint_exact db" and "decimals_print db"
  shows "encodes db g b scope e"
proof -
  have "(\<forall>e. encodes db g b scope e) \<and>
     (\<forall>i. realises (ir_bytes db) (EncodeScopeColumnRef db g b scope i) (lower_column db g b scope None i)) \<and>
     (\<forall>bd. realises (ir_bytes db) (EncodeScopeColumnBinding db g b scope bd)
        (lower_column db g b scope (Some (table_index bd)) (column_index bd)))"
  proof (induction "size scope" arbitrary: scope rule: less_induct)
    case less
    have ref: "realises (ir_bytes db) (EncodeScopeColumnRef db g b scope i) (lower_column db g b scope None i)" for i
      by (rule encodes_column_ref) (use less only_child_smaller in blast)+
    have binding: "realises (ir_bytes db) (EncodeScopeColumnBinding db g b scope bd)
        (lower_column db g b scope (Some (table_index bd)) (column_index bd))" for bd
      by (rule encodes_column_binding) (use less only_child_smaller in blast)+
    show ?case using ref binding encodes_expr [OF assms ref binding] by blast
  qed
  then show ?thesis by blast
qed

text \<open>What the update encoder accepts, the decoder reads as the expression meant.\<close>

lemma parse_expr_ir_message:
  assumes "ir_bytes db n = Inr bs" and "ir_ok db n" and "length bs < 2 ^ 64"
  shows "parse_expr_ir df (EncodeMessage bs) = ir_df db df n"
  using parse_payload_ir [OF assms(1,2)] assms(3)
  by (simp add: parse_expr_ir_def EncodeMessage_def LANCE_EXPR_IR_MAGIC_def)

lemma EncodeLanceExprIR_iff:
  assumes "hugeint_exact db" and "decimals_print db"
  shows "EncodeLanceExprIR db g b scope e = Inr bs \<longleftrightarrow>
    (\<exists>n root. lower_expr db g b scope e = Some n \<and> ir_bytes db n = Inr root \<and> bs = EncodeMessage root)"
  using realisesD [OF EncodeUpdateExprNode_realises [OF assms]]
  by (auto simp: EncodeLanceExprIR_def res_bind_Inr_iff)

end
