(* ===== verification/Filter_Correct.thy ===== *)
theory Filter_Correct
  imports Filter_IR Update_Correct "HOL-Library.Multiset"
begin

text \<open>
  Pushed filters mean what the filters mean.  \<open>filter_ir\<close> and \<open>table_filter_ir\<close> give the tree a
  filter stands for, when the IR can express it; the encoders of \<open>Filter_IR\<close> succeed exactly on
  the filters with a tree and write that tree.  The flags a scan relies on to drop DuckDB's own
  filtering (\<open>all_filters_pushed\<close>) are true exactly when every filter was written.
\<close>

section \<open>Meaning of filters\<close>

definition const_string :: "duckdb \<Rightarrow> Expression \<Rightarrow> string option" where
  "const_string db e = (case TryGetNonNullVarcharConstant db e of Done s \<Rightarrow> Some s | _ \<Rightarrow> None)"

definition const_literal :: "duckdb \<Rightarrow> Expression \<Rightarrow> ir option" where
  "const_literal db e =
     (case e of BoundConstant v \<Rightarrow> map_option IRLiteral (literal_of db v) | _ \<Rightarrow> None)"

definition in_list_ir :: "bool \<Rightarrow> ir \<Rightarrow> ir list \<Rightarrow> ir option" where
  "in_list_ir neg n ns = (if length ns \<le> u32_max then Some (IRInList neg n ns) else None)"

text \<open>
  \<open>filter_ir db col full\<close>: the tree of a filter expression, where \<open>col\<close> resolves column references;
  without \<open>full\<close>, pattern matching and BETWEEN have none (the form DuckDB pushes into a scan).
\<close>

function (sequential) filter_ir ::
  "duckdb \<Rightarrow> (Expression \<Rightarrow> ir option) \<Rightarrow> bool \<Rightarrow> Expression \<Rightarrow> ir option" where
  "filter_ir db col full (BoundColumnRef t binding depth) = col (BoundColumnRef t binding depth)"
| "filter_ir db col full (BoundRef t nm i) = col (BoundRef t nm i)"
| "filter_ir db col full (BoundFunction t name cs) =
     (if name = ''struct_extract'' \<or> name = ''struct_extract_at'' then col (BoundFunction t name cs)
      else case cs of
        [Some c] \<Rightarrow>
          if name = ''lower'' \<or> name = ''upper''
          then map_option (\<lambda>n. IRFunction name [n]) (filter_ir db col full c) else None
      | [Some c, Some p] \<Rightarrow>
          Option.bind (filter_ir db col full c) (\<lambda>n.
          Option.bind (const_string db p) (\<lambda>s.
            if name = ''starts_with'' \<or> name = ''ends_with'' \<or> name = ''contains''
            then Some (IRFunction name [n, IRLiteral (LitString s)])
            else if \<not> full then None
            else if name = ''regexp_matches'' then Some (IRRegexp 0 n (IRLiteral (LitString s)) None)
            else if name = ''regexp_full_match'' then Some (IRRegexp 1 n (IRLiteral (LitString s)) None)
            else if name = ''~~'' then Some (IRLike False None n (IRLiteral (LitString s)))
            else if name = ''~~*'' then Some (IRLike True None n (IRLiteral (LitString s)))
            else None))
      | [Some c, Some p, Some q] \<Rightarrow>
          if \<not> full then None
          else Option.bind (filter_ir db col full c) (\<lambda>n.
          Option.bind (const_string db p) (\<lambda>s.
          Option.bind (const_string db q) (\<lambda>f.
            if name = ''regexp_matches''
            then Some (IRRegexp 0 n (IRLiteral (LitString s)) (Some (IRLiteral (LitString f))))
            else if name = ''regexp_full_match''
            then Some (IRRegexp 1 n (IRLiteral (LitString s)) (Some (IRLiteral (LitString f))))
            else if string_bytes f \<noteq> [92] then None
            else if name = ''like_escape'' then Some (IRLike False (Some 92) n (IRLiteral (LitString s)))
            else if name = ''ilike_escape'' then Some (IRLike True (Some 92) n (IRLiteral (LitString s)))
            else None)))
      | _ \<Rightarrow> None)"
| "filter_ir db col full (BoundConstant v) = map_option IRLiteral (literal_of db v)"
| "filter_ir db col full (BoundCast t try_cast child) =
     (case child of
        Some (BoundConstant v) \<Rightarrow>
          if try_cast then None
          else map_option IRLiteral (Option.bind (DefaultCastAs db v t) (literal_of db))
      | _ \<Rightarrow> None)"
| "filter_ir db col full (BoundComparison k l r) =
     Option.bind (Option.bind l (filter_ir db col full)) (\<lambda>m.
     Option.bind (Option.bind r (filter_ir db col full)) (\<lambda>n.
     map_option (\<lambda>op. IRComparison op m n) (comparison_of k)))"
| "filter_ir db col full (BoundConjunction k cs) =
     Option.bind (those (map (\<lambda>c. Option.bind c (filter_ir db col full)) cs)) (\<lambda>ns.
       if k = CONJUNCTION_AND then Some (IRConjunction Conj_AND ns)
       else if k = CONJUNCTION_OR then Some (IRConjunction Conj_OR ns) else None)"
| "filter_ir db col full (BoundOperator t k cs) =
     (case cs of
        [Some c] \<Rightarrow> Option.bind (filter_ir db col full c) (\<lambda>n.
          if k = OPERATOR_NOT then Some (IRNot n)
          else if k = OPERATOR_IS_NULL then Some (IRIsNull n)
          else if k = OPERATOR_IS_NOT_NULL then Some (IRIsNotNull n) else None)
      | Some c # item # items \<Rightarrow>
          if k = COMPARE_IN \<or> k = COMPARE_NOT_IN then
            Option.bind (filter_ir db col full c) (\<lambda>n.
            Option.bind (those (map (\<lambda>c. Option.bind c (const_literal db)) (item # items)))
              (in_list_ir (k = COMPARE_NOT_IN) n))
          else None
      | _ \<Rightarrow> None)"
| "filter_ir db col full (BoundBetween i l u lc uc) =
     (if \<not> full then None
      else Option.bind (Option.bind i (filter_ir db col full)) (\<lambda>n.
     Option.bind (Option.bind l (filter_ir db col full)) (\<lambda>lo.
     Option.bind (Option.bind u (filter_ir db col full)) (\<lambda>up.
     Option.bind (comparison_of lc) (\<lambda>lop. Option.bind (comparison_of uc) (\<lambda>uop.
     Some (IRConjunction Conj_AND [IRComparison lop n lo, IRComparison uop n up])))))))"
| "filter_ir db col full e = None"
  by pat_completeness auto
termination
  by (relation "measure (\<lambda>(db, col, full, e). size e)") (auto dest: size_Some_child)

text \<open>In a scan's own filters every reference is the filtered column.\<close>

definition the_column :: "ir \<Rightarrow> Expression \<Rightarrow> ir option" where
  "the_column c e = (case e of BoundRef t nm i \<Rightarrow> Some c | _ \<Rightarrow> None)"

function (sequential) table_filter_ir :: "duckdb \<Rightarrow> ir \<Rightarrow> TableFilter \<Rightarrow> ir option" where
  "table_filter_ir db c (OptionalFilter f) = Option.bind f (table_filter_ir db c)"
| "table_filter_ir db c (ConstantFilter k v) =
     Option.bind (comparison_of k) (\<lambda>op.
     map_option (\<lambda>l. IRComparison op c (IRLiteral l)) (literal_of db v))"
| "table_filter_ir db c IsNullFilter = Some (IRIsNull c)"
| "table_filter_ir db c IsNotNullFilter = Some (IRIsNotNull c)"
| "table_filter_ir db c (InFilter vs) =
     Option.bind (those (map (\<lambda>v. map_option IRLiteral (literal_of db v)) vs)) (in_list_ir False c)"
| "table_filter_ir db c (ConjunctionAndFilter fs) =
     map_option (IRConjunction Conj_AND) (those (map (\<lambda>f. Option.bind f (table_filter_ir db c)) fs))"
| "table_filter_ir db c (ConjunctionOrFilter fs) =
     map_option (IRConjunction Conj_OR) (those (map (\<lambda>f. Option.bind f (table_filter_ir db c)) fs))"
| "table_filter_ir db c (ExpressionFilter e) = Option.bind e (filter_ir db (the_column c) False)"
| "table_filter_ir db c f = None"
  by pat_completeness auto
termination
  by (relation "measure (\<lambda>(db, c, f). size f)") (auto dest: size_Some_child)

text \<open>The columns of a filter expression over a scan.\<close>

definition column_ir ::
  "duckdb \<Rightarrow> LogicalGet \<Rightarrow> string list \<Rightarrow> LogicalType list \<Rightarrow> bool \<Rightarrow> Expression \<Rightarrow> ir option" where
  "column_ir db get nms tys exc e =
     Option.bind (build_segments db get nms tys e) (\<lambda>(segments, t).
       if segments \<noteq> [] \<and> \<not> (exc \<and> IsComputedSearchColumn (hd segments)) \<and>
          LanceFilterIRSupportsLogicalType t
       then Some (IRColumn segments) else None)"


section \<open>Encoders write the meaning\<close>

text \<open>As \<open>realises\<close>, for functions that return \<open>bool\<close>.\<close>

definition try_realises :: "('n \<Rightarrow> exn + 'b) \<Rightarrow> (exn, 'b) outcome \<Rightarrow> 'n option \<Rightarrow> bool" where
  "try_realises h r s \<longleftrightarrow> (\<forall>b. r = Done b \<longleftrightarrow> (\<exists>n. s = Some n \<and> h n = Inr b))"

lemma try_realisesD: "try_realises h r s \<Longrightarrow> r = Done b \<longleftrightarrow> (\<exists>n. s = Some n \<and> h n = Inr b)"
  by (simp add: try_realises_def)

lemma try_realises_refused [simp]: "try_realises h Refused None"
  by (simp add: try_realises_def)

lemma try_realises_map:
  assumes "\<And>x. x \<in> set xs \<Longrightarrow> try_realises h (F x) (G x)"
  shows "try_realises (res_map h) (try_map F xs) (those (map G xs))"
  using assms
proof (induction xs)
  case Nil
  then show ?case by (simp add: try_realises_def)
next
  case (Cons x xs)
  have "try_realises h (F x) (G x)" and "try_realises (res_map h) (try_map F xs) (those (map G xs))"
    using Cons by simp_all
  then show ?case
    by (auto simp: try_realises_def try_bind_Done_iff res_bind_Inr_iff split: option.splits)
qed

lemmas filter_encoder_defs =
  TryEncodeLanceFilterIRConjunction_def TryEncodeLanceFilterIRUnary_def
  TryEncodeLanceFilterIRComparison_def TryEncodeLanceFilterIRComparisonOp_def
  TryEncodeLanceFilterIRLike_def TryEncodeLanceFilterIRRegexp_def
  TryEncodeLanceFilterIRScalarFunction_def TryEncodeLanceFilterIRColumnRef_def
  TryEncodeLanceFilterIRColumnRefName_def
  TryEncodeLanceExprIRColumnRef_def TryEncodeLanceExprIRColumnRefName_def
  TryEncodeLanceExprIRComparisonOp_def TryEncodeLanceExprIRAnd_def TryEncodeLanceExprIROr_def
  TryEncodeLanceExprIRNot_def TryEncodeLanceExprIRIsNull_def TryEncodeLanceExprIRIsNotNull_def
  TryEncodeLanceExprIRComparison_def TryEncodeLanceExprIRLike_def TryEncodeLanceExprIRRegexp_def
  TryEncodeLanceExprIRScalarFunction_def

lemma TryEncodeLanceFilterIRInList_iff:
  "TryEncodeLanceFilterIRInList neg l irs = Done bs \<longleftrightarrow>
     length irs \<le> u32_max \<and> in_list_node neg l irs = Inr bs"
  by (auto simp: TryEncodeLanceFilterIRInList_def TryEncodeLanceExprIRInList_def in_list_node_def
      try_bind_Done_iff res_bind_Inr_iff)

lemma TryEncodeLanceFilterIRLiteral_iff:
  assumes "hugeint_exact db" and "decimals_print db"
  shows "TryEncodeLanceFilterIRLiteral db v = Done bs \<longleftrightarrow>
    (\<exists>l. literal_of db v = Some l \<and> literal_bytes l = Inr bs)"
  using EncodeLiteral_iff [OF assms]
  by (simp add: TryEncodeLanceFilterIRLiteral_def TryEncodeLanceExprIRLiteral_def)

lemma varchar_literal_iff:
  "varchar_literal db e = Done bs \<longleftrightarrow>
    (\<exists>s. const_string db e = Some s \<and> literal_bytes (LitString s) = Inr bs)"
  by (auto simp: varchar_literal_def const_string_def try_bind_Done_iff
      TryEncodeLanceFilterIRLiteral_def TryEncodeLanceExprIRLiteral_def split: outcome.splits)

lemma escape_char_iff:
  "escape_char db e = Done c \<longleftrightarrow> c = 92 \<and> (\<exists>s. const_string db e = Some s \<and> string_bytes s = [92])"
  by (auto simp: escape_char_def const_string_def try_bind_Done_iff
      split: outcome.splits list.splits if_splits)

lemma folded_cast_iff:
  assumes "hugeint_exact db" and "decimals_print db"
  shows "folded_cast db t v = Done bs \<longleftrightarrow>
    (\<exists>l. Option.bind (DefaultCastAs db v t) (literal_of db) = Some l \<and> literal_bytes l = Inr bs)"
  by (auto simp: folded_cast_def try_cast_value_def try_bind_Done_iff
      TryEncodeLanceFilterIRLiteral_iff [OF assms] bind_eq_Some_conv)

lemma constant_literal_realises:
  assumes "hugeint_exact db" and "decimals_print db"
  shows "try_realises (ir_bytes db) (constant_literal db e) (const_literal db e)"
  by (cases e) (auto simp: try_realises_def const_literal_def TryEncodeLanceFilterIRLiteral_iff [OF assms])

text \<open>Children, whether a null one refuses (\<open>try_opt\<close>) or throws (\<open>try_deref\<close>).\<close>

lemma try_children:
  fixes F :: "'a option \<Rightarrow> (exn, 'b) outcome"
  assumes "\<And>e. Some e \<in> set cs \<Longrightarrow> try_realises h (E e) (L e)"
    and "\<And>c b. F c = Done b \<longleftrightarrow> (\<exists>e. c = Some e \<and> E e = Done b)"
  shows "try_map F cs = Done bss \<longleftrightarrow>
    (\<exists>ns. those (map (\<lambda>c. Option.bind c L) cs) = Some ns \<and> res_map h ns = Inr bss)"
proof (rule try_realisesD [OF try_realises_map])
  fix c assume c: "c \<in> set cs"
  show "try_realises h (F c) (Option.bind c L)"
    using assms(1) c by (cases c) (auto simp: try_realises_def assms(2))
qed

lemmas try_opt_children = try_children [where F = "try_opt E" and E = E for E, OF _ try_opt_Done_iff]
lemmas try_deref_children = try_children [where F = "try_deref E" and E = E for E, OF _ try_deref_Done_iff]

lemma in_list_realises:
  assumes "\<And>bs. r = Done bs \<longleftrightarrow> (\<exists>n. s = Some n \<and> ir_bytes db n = Inr bs)"
    and "\<And>bss. rs = Done bss \<longleftrightarrow> (\<exists>ns. ss = Some ns \<and> res_map (ir_bytes db) ns = Inr bss)"
  shows "try_realises (ir_bytes db)
    (try_bind r (\<lambda>l. try_bind rs (TryEncodeLanceFilterIRInList neg l)))
    (Option.bind s (\<lambda>n. Option.bind ss (in_list_ir neg n)))"
proof -
  have "in_list_ir neg n ns = Some m \<longleftrightarrow> length ns \<le> u32_max \<and> m = IRInList neg n ns" for n ns m
    by (auto simp: in_list_ir_def)
  moreover have "res_map (ir_bytes db) ns = Inr bss \<Longrightarrow> length bss = length ns" for ns bss
    by (rule res_map_length)
  ultimately show ?thesis
    unfolding try_realises_def
    by (auto simp: try_bind_Done_iff assms bind_eq_Some_conv res_bind_Inr_iff
        TryEncodeLanceFilterIRInList_iff cong: conj_cong)
qed

lemma conjunction_realises:
  assumes "\<And>bss. rs = Done bss \<longleftrightarrow> (\<exists>ns. ss = Some ns \<and> res_map (ir_bytes db) ns = Inr bss)"
  shows "try_realises (ir_bytes db)
    (try_bind (of_option (conjunction_tag k)) (\<lambda>tag. try_bind rs (TryEncodeLanceFilterIRConjunction tag)))
    (Option.bind ss (\<lambda>ns. if k = CONJUNCTION_AND then Some (IRConjunction Conj_AND ns)
       else if k = CONJUNCTION_OR then Some (IRConjunction Conj_OR ns) else None))"
  unfolding try_realises_def
  by (auto simp: try_bind_Done_iff assms bind_eq_Some_conv conjunction_tag_def res_bind_Inr_iff
      filter_encoder_defs split: if_splits)

text \<open>One lemma per node form, over the outcomes \<open>r\<close> and meanings \<open>s\<close> of the operands.\<close>

abbreviation node :: "duckdb \<Rightarrow> (exn, bytes) outcome \<Rightarrow> ir option \<Rightarrow> bool" where
  "node db \<equiv> try_realises (ir_bytes db)"

lemma node_cases:
  assumes "node db r s"
  obtains (none) "s = None" "\<And>b. r \<noteq> Done b"
    | (unwritten) n e where "s = Some n" "ir_bytes db n = Inl e" "\<And>b. r \<noteq> Done b"
    | (written) n b where "s = Some n" "ir_bytes db n = Inr b" "r = Done b"
  using assms by (cases s; cases "ir_bytes db (the s)") (auto simp: try_realises_def)

lemma try_bind_not_Done: "(\<And>b. r \<noteq> Done b) \<Longrightarrow> try_bind r f \<noteq> Done c"
  by (cases r) auto

lemma varchar_node: "node db (varchar_literal db p) (map_option (\<lambda>s. IRLiteral (LitString s)) (const_string db p))"
  by (auto simp: try_realises_def varchar_literal_iff)

lemma node_function1:
  "node db r s \<Longrightarrow> node db (try_bind r (\<lambda>a. TryEncodeLanceFilterIRScalarFunction db name [a]))
     (map_option (\<lambda>n. IRFunction name [n]) s)"
  by (erule node_cases) (auto simp: try_realises_def try_bind_not_Done filter_encoder_defs)

lemma node_function2:
  assumes "node db r s" 
  shows "node db (try_bind r (\<lambda>a. try_bind (varchar_literal db p) (\<lambda>b.
        TryEncodeLanceFilterIRScalarFunction db name [a, b])))
      (Option.bind s (\<lambda>n. Option.bind (const_string db p) (\<lambda>f. Some (IRFunction name [n, IRLiteral (LitString f)]))))"
  using assms varchar_node [of db p]
  by (elim node_cases) (auto simp: try_realises_def try_bind_not_Done filter_encoder_defs)

lemma node_regexp:
  assumes "node db r s" and "mode = 0 \<or> mode = 1"
  shows "node db (try_bind r (\<lambda>a. try_bind (varchar_literal db p) (\<lambda>b.
        TryEncodeLanceFilterIRRegexp mode False a b [])))
      (Option.bind s (\<lambda>n. Option.bind (const_string db p) (\<lambda>f.
        Some (IRRegexp mode n (IRLiteral (LitString f)) None))))"
  using assms(1) varchar_node [of db p]
  by (elim node_cases) (auto simp: try_realises_def try_bind_not_Done filter_encoder_defs)

lemma node_regexp_flags:
  assumes "node db r s" and "mode = 0 \<or> mode = 1"
  shows "node db (try_bind r (\<lambda>a. try_bind (varchar_literal db p) (\<lambda>b. try_bind (varchar_literal db q) (\<lambda>c.
        TryEncodeLanceFilterIRRegexp mode True a b c))))
      (Option.bind s (\<lambda>n. Option.bind (const_string db p) (\<lambda>f. Option.bind (const_string db q) (\<lambda>g.
        Some (IRRegexp mode n (IRLiteral (LitString f)) (Some (IRLiteral (LitString g))))))))"
  using assms(1) varchar_node [of db p] varchar_node [of db q]
  by (elim node_cases) (auto simp: try_realises_def try_bind_not_Done filter_encoder_defs)

lemma node_like:
  assumes "node db r s"
  shows "node db (try_bind r (\<lambda>a. try_bind (varchar_literal db p) (\<lambda>b.
        TryEncodeLanceFilterIRLike ci False 0 a b)))
      (Option.bind s (\<lambda>n. Option.bind (const_string db p) (\<lambda>f.
        Some (IRLike ci None n (IRLiteral (LitString f))))))"
  using assms(1) varchar_node [of db p]
  by (elim node_cases) (auto simp: try_realises_def try_bind_not_Done filter_encoder_defs)

lemma node_like_escape:
  assumes "node db r s"
  shows "node db (try_bind r (\<lambda>a. try_bind (varchar_literal db p) (\<lambda>b. try_bind (escape_char db q) (\<lambda>c.
        TryEncodeLanceFilterIRLike ci True c a b))))
      (Option.bind s (\<lambda>n. Option.bind (const_string db p) (\<lambda>f. Option.bind (const_string db q) (\<lambda>g.
        if string_bytes g \<noteq> [92] then None
        else Some (IRLike ci (Some 92) n (IRLiteral (LitString f)))))))"
proof (cases "\<exists>g. const_string db q = Some g \<and> string_bytes g = [92]")
  case True
  then have "escape_char db q = Done 92" by (auto simp: escape_char_iff)
  with True assms show ?thesis
    using varchar_node [of db p]
    by (elim node_cases) (auto simp: try_realises_def try_bind_not_Done filter_encoder_defs)
next
  case False
  then have "escape_char db q \<noteq> Done c" for c by (simp add: escape_char_iff)
  with False show ?thesis
    by (auto simp: try_realises_def try_bind_Done_iff bind_eq_Some_conv)
qed

lemma node_comparison:
  assumes "node db r s" and "node db r' s'"
  shows "node db (try_bind (TryEncodeLanceFilterIRComparisonOp k) (\<lambda>op. try_bind r (\<lambda>a. try_bind r' (\<lambda>b.
        TryEncodeLanceFilterIRComparison op a b))))
      (Option.bind s (\<lambda>m. Option.bind s' (\<lambda>n. map_option (\<lambda>op. IRComparison op m n) (comparison_of k))))"
  using assms
  by (elim node_cases)
     (auto simp: try_realises_def try_bind_not_Done filter_encoder_defs try_bind_Done_iff [of "catch_all _"]
       EncodeComparisonOp_iff)

lemma node_between:
  assumes "node db r s" and "node db r' s'" and "node db r'' s''"
  shows "node db (try_bind (TryEncodeLanceFilterIRComparisonOp lc) (\<lambda>lop.
      try_bind (TryEncodeLanceFilterIRComparisonOp uc) (\<lambda>uop. try_bind r (\<lambda>a. try_bind r' (\<lambda>b. try_bind r'' (\<lambda>c.
        try_bind (TryEncodeLanceFilterIRComparison lop a b) (\<lambda>x.
        try_bind (TryEncodeLanceFilterIRComparison uop a c) (\<lambda>y.
        TryEncodeLanceFilterIRConjunction Filter_AND [x, y]))))))))
      (Option.bind s (\<lambda>n. Option.bind s' (\<lambda>lo. Option.bind s'' (\<lambda>up.
        Option.bind (comparison_of lc) (\<lambda>lop. Option.bind (comparison_of uc) (\<lambda>uop.
        Some (IRConjunction Conj_AND [IRComparison lop n lo, IRComparison uop n up])))))))"
  using assms
  by (elim node_cases)
     (auto simp: try_realises_def try_bind_not_Done filter_encoder_defs try_bind_Done_iff [of "catch_all _"]
       EncodeComparisonOp_iff bind_eq_Some_conv res_bind_Inr_iff)

lemma node_unary:
  assumes "node db r s"
  shows "node db (try_bind r (TryEncodeLanceFilterIRUnary Filter_NOT)) (map_option IRNot s)"
    and "node db (try_bind r (TryEncodeLanceFilterIRUnary Filter_IS_NULL)) (map_option IRIsNull s)"
    and "node db (try_bind r (TryEncodeLanceFilterIRUnary Filter_IS_NOT_NULL)) (map_option IRIsNotNull s)"
  by (rule node_cases [OF assms]; auto simp: try_realises_def try_bind_not_Done filter_encoder_defs)+

lemma node_child:
  assumes "\<And>e. c = Some e \<Longrightarrow> node db (E e) (L e)"
  shows "node db (try_deref E c) (Option.bind c L)" and "node db (try_opt E c) (Option.bind c L)"
  using assms by (cases c; auto simp: try_realises_def try_deref_def try_opt_def)+

lemma node_literals:
  assumes "hugeint_exact db" and "decimals_print db"
  shows "node db (TryEncodeLanceFilterIRLiteral db v) (map_option IRLiteral (literal_of db v))"
    and "node db (folded_cast db t v)
      (map_option IRLiteral (Option.bind (DefaultCastAs db v t) (literal_of db)))"
  by (auto simp: try_realises_def TryEncodeLanceFilterIRLiteral_iff [OF assms] folded_cast_iff [OF assms])

text \<open>IN lists of constants.\<close>

lemma node_in_list:
  assumes "hugeint_exact db" and "decimals_print db" and "node db r s"
    and "\<And>bss. rs = Done bss \<longleftrightarrow> try_map (try_opt (constant_literal db)) cs = Done bss"
  shows "node db (try_bind r (\<lambda>l. try_bind rs (TryEncodeLanceFilterIRInList neg l)))
    (Option.bind s (\<lambda>n. Option.bind (those (map (\<lambda>c. Option.bind c (const_literal db)) cs))
      (in_list_ir neg n)))"
proof (rule in_list_realises)
  show "rs = Done bss \<longleftrightarrow> (\<exists>ns. those (map (\<lambda>c. Option.bind c (const_literal db)) cs) = Some ns \<and>
      res_map (ir_bytes db) ns = Inr bss)" for bss
    unfolding assms(4) by (rule try_opt_children) (rule constant_literal_realises [OF assms(1,2)])
qed (rule try_realisesD [OF assms(3)])

lemma try_map_deref_opt: "try_map (try_deref f) xs = Done ys \<longleftrightarrow> try_map (try_opt f) xs = Done ys"
  by (simp add: try_map_Done_list_all2 try_deref_Done_iff try_opt_Done_iff)

text \<open>Operators with one child and IN, however the encoder treats a null child.\<close>

lemma operator_unary:
  assumes "node db r s"
  shows "node db
     (if k = OPERATOR_NOT then try_bind r (TryEncodeLanceFilterIRUnary Filter_NOT)
      else if k = OPERATOR_IS_NULL \<or> k = OPERATOR_IS_NOT_NULL
      then try_bind r (TryEncodeLanceFilterIRUnary
        (if k = OPERATOR_IS_NULL then Filter_IS_NULL else Filter_IS_NOT_NULL))
      else Refused)
     (Option.bind s (\<lambda>n.
          if k = OPERATOR_NOT then Some (IRNot n)
          else if k = OPERATOR_IS_NULL then Some (IRIsNull n)
          else if k = OPERATOR_IS_NOT_NULL then Some (IRIsNotNull n) else None))"
proof -
  have bind: "Option.bind s (\<lambda>n. Some (f n)) = map_option f s" for f :: "ir \<Rightarrow> ir"
    by (cases s) auto
  have none: "Option.bind s (\<lambda>n. None) = (None :: ir option)"
    by (cases s) auto
  show ?thesis
    using node_unary [OF assms] by (simp add: bind none)
qed

lemma build_function2:
  assumes "node db (build_from_expr db col x) (filter_ir db (the_column c) False x)"
  shows "node db (build_from_expr db col (BoundFunction t name [Some x, Some y]))
    (filter_ir db (the_column c) False (BoundFunction t name [Some x, Some y]))"
proof (cases "name = ''starts_with'' \<or> name = ''ends_with'' \<or> name = ''contains''")
  case True
  then show ?thesis using node_function2 [OF assms, of y name] by (elim disjE) simp_all
next
  case False
  then have "build_from_expr db col (BoundFunction t name [Some x, Some y]) = Refused"
    by simp
  moreover have "filter_ir db (the_column c) False (BoundFunction t name [Some x, Some y]) = None"
    using False by (simp add: the_column_def bind_eq_None_conv)
  ultimately show ?thesis by simp
qed

theorem build_from_expr_realises:
  assumes "hugeint_exact db" and "decimals_print db" and "ir_bytes db c = Inr col"
  shows "node db (build_from_expr db col e) (filter_ir db (the_column c) False e)"
proof (induction "size e" arbitrary: e rule: less_induct)
  case less
  note IH = less
  show ?case
  proof (cases e)
    case (BoundRef t nm i)
    then show ?thesis using assms(3) by (simp add: try_realises_def the_column_def)
  next
    case (BoundConstant v)
    then show ?thesis using node_literals [OF assms(1,2)] by simp
  next
    case (BoundCast t tc ch)
    show ?thesis
    proof (cases "\<exists>v. ch = Some (BoundConstant v)")
      case True
      then show ?thesis using node_literals [OF assms(1,2)] by (auto simp: BoundCast)
    next
      case False
      then show ?thesis
        by (auto simp: BoundCast split: option.splits Expression.splits)
    qed
  next
    case (BoundFunction t name cs)
    consider (one) x where "cs = [Some x]" | (two) x y where "cs = [Some x, Some y]"
      | (other) "\<nexists>x. cs = [Some x]" "\<nexists>x y. cs = [Some x, Some y]" by blast
    then show ?thesis
    proof cases
      case (one x)
      have "node db (build_from_expr db col x) (filter_ir db (the_column c) False x)"
        by (rule IH) (simp add: BoundFunction one)
      from node_function1 [OF this] show ?thesis
        by (simp add: BoundFunction one the_column_def)
    next
      case (two x y)
      have "node db (build_from_expr db col x) (filter_ir db (the_column c) False x)"
        by (rule IH) (simp add: BoundFunction two)
      from build_function2 [OF this, of t name y] show ?thesis
        by (simp only: BoundFunction two)
    next
      case other
      then show ?thesis
        by (auto simp: BoundFunction the_column_def split: list.splits option.splits)
    qed
  next
    case (BoundOperator t k cs)
    consider (one) x where "cs = [Some x]" | (many) x y ys where "cs = Some x # y # ys"
      | (other) "cs = [] \<or> hd cs = None"
      by (metis list.exhaust list.sel(1) option.exhaust)
    then show ?thesis
    proof cases
      case (one x)
      have "node db (build_from_expr db col x) (filter_ir db (the_column c) False x)"
        by (rule IH) (simp add: BoundOperator one)
      from operator_unary [OF this, of k] show ?thesis
        by (cases k) (simp_all add: BoundOperator one)
    next
      case (many x y ys)
      have "node db (build_from_expr db col x) (filter_ir db (the_column c) False x)"
        by (rule IH) (simp add: BoundOperator many)
      from node_in_list [OF assms(1,2) this refl, of "y # ys"] show ?thesis
        by (auto simp: BoundOperator many simp del: try_map.simps those.simps(2) list.map)
    next
      case other
      then show ?thesis
        by (cases cs; cases "tl cs") (auto simp: BoundOperator)
    qed
  next
    case (BoundComparison k l r)
    have l: "node db (try_opt (build_from_expr db col) l) (Option.bind l (filter_ir db (the_column c) False))"
      by (rule node_child) (rule IH, simp add: BoundComparison)
    have r: "node db (try_opt (build_from_expr db col) r) (Option.bind r (filter_ir db (the_column c) False))"
      by (rule node_child) (rule IH, simp add: BoundComparison)
    from node_comparison [OF l r, of k] show ?thesis
      by (cases l; cases r)
         (auto simp: BoundComparison try_opt_def try_realises_def try_bind_Done_iff bind_eq_Some_conv)
  next
    case (BoundConjunction k cs)
    have "node db (build_from_expr db col x) (filter_ir db (the_column c) False x)"
      if "Some x \<in> set cs" for x
      using that by (intro IH) (auto simp: BoundConjunction dest: size_Some_child)
    then show ?thesis
      unfolding BoundConjunction build_from_expr.simps filter_ir.simps
      by (intro conjunction_realises try_opt_children)
  qed (simp_all add: the_column_def)
qed

lemma column_ref_realises:
  "node db (TryBuildLanceExprColumnRefIR db get nms tys exc e) (column_ir db get nms tys exc e)"
  by (auto simp: try_realises_def TryBuildLanceExprColumnRefIR_def column_ir_def filter_encoder_defs
      split: option.splits)

text \<open>The functions with two and three arguments.\<close>

lemma filter_function2:
  fixes x y :: Expression
  assumes "node db (TryBuildLanceExprFilterIR db get nms tys exc x) (filter_ir db col True x)"
    and "name \<noteq> ''struct_extract''" and "name \<noteq> ''struct_extract_at''"
  shows "node db (TryBuildLanceExprFilterIR db get nms tys exc (BoundFunction t name [Some x, Some y]))
    (filter_ir db col True (BoundFunction t name [Some x, Some y]))"
proof -
  note two = node_function2 [OF assms(1), of y name] node_regexp [OF assms(1), of _ y]
    node_like [OF assms(1), of y]
  consider "name = ''starts_with'' \<or> name = ''ends_with'' \<or> name = ''contains''"
    | "name = ''regexp_matches''" | "name = ''regexp_full_match''" | "name = ''~~''" | "name = ''~~*''"
    | "\<not> (name = ''starts_with'' \<or> name = ''ends_with'' \<or> name = ''contains'')"
      "name \<noteq> ''regexp_matches''" "name \<noteq> ''regexp_full_match''" "name \<noteq> ''~~''" "name \<noteq> ''~~*''"
    by satx
  then show ?thesis
  proof cases
    case 1
    then show ?thesis using two(1) by (elim disjE) simp_all
  next
    case 2
    then show ?thesis using two(2) [of 0] by (simp add: LANCE_EXPR_IR_REGEXP_MODE_PARTIAL_MATCH_def)
  next
    case 3
    then show ?thesis using two(2) [of 1] by (simp add: LANCE_EXPR_IR_REGEXP_MODE_FULL_MATCH_def)
  next
    case 4
    then show ?thesis using two(3) [of False] by (simp add: like_variant_def)
  next
    case 5
    then show ?thesis using two(3) [of True] by (simp add: like_variant_def)
  next
    case 6
    then have "filter_ir db col True (BoundFunction t name [Some x, Some y]) = None"
      using assms(2,3) by (simp add: bind_eq_None_conv)
    moreover have "TryBuildLanceExprFilterIR db get nms tys exc (BoundFunction t name [Some x, Some y])
        = Refused"
      using 6 assms(2,3) by (simp add: like_variant_def)
    ultimately show ?thesis by simp
  qed
qed

lemma filter_function3:
  fixes x y z :: Expression
  assumes "node db (TryBuildLanceExprFilterIR db get nms tys exc x) (filter_ir db col True x)"
    and "name \<noteq> ''struct_extract''" and "name \<noteq> ''struct_extract_at''"
  shows "node db (TryBuildLanceExprFilterIR db get nms tys exc (BoundFunction t name [Some x, Some y, Some z]))
    (filter_ir db col True (BoundFunction t name [Some x, Some y, Some z]))"
proof -
  note three = node_regexp_flags [OF assms(1), of _ y z] node_like_escape [OF assms(1), of y z]
  consider "name = ''regexp_matches''" | "name = ''regexp_full_match''"
    | "name = ''like_escape''" | "name = ''ilike_escape''"
    | "name \<noteq> ''regexp_matches''" "name \<noteq> ''regexp_full_match''" "name \<noteq> ''like_escape''"
      "name \<noteq> ''ilike_escape''"
    by satx
  then show ?thesis
  proof cases
    case 1
    then show ?thesis using three(1) [of 0] by (simp add: LANCE_EXPR_IR_REGEXP_MODE_PARTIAL_MATCH_def)
  next
    case 2
    then show ?thesis using three(1) [of 1] by (simp add: LANCE_EXPR_IR_REGEXP_MODE_FULL_MATCH_def)
  next
    case 3
    then show ?thesis using three(2) [of False] by (simp add: like_variant_def cong: if_cong)
  next
    case 4
    then show ?thesis using three(2) [of True] by (simp add: like_variant_def cong: if_cong)
  next
    case 5
    then have "filter_ir db col True (BoundFunction t name [Some x, Some y, Some z]) = None"
      using assms(2,3) by (simp add: bind_eq_None_conv)
    moreover have "TryBuildLanceExprFilterIR db get nms tys exc
        (BoundFunction t name [Some x, Some y, Some z]) = Refused"
      using 5 assms(2,3) by (simp add: like_variant_def)
    ultimately show ?thesis by simp
  qed
qed

lemma filter_function:
  assumes "\<And>x. Some x \<in> set cs \<Longrightarrow> node db (TryBuildLanceExprFilterIR db get nms tys exc x)
      (filter_ir db (column_ir db get nms tys exc) True x)"
  shows "node db (TryBuildLanceExprFilterIR db get nms tys exc (BoundFunction t name cs))
    (filter_ir db (column_ir db get nms tys exc) True (BoundFunction t name cs))"
proof (cases "name = ''struct_extract'' \<or> name = ''struct_extract_at''")
  case True
  then show ?thesis using column_ref_realises by simp
next
  case False
  consider (one) x where "cs = [Some x]" | (two) x y where "cs = [Some x, Some y]"
    | (three) x y z where "cs = [Some x, Some y, Some z]"
    | (other) "\<nexists>x. cs = [Some x]" "\<nexists>x y. cs = [Some x, Some y]" "\<nexists>x y z. cs = [Some x, Some y, Some z]"
    by blast
  then show ?thesis
  proof cases
    case (one x)
    show ?thesis
      using False node_function1 [OF assms, of x name] by (simp add: one like_variant_def)
  next
    case (two x y)
    show ?thesis
      using False filter_function2 [OF assms, of x name t y] by (simp only: two) simp
  next
    case (three x y z)
    show ?thesis
      using False filter_function3 [OF assms, of x name t y z] by (simp only: three) simp
  next
    case other
    then have "filter_ir db (column_ir db get nms tys exc) True (BoundFunction t name cs) = None"
      using False by (simp split: list.splits option.splits)
    moreover have "TryBuildLanceExprFilterIR db get nms tys exc (BoundFunction t name cs) = Refused"
      using False other by (simp split: list.splits option.splits)
    ultimately show ?thesis by simp
  qed
qed

lemma filter_operator:
  assumes "hugeint_exact db" and "decimals_print db"
    and "\<And>x. Some x \<in> set cs \<Longrightarrow> node db (TryBuildLanceExprFilterIR db get nms tys exc x) (filter_ir db col True x)"
  shows "node db (TryBuildLanceExprFilterIR db get nms tys exc (BoundOperator t k cs))
    (filter_ir db col True (BoundOperator t k cs))"
proof -
  consider (one) x where "cs = [Some x]" | (many) x y ys where "cs = Some x # y # ys"
    | (other) "cs = [] \<or> hd cs = None"
    by (metis list.exhaust list.sel(1) option.exhaust)
  then show ?thesis
  proof cases
    case (one x)
    from operator_unary [OF assms(3), of x k] show ?thesis
      by (cases k) (simp_all add: one try_deref_def)
  next
    case (many x y ys)
    have "node db (TryBuildLanceExprFilterIR db get nms tys exc x) (filter_ir db col True x)"
      by (rule assms) (simp add: many)
    from node_in_list [OF assms(1,2) this try_map_deref_opt, of "y # ys"] show ?thesis
      by (auto simp: many try_deref_def [of _ "Some _"] simp del: try_map.simps those.simps(2) list.map)
  next
    case other
    then show ?thesis
      by (cases cs; cases "tl cs") (auto simp: try_realises_def try_deref_def)
  qed
qed

theorem TryBuildLanceExprFilterIR_realises:
  assumes "hugeint_exact db" and "decimals_print db"
  shows "node db (TryBuildLanceExprFilterIR db get nms tys exc e)
    (filter_ir db (column_ir db get nms tys exc) True e)"
proof (induction "size e" arbitrary: e rule: less_induct)
  case less
  note IH = less
  let ?E = "TryBuildLanceExprFilterIR db get nms tys exc"
  let ?L = "filter_ir db (column_ir db get nms tys exc) True"
  have child: "node db (try_deref ?E p) (Option.bind p ?L)"
    if "\<And>x. p = Some x \<Longrightarrow> size x < size e" for p
    by (rule node_child) (rule IH, rule that)
  show ?case
  proof (cases e)
    case (BoundFunction t name cs)
    show ?thesis unfolding BoundFunction
      by (rule filter_function) (auto intro!: IH dest: size_Some_child simp: BoundFunction)
  next
    case (BoundConstant v)
    then show ?thesis using node_literals [OF assms] by simp
  next
    case (BoundCast t tc ch)
    then show ?thesis
      using node_literals [OF assms]
      by (cases ch) (auto simp: try_realises_def try_deref_def split: Expression.splits)
  next
    case (BoundOperator t k cs)
    show ?thesis unfolding BoundOperator
      by (rule filter_operator [OF assms]) (auto intro!: IH dest: size_Some_child simp: BoundOperator)
  next
    case (BoundComparison k l r)
    show ?thesis unfolding BoundComparison TryBuildLanceExprFilterIR.simps filter_ir.simps
      by (rule node_comparison) (rule child, simp add: BoundComparison)+
  next
    case (BoundConjunction k cs)
    show ?thesis unfolding BoundConjunction TryBuildLanceExprFilterIR.simps filter_ir.simps
      by (intro conjunction_realises try_deref_children IH) (auto simp: BoundConjunction dest: size_Some_child)
  next
    case (BoundBetween i l u lc uc)
    have "node db (?E e) (Option.bind (Option.bind i ?L) (\<lambda>n. Option.bind (Option.bind l ?L) (\<lambda>lo.
        Option.bind (Option.bind u ?L) (\<lambda>up.
        Option.bind (comparison_of lc) (\<lambda>lop. Option.bind (comparison_of uc) (\<lambda>uop.
        Some (IRConjunction Conj_AND [IRComparison lop n lo, IRComparison uop n up])))))))"
      unfolding BoundBetween TryBuildLanceExprFilterIR.simps
      by (rule node_between) (rule child, simp add: BoundBetween)+
    then show ?thesis by (simp add: BoundBetween)
  qed (use column_ref_realises in \<open>simp_all\<close>)
qed

theorem TryBuildLanceTableFilterIRExpr_realises:
  assumes "hugeint_exact db" and "decimals_print db" and "ir_bytes db c = Inr col"
  shows "node db (TryBuildLanceTableFilterIRExpr db col f) (table_filter_ir db c f)"
proof (induction "size f" arbitrary: f rule: less_induct)
  case less
  have children: "try_map (try_deref (TryBuildLanceTableFilterIRExpr db col)) fs = Done bss \<longleftrightarrow>
      (\<exists>ns. those (map (\<lambda>f. Option.bind f (table_filter_ir db c)) fs) = Some ns \<and>
        res_map (ir_bytes db) ns = Inr bss)"
    if "\<And>x. Some x \<in> set fs \<Longrightarrow> size x < size f" for fs bss
    by (rule try_deref_children) (rule less, rule that)
  note col = assms(3)
  show ?case
  proof (cases f)
    case (OptionalFilter g)
    show ?thesis unfolding OptionalFilter TryBuildLanceTableFilterIRExpr.simps table_filter_ir.simps
      by (rule node_child) (rule less, simp add: OptionalFilter)
  next
    case (ConstantFilter k v)
    then show ?thesis
      using col
      by (auto simp: try_realises_def filter_encoder_defs try_bind_Done_iff bind_eq_Some_conv
          EncodeComparisonOp_iff TryEncodeLanceFilterIRLiteral_iff [OF assms(1,2)] res_bind_Inr_iff)
  next
    case (InFilter vs)
    have "try_map (TryEncodeLanceFilterIRLiteral db) vs = Done bss \<longleftrightarrow>
        (\<exists>ns. those (map (\<lambda>v. map_option IRLiteral (literal_of db v)) vs) = Some ns \<and>
          res_map (ir_bytes db) ns = Inr bss)" for bss
      by (rule try_realisesD [OF try_realises_map]) (rule node_literals(1) [OF assms(1,2)])
    from in_list_realises [of "Done col" "Some c", OF _ this, of False] show ?thesis
      using col by (simp add: InFilter)
  next
    case (ConjunctionAndFilter fs)
    have "try_map (try_deref (TryBuildLanceTableFilterIRExpr db col)) fs = Done bss \<longleftrightarrow>
      (\<exists>ns. those (map (\<lambda>f. Option.bind f (table_filter_ir db c)) fs) = Some ns \<and>
        res_map (ir_bytes db) ns = Inr bss)" for bss
      by (rule children) (auto simp: ConjunctionAndFilter dest: size_Some_child)
    then show ?thesis
      by (auto simp: ConjunctionAndFilter try_realises_def try_bind_Done_iff filter_encoder_defs res_bind_Inr_iff)
  next
    case (ConjunctionOrFilter fs)
    have "try_map (try_deref (TryBuildLanceTableFilterIRExpr db col)) fs = Done bss \<longleftrightarrow>
      (\<exists>ns. those (map (\<lambda>f. Option.bind f (table_filter_ir db c)) fs) = Some ns \<and>
        res_map (ir_bytes db) ns = Inr bss)" for bss
      by (rule children) (auto simp: ConjunctionOrFilter dest: size_Some_child)
    then show ?thesis
      by (auto simp: ConjunctionOrFilter try_realises_def try_bind_Done_iff filter_encoder_defs res_bind_Inr_iff)
  next
    case (ExpressionFilter e)
    show ?thesis unfolding ExpressionFilter TryBuildLanceTableFilterIRExpr.simps table_filter_ir.simps
      by (rule node_child) (rule build_from_expr_realises [OF assms])
  qed (use col in \<open>auto simp: try_realises_def filter_encoder_defs\<close>)
qed

end
