(* ===== verification/Filter_Parts_Correct.thy ===== *)
theory Filter_Parts_Correct
  imports Filter_Correct
begin

text \<open>
  The filters of a scan as a whole: which of them \<open>BuildLanceTableFilterIRParts\<close> writes, what
  its two flags say, how the optimiser's probe relates to the scan, and what the message made of
  the parts decodes to.
\<close>

section \<open>Which filters are written\<close>

text \<open>The column a filter entry is about, if filters on it can be written.\<close>

definition entry_column ::
  "duckdb \<Rightarrow> string list \<Rightarrow> LogicalType list \<Rightarrow> nat list \<Rightarrow> bool \<Rightarrow> nat \<Rightarrow> ir option" where
  "entry_column db nms tys ids exc i =
     (if i < length ids \<and> ids ! i < length nms \<and> ids ! i < length tys \<and>
         \<not> (exc \<and> IsComputedSearchColumn (nms ! (ids ! i))) \<and>
         LanceFilterIRSupportsLogicalType (tys ! (ids ! i)) \<and>
         \<not> isl (ir_bytes db (IRColumn [nms ! (ids ! i)]))
      then Some (IRColumn [nms ! (ids ! i)]) else None)"

fun entry_ir ::
  "duckdb \<Rightarrow> string list \<Rightarrow> LogicalType list \<Rightarrow> nat list \<Rightarrow> bool \<Rightarrow> nat \<times> TableFilter option \<Rightarrow> ir option" where
  "entry_ir db nms tys ids exc (i, f) =
     Option.bind f (\<lambda>f. Option.bind (entry_column db nms tys ids exc i) (\<lambda>c. table_filter_ir db c f))"

definition written ::
  "duckdb \<Rightarrow> string list \<Rightarrow> LogicalType list \<Rightarrow> nat list \<Rightarrow> bool \<Rightarrow> nat \<times> TableFilter option \<Rightarrow> bytes option" where
  "written db nms tys ids exc e =
     (case entry_ir db nms tys ids exc e of
        None \<Rightarrow> None
      | Some n \<Rightarrow> (case ir_bytes db n of Inl x \<Rightarrow> None | Inr bs \<Rightarrow> Some bs))"

lemma written_iff:
  "written db nms tys ids exc e = Some bs \<longleftrightarrow>
     (\<exists>n. entry_ir db nms tys ids exc e = Some n \<and> ir_bytes db n = Inr bs)"
  by (auto simp: written_def split: option.splits sum.splits)

text \<open>A filter on a computed search column, which the scan itself evaluates later.\<close>

definition on_computed ::
  "string list \<Rightarrow> LogicalType list \<Rightarrow> nat list \<Rightarrow> bool \<Rightarrow> nat \<times> TableFilter option \<Rightarrow> bool" where
  "on_computed nms tys ids exc e \<longleftrightarrow>
     exc \<and> snd e \<noteq> None \<and> fst e < length ids \<and> ids ! fst e < length nms \<and> ids ! fst e < length tys \<and>
     IsComputedSearchColumn (nms ! (ids ! fst e))"

lemma entry_outcome:
  assumes "hugeint_exact db" and "decimals_print db"
    and "i < length ids" "ids ! i < length nms" "ids ! i < length tys"
    "\<not> (exc \<and> IsComputedSearchColumn (nms ! (ids ! i)))"
    "LanceFilterIRSupportsLogicalType (tys ! (ids ! i))"
  shows "try_bind (TryEncodeLanceFilterIRColumnRefName (nms ! (ids ! i)))
      (\<lambda>col_ref_ir. TryBuildLanceTableFilterIRExpr db col_ref_ir f) = Done bs
    \<longleftrightarrow> written db nms tys ids exc (i, Some f) = Some bs"
proof (cases "EncodeColumnRef [nms ! (ids ! i)]")
  case (Inl x)
  then show ?thesis
    by (simp add: filter_encoder_defs EncodeColumnRefName_def written_iff entry_column_def)
next
  case (Inr col)
  then have col: "ir_bytes db (IRColumn [nms ! (ids ! i)]) = Inr col" by simp
  show ?thesis
    using try_realisesD [OF TryBuildLanceTableFilterIRExpr_realises [OF assms(1,2) col]] Inr assms(3-)
    by (simp add: filter_encoder_defs EncodeColumnRefName_def written_iff entry_column_def)
qed

lemma build_part_step:
  assumes "hugeint_exact db" and "decimals_print db"
    and "build_part db nms tys ids exc r e = Inr r'"
  shows "parts r' = parts r @ (case written db nms tys ids exc e of None \<Rightarrow> [] | Some bs \<Rightarrow> [bs])"
    and "all_filters_pushed r' \<longleftrightarrow> all_filters_pushed r \<and> written db nms tys ids exc e \<noteq> None"
    and "all_prefilterable_filters_pushed r' \<longleftrightarrow> all_prefilterable_filters_pushed r \<and>
      (written db nms tys ids exc e \<noteq> None \<or> on_computed nms tys ids exc e)"
proof -
  obtain i f where e: "e = (i, f)" by (cases e)
  let ?o = "try_bind (TryEncodeLanceFilterIRColumnRefName (nms ! (ids ! i)))
      (\<lambda>col_ref_ir. TryBuildLanceTableFilterIRExpr db col_ref_ir (the f))"
  let ?usable = "f \<noteq> None \<and> i < length ids \<and> ids ! i < length nms \<and> ids ! i < length tys \<and>
    \<not> (exc \<and> IsComputedSearchColumn (nms ! (ids ! i))) \<and> LanceFilterIRSupportsLogicalType (tys ! (ids ! i))"
  have out: "?usable \<Longrightarrow> ?o = Done bs \<longleftrightarrow> written db nms tys ids exc e = Some bs" for bs
    using entry_outcome [OF assms(1,2), of i ids nms tys exc "the f" bs] by (auto simp: e)
  have unusable: "\<not> ?usable \<Longrightarrow> written db nms tys ids exc e = None"
    by (cases f) (auto simp: e written_def entry_column_def)
  have all: "parts r' = parts r @ (case written db nms tys ids exc e of None \<Rightarrow> [] | Some bs \<Rightarrow> [bs]) \<and>
    (all_filters_pushed r' \<longleftrightarrow> all_filters_pushed r \<and> written db nms tys ids exc e \<noteq> None) \<and>
    (all_prefilterable_filters_pushed r' \<longleftrightarrow> all_prefilterable_filters_pushed r \<and>
      (written db nms tys ids exc e \<noteq> None \<or> on_computed nms tys ids exc e))"
  proof (cases ?usable)
    case True
    then have nc: "\<not> on_computed nms tys ids exc e" by (auto simp: on_computed_def e)
    show ?thesis
    proof (cases ?o)
      case (Done bs)
      then show ?thesis
        using assms(3) True out [OF True, of bs] nc by (auto simp: e build_part_def Let_def)
    next
      case Refused
      then have "written db nms tys ids exc e = None" using out [OF True] by (cases "written db nms tys ids exc e") auto
      then show ?thesis
        using assms(3) True Refused nc by (auto simp: e build_part_def Let_def not_pushed_def)
    next
      case (Raised x)
      then show ?thesis
        using assms(3) True by (auto simp: e build_part_def Let_def)
    qed
  next
    case False
    then show ?thesis
      using assms(3) unusable [OF False]
      by (auto simp: e build_part_def Let_def not_pushed_def on_computed_def split: option.splits if_splits)
  qed
  then show "parts r' = parts r @ (case written db nms tys ids exc e of None \<Rightarrow> [] | Some bs \<Rightarrow> [bs])"
    and "all_filters_pushed r' \<longleftrightarrow> all_filters_pushed r \<and> written db nms tys ids exc e \<noteq> None"
    and "all_prefilterable_filters_pushed r' \<longleftrightarrow> all_prefilterable_filters_pushed r \<and>
      (written db nms tys ids exc e \<noteq> None \<or> on_computed nms tys ids exc e)"
    by simp_all
qed

lemma build_parts_loop:
  assumes "hugeint_exact db" and "decimals_print db"
    and "res_foldl (build_part db nms tys ids exc) r fs = Inr r'"
  shows "parts r' = parts r @ List.map_filter (written db nms tys ids exc) fs \<and>
    (all_filters_pushed r' \<longleftrightarrow> all_filters_pushed r \<and> (\<forall>e \<in> set fs. written db nms tys ids exc e \<noteq> None)) \<and>
    (all_prefilterable_filters_pushed r' \<longleftrightarrow> all_prefilterable_filters_pushed r \<and>
      (\<forall>e \<in> set fs. written db nms tys ids exc e \<noteq> None \<or> on_computed nms tys ids exc e))"
  using assms(3)
proof (induction fs arbitrary: r)
  case Nil
  then show ?case by (simp add: map_filter_def)
next
  case (Cons e fs)
  then obtain r1 where r1: "build_part db nms tys ids exc r e = Inr r1"
    and rest: "res_foldl (build_part db nms tys ids exc) r1 fs = Inr r'"
    by (auto simp: res_bind_Inr_iff)
  show ?case
    using Cons.IH [OF rest] build_part_step [OF assms(1,2) r1]
    by (auto simp: map_filter_simps split: option.splits)
qed

lemma BuildLanceTableFilterIRParts_spec:
  assumes "hugeint_exact db" and "decimals_print db" and "filters input = Some fs"
    and "BuildLanceTableFilterIRParts db nms tys input exc = Inr r"
  shows "parts r = List.map_filter (written db nms tys (column_ids input) exc) fs"
    and "all_filters_pushed r \<longleftrightarrow> (\<forall>e \<in> set fs. written db nms tys (column_ids input) exc e \<noteq> None)"
    and "all_prefilterable_filters_pushed r \<longleftrightarrow>
      (\<forall>e \<in> set fs. written db nms tys (column_ids input) exc e \<noteq> None \<or>
        on_computed nms tys (column_ids input) exc e)"
  using build_parts_loop [OF assms(1,2), of nms tys "column_ids input" exc empty_result fs r] assms(3,4)
  by (simp_all add: BuildLanceTableFilterIRParts_def empty_result_def)


section \<open>The probe and the scan\<close>

text \<open>
  The optimiser's probe sees the filters keyed by table column; the scan receives them keyed by
  the position in its own list of columns, in the order of those positions.
\<close>

definition rekeyed :: "nat list \<Rightarrow> TableFilterSet \<Rightarrow> TableFilterSet \<Rightarrow> bool" where
  "rekeyed ids fs' fs \<longleftrightarrow> (\<forall>(i, f) \<in> set fs'. i < length ids) \<and>
     mset (map (\<lambda>(i, f). (ids ! i, f)) fs') = mset fs"

lemma written_rekeyed:
  assumes "i < length ids" and "ids ! i < length ids'" and "ids' ! (ids ! i) = ids ! i"
  shows "written db nms tys ids exc (i, f) = written db nms tys ids' exc (ids ! i, f)"
proof -
  have "entry_column db nms tys ids exc i = entry_column db nms tys ids' exc (ids ! i)"
    using assms by (simp add: entry_column_def)
  then have "entry_ir db nms tys ids exc (i, f) = entry_ir db nms tys ids' exc (ids ! i, f)"
    by (simp add: fun_eq_iff)
  then show ?thesis unfolding written_def by (simp only:)
qed

lemma mset_map_filter: "mset (List.map_filter f xs) = image_mset (the \<circ> f) (filter_mset (\<lambda>x. f x \<noteq> None) (mset xs))"
  by (induction xs) (auto simp: map_filter_simps split: option.splits)

lemma map_filter_map_cong:
  "(\<And>x. x \<in> set xs \<Longrightarrow> f x = g (k x)) \<Longrightarrow> List.map_filter f xs = List.map_filter g (map k xs)"
  by (induction xs) (auto simp: map_filter_simps split: option.splits)

lemma foldl_max_ge: "x \<in> set xs \<or> x \<le> m \<Longrightarrow> x \<le> foldl max m xs" for x m :: nat
proof (induction xs arbitrary: m)
  case (Cons y xs)
  have "x \<in> set xs \<or> x \<le> max m y" using Cons.prems by auto
  then show ?case using Cons.IH [of "max m y"] by simp
qed simp

definition keys_in_range :: "string list \<Rightarrow> LogicalType list \<Rightarrow> TableFilterSet \<Rightarrow> bool" where
  "keys_in_range nms tys fs \<longleftrightarrow> (\<forall>(c, f) \<in> set fs. c < length nms \<and> c < length tys)"

lemma written_in_range:
  "written db nms tys ids exc (i, f) \<noteq> None \<Longrightarrow> i < length ids \<and> ids ! i < length nms \<and> ids ! i < length tys"
  by (auto simp: written_def entry_column_def bind_eq_Some_conv split: option.splits if_splits)

lemma build_flags:
  assumes "hugeint_exact db" and "decimals_print db" and "filters input = Some fs"
    and "BuildLanceTableFilterIRParts db nms tys input False = Inr r"
  shows "all_prefilterable_filters_pushed r \<longleftrightarrow> all_filters_pushed r"
  using BuildLanceTableFilterIRParts_spec [OF assms] by (simp add: on_computed_def)

text \<open>A filter on a column that does not exist is not written, whichever way it is keyed.\<close>

lemma out_of_range_not_pushed:
  assumes "hugeint_exact db" and "decimals_print db"
    and "filters input = Some fs'" and "rekeyed (column_ids input) fs' fs"
    and "\<not> keys_in_range nms tys fs"
    and "BuildLanceTableFilterIRParts db nms tys input exc = Inr r"
  shows "\<not> all_filters_pushed r"
proof -
  let ?k = "\<lambda>(i, f). (column_ids input ! i, f)"
  obtain c f where cf: "(c, f) \<in> set fs" "\<not> (c < length nms \<and> c < length tys)"
    using assms(5) by (auto simp: keys_in_range_def)
  have "set (map ?k fs') = set fs" using assms(4) by (intro mset_eq_setD) (simp add: rekeyed_def)
  then obtain i where i: "(i, f) \<in> set fs'" "column_ids input ! i = c" using cf(1) by (auto simp flip: \<open>_ = set fs\<close>)
  then have "written db nms tys (column_ids input) exc (i, f) = None"
    using cf(2) written_in_range by blast
  then show ?thesis using BuildLanceTableFilterIRParts_spec(2) [OF assms(1-3,6)] i(1) by blast
qed

lemma probe_in_range:
  assumes db: "hugeint_exact db" "decimals_print db"
    and "filters input = Some fs'" and "rekeyed (column_ids input) fs' (table_filters get)"
    and "keys_in_range nms tys (table_filters get)"
    and "ProbeLanceTableFilterIR db get nms tys = Inr p"
    and "BuildLanceTableFilterIRParts db nms tys input False = Inr r"
  shows "(all_filters_pushed p \<longleftrightarrow> all_filters_pushed r) \<and>
    (all_prefilterable_filters_pushed p \<longleftrightarrow> all_prefilterable_filters_pushed r) \<and> mset (parts r) = mset (parts p)"
proof (cases "table_filters get = []")
  case True
  then have "fs' = []" using assms(4) by (simp add: rekeyed_def)
  then show ?thesis
    using assms(3,6,7) True
    by (auto simp: ProbeLanceTableFilterIR_def BuildLanceTableFilterIRParts_def empty_result_def)
next
  case False
  let ?fs = "table_filters get" let ?ids = "column_ids input"
  let ?ids' = "[0..<foldl max 0 (map fst ?fs) + 1]"
  have ok: "\<not> (\<exists>(col_id, f) \<in> set ?fs. col_id \<ge> length nms \<or> col_id \<ge> length tys)"
    using assms(5) by (force simp: keys_in_range_def)
  have probe: "BuildLanceTableFilterIRParts db nms tys \<lparr>column_ids = ?ids', filters = Some ?fs\<rparr> False = Inr p"
    using assms(6) False ok by (simp add: ProbeLanceTableFilterIR_def Let_def)
  note p = BuildLanceTableFilterIRParts_spec [OF db _ probe, simplified]
  note r = BuildLanceTableFilterIRParts_spec [OF db assms(3,7)]
  let ?k = "\<lambda>(i, f). (?ids ! i, f)"
  have ms: "mset (map ?k fs') = mset ?fs" using assms(4) by (simp add: rekeyed_def)
  then have keys: "set (map ?k fs') = set ?fs" by (rule mset_eq_setD)
  have same: "written db nms tys ?ids False (i, f) = written db nms tys ?ids' False (?ids ! i, f)"
    if "(i, f) \<in> set fs'" for i f
  proof (rule written_rekeyed)
    show "i < length ?ids" using that assms(4) by (auto simp: rekeyed_def)
    have "(?ids ! i, f) \<in> set ?fs"
      using that by (force simp flip: keys)
    then have "?ids ! i \<le> foldl max 0 (map fst ?fs)"
      by (intro foldl_max_ge) force
    then show "?ids ! i < length ?ids'" and "?ids' ! (?ids ! i) = ?ids ! i"
      by (simp_all del: upt_Suc)
  qed
  have "List.map_filter (written db nms tys ?ids False) fs'
      = List.map_filter (written db nms tys ?ids' False) (map ?k fs')"
    by (rule map_filter_map_cong) (use same in \<open>auto simp del: upt_Suc\<close>)
  then have "mset (parts r) = mset (parts p)"
    using r(1) p(1) ms by (simp add: mset_map_filter)
  moreover have "(\<forall>e \<in> set fs'. written db nms tys ?ids False e \<noteq> None) \<longleftrightarrow>
      (\<forall>e \<in> set ?fs. written db nms tys ?ids' False e \<noteq> None)"
    using same by (force simp flip: keys)
  then have "all_filters_pushed p \<longleftrightarrow> all_filters_pushed r" using p(2) r(2) by simp
  ultimately show ?thesis
    using build_flags [OF db assms(3,7)] build_flags [OF db _ probe] by simp
qed

lemma probe_out_of_range:
  assumes "\<not> keys_in_range nms tys (table_filters get)" and "ProbeLanceTableFilterIR db get nms tys = Inr p"
  shows "\<not> all_filters_pushed p \<and> \<not> all_prefilterable_filters_pushed p \<and> parts p = []"
proof -
  have "\<exists>(col_id, f) \<in> set (table_filters get). col_id \<ge> length nms \<or> col_id \<ge> length tys"
    using assms(1) by (force simp: keys_in_range_def)
  moreover from this have "table_filters get \<noteq> []" by auto
  ultimately have "p = not_pushed empty_result"
    using assms(2) by (simp add: ProbeLanceTableFilterIR_def Let_def)
  then show ?thesis by (simp add: not_pushed_def empty_result_def)
qed

lemma probe_agrees:
  assumes "hugeint_exact db" and "decimals_print db"
    and "filters input = Some fs'" and "rekeyed (column_ids input) fs' (table_filters get)"
    and "ProbeLanceTableFilterIR db get nms tys = Inr p"
    and "BuildLanceTableFilterIRParts db nms tys input False = Inr r"
  shows "(all_filters_pushed p \<longleftrightarrow> all_filters_pushed r) \<and>
    (all_prefilterable_filters_pushed p \<longleftrightarrow> all_prefilterable_filters_pushed r) \<and>
    (keys_in_range nms tys (table_filters get) \<longrightarrow> mset (parts r) = mset (parts p))"
proof (cases "keys_in_range nms tys (table_filters get)")
  case True
  then show ?thesis using probe_in_range [OF assms(1-4) _ assms(5,6)] by blast
next
  case False
  then show ?thesis
    using out_of_range_not_pushed [OF assms(1-4) _ assms(6)] probe_out_of_range [OF _ assms(5)]
      build_flags [OF assms(1-3,6)] by blast
qed


section \<open>Filter messages\<close>

text \<open>One part is the message itself; several are conjoined.\<close>

fun message_ir :: "ir list \<Rightarrow> ir" where
  "message_ir [n] = n"
| "message_ir ns = IRConjunction Conj_AND ns"

lemma TryEncodeLanceFilterIRMessage_iff:
  assumes "res_map (ir_bytes db) ns = Inr ps" and "ns \<noteq> []"
  shows "TryEncodeLanceFilterIRMessage ps = Done msg \<longleftrightarrow>
    (\<exists>root. ir_bytes db (message_ir ns) = Inr root \<and> msg = LanceFilterIREncodeMessage root)"
  using assms
  by (cases ns rule: message_ir.cases)
     (auto simp: TryEncodeLanceFilterIRMessage_def filter_encoder_defs res_bind_Inr_iff try_bind_Done_iff
       split: list.splits)

lemma parse_filter_ir_message:
  assumes "res_map (ir_bytes db) ns = Inr ps" and "ns \<noteq> []" and "list_all (ir_ok db) ns"
    and "TryEncodeLanceFilterIRMessage ps = Done msg" and "length msg < 2 ^ 64"
  shows "parse_filter_ir df msg = ir_df db (df\<lparr>registry := None\<rparr>) (message_ir ns)"
proof -
  obtain root where root: "ir_bytes db (message_ir ns) = Inr root"
    and msg: "msg = LanceFilterIREncodeMessage root"
    using assms(1,2,4) by (auto simp: TryEncodeLanceFilterIRMessage_iff)
  have ok: "ir_ok db (message_ir ns)"
    using assms(2,3) by (cases ns rule: message_ir.cases) auto
  have "length root < 2 ^ 64"
    using assms(5) by (simp add: msg LanceFilterIREncodeMessage_def LANCE_FILTER_IR_MAGIC_def)
  then show ?thesis
    using parse_payload_ir [OF root ok]
    by (simp add: msg parse_filter_ir_def LanceFilterIREncodeMessage_def LANCE_FILTER_IR_MAGIC_def)
qed

text \<open>The functions DuckDB pushes into a scan are the decoder's built-in ones.\<close>

definition builtins :: "string set" where
  "builtins = {''lower'', ''upper'', ''starts_with'', ''ends_with'', ''contains''}"

definition lowers_builtins :: "duckdb \<Rightarrow> bool" where
  "lowers_builtins db \<longleftrightarrow>
     (\<forall>s \<in> builtins. StringLower db s = s)"

lemma res_map_ir_df_Inr:
  "(\<And>n. n \<in> set ns \<Longrightarrow> \<exists>x. ir_df db df n = Inr x) \<Longrightarrow> \<exists>xs. res_map (ir_df db df) ns = Inr xs"
  by (induction ns) fastforce+

lemma those_bind_set:
  "those (map (\<lambda>c. Option.bind c L) cs) = Some ns \<Longrightarrow> n \<in> set ns \<Longrightarrow> \<exists>y. Some y \<in> set cs \<and> L y = Some n"
  by (induction cs arbitrary: ns) (auto simp: those_Cons_iff bind_eq_Some_conv simp del: those.simps(2), blast+)

lemma const_literal_decodes: "const_literal db e = Some n \<Longrightarrow> \<exists>x. ir_df db df n = Inr x"
  by (auto simp: const_literal_def split: Expression.splits)

lemma in_list_decodes:
  assumes "in_list_ir neg n ns = Some m" and "\<exists>x. ir_df db df n = Inr x"
    and "\<And>n. n \<in> set ns \<Longrightarrow> \<exists>x. ir_df db df n = Inr x"
  shows "\<exists>x. ir_df db df m = Inr x"
proof -
  have "\<exists>xs. res_map (ir_df db df) ns = Inr xs" by (rule res_map_ir_df_Inr) (rule assms(3))
  then show ?thesis using assms(1,2) by (auto simp: in_list_ir_def split: if_splits)
qed

lemma function_decodes:
  assumes "lowers_builtins db" and "name \<in> builtins"
    and "\<And>n. n \<in> set ns \<Longrightarrow> \<exists>x. ir_df db df n = Inr x"
  shows "\<exists>x. ir_df db df (IRFunction name ns) = Inr x"
proof -
  have "StringLower db name = name"
    by (rule assms(1) [unfolded lowers_builtins_def, rule_format, OF assms(2)])
  moreover have "\<exists>f. resolve_scalar_function df name = Inr f"
    using assms(2) unfolding builtins_def
    by (elim insertE emptyE) (simp_all add: resolve_scalar_function_def)
  moreover have "\<exists>xs. res_map (ir_df db df) ns = Inr xs" by (rule res_map_ir_df_Inr) (rule assms(3))
  ultimately show ?thesis by auto
qed

lemma pushed_function:
  assumes "filter_ir db (the_column c) False (BoundFunction t name cs) = Some n"
  shows "\<exists>y m ls. Some y \<in> set cs \<and> filter_ir db (the_column c) False y = Some m \<and>
    name \<in> builtins \<and>
    n = IRFunction name (m # map IRLiteral ls)"
proof -
  have name: "name \<noteq> ''struct_extract''" "name \<noteq> ''struct_extract_at''"
    using assms by (auto simp: the_column_def)
  consider (one) y where "cs = [Some y]" | (two) y z where "cs = [Some y, Some z]"
    | (other) "\<nexists>y. cs = [Some y]" "\<nexists>y z. cs = [Some y, Some z]" by blast
  then show ?thesis
  proof cases
    case (one y)
    show ?thesis
    proof (cases "name = ''lower'' \<or> name = ''upper''")
      case True
      then have "\<exists>m. filter_ir db (the_column c) False y = Some m \<and> n = IRFunction name (m # map IRLiteral [])"
        using assms name unfolding one by (elim disjE) (simp_all, metis+)
      moreover have "name \<in> builtins"
        using True by (elim disjE) (simp_all add: builtins_def)
      ultimately show ?thesis using one by (metis list.set_intros(1))
    next
      case False
      then show ?thesis using assms name by (simp add: one)
    qed
  next
    case (two y z)
    show ?thesis
    proof (cases "name = ''starts_with'' \<or> name = ''ends_with'' \<or> name = ''contains''")
      case True
      then have "\<exists>m s. filter_ir db (the_column c) False y = Some m \<and>
          n = IRFunction name (m # map IRLiteral [LitString s])"
        using assms name unfolding two
        by (elim disjE) (simp_all add: bind_eq_Some_conv, metis+)
      moreover have "name \<in> builtins"
        using True by (elim disjE) (simp_all add: builtins_def)
      ultimately show ?thesis using two by (metis list.set_intros(1))
    next
      case False
      then show ?thesis using assms name by (simp add: two bind_eq_Some_conv)
    qed
  next
    case other
    then show ?thesis
      using assms name by (simp split: list.splits option.splits)
  qed
qed

lemma pushed_operator:
  assumes "filter_ir db (the_column c) False (BoundOperator t k cs) = Some n"
  shows "\<exists>y m. Some y \<in> set cs \<and> filter_ir db (the_column c) False y = Some m \<and>
    (n = IRNot m \<or> n = IRIsNull m \<or> n = IRIsNotNull m \<or>
     (\<exists>neg ns. in_list_ir neg m ns = Some n \<and> (\<forall>x \<in> set ns. \<exists>e. const_literal db e = Some x)))"
proof -
  consider (one) y where "cs = [Some y]" | (many) y z zs where "cs = Some y # z # zs"
    | (other) "cs = [] \<or> hd cs = None"
    by (metis list.exhaust list.sel(1) option.exhaust)
  then show ?thesis
  proof cases
    case one
    then show ?thesis using assms by (auto simp: bind_eq_Some_conv split: if_splits)
  next
    case (many y z zs)
    then obtain m ns where "filter_ir db (the_column c) False y = Some m"
      and ns: "those (map (\<lambda>c. Option.bind c (const_literal db)) (z # zs)) = Some ns"
      and "in_list_ir (k = COMPARE_NOT_IN) m ns = Some n"
      using assms by (auto simp: bind_eq_Some_conv simp del: those.simps(2) list.map split: if_splits)
    moreover have "\<forall>x \<in> set ns. \<exists>e. const_literal db e = Some x"
      using those_bind_set [OF ns] by blast
    ultimately show ?thesis using many by (metis list.set_intros(1))
  next
    case other
    then show ?thesis using assms by (cases cs; cases "tl cs") auto
  qed
qed

lemma filter_ir_decodes:
  assumes "lowers_builtins db" and "\<exists>x. ir_df db df c = Inr x"
    and "filter_ir db (the_column c) False e = Some n"
  shows "\<exists>x. ir_df db df n = Inr x"
  using assms(3)
proof (induction "size e" arbitrary: e n rule: less_induct)
  case less
  have IH: "\<exists>x. ir_df db df m = Inr x"
    if "size y < size e" "filter_ir db (the_column c) False y = Some m" for y m
    using less(1) that by blast
  show ?case
  proof (cases e)
    case (BoundRef t nm i)
    then show ?thesis using less(2) assms(2) by (simp add: the_column_def)
  next
    case (BoundFunction t name cs)
    obtain y m ls where y: "Some y \<in> set cs" "filter_ir db (the_column c) False y = Some m"
      and name: "name \<in> builtins"
      and n: "n = IRFunction name (m # map IRLiteral ls)"
      using pushed_function less(2) unfolding BoundFunction by blast
    have "\<exists>x. ir_df db df m = Inr x"
      by (rule IH [OF _ y(2)]) (use y(1) in \<open>auto simp: BoundFunction dest: size_Some_child\<close>)
    then show ?thesis
      unfolding n by (intro function_decodes [OF assms(1) name]) auto
  next
    case (BoundOperator t k cs)
    obtain y m where y: "Some y \<in> set cs" "filter_ir db (the_column c) False y = Some m"
      and n: "n = IRNot m \<or> n = IRIsNull m \<or> n = IRIsNotNull m \<or>
        (\<exists>neg ns. in_list_ir neg m ns = Some n \<and> (\<forall>x \<in> set ns. \<exists>e. const_literal db e = Some x))"
      using pushed_operator less(2) unfolding BoundOperator by blast
    have "\<exists>x. ir_df db df m = Inr x"
      by (rule IH [OF _ y(2)]) (use y(1) in \<open>auto simp: BoundOperator dest: size_Some_child\<close>)
    then show ?thesis
      using n by (auto intro: in_list_decodes const_literal_decodes)
  next
    case (BoundComparison k l r)
    then obtain x y m m' op where "l = Some x" "r = Some y" and n: "n = IRComparison op m m'"
      and "filter_ir db (the_column c) False x = Some m" "filter_ir db (the_column c) False y = Some m'"
      using less(2) by (auto simp: bind_eq_Some_conv)
    then have "\<exists>x. ir_df db df m = Inr x" "\<exists>x. ir_df db df m' = Inr x"
      using IH [of x m] IH [of y m'] by (simp_all add: BoundComparison)
    then show ?thesis by (auto simp: n)
  next
    case (BoundConjunction k cs)
    then obtain ns where ns: "those (map (\<lambda>c'. Option.bind c' (filter_ir db (the_column c) False)) cs) = Some ns"
      and n: "\<exists>op. n = IRConjunction op ns"
      using less(2) by (auto simp: bind_eq_Some_conv split: if_splits)
    have "\<exists>xs. res_map (ir_df db df) ns = Inr xs"
    proof (rule res_map_ir_df_Inr)
      fix m assume "m \<in> set ns"
      then obtain y where "Some y \<in> set cs" "filter_ir db (the_column c) False y = Some m"
        using those_bind_set [OF ns] by blast
      then show "\<exists>x. ir_df db df m = Inr x"
        by (intro IH) (auto simp: BoundConjunction dest: size_Some_child)
    qed
    with n show ?thesis by auto
  qed (use less(2) in \<open>auto simp: the_column_def split: option.splits Expression.splits if_splits\<close>)
qed

lemma table_filter_ir_decodes:
  assumes "lowers_builtins db" and "\<exists>x. ir_df db df c = Inr x" and "table_filter_ir db c f = Some n"
  shows "\<exists>x. ir_df db df n = Inr x"
  using assms(3)
proof (induction "size f" arbitrary: f n rule: less_induct)
  case less
  have conj: "\<exists>x. ir_df db df (IRConjunction op ns) = Inr x"
    if "\<And>x. Some x \<in> set fs \<Longrightarrow> size x < size f"
      and ns: "those (map (\<lambda>f. Option.bind f (table_filter_ir db c)) fs) = Some ns" for op ns fs
  proof -
    have "\<exists>xs. res_map (ir_df db df) ns = Inr xs"
    proof (rule res_map_ir_df_Inr)
      fix m assume "m \<in> set ns"
      then show "\<exists>x. ir_df db df m = Inr x"
        using those_bind_set [OF ns] less(1) that(1) by blast
    qed
    then show ?thesis by auto
  qed
  show ?case
  proof (cases f)
    case (OptionalFilter g)
    then obtain y where "g = Some y" and y: "table_filter_ir db c y = Some n"
      using less(2) by (auto simp: bind_eq_Some_conv)
    then show ?thesis using less(1) [OF _ y] by (simp add: OptionalFilter)
  next
    case (InFilter vs)
    then obtain ns where ns: "those (map (\<lambda>v. map_option IRLiteral (literal_of db v)) vs) = Some ns"
      and n: "in_list_ir False c ns = Some n"
      using less(2) by (auto simp: bind_eq_Some_conv)
    have "\<exists>x. ir_df db df m = Inr x" if "m \<in> set ns" for m
      using ns that
      by (induction vs arbitrary: ns) (auto simp: those_Cons_iff simp del: those.simps(2))
    then show ?thesis by (rule in_list_decodes [OF n assms(2)])
  next
    case (ConjunctionAndFilter fs)
    then show ?thesis
      using less(2) conj [of fs] by (auto dest: size_Some_child simp del: ir_df.simps)
  next
    case (ConjunctionOrFilter fs)
    then show ?thesis
      using less(2) conj [of fs] by (auto dest: size_Some_child simp del: ir_df.simps)
  next
    case (ExpressionFilter e)
    then show ?thesis
      using less(2) filter_ir_decodes [OF assms(1,2)] by (auto simp: bind_eq_Some_conv)
  qed (use less assms(2) in \<open>auto simp: bind_eq_Some_conv\<close>)
qed

lemma message_ir_decodes:
  assumes "\<And>n. n \<in> set ns \<Longrightarrow> \<exists>x. ir_df db df n = Inr x"
  shows "\<exists>x. ir_df db df (message_ir ns) = Inr x"
proof -
  have "\<exists>xs. res_map (ir_df db df) ns = Inr xs" by (rule res_map_ir_df_Inr) (rule assms)
  then show ?thesis
    using assms by (cases ns rule: message_ir.cases) auto
qed

text \<open>The message of a scan whose filters were all written.\<close>

lemma pushed_filters_message:
  assumes db: "hugeint_exact db" "decimals_print db"
    and "filters input = Some fs" and "fs \<noteq> []"
    and "BuildLanceTableFilterIRParts db nms tys input exc = Inr r" and "all_filters_pushed r"
    and "TryEncodeLanceFilterIRMessage (parts r) = Done msg" and "length msg < 2 ^ 64"
  shows "\<exists>ns. map (entry_ir db nms tys (column_ids input) exc) fs = map Some ns \<and>
    (list_all (ir_ok db) ns \<longrightarrow>
      parse_filter_ir df msg = ir_df db (df\<lparr>registry := None\<rparr>) (message_ir ns) \<and>
      (lowers_builtins db \<longrightarrow> (\<exists>e. parse_filter_ir df msg = Inr e)))"
proof -
  let ?e = "entry_ir db nms tys (column_ids input) exc"
  let ?w = "written db nms tys (column_ids input) exc"
  note spec = BuildLanceTableFilterIRParts_spec [OF db assms(3,5)]
  have all: "\<forall>e \<in> set fs. ?w e \<noteq> None" using spec(2) assms(6) by simp
  have parts: "parts r = map (the \<circ> ?w) fs"
    using spec(1) all by (simp add: map_filter_def)
  define ns where "ns = map (the \<circ> ?e) fs"
  have some: "?e e = Some (the (?e e)) \<and> ir_bytes db (the (?e e)) = Inr (the (?w e))" if "e \<in> set fs" for e
    using all that written_iff [of db nms tys "column_ids input" exc e] by fastforce
  have ns: "map ?e fs = map Some ns"
    using some by (simp add: ns_def)
  have bytes: "res_map (ir_bytes db) ns = Inr (parts r)"
    unfolding res_map_Inr_list_all2 parts ns_def list_all2_map1 list_all2_map2
    using some by (auto intro: list_all2_refl list.rel_refl_strong)
  have ne: "ns \<noteq> []" using assms(4) by (simp add: ns_def)
  have dec: "\<exists>x. ir_df db (df\<lparr>registry := None\<rparr>) n = Inr x" if low: "lowers_builtins db" and "n \<in> set ns" for n
  proof -
    have "Some n \<in> set (map ?e fs)" using that(2) by (simp add: ns)
    then obtain e where "?e e = Some n" by (metis image_iff image_set)
    then obtain i f c where "table_filter_ir db c f = Some n" "entry_column db nms tys (column_ids input) exc i = Some c"
      by (cases e) (auto simp: bind_eq_Some_conv)
    then show ?thesis
      using table_filter_ir_decodes [OF low, of "df\<lparr>registry := None\<rparr>" c f n]
      by (auto simp: entry_column_def split: if_splits)
  qed
  show ?thesis
  proof (intro exI [of _ ns] conjI impI)
    assume ok: "list_all (ir_ok db) ns"
    show msg: "parse_filter_ir df msg = ir_df db (df\<lparr>registry := None\<rparr>) (message_ir ns)"
      by (rule parse_filter_ir_message [OF bytes ne ok assms(7,8)])
    assume "lowers_builtins db"
    then show "\<exists>e. parse_filter_ir df msg = Inr e"
      unfolding msg by (intro message_ir_decodes dec)
  qed (rule ns)
qed

end
