(* ===== verification/Sample_Host.thy ===== *)
theory Sample_Host
  imports Duck_Types
begin

text \<open>
  One host that meets every hypothesis the development states about DuckDB: exact 128-bit
  arithmetic with overflow checks, decimals printed with all their fractional digits, ASCII
  lower-casing.  The witnesses run the modelled code on it.
\<close>

section \<open>Printing decimals\<close>

definition pad_zeros :: "nat \<Rightarrow> string \<Rightarrow> string" where
  "pad_zeros k s = replicate (k - length s) (CHR ''0'') @ s"

definition print_decimal :: "nat \<Rightarrow> int \<Rightarrow> string" where
  "print_decimal s n =
     (let ds = pad_zeros s (nat_to_string (nat \<bar>n\<bar>)); k = length ds - s
      in (if n < 0 then ''-'' else []) @ take k ds @ (if s > 0 then ''.'' else []) @ drop k ds)"

lemma string_to_nat_zeros: "string_to_nat (replicate k (CHR ''0'') @ s) = string_to_nat s"
  by (induction k) (simp_all add: string_to_nat_def digit_val_def)

lemma print_decimal_spells: "decimal_spells (print_decimal s n) s n"
proof -
  let ?ds = "pad_zeros s (nat_to_string (nat \<bar>n\<bar>))"
  let ?k = "length ?ds - s"
  have len: "s \<le> length ?ds" by (simp add: pad_zeros_def)
  have digits: "list_all is_digit ?ds"
    using nat_to_string_digits by (auto simp: pad_zeros_def list_all_iff is_digit_def)
  define ip fp where "ip = take ?k ?ds" and "fp = drop ?k ?ds"
  have ip: "list_all is_digit ip" and fp: "list_all is_digit fp"
    using digits by (auto simp: ip_def fp_def list_all_iff dest: in_set_takeD in_set_dropD)
  have lfp: "length fp = s" using len by (simp add: fp_def)
  have "ip @ fp = ?ds" unfolding ip_def fp_def by (rule append_take_drop_id)
  then have val: "string_to_nat (ip @ fp) = nat \<bar>n\<bar>"
    by (simp add: pad_zeros_def string_to_nat_zeros string_to_nat_to_string)
  have str: "print_decimal s n = (if n < 0 then ''-'' else []) @ ip @ (if s > 0 then ''.'' else []) @ fp"
    unfolding print_decimal_def Let_def ip_def fp_def by (rule refl)
  have "\<not> s > 0 \<longrightarrow> fp = []" using lfp by auto
  moreover have "n = (if n < 0 then -1 else 1) * int (string_to_nat (ip @ fp) * 10 ^ (s - length fp))"
    by (simp add: val lfp)
  ultimately show ?thesis
    unfolding decimal_spells_def using str ip fp lfp by (metis order_refl)
qed


section \<open>The host\<close>

fun print_value :: "Value \<Rightarrow> string" where
  "print_value (DecimalValue w s v) = print_decimal (unat s) (sint v)"
| "print_value v = []"

fun cast_to_bigint :: "Value \<Rightarrow> LogicalType \<Rightarrow> Value option" where
  "cast_to_bigint (TinyIntValue v) (SimpleType BIGINT) = Some (BigIntValue (scast v))"
| "cast_to_bigint (SmallIntValue v) (SimpleType BIGINT) = Some (BigIntValue (scast v))"
| "cast_to_bigint (IntegerValue v) (SimpleType BIGINT) = Some (BigIntValue (scast v))"
| "cast_to_bigint v t = (if value_type v = t then Some v else None)"

definition sample_duckdb :: duckdb where
  "sample_duckdb = \<lparr>
     StringLower = map ascii_lower,
     CIEquals = (\<lambda>a b. map ascii_lower a = map ascii_lower b),
     DefaultCastAs = cast_to_bigint,
     DecimalToString = print_value,
     DateIsFinite = (\<lambda>d. d \<noteq> 0x7FFFFFFF \<and> d \<noteq> 0x80000001),
     TimestampIsFinite = (\<lambda>t. t \<noteq> 0x7FFFFFFFFFFFFFFF \<and> t \<noteq> 0x8000000000000001),
     HugeMul = (\<lambda>a b. if in_i128 (sint a * sint b) then Some (a * b) else None),
     HugeAdd = (\<lambda>a b. if in_i128 (sint a + sint b) then Some (a + b) else None),
     HugeNeg = (\<lambda>a. if in_i128 (- sint a) then Some (- a) else None),
     InternalType = (\<lambda>t. case type_id t of
         SMALLINT \<Rightarrow> INT16 | INTEGER \<Rightarrow> INT32 | BIGINT \<Rightarrow> INT64 | DECIMAL \<Rightarrow> INT128
       | _ \<Rightarrow> OTHER_PHYSICAL),
     ExpressionTypeToOperator = (\<lambda>t. if t = COMPARE_EQUAL then ''='' else ''''),
     GetName = (\<lambda>e. ''expr''),
     HasParameter = (\<lambda>e. False),
     IsVolatile = (\<lambda>e. False),
     CanThrow = (\<lambda>e. False),
     COLUMN_IDENTIFIER_ROW_ID = 2 ^ 64 - 1,
     COLUMN_IDENTIFIER_EMPTY = 2 ^ 64 - 2 \<rparr>"

lemma sample_hugeint: "hugeint_exact sample_duckdb"
  by (simp add: hugeint_exact_def sample_duckdb_def)

lemma sample_decimals: "decimals_print sample_duckdb"
  using print_decimal_spells by (simp add: decimals_print_def sample_duckdb_def)

lemma sample_string_util: "string_util sample_duckdb"
  by (simp add: string_util_def sample_duckdb_def)

end
