(* ===== verification/Samples.thy ===== *)
theory Samples
  imports Filter_Parts_Correct Sample_Host
begin

text \<open>
  A small table and queries over it, on which the witnesses run the encoders and decoders: a
  column \<open>price\<close> and a column \<open>name\<close>, an UPDATE that multiplies the price by a decimal constant,
  and a scan filtered on both columns.
\<close>

definition sample_get :: LogicalGet where
  "sample_get = \<lparr>get_table_index = 0, get_column_ids = [ColumnIndex 0 False [], ColumnIndex 1 False []],
     table_filters =
       [(0, Some (ConstantFilter COMPARE_GREATERTHAN (IntegerValue 10))), (1, Some IsNotNullFilter)]\<rparr>"

definition sample_bind :: LanceScanBindData where
  "sample_bind = \<lparr>names = [''price'', ''name''], types = [SimpleType INTEGER, SimpleType VARCHAR]\<rparr>"

definition sample_scope :: LogicalOperator where
  "sample_scope = LogicalProjectionOp 1
     [Some (BoundColumnRef (SimpleType INTEGER) \<lparr>table_index = 0, column_index = 0\<rparr> 0)]
     [Some (LogicalFilterOp [Some LogicalGetOp])]"

definition sample_set :: Expression where
  "sample_set = BoundFunction (SimpleType INTEGER) ''*''
     [Some (BoundColumnRef (SimpleType INTEGER) \<lparr>table_index = 1, column_index = 0\<rparr> 0),
      Some (BoundConstant (DecimalValue 4 2 150))]"

definition sample_set_ir :: ir where
  "sample_set_ir = IRBinary Bin_MUL (IRColumn [''price'']) (IRLiteral (LitDecimal128 4 2 150))"

definition sample_df :: datafusion where
  "sample_df = \<lparr>registry = None, compile_regex = (\<lambda>p f. True)\<rparr>"

text \<open>The scan reads the columns in the opposite order, so its filters have the other keys.\<close>

definition sample_input :: TableFunctionInitInput where
  "sample_input = \<lparr>column_ids = [1, 0],
     filters = Some [(0, Some IsNotNullFilter),
       (1, Some (ConstantFilter COMPARE_GREATERTHAN (IntegerValue 10)))]\<rparr>"

definition sample_filter_irs :: "ir list" where
  "sample_filter_irs = [IRIsNotNull (IRColumn [''name'']),
     IRComparison Cmp_GT (IRColumn [''price'']) (IRLiteral (LitI64 10))]"

lemmas sample_defs = sample_get_def sample_bind_def sample_scope_def sample_set_def sample_set_ir_def
  sample_df_def sample_input_def sample_filter_irs_def sample_duckdb_def

lemmas byte_defs = EncodeColumnRef_def Let_def AppendLenPrefixed_def AppendLenPrefixedString_def
  EncodeBinaryNode_def EncodeComparisonNode_def EncodeUnaryNode_def EncodeConjunctionNode_def
  EncodeFunctionNode_def literal_head_def AppendU8_def AppendU32_def AppendBytes_def AppendI128_def
  AppendU64_def AppendI64_def string_bytes_def upt_conv_Cons

lemma sample_decimal:
  "literal_of sample_duckdb (DecimalValue 4 2 150) = Some (LitDecimal128 4 2 150)"
  using decimal_recovered [OF sample_hugeint sample_decimals, of 150 2 4] by simp

lemma sample_lower: "StringLower sample_duckdb s = map ascii_lower s"
  by (simp add: sample_duckdb_def)

lemma sample_set_lower:
  "lower_expr sample_duckdb sample_get sample_bind sample_scope sample_set = Some sample_set_ir"
  by (simp add: sample_get_def sample_bind_def sample_scope_def sample_set_def sample_set_ir_def
      base_column_def scope_simps ascii_lower_def arithmetic_of_def sample_decimal sample_lower
      del: literal_of.simps)

lemma sample_set_bytes: "\<exists>bs. ir_bytes sample_duckdb sample_set_ir = Inr bs \<and> length bs < 100"
  by (simp add: sample_set_ir_def byte_defs)

lemma sample_set_ok: "ir_ok sample_duckdb sample_set_ir"
  by (simp add: sample_set_ir_def utf8_string_def string_bytes_def)

lemma sample_lowers: "lowers_builtins sample_duckdb"
  by (simp add: lowers_builtins_def builtins_def sample_duckdb_def ascii_lower_def)

lemma sample_filter_entries:
  "map (entry_ir sample_duckdb (names sample_bind) (types sample_bind) (column_ids sample_input) False)
     (the (filters sample_input)) = map Some sample_filter_irs"
  by (simp add: sample_defs entry_column_def byte_defs LanceFilterIRSupportsLogicalType_def)

lemma sample_filter_ok: "list_all (ir_ok sample_duckdb) sample_filter_irs"
  by (simp add: sample_filter_irs_def utf8_string_def string_bytes_def)

lemma sample_filter_parts:
  "\<exists>r. BuildLanceTableFilterIRParts sample_duckdb (names sample_bind) (types sample_bind) sample_input False = Inr r
     \<and> all_filters_pushed r \<and> (\<exists>msg. TryEncodeLanceFilterIRMessage (parts r) = Done msg \<and> length msg < 200)"
  by (simp add: sample_defs BuildLanceTableFilterIRParts_def build_part_def empty_result_def byte_defs
      filter_encoder_defs EncodeColumnRefName_def LanceFilterIRSupportsLogicalType_def
      TryEncodeLanceFilterIRLiteral_def TryEncodeLanceExprIRLiteral_def TryEncodeLanceFilterIRMessage_def
      LanceFilterIREncodeMessage_def LANCE_FILTER_IR_MAGIC_def)


lemma sample_probe:
  "\<exists>p. ProbeLanceTableFilterIR sample_duckdb sample_get (names sample_bind) (types sample_bind) = Inr p \<and>
     all_filters_pushed p"
  by (simp add: sample_defs ProbeLanceTableFilterIR_def BuildLanceTableFilterIRParts_def build_part_def empty_result_def
      byte_defs filter_encoder_defs EncodeColumnRefName_def LanceFilterIRSupportsLogicalType_def
      TryEncodeLanceFilterIRLiteral_def TryEncodeLanceExprIRLiteral_def)


text \<open>
  The same scan with one filter more, on a column that does not exist: in the plan it carries the
  column's number, in the scan the position of that column in the scan's list.
\<close>

definition stray_get :: LogicalGet where
  "stray_get = sample_get\<lparr>table_filters := table_filters sample_get @ [(7, Some IsNotNullFilter)]\<rparr>"

definition stray_input :: TableFunctionInitInput where
  "stray_input = \<lparr>column_ids = [1, 0, 7],
     filters = Some (the (filters sample_input) @ [(2, Some IsNotNullFilter)])\<rparr>"

lemma stray_probe:
  "\<exists>p. ProbeLanceTableFilterIR sample_duckdb stray_get (names sample_bind) (types sample_bind) = Inr p \<and>
     \<not> all_filters_pushed p"
  by (simp add: stray_get_def sample_defs ProbeLanceTableFilterIR_def not_pushed_def)

lemma stray_filter_parts:
  "\<exists>r. BuildLanceTableFilterIRParts sample_duckdb (names sample_bind) (types sample_bind) stray_input False = Inr r"
  by (simp add: stray_input_def sample_defs BuildLanceTableFilterIRParts_def build_part_def empty_result_def byte_defs
      filter_encoder_defs EncodeColumnRefName_def LanceFilterIRSupportsLogicalType_def
      TryEncodeLanceFilterIRLiteral_def TryEncodeLanceExprIRLiteral_def)

lemma length_map_filter: "\<forall>x \<in> set xs. f x \<noteq> None \<Longrightarrow> length (List.map_filter f xs) = length xs"
  by (induction xs) (auto simp: List.map_filter_simps)

text \<open>\<open>price IS NULL\<close>, as a predicate of the plan.\<close>

definition sample_predicate :: Expression where
  "sample_predicate = BoundOperator (SimpleType BOOLEAN) OPERATOR_IS_NULL
     [Some (BoundColumnRef (SimpleType INTEGER) \<lparr>table_index = 0, column_index = 0\<rparr> 0)]"

lemma sample_predicate_ir:
  "filter_ir sample_duckdb (column_ir sample_duckdb sample_get (names sample_bind) (types sample_bind) False) True
     sample_predicate = Some (IRIsNull (IRColumn [''price'']))"
  by (simp add: sample_predicate_def column_ir_def sample_get_def sample_bind_def column_segments_def
      LanceFilterIRSupportsLogicalType_def)

end
