(* ===== verification/Exec_Samples.thy ===== *)
theory Exec_Samples
  imports Exec_Correct Samples
begin

text \<open>
  Two aggregation queries over the table of \<open>Samples\<close>:
  \<open>SELECT name, count(*) FROM t GROUP BY name ORDER BY name\<close>, and the same query with the columns
  renamed by the projection above the aggregate, \<open>SELECT name AS k, count(*) AS k \<dots>\<close>.
\<close>

definition name_ref :: Expression where
  "name_ref = BoundColumnRef (SimpleType VARCHAR) \<lparr>table_index = 0, column_index = 1\<rparr> 0"

definition count_call :: Expression where
  "count_call = BoundAggregate (SimpleType BIGINT) ''count_star'' [] False False False"

definition sample_agg :: LogicalAggregate where
  "sample_agg = \<lparr>grouping_functions = [], grouping_sets = [], groups = [Some name_ref],
     expressions = [Some count_call], agg_children = [Some LogicalGetOp], group_index = 10, aggregate_index = 11\<rparr>"

definition output_ref :: "nat \<Rightarrow> nat \<Rightarrow> Expression" where
  "output_ref table i = BoundColumnRef (SimpleType VARCHAR) \<lparr>table_index = table, column_index = i\<rparr> 0"

definition sample_order :: "nat \<Rightarrow> BoundOrderByNode list" where
  "sample_order table = [\<lparr>order_type = ASCENDING, null_order = NULLS_LAST, order_expression = Some (output_ref table 0)\<rparr>]"

definition renaming :: LogicalProjection where
  "renaming = \<lparr>projection_table_index = 12, projection_expressions = [Some (output_ref 10 0), Some (output_ref 11 0)],
     projection_children = [Some LogicalGetOp]\<rparr>"

text \<open>Expressions over the scan are called after the column, the others by their alias.\<close>

definition sample_names :: duckdb where
  "sample_names = sample_duckdb\<lparr>GetName := (\<lambda>e. case e of
       BoundAggregate t f cs d h o1 \<Rightarrow> ''count_star()''
     | BoundColumnRef t bd depth \<Rightarrow> if table_index bd = 0 then ''name'' else ''k''
     | _ \<Rightarrow> ''expr'')\<rparr>"

lemmas exec_sample_defs = name_ref_def count_call_def sample_agg_def output_ref_def sample_order_def
  renaming_def sample_names_def sample_duckdb_def sample_get_def sample_bind_def

lemmas exec_eval = TryEncodeLanceExecIRv1_def collect_parts_def check_grouping_def encode_group_def encode_agg_def
  aggregate_call_def aggregate_argument_def TryMapAggFunc_def write_scan_column_def scan_projection_name_def
  write_body_def write_list_def write_group_def write_agg_def write_order_def WriteString_def WriteU8_def WriteU32_def
  WriteBytes_def apply_post_projection_def projected_output_def rename_output_def order_entry_def order_column_def
  empty_state_def add_columns_def IsExecIrPushdownableExpr.simps Let_def upt_conv_Cons string_bytes_def

lemma sample_plan_encodes:
  "\<exists>bs. TryEncodeLanceExecIRv1 sample_names False sample_get sample_bind [] [] [] sample_agg
     (Some (sample_order 10)) None = Done bs \<and> length bs < 2 ^ 64"
  by (simp add: exec_eval exec_sample_defs ascii_lower_def)

text \<open>The same query when the scan is asked for the first column as well.\<close>

lemma wide_plan_encodes:
  "\<exists>bs. TryEncodeLanceExecIRv1 sample_names False sample_get sample_bind [] [0] [] sample_agg
     (Some (sample_order 10)) None = Done bs"
  by (simp add: exec_eval exec_sample_defs ascii_lower_def)

lemma wide_plan_columns:
  assumes "exec_means sample_names sample_get sample_bind [] [0] [] sample_agg (Some (sample_order 10)) None x"
  shows "exec_columns x = {''name''}"
proof -
  have parts: "plan_parts sample_names sample_get sample_bind [0] [] sample_agg x"
    using assms by (simp add: exec_means_def)
  obtain gi gcols where gi: "x_groups x = [gi]" "group_means sample_names sample_get sample_bind [] (Some name_ref) gi gcols"
    using parts by (auto simp: plan_parts_def sample_agg_def list_all2_Cons1)
  obtain ai acols where ai: "x_aggs x = [ai]" "agg_means sample_names sample_get sample_bind [] (Some count_call) ai acols"
    using parts by (auto simp: plan_parts_def sample_agg_def list_all2_Cons1)
  have "denotes sample_names sample_get sample_bind [] 0 name_ref (g_expr gi) gcols"
    using gi(2) by (auto simp: group_means_def)
  then have "g_expr gi = ColumnRef ''name''"
    by (cases rule: denotes.cases)
      (auto simp: name_ref_def scan_column_def sample_get_def sample_bind_def Let_def split: if_splits)
  moreover have "a_args ai = []"
    using ai(2) by (auto simp: agg_means_def args_mean_def sample_names_def count_call_def aggregate_call_def
        aggregate_argument_def TryMapAggFunc_def sample_duckdb_def ascii_lower_def)
  ultimately show ?thesis using gi(1) ai(1) by (simp add: exec_columns_def)
qed

lemma both_columns:
  assumes "sorted idxs" "distinct idxs" "\<forall>i \<in> set idxs. i < length (names sample_bind)"
    and "set (map ((!) (names sample_bind)) idxs) = {''name'', ''price''}"
  shows "map ((!) (names sample_bind)) idxs = [''price'', ''name'']"
proof -
  have cases: "i = 0 \<or> i = Suc 0" if "i \<in> set idxs" for i
    using assms(3) that by (auto simp: sample_bind_def)
  have col: "\<exists>i \<in> set idxs. s = names sample_bind ! i" if "s \<in> {''name'', ''price''}" for s
    using that unfolding assms(4) [symmetric] by auto
  obtain i where i: "i \<in> set idxs" "''price'' = names sample_bind ! i" using col [of "''price''"] by blast
  have "i = 0" using cases [OF i(1)] i(2) by (elim disjE) (simp_all add: sample_bind_def)
  obtain j where j: "j \<in> set idxs" "''name'' = names sample_bind ! j" using col [of "''name''"] by blast
  have "j = Suc 0" using cases [OF j(1)] j(2) by (elim disjE) (simp_all add: sample_bind_def)
  have "set idxs = {0, Suc 0}" using cases i(1) j(1) \<open>i = 0\<close> \<open>j = Suc 0\<close> by blast
  then have "idxs = [0, Suc 0]" using assms(1,2) sorted_distinct_set_unique [of idxs "[0, Suc 0]"] by simp
  then show ?thesis by (simp add: sample_bind_def)
qed

lemma renamed_plan_encodes:
  "\<exists>bs. TryEncodeLanceExecIRv1 sample_names False sample_get sample_bind [] [] [] sample_agg
     (Some (sample_order 12)) (Some renaming) = Done bs \<and> length bs < 2 ^ 64"
  by (simp add: exec_eval exec_sample_defs ascii_lower_def)


lemma renamed_plan_shape:
  assumes "exec_means sample_names sample_get sample_bind [] [] [] sample_agg (Some (sample_order 12)) (Some renaming) x"
  shows "g_output_name ` set (x_groups x) \<union> a_output_name ` set (x_aggs x) = {''name'', ''count_star()''}"
    and "x_order_by x = [\<lparr>o_column = ''k'', o_asc = True, o_nulls_first = False\<rparr>]"
    and "exec_utf8 x"
proof -
  have parts: "plan_parts sample_names sample_get sample_bind [] [] sample_agg x"
    and order: "list_all2 (order_means sample_names sample_agg (Some renaming) x) (sample_order 12) (x_order_by x)"
    using assms by (simp_all add: exec_means_def)
  obtain gi gcols where gi: "x_groups x = [gi]" "group_means sample_names sample_get sample_bind [] (Some name_ref) gi gcols"
    using parts by (auto simp: plan_parts_def sample_agg_def list_all2_Cons1)
  obtain ai acols where ai: "x_aggs x = [ai]" "agg_means sample_names sample_get sample_bind [] (Some count_call) ai acols"
    using parts by (auto simp: plan_parts_def sample_agg_def list_all2_Cons1)
  have proj: "set (x_scan_projection x) \<subseteq> set (names sample_bind)"
    using plan_extra_columns [OF parts] by auto
  have g_name: "g_output_name gi = ''name''" and g_ir: "denotes sample_names sample_get sample_bind [] 0 name_ref (g_expr gi) gcols"
    using gi(2) by (auto simp: group_means_def sample_names_def name_ref_def)
  have a_name: "a_output_name ai = ''count_star()''" and a_args: "a_args ai = []"
    using ai(2) by (auto simp: agg_means_def args_mean_def sample_names_def count_call_def aggregate_call_def
        aggregate_argument_def TryMapAggFunc_def sample_duckdb_def ascii_lower_def)
  show "g_output_name ` set (x_groups x) \<union> a_output_name ` set (x_aggs x) = {''name'', ''count_star()''}"
    using gi ai g_name a_name by (simp add: insert_commute)
  show order': "x_order_by x = [\<lparr>o_column = ''k'', o_asc = True, o_nulls_first = False\<rparr>]"
    using order by (auto simp: sample_order_def list_all2_Cons1 order_means_def output_columns_def renaming_def
        sample_agg_def output_ref_def order_position_def sample_names_def split: if_splits)
  have "g_expr gi = ColumnRef ''name''"
    using g_ir by (cases rule: denotes.cases)
      (auto simp: name_ref_def scan_column_def sample_get_def sample_bind_def Let_def split: if_splits)
  then show "exec_utf8 x"
    using proj gi ai g_name a_name a_args order'
    by (auto simp: exec_utf8_def sample_bind_def utf8_string_def string_bytes_def list_all_iff)
qed

lemma renamed_plan_dangles:
  "\<exists>bs x. TryEncodeLanceExecIRv1 sample_names False sample_get sample_bind [] [] [] sample_agg
      (Some (sample_order 12)) (Some renaming) = Done bs \<and> parse_exec_ir_v1 bs = Inr x \<and>
    (\<exists>ob \<in> set (x_order_by x). o_column ob \<notin> g_output_name ` set (x_groups x) \<union> a_output_name ` set (x_aggs x))"
proof -
  obtain bs where bs: "TryEncodeLanceExecIRv1 sample_names False sample_get sample_bind [] [] [] sample_agg
      (Some (sample_order 12)) (Some renaming) = Done bs" "length bs < 2 ^ 64"
    using renamed_plan_encodes by blast
  obtain x where x: "exec_means sample_names sample_get sample_bind [] [] [] sample_agg (Some (sample_order 12)) (Some renaming) x"
      "bs = exec_bytes x" "exec_small x"
    using TryEncodeLanceExecIRv1_means [OF bs(1)] by blast
  have "parse_exec_ir_v1 bs = Inr x"
    using parse_exec_ir_v1_bytes exec_ok_small x(2,3) bs(2) renamed_plan_shape(3) [OF x(1)] by blast
  moreover have "\<lparr>o_column = ''k'', o_asc = True, o_nulls_first = False\<rparr> \<in> set (x_order_by x)"
    using renamed_plan_shape(2) [OF x(1)] by simp
  moreover have "''k'' \<notin> g_output_name ` set (x_groups x) \<union> a_output_name ` set (x_aggs x)"
    using renamed_plan_shape(1) [OF x(1)] by auto
  ultimately show ?thesis using bs(1) by force
qed

end
