(* ===== verification/Lance_Paths.thy ===== *)
theory Lance_Paths
  imports Duck_Types
begin

text \<open>
  Dataset paths (\<open>lance_common.cpp\<close>): the spelling of URI schemes, the identity under which a
  dataset path is opened and looked up among the secrets, and the redaction of paths and error
  texts that may carry credentials.  The Rust functions behind the C interface that classify
  and normalise a path are fields of the record \<open>lance_ffi\<close>; the file system of the host is a
  record of its own.
\<close>

section \<open>The functions called\<close>

record lance_ffi =
  lance_blob_normalize_uri :: "string \<Rightarrow> bool \<Rightarrow> string option"
  lance_vane_classify_path :: "string \<Rightarrow> byte"

record file_system =
  IsPathAbsolute :: "string \<Rightarrow> bool"
  PathSeparator :: "string \<Rightarrow> string"
  ExpandPath :: "string \<Rightarrow> string"
  JoinPath :: "string \<Rightarrow> string \<Rightarrow> string"
  GetWorkingDirectory :: string

text \<open>The thread's last error of the Rust library: its code, and the message if there is one.\<close>

record last_error =
  lance_last_error_code :: int
  lance_last_error_message :: "string option"

text \<open>\<open>std::to_string\<close> of a signed integer, and the prefix tests of \<open>StringUtil\<close>.\<close>

definition int_to_string :: "int \<Rightarrow> string" where
  "int_to_string n = (if n < 0 then CHR ''-'' # nat_to_string (nat (- n)) else nat_to_string (nat n))"

definition StartsWith :: "string \<Rightarrow> string \<Rightarrow> bool" where
  "StartsWith s p = prefix p s"

definition EndsWith :: "string \<Rightarrow> string \<Rightarrow> bool" where
  "EndsWith s p = suffix p s"


section \<open>The error text\<close>

text \<open>A read takes the error: afterwards there is none.\<close>

definition LanceConsumeLastError :: "last_error \<Rightarrow> string" where
  "LanceConsumeLastError err =
     (let code = lance_last_error_code err;
          message = (case lance_last_error_message err of None \<Rightarrow> '''' | Some m \<Rightarrow> m)
      in if code = 0 \<and> message = [] then ''''
         else if message = [] then ''code='' @ int_to_string code
         else if code = 0 then message
         else message @ '' (code='' @ int_to_string code @ '')'')"

definition LanceFormatErrorSuffix :: "last_error \<Rightarrow> string" where
  "LanceFormatErrorSuffix err =
     (let e = LanceConsumeLastError err
      in if e = [] then '''' else '' (Lance error: '' @ e @ '')'')"


section \<open>Schemes\<close>

definition IsLanceUriSchemeFirstChar :: "char \<Rightarrow> bool" where
  "IsLanceUriSchemeFirstChar c \<longleftrightarrow>
     (let n = of_char c :: nat in (65 \<le> n \<and> n \<le> 90) \<or> (97 \<le> n \<and> n \<le> 122))"

definition IsLanceUriSchemeChar :: "char \<Rightarrow> bool" where
  "IsLanceUriSchemeChar c \<longleftrightarrow>
     IsLanceUriSchemeFirstChar c \<or> is_digit c \<or> c = CHR ''+'' \<or> c = CHR ''-'' \<or> c = CHR ''.''"

definition LanceNormalizeUriScheme :: "string \<Rightarrow> string" where
  "LanceNormalizeUriScheme scope =
     (case find_sub ''://'' scope of
        None \<Rightarrow> scope
      | Some delimiter \<Rightarrow>
          if delimiter = 0 \<or> \<not> IsLanceUriSchemeFirstChar (hd scope) then scope
          else if \<exists>c \<in> set (drop 1 (take delimiter scope)). \<not> IsLanceUriSchemeChar c then scope
          else
            let scheme = map ascii_lower (take delimiter scope);
                scheme = (if scheme = ''s3a'' \<or> scheme = ''s3n'' then ''s3'' else scheme)
            in scheme @ drop delimiter scope)"

definition LanceNormalizeS3Scheme :: "duckdb \<Rightarrow> string \<Rightarrow> string" where
  "LanceNormalizeS3Scheme db path =
     (if length path \<ge> 5 \<and> CIEquals db (take 5 path) ''s3://'' then ''s3://'' @ drop 5 path
      else if length path \<ge> 6 \<and>
          (CIEquals db (take 6 path) ''s3a://'' \<or> CIEquals db (take 6 path) ''s3n://'')
        then ''s3://'' @ drop 6 path
      else path)"


section \<open>Dataset paths\<close>

text \<open>\<open>while (local.size() > 1 && local.back() == '/') local.pop_back();\<close>\<close>

function strip_slashes :: "string \<Rightarrow> string" where
  "strip_slashes s =
     (if length s > 1 \<and> last s = CHR ''/'' then strip_slashes (butlast s) else s)"
  by pat_completeness auto

termination
  by (relation "measure length") auto

declare strip_slashes.simps [simp del]

definition LanceNormalizeDatasetPath :: "duckdb \<Rightarrow> lance_ffi \<Rightarrow> string \<Rightarrow> exn + string" where
  "LanceNormalizeDatasetPath db ffi path =
     (if CHR 0x00 \<in> set path then Inl (InvalidInputException ''Invalid Lance dataset path'')
      else
        let normalized = LanceNormalizeUriScheme path;
            local_path =
              (case lance_blob_normalize_uri ffi normalized True of
                 None \<Rightarrow> Inl (InvalidInputException ''Invalid Lance dataset path'')
               | Some local \<Rightarrow> Inr (strip_slashes local))
        in case find_sub ''://'' normalized of
             None \<Rightarrow> local_path
           | Some delimiter \<Rightarrow>
               let scheme = StringLower db (take delimiter normalized)
               in if scheme \<noteq> ''file'' \<and> scheme \<noteq> ''file-object-store'' \<and> scheme \<noteq> ''file+uring''
                  then case lance_blob_normalize_uri ffi normalized False of
                         None \<Rightarrow> Inr normalized
                       | Some remote \<Rightarrow> Inr remote
                  else local_path)"

definition LanceNormalizeStorageSecretScope ::
    "duckdb \<Rightarrow> lance_ffi \<Rightarrow> file_system \<Rightarrow> string \<Rightarrow> exn + string" where
  "LanceNormalizeStorageSecretScope db ffi fs scope =
     (if scope = [] then Inr scope
      else res_bind (LanceNormalizeDatasetPath db ffi scope) (\<lambda>normalized.
        if \<not> IsPathAbsolute fs normalized then Inr normalized
        else
          let separator = PathSeparator fs normalized;
              directory = EndsWith scope ''/'' \<or> EndsWith scope separator;
              directory =
                (if find_sub ''://'' scope \<noteq> None \<and> length scope \<ge> 3
                 then let suffix = StringLower db (drop (length scope - 3) scope)
                      in directory \<or> suffix = ''%2f'' \<or> (separator = [CHR 0x5C] \<and> suffix = ''%5c'')
                 else directory)
          in Inr (if directory \<and> \<not> EndsWith normalized separator
                  then normalized @ separator else normalized)))"


section \<open>Classification and redaction\<close>

definition LANCE_VANE_PATH_IS_URI :: byte where
  "LANCE_VANE_PATH_IS_URI = push_bit 0 1"
definition LANCE_VANE_PATH_HAS_PRIVATE_COMPONENTS :: byte where
  "LANCE_VANE_PATH_HAS_PRIVATE_COMPONENTS = push_bit 1 1"
definition LANCE_VANE_PATH_IS_PROCESS_LOCAL :: byte where
  "LANCE_VANE_PATH_IS_PROCESS_LOCAL = push_bit 2 1"
definition LANCE_VANE_PATH_INVALID :: byte where
  "LANCE_VANE_PATH_INVALID = push_bit 3 1"
definition LANCE_VANE_PATH_IS_LANCE_DATASET :: byte where
  "LANCE_VANE_PATH_IS_LANCE_DATASET = push_bit 4 1"
definition LANCE_VANE_PATH_IS_REMOTE :: byte where
  "LANCE_VANE_PATH_IS_REMOTE = push_bit 5 1"

lemmas path_flags =
  LANCE_VANE_PATH_IS_URI_def LANCE_VANE_PATH_HAS_PRIVATE_COMPONENTS_def
  LANCE_VANE_PATH_IS_PROCESS_LOCAL_def LANCE_VANE_PATH_INVALID_def
  LANCE_VANE_PATH_IS_LANCE_DATASET_def LANCE_VANE_PATH_IS_REMOTE_def

definition LanceVaneClassifyPath :: "lance_ffi \<Rightarrow> string \<Rightarrow> byte" where
  "LanceVaneClassifyPath ffi path = lance_vane_classify_path ffi path"

definition LanceVanePathHasPrivateUriComponents :: "lance_ffi \<Rightarrow> string \<Rightarrow> bool" where
  "LanceVanePathHasPrivateUriComponents ffi path \<longleftrightarrow>
     LanceVaneClassifyPath ffi path AND
       (LANCE_VANE_PATH_HAS_PRIVATE_COMPONENTS OR LANCE_VANE_PATH_INVALID) \<noteq> 0"

definition LanceVanePathIsRemote :: "lance_ffi \<Rightarrow> string \<Rightarrow> bool" where
  "LanceVanePathIsRemote ffi path \<longleftrightarrow>
     LanceVaneClassifyPath ffi path AND LANCE_VANE_PATH_IS_REMOTE \<noteq> 0"

definition LanceVanePathIsLanceDataset :: "lance_ffi \<Rightarrow> string \<Rightarrow> bool" where
  "LanceVanePathIsLanceDataset ffi path \<longleftrightarrow>
     LanceVaneClassifyPath ffi path AND LANCE_VANE_PATH_IS_LANCE_DATASET \<noteq> 0"

definition LanceVaneDiagnosticPath :: "lance_ffi \<Rightarrow> string \<Rightarrow> bool \<Rightarrow> string" where
  "LanceVaneDiagnosticPath ffi path force_redaction =
     (if force_redaction \<or> LanceVanePathHasPrivateUriComponents ffi path \<or>
         LanceVanePathIsRemote ffi path
      then ''<redacted-private-uri>'' else path)"

definition LanceVaneFormatErrorSuffix :: "lance_ffi \<Rightarrow> last_error \<Rightarrow> string \<Rightarrow> bool \<Rightarrow> string" where
  "LanceVaneFormatErrorSuffix ffi err path force_redaction =
     (if \<not> force_redaction \<and> \<not> LanceVanePathHasPrivateUriComponents ffi path \<and>
         \<not> LanceVanePathIsRemote ffi path
      then LanceFormatErrorSuffix err
      else let e = LanceConsumeLastError err
           in if e = [] then '''' else '' (Lance error details redacted)'')"

text \<open>The path a worker may be sent, or the empty string.\<close>

definition LanceVaneReplayPath :: "lance_ffi \<Rightarrow> file_system \<Rightarrow> string \<Rightarrow> string" where
  "LanceVaneReplayPath ffi fs path =
     (if CHR 0x00 \<in> set path then ''''
      else
        let classification = LanceVaneClassifyPath ffi path
        in if classification AND
               (LANCE_VANE_PATH_HAS_PRIVATE_COMPONENTS OR
                LANCE_VANE_PATH_IS_PROCESS_LOCAL OR LANCE_VANE_PATH_INVALID) \<noteq> 0 then ''''
           else if classification AND LANCE_VANE_PATH_IS_URI = 0 then
             let expanded = ExpandPath fs path
             in if IsPathAbsolute fs expanded then expanded
                else JoinPath fs (GetWorkingDirectory fs) expanded
           else path)"


section \<open>Namespace tables\<close>

datatype LanceNamespaceKind = Directory | Rest

record LanceNamespaceTableConfig =
  kind :: LanceNamespaceKind
  root :: string
  option_keys :: "string list"
  option_values :: "string list"
  uses_coordinator_storage_secret :: bool
  distributed_replay_path_restricted :: bool
  uses_coordinator_auth_secret :: bool
  endpoint :: string
  table_id :: string
  delimiter :: string
  bearer_token_override :: string
  api_key_override :: string
  headers_tsv :: string
  display_uri :: string
  snapshot_version :: u64

definition IsDirectory :: "LanceNamespaceTableConfig \<Rightarrow> bool" where
  "IsDirectory cfg \<longleftrightarrow> kind cfg = Directory"

text \<open>A catalog entry: the dataset URI, and the namespace it was found through, if any.\<close>

record LanceTableEntry =
  DatasetUri :: string
  NamespaceConfig :: "LanceNamespaceTableConfig option"

definition LanceDirectoryNamespaceDatasetUri :: "duckdb \<Rightarrow> LanceNamespaceTableConfig \<Rightarrow> string" where
  "LanceDirectoryNamespaceDatasetUri db cfg =
     (if display_uri cfg \<noteq> [] then LanceNormalizeS3Scheme db (display_uri cfg)
      else
        let child = table_id cfg;
            child = (if EndsWith child ''.lance'' then child else child @ ''.lance'');
            uri =
              (if root cfg = [] then child
               else if last (root cfg) = CHR ''/'' \<or> last (root cfg) = CHR 0x5C then root cfg @ child
               else root cfg @ ''/'' @ child)
        in LanceNormalizeS3Scheme db uri)"

definition LanceVaneTablePathRequiresRedaction :: "lance_ffi \<Rightarrow> LanceTableEntry \<Rightarrow> string \<Rightarrow> bool" where
  "LanceVaneTablePathRequiresRedaction ffi table path =
     (if LanceVanePathHasPrivateUriComponents ffi path \<or>
         LanceVanePathHasPrivateUriComponents ffi (DatasetUri table) \<or>
         LanceVanePathIsRemote ffi path \<or> LanceVanePathIsRemote ffi (DatasetUri table)
      then True
      else case NamespaceConfig table of
        None \<Rightarrow> False
      | Some cfg \<Rightarrow>
          if IsDirectory cfg then
            distributed_replay_path_restricted cfg \<or> uses_coordinator_storage_secret cfg \<or>
            option_keys cfg \<noteq> [] \<or>
            LanceVanePathHasPrivateUriComponents ffi (root cfg) \<or>
            LanceVanePathHasPrivateUriComponents ffi (display_uri cfg) \<or>
            LanceVanePathIsRemote ffi (root cfg) \<or> LanceVanePathIsRemote ffi (display_uri cfg)
          else True)"

definition LanceVaneTableDiagnosticPath :: "lance_ffi \<Rightarrow> LanceTableEntry \<Rightarrow> string \<Rightarrow> string" where
  "LanceVaneTableDiagnosticPath ffi table path =
     LanceVaneDiagnosticPath ffi path (LanceVaneTablePathRequiresRedaction ffi table path)"

definition LanceVaneTableFormatErrorSuffix ::
    "lance_ffi \<Rightarrow> last_error \<Rightarrow> LanceTableEntry \<Rightarrow> string \<Rightarrow> string" where
  "LanceVaneTableFormatErrorSuffix ffi err table path =
     LanceVaneFormatErrorSuffix ffi err path (LanceVaneTablePathRequiresRedaction ffi table path)"

end
