(* ===== verification/Storage_Options.thy ===== *)
theory Storage_Options
  imports Lance_Paths "HOL-Library.Multiset" "HOL-Library.Char_ord" "HOL-Library.List_Lexorder"
    "HOL-Library.Product_Lexorder"
begin

text \<open>
  Storage options and credentials (\<open>lance_common.cpp\<close>): which options a dataset is opened with,
  taken from the matching secret, from the connection's \<open>s3_*\<close> settings or from neither; how
  options under several names are reduced to one; and how the credentials of a REST namespace
  are chosen.  Two builds exist: \<open>vane\<close> says whether \<open>LANCE_VANE_DISTRIBUTED\<close> is defined; code
  that exists in that build alone does not take the flag.
\<close>

section \<open>What is read of the connection\<close>

datatype SettingScope = LOCAL | GLOBAL | SECRET | INVALID

text \<open>A secret lookup: no usable entry, a secret of another class, or a key/value secret.\<close>

datatype SecretMatch = NoMatch | OtherSecret | KeyValueSecret "(string \<times> Value) list"

record client =
  TryGetCurrentSetting :: "string \<Rightarrow> (Value \<times> SettingScope) option"
  getenv :: "string \<Rightarrow> string option"
  LookupSecret :: "string \<Rightarrow> string \<Rightarrow> SecretMatch"
  TryGetValue :: "(string \<times> Value) list \<Rightarrow> string \<Rightarrow> Value"
  ToString :: "Value \<Rightarrow> string"

fun string_payload :: "Value option \<Rightarrow> exn + string" where
  "string_payload (Some (VarcharValue s)) = Inr s"
| "string_payload r = Inl CastError"

fun bool_payload :: "Value option \<Rightarrow> exn + bool" where
  "bool_payload (Some (BooleanValue b)) = Inr b"
| "bool_payload r = Inl CastError"

definition cast_string :: "duckdb \<Rightarrow> Value \<Rightarrow> exn + string" where
  "cast_string db v = string_payload (DefaultCastAs db v (SimpleType VARCHAR))"

definition cast_bool :: "duckdb \<Rightarrow> Value \<Rightarrow> exn + bool" where
  "cast_bool db v = bool_payload (DefaultCastAs db v (SimpleType BOOLEAN))"

text \<open>The two parallel vectors of option names and values.\<close>

type_synonym options = "string list \<times> string list"

definition push_option :: "options \<Rightarrow> string \<Rightarrow> string \<Rightarrow> options" where
  "push_option os key val = (fst os @ [key], snd os @ [val])"

definition no_options :: options where
  "no_options = ([], [])"


section \<open>Options of a secret\<close>

definition SecretValueToString :: "client \<Rightarrow> Value \<Rightarrow> string" where
  "SecretValueToString cl v = (if is_null v then '''' else ToString cl v)"

fun append_secret_entries :: "client \<Rightarrow> (string \<times> Value) list \<Rightarrow> options \<Rightarrow> options" where
  "append_secret_entries cl [] os = os"
| "append_secret_entries cl ((k, v) # kvs) os =
     append_secret_entries cl kvs (if is_null v then os else push_option os k (ToString cl v))"

definition FillStorageOptionsFromSecrets ::
    "duckdb \<Rightarrow> lance_ffi \<Rightarrow> client \<Rightarrow> string \<Rightarrow> options \<Rightarrow> exn + options" where
  "FillStorageOptionsFromSecrets db ffi cl path os =
     res_bind (LanceNormalizeDatasetPath db ffi path) (\<lambda>lookup_path.
       case LookupSecret cl lookup_path ''lance'' of
         KeyValueSecret kvs \<Rightarrow> Inr (append_secret_entries cl kvs os)
       | _ \<Rightarrow> Inr os)"

definition LanceHasMatchingStorageSecret ::
    "duckdb \<Rightarrow> lance_ffi \<Rightarrow> client \<Rightarrow> string \<Rightarrow> exn + bool" where
  "LanceHasMatchingStorageSecret db ffi cl path =
     res_bind (LanceNormalizeDatasetPath db ffi path) (\<lambda>normalized_path.
       case LookupSecret cl normalized_path ''lance'' of
         KeyValueSecret kvs \<Rightarrow> Inr (\<exists>kv \<in> set kvs. \<not> is_null (snd kv))
       | _ \<Rightarrow> Inr False)"

definition ResolveLanceStorageOptions ::
    "duckdb \<Rightarrow> lance_ffi \<Rightarrow> client \<Rightarrow> string \<Rightarrow> exn + (string \<times> options)" where
  "ResolveLanceStorageOptions db ffi cl path =
     res_bind (LanceNormalizeDatasetPath db ffi path) (\<lambda>out_open_path.
       let out_open_path = LanceNormalizeS3Scheme db out_open_path
       in res_bind (FillStorageOptionsFromSecrets db ffi cl out_open_path no_options) (\<lambda>os.
            Inr (out_open_path, os)))"


section \<open>The S3 settings of the connection\<close>

definition AWS_ENVIRONMENT_KEYS :: "string list" where
  "AWS_ENVIRONMENT_KEYS =
     [''AWS_ACCESS_KEY_ID'', ''AWS_SECRET_ACCESS_KEY'', ''AWS_SESSION_TOKEN'', ''AWS_REGION'',
      ''AWS_DEFAULT_REGION'', ''AWS_ENDPOINT_URL'', ''AWS_PROFILE'',
      ''AWS_SHARED_CREDENTIALS_FILE'', ''AWS_CONFIG_FILE'', ''AWS_WEB_IDENTITY_TOKEN_FILE'',
      ''AWS_ROLE_ARN'', ''AWS_CONTAINER_CREDENTIALS_RELATIVE_URI'',
      ''AWS_CONTAINER_CREDENTIALS_FULL_URI'']"

definition ProcessHasLanceS3Environment :: "client \<Rightarrow> bool" where
  "ProcessHasLanceS3Environment cl \<longleftrightarrow>
     (\<exists>key \<in> set AWS_ENVIRONMENT_KEYS. getenv cl key \<noteq> None \<and> getenv cl key \<noteq> Some [])"

text \<open>
  The return value and the two out parameters of \<open>TryGetLanceS3Setting\<close>: a setting that is there
  but empty is not found, yet its scope is reported.
\<close>

record s3_setting =
  found :: bool
  out_value :: string
  out_scope :: SettingScope

definition TryGetLanceS3Setting :: "duckdb \<Rightarrow> client \<Rightarrow> string \<Rightarrow> bool \<Rightarrow> exn + s3_setting" where
  "TryGetLanceS3Setting db cl name accept_empty_local =
     (case TryGetCurrentSetting cl name of
        None \<Rightarrow> Inr \<lparr>found = False, out_value = [], out_scope = INVALID\<rparr>
      | Some (v, scope) \<Rightarrow>
          if is_null v then Inr \<lparr>found = False, out_value = [], out_scope = INVALID\<rparr>
          else res_bind (cast_string db v) (\<lambda>s.
            Inr \<lparr>found = (if s = [] then accept_empty_local \<and> scope = LOCAL else True),
                 out_value = s, out_scope = scope\<rparr>))"

definition LanceS3EnvironmentValue :: "client \<Rightarrow> string \<Rightarrow> string" where
  "LanceS3EnvironmentValue cl name = (case getenv cl name of None \<Rightarrow> [] | Some v \<Rightarrow> v)"

text \<open>Both callers reject half a connection-local credential pair the same way.\<close>

definition check_local_pair :: "s3_setting \<Rightarrow> s3_setting \<Rightarrow> exn + bool" where
  "check_local_pair access secret =
     (let has_local_access_key = (out_scope access = LOCAL);
          has_local_secret_key = (out_scope secret = LOCAL)
      in if has_local_access_key \<noteq> has_local_secret_key then
           Inl (InvalidInputException
             ''Connection-local S3 credentials must set both s3_access_key_id and s3_secret_access_key'')
         else if has_local_access_key \<and> (\<not> found access \<or> \<not> found secret) then
           Inl (InvalidInputException
             ''Connection-local S3 access and secret keys must be non-empty'')
         else Inr has_local_access_key)"

definition pair_differs_from_process :: "client \<Rightarrow> s3_setting \<Rightarrow> s3_setting \<Rightarrow> bool" where
  "pair_differs_from_process cl access secret \<longleftrightarrow>
     found access \<and> found secret \<and>
     (out_value access \<noteq> LanceS3EnvironmentValue cl ''AWS_ACCESS_KEY_ID'' \<or>
      out_value secret \<noteq> LanceS3EnvironmentValue cl ''AWS_SECRET_ACCESS_KEY'')"

definition region_differs_from_process :: "client \<Rightarrow> s3_setting \<Rightarrow> bool" where
  "region_differs_from_process cl region \<longleftrightarrow>
     found region \<and>
     (let environment_region = LanceS3EnvironmentValue cl ''AWS_REGION'';
          environment_region =
            (if environment_region = [] then LanceS3EnvironmentValue cl ''AWS_DEFAULT_REGION''
             else environment_region)
      in out_value region \<noteq> environment_region)"

definition LanceS3SettingsOverrideProcessEnvironment :: "duckdb \<Rightarrow> client \<Rightarrow> exn + bool" where
  "LanceS3SettingsOverrideProcessEnvironment db cl =
     res_bind (TryGetLanceS3Setting db cl ''s3_endpoint'' False) (\<lambda>endpoint.
     if found endpoint then Inr True
     else
     res_bind (TryGetLanceS3Setting db cl ''s3_access_key_id'' False) (\<lambda>access.
     res_bind (TryGetLanceS3Setting db cl ''s3_secret_access_key'' False) (\<lambda>secret.
     res_bind (check_local_pair access secret) (\<lambda>local_pair.
     if local_pair then Inr True
     else if pair_differs_from_process cl access secret then Inr True
     else
     res_bind (TryGetLanceS3Setting db cl ''s3_session_token'' True) (\<lambda>token.
     if found token \<and>
        (out_scope token = LOCAL \<or>
         out_value token \<noteq> LanceS3EnvironmentValue cl ''AWS_SESSION_TOKEN'') then Inr True
     else
     res_bind (TryGetLanceS3Setting db cl ''s3_region'' False) (\<lambda>region.
     if region_differs_from_process cl region then Inr True
     else
     res_bind (TryGetLanceS3Setting db cl ''s3_url_style'' False) (\<lambda>url_style.
     if found url_style \<and> \<not> CIEquals db (out_value url_style) ''vhost'' then Inr True
     else
     res_bind (TryGetLanceS3Setting db cl ''s3_use_ssl'' False) (\<lambda>use_ssl.
     Inr (found use_ssl \<and> \<not> CIEquals db (out_value use_ssl) ''true'')))))))))"

definition AppendLanceStorageOption :: "options \<Rightarrow> string \<Rightarrow> string \<Rightarrow> options" where
  "AppendLanceStorageOption os key val = (if val = [] then os else push_option os key val)"

text \<open>Is the session token the one the process inherited, and not one of the static pair's own?\<close>

definition token_belongs_to_process_environment ::
    "client \<Rightarrow> s3_setting \<Rightarrow> s3_setting \<Rightarrow> s3_setting \<Rightarrow> bool" where
  "token_belongs_to_process_environment cl access secret token \<longleftrightarrow>
     (let process_session_token = LanceS3EnvironmentValue cl ''AWS_SESSION_TOKEN'';
          static_credentials_override_process_environment = pair_differs_from_process cl access secret
      in found access \<and> found secret \<and> found token \<and>
         ((out_scope access = LOCAL \<and> out_scope secret = LOCAL \<and> out_scope token = GLOBAL) \<or>
          (static_credentials_override_process_environment \<and> process_session_token \<noteq> [] \<and>
           out_value token = process_session_token)))"

definition append_session_token ::
    "client \<Rightarrow> s3_setting \<Rightarrow> s3_setting \<Rightarrow> s3_setting \<Rightarrow> options \<Rightarrow> options" where
  "append_session_token cl access secret token os =
     (if found token \<and> \<not> token_belongs_to_process_environment cl access secret token then
        if out_scope token = LOCAL then push_option os ''aws_session_token'' (out_value token)
        else AppendLanceStorageOption os ''aws_session_token'' (out_value token)
      else os)"

definition use_ssl_setting :: "duckdb \<Rightarrow> client \<Rightarrow> exn + bool" where
  "use_ssl_setting db cl =
     (case TryGetCurrentSetting cl ''s3_use_ssl'' of
        None \<Rightarrow> Inr True
      | Some (v, scope) \<Rightarrow> if is_null v then Inr True else cast_bool db v)"

definition append_endpoint :: "duckdb \<Rightarrow> client \<Rightarrow> s3_setting \<Rightarrow> options \<Rightarrow> exn + options" where
  "append_endpoint db cl setting os =
     (if found setting then
        res_bind (use_ssl_setting db cl) (\<lambda>use_ssl.
          let endpoint = out_value setting;
              endpoint =
                (if find_sub ''://'' endpoint = None
                 then (if use_ssl then ''https://'' else ''http://'') @ endpoint else endpoint);
              os = AppendLanceStorageOption os ''aws_endpoint'' endpoint
          in Inr (if StartsWith (StringLower db endpoint) ''http://''
                  then AppendLanceStorageOption os ''allow_http'' ''true'' else os))
      else Inr os)"

definition append_url_style :: "duckdb \<Rightarrow> s3_setting \<Rightarrow> options \<Rightarrow> options" where
  "append_url_style db url_style os =
     (if found url_style then
        if CIEquals db (out_value url_style) ''path'' then
          AppendLanceStorageOption os ''aws_virtual_hosted_style_request'' ''false''
        else if CIEquals db (out_value url_style) ''vhost'' then
          AppendLanceStorageOption os ''aws_virtual_hosted_style_request'' ''true''
        else os
      else os)"

definition FillLanceStorageOptionsFromDuckDBS3Settings ::
    "duckdb \<Rightarrow> client \<Rightarrow> options \<Rightarrow> exn + options" where
  "FillLanceStorageOptionsFromDuckDBS3Settings db cl os =
     res_bind (TryGetLanceS3Setting db cl ''s3_access_key_id'' False) (\<lambda>access.
     res_bind (TryGetLanceS3Setting db cl ''s3_secret_access_key'' False) (\<lambda>secret.
     res_bind (TryGetLanceS3Setting db cl ''s3_session_token'' True) (\<lambda>token.
     res_bind (check_local_pair access secret) (\<lambda>local_pair.
     res_bind (TryGetLanceS3Setting db cl ''s3_region'' False) (\<lambda>region.
       let os = AppendLanceStorageOption os ''aws_access_key_id'' (out_value access);
           os = AppendLanceStorageOption os ''aws_secret_access_key'' (out_value secret);
           os = append_session_token cl access secret token os;
           os = AppendLanceStorageOption os ''aws_region'' (out_value region)
       in
     res_bind (TryGetLanceS3Setting db cl ''s3_endpoint'' False) (\<lambda>endpoint.
     res_bind (append_endpoint db cl endpoint os) (\<lambda>os.
     res_bind (TryGetLanceS3Setting db cl ''s3_url_style'' False) (\<lambda>url_style.
     Inr (append_url_style db url_style os)))))))))"


section \<open>One name per option\<close>

definition IsLanceS3StorageOptionAlias :: "duckdb \<Rightarrow> string \<Rightarrow> bool" where
  "IsLanceS3StorageOptionAlias db key \<longleftrightarrow>
     CIEquals db key ''access_key_id'' \<or> CIEquals db key ''secret_access_key'' \<or>
     CIEquals db key ''session_token'' \<or> CIEquals db key ''region'' \<or>
     CIEquals db key ''endpoint'' \<or> CIEquals db key ''virtual_hosted_style_request''"

definition CanonicalLanceS3StorageOptionKey :: "duckdb \<Rightarrow> string \<Rightarrow> string" where
  "CanonicalLanceS3StorageOptionKey db key =
     (if CIEquals db key ''access_key_id'' \<or> CIEquals db key ''aws_access_key_id''
        then ''aws_access_key_id''
      else if CIEquals db key ''secret_access_key'' \<or> CIEquals db key ''aws_secret_access_key''
        then ''aws_secret_access_key''
      else if CIEquals db key ''session_token'' \<or> CIEquals db key ''aws_session_token''
        then ''aws_session_token''
      else if CIEquals db key ''region'' \<or> CIEquals db key ''aws_region'' then ''aws_region''
      else if CIEquals db key ''endpoint'' \<or> CIEquals db key ''aws_endpoint'' then ''aws_endpoint''
      else if CIEquals db key ''virtual_hosted_style_request'' \<or>
          CIEquals db key ''aws_virtual_hosted_style_request''
        then ''aws_virtual_hosted_style_request''
      else key)"

definition has_explicit_canonical :: "duckdb \<Rightarrow> string list \<Rightarrow> string \<Rightarrow> bool" where
  "has_explicit_canonical db keys canonical_key \<longleftrightarrow>
     (\<exists>candidate \<in> set keys.
        \<not> IsLanceS3StorageOptionAlias db candidate \<and> CIEquals db candidate canonical_key)"

text \<open>The loop over the index of both vectors.\<close>

fun canonicalize_loop ::
    "duckdb \<Rightarrow> string list \<Rightarrow> (string \<times> string) list \<Rightarrow> options \<Rightarrow> options" where
  "canonicalize_loop db keys [] os = os"
| "canonicalize_loop db keys ((k, v) # kvs) os =
     canonicalize_loop db keys kvs
       (let canonical_key = CanonicalLanceS3StorageOptionKey db k
        in if IsLanceS3StorageOptionAlias db k \<and> has_explicit_canonical db keys canonical_key
           then os else push_option os canonical_key v)"

definition CanonicalizeLanceS3StorageOptions :: "duckdb \<Rightarrow> options \<Rightarrow> options" where
  "CanonicalizeLanceS3StorageOptions db os =
     canonicalize_loop db (fst os) (zip (fst os) (snd os)) no_options"


section \<open>What a distributed read is opened with\<close>

definition LanceCaptureBlobSessionOptions :: "duckdb \<Rightarrow> client \<Rightarrow> options \<Rightarrow> exn + options" where
  "LanceCaptureBlobSessionOptions db cl os =
     res_bind
       (if ProcessHasLanceS3Environment cl
        then res_bind (LanceS3SettingsOverrideProcessEnvironment db cl) (\<lambda>override. Inr (\<not> override))
        else Inr False)
       (\<lambda>keep_environment.
          if keep_environment then Inr os
          else FillLanceStorageOptionsFromDuckDBS3Settings db cl os)"

definition ResolveLanceStorageOptionsForDistributedRead ::
    "duckdb \<Rightarrow> lance_ffi \<Rightarrow> client \<Rightarrow> string \<Rightarrow> exn + (string \<times> options)" where
  "ResolveLanceStorageOptionsForDistributedRead db ffi cl path =
     res_bind (ResolveLanceStorageOptions db ffi cl path) (\<lambda>(out_open_path, os).
       if \<not> StartsWith out_open_path ''s3://'' then Inr (out_open_path, os)
       else
         let os = CanonicalizeLanceS3StorageOptions db os
         in if fst os = [] then
              res_bind
                (if ProcessHasLanceS3Environment cl
                 then res_bind (LanceS3SettingsOverrideProcessEnvironment db cl)
                        (\<lambda>override. Inr (\<not> override))
                 else Inr False)
                (\<lambda>keep_environment.
                   if keep_environment then Inr (out_open_path, os)
                   else res_bind (FillLanceStorageOptionsFromDuckDBS3Settings db cl os) (\<lambda>os.
                          Inr (out_open_path, os)))
            else Inr (out_open_path, os))"

definition resolve_for_read ::
    "bool \<Rightarrow> duckdb \<Rightarrow> lance_ffi \<Rightarrow> client \<Rightarrow> string \<Rightarrow> exn + (string \<times> options)" where
  "resolve_for_read vane db ffi cl path =
     (if vane then ResolveLanceStorageOptionsForDistributedRead db ffi cl path
      else ResolveLanceStorageOptions db ffi cl path)"

definition LanceVanePathRequiresRedaction ::
    "duckdb \<Rightarrow> lance_ffi \<Rightarrow> client \<Rightarrow> string \<Rightarrow> exn + bool" where
  "LanceVanePathRequiresRedaction db ffi cl path =
     (if LanceVaneClassifyPath ffi path AND
         (LANCE_VANE_PATH_HAS_PRIVATE_COMPONENTS OR LANCE_VANE_PATH_INVALID OR
          LANCE_VANE_PATH_IS_REMOTE) \<noteq> 0
      then Inr True
      else res_bind (ResolveLanceStorageOptionsForDistributedRead db ffi cl path)
             (\<lambda>(open_path, os). Inr (fst os \<noteq> [])))"

definition LanceVaneDirectoryNamespaceSessionMatches ::
    "duckdb \<Rightarrow> lance_ffi \<Rightarrow> client \<Rightarrow> LanceNamespaceTableConfig \<Rightarrow> exn + bool" where
  "LanceVaneDirectoryNamespaceSessionMatches db ffi cl config =
     res_bind (ResolveLanceStorageOptionsForDistributedRead db ffi cl (root config))
       (\<lambda>(current_root, current_keys, current_values).
          if current_root \<noteq> root config \<or> length current_keys \<noteq> length current_values \<or>
             length (option_keys config) \<noteq> length (option_values config)
          then Inr False
          else Inr (sort (zip current_keys current_values) =
                    sort (zip (option_keys config) (option_values config))))"

definition BuildStorageOptionPointerArrays :: "options \<Rightarrow> exn + options" where
  "BuildStorageOptionPointerArrays os =
     (if length (fst os) \<noteq> length (snd os)
      then Inl (InternalException ''Storage option keys/values size mismatch for Lance'')
      else Inr os)"


section \<open>Namespace credentials\<close>

record namespace_auth =
  bearer_token :: string
  api_key :: string

definition FillLanceNamespaceAuthFromSecrets :: "bool \<Rightarrow> client \<Rightarrow> string \<Rightarrow> namespace_auth" where
  "FillLanceNamespaceAuthFromSecrets vane cl endpoint_uri =
     (case LookupSecret cl (if vane then LanceNormalizeUriScheme endpoint_uri else endpoint_uri)
             ''lance_namespace'' of
        KeyValueSecret kvs \<Rightarrow>
          let token = SecretValueToString cl (TryGetValue cl kvs ''token'');
              bearer = SecretValueToString cl (TryGetValue cl kvs ''bearer_token'')
          in \<lparr>bearer_token =
                (if vane then if bearer \<noteq> [] then bearer else token
                 else if token = [] then bearer else token),
              api_key = SecretValueToString cl (TryGetValue cl kvs ''api_key'')\<rparr>
      | _ \<Rightarrow> \<lparr>bearer_token = [], api_key = []\<rparr>)"

definition ApplyAuthOverrideValue :: "duckdb \<Rightarrow> Value \<Rightarrow> string \<Rightarrow> exn + string" where
  "ApplyAuthOverrideValue db v out =
     (if is_null v then Inr out
      else res_bind (cast_string db v) (\<lambda>s. Inr (if s \<noteq> [] then s else out)))"

definition apply_bearer :: "duckdb \<Rightarrow> Value \<Rightarrow> namespace_auth \<Rightarrow> exn + namespace_auth" where
  "apply_bearer db v auth =
     res_bind (ApplyAuthOverrideValue db v (bearer_token auth)) (\<lambda>s. Inr (auth\<lparr>bearer_token := s\<rparr>))"

definition apply_api_key :: "duckdb \<Rightarrow> Value \<Rightarrow> namespace_auth \<Rightarrow> exn + namespace_auth" where
  "apply_api_key db v auth =
     res_bind (ApplyAuthOverrideValue db v (api_key auth)) (\<lambda>s. Inr (auth\<lparr>api_key := s\<rparr>))"

definition apply_if :: "('v \<Rightarrow> 'a \<Rightarrow> exn + 'a) \<Rightarrow> 'v option \<Rightarrow> 'a \<Rightarrow> exn + 'a" where
  "apply_if f p auth = (case p of None \<Rightarrow> Inr auth | Some v \<Rightarrow> f v auth)"

record auth_aliases =
  alias_token :: "Value option"
  alias_bearer :: "Value option"
  alias_api_key :: "Value option"

text \<open>The distributed build's pass over the map: the last entry of each spelling is kept.\<close>

fun collect_aliases :: "duckdb \<Rightarrow> (string \<times> Value) list \<Rightarrow> auth_aliases \<Rightarrow> auth_aliases" where
  "collect_aliases db [] a = a"
| "collect_aliases db ((k, v) # kvs) a =
     collect_aliases db kvs
       (if CIEquals db k ''token'' then a\<lparr>alias_token := Some v\<rparr>
        else if CIEquals db k ''bearer_token'' then a\<lparr>alias_bearer := Some v\<rparr>
        else if CIEquals db k ''api_key'' then a\<lparr>alias_api_key := Some v\<rparr>
        else a)"

text \<open>The other build applies each entry as the iteration meets it.\<close>

definition apply_entry :: "duckdb \<Rightarrow> namespace_auth \<Rightarrow> string \<times> Value \<Rightarrow> exn + namespace_auth" where
  "apply_entry db auth kv =
     (if CIEquals db (fst kv) ''token'' \<or> CIEquals db (fst kv) ''bearer_token''
        then apply_bearer db (snd kv) auth
      else if CIEquals db (fst kv) ''api_key'' then apply_api_key db (snd kv) auth
      else Inr auth)"

definition ResolveLanceNamespaceAuthOverrides ::
    "bool \<Rightarrow> duckdb \<Rightarrow> (string \<times> Value) list \<Rightarrow> namespace_auth \<Rightarrow> exn + namespace_auth" where
  "ResolveLanceNamespaceAuthOverrides vane db opts auth =
     (if vane then
        let a = collect_aliases db opts
              \<lparr>alias_token = None, alias_bearer = None, alias_api_key = None\<rparr>
        in res_bind (apply_if (apply_bearer db) (alias_token a) auth) (\<lambda>auth.
           res_bind (apply_if (apply_bearer db) (alias_bearer a) auth) (\<lambda>auth.
           apply_if (apply_api_key db) (alias_api_key a) auth))
      else res_foldl (apply_entry db) auth opts)"

definition ResolveLanceNamespaceAuth ::
    "bool \<Rightarrow> duckdb \<Rightarrow> client \<Rightarrow> string \<Rightarrow> (string \<times> Value) list \<Rightarrow> exn + namespace_auth" where
  "ResolveLanceNamespaceAuth vane db cl endpoint_uri opts =
     ResolveLanceNamespaceAuthOverrides vane db opts
       (FillLanceNamespaceAuthFromSecrets vane cl endpoint_uri)"

text \<open>The overload for a table function's named parameters, a case-insensitive map.\<close>

definition find_parameter :: "duckdb \<Rightarrow> (string \<times> Value) list \<Rightarrow> string \<Rightarrow> Value option" where
  "find_parameter db opts name = map_option snd (find (\<lambda>kv. CIEquals db (fst kv) name) opts)"

definition ResolveLanceNamespaceAuthParameters ::
    "bool \<Rightarrow> duckdb \<Rightarrow> client \<Rightarrow> string \<Rightarrow> (string \<times> Value) list \<Rightarrow> exn + namespace_auth" where
  "ResolveLanceNamespaceAuthParameters vane db cl endpoint_uri opts =
     (let auth = FillLanceNamespaceAuthFromSecrets vane cl endpoint_uri
      in res_bind (apply_if (apply_bearer db) (find_parameter db opts ''token'') auth) (\<lambda>auth.
         res_bind (apply_if (apply_bearer db) (find_parameter db opts ''bearer_token'') auth) (\<lambda>auth.
         apply_if (apply_api_key db) (find_parameter db opts ''api_key'') auth)))"

definition BuildNamespaceAuthOverrideOptions :: "string \<Rightarrow> string \<Rightarrow> (string \<times> Value) list" where
  "BuildNamespaceAuthOverrideOptions bearer key =
     (if bearer \<noteq> [] then [(''bearer_token'', VarcharValue bearer)] else []) @
     (if key \<noteq> [] then [(''api_key'', VarcharValue key)] else [])"

text \<open>A C string argument for which the empty string means \<open>nullptr\<close>.\<close>

definition opt_cstr :: "string \<Rightarrow> string option" where
  "opt_cstr s = (if s = [] then None else Some s)"

record LanceNamespaceQueryConfig =
  q_namespace_kind :: byte
  q_root :: "string option"
  q_options :: options
  q_endpoint :: "string option"
  q_table_id :: string
  q_bearer_token :: "string option"
  q_api_key :: "string option"
  q_delimiter :: "string option"
  q_headers_tsv :: "string option"
  q_columns :: "string list"
  q_filter :: "string option"
  q_prefilter :: byte
  q_k :: u64
  q_version :: u64

definition NAMESPACE_KIND_DIRECTORY :: byte where
  "NAMESPACE_KIND_DIRECTORY = 0"
definition NAMESPACE_KIND_REST :: byte where
  "NAMESPACE_KIND_REST = 1"

definition FillLanceNamespaceQueryConfig ::
    "bool \<Rightarrow> duckdb \<Rightarrow> client \<Rightarrow> LanceNamespaceTableConfig \<Rightarrow> u64 \<Rightarrow> bool \<Rightarrow> string \<Rightarrow> string list
       \<Rightarrow> exn + LanceNamespaceQueryConfig" where
  "FillLanceNamespaceQueryConfig vane db cl cfg k prefilter filter_sql columns =
     (let out_config =
        \<lparr>q_namespace_kind = 0, q_root = None, q_options = no_options, q_endpoint = None,
         q_table_id = table_id cfg, q_bearer_token = None, q_api_key = None, q_delimiter = None,
         q_headers_tsv = None, q_columns = columns, q_filter = opt_cstr filter_sql,
         q_prefilter = (if prefilter then 1 else 0), q_k = k, q_version = 0\<rparr>
      in
        res_bind
          (if vane
           then if 2 ^ 63 \<le> unat (snapshot_version cfg) then Inl (InternalException ''Information loss on integer cast'')
                else Inr (out_config\<lparr>q_version := snapshot_version cfg\<rparr>)
           else Inr out_config)
          (\<lambda>out_config.
        if IsDirectory cfg then
          res_bind (BuildStorageOptionPointerArrays (option_keys cfg, option_values cfg)) (\<lambda>os.
            Inr (out_config\<lparr>q_namespace_kind := NAMESPACE_KIND_DIRECTORY,
                   q_root := Some (root cfg), q_options := os\<rparr>))
        else
          res_bind
            (ResolveLanceNamespaceAuth vane db cl (endpoint cfg)
              (BuildNamespaceAuthOverrideOptions (bearer_token_override cfg) (api_key_override cfg)))
            (\<lambda>auth.
            Inr (out_config\<lparr>q_namespace_kind := NAMESPACE_KIND_REST,
                   q_endpoint := Some (endpoint cfg), q_delimiter := opt_cstr (delimiter cfg),
                   q_headers_tsv := opt_cstr (headers_tsv cfg),
                   q_bearer_token := opt_cstr (bearer_token auth),
                   q_api_key := opt_cstr (api_key auth)\<rparr>))))"

end
