(* ===== verification/Session_State.thy ===== *)
theory Session_State
  imports Storage_Options
begin

text \<open>
  The Lance session (\<open>lance_session_state.cpp\<close>): one session object per
  database, kept in the database's object cache and shared by all connections, with cache sizes
  that may be configured before the first access and must agree afterwards.  The object cache and
  the process-wide id counter are the record \<open>database\<close>; each connection registers its own
  \<open>LanceSessionState\<close>.
\<close>

section \<open>State\<close>

record LanceSharedSessionEntry =
  session :: nat
  session_id :: u64
  index_cache_size_bytes :: u64
  metadata_cache_size_bytes :: u64

record LanceSessionState =
  shared_session_cache_hit :: bool
  shared_session :: "LanceSharedSessionEntry option"

record database =
  shared_session_entry :: "LanceSharedSessionEntry option"
  LANCE_SHARED_SESSION_ID_GEN :: u64

text \<open>
  The Rust functions called: a session handle, or null; the defaults of the two cache sizes; and
  the counters of a session, if they can be read.
\<close>

record session_ffi =
  lance_create_session :: "u64 \<Rightarrow> u64 \<Rightarrow> nat option"
  lance_vane_default_index_cache_size_bytes :: u64
  lance_vane_default_metadata_cache_size_bytes :: u64

datatype SetScope = AUTOMATIC | LOCAL_SCOPE | SESSION_SCOPE | GLOBAL_SCOPE | VARIABLE_SCOPE

fun ubigint_payload :: "Value option \<Rightarrow> exn + u64" where
  "ubigint_payload (Some (UBigIntValue v)) = Inr v"
| "ubigint_payload r = Inl CastError"

definition cast_ubigint :: "duckdb \<Rightarrow> Value \<Rightarrow> exn + u64" where
  "cast_ubigint db v = ubigint_payload (DefaultCastAs db v (SimpleType UBIGINT))"

definition LANCE_VANE_INDEX_CACHE_SIZE_SETTING :: string where
  "LANCE_VANE_INDEX_CACHE_SIZE_SETTING = ''lance_vane_index_cache_size_bytes''"
definition LANCE_VANE_METADATA_CACHE_SIZE_SETTING :: string where
  "LANCE_VANE_METADATA_CACHE_SIZE_SETTING = ''lance_vane_metadata_cache_size_bytes''"


section \<open>Settings\<close>

definition LanceVaneSessionCacheSize :: "duckdb \<Rightarrow> client \<Rightarrow> string \<Rightarrow> u64 \<Rightarrow> exn + u64" where
  "LanceVaneSessionCacheSize db cl name default_value =
     (case TryGetCurrentSetting cl name of
        None \<Rightarrow> Inr default_value
      | Some (v, scope) \<Rightarrow>
          if is_null v then Inr default_value
          else res_bind (cast_ubigint db v) (\<lambda>result.
            if result = 0 then Inl (InvalidInputException (name @ '' must be greater than zero''))
            else Inr result))"

definition ValidateLanceVaneSessionCacheSetting ::
    "duckdb \<Rightarrow> database \<Rightarrow> SetScope \<Rightarrow> Value \<Rightarrow> string \<Rightarrow> bool \<Rightarrow> exn + unit" where
  "ValidateLanceVaneSessionCacheSetting db dbi scope parameter name index_cache =
     (if scope \<noteq> GLOBAL_SCOPE \<and> scope \<noteq> AUTOMATIC then
        Inl (InvalidInputException (name @ '' is a database-global setting''))
      else if is_null parameter then
        Inl (InvalidInputException (name @ '' cannot be NULL''))
      else res_bind (cast_ubigint db parameter) (\<lambda>requested.
        if requested = 0 then Inl (InvalidInputException (name @ '' must be greater than zero''))
        else case shared_session_entry dbi of
          None \<Rightarrow> Inr ()
        | Some existing \<Rightarrow>
            let configured = (if index_cache then index_cache_size_bytes existing
                              else metadata_cache_size_bytes existing)
            in if configured \<noteq> requested then
                 Inl (InvalidInputException
                   (name @ '' must be configured before the first Lance access''))
               else Inr ()))"

definition SetLanceVaneIndexCacheSize :: "duckdb \<Rightarrow> database \<Rightarrow> SetScope \<Rightarrow> Value \<Rightarrow> exn + unit" where
  "SetLanceVaneIndexCacheSize db dbi scope parameter =
     ValidateLanceVaneSessionCacheSetting db dbi scope parameter
       LANCE_VANE_INDEX_CACHE_SIZE_SETTING True"

definition SetLanceVaneMetadataCacheSize :: "duckdb \<Rightarrow> database \<Rightarrow> SetScope \<Rightarrow> Value \<Rightarrow> exn + unit" where
  "SetLanceVaneMetadataCacheSize db dbi scope parameter =
     ValidateLanceVaneSessionCacheSetting db dbi scope parameter
       LANCE_VANE_METADATA_CACHE_SIZE_SETTING False"


section \<open>The shared session\<close>

text \<open>The constructor takes an id even when the session cannot be created.\<close>

definition NewLanceSharedSessionEntry ::
    "session_ffi \<Rightarrow> string \<Rightarrow> u64 \<Rightarrow> u64 \<Rightarrow> database \<Rightarrow> (exn + LanceSharedSessionEntry) \<times> database" where
  "NewLanceSharedSessionEntry ffi err_suffix index_size metadata_size dbi =
     (let sid = LANCE_SHARED_SESSION_ID_GEN dbi;
          dbi = dbi\<lparr>LANCE_SHARED_SESSION_ID_GEN := sid + 1\<rparr>
      in case lance_create_session ffi index_size metadata_size of
           None \<Rightarrow> (Inl (IOException (''Failed to create Lance session'' @ err_suffix)), dbi)
         | Some h \<Rightarrow>
             (Inr \<lparr>session = h, session_id = sid, index_cache_size_bytes = index_size,
                   metadata_cache_size_bytes = metadata_size\<rparr>, dbi))"

text \<open>\<open>ObjectCache::GetOrCreate\<close>: the cached entry, or a new one, which is then cached.\<close>

definition object_cache_get_or_create ::
    "session_ffi \<Rightarrow> string \<Rightarrow> u64 \<Rightarrow> u64 \<Rightarrow> database \<Rightarrow> (exn + LanceSharedSessionEntry) \<times> database" where
  "object_cache_get_or_create ffi err_suffix index_size metadata_size dbi =
     (case shared_session_entry dbi of
        Some e \<Rightarrow> (Inr e, dbi)
      | None \<Rightarrow>
          (case NewLanceSharedSessionEntry ffi err_suffix index_size metadata_size dbi of
             (Inl x, dbi) \<Rightarrow> (Inl x, dbi)
           | (Inr e, dbi) \<Rightarrow> (Inr e, dbi\<lparr>shared_session_entry := Some e\<rparr>)))"

text \<open>
  The sizes a connection asks for.  The other build creates the session with zero sizes and has no
  size members, which the model leaves at zero there, so that its consistency test passes.
\<close>

definition session_cache_sizes :: "bool \<Rightarrow> duckdb \<Rightarrow> session_ffi \<Rightarrow> client \<Rightarrow> exn + (u64 \<times> u64)" where
  "session_cache_sizes vane db ffi cl =
     (if vane then
        res_bind (LanceVaneSessionCacheSize db cl LANCE_VANE_INDEX_CACHE_SIZE_SETTING
            (lance_vane_default_index_cache_size_bytes ffi)) (\<lambda>i.
        res_bind (LanceVaneSessionCacheSize db cl LANCE_VANE_METADATA_CACHE_SIZE_SETTING
            (lance_vane_default_metadata_cache_size_bytes ffi)) (\<lambda>m. Inr (i, m)))
      else Inr (0, 0))"

text \<open>
  The result carries the out parameter \<open>out_cache_hit\<close>.  A handle that was created is not null, so
  the code's second test on the entry never fires; the model keeps handles non-null by type.
\<close>

definition GetOrCreateLanceSharedSessionEntry ::
    "bool \<Rightarrow> duckdb \<Rightarrow> session_ffi \<Rightarrow> client \<Rightarrow> string \<Rightarrow> database
       \<Rightarrow> (exn + (bool \<times> LanceSharedSessionEntry)) \<times> database" where
  "GetOrCreateLanceSharedSessionEntry vane db ffi cl err_suffix dbi =
     (case session_cache_sizes vane db ffi cl of
        Inl x \<Rightarrow> (Inl x, dbi)
      | Inr (index_size, metadata_size) \<Rightarrow>
          let hit = (shared_session_entry dbi \<noteq> None)
          in case object_cache_get_or_create ffi err_suffix index_size metadata_size dbi of
               (Inl x, dbi) \<Rightarrow> (Inl x, dbi)
             | (Inr e, dbi) \<Rightarrow>
                 if index_cache_size_bytes e \<noteq> index_size \<or>
                    metadata_cache_size_bytes e \<noteq> metadata_size
                 then (Inl (InvalidInputException
                        ''Lance Vane cache sizes must be consistent across database connections''), dbi)
                 else (Inr (hit, e), dbi))"

text \<open>\<open>registered_state->GetOrCreate<LanceSessionState>\<close>: constructed at a connection's first use.\<close>

definition GetOrCreateLanceSessionState ::
    "bool \<Rightarrow> duckdb \<Rightarrow> session_ffi \<Rightarrow> client \<Rightarrow> string \<Rightarrow> LanceSessionState option \<Rightarrow> database
       \<Rightarrow> (exn + LanceSessionState) \<times> LanceSessionState option \<times> database" where
  "GetOrCreateLanceSessionState vane db ffi cl err_suffix registered dbi =
     (case registered of
        Some st \<Rightarrow> (Inr st, registered, dbi)
      | None \<Rightarrow>
          (case GetOrCreateLanceSharedSessionEntry vane db ffi cl err_suffix dbi of
             (Inl x, dbi) \<Rightarrow> (Inl x, None, dbi)
           | (Inr (hit, e), dbi) \<Rightarrow>
               let st = \<lparr>shared_session_cache_hit = hit, shared_session = Some e\<rparr>
               in (Inr st, Some st, dbi)))"

definition Handle :: "LanceSessionState \<Rightarrow> nat option" where
  "Handle st = map_option session (shared_session st)"

definition LanceGetSessionHandle ::
    "bool \<Rightarrow> duckdb \<Rightarrow> session_ffi \<Rightarrow> client \<Rightarrow> string \<Rightarrow> LanceSessionState option \<Rightarrow> database
       \<Rightarrow> (exn + nat) \<times> LanceSessionState option \<times> database" where
  "LanceGetSessionHandle vane db ffi cl err_suffix registered dbi =
     (case GetOrCreateLanceSessionState vane db ffi cl err_suffix registered dbi of
        (Inl x, registered, dbi) \<Rightarrow> (Inl x, registered, dbi)
      | (Inr st, registered, dbi) \<Rightarrow>
          (case Handle st of
             None \<Rightarrow> (Inl (IOException ''Failed to access Lance session state''), registered, dbi)
           | Some h \<Rightarrow> (Inr h, registered, dbi)))"


section \<open>Profiling output\<close>

record LanceSessionStats =
  approx_num_items :: u64
  size_bytes :: u64

record LanceVaneSessionCacheStats =
  index_num_entries :: u64
  index_size_bytes :: u64
  index_hits :: u64
  index_misses :: u64
  metadata_num_entries :: u64
  metadata_size_bytes :: u64
  metadata_hits :: u64
  metadata_misses :: u64

definition word_text :: "u64 \<Rightarrow> string" where
  "word_text v = nat_to_string (unat v)"

definition bool_text :: "bool \<Rightarrow> string" where
  "bool_text b = (if b then ''true'' else ''false'')"

definition cache_stats_text :: "LanceSharedSessionEntry \<Rightarrow> LanceVaneSessionCacheStats \<Rightarrow> string" where
  "cache_stats_text e s =
     '' index_capacity_bytes='' @ word_text (index_cache_size_bytes e) @
     '' index_entries='' @ word_text (index_num_entries s) @
     '' index_size_bytes='' @ word_text (index_size_bytes s) @
     '' index_hits='' @ word_text (index_hits s) @
     '' index_misses='' @ word_text (index_misses s) @
     '' metadata_capacity_bytes='' @ word_text (metadata_cache_size_bytes e) @
     '' metadata_entries='' @ word_text (metadata_num_entries s) @
     '' metadata_size_bytes='' @ word_text (metadata_size_bytes s) @
     '' metadata_hits='' @ word_text (metadata_hits s) @
     '' metadata_misses='' @ word_text (metadata_misses s)"

text \<open>The two optional arguments are what the statistics calls returned, if they succeeded.\<close>

definition WriteSessionProfilingInformation ::
    "LanceSessionState \<Rightarrow> LanceSessionStats option \<Rightarrow> LanceVaneSessionCacheStats option \<Rightarrow> string" where
  "WriteSessionProfilingInformation st stats cache_stats =
     ''Lance Session Cache: scope=database_shared shared_session_id='' @
     (case (shared_session st, stats) of
        (Some e, Some s) \<Rightarrow>
          word_text (session_id e) @
          '' object_cache_hit='' @ bool_text (shared_session_cache_hit st) @
          '' approx_num_items='' @ word_text (approx_num_items s) @
          '' size_bytes='' @ word_text (size_bytes s) @
          (case cache_stats of None \<Rightarrow> '''' | Some c \<Rightarrow> cache_stats_text e c)
      | (sh, _) \<Rightarrow>
          word_text (case sh of None \<Rightarrow> 0 | Some e \<Rightarrow> session_id e) @
          '' object_cache_hit='' @ bool_text (shared_session_cache_hit st) @
          '' unavailable'') @ [CHR 0x0A]"


section \<open>One session per database\<close>

lemma GetOrCreate_hit:
  assumes "shared_session_entry dbi = Some e"
  shows "GetOrCreateLanceSharedSessionEntry vane db ffi cl err dbi =
    (case session_cache_sizes vane db ffi cl of
       Inl x \<Rightarrow> (Inl x, dbi)
     | Inr s \<Rightarrow>
         if s = (index_cache_size_bytes e, metadata_cache_size_bytes e) then (Inr (True, e), dbi)
         else (Inl (InvalidInputException
                ''Lance Vane cache sizes must be consistent across database connections''), dbi))"
  using assms
  by (auto simp: GetOrCreateLanceSharedSessionEntry_def object_cache_get_or_create_def session_cache_sizes_def Let_def
      split: sum.splits)

lemma GetOrCreate_Inr:
  assumes "GetOrCreateLanceSharedSessionEntry vane db ffi cl err dbi = (Inr (hit, e), dbi')"
  shows "shared_session_entry dbi' = Some e" and "hit \<longleftrightarrow> shared_session_entry dbi \<noteq> None"
    and "hit \<Longrightarrow> shared_session_entry dbi = Some e \<and> dbi' = dbi"
    and "session_cache_sizes vane db ffi cl = Inr (index_cache_size_bytes e, metadata_cache_size_bytes e)"
  using assms
  by (auto simp: GetOrCreateLanceSharedSessionEntry_def object_cache_get_or_create_def session_cache_sizes_def Let_def
      NewLanceSharedSessionEntry_def split: sum.splits option.splits if_splits)

text \<open>A session, once there, is never replaced, whatever a connection asks for.\<close>

lemma GetOrCreate_keeps:
  assumes "shared_session_entry dbi = Some e"
  shows "shared_session_entry (snd (GetOrCreateLanceSharedSessionEntry vane db ffi cl err dbi)) = Some e"
  using assms by (simp add: GetOrCreate_hit split: sum.splits)

text \<open>
  The connections of a database: each call of \<open>LanceGetSessionHandle\<close> is by some connection under
  its settings at that time, and SET statements go through the validators.
\<close>

record world =
  dbase :: database
  conns :: "nat \<Rightarrow> LanceSessionState option"

definition handle_call ::
    "bool \<Rightarrow> duckdb \<Rightarrow> session_ffi \<Rightarrow> nat \<Rightarrow> client \<Rightarrow> string \<Rightarrow> world \<Rightarrow> (exn + nat) \<times> world" where
  "handle_call vane db ffi c cl err w =
     (case LanceGetSessionHandle vane db ffi cl err (conns w c) (dbase w) of
        (r, st, dbi) \<Rightarrow> (r, w\<lparr>conns := (conns w)(c := st), dbase := dbi\<rparr>))"

inductive calls :: "bool \<Rightarrow> duckdb \<Rightarrow> session_ffi \<Rightarrow> world \<Rightarrow> world \<Rightarrow> bool" for vane db ffi where
  calls_done: "calls vane db ffi w w"
| calls_step: "calls vane db ffi w w' \<Longrightarrow> calls vane db ffi w (snd (handle_call vane db ffi c cl err w'))"

text \<open>Every registered connection state refers to the session of the database.\<close>

definition refers :: "LanceSessionState \<Rightarrow> database \<Rightarrow> bool" where
  "refers st dbi \<longleftrightarrow> (\<exists>e. shared_session st = Some e \<and> shared_session_entry dbi = Some e)"

definition sessions_agree :: "world \<Rightarrow> bool" where
  "sessions_agree w \<longleftrightarrow> (\<forall>c st. conns w c = Some st \<longrightarrow> refers st (dbase w))"

lemma LanceGetSessionHandle_agrees:
  assumes "LanceGetSessionHandle vane db ffi cl err reg dbi = (r, reg', dbi')"
    and "\<And>st. reg = Some st \<Longrightarrow> refers st dbi"
  shows "\<And>st. reg' = Some st \<Longrightarrow> refers st dbi'"
    and "\<And>e. shared_session_entry dbi = Some e \<Longrightarrow> shared_session_entry dbi' = Some e"
    and "\<And>h. r = Inr h \<Longrightarrow> \<exists>e. shared_session_entry dbi' = Some e \<and> session e = h"
proof -
  consider st where "reg = Some st" | x dbi1 where "reg = None"
      "GetOrCreateLanceSharedSessionEntry vane db ffi cl err dbi = (Inl x, dbi1)"
    | hit e dbi1 where "reg = None"
      "GetOrCreateLanceSharedSessionEntry vane db ffi cl err dbi = (Inr (hit, e), dbi1)"
    by (cases reg; cases "GetOrCreateLanceSharedSessionEntry vane db ffi cl err dbi";
        cases "fst (GetOrCreateLanceSharedSessionEntry vane db ffi cl err dbi)") auto
  note cs = this
  show "\<And>st. reg' = Some st \<Longrightarrow> refers st dbi'"
    and "\<And>e. shared_session_entry dbi = Some e \<Longrightarrow> shared_session_entry dbi' = Some e"
    and "\<And>h. r = Inr h \<Longrightarrow> \<exists>e. shared_session_entry dbi' = Some e \<and> session e = h"
    using assms
    by (cases rule: cs;
        auto simp: refers_def LanceGetSessionHandle_def GetOrCreateLanceSessionState_def Handle_def Let_def
          dest: GetOrCreate_Inr(1) GetOrCreate_keeps [of _ _ vane db ffi cl err] split: option.splits)+
qed

lemma handle_call_agrees:
  assumes "sessions_agree w" and "handle_call vane db ffi c cl err w = (r, w')"
  shows "sessions_agree w'"
    and "\<And>e. shared_session_entry (dbase w) = Some e \<Longrightarrow> shared_session_entry (dbase w') = Some e"
    and "\<And>h. r = Inr h \<Longrightarrow> \<exists>e. shared_session_entry (dbase w') = Some e \<and> session e = h"
proof -
  obtain st dbi where call: "LanceGetSessionHandle vane db ffi cl err (conns w c) (dbase w) = (r, st, dbi)"
    and w': "w' = w\<lparr>conns := (conns w)(c := st), dbase := dbi\<rparr>"
    using assms(2) by (auto simp: handle_call_def split: prod.splits)
  have pre: "\<And>s. conns w c = Some s \<Longrightarrow> refers s (dbase w)"
    using assms(1) unfolding sessions_agree_def by blast
  note facts = LanceGetSessionHandle_agrees [OF call pre]
  show "sessions_agree w'"
    using assms(1) facts(1,2) unfolding sessions_agree_def w' by (auto simp: refers_def) blast
  show "\<And>e. shared_session_entry (dbase w) = Some e \<Longrightarrow> shared_session_entry (dbase w') = Some e"
    using facts(2) by (simp add: w')
  show "\<And>h. r = Inr h \<Longrightarrow> \<exists>e. shared_session_entry (dbase w') = Some e \<and> session e = h"
    using facts(3) by (simp add: w')
qed

lemma calls_agree: "calls vane db ffi w w' \<Longrightarrow> sessions_agree w \<Longrightarrow> sessions_agree w'"
proof (induction rule: calls.induct)
  case (calls_step w w' c cl err)
  obtain r w'' where call: "handle_call vane db ffi c cl err w' = (r, w'')" by fastforce
  show ?case
    using handle_call_agrees(1) [OF calls_step.IH [OF calls_step.prems] call] by (simp add: call)
qed

lemma calls_keep:
  "calls vane db ffi w w' \<Longrightarrow> sessions_agree w \<Longrightarrow> shared_session_entry (dbase w) = Some e \<Longrightarrow>
     shared_session_entry (dbase w') = Some e"
proof (induction rule: calls.induct)
  case (calls_step w w' c cl err)
  obtain r w'' where call: "handle_call vane db ffi c cl err w' = (r, w'')" by fastforce
  have "sessions_agree w'" using calls_step.hyps calls_step.prems(1) by (rule calls_agree)
  then show ?case
    using handle_call_agrees(2) [OF _ call] calls_step.IH [OF calls_step.prems] by (simp add: call)
qed

text \<open>Two successful calls, by any connections and however far apart, return the same session.\<close>

lemma one_session:
  assumes "sessions_agree w" and "handle_call vane db ffi c cl err w = (Inr h, w1)"
    and "calls vane db ffi w1 w2" and "handle_call vane db ffi c' cl' err' w2 = (Inr h', w3)"
  shows "h' = h"
proof -
  obtain e where e: "shared_session_entry (dbase w1) = Some e" "session e = h"
    using handle_call_agrees(3) [OF assms(1,2)] by auto
  have agree: "sessions_agree w1" "sessions_agree w2"
    using handle_call_agrees(1) [OF assms(1,2)] calls_agree [OF assms(3)] by auto
  have "shared_session_entry (dbase w2) = Some e" by (rule calls_keep [OF assms(3) agree(1) e(1)])
  then have "shared_session_entry (dbase w3) = Some e"
    by (rule handle_call_agrees(2) [OF agree(2) assms(4)])
  then show ?thesis using handle_call_agrees(3) [OF agree(2) assms(4)] e(2) by auto
qed

text \<open>A SET that is accepted asks for what the session already has.\<close>

lemma accepted_setting:
  assumes "shared_session_entry dbi = Some e"
    and "ValidateLanceVaneSessionCacheSetting db dbi scope v name index = Inr ()"
  shows "\<exists>n. cast_ubigint db v = Inr n \<and> n \<noteq> 0 \<and> (scope = GLOBAL_SCOPE \<or> scope = AUTOMATIC) \<and>
    n = (if index then index_cache_size_bytes e else metadata_cache_size_bytes e)"
  using assms
  by (auto simp: ValidateLanceVaneSessionCacheSetting_def Let_def res_bind_Inr_iff split: if_splits)

end
