(* ===== verification/Dataset_Cache.thy ===== *)
theory Dataset_Cache
  imports Session_State "HOL-Library.AList"
begin

text \<open>
  The per-connection dataset cache (\<open>lance_dataset_cache.cpp\<close>): the cache state with its five
  operations, each of which holds the lock throughout and is one step here; the cache keys; and
  the functions that return the cached dataset of a path or of a catalog table, opening it on a
  miss.  \<open>unordered_map\<close> and \<open>unordered_set\<close> are lists without duplicate keys.
\<close>

section \<open>The cache state\<close>

record LanceDatasetCacheEntry =
  dataset :: nat
  entry_display_uri :: string

record LanceDatasetCacheState =
  entries :: "(string \<times> LanceDatasetCacheEntry) list"
  expire_after_query :: "string list"
  query_hits :: u64
  query_misses :: u64

definition empty_cache :: LanceDatasetCacheState where
  "empty_cache = \<lparr>entries = [], expire_after_query = [], query_hits = 0, query_misses = 0\<rparr>"

definition Get ::
    "string \<Rightarrow> LanceDatasetCacheState \<Rightarrow> LanceDatasetCacheEntry option \<times> LanceDatasetCacheState" where
  "Get key st =
     (case map_of (entries st) key of
        None \<Rightarrow> (None, st\<lparr>query_misses := query_misses st + 1\<rparr>)
      | Some e \<Rightarrow> (Some e, st\<lparr>query_hits := query_hits st + 1\<rparr>))"

definition PutOrGetExisting ::
    "string \<Rightarrow> LanceDatasetCacheEntry \<Rightarrow> LanceDatasetCacheState
       \<Rightarrow> LanceDatasetCacheEntry \<times> LanceDatasetCacheState" where
  "PutOrGetExisting key entry st =
     (case map_of (entries st) key of
        Some existing \<Rightarrow> (existing, st)
      | None \<Rightarrow> (entry, st\<lparr>entries := AList.update key entry (entries st)\<rparr>))"

definition Invalidate :: "string \<Rightarrow> LanceDatasetCacheState \<Rightarrow> LanceDatasetCacheState" where
  "Invalidate key st = st\<lparr>entries := AList.delete key (entries st)\<rparr>"

definition ExpireAfterQuery :: "string \<Rightarrow> LanceDatasetCacheState \<Rightarrow> LanceDatasetCacheState" where
  "ExpireAfterQuery key st = st\<lparr>expire_after_query := List.insert key (expire_after_query st)\<rparr>"

definition QueryEnd :: "LanceDatasetCacheState \<Rightarrow> LanceDatasetCacheState" where
  "QueryEnd st =
     st\<lparr>entries := fold AList.delete (expire_after_query st) (entries st), expire_after_query := []\<rparr>"

definition QueryBegin :: "LanceDatasetCacheState \<Rightarrow> LanceDatasetCacheState" where
  "QueryBegin st = st\<lparr>query_hits := 0, query_misses := 0\<rparr>"

definition WriteProfilingInformation :: "LanceDatasetCacheState \<Rightarrow> string" where
  "WriteProfilingInformation st =
     ''Lance Dataset Cache: entries='' @ nat_to_string (length (entries st)) @
     '' hits='' @ word_text (query_hits st) @ '' misses='' @ word_text (query_misses st) @ [CHR 0x0A]"


section \<open>Keys\<close>

definition AppendCacheKeyPart :: "string \<Rightarrow> string \<Rightarrow> string" where
  "AppendCacheKeyPart key val = key @ nat_to_string (length val) @ '':'' @ val @ '';''"

definition AppendCacheKeyIndex :: "string \<Rightarrow> nat \<Rightarrow> string" where
  "AppendCacheKeyIndex key val = AppendCacheKeyPart key (nat_to_string val)"

definition FingerprintCacheKeyPart :: "(string \<Rightarrow> u64) \<Rightarrow> string \<Rightarrow> string" where
  "FingerprintCacheKeyPart Hash val = word_text (Hash val)"

fun append_option_parts :: "string \<Rightarrow> (string \<times> string) list \<Rightarrow> string" where
  "append_option_parts key [] = key"
| "append_option_parts key ((k, v) # kvs) =
     append_option_parts (AppendCacheKeyPart (AppendCacheKeyPart key k) v) kvs"

definition LanceBuildResolvedPathDatasetCacheKey ::
    "duckdb \<Rightarrow> lance_ffi \<Rightarrow> string \<Rightarrow> options \<Rightarrow> exn + string" where
  "LanceBuildResolvedPathDatasetCacheKey db ffi open_path os =
     (if length (fst os) \<noteq> length (snd os) then
        Inl (InternalException ''Storage option keys/values size mismatch for Lance dataset cache'')
      else res_bind (LanceNormalizeDatasetPath db ffi open_path) (\<lambda>normalized.
        let key = ''path|'';
            key = AppendCacheKeyPart key normalized;
            key = AppendCacheKeyIndex key (length (fst os))
        in Inr (append_option_parts key (zip (fst os) (snd os)))))"

definition LanceBuildNamespaceDatasetCacheKey ::
    "(string \<Rightarrow> u64) \<Rightarrow> string \<Rightarrow> string \<Rightarrow> string \<Rightarrow> string \<Rightarrow> string \<Rightarrow> string \<Rightarrow> string" where
  "LanceBuildNamespaceDatasetCacheKey Hash endpoint_uri table bearer key_value delim headers =
     (let key = ''namespace|'';
          key = AppendCacheKeyPart key endpoint_uri;
          key = AppendCacheKeyPart key table;
          key = AppendCacheKeyPart key (FingerprintCacheKeyPart Hash bearer);
          key = AppendCacheKeyPart key (FingerprintCacheKeyPart Hash key_value);
          key = AppendCacheKeyPart key delim
      in AppendCacheKeyPart key (FingerprintCacheKeyPart Hash headers))"


section \<open>The connection\<close>

text \<open>
  The Rust functions that open a dataset; the namespace ones also report the table's URI.  A
  connection bundles the environment a call sees with the build; its mutable part is the registered
  session state, the database it shares with other connections and the registered cache.
\<close>

record dataset_ffi =
  lance_open_dataset_with_session :: "string \<Rightarrow> nat \<Rightarrow> nat option"
  lance_open_dataset_with_storage_options_and_session :: "string \<Rightarrow> options \<Rightarrow> nat \<Rightarrow> nat option"
  lance_blob_open_binding_dataset :: "string \<Rightarrow> nat \<Rightarrow> nat option"
  lance_open_dataset_in_namespace_with_session ::
    "string \<Rightarrow> string \<Rightarrow> string option \<Rightarrow> string option \<Rightarrow> string option \<Rightarrow> string option \<Rightarrow> nat
       \<Rightarrow> nat option \<times> string option"
  lance_open_dataset_in_dir_namespace_with_session ::
    "string \<Rightarrow> string \<Rightarrow> options \<Rightarrow> nat \<Rightarrow> nat option \<times> string option"

record connection =
  vane_build :: bool
  duck :: duckdb
  path_fns :: lance_ffi
  session_fns :: session_ffi
  dataset_fns :: dataset_ffi
  client_of :: client
  Hash_of :: "string \<Rightarrow> u64"
  error_suffix :: string

record conn_state =
  registered_session :: "LanceSessionState option"
  instance_of :: database
  registered_cache :: "LanceDatasetCacheState option"

definition session_handle :: "connection \<Rightarrow> conn_state \<Rightarrow> (exn + nat) \<times> conn_state" where
  "session_handle cn ctx =
     (case LanceGetSessionHandle (vane_build cn) (duck cn) (session_fns cn) (client_of cn) (error_suffix cn)
             (registered_session ctx) (instance_of ctx) of
        (r, reg, dbi) \<Rightarrow> (r, ctx\<lparr>registered_session := reg, instance_of := dbi\<rparr>))"

definition GetOrCreateLanceDatasetCacheState :: "conn_state \<Rightarrow> LanceDatasetCacheState \<times> conn_state" where
  "GetOrCreateLanceDatasetCacheState ctx =
     (case registered_cache ctx of
        Some st \<Rightarrow> (st, ctx)
      | None \<Rightarrow> (empty_cache, ctx\<lparr>registered_cache := Some empty_cache\<rparr>))"

definition LanceBuildPathDatasetCacheKey :: "connection \<Rightarrow> string \<Rightarrow> exn + string" where
  "LanceBuildPathDatasetCacheKey cn path =
     res_bind (resolve_for_read (vane_build cn) (duck cn) (path_fns cn) (client_of cn) path)
       (\<lambda>(open_path, os). LanceBuildResolvedPathDatasetCacheKey (duck cn) (path_fns cn) open_path os)"

definition LanceBuildDirNamespaceDatasetCacheKey ::
    "connection \<Rightarrow> LanceNamespaceTableConfig \<Rightarrow> exn + string" where
  "LanceBuildDirNamespaceDatasetCacheKey cn cfg =
     LanceBuildResolvedPathDatasetCacheKey (duck cn) (path_fns cn)
       (LanceDirectoryNamespaceDatasetUri (duck cn) cfg) (option_keys cfg, option_values cfg)"


section \<open>Opening\<close>

definition OpenResolvedPathDataset ::
    "connection \<Rightarrow> string \<Rightarrow> options \<Rightarrow> conn_state \<Rightarrow> (exn + nat option) \<times> conn_state" where
  "OpenResolvedPathDataset cn open_path os ctx =
     (case session_handle cn ctx of
        (Inl x, ctx) \<Rightarrow> (Inl x, ctx)
      | (Inr h, ctx) \<Rightarrow>
          if fst os = [] then
            (Inr (lance_open_dataset_with_session (dataset_fns cn) open_path h), ctx)
          else
            (res_bind (BuildStorageOptionPointerArrays os) (\<lambda>os.
               Inr (lance_open_dataset_with_storage_options_and_session (dataset_fns cn) open_path os h)),
             ctx))"

definition OpenNamespaceDataset ::
    "connection \<Rightarrow> string \<Rightarrow> string \<Rightarrow> string \<Rightarrow> string \<Rightarrow> string \<Rightarrow> string \<Rightarrow> conn_state
       \<Rightarrow> (exn + nat option \<times> string) \<times> conn_state" where
  "OpenNamespaceDataset cn endpoint_uri table bearer key_value delim headers ctx =
     (case session_handle cn ctx of
        (Inl x, ctx) \<Rightarrow> (Inl x, ctx)
      | (Inr h, ctx) \<Rightarrow>
          (case lance_open_dataset_in_namespace_with_session (dataset_fns cn) endpoint_uri table
                  (opt_cstr bearer) (opt_cstr key_value) (opt_cstr delim) (opt_cstr headers) h of
             (d, uri) \<Rightarrow> (Inr (d, case uri of None \<Rightarrow> [] | Some u \<Rightarrow> u), ctx)))"

definition OpenDirNamespaceDataset ::
    "connection \<Rightarrow> string \<Rightarrow> string \<Rightarrow> options \<Rightarrow> conn_state \<Rightarrow> (exn + nat option \<times> string) \<times> conn_state" where
  "OpenDirNamespaceDataset cn root_uri table os ctx =
     (case session_handle cn ctx of
        (Inl x, ctx) \<Rightarrow> (Inl x, ctx)
      | (Inr h, ctx) \<Rightarrow>
          (res_bind (BuildStorageOptionPointerArrays os) (\<lambda>os.
             case lance_open_dataset_in_dir_namespace_with_session (dataset_fns cn) root_uri table os h of
               (d, uri) \<Rightarrow> Inr (d, case uri of None \<Rightarrow> [] | Some u \<Rightarrow> u)),
           ctx))"

text \<open>The result of a lookup: the entry, or null, and \<open>*out_cache_hit\<close> where it is written.\<close>

record lookup =
  found_entry :: "LanceDatasetCacheEntry option"
  out_cache_hit :: "bool option"

type_synonym opener = "conn_state \<Rightarrow> (exn + LanceDatasetCacheEntry option) \<times> conn_state"

definition with_cache ::
    "(LanceDatasetCacheState \<Rightarrow> 'a \<times> LanceDatasetCacheState) \<Rightarrow> conn_state \<Rightarrow> 'a \<times> conn_state" where
  "with_cache f ctx =
     (case GetOrCreateLanceDatasetCacheState ctx of
        (st, ctx) \<Rightarrow> (case f st of (r, st) \<Rightarrow> (r, ctx\<lparr>registered_cache := Some st\<rparr>)))"

definition GetOrOpenDatasetCacheEntry ::
    "string \<Rightarrow> opener \<Rightarrow> conn_state \<Rightarrow> (exn + lookup) \<times> conn_state" where
  "GetOrOpenDatasetCacheEntry cache_key open_dataset ctx =
     (case with_cache (Get cache_key) ctx of
        (Some e, ctx) \<Rightarrow> (Inr \<lparr>found_entry = Some e, out_cache_hit = Some True\<rparr>, ctx)
      | (None, ctx) \<Rightarrow>
          (case open_dataset ctx of
             (Inl x, ctx) \<Rightarrow> (Inl x, ctx)
           | (Inr None, ctx) \<Rightarrow> (Inr \<lparr>found_entry = None, out_cache_hit = None\<rparr>, ctx)
           | (Inr (Some opened), ctx) \<Rightarrow>
               (case with_cache (PutOrGetExisting cache_key opened) ctx of
                  (e, ctx) \<Rightarrow> (Inr \<lparr>found_entry = Some e, out_cache_hit = Some False\<rparr>, ctx))))"

definition path_opener :: "connection \<Rightarrow> nat option \<Rightarrow> string \<Rightarrow> string \<Rightarrow> options \<Rightarrow> opener" where
  "path_opener cn blob_access path open_path os ctx =
     (case (case blob_access of
              Some access \<Rightarrow> (Inr (lance_blob_open_binding_dataset (dataset_fns cn) open_path access), ctx)
            | None \<Rightarrow> OpenResolvedPathDataset cn open_path os ctx) of
        (Inl x, ctx) \<Rightarrow> (Inl x, ctx)
      | (Inr None, ctx) \<Rightarrow> (Inr None, ctx)
      | (Inr (Some d), ctx) \<Rightarrow> (Inr (Some \<lparr>dataset = d, entry_display_uri = path\<rparr>), ctx))"

definition LanceGetOrOpenDatasetEntry ::
    "connection \<Rightarrow> string \<Rightarrow> nat option \<Rightarrow> conn_state \<Rightarrow> (exn + lookup) \<times> conn_state" where
  "LanceGetOrOpenDatasetEntry cn path blob_access ctx =
     (case res_bind (resolve_for_read (vane_build cn) (duck cn) (path_fns cn) (client_of cn) path) (\<lambda>(open_path, os).
             res_bind (LanceBuildResolvedPathDatasetCacheKey (duck cn) (path_fns cn) open_path os) (\<lambda>key.
               Inr (open_path, os, key))) of
        Inl x \<Rightarrow> (Inl x, ctx)
      | Inr (open_path, os, cache_key) \<Rightarrow>
          GetOrOpenDatasetCacheEntry cache_key (path_opener cn blob_access path open_path os) ctx)"

definition namespace_opener ::
    "connection \<Rightarrow> string \<Rightarrow> string \<Rightarrow> string \<Rightarrow> string \<Rightarrow> string \<Rightarrow> string \<Rightarrow> opener" where
  "namespace_opener cn endpoint_uri table bearer key_value delim headers ctx =
     (case OpenNamespaceDataset cn endpoint_uri table bearer key_value delim headers ctx of
        (Inl x, ctx) \<Rightarrow> (Inl x, ctx)
      | (Inr (None, uri), ctx) \<Rightarrow> (Inr None, ctx)
      | (Inr (Some d, uri), ctx) \<Rightarrow>
          (Inr (Some \<lparr>dataset = d,
             entry_display_uri = (if uri = [] then endpoint_uri @ ''/'' @ table else uri)\<rparr>), ctx))"

text \<open>The namespace variants also return the URI to display.\<close>

type_synonym named_lookup = "lookup \<times> string"

definition display_of :: "lookup \<Rightarrow> string" where
  "display_of r = (case found_entry r of None \<Rightarrow> [] | Some e \<Rightarrow> entry_display_uri e)"

definition LanceGetOrOpenDatasetEntryInNamespace ::
    "connection \<Rightarrow> string \<Rightarrow> string \<Rightarrow> string \<Rightarrow> string \<Rightarrow> string \<Rightarrow> string \<Rightarrow> conn_state
       \<Rightarrow> (exn + named_lookup) \<times> conn_state" where
  "LanceGetOrOpenDatasetEntryInNamespace cn endpoint_uri table bearer key_value delim headers ctx =
     (case GetOrOpenDatasetCacheEntry
             (LanceBuildNamespaceDatasetCacheKey (Hash_of cn) endpoint_uri table bearer key_value delim headers)
             (namespace_opener cn endpoint_uri table bearer key_value delim headers) ctx of
        (Inl x, ctx) \<Rightarrow> (Inl x, ctx)
      | (Inr r, ctx) \<Rightarrow> (Inr (r, display_of r), ctx))"

definition dir_opener :: "connection \<Rightarrow> LanceNamespaceTableConfig \<Rightarrow> opener" where
  "dir_opener cn cfg ctx =
     (case OpenDirNamespaceDataset cn (root cfg) (table_id cfg) (option_keys cfg, option_values cfg) ctx of
        (Inl x, ctx) \<Rightarrow> (Inl x, ctx)
      | (Inr (None, uri), ctx) \<Rightarrow> (Inr None, ctx)
      | (Inr (Some d, uri), ctx) \<Rightarrow>
          (Inr (Some \<lparr>dataset = d,
             entry_display_uri =
               (if uri \<noteq> [] then LanceNormalizeS3Scheme (duck cn) uri
                else LanceDirectoryNamespaceDatasetUri (duck cn) cfg)\<rparr>), ctx))"

definition namespace_credentials ::
    "connection \<Rightarrow> LanceNamespaceTableConfig \<Rightarrow> exn + namespace_auth" where
  "namespace_credentials cn cfg =
     ResolveLanceNamespaceAuth (vane_build cn) (duck cn) (client_of cn) (endpoint cfg)
       (BuildNamespaceAuthOverrideOptions (bearer_token_override cfg) (api_key_override cfg))"

definition LanceGetOrOpenDatasetEntryForTable ::
    "connection \<Rightarrow> LanceTableEntry \<Rightarrow> conn_state \<Rightarrow> (exn + named_lookup) \<times> conn_state" where
  "LanceGetOrOpenDatasetEntryForTable cn table ctx =
     (case NamespaceConfig table of
        None \<Rightarrow>
          (case LanceGetOrOpenDatasetEntry cn (DatasetUri table) None ctx of
             (Inl x, ctx) \<Rightarrow> (Inl x, ctx)
           | (Inr r, ctx) \<Rightarrow>
               (Inr (r, case found_entry r of None \<Rightarrow> DatasetUri table | Some e \<Rightarrow> entry_display_uri e), ctx))
      | Some cfg \<Rightarrow>
          if IsDirectory cfg then
            (case LanceBuildDirNamespaceDatasetCacheKey cn cfg of
               Inl x \<Rightarrow> (Inl x, ctx)
             | Inr cache_key \<Rightarrow>
                 (case GetOrOpenDatasetCacheEntry cache_key (dir_opener cn cfg) ctx of
                    (Inl x, ctx) \<Rightarrow> (Inl x, ctx)
                  | (Inr r, ctx) \<Rightarrow> (Inr (r, display_of r), ctx)))
          else
            (case namespace_credentials cn cfg of
               Inl x \<Rightarrow> (Inl x, ctx)
             | Inr auth \<Rightarrow>
                 LanceGetOrOpenDatasetEntryInNamespace cn (endpoint cfg) (table_id cfg)
                   (bearer_token auth) (api_key auth) (delimiter cfg) (headers_tsv cfg) ctx))"

definition LanceBuildDatasetCacheKeyForTable :: "connection \<Rightarrow> LanceTableEntry \<Rightarrow> exn + string" where
  "LanceBuildDatasetCacheKeyForTable cn table =
     (case NamespaceConfig table of
        None \<Rightarrow> LanceBuildPathDatasetCacheKey cn (DatasetUri table)
      | Some cfg \<Rightarrow>
          if IsDirectory cfg then LanceBuildDirNamespaceDatasetCacheKey cn cfg
          else res_bind (namespace_credentials cn cfg) (\<lambda>auth.
            Inr (LanceBuildNamespaceDatasetCacheKey (Hash_of cn) (endpoint cfg) (table_id cfg)
                   (bearer_token auth) (api_key auth) (delimiter cfg) (headers_tsv cfg))))"


section \<open>Invalidation\<close>

definition LanceInvalidateDatasetCache :: "string \<Rightarrow> conn_state \<Rightarrow> conn_state" where
  "LanceInvalidateDatasetCache cache_key ctx =
     ctx\<lparr>registered_cache := map_option (Invalidate cache_key) (registered_cache ctx)\<rparr>"

definition LanceInvalidateDatasetCacheForPath ::
    "connection \<Rightarrow> string \<Rightarrow> conn_state \<Rightarrow> exn + conn_state" where
  "LanceInvalidateDatasetCacheForPath cn path ctx =
     res_bind (LanceBuildPathDatasetCacheKey cn path) (\<lambda>key. Inr (LanceInvalidateDatasetCache key ctx))"

definition LanceExpireDatasetCacheAfterQuery ::
    "connection \<Rightarrow> string \<Rightarrow> conn_state \<Rightarrow> exn + conn_state" where
  "LanceExpireDatasetCacheAfterQuery cn path ctx =
     res_bind (LanceBuildPathDatasetCacheKey cn path) (\<lambda>key.
       Inr (snd (with_cache (\<lambda>st. ((), ExpireAfterQuery key st)) ctx)))"

definition LanceInvalidateDatasetCacheForTable ::
    "connection \<Rightarrow> LanceTableEntry \<Rightarrow> conn_state \<Rightarrow> exn + conn_state" where
  "LanceInvalidateDatasetCacheForTable cn table ctx =
     res_bind (LanceBuildDatasetCacheKeyForTable cn table) (\<lambda>key.
       Inr (LanceInvalidateDatasetCache key ctx))"

end
