(* ===== verification/Paths_Correct.thy ===== *)
theory Paths_Correct
  imports Lance_Paths
begin

text \<open>
  What path normalisation and redaction achieve: URI schemes are case-insensitive and the three
  S3 spellings are one, normalising twice changes nothing, and a path or an error text that may
  carry credentials leaves the process only as a constant.
\<close>

section \<open>Scheme spellings\<close>

definition scheme_sep :: string where
  "scheme_sep = ''://''"

fun valid_scheme :: "string \<Rightarrow> bool" where
  "valid_scheme [] = False"
| "valid_scheme (c # cs) \<longleftrightarrow> IsLanceUriSchemeFirstChar c \<and> list_all IsLanceUriSchemeChar cs"

definition canonical_scheme :: "string \<Rightarrow> string" where
  "canonical_scheme s =
     (let scheme = map ascii_lower s in if scheme = ''s3a'' \<or> scheme = ''s3n'' then ''s3'' else scheme)"

lemma scheme_char_no_colon: "IsLanceUriSchemeChar c \<Longrightarrow> c \<noteq> CHR '':''"
  by (auto simp: IsLanceUriSchemeChar_def IsLanceUriSchemeFirstChar_def is_digit_def)

lemma valid_scheme_chars: "valid_scheme s \<Longrightarrow> c \<in> set s \<Longrightarrow> IsLanceUriSchemeChar c"
  by (cases s) (auto simp: IsLanceUriSchemeChar_def list_all_iff)

lemma valid_scheme_no_colon: "valid_scheme s \<Longrightarrow> CHR '':'' \<notin> set s"
  using scheme_char_no_colon valid_scheme_chars by blast

lemma find_sub_no_first:
  assumes "c \<notin> set s"
  shows "find_sub (c # p) (s @ c # p @ rest) = Some (length s)"
  using assms by (induction s) auto

lemma find_scheme_sep:
  "CHR '':'' \<notin> set s \<Longrightarrow> find_sub ''://'' (s @ ''://'' @ rest) = Some (length s)"
  using find_sub_no_first [of "CHR '':''" s "''//''" rest] by simp

lemma find_sub_split:
  assumes "find_sub p s = Some i"
  obtains rest where "s = take i s @ p @ rest"
proof -
  have "prefix p (drop i s)" using assms by (simp add: find_sub_Some_iff)
  then obtain rest where "drop i s = p @ rest" by (auto simp: prefix_def)
  then have "s = take i s @ p @ rest" by (metis append_take_drop_id)
  then show ?thesis by (rule that)
qed

lemma valid_scheme_take:
  "valid_scheme (take d s) \<longleftrightarrow>
     d \<noteq> 0 \<and> s \<noteq> [] \<and> IsLanceUriSchemeFirstChar (hd s) \<and>
     \<not> (\<exists>c \<in> set (drop 1 (take d s)). \<not> IsLanceUriSchemeChar c)"
  by (cases s; cases d) (auto simp: list_all_iff)

lemma LanceNormalizeUriScheme_cases:
  "LanceNormalizeUriScheme p =
     (case find_sub ''://'' p of
        None \<Rightarrow> p
      | Some d \<Rightarrow> if valid_scheme (take d p) then canonical_scheme (take d p) @ drop d p else p)"
proof (cases "find_sub ''://'' p")
  case (Some d)
  then have "p \<noteq> []" by auto
  with Some show ?thesis
    by (auto simp: LanceNormalizeUriScheme_def valid_scheme_take canonical_scheme_def Let_def)
qed (simp add: LanceNormalizeUriScheme_def)

lemma LanceNormalizeUriScheme_scheme:
  assumes "valid_scheme s"
  shows "LanceNormalizeUriScheme (s @ ''://'' @ rest) = canonical_scheme s @ ''://'' @ rest"
  using find_scheme_sep [OF valid_scheme_no_colon [OF assms], of rest] assms
  by (simp add: LanceNormalizeUriScheme_cases)

lemma LanceNormalizeUriScheme_other:
  assumes "\<And>s rest. p = s @ ''://'' @ rest \<Longrightarrow> \<not> valid_scheme s"
  shows "LanceNormalizeUriScheme p = p"
  using assms by (auto simp: LanceNormalizeUriScheme_cases split: option.splits elim: find_sub_split)

lemma first_char_lower:
  "IsLanceUriSchemeFirstChar c \<Longrightarrow> IsLanceUriSchemeFirstChar (ascii_lower c)"
  by (auto simp: IsLanceUriSchemeFirstChar_def ascii_lower_def Let_def)

lemma scheme_char_lower: "IsLanceUriSchemeChar c \<Longrightarrow> IsLanceUriSchemeChar (ascii_lower c)"
proof (cases "IsLanceUriSchemeFirstChar c")
  case False
  then have "ascii_lower c = c"
    by (auto simp: ascii_lower_def IsLanceUriSchemeFirstChar_def Let_def)
  then show "IsLanceUriSchemeChar c \<Longrightarrow> IsLanceUriSchemeChar (ascii_lower c)" by simp
qed (simp add: IsLanceUriSchemeChar_def first_char_lower)

lemma valid_scheme_lower: "valid_scheme s \<Longrightarrow> valid_scheme (map ascii_lower s)"
  by (cases s) (auto simp: first_char_lower scheme_char_lower list_all_iff)

lemma valid_scheme_canonical: "valid_scheme s \<Longrightarrow> valid_scheme (canonical_scheme s)"
  using valid_scheme_lower [of s]
  by (simp add: canonical_scheme_def Let_def IsLanceUriSchemeFirstChar_def IsLanceUriSchemeChar_def
      is_digit_def)

lemma map_ascii_lower_idem [simp]: "map ascii_lower (map ascii_lower s) = map ascii_lower s"
  by (induction s) simp_all

lemma canonical_scheme_idem: "canonical_scheme (canonical_scheme s) = canonical_scheme s"
proof (cases "map ascii_lower s = ''s3a'' \<or> map ascii_lower s = ''s3n''")
  case True
  then have "canonical_scheme s = ''s3''" by (simp add: canonical_scheme_def Let_def)
  moreover have "canonical_scheme ''s3'' = ''s3''"
    by (simp add: canonical_scheme_def ascii_lower_def)
  ultimately show ?thesis by simp
next
  case False
  then have "canonical_scheme s = map ascii_lower s" by (simp add: canonical_scheme_def Let_def)
  moreover have "canonical_scheme (map ascii_lower s) = map ascii_lower s"
    using False unfolding canonical_scheme_def map_ascii_lower_idem by simp
  ultimately show ?thesis by simp
qed

lemma LanceNormalizeUriScheme_idem:
  "LanceNormalizeUriScheme (LanceNormalizeUriScheme p) = LanceNormalizeUriScheme p"
proof (cases "\<exists>s rest. p = s @ ''://'' @ rest \<and> valid_scheme s")
  case True
  then obtain s rest where p: "p = s @ ''://'' @ rest" and s: "valid_scheme s" by blast
  show ?thesis
    unfolding p LanceNormalizeUriScheme_scheme [OF s]
      LanceNormalizeUriScheme_scheme [OF valid_scheme_canonical [OF s]] canonical_scheme_idem ..
next
  case False
  then have "LanceNormalizeUriScheme p = p" by (intro LanceNormalizeUriScheme_other) blast
  then show ?thesis by simp
qed

text \<open>The spelling of a scheme does not matter.\<close>

lemma LanceNormalizeUriScheme_ci:
  assumes "valid_scheme s" and "valid_scheme t" and "map ascii_lower s = map ascii_lower t"
  shows "LanceNormalizeUriScheme (s @ ''://'' @ rest) = LanceNormalizeUriScheme (t @ ''://'' @ rest)"
proof -
  have "canonical_scheme s = canonical_scheme t" using assms(3) by (simp add: canonical_scheme_def)
  then show ?thesis
    by (simp only: LanceNormalizeUriScheme_scheme [OF assms(1)] LanceNormalizeUriScheme_scheme [OF assms(2)])
qed


section \<open>S3 spellings\<close>

definition s3_schemes :: "string set" where
  "s3_schemes = {''s3'', ''s3a'', ''s3n''}"

lemma ascii_lower_colon: "ascii_lower c = CHR '':'' \<longleftrightarrow> c = CHR '':''"
  and ascii_lower_slash: "ascii_lower c = CHR ''/'' \<longleftrightarrow> c = CHR ''/''"
proof -
  have "ascii_lower c = d \<longleftrightarrow> c = d" if "\<not> (97 \<le> (of_char d :: nat) \<and> (of_char d :: nat) \<le> 122)"
    and "\<not> (65 \<le> (of_char d :: nat) \<and> (of_char d :: nat) \<le> 90)" for d
    using that by (auto simp: ascii_lower_def)
  from this [of "CHR '':''"] this [of "CHR ''/''"]
  show "ascii_lower c = CHR '':'' \<longleftrightarrow> c = CHR '':''" and "ascii_lower c = CHR ''/'' \<longleftrightarrow> c = CHR ''/''"
    by simp_all
qed

lemma lower_sep_iff: "map ascii_lower u = ''://'' \<longleftrightarrow> u = ''://''"
  by (auto simp: map_eq_Cons_conv ascii_lower_colon ascii_lower_slash)

lemma lower_scheme_sep:
  "map ascii_lower s = t @ ''://'' \<longleftrightarrow> (\<exists>u. s = u @ ''://'' \<and> map ascii_lower u = t)"
  unfolding map_eq_append_conv by (metis lower_sep_iff)

lemma ci_sep:
  assumes "string_util db"
  shows "CIEquals db u (t @ ''://'') \<longleftrightarrow> (\<exists>s. u = s @ ''://'' \<and> map ascii_lower s = map ascii_lower t)"
  using lower_scheme_sep [of u "map ascii_lower t"]
  by (simp add: string_util_simps [OF assms] ascii_lower_def)

lemma s3_prefix:
  assumes "string_util db" and "map ascii_lower t = t" and "n = length t + 3"
  shows "(length p \<ge> n \<and> CIEquals db (take n p) (t @ ''://'')) \<longleftrightarrow>
    (\<exists>s rest. p = s @ ''://'' @ rest \<and> map ascii_lower s = t)"
  (is "?l \<longleftrightarrow> ?r")
proof
  assume ?l
  then obtain s where "take n p = s @ ''://''" and "map ascii_lower s = t"
    using ci_sep [OF assms(1)] assms(2) by metis
  moreover have "p = take n p @ drop n p" by simp
  ultimately show ?r by (metis append_assoc)
next
  assume ?r
  then obtain s rest where p: "p = s @ ''://'' @ rest" and s: "map ascii_lower s = t" by blast
  from s have "length s = length t" by auto
  then have "take n p = s @ ''://''" and "length p \<ge> n" using p assms(3) by auto
  then show ?l using ci_sep [OF assms(1)] s assms(2) by metis
qed

lemma lower_s3 [simp]: "map ascii_lower ''s3'' = ''s3''" "map ascii_lower ''s3a'' = ''s3a''"
    "map ascii_lower ''s3n'' = ''s3n''"
  by (simp_all add: ascii_lower_def)

lemma LanceNormalizeS3Scheme_s3:
  assumes db: "string_util db" and s: "map ascii_lower s \<in> s3_schemes"
  shows "LanceNormalizeS3Scheme db (s @ ''://'' @ rest) = ''s3://'' @ rest"
proof (cases "map ascii_lower s = ''s3''")
  case True
  then have "length s = length ''s3''" by (metis length_map)
  with True show ?thesis
    using s3_prefix [OF db lower_s3(1), of 5 "s @ ''://'' @ rest"]
    by (auto simp: LanceNormalizeS3Scheme_def)
next
  case False
  then have s3: "map ascii_lower s = ''s3a'' \<or> map ascii_lower s = ''s3n''"
    using s by (simp add: s3_schemes_def)
  then have "length s = length ''s3a'' \<or> length s = length ''s3n''"
    by (metis length_map)
  then have len: "length s = 3" by simp
  have "\<not> CIEquals db (take 5 (s @ ''://'' @ rest)) ''s3://''"
  proof
    assume "CIEquals db (take 5 (s @ ''://'' @ rest)) ''s3://''"
    then have "map ascii_lower (s @ '':/'') = ''s3://''"
      using len by (simp add: string_util_simps [OF db] ascii_lower_def)
    with s3 show False by auto
  qed
  moreover have "CIEquals db (take 6 (s @ ''://'' @ rest)) ''s3a://'' \<or>
      CIEquals db (take 6 (s @ ''://'' @ rest)) ''s3n://''"
    using s3_prefix [OF db lower_s3(2), of 6 "s @ ''://'' @ rest"]
      s3_prefix [OF db lower_s3(3), of 6 "s @ ''://'' @ rest"] s3 by auto
  ultimately show ?thesis using len by (simp add: LanceNormalizeS3Scheme_def)
qed

lemma LanceNormalizeS3Scheme_other:
  assumes db: "string_util db"
    and "\<And>s rest. p = s @ ''://'' @ rest \<Longrightarrow> map ascii_lower s \<notin> s3_schemes"
  shows "LanceNormalizeS3Scheme db p = p"
proof -
  have none: "\<not> (length p \<ge> n \<and> CIEquals db (take n p) (t @ ''://''))"
    if "map ascii_lower t = t" and "n = length t + 3" and "t \<in> s3_schemes" for t n
    unfolding s3_prefix [OF db that(1,2)] using assms(2) that(3) by blast
  from none [OF lower_s3(1), of 5] none [OF lower_s3(2), of 6] none [OF lower_s3(3), of 6]
  show ?thesis
    unfolding LanceNormalizeS3Scheme_def by (simp add: s3_schemes_def, satx)
qed

lemma first_char_unlower:
  "IsLanceUriSchemeFirstChar (ascii_lower c) \<Longrightarrow> IsLanceUriSchemeFirstChar c"
  by (auto simp: IsLanceUriSchemeFirstChar_def ascii_lower_def Let_def split: if_splits)

lemma scheme_char_unlower: "IsLanceUriSchemeChar (ascii_lower c) \<Longrightarrow> IsLanceUriSchemeChar c"
  by (cases "ascii_lower c = c")
    (auto simp: IsLanceUriSchemeChar_def IsLanceUriSchemeFirstChar_def ascii_lower_def split: if_splits)

lemma valid_scheme_unlower: "valid_scheme (map ascii_lower s) \<Longrightarrow> valid_scheme s"
  by (cases s) (auto simp: list_all_iff first_char_unlower scheme_char_unlower)

lemma s3_scheme_valid: "map ascii_lower s \<in> s3_schemes \<Longrightarrow> valid_scheme s"
  by (rule valid_scheme_unlower)
    (auto simp: s3_schemes_def IsLanceUriSchemeFirstChar_def IsLanceUriSchemeChar_def is_digit_def)

lemma canonical_s3: "map ascii_lower s \<in> s3_schemes \<Longrightarrow> canonical_scheme s = ''s3''"
  by (auto simp: s3_schemes_def canonical_scheme_def)

text \<open>Where the S3 normaliser acts at all, it agrees with the general one.\<close>

definition is_s3_path :: "string \<Rightarrow> bool" where
  "is_s3_path p \<longleftrightarrow> (\<exists>s rest. p = s @ ''://'' @ rest \<and> map ascii_lower s \<in> s3_schemes)"

lemma LanceNormalizeS3Scheme_agrees:
  assumes db: "string_util db"
  shows "LanceNormalizeS3Scheme db p = (if is_s3_path p then LanceNormalizeUriScheme p else p)"
proof (cases "is_s3_path p")
  case True
  then obtain s rest where p: "p = s @ ''://'' @ rest" and s: "map ascii_lower s \<in> s3_schemes"
    unfolding is_s3_path_def by blast
  show ?thesis
    using True LanceNormalizeS3Scheme_s3 [OF db s] LanceNormalizeUriScheme_scheme [OF s3_scheme_valid [OF s]]
    by (simp add: p canonical_s3 [OF s])
next
  case False
  then have "LanceNormalizeS3Scheme db p = p"
    unfolding is_s3_path_def by (intro LanceNormalizeS3Scheme_other [OF db]) blast
  with False show ?thesis by simp
qed

lemma LanceNormalizeS3Scheme_after_uri:
  assumes "string_util db"
  shows "LanceNormalizeS3Scheme db (LanceNormalizeUriScheme p) = LanceNormalizeUriScheme p"
  by (simp add: LanceNormalizeS3Scheme_agrees [OF assms] LanceNormalizeUriScheme_idem)

lemma LanceNormalizeS3Scheme_idem:
  assumes "string_util db"
  shows "LanceNormalizeS3Scheme db (LanceNormalizeS3Scheme db p) = LanceNormalizeS3Scheme db p"
  using LanceNormalizeS3Scheme_after_uri [OF assms, of p]
  by (cases "is_s3_path p") (simp_all add: LanceNormalizeS3Scheme_agrees [OF assms])


section \<open>Local paths\<close>

lemma strip_slashes_prefix: "\<exists>k. s = strip_slashes s @ replicate k (CHR ''/'')"
proof (induction s rule: strip_slashes.induct)
  case (1 s)
  show ?case
  proof (cases "length s > 1 \<and> last s = CHR ''/''")
    case True
    then obtain k where "butlast s = strip_slashes (butlast s) @ replicate k (CHR ''/'')"
      using 1 by blast
    moreover have "s = butlast s @ [CHR ''/'']"
      using True by (metis append_butlast_last_id length_0_conv not_one_less_zero)
    ultimately have "s = strip_slashes (butlast s) @ replicate (Suc k) (CHR ''/'')"
      by (metis append.assoc replicate_append_same replicate_Suc)
    moreover have "strip_slashes s = strip_slashes (butlast s)"
      using True by (simp add: strip_slashes.simps [of s])
    ultimately show ?thesis by metis
  next
    case False
    then have "strip_slashes s = s" by (subst strip_slashes.simps) auto
    then have "s = strip_slashes s @ replicate 0 (CHR ''/'')" by simp
    then show ?thesis ..
  qed
qed

lemma strip_slashes_done: "length (strip_slashes s) \<le> 1 \<or> last (strip_slashes s) \<noteq> CHR ''/''"
proof (induction s rule: strip_slashes.induct)
  case (1 s)
  then show ?case
    by (cases "length s > 1 \<and> last s = CHR ''/''") (auto simp: strip_slashes.simps [of s])
qed


section \<open>Redaction\<close>

text \<open>A path that must not be shown.\<close>

definition sensitive :: "lance_ffi \<Rightarrow> string \<Rightarrow> bool" where
  "sensitive ffi path \<longleftrightarrow>
     LanceVanePathHasPrivateUriComponents ffi path \<or> LanceVanePathIsRemote ffi path"

lemma diagnostic_path:
  "LanceVaneDiagnosticPath ffi path force =
     (if force \<or> sensitive ffi path then ''<redacted-private-uri>'' else path)"
  by (simp add: LanceVaneDiagnosticPath_def sensitive_def)

text \<open>An error text is replaced by one that tells only whether there was an error.\<close>

lemma error_suffix_redacted:
  assumes "force \<or> sensitive ffi path"
  shows "LanceVaneFormatErrorSuffix ffi err path force =
    (if LanceConsumeLastError err = [] then '''' else '' (Lance error details redacted)'')"
  using assms by (auto simp: LanceVaneFormatErrorSuffix_def sensitive_def)

lemma consume_error_empty:
  "LanceConsumeLastError err = [] \<longleftrightarrow>
     lance_last_error_code err = 0 \<and>
     (lance_last_error_message err = None \<or> lance_last_error_message err = Some [])"
  by (auto simp: LanceConsumeLastError_def Let_def split: option.splits)

text \<open>
  What makes a table's diagnostics private: the path or the dataset URI is sensitive, or the table
  comes from a namespace that is not a directory, is restricted from replay, was opened with a
  secret of the coordinator, carries storage options, or has a sensitive root or display URI.
\<close>

definition private_namespace :: "lance_ffi \<Rightarrow> LanceNamespaceTableConfig \<Rightarrow> bool" where
  "private_namespace ffi cfg \<longleftrightarrow>
     kind cfg \<noteq> Directory \<or> distributed_replay_path_restricted cfg \<or> uses_coordinator_storage_secret cfg \<or>
     option_keys cfg \<noteq> [] \<or> (\<exists>uri \<in> {root cfg, display_uri cfg}. sensitive ffi uri)"

definition private_table :: "lance_ffi \<Rightarrow> LanceTableEntry \<Rightarrow> string \<Rightarrow> bool" where
  "private_table ffi table path \<longleftrightarrow>
     (\<exists>uri \<in> {path, DatasetUri table}. sensitive ffi uri) \<or>
     (\<exists>cfg. NamespaceConfig table = Some cfg \<and> private_namespace ffi cfg)"

lemma table_redaction_iff: "LanceVaneTablePathRequiresRedaction ffi table path \<longleftrightarrow> private_table ffi table path"
  by (auto simp: LanceVaneTablePathRequiresRedaction_def private_table_def private_namespace_def sensitive_def
      IsDirectory_def split: option.splits)

lemma error_suffix_shown:
  assumes "\<not> force" and "\<not> sensitive ffi path"
  shows "LanceVaneFormatErrorSuffix ffi err path force = LanceFormatErrorSuffix err"
  using assms by (simp add: LanceVaneFormatErrorSuffix_def sensitive_def)

lemma table_diagnostics:
  "LanceVaneTableDiagnosticPath ffi table path =
     (if private_table ffi table path then ''<redacted-private-uri>'' else path)"
  "LanceVaneTableFormatErrorSuffix ffi err table path =
     (if private_table ffi table path
      then if LanceConsumeLastError err = [] then '''' else '' (Lance error details redacted)''
      else LanceFormatErrorSuffix err)"
proof -
  have "sensitive ffi path \<Longrightarrow> private_table ffi table path" by (simp add: private_table_def)
  then show "LanceVaneTableDiagnosticPath ffi table path =
      (if private_table ffi table path then ''<redacted-private-uri>'' else path)"
    and "LanceVaneTableFormatErrorSuffix ffi err table path =
      (if private_table ffi table path
       then if LanceConsumeLastError err = [] then '''' else '' (Lance error details redacted)''
       else LanceFormatErrorSuffix err)"
    by (auto simp: LanceVaneTableDiagnosticPath_def LanceVaneTableFormatErrorSuffix_def table_redaction_iff
        diagnostic_path error_suffix_redacted intro: error_suffix_shown)
qed

end
