(* ===== verification/Options_Correct.thy ===== *)
theory Options_Correct
  imports Storage_Options Paths_Correct
begin

text \<open>
  What the resolution of storage options guarantees: the option vectors stay parallel, no option
  is left under two names, an inherited session token is never combined with a connection's own
  credentials, a secret takes precedence over the settings, and the credentials of a namespace do
  not depend on the iteration order of a hash map.
\<close>

section \<open>Parallel vectors\<close>

definition in_step :: "options \<Rightarrow> bool" where
  "in_step os \<longleftrightarrow> length (fst os) = length (snd os)"

definition pairs :: "options \<Rightarrow> (string \<times> string) list" where
  "pairs os = zip (fst os) (snd os)"

lemma in_step_no_options [simp]: "in_step no_options"
  by (simp add: in_step_def no_options_def)

lemma in_step_push [simp]: "in_step (push_option os k v) \<longleftrightarrow> in_step os"
  by (simp add: in_step_def push_option_def)

lemma in_step_append [simp]: "in_step os \<Longrightarrow> in_step (AppendLanceStorageOption os k v)"
  by (simp add: AppendLanceStorageOption_def)

lemma keys_push [simp]: "set (fst (push_option os k v)) = insert k (set (fst os))"
  by (simp add: push_option_def)

lemma keys_append:
  "set (fst (AppendLanceStorageOption os k v)) = (if v = [] then set (fst os) else insert k (set (fst os)))"
  by (simp add: AppendLanceStorageOption_def)

lemma pairs_no_options [simp]: "pairs no_options = []"
  by (simp add: pairs_def no_options_def)

lemma pairs_push: "in_step os \<Longrightarrow> pairs (push_option os k v) = pairs os @ [(k, v)]"
  by (simp add: pairs_def push_option_def in_step_def)

lemma in_step_secret_entries: "in_step os \<Longrightarrow> in_step (append_secret_entries cl kvs os)"
  by (induction cl kvs os rule: append_secret_entries.induct) auto

lemma in_step_FillStorageOptionsFromSecrets:
  "FillStorageOptionsFromSecrets db ffi cl path os = Inr os' \<Longrightarrow> in_step os \<Longrightarrow> in_step os'"
  by (clarsimp simp: FillStorageOptionsFromSecrets_def res_bind_Inr_iff)
    (auto simp: in_step_secret_entries split: SecretMatch.split_asm)

lemma in_step_session_token:
  "in_step os \<Longrightarrow> in_step (append_session_token cl access secret token os)"
  by (simp add: append_session_token_def)

lemma in_step_append_endpoint:
  "append_endpoint db cl setting os = Inr os' \<Longrightarrow> in_step os \<Longrightarrow> in_step os'"
  by (auto simp: append_endpoint_def Let_def res_bind_Inr_iff split: if_splits)

lemma in_step_url_style: "in_step os \<Longrightarrow> in_step (append_url_style db setting os)"
  by (simp add: append_url_style_def)

lemma FillFromSettings_stages:
  assumes "FillLanceStorageOptionsFromDuckDBS3Settings db cl os = Inr os'"
  obtains access secret token pair and region :: s3_setting and endpoint os1 url_style where
    "TryGetLanceS3Setting db cl ''s3_access_key_id'' False = Inr access"
    and "TryGetLanceS3Setting db cl ''s3_secret_access_key'' False = Inr secret"
    and "TryGetLanceS3Setting db cl ''s3_session_token'' True = Inr token"
    and "check_local_pair access secret = Inr pair"
    and "append_endpoint db cl endpoint
      (AppendLanceStorageOption
        (append_session_token cl access secret token
          (AppendLanceStorageOption
            (AppendLanceStorageOption os ''aws_access_key_id'' (out_value access))
            ''aws_secret_access_key'' (out_value secret)))
        ''aws_region'' (out_value region)) = Inr os1"
    and "append_url_style db url_style os1 = os'"
proof -
  from assms [unfolded FillLanceStorageOptionsFromDuckDBS3Settings_def Let_def res_bind_Inr_iff sum.inject]
  show thesis by (elim exE conjE) (rule that)
qed

lemma in_step_FillFromSettings:
  assumes "FillLanceStorageOptionsFromDuckDBS3Settings db cl os = Inr os'" and "in_step os"
  shows "in_step os'"
  using assms(1)
  by (rule FillFromSettings_stages)
    (metis assms(2) in_step_url_style in_step_append_endpoint in_step_session_token in_step_append)


section \<open>Canonical names\<close>

definition canonical_keys :: "string set" where
  "canonical_keys =
     {''aws_access_key_id'', ''aws_secret_access_key'', ''aws_session_token'', ''aws_region'',
      ''aws_endpoint'', ''aws_virtual_hosted_style_request''}"

definition kept :: "duckdb \<Rightarrow> string list \<Rightarrow> string \<Rightarrow> bool" where
  "kept db keys k \<longleftrightarrow>
     \<not> (IsLanceS3StorageOptionAlias db k \<and>
        has_explicit_canonical db keys (CanonicalLanceS3StorageOptionKey db k))"

text \<open>Canonicalisation as a comprehension over the pairs.\<close>

definition canonical_pairs :: "duckdb \<Rightarrow> string list \<Rightarrow> (string \<times> string) list \<Rightarrow> (string \<times> string) list" where
  "canonical_pairs db keys kvs =
     map (\<lambda>(k, v). (CanonicalLanceS3StorageOptionKey db k, v)) (filter (\<lambda>kv. kept db keys (fst kv)) kvs)"

lemma canonicalize_loop_eq:
  "canonicalize_loop db keys kvs os =
     (fst os @ map fst (canonical_pairs db keys kvs), snd os @ map snd (canonical_pairs db keys kvs))"
  by (induction db keys kvs os rule: canonicalize_loop.induct)
    (auto simp: canonical_pairs_def kept_def push_option_def Let_def)

lemma Canonicalize_eq:
  "CanonicalizeLanceS3StorageOptions db os =
     (map fst (canonical_pairs db (fst os) (pairs os)), map snd (canonical_pairs db (fst os) (pairs os)))"
  by (simp add: CanonicalizeLanceS3StorageOptions_def canonicalize_loop_eq pairs_def no_options_def)

lemma in_step_Canonicalize [simp]: "in_step (CanonicalizeLanceS3StorageOptions db os)"
  by (simp add: Canonicalize_eq in_step_def)

lemma pairs_Canonicalize:
  "pairs (CanonicalizeLanceS3StorageOptions db os) = canonical_pairs db (fst os) (pairs os)"
  by (simp add: Canonicalize_eq pairs_def zip_map_fst_snd)

definition option_names :: "string list" where
  "option_names =
     [''access_key_id'', ''aws_access_key_id'', ''secret_access_key'', ''aws_secret_access_key'',
      ''session_token'', ''aws_session_token'', ''region'', ''aws_region'', ''endpoint'',
      ''aws_endpoint'', ''virtual_hosted_style_request'', ''aws_virtual_hosted_style_request'']"

lemma option_names_lower: "c \<in> set option_names \<Longrightarrow> map ascii_lower c = c"
proof -
  have "list_all (\<lambda>c. map ascii_lower c = c) option_names"
    by (simp add: option_names_def ascii_lower_def)
  then show "c \<in> set option_names \<Longrightarrow> map ascii_lower c = c" by (simp add: list_all_iff)
qed

lemma canonical_keys_subset: "canonical_keys \<subseteq> set option_names"
  by (simp add: canonical_keys_def option_names_def)

lemma canonical_key_fix:
  assumes "string_util db" and "c \<in> canonical_keys"
  shows "CanonicalLanceS3StorageOptionKey db c = c" and "\<not> IsLanceS3StorageOptionAlias db c"
proof -
  have "CIEquals db c k \<longleftrightarrow> c = k" if "k \<in> set option_names" for k
    using option_names_lower [of k] option_names_lower [of c] that assms(2) canonical_keys_subset
    by (simp add: string_util_simps [OF assms(1)] subset_iff)
  then have eq: "list_all (\<lambda>k. CIEquals db c k = (c = k)) option_names"
    by (simp add: list_all_iff)
  show "CanonicalLanceS3StorageOptionKey db c = c" and "\<not> IsLanceS3StorageOptionAlias db c"
    using assms(2) eq unfolding canonical_keys_def option_names_def
    by (elim insertE emptyE;
        simp add: CanonicalLanceS3StorageOptionKey_def IsLanceS3StorageOptionAlias_def)+
qed

lemma CanonicalKey_cases:
  "CanonicalLanceS3StorageOptionKey db k \<in> canonical_keys \<or>
   CanonicalLanceS3StorageOptionKey db k = k \<and> \<not> IsLanceS3StorageOptionAlias db k"
  by (simp add: CanonicalLanceS3StorageOptionKey_def IsLanceS3StorageOptionAlias_def canonical_keys_def)

lemma CanonicalKey_idem:
  assumes "string_util db"
  shows "CanonicalLanceS3StorageOptionKey db (CanonicalLanceS3StorageOptionKey db k) =
    CanonicalLanceS3StorageOptionKey db k"
  using CanonicalKey_cases [of db k] canonical_key_fix(1) [OF assms] by metis

lemma CanonicalKey_not_alias:
  assumes "string_util db"
  shows "\<not> IsLanceS3StorageOptionAlias db (CanonicalLanceS3StorageOptionKey db k)"
  using CanonicalKey_cases [of db k] canonical_key_fix(2) [OF assms] by metis

lemma Canonicalize_keys:
  assumes "string_util db" and "k \<in> set (fst (CanonicalizeLanceS3StorageOptions db os))"
  shows "\<not> IsLanceS3StorageOptionAlias db k" and "CanonicalLanceS3StorageOptionKey db k = k"
  using assms(2) CanonicalKey_not_alias [OF assms(1)] CanonicalKey_idem [OF assms(1)]
  by (auto simp: Canonicalize_eq canonical_pairs_def)

lemma canonical_pairs_fixed:
  assumes "\<And>k v. (k, v) \<in> set kvs \<Longrightarrow>
      \<not> IsLanceS3StorageOptionAlias db k \<and> CanonicalLanceS3StorageOptionKey db k = k"
  shows "canonical_pairs db keys kvs = kvs"
proof -
  have "filter (\<lambda>kv. kept db keys (fst kv)) kvs = kvs"
    using assms by (intro filter_True) (auto simp: kept_def)
  moreover have "map (\<lambda>(k, v). (CanonicalLanceS3StorageOptionKey db k, v)) kvs = kvs"
    using assms by (intro map_idI) auto
  ultimately show ?thesis by (simp add: canonical_pairs_def)
qed

lemma Canonicalize_idem:
  assumes "string_util db"
  shows "CanonicalizeLanceS3StorageOptions db (CanonicalizeLanceS3StorageOptions db os) =
    CanonicalizeLanceS3StorageOptions db os" (is "?C ?os = ?os")
proof -
  have "canonical_pairs db (fst ?os) (pairs ?os) = pairs ?os"
    using Canonicalize_keys [OF assms, of _ os]
    by (intro canonical_pairs_fixed) (auto simp: pairs_def dest: set_zip_leftD)
  moreover have "?os = (map fst (pairs ?os), map snd (pairs ?os))"
    using in_step_Canonicalize [of db os] by (simp add: pairs_def in_step_def)
  ultimately show ?thesis by (metis Canonicalize_eq)
qed

text \<open>
  An explicit canonical name silences its aliases: when a key that is not an alias spells the
  canonical key, exactly the values of such keys are kept, and otherwise those of the aliases.
\<close>

lemma explicit_name_wins:
  assumes su: "string_util db" and c: "c \<in> canonical_keys"
  shows "[v. (k, v) \<leftarrow> pairs (CanonicalizeLanceS3StorageOptions db os), k = c] =
    [v. (k, v) \<leftarrow> pairs os,
        CanonicalLanceS3StorageOptionKey db k = c \<and>
        (has_explicit_canonical db (fst os) c \<longrightarrow> \<not> IsLanceS3StorageOptionAlias db k)]"
proof -
  have "[v. (k, v) \<leftarrow> canonical_pairs db keys kvs, k = c] =
    [v. (k, v) \<leftarrow> kvs,
        CanonicalLanceS3StorageOptionKey db k = c \<and>
        (has_explicit_canonical db keys c \<longrightarrow> \<not> IsLanceS3StorageOptionAlias db k)]" for keys kvs
    by (induction kvs) (auto simp: canonical_pairs_def kept_def)
  then show ?thesis by (simp add: pairs_Canonicalize)
qed


section \<open>The settings\<close>

lemma check_local_pair_Inr:
  "check_local_pair access secret = Inr b \<longleftrightarrow>
     b = (out_scope access = LOCAL) \<and> (out_scope access = LOCAL \<longleftrightarrow> out_scope secret = LOCAL) \<and>
     (b \<longrightarrow> found access \<and> found secret)"
  by (auto simp: check_local_pair_def Let_def)

text \<open>Half a connection-local pair, or an empty one, is an error wherever the settings are used.\<close>

lemma local_pair_needs_both:
  assumes "TryGetLanceS3Setting db cl ''s3_access_key_id'' False = Inr access"
    and "TryGetLanceS3Setting db cl ''s3_secret_access_key'' False = Inr secret"
    and "FillLanceStorageOptionsFromDuckDBS3Settings db cl os = Inr os'"
  shows "(out_scope access = LOCAL \<longleftrightarrow> out_scope secret = LOCAL) \<and>
    (out_scope access = LOCAL \<longrightarrow> out_value access \<noteq> [] \<and> out_value secret \<noteq> [])"
proof -
  have "found s \<Longrightarrow> out_value s \<noteq> []" if "TryGetLanceS3Setting db cl n False = Inr s" for n s
    using that
    by (auto simp: TryGetLanceS3Setting_def res_bind_Inr_iff split: option.splits prod.splits if_splits)
  moreover obtain b where "check_local_pair access secret = Inr b"
    using assms by (auto elim!: FillFromSettings_stages)
  ultimately show ?thesis using assms(1,2) by (auto simp: check_local_pair_Inr)
qed

lemma endpoint_keys:
  "append_endpoint db cl setting os = Inr os' \<Longrightarrow>
     set (fst os') \<subseteq> set (fst os) \<union> {''aws_endpoint'', ''allow_http''}"
  by (auto simp: append_endpoint_def Let_def res_bind_Inr_iff keys_append split: if_splits)

lemma url_style_keys:
  "set (fst (append_url_style db setting os)) \<subseteq>
     set (fst os) \<union> {''aws_virtual_hosted_style_request''}"
  by (simp add: append_url_style_def keys_append) (simp add: subset_insertI)

text \<open>
  A session token inherited from the process (a GLOBAL setting) is never combined with a
  connection-local static pair.
\<close>

lemma inherited_token_not_merged:
  assumes access: "TryGetLanceS3Setting db cl ''s3_access_key_id'' False = Inr access"
    and secret: "TryGetLanceS3Setting db cl ''s3_secret_access_key'' False = Inr secret"
    and token: "TryGetLanceS3Setting db cl ''s3_session_token'' True = Inr token"
    and "out_scope access = LOCAL" and "out_scope token = GLOBAL"
    and fill: "FillLanceStorageOptionsFromDuckDBS3Settings db cl no_options = Inr os'"
  shows "''aws_session_token'' \<notin> set (fst os')"
proof -
  let ?pair = "AppendLanceStorageOption
      (AppendLanceStorageOption no_options ''aws_access_key_id'' (out_value access))
      ''aws_secret_access_key'' (out_value secret)"
  have pair: "check_local_pair access secret = Inr True"
    using fill access secret \<open>out_scope access = LOCAL\<close>
    by (auto simp: check_local_pair_Inr elim!: FillFromSettings_stages)
  then have skip: "append_session_token cl access secret token ?pair = ?pair"
    using assms(4,5)
    by (auto simp: append_session_token_def token_belongs_to_process_environment_def check_local_pair_Inr)
  from fill obtain access' secret' token' and region :: s3_setting and endpoint os1 url_style where
      same: "access' = access" "secret' = secret" "token' = token"
    and ep': "append_endpoint db cl endpoint (AppendLanceStorageOption
        (append_session_token cl access' secret' token' (AppendLanceStorageOption
          (AppendLanceStorageOption no_options ''aws_access_key_id'' (out_value access'))
          ''aws_secret_access_key'' (out_value secret'))) ''aws_region'' (out_value region)) = Inr os1"
    and os': "append_url_style db url_style os1 = os'"
    by (rule FillFromSettings_stages) (simp add: access secret token)
  note ep = ep' [unfolded same skip]
  have "''aws_session_token'' \<notin> set (fst (AppendLanceStorageOption ?pair ''aws_region'' (out_value region)))"
    by (simp add: keys_append no_options_def)
  then have "''aws_session_token'' \<notin> set (fst os1)"
    using endpoint_keys [OF ep] by (intro notI) (drule (1) subsetD, simp)
  then show ?thesis
    unfolding os' [symmetric] using url_style_keys [of db url_style os1]
    by (intro notI) (drule (1) subsetD, simp)
qed

text \<open>Plain HTTP is allowed for exactly the endpoints that are named or completed as such.\<close>

lemma allow_http_iff:
  assumes "append_endpoint db cl setting os = Inr os'" and "found setting"
    and "''allow_http'' \<notin> set (fst os)" and "use_ssl_setting db cl = Inr use_ssl"
    and "string_util db"
  shows "''allow_http'' \<in> set (fst os') \<longleftrightarrow>
    (if find_sub ''://'' (out_value setting) = None then \<not> use_ssl
     else StartsWith (map ascii_lower (out_value setting)) ''http://'')"
  using assms(1-4)
  by (auto simp: append_endpoint_def Let_def res_bind_Inr_iff keys_append string_util_simps [OF assms(5)]
      StartsWith_def ascii_lower_def split: if_splits)


section \<open>Precedence\<close>

text \<open>Options of a secret leave the settings and the environment out of account.\<close>

lemma secret_takes_precedence:
  assumes "ResolveLanceStorageOptions db ffi cl path = Inr (open_path, os)" and "StartsWith open_path ''s3://''"
    and "fst (CanonicalizeLanceS3StorageOptions db os) \<noteq> []"
  shows "ResolveLanceStorageOptionsForDistributedRead db ffi cl path =
    Inr (open_path, CanonicalizeLanceS3StorageOptions db os)"
  using assms by (simp add: ResolveLanceStorageOptionsForDistributedRead_def Let_def)

text \<open>Without a secret and without settings of its own, a connection keeps the process's provider chain.\<close>

lemma environment_kept:
  assumes "ResolveLanceStorageOptions db ffi cl path = Inr (open_path, no_options)"
    and "ProcessHasLanceS3Environment cl" and "LanceS3SettingsOverrideProcessEnvironment db cl = Inr False"
  shows "ResolveLanceStorageOptionsForDistributedRead db ffi cl path = Inr (open_path, no_options)"
  using assms
  by (simp add: ResolveLanceStorageOptionsForDistributedRead_def Let_def
      CanonicalizeLanceS3StorageOptions_def no_options_def)

lemma in_step_ResolveLanceStorageOptions:
  "ResolveLanceStorageOptions db ffi cl path = Inr (p, os) \<Longrightarrow> in_step os"
  by (auto simp: ResolveLanceStorageOptions_def Let_def res_bind_Inr_iff
      intro: in_step_FillStorageOptionsFromSecrets)

lemma in_step_resolve_for_read:
  assumes "resolve_for_read vane db ffi cl path = Inr (p, os)" shows "in_step os"
proof (cases vane)
  case True
  then obtain p1 os1 where r: "ResolveLanceStorageOptions db ffi cl path = Inr (p1, os1)"
    using assms by (auto simp: resolve_for_read_def ResolveLanceStorageOptionsForDistributedRead_def res_bind_Inr_iff)
  then have "in_step os1" by (rule in_step_ResolveLanceStorageOptions)
  with r True assms show ?thesis
    by (auto simp: resolve_for_read_def ResolveLanceStorageOptionsForDistributedRead_def Let_def
        res_bind_Inr_iff split: if_splits) (metis in_step_Canonicalize in_step_FillFromSettings)+
qed (use assms in \<open>auto simp: resolve_for_read_def intro: in_step_ResolveLanceStorageOptions\<close>)


section \<open>Directory namespaces\<close>

lemma sort_eq_iff_mset: "sort xs = sort ys \<longleftrightarrow> mset xs = mset (ys :: 'a::linorder list)"
  by (metis mset_sort properties_for_sort sorted_sort)

text \<open>The attached namespace matches the session when root and options agree, whatever their order.\<close>

lemma session_matches_iff:
  assumes "ResolveLanceStorageOptionsForDistributedRead db ffi cl (root config) = Inr (current_root, os)"
    and "in_step (option_keys config, option_values config)"
  shows "LanceVaneDirectoryNamespaceSessionMatches db ffi cl config = Inr True \<longleftrightarrow>
    current_root = root config \<and> mset (pairs os) = mset (pairs (option_keys config, option_values config))"
proof -
  have "in_step os" using in_step_resolve_for_read [of True] assms(1) by (simp add: resolve_for_read_def)
  then show ?thesis
    using assms by (cases os)
      (simp add: LanceVaneDirectoryNamespaceSessionMatches_def pairs_def in_step_def sort_eq_iff_mset)
qed


section \<open>Credentials of a namespace\<close>

text \<open>
  The option map compares its keys exactly, the resolver ignores their case: \<open>spelled\<close> says whether an
  entry is an option of that name, in whatever spelling, and \<open>named_once\<close> that no option of a
  credential is given in two spellings.
\<close>

definition spelled :: "string \<Rightarrow> string \<times> 'v \<Rightarrow> bool" where
  "spelled n kv \<longleftrightarrow> map ascii_lower (fst kv) = n"

definition named_once :: "(string \<times> 'v) list \<Rightarrow> bool" where
  "named_once opts \<longleftrightarrow>
     (\<forall>n \<in> {''token'', ''bearer_token'', ''api_key''}. length (filter (spelled n) opts) \<le> 1)"

text \<open>A cast of a text to VARCHAR keeps it.\<close>

definition text_casts :: "duckdb \<Rightarrow> bool" where
  "text_casts db \<longleftrightarrow> (\<forall>s. DefaultCastAs db (VarcharValue s) (SimpleType VARCHAR) = Some (VarcharValue s))"

definition text_options :: "(string \<times> string) list \<Rightarrow> (string \<times> Value) list" where
  "text_options es = map (\<lambda>(k, s). (k, VarcharValue s)) es"

definition text_or :: "string \<Rightarrow> string \<Rightarrow> string" where
  "text_or a b = (if a \<noteq> [] then a else b)"

text \<open>The value met last under a name; the last text that is not empty under any of some names.\<close>

definition last_value :: "(string \<times> 'v) list \<Rightarrow> string \<Rightarrow> 'v option" where
  "last_value opts n = (case filter (spelled n) opts of [] \<Rightarrow> None | m # ms \<Rightarrow> Some (snd (last (m # ms))))"

definition last_text :: "(string \<times> string) list \<Rightarrow> string \<Rightarrow> string" where
  "last_text es n = (case last_value es n of None \<Rightarrow> [] | Some s \<Rightarrow> s)"

definition last_nonempty :: "(string \<times> string) list \<Rightarrow> string set \<Rightarrow> string" where
  "last_nonempty es ns =
     (case filter (\<lambda>e. (\<exists>n \<in> ns. spelled n e) \<and> snd e \<noteq> []) es of [] \<Rightarrow> [] | m # ms \<Rightarrow> snd (last (m # ms)))"

definition collect_one :: "duckdb \<Rightarrow> string \<times> Value \<Rightarrow> auth_aliases \<Rightarrow> auth_aliases" where
  "collect_one db kv a =
     (if CIEquals db (fst kv) ''token'' then a\<lparr>alias_token := Some (snd kv)\<rparr>
      else if CIEquals db (fst kv) ''bearer_token'' then a\<lparr>alias_bearer := Some (snd kv)\<rparr>
      else if CIEquals db (fst kv) ''api_key'' then a\<lparr>alias_api_key := Some (snd kv)\<rparr>
      else a)"

lemma collect_aliases_fold: "collect_aliases db opts a = fold (collect_one db) opts a"
  by (induction db opts a rule: collect_aliases.induct) (simp_all add: collect_one_def)

lemma collect_one_commute:
  assumes "string_util db" and "map ascii_lower (fst x) \<noteq> map ascii_lower (fst y)"
  shows "collect_one db x \<circ> collect_one db y = collect_one db y \<circ> collect_one db x"
proof
  fix a
  show "(collect_one db x \<circ> collect_one db y) a = (collect_one db y \<circ> collect_one db x) a"
    using assms(2) by (simp add: collect_one_def string_util_simps [OF assms(1)])
qed

text \<open>
  In the distributed build the iteration order of the option map does not matter, as long as no
  credential is given in two spellings.
\<close>

lemma once_unique:
  assumes "length (filter P xs) \<le> 1" and "x \<in> set xs" "y \<in> set xs" "P x" "P y"
  shows "x = y"
proof -
  have "x \<in> set (filter P xs)" "y \<in> set (filter P xs)" using assms by simp_all
  then show ?thesis using assms(1) by (cases "filter P xs") auto
qed

lemma ci_names:
  assumes "string_util db"
  shows "CIEquals db k ''token'' \<longleftrightarrow> map ascii_lower k = ''token''"
    and "CIEquals db k ''bearer_token'' \<longleftrightarrow> map ascii_lower k = ''bearer_token''"
    and "CIEquals db k ''api_key'' \<longleftrightarrow> map ascii_lower k = ''api_key''"
  by (simp_all only: string_util_simps [OF assms]) (simp_all add: ascii_lower_def)

lemma collect_one_other:
  assumes "string_util db"
    and "map ascii_lower (fst x) \<notin> {''token'', ''bearer_token'', ''api_key''}"
  shows "collect_one db x a = a"
  using assms(2) by (simp add: collect_one_def ci_names [OF assms(1)])

lemma overrides_order_irrelevant:
  assumes "string_util db" and "named_once opts" and "mset opts = mset opts'"
  shows "ResolveLanceNamespaceAuthOverrides True db opts auth =
    ResolveLanceNamespaceAuthOverrides True db opts' auth"
proof -
  have "collect_one db x \<circ> collect_one db y = collect_one db y \<circ> collect_one db x"
    if "x \<in> set opts" and "y \<in> set opts" for x y
  proof (cases "map ascii_lower (fst x) = map ascii_lower (fst y)")
    case True
    show ?thesis
    proof (cases "map ascii_lower (fst x) \<in> {''token'', ''bearer_token'', ''api_key''}")
      case in_names: True
      have "length (filter (spelled (map ascii_lower (fst x))) opts) \<le> 1"
        by (rule bspec [OF assms(2) [unfolded named_once_def] in_names])
      moreover have "spelled (map ascii_lower (fst x)) x" "spelled (map ascii_lower (fst x)) y"
        unfolding spelled_def by (rule refl, rule True [symmetric])
      ultimately have "x = y" using that by (intro once_unique)
      then show ?thesis by simp
    next
      case False
      have "collect_one db x = (\<lambda>a. a)" by (rule ext) (rule collect_one_other [OF assms(1) False])
      then show ?thesis by (simp add: comp_def)
    qed
  next
    case False
    then show ?thesis by (rule collect_one_commute [OF assms(1)])
  qed
  then have "fold (collect_one db) opts = fold (collect_one db) opts'"
    using assms(3) by (rule fold_multiset_equiv)
  then show ?thesis by (simp add: ResolveLanceNamespaceAuthOverrides_def collect_aliases_fold)
qed

text \<open>What the pass over the options keeps of each name.\<close>

lemma last_value_Nil [simp]: "last_value [] n = None"
  by (simp add: last_value_def)

lemma last_value_Cons:
  "last_value (kv # opts) n =
     (case last_value opts n of None \<Rightarrow> if spelled n kv then Some (snd kv) else None | Some v \<Rightarrow> Some v)"
  by (auto simp: last_value_def split: list.splits)

lemma collected:
  assumes "string_util db"
  shows "alias_token (collect_aliases db opts a) =
      (case last_value opts ''token'' of None \<Rightarrow> alias_token a | Some v \<Rightarrow> Some v)"
    and "alias_bearer (collect_aliases db opts a) =
      (case last_value opts ''bearer_token'' of None \<Rightarrow> alias_bearer a | Some v \<Rightarrow> Some v)"
    and "alias_api_key (collect_aliases db opts a) =
      (case last_value opts ''api_key'' of None \<Rightarrow> alias_api_key a | Some v \<Rightarrow> Some v)"
proof -
  have "alias_token (collect_aliases db opts a) =
      (case last_value opts ''token'' of None \<Rightarrow> alias_token a | Some v \<Rightarrow> Some v) \<and>
    alias_bearer (collect_aliases db opts a) =
      (case last_value opts ''bearer_token'' of None \<Rightarrow> alias_bearer a | Some v \<Rightarrow> Some v) \<and>
    alias_api_key (collect_aliases db opts a) =
      (case last_value opts ''api_key'' of None \<Rightarrow> alias_api_key a | Some v \<Rightarrow> Some v)"
  proof (induction opts arbitrary: a)
    case (Cons kv opts)
    obtain k v l where kv: "kv = (k, v)" and l: "map ascii_lower k = l" by (cases kv) blast
    show ?case
      unfolding kv collect_aliases.simps last_value_Cons spelled_def ci_names [OF assms] fst_conv snd_conv l
      by (simp add: Cons.IH split: option.split)
  qed simp
  then show "alias_token (collect_aliases db opts a) =
      (case last_value opts ''token'' of None \<Rightarrow> alias_token a | Some v \<Rightarrow> Some v)"
    and "alias_bearer (collect_aliases db opts a) =
      (case last_value opts ''bearer_token'' of None \<Rightarrow> alias_bearer a | Some v \<Rightarrow> Some v)"
    and "alias_api_key (collect_aliases db opts a) =
      (case last_value opts ''api_key'' of None \<Rightarrow> alias_api_key a | Some v \<Rightarrow> Some v)"
    by blast+
qed

lemma apply_text:
  assumes "text_casts db"
  shows "apply_bearer db (VarcharValue s) auth = Inr (auth\<lparr>bearer_token := text_or s (bearer_token auth)\<rparr>)"
    and "apply_api_key db (VarcharValue s) auth = Inr (auth\<lparr>api_key := text_or s (api_key auth)\<rparr>)"
  using assms by (simp_all add: apply_bearer_def apply_api_key_def ApplyAuthOverrideValue_def cast_string_def
      text_casts_def text_or_def)

lemma last_value_text_options: "last_value (text_options es) n = map_option VarcharValue (last_value es n)"
  by (induction es) (auto simp: text_options_def last_value_Cons spelled_def split: option.split)

lemma text_or_Nil [simp]: "text_or [] b = b"
  by (simp add: text_or_def)

lemma distributed_overrides:
  assumes "string_util db" and "text_casts db"
  shows "ResolveLanceNamespaceAuthOverrides True db (text_options es) auth =
    Inr (auth\<lparr>bearer_token := text_or (last_text es ''bearer_token'') (text_or (last_text es ''token'') (bearer_token auth)),
      api_key := text_or (last_text es ''api_key'') (api_key auth)\<rparr>)"
proof -
  have step: "apply_if (apply_bearer db) (map_option VarcharValue (last_value es n)) au =
      Inr (au\<lparr>bearer_token := text_or (last_text es n) (bearer_token au)\<rparr>)" for n au
    by (cases "last_value es n") (simp_all add: apply_if_def apply_text [OF assms(2)] last_text_def)
  have key: "apply_if (apply_api_key db) (map_option VarcharValue (last_value es n)) au =
      Inr (au\<lparr>api_key := text_or (last_text es n) (api_key au)\<rparr>)" for n au
    by (cases "last_value es n") (simp_all add: apply_if_def apply_text [OF assms(2)] last_text_def)
  have none: "(case v of None \<Rightarrow> None | Some x \<Rightarrow> Some x) = v" for v :: "Value option"
    by (cases v) simp_all
  show ?thesis
    unfolding ResolveLanceNamespaceAuthOverrides_def if_True Let_def collected [OF assms(1)] auth_aliases.simps none
      last_value_text_options
    by (simp add: step key)
qed

lemma last_nonempty_Cons:
  "last_nonempty (e # es) ns =
     text_or (last_nonempty es ns) (if (\<exists>n \<in> ns. spelled n e) then snd e else [])"
proof (cases "filter (\<lambda>e. (\<exists>n \<in> ns. spelled n e) \<and> snd e \<noteq> []) es")
  case Nil
  then show ?thesis unfolding last_nonempty_def by (auto simp: text_or_def)
next
  case (Cons m ms)
  have "last (m # ms) \<in> set (filter (\<lambda>e. (\<exists>n \<in> ns. spelled n e) \<and> snd e \<noteq> []) es)"
    unfolding Cons by (rule last_in_set) simp
  then have "snd (last (m # ms)) \<noteq> []" by simp
  then show ?thesis unfolding last_nonempty_def using Cons by (auto simp: text_or_def)
qed

lemma text_or_assoc: "text_or (text_or a b) c = text_or a (text_or b c)"
  by (simp add: text_or_def)

lemma apply_text_entry:
  assumes "string_util db" and "text_casts db"
  shows "apply_entry db auth (k, VarcharValue s) = Inr (auth
    \<lparr>bearer_token := text_or (if \<exists>n \<in> {''token'', ''bearer_token''}. spelled n (k, s) then s else []) (bearer_token auth),
     api_key := text_or (if spelled ''api_key'' (k, s) then s else []) (api_key auth)\<rparr>)"
  by (auto simp: apply_entry_def spelled_def ci_names [OF assms(1)] apply_text [OF assms(2)])

lemma other_build_overrides:
  assumes "string_util db" and "text_casts db"
  shows "ResolveLanceNamespaceAuthOverrides False db (text_options es) auth =
    Inr (auth\<lparr>bearer_token := text_or (last_nonempty es {''token'', ''bearer_token''}) (bearer_token auth),
      api_key := text_or (last_nonempty es {''api_key''}) (api_key auth)\<rparr>)"
proof -
  have "res_foldl (apply_entry db) auth (text_options es) =
      Inr (auth\<lparr>bearer_token := text_or (last_nonempty es {''token'', ''bearer_token''}) (bearer_token auth),
        api_key := text_or (last_nonempty es {''api_key''}) (api_key auth)\<rparr>)"
  proof (induction es arbitrary: auth)
    case Nil
    then show ?case by (simp add: text_options_def last_nonempty_def)
  next
    case (Cons e es)
    obtain k s where e: "e = (k, s)" by (cases e)
    have "text_options (e # es) = (k, VarcharValue s) # text_options es" by (simp add: text_options_def e)
    then show ?case
      by (simp add: apply_text_entry [OF assms] Cons.IH last_nonempty_Cons e text_or_assoc)
  qed
  then show ?thesis by (simp add: ResolveLanceNamespaceAuthOverrides_def)
qed

end
