(* ===== verification/Cache_Correct.thy ===== *)
theory Cache_Correct
  imports Dataset_Cache Options_Correct
begin

text \<open>
  Correctness of the dataset cache: it refines a finite map with a set of pending expirations;
  under concurrent lookups all threads that ask for one key get one dataset; keys determine the
  dataset path and the options it is opened with; and a lookup returns a dataset that was opened
  for that very path with those very options.
\<close>

section \<open>Invariant and abstraction\<close>

definition cache_ok :: "LanceDatasetCacheState \<Rightarrow> bool" where
  "cache_ok st \<longleftrightarrow> distinct (map fst (entries st)) \<and> distinct (expire_after_query st)"

abbreviation cached :: "LanceDatasetCacheState \<Rightarrow> string \<Rightarrow> LanceDatasetCacheEntry option" where
  "cached st \<equiv> map_of (entries st)"

lemma cached_Get [simp]: "cached (snd (Get k st)) = cached st" "fst (Get k st) = cached st k"
  by (simp_all add: Get_def split: option.split)

lemma cached_PutOrGetExisting [simp]:
  "cached (snd (PutOrGetExisting k e st)) = (cached st)(k \<mapsto> fst (PutOrGetExisting k e st))"
  "fst (PutOrGetExisting k e st) = (case cached st k of None \<Rightarrow> e | Some x \<Rightarrow> x)"
  by (auto simp: PutOrGetExisting_def update_conv' split: option.splits)

lemma cached_Invalidate [simp]: "cached (Invalidate k st) = (cached st)(k := None)"
  by (simp add: Invalidate_def delete_conv')

lemma map_of_fold_delete: "map_of (fold AList.delete ks es) k = (if k \<in> set ks then None else map_of es k)"
  by (induction ks arbitrary: es) (auto simp: delete_conv')

lemma cached_QueryEnd [simp]:
  "cached (QueryEnd st) k = (if k \<in> set (expire_after_query st) then None else cached st k)"
  by (simp add: QueryEnd_def map_of_fold_delete)

lemma cached_other [simp]:
  "cached (ExpireAfterQuery k st) = cached st" "cached (QueryBegin st) = cached st"
  by (simp_all add: ExpireAfterQuery_def QueryBegin_def)

lemma expire_simps [simp]:
  "expire_after_query (snd (Get k st)) = expire_after_query st"
  "expire_after_query (snd (PutOrGetExisting k e st)) = expire_after_query st"
  "expire_after_query (Invalidate k st) = expire_after_query st"
  "expire_after_query (QueryEnd st) = []"
  "expire_after_query (QueryBegin st) = expire_after_query st"
  "set (expire_after_query (ExpireAfterQuery k st)) = insert k (set (expire_after_query st))"
  by (simp_all add: Get_def PutOrGetExisting_def Invalidate_def QueryEnd_def QueryBegin_def
      ExpireAfterQuery_def split: option.split)

lemma distinct_fold_delete:
  "distinct (map fst es) \<Longrightarrow> distinct (map fst (fold AList.delete ks es))"
  by (induction ks arbitrary: es) (simp_all add: distinct_delete)

lemma cache_ok_ops [intro]:
  assumes "cache_ok st"
  shows "cache_ok (snd (Get k st))" and "cache_ok (snd (PutOrGetExisting k e st))"
    and "cache_ok (Invalidate k st)" and "cache_ok (ExpireAfterQuery k st)"
    and "cache_ok (QueryEnd st)" and "cache_ok (QueryBegin st)"
  using assms
  by (auto simp: cache_ok_def Get_def PutOrGetExisting_def Invalidate_def ExpireAfterQuery_def
      QueryEnd_def QueryBegin_def distinct_update distinct_delete distinct_fold_delete split: option.split)

lemma cache_ok_empty [simp]: "cache_ok empty_cache"
  by (simp add: cache_ok_def empty_cache_def)


section \<open>The interface\<close>

text \<open>
  A store in which the first value put under a key stays, and one in which it stays until it is
  evicted.
\<close>

locale keeps_first =
  fixes lookup :: "'s \<Rightarrow> 'k \<Rightarrow> 'e option"
    and put :: "'k \<Rightarrow> 'e \<Rightarrow> 's \<Rightarrow> 'e \<times> 's"
  assumes put_result: "fst (put k e s) = (case lookup s k of None \<Rightarrow> e | Some x \<Rightarrow> x)"
    and put_lookup: "lookup (snd (put k e s)) = (lookup s)(k \<mapsto> fst (put k e s))"
begin

lemma put_put: "fst (put k e' (snd (put k e s))) = fst (put k e s)"
  by (simp add: put_result put_lookup)

lemma put_other: "k' \<noteq> k \<Longrightarrow> lookup (snd (put k e s)) k' = lookup s k'"
  by (simp add: put_lookup)

lemma put_keeps: "lookup s k = Some x \<Longrightarrow> lookup (snd (put k' e s)) k = Some x"
  by (auto simp: put_lookup put_result)

lemma put_keeps_all:
  assumes "\<And>k x. lookup s k = Some x \<Longrightarrow> P k x" and "P k e"
  shows "P k (fst (put k e s)) \<and> (\<forall>k' x. lookup (snd (put k e s)) k' = Some x \<longrightarrow> P k' x)"
  using assms by (auto simp: put_lookup put_result split: option.splits)

end

locale first_wins = keeps_first +
  fixes evict :: "'k \<Rightarrow> 's \<Rightarrow> 's"
  assumes evict_lookup: "lookup (evict k s) = (lookup s)(k := None)"
begin

lemma evict_put: "fst (put k e (evict k s)) = e"
  by (simp add: put_result evict_lookup)

end

interpretation dataset_cache: first_wins cached PutOrGetExisting Invalidate
  by unfold_locales simp_all


section \<open>Refinement of a map\<close>

datatype op =
    OpGet string
  | OpPut string LanceDatasetCacheEntry
  | OpInvalidate string
  | OpExpire string
  | OpQueryEnd
  | OpQueryBegin

fun run_op :: "op \<Rightarrow> LanceDatasetCacheState \<Rightarrow> LanceDatasetCacheEntry option \<times> LanceDatasetCacheState" where
  "run_op (OpGet k) st = Get k st"
| "run_op (OpPut k e) st = map_prod Some id (PutOrGetExisting k e st)"
| "run_op (OpInvalidate k) st = (None, Invalidate k st)"
| "run_op (OpExpire k) st = (None, ExpireAfterQuery k st)"
| "run_op OpQueryEnd st = (None, QueryEnd st)"
| "run_op OpQueryBegin st = (None, QueryBegin st)"

text \<open>The specification: a partial map, and the set of keys that go at the end of the query.\<close>

type_synonym spec_state = "(string \<rightharpoonup> LanceDatasetCacheEntry) \<times> string set"

fun spec_op :: "op \<Rightarrow> spec_state \<Rightarrow> LanceDatasetCacheEntry option \<times> spec_state" where
  "spec_op (OpGet k) (m, x) = (m k, m, x)"
| "spec_op (OpPut k e) (m, x) =
     (case m k of Some e' \<Rightarrow> (Some e', m, x) | None \<Rightarrow> (Some e, m(k \<mapsto> e), x))"
| "spec_op (OpInvalidate k) (m, x) = (None, m(k := None), x)"
| "spec_op (OpExpire k) (m, x) = (None, m, insert k x)"
| "spec_op OpQueryEnd (m, x) = (None, m |` (- x), {})"
| "spec_op OpQueryBegin (m, x) = (None, m, x)"

definition abs_cache :: "LanceDatasetCacheState \<Rightarrow> spec_state" where
  "abs_cache st = (cached st, set (expire_after_query st))"

lemma run_op_refines:
  "spec_op ev (abs_cache st) = map_prod id abs_cache (run_op ev st)"
  by (cases ev)
    (auto simp: abs_cache_def prod_eq_iff restrict_map_def fun_eq_iff split: option.split)

fun run_ops :: "op list \<Rightarrow> LanceDatasetCacheState \<Rightarrow> LanceDatasetCacheEntry option list" where
  "run_ops [] st = []"
| "run_ops (ev # evs) st = fst (run_op ev st) # run_ops evs (snd (run_op ev st))"

fun spec_ops :: "op list \<Rightarrow> spec_state \<Rightarrow> LanceDatasetCacheEntry option list" where
  "spec_ops [] s = []"
| "spec_ops (ev # evs) s = fst (spec_op ev s) # spec_ops evs (snd (spec_op ev s))"

lemma run_ops_refines: "run_ops evs st = spec_ops evs (abs_cache st)"
  by (induction evs arbitrary: st) (simp_all add: run_op_refines)

lemma run_op_ok: "cache_ok st \<Longrightarrow> cache_ok (snd (run_op ev st))"
  by (cases ev) (auto simp: cache_ok_ops)


section \<open>Concurrent lookups\<close>

text \<open>
  \<open>GetOrOpenDatasetCacheEntry\<close> takes the lock twice, in \<open>Get\<close> and in \<open>PutOrGetExisting\<close>; in between it
  opens the dataset, and other threads may run.  A thread is idle, has missed on a key, or has
  returned from a lookup.
\<close>

datatype thread = Idle | Missed string | Returned string "LanceDatasetCacheEntry option"

record shared =
  cache :: LanceDatasetCacheState
  threads :: "nat \<Rightarrow> thread"

datatype event =
    Lookup nat string
  | OpenFailed nat
  | Opened nat LanceDatasetCacheEntry
  | Other op

inductive step :: "shared \<Rightarrow> event \<Rightarrow> shared \<Rightarrow> bool" where
  lookup_hit:
    "Get k (cache s) = (Some e, c) \<Longrightarrow> \<forall>k'. threads s t \<noteq> Missed k' \<Longrightarrow>
     step s (Lookup t k) (s\<lparr>cache := c, threads := (threads s)(t := Returned k (Some e))\<rparr>)"
| lookup_miss:
    "Get k (cache s) = (None, c) \<Longrightarrow> \<forall>k'. threads s t \<noteq> Missed k' \<Longrightarrow>
     step s (Lookup t k) (s\<lparr>cache := c, threads := (threads s)(t := Missed k)\<rparr>)"
| open_failed:
    "threads s t = Missed k \<Longrightarrow>
     step s (OpenFailed t) (s\<lparr>threads := (threads s)(t := Returned k None)\<rparr>)"
| opened:
    "threads s t = Missed k \<Longrightarrow> PutOrGetExisting k e (cache s) = (r, c) \<Longrightarrow>
     step s (Opened t e) (s\<lparr>cache := c, threads := (threads s)(t := Returned k (Some r))\<rparr>)"
| other: "step s (Other ev) (s\<lparr>cache := snd (run_op ev (cache s))\<rparr>)"

inductive_cases step_LookupE: "step s (Lookup t k) s'"
inductive_cases step_OpenedE: "step s (Opened t e) s'"
inductive_cases step_OtherE: "step s (Other ev) s'"

text \<open>An event that takes a key out of the cache.\<close>

fun drops :: "string \<Rightarrow> shared \<Rightarrow> event \<Rightarrow> bool" where
  "drops k s (Other (OpInvalidate k')) \<longleftrightarrow> k' = k"
| "drops k s (Other OpQueryEnd) \<longleftrightarrow> k \<in> set (expire_after_query (cache s))"
| "drops k s ev \<longleftrightarrow> False"

inductive run_keeping :: "string \<Rightarrow> shared \<Rightarrow> shared \<Rightarrow> bool" for k where
  keep_none: "run_keeping k s s"
| keep_step: "run_keeping k s s' \<Longrightarrow> step s' ev s'' \<Longrightarrow> \<not> drops k s' ev \<Longrightarrow> run_keeping k s s''"

definition returned_is_cached :: "string \<Rightarrow> shared \<Rightarrow> bool" where
  "returned_is_cached k s \<longleftrightarrow> (\<forall>t e. threads s t = Returned k (Some e) \<longrightarrow> cached (cache s) k = Some e)"

lemma run_op_keeps:
  "\<not> drops k s (Other ev) \<Longrightarrow> cached (cache s) k = Some e \<Longrightarrow>
     cached (snd (run_op ev (cache s))) k = Some e"
  by (cases ev) (auto simp: dataset_cache.put_keeps)

lemma step_keeps:
  assumes "step s ev s'" and "\<not> drops k s ev" and "cached (cache s) k = Some e"
  shows "cached (cache s') k = Some e"
  using assms
proof cases
  case (opened t k' e' r c)
  then have "c = snd (PutOrGetExisting k' e' (cache s))" by simp
  then show ?thesis
    using opened(2) dataset_cache.put_keeps [OF assms(3), of k' e'] by simp
next
  case (other ev')
  then show ?thesis using run_op_keeps [of k s ev' e] assms(2,3) by simp
next
  case (lookup_hit k' e' c t)
  then have "c = snd (Get k' (cache s))" by simp
  then show ?thesis using lookup_hit(2) assms(3) by simp
next
  case (lookup_miss k' c t)
  then have "c = snd (Get k' (cache s))" by simp
  then show ?thesis using lookup_miss(2) assms(3) by simp
qed simp


lemma step_returns_cached:
  assumes "step s ev s'" and "threads s' t = Returned k (Some e)" and "threads s t \<noteq> threads s' t"
  shows "cached (cache s') k = Some e"
  using assms
proof cases
  case (lookup_hit k' e' c t')
  then have "cached (cache s) k' = Some e'" and "c = snd (Get k' (cache s))"
    using cached_Get(2) [of k' "cache s"] by simp_all
  then show ?thesis using lookup_hit(2) assms(2,3) by (auto split: if_splits)
next
  case (opened t' k' e' r c)
  then have "r = fst (PutOrGetExisting k' e' (cache s))" and "c = snd (PutOrGetExisting k' e' (cache s))"
    by simp_all
  then have "cached c k' = Some r" using cached_PutOrGetExisting(1) [of k' e' "cache s"] by simp
  then show ?thesis using opened(2) assms(2,3) by (auto split: if_splits)
qed (auto split: if_splits)

lemma step_returned_is_cached:
  assumes "step s ev s'" and "\<not> drops k s ev" and "returned_is_cached k s"
  shows "returned_is_cached k s'"
  unfolding returned_is_cached_def
proof (intro allI impI)
  fix t e
  assume ret: "threads s' t = Returned k (Some e)"
  show "cached (cache s') k = Some e"
  proof (cases "threads s t = threads s' t")
    case True
    then show ?thesis
      using ret assms(3) step_keeps [OF assms(1,2)] by (simp add: returned_is_cached_def)
  qed (rule step_returns_cached [OF assms(1) ret])
qed

lemma run_keeping_returned_is_cached:
  "run_keeping k s s' \<Longrightarrow> returned_is_cached k s \<Longrightarrow> returned_is_cached k s'"
  by (induction rule: run_keeping.induct) (auto intro: step_returned_is_cached)

text \<open>However the threads interleave, all that have the key's dataset have the same one.\<close>

lemma threads_share_dataset:
  assumes "\<And>t r. threads s t \<noteq> Returned k r" and "run_keeping k s s'"
    and "threads s' t = Returned k (Some e)" and "threads s' t' = Returned k (Some e')"
  shows "e = e'"
proof -
  have "returned_is_cached k s" using assms(1) by (simp add: returned_is_cached_def)
  then have "returned_is_cached k s'" by (rule run_keeping_returned_is_cached [OF assms(2)])
  then show ?thesis using assms(3,4) unfolding returned_is_cached_def by (metis option.inject)
qed


section \<open>A lookup as a run of steps\<close>

text \<open>
  The steps above are those of \<open>GetOrOpenDatasetCacheEntry\<close>: run alone, the function does what a
  thread does that is not interrupted, a lookup that hits, or one that misses and then fails to
  open or opens and stores.  The openers of the code do not touch the cache.
\<close>

inductive steps :: "shared \<Rightarrow> event list \<Rightarrow> shared \<Rightarrow> bool" where
  steps_none: "steps s [] s"
| steps_more: "step s ev s' \<Longrightarrow> steps s' evs s'' \<Longrightarrow> steps s (ev # evs) s''"

inductive code_opener :: "opener \<Rightarrow> bool" where
  "code_opener (path_opener cn access path open_path os)"
| "code_opener (dir_opener cn cfg)"
| "code_opener (namespace_opener cn ep tbl b a d hs)"

lemma session_handle_cache:
  "session_handle cn ctx = (r, ctx') \<Longrightarrow> registered_cache ctx' = registered_cache ctx"
  by (auto simp: session_handle_def split: prod.splits)

lemma opener_keeps_cache:
  "path_opener cn acc p op os ctx = (r, ctx') \<Longrightarrow> registered_cache ctx' = registered_cache ctx"
  "dir_opener cn cfg ctx = (r', ctx') \<Longrightarrow> registered_cache ctx' = registered_cache ctx"
  "namespace_opener cn e t b a d hs ctx = (r'', ctx') \<Longrightarrow> registered_cache ctx' = registered_cache ctx"
  by (auto simp: path_opener_def OpenResolvedPathDataset_def dir_opener_def OpenDirNamespaceDataset_def
      namespace_opener_def OpenNamespaceDataset_def
      split: prod.splits sum.splits option.splits if_splits dest: session_handle_cache)

lemma code_opener_keeps: "code_opener opn \<Longrightarrow> opn ctx = (r, ctx') \<Longrightarrow> registered_cache ctx' = registered_cache ctx"
  by (auto elim!: code_opener.cases dest: opener_keeps_cache)

definition result_of :: "exn + lookup \<Rightarrow> LanceDatasetCacheEntry option" where
  "result_of r = (case r of Inl x \<Rightarrow> None | Inr l \<Rightarrow> found_entry l)"

text \<open>The events of an uninterrupted lookup, read off what it finds and what the opener returns.\<close>

definition lookup_events ::
    "nat \<Rightarrow> string \<Rightarrow> LanceDatasetCacheEntry option \<Rightarrow> exn + LanceDatasetCacheEntry option \<Rightarrow> event list" where
  "lookup_events t key hit opened_now =
     Lookup t key # (case hit of
       Some e \<Rightarrow> []
     | None \<Rightarrow> [case opened_now of Inr (Some e) \<Rightarrow> Opened t e | _ \<Rightarrow> OpenFailed t])"

lemma lookup_as_steps:
  assumes "code_opener opn" and "registered_cache ctx = Some (cache s)" and "\<forall>k'. threads s t \<noteq> Missed k'"
    and "GetOrOpenDatasetCacheEntry key opn ctx = (r, ctx')"
  shows "\<exists>s'. steps s (lookup_events t key (cached (cache s) key)
        (fst (opn (ctx\<lparr>registered_cache := Some (snd (Get key (cache s)))\<rparr>)))) s' \<and>
      registered_cache ctx' = Some (cache s') \<and> threads s' = (threads s)(t := Returned key (result_of r))"
proof -
  obtain hit c where get: "Get key (cache s) = (hit, c)" by fastforce
  then have hit: "hit = cached (cache s) key" using cached_Get(2) [of key "cache s"] by simp
  let ?ctx1 = "ctx\<lparr>registered_cache := Some c\<rparr>"
  have wc: "with_cache (Get key) ctx = (hit, ?ctx1)"
    using assms(2) by (simp add: with_cache_def GetOrCreateLanceDatasetCacheState_def get)
  show ?thesis
  proof (cases hit)
    case (Some e)
    have "step s (Lookup t key) (s\<lparr>cache := c, threads := (threads s)(t := Returned key (Some e))\<rparr>)"
      using get Some assms(3) by (intro lookup_hit) simp_all
    then have "steps s [Lookup t key] (s\<lparr>cache := c, threads := (threads s)(t := Returned key (Some e))\<rparr>)"
      by (rule steps_more) (rule steps_none)
    then show ?thesis
      using assms(4) Some hit
      by (intro exI [of _ "s\<lparr>cache := c, threads := (threads s)(t := Returned key (Some e))\<rparr>"])
         (auto simp: GetOrOpenDatasetCacheEntry_def wc lookup_events_def result_of_def)
  next
    case None
    let ?s1 = "s\<lparr>cache := c, threads := (threads s)(t := Missed key)\<rparr>"
    have miss: "step s (Lookup t key) ?s1" using get None assms(3) by (intro lookup_miss) simp_all
    obtain o1 ctx2 where o1: "opn ?ctx1 = (o1, ctx2)" by fastforce
    then have keeps: "registered_cache ctx2 = Some c" using code_opener_keeps [OF assms(1) o1] by simp
    show ?thesis
    proof (cases "\<exists>e. o1 = Inr (Some e)")
      case True
      then obtain e where e: "o1 = Inr (Some e)" by blast
      obtain x c2 where put: "PutOrGetExisting key e c = (x, c2)" by fastforce
      let ?s2 = "?s1\<lparr>cache := c2, threads := (threads ?s1)(t := Returned key (Some x))\<rparr>"
      have "step ?s1 (Opened t e) ?s2" using put by (intro opened) simp_all
      then have run: "steps s [Lookup t key, Opened t e] ?s2" by (intro steps_more [OF miss] steps_more [OF _ steps_none])
      have "with_cache (PutOrGetExisting key e) ctx2 = (x, ctx2\<lparr>registered_cache := Some c2\<rparr>)"
        using keeps put by (simp add: with_cache_def GetOrCreateLanceDatasetCacheState_def)
      then have "r = Inr \<lparr>found_entry = Some x, out_cache_hit = Some False\<rparr>"
          "ctx' = ctx2\<lparr>registered_cache := Some c2\<rparr>"
        using assms(4) None wc o1 e by (simp_all add: GetOrOpenDatasetCacheEntry_def)
      then show ?thesis
        using run None hit get o1 e by (intro exI [of _ ?s2]) (simp add: lookup_events_def result_of_def)
    next
      case False
      let ?s2 = "?s1\<lparr>threads := (threads ?s1)(t := Returned key None)\<rparr>"
      have "step ?s1 (OpenFailed t) ?s2" by (rule open_failed) simp
      then have run: "steps s [Lookup t key, OpenFailed t] ?s2" by (intro steps_more [OF miss] steps_more [OF _ steps_none])
      have "result_of r = None" "ctx' = ctx2"
        using assms(4) None wc o1 False
        by (auto simp: GetOrOpenDatasetCacheEntry_def result_of_def split: sum.splits option.splits)
      moreover have "lookup_events t key (cached (cache s) key) o1 = [Lookup t key, OpenFailed t]"
        using None hit False by (auto simp: lookup_events_def split: sum.splits option.splits)
      ultimately show ?thesis
        using run keeps get o1 by (intro exI [of _ ?s2]) simp
    qed
  qed
qed

lemma with_cache_eq:
  assumes "with_cache f ctx = (r, ctx')" and "GetOrCreateLanceDatasetCacheState ctx = (st, ctx1)"
  shows "r = fst (f st)" and "registered_cache ctx' = Some (snd (f st))"
  using assms by (auto simp: with_cache_def split: prod.splits)

text \<open>Asked again for the same key, the function answers from the cache, whatever the opener would do.\<close>

lemma lookup_again:
  assumes "GetOrOpenDatasetCacheEntry key opn ctx = (r, ctx')" and "result_of r = Some e"
  shows "fst (GetOrOpenDatasetCacheEntry key opn' ctx') = Inr \<lparr>found_entry = Some e, out_cache_hit = Some True\<rparr>"
proof -
  obtain st c1 where st: "GetOrCreateLanceDatasetCacheState ctx = (st, c1)" by fastforce
  obtain g ctx1 where g: "with_cache (Get key) ctx = (g, ctx1)" by fastforce
  note got = with_cache_eq [OF g st]
  have "\<exists>st. registered_cache ctx' = Some st \<and> cached st key = Some e"
  proof (cases g)
    case (Some x)
    then have "ctx' = ctx1" "x = e" using assms g by (auto simp: GetOrOpenDatasetCacheEntry_def result_of_def)
    then show ?thesis using got Some by simp
  next
    case None
    obtain o1 ctx2 where o1: "opn ctx1 = (o1, ctx2)" by fastforce
    obtain x where x: "o1 = Inr (Some x)"
      using assms None g o1
      by (auto simp: GetOrOpenDatasetCacheEntry_def result_of_def split: sum.splits option.splits)
    obtain y ctx3 where put: "with_cache (PutOrGetExisting key x) ctx2 = (y, ctx3)" by fastforce
    have "y = e" "ctx3 = ctx'"
      using assms None g o1 x put by (auto simp: GetOrOpenDatasetCacheEntry_def result_of_def)
    obtain st2 c2 where st2: "GetOrCreateLanceDatasetCacheState ctx2 = (st2, c2)" by fastforce
    show ?thesis using with_cache_eq [OF put st2] \<open>y = e\<close> \<open>ctx3 = ctx'\<close> by simp
  qed
  then show ?thesis
    by (auto simp: GetOrOpenDatasetCacheEntry_def with_cache_def GetOrCreateLanceDatasetCacheState_def Get_def)
qed


section \<open>Keys\<close>

definition part :: "string \<Rightarrow> string" where
  "part s = nat_to_string (length s) @ '':'' @ s @ '';''"

lemma AppendCacheKeyPart_eq: "AppendCacheKeyPart key s = key @ part s"
  by (simp add: AppendCacheKeyPart_def part_def)

lemma append_option_parts_eq:
  "append_option_parts key kvs = key @ concat (map (\<lambda>(k, v). part k @ part v) kvs)"
  by (induction key kvs rule: append_option_parts.induct) (simp_all add: AppendCacheKeyPart_eq)

lemma takeWhile_digits: "takeWhile is_digit (nat_to_string n @ CHR '':'' # r) = nat_to_string n"
  using nat_to_string_digits [of n] by (simp add: takeWhile_append is_digit_def)

lemma dropWhile_digits: "dropWhile is_digit (nat_to_string n @ CHR '':'' # r) = CHR '':'' # r"
  using nat_to_string_digits [of n] by (simp add: dropWhile_append is_digit_def)

text \<open>A part can be split off in one way only: its length is written in front of it.\<close>

lemma part_inject: "part s @ r = part t @ r' \<longleftrightarrow> s = t \<and> r = r'"
proof
  assume eq: "part s @ r = part t @ r'"
  then have eq': "nat_to_string (length s) @ CHR '':'' # (s @ '';'' @ r) =
      nat_to_string (length t) @ CHR '':'' # (t @ '';'' @ r')"
    by (simp add: part_def)
  then have "length s = length t"
    by (metis takeWhile_digits nat_to_string_inj)
  moreover from eq' have "s @ '';'' @ r = t @ '';'' @ r'"
    by (metis dropWhile_digits list.inject)
  ultimately show "s = t \<and> r = r'" by simp
qed simp

lemma part_eq_iff [simp]: "part s = part t \<longleftrightarrow> s = t"
  using part_inject [of s "[]" t "[]"] by simp

lemma word_text_inj [simp]: "word_text a = word_text b \<longleftrightarrow> a = b"
  by (auto simp: word_text_def intro: unsigned_word_eqI)

lemma option_parts_inject:
  "length kvs = length kvs' \<Longrightarrow>
     concat (map (\<lambda>(k, v). part k @ part v) kvs) = concat (map (\<lambda>(k, v). part k @ part v) kvs') \<longleftrightarrow>
     kvs = kvs'"
proof (induction kvs arbitrary: kvs')
  case (Cons kv kvs)
  then obtain k' v' kvs'' where "kvs' = (k', v') # kvs''" by (cases kvs') auto
  with Cons show ?case by (cases kv) (simp add: part_inject)
qed simp

lemma path_key_eq:
  "LanceBuildResolvedPathDatasetCacheKey db ffi p os = Inr key \<longleftrightarrow>
     in_step os \<and> (\<exists>n. LanceNormalizeDatasetPath db ffi p = Inr n \<and>
       key = ''path|'' @ part n @ part (nat_to_string (length (fst os))) @
         concat (map (\<lambda>(k, v). part k @ part v) (pairs os)))"
proof -
  have k: "append_option_parts (AppendCacheKeyIndex (AppendCacheKeyPart ''path|'' n) m) kvs =
      ''path|'' @ part n @ part (nat_to_string m) @ concat (map (\<lambda>(k, v). part k @ part v) kvs)" for n m kvs
    by (simp add: append_option_parts_eq AppendCacheKeyIndex_def AppendCacheKeyPart_eq)
  show ?thesis
    unfolding LanceBuildResolvedPathDatasetCacheKey_def Let_def k
    by (auto simp: in_step_def pairs_def res_bind_Inr_iff)
qed

text \<open>Equal keys mean the same normalised path and the same options in the same order.\<close>

lemma path_key_inject:
  assumes "LanceBuildResolvedPathDatasetCacheKey db ffi p os = Inr key"
    and "LanceBuildResolvedPathDatasetCacheKey db ffi p' os' = Inr key"
  shows "LanceNormalizeDatasetPath db ffi p = LanceNormalizeDatasetPath db ffi p'" and "os = os'"
proof -
  obtain n n' where n: "LanceNormalizeDatasetPath db ffi p = Inr n" "LanceNormalizeDatasetPath db ffi p' = Inr n'"
    and step: "in_step os" "in_step os'"
    and eq: "part n @ part (nat_to_string (length (fst os))) @ concat (map (\<lambda>(k, v). part k @ part v) (pairs os)) =
      part n' @ part (nat_to_string (length (fst os'))) @ concat (map (\<lambda>(k, v). part k @ part v) (pairs os'))"
    using assms by (auto simp: path_key_eq)
  from eq have "n = n'" and len: "length (fst os) = length (fst os')"
    and opts: "concat (map (\<lambda>(k, v). part k @ part v) (pairs os)) =
      concat (map (\<lambda>(k, v). part k @ part v) (pairs os'))"
    by (simp_all add: part_inject)
  have "length (pairs os) = length (pairs os')" using len step by (simp add: pairs_def in_step_def)
  then have "pairs os = pairs os'" using opts option_parts_inject by blast
  then show "os = os'" using step by (cases os; cases os') (simp add: pairs_def in_step_def zip_eq_conv)
  show "LanceNormalizeDatasetPath db ffi p = LanceNormalizeDatasetPath db ffi p'"
    using n \<open>n = n'\<close> by simp
qed

lemma namespace_key_eq:
  "LanceBuildNamespaceDatasetCacheKey h e t b a d hs =
     ''namespace|'' @ part e @ part t @ part (FingerprintCacheKeyPart h b) @
       part (FingerprintCacheKeyPart h a) @ part d @ part (FingerprintCacheKeyPart h hs)"
  by (simp add: LanceBuildNamespaceDatasetCacheKey_def AppendCacheKeyPart_eq)

lemma namespace_key_inject:
  "LanceBuildNamespaceDatasetCacheKey h e t b a d hs = LanceBuildNamespaceDatasetCacheKey h e' t' b' a' d' hs' \<longleftrightarrow>
     e = e' \<and> t = t' \<and> h b = h b' \<and> h a = h a' \<and> d = d' \<and> h hs = h hs'"
  by (simp add: namespace_key_eq part_inject FingerprintCacheKeyPart_def)

lemma path_namespace_keys_differ:
  "LanceBuildResolvedPathDatasetCacheKey db ffi p os = Inr key \<Longrightarrow>
     key \<noteq> LanceBuildNamespaceDatasetCacheKey h e t b a d hs"
  by (auto simp: path_key_eq namespace_key_eq)


section \<open>What a lookup returns\<close>

text \<open>
  The dataset of an entry under a key, by the way it was opened: from a path (or through the blob
  reader), through a directory namespace, or through a REST namespace.
\<close>

inductive came_from :: "duckdb \<Rightarrow> lance_ffi \<Rightarrow> dataset_ffi \<Rightarrow> (string \<Rightarrow> u64) \<Rightarrow> string \<Rightarrow> LanceDatasetCacheEntry \<Rightarrow> bool"
  for db ffi fns h where
  from_path:
    "dataset_fns cn = fns \<Longrightarrow> path_opener cn access path open_path os ctx = (Inr (Some e), ctx') \<Longrightarrow>
     LanceBuildResolvedPathDatasetCacheKey db ffi open_path os = Inr key \<Longrightarrow> came_from db ffi fns h key e"
| from_directory:
    "dataset_fns cn = fns \<Longrightarrow> dir_opener cn cfg ctx = (Inr (Some e), ctx') \<Longrightarrow>
     LanceBuildResolvedPathDatasetCacheKey db ffi (LanceDirectoryNamespaceDatasetUri db cfg)
       (option_keys cfg, option_values cfg) = Inr key \<Longrightarrow> came_from db ffi fns h key e"
| from_namespace:
    "dataset_fns cn = fns \<Longrightarrow> namespace_opener cn ep tbl b a d hs ctx = (Inr (Some e), ctx') \<Longrightarrow>
     LanceBuildNamespaceDatasetCacheKey h ep tbl b a d hs = key \<Longrightarrow> came_from db ffi fns h key e"

definition cache_sound :: "duckdb \<Rightarrow> lance_ffi \<Rightarrow> dataset_ffi \<Rightarrow> (string \<Rightarrow> u64) \<Rightarrow> conn_state \<Rightarrow> bool" where
  "cache_sound db ffi fns h ctx \<longleftrightarrow>
     (\<forall>st k e. registered_cache ctx = Some st \<longrightarrow> cached st k = Some e \<longrightarrow> came_from db ffi fns h k e)"

definition serves :: "connection \<Rightarrow> duckdb \<Rightarrow> lance_ffi \<Rightarrow> dataset_ffi \<Rightarrow> (string \<Rightarrow> u64) \<Rightarrow> bool" where
  "serves cn db ffi fns h \<longleftrightarrow> duck cn = db \<and> path_fns cn = ffi \<and> dataset_fns cn = fns \<and> Hash_of cn = h"

lemma GetOrCreate_sound:
  assumes "GetOrCreateLanceDatasetCacheState ctx = (st, ctx1)" and "cache_sound db ffi fns h ctx"
    and "cached st k = Some e"
  shows "came_from db ffi fns h k e"
  using assms
  by (auto simp: GetOrCreateLanceDatasetCacheState_def cache_sound_def empty_cache_def split: option.splits)

lemma with_cache_Get:
  assumes "with_cache (Get k) ctx = (r, ctx')" and "cache_sound db ffi fns h ctx"
  shows "cache_sound db ffi fns h ctx'" and "r = Some e \<Longrightarrow> came_from db ffi fns h k e"
proof -
  obtain st ctx1 where get: "GetOrCreateLanceDatasetCacheState ctx = (st, ctx1)" by fastforce
  note eqs = with_cache_eq [OF assms(1) get] and st = GetOrCreate_sound [OF get assms(2)]
  show "cache_sound db ffi fns h ctx'" using st by (simp add: cache_sound_def eqs)
  show "r = Some e \<Longrightarrow> came_from db ffi fns h k e" using st by (simp add: eqs)
qed

lemma with_cache_Put:
  assumes "with_cache (PutOrGetExisting k e) ctx = (r, ctx')" and "cache_sound db ffi fns h ctx"
    and "came_from db ffi fns h k e"
  shows "cache_sound db ffi fns h ctx'" and "came_from db ffi fns h k r"
proof -
  obtain st ctx1 where get: "GetOrCreateLanceDatasetCacheState ctx = (st, ctx1)" by fastforce
  note eqs = with_cache_eq [OF assms(1) get] and st = GetOrCreate_sound [OF get assms(2)]
  show r: "came_from db ffi fns h k r" using st assms(3) by (auto simp: eqs(1) split: option.split)
  show "cache_sound db ffi fns h ctx'"
    using st r by (auto simp: cache_sound_def eqs simp del: cached_PutOrGetExisting(2))
qed

definition fair_opener :: "duckdb \<Rightarrow> lance_ffi \<Rightarrow> dataset_ffi \<Rightarrow> (string \<Rightarrow> u64) \<Rightarrow> string \<Rightarrow> opener \<Rightarrow> bool" where
  "fair_opener db ffi fns h key opn \<longleftrightarrow>
     (\<forall>c r c'. opn c = (r, c') \<longrightarrow> registered_cache c' = registered_cache c \<and>
        (\<forall>e. r = Inr (Some e) \<longrightarrow> came_from db ffi fns h key e))"

lemma fair_path_opener:
  "dataset_fns cn = fns \<Longrightarrow> LanceBuildResolvedPathDatasetCacheKey db ffi open_path os = Inr key \<Longrightarrow>
     fair_opener db ffi fns h key (path_opener cn access path open_path os)"
  unfolding fair_opener_def using opener_keeps_cache(1) from_path [of cn fns] by blast

lemma fair_dir_opener:
  "dataset_fns cn = fns \<Longrightarrow> LanceBuildResolvedPathDatasetCacheKey db ffi (LanceDirectoryNamespaceDatasetUri db cfg)
       (option_keys cfg, option_values cfg) = Inr key \<Longrightarrow>
     fair_opener db ffi fns h key (dir_opener cn cfg)"
  unfolding fair_opener_def using opener_keeps_cache(2) from_directory [of cn fns] by blast

lemma fair_namespace_opener:
  "dataset_fns cn = fns \<Longrightarrow> fair_opener db ffi fns h (LanceBuildNamespaceDatasetCacheKey h ep tbl b a d hs)
     (namespace_opener cn ep tbl b a d hs)"
  unfolding fair_opener_def
  using opener_keeps_cache(3) [of cn ep tbl b a d hs] from_namespace [of cn fns ep tbl b a d hs, OF _ _ refl] by blast

lemma GetOrOpen_sound:
  assumes "GetOrOpenDatasetCacheEntry key opn ctx = (r, ctx')" and "cache_sound db ffi fns h ctx"
    and "fair_opener db ffi fns h key opn"
  shows "cache_sound db ffi fns h ctx'"
    and "\<And>l e. r = Inr l \<Longrightarrow> found_entry l = Some e \<Longrightarrow> came_from db ffi fns h key e"
proof -
  obtain g ctx1 where g: "with_cache (Get key) ctx = (g, ctx1)" by fastforce
  note got = with_cache_Get [OF g assms(2)]
  obtain o1 ctx2 where o1: "opn ctx1 = (o1, ctx2)" by fastforce
  then have keeps: "registered_cache ctx2 = registered_cache ctx1"
    and opens: "\<And>e. o1 = Inr (Some e) \<Longrightarrow> came_from db ffi fns h key e"
    using assms(3) by (auto simp: fair_opener_def)
  have sound2: "cache_sound db ffi fns h ctx2"
    using got(1) by (simp add: cache_sound_def keeps)
  have "cache_sound db ffi fns h ctx' \<and> (\<forall>l e. r = Inr l \<longrightarrow> found_entry l = Some e \<longrightarrow> came_from db ffi fns h key e)"
  proof (cases g)
    case (Some e)
    then show ?thesis using assms(1) g got by (auto simp: GetOrOpenDatasetCacheEntry_def)
  next
    case None
    show ?thesis
    proof (cases "\<exists>e. o1 = Inr (Some e)")
      case True
      then obtain e where e: "o1 = Inr (Some e)" by blast
      obtain r2 ctx3 where p: "with_cache (PutOrGetExisting key e) ctx2 = (r2, ctx3)" by fastforce
      show ?thesis
        using with_cache_Put [OF p sound2 opens [OF e]] assms(1) None g o1 e p
        by (auto simp: GetOrOpenDatasetCacheEntry_def)
    next
      case False
      then show ?thesis
        using sound2 assms(1) None g o1
        by (auto simp: GetOrOpenDatasetCacheEntry_def split: sum.splits option.splits)
    qed
  qed
  then show "cache_sound db ffi fns h ctx'"
    and "\<And>l e. r = Inr l \<Longrightarrow> found_entry l = Some e \<Longrightarrow> came_from db ffi fns h key e" by auto
qed

lemma path_lookup_sound:
  assumes "LanceGetOrOpenDatasetEntry cn path access ctx = (r, ctx')" and "cache_sound db ffi fns h ctx"
    and cn: "serves cn db ffi fns h"
  shows "cache_sound db ffi fns h ctx'"
    and "\<And>l e. r = Inr l \<Longrightarrow> found_entry l = Some e \<Longrightarrow>
      \<exists>open_path os key. resolve_for_read (vane_build cn) db ffi (client_of cn) path = Inr (open_path, os) \<and>
        LanceBuildResolvedPathDatasetCacheKey db ffi open_path os = Inr key \<and> came_from db ffi fns h key e"
proof -
  have eqs: "duck cn = db" "path_fns cn = ffi" "dataset_fns cn = fns" using cn by (simp_all add: serves_def)
  have "cache_sound db ffi fns h ctx' \<and> (\<forall>l e. r = Inr l \<longrightarrow> found_entry l = Some e \<longrightarrow>
      (\<exists>open_path os key. resolve_for_read (vane_build cn) db ffi (client_of cn) path = Inr (open_path, os) \<and>
        LanceBuildResolvedPathDatasetCacheKey db ffi open_path os = Inr key \<and> came_from db ffi fns h key e))"
  proof (cases "\<exists>open_path os key. resolve_for_read (vane_build cn) db ffi (client_of cn) path = Inr (open_path, os) \<and>
      LanceBuildResolvedPathDatasetCacheKey db ffi open_path os = Inr key")
    case True
    then obtain open_path os key where rs: "resolve_for_read (vane_build cn) db ffi (client_of cn) path = Inr (open_path, os)"
      and key: "LanceBuildResolvedPathDatasetCacheKey db ffi open_path os = Inr key" by blast
    then have call: "GetOrOpenDatasetCacheEntry key (path_opener cn access path open_path os) ctx = (r, ctx')"
      using assms(1) by (simp add: LanceGetOrOpenDatasetEntry_def eqs)
    show ?thesis
      using GetOrOpen_sound [OF call assms(2) fair_path_opener [OF eqs(3) key]] rs key by blast
  next
    case False
    then have "(\<exists>x. r = Inl x) \<and> ctx' = ctx"
      using assms(1)
      by (auto simp: LanceGetOrOpenDatasetEntry_def eqs split: sum.splits)
        (auto simp: res_bind_Inr_iff split: prod.splits)
    then show ?thesis using assms(2) by auto
  qed
  then show "cache_sound db ffi fns h ctx'"
    and "\<And>l e. r = Inr l \<Longrightarrow> found_entry l = Some e \<Longrightarrow>
      \<exists>open_path os key. resolve_for_read (vane_build cn) db ffi (client_of cn) path = Inr (open_path, os) \<and>
        LanceBuildResolvedPathDatasetCacheKey db ffi open_path os = Inr key \<and> came_from db ffi fns h key e"
    by blast+
qed

text \<open>
  The dataset a path lookup returns, cached or not: the Rust library, one and the same throughout,
  returned it from a call for a path of the same identity with the same options (without options
  from the call that takes none), from the call that opens a blob's binding for such a path, or
  from the call for a table of a directory namespace whose dataset URI has that identity, with the
  same options.
\<close>

definition opened_for ::
    "duckdb \<Rightarrow> lance_ffi \<Rightarrow> dataset_ffi \<Rightarrow> string \<Rightarrow> options \<Rightarrow> LanceDatasetCacheEntry \<Rightarrow> bool" where
  "opened_for db ffi fns open_path os e \<longleftrightarrow>
     (\<exists>p. LanceNormalizeDatasetPath db ffi p = LanceNormalizeDatasetPath db ffi open_path \<and>
       ((\<exists>hd. (if fst os = [] then lance_open_dataset_with_session fns p hd
               else lance_open_dataset_with_storage_options_and_session fns p os hd) = Some (dataset e)) \<or>
        (\<exists>access. lance_blob_open_binding_dataset fns p access = Some (dataset e)))) \<or>
     (\<exists>cfg hd. LanceNormalizeDatasetPath db ffi (LanceDirectoryNamespaceDatasetUri db cfg) =
         LanceNormalizeDatasetPath db ffi open_path \<and> (option_keys cfg, option_values cfg) = os \<and>
       fst (lance_open_dataset_in_dir_namespace_with_session fns (root cfg) (table_id cfg) os hd) = Some (dataset e))"

lemma path_opener_call:
  assumes "path_opener cn access path open_path os c = (Inr (Some e), c')"
  shows "(\<exists>hd. (if fst os = [] then lance_open_dataset_with_session (dataset_fns cn) open_path hd
      else lance_open_dataset_with_storage_options_and_session (dataset_fns cn) open_path os hd) = Some (dataset e)) \<or>
    (\<exists>access. lance_blob_open_binding_dataset (dataset_fns cn) open_path access = Some (dataset e))"
  using assms
  by (cases access)
     (auto simp: path_opener_def OpenResolvedPathDataset_def BuildStorageOptionPointerArrays_def
       split: prod.splits sum.splits option.splits if_splits)

lemma dir_opener_call:
  assumes "dir_opener cn cfg c = (Inr (Some e), c')"
  shows "\<exists>hd. fst (lance_open_dataset_in_dir_namespace_with_session (dataset_fns cn) (root cfg) (table_id cfg)
    (option_keys cfg, option_values cfg) hd) = Some (dataset e)"
  using assms
  by (auto simp: dir_opener_def OpenDirNamespaceDataset_def BuildStorageOptionPointerArrays_def
      split: prod.splits sum.splits option.splits if_splits) (metis fst_conv)+

lemma came_from_path_key:
  assumes "came_from db ffi fns h key e" and "LanceBuildResolvedPathDatasetCacheKey db ffi open_path os = Inr key"
  shows "opened_for db ffi fns open_path os e"
  using assms(1)
proof cases
  case (from_path cn access path open_path' os' c c')
  then show ?thesis
    using path_key_inject [OF from_path(3) assms(2)] path_opener_call [OF from_path(2)]
    unfolding opened_for_def by blast
next
  case (from_directory cn cfg c c')
  then show ?thesis
    using path_key_inject [OF from_directory(3) assms(2)] dir_opener_call [OF from_directory(2)]
    unfolding opened_for_def by blast
next
  case (from_namespace cn ep tbl b a d hs c c')
  then show ?thesis using path_namespace_keys_differ [OF assms(2)] by blast
qed

lemma path_lookup_isolated:
  assumes "LanceGetOrOpenDatasetEntry cn path access ctx = (Inr l, ctx')" and "found_entry l = Some e"
    and "cache_sound db ffi fns h ctx" and "serves cn db ffi fns h"
  shows "\<exists>open_path os. resolve_for_read (vane_build cn) db ffi (client_of cn) path = Inr (open_path, os) \<and>
    opened_for db ffi fns open_path os e"
proof -
  obtain open_path os key where
      "resolve_for_read (vane_build cn) db ffi (client_of cn) path = Inr (open_path, os)"
    and key: "LanceBuildResolvedPathDatasetCacheKey db ffi open_path os = Inr key"
    and "came_from db ffi fns h key e"
    using path_lookup_sound(2) [OF assms(1,3,4) refl assms(2)] by blast
  then show ?thesis using came_from_path_key [OF _ key] by blast
qed


text \<open>All lookups, and invalidation, keep the cache sound.\<close>

lemma namespace_lookup_sound:
  assumes "LanceGetOrOpenDatasetEntryInNamespace cn ep tbl b a d hs ctx = (r, ctx')"
    and "cache_sound db ffi fns h ctx" and "Hash_of cn = h" and "dataset_fns cn = fns"
  shows "cache_sound db ffi fns h ctx'"
proof -
  obtain r1 where "GetOrOpenDatasetCacheEntry (LanceBuildNamespaceDatasetCacheKey h ep tbl b a d hs)
      (namespace_opener cn ep tbl b a d hs) ctx = (r1, ctx')"
    using assms(1,3) by (auto simp: LanceGetOrOpenDatasetEntryInNamespace_def split: prod.splits sum.splits)
  from GetOrOpen_sound(1) [OF this assms(2) fair_namespace_opener [OF assms(4)]] show ?thesis .
qed

lemma table_lookup_sound:
  assumes call: "LanceGetOrOpenDatasetEntryForTable cn table ctx = (r, ctx')"
    and sound: "cache_sound db ffi fns h ctx" and cn: "serves cn db ffi fns h"
  shows "cache_sound db ffi fns h ctx'"
proof (cases "NamespaceConfig table")
  case None
  then obtain r1 where "LanceGetOrOpenDatasetEntry cn (DatasetUri table) None ctx = (r1, ctx')"
    using call by (auto simp: LanceGetOrOpenDatasetEntryForTable_def split: prod.splits sum.splits)
  then show ?thesis by (rule path_lookup_sound(1) [OF _ sound cn])
next
  case (Some cfg)
  show ?thesis
  proof (cases "IsDirectory cfg")
    case True
    show ?thesis
    proof (cases "LanceBuildDirNamespaceDatasetCacheKey cn cfg")
      case (Inr key)
      then have key: "LanceBuildResolvedPathDatasetCacheKey db ffi (LanceDirectoryNamespaceDatasetUri db cfg)
          (option_keys cfg, option_values cfg) = Inr key"
        using cn by (simp add: LanceBuildDirNamespaceDatasetCacheKey_def serves_def)
      from Inr True Some call obtain r1 where
          "GetOrOpenDatasetCacheEntry key (dir_opener cn cfg) ctx = (r1, ctx')"
        by (auto simp: LanceGetOrOpenDatasetEntryForTable_def split: prod.splits sum.splits)
      from GetOrOpen_sound(1) [OF this sound fair_dir_opener [OF _ key]] show ?thesis using cn by (simp add: serves_def)
    qed (use True Some call sound in \<open>simp add: LanceGetOrOpenDatasetEntryForTable_def\<close>)
  next
    case False
    show ?thesis
      using False Some call sound cn namespace_lookup_sound [of cn]
      by (auto simp: LanceGetOrOpenDatasetEntryForTable_def serves_def split: sum.splits)
  qed
qed

lemma invalidate_sound:
  "cache_sound db ffi fns h ctx \<Longrightarrow> cache_sound db ffi fns h (LanceInvalidateDatasetCache key ctx)"
  by (auto simp: cache_sound_def LanceInvalidateDatasetCache_def split: if_splits)


lemma no_cache_sound: "registered_cache ctx = None \<Longrightarrow> cache_sound db ffi fns h ctx"
  by (simp add: cache_sound_def)

lemma query_ends_sound:
  "cache_sound db ffi fns h ctx \<Longrightarrow>
     cache_sound db ffi fns h (ctx\<lparr>registered_cache := map_option QueryEnd (registered_cache ctx)\<rparr>)"
  by (auto simp: cache_sound_def split: if_splits)

lemma query_begins_sound:
  "cache_sound db ffi fns h ctx \<Longrightarrow>
     cache_sound db ffi fns h (ctx\<lparr>registered_cache := map_option QueryBegin (registered_cache ctx)\<rparr>)"
  by (auto simp: cache_sound_def)

lemma expire_sound:
  assumes "LanceExpireDatasetCacheAfterQuery cn path ctx = Inr ctx'" and "cache_sound db ffi fns h ctx"
  shows "cache_sound db ffi fns h ctx'"
proof -
  obtain key where ctx': "ctx' = snd (with_cache (\<lambda>st. ((), ExpireAfterQuery key st)) ctx)"
    using assms(1) by (auto simp: LanceExpireDatasetCacheAfterQuery_def res_bind_Inr_iff)
  obtain st ctx1 where get: "GetOrCreateLanceDatasetCacheState ctx = (st, ctx1)" by fastforce
  have "registered_cache ctx' = Some (ExpireAfterQuery key st)"
    by (simp add: ctx' with_cache_def get)
  then show ?thesis using GetOrCreate_sound [OF get assms(2)] by (simp add: cache_sound_def)
qed

text \<open>
  The states the cache of a client context can be in: it starts without one, and then lookups by
  path, by namespace and by table, invalidations, expirations and the begin and end of queries
  follow in any order, between calls that do not touch the cache.
\<close>

inductive cache_history :: "duckdb \<Rightarrow> lance_ffi \<Rightarrow> dataset_ffi \<Rightarrow> (string \<Rightarrow> u64) \<Rightarrow> conn_state \<Rightarrow> bool"
  for db ffi fns h where
  no_cache: "registered_cache ctx = None \<Longrightarrow> cache_history db ffi fns h ctx"
| path_looked_up: "cache_history db ffi fns h ctx \<Longrightarrow> serves cn db ffi fns h \<Longrightarrow>
     LanceGetOrOpenDatasetEntry cn path access ctx = (r, ctx') \<Longrightarrow> cache_history db ffi fns h ctx'"
| namespace_looked_up: "cache_history db ffi fns h ctx \<Longrightarrow> serves cn db ffi fns h \<Longrightarrow>
     LanceGetOrOpenDatasetEntryInNamespace cn ep tbl b a d hs ctx = (r', ctx') \<Longrightarrow> cache_history db ffi fns h ctx'"
| table_looked_up: "cache_history db ffi fns h ctx \<Longrightarrow> serves cn db ffi fns h \<Longrightarrow>
     LanceGetOrOpenDatasetEntryForTable cn table ctx = (r'', ctx') \<Longrightarrow> cache_history db ffi fns h ctx'"
| invalidated: "cache_history db ffi fns h ctx \<Longrightarrow> cache_history db ffi fns h (LanceInvalidateDatasetCache key ctx)"
| expires: "cache_history db ffi fns h ctx \<Longrightarrow>
     LanceExpireDatasetCacheAfterQuery cn path ctx = Inr ctx' \<Longrightarrow> cache_history db ffi fns h ctx'"
| query_begins: "cache_history db ffi fns h ctx \<Longrightarrow>
     cache_history db ffi fns h (ctx\<lparr>registered_cache := map_option QueryBegin (registered_cache ctx)\<rparr>)"
| query_ends: "cache_history db ffi fns h ctx \<Longrightarrow>
     cache_history db ffi fns h (ctx\<lparr>registered_cache := map_option QueryEnd (registered_cache ctx)\<rparr>)"
| untouched: "cache_history db ffi fns h ctx \<Longrightarrow> registered_cache ctx' = registered_cache ctx \<Longrightarrow>
     cache_history db ffi fns h ctx'"

lemma history_sound: "cache_history db ffi fns h ctx \<Longrightarrow> cache_sound db ffi fns h ctx"
proof (induction rule: cache_history.induct)
  case (path_looked_up ctx cn path access r ctx')
  then show ?case using path_lookup_sound(1) by blast
next
  case (namespace_looked_up ctx cn ep tbl b a d hs r' ctx')
  then show ?case using namespace_lookup_sound unfolding serves_def by blast
next
  case (table_looked_up ctx cn table r'' ctx')
  then show ?case using table_lookup_sound by blast
next
  case (expires ctx cn path ctx')
  then show ?case using expire_sound by blast
next
  case (untouched ctx ctx')
  then show ?case by (simp add: cache_sound_def)
qed (simp_all add: invalidate_sound query_begins_sound query_ends_sound no_cache_sound)


section \<open>Invalidation\<close>

lemma GetOrOpen_hit_iff:
  "(\<exists>l ctx'. GetOrOpenDatasetCacheEntry key opn ctx = (Inr l, ctx') \<and> out_cache_hit l = Some True) \<longleftrightarrow>
     (\<exists>st e. registered_cache ctx = Some st \<and> cached st key = Some e)"
  by (auto simp: GetOrOpenDatasetCacheEntry_def with_cache_def Get_def GetOrCreateLanceDatasetCacheState_def
      empty_cache_def split: prod.splits option.splits sum.splits)

lemma invalidated_misses:
  assumes "GetOrOpenDatasetCacheEntry key opn (LanceInvalidateDatasetCache key ctx) = (Inr l, ctx')"
  shows "out_cache_hit l \<noteq> Some True"
proof
  assume "out_cache_hit l = Some True"
  then have "\<exists>st e. registered_cache (LanceInvalidateDatasetCache key ctx) = Some st \<and> cached st key = Some e"
    using assms GetOrOpen_hit_iff by blast
  then show False by (auto simp: LanceInvalidateDatasetCache_def)
qed

text \<open>The lookup of a table goes to the key that its invalidation removes, on every branch.\<close>

lemma table_lookup_uses_table_key:
  assumes "LanceBuildDatasetCacheKeyForTable cn table = Inr key"
  shows "\<exists>opn. \<forall>ctx l uri ctx'. LanceGetOrOpenDatasetEntryForTable cn table ctx = (Inr (l, uri), ctx') \<longrightarrow>
    GetOrOpenDatasetCacheEntry key opn ctx = (Inr l, ctx')"
proof (cases "NamespaceConfig table")
  case None
  then obtain open_path os where
      "resolve_for_read (vane_build cn) (duck cn) (path_fns cn) (client_of cn) (DatasetUri table) = Inr (open_path, os)"
    and "LanceBuildResolvedPathDatasetCacheKey (duck cn) (path_fns cn) open_path os = Inr key"
    using assms by (auto simp: LanceBuildDatasetCacheKeyForTable_def LanceBuildPathDatasetCacheKey_def res_bind_Inr_iff)
  then have "GetOrOpenDatasetCacheEntry key (path_opener cn None (DatasetUri table) open_path os) ctx = (Inr l, ctx')"
    if "LanceGetOrOpenDatasetEntryForTable cn table ctx = (Inr (l, uri), ctx')" for ctx l uri ctx'
    using None that
    by (auto simp: LanceGetOrOpenDatasetEntryForTable_def LanceGetOrOpenDatasetEntry_def split: prod.splits sum.splits)
  then show ?thesis by blast
next
  case (Some cfg)
  show ?thesis
  proof (cases "IsDirectory cfg")
    case True
    then have "GetOrOpenDatasetCacheEntry key (dir_opener cn cfg) ctx = (Inr l, ctx')"
      if "LanceGetOrOpenDatasetEntryForTable cn table ctx = (Inr (l, uri), ctx')" for ctx l uri ctx'
      using Some assms that
      by (auto simp: LanceGetOrOpenDatasetEntryForTable_def LanceBuildDatasetCacheKeyForTable_def
          split: prod.splits sum.splits)
    then show ?thesis by blast
  next
    case False
    then obtain auth where "namespace_credentials cn cfg = Inr auth"
      using Some assms by (auto simp: LanceBuildDatasetCacheKeyForTable_def res_bind_Inr_iff)
    then have "GetOrOpenDatasetCacheEntry key
        (namespace_opener cn (endpoint cfg) (table_id cfg) (bearer_token auth) (api_key auth)
          (delimiter cfg) (headers_tsv cfg)) ctx = (Inr l, ctx')"
      if "LanceGetOrOpenDatasetEntryForTable cn table ctx = (Inr (l, uri), ctx')" for ctx l uri ctx'
      using False Some assms that
      by (auto simp: LanceGetOrOpenDatasetEntryForTable_def LanceBuildDatasetCacheKeyForTable_def
          LanceGetOrOpenDatasetEntryInNamespace_def split: prod.splits sum.splits)
    then show ?thesis by blast
  qed
qed

lemma table_invalidation_effective:
  assumes "LanceInvalidateDatasetCacheForTable cn table ctx = Inr ctx1"
    and "LanceGetOrOpenDatasetEntryForTable cn table ctx1 = (Inr (l, uri), ctx2)"
  shows "out_cache_hit l \<noteq> Some True"
proof -
  obtain key where key: "LanceBuildDatasetCacheKeyForTable cn table = Inr key"
    and ctx1: "ctx1 = LanceInvalidateDatasetCache key ctx"
    using assms(1) by (auto simp: LanceInvalidateDatasetCacheForTable_def res_bind_Inr_iff)
  obtain opn where "GetOrOpenDatasetCacheEntry key opn ctx1 = (Inr l, ctx2)"
    using table_lookup_uses_table_key [OF key] assms(2) by blast
  then show ?thesis unfolding ctx1 by (rule invalidated_misses)
qed

end
