(* ===== verification/Host_Samples.thy ===== *)
theory Host_Samples
  imports Cache_Correct Sample_Host
begin

text \<open>
  A connection on which the path, option, session and cache code runs in the witnesses: a client
  with a connection-local S3 key pair and an inherited session token, a Rust library that opens
  every dataset, and a table found through a directory namespace.
\<close>

definition sample_ffi :: lance_ffi where
  "sample_ffi = \<lparr>lance_blob_normalize_uri = (\<lambda>s as_local. Some s),
     lance_vane_classify_path = (\<lambda>p. if prefix ''s3://'' p then LANCE_VANE_PATH_IS_REMOTE else 0)\<rparr>"

definition sample_client :: client where
  "sample_client = \<lparr>
     TryGetCurrentSetting = map_of
       [(''s3_access_key_id'', (VarcharValue ''AK'', LOCAL)), (''s3_secret_access_key'', (VarcharValue ''SK'', LOCAL)),
        (''s3_session_token'', (VarcharValue ''inherited'', GLOBAL))],
     getenv = map_of [(''AWS_SESSION_TOKEN'', ''inherited'')],
     LookupSecret = (\<lambda>path type. NoMatch),
     TryGetValue = (\<lambda>kvs k. NullValue (SimpleType VARCHAR)),
     ToString = (\<lambda>v. [])\<rparr>"

text \<open>The same client with a secret for every path, and one without settings.\<close>

definition secret_client :: client where
  "secret_client = sample_client\<lparr>LookupSecret := (\<lambda>path type. KeyValueSecret [(''region'', VarcharValue ''eu'')]),
     ToString := (\<lambda>v. ''eu'')\<rparr>"

definition plain_client :: client where
  "plain_client = sample_client\<lparr>TryGetCurrentSetting := (\<lambda>name. None)\<rparr>"

definition sample_session_ffi :: session_ffi where
  "sample_session_ffi = \<lparr>lance_create_session = (\<lambda>i m. Some 7),
     lance_vane_default_index_cache_size_bytes = 1024, lance_vane_default_metadata_cache_size_bytes = 512\<rparr>"

definition sample_dataset_ffi :: dataset_ffi where
  "sample_dataset_ffi = \<lparr>
     lance_open_dataset_with_session = (\<lambda>p h. if p = ''/data/t'' then Some 11 else Some 12),
     lance_open_dataset_with_storage_options_and_session = (\<lambda>p os h. Some 13),
     lance_blob_open_binding_dataset = (\<lambda>p a. Some 14),
     lance_open_dataset_in_namespace_with_session = (\<lambda>e t b a d hs h. (Some 15, None)),
     lance_open_dataset_in_dir_namespace_with_session = (\<lambda>r t os h. (Some 16, None))\<rparr>"

definition sample_connection :: connection where
  "sample_connection = \<lparr>vane_build = True, duck = sample_duckdb, path_fns = sample_ffi,
     session_fns = sample_session_ffi, dataset_fns = sample_dataset_ffi, client_of = plain_client,
     Hash_of = (\<lambda>s. word_of_nat (length s)), error_suffix = []\<rparr>"

definition sample_database :: database where
  "sample_database = \<lparr>shared_session_entry = None, LANCE_SHARED_SESSION_ID_GEN = 1\<rparr>"

definition sample_ctx :: conn_state where
  "sample_ctx = \<lparr>registered_session = None, instance_of = sample_database, registered_cache = None\<rparr>"

definition sample_config :: LanceNamespaceTableConfig where
  "sample_config = \<lparr>kind = Directory, root = ''/data'', option_keys = [], option_values = [],
     uses_coordinator_storage_secret = False, distributed_replay_path_restricted = False,
     uses_coordinator_auth_secret = False, endpoint = [], table_id = ''t'', delimiter = [],
     bearer_token_override = [], api_key_override = [], headers_tsv = [], display_uri = [], snapshot_version = 0\<rparr>"

definition sample_table :: LanceTableEntry where
  "sample_table = \<lparr>DatasetUri = ''/data/t.lance'', NamespaceConfig = Some sample_config\<rparr>"

definition sample_world :: world where
  "sample_world = \<lparr>dbase = sample_database, conns = (\<lambda>c. None)\<rparr>"

lemmas host_sample_defs = sample_ffi_def sample_client_def secret_client_def plain_client_def sample_session_ffi_def
  sample_dataset_ffi_def sample_connection_def sample_database_def sample_ctx_def sample_config_def sample_table_def
  sample_world_def sample_duckdb_def

lemma sample_serves:
  "serves sample_connection sample_duckdb sample_ffi sample_dataset_ffi (\<lambda>s. word_of_nat (length s))"
  by (simp add: serves_def sample_connection_def)

lemma sample_history: "cache_history db ffi fns h sample_ctx"
  by (rule no_cache) (simp add: sample_ctx_def)

lemma sample_sessions_agree: "sessions_agree sample_world"
  by (simp add: sessions_agree_def sample_world_def)

text \<open>The settings of the sample client.\<close>

lemma sample_settings:
  "TryGetLanceS3Setting sample_duckdb sample_client ''s3_access_key_id'' False =
     Inr \<lparr>found = True, out_value = ''AK'', out_scope = LOCAL\<rparr>"
  "TryGetLanceS3Setting sample_duckdb sample_client ''s3_secret_access_key'' False =
     Inr \<lparr>found = True, out_value = ''SK'', out_scope = LOCAL\<rparr>"
  "TryGetLanceS3Setting sample_duckdb sample_client ''s3_session_token'' True =
     Inr \<lparr>found = True, out_value = ''inherited'', out_scope = GLOBAL\<rparr>"
  "TryGetLanceS3Setting sample_duckdb sample_client ''s3_region'' False =
     Inr \<lparr>found = False, out_value = [], out_scope = INVALID\<rparr>"
  "TryGetLanceS3Setting sample_duckdb sample_client ''s3_endpoint'' False =
     Inr \<lparr>found = False, out_value = [], out_scope = INVALID\<rparr>"
  "TryGetLanceS3Setting sample_duckdb sample_client ''s3_url_style'' False =
     Inr \<lparr>found = False, out_value = [], out_scope = INVALID\<rparr>"
  by (simp_all add: TryGetLanceS3Setting_def sample_client_def sample_duckdb_def cast_string_def)

lemma sample_fill:
  "FillLanceStorageOptionsFromDuckDBS3Settings sample_duckdb sample_client no_options =
     Inr ([''aws_access_key_id'', ''aws_secret_access_key''], [''AK'', ''SK''])"
  by (simp add: FillLanceStorageOptionsFromDuckDBS3Settings_def sample_settings check_local_pair_def
      AppendLanceStorageOption_def push_option_def no_options_def append_session_token_def
      token_belongs_to_process_environment_def append_endpoint_def append_url_style_def Let_def)

text \<open>Opening a dataset of the sample connection.\<close>

lemmas path_eval = LanceNormalizeDatasetPath_def LanceNormalizeUriScheme_def LanceNormalizeS3Scheme_def
  strip_slashes.simps Let_def sample_ffi_def sample_duckdb_def ascii_lower_def

lemma sample_paths [simp]:
  "LanceNormalizeDatasetPath sample_duckdb sample_ffi ''/data/t'' = Inr ''/data/t''"
  "LanceNormalizeDatasetPath sample_duckdb sample_ffi ''/data/t.lance'' = Inr ''/data/t.lance''"
  "LanceNormalizeDatasetPath sample_duckdb sample_ffi ''s3://b/t'' = Inr ''s3://b/t''"
  "LanceNormalizeDatasetPath sample_duckdb sample_ffi ''/data'' = Inr ''/data''"
  by (simp_all add: path_eval IsLanceUriSchemeFirstChar_def IsLanceUriSchemeChar_def is_digit_def)

lemma sample_s3_paths [simp]:
  "LanceNormalizeS3Scheme sample_duckdb ''/data/t'' = ''/data/t''"
  "LanceNormalizeS3Scheme sample_duckdb ''/data/t.lance'' = ''/data/t.lance''"
  "LanceNormalizeS3Scheme sample_duckdb ''s3://b/t'' = ''s3://b/t''"
  "LanceNormalizeS3Scheme sample_duckdb ''/data'' = ''/data''"
  by (simp_all add: path_eval)

lemma sample_resolve:
  "ResolveLanceStorageOptions sample_duckdb sample_ffi plain_client ''/data/t'' = Inr (''/data/t'', no_options)"
  "ResolveLanceStorageOptions sample_duckdb sample_ffi sample_client ''s3://b/t'' = Inr (''s3://b/t'', no_options)"
  "ResolveLanceStorageOptions sample_duckdb sample_ffi plain_client ''s3://b/t'' = Inr (''s3://b/t'', no_options)"
  "ResolveLanceStorageOptions sample_duckdb sample_ffi plain_client ''/data'' = Inr (''/data'', no_options)"
  "ResolveLanceStorageOptions sample_duckdb sample_ffi secret_client ''s3://b/t'' =
     Inr (''s3://b/t'', [''region''], [''eu''])"
  by (simp_all add: ResolveLanceStorageOptions_def FillStorageOptionsFromSecrets_def plain_client_def
      sample_client_def secret_client_def no_options_def push_option_def)

lemma sample_resolve_read:
  "resolve_for_read True sample_duckdb sample_ffi plain_client ''/data/t'' = Inr (''/data/t'', no_options)"
  "ResolveLanceStorageOptionsForDistributedRead sample_duckdb sample_ffi plain_client ''/data'' = Inr (''/data'', no_options)"
  by (simp_all add: resolve_for_read_def ResolveLanceStorageOptionsForDistributedRead_def sample_resolve StartsWith_def)

lemma sample_key:
  "\<exists>key. LanceBuildResolvedPathDatasetCacheKey sample_duckdb sample_ffi ''/data/t'' no_options = Inr key"
  by (simp add: LanceBuildResolvedPathDatasetCacheKey_def no_options_def)

lemma sample_session:
  "\<exists>ctx'. session_handle sample_connection sample_ctx = (Inr 7, ctx') \<and> registered_cache ctx' = registered_cache sample_ctx"
  "\<exists>ctx'. session_handle sample_connection (sample_ctx\<lparr>registered_cache := c\<rparr>) = (Inr 7, ctx') \<and> registered_cache ctx' = c"
  by (simp_all add: session_handle_def LanceGetSessionHandle_def GetOrCreateLanceSessionState_def
      GetOrCreateLanceSharedSessionEntry_def session_cache_sizes_def LanceVaneSessionCacheSize_def
      object_cache_get_or_create_def NewLanceSharedSessionEntry_def Handle_def sample_connection_def sample_ctx_def
      sample_database_def sample_session_ffi_def plain_client_def Let_def)

lemma sample_lookup:
  "\<exists>l ctx' e. LanceGetOrOpenDatasetEntry sample_connection ''/data/t'' None sample_ctx = (Inr l, ctx') \<and>
     found_entry l = Some e"
proof -
  obtain key where key: "LanceBuildResolvedPathDatasetCacheKey sample_duckdb sample_ffi ''/data/t'' no_options = Inr key"
    using sample_key by blast
  obtain ctx1 where get: "with_cache (Get key) sample_ctx = (None, ctx1)"
    and ctx1: "ctx1 = sample_ctx\<lparr>registered_cache := registered_cache ctx1\<rparr>"
    by (simp add: with_cache_def GetOrCreateLanceDatasetCacheState_def sample_ctx_def Get_def empty_cache_def)
  obtain ctx2 where "session_handle sample_connection ctx1 = (Inr 7, ctx2)"
    using sample_session(2) ctx1 by metis
  then have opened: "path_opener sample_connection None ''/data/t'' ''/data/t'' no_options ctx1 =
      (Inr (Some \<lparr>dataset = 11, entry_display_uri = ''/data/t''\<rparr>), ctx2)"
    by (simp add: path_opener_def OpenResolvedPathDataset_def no_options_def sample_connection_def sample_dataset_ffi_def)
  have call: "LanceGetOrOpenDatasetEntry sample_connection ''/data/t'' None sample_ctx =
      GetOrOpenDatasetCacheEntry key (path_opener sample_connection None ''/data/t'' ''/data/t'' no_options) sample_ctx"
    using sample_resolve_read(1) key by (simp add: LanceGetOrOpenDatasetEntry_def sample_connection_def)
  obtain e c where "with_cache (PutOrGetExisting key \<lparr>dataset = 11, entry_display_uri = ''/data/t''\<rparr>) ctx2 = (e, c)"
    by fastforce
  then show ?thesis
    unfolding call by (simp add: GetOrOpenDatasetCacheEntry_def get opened)
qed


text \<open>
  The sample library numbers its datasets, so a dataset it opened with options, number 13, is not
  one for a path that resolves to none.
\<close>

lemma foreign_dataset:
  "\<not> opened_for sample_duckdb sample_ffi sample_dataset_ffi ''/data/t'' no_options
     \<lparr>dataset = 13, entry_display_uri = ''/data/t''\<rparr>"
  by (auto simp: opened_for_def sample_dataset_ffi_def no_options_def split: if_splits)

lemma sample_lookup_runs:
  "\<exists>key r ctx'. GetOrOpenDatasetCacheEntry key (path_opener sample_connection None ''/data/t'' ''/data/t'' no_options)
     (sample_ctx\<lparr>registered_cache := Some empty_cache\<rparr>) = (r, ctx') \<and>
     result_of r = Some \<lparr>dataset = 11, entry_display_uri = ''/data/t''\<rparr>"
proof -
  let ?ctx = "sample_ctx\<lparr>registered_cache := Some empty_cache\<rparr>"
  let ?e = "\<lparr>dataset = 11, entry_display_uri = ''/data/t''\<rparr>"
  obtain st where get: "with_cache (Get []) ?ctx = (None, sample_ctx\<lparr>registered_cache := Some st\<rparr>)" and st: "entries st = []"
    by (simp add: with_cache_def GetOrCreateLanceDatasetCacheState_def Get_def empty_cache_def)
  obtain ctx2 where "session_handle sample_connection (sample_ctx\<lparr>registered_cache := Some st\<rparr>) = (Inr 7, ctx2)"
    and ctx2: "registered_cache ctx2 = Some st"
    using sample_session(2) by blast
  then have "path_opener sample_connection None ''/data/t'' ''/data/t'' no_options (sample_ctx\<lparr>registered_cache := Some st\<rparr>) =
      (Inr (Some ?e), ctx2)"
    by (simp add: path_opener_def OpenResolvedPathDataset_def no_options_def sample_connection_def sample_dataset_ffi_def)
  moreover obtain ctx3 where "with_cache (PutOrGetExisting [] ?e) ctx2 = (?e, ctx3)"
    using ctx2 st by (simp add: with_cache_def GetOrCreateLanceDatasetCacheState_def PutOrGetExisting_def)
  ultimately show ?thesis
    using get by (intro exI [of _ "[]"]) (simp add: GetOrOpenDatasetCacheEntry_def result_of_def)
qed

lemma sample_calls:
  "\<exists>h h' w1 w2. handle_call True sample_duckdb sample_session_ffi 0 plain_client [] sample_world = (Inr h, w1) \<and>
     handle_call True sample_duckdb sample_session_ffi 1 plain_client [] w1 = (Inr h', w2)"
  by (simp add: handle_call_def LanceGetSessionHandle_def GetOrCreateLanceSessionState_def
      GetOrCreateLanceSharedSessionEntry_def session_cache_sizes_def LanceVaneSessionCacheSize_def
      object_cache_get_or_create_def NewLanceSharedSessionEntry_def Handle_def sample_world_def
      sample_database_def sample_session_ffi_def plain_client_def Let_def)

text \<open>Two threads that miss the same key; both open the dataset and both store it.\<close>

lemma sample_race:
  "\<exists>s s' e e'. run_keeping ''k'' s s' \<and> (\<forall>t r. threads s t \<noteq> Returned ''k'' r) \<and>
     threads s' 0 = Returned ''k'' (Some e) \<and> threads s' 1 = Returned ''k'' (Some e')"
proof -
  let ?a = "\<lparr>dataset = 1, entry_display_uri = []\<rparr>" and ?b = "\<lparr>dataset = 2, entry_display_uri = []\<rparr>"
  let ?s = "\<lparr>cache = empty_cache, threads = (\<lambda>t. Missed ''k'')\<rparr>"
  obtain r c where p1: "PutOrGetExisting ''k'' ?a empty_cache = (r, c)" by fastforce
  obtain r' c' where p2: "PutOrGetExisting ''k'' ?b c = (r', c')" by fastforce
  let ?s1 = "?s\<lparr>cache := c, threads := (\<lambda>t. Missed ''k'')(0 := Returned ''k'' (Some r))\<rparr>"
  let ?s2 = "?s1\<lparr>cache := c', threads := (threads ?s1)(1 := Returned ''k'' (Some r'))\<rparr>"
  have "step ?s (Opened 0 ?a) ?s1" using opened [of ?s 0 "''k''" ?a r c] p1 by simp
  then have k1: "run_keeping ''k'' ?s ?s1" using keep_step [OF keep_none, of ?s "Opened 0 ?a"] by simp
  have "step ?s1 (Opened 1 ?b) ?s2" using opened [of ?s1 1 "''k''" ?b r' c'] p2 by simp
  then have "run_keeping ''k'' ?s ?s2" using keep_step [OF k1, of "Opened 1 ?b"] by simp
  moreover have "threads ?s2 0 = Returned ''k'' (Some r)" "threads ?s2 1 = Returned ''k'' (Some r')" by simp_all
  moreover have "\<forall>t r. threads ?s t \<noteq> Returned ''k'' r" by simp
  ultimately show ?thesis by blast
qed

lemma sample_table_key:
  "\<exists>key. LanceBuildDatasetCacheKeyForTable sample_connection sample_table = Inr key \<and>
     LanceBuildDirNamespaceDatasetCacheKey sample_connection sample_config = Inr key"
proof -
  have "LanceDirectoryNamespaceDatasetUri sample_duckdb sample_config = ''/data/t.lance''"
    by (simp add: LanceDirectoryNamespaceDatasetUri_def sample_config_def EndsWith_def Let_def suffix_def Cons_eq_append_conv)
  then show ?thesis
    by (simp add: LanceBuildDatasetCacheKeyForTable_def LanceBuildDirNamespaceDatasetCacheKey_def
        LanceBuildResolvedPathDatasetCacheKey_def sample_connection_def sample_table_def IsDirectory_def sample_config_def)
qed

lemma sample_invalidation:
  "\<exists>ctx1 l uri ctx2. LanceInvalidateDatasetCacheForTable sample_connection sample_table sample_ctx = Inr ctx1 \<and>
     LanceGetOrOpenDatasetEntryForTable sample_connection sample_table ctx1 = (Inr (l, uri), ctx2)"
proof -
  obtain key where key: "LanceBuildDatasetCacheKeyForTable sample_connection sample_table = Inr key"
      "LanceBuildDirNamespaceDatasetCacheKey sample_connection sample_config = Inr key"
    using sample_table_key by blast
  have inv: "LanceInvalidateDatasetCacheForTable sample_connection sample_table sample_ctx = Inr sample_ctx"
    by (simp add: LanceInvalidateDatasetCacheForTable_def key LanceInvalidateDatasetCache_def sample_ctx_def)
  obtain ctx1 where get: "with_cache (Get key) sample_ctx = (None, ctx1)"
    and ctx1: "ctx1 = sample_ctx\<lparr>registered_cache := registered_cache ctx1\<rparr>"
    by (simp add: with_cache_def GetOrCreateLanceDatasetCacheState_def sample_ctx_def Get_def empty_cache_def)
  obtain ctx2 where "session_handle sample_connection ctx1 = (Inr 7, ctx2)"
    using sample_session(2) ctx1 by metis
  then obtain e where opened: "dir_opener sample_connection sample_config ctx1 = (Inr (Some e), ctx2)"
    by (simp add: dir_opener_def OpenDirNamespaceDataset_def BuildStorageOptionPointerArrays_def sample_config_def
        sample_connection_def sample_dataset_ffi_def)
  obtain e' c where "with_cache (PutOrGetExisting key e) ctx2 = (e', c)" by fastforce
  then have "\<exists>l uri c. LanceGetOrOpenDatasetEntryForTable sample_connection sample_table sample_ctx = (Inr (l, uri), c)"
    using key(2) by (simp add: LanceGetOrOpenDatasetEntryForTable_def sample_table_def IsDirectory_def
        GetOrOpenDatasetCacheEntry_def get opened)  (simp add: sample_config_def)
  with inv show ?thesis by blast
qed

end
