(* ===== verification/Lance_Services.thy ===== *)
theory Lance_Services
  imports Dataset_Cache
begin

text \<open>
  The services of \<open>lance_common.cpp\<close> that call the Rust library: listing, describing, creating and
  dropping tables of a namespace, opening datasets by path, version and table, and truncation.  The
  Rust functions are fields of records; what they return through pointers is returned as a value, a
  null pointer or a non-zero return code being \<open>None\<close>.  The error a failing call leaves behind is
  the argument \<open>err\<close>.
\<close>

section \<open>Namespace calls\<close>

text \<open>The arguments of a call: endpoint, table or namespace, and four optional C strings.\<close>

record namespace_call =
  call_endpoint :: string
  call_id :: string
  call_bearer :: "string option"
  call_api_key :: "string option"
  call_delimiter :: "string option"
  call_headers :: "string option"

definition namespace_args :: "string \<Rightarrow> string \<Rightarrow> string \<Rightarrow> string \<Rightarrow> string \<Rightarrow> string \<Rightarrow> namespace_call" where
  "namespace_args endpoint_uri target bearer key delim headers =
     \<lparr>call_endpoint = endpoint_uri, call_id = target, call_bearer = opt_cstr bearer, call_api_key = opt_cstr key,
      call_delimiter = opt_cstr delim, call_headers = opt_cstr headers\<rparr>"

record namespace_ffi =
  lance_namespace_list_tables :: "namespace_call \<Rightarrow> string option"
  lance_namespace_describe_table :: "namespace_call \<Rightarrow> (string option \<times> string option) option"
  lance_namespace_create_empty_table :: "namespace_call \<Rightarrow> (string option \<times> string option) option"
  lance_namespace_drop_table :: "namespace_call \<Rightarrow> bool"
  lance_dir_namespace_list_tables :: "string \<Rightarrow> options \<Rightarrow> string option"
  StringSplit :: "string \<Rightarrow> char \<Rightarrow> string list"

definition LanceVaneNamespaceError :: "last_error \<Rightarrow> string" where
  "LanceVaneNamespaceError err =
     (if LanceConsumeLastError err = [] then ''unknown error'' else ''details redacted'')"

definition LanceVaneDirectoryNamespaceError ::
    "lance_ffi \<Rightarrow> last_error \<Rightarrow> string \<Rightarrow> string list \<Rightarrow> string" where
  "LanceVaneDirectoryNamespaceError ffi err root_uri keys =
     (let e = LanceConsumeLastError err
      in if keys \<noteq> [] \<or> LanceVanePathHasPrivateUriComponents ffi root_uri \<or> LanceVanePathIsRemote ffi root_uri
         then if e = [] then ''unknown error'' else ''details redacted''
         else if e = [] then ''unknown error'' else e)"

text \<open>\<open>out_error = LanceConsumeLastError(); if (out_error.empty()) out_error = "unknown error";\<close>\<close>

definition last_error_text :: "last_error \<Rightarrow> string" where
  "last_error_text err = (let e = LanceConsumeLastError err in if e = [] then ''unknown error'' else e)"

definition nonempty_lines :: "namespace_ffi \<Rightarrow> string \<Rightarrow> string list" where
  "nonempty_lines nf text = filter (\<lambda>p. p \<noteq> []) (StringSplit nf text (CHR 0x0A))"

definition TryLanceNamespaceListTables ::
    "bool \<Rightarrow> namespace_ffi \<Rightarrow> last_error \<Rightarrow> namespace_call \<Rightarrow> string + string list" where
  "TryLanceNamespaceListTables vane nf err args =
     (case lance_namespace_list_tables nf args of
        None \<Rightarrow> Inl (if vane then LanceVaneNamespaceError err else last_error_text err)
      | Some text \<Rightarrow> Inr (nonempty_lines nf text))"

text \<open>Lines that are not a key, a tab and a value are skipped.\<close>

fun tsv_pair :: "string list \<Rightarrow> (string \<times> string) option" where
  "tsv_pair [k, v] = Some (k, v)"
| "tsv_pair _ = None"

definition tsv_pairs :: "namespace_ffi \<Rightarrow> string \<Rightarrow> (string \<times> string) list" where
  "tsv_pairs nf text = List.map_filter (\<lambda>line. tsv_pair (StringSplit nf line (CHR 0x09))) (nonempty_lines nf text)"

definition ParseStorageOptionsTsv :: "namespace_ffi \<Rightarrow> string option \<Rightarrow> options" where
  "ParseStorageOptionsTsv nf ptr =
     (case ptr of
        None \<Rightarrow> ([], [])
      | Some text \<Rightarrow> (map fst (tsv_pairs nf text), map snd (tsv_pairs nf text)))"

definition described :: "namespace_ffi \<Rightarrow> string option \<times> string option \<Rightarrow> string \<times> options" where
  "described nf r =
     ((case fst r of None \<Rightarrow> [] | Some location \<Rightarrow> location), ParseStorageOptionsTsv nf (snd r))"

definition TryLanceNamespaceDescribeTable ::
    "bool \<Rightarrow> namespace_ffi \<Rightarrow> last_error \<Rightarrow> namespace_call \<Rightarrow> string + string \<times> options" where
  "TryLanceNamespaceDescribeTable vane nf err args =
     (case lance_namespace_describe_table nf args of
        None \<Rightarrow> Inl (if vane then LanceVaneNamespaceError err else last_error_text err)
      | Some r \<Rightarrow> Inr (described nf r))"

definition TryLanceNamespaceCreateEmptyTable ::
    "namespace_ffi \<Rightarrow> last_error \<Rightarrow> namespace_call \<Rightarrow> string + string \<times> options" where
  "TryLanceNamespaceCreateEmptyTable nf err args =
     (case lance_namespace_create_empty_table nf args of
        None \<Rightarrow> Inl (last_error_text err)
      | Some r \<Rightarrow> Inr (described nf r))"

definition TryLanceNamespaceDropTable :: "namespace_ffi \<Rightarrow> last_error \<Rightarrow> namespace_call \<Rightarrow> string + unit" where
  "TryLanceNamespaceDropTable nf err args =
     (if lance_namespace_drop_table nf args then Inr () else Inl (last_error_text err))"

definition TryLanceDirNamespaceListTables ::
    "bool \<Rightarrow> duckdb \<Rightarrow> lance_ffi \<Rightarrow> client \<Rightarrow> namespace_ffi \<Rightarrow> last_error \<Rightarrow> string \<Rightarrow> exn + (string + string list)" where
  "TryLanceDirNamespaceListTables vane db ffi cl nf err root_uri =
     res_bind (if vane then ResolveLanceStorageOptionsForDistributedRead db ffi cl root_uri
               else ResolveLanceStorageOptions db ffi cl root_uri) (\<lambda>(open_root, os).
     res_bind (BuildStorageOptionPointerArrays os) (\<lambda>os.
       case lance_dir_namespace_list_tables nf open_root os of
         None \<Rightarrow> Inr (Inl (if vane then LanceVaneDirectoryNamespaceError ffi err root_uri (fst os)
                           else last_error_text err))
       | Some text \<Rightarrow> Inr (Inr (nonempty_lines nf text))))"


section \<open>Opening datasets\<close>

definition LanceOpenDataset :: "connection \<Rightarrow> string \<Rightarrow> conn_state \<Rightarrow> (exn + nat option) \<times> conn_state" where
  "LanceOpenDataset cn path ctx =
     (case ResolveLanceStorageOptions (duck cn) (path_fns cn) (client_of cn) path of
        Inl x \<Rightarrow> (Inl x, ctx)
      | Inr (open_path, os) \<Rightarrow> OpenResolvedPathDataset cn open_path os ctx)"

definition LanceOpenDatasetForDistributedScan ::
    "connection \<Rightarrow> string \<Rightarrow> conn_state \<Rightarrow> (exn + nat option) \<times> conn_state" where
  "LanceOpenDatasetForDistributedScan cn path ctx =
     (case ResolveLanceStorageOptionsForDistributedRead (duck cn) (path_fns cn) (client_of cn) path of
        Inl x \<Rightarrow> (Inl x, ctx)
      | Inr (open_path, os) \<Rightarrow> OpenResolvedPathDataset cn open_path os ctx)"

text \<open>
  A pinned version is opened by its number, from a serialised manifest of an expected generation, or
  from such a manifest and an index section.
\<close>

datatype pinned_version =
    VersionOnly u64
  | FromManifest u64 string string
  | FromManifestAndIndexSection u64 string string string

record version_ffi =
  lance_vane_open_dataset_version_with_session :: "string \<Rightarrow> pinned_version \<Rightarrow> nat \<Rightarrow> nat option"
  lance_vane_open_dataset_version_with_storage_options_and_session ::
    "string \<Rightarrow> pinned_version \<Rightarrow> options \<Rightarrow> nat \<Rightarrow> nat option"

definition open_pinned ::
    "connection \<Rightarrow> version_ffi \<Rightarrow> string \<Rightarrow> pinned_version \<Rightarrow> conn_state \<Rightarrow> (exn + nat option) \<times> conn_state" where
  "open_pinned cn vf path version ctx =
     (case ResolveLanceStorageOptionsForDistributedRead (duck cn) (path_fns cn) (client_of cn) path of
        Inl x \<Rightarrow> (Inl x, ctx)
      | Inr (open_path, os) \<Rightarrow>
          (case session_handle cn ctx of
             (Inl x, ctx) \<Rightarrow> (Inl x, ctx)
           | (Inr handle, ctx) \<Rightarrow>
               if fst os = [] then
                 (Inr (lance_vane_open_dataset_version_with_session vf open_path version handle), ctx)
               else
                 (res_bind (BuildStorageOptionPointerArrays os) (\<lambda>os.
                    Inr (lance_vane_open_dataset_version_with_storage_options_and_session vf open_path version os handle)),
                  ctx)))"

definition LanceOpenDatasetVersionForDistributedScan ::
    "connection \<Rightarrow> version_ffi \<Rightarrow> string \<Rightarrow> u64 \<Rightarrow> conn_state \<Rightarrow> (exn + nat option) \<times> conn_state" where
  "LanceOpenDatasetVersionForDistributedScan cn vf path version = open_pinned cn vf path (VersionOnly version)"

definition LanceOpenDatasetVersionFromManifestForDistributedScan ::
    "connection \<Rightarrow> version_ffi \<Rightarrow> string \<Rightarrow> u64 \<Rightarrow> string \<Rightarrow> string \<Rightarrow> conn_state \<Rightarrow> (exn + nat option) \<times> conn_state" where
  "LanceOpenDatasetVersionFromManifestForDistributedScan cn vf path version manifest generation =
     open_pinned cn vf path (FromManifest version manifest generation)"

definition LanceOpenDatasetVersionFromManifestAndIndexSectionForDistributedSearch ::
    "connection \<Rightarrow> version_ffi \<Rightarrow> string \<Rightarrow> u64 \<Rightarrow> string \<Rightarrow> string \<Rightarrow> string \<Rightarrow> conn_state
       \<Rightarrow> (exn + nat option) \<times> conn_state" where
  "LanceOpenDatasetVersionFromManifestAndIndexSectionForDistributedSearch
       cn vf path version manifest index_section generation =
     open_pinned cn vf path (FromManifestAndIndexSection version manifest index_section generation)"

text \<open>
  The catalog: a name that does not parse throws, a name that is not found is nothing, an entry may
  be a table of Lance or something else.  The first test keeps paths away from the catalog.
\<close>

datatype catalog_entry = LanceTable LanceTableEntry | OtherEntry

definition TryResolveLanceTableEntry ::
    "(string \<Rightarrow> 'q option) \<Rightarrow> ('q \<Rightarrow> catalog_entry option) \<Rightarrow> string \<Rightarrow> LanceTableEntry option" where
  "TryResolveLanceTableEntry parse get_entry input =
     (if input = [] \<or> CHR ''/'' \<in> set input \<or> CHR 0x5C \<in> set input \<or> find_sub ''://'' input \<noteq> None then None
      else (case parse input of
          None \<Rightarrow> None
        | Some qname \<Rightarrow>
            (case get_entry qname of
               Some (LanceTable entry) \<Rightarrow> Some entry
             | _ \<Rightarrow> None)))"

text \<open>The dataset, or null, and the URI to display.\<close>

definition LanceOpenDatasetForTable ::
    "connection \<Rightarrow> LanceTableEntry \<Rightarrow> conn_state \<Rightarrow> (exn + nat option \<times> string) \<times> conn_state" where
  "LanceOpenDatasetForTable cn table ctx =
     (case NamespaceConfig table of
        None \<Rightarrow>
          (case LanceOpenDataset cn (DatasetUri table) ctx of
             (Inl x, ctx) \<Rightarrow> (Inl x, ctx)
           | (Inr d, ctx) \<Rightarrow> (Inr (d, DatasetUri table), ctx))
      | Some cfg \<Rightarrow>
          if IsDirectory cfg then
            (case BuildStorageOptionPointerArrays (option_keys cfg, option_values cfg) of
               Inl x \<Rightarrow> (Inl x, ctx)
             | Inr os \<Rightarrow>
                 (case session_handle cn ctx of
                    (Inl x, ctx) \<Rightarrow> (Inl x, ctx)
                  | (Inr handle, ctx) \<Rightarrow>
                      (case lance_open_dataset_in_dir_namespace_with_session (dataset_fns cn)
                              (root cfg) (table_id cfg) os handle of
                         (d, uri) \<Rightarrow>
                           (Inr (d, case uri of
                                Some u \<Rightarrow> u
                              | None \<Rightarrow> if display_uri cfg \<noteq> [] then display_uri cfg
                                        else LanceDirectoryNamespaceDatasetUri (duck cn) cfg), ctx))))
          else
            (case namespace_credentials cn cfg of
               Inl x \<Rightarrow> (Inl x, ctx)
             | Inr auth \<Rightarrow>
                 (case OpenNamespaceDataset cn (endpoint cfg) (table_id cfg) (bearer_token auth) (api_key auth)
                         (delimiter cfg) (headers_tsv cfg) ctx of
                    (Inl x, ctx) \<Rightarrow> (Inl x, ctx)
                  | (Inr (d, uri), ctx) \<Rightarrow>
                      (Inr (d, if uri \<noteq> [] then uri else endpoint cfg @ ''/'' @ table_id cfg), ctx))))"

text \<open>The path to open, the options and the URI to display.\<close>

definition ResolveLanceStorageOptionsForTable ::
    "connection \<Rightarrow> namespace_ffi \<Rightarrow> last_error \<Rightarrow> LanceTableEntry \<Rightarrow> exn + string \<times> options \<times> string" where
  "ResolveLanceStorageOptionsForTable cn nf err table =
     (let resolve = ResolveLanceStorageOptions (duck cn) (path_fns cn) (client_of cn)
      in case NamespaceConfig table of
           None \<Rightarrow> res_bind (resolve (DatasetUri table)) (\<lambda>(open_path, os). Inr (open_path, os, DatasetUri table))
         | Some cfg \<Rightarrow>
             if IsDirectory cfg then
               let uri = LanceDirectoryNamespaceDatasetUri (duck cn) cfg
               in Inr (uri, (option_keys cfg, option_values cfg), uri)
             else
               res_bind (namespace_credentials cn cfg) (\<lambda>auth.
                 case TryLanceNamespaceDescribeTable (vane_build cn) nf err
                        (namespace_args (endpoint cfg) (table_id cfg) (bearer_token auth) (api_key auth)
                           (delimiter cfg) (headers_tsv cfg)) of
                   Inl e \<Rightarrow> Inl (IOException (''Failed to describe Lance table via namespace: '' @
                     (if e = [] then ''unknown error'' else e)))
                 | Inr (location, os) \<Rightarrow>
                     let display = (if location = [] then endpoint cfg @ ''/'' @ table_id cfg else location)
                     in if fst os \<noteq> [] then Inr (LanceNormalizeS3Scheme (duck cn) location, os, display)
                        else res_bind (resolve location) (\<lambda>(open_path, os). Inr (open_path, os, display))))"


section \<open>Truncation\<close>

text \<open>
  The handles the Rust library gives out and takes back, in order.  \<open>rows\<close> is what counting returned,
  negative for a failure.
\<close>

datatype resource = DatasetHandle nat | SchemaHandle nat | WriterHandle nat

datatype resource_event = Acquire resource | Release resource

record truncate_ffi =
  lance_open_dataset :: "string \<Rightarrow> nat option"
  lance_open_dataset_with_storage_options :: "string \<Rightarrow> options \<Rightarrow> nat option"
  lance_dataset_count_rows :: "nat \<Rightarrow> int"
  lance_get_schema :: "nat \<Rightarrow> nat option"
  lance_schema_to_arrow :: "nat \<Rightarrow> nat option"
  lance_open_writer_with_storage_options :: "string \<Rightarrow> options \<Rightarrow> nat \<Rightarrow> nat \<Rightarrow> nat option"
  lance_writer_finish :: "nat \<Rightarrow> bool"

text \<open>The trace is returned with the result; the writer needs the session of the connection.\<close>

definition LanceTruncateDatasetWithStorageOptions ::
    "connection \<Rightarrow> truncate_ffi \<Rightarrow> string \<Rightarrow> options \<Rightarrow> string \<Rightarrow> conn_state
       \<Rightarrow> (exn + int) \<times> resource_event list \<times> conn_state" where
  "LanceTruncateDatasetWithStorageOptions cn tf open_path os display ctx =
     (let suffix = error_suffix cn
      in case BuildStorageOptionPointerArrays os of
        Inl x \<Rightarrow> (Inl x, [], ctx)
      | Inr os \<Rightarrow>
      (case (if fst os = [] then lance_open_dataset tf open_path
             else lance_open_dataset_with_storage_options tf open_path os) of
         None \<Rightarrow> (Inl (IOException (''Failed to open Lance dataset: '' @ display @ suffix)), [], ctx)
       | Some d \<Rightarrow>
           let row_count = lance_dataset_count_rows tf d;
               opened = [Acquire (DatasetHandle d)];
               closed = [Release (DatasetHandle d)]
           in if row_count < 0 then
                (Inl (IOException (''Failed to count rows from Lance dataset: '' @ display @ suffix)),
                 opened @ closed, ctx)
              else (case lance_get_schema tf d of
                  None \<Rightarrow> (Inl (IOException (''Failed to get schema from Lance dataset: '' @ display @ suffix)),
                           opened @ closed, ctx)
                | Some s \<Rightarrow>
                    let opened = opened @ [Acquire (SchemaHandle s)];
                        closed = Release (SchemaHandle s) # closed
                    in (case lance_schema_to_arrow tf s of
                          None \<Rightarrow> (Inl (IOException (''Failed to export Lance schema to Arrow C Data Interface'' @ suffix)),
                                   opened @ closed, ctx)
                        | Some arrow_schema \<Rightarrow>
                            (case session_handle cn ctx of
                               (Inl x, ctx) \<Rightarrow> (Inl x, opened @ closed, ctx)
                             | (Inr handle, ctx) \<Rightarrow>
                                 (case lance_open_writer_with_storage_options tf open_path os handle arrow_schema of
                                    None \<Rightarrow> (Inl (IOException (''Failed to open Lance writer: '' @ open_path @ suffix)),
                                             opened @ closed, ctx)
                                  | Some w \<Rightarrow>
                                      (if \<not> lance_writer_finish tf w
                                       then Inl (IOException (''Failed to finalize Lance dataset write'' @ suffix))
                                       else Inr row_count,
                                       opened @ closed @ [Acquire (WriterHandle w), Release (WriterHandle w)], ctx)))))))"

definition LanceTruncateDataset ::
    "connection \<Rightarrow> truncate_ffi \<Rightarrow> string \<Rightarrow> conn_state \<Rightarrow> (exn + int) \<times> resource_event list \<times> conn_state" where
  "LanceTruncateDataset cn tf dataset_uri ctx =
     (case ResolveLanceStorageOptions (duck cn) (path_fns cn) (client_of cn) dataset_uri of
        Inl x \<Rightarrow> (Inl x, [], ctx)
      | Inr (open_path, os) \<Rightarrow> LanceTruncateDatasetWithStorageOptions cn tf open_path os dataset_uri ctx)"

end
