(* ===== verification/Sql_Text.thy ===== *)
theory Sql_Text
  imports Duck_Types
begin

text \<open>
  The hand-written scanning of SQL text that the parser extensions of \<open>lance_index.cpp\<close> and
  \<open>lance_maintenance.cpp\<close> share (the second file repeats the functions of the first): keywords,
  identifiers, quoted strings, parenthesised lists, \<open>WITH (key = value, ...)\<close> clauses and their
  translation to JSON.  A function that fills an \<open>out\<close> value and the number of characters consumed
  returns both in an option.  A loop over an index is a recursion over the characters that are left.
\<close>

section \<open>The host's functions on text\<close>

record QualifiedName =
  qn_catalog :: string
  qn_schema :: string
  qn_name :: string

record sql_host =
  Trim :: "string \<Rightarrow> string"
  StringUpper :: "string \<Rightarrow> string"
  StringReplace :: "string \<Rightarrow> string \<Rightarrow> string \<Rightarrow> string"
  StringJoin :: "string list \<Rightarrow> string \<Rightarrow> string"
  ValueToString :: "Value \<Rightarrow> string"
  ParseQualifiedName :: "string \<Rightarrow> exn + QualifiedName"
  GetDefaultDatabase :: string
  DEFAULT_SCHEMA :: string


section \<open>Characters\<close>

text \<open>\<open>std::isspace\<close>, \<open>std::isalpha\<close> of the C locale.\<close>

definition IsSpace :: "char \<Rightarrow> bool" where
  "IsSpace c \<longleftrightarrow> (let n = of_char c :: nat in (9 \<le> n \<and> n \<le> 13) \<or> n = 32)"

definition is_alnum :: "char \<Rightarrow> bool" where
  "is_alnum c \<longleftrightarrow>
     (let n = of_char c :: nat in (48 \<le> n \<and> n \<le> 57) \<or> (65 \<le> n \<and> n \<le> 90) \<or> (97 \<le> n \<and> n \<le> 122))"

abbreviation apostrophe :: char where
  "apostrophe \<equiv> CHR 0x27"

abbreviation backtick :: char where
  "backtick \<equiv> CHR 0x60"

abbreviation quotation :: char where
  "quotation \<equiv> CHR 0x22"

abbreviation backslash :: char where
  "backslash \<equiv> CHR 0x5C"

definition IsIdentChar :: "char \<Rightarrow> bool" where
  "IsIdentChar c \<longleftrightarrow> is_alnum c \<or> c = CHR ''_'' \<or> c = CHR ''.''"


section \<open>Keywords and identifiers\<close>

definition TrimCopy :: "sql_host \<Rightarrow> string \<Rightarrow> string" where
  "TrimCopy h s = Trim h s"

text \<open>
  The loop pops one semicolon and trims again.  A \<open>Trim\<close> that made the text longer could keep it
  running; the model stops there, and under the law of \<open>Trim\<close> the case does not arise.
\<close>

function pop_semicolons :: "sql_host \<Rightarrow> string \<Rightarrow> string" where
  "pop_semicolons h s =
     (if s \<noteq> [] \<and> last s = CHR '';'' then
        let s' = Trim h (butlast s)
        in if length s' < length s then pop_semicolons h s' else s'
      else s)"
  by pat_completeness auto

termination pop_semicolons
  by (relation "measure (length \<circ> snd)") auto

declare pop_semicolons.simps [simp del]

definition TrimTrailingSemicolons :: "sql_host \<Rightarrow> string \<Rightarrow> string" where
  "TrimTrailingSemicolons h s = pop_semicolons h (Trim h s)"

definition HasKeywordPrefix :: "string \<Rightarrow> string \<Rightarrow> bool" where
  "HasKeywordPrefix lower keyword \<longleftrightarrow>
     take (length keyword) lower = keyword \<and>
     (length lower = length keyword \<or> IsSpace (lower ! length keyword))"

text \<open>The text after the keyword; when the keyword is not there \<open>sql\<close> keeps its value.\<close>

definition ConsumeKeyword :: "duckdb \<Rightarrow> sql_host \<Rightarrow> string \<Rightarrow> string \<Rightarrow> string option" where
  "ConsumeKeyword db h sql keyword =
     (let trimmed = TrimCopy h sql;
          lower = StringLower db trimmed
      in if HasKeywordPrefix lower keyword then Some (TrimCopy h (drop (length keyword) trimmed)) else None)"

definition TryParseIdentifier :: "string \<Rightarrow> (string \<times> nat) option" where
  "TryParseIdentifier sql =
     (let i = length (takeWhile IsIdentChar sql)
      in if i = 0 then None else Some (take i sql, i))"


section \<open>Quoted text\<close>

text \<open>
  The text up to the closing delimiter, which stands for itself when doubled, and what follows the
  delimiter: the loop of string literals (apostrophes) and of quoted path segments (backticks).
\<close>

fun quoted_text :: "char \<Rightarrow> string \<Rightarrow> (string \<times> string) option" where
  "quoted_text q [] = None"
| "quoted_text q [c] = (if c = q then Some ([], []) else None)"
| "quoted_text q (c # d # cs) =
     (if c = q then
        if d = q then map_option (\<lambda>(v, rest). (q # v, rest)) (quoted_text q cs)
        else Some ([], d # cs)
      else map_option (\<lambda>(v, rest). (c # v, rest)) (quoted_text q (d # cs)))"

definition StartsWithQuotedString :: "string \<Rightarrow> bool" where
  "StartsWithQuotedString sql \<longleftrightarrow> sql \<noteq> [] \<and> hd sql = apostrophe"

definition TryParseSqlStringLiteral :: "string \<Rightarrow> (string \<times> nat) option" where
  "TryParseSqlStringLiteral sql =
     (if sql = [] \<or> hd sql \<noteq> apostrophe then None
      else map_option (\<lambda>(v, rest). (v, length sql - length rest)) (quoted_text apostrophe (tl sql)))"


section \<open>Parenthesised lists\<close>

definition push_part :: "sql_host \<Rightarrow> string list \<Rightarrow> string \<Rightarrow> string list" where
  "push_part h items part = (let p = TrimCopy h part in if p \<noteq> [] then items @ [p] else items)"

text \<open>
  The scanning loop; \<open>part\<close> is the text from \<open>start\<close> to the current character.  \<open>ticks\<close> is true for
  the function of \<open>lance_index.cpp\<close>, which also skips text in backticks, and false for the one of
  \<open>lance_maintenance.cpp\<close>, which does not.  The result is the items and the text after the closing
  parenthesis.
\<close>

fun paren_scan ::
    "sql_host \<Rightarrow> bool \<Rightarrow> bool \<Rightarrow> bool \<Rightarrow> string list \<Rightarrow> string \<Rightarrow> string \<Rightarrow> (string list \<times> string) option" where
  "paren_scan h ticks in_str in_backtick items part [] = None"
| "paren_scan h ticks in_str in_backtick items part (c # cs) =
     (if in_str then
        if c = apostrophe then
          (case cs of
             d # ds \<Rightarrow>
               if d = apostrophe then paren_scan h ticks True in_backtick items (part @ [c, d]) ds
               else paren_scan h ticks False in_backtick items (part @ [c]) cs
           | [] \<Rightarrow> None)
        else paren_scan h ticks True in_backtick items (part @ [c]) cs
      else if in_backtick then
        if c = backtick then
          (case cs of
             d # ds \<Rightarrow>
               if d = backtick then paren_scan h ticks False True items (part @ [c, d]) ds
               else paren_scan h ticks False False items (part @ [c]) cs
           | [] \<Rightarrow> None)
        else paren_scan h ticks False True items (part @ [c]) cs
      else if c = apostrophe then paren_scan h ticks True False items (part @ [c]) cs
      else if ticks \<and> c = backtick then paren_scan h ticks False True items (part @ [c]) cs
      else if c = CHR '','' then paren_scan h ticks False False (push_part h items part) [] cs
      else if c = CHR '')'' then Some (push_part h items part, cs)
      else paren_scan h ticks False False items (part @ [c]) cs)"

definition TryParseParenList :: "sql_host \<Rightarrow> bool \<Rightarrow> string \<Rightarrow> (string list \<times> nat) option" where
  "TryParseParenList h ticks sql =
     (let s = TrimCopy h sql
      in if s = [] \<or> hd s \<noteq> CHR ''('' then None
         else map_option (\<lambda>(items, rest). (items, length s - length rest))
                (paren_scan h ticks False False [] [] (tl s)))"


section \<open>Numbers and JSON text\<close>

fun number_scan :: "bool \<Rightarrow> bool \<Rightarrow> string \<Rightarrow> bool" where
  "number_scan saw_digit saw_dot [] = saw_digit"
| "number_scan saw_digit saw_dot (c # cs) =
     (if is_digit c then number_scan True saw_dot cs
      else if c = CHR ''.'' \<and> \<not> saw_dot then number_scan saw_digit True cs
      else False)"

definition IsNumberLiteral :: "string \<Rightarrow> bool" where
  "IsNumberLiteral s \<longleftrightarrow>
     s \<noteq> [] \<and> number_scan False False (if hd s = CHR ''-'' \<or> hd s = CHR ''+'' then tl s else s)"

definition escape_char :: "char \<Rightarrow> string" where
  "escape_char c =
     (if c = backslash then [backslash, backslash]
      else if c = quotation then [backslash, quotation]
      else if c = CHR 0x0A then [backslash, CHR ''n'']
      else if c = CHR 0x0D then [backslash, CHR ''r'']
      else if c = CHR 0x09 then [backslash, CHR ''t'']
      else [c])"

definition EscapeJsonString :: "string \<Rightarrow> string" where
  "EscapeJsonString s = concat (map escape_char s)"

definition json_quoted :: "string \<Rightarrow> string" where
  "json_quoted s = quotation # EscapeJsonString s @ [quotation]"


section \<open>WITH clauses\<close>

text \<open>The start of every \<open>WITH\<close> reader, on a text that is not empty: the entries of the list.\<close>

definition with_entries :: "duckdb \<Rightarrow> sql_host \<Rightarrow> bool \<Rightarrow> string \<Rightarrow> string + string list" where
  "with_entries db h ticks rest =
     (let rest = (if HasKeywordPrefix (StringLower db rest) ''with'' then TrimCopy h (drop 4 rest) else rest)
      in case TryParseParenList h ticks rest of
           None \<Rightarrow> Inl ''WITH clause must be a parenthesized key=value list''
         | Some (kvs, consumed) \<Rightarrow>
             if TrimCopy h (drop consumed rest) \<noteq> [] then Inl ''unexpected trailing tokens after WITH (...)''
             else Inr kvs)"

text \<open>One entry: the trimmed texts before and after the first equality sign.\<close>

definition with_key_value :: "sql_host \<Rightarrow> string \<Rightarrow> string + string \<times> string" where
  "with_key_value h kv =
     (if CHR ''='' \<notin> set kv then Inl ''WITH (...) entries must be key=value''
      else
        let eq_pos = length (takeWhile (\<lambda>c. c \<noteq> CHR ''='') kv);
            key = TrimCopy h (take eq_pos kv);
            val = TrimCopy h (drop (eq_pos + 1) kv)
        in if key = [] then Inl ''WITH (...) entry key cannot be empty'' else Inr (key, val))"

text \<open>A literal that must be the whole of the text.\<close>

definition whole_literal :: "sql_host \<Rightarrow> string \<Rightarrow> string option" where
  "whole_literal h val =
     (case TryParseSqlStringLiteral val of
        None \<Rightarrow> None
      | Some (lit, lit_consumed) \<Rightarrow> if TrimCopy h (drop lit_consumed val) \<noteq> [] then None else Some lit)"

text \<open>The JSON text of a value.\<close>

definition with_json_value :: "duckdb \<Rightarrow> sql_host \<Rightarrow> string \<Rightarrow> string + string" where
  "with_json_value db h val =
     (if StartsWithQuotedString val then
        (case whole_literal h val of
           None \<Rightarrow> Inl ''WITH string values must be single-quoted string literals''
         | Some lit \<Rightarrow> Inr (json_quoted lit))
      else
        let v_lower = StringLower db val
        in if v_lower = ''true'' \<or> v_lower = ''false'' then Inr v_lower
           else if IsNumberLiteral val then Inr val
           else Inr (json_quoted val))"

text \<open>The text after the brace is empty exactly before the first entry, where \<open>first\<close> is true.\<close>

definition append_json :: "string \<Rightarrow> string \<Rightarrow> string \<Rightarrow> string" where
  "append_json json key text =
     json @ (if json = ''{'' then [] else '','') @ json_quoted key @ '':'' @ text"

definition finish_json :: "string \<Rightarrow> string" where
  "finish_json json = (if json @ ''}'' = ''{}'' then [] else json @ ''}'')"

definition TryBuildOptionsJsonFromWithClause :: "duckdb \<Rightarrow> sql_host \<Rightarrow> string \<Rightarrow> string + string" where
  "TryBuildOptionsJsonFromWithClause db h with_clause_sql =
     (let rest = TrimCopy h with_clause_sql
      in if rest = [] then Inr []
         else res_bind (with_entries db h False rest) (\<lambda>kvs.
           res_bind (res_foldl (\<lambda>json kv.
               res_bind (with_key_value h kv) (\<lambda>(key, val).
               res_bind (with_json_value db h val) (\<lambda>text. Inr (append_json json key text))))
             ''{'' kvs) (\<lambda>json. Inr (finish_json json))))"

end
