(* ===== verification/Resolver.thy ===== *)
theory Resolver
  imports Lance_Services Sql_Text
begin

text \<open>
  The registry of dataset resolvers (\<open>lance_resolver.cpp\<close>): a list of resolvers that turn a name into
  a dataset URI, kept in descending order of priority.  Every operation holds the registry's lock
  throughout and is one step here.  \<open>std::sort\<close> does not promise what it does with resolvers of equal
  priority: it is the argument \<open>std_sort\<close>, which takes the comparison, and of which only its contract
  is assumed.
\<close>

record LanceResolveResult =
  rr_success :: bool
  rr_dataset_uri :: string
  rr_error_message :: string

definition LanceResolveResult_Success :: "string \<Rightarrow> LanceResolveResult" where
  "LanceResolveResult_Success uri = \<lparr>rr_success = True, rr_dataset_uri = uri, rr_error_message = []\<rparr>"

definition LanceResolveResult_Failure :: "string \<Rightarrow> LanceResolveResult" where
  "LanceResolveResult_Failure e = \<lparr>rr_success = False, rr_dataset_uri = [], rr_error_message = e\<rparr>"

datatype LanceResolvePolicy = STRICT | FALLBACK_TO_PATH

text \<open>A resolver, as it answers in the connection at hand.\<close>

record resolver =
  resolver_name :: string
  resolver_priority :: int
  TryResolve :: "string \<Rightarrow> LanceResolveResult"

text \<open>What looking a name up in the catalog gives: an entry, or an exception with its text.\<close>

datatype catalog_answer = Found catalog_entry | CatalogException string | OtherException string

definition DefaultCatalogResolver_TryResolve :: "(string \<Rightarrow> catalog_answer) \<Rightarrow> string \<Rightarrow> LanceResolveResult" where
  "DefaultCatalogResolver_TryResolve get_entry input =
     (case get_entry input of
        Found (LanceTable entry) \<Rightarrow> LanceResolveResult_Success (DatasetUri entry)
      | Found OtherEntry \<Rightarrow>
          LanceResolveResult_Failure (''Table '' @ [apostrophe] @ input @ [apostrophe] @ '' exists but is not a Lance table'')
      | CatalogException e \<Rightarrow>
          LanceResolveResult_Failure (''Table '' @ [apostrophe] @ input @ [apostrophe] @ '' not found in catalog: '' @ e)
      | OtherException e \<Rightarrow>
          LanceResolveResult_Failure (''Failed to resolve table '' @ [apostrophe] @ input @ [apostrophe] @ '': '' @ e))"

definition DefaultCatalogResolver :: "(string \<Rightarrow> catalog_answer) \<Rightarrow> resolver" where
  "DefaultCatalogResolver get_entry =
     \<lparr>resolver_name = ''default_catalog'', resolver_priority = 0,
      TryResolve = DefaultCatalogResolver_TryResolve get_entry\<rparr>"

definition NewLanceDatasetResolverRegistry :: "(string \<Rightarrow> catalog_answer) \<Rightarrow> resolver list" where
  "NewLanceDatasetResolverRegistry get_entry = [DefaultCatalogResolver get_entry]"

text \<open>The loop that replaces the first resolver of the same name; \<open>None\<close> when there is none.\<close>

fun replace_existing :: "resolver \<Rightarrow> resolver list \<Rightarrow> resolver list option" where
  "replace_existing r [] = None"
| "replace_existing r (x # xs) =
     (if resolver_name x = resolver_name r then Some (r # xs)
      else map_option (Cons x) (replace_existing r xs))"

type_synonym sort_fn = "(resolver \<Rightarrow> resolver \<Rightarrow> bool) \<Rightarrow> resolver list \<Rightarrow> resolver list"

definition SortResolvers :: "sort_fn \<Rightarrow> resolver list \<Rightarrow> resolver list" where
  "SortResolvers std_sort rs = std_sort (\<lambda>a b. resolver_priority a > resolver_priority b) rs"

definition RegisterResolver :: "sort_fn \<Rightarrow> resolver option \<Rightarrow> resolver list \<Rightarrow> resolver list" where
  "RegisterResolver std_sort new_resolver rs =
     (case new_resolver of
        None \<Rightarrow> rs
      | Some r \<Rightarrow>
          (case replace_existing r rs of
             Some rs' \<Rightarrow> SortResolvers std_sort rs'
           | None \<Rightarrow> SortResolvers std_sort (rs @ [r])))"

definition UnregisterResolver :: "string \<Rightarrow> resolver list \<Rightarrow> bool \<times> resolver list" where
  "UnregisterResolver name rs =
     (let kept = filter (\<lambda>r. resolver_name r \<noteq> name) rs
      in (length kept \<noteq> length rs, kept))"

definition GetResolverNames :: "resolver list \<Rightarrow> string list" where
  "GetResolverNames rs = map resolver_name rs"

text \<open>The loop over the resolvers: the URI of the first success, or the last error text.\<close>

fun try_resolvers :: "string \<Rightarrow> resolver list \<Rightarrow> string \<Rightarrow> string + string" where
  "try_resolvers last_err [] input = Inl last_err"
| "try_resolvers last_err (r # rs) input =
     (let result = TryResolve r input
      in if rr_success result then Inr (rr_dataset_uri result)
         else try_resolvers (if rr_error_message result \<noteq> [] then rr_error_message result else last_err) rs input)"

text \<open>The input is an argument of type VARCHAR: a string or NULL.\<close>

definition Resolve ::
    "bool \<Rightarrow> duckdb \<Rightarrow> lance_ffi \<Rightarrow> client \<Rightarrow> resolver list \<Rightarrow> Value \<Rightarrow> LanceResolvePolicy \<Rightarrow> string \<Rightarrow> exn + string" where
  "Resolve vane db ffi cl rs input policy function_name =
     (case input of
        VarcharValue input_str \<Rightarrow>
          if input_str = [] then
            Inl (InvalidInputException (function_name @ '' requires a non-empty dataset path or table name''))
          else (case try_resolvers [] rs input_str of
              Inr uri \<Rightarrow> Inr uri
            | Inl last_err \<Rightarrow>
                (case policy of
                   FALLBACK_TO_PATH \<Rightarrow> Inr input_str
                 | STRICT \<Rightarrow>
                     res_bind (if vane then LanceVanePathRequiresRedaction db ffi cl input_str else Inr False) (\<lambda>private.
                     if private then
                       Inl (BinderException (function_name @
                         '': could not resolve <redacted-private-uri> to a Lance dataset''))
                     else
                       Inl (BinderException (function_name @ '': '' @
                         (if last_err = [] then
                            ''Could not resolve '' @ [apostrophe] @ input_str @ [apostrophe] @ '' to a Lance dataset''
                          else last_err))))))
      | _ \<Rightarrow> Inl (InvalidInputException (function_name @ '' requires a non-null dataset path or table name'')))"

end
