(* ===== verification/Metadata.thy ===== *)
theory Metadata
  imports Resolver
begin

text \<open>
  Metadata functions (\<open>lance_metadata.cpp\<close>): setting, removing and listing the entries of a dataset's
  configuration and metadata.  The stored entries of one dataset are a list of pairs with distinct
  keys per target; the Rust side commits each update on its own and lists them as lines of a key, a
  tab and a value (\<open>rust/ffi/schema_evolution.rs\<close>).
\<close>

section \<open>The stored entries\<close>

datatype LanceKvTarget = CONFIG | TABLE_METADATA | SCHEMA_METADATA | FIELD_METADATA string | INDICES

type_synonym kv_store = "(string \<times> string) list"

text \<open>
  \<open>commit_update\<close> is the update of the Lance library: it may fail.  Strings cross the C interface up
  to their first NUL.
\<close>

type_synonym committer = "LanceKvTarget \<Rightarrow> string \<Rightarrow> string option \<Rightarrow> kv_store \<Rightarrow> kv_store option"

definition c_str :: "string \<Rightarrow> string" where
  "c_str s = takeWhile (\<lambda>c. c \<noteq> CHR 0x00) s"

text \<open>\<open>dataset_update_config_inner\<close> and its siblings: keys and values must be UTF-8.\<close>

definition dataset_update_inner ::
    "committer \<Rightarrow> LanceKvTarget \<Rightarrow> string \<Rightarrow> string option \<Rightarrow> kv_store \<Rightarrow> kv_store option" where
  "dataset_update_inner commit_update target key val st =
     (if \<not> utf8_string key then None
      else case val of
        None \<Rightarrow> commit_update target key None st
      | Some v \<Rightarrow> if \<not> utf8_string v then None else commit_update target key (Some v) st)"

definition dataset_list_kv_inner :: "kv_store \<Rightarrow> string" where
  "dataset_list_kv_inner st = concat (map (\<lambda>(k, v). k @ [CHR 0x09] @ v @ [CHR 0x0A]) st)"

text \<open>\<open>to_c_string\<close>: a NUL becomes a backslash and a zero.\<close>

definition to_c_string :: "string \<Rightarrow> string" where
  "to_c_string s = concat (map (\<lambda>c. if c = CHR 0x00 then [CHR 0x5C, CHR ''0''] else [c]) s)"


section \<open>Updates\<close>

definition string_arg :: "Value \<Rightarrow> string option" where
  "string_arg v = (case v of VarcharValue s \<Rightarrow> Some s | _ \<Rightarrow> None)"

definition text_or_empty :: "Value \<Rightarrow> string" where
  "text_or_empty v = (case string_arg v of Some s \<Rightarrow> s | None \<Rightarrow> [])"

text \<open>\<open>v.DefaultCastAs(t).GetValue<...>()\<close>; a cast that fails throws.\<close>

definition bigint_arg :: "duckdb \<Rightarrow> Value \<Rightarrow> exn + int" where
  "bigint_arg db v =
     (case DefaultCastAs db v (SimpleType BIGINT) of Some (BigIntValue n) \<Rightarrow> Inr (sint n) | _ \<Rightarrow> Inl CastError)"

definition bool_arg :: "duckdb \<Rightarrow> Value \<Rightarrow> exn + bool" where
  "bool_arg db v =
     (case DefaultCastAs db v (SimpleType BOOLEAN) of Some (BooleanValue b) \<Rightarrow> Inr b | _ \<Rightarrow> Inl CastError)"

record LanceKvUpdateBindData =
  kv_dataset_uri :: string
  kv_target :: LanceKvTarget
  kv_key :: string
  kv_value :: "string option"
  kv_index_column :: string
  kv_index_name :: string

text \<open>
  The arguments are strings or NULL.  For column metadata the path of the column is part of the
  target; \<open>target\<close> is given with any path and completed here.
\<close>

definition LanceKvUpdateBind ::
    "(Value \<Rightarrow> exn + string) \<Rightarrow> Value list \<Rightarrow> LanceKvTarget \<Rightarrow> nat \<Rightarrow> exn + LanceKvUpdateBindData" where
  "LanceKvUpdateBind resolve_strict inputs target expected_inputs =
     (if length inputs \<noteq> expected_inputs then Inl (BinderException ''invalid argument count'')
      else res_bind (resolve_strict (inputs ! 0)) (\<lambda>uri.
        let data = (\<lambda>t k v. \<lparr>kv_dataset_uri = uri, kv_target = t, kv_key = k, kv_value = v,
                             kv_index_column = [], kv_index_name = []\<rparr>)
        in case target of
          INDICES \<Rightarrow>
            (case (string_arg (inputs ! 1), string_arg (inputs ! 2)) of
               (Some c, Some n) \<Rightarrow> Inr ((data INDICES [] None)\<lparr>kv_index_column := c, kv_index_name := n\<rparr>)
             | _ \<Rightarrow> Inl (BinderException ''index column and index name cannot be NULL''))
        | FIELD_METADATA _ \<Rightarrow>
            if length inputs < 3 then Inl (BinderException ''invalid argument count'')
            else (case string_arg (inputs ! 1) of
                Some (c # path) \<Rightarrow>
                  (case string_arg (inputs ! 2) of
                     Some (d # key) \<Rightarrow>
                       Inr (data (FIELD_METADATA (c # path)) (d # key)
                              (if length inputs = 4 then string_arg (inputs ! 3) else None))
                   | _ \<Rightarrow> Inl (BinderException ''key cannot be NULL or empty''))
              | _ \<Rightarrow> Inl (BinderException ''column name cannot be NULL or empty''))
        | _ \<Rightarrow>
            let key = (if length inputs \<ge> 2 then (case string_arg (inputs ! 1) of Some k \<Rightarrow> k | None \<Rightarrow> []) else [])
            in if key = [] then Inl (BinderException ''key cannot be empty'')
               else Inr (data target key (if length inputs = 3 then string_arg (inputs ! 2) else None))))"

fun ffi_target :: "LanceKvTarget \<Rightarrow> LanceKvTarget" where
  "ffi_target (FIELD_METADATA path) = FIELD_METADATA (c_str path)"
| "ffi_target t = t"

text \<open>
  The first call of the function: the dataset is opened by its path, updated and closed, and its
  cache entry is dropped.  A later call returns no row.  \<open>create_index\<close> is the index creation of the
  Rust library.
\<close>

definition LanceKvUpdateFunc ::
    "connection \<Rightarrow> committer \<Rightarrow> (string \<Rightarrow> string \<Rightarrow> bool) \<Rightarrow> LanceKvUpdateBindData \<Rightarrow> bool \<Rightarrow> conn_state \<times> kv_store
       \<Rightarrow> (exn + int option) \<times> bool \<times> conn_state \<times> kv_store" where
  "LanceKvUpdateFunc cn commit_update create_index d finished s =
     (case s of (ctx, st) \<Rightarrow>
       if finished then (Inr None, True, ctx, st)
       else (case LanceOpenDataset cn (kv_dataset_uri d) ctx of
           (Inl x, ctx) \<Rightarrow> (Inl x, True, ctx, st)
         | (Inr None, ctx) \<Rightarrow>
             (Inl (IOException (''Failed to open Lance dataset: '' @ kv_dataset_uri d @ error_suffix cn)), True, ctx, st)
         | (Inr (Some h), ctx) \<Rightarrow>
             (case (if kv_target d = INDICES
                    then if create_index (c_str (kv_index_column d)) (c_str (kv_index_name d)) then Some st else None
                    else dataset_update_inner commit_update (ffi_target (kv_target d)) (c_str (kv_key d))
                           (map_option c_str (kv_value d)) st) of
                None \<Rightarrow>
                  (Inl (IOException (''Failed to update Lance dataset: '' @ kv_dataset_uri d @ error_suffix cn)), True, ctx, st)
              | Some st' \<Rightarrow>
                  (case LanceInvalidateDatasetCacheForPath cn (kv_dataset_uri d) ctx of
                     Inl x \<Rightarrow> (Inl x, True, ctx, st')
                   | Inr ctx' \<Rightarrow> (Inr (Some 1), True, ctx', st')))))"


section \<open>Listing\<close>

definition ParseTsvRows :: "connection \<Rightarrow> namespace_ffi \<Rightarrow> string \<Rightarrow> string option \<Rightarrow> exn + (string \<times> string) list" where
  "ParseTsvRows cn nf what ptr =
     (case ptr of
        None \<Rightarrow> Inl (IOException (what @ error_suffix cn))
      | Some text \<Rightarrow> Inr (tsv_pairs nf text))"

definition LanceKvListBind ::
    "(Value \<Rightarrow> exn + string) \<Rightarrow> Value list \<Rightarrow> LanceKvTarget \<Rightarrow> nat \<Rightarrow> exn + string \<times> LanceKvTarget" where
  "LanceKvListBind resolve_strict inputs target expected_inputs =
     (if length inputs \<noteq> expected_inputs then Inl (BinderException ''invalid argument count'')
      else res_bind (resolve_strict (inputs ! 0)) (\<lambda>uri.
        case target of
          FIELD_METADATA _ \<Rightarrow>
            (case string_arg (inputs ! 1) of
               None \<Rightarrow> Inl (BinderException ''column name cannot be NULL'')
             | Some [] \<Rightarrow> Inl (BinderException ''column name cannot be empty'')
             | Some path \<Rightarrow> Inr (uri, FIELD_METADATA path))
        | _ \<Rightarrow> Inr (uri, target)))"

text \<open>\<open>listed\<close> says whether the Rust call returned a text; the rows are those of the entries.\<close>

definition LanceKvListInitGlobal ::
    "connection \<Rightarrow> namespace_ffi \<Rightarrow> (LanceKvTarget \<Rightarrow> string option) \<Rightarrow> string \<times> LanceKvTarget \<Rightarrow> conn_state
       \<Rightarrow> (exn + (string \<times> string) list) \<times> conn_state" where
  "LanceKvListInitGlobal cn nf listed d ctx =
     (case LanceOpenDataset cn (fst d) ctx of
        (Inl x, ctx) \<Rightarrow> (Inl x, ctx)
      | (Inr None, ctx) \<Rightarrow> (Inl (IOException (''Failed to open Lance dataset: '' @ fst d @ error_suffix cn)), ctx)
      | (Inr (Some h), ctx) \<Rightarrow>
          (ParseTsvRows cn nf ''Failed to read metadata from Lance dataset'' (listed (snd d)), ctx))"

text \<open>One call returns at most \<open>vector_size\<close> rows from the offset on, and the new offset.\<close>

definition next_rows :: "nat \<Rightarrow> 'r list \<Rightarrow> nat \<Rightarrow> 'r list \<times> nat" where
  "next_rows vector_size rows offset =
     (if offset \<ge> length rows then ([], offset)
      else let count = min (length rows - offset) vector_size
           in (take count (drop offset rows), offset + count))"

definition LanceKvListFunc :: "nat \<Rightarrow> (string \<times> string) list \<Rightarrow> nat \<Rightarrow> (string \<times> string) list \<times> nat" where
  "LanceKvListFunc vector_size rows offset = next_rows vector_size rows offset"


section \<open>Compaction and cleanup\<close>

text \<open>The file's own \<open>LanceMaintenanceBindData\<close>, with a name apart from that of \<open>lance_maintenance.cpp\<close>.\<close>

record LanceVersionsBindData =
  lv_dataset_uri :: string
  older_than_seconds :: int
  delete_unverified :: bool

text \<open>\<open>resolve\<close> is the registry with the policy that falls back to the path.\<close>

definition LanceCompactFilesBind :: "(Value \<Rightarrow> exn + string) \<Rightarrow> Value list \<Rightarrow> exn + LanceVersionsBindData" where
  "LanceCompactFilesBind resolve inputs =
     (if length inputs \<noteq> 1 then Inl (BinderException ''lance_compact_files requires 1 argument'')
      else res_bind (resolve (inputs ! 0)) (\<lambda>uri.
        Inr \<lparr>lv_dataset_uri = uri, older_than_seconds = 0, delete_unverified = False\<rparr>))"

definition LanceCleanupOldVersionsBind ::
    "duckdb \<Rightarrow> (Value \<Rightarrow> exn + string) \<Rightarrow> Value list \<Rightarrow> exn + LanceVersionsBindData" where
  "LanceCleanupOldVersionsBind db resolve inputs =
     (if length inputs \<noteq> 3 then Inl (BinderException ''lance_cleanup_old_versions requires 3 arguments'')
      else res_bind (resolve (inputs ! 0)) (\<lambda>uri.
        res_bind (if is_null (inputs ! 1) then Inr 0 else bigint_arg db (inputs ! 1)) (\<lambda>seconds.
        res_bind (if is_null (inputs ! 2) then Inr False else bool_arg db (inputs ! 2)) (\<lambda>unverified.
        Inr \<lparr>lv_dataset_uri = uri, older_than_seconds = seconds, delete_unverified = unverified\<rparr>))))"

record versions_ffi =
  lance_dataset_compact_files :: "nat \<Rightarrow> int"
  lance_dataset_cleanup_old_versions :: "nat \<Rightarrow> int \<Rightarrow> bool \<Rightarrow> int"

text \<open>
  Both functions open the dataset by its path, make one call, close it and return the row 1; neither
  drops the dataset from the cache.
\<close>

definition on_versions ::
    "connection \<Rightarrow> (nat \<Rightarrow> int) \<Rightarrow> string \<Rightarrow> LanceVersionsBindData \<Rightarrow> bool \<Rightarrow> conn_state
       \<Rightarrow> (exn + int option) \<times> bool \<times> conn_state" where
  "on_versions cn call failed d finished ctx =
     (if finished then (Inr None, True, ctx)
      else (case LanceOpenDataset cn (lv_dataset_uri d) ctx of
          (Inl x, ctx) \<Rightarrow> (Inl x, True, ctx)
        | (Inr None, ctx) \<Rightarrow>
            (Inl (IOException (''Failed to open Lance dataset: '' @ lv_dataset_uri d @ error_suffix cn)), True, ctx)
        | (Inr (Some h), ctx) \<Rightarrow>
            (if call h \<noteq> 0 then Inl (IOException (failed @ lv_dataset_uri d @ error_suffix cn)) else Inr (Some 1), True, ctx)))"

definition LanceCompactFilesFunc ::
    "connection \<Rightarrow> versions_ffi \<Rightarrow> LanceVersionsBindData \<Rightarrow> bool \<Rightarrow> conn_state \<Rightarrow> (exn + int option) \<times> bool \<times> conn_state" where
  "LanceCompactFilesFunc cn vf d =
     on_versions cn (lance_dataset_compact_files vf) ''Failed to compact Lance dataset: '' d"

definition LanceCleanupOldVersionsFunc ::
    "connection \<Rightarrow> versions_ffi \<Rightarrow> LanceVersionsBindData \<Rightarrow> bool \<Rightarrow> conn_state \<Rightarrow> (exn + int option) \<times> bool \<times> conn_state" where
  "LanceCleanupOldVersionsFunc cn vf d =
     on_versions cn (\<lambda>h. lance_dataset_cleanup_old_versions vf h (older_than_seconds d) (delete_unverified d))
       ''Failed to cleanup old versions for Lance dataset: '' d"

end
