(* ===== verification/Index_Parse.thy ===== *)
theory Index_Parse
  imports Sql_Text
begin

text \<open>
  Index statements (\<open>lance_index.cpp\<close>): field paths and their quoting, the options of
  \<open>CREATE INDEX\<close> from both parsers, the parser of \<open>CREATE INDEX\<close>, \<open>DROP INDEX\<close> and \<open>SHOW INDEXES\<close>,
  and the planning of the parsed statements.  A parser extension returns nothing (DuckDB then reports
  its own error), an error of its own, or a statement.
\<close>

section \<open>Field paths\<close>

definition LanceFieldPathSegmentNeedsQuoting :: "string \<Rightarrow> bool" where
  "LanceFieldPathSegmentNeedsQuoting segment \<longleftrightarrow>
     segment = [] \<or> list_ex (\<lambda>c. \<not> is_alnum c \<and> c \<noteq> CHR ''_'') segment"

definition format_segment :: "string \<Rightarrow> string" where
  "format_segment segment =
     (if \<not> LanceFieldPathSegmentNeedsQuoting segment then segment
      else [backtick] @ concat (map (\<lambda>c. if c = backtick then [backtick, backtick] else [c]) segment) @ [backtick])"

fun format_segments :: "string list \<Rightarrow> string" where
  "format_segments [] = []"
| "format_segments [s] = format_segment s"
| "format_segments (s # t # ss) = format_segment s @ ''.'' @ format_segments (t # ss)"

definition FormatLanceFieldPath :: "string list \<Rightarrow> exn + string" where
  "FormatLanceFieldPath segments =
     (if segments = [] then Inl (InternalException ''field path has no segments'')
      else Inr (format_segments segments))"

text \<open>The loop over prefix lengths, longest first.\<close>

fun strip_prefix :: "duckdb \<Rightarrow> string list \<Rightarrow> string list \<Rightarrow> nat \<Rightarrow> string list" where
  "strip_prefix db column_names table_qualifier 0 = column_names"
| "strip_prefix db column_names table_qualifier (Suc n) =
     (let prefix_len = Suc n;
          qualifier_offset = length table_qualifier - prefix_len
      in if list_all (\<lambda>i. CIEquals db (column_names ! i) (table_qualifier ! (qualifier_offset + i))) [0..<prefix_len]
         then drop prefix_len column_names
         else strip_prefix db column_names table_qualifier n)"

definition StripMatchingColumnQualifier :: "duckdb \<Rightarrow> string list \<Rightarrow> string list \<Rightarrow> string list" where
  "StripMatchingColumnQualifier db column_names table_qualifier =
     (if length column_names \<le> 1 \<or> table_qualifier = [] then column_names
      else strip_prefix db column_names table_qualifier
             (min (length column_names - 1) (length table_qualifier)))"

text \<open>One segment at the front of a text that is not empty, and what follows it.\<close>

definition path_segment :: "string \<Rightarrow> (string \<times> string) option" where
  "path_segment s =
     (if hd s = backtick then quoted_text backtick (tl s)
      else let segment = takeWhile (\<lambda>c. c \<noteq> CHR ''.'') s
           in if backtick \<in> set segment then None else Some (segment, drop (length segment) s))"

lemma quoted_text_shorter: "quoted_text q s = Some (v, rest) \<Longrightarrow> length rest < length s"
  by (induction q s arbitrary: v rule: quoted_text.induct) (fastforce split: if_splits)+

lemma path_segment_shorter: "path_segment (c # s) = Some (v, rest) \<Longrightarrow> length rest \<le> Suc (length s)"
  by (auto simp: path_segment_def Let_def split: if_splits dest: quoted_text_shorter)

function path_segments :: "string \<Rightarrow> string list option" where
  "path_segments [] = None"
| "path_segments (c # s) =
     (case path_segment (c # s) of
        None \<Rightarrow> None
      | Some (segment, rest) \<Rightarrow>
          if segment = [] then None
          else (case rest of
             [] \<Rightarrow> Some [segment]
           | d # rest' \<Rightarrow>
               if d \<noteq> CHR ''.'' then None
               else if rest' = [] then None
               else map_option (Cons segment) (path_segments rest')))"
  by pat_completeness auto

termination path_segments
  by (relation "measure length") (auto dest: path_segment_shorter)

definition TryParseLanceFieldPathSegments :: "sql_host \<Rightarrow> string \<Rightarrow> string list option" where
  "TryParseLanceFieldPathSegments h path =
     (let s = TrimCopy h path in if s = [] then None else path_segments s)"

definition NormalizeTableIndexColumnPath ::
    "duckdb \<Rightarrow> sql_host \<Rightarrow> string \<Rightarrow> QualifiedName \<Rightarrow> exn + string" where
  "NormalizeTableIndexColumnPath db h column table_name =
     (case TryParseLanceFieldPathSegments h column of
        None \<Rightarrow> Inr column
      | Some segments \<Rightarrow>
          let table_qualifier = [qn_catalog table_name, qn_schema table_name, qn_name table_name]
          in FormatLanceFieldPath (StripMatchingColumnQualifier db segments table_qualifier))"


section \<open>Options\<close>

definition NormalizeIndexType :: "sql_host \<Rightarrow> string \<Rightarrow> string" where
  "NormalizeIndexType h t =
     (let t = Trim h t;
          t = StringUpper h t;
          t = StringReplace h t ''-'' ''_'';
          t = StringReplace h t '' '' ''_''
      in t)"

text \<open>What the readers of options collect: three switches, the raw JSON text, the other entries.\<close>

record 'v index_options =
  opt_replace :: bool
  opt_train :: bool
  opt_retrain :: bool
  raw_params_json :: "string option"
  passthrough :: "(string \<times> 'v) list"

definition no_index_options :: "'v index_options" where
  "no_index_options = \<lparr>opt_replace = False, opt_train = True, opt_retrain = False,
     raw_params_json = None, passthrough = []\<rparr>"

definition with_option ::
    "duckdb \<Rightarrow> sql_host \<Rightarrow> string index_options \<Rightarrow> string \<Rightarrow> string + string index_options" where
  "with_option db h opts kv =
     res_bind (with_key_value h kv) (\<lambda>(key, val).
       let key_lower = StringLower db key
       in if key_lower = ''replace''
            then Inr (opts\<lparr>opt_replace := (StringLower db val = ''true'' \<or> val = ''1'')\<rparr>)
          else if key_lower = ''train''
            then Inr (opts\<lparr>opt_train := \<not> (StringLower db val = ''false'' \<or> val = ''0'')\<rparr>)
          else if key_lower = ''retrain''
            then Inr (opts\<lparr>opt_retrain := (StringLower db val = ''true'' \<or> val = ''1'')\<rparr>)
          else if key_lower = ''params'' then
            (case (if StartsWithQuotedString val then whole_literal h val else None) of
               None \<Rightarrow> Inl ''WITH params must be a single-quoted string literal''
             | Some lit \<Rightarrow> Inr (opts\<lparr>raw_params_json := Some lit\<rparr>))
          else Inr (opts\<lparr>passthrough := passthrough opts @ [(key, val)]\<rparr>))"

text \<open>The result: \<open>replace\<close>, \<open>train\<close>, \<open>retrain\<close> and the JSON text.\<close>

definition TryBuildParamsJsonFromWithClause ::
    "duckdb \<Rightarrow> sql_host \<Rightarrow> string \<Rightarrow> string + bool \<times> bool \<times> bool \<times> string" where
  "TryBuildParamsJsonFromWithClause db h with_clause_sql =
     (let rest = TrimCopy h with_clause_sql
      in if rest = [] then Inr (False, True, False, [])
         else res_bind (with_entries db h True rest) (\<lambda>kvs.
           res_bind (res_foldl (with_option db h) no_index_options kvs) (\<lambda>opts.
           let out = (\<lambda>json. (opt_replace opts, opt_train opts, opt_retrain opts, json))
           in case raw_params_json opts of
                Some raw \<Rightarrow> Inr (out raw)
              | None \<Rightarrow>
                  res_bind (res_foldl (\<lambda>json (key, val).
                      res_bind (with_json_value db h val) (\<lambda>text. Inr (append_json json key text)))
                    ''{'' (passthrough opts)) (\<lambda>json. Inr (out (finish_json json))))))"

text \<open>The options that DuckDB's own parser has read are values.\<close>

definition ValueToBoolOrThrow :: "duckdb \<Rightarrow> Value \<Rightarrow> string \<Rightarrow> exn + bool" where
  "ValueToBoolOrThrow db v key =
     (case v of
        NullValue t \<Rightarrow> Inl (BinderException (''WITH '' @ key @ '' cannot be NULL''))
      | BooleanValue b \<Rightarrow> Inr b
      | TinyIntValue n \<Rightarrow> Inr (n \<noteq> 0)
      | SmallIntValue n \<Rightarrow> Inr (n \<noteq> 0)
      | IntegerValue n \<Rightarrow> Inr (n \<noteq> 0)
      | BigIntValue n \<Rightarrow> Inr (n \<noteq> 0)
      | UTinyIntValue n \<Rightarrow> Inr (n \<noteq> 0)
      | USmallIntValue n \<Rightarrow> Inr (n \<noteq> 0)
      | UIntegerValue n \<Rightarrow> Inr (n \<noteq> 0)
      | UBigIntValue n \<Rightarrow> Inr (n \<noteq> 0)
      | VarcharValue s \<Rightarrow>
          let v = StringLower db s
          in if v = ''true'' \<or> v = ''1'' then Inr True
             else if v = ''false'' \<or> v = ''0'' then Inr False
             else Inl (BinderException (''WITH '' @ key @ '' must be a boolean''))
      | _ \<Rightarrow> Inl (BinderException (''WITH '' @ key @ '' must be a boolean'')))"

definition ValueToStringOrThrow :: "Value \<Rightarrow> string \<Rightarrow> exn + string" where
  "ValueToStringOrThrow v key =
     (case v of
        NullValue t \<Rightarrow> Inl (BinderException (''WITH '' @ key @ '' cannot be NULL''))
      | VarcharValue s \<Rightarrow> Inr s
      | _ \<Rightarrow> Inl (BinderException (''WITH '' @ key @ '' must be a string'')))"

definition AppendJsonValue :: "sql_host \<Rightarrow> Value \<Rightarrow> string" where
  "AppendJsonValue h v =
     (case v of
        NullValue t \<Rightarrow> ''null''
      | BooleanValue b \<Rightarrow> if b then ''true'' else ''false''
      | TinyIntValue n \<Rightarrow> ValueToString h v
      | SmallIntValue n \<Rightarrow> ValueToString h v
      | IntegerValue n \<Rightarrow> ValueToString h v
      | BigIntValue n \<Rightarrow> ValueToString h v
      | UTinyIntValue n \<Rightarrow> ValueToString h v
      | USmallIntValue n \<Rightarrow> ValueToString h v
      | UIntegerValue n \<Rightarrow> ValueToString h v
      | UBigIntValue n \<Rightarrow> ValueToString h v
      | FloatValue n \<Rightarrow> ValueToString h v
      | DoubleValue n \<Rightarrow> ValueToString h v
      | DecimalValue w s n \<Rightarrow> ValueToString h v
      | VarcharValue s \<Rightarrow> json_quoted s
      | _ \<Rightarrow> json_quoted (ValueToString h v))"

definition duckdb_option ::
    "duckdb \<Rightarrow> Value index_options \<Rightarrow> string \<times> Value \<Rightarrow> exn + Value index_options" where
  "duckdb_option db opts kv =
     (let key_lower = StringLower db (fst kv)
      in if key_lower = ''replace'' then
           res_bind (ValueToBoolOrThrow db (snd kv) ''replace'') (\<lambda>b. Inr (opts\<lparr>opt_replace := b\<rparr>))
         else if key_lower = ''train'' then
           res_bind (ValueToBoolOrThrow db (snd kv) ''train'') (\<lambda>b. Inr (opts\<lparr>opt_train := b\<rparr>))
         else if key_lower = ''retrain'' then Inl (BinderException ''CREATE INDEX does not accept retrain'')
         else if key_lower = ''params'' then
           res_bind (ValueToStringOrThrow (snd kv) ''params'') (\<lambda>s. Inr (opts\<lparr>raw_params_json := Some s\<rparr>))
         else Inr (opts\<lparr>passthrough := passthrough opts @ [kv]\<rparr>))"

text \<open>The options in the iteration order of the map; the result is \<open>replace\<close>, \<open>train\<close>, JSON text.\<close>

definition BuildLanceParamsJsonFromDuckdbWithOptions ::
    "duckdb \<Rightarrow> sql_host \<Rightarrow> (string \<times> Value) list \<Rightarrow> exn + bool \<times> bool \<times> string" where
  "BuildLanceParamsJsonFromDuckdbWithOptions db h options =
     res_bind (res_foldl (duckdb_option db) no_index_options options) (\<lambda>opts.
       let out = (\<lambda>json. Inr (opt_replace opts, opt_train opts, json))
       in case raw_params_json opts of
            Some raw \<Rightarrow> out raw
          | None \<Rightarrow>
              if passthrough opts = [] then out []
              else out (finish_json (foldl (\<lambda>json (key, val). append_json json key (AppendJsonValue h val))
                     ''{'' (passthrough opts))))"


section \<open>CREATE INDEX through DuckDB's parser\<close>

datatype ParsedExpression = ColumnRefExpression "string list" | OtherParsedExpression

record PhysicalLanceCreateIndex =
  ci_index_name :: string
  ci_column :: string
  ci_index_type :: string
  ci_params_json :: string
  ci_replace :: bool
  ci_train :: bool

record CreateIndexInfo =
  info_index_name :: string
  info_index_type :: string
  info_options :: "(string \<times> Value) list"
  parsed_expressions :: "ParsedExpression list"

text \<open>The table is given by the names of its catalog, its schema and its own.\<close>

definition GetSingleColumnNameOrThrow ::
    "duckdb \<Rightarrow> ParsedExpression list \<Rightarrow> QualifiedName \<Rightarrow> exn + string" where
  "GetSingleColumnNameOrThrow db exprs table =
     (case exprs of
        [ColumnRefExpression column_names] \<Rightarrow>
          if column_names = [] then Inl (InternalException ''column ref has no column names'')
          else FormatLanceFieldPath (StripMatchingColumnQualifier db column_names
                 [qn_catalog table, qn_schema table, qn_name table])
      | _ \<Rightarrow> Inl (NotImplementedException ''Lance CREATE INDEX currently supports a single column''))"

text \<open>\<open>lance_table\<close> is the table when it is one of Lance.\<close>

definition LanceBtreeCreatePlan ::
    "duckdb \<Rightarrow> sql_host \<Rightarrow> QualifiedName option \<Rightarrow> CreateIndexInfo \<Rightarrow> exn + PhysicalLanceCreateIndex" where
  "LanceBtreeCreatePlan db h lance_table info =
     (case lance_table of
        None \<Rightarrow> Inl (NotImplementedException ''BTREE index type is only supported for Lance tables'')
      | Some table \<Rightarrow>
          res_bind (GetSingleColumnNameOrThrow db (parsed_expressions info) table) (\<lambda>column.
          let index_type = NormalizeIndexType h (info_index_type info)
          in res_bind (BuildLanceParamsJsonFromDuckdbWithOptions db h (info_options info))
               (\<lambda>(rep, trn, params). Inr \<lparr>ci_index_name = info_index_name info, ci_column = column,
                  ci_index_type = index_type, ci_params_json = params, ci_replace = rep, ci_train = trn\<rparr>)))"


section \<open>The parser extension\<close>

datatype LanceIndexStmtKind = Create | Drop | Show

record LanceIndexParseData =
  ix_kind :: LanceIndexStmtKind
  ix_index_name :: string
  ix_target_sql :: string
  ix_target_is_path :: bool
  ix_dataset_uri :: string
  ix_columns :: "string list"
  ix_index_type :: string
  ix_params_json :: string
  ix_replace :: bool
  ix_train :: bool

definition NewLanceIndexParseData :: "LanceIndexStmtKind \<Rightarrow> LanceIndexParseData" where
  "NewLanceIndexParseData kind =
     \<lparr>ix_kind = kind, ix_index_name = [], ix_target_sql = [], ix_target_is_path = False, ix_dataset_uri = [],
      ix_columns = [], ix_index_type = [], ix_params_json = [], ix_replace = False, ix_train = True\<rparr>"

definition LanceIndexParseData_ToString :: "sql_host \<Rightarrow> LanceIndexParseData \<Rightarrow> string" where
  "LanceIndexParseData_ToString h d =
     (case ix_kind d of
        Create \<Rightarrow> ''CREATE INDEX '' @ ix_index_name d @ '' ON '' @ ix_target_sql d @ '' ('' @
          StringJoin h (ix_columns d) '', '' @ '') USING '' @ ix_index_type d
      | Drop \<Rightarrow> ''DROP INDEX '' @ ix_index_name d @ '' ON '' @ ix_target_sql d
      | Show \<Rightarrow> ''SHOW INDEXES ON '' @ ix_target_sql d)"

datatype 'd parse_result = NotHandled | ParseError string | Parsed 'd

text \<open>
  The target of a statement: \<open>target_is_path\<close>, \<open>dataset_uri\<close>, \<open>target_sql\<close> and the trimmed rest.
  The three copies of this block differ in what they return when there is no identifier.
\<close>

definition index_target ::
    "sql_host \<Rightarrow> string option \<Rightarrow> string \<Rightarrow> string option + bool \<times> string \<times> string \<times> string" where
  "index_target h missing rest =
     (if StartsWithQuotedString rest then
        (case TryParseSqlStringLiteral rest of
           None \<Rightarrow> Inl (Some ''invalid dataset path string literal'')
         | Some (lit, lit_consumed) \<Rightarrow>
             Inr (True, lit, take lit_consumed rest, TrimCopy h (drop lit_consumed rest)))
      else
        (case TryParseIdentifier rest of
           None \<Rightarrow> Inl missing
         | Some (ident, consumed) \<Rightarrow> Inr (False, [], ident, TrimCopy h (drop consumed rest))))"

text \<open>An early return: nothing, or an error text.\<close>

fun returned :: "string option + 'd \<Rightarrow> 'd parse_result" where
  "returned (Inl None) = NotHandled"
| "returned (Inl (Some e)) = ParseError e"
| "returned (Inr d) = Parsed d"

fun or_return :: "'a option \<Rightarrow> string option \<Rightarrow> string option + 'a" where
  "or_return None r = Inl r"
| "or_return (Some x) r = Inr x"

definition parse_create ::
    "duckdb \<Rightarrow> sql_host \<Rightarrow> string \<Rightarrow> string option + LanceIndexParseData" where
  "parse_create db h rest =
     (if \<not> HasKeywordPrefix (StringLower db rest) ''index'' then Inl None
      else
        let rest = TrimCopy h (drop 5 rest)
        in res_bind (or_return (TryParseIdentifier rest) (Some ''CREATE INDEX requires an index name''))
             (\<lambda>(index_name, consumed).
           res_bind (or_return (ConsumeKeyword db h (TrimCopy h (drop consumed rest)) ''on'')
                       (Some ''CREATE INDEX requires ON <dataset>'')) (\<lambda>rest.
           res_bind (index_target h (Some ''CREATE INDEX requires ON <dataset>'') rest)
             (\<lambda>(is_path, uri, target, rest).
           res_bind (or_return (case TryParseParenList h True rest of
                         Some (columns, paren_consumed) \<Rightarrow>
                           if columns = [] then None else Some (columns, paren_consumed)
                       | None \<Rightarrow> None)
                       (Some ''CREATE INDEX requires a non-empty column list''))
             (\<lambda>(columns, paren_consumed).
           res_bind (or_return (ConsumeKeyword db h (TrimCopy h (drop paren_consumed rest)) ''using'') None)
             (\<lambda>rest.
           res_bind (or_return (TryParseIdentifier rest) (Some ''CREATE INDEX requires USING <type>''))
             (\<lambda>(index_type, consumed).
           let rest = TrimCopy h (drop consumed rest);
               index_type = NormalizeIndexType h index_type
           in res_bind (if rest = [] then Inr (False, True, [])
                        else (case TryBuildParamsJsonFromWithClause db h rest of
                            Inl err \<Rightarrow> Inl (Some err)
                          | Inr (replace, train, retrain, params) \<Rightarrow>
                              if retrain then Inl (Some ''CREATE INDEX does not accept retrain'')
                              else Inr (replace, train, params)))
                (\<lambda>(replace, train, params).
                   Inr ((NewLanceIndexParseData Create)
                     \<lparr>ix_index_name := index_name, ix_target_sql := target, ix_target_is_path := is_path,
                      ix_dataset_uri := uri, ix_columns := columns, ix_index_type := index_type,
                      ix_params_json := params, ix_replace := replace, ix_train := train\<rparr>)))))))))"

definition parse_drop ::
    "duckdb \<Rightarrow> sql_host \<Rightarrow> string \<Rightarrow> string option + LanceIndexParseData" where
  "parse_drop db h rest =
     (if \<not> HasKeywordPrefix (StringLower db rest) ''index'' then Inl None
      else
        let rest = TrimCopy h (drop 5 rest)
        in res_bind (or_return (TryParseIdentifier rest) (Some ''DROP INDEX requires an index name''))
             (\<lambda>(index_name, consumed).
           res_bind (or_return (ConsumeKeyword db h (TrimCopy h (drop consumed rest)) ''on'') None) (\<lambda>rest.
           res_bind (index_target h None rest) (\<lambda>(is_path, uri, target, rest).
           if rest \<noteq> [] then Inl None
           else Inr ((NewLanceIndexParseData Drop)
             \<lparr>ix_index_name := index_name, ix_target_sql := target, ix_target_is_path := is_path,
              ix_dataset_uri := uri\<rparr>)))))"

definition parse_show ::
    "duckdb \<Rightarrow> sql_host \<Rightarrow> string \<Rightarrow> string option + LanceIndexParseData" where
  "parse_show db h rest =
     (if \<not> HasKeywordPrefix (StringLower db rest) ''indexes'' then Inl None
      else
        let rest = TrimCopy h (drop 7 rest);
            rest_lower2 = StringLower db rest
        in res_bind (if HasKeywordPrefix rest_lower2 ''on'' then Inr (TrimCopy h (drop 2 rest))
                     else if HasKeywordPrefix rest_lower2 ''from'' then Inr (TrimCopy h (drop 4 rest))
                     else Inl None) (\<lambda>rest.
           res_bind (index_target h None rest) (\<lambda>(is_path, uri, target, rest).
           if rest \<noteq> [] then Inl None
           else Inr ((NewLanceIndexParseData Show)
             \<lparr>ix_target_sql := target, ix_target_is_path := is_path, ix_dataset_uri := uri\<rparr>))))"

definition LanceIndexParse :: "duckdb \<Rightarrow> sql_host \<Rightarrow> string \<Rightarrow> LanceIndexParseData parse_result" where
  "LanceIndexParse db h query =
     (let trimmed = TrimTrailingSemicolons h query;
          lower = StringLower db trimmed
      in if trimmed = [] then NotHandled
         else if HasKeywordPrefix lower ''create'' then returned (parse_create db h (TrimCopy h (drop 6 trimmed)))
         else if HasKeywordPrefix lower ''drop'' then returned (parse_drop db h (TrimCopy h (drop 4 trimmed)))
         else if HasKeywordPrefix lower ''show'' then returned (parse_show db h (TrimCopy h (drop 4 trimmed)))
         else NotHandled)"


section \<open>Planning\<close>

datatype StatementReturnType = NOTHING | QUERY_RESULT

datatype index_function =
    LanceCreateIndexTableFunction | LanceCreateIndexTableTableFunction
  | LanceDropIndexTableFunction | LanceDropIndexTableTableFunction
  | LanceInternalIndexesTableFunction | LanceInternalIndexesTableTableFunction

text \<open>The table a statement names, completed with the default catalog and schema.\<close>

definition qualified_target :: "sql_host \<Rightarrow> string \<Rightarrow> exn + QualifiedName" where
  "qualified_target h target_sql =
     res_bind (ParseQualifiedName h target_sql) (\<lambda>parsed.
       let parsed = (if qn_catalog parsed = [] then parsed\<lparr>qn_catalog := GetDefaultDatabase h\<rparr> else parsed);
           parsed = (if qn_schema parsed = [] then parsed\<lparr>qn_schema := DEFAULT_SCHEMA h\<rparr> else parsed)
       in Inr parsed)"

text \<open>The function to call, its parameters and the kind of result.\<close>

definition LanceIndexPlan ::
    "duckdb \<Rightarrow> sql_host \<Rightarrow> LanceIndexParseData \<Rightarrow> exn + index_function \<times> Value list \<times> StatementReturnType" where
  "LanceIndexPlan db h d =
     res_bind (if ix_target_is_path d then Inr None
               else res_bind (qualified_target h (ix_target_sql d)) (\<lambda>q. Inr (Some q))) (\<lambda>qname.
       let on_path = (\<lambda>f params ret.
             if ix_dataset_uri d = [] then Inl (BinderException ''dataset uri cannot be empty'')
             else Inr (f, VarcharValue (ix_dataset_uri d) # params, ret));
           on_table = (\<lambda>q f params ret.
             Inr (f, [VarcharValue (qn_catalog q), VarcharValue (qn_schema q), VarcharValue (qn_name q)] @ params, ret));
           tail = [VarcharValue (ix_index_type d), VarcharValue (ix_params_json d),
             BooleanValue (ix_replace d), BooleanValue (ix_train d)]
       in case ix_kind d of
            Create \<Rightarrow>
              if length (ix_columns d) \<noteq> 1
              then Inl (NotImplementedException ''Lance CREATE INDEX currently supports a single column'')
              else (case qname of
                  None \<Rightarrow> on_path LanceCreateIndexTableFunction
                    ([VarcharValue (ix_index_name d), VarcharValue (ix_columns d ! 0)] @ tail) NOTHING
                | Some q \<Rightarrow> res_bind (NormalizeTableIndexColumnPath db h (ix_columns d ! 0) q) (\<lambda>column.
                    on_table q LanceCreateIndexTableTableFunction
                      ([VarcharValue (ix_index_name d), VarcharValue column] @ tail) NOTHING))
          | Drop \<Rightarrow>
              (case qname of
                 None \<Rightarrow> on_path LanceDropIndexTableFunction [VarcharValue (ix_index_name d)] NOTHING
               | Some q \<Rightarrow> on_table q LanceDropIndexTableTableFunction [VarcharValue (ix_index_name d)] NOTHING)
          | Show \<Rightarrow>
              (case qname of
                 None \<Rightarrow> on_path LanceInternalIndexesTableFunction [] QUERY_RESULT
               | Some q \<Rightarrow> on_table q LanceInternalIndexesTableTableFunction [] QUERY_RESULT))"

end
