(* ===== verification/Truncate.thy ===== *)
theory Truncate
  imports Resolver Index_Parse
begin

text \<open>
  \<open>TRUNCATE TABLE\<close> (\<open>lance_truncate.cpp\<close>): the parser extension, the planning of the statement, and
  the table function that overwrites the dataset and drops it from the cache.
\<close>

definition LanceTruncateParse :: "duckdb \<Rightarrow> sql_host \<Rightarrow> string \<Rightarrow> string parse_result" where
  "LanceTruncateParse db h query =
     (let trimmed = TrimTrailingSemicolons h query
      in if trimmed = [] then NotHandled
         else if \<not> HasKeywordPrefix (StringLower db trimmed) ''truncate'' then NotHandled
         else
           let rest = TrimCopy h (drop 8 trimmed)
           in if rest = [] then ParseError ''TRUNCATE TABLE requires a table name''
              else
                let rest = (if HasKeywordPrefix (StringLower db rest) ''table'' then TrimCopy h (drop 5 rest) else rest)
                in if rest = [] then ParseError ''TRUNCATE TABLE requires a table name'' else Parsed rest)"

definition LanceTruncateParseData_ToString :: "string \<Rightarrow> string" where
  "LanceTruncateParseData_ToString table_name_sql = ''TRUNCATE TABLE '' @ table_name_sql"

record LanceTruncateBindData =
  tr_catalog :: string
  tr_schema :: string
  tr_table :: string

definition LanceTruncateBind :: "Value list \<Rightarrow> exn + LanceTruncateBindData" where
  "LanceTruncateBind inputs =
     (case inputs of
        [c, s, t] \<Rightarrow>
          (case (c, s, t) of
             (VarcharValue catalog, VarcharValue schema, VarcharValue table) \<Rightarrow>
               if catalog = [] \<or> schema = [] \<or> table = []
               then Inl (BinderException ''__lance_truncate_table catalog/schema/table cannot be empty'')
               else Inr \<lparr>tr_catalog = catalog, tr_schema = schema, tr_table = table\<rparr>
           | _ \<Rightarrow> Inl (BinderException ''__lance_truncate_table catalog/schema/table cannot be NULL''))
      | _ \<Rightarrow> Inl (BinderException ''__lance_truncate_table requires (catalog, schema, table)''))"

text \<open>The catalog lookup throws when there is no such table.\<close>

type_synonym catalog_lookup = "string \<Rightarrow> string \<Rightarrow> string \<Rightarrow> exn + catalog_entry"

definition lance_entry_or_throw :: "catalog_entry \<Rightarrow> exn + LanceTableEntry" where
  "lance_entry_or_throw e =
     (case e of
        LanceTable entry \<Rightarrow> Inr entry
      | OtherEntry \<Rightarrow>
          Inl (NotImplementedException ''TRUNCATE TABLE is only supported for tables backed by Lance''))"

text \<open>The parameters of the table function; the statement returns the number of changed rows.\<close>

definition LanceTruncatePlan :: "sql_host \<Rightarrow> catalog_lookup \<Rightarrow> string \<Rightarrow> exn + Value list" where
  "LanceTruncatePlan h get_entry table_name_sql =
     res_bind (ParseQualifiedName h table_name_sql) (\<lambda>qname.
     res_bind (get_entry (qn_catalog qname) (qn_schema qname) (qn_name qname)) (\<lambda>entry.
     res_bind (lance_entry_or_throw entry) (\<lambda>_.
     Inr [VarcharValue (qn_catalog qname), VarcharValue (qn_schema qname), VarcharValue (qn_name qname)])))"

text \<open>The first call: the number of rows, the handles used, and the connection afterwards.\<close>

definition LanceTruncateFunc ::
    "connection \<Rightarrow> namespace_ffi \<Rightarrow> last_error \<Rightarrow> truncate_ffi \<Rightarrow> catalog_lookup \<Rightarrow> LanceTruncateBindData \<Rightarrow> bool
       \<Rightarrow> conn_state \<Rightarrow> (exn + int option) \<times> resource_event list \<times> conn_state" where
  "LanceTruncateFunc cn nf err tf get_entry d finished ctx =
     (if finished then (Inr None, [], ctx)
      else (case res_bind (get_entry (tr_catalog d) (tr_schema d) (tr_table d)) (\<lambda>e.
               res_bind (lance_entry_or_throw e) (\<lambda>table.
               res_bind (ResolveLanceStorageOptionsForTable cn nf err table) (\<lambda>r. Inr (table, r)))) of
          Inl x \<Rightarrow> (Inl x, [], ctx)
        | Inr (table, open_path, os, display) \<Rightarrow>
            (case LanceTruncateDatasetWithStorageOptions cn tf open_path os display ctx of
               (Inl x, es, ctx) \<Rightarrow> (Inl x, es, ctx)
             | (Inr row_count, es, ctx) \<Rightarrow>
                 (case LanceInvalidateDatasetCacheForTable cn table ctx of
                    Inl x \<Rightarrow> (Inl x, es, ctx)
                  | Inr ctx \<Rightarrow> (Inr (Some row_count), es, ctx)))))"

end
