(* ===== verification/Index_Exec.thy ===== *)
theory Index_Exec
  imports Metadata Truncate
begin

text \<open>
  Execution of the index statements (\<open>lance_index.cpp\<close>): binding and running the internal table
  functions that create, drop and list indexes, and the operator of DuckDB's own \<open>CREATE INDEX\<close>.
  Handles of the Rust library are traced as in truncation.  The rows of a listing are read from an
  Arrow stream and are not modelled; the listing is followed up to the schema of the stream.
\<close>

record index_ffi =
  lance_dataset_create_index ::
    "nat \<Rightarrow> string option \<Rightarrow> string list \<Rightarrow> string \<Rightarrow> string option \<Rightarrow> bool \<Rightarrow> bool \<Rightarrow> int"
  lance_dataset_drop_index :: "nat \<Rightarrow> string \<Rightarrow> int"
  lance_get_index_list_schema :: "nat \<Rightarrow> nat option"
  lance_index_schema_to_arrow :: "nat \<Rightarrow> int"


section \<open>Binding\<close>

record LanceIndexDdlBindData =
  target_is_table :: bool
  dl_dataset_uri :: string
  dl_catalog :: string
  dl_schema :: string
  dl_table :: string
  dl_index_name :: string
  dl_columns :: "string list"
  dl_index_type :: string
  dl_params_json :: string
  dl_replace :: bool
  dl_train :: bool

text \<open>The two constructors.\<close>

definition ddl_on_path ::
    "string \<Rightarrow> string \<Rightarrow> string list \<Rightarrow> string \<Rightarrow> string \<Rightarrow> bool \<Rightarrow> bool \<Rightarrow> LanceIndexDdlBindData" where
  "ddl_on_path uri index_name columns index_type params rep trn =
     \<lparr>target_is_table = False, dl_dataset_uri = uri, dl_catalog = [], dl_schema = [], dl_table = [],
      dl_index_name = index_name, dl_columns = columns, dl_index_type = index_type, dl_params_json = params,
      dl_replace = rep, dl_train = trn\<rparr>"

definition ddl_on_table ::
    "string \<Rightarrow> string \<Rightarrow> string \<Rightarrow> string \<Rightarrow> string list \<Rightarrow> string \<Rightarrow> string \<Rightarrow> bool \<Rightarrow> bool \<Rightarrow> LanceIndexDdlBindData" where
  "ddl_on_table catalog schema table index_name columns index_type params rep trn =
     \<lparr>target_is_table = True, dl_dataset_uri = [], dl_catalog = catalog, dl_schema = schema, dl_table = table,
      dl_index_name = index_name, dl_columns = columns, dl_index_type = index_type, dl_params_json = params,
      dl_replace = rep, dl_train = trn\<rparr>"

text \<open>The number of inputs, and that none is NULL.\<close>

definition check_inputs :: "string \<Rightarrow> nat \<Rightarrow> string \<Rightarrow> Value list \<Rightarrow> exn + unit" where
  "check_inputs fn n needed inputs =
     (if length inputs \<noteq> n then Inl (BinderException (fn @ '' requires '' @ needed @ '' inputs''))
      else if \<not> list_all (\<lambda>v. \<not> is_null v) inputs then Inl (BinderException (fn @ '' inputs cannot be NULL''))
      else Inr ())"

definition check_nonempty :: "string \<Rightarrow> string \<Rightarrow> string \<Rightarrow> exn + unit" where
  "check_nonempty fn what s = (if s = [] then Inl (BinderException (fn @ '' '' @ what @ '' cannot be empty'')) else Inr ())"

definition lance_table_only :: "string \<Rightarrow> catalog_entry \<Rightarrow> exn + LanceTableEntry" where
  "lance_table_only fn e =
     (case e of
        LanceTable entry \<Rightarrow> Inr entry
      | OtherEntry \<Rightarrow> Inl (NotImplementedException (fn @ '' only supports tables backed by Lance'')))"

definition LanceCreateIndexBind :: "duckdb \<Rightarrow> sql_host \<Rightarrow> Value list \<Rightarrow> exn + LanceIndexDdlBindData" where
  "LanceCreateIndexBind db h inputs =
     (let fn = ''__lance_create_index''; arg = (\<lambda>i. text_or_empty (inputs ! i))
      in res_bind (check_inputs fn 7 ''7'' inputs) (\<lambda>_.
         res_bind (bool_arg db (inputs ! 5)) (\<lambda>rep.
         res_bind (bool_arg db (inputs ! 6)) (\<lambda>trn.
         res_bind (check_nonempty fn ''dataset uri'' (arg 0)) (\<lambda>_.
         res_bind (check_nonempty fn ''column'' (arg 2)) (\<lambda>_.
         res_bind (check_nonempty fn ''index type'' (arg 3)) (\<lambda>_.
         Inr (ddl_on_path (arg 0) (arg 1) [arg 2] (NormalizeIndexType h (arg 3)) (arg 4) rep trn))))))))"

definition LanceCreateIndexTableBind ::
    "duckdb \<Rightarrow> sql_host \<Rightarrow> catalog_lookup \<Rightarrow> Value list \<Rightarrow> exn + LanceIndexDdlBindData" where
  "LanceCreateIndexTableBind db h get_entry inputs =
     (let fn = ''__lance_create_index_table''; arg = (\<lambda>i. text_or_empty (inputs ! i))
      in res_bind (check_inputs fn 9 ''9'' inputs) (\<lambda>_.
         res_bind (bool_arg db (inputs ! 7)) (\<lambda>rep.
         res_bind (bool_arg db (inputs ! 8)) (\<lambda>trn.
         if arg 0 = [] \<or> arg 1 = [] \<or> arg 2 = []
         then Inl (BinderException (fn @ '' catalog/schema/table cannot be empty''))
         else
         res_bind (check_nonempty fn ''column'' (arg 4)) (\<lambda>_.
         res_bind (check_nonempty fn ''index type'' (arg 5)) (\<lambda>_.
         res_bind (res_bind (get_entry (arg 0) (arg 1) (arg 2)) (lance_table_only fn)) (\<lambda>_.
         Inr (ddl_on_table (arg 0) (arg 1) (arg 2) (arg 3) [arg 4] (NormalizeIndexType h (arg 5)) (arg 6) rep trn))))))))"

definition LanceDropIndexBind :: "Value list \<Rightarrow> exn + LanceIndexDdlBindData" where
  "LanceDropIndexBind inputs =
     (let fn = ''__lance_drop_index''; arg = (\<lambda>i. text_or_empty (inputs ! i))
      in res_bind (check_inputs fn 2 ''2'' inputs) (\<lambda>_.
         res_bind (check_nonempty fn ''dataset uri'' (arg 0)) (\<lambda>_.
         res_bind (check_nonempty fn ''index name'' (arg 1)) (\<lambda>_.
         Inr (ddl_on_path (arg 0) (arg 1) [] [] ''{}'' False True)))))"

definition LanceDropIndexTableBind :: "catalog_lookup \<Rightarrow> Value list \<Rightarrow> exn + LanceIndexDdlBindData" where
  "LanceDropIndexTableBind get_entry inputs =
     (let fn = ''__lance_drop_index_table''; arg = (\<lambda>i. text_or_empty (inputs ! i))
      in res_bind (check_inputs fn 4 ''4'' inputs) (\<lambda>_.
         if arg 0 = [] \<or> arg 1 = [] \<or> arg 2 = []
         then Inl (BinderException (fn @ '' catalog/schema/table cannot be empty''))
         else
         res_bind (check_nonempty fn ''index name'' (arg 3)) (\<lambda>_.
         res_bind (res_bind (get_entry (arg 0) (arg 1) (arg 2)) (lance_table_only fn)) (\<lambda>_.
         Inr (ddl_on_table (arg 0) (arg 1) (arg 2) (arg 3) [] [] ''{}'' False True)))))"


section \<open>Running\<close>

text \<open>The table is looked up again when the function runs, and once more to drop it from the cache.\<close>

definition ddl_entry :: "string \<Rightarrow> catalog_lookup \<Rightarrow> LanceIndexDdlBindData \<Rightarrow> exn + LanceTableEntry" where
  "ddl_entry fn get_entry d =
     res_bind (get_entry (dl_catalog d) (dl_schema d) (dl_table d)) (\<lambda>e.
       case e of
         LanceTable entry \<Rightarrow> Inr entry
       | OtherEntry \<Rightarrow> Inl (InternalException (fn @ '' resolved non-Lance table entry'')))"

text \<open>An opened handle, or the exception for a null one.\<close>

definition opened_or_throw :: "connection \<Rightarrow> (exn + nat option \<times> string) \<times> conn_state \<Rightarrow> (exn + nat) \<times> conn_state" where
  "opened_or_throw cn r =
     (case r of
        (Inl x, ctx) \<Rightarrow> (Inl x, ctx)
      | (Inr (None, display), ctx) \<Rightarrow> (Inl (IOException (''Failed to open Lance dataset: '' @ display @ error_suffix cn)), ctx)
      | (Inr (Some h, display), ctx) \<Rightarrow> (Inr h, ctx))"

definition open_path_displayed :: "connection \<Rightarrow> string \<Rightarrow> conn_state \<Rightarrow> (exn + nat option \<times> string) \<times> conn_state" where
  "open_path_displayed cn uri ctx =
     (case LanceOpenDataset cn uri ctx of (Inl x, ctx) \<Rightarrow> (Inl x, ctx) | (Inr h, ctx) \<Rightarrow> (Inr (h, uri), ctx))"

definition open_ddl_target ::
    "connection \<Rightarrow> string \<Rightarrow> catalog_lookup \<Rightarrow> LanceIndexDdlBindData \<Rightarrow> conn_state \<Rightarrow> (exn + nat) \<times> conn_state" where
  "open_ddl_target cn fn get_entry d ctx =
     opened_or_throw cn
       (if target_is_table d then
          (case ddl_entry fn get_entry d of Inl x \<Rightarrow> (Inl x, ctx) | Inr entry \<Rightarrow> LanceOpenDatasetForTable cn entry ctx)
        else open_path_displayed cn (dl_dataset_uri d) ctx)"

definition invalidate_ddl_target ::
    "connection \<Rightarrow> string \<Rightarrow> catalog_lookup \<Rightarrow> LanceIndexDdlBindData \<Rightarrow> conn_state \<Rightarrow> exn + conn_state" where
  "invalidate_ddl_target cn fn get_entry d ctx =
     (if target_is_table d then
        res_bind (ddl_entry fn get_entry d) (\<lambda>entry. LanceInvalidateDatasetCacheForTable cn entry ctx)
      else LanceInvalidateDatasetCacheForPath cn (dl_dataset_uri d) ctx)"

text \<open>One call on an open dataset, which is closed, and then the invalidation.\<close>

definition call_and_close ::
    "connection \<Rightarrow> (nat \<Rightarrow> int) \<Rightarrow> string \<Rightarrow> (conn_state \<Rightarrow> exn + conn_state) \<Rightarrow> (exn + nat) \<times> conn_state
       \<Rightarrow> (exn + unit) \<times> resource_event list \<times> conn_state" where
  "call_and_close cn call failed invalidate r =
     (case r of
        (Inl x, ctx) \<Rightarrow> (Inl x, [], ctx)
      | (Inr h, ctx) \<Rightarrow>
          let es = [Acquire (DatasetHandle h), Release (DatasetHandle h)]
          in if call h \<noteq> 0 then (Inl (IOException (failed @ error_suffix cn)), es, ctx)
             else (case invalidate ctx of Inl x \<Rightarrow> (Inl x, es, ctx) | Inr ctx \<Rightarrow> (Inr (), es, ctx)))"

definition LanceCreateIndexFunc ::
    "connection \<Rightarrow> index_ffi \<Rightarrow> catalog_lookup \<Rightarrow> LanceIndexDdlBindData \<Rightarrow> bool \<Rightarrow> conn_state
       \<Rightarrow> (exn + unit) \<times> resource_event list \<times> conn_state" where
  "LanceCreateIndexFunc cn xf get_entry d finished ctx =
     (let fn = ''__lance_create_index_table''
      in if finished then (Inr (), [], ctx)
         else call_and_close cn
           (\<lambda>h. lance_dataset_create_index xf h (map_option c_str (opt_cstr (dl_index_name d))) (map c_str (dl_columns d))
                  (c_str (dl_index_type d)) (map_option c_str (opt_cstr (dl_params_json d))) (dl_replace d) (dl_train d))
           ''Failed to create Lance index'' (invalidate_ddl_target cn fn get_entry d)
           (open_ddl_target cn fn get_entry d ctx))"

definition LanceDropIndexFunc ::
    "connection \<Rightarrow> index_ffi \<Rightarrow> catalog_lookup \<Rightarrow> LanceIndexDdlBindData \<Rightarrow> bool \<Rightarrow> conn_state
       \<Rightarrow> (exn + unit) \<times> resource_event list \<times> conn_state" where
  "LanceDropIndexFunc cn xf get_entry d finished ctx =
     (let fn = ''__lance_drop_index_table''
      in if finished then (Inr (), [], ctx)
         else call_and_close cn (\<lambda>h. lance_dataset_drop_index xf h (c_str (dl_index_name d)))
           ''Failed to drop Lance index'' (invalidate_ddl_target cn fn get_entry d)
           (open_ddl_target cn fn get_entry d ctx))"

text \<open>The operator of a \<open>CREATE INDEX\<close> that DuckDB has parsed and planned.\<close>

definition PhysicalLanceCreateIndex_GetDataInternal ::
    "connection \<Rightarrow> index_ffi \<Rightarrow> LanceTableEntry \<Rightarrow> PhysicalLanceCreateIndex \<Rightarrow> conn_state
       \<Rightarrow> (exn + unit) \<times> resource_event list \<times> conn_state" where
  "PhysicalLanceCreateIndex_GetDataInternal cn xf table op ctx =
     call_and_close cn
       (\<lambda>h. lance_dataset_create_index xf h (map_option c_str (opt_cstr (ci_index_name op))) [c_str (ci_column op)]
              (c_str (ci_index_type op)) (map_option c_str (opt_cstr (ci_params_json op))) (ci_replace op) (ci_train op))
       ''Failed to create Lance index'' (LanceInvalidateDatasetCacheForTable cn table)
       (opened_or_throw cn (LanceOpenDatasetForTable cn table ctx))"


section \<open>Listing\<close>

text \<open>
  The bind data owns the open dataset; when binding fails later, its destructor closes the dataset.
  The result is the name to display and the handle, and the handles taken and given back.
\<close>

definition index_list_schema ::
    "connection \<Rightarrow> index_ffi \<Rightarrow> string \<Rightarrow> nat \<Rightarrow> (exn + string \<times> nat) \<times> resource_event list" where
  "index_list_schema cn xf file_path h =
     (case lance_get_index_list_schema xf h of
        None \<Rightarrow>
          (Inl (IOException (''Failed to get Lance index list schema: '' @ file_path @ error_suffix cn)),
           [Acquire (DatasetHandle h), Release (DatasetHandle h)])
      | Some s \<Rightarrow>
          if lance_index_schema_to_arrow xf s \<noteq> 0 then
            (Inl (IOException (''Failed to export Lance index list schema to Arrow C Data Interface'' @ error_suffix cn)),
             [Acquire (DatasetHandle h), Acquire (SchemaHandle s), Release (SchemaHandle s), Release (DatasetHandle h)])
          else
            (Inr (file_path, h), [Acquire (DatasetHandle h), Acquire (SchemaHandle s), Release (SchemaHandle s)]))"

definition LanceIndexListBind ::
    "connection \<Rightarrow> index_ffi \<Rightarrow> Value list \<Rightarrow> conn_state \<Rightarrow> (exn + string \<times> nat) \<times> resource_event list \<times> conn_state" where
  "LanceIndexListBind cn xf inputs ctx =
     (if length inputs \<noteq> 1 then (Inl (BinderException ''__lance_indexes requires exactly one input''), [], ctx)
      else if is_null (inputs ! 0) then (Inl (BinderException ''__lance_indexes dataset uri cannot be NULL''), [], ctx)
      else let file_path = text_or_empty (inputs ! 0)
           in if file_path = [] then (Inl (BinderException ''__lance_indexes dataset uri cannot be empty''), [], ctx)
              else (case opened_or_throw cn (open_path_displayed cn file_path ctx) of
                  (Inl x, ctx) \<Rightarrow> (Inl x, [], ctx)
                | (Inr h, ctx) \<Rightarrow> (case index_list_schema cn xf file_path h of (r, es) \<Rightarrow> (r, es, ctx))))"

definition LanceIndexListTableBind ::
    "connection \<Rightarrow> index_ffi \<Rightarrow> catalog_lookup \<Rightarrow> Value list \<Rightarrow> conn_state
       \<Rightarrow> (exn + string \<times> nat) \<times> resource_event list \<times> conn_state" where
  "LanceIndexListTableBind cn xf get_entry inputs ctx =
     (let fn = ''__lance_indexes_table''; arg = (\<lambda>i. text_or_empty (inputs ! i))
      in if length inputs \<noteq> 3 then (Inl (BinderException (fn @ '' requires (catalog, schema, table)'')), [], ctx)
         else if \<not> list_all (\<lambda>v. \<not> is_null v) inputs then (Inl (BinderException (fn @ '' inputs cannot be NULL'')), [], ctx)
         else if arg 0 = [] \<or> arg 1 = [] \<or> arg 2 = []
         then (Inl (BinderException (fn @ '' catalog/schema/table cannot be empty'')), [], ctx)
         else (case res_bind (get_entry (arg 0) (arg 1) (arg 2)) (lance_table_only fn) of
             Inl x \<Rightarrow> (Inl x, [], ctx)
           | Inr entry \<Rightarrow>
               (case LanceOpenDatasetForTable cn entry ctx of
                  (Inl x, ctx) \<Rightarrow> (Inl x, [], ctx)
                | (Inr (h, display), ctx) \<Rightarrow>
                    let file_path = (if display \<noteq> [] then display else arg 0 @ ''.'' @ arg 1 @ ''.'' @ arg 2)
                    in (case opened_or_throw cn (Inr (h, file_path), ctx) of
                          (Inl x, ctx) \<Rightarrow> (Inl x, [], ctx)
                        | (Inr h, ctx) \<Rightarrow> (case index_list_schema cn xf file_path h of (r, es) \<Rightarrow> (r, es, ctx))))))"

end
