(* ===== verification/Sql_Text_Correct.thy ===== *)
theory Sql_Text_Correct
  imports Sql_Text
begin

text \<open>
  The laws of the text scanners: what the host's functions on text promise, and how keywords,
  identifiers, quoted text and parenthesised lists are read from a text that is put together from
  them.
\<close>

section \<open>The host's functions\<close>

text \<open>
  \<open>StringUtil::Trim\<close> removes the blanks at both ends.  Nothing is promised about bytes outside ASCII
  at the end of a text, which the host may remove as well.
\<close>

definition plain :: "char \<Rightarrow> bool" where
  "plain c \<longleftrightarrow> 0 < (of_char c :: nat) \<and> (of_char c :: nat) < 128 \<and> \<not> IsSpace c"

definition trims :: "(string \<Rightarrow> string) \<Rightarrow> bool" where
  "trims t \<longleftrightarrow>
     (\<forall>s. \<exists>p q. s = p @ t s @ q \<and> list_all IsSpace p \<and> list_all (\<lambda>c. \<not> plain c) q) \<and>
     (\<forall>s. t (t s) = t s) \<and>
     (\<forall>p s q. list_all IsSpace p \<and> list_all IsSpace q \<longrightarrow> t (p @ s @ q) = t s)"

definition ascii_upper :: "char \<Rightarrow> char" where
  "ascii_upper c =
     (if 97 \<le> (of_char c :: nat) \<and> (of_char c :: nat) \<le> 122 then char_of ((of_char c :: nat) - 32) else c)"

fun joined :: "string \<Rightarrow> string list \<Rightarrow> string" where
  "joined sep [] = []"
| "joined sep [x] = x"
| "joined sep (x # y # xs) = x @ sep @ joined sep (y # xs)"

definition text_util :: "sql_host \<Rightarrow> bool" where
  "text_util h \<longleftrightarrow>
     trims (Trim h) \<and>
     (\<forall>s. StringUpper h s = map ascii_upper s) \<and>
     (\<forall>s a b. StringReplace h s [a] [b] = map (\<lambda>c. if c = a then b else c) s) \<and>
     (\<forall>xs sep. StringJoin h xs sep = joined sep xs)"

text \<open>A cast to the type a value has already keeps it.\<close>

definition casts_keep :: "duckdb \<Rightarrow> bool" where
  "casts_keep db \<longleftrightarrow>
     (\<forall>n. DefaultCastAs db (BigIntValue n) (SimpleType BIGINT) = Some (BigIntValue n)) \<and>
     (\<forall>b. DefaultCastAs db (BooleanValue b) (SimpleType BOOLEAN) = Some (BooleanValue b))"

text \<open>Texts that trimming leaves alone: no blank in front, a plain character at the end.\<close>

definition solid :: "string \<Rightarrow> bool" where
  "solid s \<longleftrightarrow> s \<noteq> [] \<and> \<not> IsSpace (hd s) \<and> plain (last s)"

lemma solid_trim:
  assumes "trims t" and "solid s"
  shows "t s = s"
proof -
  obtain p q where s: "s = p @ t s @ q" and p: "list_all IsSpace p" and q: "list_all (\<lambda>c. \<not> plain c) q"
    using assms(1) unfolding trims_def by blast
  have "p = []"
  proof (rule ccontr)
    assume "p \<noteq> []"
    then have "hd s \<in> set p" using s by (metis hd_append hd_in_set)
    then show False using p assms(2) by (auto simp: solid_def list_all_iff)
  qed
  moreover have "q = []"
  proof (rule ccontr)
    assume "q \<noteq> []"
    then have "last s \<in> set q" using s by (metis last_append append_is_Nil_conv last_in_set)
    then show False using q assms(2) by (auto simp: solid_def list_all_iff)
  qed
  ultimately show ?thesis using s by simp
qed

lemma trim_spaces:
  "trims t \<Longrightarrow> list_all IsSpace p \<Longrightarrow> list_all IsSpace q \<Longrightarrow> t (p @ s @ q) = t s"
  unfolding trims_def by blast

lemma trim_Nil: "trims t \<Longrightarrow> t [] = []"
  by (metis append_is_Nil_conv trims_def)

lemma trim_idem: "trims t \<Longrightarrow> t (t s) = t s"
  by (simp add: trims_def)

lemma IsSpace_space [simp]: "IsSpace (CHR '' '')"
  by code_simp

lemma TrimCopy_solid: "text_util h \<Longrightarrow> solid s \<Longrightarrow> TrimCopy h s = s"
  by (simp add: TrimCopy_def text_util_def solid_trim)

lemma TrimCopy_space: "text_util h \<Longrightarrow> TrimCopy h (CHR '' '' # s) = TrimCopy h s"
  using trim_spaces [of "Trim h" "'' ''" "[]" s] by (simp add: TrimCopy_def text_util_def)

lemma TrimCopy_space_solid: "text_util h \<Longrightarrow> solid s \<Longrightarrow> TrimCopy h (CHR '' '' # s) = s"
  by (simp add: TrimCopy_space TrimCopy_solid)

lemma TrimCopy_Nil [simp]: "text_util h \<Longrightarrow> TrimCopy h [] = []"
  by (simp add: TrimCopy_def text_util_def trim_Nil)

lemma TrimCopy_idem: "text_util h \<Longrightarrow> TrimCopy h (TrimCopy h s) = TrimCopy h s"
  by (simp add: TrimCopy_def text_util_def trim_idem)

lemmas trim_simps = TrimCopy_solid TrimCopy_space_solid TrimCopy_Nil

lemma TrimTrailingSemicolons_solid:
  assumes "text_util h" and "solid s" and "last s \<noteq> CHR '';''"
  shows "TrimTrailingSemicolons h s = s"
proof -
  have "Trim h s = s" using assms(1,2) by (simp add: text_util_def solid_trim)
  then show ?thesis using assms(3) by (simp add: TrimTrailingSemicolons_def pop_semicolons.simps [of h s])
qed

lemma solid_append: "solid t \<Longrightarrow> s \<noteq> [] \<Longrightarrow> \<not> IsSpace (hd s) \<Longrightarrow> solid (s @ t)"
  by (simp add: solid_def)


section \<open>Keywords\<close>

lemma keyword_prefix:
  assumes "map ascii_lower K = k"
  shows "HasKeywordPrefix (map ascii_lower (K @ CHR '' '' # r)) k" and "HasKeywordPrefix (map ascii_lower K) k"
proof -
  have len: "length K = length k" using assms by (metis length_map)
  have "ascii_lower (CHR '' '') = CHR '' ''" by code_simp
  then show "HasKeywordPrefix (map ascii_lower (K @ CHR '' '' # r)) k"
    using assms by (simp add: HasKeywordPrefix_def len nth_append)
  show "HasKeywordPrefix (map ascii_lower K) k" using assms by (simp add: HasKeywordPrefix_def len)
qed

lemma HasKeywordPrefix_hd: "HasKeywordPrefix (c # s) (k # ks) \<Longrightarrow> c = k"
  by (simp add: HasKeywordPrefix_def)

lemma ConsumeKeyword_space:
  assumes "string_util db" and "text_util h" and "map ascii_lower K = k" and "K \<noteq> []"
    and "\<not> IsSpace (hd K)" and "solid r"
  shows "ConsumeKeyword db h (K @ CHR '' '' # r) k = Some r"
proof -
  have len: "length K = length k" using assms(3) by (metis length_map)
  have "solid (K @ CHR '' '' # r)" using assms(4-6) by (simp add: solid_def)
  then show ?thesis
    using keyword_prefix(1) [OF assms(3), of r] len
    by (simp add: ConsumeKeyword_def Let_def string_util_simps [OF assms(1)] trim_simps [OF assms(2)] assms(6))
qed

lemma ConsumeKeyword_end:
  assumes "string_util db" and "text_util h" and "map ascii_lower K = k" and "solid K"
  shows "ConsumeKeyword db h K k = Some []"
proof -
  have len: "length K = length k" using assms(3) by (metis length_map)
  then show ?thesis
    using keyword_prefix(2) [OF assms(3)]
    by (simp add: ConsumeKeyword_def Let_def string_util_simps [OF assms(1)] trim_simps [OF assms(2)] assms(4))
qed


section \<open>Identifiers\<close>

definition ident :: "string \<Rightarrow> bool" where
  "ident s \<longleftrightarrow> s \<noteq> [] \<and> list_all IsIdentChar s"

lemma IsIdentChar_plain: "IsIdentChar c \<Longrightarrow> plain c \<and> \<not> IsSpace c \<and> c \<noteq> CHR '';''"
  by (auto simp: IsIdentChar_def plain_def IsSpace_def is_alnum_def Let_def)

lemma ident_ends:
  assumes "ident s"
  shows "solid s" and "\<not> IsSpace (hd s)" and "last s \<noteq> CHR '';''"
proof -
  have "IsIdentChar (hd s)" "IsIdentChar (last s)" and "s \<noteq> []"
    using assms by (auto simp: ident_def list_all_iff)
  then show "solid s" and "\<not> IsSpace (hd s)" and "last s \<noteq> CHR '';''"
    using IsIdentChar_plain by (auto simp: solid_def)
qed

lemma not_ident_chars [simp]:
  "\<not> IsIdentChar (CHR '' '')" "\<not> IsIdentChar apostrophe" "\<not> IsIdentChar (CHR ''('')"
  by code_simp+

lemma TryParseIdentifier_ident:
  assumes "ident s" and "r = [] \<or> \<not> IsIdentChar (hd r)"
  shows "TryParseIdentifier (s @ r) = Some (s, length s)"
proof -
  have all: "\<forall>c \<in> set s. IsIdentChar c" using assms(1) by (simp add: ident_def list_all_iff)
  have "takeWhile IsIdentChar r = []" using assms(2) by (cases r) auto
  then have "takeWhile IsIdentChar (s @ r) = s" using all by (simp add: takeWhile_append2)
  then show ?thesis using assms(1) by (simp add: TryParseIdentifier_def ident_def)
qed

lemma TryParseIdentifier_SomeD:
  assumes "TryParseIdentifier sql = Some (s, n)"
  shows "ident s" and "n = length s"
proof -
  have "s = takeWhile IsIdentChar sql \<and> n = length s \<and> s \<noteq> []"
    using assms by (auto simp: TryParseIdentifier_def Let_def takeWhile_eq_take [symmetric] split: if_splits)
  then show "ident s" and "n = length s"
    by (auto simp: ident_def list_all_iff dest: set_takeWhileD)
qed


section \<open>Quoted text\<close>

lemma quoted_text_SomeD:
  assumes "quoted_text q s = Some (v, r)"
  shows "\<exists>b. s = b @ r \<and> b \<noteq> [] \<and> last b = q \<and>
    (\<forall>r'. (r' = [] \<or> hd r' \<noteq> q) \<longrightarrow> quoted_text q (b @ r') = Some (v, r'))"
  using assms
proof (induction q s arbitrary: v rule: quoted_text.induct)
  case (1 q)
  then show ?case by simp
next
  case (2 q c)
  then have "c = q" "v = []" "r = []" by (auto split: if_splits)
  moreover have "quoted_text q ([q] @ r') = Some ([], r')" if "r' = [] \<or> hd r' \<noteq> q" for r'
    using that by (cases r') auto
  ultimately show ?case by (intro exI [of _ "[q]"]) simp
next
  case (3 q c d cs)
  consider (double) "c = q" "d = q" | (close) "c = q" "d \<noteq> q" | (char) "c \<noteq> q" by blast
  then show ?case
  proof cases
    case double
    then obtain v' where v': "quoted_text q cs = Some (v', r)" "v = q # v'" using 3(3) by auto
    obtain b where b: "cs = b @ r" "b \<noteq> []" "last b = q"
        "\<forall>r'. (r' = [] \<or> hd r' \<noteq> q) \<longrightarrow> quoted_text q (b @ r') = Some (v', r')"
      using 3(1) [OF double v'(1)] by auto
    then show ?thesis using double v'(2) by (intro exI [of _ "q # q # b"]) auto
  next
    case close
    moreover have "quoted_text q ([q] @ r') = Some ([], r')" if "r' = [] \<or> hd r' \<noteq> q" for r'
      using that by (cases r') auto
    ultimately show ?thesis using 3(3) by (intro exI [of _ "[q]"]) auto
  next
    case char
    then obtain v' where v': "quoted_text q (d # cs) = Some (v', r)" "v = c # v'" using 3(3) by auto
    obtain b where b: "d # cs = b @ r" "b \<noteq> []" "last b = q"
        "\<forall>r'. (r' = [] \<or> hd r' \<noteq> q) \<longrightarrow> quoted_text q (b @ r') = Some (v', r')"
      using 3(2) [OF char v'(1)] by auto
    have "quoted_text q (c # b @ r') = Some (v, r')" if "r' = [] \<or> hd r' \<noteq> q" for r'
      using b(2,4) that char v'(2) by (cases b) auto
    then show ?thesis using b by (intro exI [of _ "c # b"]) auto
  qed
qed

text \<open>Quoting: the delimiters around the text, those inside doubled.\<close>

definition quote_with :: "char \<Rightarrow> string \<Rightarrow> string" where
  "quote_with q s = concat (map (\<lambda>c. if c = q then [q, q] else [c]) s) @ [q]"

lemma quote_with_simps [simp]:
  "quote_with q [] = [q]"
  "quote_with q (c # s) = (if c = q then q # q # quote_with q s else c # quote_with q s)"
  by (simp_all add: quote_with_def)

lemma quote_with_nonempty [simp]: "quote_with q s \<noteq> []"
  by (simp add: quote_with_def)

lemma quoted_text_quote_with:
  "r = [] \<or> hd r \<noteq> q \<Longrightarrow> quoted_text q (quote_with q s @ r) = Some (s, r)"
proof (induction s)
  case Nil
  then show ?case by (cases r) auto
next
  case (Cons c s)
  then show ?case by (cases "quote_with q s") (auto split: if_splits)
qed

lemma TryParseSqlStringLiteral_SomeD:
  assumes "TryParseSqlStringLiteral sql = Some (lit, n)"
  shows "\<exists>b. sql = apostrophe # b @ drop n sql \<and> b \<noteq> [] \<and> last b = apostrophe \<and> n = Suc (length b) \<and>
    (\<forall>r. (r = [] \<or> hd r \<noteq> apostrophe) \<longrightarrow> TryParseSqlStringLiteral (apostrophe # b @ r) = Some (lit, n))"
proof -
  obtain s r where sql: "sql = apostrophe # s" and q: "quoted_text apostrophe s = Some (lit, r)"
    and n: "n = length sql - length r"
    using assms by (cases sql) (auto simp: TryParseSqlStringLiteral_def split: if_splits)
  obtain b where b: "s = b @ r" "b \<noteq> []" "last b = apostrophe"
      "\<forall>r'. (r' = [] \<or> hd r' \<noteq> apostrophe) \<longrightarrow> quoted_text apostrophe (b @ r') = Some (lit, r')"
    using quoted_text_SomeD [OF q] by auto
  then show ?thesis
    using sql n by (intro exI [of _ b]) (auto simp: TryParseSqlStringLiteral_def)
qed


section \<open>Parenthesised lists\<close>

text \<open>
  The scanner looks ahead for doubled delimiters.  A character-wise automaton that leaves the quoted
  state at each delimiter, and so enters it again at the second of two, reads the same lists.
\<close>

datatype mode = Normal | InStr | InTick

fun next_mode :: "bool \<Rightarrow> mode \<Rightarrow> char \<Rightarrow> mode" where
  "next_mode ticks Normal c =
     (if c = apostrophe then InStr else if ticks \<and> c = backtick then InTick else Normal)"
| "next_mode ticks InStr c = (if c = apostrophe then Normal else InStr)"
| "next_mode ticks InTick c = (if c = backtick then Normal else InTick)"

fun mode_scan :: "sql_host \<Rightarrow> bool \<Rightarrow> mode \<Rightarrow> string list \<Rightarrow> string \<Rightarrow> string \<Rightarrow> (string list \<times> string) option" where
  "mode_scan h ticks m items part [] = None"
| "mode_scan h ticks m items part (c # cs) =
     (if m = Normal \<and> c = CHR '','' then mode_scan h ticks Normal (push_part h items part) [] cs
      else if m = Normal \<and> c = CHR '')'' then Some (push_part h items part, cs)
      else mode_scan h ticks (next_mode ticks m c) items (part @ [c]) cs)"

lemmas paren_scan_modes =
  paren_scan.simps(2) [of _ _ True False, unfolded if_True if_False]
  paren_scan.simps(2) [of _ _ False True, unfolded if_True if_False]
  paren_scan.simps(2) [of _ _ False False, unfolded if_True if_False]

lemma paren_scan_mode_scan:
  "\<not> (s \<and> b) \<Longrightarrow> b \<longrightarrow> ticks \<Longrightarrow>
   paren_scan h ticks s b items part cs =
     mode_scan h ticks (if s then InStr else if b then InTick else Normal) items part cs"
proof (induction "length cs" arbitrary: cs s b items part rule: less_induct)
  case less
  show ?case
  proof (cases cs)
    case (Cons c ds)
    then have IH: "paren_scan h ticks s' b' items' part' es =
        mode_scan h ticks (if s' then InStr else if b' then InTick else Normal) items' part' es"
      if "length es < length (c # ds)" "\<not> (s' \<and> b')" "b' \<longrightarrow> ticks" for s' b' items' part' es
      using that less(1) by simp
    have IH_ticks: "paren_scan h True s' b' items' part' es =
        mode_scan h True (if s' then InStr else if b' then InTick else Normal) items' part' es"
      if "ticks" "length es < length (c # ds)" "\<not> (s' \<and> b')" for s' b' items' part' es
      using that IH by simp
    consider "s = True" "b = False" | "s = False" "b = True" ticks | "s = False" "b = False"
      using less(2,3) by blast
    then show ?thesis
    proof cases
      case 1
      show ?thesis unfolding Cons 1
        by (subst paren_scan_modes(1), cases ds) (simp_all add: IH del: paren_scan.simps)
    next
      case 2
      show ?thesis unfolding Cons 2(1,2)
        by (subst paren_scan_modes(2), cases ds) (simp_all add: IH IH_ticks 2(3) del: paren_scan.simps)
    next
      case 3
      show ?thesis unfolding Cons 3
        by (subst paren_scan_modes(3)) (simp add: IH IH_ticks del: paren_scan.simps)
    qed
  qed simp
qed

text \<open>Texts with all quotations closed and no separator outside them.\<close>

fun closed :: "bool \<Rightarrow> mode \<Rightarrow> string \<Rightarrow> bool" where
  "closed ticks m [] \<longleftrightarrow> m = Normal"
| "closed ticks m (c # cs) \<longleftrightarrow>
     \<not> (m = Normal \<and> (c = CHR '','' \<or> c = CHR '')'')) \<and> closed ticks (next_mode ticks m c) cs"

lemma mode_scan_closed:
  "closed ticks m s \<Longrightarrow> mode_scan h ticks m items part (s @ r) = mode_scan h ticks Normal items (part @ s) r"
  by (induction s arbitrary: m part) auto

lemma closed_append: "closed ticks m s \<Longrightarrow> closed ticks m (s @ t) = closed ticks Normal t"
  by (induction s arbitrary: m) auto

lemma next_mode_plain: "\<not> plain c \<Longrightarrow> next_mode ticks m c = m \<and> c \<noteq> CHR '','' \<and> c \<noteq> CHR '')''"
proof -
  assume c: "\<not> plain c"
  have "plain apostrophe" "plain backtick" "plain (CHR '','')" "plain (CHR '')'')" by code_simp+
  then have "c \<noteq> apostrophe" "c \<noteq> backtick" "c \<noteq> CHR '',''" "c \<noteq> CHR '')''" using c by blast+
  then show ?thesis by (cases m) auto
qed

lemma closed_not_plain:
  "list_all (\<lambda>c. \<not> plain c) s \<Longrightarrow> closed ticks m (s @ t) = closed ticks m t"
  by (induction s) (auto simp: next_mode_plain)

lemma closed_drop_end:
  "list_all (\<lambda>c. \<not> plain c) q \<Longrightarrow> closed ticks m (s @ q) \<Longrightarrow> closed ticks m s"
proof (induction s arbitrary: m)
  case Nil
  then show ?case using closed_not_plain [of q ticks m "[]"] by simp
qed auto

lemma closed_trim:
  assumes "trims t" and "closed ticks Normal s"
  shows "closed ticks Normal (t s)"
proof -
  obtain p q where s: "s = p @ t s @ q" and p: "list_all IsSpace p" and q: "list_all (\<lambda>c. \<not> plain c) q"
    using assms(1) unfolding trims_def by blast
  have "list_all (\<lambda>c. \<not> plain c) p" using p by (auto simp: list_all_iff plain_def)
  then have "closed ticks Normal (t s @ q)" using assms(2) s closed_not_plain by metis
  then show ?thesis by (rule closed_drop_end [OF q])
qed

text \<open>What a list scanner returns: trimmed texts with all quotations closed.\<close>

definition list_item :: "sql_host \<Rightarrow> bool \<Rightarrow> string \<Rightarrow> bool" where
  "list_item h ticks x \<longleftrightarrow> x \<noteq> [] \<and> TrimCopy h x = x \<and> closed ticks Normal x"

lemma push_part_items:
  assumes "text_util h" and "closed ticks Normal part" and "list_all (list_item h ticks) items"
  shows "list_all (list_item h ticks) (push_part h items part)"
proof -
  have "closed ticks Normal (TrimCopy h part)"
    using closed_trim [of "Trim h"] assms(1,2) by (simp add: TrimCopy_def text_util_def)
  then show ?thesis
    using assms(1,3) by (auto simp: push_part_def Let_def list_item_def TrimCopy_idem)
qed

lemma mode_scan_items:
  assumes "text_util h" and "mode_scan h ticks m items part cs = Some (items', r)"
    and "\<And>t. closed ticks m t \<Longrightarrow> closed ticks Normal (part @ t)" and "list_all (list_item h ticks) items"
  shows "list_all (list_item h ticks) items'"
  using assms(2-4)
proof (induction cs arbitrary: m items part)
  case (Cons c cs)
  note push = push_part_items [OF assms(1) _ Cons(4), of part]
  show ?case
  proof (cases "m = Normal \<and> (c = CHR '','' \<or> c = CHR '')'')")
    case True
    then have "closed ticks Normal part" using Cons(3) [of "[]"] by simp
    then show ?thesis using True Cons(1) [of Normal "push_part h items part" "[]"] Cons(2) push
      by (auto split: if_splits)
  next
    case False
    then have scan: "mode_scan h ticks (next_mode ticks m c) items (part @ [c]) cs = Some (items', r)"
      using Cons(2) by (auto split: if_splits)
    have "closed ticks Normal ((part @ [c]) @ t)" if "closed ticks (next_mode ticks m c) t" for t
      using Cons(3) [of "c # t"] that False by auto
    then show ?thesis by (rule Cons(1) [OF scan _ Cons(4)])
  qed
qed simp

lemma TryParseParenList_items:
  assumes "text_util h" and "TryParseParenList h ticks sql = Some (items, n)"
  shows "list_all (list_item h ticks) items"
proof -
  obtain r where "mode_scan h ticks Normal [] [] (tl (TrimCopy h sql)) = Some (items, r)"
    using assms(2) paren_scan_mode_scan [of False False ticks h]
    by (auto simp: TryParseParenList_def Let_def split: if_splits)
  then show ?thesis by (rule mode_scan_items [OF assms(1)]) auto
qed

text \<open>A printed list is read back.\<close>

lemma push_part_item:
  assumes "text_util h" and "list_item h ticks x" and "list_all IsSpace p"
  shows "push_part h items (p @ x) = items @ [x]"
proof -
  have "Trim h (p @ x) = Trim h x"
    using trim_spaces [of "Trim h" p "[]" x] assms(1,3) by (simp add: text_util_def)
  then show ?thesis using assms(2) by (simp add: push_part_def list_item_def TrimCopy_def Let_def)
qed

lemma mode_scan_joined:
  assumes "text_util h" and "list_all (list_item h ticks) xs" and "xs \<noteq> []"
    and "list_all IsSpace p"
  shows "mode_scan h ticks Normal items p (joined '', '' xs @ CHR '')'' # r) = Some (items @ xs, r)"
  using assms(2-4)
proof (induction xs arbitrary: items p rule: induct_list012)
  case 1
  then show ?case by simp
next
  case (2 x)
  then have "closed ticks Normal x" by (simp add: list_item_def)
  then show ?case using 2 push_part_item [OF assms(1), of ticks x p items]
    by (simp add: mode_scan_closed)
next
  case (3 x y xs)
  then have "closed ticks Normal x" by (simp add: list_item_def)
  then show ?case using 3 push_part_item [OF assms(1), of ticks x p items]
    by (simp add: mode_scan_closed)
qed

lemma TryParseParenList_joined:
  assumes "text_util h" and "list_all (list_item h ticks) xs" and "xs \<noteq> []" and "solid (CHR '')'' # r)"
  shows "TryParseParenList h ticks (CHR ''('' # joined '', '' xs @ CHR '')'' # r) =
    Some (xs, Suc (Suc (length (joined '', '' xs))))"
proof -
  have "solid (CHR ''('' # joined '', '' xs @ CHR '')'' # r)"
    using assms(4) by (auto simp: solid_def IsSpace_def)
  then show ?thesis
    using mode_scan_joined [OF assms(1-3), of "[]" "[]" r] paren_scan_mode_scan [of False False ticks h]
    by (simp add: TryParseParenList_def TrimCopy_solid [OF assms(1)])
qed

end
