(* ===== verification/Index_Correct.thy ===== *)
theory Index_Correct
  imports Index_Parse Sql_Text_Correct
begin

text \<open>
  Correctness of the index statements: field paths are read back from their quoted form, the two ways
  to name the column of an index agree, and a parsed statement is read back from its printed form.
\<close>

section \<open>Field paths\<close>

definition path_char :: "char \<Rightarrow> bool" where
  "path_char c \<longleftrightarrow> is_alnum c \<or> c = CHR ''_''"

lemma path_char_facts:
  assumes "path_char c"
  shows "c \<noteq> CHR ''.''" and "c \<noteq> backtick" and "plain c" and "\<not> IsSpace c"
  using assms by (auto simp: path_char_def is_alnum_def plain_def IsSpace_def Let_def)

lemma plain_backtick [simp]: "plain backtick" "\<not> IsSpace backtick"
  by code_simp+

lemma format_segment_cases:
  obtains "format_segment s = s" and "s \<noteq> []" and "list_all path_char s"
  | "format_segment s = backtick # quote_with backtick s"
proof (cases "LanceFieldPathSegmentNeedsQuoting s")
  case True
  then show ?thesis using that(2) by (simp add: format_segment_def quote_with_def)
next
  case False
  then have "s \<noteq> []" "list_all path_char s"
    by (auto simp: LanceFieldPathSegmentNeedsQuoting_def list_ex_iff list_all_iff path_char_def)
  with False show ?thesis using that(1) by (simp add: format_segment_def)
qed

lemma format_segment_ends:
  "format_segment s \<noteq> []" "\<not> IsSpace (hd (format_segment s))" "plain (last (format_segment s))"
proof -
  have "format_segment s \<noteq> [] \<and> \<not> IsSpace (hd (format_segment s)) \<and> plain (last (format_segment s))"
  proof (cases s rule: format_segment_cases)
    case 1
    then have "path_char (hd s)" "path_char (last s)" by (auto simp: list_all_iff)
    then show ?thesis using 1 by (simp add: path_char_facts)
  next
    case 2
    then show ?thesis by (simp add: quote_with_def)
  qed
  then show "format_segment s \<noteq> []" "\<not> IsSpace (hd (format_segment s))" "plain (last (format_segment s))"
    by auto
qed

lemma format_segments_solid: "ss \<noteq> [] \<Longrightarrow> solid (format_segments ss)"
proof (induction ss rule: induct_list012)
  case (3 s t ss)
  then show ?case using format_segment_ends [of s] by (simp add: solid_def)
qed (auto simp: solid_def format_segment_ends)

lemma path_segment_format:
  assumes "r = [] \<or> hd r = CHR ''.''"
  shows "path_segment (format_segment s @ r) = Some (s, r)"
proof (cases s rule: format_segment_cases)
  case 1
  then have chars: "\<forall>c \<in> set s. c \<noteq> CHR ''.'' \<and> c \<noteq> backtick"
    by (auto simp: list_all_iff path_char_facts)
  have "takeWhile (\<lambda>c. c \<noteq> CHR ''.'') r = []" using assms by (cases r) auto
  then have "takeWhile (\<lambda>c. c \<noteq> CHR ''.'') (s @ r) = s" using chars by (simp add: takeWhile_append2)
  moreover have "hd (s @ r) \<noteq> backtick" using chars 1(2) by (simp add: hd_append2)
  moreover have "backtick \<notin> set s" using chars by blast
  ultimately show ?thesis by (simp add: path_segment_def 1(1))
next
  case 2
  have "r = [] \<or> hd r \<noteq> backtick" using assms by auto
  then show ?thesis by (simp add: 2 path_segment_def quoted_text_quote_with)
qed

lemma path_segments_step:
  assumes "path_segment s = Some (x, CHR ''.'' # r)" and "s \<noteq> []" and "x \<noteq> []" and "r \<noteq> []"
  shows "path_segments s = map_option (Cons x) (path_segments r)"
  using assms by (cases s) simp_all

lemma path_segments_end:
  assumes "path_segment s = Some (x, [])" and "s \<noteq> []" and "x \<noteq> []"
  shows "path_segments s = Some [x]"
  using assms by (cases s) simp_all

lemma path_segments_format:
  assumes "ss \<noteq> []" and "[] \<notin> set ss"
  shows "path_segments (format_segments ss) = Some ss"
  using assms
proof (induction ss rule: induct_list012)
  case (2 s)
  then show ?case
    using path_segments_end [of "format_segment s" s] path_segment_format [of "[]" s] format_segment_ends(1) by simp
next
  case (3 s t ss)
  have "format_segments (t # ss) \<noteq> []" using format_segments_solid [of "t # ss"] by (simp add: solid_def)
  then show ?case
    using 3 format_segment_ends(1) [of s]
      path_segments_step [OF path_segment_format [of "CHR ''.'' # format_segments (t # ss)" s]] by auto
qed simp

lemma TryParseLanceFieldPathSegments_format:
  assumes "text_util h" and "ss \<noteq> []" and "[] \<notin> set ss"
  shows "TryParseLanceFieldPathSegments h (format_segments ss) = Some ss"
proof -
  have "solid (format_segments ss)" using assms(2) by (rule format_segments_solid)
  then show ?thesis
    using assms path_segments_format by (simp add: TryParseLanceFieldPathSegments_def TrimCopy_solid solid_def)
qed

lemma path_segments_nonempty:
  "path_segments s = Some ss \<Longrightarrow> ss \<noteq> [] \<and> [] \<notin> set ss"
proof (induction s arbitrary: ss rule: path_segments.induct)
  case (2 c s)
  obtain x r where seg: "path_segment (c # s) = Some (x, r)" and x: "x \<noteq> []"
    using 2(2) by (auto split: option.splits if_splits)
  show ?case
  proof (cases r)
    case Nil
    then show ?thesis using 2(2) seg x by auto
  next
    case (Cons d r')
    then obtain ss' where "path_segments r' = Some ss'" "ss = x # ss'" "d = CHR ''.''" "r' \<noteq> []"
      using 2(2) seg x by (auto split: if_splits)
    then show ?thesis using 2(1) [OF seg refl x Cons, of ss'] x by auto
  qed
qed simp

lemma TryParseLanceFieldPathSegments_nonempty:
  "TryParseLanceFieldPathSegments h path = Some ss \<Longrightarrow> ss \<noteq> [] \<and> [] \<notin> set ss"
  using path_segments_nonempty by (auto simp: TryParseLanceFieldPathSegments_def Let_def split: if_splits)


section \<open>Qualifiers\<close>

text \<open>The first \<open>k\<close> names are, up to case, the last \<open>k\<close> of the qualifier.\<close>

definition qualifies :: "string list \<Rightarrow> string list \<Rightarrow> nat \<Rightarrow> bool" where
  "qualifies column_names qualifier k \<longleftrightarrow>
     k < length column_names \<and> k \<le> length qualifier \<and>
     map (map ascii_lower) (take k column_names) =
     map (map ascii_lower) (drop (length qualifier - k) qualifier)"

lemma qualifies_nth:
  assumes "string_util db" and "k < length cs" and "k \<le> length q"
  shows "list_all (\<lambda>i. CIEquals db (cs ! i) (q ! (length q - k + i))) [0..<k] \<longleftrightarrow> qualifies cs q k"
  using assms(2,3) by (auto simp: qualifies_def string_util_simps [OF assms(1)] list_all_iff list_eq_iff_nth_eq)

lemma strip_prefix_spec:
  assumes "string_util db" and "n < length cs" and "n \<le> length q"
  shows "\<exists>k \<le> n. strip_prefix db cs q n = drop k cs \<and> qualifies cs q k \<and>
    (\<forall>k'. k < k' \<and> k' \<le> n \<longrightarrow> \<not> qualifies cs q k')"
  using assms(2,3)
proof (induction n)
  case 0
  then show ?case by (auto simp: qualifies_def)
next
  case (Suc n)
  note match = qualifies_nth [OF assms(1) Suc(2,3)]
  show ?case
  proof (cases "qualifies cs q (Suc n)")
    case True
    then show ?thesis using match by (intro exI [of _ "Suc n"]) (auto simp: Let_def simp del: upt_Suc)
  next
    case False
    then obtain k where k: "k \<le> n" "strip_prefix db cs q n = drop k cs" "qualifies cs q k"
        "\<forall>k'. k < k' \<and> k' \<le> n \<longrightarrow> \<not> qualifies cs q k'"
      using Suc by (meson Suc_leD Suc_lessD)
    have "strip_prefix db cs q (Suc n) = drop k cs"
      using False match k(2) by (simp add: Let_def del: upt_Suc)
    moreover have "\<not> qualifies cs q k'" if "k < k'" "k' \<le> Suc n" for k'
      using that False k(4) by (cases "k' = Suc n") auto
    ultimately show ?thesis using k(1,3) by (intro exI [of _ k]) auto
  qed
qed

lemma StripMatchingColumnQualifier_spec:
  assumes "string_util db" and "cs \<noteq> []"
  shows "\<exists>k. StripMatchingColumnQualifier db cs q = drop k cs \<and> qualifies cs q k \<and>
    (\<forall>k' > k. \<not> qualifies cs q k')"
proof (cases "length cs \<le> 1 \<or> q = []")
  case True
  have none: "\<not> qualifies cs q k'" if "0 < k'" for k'
    using True that by (auto simp: qualifies_def)
  have "qualifies cs q 0" using assms(2) by (simp add: qualifies_def)
  with none True show ?thesis by (intro exI [of _ 0]) (auto simp: StripMatchingColumnQualifier_def)
next
  case False
  let ?n = "min (length cs - 1) (length q)"
  have bounds: "?n < length cs" "?n \<le> length q" using assms(2) by (cases cs, auto)
  obtain k where k: "strip_prefix db cs q ?n = drop k cs" "qualifies cs q k"
      "\<forall>k'. k < k' \<and> k' \<le> ?n \<longrightarrow> \<not> qualifies cs q k'"
    using strip_prefix_spec [OF assms(1) bounds] by auto
  have "\<not> qualifies cs q k'" if "k < k'" for k'
    using that k(3) by (cases "k' \<le> ?n") (auto simp: qualifies_def)
  then show ?thesis using False k by (intro exI [of _ k]) (auto simp: StripMatchingColumnQualifier_def)
qed


section \<open>Targets\<close>

text \<open>What the target of a parsed statement looks like: a whole string literal, or an identifier.\<close>

definition target_ok :: "bool \<Rightarrow> string \<Rightarrow> string \<Rightarrow> bool" where
  "target_ok is_path uri target \<longleftrightarrow>
     (if is_path then TryParseSqlStringLiteral target = Some (uri, length target) else ident target \<and> uri = [])"

lemma literal_target:
  assumes "TryParseSqlStringLiteral rest = Some (lit, n)"
  shows "target_ok True lit (take n rest)"
proof -
  obtain b where b: "rest = apostrophe # b @ drop n rest" "n = Suc (length b)"
      "\<forall>r. (r = [] \<or> hd r \<noteq> apostrophe) \<longrightarrow> TryParseSqlStringLiteral (apostrophe # b @ r) = Some (lit, n)"
    using TryParseSqlStringLiteral_SomeD [OF assms] by blast
  have "take n rest = apostrophe # b" using b(1,2) by (metis append_Cons append_eq_conv_conj length_Cons)
  then show ?thesis using b(2) spec [OF b(3), of "[]"] by (simp add: target_ok_def)
qed

lemma literal_target_append:
  assumes "target_ok True uri t"
  shows "r = [] \<or> hd r \<noteq> apostrophe \<Longrightarrow> TryParseSqlStringLiteral (t @ r) = Some (uri, length t)"
    and "hd t = apostrophe" and "last t = apostrophe" and "t \<noteq> []"
proof -
  have t: "TryParseSqlStringLiteral t = Some (uri, length t)" using assms by (simp add: target_ok_def)
  obtain b where b: "t = apostrophe # b" "b \<noteq> []" "last b = apostrophe"
      "\<forall>r. (r = [] \<or> hd r \<noteq> apostrophe) \<longrightarrow> TryParseSqlStringLiteral (apostrophe # b @ r) = Some (uri, length t)"
    using TryParseSqlStringLiteral_SomeD [OF t] by auto
  then show "r = [] \<or> hd r \<noteq> apostrophe \<Longrightarrow> TryParseSqlStringLiteral (t @ r) = Some (uri, length t)"
    and "hd t = apostrophe" and "last t = apostrophe" and "t \<noteq> []"
    by auto
qed

lemma apostrophe_facts: "plain apostrophe" "\<not> IsSpace apostrophe"
  by code_simp+

lemma target_ok_ends:
  assumes "target_ok p u t"
  shows "solid t" and "\<not> IsSpace (hd t)" and "last t \<noteq> CHR '';''" and "t \<noteq> []"
proof -
  have "solid t \<and> \<not> IsSpace (hd t) \<and> last t \<noteq> CHR '';'' \<and> t \<noteq> []"
  proof (cases p)
    case True
    then have "target_ok True u t" using assms by simp
    then show ?thesis using literal_target_append(2-4) apostrophe_facts by (simp add: solid_def)
  next
    case False
    then have "ident t" using assms by (simp add: target_ok_def)
    then show ?thesis using ident_ends by (simp add: ident_def)
  qed
  then show "solid t" and "\<not> IsSpace (hd t)" and "last t \<noteq> CHR '';''" and "t \<noteq> []" by auto
qed

lemma index_target_ok: "index_target h m rest = Inr (p, u, t, r) \<Longrightarrow> target_ok p u t"
  by (auto simp: index_target_def literal_target target_ok_def [of False] TryParseIdentifier_SomeD
      split: if_splits option.splits)

lemma target_back:
  assumes "target_ok p u t" and "r = [] \<or> hd r = CHR '' ''"
  shows "StartsWithQuotedString (t @ r) \<longleftrightarrow> p"
    and "p \<Longrightarrow> TryParseSqlStringLiteral (t @ r) = Some (u, length t)"
    and "\<not> p \<Longrightarrow> TryParseIdentifier (t @ r) = Some (t, length t) \<and> u = []"
proof -
  have id: "ident t" if "\<not> p" using that assms(1) by (simp add: target_ok_def)
  have "hd t \<noteq> apostrophe" if "\<not> p"
    using id [OF that] not_ident_chars(2) by (cases t) (auto simp: ident_def)
  moreover have "hd t = apostrophe" if p using that assms(1) literal_target_append(2) by simp
  ultimately show "StartsWithQuotedString (t @ r) \<longleftrightarrow> p"
    using target_ok_ends(4) [OF assms(1)] by (auto simp: StartsWithQuotedString_def hd_append2)
  show "p \<Longrightarrow> TryParseSqlStringLiteral (t @ r) = Some (u, length t)"
    using assms literal_target_append(1) by auto
  show "\<not> p \<Longrightarrow> TryParseIdentifier (t @ r) = Some (t, length t) \<and> u = []"
    using id TryParseIdentifier_ident [of t r] assms by (auto simp: target_ok_def)
qed

lemma index_target_back:
  assumes "target_ok p u t" and "r = [] \<or> hd r = CHR '' ''"
  shows "index_target h m (t @ r) = Inr (p, u, t, TrimCopy h r)"
  using target_back [OF assms] by (cases p) (auto simp: index_target_def)


section \<open>Statements\<close>

lemma or_return_Inr_iff [simp]: "or_return m r = Inr x \<longleftrightarrow> m = Some x"
  by (cases m) auto

lemma returned_Parsed_iff [simp]: "returned r = Parsed d \<longleftrightarrow> r = Inr d"
  by (cases r rule: returned.cases) auto

lemma IsIdentChar_upper:
  assumes "IsIdentChar c"
  shows "IsIdentChar (ascii_upper c)" and "ascii_upper c \<noteq> CHR ''-''" and "ascii_upper c \<noteq> CHR '' ''"
    and "ascii_upper (ascii_upper c) = ascii_upper c"
proof -
  have n: "(of_char (ascii_upper c) :: nat) =
      (if 97 \<le> (of_char c :: nat) \<and> (of_char c :: nat) \<le> 122 then of_char c - 32 else of_char c)"
    by (auto simp: ascii_upper_def)
  have up: "IsIdentChar (ascii_upper c)"
  proof (cases "97 \<le> (of_char c :: nat) \<and> (of_char c :: nat) \<le> 122")
    case True
    then have "is_alnum (ascii_upper c)" using n by (auto simp: is_alnum_def Let_def)
    then show ?thesis by (simp add: IsIdentChar_def)
  next
    case False
    then have "ascii_upper c = c" by (auto simp: ascii_upper_def)
    then show ?thesis using assms by simp
  qed
  then show "IsIdentChar (ascii_upper c)" .
  have "\<not> IsIdentChar (CHR ''-'')" "\<not> IsIdentChar (CHR '' '')" by code_simp+
  then show "ascii_upper c \<noteq> CHR ''-''" and "ascii_upper c \<noteq> CHR '' ''" using up by auto
  show "ascii_upper (ascii_upper c) = ascii_upper c"
    using n by (auto simp: ascii_upper_def [of "ascii_upper c"])
qed

lemma NormalizeIndexType_ident:
  assumes "text_util h" and "ident t"
  shows "NormalizeIndexType h t = map ascii_upper t" and "ident (map ascii_upper t)"
    and "NormalizeIndexType h (map ascii_upper t) = map ascii_upper t"
proof -
  note up = IsIdentChar_upper
  have norm: "NormalizeIndexType h s = map ascii_upper s" if "ident s" for s
  proof -
    have "Trim h s = s" using assms(1) ident_ends(1) [OF that] by (simp add: text_util_def solid_trim)
    moreover have "\<forall>c \<in> set s. IsIdentChar c" using that by (simp add: ident_def list_all_iff)
    ultimately show ?thesis
      using assms(1) up(2,3) by (simp add: NormalizeIndexType_def text_util_def)
  qed
  show id: "ident (map ascii_upper t)" using assms(2) up(1) by (auto simp: ident_def list_all_iff)
  show "NormalizeIndexType h t = map ascii_upper t" by (rule norm [OF assms(2)])
  have "\<forall>c \<in> set t. IsIdentChar c" using assms(2) by (simp add: ident_def list_all_iff)
  then show "NormalizeIndexType h (map ascii_upper t) = map ascii_upper t"
    using norm [OF id] up(4) by simp
qed

text \<open>What a parsed statement looks like.\<close>

definition stmt_ok :: "sql_host \<Rightarrow> LanceIndexParseData \<Rightarrow> bool" where
  "stmt_ok h d \<longleftrightarrow>
     target_ok (ix_target_is_path d) (ix_dataset_uri d) (ix_target_sql d) \<and>
     (case ix_kind d of
        Create \<Rightarrow> ident (ix_index_name d) \<and> ix_columns d \<noteq> [] \<and> list_all (list_item h True) (ix_columns d) \<and>
          ident (ix_index_type d) \<and> NormalizeIndexType h (ix_index_type d) = ix_index_type d
      | Drop \<Rightarrow> ident (ix_index_name d) \<and> ix_columns d = [] \<and> ix_index_type d = []
      | Show \<Rightarrow> ix_index_name d = [] \<and> ix_columns d = [] \<and> ix_index_type d = [])"

lemma parse_create_ok:
  assumes "text_util h" and "parse_create db h rest = Inr d"
  shows "stmt_ok h d"
proof -
  obtain name target p u cols ty params repl trn n r m r' k r'' where
    "ident name" and "index_target h m r = Inr (p, u, target, r')"
    and cols: "TryParseParenList h True r' = Some (cols, k)" "cols \<noteq> []" and ty: "TryParseIdentifier r'' = Some (ty, n)"
    and d: "d = (NewLanceIndexParseData Create)\<lparr>ix_index_name := name, ix_target_sql := target,
      ix_target_is_path := p, ix_dataset_uri := u, ix_columns := cols,
      ix_index_type := NormalizeIndexType h ty, ix_params_json := params, ix_replace := repl, ix_train := trn\<rparr>"
    using assms(2)
    by (auto simp: parse_create_def Let_def res_bind_Inr_iff dest: TryParseIdentifier_SomeD(1)
        split: if_splits option.splits sum.splits)
  moreover have "list_all (list_item h True) cols" by (rule TryParseParenList_items [OF assms(1) cols(1)])
  moreover have "ident ty" using ty by (rule TryParseIdentifier_SomeD)
  ultimately show ?thesis
    using index_target_ok NormalizeIndexType_ident [OF assms(1), of ty]
    by (simp add: stmt_ok_def NewLanceIndexParseData_def)
qed

lemma parse_drop_ok: "parse_drop db h rest = Inr d \<Longrightarrow> stmt_ok h d"
  by (auto simp: parse_drop_def Let_def res_bind_Inr_iff stmt_ok_def NewLanceIndexParseData_def
      dest: TryParseIdentifier_SomeD(1) index_target_ok split: if_splits)

lemma parse_show_ok: "parse_show db h rest = Inr d \<Longrightarrow> stmt_ok h d"
  by (auto simp: parse_show_def Let_def res_bind_Inr_iff stmt_ok_def NewLanceIndexParseData_def
      dest: index_target_ok split: if_splits)

lemma LanceIndexParse_ok:
  assumes "text_util h" and "LanceIndexParse db h query = Parsed d"
  shows "stmt_ok h d"
  using assms(2) parse_create_ok [OF assms(1)] parse_drop_ok parse_show_ok
  by (auto simp: LanceIndexParse_def Let_def split: if_splits)


section \<open>Reading back\<close>

lemma upper_keywords:
  "map ascii_lower ''CREATE'' = ''create''" "map ascii_lower ''DROP'' = ''drop''"
  "map ascii_lower ''SHOW'' = ''show''" "map ascii_lower ''INDEX'' = ''index''"
  "map ascii_lower ''INDEXES'' = ''indexes''" "map ascii_lower ''ON'' = ''on''"
  "map ascii_lower ''USING'' = ''using''"
  by code_simp+

lemma solid_keyword_space:
  assumes "solid r" and "\<not> IsSpace k"
  shows "solid (k # ks @ CHR '' '' # r)"
  using assms by (simp add: solid_def)

lemma solid_word_space: "solid r \<Longrightarrow> s \<noteq> [] \<Longrightarrow> \<not> IsSpace (hd s) \<Longrightarrow> solid (s @ CHR '' '' # r)"
  by (simp add: solid_def)

lemma letters [simp]:
  "\<not> IsSpace (CHR ''C'')" "\<not> IsSpace (CHR ''D'')" "\<not> IsSpace (CHR ''S'')" "\<not> IsSpace (CHR ''I'')"
  "\<not> IsSpace (CHR ''O'')" "\<not> IsSpace (CHR ''U'')" "\<not> IsSpace (CHR ''('')" "\<not> IsSpace (CHR '')'')"
  by code_simp+

lemma ident_space:
  assumes "text_util h" and "ident s" and "solid r"
  shows "TryParseIdentifier (s @ CHR '' '' # r) = Some (s, length s)"
    and "TrimCopy h (drop (length s) (s @ CHR '' '' # r)) = r"
  using assms TryParseIdentifier_ident [of s "CHR '' '' # r"] by (simp_all add: trim_simps)

lemma keyword_space:
  assumes "string_util db" and "text_util h" and "map ascii_lower K = k" and "solid r"
  shows "HasKeywordPrefix (StringLower db (K @ CHR '' '' # r)) k"
    and "TrimCopy h (drop (length k) (K @ CHR '' '' # r)) = r"
proof -
  have len: "length K = length k" using assms(3) by (metis length_map)
  show "HasKeywordPrefix (StringLower db (K @ CHR '' '' # r)) k"
    using keyword_prefix(1) [OF assms(3)] by (simp add: string_util_simps [OF assms(1)])
  show "TrimCopy h (drop (length k) (K @ CHR '' '' # r)) = r"
    using assms(2,4) len by (simp add: trim_simps)
qed

lemma parse_create_back:
  assumes su: "string_util db" and tu: "text_util h" and name: "ident name" and target: "target_ok p u t"
    and cols: "cols \<noteq> []" "list_all (list_item h True) cols"
    and ty: "ident ty" "NormalizeIndexType h ty = ty"
  shows "parse_create db h (''INDEX'' @ CHR '' '' # name @ CHR '' '' # ''ON'' @ CHR '' '' # t @ CHR '' '' #
      CHR ''('' # joined '', '' cols @ CHR '')'' # CHR '' '' # ''USING'' @ CHR '' '' # ty) =
    Inr ((NewLanceIndexParseData Create)\<lparr>ix_index_name := name, ix_target_sql := t, ix_target_is_path := p,
      ix_dataset_uri := u, ix_columns := cols, ix_index_type := ty\<rparr>)"
proof -
  define r5 where "r5 = ''USING'' @ CHR '' '' # ty"
  define r4 where "r4 = CHR ''('' # joined '', '' cols @ CHR '')'' # CHR '' '' # r5"
  define r3 where "r3 = t @ CHR '' '' # r4"
  define r2 where "r2 = ''ON'' @ CHR '' '' # r3"
  define r1 where "r1 = name @ CHR '' '' # r2"
  have s6: "solid ty" using ty(1) by (rule ident_ends)
  have s5: "solid r5" using s6 by (simp add: r5_def solid_def)
  have s4: "solid r4" using s5 by (simp add: r4_def solid_def)
  have s3: "solid r3" using solid_word_space [OF s4 target_ok_ends(4,2) [OF target]] by (simp add: r3_def)
  have s2: "solid r2" using s3 by (simp add: r2_def solid_def)
  have s1: "solid r1"
    using solid_word_space [OF s2, of name] ident_ends(2) [OF name] name by (simp add: r1_def ident_def)
  note kw = keyword_space [OF su tu upper_keywords(4) s1]
  note nm = ident_space [OF tu name s2, folded r1_def]
  have on: "ConsumeKeyword db h r2 ''on'' = Some r3"
    unfolding r2_def by (rule ConsumeKeyword_space [OF su tu upper_keywords(6) _ _ s3]) simp_all
  have tg: "index_target h m r3 = Inr (p, u, t, r4)" for m
    using index_target_back [OF target, of "CHR '' '' # r4"] tu s4 by (simp add: r3_def trim_simps)
  have "solid (CHR '')'' # CHR '' '' # r5)" using s5 by (simp add: solid_def)
  then have paren: "TryParseParenList h True r4 = Some (cols, Suc (Suc (length (joined '', '' cols))))"
    unfolding r4_def by (rule TryParseParenList_joined [OF tu cols(2,1)])
  have rest: "TrimCopy h (drop (Suc (Suc (length (joined '', '' cols)))) r4) = r5"
    using tu s5 by (simp add: r4_def trim_simps)
  have us: "ConsumeKeyword db h r5 ''using'' = Some ty"
    unfolding r5_def by (rule ConsumeKeyword_space [OF su tu upper_keywords(7) _ _ s6]) simp_all
  have id: "TryParseIdentifier ty = Some (ty, length ty)" using TryParseIdentifier_ident [OF ty(1), of "[]"] by simp
  have "parse_create db h (''INDEX'' @ CHR '' '' # r1) =
    Inr ((NewLanceIndexParseData Create)\<lparr>ix_index_name := name, ix_target_sql := t, ix_target_is_path := p,
      ix_dataset_uri := u, ix_columns := cols, ix_index_type := ty\<rparr>)"
    using kw(1) kw(2) nm on tg paren rest us id cols(1) ty(2) tu
    by (simp add: parse_create_def Let_def NewLanceIndexParseData_def)
  then show ?thesis by (simp add: r1_def r2_def r3_def r4_def r5_def)
qed

lemma parse_drop_back:
  assumes su: "string_util db" and tu: "text_util h" and name: "ident name" and target: "target_ok p u t"
  shows "parse_drop db h (''INDEX'' @ CHR '' '' # name @ CHR '' '' # ''ON'' @ CHR '' '' # t) =
    Inr ((NewLanceIndexParseData Drop)\<lparr>ix_index_name := name, ix_target_sql := t, ix_target_is_path := p,
      ix_dataset_uri := u\<rparr>)"
proof -
  define r2 where "r2 = ''ON'' @ CHR '' '' # t"
  define r1 where "r1 = name @ CHR '' '' # r2"
  have s3: "solid t" using target by (rule target_ok_ends)
  have s2: "solid r2" using s3 by (simp add: r2_def solid_def)
  have s1: "solid r1"
    using solid_word_space [OF s2, of name] ident_ends(2) [OF name] name by (simp add: r1_def ident_def)
  note kw = keyword_space [OF su tu upper_keywords(4) s1]
  note nm = ident_space [OF tu name s2, folded r1_def]
  have on: "ConsumeKeyword db h r2 ''on'' = Some t"
    unfolding r2_def by (rule ConsumeKeyword_space [OF su tu upper_keywords(6) _ _ s3]) simp_all
  have tg: "index_target h m t = Inr (p, u, t, [])" for m
    using index_target_back [OF target, of "[]"] tu by simp
  have "parse_drop db h (''INDEX'' @ CHR '' '' # r1) =
    Inr ((NewLanceIndexParseData Drop)\<lparr>ix_index_name := name, ix_target_sql := t, ix_target_is_path := p,
      ix_dataset_uri := u\<rparr>)"
    using kw nm on tg by (simp add: parse_drop_def Let_def)
  then show ?thesis by (simp add: r1_def r2_def)
qed

lemma parse_show_back:
  assumes su: "string_util db" and tu: "text_util h" and target: "target_ok p u t"
  shows "parse_show db h (''INDEXES'' @ CHR '' '' # ''ON'' @ CHR '' '' # t) =
    Inr ((NewLanceIndexParseData Show)\<lparr>ix_target_sql := t, ix_target_is_path := p, ix_dataset_uri := u\<rparr>)"
proof -
  define r1 where "r1 = ''ON'' @ CHR '' '' # t"
  have s2: "solid t" using target by (rule target_ok_ends)
  have s1: "solid r1" using s2 by (simp add: r1_def solid_def)
  note kw = keyword_space [OF su tu upper_keywords(5) s1]
  note on = keyword_space [OF su tu upper_keywords(6) s2, folded r1_def]
  have tg: "index_target h m t = Inr (p, u, t, [])" for m
    using index_target_back [OF target, of "[]"] tu by simp
  have "parse_show db h (''INDEXES'' @ CHR '' '' # r1) =
    Inr ((NewLanceIndexParseData Show)\<lparr>ix_target_sql := t, ix_target_is_path := p, ix_dataset_uri := u\<rparr>)"
    using kw on tg by (simp add: parse_show_def Let_def numeral_2_eq_2)
  then show ?thesis by (simp add: r1_def)
qed


lemma other_keyword: "c \<noteq> k \<Longrightarrow> \<not> HasKeywordPrefix (c # cs) (k # ks)"
  using HasKeywordPrefix_hd by blast

lemma lower_letters: "ascii_lower (CHR ''D'') = CHR ''d''" "ascii_lower (CHR ''S'') = CHR ''s''"
  by code_simp+

lemma LanceIndexParse_branch:
  assumes su: "string_util db" and tu: "text_util h" and r: "solid r" "last r \<noteq> CHR '';''"
  shows "LanceIndexParse db h (''CREATE'' @ CHR '' '' # r) = returned (parse_create db h r)"
    and "LanceIndexParse db h (''DROP'' @ CHR '' '' # r) = returned (parse_drop db h r)"
    and "LanceIndexParse db h (''SHOW'' @ CHR '' '' # r) = returned (parse_show db h r)"
proof -
  have r': "r \<noteq> []" using r(1) by (simp add: solid_def)
  have s: "TrimTrailingSemicolons h (K @ CHR '' '' # r) = K @ CHR '' '' # r" if "K \<noteq> []" "\<not> IsSpace (hd K)" for K
    using TrimTrailingSemicolons_solid [OF tu solid_word_space [OF r(1) that]] r(2) r' by simp
  note lower = string_util_simps(1) [OF su]
  note kw = keyword_space [OF su tu _ r(1)]
  have nd: "\<not> HasKeywordPrefix (map ascii_lower (''DROP'' @ x)) ''create''" for x
    by (simp add: lower_letters other_keyword)
  have ns: "\<not> HasKeywordPrefix (map ascii_lower (''SHOW'' @ x)) ''create''"
      "\<not> HasKeywordPrefix (map ascii_lower (''SHOW'' @ x)) ''drop''" for x
    by (simp_all add: lower_letters other_keyword)
  show "LanceIndexParse db h (''CREATE'' @ CHR '' '' # r) = returned (parse_create db h r)"
    using kw [OF upper_keywords(1)] s [of "''CREATE''"] by (simp add: LanceIndexParse_def Let_def)
  show "LanceIndexParse db h (''DROP'' @ CHR '' '' # r) = returned (parse_drop db h r)"
    using kw [OF upper_keywords(2)] s [of "''DROP''"] nd [of "CHR '' '' # r"]
    by (simp add: LanceIndexParse_def Let_def lower)
  show "LanceIndexParse db h (''SHOW'' @ CHR '' '' # r) = returned (parse_show db h r)"
    using kw [OF upper_keywords(3)] s [of "''SHOW''"] ns [of "CHR '' '' # r"]
    by (simp add: LanceIndexParse_def Let_def lower)
qed

lemma LanceIndexParse_back:
  assumes su: "string_util db" and tu: "text_util h" and ok: "stmt_ok h d"
  shows "LanceIndexParse db h (LanceIndexParseData_ToString h d) =
    Parsed ((NewLanceIndexParseData (ix_kind d))\<lparr>ix_index_name := ix_index_name d, ix_target_sql := ix_target_sql d,
      ix_target_is_path := ix_target_is_path d, ix_dataset_uri := ix_dataset_uri d,
      ix_columns := ix_columns d, ix_index_type := ix_index_type d\<rparr>)"
proof -
  have target: "target_ok (ix_target_is_path d) (ix_dataset_uri d) (ix_target_sql d)"
    using ok by (simp add: stmt_ok_def)
  note ends = target_ok_ends [OF target]
  show ?thesis
  proof (cases "ix_kind d")
    case Create
    then have d: "ident (ix_index_name d)" "ix_columns d \<noteq> []" "list_all (list_item h True) (ix_columns d)"
      "ident (ix_index_type d)" "NormalizeIndexType h (ix_index_type d) = ix_index_type d"
      using ok by (simp_all add: stmt_ok_def)
    let ?r = "''INDEX'' @ CHR '' '' # ix_index_name d @ CHR '' '' # ''ON'' @ CHR '' '' # ix_target_sql d @ CHR '' '' #
      CHR ''('' # joined '', '' (ix_columns d) @ CHR '')'' # CHR '' '' # ''USING'' @ CHR '' '' # ix_index_type d"
    have "solid ?r" "last ?r \<noteq> CHR '';''"
      using ident_ends [OF d(4)] d(4) by (auto simp: solid_def ident_def)
    then have "LanceIndexParse db h (''CREATE'' @ CHR '' '' # ?r) = returned (parse_create db h ?r)"
      by (rule LanceIndexParse_branch(1) [OF su tu])
    moreover have "LanceIndexParseData_ToString h d = ''CREATE'' @ CHR '' '' # ?r"
      using Create tu by (simp add: LanceIndexParseData_ToString_def text_util_def)
    ultimately show ?thesis
      using parse_create_back [OF su tu d(1) target d(2-5)] Create by (simp add: NewLanceIndexParseData_def)
  next
    case Drop
    then have d: "ident (ix_index_name d)" "ix_columns d = []" "ix_index_type d = []"
      using ok by (simp_all add: stmt_ok_def)
    let ?r = "''INDEX'' @ CHR '' '' # ix_index_name d @ CHR '' '' # ''ON'' @ CHR '' '' # ix_target_sql d"
    have "solid ?r" "last ?r \<noteq> CHR '';''" using ends by (auto simp: solid_def)
    then have "LanceIndexParse db h (''DROP'' @ CHR '' '' # ?r) = returned (parse_drop db h ?r)"
      by (rule LanceIndexParse_branch(2) [OF su tu])
    moreover have "LanceIndexParseData_ToString h d = ''DROP'' @ CHR '' '' # ?r"
      using Drop by (simp add: LanceIndexParseData_ToString_def)
    ultimately show ?thesis
      using parse_drop_back [OF su tu d(1) target] Drop d by (simp add: NewLanceIndexParseData_def)
  next
    case Show
    then have d: "ix_index_name d = []" "ix_columns d = []" "ix_index_type d = []"
      using ok by (simp_all add: stmt_ok_def)
    let ?r = "''INDEXES'' @ CHR '' '' # ''ON'' @ CHR '' '' # ix_target_sql d"
    have "solid ?r" "last ?r \<noteq> CHR '';''" using ends by (auto simp: solid_def)
    then have "LanceIndexParse db h (''SHOW'' @ CHR '' '' # ?r) = returned (parse_show db h ?r)"
      by (rule LanceIndexParse_branch(3) [OF su tu])
    moreover have "LanceIndexParseData_ToString h d = ''SHOW'' @ CHR '' '' # ?r"
      using Show by (simp add: LanceIndexParseData_ToString_def)
    ultimately show ?thesis
      using parse_show_back [OF su tu target] Show d by (simp add: NewLanceIndexParseData_def)
  qed
qed

end
