(* ===== verification/Services_Correct.thy ===== *)
theory Services_Correct
  imports Truncate "HOL-Library.Multiset"
begin

text \<open>
  What the services guarantee: the registry of resolvers stays ordered and free of duplicates, and
  asks the resolvers by priority; errors of namespace calls that a distributed build keeps private;
  truncation returns every handle it takes.
\<close>

section \<open>The registry\<close>

abbreviation by_priority :: "resolver list \<Rightarrow> bool" where
  "by_priority rs \<equiv> sorted_wrt (\<lambda>a b. resolver_priority a \<ge> resolver_priority b) rs"

text \<open>
  The contract of \<open>std::sort\<close>: given any comparison that is a strict weak order, it permutes the
  list so that no element compares less than one before it.
\<close>

definition strict_weak_order :: "('a \<Rightarrow> 'a \<Rightarrow> bool) \<Rightarrow> bool" where
  "strict_weak_order lt \<longleftrightarrow> irreflp lt \<and> transp lt \<and> transp (\<lambda>a b. \<not> lt a b \<and> \<not> lt b a)"

definition std_sorts :: "sort_fn \<Rightarrow> bool" where
  "std_sorts std_sort \<longleftrightarrow>
     (\<forall>lt rs. strict_weak_order lt \<longrightarrow>
        mset (std_sort lt rs) = mset rs \<and> sorted_wrt (\<lambda>a b. \<not> lt b a) (std_sort lt rs))"

lemma SortResolvers_sorts:
  assumes "std_sorts std_sort"
  shows "mset (SortResolvers std_sort rs) = mset rs" and "by_priority (SortResolvers std_sort rs)"
proof -
  have "strict_weak_order (\<lambda>a b :: resolver. resolver_priority a > resolver_priority b)"
    by (auto simp: strict_weak_order_def irreflp_def transp_def)
  then have "mset (SortResolvers std_sort rs) = mset rs \<and>
      sorted_wrt (\<lambda>a b. \<not> resolver_priority b > resolver_priority a) (SortResolvers std_sort rs)"
    using assms unfolding std_sorts_def SortResolvers_def by blast
  then show "mset (SortResolvers std_sort rs) = mset rs" and "by_priority (SortResolvers std_sort rs)"
    by (simp_all add: not_less)
qed

text \<open>The registries a program can have: the initial one, changed by registrations and removals.\<close>

inductive registry :: "sort_fn \<Rightarrow> (string \<Rightarrow> catalog_answer) \<Rightarrow> resolver list \<Rightarrow> bool"
  for srt get_entry where
  start: "registry srt get_entry (NewLanceDatasetResolverRegistry get_entry)"
| registered: "registry srt get_entry rs \<Longrightarrow> registry srt get_entry (RegisterResolver srt r rs)"
| unregistered: "registry srt get_entry rs \<Longrightarrow> registry srt get_entry (snd (UnregisterResolver name rs))"

lemma sorts_names:
  assumes "std_sorts srt"
  shows "distinct (GetResolverNames (SortResolvers srt rs)) \<longleftrightarrow> distinct (GetResolverNames rs)"
proof -
  have "mset (GetResolverNames (SortResolvers srt rs)) = mset (GetResolverNames rs)"
    using SortResolvers_sorts(1) [OF assms] by (simp add: GetResolverNames_def)
  then show ?thesis by (rule mset_eq_imp_distinct_iff)
qed

lemma replace_existing_names: "replace_existing r rs = Some rs' \<Longrightarrow> GetResolverNames rs' = GetResolverNames rs"
  by (induction rs arbitrary: rs') (auto simp: GetResolverNames_def split: if_splits)

lemma replace_existing_None: "replace_existing r rs = None \<Longrightarrow> resolver_name r \<notin> set (GetResolverNames rs)"
  by (induction rs) (auto simp: GetResolverNames_def split: if_splits)

lemma RegisterResolver_names:
  assumes "std_sorts srt" and "distinct (GetResolverNames rs)"
  shows "distinct (GetResolverNames (RegisterResolver srt r rs))"
proof (cases r)
  case None
  then show ?thesis using assms(2) by (simp add: RegisterResolver_def)
next
  case (Some x)
  have "distinct (GetResolverNames rs')" if "replace_existing x rs = Some rs'" for rs'
    using replace_existing_names [OF that] assms(2) by simp
  moreover have "distinct (GetResolverNames (rs @ [x]))" if "replace_existing x rs = None"
    using replace_existing_None [OF that] assms(2) by (simp add: GetResolverNames_def)
  ultimately show ?thesis
    by (auto simp: RegisterResolver_def Some sorts_names [OF assms(1)] split: option.splits)
qed

lemma RegisterResolver_sorted:
  assumes "std_sorts srt" and "by_priority rs"
  shows "by_priority (RegisterResolver srt r rs)"
  using assms(2) SortResolvers_sorts(2) [OF assms(1)] by (auto simp: RegisterResolver_def split: option.splits)

lemma registry_invariant:
  assumes "std_sorts srt" and "registry srt get_entry rs"
  shows "distinct (GetResolverNames rs) \<and> by_priority rs"
  using assms(2)
proof induction
  case start
  then show ?case by (simp add: NewLanceDatasetResolverRegistry_def GetResolverNames_def)
next
  case (registered rs r)
  then show ?case using RegisterResolver_names RegisterResolver_sorted assms(1) by blast
next
  case (unregistered rs name)
  then show ?case
    by (simp add: UnregisterResolver_def Let_def GetResolverNames_def distinct_map sorted_wrt_filter inj_on_def)
qed

text \<open>The first success decides; the resolvers before it have failed.\<close>

lemma try_resolvers_Inr:
  "try_resolvers e rs s = Inr uri \<Longrightarrow>
   \<exists>pre r post. rs = pre @ r # post \<and> rr_success (TryResolve r s) \<and> uri = rr_dataset_uri (TryResolve r s) \<and>
     (\<forall>r' \<in> set pre. \<not> rr_success (TryResolve r' s))"
proof (induction rs arbitrary: e)
  case (Cons x rs)
  show ?case
  proof (cases "rr_success (TryResolve x s)")
    case True
    then show ?thesis using Cons(2) by (intro exI [of _ "[]"]) (auto simp: Let_def)
  next
    case False
    then obtain e' where "try_resolvers e' rs s = Inr uri" using Cons(2) by (auto simp: Let_def)
    then obtain pre r post where "rs = pre @ r # post" "rr_success (TryResolve r s)"
        "uri = rr_dataset_uri (TryResolve r s)" "\<forall>r' \<in> set pre. \<not> rr_success (TryResolve r' s)"
      using Cons(1) by blast
    then show ?thesis using False by (intro exI [of _ "x # pre"]) auto
  qed
qed simp

lemma try_resolvers_Inl: "try_resolvers e rs s = Inl e' \<Longrightarrow> r \<in> set rs \<Longrightarrow> \<not> rr_success (TryResolve r s)"
  by (induction rs arbitrary: e) (auto simp: Let_def split: if_splits)

lemma try_resolvers_best:
  assumes "by_priority rs" and "try_resolvers e rs s = Inr uri"
  shows "\<exists>r \<in> set rs. rr_success (TryResolve r s) \<and> uri = rr_dataset_uri (TryResolve r s) \<and>
    (\<forall>r' \<in> set rs. rr_success (TryResolve r' s) \<longrightarrow> resolver_priority r' \<le> resolver_priority r)"
proof -
  obtain pre r post where r: "rs = pre @ r # post" "rr_success (TryResolve r s)"
      "uri = rr_dataset_uri (TryResolve r s)" "\<forall>r' \<in> set pre. \<not> rr_success (TryResolve r' s)"
    using try_resolvers_Inr [OF assms(2)] by blast
  have "resolver_priority r' \<le> resolver_priority r" if "r' \<in> set rs" "rr_success (TryResolve r' s)" for r'
    using that r(1,4) assms(1) by (auto simp: sorted_wrt_append)
  then show ?thesis using r by (intro bexI [of _ r]) auto
qed


section \<open>Handles\<close>

text \<open>The resolver that decides: a success that no other success exceeds in priority.\<close>

definition decides :: "resolver list \<Rightarrow> string \<Rightarrow> string \<Rightarrow> bool" where
  "decides rs s uri \<longleftrightarrow>
     (\<exists>r \<in> set rs. rr_success (TryResolve r s) \<and> uri = rr_dataset_uri (TryResolve r s) \<and>
        (\<forall>r' \<in> set rs. rr_success (TryResolve r' s) \<longrightarrow> resolver_priority r' \<le> resolver_priority r))"

lemma Resolve_decides:
  assumes "by_priority rs" and "s \<noteq> []"
  shows "(\<forall>uri. Resolve vane db ffi cl rs (VarcharValue s) STRICT fn = Inr uri \<longrightarrow> decides rs s uri) \<and>
    ((\<exists>uri. Resolve vane db ffi cl rs (VarcharValue s) STRICT fn = Inr uri) \<longleftrightarrow>
       \<not> list_all (\<lambda>r. \<not> rr_success (TryResolve r s)) rs) \<and>
    (\<exists>uri. Resolve vane db ffi cl rs (VarcharValue s) FALLBACK_TO_PATH fn = Inr uri \<and>
       (decides rs s uri \<or> uri = s \<and> list_all (\<lambda>r. \<not> rr_success (TryResolve r s)) rs))"
proof (cases "try_resolvers [] rs s")
  case (Inl e)
  then show ?thesis using assms(2) try_resolvers_Inl [OF Inl]
    by (auto simp: Resolve_def list_all_iff res_bind_Inr_iff split: if_splits)
next
  case (Inr uri)
  then show ?thesis using assms(2) try_resolvers_best [OF assms(1) Inr]
    by (auto simp: Resolve_def decides_def list_all_iff)
qed

text \<open>The handles in use after a trace; none when one is returned that is not in use.\<close>

fun in_use :: "resource list \<Rightarrow> resource_event list \<Rightarrow> resource list option" where
  "in_use rs [] = Some rs"
| "in_use rs (Acquire r # es) = in_use (r # rs) es"
| "in_use rs (Release r # es) = (if r \<in> set rs then in_use (remove1 r rs) es else None)"

lemma truncate_with_options_returns_handles:
  "LanceTruncateDatasetWithStorageOptions cn tf open_path os display ctx = (r, es, ctx') \<Longrightarrow> in_use [] es = Some []"
  by (auto simp: LanceTruncateDatasetWithStorageOptions_def Let_def split: sum.splits option.splits if_splits prod.splits)

lemma LanceTruncateFunc_returns_handles:
  "in_use [] (fst (snd (LanceTruncateFunc cn nf err tf get_entry d finished ctx))) = Some []"
  using truncate_with_options_returns_handles
  by (auto simp: LanceTruncateFunc_def split: sum.splits prod.splits)

end
