(* ===== verification/Index_Routes.thy ===== *)
theory Index_Routes
  imports Index_Exec Index_Correct Services_Correct
begin

text \<open>
  The two routes to an index on a table: the statement read by the parser extension, planned as a
  call of the internal table function, and DuckDB's own \<open>CREATE INDEX\<close>, planned as an operator.
\<close>

text \<open>The column: the longest qualifier of the table is dropped, the rest can be read back.\<close>

definition column_of :: "QualifiedName \<Rightarrow> string list \<Rightarrow> nat \<Rightarrow> bool" where
  "column_of t segs k \<longleftrightarrow>
     qualifies segs [qn_catalog t, qn_schema t, qn_name t] k \<and>
     (\<forall>k' > k. \<not> qualifies segs [qn_catalog t, qn_schema t, qn_name t] k')"

lemma index_column:
  assumes "string_util db" and "text_util h" and "TryParseLanceFieldPathSegments h column = Some segs"
  shows "\<exists>k path. column_of t segs k \<and>
    NormalizeTableIndexColumnPath db h column t = Inr path \<and>
    GetSingleColumnNameOrThrow db [ColumnRefExpression segs] t = Inr path \<and>
    TryParseLanceFieldPathSegments h path = Some (drop k segs)"
proof -
  have segs: "segs \<noteq> []" "[] \<notin> set segs"
    using TryParseLanceFieldPathSegments_nonempty [OF assms(3)] by auto
  let ?q = "[qn_catalog t, qn_schema t, qn_name t]"
  obtain k where k: "StripMatchingColumnQualifier db segs ?q = drop k segs" "column_of t segs k"
    using StripMatchingColumnQualifier_spec [OF assms(1) segs(1)] unfolding column_of_def by blast
  then have rest: "drop k segs \<noteq> []" "[] \<notin> set (drop k segs)"
    using segs by (auto simp: column_of_def qualifies_def dest: in_set_dropD)
  show ?thesis
    using k rest segs(1) TryParseLanceFieldPathSegments_format [OF assms(2) rest]
    by (intro exI [of _ k] exI [of _ "format_segments (drop k segs)"])
      (simp add: NormalizeTableIndexColumnPath_def GetSingleColumnNameOrThrow_def FormatLanceFieldPath_def assms(3))
qed

lemma kept_bool: "casts_keep db \<Longrightarrow> bool_arg db (BooleanValue b) = Inr b"
  by (simp add: casts_keep_def bool_arg_def)

text \<open>The table function with the bound arguments of a planned statement is the operator.\<close>

lemma planned_create:
  assumes "ix_kind d = Create" and "\<not> ix_target_is_path d" and "qualified_target h (ix_target_sql d) = Inr q"
    and "NormalizeTableIndexColumnPath db h (ix_columns d ! 0) q = Inr path"
    and "LanceIndexPlan db h d = Inr (f, params, ret)"
  shows "params = [VarcharValue (qn_catalog q), VarcharValue (qn_schema q), VarcharValue (qn_name q),
    VarcharValue (ix_index_name d), VarcharValue path, VarcharValue (ix_index_type d),
    VarcharValue (ix_params_json d), BooleanValue (ix_replace d), BooleanValue (ix_train d)]"
  using assms by (auto simp: LanceIndexPlan_def res_bind_Inr_iff Let_def split: if_splits)

lemma bound_create:
  assumes "casts_keep db" and "NormalizeIndexType h ty = ty"
    and "LanceCreateIndexTableBind db h get_entry [VarcharValue c, VarcharValue s, VarcharValue t,
      VarcharValue nm, VarcharValue path, VarcharValue ty, VarcharValue js, BooleanValue rep, BooleanValue trn] = Inr bd"
  shows "bd = ddl_on_table c s t nm [path] ty js rep trn"
  using assms(2,3) kept_bool [OF assms(1)]
  by (auto simp: LanceCreateIndexTableBind_def res_bind_Inr_iff text_or_empty_def string_arg_def Let_def
      nth_Cons' split: if_splits)

lemma run_create:
  assumes "get_entry c s t = Inr (LanceTable table)"
  shows "LanceCreateIndexFunc cn xf get_entry (ddl_on_table c s t nm [path] ty js rep trn) False ctx =
    PhysicalLanceCreateIndex_GetDataInternal cn xf table
      \<lparr>ci_index_name = nm, ci_column = path, ci_index_type = ty, ci_params_json = js, ci_replace = rep, ci_train = trn\<rparr> ctx"
proof -
  let ?d = "ddl_on_table c s t nm [path] ty js rep trn"
  have entry: "ddl_entry fn get_entry ?d = Inr table" for fn
    using assms by (simp add: ddl_entry_def ddl_on_table_def)
  have flag: "target_is_table ?d" by (simp add: ddl_on_table_def)
  have "invalidate_ddl_target cn fn get_entry ?d = LanceInvalidateDatasetCacheForTable cn table"
    "open_ddl_target cn fn get_entry ?d ctx = opened_or_throw cn (LanceOpenDatasetForTable cn table ctx)" for fn
    by (simp_all add: fun_eq_iff invalidate_ddl_target_def open_ddl_target_def entry flag)
  then show ?thesis
    by (simp add: LanceCreateIndexFunc_def PhysicalLanceCreateIndex_GetDataInternal_def)
      (simp add: ddl_on_table_def)
qed

lemma ddl_returns_handles:
  "in_use [] (fst (snd (LanceCreateIndexFunc cn xf get_entry d finished ctx))) = Some []"
  "in_use [] (fst (snd (LanceDropIndexFunc cn xf get_entry d finished ctx))) = Some []"
  by (auto simp: LanceCreateIndexFunc_def LanceDropIndexFunc_def call_and_close_def Let_def split: sum.splits prod.splits)

end
