(* ===== verification/Maintenance_Parse.thy ===== *)
theory Maintenance_Parse
  imports Index_Parse
begin

text \<open>
  Maintenance statements (\<open>lance_maintenance.cpp\<close>): \<open>OPTIMIZE\<close>, \<open>VACUUM LANCE\<close>, \<open>SHOW MAINTENANCE\<close>,
  \<open>ALTER INDEX ... OPTIMIZE\<close> and \<open>ALTER TABLE ... SET/UNSET AUTO_CLEANUP\<close>, from the text to the
  function call.  \<open>int64_t\<close> values are integers; the text of one that does not fit is refused.
\<close>

section \<open>Automatic cleanup options\<close>

text \<open>
  \<open>std::stoll\<close> on a sign and digits: the number, or \<open>out_of_range\<close>, which the function turns into
  \<open>false\<close>.
\<close>

definition TryParseIntegerLiteral :: "string \<Rightarrow> int option" where
  "TryParseIntegerLiteral text =
     (if text = [] then None
      else
        let signed = (hd text = CHR ''+'' \<or> hd text = CHR ''-'');
            digits = (if signed then tl text else text);
            n = (if hd text = CHR ''-'' then - int (string_to_nat digits) else int (string_to_nat digits))
        in if digits = [] \<or> \<not> list_all is_digit digits then None
           else if - (2 ^ 63) \<le> n \<and> n < 2 ^ 63 then Some n else None)"

record cleanup_options =
  cl_interval :: int
  cl_older_than :: string
  cl_has_retain_versions :: bool
  cl_retain_versions :: int
  has_interval :: bool
  has_older_than :: bool

definition no_cleanup_options :: cleanup_options where
  "no_cleanup_options = \<lparr>cl_interval = 0, cl_older_than = [], cl_has_retain_versions = False,
     cl_retain_versions = 0, has_interval = False, has_older_than = False\<rparr>"

text \<open>The whole literal of \<open>older_than\<close>; a text that does not start with an apostrophe is not one.\<close>

definition cleanup_option ::
    "duckdb \<Rightarrow> sql_host \<Rightarrow> cleanup_options \<Rightarrow> string \<Rightarrow> string + cleanup_options" where
  "cleanup_option db h opts kv =
     (if CHR ''='' \<notin> set kv then Inl ''WITH (...) entries must be key=value''
      else
        let eq_pos = length (takeWhile (\<lambda>c. c \<noteq> CHR ''='') kv);
            key = StringLower db (TrimCopy h (take eq_pos kv));
            val = TrimCopy h (drop (eq_pos + 1) kv)
        in if key = [] then Inl ''WITH (...) entry key cannot be empty''
           else if key = ''interval'' then
             (case TryParseIntegerLiteral val of
                None \<Rightarrow> Inl ''AUTO_CLEANUP interval must be an integer''
              | Some n \<Rightarrow> if n \<le> 0 then Inl ''AUTO_CLEANUP interval must be > 0''
                          else Inr (opts\<lparr>cl_interval := n, has_interval := True\<rparr>))
           else if key = ''older_than'' then
             (case whole_literal h val of
                None \<Rightarrow> Inl ''AUTO_CLEANUP older_than must be a single-quoted string literal''
              | Some lit \<Rightarrow> if lit = [] then Inl ''AUTO_CLEANUP older_than cannot be empty''
                            else Inr (opts\<lparr>cl_older_than := lit, has_older_than := True\<rparr>))
           else if key = ''retain_versions'' then
             (case TryParseIntegerLiteral val of
                None \<Rightarrow> Inl ''AUTO_CLEANUP retain_versions must be an integer''
              | Some n \<Rightarrow> if n \<le> 0 then Inl ''AUTO_CLEANUP retain_versions must be > 0''
                          else Inr (opts\<lparr>cl_retain_versions := n, cl_has_retain_versions := True\<rparr>))
           else Inl (''unsupported AUTO_CLEANUP option: '' @ key))"

definition TryParseAutoCleanupSetOptions :: "duckdb \<Rightarrow> sql_host \<Rightarrow> string \<Rightarrow> string + cleanup_options" where
  "TryParseAutoCleanupSetOptions db h with_clause_sql =
     (let rest = TrimCopy h with_clause_sql
      in if rest = [] then Inl ''SET AUTO_CLEANUP requires WITH (...)''
         else res_bind (with_entries db h False rest) (\<lambda>kvs.
           res_bind (res_foldl (cleanup_option db h) no_cleanup_options kvs) (\<lambda>opts.
           if \<not> has_interval opts \<or> \<not> has_older_than opts
           then Inl ''AUTO_CLEANUP requires interval and older_than''
           else Inr opts)))"


section \<open>The parser extension\<close>

datatype LanceMaintenanceStmtKind =
    COMPACT | CLEANUP | OPTIMIZE_INDEX | SET_AUTO_CLEANUP | UNSET_AUTO_CLEANUP | SHOW_AUTO_CLEANUP

record LanceMaintenanceParseData =
  mt_kind :: LanceMaintenanceStmtKind
  mt_target_is_path :: bool
  mt_dataset_uri :: string
  mt_target_sql :: string
  mt_options_json :: string
  mt_index_name :: string
  auto_cleanup_interval :: int
  auto_cleanup_older_than :: string
  auto_cleanup_has_retain_versions :: bool
  auto_cleanup_retain_versions :: int

definition NewLanceMaintenanceParseData :: "LanceMaintenanceStmtKind \<Rightarrow> LanceMaintenanceParseData" where
  "NewLanceMaintenanceParseData kind =
     \<lparr>mt_kind = kind, mt_target_is_path = False, mt_dataset_uri = [], mt_target_sql = [],
      mt_options_json = [], mt_index_name = [], auto_cleanup_interval = 0, auto_cleanup_older_than = [],
      auto_cleanup_has_retain_versions = False, auto_cleanup_retain_versions = 0\<rparr>"

definition LanceMaintenanceParseData_ToString :: "LanceMaintenanceParseData \<Rightarrow> string" where
  "LanceMaintenanceParseData_ToString d =
     (case mt_kind d of
        COMPACT \<Rightarrow> ''OPTIMIZE '' @ mt_target_sql d
      | CLEANUP \<Rightarrow> ''VACUUM LANCE '' @ mt_target_sql d
      | OPTIMIZE_INDEX \<Rightarrow> ''ALTER INDEX '' @ mt_index_name d @ '' ON '' @ mt_target_sql d @ '' OPTIMIZE''
      | SET_AUTO_CLEANUP \<Rightarrow> ''ALTER TABLE '' @ mt_target_sql d @ '' SET AUTO_CLEANUP''
      | UNSET_AUTO_CLEANUP \<Rightarrow> ''ALTER TABLE '' @ mt_target_sql d @ '' UNSET AUTO_CLEANUP''
      | SHOW_AUTO_CLEANUP \<Rightarrow> ''SHOW MAINTENANCE ON '' @ mt_target_sql d)"

text \<open>\<open>target_is_path\<close>, \<open>dataset_uri\<close>, \<open>target_sql\<close> and the trimmed rest, or the error text.\<close>

definition TryParseTarget :: "sql_host \<Rightarrow> string \<Rightarrow> string + bool \<times> string \<times> string \<times> string" where
  "TryParseTarget h rest =
     (if StartsWithQuotedString rest then
        (case TryParseSqlStringLiteral rest of
           None \<Rightarrow> Inl ''invalid dataset path string literal''
         | Some (lit, lit_consumed) \<Rightarrow>
             Inr (True, lit, take lit_consumed rest, TrimCopy h (drop lit_consumed rest)))
      else
        (case TryParseIdentifier rest of
           None \<Rightarrow> Inl ''expected dataset path or table identifier''
         | Some (ident, consumed) \<Rightarrow> Inr (False, [], ident, TrimCopy h (drop consumed rest))))"

text \<open>\<open>return ParserExtensionParseResult(parse_error)\<close>\<close>

fun or_error :: "string + 'a \<Rightarrow> string option + 'a" where
  "or_error (Inl e) = Inl (Some e)"
| "or_error (Inr x) = Inr x"

definition on_target :: "bool \<times> string \<times> string \<Rightarrow> LanceMaintenanceStmtKind \<Rightarrow> LanceMaintenanceParseData" where
  "on_target t kind =
     (case t of (is_path, uri, target) \<Rightarrow>
       (NewLanceMaintenanceParseData kind)\<lparr>mt_target_is_path := is_path, mt_dataset_uri := uri, mt_target_sql := target\<rparr>)"

text \<open>The branches of \<open>OPTIMIZE\<close> and \<open>VACUUM LANCE\<close> after their keywords.\<close>

definition parse_with_options ::
    "duckdb \<Rightarrow> sql_host \<Rightarrow> LanceMaintenanceStmtKind \<Rightarrow> string \<Rightarrow>
     string option + LanceMaintenanceParseData" where
  "parse_with_options db h kind rest =
     res_bind (or_error (TryParseTarget h rest)) (\<lambda>(is_path, uri, target, rest).
     res_bind (or_error (TryBuildOptionsJsonFromWithClause db h rest)) (\<lambda>options_json.
     Inr ((on_target (is_path, uri, target) kind)\<lparr>mt_options_json := options_json\<rparr>)))"

definition parse_show_maintenance ::
    "duckdb \<Rightarrow> sql_host \<Rightarrow> string \<Rightarrow> string option + LanceMaintenanceParseData" where
  "parse_show_maintenance db h rest =
     res_bind (or_return (ConsumeKeyword db h rest ''maintenance'') None) (\<lambda>rest.
     res_bind (or_return (case ConsumeKeyword db h rest ''on'' of
                   Some r \<Rightarrow> Some r
                 | None \<Rightarrow> ConsumeKeyword db h rest ''from'')
                 (Some ''SHOW MAINTENANCE requires ON/FROM <target>'')) (\<lambda>rest.
     res_bind (or_error (TryParseTarget h rest)) (\<lambda>(is_path, uri, target, rest).
     if TrimCopy h rest \<noteq> [] then Inl (Some ''unexpected trailing tokens'')
     else Inr (on_target (is_path, uri, target) SHOW_AUTO_CLEANUP))))"

definition parse_alter_index ::
    "duckdb \<Rightarrow> sql_host \<Rightarrow> string \<Rightarrow> string option + LanceMaintenanceParseData" where
  "parse_alter_index db h rest =
     res_bind (or_return (TryParseIdentifier rest) (Some ''ALTER INDEX requires an index name''))
       (\<lambda>(index_name, consumed).
     res_bind (or_return (ConsumeKeyword db h (TrimCopy h (drop consumed rest)) ''on'')
                 (Some ''ALTER INDEX requires ON <target>'')) (\<lambda>rest.
     res_bind (or_error (TryParseTarget h rest)) (\<lambda>(is_path, uri, target, rest).
     res_bind (or_return (ConsumeKeyword db h rest ''optimize'')
                 (Some ''ALTER INDEX requires trailing OPTIMIZE'')) (\<lambda>rest.
     res_bind (or_error (TryBuildOptionsJsonFromWithClause db h rest)) (\<lambda>options_json.
     Inr ((on_target (is_path, uri, target) OPTIMIZE_INDEX)
       \<lparr>mt_options_json := options_json, mt_index_name := index_name\<rparr>))))))"

definition parse_alter_table ::
    "duckdb \<Rightarrow> sql_host \<Rightarrow> string \<Rightarrow> string option + LanceMaintenanceParseData" where
  "parse_alter_table db h rest =
     res_bind (or_error (TryParseTarget h rest)) (\<lambda>(is_path, uri, target, rest).
     case ConsumeKeyword db h rest ''set'' of
       Some rest \<Rightarrow>
         res_bind (or_return (ConsumeKeyword db h rest ''auto_cleanup'')
                     (Some ''ALTER TABLE ... SET AUTO_CLEANUP is required'')) (\<lambda>rest.
         res_bind (or_error (TryParseAutoCleanupSetOptions db h rest)) (\<lambda>opts.
         Inr ((on_target (is_path, uri, target) SET_AUTO_CLEANUP)
           \<lparr>auto_cleanup_interval := cl_interval opts, auto_cleanup_older_than := cl_older_than opts,
            auto_cleanup_has_retain_versions := cl_has_retain_versions opts,
            auto_cleanup_retain_versions := cl_retain_versions opts\<rparr>)))
     | None \<Rightarrow>
         (case ConsumeKeyword db h rest ''unset'' of
            Some rest \<Rightarrow>
              res_bind (or_return (ConsumeKeyword db h rest ''auto_cleanup'')
                          (Some ''ALTER TABLE ... UNSET AUTO_CLEANUP is required'')) (\<lambda>rest.
              if TrimCopy h rest \<noteq> [] then Inl (Some ''unexpected trailing tokens'')
              else Inr (on_target (is_path, uri, target) UNSET_AUTO_CLEANUP))
          | None \<Rightarrow> Inl (Some ''ALTER TABLE maintenance syntax must be SET/UNSET AUTO_CLEANUP'')))"

definition parse_alter ::
    "duckdb \<Rightarrow> sql_host \<Rightarrow> string \<Rightarrow> string option + LanceMaintenanceParseData" where
  "parse_alter db h rest =
     (case ConsumeKeyword db h rest ''index'' of
        Some rest \<Rightarrow> parse_alter_index db h rest
      | None \<Rightarrow>
          (case ConsumeKeyword db h rest ''table'' of
             Some rest \<Rightarrow> parse_alter_table db h rest
           | None \<Rightarrow> Inl None))"

definition LanceMaintenanceParse :: "duckdb \<Rightarrow> sql_host \<Rightarrow> string \<Rightarrow> LanceMaintenanceParseData parse_result" where
  "LanceMaintenanceParse db h query =
     (let trimmed = TrimTrailingSemicolons h query;
          lower = StringLower db trimmed
      in if trimmed = [] then NotHandled
         else if HasKeywordPrefix lower ''optimize''
           then returned (parse_with_options db h COMPACT (TrimCopy h (drop 8 trimmed)))
         else if HasKeywordPrefix lower ''vacuum''
           then (case ConsumeKeyword db h (TrimCopy h (drop 6 trimmed)) ''lance'' of
               None \<Rightarrow> NotHandled
             | Some rest \<Rightarrow> returned (parse_with_options db h CLEANUP rest))
         else if HasKeywordPrefix lower ''show''
           then returned (parse_show_maintenance db h (TrimCopy h (drop 4 trimmed)))
         else if HasKeywordPrefix lower ''alter''
           then returned (parse_alter db h (TrimCopy h (drop 5 trimmed)))
         else NotHandled)"


section \<open>Planning\<close>

datatype maintenance_function =
    LanceInternalCompactTableFunction | LanceInternalCleanupTableFunction
  | LanceInternalOptimizeIndexTableFunction | LanceInternalSetAutoCleanupTableFunction
  | LanceInternalShowAutoCleanupTableFunction

abbreviation sql_null :: Value where
  "sql_null \<equiv> NullValue (SimpleType (OTHER_TYPE_ID 1))"

definition maintenance_target :: "sql_host \<Rightarrow> LanceMaintenanceParseData \<Rightarrow> exn + string" where
  "maintenance_target h d =
     (if mt_target_is_path d then Inr (mt_dataset_uri d)
      else res_bind (qualified_target h (mt_target_sql d)) (\<lambda>q.
        Inr (qn_catalog q @ ''.'' @ qn_schema q @ ''.'' @ qn_name q)))"

text \<open>The function to call with its parameters; every maintenance statement returns rows.\<close>

definition LanceMaintenancePlan ::
    "sql_host \<Rightarrow> LanceMaintenanceParseData \<Rightarrow> exn + maintenance_function \<times> Value list \<times> StatementReturnType" where
  "LanceMaintenancePlan h d =
     res_bind (maintenance_target h d) (\<lambda>target.
       let call = (\<lambda>f params. Inr (f, VarcharValue target # params, QUERY_RESULT))
       in case mt_kind d of
            COMPACT \<Rightarrow> call LanceInternalCompactTableFunction [VarcharValue (mt_options_json d)]
          | CLEANUP \<Rightarrow> call LanceInternalCleanupTableFunction [VarcharValue (mt_options_json d)]
          | OPTIMIZE_INDEX \<Rightarrow> call LanceInternalOptimizeIndexTableFunction
              [VarcharValue (mt_index_name d), VarcharValue (mt_options_json d)]
          | SET_AUTO_CLEANUP \<Rightarrow> call LanceInternalSetAutoCleanupTableFunction
              [BigIntValue (word_of_int (auto_cleanup_interval d)), VarcharValue (auto_cleanup_older_than d),
               if auto_cleanup_has_retain_versions d
               then BigIntValue (word_of_int (auto_cleanup_retain_versions d)) else sql_null,
               BooleanValue False]
          | UNSET_AUTO_CLEANUP \<Rightarrow> call LanceInternalSetAutoCleanupTableFunction
              [sql_null, sql_null, sql_null, BooleanValue True]
          | SHOW_AUTO_CLEANUP \<Rightarrow> call LanceInternalShowAutoCleanupTableFunction [])"

end
