(* ===== verification/Maintenance_Exec.thy ===== *)
theory Maintenance_Exec
  imports Metadata Maintenance_Parse
begin

text \<open>
  Execution of the maintenance statements (\<open>lance_maintenance.cpp\<close>): binding the arguments of the
  internal table functions, opening the dataset, and the calls of the Rust library.  The automatic
  cleanup settings are three entries of the dataset's configuration.
\<close>

section \<open>Opening\<close>

record catalog_fns =
  ParseName :: "string \<Rightarrow> QualifiedName option"
  GetEntry :: "QualifiedName \<Rightarrow> catalog_entry option"

text \<open>
  The input is tried as a table first; when it is none, or the table cannot be opened, the resolved
  URI is opened as a path.  The result is the handle and the URI to display.
\<close>

definition open_for_maintenance ::
    "connection \<Rightarrow> catalog_fns \<Rightarrow> string \<Rightarrow> string \<Rightarrow> conn_state \<Rightarrow> (exn + nat \<times> string) \<times> conn_state" where
  "open_for_maintenance cn cat dataset_uri input_str ctx =
     (let fallback = (\<lambda>ctx.
           case LanceOpenDataset cn dataset_uri ctx of
             (Inl x, ctx) \<Rightarrow> (Inl x, ctx)
           | (Inr None, ctx) \<Rightarrow> (Inl (IOException (''Failed to open Lance dataset: '' @ dataset_uri @ error_suffix cn)), ctx)
           | (Inr (Some d), ctx) \<Rightarrow> (Inr (d, dataset_uri), ctx))
      in case TryResolveLanceTableEntry (ParseName cat) (GetEntry cat) input_str of
           None \<Rightarrow> fallback ctx
         | Some entry \<Rightarrow>
             (case LanceOpenDatasetForTable cn entry ctx of
                (Inl x, ctx) \<Rightarrow> (Inl x, ctx)
              | (Inr (None, display), ctx) \<Rightarrow> fallback ctx
              | (Inr (Some d, display), ctx) \<Rightarrow> (Inr (d, display), ctx)))"


section \<open>Compaction, cleanup and index optimisation\<close>

datatype LanceMaintenanceOp = OP_COMPACT | OP_CLEANUP | OP_OPTIMIZE_INDEX

record LanceMaintenanceBindData =
  mb_dataset_uri :: string
  mb_input_str :: string
  mb_op :: LanceMaintenanceOp
  mb_options_json :: string
  mb_index_name :: string

text \<open>\<open>resolve\<close> is the registry with the policy that falls back to the path.\<close>

definition LanceMaintenanceBind ::
    "(Value \<Rightarrow> exn + string) \<Rightarrow> Value list \<Rightarrow> LanceMaintenanceOp \<Rightarrow> nat \<Rightarrow> exn + LanceMaintenanceBindData" where
  "LanceMaintenanceBind resolve inputs op expected_inputs =
     (if length inputs \<noteq> expected_inputs then Inl (BinderException ''invalid argument count'')
      else res_bind (resolve (inputs ! 0)) (\<lambda>uri.
        let data = \<lparr>mb_dataset_uri = uri, mb_input_str = text_or_empty (inputs ! 0), mb_op = op,
                    mb_options_json = [], mb_index_name = []\<rparr>
        in if op = OP_OPTIMIZE_INDEX then
             if text_or_empty (inputs ! 1) = [] then Inl (BinderException ''index_name must be non-empty'')
             else Inr (data\<lparr>mb_index_name := text_or_empty (inputs ! 1), mb_options_json := text_or_empty (inputs ! 2)\<rparr>)
           else Inr (data\<lparr>mb_options_json := text_or_empty (inputs ! 1)\<rparr>)))"

record maintenance_ffi =
  lance_dataset_compact_files_with_options :: "nat \<Rightarrow> string option \<Rightarrow> int \<times> string option"
  lance_dataset_cleanup_old_versions_with_options :: "nat \<Rightarrow> string option \<Rightarrow> int \<times> string option"
  lance_dataset_optimize_index_with_options :: "nat \<Rightarrow> string \<Rightarrow> string option \<Rightarrow> int \<times> string option"

text \<open>A row: operation, target, metrics.  A later call returns no row.\<close>

type_synonym maintenance_row = "string \<times> string \<times> string"

definition LanceMaintenanceFunc ::
    "connection \<Rightarrow> catalog_fns \<Rightarrow> maintenance_ffi \<Rightarrow> LanceMaintenanceBindData \<Rightarrow> bool \<Rightarrow> conn_state
       \<Rightarrow> (exn + maintenance_row option) \<times> bool \<times> conn_state" where
  "LanceMaintenanceFunc cn cat mf d finished ctx =
     (if finished then (Inr None, True, ctx)
      else (case open_for_maintenance cn cat (mb_dataset_uri d) (mb_input_str d) ctx of
          (Inl x, ctx) \<Rightarrow> (Inl x, True, ctx)
        | (Inr (h, display), ctx) \<Rightarrow>
            let options_ptr = map_option c_str (opt_cstr (mb_options_json d))
            in (case (case mb_op d of
                        OP_COMPACT \<Rightarrow> (''compact'', lance_dataset_compact_files_with_options mf h options_ptr)
                      | OP_CLEANUP \<Rightarrow> (''cleanup'', lance_dataset_cleanup_old_versions_with_options mf h options_ptr)
                      | OP_OPTIMIZE_INDEX \<Rightarrow>
                          (''optimize_index'',
                           lance_dataset_optimize_index_with_options mf h (c_str (mb_index_name d)) options_ptr)) of
                  (op_name, rc, metrics_ptr) \<Rightarrow>
                    if rc \<noteq> 0 then
                      (Inl (IOException (''Failed to execute Lance maintenance operation '' @ [apostrophe] @ op_name @
                         [apostrophe] @ '' on dataset: '' @ display @ error_suffix cn)), True, ctx)
                    else
                      (Inr (Some (op_name, display, case metrics_ptr of Some m \<Rightarrow> m | None \<Rightarrow> ''{}'')), True, ctx))))"


section \<open>Automatic cleanup\<close>

definition LANCE_AUTO_CLEANUP_INTERVAL_KEY :: string where
  "LANCE_AUTO_CLEANUP_INTERVAL_KEY = ''lance.auto_cleanup.interval''"

definition LANCE_AUTO_CLEANUP_OLDER_THAN_KEY :: string where
  "LANCE_AUTO_CLEANUP_OLDER_THAN_KEY = ''lance.auto_cleanup.older_than''"

definition LANCE_AUTO_CLEANUP_RETAIN_VERSIONS_KEY :: string where
  "LANCE_AUTO_CLEANUP_RETAIN_VERSIONS_KEY = ''lance.auto_cleanup.retain_versions''"

record LanceAutoCleanupSetBindData =
  ac_dataset_uri :: string
  ac_input_str :: string
  ac_unset :: bool
  ac_interval :: int
  ac_older_than :: string
  ac_retain_versions :: "int option"

definition LanceSetAutoCleanupBind ::
    "duckdb \<Rightarrow> (Value \<Rightarrow> exn + string) \<Rightarrow> Value list \<Rightarrow> exn + LanceAutoCleanupSetBindData" where
  "LanceSetAutoCleanupBind db resolve inputs =
     (if length inputs \<noteq> 5 then
        Inl (BinderException ''__lance_set_auto_cleanup requires (dataset, interval, older_than, retain_versions, unset)'')
      else res_bind (resolve (inputs ! 0)) (\<lambda>uri.
        res_bind (if is_null (inputs ! 4) then Inr False else bool_arg db (inputs ! 4)) (\<lambda>unset.
        let data = \<lparr>ac_dataset_uri = uri, ac_input_str = text_or_empty (inputs ! 0), ac_unset = unset,
                    ac_interval = 0, ac_older_than = [], ac_retain_versions = None\<rparr>
        in if unset then Inr data
           else if is_null (inputs ! 1) then Inl (BinderException ''auto cleanup interval must be provided'')
           else res_bind (bigint_arg db (inputs ! 1)) (\<lambda>interval.
             if interval \<le> 0 then Inl (BinderException ''auto cleanup interval must be > 0'')
             else (case string_arg (inputs ! 2) of
                 None \<Rightarrow> Inl (BinderException ''auto cleanup older_than must be provided'')
               | Some older_than \<Rightarrow>
                   if older_than = [] then Inl (BinderException ''auto cleanup older_than cannot be empty'')
                   else res_bind
                     (if is_null (inputs ! 3) then Inr None
                      else res_bind (bigint_arg db (inputs ! 3)) (\<lambda>n.
                        if n \<le> 0 then Inl (BinderException ''auto cleanup retain_versions must be > 0'')
                        else Inr (Some n)))
                     (\<lambda>retain. Inr (data\<lparr>ac_interval := interval, ac_older_than := older_than,
                        ac_retain_versions := retain\<rparr>)))))))"

text \<open>The result of an update, and the configuration it leaves.\<close>

definition UpdateDatasetConfigOrThrow ::
    "connection \<Rightarrow> committer \<Rightarrow> string \<Rightarrow> string \<Rightarrow> string option \<Rightarrow> kv_store \<Rightarrow> (exn + unit) \<times> kv_store" where
  "UpdateDatasetConfigOrThrow cn commit_update uri key val st =
     (case dataset_update_inner commit_update CONFIG (c_str key) (map_option c_str val) st of
        None \<Rightarrow>
          (Inl (IOException (''Failed to update Lance maintenance config on dataset: '' @ uri @ error_suffix cn)), st)
      | Some st' \<Rightarrow> (Inr (), st'))"

text \<open>Updates in a row; the first that throws ends it.\<close>

fun update_config_all ::
    "connection \<Rightarrow> committer \<Rightarrow> string \<Rightarrow> (string \<times> string option) list \<Rightarrow> kv_store \<Rightarrow> (exn + unit) \<times> kv_store" where
  "update_config_all cn commit_update uri [] st = (Inr (), st)"
| "update_config_all cn commit_update uri ((key, val) # kvs) st =
     (case UpdateDatasetConfigOrThrow cn commit_update uri key val st of
        (Inl x, st) \<Rightarrow> (Inl x, st)
      | (Inr _, st) \<Rightarrow> update_config_all cn commit_update uri kvs st)"

definition auto_cleanup_updates :: "LanceAutoCleanupSetBindData \<Rightarrow> (string \<times> string option) list" where
  "auto_cleanup_updates d =
     (if ac_unset d then
        [(LANCE_AUTO_CLEANUP_INTERVAL_KEY, None), (LANCE_AUTO_CLEANUP_OLDER_THAN_KEY, None),
         (LANCE_AUTO_CLEANUP_RETAIN_VERSIONS_KEY, None)]
      else
        [(LANCE_AUTO_CLEANUP_INTERVAL_KEY, Some (int_to_string (ac_interval d))),
         (LANCE_AUTO_CLEANUP_OLDER_THAN_KEY, Some (ac_older_than d)),
         (LANCE_AUTO_CLEANUP_RETAIN_VERSIONS_KEY, map_option int_to_string (ac_retain_versions d))])"

definition auto_cleanup_metrics :: "LanceAutoCleanupSetBindData \<Rightarrow> string" where
  "auto_cleanup_metrics d =
     (if ac_unset d then ''{'' @ json_quoted ''enabled'' @ '':false}''
      else ''{'' @ json_quoted ''enabled'' @ '':true,'' @ json_quoted ''interval'' @ '':'' @ int_to_string (ac_interval d) @
        '','' @ json_quoted ''older_than'' @ '':'' @ json_quoted (ac_older_than d) @
        (case ac_retain_versions d of
           None \<Rightarrow> [] | Some n \<Rightarrow> '','' @ json_quoted ''retain_versions'' @ '':'' @ int_to_string n) @ ''}'')"

definition LanceSetAutoCleanupFunc ::
    "connection \<Rightarrow> catalog_fns \<Rightarrow> committer \<Rightarrow> LanceAutoCleanupSetBindData \<Rightarrow> bool \<Rightarrow> conn_state \<times> kv_store
       \<Rightarrow> (exn + maintenance_row option) \<times> bool \<times> conn_state \<times> kv_store" where
  "LanceSetAutoCleanupFunc cn cat commit_update d finished s =
     (case s of (ctx, st) \<Rightarrow>
       if finished then (Inr None, True, ctx, st)
       else (case open_for_maintenance cn cat (ac_dataset_uri d) (ac_input_str d) ctx of
           (Inl x, ctx) \<Rightarrow> (Inl x, True, ctx, st)
         | (Inr (h, display), ctx) \<Rightarrow>
             (case update_config_all cn commit_update display (auto_cleanup_updates d) st of
                (Inl x, st) \<Rightarrow> (Inl x, True, ctx, st)
              | (Inr _, st) \<Rightarrow>
                  (Inr (Some (if ac_unset d then ''unset_auto_cleanup'' else ''set_auto_cleanup'', display,
                     auto_cleanup_metrics d)), True, ctx, st))))"

definition LanceShowAutoCleanupBind ::
    "(Value \<Rightarrow> exn + string) \<Rightarrow> Value list \<Rightarrow> exn + string \<times> string" where
  "LanceShowAutoCleanupBind resolve inputs =
     (if length inputs \<noteq> 1 then Inl (BinderException ''__lance_show_auto_cleanup requires 1 argument'')
      else res_bind (resolve (inputs ! 0)) (\<lambda>uri. Inr (uri, text_or_empty (inputs ! 0))))"

text \<open>The rows made from the configuration: a later pair with the same key replaces an earlier one.\<close>

definition auto_cleanup_rows :: "(string \<times> string) list \<Rightarrow> (string \<times> string) list" where
  "auto_cleanup_rows all_configs =
     (let filtered = foldl (\<lambda>m (k, v).
            if k = LANCE_AUTO_CLEANUP_INTERVAL_KEY \<or> k = LANCE_AUTO_CLEANUP_OLDER_THAN_KEY \<or>
               k = LANCE_AUTO_CLEANUP_RETAIN_VERSIONS_KEY then m(k \<mapsto> v) else m) Map.empty all_configs;
          enabled = (filtered LANCE_AUTO_CLEANUP_INTERVAL_KEY \<noteq> None \<and>
                     filtered LANCE_AUTO_CLEANUP_OLDER_THAN_KEY \<noteq> None);
          row = (\<lambda>label key. case filtered key of Some v \<Rightarrow> [(label, v)] | None \<Rightarrow> [])
      in [(''enabled'', if enabled then ''true'' else ''false'')] @
         row ''interval'' LANCE_AUTO_CLEANUP_INTERVAL_KEY @
         row ''older_than'' LANCE_AUTO_CLEANUP_OLDER_THAN_KEY @
         row ''retain_versions'' LANCE_AUTO_CLEANUP_RETAIN_VERSIONS_KEY)"

definition LanceShowAutoCleanupInitGlobal ::
    "connection \<Rightarrow> catalog_fns \<Rightarrow> namespace_ffi \<Rightarrow> string \<times> string \<Rightarrow> conn_state \<times> kv_store
       \<Rightarrow> (exn + (string \<times> string) list) \<times> conn_state" where
  "LanceShowAutoCleanupInitGlobal cn cat nf d s =
     (case s of (ctx, st) \<Rightarrow>
       (case open_for_maintenance cn cat (fst d) (snd d) ctx of
          (Inl x, ctx) \<Rightarrow> (Inl x, ctx)
        | (Inr (h, display), ctx) \<Rightarrow>
            (res_bind (ParseTsvRows cn nf ''Failed to read Lance dataset config''
                         (Some (to_c_string (dataset_list_kv_inner st))))
               (\<lambda>rows. Inr (auto_cleanup_rows rows)), ctx)))"

definition LanceShowAutoCleanupFunc :: "nat \<Rightarrow> (string \<times> string) list \<Rightarrow> nat \<Rightarrow> (string \<times> string) list \<times> nat" where
  "LanceShowAutoCleanupFunc vector_size rows offset = next_rows vector_size rows offset"

end
