(* ===== verification/Maintenance_Correct.thy ===== *)
theory Maintenance_Correct
  imports Maintenance_Exec Sql_Text_Correct
begin

text \<open>
  Correctness of the maintenance statements: what the parser accepts is within range, and the
  settings made by \<open>ALTER TABLE ... SET AUTO_CLEANUP\<close> are those that \<open>SHOW MAINTENANCE\<close> reports, on
  their way through the planner, the binder, the dataset's configuration and its listing.
\<close>

section \<open>Parsed settings\<close>

definition in_i64 :: "int \<Rightarrow> bool" where
  "in_i64 n \<longleftrightarrow> - (2 ^ 63) \<le> n \<and> n < 2 ^ 63"

lemma TryParseIntegerLiteral_range: "TryParseIntegerLiteral s = Some n \<Longrightarrow> in_i64 n"
  by (auto simp: TryParseIntegerLiteral_def Let_def in_i64_def split: if_splits)

definition options_ok :: "cleanup_options \<Rightarrow> bool" where
  "options_ok opts \<longleftrightarrow>
     (has_interval opts \<longrightarrow> 0 < cl_interval opts \<and> in_i64 (cl_interval opts)) \<and>
     (has_older_than opts \<longrightarrow> cl_older_than opts \<noteq> []) \<and>
     (cl_has_retain_versions opts \<longrightarrow> 0 < cl_retain_versions opts \<and> in_i64 (cl_retain_versions opts))"

lemma cleanup_option_ok: "cleanup_option db h opts kv = Inr opts' \<Longrightarrow> options_ok opts \<Longrightarrow> options_ok opts'"
  by (auto simp: cleanup_option_def Let_def options_ok_def TryParseIntegerLiteral_range
      split: if_splits option.splits)

lemma TryParseAutoCleanupSetOptions_ok:
  assumes "TryParseAutoCleanupSetOptions db h sql = Inr opts"
  shows "options_ok opts" and "has_interval opts" and "has_older_than opts"
proof -
  obtain kvs where fold: "res_foldl (cleanup_option db h) no_cleanup_options kvs = Inr opts"
    and "has_interval opts" "has_older_than opts"
    using assms by (auto simp: TryParseAutoCleanupSetOptions_def Let_def res_bind_Inr_iff split: if_splits)
  moreover have "options_ok no_cleanup_options" by (simp add: options_ok_def no_cleanup_options_def)
  ultimately show "options_ok opts" and "has_interval opts" and "has_older_than opts"
    using res_foldl_invariant [OF fold, of options_ok] cleanup_option_ok by blast+
qed

text \<open>What a parsed statement promises about its settings.\<close>

definition settings_ok :: "LanceMaintenanceParseData \<Rightarrow> bool" where
  "settings_ok d \<longleftrightarrow>
     (mt_kind d = SET_AUTO_CLEANUP \<longrightarrow>
        0 < auto_cleanup_interval d \<and> in_i64 (auto_cleanup_interval d) \<and> auto_cleanup_older_than d \<noteq> [] \<and>
        (auto_cleanup_has_retain_versions d \<longrightarrow>
           0 < auto_cleanup_retain_versions d \<and> in_i64 (auto_cleanup_retain_versions d)))"

lemma or_error_Inr_iff [simp]: "or_error r = Inr x \<longleftrightarrow> r = Inr x"
  by (cases r) auto

lemma parsed_iff [simp]: "returned r = Parsed d \<longleftrightarrow> r = Inr d"
  by (cases r rule: returned.cases) auto

lemma on_target_kind [simp]: "mt_kind (on_target t k) = k"
  by (cases t) (simp add: on_target_def NewLanceMaintenanceParseData_def)

lemma parse_alter_table_ok: "parse_alter_table db h rest = Inr d \<Longrightarrow> settings_ok d"
  using TryParseAutoCleanupSetOptions_ok
  by (fastforce simp: parse_alter_table_def res_bind_Inr_iff settings_ok_def options_ok_def split: option.splits if_splits)

lemma LanceMaintenanceParse_ok:
  assumes "LanceMaintenanceParse db h query = Parsed d"
  shows "settings_ok d"
proof (cases "\<exists>rest. parse_alter_table db h rest = Inr d")
  case True
  then show ?thesis using parse_alter_table_ok by blast
next
  case False
  then have "mt_kind d \<noteq> SET_AUTO_CLEANUP"
    using assms
    by (auto simp: LanceMaintenanceParse_def parse_with_options_def parse_show_maintenance_def parse_alter_def
        parse_alter_index_def res_bind_Inr_iff Let_def split: if_splits option.splits)
  then show ?thesis by (simp add: settings_ok_def)
qed


section \<open>Binding\<close>

lemma sint_in_i64: "in_i64 n \<Longrightarrow> sint (word_of_int n :: 64 word) = n"
  by (simp add: in_i64_def sint_sbintrunc' signed_take_bit_int_eq_self)

definition retained :: "LanceMaintenanceParseData \<Rightarrow> int option" where
  "retained d = (if auto_cleanup_has_retain_versions d then Some (auto_cleanup_retain_versions d) else None)"

text \<open>The bound statement has the settings of the parsed one.\<close>

lemma set_params:
  assumes "mt_kind d = SET_AUTO_CLEANUP" and "LanceMaintenancePlan h d = Inr (f, params, ret)"
  obtains target where "params = [VarcharValue target, BigIntValue (word_of_int (auto_cleanup_interval d)),
    VarcharValue (auto_cleanup_older_than d),
    if auto_cleanup_has_retain_versions d then BigIntValue (word_of_int (auto_cleanup_retain_versions d)) else sql_null,
    BooleanValue False]"
  using assms by (auto simp: LanceMaintenancePlan_def res_bind_Inr_iff)

lemma set_bound:
  assumes db: "casts_keep db" and ok: "settings_ok d" and kind: "mt_kind d = SET_AUTO_CLEANUP"
    and plan: "LanceMaintenancePlan h d = Inr (f, params, ret)" and bound: "LanceSetAutoCleanupBind db resolve params = Inr bd"
  shows "\<not> ac_unset bd \<and> ac_interval bd = auto_cleanup_interval d \<and>
    ac_older_than bd = auto_cleanup_older_than d \<and> ac_retain_versions bd = retained d"
proof -
  obtain target where params: "params = [VarcharValue target, BigIntValue (word_of_int (auto_cleanup_interval d)),
    VarcharValue (auto_cleanup_older_than d),
    if auto_cleanup_has_retain_versions d then BigIntValue (word_of_int (auto_cleanup_retain_versions d)) else sql_null,
    BooleanValue False]"
    using set_params [OF kind plan] .
  have casts: "bool_arg db (BooleanValue b) = Inr b" "bigint_arg db (BigIntValue n) = Inr (sint n)" for b n
    using db by (simp_all add: casts_keep_def bool_arg_def bigint_arg_def)
  have interval: "sint (word_of_int (auto_cleanup_interval d) :: 64 word) = auto_cleanup_interval d"
    using ok kind by (intro sint_in_i64) (simp add: settings_ok_def)
  have retain: "sint (word_of_int (auto_cleanup_retain_versions d) :: 64 word) = auto_cleanup_retain_versions d"
    if "auto_cleanup_has_retain_versions d"
    using ok kind that by (intro sint_in_i64) (simp add: settings_ok_def)
  show ?thesis
  proof (cases "auto_cleanup_has_retain_versions d")
    case True
    then show ?thesis
      using bound interval retain
      by (simp add: params LanceSetAutoCleanupBind_def casts string_arg_def retained_def Let_def res_bind_Inr_iff
          split: if_splits) auto
  next
    case False
    then show ?thesis
      using bound interval
      by (simp add: params LanceSetAutoCleanupBind_def casts string_arg_def retained_def Let_def res_bind_Inr_iff
          split: if_splits) auto
  qed
qed

lemma unset_bound:
  assumes "casts_keep db" and "mt_kind d = UNSET_AUTO_CLEANUP"
    and "LanceMaintenancePlan h d = Inr (f, params, ret)" and "LanceSetAutoCleanupBind db resolve params = Inr bd"
  shows "ac_unset bd"
proof -
  obtain target where params: "params = [VarcharValue target, sql_null, sql_null, sql_null, BooleanValue True]"
    using assms(2,3) by (auto simp: LanceMaintenancePlan_def res_bind_Inr_iff)
  have "bool_arg db (BooleanValue True) = Inr True" using assms(1) by (simp add: casts_keep_def bool_arg_def)
  then show ?thesis
    using assms(4) by (simp add: params LanceSetAutoCleanupBind_def Let_def res_bind_Inr_iff) auto
qed


section \<open>The configuration\<close>

text \<open>A committed update sets or removes its key and nothing else.\<close>

definition commits :: "committer \<Rightarrow> bool" where
  "commits cu \<longleftrightarrow>
     (\<forall>t k v st st'. distinct (map fst st) \<and> cu t k v st = Some st' \<longrightarrow>
        distinct (map fst st') \<and> map_of st' = (map_of st)(k := v))"

lemma update_config_all_spec:
  assumes "commits cu" and "distinct (map fst st)" and "update_config_all cn cu uri kvs st = (Inr u, st')"
  shows "distinct (map fst st') \<and>
    map_of st' = foldl (\<lambda>m (k, v). m(c_str k := map_option c_str v)) (map_of st) kvs"
  using assms(2,3)
proof (induction kvs arbitrary: st)
  case (Cons kv kvs)
  obtain k v where kv: "kv = (k, v)" by (cases kv)
  obtain st1 where st1: "dataset_update_inner cu CONFIG (c_str k) (map_option c_str v) st = Some st1"
    and rest: "update_config_all cn cu uri kvs st1 = (Inr u, st')"
    using Cons(3) by (auto simp: kv UpdateDatasetConfigOrThrow_def split: option.splits)
  have "cu CONFIG (c_str k) (map_option c_str v) st = Some st1"
    using st1 by (auto simp: dataset_update_inner_def split: if_splits option.splits)
  then have "distinct (map fst st1)" "map_of st1 = (map_of st)(c_str k := map_option c_str v)"
    using assms(1) Cons(2) unfolding commits_def by blast+
  then show ?case using Cons(1) [OF _ rest] by (simp add: kv)
qed simp


section \<open>Listing\<close>

text \<open>Splitting a text at a character gives its parts; whether empty parts are kept is left open.\<close>

definition splits :: "(string \<Rightarrow> char \<Rightarrow> string list) \<Rightarrow> bool" where
  "splits sp \<longleftrightarrow>
     (\<forall>c ps. (\<forall>p \<in> set ps. p \<noteq> [] \<and> c \<notin> set p) \<longrightarrow>
        filter (\<lambda>p. p \<noteq> []) (sp (concat (map (\<lambda>p. p @ [c]) ps)) c) = ps) \<and>
     (\<forall>c x y. x \<noteq> [] \<and> y \<noteq> [] \<and> c \<notin> set x \<and> c \<notin> set y \<longrightarrow> sp (x @ [c] @ y) c = [x, y])"

definition tsv_safe :: "string \<Rightarrow> bool" where
  "tsv_safe s \<longleftrightarrow> s \<noteq> [] \<and> CHR 0x09 \<notin> set s \<and> CHR 0x0A \<notin> set s \<and> CHR 0x00 \<notin> set s"

lemma to_c_string_id: "CHR 0x00 \<notin> set s \<Longrightarrow> to_c_string s = s"
  by (induction s) (auto simp: to_c_string_def)

lemma c_str_id: "CHR 0x00 \<notin> set s \<Longrightarrow> c_str s = s"
  by (auto simp: c_str_def intro: takeWhile_eq_all_conv [THEN iffD2])

lemma map_filter_cong_Some:
  "(\<And>x. x \<in> set xs \<Longrightarrow> f (g x) = Some x) \<Longrightarrow> List.map_filter f (map g xs) = xs"
  by (induction xs) (auto simp: List.map_filter_simps)

lemma listed_pairs:
  assumes "splits (StringSplit nf)" and safe: "\<And>k v. (k, v) \<in> set st \<Longrightarrow> tsv_safe k \<and> tsv_safe v"
  shows "tsv_pairs nf (to_c_string (dataset_list_kv_inner st)) = st"
proof -
  let ?line = "\<lambda>kv :: string \<times> string. fst kv @ [CHR 0x09] @ snd kv"
  have "CHR 0x00 \<notin> set (dataset_list_kv_inner st)"
    using safe by (fastforce simp: dataset_list_kv_inner_def tsv_safe_def)
  then have whole: "to_c_string (dataset_list_kv_inner st) = concat (map (\<lambda>p. p @ [CHR 0x0A]) (map ?line st))"
    by (simp add: to_c_string_id dataset_list_kv_inner_def case_prod_unfold comp_def)
  have "\<forall>p \<in> set (map ?line st). p \<noteq> [] \<and> CHR 0x0A \<notin> set p"
    using safe by (fastforce simp: tsv_safe_def)
  then have lines: "nonempty_lines nf (to_c_string (dataset_list_kv_inner st)) = map ?line st"
    using assms(1) unfolding nonempty_lines_def whole splits_def by blast
  have "StringSplit nf (?line kv) (CHR 0x09) = [fst kv, snd kv]" if "kv \<in> set st" for kv
    using assms(1) safe [of "fst kv" "snd kv"] that unfolding splits_def tsv_safe_def by simp
  then show ?thesis
    unfolding tsv_pairs_def lines by (intro map_filter_cong_Some) simp
qed

lemma filtered_map_of:
  assumes "distinct (map fst st)"
  shows "foldl (\<lambda>m (k, v). if P k then m(k \<mapsto> v) else m) m st k =
    (if P k then case map_of st k of None \<Rightarrow> m k | Some v \<Rightarrow> Some v else m k)"
  using assms
proof (induction st arbitrary: m)
  case (Cons kv st)
  obtain a b where kv: "kv = (a, b)" by (cases kv)
  have "map_of st a = None" using Cons(2) by (simp add: kv map_of_eq_None_iff)
  then show ?case using Cons by (auto simp: kv split: option.splits)
qed simp

definition shown_rows :: "(string \<rightharpoonup> string) \<Rightarrow> (string \<times> string) list" where
  "shown_rows m =
     [(''enabled'', if m LANCE_AUTO_CLEANUP_INTERVAL_KEY \<noteq> None \<and> m LANCE_AUTO_CLEANUP_OLDER_THAN_KEY \<noteq> None
                    then ''true'' else ''false'')] @
     (case m LANCE_AUTO_CLEANUP_INTERVAL_KEY of Some v \<Rightarrow> [(''interval'', v)] | None \<Rightarrow> []) @
     (case m LANCE_AUTO_CLEANUP_OLDER_THAN_KEY of Some v \<Rightarrow> [(''older_than'', v)] | None \<Rightarrow> []) @
     (case m LANCE_AUTO_CLEANUP_RETAIN_VERSIONS_KEY of Some v \<Rightarrow> [(''retain_versions'', v)] | None \<Rightarrow> [])"

lemma auto_cleanup_rows_shown:
  assumes "distinct (map fst st)"
  shows "auto_cleanup_rows st = shown_rows (map_of st)"
proof -
  let ?P = "\<lambda>k. k = LANCE_AUTO_CLEANUP_INTERVAL_KEY \<or> k = LANCE_AUTO_CLEANUP_OLDER_THAN_KEY \<or>
     k = LANCE_AUTO_CLEANUP_RETAIN_VERSIONS_KEY"
  have "foldl (\<lambda>m (k, v). if ?P k then m(k \<mapsto> v) else m) Map.empty st k = map_of st k" if "?P k" for k
    using filtered_map_of [OF assms, of ?P Map.empty k] that by (simp split: option.splits)
  then show ?thesis by (simp add: auto_cleanup_rows_def shown_rows_def Let_def)
qed


section \<open>The round trip\<close>

text \<open>What \<open>SHOW MAINTENANCE\<close> is to report after a statement.\<close>

definition expected_rows :: "LanceMaintenanceParseData \<Rightarrow> (string \<times> string) list" where
  "expected_rows d =
     (if mt_kind d = SET_AUTO_CLEANUP then
        [(''enabled'', ''true''), (''interval'', int_to_string (auto_cleanup_interval d)),
         (''older_than'', auto_cleanup_older_than d)] @
        (if auto_cleanup_has_retain_versions d
         then [(''retain_versions'', int_to_string (auto_cleanup_retain_versions d))] else [])
      else [(''enabled'', ''false'')])"

definition safe_store :: "kv_store \<Rightarrow> bool" where
  "safe_store st \<longleftrightarrow> distinct (map fst st) \<and> list_all (\<lambda>kv. tsv_safe (fst kv) \<and> tsv_safe (snd kv)) st"

lemmas key_defs = LANCE_AUTO_CLEANUP_INTERVAL_KEY_def LANCE_AUTO_CLEANUP_OLDER_THAN_KEY_def
  LANCE_AUTO_CLEANUP_RETAIN_VERSIONS_KEY_def

lemma keys_safe:
  "tsv_safe LANCE_AUTO_CLEANUP_INTERVAL_KEY" "tsv_safe LANCE_AUTO_CLEANUP_OLDER_THAN_KEY"
  "tsv_safe LANCE_AUTO_CLEANUP_RETAIN_VERSIONS_KEY"
  unfolding key_defs by code_simp+

lemma digits_safe: "tsv_safe (nat_to_string n)"
proof -
  have "\<not> is_digit (CHR 0x09)" "\<not> is_digit (CHR 0x0A)" "\<not> is_digit (CHR 0x00)" by code_simp+
  then show ?thesis using nat_to_string_digits [of n] by (auto simp: tsv_safe_def)
qed

lemma number_safe: "tsv_safe (int_to_string n)"
  using digits_safe [of "nat (- n)"] digits_safe [of "nat n"] by (auto simp: int_to_string_def tsv_safe_def)

lemma safe_c_str: "tsv_safe s \<Longrightarrow> c_str s = s"
  by (simp add: tsv_safe_def c_str_id)

lemma map_of_updates_safe:
  assumes "safe_store st" and "distinct (map fst st')"
    and "map_of st' = foldl (\<lambda>m (k, v). m(k := v)) (map_of st) kvs"
    and "\<And>k v. (k, Some v) \<in> set kvs \<Longrightarrow> tsv_safe k \<and> tsv_safe v"
  shows "safe_store st'"
proof -
  have inv: "\<lbrakk>\<And>k v. m k = Some v \<Longrightarrow> tsv_safe k \<and> tsv_safe v;
      \<And>k v. (k, Some v) \<in> set kvs \<Longrightarrow> tsv_safe k \<and> tsv_safe v;
      foldl (\<lambda>m (k, v). m(k := v)) m kvs k = Some v\<rbrakk> \<Longrightarrow> tsv_safe k \<and> tsv_safe v"
    for m :: "string \<rightharpoonup> string" and kvs k v
  proof (induction kvs arbitrary: m)
    case (Cons kv kvs)
    obtain a b where kv: "kv = (a, b)" by (cases kv)
    show ?case
    proof (rule Cons(1) [of "m(a := b)"])
      fix k v
      assume "(m(a := b)) k = Some v"
      then show "tsv_safe k \<and> tsv_safe v" using Cons(2,3) by (cases "k = a") (auto simp: kv)
    qed (use Cons(3,4) in \<open>auto simp: kv\<close>)
  qed simp
  have old: "tsv_safe k \<and> tsv_safe v" if "map_of st k = Some v" for k v
    using assms(1) map_of_SomeD [OF that] by (auto simp: safe_store_def list_all_iff)
  have "tsv_safe k \<and> tsv_safe v" if "(k, v) \<in> set st'" for k v
  proof (rule inv [of "map_of st" kvs])
    show "foldl (\<lambda>m (k, v). m(k := v)) (map_of st) kvs k = Some v"
      using that assms(2,3) by (metis map_of_is_SomeI)
  qed (use old assms(4) in auto)
  then show ?thesis using assms(2) by (auto simp: safe_store_def list_all_iff)
qed

text \<open>The updates as the dataset sees them.\<close>

lemma seen_updates:
  assumes "\<not> ac_unset bd \<Longrightarrow> tsv_safe (ac_older_than bd)"
  shows "map (\<lambda>(k, v). (c_str k, map_option c_str v)) (auto_cleanup_updates bd) = auto_cleanup_updates bd"
    and "(k, Some v) \<in> set (auto_cleanup_updates bd) \<Longrightarrow> tsv_safe k \<and> tsv_safe v"
  using assms keys_safe number_safe
  by (cases "ac_retain_versions bd"; auto simp: auto_cleanup_updates_def safe_c_str split: if_splits)+

lemma foldl_updates_map:
  "foldl (\<lambda>m (k, v). m(f k := g v)) m kvs = foldl (\<lambda>m (k, v). m(k := v)) m (map (\<lambda>(k, v). (f k, g v)) kvs)"
  by (induction kvs arbitrary: m) auto

lemma auto_cleanup_stored:
  assumes "commits cu" and "safe_store st" and "\<not> ac_unset bd \<Longrightarrow> tsv_safe (ac_older_than bd)"
    and "LanceSetAutoCleanupFunc cn cat cu bd False (ctx, st) = (Inr row, fin, ctx', st')"
  shows "safe_store st' \<and> map_of st' = foldl (\<lambda>m (k, v). m(k := v)) (map_of st) (auto_cleanup_updates bd)"
proof -
  obtain uri u where upd: "update_config_all cn cu uri (auto_cleanup_updates bd) st = (Inr u, st')"
    using assms(4) by (auto simp: LanceSetAutoCleanupFunc_def split: prod.splits sum.splits)
  have d: "distinct (map fst st)" using assms(2) by (simp add: safe_store_def)
  have seen: "map (\<lambda>(k, v). (c_str k, map_option c_str v)) (auto_cleanup_updates bd) = auto_cleanup_updates bd"
    by (rule seen_updates(1)) (rule assms(3))
  have safe: "tsv_safe k \<and> tsv_safe v" if "(k, Some v) \<in> set (auto_cleanup_updates bd)" for k v
    by (rule seen_updates(2) [OF _ that]) (rule assms(3))
  have "distinct (map fst st')"
      "map_of st' = foldl (\<lambda>m (k, v). m(k := v)) (map_of st) (auto_cleanup_updates bd)"
    using update_config_all_spec [OF assms(1) d upd]
    by (simp_all only: foldl_updates_map [of c_str "map_option c_str"] seen)
  then show ?thesis using map_of_updates_safe [OF assms(2)] safe by blast
qed

lemma keys_distinct:
  "LANCE_AUTO_CLEANUP_INTERVAL_KEY \<noteq> LANCE_AUTO_CLEANUP_OLDER_THAN_KEY"
  "LANCE_AUTO_CLEANUP_INTERVAL_KEY \<noteq> LANCE_AUTO_CLEANUP_RETAIN_VERSIONS_KEY"
  "LANCE_AUTO_CLEANUP_OLDER_THAN_KEY \<noteq> LANCE_AUTO_CLEANUP_RETAIN_VERSIONS_KEY"
  by (simp_all add: key_defs)

lemma shown_after_updates:
  "shown_rows (foldl (\<lambda>m (k, v). m(k := v)) m (auto_cleanup_updates bd)) =
     (if ac_unset bd then [(''enabled'', ''false'')]
      else [(''enabled'', ''true''), (''interval'', int_to_string (ac_interval bd)), (''older_than'', ac_older_than bd)] @
        (case ac_retain_versions bd of None \<Rightarrow> [] | Some n \<Rightarrow> [(''retain_versions'', int_to_string n)]))"
  using keys_distinct keys_distinct [symmetric]
  by (auto simp: auto_cleanup_updates_def shown_rows_def split: option.splits)

lemma shown_rows_listed:
  assumes "splits (StringSplit nf)" and "safe_store st"
    and "LanceShowAutoCleanupInitGlobal cn cat nf target (ctx, st) = (Inr rows, ctx')"
  shows "rows = shown_rows (map_of st)"
proof -
  have "tsv_pairs nf (to_c_string (dataset_list_kv_inner st)) = st"
    using assms(2) by (intro listed_pairs [OF assms(1)]) (auto simp: safe_store_def list_all_iff)
  then have "rows = auto_cleanup_rows st"
    using assms(3) by (auto simp: LanceShowAutoCleanupInitGlobal_def ParseTsvRows_def split: prod.splits sum.splits)
  then show ?thesis using assms(2) auto_cleanup_rows_shown by (simp add: safe_store_def)
qed

end
