(* ===== verification/Json_Correct.thy ===== *)
theory Json_Correct
  imports Sql_Text
begin

text \<open>
  The JSON text made from a \<open>WITH\<close> clause, against a reader of JSON (RFC 8259) for what such a text may
  hold: an object whose members are strings, numbers and truth values.  Escapes of code points by
  number and exponents are left out of the reader, for the writer does not make them.
\<close>

section \<open>A reader\<close>

datatype json = JString string | JNumber string | JBool bool

definition json_escape :: "char \<Rightarrow> char option" where
  "json_escape e =
     (if e = quotation \<or> e = backslash \<or> e = CHR ''/'' then Some e
      else if e = CHR ''b'' then Some (CHR 0x08)
      else if e = CHR ''f'' then Some (CHR 0x0C)
      else if e = CHR ''n'' then Some (CHR 0x0A)
      else if e = CHR ''r'' then Some (CHR 0x0D)
      else if e = CHR ''t'' then Some (CHR 0x09)
      else None)"

text \<open>The text up to the closing quotation mark, in which control characters must be escaped.\<close>

fun json_string :: "string \<Rightarrow> (string \<times> string) option" where
  "json_string [] = None"
| "json_string [c] = (if c = quotation then Some ([], []) else None)"
| "json_string (c # d # cs) =
     (if c = quotation then Some ([], d # cs)
      else if (of_char c :: nat) < 32 then None
      else if c = backslash then
        (case json_escape d of
           None \<Rightarrow> None
         | Some x \<Rightarrow> map_option (\<lambda>(v, rest). (x # v, rest)) (json_string cs))
      else map_option (\<lambda>(v, rest). (c # v, rest)) (json_string (d # cs)))"

definition json_number_char :: "char \<Rightarrow> bool" where
  "json_number_char c \<longleftrightarrow> is_digit c \<or> c \<in> {CHR ''-'', CHR ''+'', CHR ''.''}"

text \<open>An optional minus, no leading zero, and digits on both sides of a point.\<close>

definition json_number :: "string \<Rightarrow> bool" where
  "json_number s \<longleftrightarrow>
     (let t = (if s \<noteq> [] \<and> hd s = CHR ''-'' then tl s else s);
          ip = takeWhile is_digit t;
          rest = dropWhile is_digit t
      in ip \<noteq> [] \<and> (hd ip = CHR ''0'' \<longrightarrow> ip = ''0'') \<and>
         (rest = [] \<or> (hd rest = CHR ''.'' \<and> tl rest \<noteq> [] \<and> list_all is_digit (tl rest))))"

definition json_value :: "string \<Rightarrow> (json \<times> string) option" where
  "json_value s =
     (if s \<noteq> [] \<and> hd s = quotation then map_option (\<lambda>(v, rest). (JString v, rest)) (json_string (tl s))
      else if take 4 s = ''true'' then Some (JBool True, drop 4 s)
      else if take 5 s = ''false'' then Some (JBool False, drop 5 s)
      else let n = takeWhile json_number_char s
           in if json_number n then Some (JNumber n, drop (length n) s) else None)"

lemma json_string_shorter: "json_string s = Some (v, rest) \<Longrightarrow> length rest < length s"
  by (induction s arbitrary: v rule: json_string.induct) (fastforce split: if_splits option.splits)+

lemma json_value_shorter: "json_value s = Some (v, rest) \<Longrightarrow> length rest \<le> length s"
  by (auto simp: json_value_def Let_def split: if_splits dest: json_string_shorter)

text \<open>The members up to the closing brace.\<close>

function json_members :: "string \<Rightarrow> ((string \<times> json) list \<times> string) option" where
  "json_members s =
     (if s = [] \<or> hd s \<noteq> quotation then None
      else (case json_string (tl s) of
          Some (k, c # s2) \<Rightarrow>
            if c \<noteq> CHR '':'' then None
            else (case json_value s2 of
                Some (v, d # s3) \<Rightarrow>
                  if d = CHR ''}'' then Some ([(k, v)], s3)
                  else if d = CHR '','' then map_option (\<lambda>(ms, rest). ((k, v) # ms, rest)) (json_members s3)
                  else None
              | _ \<Rightarrow> None)
        | _ \<Rightarrow> None))"
  by pat_completeness auto

termination json_members
  by (relation "measure length") (auto dest!: json_string_shorter json_value_shorter)

declare json_members.simps [simp del]

definition json_object :: "string \<Rightarrow> (string \<times> json) list option" where
  "json_object s =
     (if s = ''{}'' then Some []
      else if s \<noteq> [] \<and> hd s = CHR ''{'' then
        (case json_members (tl s) of Some (ms, []) \<Rightarrow> Some ms | _ \<Rightarrow> None)
      else None)"


section \<open>Strings\<close>

text \<open>The characters the writer handles: no control character but newline, return and tab.\<close>

definition writable :: "char \<Rightarrow> bool" where
  "writable c \<longleftrightarrow> 32 \<le> (of_char c :: nat) \<or> c = CHR 0x0A \<or> c = CHR 0x0D \<or> c = CHR 0x09"

lemma json_string_step:
  assumes "json_string cs = r" and "cs \<noteq> []" and "c \<noteq> quotation" and "c \<noteq> backslash" and "32 \<le> (of_char c :: nat)"
  shows "json_string (c # cs) = map_option (\<lambda>(v, rest). (c # v, rest)) r"
  using assms by (cases cs) auto

lemma escape_char_read:
  assumes "cs \<noteq> []"
  shows "json_string (escape_char c @ cs) =
    (if writable c then map_option (\<lambda>(v, rest). (c # v, rest)) (json_string cs) else None)"
proof -
  consider (esc) "c \<in> {backslash, quotation, CHR 0x0A, CHR 0x0D, CHR 0x09}"
    | (plain) "c \<notin> {backslash, quotation, CHR 0x0A, CHR 0x0D, CHR 0x09}" by blast
  then show ?thesis
  proof cases
    case esc
    then show ?thesis by (auto simp: escape_char_def json_escape_def writable_def)
  next
    case plain
    obtain d ds where cs: "cs = d # ds" using assms by (cases cs) auto
    show ?thesis using plain by (auto simp: cs escape_char_def writable_def)
  qed
qed

lemma EscapeJsonString_read:
  "json_string (EscapeJsonString s @ quotation # r) = (if list_all writable s then Some (s, r) else None)"
proof (induction s)
  case Nil
  then show ?case by (cases r) (auto simp: EscapeJsonString_def)
next
  case (Cons c s)
  have "EscapeJsonString (c # s) @ quotation # r = escape_char c @ (EscapeJsonString s @ quotation # r)"
    by (simp add: EscapeJsonString_def)
  then show ?case
    using Cons escape_char_read [of "EscapeJsonString s @ quotation # r" c] by (auto split: if_splits)
qed


section \<open>Options\<close>

text \<open>What an entry of the clause means, and when its text is JSON.\<close>

definition option_meaning :: "duckdb \<Rightarrow> sql_host \<Rightarrow> string \<Rightarrow> json" where
  "option_meaning db h val =
     (if StartsWithQuotedString val then JString (case whole_literal h val of Some lit \<Rightarrow> lit | None \<Rightarrow> [])
      else if StringLower db val = ''true'' then JBool True
      else if StringLower db val = ''false'' then JBool False
      else if IsNumberLiteral val then JNumber val
      else JString val)"

fun json_writable :: "json \<Rightarrow> bool" where
  "json_writable (JString s) = list_all writable s"
| "json_writable (JNumber s) = json_number s"
| "json_writable (JBool b) = True"

lemma number_scan_chars: "number_scan a b s \<Longrightarrow> list_all json_number_char s"
  by (induction s arbitrary: a b) (auto simp: json_number_char_def split: if_splits)

lemma IsNumberLiteral_chars: "IsNumberLiteral s \<Longrightarrow> list_all json_number_char s"
  by (cases s) (auto simp: IsNumberLiteral_def json_number_char_def dest!: number_scan_chars split: if_splits)

lemma not_number_chars:
  "\<not> json_number_char quotation" "\<not> json_number_char (CHR ''t'')" "\<not> json_number_char (CHR ''f'')"
  "\<not> json_number_char (CHR '','')" "\<not> json_number_char (CHR ''}'')"
  by code_simp+

lemma json_value_number:
  assumes "list_all json_number_char n" and "json_number n" and "\<not> json_number_char c"
  shows "json_value (n @ c # r) = Some (JNumber n, c # r)"
proof -
  obtain x xs where n: "n = x # xs" using assms(2) by (cases n) (auto simp: json_number_def)
  then have "json_number_char x" using assms(1) by simp
  then have "x \<noteq> quotation" "x \<noteq> CHR ''t''" "x \<noteq> CHR ''f''" using not_number_chars by metis+
  moreover have "takeWhile json_number_char (n @ c # r) = n"
    using assms(1,3) by (simp add: takeWhile_append2 list_all_iff)
  ultimately show ?thesis using assms(2) by (simp add: json_value_def n)
qed

lemma json_value_string: "list_all writable s \<Longrightarrow> json_value (json_quoted s @ r) = Some (JString s, r)"
  by (simp add: json_value_def json_quoted_def EscapeJsonString_read)

lemma with_json_value_read:
  assumes "with_json_value db h val = Inr t" and "json_writable (option_meaning db h val)" and "\<not> json_number_char c"
  shows "json_value (t @ c # r) = Some (option_meaning db h val, c # r)"
proof (cases "StartsWithQuotedString val")
  case True
  then show ?thesis using assms(1,2) json_value_string
    by (auto simp: with_json_value_def option_meaning_def split: option.splits)
next
  case False
  show ?thesis
  proof (cases "StringLower db val = ''true'' \<or> StringLower db val = ''false''")
    case True
    then show ?thesis using False assms(1)
      by (auto simp: with_json_value_def option_meaning_def json_value_def Let_def)
  next
    case F: False
    then show ?thesis
      using False assms json_value_string json_value_number [OF IsNumberLiteral_chars]
      by (auto simp: with_json_value_def option_meaning_def Let_def split: if_splits)
  qed
qed

text \<open>The members as they are written, one after the other.\<close>

fun members_text :: "(string \<times> string) list \<Rightarrow> string" where
  "members_text [] = []"
| "members_text [(k, t)] = json_quoted k @ '':'' @ t"
| "members_text ((k, t) # m # ms) = json_quoted k @ '':'' @ t @ '','' @ members_text (m # ms)"

lemma json_members_first:
  assumes "list_all writable k" and "json_value s2 = Some (v, d # s3)"
  shows "json_members (json_quoted k @ '':'' @ s2) =
    (if d = CHR ''}'' then Some ([(k, v)], s3)
     else if d = CHR '','' then map_option (\<lambda>(ms, rest). ((k, v) # ms, rest)) (json_members s3)
     else None)"
  using assms by (subst json_members.simps) (simp add: json_quoted_def EscapeJsonString_read)

lemma members_text_Nil_iff: "members_text ms = [] \<longleftrightarrow> ms = []"
  by (cases ms rule: members_text.cases) (auto simp: json_quoted_def)

lemma members_text_snoc:
  "members_text (ms @ [(k, t)]) = members_text ms @ (if ms = [] then [] else '','') @ json_quoted k @ '':'' @ t"
  by (induction ms rule: members_text.induct) auto

lemma append_json_members: "append_json (''{'' @ members_text ms) k t = ''{'' @ members_text (ms @ [(k, t)])"
  by (simp add: append_json_def members_text_snoc members_text_Nil_iff)

text \<open>The entries of a clause as keys and values, and the JSON text they are written as.\<close>

definition option_text :: "duckdb \<Rightarrow> sql_host \<Rightarrow> string \<times> string \<Rightarrow> string + string \<times> string" where
  "option_text db h kv = res_bind (with_json_value db h (snd kv)) (\<lambda>t. Inr (fst kv, t))"

lemma options_fold:
  assumes "res_foldl (\<lambda>json kv. res_bind (with_key_value h kv) (\<lambda>(key, val).
      res_bind (with_json_value db h val) (\<lambda>t. Inr (append_json json key t)))) (''{'' @ members_text ms) kvs = Inr json"
  shows "\<exists>entries texts. res_map (with_key_value h) kvs = Inr entries \<and> res_map (option_text db h) entries = Inr texts \<and>
    json = ''{'' @ members_text (ms @ texts)"
  using assms
proof (induction kvs arbitrary: ms)
  case (Cons kv kvs)
  obtain key val t where kv: "with_key_value h kv = Inr (key, val)" "with_json_value db h val = Inr t"
    and rest: "res_foldl (\<lambda>json kv. res_bind (with_key_value h kv) (\<lambda>(key, val).
      res_bind (with_json_value db h val) (\<lambda>t. Inr (append_json json key t))))
      (''{'' @ members_text (ms @ [(key, t)])) kvs = Inr json"
    using Cons(2) by (auto simp: res_bind_Inr_iff append_json_members simp del: append_Cons append_Nil)
  obtain entries texts where "res_map (with_key_value h) kvs = Inr entries"
      "res_map (option_text db h) entries = Inr texts" "json = ''{'' @ members_text ((ms @ [(key, t)]) @ texts)"
    using Cons(1) [OF rest] by blast
  moreover have "option_text db h (key, val) = Inr (key, t)" using kv(2) by (simp add: option_text_def)
  ultimately have "res_map (with_key_value h) (kv # kvs) = Inr ((key, val) # entries) \<and>
      res_map (option_text db h) ((key, val) # entries) = Inr ((key, t) # texts) \<and>
      json = ''{'' @ members_text (ms @ (key, t) # texts)"
    using kv(1) by simp
  then show ?case by blast
qed simp

text \<open>The text of an option is read as what the option means.\<close>

lemma option_texts_read:
  assumes "res_map (option_text db h) entries = Inr texts"
    and "list_all (\<lambda>(k, v). list_all writable k \<and> json_writable (option_meaning db h v)) entries" and "texts \<noteq> []"
  shows "json_members (members_text texts @ CHR ''}'' # r) =
    Some (map (\<lambda>(k, v). (k, option_meaning db h v)) entries, r)"
proof -
  have all2: "list_all2 (\<lambda>e m. option_text db h e = Inr m) entries texts"
    using assms(1) by (simp add: res_map_Inr_list_all2)
  show ?thesis
    using all2 assms(2,3)
  proof (induction entries texts rule: list_all2_induct)
    case (Cons e es m ms)
    obtain k v where e: "e = (k, v)" by (cases e)
    obtain t where t: "with_json_value db h v = Inr t" "m = (k, t)"
      using Cons(1) by (auto simp: e option_text_def res_bind_Inr_iff)
    have ok: "list_all writable k" "json_writable (option_meaning db h v)" using Cons(4) by (auto simp: e)
    note rd = with_json_value_read [OF t(1) ok(2)]
    show ?case
    proof (cases ms)
      case Nil
      then have "es = []" using Cons(2) by simp
      then show ?thesis
        using json_members_first [OF ok(1) rd [of "CHR ''}''"]] not_number_chars by (simp add: e t(2) Nil)
    next
      case (Cons m' ms')
      have "json_members (members_text ms @ CHR ''}'' # r) = Some (map (\<lambda>(k, v). (k, option_meaning db h v)) es, r)"
        using Cons.IH Cons.prems Cons by simp
      then show ?thesis
        using json_members_first [OF ok(1) rd [of "CHR '',''" "members_text ms @ CHR ''}'' # r"]] not_number_chars
        by (cases m') (simp add: e t(2) Cons)
    qed
  qed simp
qed


lemma TryBuildOptionsJson_read:
  assumes "TryBuildOptionsJsonFromWithClause db h sql = Inr json" and "json \<noteq> []"
  shows "\<exists>kvs entries. with_entries db h False (TrimCopy h sql) = Inr kvs \<and>
    res_map (with_key_value h) kvs = Inr entries \<and>
    (list_all (\<lambda>(k, v). list_all writable k \<and> json_writable (option_meaning db h v)) entries \<longrightarrow>
       json_object json = Some (map (\<lambda>(k, v). (k, option_meaning db h v)) entries))"
proof -
  obtain kvs j where kvs: "with_entries db h False (TrimCopy h sql) = Inr kvs"
    and fold: "res_foldl (\<lambda>json kv. res_bind (with_key_value h kv) (\<lambda>(key, val).
      res_bind (with_json_value db h val) (\<lambda>t. Inr (append_json json key t)))) (''{'' @ members_text []) kvs = Inr j"
    and json: "json = finish_json j"
    using assms by (auto simp: TryBuildOptionsJsonFromWithClause_def Let_def res_bind_Inr_iff split: if_splits)
  obtain entries texts where e: "res_map (with_key_value h) kvs = Inr entries"
      "res_map (option_text db h) entries = Inr texts" and j: "j = ''{'' @ members_text texts"
    using options_fold [OF fold] by auto
  have texts: "texts \<noteq> []" using assms(2) by (auto simp: json j finish_json_def)
  then have "members_text texts \<noteq> []" by (simp add: members_text_Nil_iff)
  then have whole: "json = CHR ''{'' # members_text texts @ ''}''" "members_text texts @ ''}'' \<noteq> ''}''"
    by (simp_all add: json j finish_json_def)
  have "json_object json = Some (map (\<lambda>(k, v). (k, option_meaning db h v)) entries)"
    if "list_all (\<lambda>(k, v). list_all writable k \<and> json_writable (option_meaning db h v)) entries"
    using option_texts_read [OF e(2) that texts, of "[]"] whole by (simp add: json_object_def)
  then show ?thesis using kvs e(1) by blast
qed

end
