(* ===== verification/Statement_Samples.thy ===== *)
theory Statement_Samples
  imports Host_Samples Index_Routes Maintenance_Correct Json_Correct Services_Correct Truncate
begin

text \<open>
  A host on which the statement code runs in the witnesses: text functions that strip blanks at both
  ends, split and join; a library that stores configuration entries in a list; a catalog without
  tables; and resolvers sorted by priority.
\<close>

section \<open>Text\<close>

definition strip_blanks :: "string \<Rightarrow> string" where
  "strip_blanks s = rev (dropWhile IsSpace (rev (dropWhile IsSpace s)))"

lemma dropWhile_all: "list_all P p \<Longrightarrow> dropWhile P (p @ s) = dropWhile P s"
  by (induction p) auto

lemma strip_blanks_parts: "\<exists>p q. s = p @ strip_blanks s @ q \<and> list_all IsSpace p \<and> list_all IsSpace q"
proof -
  let ?t = "dropWhile IsSpace s"
  have "s = takeWhile IsSpace s @ rev (dropWhile IsSpace (rev ?t)) @ rev (takeWhile IsSpace (rev ?t))"
    by (metis rev_append rev_rev_ident takeWhile_dropWhile_id)
  moreover have "list_all IsSpace (takeWhile IsSpace s)" "list_all IsSpace (rev (takeWhile IsSpace (rev ?t)))"
    by (auto simp: list_all_iff dest: set_takeWhileD)
  ultimately show ?thesis unfolding strip_blanks_def by blast
qed

lemma strip_blanks_around:
  assumes "list_all IsSpace p" and "list_all IsSpace q"
  shows "strip_blanks (p @ s @ q) = strip_blanks s"
proof (cases "list_all IsSpace s")
  case True
  then have blank: "dropWhile IsSpace (p @ s @ q) = []" "dropWhile IsSpace s = []"
    using assms by (auto simp: list_all_iff)
  show ?thesis unfolding strip_blanks_def blank by (rule refl)
next
  case False
  then obtain x where "x \<in> set s" "\<not> IsSpace x" by (auto simp: list_all_iff)
  then have "dropWhile IsSpace (s @ q) = dropWhile IsSpace s @ q" by (rule dropWhile_append1)
  then show ?thesis using assms by (simp add: strip_blanks_def dropWhile_all)
qed

lemma strip_blanks_trims: "trims strip_blanks"
proof -
  have blank: "list_all (\<lambda>c. \<not> plain c) q" if "list_all IsSpace q" for q
    using that by (auto simp: list_all_iff plain_def)
  have "\<exists>p q. s = p @ strip_blanks s @ q \<and> list_all IsSpace p \<and> list_all (\<lambda>c. \<not> plain c) q" for s
    using strip_blanks_parts [of s] blank by blast
  moreover have "strip_blanks (strip_blanks s) = strip_blanks s" for s
    using strip_blanks_parts [of s] strip_blanks_around by metis
  ultimately show ?thesis unfolding trims_def using strip_blanks_around by blast
qed

definition sample_sql :: sql_host where
  "sample_sql = \<lparr>
     Trim = strip_blanks,
     StringUpper = map ascii_upper,
     StringReplace = (\<lambda>s a b. map (\<lambda>c. if [c] = a then hd b else c) s),
     StringJoin = (\<lambda>xs sep. joined sep xs),
     ValueToString = (\<lambda>v. []),
     ParseQualifiedName = (\<lambda>s. Inr \<lparr>qn_catalog = [], qn_schema = [], qn_name = s\<rparr>),
     GetDefaultDatabase = ''memory'',
     DEFAULT_SCHEMA = ''main''\<rparr>"

text \<open>DuckDB as far as statements use it: case folding and casts to the type a value has.\<close>

definition statement_duckdb :: duckdb where
  "statement_duckdb = \<lparr>
     StringLower = map ascii_lower,
     CIEquals = (\<lambda>a b. map ascii_lower a = map ascii_lower b),
     DefaultCastAs = (\<lambda>v t. if value_type v = t then Some v else None),
     DecimalToString = (\<lambda>v. []), DateIsFinite = (\<lambda>d. True), TimestampIsFinite = (\<lambda>t. True),
     HugeMul = (\<lambda>a b. None), HugeAdd = (\<lambda>a b. None), HugeNeg = (\<lambda>a. None),
     InternalType = (\<lambda>t. OTHER_PHYSICAL), ExpressionTypeToOperator = (\<lambda>t. []), GetName = (\<lambda>e. []),
     HasParameter = (\<lambda>e. False), IsVolatile = (\<lambda>e. False), CanThrow = (\<lambda>e. False),
     COLUMN_IDENTIFIER_ROW_ID = 1, COLUMN_IDENTIFIER_EMPTY = 2\<rparr>"

lemma statement_string_util: "string_util statement_duckdb"
  by (simp add: string_util_def statement_duckdb_def)

lemma sample_text_util: "text_util sample_sql"
  using strip_blanks_trims by (simp add: text_util_def sample_sql_def)

fun split_at :: "string \<Rightarrow> char \<Rightarrow> string list" where
  "split_at [] c = [[]]"
| "split_at (x # s) c =
     (if x = c then [] # split_at s c else (case split_at s c of [] \<Rightarrow> [[x]] | p # ps \<Rightarrow> (x # p) # ps))"

lemma split_at_part: "c \<notin> set p \<Longrightarrow> split_at (p @ c # s) c = p # split_at s c"
  by (induction p) auto

lemma split_at_end: "c \<notin> set p \<Longrightarrow> split_at p c = [p]"
  by (induction p) auto

lemma split_at_splits: "splits split_at"
proof -
  have "filter (\<lambda>p. p \<noteq> []) (split_at (concat (map (\<lambda>p. p @ [c]) ps)) c) = ps"
    if "\<forall>p \<in> set ps. p \<noteq> [] \<and> c \<notin> set p" for c ps
    using that by (induction ps) (simp_all add: split_at_part)
  moreover have "split_at (x @ [c] @ y) c = [x, y]" if "c \<notin> set x" "c \<notin> set y" for c x y
    using that by (simp add: split_at_part split_at_end)
  ultimately show ?thesis unfolding splits_def by blast
qed


section \<open>Configuration, catalog and resolvers\<close>

definition sample_committer :: committer where
  "sample_committer target k v st = Some (case v of None \<Rightarrow> AList.delete k st | Some x \<Rightarrow> AList.update k x st)"

lemma sample_commits: "commits sample_committer"
  unfolding commits_def sample_committer_def
  by (auto simp: update_conv' delete_conv' distinct_update distinct_delete fun_eq_iff split: option.splits)

lemma statement_casts: "casts_keep statement_duckdb"
  by (simp add: casts_keep_def statement_duckdb_def)

definition sample_namespace :: namespace_ffi where
  "sample_namespace = \<lparr>
     lance_namespace_list_tables = (\<lambda>c. None),
     lance_namespace_describe_table = (\<lambda>c. None),
     lance_namespace_create_empty_table = (\<lambda>c. None),
     lance_namespace_drop_table = (\<lambda>c. False),
     lance_dir_namespace_list_tables = (\<lambda>r os. None),
     StringSplit = split_at\<rparr>"

lemma sample_splits: "splits (StringSplit sample_namespace)"
  using split_at_splits by (simp add: sample_namespace_def)

definition sample_catalog :: catalog_fns where
  "sample_catalog = \<lparr>ParseName = (\<lambda>s. None), GetEntry = (\<lambda>q. None)\<rparr>"

text \<open>Insertion sort with the comparison it is given meets the contract of \<open>std::sort\<close>.\<close>

fun insert_by :: "('a \<Rightarrow> 'a \<Rightarrow> bool) \<Rightarrow> 'a \<Rightarrow> 'a list \<Rightarrow> 'a list" where
  "insert_by lt x [] = [x]"
| "insert_by lt x (y # ys) = (if lt y x then y # insert_by lt x ys else x # y # ys)"

definition sample_sort :: sort_fn where
  "sample_sort lt rs = foldr (insert_by lt) rs []"

lemma mset_insert_by: "mset (insert_by lt x ys) = add_mset x (mset ys)"
  by (induction ys) auto

lemma not_less_trans:
  assumes "strict_weak_order lt" and "\<not> lt b a" and "\<not> lt c b"
  shows "\<not> lt c a"
  using assms unfolding strict_weak_order_def irreflp_def transp_def by metis

lemma sorted_insert_by:
  assumes "strict_weak_order lt" and "sorted_wrt (\<lambda>a b. \<not> lt b a) ys"
  shows "sorted_wrt (\<lambda>a b. \<not> lt b a) (insert_by lt x ys)"
  using assms(2)
proof (induction ys)
  case (Cons y ys)
  have set: "set (insert_by lt x ys) = insert x (set ys)"
    using mset_insert_by [of lt x ys] by (metis set_mset_add_mset_insert set_mset_mset)
  have asym: "lt y x \<Longrightarrow> \<not> lt x y"
    using assms(1) unfolding strict_weak_order_def irreflp_def transp_def by blast
  show ?case
    using Cons set asym not_less_trans [OF assms(1), of y x] by auto
qed simp

lemma sample_sorts: "std_sorts sample_sort"
  unfolding std_sorts_def
proof (intro allI impI)
  fix lt :: "resolver \<Rightarrow> resolver \<Rightarrow> bool" and rs
  assume "strict_weak_order lt"
  then show "mset (sample_sort lt rs) = mset rs \<and> sorted_wrt (\<lambda>a b. \<not> lt b a) (sample_sort lt rs)"
    by (induction rs) (simp_all add: sample_sort_def mset_insert_by sorted_insert_by)
qed

text \<open>Two resolvers that both answer, registered after the default one, the stronger one first.\<close>

definition weak_resolver :: resolver where
  "weak_resolver = \<lparr>resolver_name = ''weak'', resolver_priority = 1,
     TryResolve = (\<lambda>s. LanceResolveResult_Success ''weak.lance'')\<rparr>"

definition strong_resolver :: resolver where
  "strong_resolver = \<lparr>resolver_name = ''strong'', resolver_priority = 5,
     TryResolve = (\<lambda>s. LanceResolveResult_Success ''strong.lance'')\<rparr>"

definition sample_resolvers :: "resolver list" where
  "sample_resolvers = RegisterResolver sample_sort (Some weak_resolver)
     (RegisterResolver sample_sort (Some strong_resolver)
        (NewLanceDatasetResolverRegistry (\<lambda>name. CatalogException [])))"

lemma sample_resolvers_eq:
  "sample_resolvers = [strong_resolver, weak_resolver, DefaultCatalogResolver (\<lambda>name. CatalogException [])]"
  by (simp add: sample_resolvers_def RegisterResolver_def SortResolvers_def NewLanceDatasetResolverRegistry_def
      DefaultCatalogResolver_def weak_resolver_def strong_resolver_def sample_sort_def)

lemma sample_decides: "decides sample_resolvers ''t'' uri \<longleftrightarrow> uri = ''strong.lance''"
  by (auto simp: decides_def sample_resolvers_eq DefaultCatalogResolver_def weak_resolver_def strong_resolver_def
      LanceResolveResult_Success_def DefaultCatalogResolver_TryResolve_def LanceResolveResult_Failure_def)


section \<open>An index statement\<close>

definition index_statement :: LanceIndexParseData where
  "index_statement = (NewLanceIndexParseData Create)\<lparr>ix_index_name := ''idx'', ix_target_sql := ''t'',
     ix_columns := [''t.`a,b`''], ix_index_type := ''BTREE''\<rparr>"

abbreviation sample_entry :: catalog_lookup where
  "sample_entry \<equiv> \<lambda>c s t. Inr (LanceTable sample_table)"

definition sample_indexes :: index_ffi where
  "sample_indexes = \<lparr>lance_dataset_create_index = (\<lambda>h n cs t p r tr. 0), lance_dataset_drop_index = (\<lambda>h n. 0),
     lance_get_index_list_schema = (\<lambda>h. Some h), lance_index_schema_to_arrow = (\<lambda>s. 0)\<rparr>"

definition index_bound :: LanceIndexDdlBindData where
  "index_bound = ddl_on_table ''memory'' ''main'' ''t'' ''idx'' [''`a,b`''] ''BTREE'' [] False True"

lemma index_statement_parsed:
  "LanceIndexParse statement_duckdb sample_sql '' create Index idx ON t ( t.`a,b` ) using btree ;'' = Parsed index_statement"
  by code_simp

lemma index_statement_planned:
  "LanceIndexPlan statement_duckdb sample_sql index_statement =
     Inr (LanceCreateIndexTableTableFunction,
       [VarcharValue ''memory'', VarcharValue ''main'', VarcharValue ''t'', VarcharValue ''idx'', VarcharValue ''`a,b`'',
        VarcharValue ''BTREE'', VarcharValue [], BooleanValue False, BooleanValue True], NOTHING)"
  "qualified_target sample_sql (ix_target_sql index_statement) =
     Inr \<lparr>qn_catalog = ''memory'', qn_schema = ''main'', qn_name = ''t''\<rparr>"
  by code_simp+

lemma index_statement_bound:
  "LanceCreateIndexTableBind statement_duckdb sample_sql sample_entry
     [VarcharValue ''memory'', VarcharValue ''main'', VarcharValue ''t'', VarcharValue ''idx'', VarcharValue ''`a,b`'',
      VarcharValue ''BTREE'', VarcharValue [], BooleanValue False, BooleanValue True] = Inr index_bound"
  by code_simp


section \<open>A maintenance statement\<close>

definition cleanup_statement :: LanceMaintenanceParseData where
  "cleanup_statement = (on_target (False, [], ''t'') SET_AUTO_CLEANUP)
     \<lparr>auto_cleanup_interval := 20, auto_cleanup_older_than := ''14d''\<rparr>"

definition cleanup_bound :: LanceAutoCleanupSetBindData where
  "cleanup_bound = \<lparr>ac_dataset_uri = ''/data/t'', ac_input_str = ''memory.main.t'', ac_unset = False,
     ac_interval = 20, ac_older_than = ''14d'', ac_retain_versions = None\<rparr>"

lemma cleanup_statement_parsed:
  "LanceMaintenanceParse statement_duckdb sample_sql
     (''ALTER TABLE t SET AUTO_CLEANUP WITH (interval = 20, older_than = '' @ [apostrophe] @ ''14d'' @ [apostrophe] @ '')'')
     = Parsed cleanup_statement"
  by code_simp

lemma cleanup_statement_planned:
  "LanceMaintenancePlan sample_sql cleanup_statement =
     Inr (LanceInternalSetAutoCleanupTableFunction,
       [VarcharValue ''memory.main.t'', BigIntValue 20, VarcharValue ''14d'', sql_null, BooleanValue False], QUERY_RESULT)"
  by code_simp

lemma cleanup_statement_bound:
  "LanceSetAutoCleanupBind statement_duckdb (\<lambda>v. Inr ''/data/t'')
     [VarcharValue ''memory.main.t'', BigIntValue 20, VarcharValue ''14d'', sql_null, BooleanValue False] =
   Inr cleanup_bound"
  by code_simp

lemma sample_open:
  "\<exists>ctx'. open_for_maintenance sample_connection sample_catalog ''/data/t'' s sample_ctx = (Inr (11, ''/data/t''), ctx')"
proof -
  obtain ctx' where "session_handle sample_connection sample_ctx = (Inr 7, ctx')" using sample_session(1) by blast
  then show ?thesis
    by (simp add: open_for_maintenance_def sample_catalog_def TryResolveLanceTableEntry_def LanceOpenDataset_def
        sample_resolve OpenResolvedPathDataset_def no_options_def sample_connection_def sample_dataset_ffi_def)
qed

lemma cleanup_updates_commit:
  "\<exists>st'. update_config_all cn sample_committer uri (auto_cleanup_updates cleanup_bound) [] = (Inr (), st')"
proof -
  have run: "\<exists>st'. update_config_all cn sample_committer uri kvs st = (Inr (), st')"
    if "list_all (\<lambda>(k, v). utf8_string (c_str k) \<and> (case v of None \<Rightarrow> True | Some v \<Rightarrow> utf8_string (c_str v))) kvs" for kvs st
    using that
    by (induction kvs arbitrary: st)
      (auto simp: UpdateDatasetConfigOrThrow_def dataset_update_inner_def sample_committer_def split: option.splits)
  show ?thesis by (rule run) code_simp
qed

lemma cleanup_statement_runs:
  "\<exists>row fin ctx' st'. LanceSetAutoCleanupFunc sample_connection sample_catalog sample_committer
     cleanup_bound False (sample_ctx, []) = (Inr row, fin, ctx', st')"
proof -
  have "ac_dataset_uri cleanup_bound = ''/data/t''" "ac_input_str cleanup_bound = ''memory.main.t''"
    by (simp_all add: cleanup_bound_def)
  then show ?thesis
    using sample_open [of "''memory.main.t''"] cleanup_updates_commit [of sample_connection "''/data/t''"]
    by (auto simp: LanceSetAutoCleanupFunc_def)
qed

lemma cleanup_shown:
  "\<exists>rows ctx'. LanceShowAutoCleanupInitGlobal sample_connection sample_catalog sample_namespace
     (''/data/t'', ''t'') (sample_ctx, st) = (Inr rows, ctx')"
  using sample_open [of "''t''"] by (auto simp: LanceShowAutoCleanupInitGlobal_def ParseTsvRows_def)

end
