(* ===== verification/Row_Lookup.thy ===== *)
theory Row_Lookup
  imports Filter_IR
begin

text \<open>
  Point lookups (\<open>lance_scan.cpp\<close>): a predicate on \<open>rowid\<close> or \<open>_rowid\<close> that is an IN list, an
  equality or a disjunction of those is turned into the list of rows to take.  The two builds differ:
  with \<open>LANCE_VANE_DISTRIBUTED\<close> NULL is skipped and repeated rows are dropped; every operation that
  depends on it takes the flag \<open>vane\<close>.
\<close>

section \<open>Row ids\<close>

definition LANCE_COLUMN_IDENTIFIER_ROW_ID :: nat where
  "LANCE_COLUMN_IDENTIFIER_ROW_ID = 9223372036854775900"

definition LANCE_ROW_ID_COLUMN_NAME :: string where
  "LANCE_ROW_ID_COLUMN_NAME = ''_rowid''"

definition IsLanceVirtualRowIdColumnId :: "nat \<Rightarrow> bool" where
  "IsLanceVirtualRowIdColumnId col_id \<longleftrightarrow> col_id = LANCE_COLUMN_IDENTIFIER_ROW_ID"

definition cast_signed :: "int \<Rightarrow> u64 option" where
  "cast_signed v = (if v < 0 then None else Some (word_of_int v))"

fun TryParseRowIdValue :: "Value \<Rightarrow> u64 option" where
  "TryParseRowIdValue (TinyIntValue v) = cast_signed (sint v)"
| "TryParseRowIdValue (SmallIntValue v) = cast_signed (sint v)"
| "TryParseRowIdValue (IntegerValue v) = cast_signed (sint v)"
| "TryParseRowIdValue (BigIntValue v) = cast_signed (sint v)"
| "TryParseRowIdValue (UTinyIntValue v) = Some (ucast v)"
| "TryParseRowIdValue (USmallIntValue v) = Some (ucast v)"
| "TryParseRowIdValue (UIntegerValue v) = Some (ucast v)"
| "TryParseRowIdValue (UBigIntValue v) = Some v"
| "TryParseRowIdValue v = None"

text \<open>
  The column handed to DuckDB: \<open>ROW_TYPE\<close> is the signed 64-bit type, an invalid row of the vector is
  \<open>None\<close>.
\<close>

definition ROW_TYPE :: LogicalType where
  "ROW_TYPE = SimpleType BIGINT"

definition cast_row_id :: "u64 option \<Rightarrow> exn + u64 option" where
  "cast_row_id v =
     (case v of
        None \<Rightarrow> Inr None
      | Some r \<Rightarrow> if r > 0x7fffffffffffffff then Inl (InvalidInputException ''Lance rowid values must fit in signed 64-bit integers'')
                 else Inr (Some r))"

definition CastRowIdToDuckDBRowType :: "LogicalType \<Rightarrow> LogicalType \<Rightarrow> u64 option list \<Rightarrow> exn + u64 option list" where
  "CastRowIdToDuckDBRowType src_type dst_type rows =
     (if rows = [] then Inr []
      else if src_type \<noteq> SimpleType UBIGINT \<or> dst_type \<noteq> ROW_TYPE then Inl (InternalException ''Invalid rowid cast types'')
      else res_map cast_row_id rows)"

text \<open>
  The loop that keeps first occurrences: the position it writes is never ahead of the one it reads,
  so the rows still to be read are those of the argument.
\<close>

fun normalize_rows :: "u64 set \<Rightarrow> u64 list \<Rightarrow> u64 list \<Rightarrow> u64 list" where
  "normalize_rows seen out [] = out"
| "normalize_rows seen out (r # rows) =
     (if r \<in> seen then normalize_rows seen out rows else normalize_rows (insert r seen) (out @ [r]) rows)"

definition NormalizeSqlTakeRowIds :: "u64 list \<Rightarrow> u64 list" where
  "NormalizeSqlTakeRowIds rows = normalize_rows {} [] rows"


section \<open>Row ids of a table filter\<close>

definition lookup_value :: "Value \<Rightarrow> (exn, u64) outcome" where
  "lookup_value v =
     (case TryParseRowIdValue v of
        Some r \<Rightarrow> Done r
      | None \<Rightarrow> Raised (InvalidInputException ''Lance point lookup requires non-negative integer rowid/_rowid values''))"

text \<open>With the distributed build an equality with NULL is no lookup.\<close>

definition lookup_equal :: "bool \<Rightarrow> Value \<Rightarrow> (exn, u64) outcome" where
  "lookup_equal vane v = (if vane \<and> is_null v then Refused else lookup_value v)"

fun lookup_values :: "bool \<Rightarrow> Value list \<Rightarrow> (exn, u64 list) outcome" where
  "lookup_values vane [] = Done []"
| "lookup_values vane (v # vs) =
     (if vane \<and> is_null v then lookup_values vane vs
      else try_bind (lookup_value v) (\<lambda>r. try_bind (lookup_values vane vs) (\<lambda>rs. Done (r # rs))))"

fun TryExtractTakeRowIdsFromFilter :: "bool \<Rightarrow> TableFilter \<Rightarrow> (exn, u64 list) outcome" where
  "TryExtractTakeRowIdsFromFilter vane (InFilter vs) = lookup_values vane vs"
| "TryExtractTakeRowIdsFromFilter vane (ConstantFilter k v) =
     (if k = COMPARE_EQUAL then try_bind (lookup_equal vane v) (\<lambda>r. Done [r]) else Refused)"
| "TryExtractTakeRowIdsFromFilter vane (OptionalFilter (Some f)) = TryExtractTakeRowIdsFromFilter vane f"
| "TryExtractTakeRowIdsFromFilter vane f = Refused"

fun IsTakeRowIdFilter :: "TableFilter \<Rightarrow> bool" where
  "IsTakeRowIdFilter (InFilter vs) = True"
| "IsTakeRowIdFilter (ConstantFilter k v) = (k = COMPARE_EQUAL)"
| "IsTakeRowIdFilter (OptionalFilter (Some f)) = IsTakeRowIdFilter f"
| "IsTakeRowIdFilter f = False"

text \<open>\<open>find\<close> on the ordered map of filters.\<close>

definition filter_at :: "TableFilterSet \<Rightarrow> nat \<Rightarrow> TableFilter option" where
  "filter_at fs c = (case map_of fs c of Some (Some f) \<Rightarrow> Some f | _ \<Rightarrow> None)"

definition TryExtractTakeRowIdsFromFilters :: "bool \<Rightarrow> TableFilterSet \<Rightarrow> nat \<Rightarrow> (exn, u64 list) outcome" where
  "TryExtractTakeRowIdsFromFilters vane fs row_id_col_idx =
     (case filter_at fs row_id_col_idx of
        None \<Rightarrow> Refused
      | Some f \<Rightarrow>
          if vane then try_bind (TryExtractTakeRowIdsFromFilter vane f) (\<lambda>rows.
            let rows = NormalizeSqlTakeRowIds rows in if rows = [] then Refused else Done rows)
          else TryExtractTakeRowIdsFromFilter vane f)"


section \<open>Row ids of an expression\<close>

definition row_id_position :: "duckdb \<Rightarrow> LogicalGet \<Rightarrow> nat \<Rightarrow> bool" where
  "row_id_position db get i \<longleftrightarrow>
     (i < length (get_column_ids get) \<and>
      (let col_id = GetPrimaryIndex (get_column_ids get ! i)
       in col_id = COLUMN_IDENTIFIER_ROW_ID db \<or> IsLanceVirtualRowIdColumnId col_id))"

text \<open>The overload for column references, also the lambda \<open>is_rowid_ref\<close> of the filter pushdown.\<close>

definition IsLanceRowIdColumn :: "duckdb \<Rightarrow> LogicalGet \<Rightarrow> ColumnBinding \<Rightarrow> bool" where
  "IsLanceRowIdColumn db get binding \<longleftrightarrow>
     table_index binding = get_table_index get \<and> row_id_position db get (column_index binding)"

fun is_row_id :: "duckdb \<Rightarrow> LogicalGet \<Rightarrow> Expression \<Rightarrow> bool" where
  "is_row_id db get (BoundColumnRef t binding depth) = IsLanceRowIdColumn db get binding"
| "is_row_id db get (BoundRef t nm i) = row_id_position db get i"
| "is_row_id db get e = False"

fun is_rowid_ref :: "duckdb \<Rightarrow> LogicalGet \<Rightarrow> Expression \<Rightarrow> bool" where
  "is_rowid_ref db get (BoundColumnRef t binding depth) = IsLanceRowIdColumn db get binding"
| "is_rowid_ref db get e = False"

text \<open>The elements of an IN list: the loop ends at the first that is no constant.\<close>

fun lookup_elements :: "bool \<Rightarrow> Expression option list \<Rightarrow> (exn, u64 list) outcome" where
  "lookup_elements vane [] = Done []"
| "lookup_elements vane (Some (BoundConstant v) # cs) =
     (if vane \<and> is_null v then lookup_elements vane cs
      else try_bind (lookup_value v) (\<lambda>r. try_bind (lookup_elements vane cs) (\<lambda>rs. Done (r # rs))))"
| "lookup_elements vane (c # cs) = Refused"

definition lookup_in :: "bool \<Rightarrow> (Expression \<Rightarrow> bool) \<Rightarrow> Expression option list \<Rightarrow> (exn, u64 list) outcome" where
  "lookup_in vane is_row cs =
     (case cs of
        Some c # e # es \<Rightarrow> if is_row c then lookup_elements vane (e # es) else Refused
      | _ \<Rightarrow> Refused)"

text \<open>One orientation of an equality.\<close>

fun extract_one :: "bool \<Rightarrow> (Expression \<Rightarrow> bool) \<Rightarrow> Expression \<Rightarrow> Expression \<Rightarrow> (exn, u64) outcome" where
  "extract_one vane is_row lhs (BoundConstant v) = (if is_row lhs then lookup_equal vane v else Refused)"
| "extract_one vane is_row lhs rhs = Refused"

fun or_else :: "('e, 'a) outcome \<Rightarrow> ('e, 'a) outcome \<Rightarrow> ('e, 'a) outcome" where
  "or_else Refused b = b"
| "or_else a b = a"

text \<open>
  The recursive lambda of \<open>LancePushdownComplexFilter\<close>, and its loop over the children of a
  disjunction, which fails as soon as one of them is no lookup of at least one row.
\<close>

function (sequential) try_extract_rowids :: "bool \<Rightarrow> duckdb \<Rightarrow> LogicalGet \<Rightarrow> Expression \<Rightarrow> (exn, u64 list) outcome"
  and try_extract_children :: "bool \<Rightarrow> duckdb \<Rightarrow> LogicalGet \<Rightarrow> u64 list \<Rightarrow> Expression option list \<Rightarrow> (exn, u64 list) outcome"
where
  "try_extract_rowids vane db get (BoundOperator t k cs) =
     (if k = COMPARE_IN then lookup_in vane (is_rowid_ref db get) cs else Refused)"
| "try_extract_rowids vane db get (BoundComparison k (Some l) (Some r)) =
     (if k = COMPARE_EQUAL then
        try_bind (or_else (extract_one vane (is_rowid_ref db get) l r) (extract_one vane (is_rowid_ref db get) r l))
          (\<lambda>row. Done [row])
      else Refused)"
| "try_extract_rowids vane db get (BoundConjunction k cs) =
     (if k = CONJUNCTION_OR then try_extract_children vane db get [] cs else Refused)"
| "try_extract_rowids vane db get e = Refused"
| "try_extract_children vane db get out [] = (if out = [] then Refused else Done out)"
| "try_extract_children vane db get out (None # cs) = Refused"
| "try_extract_children vane db get out (Some c # cs) =
     try_bind (try_extract_rowids vane db get c) (\<lambda>rows.
       if rows = [] then Refused else try_extract_children vane db get (out @ rows) cs)"
  by pat_completeness auto
termination
  by (relation "measure (\<lambda>x. case x of Inl (_, _, _, e) \<Rightarrow> size e | Inr (_, _, _, _, cs) \<Rightarrow> size_list (size_option size) cs)") auto

text \<open>
  The extraction of the row id rewrite: its disjunctions are walked with an explicit stack, whose
  top is the head of the list; null children are skipped.  In \<open>try_extract_equal\<close> an orientation
  with a constant on one side and the row id on the other decides alone.
\<close>

fun is_constant :: "Expression \<Rightarrow> bool" where
  "is_constant (BoundConstant v) = True"
| "is_constant e = False"

fun try_extract_equal :: "bool \<Rightarrow> duckdb \<Rightarrow> LogicalGet \<Rightarrow> Expression \<Rightarrow> (exn, u64) outcome" where
  "try_extract_equal vane db get (BoundComparison k (Some l) (Some r)) =
     (if k \<noteq> COMPARE_EQUAL then Refused
      else if is_row_id db get l \<and> is_constant r then extract_one vane (is_row_id db get) l r
      else if is_row_id db get r \<and> is_constant l then extract_one vane (is_row_id db get) r l
      else Refused)"
| "try_extract_equal vane db get e = Refused"

function (sequential) extract_stack :: "bool \<Rightarrow> duckdb \<Rightarrow> LogicalGet \<Rightarrow> u64 list \<Rightarrow> Expression option list \<Rightarrow> (exn, u64 list) outcome"
where
  "extract_stack vane db get out [] = (if out = [] then Refused else Done out)"
| "extract_stack vane db get out (None # stack) = extract_stack vane db get out stack"
| "extract_stack vane db get out (Some (BoundConjunction k cs) # stack) =
     (if k = CONJUNCTION_OR then extract_stack vane db get out (cs @ stack) else Refused)"
| "extract_stack vane db get out (Some e # stack) =
     try_bind (try_extract_equal vane db get e) (\<lambda>row. extract_stack vane db get (out @ [row]) stack)"
  by pat_completeness auto

lemma size_list_append: "size_list f (xs @ ys) = size_list f xs + size_list f ys"
  by (induction xs) auto

termination extract_stack
  by (relation "measure (\<lambda>(_, _, _, _, stack). size_list (size_option size) stack)") (auto simp: size_list_append)

fun TryExtractTakeRowIdsFromExpression :: "bool \<Rightarrow> duckdb \<Rightarrow> LogicalGet \<Rightarrow> Expression \<Rightarrow> (exn, u64 list) outcome" where
  "TryExtractTakeRowIdsFromExpression vane db get (BoundOperator t k cs) =
     (if k = COMPARE_IN then lookup_in vane (is_row_id db get) cs else Refused)"
| "TryExtractTakeRowIdsFromExpression vane db get (BoundConjunction k cs) =
     (if k = CONJUNCTION_OR then extract_stack vane db get [] [Some (BoundConjunction k cs)] else Refused)"
| "TryExtractTakeRowIdsFromExpression vane db get e = Refused"

end
