(* ===== verification/Snapshots.thy ===== *)
theory Snapshots
  imports Lance_Services
begin

text \<open>
  Frozen snapshots of datasets (\<open>lance_vane_snapshot.cpp\<close>, in the build with
  \<open>LANCE_VANE_DISTRIBUTED\<close>): the coordinator freezes the manifest of a dataset with two digests, a
  worker validates what it is sent and opens the dataset at that version, once per query.
\<close>

section \<open>Freezing and validating\<close>

definition LANCE_VANE_FROZEN_SNAPSHOT_VERSION :: u64 where
  "LANCE_VANE_FROZEN_SNAPSHOT_VERSION = 1"

definition LANCE_VANE_FROZEN_SNAPSHOT_DIGEST_SIZE :: nat where
  "LANCE_VANE_FROZEN_SNAPSHOT_DIGEST_SIZE = 32"

definition LANCE_VANE_MAX_SERIALIZED_MANIFEST_BYTES :: nat where
  "LANCE_VANE_MAX_SERIALIZED_MANIFEST_BYTES = 256 * 1024 * 1024"

record LanceVaneFrozenSnapshot =
  serialized_manifest :: string
  manifest_sha256 :: string
  schema_fingerprint :: string

text \<open>
  The functions of the Rust library; a failure, or a null pointer, is \<open>None\<close>.  The digests fill buffers
  of a fixed size.
\<close>

record snapshot_ffi =
  lance_vane_sha256 :: "string \<Rightarrow> string option"
  lance_vane_dataset_schema_fingerprint :: "nat \<Rightarrow> string option"
  lance_vane_serialize_dataset_manifest :: "nat \<Rightarrow> string option"
  lance_dataset_version :: "nat \<Rightarrow> u64"
  lance_dataset_generation_id :: "nat \<Rightarrow> string option"

definition LanceVaneSha256 :: "snapshot_ffi \<Rightarrow> string \<Rightarrow> string" where
  "LanceVaneSha256 sf bytes = (case lance_vane_sha256 sf bytes of None \<Rightarrow> [] | Some digest \<Rightarrow> digest)"

definition LanceVaneDatasetSchemaFingerprint ::
    "lance_ffi \<Rightarrow> last_error \<Rightarrow> snapshot_ffi \<Rightarrow> nat \<Rightarrow> string \<Rightarrow> bool \<Rightarrow> exn + string" where
  "LanceVaneDatasetSchemaFingerprint ffi err sf d path private_diagnostics =
     (case lance_vane_dataset_schema_fingerprint sf d of
        None \<Rightarrow> Inl (IOException (''Failed to fingerprint Lance dataset schema'' @
                  LanceVaneFormatErrorSuffix ffi err path private_diagnostics))
      | Some fingerprint \<Rightarrow> Inr fingerprint)"

definition LanceVaneFreezeSnapshot ::
    "lance_ffi \<Rightarrow> last_error \<Rightarrow> snapshot_ffi \<Rightarrow> nat \<Rightarrow> string \<Rightarrow> bool \<Rightarrow> exn + LanceVaneFrozenSnapshot" where
  "LanceVaneFreezeSnapshot ffi err sf d path private_diagnostics =
     (let failed = Inl (IOException (''Failed to freeze Lance dataset manifest'' @
                     LanceVaneFormatErrorSuffix ffi err path private_diagnostics))
      in case lance_vane_serialize_dataset_manifest sf d of
           None \<Rightarrow> failed
         | Some manifest \<Rightarrow>
             if manifest = [] \<or> length manifest > LANCE_VANE_MAX_SERIALIZED_MANIFEST_BYTES then failed
             else
               let sha = LanceVaneSha256 sf manifest
               in res_bind (LanceVaneDatasetSchemaFingerprint ffi err sf d path private_diagnostics) (\<lambda>fingerprint.
                    if sha = [] then Inl (IOException ''Failed to digest frozen Lance dataset manifest'')
                    else Inr \<lparr>serialized_manifest = manifest, manifest_sha256 = sha, schema_fingerprint = fingerprint\<rparr>))"

text \<open>The error text of an invalid snapshot; \<open>None\<close> when it is valid.\<close>

definition LanceVaneValidateFrozenSnapshot :: "snapshot_ffi \<Rightarrow> LanceVaneFrozenSnapshot \<Rightarrow> string option" where
  "LanceVaneValidateFrozenSnapshot sf s =
     (if serialized_manifest s = [] then Some ''serialized manifest is empty''
      else if length (serialized_manifest s) > LANCE_VANE_MAX_SERIALIZED_MANIFEST_BYTES then
        Some ''serialized manifest exceeds the transport limit''
      else if length (manifest_sha256 s) \<noteq> LANCE_VANE_FROZEN_SNAPSHOT_DIGEST_SIZE then
        Some ''manifest digest has an invalid size''
      else if length (schema_fingerprint s) \<noteq> LANCE_VANE_FROZEN_SNAPSHOT_DIGEST_SIZE then
        Some ''schema fingerprint has an invalid size''
      else
        let digest = LanceVaneSha256 sf (serialized_manifest s)
        in if digest = [] then Some ''manifest digest could not be computed''
           else if digest \<noteq> manifest_sha256 s then Some ''manifest digest does not match its payload''
           else None)"

definition LanceVaneDatasetGenerationId ::
    "lance_ffi \<Rightarrow> last_error \<Rightarrow> snapshot_ffi \<Rightarrow> nat \<Rightarrow> string \<Rightarrow> bool \<Rightarrow> exn + string" where
  "LanceVaneDatasetGenerationId ffi err sf d path private_diagnostics =
     (case lance_dataset_generation_id sf d of
        None \<Rightarrow> Inl (IOException (''Failed to identify Lance dataset snapshot'' @
                  LanceVaneFormatErrorSuffix ffi err path private_diagnostics))
      | Some generation \<Rightarrow>
          if generation = [] then Inl (IOException ''Lance dataset snapshot identity is empty'') else Inr generation)"


section \<open>The cache of a query\<close>

record LanceVaneSnapshotCacheState =
  snapshot_entries :: "(string \<times> LanceDatasetCacheEntry) list"
  snapshot_hits :: u64
  snapshot_misses :: u64

definition empty_snapshot_cache :: LanceVaneSnapshotCacheState where
  "empty_snapshot_cache = \<lparr>snapshot_entries = [], snapshot_hits = 0, snapshot_misses = 0\<rparr>"

definition SnapshotGet ::
    "string \<Rightarrow> LanceVaneSnapshotCacheState \<Rightarrow> LanceDatasetCacheEntry option \<times> LanceVaneSnapshotCacheState" where
  "SnapshotGet key st =
     (case map_of (snapshot_entries st) key of
        None \<Rightarrow> (None, st\<lparr>snapshot_misses := snapshot_misses st + 1\<rparr>)
      | Some e \<Rightarrow> (Some e, st\<lparr>snapshot_hits := snapshot_hits st + 1\<rparr>))"

definition SnapshotPutOrGetExisting ::
    "string \<Rightarrow> LanceDatasetCacheEntry \<Rightarrow> LanceVaneSnapshotCacheState
       \<Rightarrow> LanceDatasetCacheEntry \<times> LanceVaneSnapshotCacheState" where
  "SnapshotPutOrGetExisting key entry st =
     (case map_of (snapshot_entries st) key of
        Some existing \<Rightarrow> (existing, st)
      | None \<Rightarrow> (entry, st\<lparr>snapshot_entries := AList.update key entry (snapshot_entries st)\<rparr>))"

definition SnapshotQueryBegin :: "LanceVaneSnapshotCacheState \<Rightarrow> LanceVaneSnapshotCacheState" where
  "SnapshotQueryBegin st = st\<lparr>snapshot_hits := 0, snapshot_misses := 0\<rparr>"

definition SnapshotQueryEnd :: "LanceVaneSnapshotCacheState \<Rightarrow> LanceVaneSnapshotCacheState" where
  "SnapshotQueryEnd st = st\<lparr>snapshot_entries := []\<rparr>"

definition SnapshotWriteProfilingInformation :: "LanceVaneSnapshotCacheState \<Rightarrow> string" where
  "SnapshotWriteProfilingInformation st =
     ''Lance Vane Snapshot Cache: entries='' @ nat_to_string (length (snapshot_entries st)) @
     '' hits='' @ word_text (snapshot_hits st) @ '' misses='' @ word_text (snapshot_misses st) @ [CHR 0x0A]"


section \<open>Opening at a version\<close>

text \<open>The state of a connection with its snapshot cache, which is made at its first use.\<close>

record snapshot_ctx =
  snapshot_conn :: conn_state
  snapshot_cache :: "LanceVaneSnapshotCacheState option"

definition key_field :: "string \<Rightarrow> string" where
  "key_field s = nat_to_string (length s) @ '':'' @ s"

definition LanceVaneSnapshotCacheKey :: "connection \<Rightarrow> string \<Rightarrow> u64 \<Rightarrow> string \<Rightarrow> exn + string" where
  "LanceVaneSnapshotCacheKey cn path version generation_id =
     res_bind (LanceBuildPathDatasetCacheKey cn path) (\<lambda>key.
       Inr (key @ ''|fixed-snapshot|'' @ word_text version @ ''|'' @ key_field generation_id))"

definition check_version :: "snapshot_ffi \<Rightarrow> u64 \<Rightarrow> string \<Rightarrow> nat \<Rightarrow> exn + unit" where
  "check_version sf version message d =
     (if lance_dataset_version sf d \<noteq> version then Inl (IOException message) else Inr ())"

definition check_generation ::
    "lance_ffi \<Rightarrow> last_error \<Rightarrow> snapshot_ffi \<Rightarrow> string \<Rightarrow> bool \<Rightarrow> string \<Rightarrow> string \<Rightarrow> nat \<Rightarrow> exn + unit" where
  "check_generation ffi err sf path private_diagnostics generation_id message d =
     res_bind (LanceVaneDatasetGenerationId ffi err sf d path private_diagnostics) (\<lambda>generation.
       if generation \<noteq> generation_id then Inl (IOException message) else Inr ())"

definition check_fingerprint ::
    "lance_ffi \<Rightarrow> last_error \<Rightarrow> snapshot_ffi \<Rightarrow> string \<Rightarrow> bool \<Rightarrow> string \<Rightarrow> string \<Rightarrow> nat \<Rightarrow> exn + unit" where
  "check_fingerprint ffi err sf path private_diagnostics fingerprint message d =
     res_bind (LanceVaneDatasetSchemaFingerprint ffi err sf d path private_diagnostics) (\<lambda>found.
       if found \<noteq> fingerprint then Inl (IOException message) else Inr ())"

text \<open>The common part: the cached entry, or one that is opened, checked and then stored.\<close>

definition snapshot_lookup ::
    "string \<Rightarrow> (conn_state \<Rightarrow> (exn + nat option) \<times> conn_state) \<Rightarrow> exn \<Rightarrow> (nat \<Rightarrow> exn + unit) \<Rightarrow> string \<Rightarrow> snapshot_ctx
       \<Rightarrow> (exn + LanceDatasetCacheEntry) \<times> snapshot_ctx" where
  "snapshot_lookup key open_dataset failed check path ctx =
     (let cache = (case snapshot_cache ctx of None \<Rightarrow> empty_snapshot_cache | Some st \<Rightarrow> st)
      in case SnapshotGet key cache of
           (Some e, cache) \<Rightarrow> (Inr e, ctx\<lparr>snapshot_cache := Some cache\<rparr>)
         | (None, cache) \<Rightarrow>
             (case open_dataset (snapshot_conn ctx) of
                (r, conn) \<Rightarrow>
                  let ctx = ctx\<lparr>snapshot_conn := conn, snapshot_cache := Some cache\<rparr>
                  in (case r of
                        Inl x \<Rightarrow> (Inl x, ctx)
                      | Inr None \<Rightarrow> (Inl failed, ctx)
                      | Inr (Some d) \<Rightarrow>
                          (case check d of
                             Inl x \<Rightarrow> (Inl x, ctx)
                           | Inr _ \<Rightarrow>
                               (case SnapshotPutOrGetExisting key \<lparr>dataset = d, entry_display_uri = path\<rparr> cache of
                                  (e, cache) \<Rightarrow> (Inr e, ctx\<lparr>snapshot_cache := Some cache\<rparr>))))))"

definition LanceVaneGetOrOpenSnapshot ::
    "connection \<Rightarrow> last_error \<Rightarrow> version_ffi \<Rightarrow> snapshot_ffi \<Rightarrow> string \<Rightarrow> u64 \<Rightarrow> string \<Rightarrow> bool \<Rightarrow> snapshot_ctx
       \<Rightarrow> (exn + LanceDatasetCacheEntry) \<times> snapshot_ctx" where
  "LanceVaneGetOrOpenSnapshot cn err vf sf path version generation_id private_diagnostics ctx =
     (if version = 0 \<or> generation_id = [] then
        (Inl (InvalidInputException ''Distributed Lance snapshot identity is incomplete''), ctx)
      else (case LanceVaneSnapshotCacheKey cn path version generation_id of
          Inl x \<Rightarrow> (Inl x, ctx)
        | Inr key \<Rightarrow>
            snapshot_lookup key (LanceOpenDatasetVersionForDistributedScan cn vf path version)
              (IOException (''Failed to reopen fixed Lance dataset version'' @
                 LanceVaneFormatErrorSuffix (path_fns cn) err path private_diagnostics))
              (\<lambda>d. res_bind (check_version sf version
                     (''Reopened Lance dataset version does not match the '' @ ''coordinator snapshot'') d) (\<lambda>_.
                   check_generation (path_fns cn) err sf path private_diagnostics generation_id
                     (''Distributed Lance snapshot generation changed; '' @
                      ''generation does not match the coordinator snapshot'') d))
              path ctx))"

definition LanceVaneGetOrOpenFrozenSnapshot ::
    "connection \<Rightarrow> last_error \<Rightarrow> version_ffi \<Rightarrow> snapshot_ffi \<Rightarrow> string \<Rightarrow> u64 \<Rightarrow> string \<Rightarrow> LanceVaneFrozenSnapshot
       \<Rightarrow> bool \<Rightarrow> snapshot_ctx \<Rightarrow> (exn + LanceDatasetCacheEntry) \<times> snapshot_ctx" where
  "LanceVaneGetOrOpenFrozenSnapshot cn err vf sf path version generation_id s private_diagnostics ctx =
     (if version = 0 \<or> generation_id = [] then
        (Inl (InvalidInputException ''Distributed Lance snapshot identity is incomplete''), ctx)
      else (case LanceVaneSnapshotCacheKey cn path version generation_id of
          Inl x \<Rightarrow> (Inl x, ctx)
        | Inr key \<Rightarrow>
            snapshot_lookup
              (key @ ''|manifest-sha256|'' @ key_field (manifest_sha256 s) @
               ''|schema-fingerprint|'' @ key_field (schema_fingerprint s))
              (LanceOpenDatasetVersionFromManifestForDistributedScan cn vf path version (serialized_manifest s) generation_id)
              (IOException (''Failed to open coordinator-frozen Lance snapshot'' @
                 LanceVaneFormatErrorSuffix (path_fns cn) err path private_diagnostics))
              (\<lambda>d. res_bind (check_version sf version
                     (''Frozen Lance dataset version does not match the '' @ ''coordinator snapshot'') d) (\<lambda>_.
                   res_bind (check_generation (path_fns cn) err sf path private_diagnostics generation_id
                     (''Distributed Lance snapshot generation changed; '' @
                      ''generation does not match the coordinator snapshot'') d) (\<lambda>_.
                   check_fingerprint (path_fns cn) err sf path private_diagnostics (schema_fingerprint s)
                     (''Frozen Lance dataset schema does not match the '' @ ''coordinator snapshot'') d)))
              path ctx))"

definition LanceVaneGetOrOpenFrozenSearchSnapshot ::
    "connection \<Rightarrow> last_error \<Rightarrow> version_ffi \<Rightarrow> snapshot_ffi \<Rightarrow> string \<Rightarrow> u64 \<Rightarrow> string \<Rightarrow> LanceVaneFrozenSnapshot
       \<Rightarrow> string \<Rightarrow> string \<Rightarrow> bool \<Rightarrow> snapshot_ctx \<Rightarrow> (exn + LanceDatasetCacheEntry) \<times> snapshot_ctx" where
  "LanceVaneGetOrOpenFrozenSearchSnapshot cn err vf sf path version generation_id s index_section index_section_sha256
       private_diagnostics ctx =
     (if version = 0 \<or> generation_id = [] \<or>
         length (manifest_sha256 s) \<noteq> LANCE_VANE_FROZEN_SNAPSHOT_DIGEST_SIZE \<or>
         length (schema_fingerprint s) \<noteq> LANCE_VANE_FROZEN_SNAPSHOT_DIGEST_SIZE \<or>
         length index_section_sha256 \<noteq> LANCE_VANE_FROZEN_SNAPSHOT_DIGEST_SIZE then
        (Inl (InvalidInputException ''Distributed Lance search snapshot identity is incomplete''), ctx)
      else (case LanceVaneSnapshotCacheKey cn path version generation_id of
          Inl x \<Rightarrow> (Inl x, ctx)
        | Inr key \<Rightarrow>
            snapshot_lookup
              (key @ ''|manifest-sha256|'' @ key_field (manifest_sha256 s) @
               ''|schema-fingerprint|'' @ key_field (schema_fingerprint s) @
               ''|index-section-sha256|'' @ key_field index_section_sha256)
              (LanceOpenDatasetVersionFromManifestAndIndexSectionForDistributedSearch
                 cn vf path version (serialized_manifest s) index_section generation_id)
              (IOException (''Failed to open coordinator-frozen Lance search snapshot'' @
                 LanceVaneFormatErrorSuffix (path_fns cn) err path private_diagnostics))
              (\<lambda>d. res_bind (check_version sf version
                     (''Frozen Lance search dataset version does not match the '' @ ''coordinator snapshot'') d) (\<lambda>_.
                   res_bind (check_generation (path_fns cn) err sf path private_diagnostics generation_id
                     (''Distributed Lance search snapshot generation changed; '' @
                      ''generation does not match the coordinator snapshot'') d) (\<lambda>_.
                   check_fingerprint (path_fns cn) err sf path private_diagnostics (schema_fingerprint s)
                     (''Frozen Lance search dataset schema does not match the '' @ ''coordinator snapshot'') d)))
              path ctx))"

end
