(* ===== verification/Scan_Splits.thy ===== *)
theory Scan_Splits
  imports Snapshots "HOL-Library.Product_Lexorder" "HOL-Library.List_Lexorder" "HOL-Library.Char_ord"
begin

text \<open>
  Distributed scans (\<open>lance_scan.cpp\<close>, the build with \<open>LANCE_VANE_DISTRIBUTED\<close>): the coordinator
  freezes a snapshot of the dataset, plans splits of its fragments or of the rows to take, and sends
  each worker a detached copy of the scan and some of the splits; the worker checks the splits it is
  given and selects their work.  The scheduler that carries splits from one to the other is not part
  of the extension: a split is given back to a worker as any value of its type.
\<close>

section \<open>Splits\<close>

record DistributedScanSplit =
  split_id :: string
  payload :: string
  estimated_cardinality :: "nat option"
  estimated_bytes :: "nat option"

text \<open>
  \<open>BaseUUID::FromString\<close> in strict mode, \<open>DistributedScanSplit::Validate\<close>, which throws, and the
  constructor of \<open>optional_idx\<close>, which throws for the index that stands for none.
\<close>

record scan_host =
  UuidFromString :: "string \<Rightarrow> bool"
  ValidateSplit :: "DistributedScanSplit \<Rightarrow> exn + unit"
  optional_idx :: "nat \<Rightarrow> exn + nat option"

definition LANCE_FRAGMENT_SPLIT_MAGIC :: string where
  "LANCE_FRAGMENT_SPLIT_MAGIC = ''LFS1''"

definition LANCE_TAKE_SPLIT_MAGIC :: string where
  "LANCE_TAKE_SPLIT_MAGIC = ''LTS1''"

definition LANCE_SPLIT_MAGIC_SIZE :: nat where
  "LANCE_SPLIT_MAGIC_SIZE = 4"

text \<open>\<open>BaseUUID::STRING_SIZE\<close>.\<close>

definition LANCE_SCAN_TOKEN_SIZE :: nat where
  "LANCE_SCAN_TOKEN_SIZE = 36"

definition IsValidLanceScanToken :: "scan_host \<Rightarrow> string \<Rightarrow> bool" where
  "IsValidLanceScanToken h token \<longleftrightarrow> length token = LANCE_SCAN_TOKEN_SIZE \<and> UuidFromString h token"

definition AppendUint64LittleEndian :: "string \<Rightarrow> u64 \<Rightarrow> string" where
  "AppendUint64LittleEndian out v =
     out @ map (\<lambda>i. char_of (unat (drop_bit (i * 8) v AND 0xff))) [0..<8]"

definition TryReadUint64LittleEndian :: "string \<Rightarrow> nat \<Rightarrow> u64 option" where
  "TryReadUint64LittleEndian input offset =
     (if offset > length input \<or> length input - offset < 8 then None
      else Some (fold (\<lambda>i v. v OR push_bit (i * 8) (word_of_nat (of_char (input ! (offset + i))))) [0..<8] 0))"

definition EncodeLanceFragmentSplit :: "scan_host \<Rightarrow> string \<Rightarrow> u64 \<Rightarrow> exn + string" where
  "EncodeLanceFragmentSplit h scan_token fragment_id =
     (if \<not> IsValidLanceScanToken h scan_token then Inl (InternalException ''Invalid Lance coordinator scan token'')
      else Inr (AppendUint64LittleEndian (LANCE_FRAGMENT_SPLIT_MAGIC @ scan_token) fragment_id))"

definition DecodeLanceFragmentSplit :: "scan_host \<Rightarrow> string \<Rightarrow> (string \<times> u64) option" where
  "DecodeLanceFragmentSplit h p =
     (let fragment_offset = LANCE_SPLIT_MAGIC_SIZE + LANCE_SCAN_TOKEN_SIZE
      in if length p \<noteq> fragment_offset + 8 \<or> take LANCE_SPLIT_MAGIC_SIZE p \<noteq> LANCE_FRAGMENT_SPLIT_MAGIC then None
         else
           let scan_token = take LANCE_SCAN_TOKEN_SIZE (drop LANCE_SPLIT_MAGIC_SIZE p)
           in if \<not> IsValidLanceScanToken h scan_token then None
              else map_option (Pair scan_token) (TryReadUint64LittleEndian p fragment_offset))"

definition EncodeLanceTakeSplit :: "scan_host \<Rightarrow> string \<Rightarrow> u64 list \<Rightarrow> nat \<Rightarrow> nat \<Rightarrow> exn + string" where
  "EncodeLanceTakeSplit h scan_token row_ids b e =
     (if \<not> IsValidLanceScanToken h scan_token then Inl (InternalException ''Invalid Lance coordinator scan token'')
      else Inr (foldl AppendUint64LittleEndian
                 (AppendUint64LittleEndian (LANCE_TAKE_SPLIT_MAGIC @ scan_token) (word_of_nat b))
                 (take (e - b) (drop b row_ids))))"

text \<open>The loop over the offsets of the row ids; the check before it makes their number \<open>n\<close> exact.\<close>

fun read_row_ids :: "string \<Rightarrow> nat \<Rightarrow> nat \<Rightarrow> u64 list option" where
  "read_row_ids p offset 0 = Some []"
| "read_row_ids p offset (Suc n) =
     (case TryReadUint64LittleEndian p offset of
        None \<Rightarrow> None
      | Some row_id \<Rightarrow> map_option (Cons row_id) (read_row_ids p (offset + 8) n))"

definition DecodeLanceTakeSplit :: "scan_host \<Rightarrow> string \<Rightarrow> (string \<times> u64 \<times> u64 list) option" where
  "DecodeLanceTakeSplit h p =
     (let begin_offset = LANCE_SPLIT_MAGIC_SIZE + LANCE_SCAN_TOKEN_SIZE;
          header_size = begin_offset + 8
      in if length p \<le> header_size \<or> take LANCE_SPLIT_MAGIC_SIZE p \<noteq> LANCE_TAKE_SPLIT_MAGIC \<or>
            (length p - header_size) mod 8 \<noteq> 0 then None
         else (case TryReadUint64LittleEndian p begin_offset of
             None \<Rightarrow> None
           | Some b \<Rightarrow>
               let scan_token = take LANCE_SCAN_TOKEN_SIZE (drop LANCE_SPLIT_MAGIC_SIZE p)
               in if \<not> IsValidLanceScanToken h scan_token then None
                  else map_option (\<lambda>row_ids. (scan_token, b, row_ids))
                         (read_row_ids p header_size ((length p - header_size) div 8))))"


section \<open>The bind data\<close>

text \<open>A signed 64-bit integer; \<open>sint\<close> reads it.\<close>

type_synonym i64 = "64 word"

text \<open>What was found when a REST namespace was resolved to a physical dataset.\<close>

record LanceVanePhysicalCandidate =
  attempted :: bool
  pc_qualified :: bool
  safe_failure :: string
  physical_uri :: string
  pc_dataset_version :: u64
  pc_dataset_generation_id :: string
  pc_schema_fingerprint :: string
  search_node_uuid :: string
  pc_private_uri_diagnostics :: bool
  pc_dataset :: "nat option"

text \<open>The members of \<open>LanceScanBindData\<close> that take part; a null dataset is \<open>None\<close>.\<close>

record LanceScanBind = LanceScanBindData +
  file_path :: string
  explain_verbose :: bool
  bound_dataset :: "nat option"
  lance_pushed_filter_ir_parts :: "string list"
  UsesNamespaceQuery :: bool
  dataset_version :: u64
  dataset_generation_id :: string
  distributed_frozen_snapshot :: "LanceVaneFrozenSnapshot option"
  distributed_snapshot_payload_validated :: bool
  distributed_scan_token :: string
  distributed_replayable :: bool
  replay_path_restricted :: bool
  distributed_requires_coordinator_secret :: bool
  private_uri_diagnostics :: bool
  distributed_namespace_session_mismatch :: bool
  distributed_worker :: bool
  distributed_splits_applied :: bool
  distributed_authorization_restricted :: bool
  distributed_authorized_split_ids :: "string list"
  distributed_authorized_split_payloads :: "string list"
  distributed_fragment_ids :: "u64 list"
  distributed_fragment_row_counts :: "i64 list"
  distributed_fragment_bytes_on_disk :: "u64 list"
  selected_fragment_ids :: "u64 list"
  distributed_rest_candidate :: LanceVanePhysicalCandidate
  take_row_ids :: "u64 list"

definition no_candidate :: LanceVanePhysicalCandidate where
  "no_candidate = \<lparr>attempted = False, pc_qualified = False, safe_failure = [], physical_uri = [], pc_dataset_version = 0,
     pc_dataset_generation_id = [], pc_schema_fingerprint = [], search_node_uuid = [],
     pc_private_uri_diagnostics = False, pc_dataset = None\<rparr>"

text \<open>A fresh object: the initialisers of the class.\<close>

definition NewLanceScanBindData :: LanceScanBind where
  "NewLanceScanBindData = \<lparr>names = [], types = [], file_path = [], explain_verbose = False, bound_dataset = None,
     lance_pushed_filter_ir_parts = [], UsesNamespaceQuery = False, dataset_version = 0, dataset_generation_id = [],
     distributed_frozen_snapshot = None, distributed_snapshot_payload_validated = False, distributed_scan_token = [],
     distributed_replayable = False, replay_path_restricted = False, distributed_requires_coordinator_secret = False,
     private_uri_diagnostics = False, distributed_namespace_session_mismatch = False, distributed_worker = False,
     distributed_splits_applied = False, distributed_authorization_restricted = False,
     distributed_authorized_split_ids = [], distributed_authorized_split_payloads = [], distributed_fragment_ids = [],
     distributed_fragment_row_counts = [], distributed_fragment_bytes_on_disk = [], selected_fragment_ids = [],
     distributed_rest_candidate = no_candidate, take_row_ids = []\<rparr>"

definition resolved_rest :: "LanceScanBind \<Rightarrow> bool" where
  "resolved_rest b \<longleftrightarrow>
     UsesNamespaceQuery b \<and> attempted (distributed_rest_candidate b) \<and> pc_qualified (distributed_rest_candidate b)"

definition planning_dataset :: "LanceScanBind \<Rightarrow> nat option" where
  "planning_dataset b = (if UsesNamespaceQuery b then pc_dataset (distributed_rest_candidate b) else bound_dataset b)"

definition LanceScanHasPrivateDiagnostics :: "lance_ffi \<Rightarrow> LanceScanBind \<Rightarrow> bool" where
  "LanceScanHasPrivateDiagnostics ffi b \<longleftrightarrow>
     private_uri_diagnostics b \<or> replay_path_restricted b \<or> distributed_requires_coordinator_secret b \<or>
     LanceVanePathHasPrivateUriComponents ffi (file_path b) \<or> LanceVanePathIsRemote ffi (file_path b)"

definition LanceScanHasNonReplayablePrivateState :: "lance_ffi \<Rightarrow> LanceScanBind \<Rightarrow> bool" where
  "LanceScanHasNonReplayablePrivateState ffi b \<longleftrightarrow>
     replay_path_restricted b \<or> distributed_requires_coordinator_secret b \<or>
     LanceVanePathHasPrivateUriComponents ffi (file_path b)"

definition LanceScanDiagnosticPath :: "lance_ffi \<Rightarrow> LanceScanBind \<Rightarrow> string" where
  "LanceScanDiagnosticPath ffi b = LanceVaneDiagnosticPath ffi (file_path b) (LanceScanHasPrivateDiagnostics ffi b)"

definition LanceScanErrorSuffix :: "lance_ffi \<Rightarrow> last_error \<Rightarrow> LanceScanBind \<Rightarrow> string" where
  "LanceScanErrorSuffix ffi err b = LanceVaneFormatErrorSuffix ffi err (file_path b) (LanceScanHasPrivateDiagnostics ffi b)"

definition LanceDatasetGenerationId ::
    "lance_ffi \<Rightarrow> last_error \<Rightarrow> snapshot_ffi \<Rightarrow> nat \<Rightarrow> string \<Rightarrow> bool \<Rightarrow> exn + string" where
  "LanceDatasetGenerationId ffi err sf d diagnostic_path private_diagnostics =
     (case lance_dataset_generation_id sf d of
        None \<Rightarrow> Inl (IOException (''Failed to identify Lance dataset snapshot'' @
                  LanceVaneFormatErrorSuffix ffi err diagnostic_path private_diagnostics))
      | Some generation \<Rightarrow>
          if generation = [] then Inl (IOException ''Lance dataset snapshot identity is empty'') else Inr generation)"

text \<open>Fixing the version of a bound dataset \<open>d\<close>; \<open>uuid\<close> is the random identifier that is generated.\<close>

definition CaptureLanceDistributedSnapshot ::
    "connection \<Rightarrow> last_error \<Rightarrow> snapshot_ffi \<Rightarrow> string \<Rightarrow> nat \<Rightarrow> LanceScanBind \<Rightarrow> conn_state
       \<Rightarrow> exn + LanceScanBind \<times> conn_state" where
  "CaptureLanceDistributedSnapshot cn err sf uuid d b ctx =
     (let b = b\<lparr>dataset_version := lance_dataset_version sf d\<rparr>
      in if dataset_version b = 0 then
           Inl (IOException (''Failed to resolve Lance dataset version'' @ LanceScanErrorSuffix (path_fns cn) err b))
         else
           res_bind (LanceDatasetGenerationId (path_fns cn) err sf d (file_path b)
               (LanceScanHasPrivateDiagnostics (path_fns cn) b)) (\<lambda>generation.
           let b = b\<lparr>dataset_generation_id := generation, distributed_scan_token := uuid\<rparr>
           in if vane_build cn
              then res_bind (LanceExpireDatasetCacheAfterQuery cn (file_path b) ctx) (\<lambda>ctx. Inr (b, ctx))
              else Inr (b, ctx)))"

definition OpenLanceDistributedSnapshot ::
    "connection \<Rightarrow> last_error \<Rightarrow> version_ffi \<Rightarrow> snapshot_ffi \<Rightarrow> string \<Rightarrow> u64 \<Rightarrow> string \<Rightarrow> LanceVaneFrozenSnapshot
       \<Rightarrow> snapshot_ctx \<Rightarrow> (exn + LanceDatasetCacheEntry) \<times> snapshot_ctx" where
  "OpenLanceDistributedSnapshot cn err vf sf path version generation_id s ctx =
     (case LanceVanePathRequiresRedaction (duck cn) (path_fns cn) (client_of cn) path of
        Inl x \<Rightarrow> (Inl x, ctx)
      | Inr private_diagnostics \<Rightarrow>
          LanceVaneGetOrOpenFrozenSnapshot cn err vf sf path version generation_id s private_diagnostics ctx)"


text \<open>
  A copy of the bind data; \<open>schema_copied\<close> is whether the library could copy the Arrow schema, when
  there is one.
\<close>

definition LanceScanBindData_Copy :: "lance_ffi \<Rightarrow> last_error \<Rightarrow> bool \<Rightarrow> LanceScanBind \<Rightarrow> exn + LanceScanBind" where
  "LanceScanBindData_Copy ffi err schema_copied b =
     (if \<not> schema_copied then Inl (IOException (''Failed to copy Lance read schema'' @ LanceScanErrorSuffix ffi err b))
      else Inr (NewLanceScanBindData\<lparr>
        file_path := file_path b, explain_verbose := explain_verbose b, bound_dataset := bound_dataset b,
        names := names b, types := types b, lance_pushed_filter_ir_parts := lance_pushed_filter_ir_parts b,
        UsesNamespaceQuery := UsesNamespaceQuery b, take_row_ids := take_row_ids b,
        dataset_version := dataset_version b, dataset_generation_id := dataset_generation_id b,
        distributed_frozen_snapshot := distributed_frozen_snapshot b,
        distributed_snapshot_payload_validated := distributed_snapshot_payload_validated b,
        distributed_scan_token := distributed_scan_token b, distributed_replayable := distributed_replayable b,
        replay_path_restricted := replay_path_restricted b,
        distributed_requires_coordinator_secret := distributed_requires_coordinator_secret b,
        private_uri_diagnostics := private_uri_diagnostics b,
        distributed_namespace_session_mismatch := distributed_namespace_session_mismatch b,
        distributed_worker := distributed_worker b, distributed_splits_applied := distributed_splits_applied b,
        distributed_authorization_restricted := distributed_authorization_restricted b,
        distributed_authorized_split_ids := distributed_authorized_split_ids b,
        distributed_authorized_split_payloads := distributed_authorized_split_payloads b,
        distributed_fragment_ids := distributed_fragment_ids b,
        distributed_fragment_row_counts := distributed_fragment_row_counts b,
        distributed_fragment_bytes_on_disk := distributed_fragment_bytes_on_disk b,
        selected_fragment_ids := selected_fragment_ids b, distributed_rest_candidate := distributed_rest_candidate b\<rparr>))"


section \<open>Fragment statistics\<close>

text \<open>
  What the Rust library lists of a dataset: identifier, number of rows (negative when unknown) and
  bytes of each fragment; a null pointer is \<open>None\<close>, and so is the listing of a null dataset.
\<close>

type_synonym fragment_stats = "(u64 \<times> i64 \<times> u64) list"

type_synonym stats_ffi = "nat option \<Rightarrow> fragment_stats option"

definition ReadLanceDistributedFragmentStats ::
    "lance_ffi \<Rightarrow> last_error \<Rightarrow> stats_ffi \<Rightarrow> LanceScanBind \<Rightarrow> nat option \<Rightarrow> exn + u64 list \<times> i64 list \<times> u64 list" where
  "ReadLanceDistributedFragmentStats ffi err list_stats b d =
     (case list_stats d of
        None \<Rightarrow> Inl (IOException (''Failed to list Lance fragment statistics'' @ LanceScanErrorSuffix ffi err b))
      | Some stats \<Rightarrow> Inr (map fst stats, map (fst \<circ> snd) stats, map (snd \<circ> snd) stats))"

text \<open>The loops that add row counts: \<open>None\<close> for an unknown count or an overflow of \<open>idx_t\<close>.\<close>

fun add_row_counts :: "nat \<Rightarrow> i64 list \<Rightarrow> nat option" where
  "add_row_counts n [] = Some n"
| "add_row_counts n (c # cs) =
     (if sint c < 0 then None
      else if nat (sint c) > (2 ^ 64 - 1) - n then None
      else add_row_counts (n + nat (sint c)) cs)"

definition TryGetPortableFragmentRowCount :: "LanceScanBind \<Rightarrow> nat option" where
  "TryGetPortableFragmentRowCount b =
     (if \<not> distributed_worker b \<or> distributed_splits_applied b \<or> distributed_authorization_restricted b \<or>
         take_row_ids b \<noteq> [] \<or> length (distributed_fragment_ids b) \<noteq> length (distributed_fragment_row_counts b)
      then None
      else add_row_counts 0 (distributed_fragment_row_counts b))"

text \<open>\<open>emplace\<close> keeps the first entry of an identifier.\<close>

definition TryGetSelectedFragmentRowCount :: "stats_ffi \<Rightarrow> LanceScanBind \<Rightarrow> nat option \<Rightarrow> nat option" where
  "TryGetSelectedFragmentRowCount list_stats b d =
     (if \<not> distributed_splits_applied b \<or> d = None \<or> take_row_ids b \<noteq> [] then None
      else (case list_stats d of
          None \<Rightarrow> None
        | Some stats \<Rightarrow>
            let rows_by_fragment = map_of (map (\<lambda>(i, r, _). (i, r)) stats)
            in (case those (map rows_by_fragment (selected_fragment_ids b)) of
                  None \<Rightarrow> None
                | Some counts \<Rightarrow> add_row_counts 0 counts)))"


section \<open>Planning\<close>

definition ThrowCoordinatorSecretDistributedScanError :: exn where
  "ThrowCoordinatorSecretDistributedScanError = NotImplementedException
     (''Distributed Lance scans cannot use a coordinator-only TYPE LANCE '' @
      ''secret; use replayable DuckDB session settings captured by Vane'')"

definition ThrowNamespaceSessionMismatchDistributedScanError :: exn where
  "ThrowNamespaceSessionMismatchDistributedScanError = NotImplementedException
     (''Distributed Lance directory namespace scans require the query session '' @
      ''storage settings to match the settings captured by ATTACH'')"

text \<open>The checks that planning, the worker bind and serialisation begin with.\<close>

definition check_credentials :: "LanceScanBind \<Rightarrow> exn + unit" where
  "check_credentials b =
     (if distributed_requires_coordinator_secret b then Inl ThrowCoordinatorSecretDistributedScanError
      else if distributed_namespace_session_mismatch b then Inl ThrowNamespaceSessionMismatchDistributedScanError
      else Inr ())"

definition rest_failure :: "string \<Rightarrow> LanceScanBind \<Rightarrow> string" where
  "rest_failure default_text b =
     (if safe_failure (distributed_rest_candidate b) = [] then default_text else safe_failure (distributed_rest_candidate b))"

text \<open>The splits a restricted worker clone was authorised for.\<close>

fun authorized_splits :: "scan_host \<Rightarrow> (string \<times> string) list \<Rightarrow> exn + DistributedScanSplit list" where
  "authorized_splits h [] = Inr []"
| "authorized_splits h ((i, p) # ips) =
     (let split = \<lparr>split_id = i, payload = p, estimated_cardinality = None, estimated_bytes = None\<rparr>
      in res_bind (ValidateSplit h split) (\<lambda>_. res_bind (authorized_splits h ips) (\<lambda>ss. Inr (split # ss))))"

text \<open>The loop over the rows to take, from \<open>b\<close> on in steps of \<open>n\<close>, which is not zero.\<close>

function take_splits :: "scan_host \<Rightarrow> string \<Rightarrow> u64 list \<Rightarrow> nat \<Rightarrow> nat \<Rightarrow> exn + DistributedScanSplit list" where
  "take_splits h token row_ids n b =
     (if b \<ge> length row_ids \<or> n = 0 then Inr []
      else
        let e = min (length row_ids) (b + n)
        in res_bind (EncodeLanceTakeSplit h token row_ids b e) (\<lambda>p.
           res_bind (optional_idx h (e - b)) (\<lambda>rows.
           res_bind (take_splits h token row_ids n (b + n)) (\<lambda>ss.
           Inr (\<lparr>split_id = ''take:'' @ nat_to_string b, payload = p, estimated_cardinality = rows,
                 estimated_bytes = None\<rparr> # ss)))))"
  by pat_completeness auto
termination
  by (relation "measure (\<lambda>(h, token, row_ids, n, b). length row_ids - b)") auto

declare take_splits.simps [simp del]

definition fragment_split :: "scan_host \<Rightarrow> string \<Rightarrow> u64 \<times> i64 \<times> u64 \<Rightarrow> exn + DistributedScanSplit" where
  "fragment_split h token f =
     (case f of (fragment_id, row_count, bytes_on_disk) \<Rightarrow>
       res_bind (EncodeLanceFragmentSplit h token fragment_id) (\<lambda>p.
       res_bind (if sint row_count \<ge> 0 then optional_idx h (nat (sint row_count)) else Inr None) (\<lambda>rows.
       res_bind (if bytes_on_disk > 0 then optional_idx h (unat bytes_on_disk) else Inr None) (\<lambda>bytes.
         Inr \<lparr>split_id = ''fragment:'' @ word_text fragment_id, payload = p,
              estimated_cardinality = rows, estimated_bytes = bytes\<rparr>))))"

definition LancePlanDistributedScanSplits ::
    "scan_host \<Rightarrow> lance_ffi \<Rightarrow> last_error \<Rightarrow> stats_ffi \<Rightarrow> LanceScanBind \<Rightarrow> nat \<Rightarrow> exn + DistributedScanSplit list" where
  "LancePlanDistributedScanSplits h ffi err list_stats b target_split_count =
     res_bind (check_credentials b) (\<lambda>_.
     if UsesNamespaceQuery b \<and> \<not> resolved_rest b then
       Inl (NotImplementedException (rest_failure
         (''Distributed Lance REST namespace scans require a standard-'' @ ''resolved physical dataset snapshot'') b))
     else if \<not> distributed_replayable b then
       Inl (NotImplementedException
         (''Distributed Lance scans require a replayable dataset URI and '' @
          ''credentials captured in Vane'' @ [CHR 0x27] @ ''s replayable query-session state''))
     else if distributed_authorization_restricted b then
       (if length (distributed_authorized_split_ids b) \<noteq> length (distributed_authorized_split_payloads b)
        then Inl (InvalidInputException ''Invalid Lance worker split authorization'')
        else authorized_splits h (zip (distributed_authorized_split_ids b) (distributed_authorized_split_payloads b)))
     else if take_row_ids b \<noteq> [] then
       (let split_count = min (max 1 target_split_count) (length (take_row_ids b));
            rows_per_split = 1 + (length (take_row_ids b) - 1) div split_count
        in take_splits h (distributed_scan_token b) (take_row_ids b) rows_per_split 0)
     else
       res_bind (if distributed_worker b
                 then Inr (distributed_fragment_ids b, distributed_fragment_row_counts b, distributed_fragment_bytes_on_disk b)
                 else ReadLanceDistributedFragmentStats ffi err list_stats b (planning_dataset b))
         (\<lambda>(ids, counts, sizes).
           if length ids \<noteq> length counts \<or> length ids \<noteq> length sizes
           then Inl (InvalidInputException ''Invalid portable Lance fragment planning metadata'')
           else res_map (fragment_split h (distributed_scan_token b)) (zip ids (zip counts sizes))))"


section \<open>The worker's copy\<close>

text \<open>The frozen snapshot of the scan: the one it has, validated when it was not yet, or a new one.\<close>

definition GetLanceDistributedSnapshotPayload ::
    "lance_ffi \<Rightarrow> last_error \<Rightarrow> snapshot_ffi \<Rightarrow> LanceScanBind \<Rightarrow> exn + LanceVaneFrozenSnapshot" where
  "GetLanceDistributedSnapshotPayload ffi err sf b =
     (case distributed_frozen_snapshot b of
        Some snapshot \<Rightarrow>
          if distributed_snapshot_payload_validated b then Inr snapshot
          else (case LanceVaneValidateFrozenSnapshot sf snapshot of
              Some e \<Rightarrow> Inl (InvalidInputException (''Invalid frozen Lance scan snapshot: '' @ e))
            | None \<Rightarrow> Inr snapshot)
      | None \<Rightarrow>
          let c = distributed_rest_candidate b;
              (d, path, version, private) =
                (if resolved_rest b
                 then (pc_dataset c, physical_uri c, pc_dataset_version c, pc_private_uri_diagnostics c)
                 else (bound_dataset b, file_path b, dataset_version b, LanceScanHasPrivateDiagnostics ffi b));
              missing = Inl (InvalidInputException ''Cannot freeze a missing or mismatched Lance scan snapshot'')
          in case d of
               None \<Rightarrow> missing
             | Some d \<Rightarrow>
                 if version = 0 \<or> lance_dataset_version sf d \<noteq> version then missing
                 else res_bind (LanceVaneFreezeSnapshot ffi err sf d path private) (\<lambda>snapshot.
                   if resolved_rest b \<and> schema_fingerprint snapshot \<noteq> pc_schema_fingerprint c
                   then Inl (IOException (''Resolved Lance REST schema changed while freezing the '' @
                          ''distributed scan snapshot''))
                   else Inr snapshot))"

definition portable_stats ::
    "lance_ffi \<Rightarrow> last_error \<Rightarrow> stats_ffi \<Rightarrow> LanceScanBind \<Rightarrow> exn + u64 list \<times> i64 list \<times> u64 list" where
  "portable_stats ffi err list_stats b =
     (if \<not> distributed_worker b \<and> take_row_ids b = []
      then ReadLanceDistributedFragmentStats ffi err list_stats b
             (if resolved_rest b then pc_dataset (distributed_rest_candidate b) else bound_dataset b)
      else Inr (distributed_fragment_ids b, distributed_fragment_row_counts b, distributed_fragment_bytes_on_disk b))"

definition LanceCreateDistributedScanWorkerBind ::
    "scan_host \<Rightarrow> lance_ffi \<Rightarrow> last_error \<Rightarrow> snapshot_ffi \<Rightarrow> stats_ffi \<Rightarrow> LanceScanBind \<Rightarrow> exn + LanceScanBind" where
  "LanceCreateDistributedScanWorkerBind h ffi err sf list_stats source =
     res_bind (check_credentials source) (\<lambda>_.
     if (UsesNamespaceQuery source \<and> \<not> resolved_rest source) \<or> \<not> distributed_replayable source \<or>
        dataset_version source = 0 \<or> dataset_generation_id source = [] \<or>
        \<not> IsValidLanceScanToken h (distributed_scan_token source)
     then Inl (NotImplementedException ''Lance scan cannot create a replayable fixed-snapshot worker bind'')
     else
       res_bind (GetLanceDistributedSnapshotPayload ffi err sf source) (\<lambda>snapshot.
       res_bind (portable_stats ffi err list_stats source) (\<lambda>(ids, counts, sizes).
       let c = distributed_rest_candidate source; rest = resolved_rest source;
           restricted = distributed_authorization_restricted source
       in Inr (NewLanceScanBindData\<lparr>
            file_path := (if rest then physical_uri c else file_path source),
            explain_verbose := explain_verbose source,
            names := names source,
            types := types source,
            lance_pushed_filter_ir_parts := lance_pushed_filter_ir_parts source,
            take_row_ids := take_row_ids source,
            dataset_version := (if rest then pc_dataset_version c else dataset_version source),
            dataset_generation_id := (if rest then pc_dataset_generation_id c else dataset_generation_id source),
            distributed_frozen_snapshot := Some snapshot,
            distributed_snapshot_payload_validated := True,
            distributed_scan_token := distributed_scan_token source,
            distributed_replayable := True,
            replay_path_restricted := replay_path_restricted source,
            distributed_worker := True,
            distributed_fragment_ids := ids,
            distributed_fragment_row_counts := counts,
            distributed_fragment_bytes_on_disk := sizes,
            distributed_authorization_restricted := restricted,
            distributed_authorized_split_ids := (if restricted then distributed_authorized_split_ids source else []),
            distributed_authorized_split_payloads :=
              (if restricted then distributed_authorized_split_payloads source else [])\<rparr>))))"


section \<open>Applying splits\<close>

datatype SplitMode = UNKNOWN | FRAGMENT | TAKE

record apply_state =
  mode :: SplitMode
  st_fragment_ids :: "u64 list"
  st_take_row_ids :: "u64 list"
  take_ranges :: "(u64 \<times> u64) list"

definition start_state :: apply_state where
  "start_state = \<lparr>mode = UNKNOWN, st_fragment_ids = [], st_take_row_ids = [], take_ranges = []\<rparr>"

text \<open>The set \<open>seen_fragments\<close> holds what \<open>selected_fragment_ids\<close> lists.\<close>

definition apply_fragment :: "LanceScanBind \<Rightarrow> DistributedScanSplit \<Rightarrow> string \<Rightarrow> u64 \<Rightarrow> apply_state \<Rightarrow> exn + apply_state" where
  "apply_fragment w split token fragment_id st =
     (if mode st = TAKE \<or> token \<noteq> distributed_scan_token w \<or>
         split_id split \<noteq> ''fragment:'' @ word_text fragment_id \<or> fragment_id \<in> set (st_fragment_ids st) \<or>
         (\<not> distributed_authorization_restricted w \<and> take_row_ids w \<noteq> [])
      then Inl (InvalidInputException ''Invalid Lance fragment scan split'')
      else Inr (st\<lparr>mode := FRAGMENT, st_fragment_ids := st_fragment_ids st @ [fragment_id]\<rparr>))"

definition apply_take ::
    "LanceScanBind \<Rightarrow> DistributedScanSplit \<Rightarrow> string \<Rightarrow> u64 \<Rightarrow> u64 list \<Rightarrow> apply_state \<Rightarrow> exn + apply_state" where
  "apply_take w split token b row_ids st =
     (let invalid = Inl (InvalidInputException ''Invalid Lance take scan split'');
          restricted = distributed_authorization_restricted w; planned = take_row_ids w
      in if mode st = FRAGMENT \<or> token \<noteq> distributed_scan_token w \<or> split_id split \<noteq> ''take:'' @ word_text b \<or>
            (\<not> restricted \<and> planned = []) then invalid
         else if \<not> restricted \<and>
            (unat b > length planned \<or> length row_ids > length planned - unat b \<or>
             row_ids \<noteq> take (length row_ids) (drop (unat b) planned)) then invalid
         else if length row_ids > (2 ^ 64 - 1) - unat b then invalid
         else Inr (st\<lparr>mode := TAKE, take_ranges := take_ranges st @ [(b, b + word_of_nat (length row_ids))],
                      st_take_row_ids := st_take_row_ids st @ row_ids\<rparr>))"

definition apply_split :: "scan_host \<Rightarrow> LanceScanBind \<Rightarrow> apply_state \<Rightarrow> DistributedScanSplit \<Rightarrow> exn + apply_state" where
  "apply_split h w st split =
     res_bind (ValidateSplit h split) (\<lambda>_.
     case DecodeLanceFragmentSplit h (payload split) of
       Some (token, fragment_id) \<Rightarrow> apply_fragment w split token fragment_id st
     | None \<Rightarrow>
         (case DecodeLanceTakeSplit h (payload split) of
            Some (token, b, row_ids) \<Rightarrow> apply_take w split token b row_ids st
          | None \<Rightarrow> Inl (InvalidInputException ''Invalid opaque Lance scan split payload'')))"

text \<open>The check of neighbours in the sorted ranges.\<close>

fun overlapping :: "(u64 \<times> u64) list \<Rightarrow> bool" where
  "overlapping (r # s # rs) \<longleftrightarrow> fst s < snd r \<or> overlapping (s # rs)"
| "overlapping _ \<longleftrightarrow> False"

definition LanceApplyDistributedScanSplits ::
    "scan_host \<Rightarrow> LanceScanBind \<Rightarrow> DistributedScanSplit list \<Rightarrow> exn + LanceScanBind" where
  "LanceApplyDistributedScanSplits h w splits =
     (let restricted = distributed_authorization_restricted w;
          only_original = Inl (InvalidInputException
            (''Distributed Lance worker clone can only replay its original split '' @ ''assignment''))
      in if \<not> distributed_worker w then
           Inl (InvalidInputException ''Distributed Lance splits require a detached worker bind'')
         else if splits = [] then
           (if restricted \<and>
               (distributed_authorized_split_ids w \<noteq> [] \<or> distributed_authorized_split_payloads w \<noteq> [])
            then only_original
            else Inr (w\<lparr>distributed_authorization_restricted := True, distributed_authorized_split_ids := [],
                        distributed_authorized_split_payloads := [], selected_fragment_ids := [], take_row_ids := [],
                        distributed_splits_applied := True\<rparr>))
         else
           res_bind (res_foldl (apply_split h w) start_state splits) (\<lambda>st.
           if overlapping (sort (take_ranges st)) then
             Inl (InvalidInputException ''Overlapping Lance take scan splits'')
           else
             let authorization = sort (map (\<lambda>s. (split_id s, payload s)) splits);
                 ids = map fst authorization; payloads = map snd authorization
             in if restricted \<and>
                   (ids \<noteq> distributed_authorized_split_ids w \<or> payloads \<noteq> distributed_authorized_split_payloads w)
                then only_original
                else Inr (w\<lparr>distributed_authorization_restricted := True, distributed_authorized_split_ids := ids,
                            distributed_authorized_split_payloads := payloads,
                            selected_fragment_ids := st_fragment_ids st, take_row_ids := st_take_row_ids st,
                            distributed_splits_applied := True\<rparr>)))"


section \<open>Serialisation\<close>

text \<open>
  A serialised scan is a list of numbered properties.  Reading a property that is missing or of
  another type throws.
\<close>

datatype property =
    PText string | PNumber u64 | PBool bool | PTexts "string list" | PNumbers "u64 list" | PTypes "LogicalType list"

type_synonym properties = "(nat \<times> property) list"

definition ReadProperty :: "(property \<Rightarrow> 'a option) \<Rightarrow> properties \<Rightarrow> nat \<Rightarrow> exn + 'a" where
  "ReadProperty get ps i =
     (case Option.bind (map_of ps i) get of None \<Rightarrow> Inl (SerializationException []) | Some v \<Rightarrow> Inr v)"

definition as_text :: "property \<Rightarrow> string option" where
  "as_text p = (case p of PText s \<Rightarrow> Some s | _ \<Rightarrow> None)"

definition as_number :: "property \<Rightarrow> u64 option" where
  "as_number p = (case p of PNumber s \<Rightarrow> Some s | _ \<Rightarrow> None)"

definition as_bool :: "property \<Rightarrow> bool option" where
  "as_bool p = (case p of PBool s \<Rightarrow> Some s | _ \<Rightarrow> None)"

definition as_texts :: "property \<Rightarrow> string list option" where
  "as_texts p = (case p of PTexts s \<Rightarrow> Some s | _ \<Rightarrow> None)"

definition as_numbers :: "property \<Rightarrow> u64 list option" where
  "as_numbers p = (case p of PNumbers s \<Rightarrow> Some s | _ \<Rightarrow> None)"

definition as_types :: "property \<Rightarrow> LogicalType list option" where
  "as_types p = (case p of PTypes s \<Rightarrow> Some s | _ \<Rightarrow> None)"

definition LanceScanSerialize ::
    "scan_host \<Rightarrow> lance_ffi \<Rightarrow> last_error \<Rightarrow> snapshot_ffi \<Rightarrow> stats_ffi \<Rightarrow> LanceScanBind \<Rightarrow> exn + properties" where
  "LanceScanSerialize h ffi err sf list_stats b =
     res_bind (check_credentials b) (\<lambda>_.
     if UsesNamespaceQuery b \<and> \<not> resolved_rest b then
       Inl (SerializationException (rest_failure
         (''Distributed Lance REST scans require a standard-resolved '' @ ''physical dataset snapshot'') b))
     else
       let c = distributed_rest_candidate b; rest = resolved_rest b;
           path = (if rest then physical_uri c else file_path b);
           version = (if rest then pc_dataset_version c else dataset_version b);
           generation = (if rest then pc_dataset_generation_id c else dataset_generation_id b);
           token = (if rest then search_node_uuid c else distributed_scan_token b);
           private = (if rest then LanceVanePathHasPrivateUriComponents ffi path
                      else LanceScanHasNonReplayablePrivateState ffi b)
       in if \<not> distributed_replayable b \<or> private \<or> path = [] \<or> version = 0 \<or> generation = [] \<or>
             \<not> IsValidLanceScanToken h token
          then Inl (SerializationException ''Lance scan does not have a replayable fixed dataset snapshot'')
          else
            res_bind (GetLanceDistributedSnapshotPayload ffi err sf b) (\<lambda>snapshot.
            res_bind (portable_stats ffi err list_stats b) (\<lambda>(ids, counts, sizes).
            Inr [(100, PText path), (101, PNumber version), (102, PText generation), (103, PBool (explain_verbose b)),
                 (104, PTexts (lance_pushed_filter_ir_parts b)),
                 (105, PBool (distributed_authorization_restricted b)),
                 (106, PTexts (distributed_authorized_split_ids b)),
                 (107, PTexts (distributed_authorized_split_payloads b)),
                 (108, PNumbers (if distributed_authorization_restricted b then [] else take_row_ids b)),
                 (109, PText token), (110, PTexts (names b)), (111, PTypes (types b)),
                 (112, PNumbers ids), (113, PNumbers counts), (114, PNumbers sizes),
                 (115, PNumber LANCE_VANE_FROZEN_SNAPSHOT_VERSION),
                 (116, PText (serialized_manifest snapshot)), (117, PText (manifest_sha256 snapshot)),
                 (118, PText (schema_fingerprint snapshot))])))"

definition LanceScanDeserialize :: "scan_host \<Rightarrow> snapshot_ffi \<Rightarrow> properties \<Rightarrow> exn + LanceScanBind" where
  "LanceScanDeserialize h sf ps =
     res_bind (ReadProperty as_text ps 100) (\<lambda>path.
     res_bind (ReadProperty as_number ps 101) (\<lambda>version.
     res_bind (ReadProperty as_text ps 102) (\<lambda>generation.
     res_bind (ReadProperty as_bool ps 103) (\<lambda>verbose.
     res_bind (ReadProperty as_texts ps 104) (\<lambda>parts.
     res_bind (ReadProperty as_bool ps 105) (\<lambda>restricted.
     res_bind (ReadProperty as_texts ps 106) (\<lambda>split_ids.
     res_bind (ReadProperty as_texts ps 107) (\<lambda>split_payloads.
     res_bind (ReadProperty as_numbers ps 108) (\<lambda>rows.
     res_bind (ReadProperty as_text ps 109) (\<lambda>token.
     res_bind (ReadProperty as_texts ps 110) (\<lambda>column_names.
     res_bind (ReadProperty as_types ps 111) (\<lambda>column_types.
     res_bind (ReadProperty as_numbers ps 112) (\<lambda>ids.
     res_bind (ReadProperty as_numbers ps 113) (\<lambda>counts.
     res_bind (ReadProperty as_numbers ps 114) (\<lambda>sizes.
     res_bind (ReadProperty as_number ps 115) (\<lambda>snapshot_version.
     res_bind (ReadProperty as_text ps 116) (\<lambda>manifest.
     res_bind (ReadProperty as_text ps 117) (\<lambda>sha.
     res_bind (ReadProperty as_text ps 118) (\<lambda>fingerprint.
     let snapshot = \<lparr>serialized_manifest = manifest, manifest_sha256 = sha, schema_fingerprint = fingerprint\<rparr>;
         snapshot_error = (if snapshot_version = LANCE_VANE_FROZEN_SNAPSHOT_VERSION
                           then LanceVaneValidateFrozenSnapshot sf snapshot else Some []);
         detail = (case snapshot_error of None \<Rightarrow> [] | Some e \<Rightarrow> e)
     in if path = [] \<or> CHR 0x00 \<in> set path \<or> version = 0 \<or> generation = [] \<or> CHR 0x00 \<in> set generation \<or>
           \<not> IsValidLanceScanToken h token \<or> column_names = [] \<or> length column_names \<noteq> length column_types \<or>
           length ids \<noteq> length counts \<or> length ids \<noteq> length sizes \<or> length split_ids \<noteq> length split_payloads \<or>
           (\<not> restricted \<and> split_ids \<noteq> []) \<or> snapshot_error \<noteq> None
        then Inl (SerializationException (''Serialized Lance scan has an invalid fixed snapshot identity'' @
               (if detail = [] then [] else '': '' @ detail)))
        else Inr (NewLanceScanBindData\<lparr>
               file_path := path, dataset_version := version, dataset_generation_id := generation,
               explain_verbose := verbose, lance_pushed_filter_ir_parts := parts,
               distributed_authorization_restricted := restricted, distributed_authorized_split_ids := split_ids,
               distributed_authorized_split_payloads := split_payloads, take_row_ids := rows,
               distributed_scan_token := token, names := column_names, types := column_types,
               distributed_fragment_ids := ids, distributed_fragment_row_counts := counts,
               distributed_fragment_bytes_on_disk := sizes, distributed_replayable := True,
               distributed_frozen_snapshot := Some snapshot, distributed_snapshot_payload_validated := True,
               distributed_worker := True\<rparr>))))))))))))))))))))"

end
