(* ===== verification/Scan_Plan.thy ===== *)
theory Scan_Plan
  imports Row_Lookup Scan_Splits
begin

text \<open>
  What the optimizer does to a plan with Lance scans (\<open>lance_scan.cpp\<close>): the callback for complex
  filters, the rewrite of row id predicates into point lookups, the pushdown of LIKE and of limits.
  A plan is a tree of DuckDB's operators, of which scans, filters, projections and limits are looked
  into; the passes update the scan's bind data in place, here the scan inside the tree.
\<close>

section \<open>Plans\<close>

record SampleOptions =
  system_sample :: bool
  is_percentage :: bool
  sample_size :: Value
  GetSeed :: i64
  repeatable :: bool

text \<open>
  The members of \<open>LanceScanBindData\<close> that the optimizer sets; \<open>sample_percentage\<close> is the bit pattern
  of a double, an invalid \<open>optional_idx\<close> is \<open>None\<close>.
\<close>

record ScanBind = LanceScanBind +
  duckdb_pushed_filter_sql_parts :: "string list"
  sampling_pushed_down :: bool
  sample_percentage :: "64 word"
  sample_seed :: i64
  sample_repeatable :: bool
  limit_offset_pushed_down :: bool
  pushed_limit :: "nat option"
  pushed_offset :: nat

text \<open>A scan: DuckDB's \<open>LogicalGet\<close>, the name of its table function and its bind data.\<close>

record ScanGet =
  logical_get :: LogicalGet
  function_name :: string
  get_bind_data :: "ScanBind option"
  get_sample_options :: "SampleOptions option"

datatype LimitVal = LimitUnset | LimitConstant nat | LimitOther nat

text \<open>Operators with their children and the estimated cardinality.\<close>

datatype plan =
    ScanOp ScanGet "plan option list" nat
  | FilterOp "Expression option list" "plan option list" nat
  | ProjectionOp nat "Expression option list" "plan option list" nat
  | LimitOp LimitVal LimitVal "plan option list" nat
  | OtherOp nat "plan option list" nat

text \<open>
  Functions of DuckDB: \<open>TableFilter::ToExpression\<close>, the nodes \<open>ExpressionIterator::EnumerateExpression\<close>
  visits, \<open>Expression::ToString\<close> with the given names for the columns, and the replacement of column
  references by \<open>ExpressionIterator::VisitExpressionMutable\<close>, whose callback may give up.
\<close>

record plan_host =
  ToExpression :: "TableFilter \<Rightarrow> Expression \<Rightarrow> Expression"
  EnumerateExpression :: "Expression \<Rightarrow> Expression list"
  ExpressionToString :: "(ColumnBinding \<Rightarrow> string) \<Rightarrow> Expression \<Rightarrow> string"
  VisitExpressionMutable :: "(ColumnBinding \<Rightarrow> nat \<Rightarrow> (exn, Expression) outcome) \<Rightarrow> Expression \<Rightarrow> (exn, Expression) outcome"

definition IsLanceScanTableFunction :: "string \<Rightarrow> bool" where
  "IsLanceScanTableFunction name \<longleftrightarrow>
     name = ''__lance_scan'' \<or> name = ''__lance_table_scan'' \<or> name = ''__lance_namespace_scan''"

text \<open>The bind data of a Lance scan.\<close>

definition lance_bind :: "ScanGet \<Rightarrow> ScanBind option" where
  "lance_bind g = (if IsLanceScanTableFunction (function_name g) then get_bind_data g else None)"

definition set_bind :: "ScanBind \<Rightarrow> ScanGet \<Rightarrow> ScanGet" where
  "set_bind b g = g\<lparr>get_bind_data := Some b\<rparr>"

definition set_filters :: "TableFilterSet \<Rightarrow> ScanGet \<Rightarrow> ScanGet" where
  "set_filters fs g = g\<lparr>logical_get := (logical_get g)\<lparr>table_filters := fs\<rparr>\<rparr>"

fun set_estimate :: "nat \<Rightarrow> plan \<Rightarrow> plan" where
  "set_estimate n (ScanOp g cs est) = ScanOp g cs n"
| "set_estimate n (FilterOp es cs est) = FilterOp es cs n"
| "set_estimate n (ProjectionOp ti es cs est) = ProjectionOp ti es cs n"
| "set_estimate n (LimitOp l off cs est) = LimitOp l off cs n"
| "set_estimate n (OtherOp k cs est) = OtherOp k cs n"


section \<open>Complex filters\<close>

definition is_pushed_constant :: "Expression option \<Rightarrow> bool" where
  "is_pushed_constant node \<longleftrightarrow>
     (case node of
        Some (BoundConstant v) \<Rightarrow> True
      | Some (BoundCast t try_cast (Some (BoundConstant v))) \<Rightarrow> \<not> try_cast
      | _ \<Rightarrow> False)"

definition is_pushed_column :: "Expression option \<Rightarrow> bool" where
  "is_pushed_column node \<longleftrightarrow>
     (case node of Some (BoundColumnRef t b d) \<Rightarrow> True | Some (BoundRef t nm i) \<Rightarrow> True | _ \<Rightarrow> False)"

text \<open>IS [NOT] DISTINCT FROM between a column and a constant is left to the table filters.\<close>

fun left_to_table_filters :: "Expression \<Rightarrow> bool" where
  "left_to_table_filters (BoundComparison k l r) \<longleftrightarrow>
     (k = COMPARE_DISTINCT_FROM \<or> k = COMPARE_NOT_DISTINCT_FROM) \<and>
     (is_pushed_column l \<and> is_pushed_constant r \<or> is_pushed_column r \<and> is_pushed_constant l)"
| "left_to_table_filters e \<longleftrightarrow> False"

definition get_column_name :: "duckdb \<Rightarrow> ScanBind \<Rightarrow> ColumnIndex \<Rightarrow> string" where
  "get_column_name db b c =
     (let col_id = GetPrimaryIndex c
      in if col_id = COLUMN_IDENTIFIER_ROW_ID db \<or> col_id = COLUMN_IDENTIFIER_EMPTY db then []
         else if col_id \<ge> length (names b) then [] else names b ! col_id)"

definition quote_identifier :: "string \<Rightarrow> string" where
  "quote_identifier name = CHR ''`'' # concat (map (\<lambda>c. if c = CHR ''`'' then ''``'' else [c]) name) @ ''`''"

text \<open>The check of one visited node; other nodes are passed over.\<close>

fun check_filter_column :: "nat \<Rightarrow> string list \<Rightarrow> Expression \<Rightarrow> exn + unit" where
  "check_filter_column ti column_names (BoundColumnRef t binding depth) =
     (if table_index binding \<noteq> ti \<or> column_index binding \<ge> length column_names then
        Inl (NotImplementedException ''Lance scan filter pushdown does not support joins'')
      else if column_names ! column_index binding = [] then
        Inl (NotImplementedException ''Lance scan filter pushdown could not resolve column name'')
      else Inr ())"
| "check_filter_column ti column_names e = Inr ()"

definition filter_sql :: "plan_host \<Rightarrow> nat \<Rightarrow> string list \<Rightarrow> Expression \<Rightarrow> exn + string" where
  "filter_sql h ti column_names e =
     res_bind (res_map (check_filter_column ti column_names) (EnumerateExpression h e)) (\<lambda>_.
       Inr (ExpressionToString h (\<lambda>binding. quote_identifier (column_names ! column_index binding)) e))"

definition set_take :: "u64 list \<Rightarrow> ScanBind \<Rightarrow> ScanBind" where
  "set_take rows b = b\<lparr>take_row_ids := rows\<rparr>"

text \<open>The first part of the loop body: rows of a point lookup, kept when there are none yet.\<close>

definition push_lookup :: "bool \<Rightarrow> duckdb \<Rightarrow> LogicalGet \<Rightarrow> Expression \<Rightarrow> ScanBind \<Rightarrow> exn + ScanBind" where
  "push_lookup vane db get e b =
     (if \<not> UsesNamespaceQuery b \<and> take_row_ids b = [] then
        (case try_extract_rowids vane db get e of
           Raised x \<Rightarrow> Inl x
         | Refused \<Rightarrow> Inr b
         | Done rows \<Rightarrow> Inr (if rows = [] then b else set_take (if vane then NormalizeSqlTakeRowIds rows else rows) b))
      else Inr b)"

definition push_filter :: "duckdb \<Rightarrow> plan_host \<Rightarrow> LogicalGet \<Rightarrow> string list \<Rightarrow> Expression \<Rightarrow> ScanBind \<Rightarrow> exn + ScanBind" where
  "push_filter db h get column_names e b =
     (if left_to_table_filters e then Inr b
      else
        (case TryBuildLanceExprFilterIR db get (names b) (types b) False e of
           Raised x \<Rightarrow> Inl x
         | Refused \<Rightarrow> Inr b
         | Done ir \<Rightarrow>
             res_bind (filter_sql h (get_table_index get) column_names e) (\<lambda>sql.
               Inr (b\<lparr>lance_pushed_filter_ir_parts := lance_pushed_filter_ir_parts b @ [bytes_string ir],
                      duckdb_pushed_filter_sql_parts := duckdb_pushed_filter_sql_parts b @ [sql]\<rparr>))))"

definition complex_filter_step :: "bool \<Rightarrow> duckdb \<Rightarrow> plan_host \<Rightarrow> LogicalGet \<Rightarrow> string list \<Rightarrow> ScanBind \<Rightarrow> Expression option \<Rightarrow> exn + ScanBind" where
  "complex_filter_step vane db h get column_names b expr =
     (case expr of
        None \<Rightarrow> Inr b
      | Some e \<Rightarrow>
          if HasParameter db e \<or> IsVolatile db e then Inr b
          else res_bind (push_lookup vane db get e b) (push_filter db h get column_names e))"

definition LancePushdownComplexFilter :: "bool \<Rightarrow> duckdb \<Rightarrow> plan_host \<Rightarrow> LogicalGet \<Rightarrow> Expression option list \<Rightarrow> ScanBind \<Rightarrow> exn + ScanBind" where
  "LancePushdownComplexFilter vane db h get es b =
     (let column_names = map (get_column_name db b) (get_column_ids get)
      in res_foldl (complex_filter_step vane db h get column_names) b es)"


section \<open>Point lookups\<close>

text \<open>Children are rewritten first; \<open>op->children\<close> of a null child is an error.\<close>

definition rewrite_children :: "(plan \<Rightarrow> exn + plan) \<Rightarrow> plan option list \<Rightarrow> exn + plan option list" where
  "rewrite_children f cs = res_map (\<lambda>c. case c of None \<Rightarrow> Inl NullPointer | Some p \<Rightarrow> res_bind (f p) (\<lambda>q. Inr (Some q))) cs"

lemma rewrite_children_cong [fundef_cong]:
  "\<lbrakk>cs = ds; \<And>p. Some p \<in> set ds \<Longrightarrow> f p = g p\<rbrakk> \<Longrightarrow> rewrite_children f cs = rewrite_children g ds"
  unfolding rewrite_children_def by (intro res_map_cong) (auto split: option.splits)

text \<open>The row id filter of a scan: its column, \<open>_rowid\<close> before \<open>rowid\<close>, and the filter.\<close>

definition row_id_filter :: "duckdb \<Rightarrow> TableFilterSet \<Rightarrow> (nat \<times> TableFilter) option" where
  "row_id_filter db fs =
     (case filter_at fs LANCE_COLUMN_IDENTIFIER_ROW_ID of
        Some f \<Rightarrow> Some (LANCE_COLUMN_IDENTIFIER_ROW_ID, f)
      | None \<Rightarrow> map_option (Pair (COLUMN_IDENTIFIER_ROW_ID db)) (filter_at fs (COLUMN_IDENTIFIER_ROW_ID db)))"

definition erase_filter :: "nat \<Rightarrow> TableFilterSet \<Rightarrow> TableFilterSet" where
  "erase_filter c fs = filter (\<lambda>(k, f). k \<noteq> c) fs"

text \<open>The rows a scan can take instead of its row id filter; \<open>Refused\<close> when it cannot.\<close>

definition take_of_filter :: "bool \<Rightarrow> ScanBind \<Rightarrow> TableFilter \<Rightarrow> (exn, u64 list) outcome" where
  "take_of_filter vane b f =
     (if vane then try_bind (TryExtractTakeRowIdsFromFilter vane f) (\<lambda>rows.
        let rows = NormalizeSqlTakeRowIds rows in if rows = [] then Refused else Done rows)
      else if take_row_ids b \<noteq> [] then Refused
      else try_bind (TryExtractTakeRowIdsFromFilter vane f) (\<lambda>rows. if rows = [] then Refused else Done rows))"

fun column_position :: "nat \<Rightarrow> ColumnIndex list \<Rightarrow> nat option" where
  "column_position c [] = None"
| "column_position c (i # is) = (if GetPrimaryIndex i = c then Some 0 else map_option Suc (column_position c is))"

text \<open>Without the distributed build a filter that is no lookup becomes a filter operator again.\<close>

definition filter_above_scan :: "duckdb \<Rightarrow> plan_host \<Rightarrow> ScanGet \<Rightarrow> plan option list \<Rightarrow> nat \<Rightarrow> nat \<Rightarrow> TableFilter \<Rightarrow> exn + plan" where
  "filter_above_scan db h g cs est filter_col_id f =
     (let get = logical_get g
      in case column_position filter_col_id (get_column_ids get) of
           None \<Rightarrow> Inl (InternalException ''Lance scan found a rowid table filter without a rowid column'')
         | Some i \<Rightarrow>
             let col_type = if filter_col_id = COLUMN_IDENTIFIER_ROW_ID db then ROW_TYPE else SimpleType UBIGINT;
                 colref = BoundColumnRef col_type \<lparr>table_index = get_table_index get, column_index = i\<rparr> 0
             in Inr (FilterOp [Some (ToExpression h f colref)]
                      [Some (ScanOp (set_filters (erase_filter filter_col_id (table_filters get)) g) cs est)] est))"

definition rewrite_scan :: "bool \<Rightarrow> duckdb \<Rightarrow> plan_host \<Rightarrow> ScanGet \<Rightarrow> plan option list \<Rightarrow> nat \<Rightarrow> exn + plan" where
  "rewrite_scan vane db h g cs est =
     (let fs = table_filters (logical_get g)
      in case lance_bind g of
           None \<Rightarrow> Inr (ScanOp g cs est)
         | Some b \<Rightarrow>
             if UsesNamespaceQuery b then Inr (ScanOp g cs est)
             else case row_id_filter db fs of
               None \<Rightarrow> Inr (ScanOp g cs est)
             | Some (c, f) \<Rightarrow>
                 (case take_of_filter vane b f of
                    Raised x \<Rightarrow> Inl x
                  | Done rows \<Rightarrow> Inr (ScanOp (set_bind (set_take rows b) (set_filters (erase_filter c fs) g)) cs est)
                  | Refused \<Rightarrow> if vane then Inr (ScanOp g cs est) else filter_above_scan db h g cs est c f))"

text \<open>The scan below projections, and the same place with the scan replaced.\<close>

fun scan_below :: "plan \<Rightarrow> ScanGet option" where
  "scan_below (ScanOp g cs est) = Some g"
| "scan_below (ProjectionOp ti es (Some c # cs) est) = scan_below c"
| "scan_below p = None"

fun update_below :: "(ScanGet \<Rightarrow> ScanGet) \<Rightarrow> plan \<Rightarrow> plan" where
  "update_below u (ScanOp g cs est) = ScanOp (u g) cs est"
| "update_below u (ProjectionOp ti es (Some c # cs) est) = ProjectionOp ti es (Some (update_below u c) # cs) est"
| "update_below u p = p"

text \<open>The first expression that is a lookup, with its position.\<close>

fun first_lookup :: "bool \<Rightarrow> duckdb \<Rightarrow> LogicalGet \<Rightarrow> nat \<Rightarrow> Expression option list \<Rightarrow> (exn, nat \<times> u64 list) outcome" where
  "first_lookup vane db get i [] = Refused"
| "first_lookup vane db get i (None # es) = Raised NullPointer"
| "first_lookup vane db get i (Some e # es) =
     (case TryExtractTakeRowIdsFromExpression vane db get e of
        Raised x \<Rightarrow> Raised x
      | Done rows \<Rightarrow> Done (i, rows)
      | Refused \<Rightarrow> first_lookup vane db get (Suc i) es)"

definition erase_at :: "nat \<Rightarrow> 'a list \<Rightarrow> 'a list" where
  "erase_at i xs = take i xs @ drop (Suc i) xs"

definition rewrite_filter :: "bool \<Rightarrow> duckdb \<Rightarrow> Expression option list \<Rightarrow> plan option list \<Rightarrow> nat \<Rightarrow> exn + plan" where
  "rewrite_filter vane db es cs est =
     (case cs of
        [Some child] \<Rightarrow>
          (case scan_below child of
             None \<Rightarrow> Inr (FilterOp es cs est)
           | Some g \<Rightarrow>
               (case lance_bind g of
                  None \<Rightarrow> Inr (FilterOp es cs est)
                | Some b \<Rightarrow>
                    if UsesNamespaceQuery b then Inr (FilterOp es cs est)
                    else case first_lookup vane db (logical_get g) 0 es of
                      Raised x \<Rightarrow> Inl x
                    | Refused \<Rightarrow> Inr (FilterOp es cs est)
                    | Done (i, ids) \<Rightarrow>
                        let rows = (if vane then NormalizeSqlTakeRowIds ids else ids);
                            taken = update_below (set_bind (set_take rows b)) child
                        in if vane \<and> rows = [] then Inr (FilterOp es cs est)
                           else if erase_at i es = [] then Inr (set_estimate est taken)
                           else Inr (FilterOp (erase_at i es) [Some taken] est)))
      | _ \<Rightarrow> Inr (FilterOp es cs est))"

function (sequential) LanceRowIdInRewrite :: "bool \<Rightarrow> duckdb \<Rightarrow> plan_host \<Rightarrow> plan \<Rightarrow> exn + plan" where
  "LanceRowIdInRewrite vane db h (ScanOp g cs est) =
     res_bind (rewrite_children (LanceRowIdInRewrite vane db h) cs) (\<lambda>cs. rewrite_scan vane db h g cs est)"
| "LanceRowIdInRewrite vane db h (FilterOp es cs est) =
     res_bind (rewrite_children (LanceRowIdInRewrite vane db h) cs) (\<lambda>cs. rewrite_filter vane db es cs est)"
| "LanceRowIdInRewrite vane db h (ProjectionOp ti es cs est) =
     res_bind (rewrite_children (LanceRowIdInRewrite vane db h) cs) (\<lambda>cs. Inr (ProjectionOp ti es cs est))"
| "LanceRowIdInRewrite vane db h (LimitOp l off cs est) =
     res_bind (rewrite_children (LanceRowIdInRewrite vane db h) cs) (\<lambda>cs. Inr (LimitOp l off cs est))"
| "LanceRowIdInRewrite vane db h (OtherOp k cs est) =
     res_bind (rewrite_children (LanceRowIdInRewrite vane db h) cs) (\<lambda>cs. Inr (OtherOp k cs est))"
  by pat_completeness auto
termination
  by (relation "measure (\<lambda>(_, _, _, p). size p)") (auto dest!: size_Some_child)


section \<open>LIKE\<close>

definition push_like :: "duckdb \<Rightarrow> LogicalGet \<Rightarrow> ScanBind \<Rightarrow> Expression option \<Rightarrow> exn + ScanBind" where
  "push_like db get b expr =
     (case expr of
        Some (BoundFunction t name cs) \<Rightarrow>
          let e = BoundFunction t name cs
          in if HasParameter db e \<or> IsVolatile db e \<or> CanThrow db e \<or> like_variant name = None then Inr b
             else (case TryBuildLanceExprFilterIR db get (names b) (types b) False e of
                 Raised x \<Rightarrow> Inl x
               | Refused \<Rightarrow> Inr b
               | Done ir \<Rightarrow> Inr (b\<lparr>lance_pushed_filter_ir_parts := lance_pushed_filter_ir_parts b @ [bytes_string ir]\<rparr>))
      | _ \<Rightarrow> Inr b)"

definition push_likes :: "duckdb \<Rightarrow> Expression option list \<Rightarrow> plan option list \<Rightarrow> nat \<Rightarrow> exn + plan" where
  "push_likes db es cs est =
     (case cs of
        [Some child] \<Rightarrow>
          (case Option.bind (scan_below child) (\<lambda>g. map_option (Pair g) (lance_bind g)) of
             None \<Rightarrow> Inr (FilterOp es cs est)
           | Some (g, b) \<Rightarrow>
               res_bind (res_foldl (push_like db (logical_get g)) b es) (\<lambda>b'.
                 Inr (FilterOp es [Some (update_below (set_bind b') child)] est)))
      | _ \<Rightarrow> Inr (FilterOp es cs est))"

function (sequential) LanceLikePushdown :: "duckdb \<Rightarrow> plan \<Rightarrow> exn + plan" where
  "LanceLikePushdown db (ScanOp g cs est) =
     res_bind (rewrite_children (LanceLikePushdown db) cs) (\<lambda>cs. Inr (ScanOp g cs est))"
| "LanceLikePushdown db (FilterOp es cs est) =
     res_bind (rewrite_children (LanceLikePushdown db) cs) (\<lambda>cs. push_likes db es cs est)"
| "LanceLikePushdown db (ProjectionOp ti es cs est) =
     res_bind (rewrite_children (LanceLikePushdown db) cs) (\<lambda>cs. Inr (ProjectionOp ti es cs est))"
| "LanceLikePushdown db (LimitOp l off cs est) =
     res_bind (rewrite_children (LanceLikePushdown db) cs) (\<lambda>cs. Inr (LimitOp l off cs est))"
| "LanceLikePushdown db (OtherOp k cs est) =
     res_bind (rewrite_children (LanceLikePushdown db) cs) (\<lambda>cs. Inr (OtherOp k cs est))"
  by pat_completeness auto
termination
  by (relation "measure (\<lambda>(_, p). size p)") (auto dest!: size_Some_child)


section \<open>Limits\<close>

definition TryParseConstantLimitOffset :: "scan_host \<Rightarrow> LimitVal \<Rightarrow> LimitVal \<Rightarrow> (exn, nat option \<times> nat) outcome" where
  "TryParseConstantLimitOffset sh limit_val offset_val =
     try_bind
       (case limit_val of
          LimitUnset \<Rightarrow> Done None
        | LimitConstant n \<Rightarrow> (case optional_idx sh n of Inl x \<Rightarrow> Raised x | Inr i \<Rightarrow> Done i)
        | LimitOther k \<Rightarrow> Refused)
       (\<lambda>out_limit.
         case offset_val of
           LimitUnset \<Rightarrow> Done (out_limit, 0)
         | LimitConstant n \<Rightarrow> Done (out_limit, n)
         | LimitOther k \<Rightarrow> Refused)"

text \<open>The callback that replaces a reference to a projection's output by what the projection computes.\<close>

definition replace_ref :: "nat \<Rightarrow> Expression option list \<Rightarrow> ColumnBinding \<Rightarrow> nat \<Rightarrow> (exn, Expression) outcome" where
  "replace_ref ti es binding depth =
     (if depth \<noteq> 0 \<or> table_index binding \<noteq> ti \<or> column_index binding \<ge> length es then Refused
      else deref_try (es ! column_index binding))"

fun TryBuildLanceFilterIRThroughProjections :: "duckdb \<Rightarrow> plan_host \<Rightarrow> ScanBind \<Rightarrow> plan \<Rightarrow> Expression \<Rightarrow> (exn, bytes) outcome" where
  "TryBuildLanceFilterIRThroughProjections db h b (ScanOp g cs est) e =
     TryBuildLanceExprFilterIR db (logical_get g) (names b) (types b) False e"
| "TryBuildLanceFilterIRThroughProjections db h b (ProjectionOp ti es [Some c] est) e =
     try_bind (VisitExpressionMutable h (replace_ref ti es) e) (TryBuildLanceFilterIRThroughProjections db h b c)"
| "TryBuildLanceFilterIRThroughProjections db h b (ProjectionOp ti es cs est) e =
     try_bind (VisitExpressionMutable h (replace_ref ti es) e) (\<lambda>_. Refused)"
| "TryBuildLanceFilterIRThroughProjections db h b (FilterOp es [Some c] est) e =
     TryBuildLanceFilterIRThroughProjections db h b c e"
| "TryBuildLanceFilterIRThroughProjections db h b p e = Refused"

text \<open>
  The scan below projections and filters, with the expressions of the filters on the way, each with
  the plan below its filter.
\<close>

fun scan_chain :: "plan \<Rightarrow> (ScanGet \<times> (Expression \<times> plan) list) option" where
  "scan_chain (ScanOp g cs est) = Some (g, [])"
| "scan_chain (ProjectionOp ti es (Some c # cs) est) = scan_chain c"
| "scan_chain (FilterOp es (Some c # cs) est) =
     map_option (\<lambda>(g, fs). (g, map (\<lambda>e. (e, c)) (List.map_filter id es) @ fs)) (scan_chain c)"
| "scan_chain p = None"

fun update_chain :: "(ScanGet \<Rightarrow> ScanGet) \<Rightarrow> plan \<Rightarrow> plan" where
  "update_chain u (ScanOp g cs est) = ScanOp (u g) cs est"
| "update_chain u (ProjectionOp ti es (Some c # cs) est) = ProjectionOp ti es (Some (update_chain u c) # cs) est"
| "update_chain u (FilterOp es (Some c # cs) est) = FilterOp es (Some (update_chain u c) # cs) est"
| "update_chain u p = p"

fun all_pushable :: "duckdb \<Rightarrow> plan_host \<Rightarrow> ScanBind \<Rightarrow> (Expression \<times> plan) list \<Rightarrow> exn + bool" where
  "all_pushable db h b [] = Inr True"
| "all_pushable db h b ((e, c) # fs) =
     (case TryBuildLanceFilterIRThroughProjections db h b c e of
        Raised x \<Rightarrow> Inl x
      | Refused \<Rightarrow> Inr False
      | Done ir \<Rightarrow> all_pushable db h b fs)"

text \<open>
  The remaining conditions on the scan: the range of a namespace query, no rows to take, and no
  lookup among the table filters, whose keys are read as positions in the scan's columns.
\<close>

definition max_query_value :: nat where
  "max_query_value = 2147483647"

definition beyond_query_range :: "nat option \<Rightarrow> nat \<Rightarrow> bool" where
  "beyond_query_range lim off \<longleftrightarrow>
     (lim = None \<and> off \<noteq> 0) \<or> (\<exists>n. lim = Some n \<and> n > max_query_value) \<or> off > max_query_value"

definition row_lookup_filter :: "duckdb \<Rightarrow> LogicalGet \<Rightarrow> nat \<times> TableFilter option \<Rightarrow> bool" where
  "row_lookup_filter db get entry \<longleftrightarrow>
     (case entry of (i, Some f) \<Rightarrow> row_id_position db get i \<and> IsTakeRowIdFilter f | _ \<Rightarrow> False)"

definition set_limit :: "nat option \<Rightarrow> nat \<Rightarrow> ScanBind \<Rightarrow> ScanBind" where
  "set_limit lim off b = b\<lparr>limit_offset_pushed_down := True, pushed_limit := lim, pushed_offset := off\<rparr>"

text \<open>Whether the limit can move into the scan.\<close>

definition limit_allowed :: "duckdb \<Rightarrow> plan_host \<Rightarrow> nat option \<Rightarrow> nat \<Rightarrow> ScanGet \<Rightarrow> ScanBind \<Rightarrow> (Expression \<times> plan) list \<Rightarrow> exn + bool" where
  "limit_allowed db h lim off g b fs =
     (if get_sample_options g \<noteq> None then Inr False
      else res_bind (all_pushable db h b fs) (\<lambda>pushable.
        if \<not> pushable \<or> (UsesNamespaceQuery b \<and> beyond_query_range lim off) \<or> take_row_ids b \<noteq> [] \<or>
           list_ex (row_lookup_filter db (logical_get g)) (table_filters (logical_get g)) then Inr False
        else res_bind (ProbeLanceTableFilterIR db (logical_get g) (names b) (types b)) (\<lambda>probe.
          Inr (all_filters_pushed probe))))"

definition push_limit :: "duckdb \<Rightarrow> plan_host \<Rightarrow> scan_host \<Rightarrow> LimitVal \<Rightarrow> LimitVal \<Rightarrow> plan option list \<Rightarrow> nat \<Rightarrow> exn + plan" where
  "push_limit db h sh l off cs est =
     (case TryParseConstantLimitOffset sh l off of
        Raised x \<Rightarrow> Inl x
      | Refused \<Rightarrow> Inr (LimitOp l off cs est)
      | Done (lim, offset) \<Rightarrow>
          (case cs of
             Some child # _ \<Rightarrow>
               (case scan_chain child of
                  None \<Rightarrow> Inr (LimitOp l off cs est)
                | Some (g, fs) \<Rightarrow>
                    (case lance_bind g of
                       None \<Rightarrow> Inr (LimitOp l off cs est)
                     | Some b \<Rightarrow>
                         res_bind (limit_allowed db h lim offset g b fs) (\<lambda>allowed.
                           Inr (if allowed then set_estimate est (update_chain (set_bind (set_limit lim offset b)) child)
                                else LimitOp l off cs est))))
           | _ \<Rightarrow> Inr (LimitOp l off cs est)))"

text \<open>Sampling of a scan, read again on every pass.\<close>

definition sample_number :: "duckdb \<Rightarrow> Value \<Rightarrow> exn + 64 word" where
  "sample_number db v =
     (case DefaultCastAs db v (SimpleType DOUBLE) of Some (DoubleValue d) \<Rightarrow> Inr d | _ \<Rightarrow> Inl CastError)"

definition system_percentage :: "SampleOptions option \<Rightarrow> SampleOptions option" where
  "system_percentage so = (case so of Some s \<Rightarrow> if system_sample s \<and> is_percentage s then Some s else None | None \<Rightarrow> None)"

definition push_sample :: "duckdb \<Rightarrow> ScanGet \<Rightarrow> exn + ScanGet" where
  "push_sample db g =
     (case lance_bind g of
        None \<Rightarrow> Inr g
      | Some b \<Rightarrow>
          let b = b\<lparr>sampling_pushed_down := False, sample_percentage := 0, sample_seed := - 1, sample_repeatable := False\<rparr>
          in case system_percentage (get_sample_options g) of
               None \<Rightarrow> Inr (set_bind b g)
             | Some s \<Rightarrow> res_bind (sample_number db (sample_size s)) (\<lambda>d.
                 Inr (set_bind (b\<lparr>sampling_pushed_down := True, sample_percentage := d, sample_seed := GetSeed s,
                                   sample_repeatable := repeatable s\<rparr>) g)))"

function (sequential) LanceLimitOffsetPushdown :: "duckdb \<Rightarrow> plan_host \<Rightarrow> scan_host \<Rightarrow> plan \<Rightarrow> exn + plan" where
  "LanceLimitOffsetPushdown db h sh (ScanOp g cs est) =
     res_bind (rewrite_children (LanceLimitOffsetPushdown db h sh) cs) (\<lambda>cs.
       res_bind (push_sample db g) (\<lambda>g. Inr (ScanOp g cs est)))"
| "LanceLimitOffsetPushdown db h sh (FilterOp es cs est) =
     res_bind (rewrite_children (LanceLimitOffsetPushdown db h sh) cs) (\<lambda>cs. Inr (FilterOp es cs est))"
| "LanceLimitOffsetPushdown db h sh (ProjectionOp ti es cs est) =
     res_bind (rewrite_children (LanceLimitOffsetPushdown db h sh) cs) (\<lambda>cs. Inr (ProjectionOp ti es cs est))"
| "LanceLimitOffsetPushdown db h sh (LimitOp l off cs est) =
     res_bind (rewrite_children (LanceLimitOffsetPushdown db h sh) cs) (\<lambda>cs. push_limit db h sh l off cs est)"
| "LanceLimitOffsetPushdown db h sh (OtherOp k cs est) =
     res_bind (rewrite_children (LanceLimitOffsetPushdown db h sh) cs) (\<lambda>cs. Inr (OtherOp k cs est))"
  by pat_completeness auto
termination
  by (relation "measure (\<lambda>(_, _, _, p). size p)") (auto dest!: size_Some_child)

end
