(* ===== verification/Row_Lookup_Correct.thy ===== *)
theory Row_Lookup_Correct
  imports Row_Lookup "HOL-Library.Sublist"
begin

text \<open>
  What a point lookup takes is what its predicate selects.  The truth of a predicate on a row is
  three-valued, as SQL has it: \<open>None\<close> is unknown, and a row is selected when the predicate is
  \<open>Some True\<close>.
\<close>

section \<open>Truth of row id predicates\<close>

fun sql_or :: "bool option \<Rightarrow> bool option \<Rightarrow> bool option" where
  "sql_or (Some True) b = Some True"
| "sql_or a (Some True) = Some True"
| "sql_or (Some False) (Some False) = Some False"
| "sql_or a b = None"

lemma sql_or_true [simp]: "sql_or a b = Some True \<longleftrightarrow> a = Some True \<or> b = Some True"
  by (cases "(a, b)" rule: sql_or.cases) auto

lemma sql_or_all_true [simp]:
  "foldr sql_or ts (Some False) = Some True \<longleftrightarrow> Some True \<in> set ts"
  by (induction ts) auto

text \<open>The number an integer constant stands for; the row id column is unsigned.\<close>

fun row_number :: "Value \<Rightarrow> int option" where
  "row_number (TinyIntValue v) = Some (sint v)"
| "row_number (SmallIntValue v) = Some (sint v)"
| "row_number (IntegerValue v) = Some (sint v)"
| "row_number (BigIntValue v) = Some (sint v)"
| "row_number (UTinyIntValue v) = Some (uint v)"
| "row_number (USmallIntValue v) = Some (uint v)"
| "row_number (UIntegerValue v) = Some (uint v)"
| "row_number (UBigIntValue v) = Some (uint v)"
| "row_number v = None"

definition row_equals :: "u64 \<Rightarrow> Value \<Rightarrow> bool option" where
  "row_equals r v = map_option (\<lambda>n. uint r = n) (row_number v)"

definition row_in :: "u64 \<Rightarrow> Value list \<Rightarrow> bool option" where
  "row_in r vs = foldr sql_or (map (row_equals r) vs) (Some False)"

text \<open>Constants whose comparison with a row id is described: integers and NULL.\<close>

definition comparable :: "Value \<Rightarrow> bool" where
  "comparable v \<longleftrightarrow> is_null v \<or> row_number v \<noteq> None"

fun row_constant :: "Expression option \<Rightarrow> Value option" where
  "row_constant (Some (BoundConstant v)) = (if comparable v then Some v else None)"
| "row_constant e = None"

fun row_constants :: "Expression option list \<Rightarrow> Value list option" where
  "row_constants [] = Some []"
| "row_constants (c # cs) =
     (case (row_constant c, row_constants cs) of (Some v, Some vs) \<Rightarrow> Some (v # vs) | _ \<Rightarrow> None)"

text \<open>
  The truth of an expression on the row \<open>r\<close>; \<open>other\<close> gives that of the expressions which are not
  row id predicates, \<open>is_row\<close> tells the expressions that stand for the row id.
\<close>

function (sequential) row_truth :: "(Expression \<Rightarrow> bool option) \<Rightarrow> (Expression \<Rightarrow> bool) \<Rightarrow> u64 \<Rightarrow> Expression \<Rightarrow> bool option"
where
  "row_truth other is_row r (BoundOperator t k (Some c # cs)) =
     (if k = COMPARE_IN \<and> is_row c then
        (case row_constants cs of Some vs \<Rightarrow> row_in r vs | None \<Rightarrow> other (BoundOperator t k (Some c # cs)))
      else other (BoundOperator t k (Some c # cs)))"
| "row_truth other is_row r (BoundComparison k (Some a) (Some b)) =
     (if k = COMPARE_EQUAL \<and> is_row a \<and> row_constant (Some b) \<noteq> None then row_equals r (the (row_constant (Some b)))
      else if k = COMPARE_EQUAL \<and> is_row b \<and> row_constant (Some a) \<noteq> None then row_equals r (the (row_constant (Some a)))
      else other (BoundComparison k (Some a) (Some b)))"
| "row_truth other is_row r (BoundConjunction k cs) =
     (if k = CONJUNCTION_OR then
        foldr sql_or (map (\<lambda>c. case c of Some e \<Rightarrow> row_truth other is_row r e | None \<Rightarrow> Some False) cs) (Some False)
      else other (BoundConjunction k cs))"
| "row_truth other is_row r e = other e"
  by pat_completeness auto
termination
  by (relation "measure (\<lambda>(_, _, _, e). size e)") (auto dest!: size_Some_child)


section \<open>Lists of rows\<close>

lemma normalize_rows_snoc:
  "normalize_rows seen out (rows @ [r]) =
     (if r \<in> seen \<union> set rows then normalize_rows seen out rows else normalize_rows seen out rows @ [r])"
  by (induction seen out rows rule: normalize_rows.induct) auto

lemma NormalizeSqlTakeRowIds_snoc:
  "NormalizeSqlTakeRowIds (rows @ [r]) =
     (if r \<in> set rows then NormalizeSqlTakeRowIds rows else NormalizeSqlTakeRowIds rows @ [r])"
  by (simp add: NormalizeSqlTakeRowIds_def normalize_rows_snoc)

text \<open>Keeping first occurrences is dropping the repetitions of the reversed list.\<close>

lemma NormalizeSqlTakeRowIds_eq: "NormalizeSqlTakeRowIds rows = rev (remdups (rev rows))"
  by (induction rows rule: rev_induct) (simp_all add: NormalizeSqlTakeRowIds_snoc, simp add: NormalizeSqlTakeRowIds_def)

lemma set_NormalizeSqlTakeRowIds [simp]: "set (NormalizeSqlTakeRowIds rows) = set rows"
  by (simp add: NormalizeSqlTakeRowIds_eq)

lemma distinct_NormalizeSqlTakeRowIds [simp]: "distinct (NormalizeSqlTakeRowIds rows)"
  by (simp add: NormalizeSqlTakeRowIds_eq)

lemma subseq_NormalizeSqlTakeRowIds: "subseq (NormalizeSqlTakeRowIds rows) rows"
proof (induction rows rule: rev_induct)
  case (snoc r rows)
  then show ?case
    by (auto simp: NormalizeSqlTakeRowIds_snoc intro: subseq_append_iff [THEN iffD2] list_emb_prefix)
qed (simp add: NormalizeSqlTakeRowIds_def)


section \<open>Lookups select what their predicates do\<close>

lemma cast_signed_number:
  assumes "cast_signed (sint (w :: 'a :: len word)) = Some x" and "LENGTH('a) \<le> 64"
  shows "uint x = sint w"
proof -
  have "sint w < 2 ^ (LENGTH('a) - 1)"
    by (rule sint_lt)
  also have "\<dots> \<le> (2 :: int) ^ 64"
    using assms(2) by (intro power_increasing) auto
  finally show ?thesis
    using assms(1) by (auto simp: cast_signed_def uint_word_of_int simp del: of_int_sint split: if_splits)
qed

lemma parsed_number:
  "TryParseRowIdValue v = Some x \<Longrightarrow> row_number v = Some (uint x)"
  by (cases v) (auto dest: cast_signed_number simp: uint_up_ucast is_up)

lemma lookup_value_row:
  assumes "lookup_value v = Done x"
  shows "comparable v" and "row_equals r v = Some True \<longleftrightarrow> r = x"
  using assms parsed_number [of v x]
  by (auto simp: lookup_value_def comparable_def row_equals_def word_uint_eq_iff split: option.splits)

lemma null_row [simp]: "is_null v \<Longrightarrow> comparable v" "is_null v \<Longrightarrow> row_equals r v \<noteq> Some True"
  by (auto simp: comparable_def row_equals_def elim: is_null.elims)

lemma row_in_true [simp]: "row_in r vs = Some True \<longleftrightarrow> (\<exists>v\<in>set vs. row_equals r v = Some True)"
  by (auto simp: row_in_def image_iff) (metis image_eqI)

lemma lookup_values_rows:
  assumes "lookup_values vane vs = Done rows"
  shows "list_all comparable vs" and "row_in r vs = Some True \<longleftrightarrow> r \<in> set rows"
  using assms
proof (induction vs arbitrary: rows)
  case (Cons v vs)
  case 1
  with Cons(1) show ?case by (auto simp: try_bind_Done_iff lookup_value_row(1) split: if_splits)
next
  case (Cons v vs)
  case 2
  with Cons(2) show ?case by (force simp: try_bind_Done_iff lookup_value_row(2) split: if_splits)
qed simp_all

text \<open>The elements of an IN list are constants, and looked up as the values of an IN filter.\<close>

lemma lookup_elements_values:
  "lookup_elements vane cs = Done rows \<Longrightarrow> \<exists>vs. cs = map (\<lambda>v. Some (BoundConstant v)) vs \<and> lookup_values vane vs = Done rows"
proof (induction cs arbitrary: rows)
  case (Cons c cs)
  then obtain v where c: "c = Some (BoundConstant v)"
    by (cases "(vane, c # cs)" rule: lookup_elements.cases) auto
  show ?case
  proof (cases "vane \<and> is_null v")
    case True
    with Cons c obtain vs where "cs = map (\<lambda>v. Some (BoundConstant v)) vs" "lookup_values vane vs = Done rows"
      by auto
    with c True show ?thesis by (intro exI [of _ "v # vs"]) auto
  next
    case False
    with Cons.prems c obtain x rs where x: "lookup_value v = Done x" "lookup_elements vane cs = Done rs" "rows = x # rs"
      by (auto simp: try_bind_Done_iff)
    with Cons.IH obtain vs where "cs = map (\<lambda>v. Some (BoundConstant v)) vs" "lookup_values vane vs = Done rs"
      by auto
    with c x False show ?thesis by (intro exI [of _ "v # vs"]) auto
  qed
qed auto

lemma row_constants_values:
  "list_all comparable vs \<Longrightarrow> row_constants (map (\<lambda>v. Some (BoundConstant v)) vs) = Some vs"
  by (induction vs) auto

lemma lookup_in_rows:
  assumes "lookup_in vane is_row cs = Done rows"
  shows "row_truth other is_row r (BoundOperator t COMPARE_IN cs) = Some True \<longleftrightarrow> r \<in> set rows"
proof -
  from assms obtain c es where cs: "cs = Some c # es" "is_row c" and "lookup_elements vane es = Done rows"
    unfolding lookup_in_def by (auto simp del: lookup_elements.simps split: list.splits option.splits if_splits)
  moreover then obtain vs where "es = map (\<lambda>v. Some (BoundConstant v)) vs" and vs: "lookup_values vane vs = Done rows"
    using lookup_elements_values by blast
  ultimately show ?thesis
    using lookup_values_rows [OF vs] by (simp add: row_constants_values)
qed

lemma extract_one_row:
  assumes "extract_one vane is_row a b = Done x"
  shows "is_row a" and "\<exists>v. row_constant (Some b) = Some v \<and> (row_equals r v = Some True \<longleftrightarrow> r = x)"
proof -
  from assms obtain v where b: "b = BoundConstant v" "is_row a" "lookup_value v = Done x"
    by (cases b) (auto simp: lookup_equal_def split: if_splits)
  then show "is_row a" "\<exists>v. row_constant (Some b) = Some v \<and> (row_equals r v = Some True \<longleftrightarrow> r = x)"
    by (auto simp: lookup_value_row)
qed

text \<open>An equality, in either orientation; a constant does not stand for the row id.\<close>

lemma or_else_Done: "or_else a b = Done x \<longleftrightarrow> a = Done x \<or> (a = Refused \<and> b = Done x)"
  by (cases a) auto

lemma equal_row:
  assumes "extract_one vane is_row a b = Done x \<or> extract_one vane is_row b a = Done x"
    and "\<And>v. \<not> is_row (BoundConstant v)"
  shows "row_truth other is_row r (BoundComparison COMPARE_EQUAL (Some a) (Some b)) = Some True \<longleftrightarrow> r = x"
  using assms(1)
proof
  assume "extract_one vane is_row a b = Done x"
  from extract_one_row [OF this] show ?thesis by auto
next
  assume ext: "extract_one vane is_row b a = Done x"
  then have "\<not> is_row a"
    using assms(2) by (auto elim!: extract_one.elims)
  with extract_one_row [OF ext] show ?thesis by auto
qed

lemma or_row:
  "row_truth other is_row r (BoundConjunction CONJUNCTION_OR cs) = Some True \<longleftrightarrow>
     (\<exists>c. Some c \<in> set cs \<and> row_truth other is_row r c = Some True)"
proof -
  let ?t = "\<lambda>c. case c of Some e \<Rightarrow> row_truth other is_row r e | None \<Rightarrow> Some False"
  have "Some True \<in> ?t ` set cs \<longleftrightarrow> (\<exists>c\<in>set cs. ?t c = Some True)"
    by auto (metis image_eqI)
  also have "\<dots> \<longleftrightarrow> (\<exists>c. Some c \<in> set cs \<and> row_truth other is_row r c = Some True)"
    by (auto split: option.splits)
  finally show ?thesis by simp
qed

lemma rowid_ref_row_id: "is_rowid_ref db get e \<Longrightarrow> is_row_id db get e"
  by (cases e) auto

lemma lookup_in_mono:
  "\<lbrakk>lookup_in vane p cs = Done rows; \<And>e. p e \<Longrightarrow> q e\<rbrakk> \<Longrightarrow> lookup_in vane q cs = Done rows"
  by (auto simp: lookup_in_def simp del: lookup_elements.simps split: list.splits option.splits if_splits)

lemma extract_one_mono:
  "\<lbrakk>extract_one vane p a b = Done x; \<And>e. p e \<Longrightarrow> q e\<rbrakk> \<Longrightarrow> extract_one vane q a b = Done x"
  by (cases b) (auto split: if_splits)

text \<open>The lookups of the filter pushdown.\<close>

lemma try_extract_rows:
  "try_extract_rowids vane db get e = Done rows \<Longrightarrow>
     row_truth other (is_row_id db get) r e = Some True \<longleftrightarrow> r \<in> set rows"
  "try_extract_children vane db get out cs = Done rows \<Longrightarrow>
     r \<in> set rows \<longleftrightarrow> r \<in> set out \<or> (\<exists>c. Some c \<in> set cs \<and> row_truth other (is_row_id db get) r c = Some True)"
proof (induction vane db get e and vane db get out cs arbitrary: rows and rows
    rule: try_extract_rowids_try_extract_children.induct)
  case (1 vane db get t k cs)
  then show ?case
    using lookup_in_rows [of vane "is_row_id db get" cs rows] lookup_in_mono [OF _ rowid_ref_row_id]
    by (auto split: if_splits)
next
  case (2 vane db get k a b)
  then obtain x where "k = COMPARE_EQUAL" "rows = [x]"
      "extract_one vane (is_row_id db get) a b = Done x \<or> extract_one vane (is_row_id db get) b a = Done x"
    using extract_one_mono [OF _ rowid_ref_row_id]
    by (auto simp: try_bind_Done_iff or_else_Done split: if_splits)
  then show ?case
    using equal_row [of vane "is_row_id db get" a b x] by simp
next
  case (3 vane db get k cs)
  then show ?case
    by (auto simp: or_row simp del: row_truth.simps split: if_splits)
qed (auto simp: try_bind_Done_iff split: if_splits)

text \<open>The lookups of the row id rewrite.\<close>

lemma try_extract_equal_row:
  assumes "try_extract_equal vane db get e = Done x"
  shows "row_truth other (is_row_id db get) r e = Some True \<longleftrightarrow> r = x"
proof -
  from assms obtain a b where "e = BoundComparison COMPARE_EQUAL (Some a) (Some b)"
      "extract_one vane (is_row_id db get) a b = Done x \<or> extract_one vane (is_row_id db get) b a = Done x"
    by (cases "(vane, db, get, e)" rule: try_extract_equal.cases) (auto split: if_splits)
  then show ?thesis
    using equal_row [of vane "is_row_id db get" a b x] by simp
qed

lemma extract_stack_rows:
  "extract_stack vane db get out stack = Done rows \<Longrightarrow>
     r \<in> set rows \<longleftrightarrow> r \<in> set out \<or> (\<exists>c. Some c \<in> set stack \<and> row_truth other (is_row_id db get) r c = Some True)"
proof (induction vane db get out stack rule: extract_stack.induct)
  case (3 vane db get out k cs stack)
  then show ?case
    using or_row [of other "is_row_id db get" r cs] by (auto simp del: row_truth.simps split: if_splits)
qed (auto simp: try_bind_Done_iff try_extract_equal_row simp del: row_truth.simps split: if_splits,
    (metis try_extract_equal_row)+)

lemma expression_rows:
  assumes "TryExtractTakeRowIdsFromExpression vane db get e = Done rows"
  shows "row_truth other (is_row_id db get) r e = Some True \<longleftrightarrow> r \<in> set rows"
  using assms
proof (cases "(vane, db, get, e)" rule: TryExtractTakeRowIdsFromExpression.cases)
  case (1 vane db get t k cs)
  with assms show ?thesis
    using lookup_in_rows [of vane "is_row_id db get" cs rows] by (auto simp del: row_truth.simps split: if_splits)
next
  case (2 vane db get k cs)
  with assms show ?thesis
    using extract_stack_rows [of vane db get "[]" "[Some e]" rows r other]
    by (auto simp del: row_truth.simps extract_stack.simps split: if_splits)
qed auto

text \<open>
  A filter on the row id column.  An optional filter is implied by the rest of the query, so it
  stands for what it contains.
\<close>

fun filter_truth :: "(TableFilter \<Rightarrow> bool option) \<Rightarrow> u64 \<Rightarrow> TableFilter \<Rightarrow> bool option" where
  "filter_truth other r (InFilter vs) = (if list_all comparable vs then row_in r vs else other (InFilter vs))"
| "filter_truth other r (ConstantFilter k v) =
     (if k = COMPARE_EQUAL \<and> comparable v then row_equals r v else other (ConstantFilter k v))"
| "filter_truth other r (OptionalFilter (Some f)) = filter_truth other r f"
| "filter_truth other r f = other f"

lemma filter_rows:
  "TryExtractTakeRowIdsFromFilter vane f = Done rows \<Longrightarrow> filter_truth other r f = Some True \<longleftrightarrow> r \<in> set rows"
proof (induction vane f rule: TryExtractTakeRowIdsFromFilter.induct)
  case (2 vane k v)
  then show ?case
    by (auto simp: try_bind_Done_iff lookup_equal_def lookup_value_row split: if_splits)
qed (auto simp: lookup_values_rows simp del: row_in_true)

end
