(* ===== verification/Scan_Plan_Correct.thy ===== *)
theory Scan_Plan_Correct
  imports Scan_Plan Row_Lookup_Correct
begin

text \<open>
  The row id rewrite keeps the rows of a scan.  A chain is a scan under filters and projections; its
  rows are described row by row: which row ids pass its filters, and how often the scan returns each.
\<close>

section \<open>Rows of a chain\<close>

text \<open>
  The truth, for each row, of the expressions and of the table filters that are not row id
  predicates.
\<close>

record truth =
  on_expression :: "u64 \<Rightarrow> Expression \<Rightarrow> bool option"
  on_filter :: "u64 \<Rightarrow> nat \<Rightarrow> TableFilter \<Rightarrow> bool option"

definition row_id_key :: "duckdb \<Rightarrow> nat \<Rightarrow> bool" where
  "row_id_key db c \<longleftrightarrow> c = LANCE_COLUMN_IDENTIFIER_ROW_ID \<or> c = COLUMN_IDENTIFIER_ROW_ID db"

definition table_filter_holds :: "truth \<Rightarrow> duckdb \<Rightarrow> u64 \<Rightarrow> nat \<Rightarrow> TableFilter \<Rightarrow> bool" where
  "table_filter_holds tr db r c f \<longleftrightarrow>
     (if row_id_key db c then filter_truth (on_filter tr r c) r f else on_filter tr r c f) = Some True"

definition entry_holds :: "truth \<Rightarrow> duckdb \<Rightarrow> u64 \<Rightarrow> nat \<times> TableFilter option \<Rightarrow> bool" where
  "entry_holds tr db r entry \<longleftrightarrow> (\<forall>f. snd entry = Some f \<longrightarrow> table_filter_holds tr db r (fst entry) f)"

definition expression_holds :: "truth \<Rightarrow> (Expression \<Rightarrow> bool) \<Rightarrow> u64 \<Rightarrow> Expression option \<Rightarrow> bool" where
  "expression_holds tr is_row r expr \<longleftrightarrow> (\<forall>e. expr = Some e \<longrightarrow> row_truth (on_expression tr r) is_row r e = Some True)"

fun chain_scan :: "plan \<Rightarrow> ScanGet option" where
  "chain_scan (ScanOp g cs est) = (if cs = [] then Some g else None)"
| "chain_scan (FilterOp es [Some c] est) = chain_scan c"
| "chain_scan (ProjectionOp ti es [Some c] est) = chain_scan c"
| "chain_scan p = None"

definition chain_row :: "duckdb \<Rightarrow> plan \<Rightarrow> Expression \<Rightarrow> bool" where
  "chain_row db p e \<longleftrightarrow> (case chain_scan p of Some g \<Rightarrow> is_row_id db (logical_get g) e | None \<Rightarrow> False)"

fun passes :: "truth \<Rightarrow> duckdb \<Rightarrow> u64 \<Rightarrow> plan \<Rightarrow> bool" where
  "passes tr db r (ScanOp g cs est) \<longleftrightarrow> list_all (entry_holds tr db r) (table_filters (logical_get g))"
| "passes tr db r (FilterOp es [Some c] est) \<longleftrightarrow> passes tr db r c \<and> list_all (expression_holds tr (chain_row db c) r) es"
| "passes tr db r (ProjectionOp ti es [Some c] est) \<longleftrightarrow> passes tr db r c"
| "passes tr db r p \<longleftrightarrow> False"

definition scan_take :: "ScanGet \<Rightarrow> u64 list" where
  "scan_take g = (case lance_bind g of Some b \<Rightarrow> take_row_ids b | None \<Rightarrow> [])"

definition taken :: "plan \<Rightarrow> u64 list" where
  "taken p = (case chain_scan p of Some g \<Rightarrow> scan_take g | None \<Rightarrow> [])"

text \<open>How often a row leaves the chain: a scan with rows to take returns each as often as listed.\<close>

definition copies :: "truth \<Rightarrow> duckdb \<Rightarrow> u64 \<Rightarrow> plan \<Rightarrow> nat" where
  "copies tr db r p = (if passes tr db r p then if taken p = [] then 1 else count_list (taken p) r else 0)"

text \<open>The places where the rewrite finds a lookup.\<close>

definition scan_site :: "bool \<Rightarrow> duckdb \<Rightarrow> ScanGet \<Rightarrow> bool" where
  "scan_site vane db g \<longleftrightarrow>
     (case (lance_bind g, row_id_filter db (table_filters (logical_get g))) of
        (Some b, Some (c, f)) \<Rightarrow> \<not> UsesNamespaceQuery b \<and> (case take_of_filter vane b f of Done rows \<Rightarrow> True | _ \<Rightarrow> False)
      | _ \<Rightarrow> False)"

definition lookup_expression :: "bool \<Rightarrow> duckdb \<Rightarrow> LogicalGet \<Rightarrow> Expression option \<Rightarrow> bool" where
  "lookup_expression vane db get expr \<longleftrightarrow>
     (case expr of Some e \<Rightarrow> (case TryExtractTakeRowIdsFromExpression vane db get e of Done rows \<Rightarrow> True | _ \<Rightarrow> False) | None \<Rightarrow> False)"

fun sites :: "bool \<Rightarrow> duckdb \<Rightarrow> plan \<Rightarrow> nat" where
  "sites vane db (ScanOp g cs est) = (if scan_site vane db g then 1 else 0)"
| "sites vane db (FilterOp es [Some c] est) =
     sites vane db c +
     (case chain_scan c of Some g \<Rightarrow> if list_ex (lookup_expression vane db (logical_get g)) es then 1 else 0 | None \<Rightarrow> 0)"
| "sites vane db (ProjectionOp ti es [Some c] est) = sites vane db c"
| "sites vane db p = 0"

text \<open>DuckDB's translation of a row id filter into an expression has the truth of the filter.\<close>

definition filters_as_expressions :: "truth \<Rightarrow> duckdb \<Rightarrow> plan_host \<Rightarrow> bool" where
  "filters_as_expressions tr db h \<longleftrightarrow>
     (\<forall>get r c f col. row_id_key db c \<and> is_row_id db get col \<longrightarrow>
        row_truth (on_expression tr r) (is_row_id db get) r (ToExpression h f col) = filter_truth (on_filter tr r c) r f)"

text \<open>A rewrite either leaves the rows to take, or takes rows instead of one of the filters.\<close>

definition rows_kept :: "truth \<Rightarrow> duckdb \<Rightarrow> plan \<Rightarrow> plan \<Rightarrow> bool" where
  "rows_kept tr db p q \<longleftrightarrow> taken q = taken p \<and> (\<forall>r. passes tr db r q \<longleftrightarrow> passes tr db r p)"

definition took :: "truth \<Rightarrow> duckdb \<Rightarrow> bool \<Rightarrow> plan \<Rightarrow> plan \<Rightarrow> bool" where
  "took tr db vane p q \<longleftrightarrow>
     taken q \<noteq> [] \<and> (vane \<longrightarrow> distinct (taken q)) \<and>
     (\<forall>r. passes tr db r p \<longleftrightarrow> passes tr db r q \<and> r \<in> set (taken q))"


section \<open>Scans\<close>

lemma is_row_id_filters [simp]: "is_row_id db (get\<lparr>table_filters := fs\<rparr>) = is_row_id db get"
proof
  show "is_row_id db (get\<lparr>table_filters := fs\<rparr>) e = is_row_id db get e" for e
    by (cases e) (auto simp: IsLanceRowIdColumn_def row_id_position_def)
qed

lemma scan_updates [simp]:
  "logical_get (set_bind b g) = logical_get g"
  "lance_bind (set_filters fs g) = lance_bind g"
  "table_filters (logical_get (set_filters fs g)) = fs"
  "is_row_id db (logical_get (set_filters fs g)) = is_row_id db (logical_get g)"
  "set_filters fs (set_bind b g) = set_bind b (set_filters fs g)"
  by (simp_all add: set_bind_def set_filters_def lance_bind_def)

lemma lance_bind_set_bind: "lance_bind g = Some b \<Longrightarrow> lance_bind (set_bind b' g) = Some b'"
  by (auto simp: lance_bind_def set_bind_def split: if_splits)

lemma scan_take_set: "lance_bind g = Some b \<Longrightarrow> scan_take (set_bind (set_take rows b) g) = rows"
  by (simp add: scan_take_def lance_bind_set_bind set_take_def)

lemma filter_erased:
  assumes "map_of fs c = Some (Some f)" and "distinct (map fst fs)"
  shows "list_all (entry_holds tr db r) fs \<longleftrightarrow>
    table_filter_holds tr db r c f \<and> list_all (entry_holds tr db r) (erase_filter c fs)"
proof -
  have "(c, o') \<in> set fs \<longleftrightarrow> o' = Some f" for o'
    using assms by (metis map_of_eq_Some_iff option.inject)
  then show ?thesis
    unfolding list_all_iff erase_filter_def entry_holds_def by (force split: prod.splits)
qed

lemma row_id_filter_entry:
  assumes "row_id_filter db fs = Some (c, f)"
  shows "map_of fs c = Some (Some f)" and "row_id_key db c"
  using assms by (auto simp: row_id_filter_def filter_at_def row_id_key_def split: option.splits)

lemma take_of_filter_rows:
  assumes "take_of_filter vane b f = Done rows"
  shows "rows \<noteq> []" and "vane \<longrightarrow> distinct rows" and "filter_truth other r f = Some True \<longleftrightarrow> r \<in> set rows"
  using assms filter_rows [of vane f]
  by (auto simp: take_of_filter_def try_bind_Done_iff Let_def split: if_splits)

lemma column_position_nth:
  "column_position c is = Some i \<Longrightarrow> i < length is \<and> GetPrimaryIndex (is ! i) = c"
  by (induction "is" arbitrary: i) (auto split: if_splits)

text \<open>The filter operator that replaces a table filter of the row id.\<close>

lemma filter_above_scan_kept:
  assumes q: "filter_above_scan db h g [] est c f = Inr q"
    and f: "map_of (table_filters (logical_get g)) c = Some (Some f)" "row_id_key db c"
    and "distinct (map fst (table_filters (logical_get g)))" and law: "filters_as_expressions tr db h"
  shows "rows_kept tr db (ScanOp g [] est) q"
    and "\<exists>g'. chain_scan q = Some g' \<and> is_row_id db (logical_get g') = is_row_id db (logical_get g)"
proof -
  let ?g = "set_filters (erase_filter c (table_filters (logical_get g))) g"
  obtain i t where pos: "column_position c (get_column_ids (logical_get g)) = Some i"
      and q': "q = FilterOp [Some (ToExpression h f (BoundColumnRef t \<lparr>table_index = get_table_index (logical_get g), column_index = i\<rparr> 0))]
        [Some (ScanOp ?g [] est)] est"
    using q by (auto simp: filter_above_scan_def Let_def split: option.splits)
  let ?col = "BoundColumnRef t \<lparr>table_index = get_table_index (logical_get g), column_index = i\<rparr> 0"
  have "is_row_id db (logical_get g) ?col"
    using column_position_nth [OF pos] f(2)
    by (auto simp: IsLanceRowIdColumn_def row_id_position_def row_id_key_def IsLanceVirtualRowIdColumnId_def)
  moreover have "chain_row db (ScanOp ?g [] est) = is_row_id db (logical_get g)"
    by (simp add: chain_row_def fun_eq_iff)
  ultimately have "expression_holds tr (chain_row db (ScanOp ?g [] est)) r (Some (ToExpression h f ?col)) \<longleftrightarrow>
      table_filter_holds tr db r c f" for r
    using law f(2) by (simp add: filters_as_expressions_def expression_holds_def table_filter_holds_def)
  then show "rows_kept tr db (ScanOp g [] est) q"
    using filter_erased [OF f(1) assms(4)] by (auto simp: rows_kept_def q' taken_def scan_take_def)
  show "\<exists>g'. chain_scan q = Some g' \<and> is_row_id db (logical_get g') = is_row_id db (logical_get g)"
    by (simp add: q')
qed

lemma kept_refl [simp]: "rows_kept tr db p p"
  by (simp add: rows_kept_def)

lemma take_scan:
  assumes "lance_bind g = Some b" and "row_id_filter db (table_filters (logical_get g)) = Some (c, f)"
    and rows: "take_of_filter vane b f = Done rows" and "distinct (map fst (table_filters (logical_get g)))"
  shows "took tr db vane (ScanOp g [] est)
    (ScanOp (set_bind (set_take rows b) (set_filters (erase_filter c (table_filters (logical_get g))) g)) [] est)"
  using take_of_filter_rows [OF rows] row_id_filter_entry [OF assms(2)] filter_erased [OF _ assms(4), of c f tr db]
  by (auto simp: took_def taken_def scan_take_set assms(1) table_filter_holds_def)

lemma rewrite_scan_effect:
  assumes q: "rewrite_scan vane db h g [] est = Inr q" and "distinct (map fst (table_filters (logical_get g)))"
    and law: "filters_as_expressions tr db h"
  shows "\<exists>g'. chain_scan q = Some g' \<and> is_row_id db (logical_get g') = is_row_id db (logical_get g)"
    and "(if scan_site vane db g then took tr db vane else rows_kept tr db) (ScanOp g [] est) q"
proof -
  have "(\<exists>g'. chain_scan q = Some g' \<and> is_row_id db (logical_get g') = is_row_id db (logical_get g)) \<and>
      (if scan_site vane db g then took tr db vane else rows_kept tr db) (ScanOp g [] est) q"
  proof (cases "lance_bind g")
    case (Some b)
    show ?thesis
    proof (cases "\<not> UsesNamespaceQuery b \<and> row_id_filter db (table_filters (logical_get g)) \<noteq> None")
      case True
      then obtain c f where f: "row_id_filter db (table_filters (logical_get g)) = Some (c, f)" by auto
      show ?thesis
      proof (cases "take_of_filter vane b f")
        case (Done rows)
        with q Some True f take_scan [OF Some f Done assms(2), of tr est] show ?thesis
          by (auto simp: rewrite_scan_def scan_site_def Let_def)
      next
        case Refused
        with q Some True f show ?thesis
          using filter_above_scan_kept [OF _ row_id_filter_entry [OF f] assms(2) law, of est q]
          by (auto simp: rewrite_scan_def scan_site_def Let_def split: if_splits)
      qed (use q Some True f in \<open>auto simp: rewrite_scan_def Let_def\<close>)
    qed (use q Some in \<open>auto simp: rewrite_scan_def scan_site_def Let_def split: if_splits option.splits\<close>)
  qed (use q in \<open>auto simp: rewrite_scan_def scan_site_def Let_def\<close>)
  then show "\<exists>g'. chain_scan q = Some g' \<and> is_row_id db (logical_get g') = is_row_id db (logical_get g)"
    and "(if scan_site vane db g then took tr db vane else rows_kept tr db) (ScanOp g [] est) q"
    by auto
qed


section \<open>Filters\<close>

text \<open>The extraction looks at a scan only to tell which columns are its row id.\<close>

lemma extract_equal_same:
  assumes "is_row_id db get' = is_row_id db get"
  shows "try_extract_equal vane db get' = try_extract_equal vane db get"
proof
  show "try_extract_equal vane db get' e = try_extract_equal vane db get e" for e
    by (cases "(vane, db, get, e)" rule: try_extract_equal.cases) (simp_all add: assms)
qed

lemma extract_stack_same:
  assumes "is_row_id db get' = is_row_id db get"
  shows "extract_stack vane db get' out stack = extract_stack vane db get out stack"
proof (induction "size_list (size_option size) stack" arbitrary: out stack rule: less_induct)
  case less
  show ?case
  proof (cases "(vane, db, get, out, stack)" rule: extract_stack.cases)
    case (3 _ _ _ _ k cs rest)
    then show ?thesis using less [of "cs @ rest" out] by (simp add: size_list_append)
  qed (use less in \<open>simp_all add: extract_equal_same [OF assms] del: try_extract_equal.simps\<close>)
qed

lemma lookup_expression_same:
  assumes "is_row_id db get' = is_row_id db get"
  shows "TryExtractTakeRowIdsFromExpression vane db get' = TryExtractTakeRowIdsFromExpression vane db get"
proof
  show "TryExtractTakeRowIdsFromExpression vane db get' e = TryExtractTakeRowIdsFromExpression vane db get e" for e
    using assms extract_stack_same [OF assms]
    by (cases "(vane, db, get, e)" rule: TryExtractTakeRowIdsFromExpression.cases) (auto simp del: extract_stack.simps)
qed

lemma extract_stack_nonempty: "extract_stack vane db get out stack = Done rows \<Longrightarrow> rows \<noteq> []"
  by (induction vane db get out stack rule: extract_stack.induct) (auto simp: try_bind_Done_iff split: if_splits)

lemma lookup_in_nonempty: "lookup_in False is_row cs = Done rows \<Longrightarrow> rows \<noteq> []"
  by (auto simp: lookup_in_def try_bind_Done_iff eq_commute [of "Done []"] elim!: lookup_elements.elims
      split: list.splits option.splits if_splits)

lemma expression_rows_nonempty:
  "TryExtractTakeRowIdsFromExpression False db get e = Done rows \<Longrightarrow> rows \<noteq> []"
  using lookup_in_nonempty extract_stack_nonempty
  by (cases "(False, db, get, e)" rule: TryExtractTakeRowIdsFromExpression.cases)
    (auto simp del: extract_stack.simps split: if_splits)

lemma first_lookup_Done:
  "first_lookup vane db get k es = Done (i, rows) \<Longrightarrow>
     k \<le> i \<and> i - k < length es \<and> (\<exists>e. es ! (i - k) = Some e \<and> TryExtractTakeRowIdsFromExpression vane db get e = Done rows)"
proof (induction vane db get k es rule: first_lookup.induct)
  case (3 vane db get k e es)
  show ?case
  proof (cases "TryExtractTakeRowIdsFromExpression vane db get e")
    case Refused
    with 3 have "Suc k \<le> i \<and> i - Suc k < length es \<and>
        (\<exists>e. es ! (i - Suc k) = Some e \<and> TryExtractTakeRowIdsFromExpression vane db get e = Done rows)"
      by simp
    then show ?thesis by (auto simp: nth_Cons' Suc_diff_Suc)
  qed (use 3 in auto)
qed auto

lemma first_lookup_lookup:
  "first_lookup vane db get k es = Done x \<Longrightarrow> list_ex (lookup_expression vane db get) es"
  by (induction vane db get k es rule: first_lookup.induct) (auto simp: lookup_expression_def split: outcome.splits)

lemma list_all_erase_at:
  "i < length xs \<Longrightarrow> list_all P xs \<longleftrightarrow> P (xs ! i) \<and> list_all P (erase_at i xs)"
  using id_take_nth_drop [of i xs] by (auto simp: erase_at_def list_all_iff) (metis Un_iff insert_iff list.set(2) set_append)+

lemma scan_below_chain:
  assumes "scan_below c = Some g" and "chain_scan c = Some g'"
  shows "g = g'" and "chain_scan (update_below u c) = Some (u g)"
    and "logical_get (u g) = logical_get g \<Longrightarrow> passes tr db r (update_below u c) \<longleftrightarrow> passes tr db r c"
  using assms by (induction c rule: chain_scan.induct) (auto split: if_splits)

lemma passes_estimate [simp]:
  "chain_scan (set_estimate n p) = chain_scan p" "passes tr db r (set_estimate n p) = passes tr db r p"
  by (cases p rule: chain_scan.cases; simp)+

lemma rewrite_filter_cases:
  assumes q: "rewrite_filter vane db es [Some c] est = Inr q" and c: "chain_scan c = Some g"
  obtains (same) "q = FilterOp es [Some c] est"
  | (found) b i ids rows where "scan_below c = Some g" "lance_bind g = Some b"
      "first_lookup vane db (logical_get g) 0 es = Done (i, ids)"
      "rows = (if vane then NormalizeSqlTakeRowIds ids else ids)" "rows \<noteq> []"
      "q = (if erase_at i es = [] then set_estimate est (update_below (set_bind (set_take rows b)) c)
            else FilterOp (erase_at i es) [Some (update_below (set_bind (set_take rows b)) c)] est)"
proof (cases "scan_below c = Some g \<and> (\<exists>b. lance_bind g = Some b \<and> \<not> UsesNamespaceQuery b)")
  case True
  then obtain b where g: "scan_below c = Some g" "lance_bind g = Some b" "\<not> UsesNamespaceQuery b" by auto
  show thesis
  proof (cases "first_lookup vane db (logical_get g) 0 es")
    case (Done x)
    obtain i ids where x: "x = (i, ids)" by (cases x)
    let ?rows = "if vane then NormalizeSqlTakeRowIds ids else ids"
    have "\<not> vane \<Longrightarrow> ids \<noteq> []"
      using first_lookup_Done [OF Done [unfolded x]] expression_rows_nonempty by auto
    then show thesis
    proof (cases "?rows = []")
      case True
      with \<open>\<not> vane \<Longrightarrow> ids \<noteq> []\<close> q g Done x have "q = FilterOp es [Some c] est"
        by (auto simp: rewrite_filter_def Let_def split: if_splits)
      then show thesis by (rule same)
    next
      case False
      with q g Done x show thesis
        by (intro found [OF g(1,2) Done [unfolded x] refl False]) (simp add: rewrite_filter_def Let_def split: if_splits)
    qed
  next
    case Refused
    with q g show thesis by (intro same) (simp add: rewrite_filter_def)
  qed (use q g in \<open>simp add: rewrite_filter_def\<close>)
next
  case False
  then have "q = FilterOp es [Some c] est"
  proof (cases "scan_below c")
    case (Some g0)
    then have "g0 = g" by (rule scan_below_chain(1) [OF _ c])
    with Some False q show ?thesis by (cases "lance_bind g") (simp_all add: rewrite_filter_def)
  qed (use q in \<open>simp add: rewrite_filter_def\<close>)
  then show thesis by (rule same)
qed

lemma rewrite_filter_unchanged:
  assumes "rewrite_filter vane db es [Some c] est = Inr q" and "chain_scan c = Some g"
    and "\<not> list_ex (lookup_expression vane db (logical_get g)) es"
  shows "q = FilterOp es [Some c] est"
proof (cases rule: rewrite_filter_cases [OF assms(1,2)])
  case (2 b i ids rows)
  with assms(3) show ?thesis using first_lookup_lookup [OF 2(3)] by simp
qed

text \<open>A lookup found in a filter: the expression goes, its rows are taken.\<close>

lemma take_filter:
  assumes c: "scan_below c = Some g" "chain_scan c = Some g" "lance_bind g = Some b"
    and ids: "first_lookup vane db (logical_get g) 0 es = Done (i, ids)"
    and rows: "rows = (if vane then NormalizeSqlTakeRowIds ids else ids)" "rows \<noteq> []"
    and t: "t = update_below (set_bind (set_take rows b)) c"
    and q: "q = (if erase_at i es = [] then set_estimate est t else FilterOp (erase_at i es) [Some t] est)"
  shows "took tr db vane (FilterOp es [Some c] est) q" and "chain_scan q = Some (set_bind (set_take rows b) g)"
proof -
  obtain e where e: "i < length es" "es ! i = Some e" "TryExtractTakeRowIdsFromExpression vane db (logical_get g) e = Done ids"
    using first_lookup_Done [OF ids] by auto
  have t': "chain_scan t = Some (set_bind (set_take rows b) g)" "\<And>r. passes tr db r t \<longleftrightarrow> passes tr db r c"
    using scan_below_chain(2,3) [OF c(1,2)] by (simp_all add: t)
  then show "chain_scan q = Some (set_bind (set_take rows b) g)"
    by (simp add: q)
  have row: "chain_row db c = is_row_id db (logical_get g)" "chain_row db t = is_row_id db (logical_get g)"
    by (simp_all add: chain_row_def t' c fun_eq_iff)
  have "passes tr db r q \<longleftrightarrow> passes tr db r c \<and> list_all (expression_holds tr (is_row_id db (logical_get g)) r) (erase_at i es)" for r
    by (simp add: q t' row)
  moreover have "expression_holds tr (is_row_id db (logical_get g)) r (es ! i) \<longleftrightarrow> r \<in> set rows" for r
    using expression_rows [OF e(3)] e(2) rows by (simp add: expression_holds_def)
  ultimately show "took tr db vane (FilterOp es [Some c] est) q"
    using list_all_erase_at [OF e(1)] rows \<open>chain_scan q = _\<close>
    by (auto simp: took_def taken_def scan_take_set [OF c(3)] row)
qed

lemma rewrite_filter_effect:
  assumes q: "rewrite_filter vane db es [Some c] est = Inr q" and c: "chain_scan c = Some g"
  shows "\<exists>g'. chain_scan q = Some g' \<and> is_row_id db (logical_get g') = is_row_id db (logical_get g)"
    and "rows_kept tr db (FilterOp es [Some c] est) q \<or> took tr db vane (FilterOp es [Some c] est) q"
proof -
  have "(\<exists>g'. chain_scan q = Some g' \<and> is_row_id db (logical_get g') = is_row_id db (logical_get g)) \<and>
    (rows_kept tr db (FilterOp es [Some c] est) q \<or> took tr db vane (FilterOp es [Some c] est) q)"
  proof (cases rule: rewrite_filter_cases [OF q c])
    case (2 b i ids rows)
    from take_filter [OF 2(1) c 2(2-5) refl 2(6)] show ?thesis by simp
  qed (simp add: c)
  then show "\<exists>g'. chain_scan q = Some g' \<and> is_row_id db (logical_get g') = is_row_id db (logical_get g)"
    and "rows_kept tr db (FilterOp es [Some c] est) q \<or> took tr db vane (FilterOp es [Some c] est) q"
    by auto
qed


section \<open>Chains\<close>

lemma kept_trans: "\<lbrakk>rows_kept tr db p q; rows_kept tr db q s\<rbrakk> \<Longrightarrow> rows_kept tr db p s"
  by (simp add: rows_kept_def)

lemma kept_took: "\<lbrakk>rows_kept tr db p q; took tr db vane q s\<rbrakk> \<Longrightarrow> took tr db vane p s"
  by (simp add: rows_kept_def took_def)

text \<open>What happens below a filter or a projection happens to the chain.\<close>

lemma lift_filter:
  assumes "chain_scan c = Some g" and "chain_scan c' = Some g'"
    and "is_row_id db (logical_get g') = is_row_id db (logical_get g)"
  shows "rows_kept tr db c c' \<Longrightarrow> rows_kept tr db (FilterOp es [Some c] est) (FilterOp es [Some c'] est)"
    and "took tr db vane c c' \<Longrightarrow> took tr db vane (FilterOp es [Some c] est) (FilterOp es [Some c'] est)"
proof -
  have "chain_row db c' = chain_row db c"
    using assms by (simp add: chain_row_def fun_eq_iff)
  then show "rows_kept tr db c c' \<Longrightarrow> rows_kept tr db (FilterOp es [Some c] est) (FilterOp es [Some c'] est)"
    and "took tr db vane c c' \<Longrightarrow> took tr db vane (FilterOp es [Some c] est) (FilterOp es [Some c'] est)"
    by (auto simp: rows_kept_def took_def taken_def)
qed

lemma lift_projection:
  "rows_kept tr db c c' \<Longrightarrow> rows_kept tr db (ProjectionOp ti es [Some c] est) (ProjectionOp ti es [Some c'] est)"
  "took tr db vane c c' \<Longrightarrow> took tr db vane (ProjectionOp ti es [Some c] est) (ProjectionOp ti es [Some c'] est)"
  by (auto simp: rows_kept_def took_def taken_def)

lemma lookup_expression_eq:
  assumes "is_row_id db get' = is_row_id db get"
  shows "lookup_expression vane db get' = lookup_expression vane db get"
  by (rule ext) (simp add: lookup_expression_def lookup_expression_same [OF assms] split: option.split)

lemma rewrite_one_child:
  "rewrite_children f [Some c] = Inr cs \<longleftrightarrow> (\<exists>c'. f c = Inr c' \<and> cs = [Some c'])"
  by (auto simp: rewrite_children_def res_bind_Inr_iff)

definition rewritten :: "truth \<Rightarrow> duckdb \<Rightarrow> bool \<Rightarrow> plan \<Rightarrow> plan \<Rightarrow> bool" where
  "rewritten tr db vane p q \<longleftrightarrow>
     (\<exists>g g'. chain_scan p = Some g \<and> chain_scan q = Some g' \<and> is_row_id db (logical_get g') = is_row_id db (logical_get g)) \<and>
     (rows_kept tr db p q \<or> took tr db vane p q) \<and> (sites vane db p = 0 \<longrightarrow> rows_kept tr db p q)"

lemma rewrite_filter_step:
  assumes c: "rewritten tr db vane c c'" and q: "rewrite_filter vane db es [Some c'] est = Inr q"
    and one: "sites vane db (FilterOp es [Some c] est) \<le> 1"
  shows "rewritten tr db vane (FilterOp es [Some c] est) q"
proof -
  obtain g g' where g: "chain_scan c = Some g" "chain_scan c' = Some g'"
      "is_row_id db (logical_get g') = is_row_id db (logical_get g)"
    using c by (auto simp: rewritten_def)
  note lift = lift_filter [OF g, where tr = tr and es = es and est = est]
  show ?thesis
  proof (cases "list_ex (lookup_expression vane db (logical_get g)) es")
    case False
    then have "q = FilterOp es [Some c'] est"
      using rewrite_filter_unchanged [OF q g(2)] lookup_expression_eq [OF g(3)] by simp
    with False c g lift show ?thesis by (auto simp: rewritten_def)
  next
    case True
    then have "rows_kept tr db c c'" using one c g by (simp add: rewritten_def)
    from lift(1) [OF this] rewrite_filter_effect [OF q g(2)] show ?thesis
      using True g by (auto simp: rewritten_def dest: kept_trans kept_took)
  qed
qed

lemma rewrite_chain:
  assumes "LanceRowIdInRewrite vane db h p = Inr q" and "chain_scan p = Some g"
    and "distinct (map fst (table_filters (logical_get g)))" and "sites vane db p \<le> 1"
    and "filters_as_expressions tr db h"
  shows "rewritten tr db vane p q"
  using assms
proof (induction p arbitrary: q rule: chain_scan.induct)
  case (1 g' cs est)
  then show ?case
    using rewrite_scan_effect [of vane db h g est q tr]
    by (auto simp: rewritten_def rewrite_children_def split: if_splits)
next
  case (2 es c est)
  then obtain c' where "LanceRowIdInRewrite vane db h c = Inr c'" "rewrite_filter vane db es [Some c'] est = Inr q"
    by (auto simp: res_bind_Inr_iff rewrite_one_child)
  with 2 show ?case by (intro rewrite_filter_step) auto
next
  case (3 ti es c est)
  then obtain c' where "LanceRowIdInRewrite vane db h c = Inr c'" "q = ProjectionOp ti es [Some c'] est"
    by (auto simp: res_bind_Inr_iff rewrite_one_child)
  with 3 show ?case by (auto simp: rewritten_def intro: lift_projection)
qed auto

text \<open>
  When the rows to take are implied by the filters, a rewrite changes no number of copies in the
  distributed build, and no row's presence in the other.
\<close>

definition take_implied :: "truth \<Rightarrow> duckdb \<Rightarrow> bool \<Rightarrow> plan \<Rightarrow> bool" where
  "take_implied tr db vane p \<longleftrightarrow>
     taken p = [] \<or> ((vane \<longrightarrow> distinct (taken p)) \<and> (\<forall>r. passes tr db r p \<longrightarrow> r \<in> set (taken p)))"

lemma count_list_distinct: "distinct xs \<Longrightarrow> count_list xs x = (if x \<in> set xs then 1 else 0)"
  by (induction xs) auto

lemma count_list_pos: "0 < count_list xs x \<longleftrightarrow> x \<in> set xs"
  using count_list_0_iff [of xs x] by (cases "count_list xs x") auto

lemma copies_pos:
  "0 < copies tr db r p \<longleftrightarrow> passes tr db r p \<and> (taken p = [] \<or> r \<in> set (taken p))"
  by (simp add: copies_def count_list_pos)

lemma implied_copies:
  assumes "take_implied tr db vane p"
  shows "0 < copies tr db r p \<longleftrightarrow> passes tr db r p"
    and "vane \<Longrightarrow> copies tr db r p = (if passes tr db r p then 1 else 0)"
  using assms by (auto simp: copies_pos take_implied_def) (auto simp: copies_def count_list_distinct)

lemma rewritten_copies:
  assumes q: "rewritten tr db vane p q" and p: "take_implied tr db vane p"
  shows "(0 < copies tr db r q \<longleftrightarrow> 0 < copies tr db r p) \<and> (vane \<longrightarrow> copies tr db r q = copies tr db r p)"
proof (cases "rows_kept tr db p q")
  case True
  then show ?thesis by (simp add: rows_kept_def copies_def)
next
  case False
  with q have t: "took tr db vane p q" by (simp add: rewritten_def)
  then have "0 < copies tr db r q \<longleftrightarrow> passes tr db r p"
    by (auto simp: copies_pos took_def)
  moreover have "copies tr db r q = (if passes tr db r p then 1 else 0)" if vane
    using t that by (simp add: copies_def took_def count_list_distinct)
  ultimately show ?thesis using implied_copies [OF p] by simp
qed


section \<open>Complex filters\<close>

lemma push_filter_take: "push_filter db h get nms e b = Inr b' \<Longrightarrow> take_row_ids b' = take_row_ids b"
  by (auto simp: push_filter_def res_bind_Inr_iff split: if_splits outcome.splits)

lemma push_lookup_take:
  assumes "push_lookup vane db get e b = Inr b'" and "take_row_ids b' \<noteq> take_row_ids b"
  shows "\<exists>rows. try_extract_rowids vane db get e = Done rows \<and> set (take_row_ids b') = set rows \<and> (vane \<longrightarrow> distinct (take_row_ids b'))"
  using assms by (auto simp: push_lookup_def set_take_def split: if_splits outcome.splits)

text \<open>The rows to take are those of one of the filters.\<close>

definition take_from :: "truth \<Rightarrow> bool \<Rightarrow> duckdb \<Rightarrow> LogicalGet \<Rightarrow> Expression option list \<Rightarrow> ScanBind \<Rightarrow> bool" where
  "take_from tr vane db get es b \<longleftrightarrow>
     (vane \<longrightarrow> distinct (take_row_ids b)) \<and>
     (\<forall>r. list_all (expression_holds tr (is_row_id db get) r) es \<longrightarrow> r \<in> set (take_row_ids b))"

lemma complex_filter_step_take:
  assumes "complex_filter_step vane db h get nms b expr = Inr b'" and "expr \<in> set es"
    and "take_row_ids b \<noteq> [] \<longrightarrow> take_from tr vane db get es b"
  shows "take_row_ids b' \<noteq> [] \<longrightarrow> take_from tr vane db get es b'"
proof (cases "take_row_ids b' = take_row_ids b")
  case False
  with assms(1) obtain e b0 where e: "expr = Some e" "push_lookup vane db get e b = Inr b0" "push_filter db h get nms e b0 = Inr b'"
    by (auto simp: complex_filter_step_def res_bind_Inr_iff split: option.splits if_splits)
  then have take: "take_row_ids b' = take_row_ids b0" by (simp add: push_filter_take)
  with False push_lookup_take [OF e(2)] obtain rows where rows: "try_extract_rowids vane db get e = Done rows"
      "set (take_row_ids b') = set rows" "vane \<longrightarrow> distinct (take_row_ids b')" by auto
  have "r \<in> set rows" if "list_all (expression_holds tr (is_row_id db get) r) es" for r
    using that assms(2) e(1) try_extract_rows(1) [OF rows(1)] by (auto simp: list_all_iff expression_holds_def)
  with rows(2,3) show ?thesis by (simp add: take_from_def)
qed (use assms(3) in \<open>simp add: take_from_def\<close>)

lemma pushdown_take:
  assumes "LancePushdownComplexFilter vane db h get es b = Inr b'" and "take_row_ids b = []" and "take_row_ids b' \<noteq> []"
  shows "take_from tr vane db get es b'"
proof -
  have "take_row_ids b' \<noteq> [] \<longrightarrow> take_from tr vane db get es b'"
  proof (rule res_foldl_invariant [where P = "\<lambda>b. take_row_ids b \<noteq> [] \<longrightarrow> take_from tr vane db get es b"])
    show "res_foldl (complex_filter_step vane db h get (map (get_column_name db b) (get_column_ids get))) b es = Inr b'"
      using assms(1) by (simp add: LancePushdownComplexFilter_def Let_def)
  qed (use assms(2) complex_filter_step_take in auto)
  with assms(3) show ?thesis by simp
qed

text \<open>So a scan below the filters that were pushed has rows to take that the filters imply.\<close>

lemma pushed_take_implied:
  assumes "LancePushdownComplexFilter vane db h (logical_get g) es b = Inr b'" and "take_row_ids b = []"
    and "lance_bind g = Some b'"
  shows "take_implied tr db vane (FilterOp es [Some (ScanOp g [] n)] est)"
proof (cases "take_row_ids b' = []")
  case False
  have "chain_row db (ScanOp g [] n) = is_row_id db (logical_get g)"
    by (simp add: chain_row_def fun_eq_iff)
  with pushdown_take [OF assms(1,2) False, of tr] assms(3) show ?thesis
    by (simp add: take_implied_def take_from_def taken_def scan_take_def)
qed (simp add: take_implied_def taken_def scan_take_def assms(3))

end
