(* ===== verification/Scan_Init.thy ===== *)
theory Scan_Init
  imports Scan_Plan Index_Parse
begin

text \<open>
  The start of a scan (\<open>LanceScanInitGlobal\<close> of \<open>lance_scan.cpp\<close>): from the bind data and what DuckDB
  asks for, the columns to read, the filter to send, and the way the rows are read: a point lookup,
  a count, a namespace query, the dataset scanner or one stream per fragment.  The early returns of
  the function are stages that may finish.
\<close>

section \<open>State\<close>

record ScanInput = TableFunctionInitInput +
  in_projection_ids :: "nat list"
  in_column_indexes :: "ColumnIndex list"
  in_sample_options :: "SampleOptions option"

text \<open>
  \<open>LanceScanGlobalState\<close> without its counters and the text of EXPLAIN; the atomic positions are part
  of the running scan.  An \<open>INVALID_INDEX\<close> is \<open>None\<close>.
\<close>

record LanceScanGlobalState =
  gs_dataset :: "nat option"
  use_dataset_scanner :: bool
  use_namespace_query :: bool
  gs_sampling_pushed_down :: bool
  gs_sample_percentage :: "64 word"
  gs_sample_seed :: i64
  gs_sample_repeatable :: bool
  use_dataset_take :: bool
  scan_includes_virtual_rowid :: bool
  gs_limit_offset_pushed_down :: bool
  gs_pushed_limit :: "nat option"
  gs_pushed_offset :: nat
  gs_take_row_ids :: "u64 list"
  fragment_ids :: "u64 list"
  max_threads :: nat
  projection_ids :: "nat list"
  scanned_types :: "LogicalType list"
  scan_converted_types :: "LogicalType list"
  output_to_scan_converted_idx :: "nat option list"
  output_is_duckdb_rowid :: "bool list"
  output_is_empty :: "bool list"
  scan_column_ids :: "nat list"
  scan_column_names :: "string list"
  lance_filter_ir :: bytes
  gs_filter_pushed_down :: bool
  count_only :: bool
  count_only_total_rows :: nat
  deferred_materialization :: bool
  deferred_column_names :: "string list"
  deferred_column_types :: "LogicalType list"
  output_to_deferred_idx :: "nat option list"
  rowid_scan_converted_idx :: "nat option"

text \<open>
  What the scan asks of Lance and of DuckDB: the functions of the FFI on the open dataset, the text
  \<open>LanceScanGlobalErrorSuffix\<close> adds, the product \<open>floor(rows * clamp(percentage / 100))\<close> in double
  arithmetic, and the size of columns by their type, for which any classification will do.
\<close>

record scan_ffi =
  count_rows :: "nat option \<Rightarrow> int"
  list_fragments :: "nat option \<Rightarrow> u64 list option"
  list_fragment_stats :: stats_ffi
  list_named_field_stats :: "nat option \<Rightarrow> (string option \<times> u64) list option"
  list_scalar_indexed_columns :: "nat option \<Rightarrow> string option list"
  scan_error_text :: string
  scan_error_suffix :: string
  private_diagnostics :: bool
  sampled_rows :: "64 word \<Rightarrow> nat \<Rightarrow> nat"
  IsLikelyHeavyColumnType :: "LogicalType \<Rightarrow> bool"
  LanceDeferredMaterializationEnabled :: bool
  NumberOfThreads :: nat

definition new_scan_state :: LanceScanGlobalState where
  "new_scan_state = \<lparr>gs_dataset = None, use_dataset_scanner = False, use_namespace_query = False,
     gs_sampling_pushed_down = False, gs_sample_percentage = 0, gs_sample_seed = - 1, gs_sample_repeatable = False,
     use_dataset_take = False, scan_includes_virtual_rowid = False, gs_limit_offset_pushed_down = False,
     gs_pushed_limit = None, gs_pushed_offset = 0, gs_take_row_ids = [], fragment_ids = [], max_threads = 1,
     projection_ids = [], scanned_types = [], scan_converted_types = [], output_to_scan_converted_idx = [],
     output_is_duckdb_rowid = [], output_is_empty = [], scan_column_ids = [], scan_column_names = [],
     lance_filter_ir = [], gs_filter_pushed_down = False, count_only = False, count_only_total_rows = 0,
     deferred_materialization = False, deferred_column_names = [], deferred_column_types = [],
     output_to_deferred_idx = [], rowid_scan_converted_idx = None\<rparr>"


section \<open>The dataset of a worker\<close>

text \<open>
  A worker without a dataset reopens the frozen snapshot: \<open>reopen\<close> is what
  \<open>OpenLanceDistributedSnapshot\<close> and \<open>PopulateLanceDistributedScanSchemas\<close> give for it, the handle
  with the names and types of its columns.
\<close>

definition init_dataset ::
  "bool \<Rightarrow> (LanceVaneFrozenSnapshot \<Rightarrow> exn + nat \<times> string list \<times> LogicalType list) \<Rightarrow> ScanBind \<Rightarrow> exn + nat option" where
  "init_dataset vane reopen b =
     (if \<not> vane then Inr (bound_dataset b)
      else if distributed_worker b \<and> \<not> distributed_splits_applied b then
        Inl (InvalidInputException ''Detached Lance worker scan requires an explicit split assignment'')
      else if distributed_worker b \<and> bound_dataset b = None then
        (case distributed_frozen_snapshot b of
           Some snapshot \<Rightarrow>
             if \<not> distributed_snapshot_payload_validated b then
               Inl (InvalidInputException ''Detached Lance worker scan has no validated frozen snapshot payload'')
             else res_bind (reopen snapshot) (\<lambda>(d, nms, tys).
               if nms \<noteq> names b \<or> tys \<noteq> types b then
                 Inl (IOException ''Reopened Lance dataset schema does not match the coordinator snapshot'')
               else Inr (Some d))
         | None \<Rightarrow> Inl (InvalidInputException ''Detached Lance worker scan has no validated frozen snapshot payload''))
      else Inr (bound_dataset b))"


section \<open>Columns\<close>

fun position :: "'a \<Rightarrow> 'a list \<Rightarrow> nat option" where
  "position x [] = None"
| "position x (y # ys) = (if x = y then Some 0 else map_option Suc (position x ys))"

text \<open>The lambda \<open>add_scan_column\<close>; its map from ids to indices is the position among the ids.\<close>

definition add_scan_column :: "nat \<Rightarrow> string \<Rightarrow> LogicalType \<Rightarrow> LanceScanGlobalState \<Rightarrow> nat \<times> LanceScanGlobalState" where
  "add_scan_column col_id name t s =
     (case position col_id (scan_column_ids s) of
        Some i \<Rightarrow> (i, s)
      | None \<Rightarrow> (length (scan_column_ids s),
          s\<lparr>scan_column_ids := scan_column_ids s @ [col_id], scan_column_names := scan_column_names s @ [name],
            scan_converted_types := scan_converted_types s @ [t]\<rparr>))"

definition push_output :: "LogicalType \<Rightarrow> nat option \<Rightarrow> bool \<Rightarrow> bool \<Rightarrow> LanceScanGlobalState \<Rightarrow> LanceScanGlobalState" where
  "push_output t i is_rowid is_empty s =
     s\<lparr>scanned_types := scanned_types s @ [t],
       output_to_scan_converted_idx := output_to_scan_converted_idx s @ [i],
       output_is_duckdb_rowid := output_is_duckdb_rowid s @ [is_rowid], output_is_empty := output_is_empty s @ [is_empty]\<rparr>"

definition add_row_id :: "ScanBind \<Rightarrow> LanceScanGlobalState \<Rightarrow> nat \<times> LanceScanGlobalState" where
  "add_row_id b s =
     add_scan_column (length (types b)) LANCE_ROW_ID_COLUMN_NAME (SimpleType UBIGINT) (s\<lparr>scan_includes_virtual_rowid := True\<rparr>)"

definition add_column :: "duckdb \<Rightarrow> ScanBind \<Rightarrow> LanceScanGlobalState \<Rightarrow> nat \<Rightarrow> exn + LanceScanGlobalState" where
  "add_column db b s col_id =
     (if col_id = COLUMN_IDENTIFIER_EMPTY db then Inr (push_output (SimpleType BOOLEAN) None False True s)
      else if col_id = COLUMN_IDENTIFIER_ROW_ID db then
        let (i, s) = add_row_id b s in Inr (push_output ROW_TYPE (Some i) True False s)
      else if IsLanceVirtualRowIdColumnId col_id then
        let (i, s) = add_row_id b s in Inr (push_output (SimpleType UBIGINT) (Some i) False False s)
      else if col_id \<ge> length (types b) \<or> col_id \<ge> length (names b) then Inl (IOException ''Invalid column id in projection'')
      else let (i, s) = add_scan_column col_id (names b ! col_id) (types b ! col_id) s
           in Inr (push_output (types b ! col_id) (Some i) False False s))"

definition init_columns :: "duckdb \<Rightarrow> ScanBind \<Rightarrow> ScanInput \<Rightarrow> nat option \<Rightarrow> exn + LanceScanGlobalState" where
  "init_columns db b input d =
     res_foldl (add_column db b)
       (new_scan_state\<lparr>gs_dataset := d, gs_limit_offset_pushed_down := limit_offset_pushed_down b,
          gs_pushed_limit := pushed_limit b, gs_pushed_offset := pushed_offset b, projection_ids := in_projection_ids input\<rparr>)
       (column_ids input)"

definition add_virtual_cardinality_column :: "ScanBind \<Rightarrow> LanceScanGlobalState \<Rightarrow> LanceScanGlobalState" where
  "add_virtual_cardinality_column b s = (if scan_column_names s \<noteq> [] then s else snd (add_row_id b s))"


section \<open>Sampling and filters\<close>

text \<open>Parts that cannot be put into one message leave the filter empty.\<close>

definition filter_message :: "bytes list \<Rightarrow> exn + bytes" where
  "filter_message filter_parts =
     (if filter_parts = [] then Inr []
      else case TryEncodeLanceFilterIRMessage filter_parts of Done msg \<Rightarrow> Inr msg | Refused \<Rightarrow> Inr [] | Raised x \<Rightarrow> Inl x)"

definition init_filters :: "duckdb \<Rightarrow> ScanBind \<Rightarrow> ScanInput \<Rightarrow> LanceScanGlobalState \<Rightarrow> exn + LanceScanGlobalState" where
  "init_filters db b input s =
     (case system_percentage (in_sample_options input) of
        Some so \<Rightarrow>
          res_bind (sample_number db (sample_size so)) (\<lambda>pct.
            Inr (s\<lparr>gs_sampling_pushed_down := True, gs_sample_percentage := pct, gs_sample_seed := GetSeed so,
                   gs_sample_repeatable := repeatable so, gs_limit_offset_pushed_down := False, gs_pushed_limit := None,
                   gs_pushed_offset := 0, gs_filter_pushed_down := False, lance_filter_ir := [],
                   use_dataset_scanner := True, max_threads := 1\<rparr>))
      | None \<Rightarrow>
          res_bind (BuildLanceTableFilterIRParts db (names b) (types b) (TableFunctionInitInput.truncate input) False) (\<lambda>table_parts.
            res_bind (filter_message (parts table_parts @ map string_bytes (lance_pushed_filter_ir_parts b))) (\<lambda>msg.
              Inr (s\<lparr>lance_filter_ir := msg, gs_filter_pushed_down := all_filters_pushed table_parts \<and> msg \<noteq> []\<rparr>))))"


section \<open>Stages\<close>

text \<open>A stage tells whether the function returns after it.\<close>

type_synonym stage = "LanceScanGlobalState \<Rightarrow> exn + bool \<times> LanceScanGlobalState"

definition and_then :: "stage \<Rightarrow> stage \<Rightarrow> stage" where
  "and_then f g s = res_bind (f s) (\<lambda>(finished, s). if finished then Inr (True, s) else g s)"

definition namespace_stage :: "ScanBind \<Rightarrow> stage" where
  "namespace_stage b s =
     (if \<not> UsesNamespaceQuery b then Inr (False, s)
      else if gs_sampling_pushed_down s then
        Inl (InternalException ''Lance namespace query_table scan does not support sampling'')
      else
        let s = s\<lparr>use_namespace_query := True, use_dataset_scanner := True, max_threads := 1\<rparr>
        in if gs_pushed_limit s = Some 0 then Inr (True, s\<lparr>count_only := True, count_only_total_rows := 0\<rparr>)
           else if list_all (\<lambda>col_id. col_id \<ge> length (types b)) (scan_column_ids s) \<and> names b \<noteq> [] then
             Inr (True, snd (add_scan_column 0 (names b ! 0) (types b ! 0) s))
           else Inr (True, s))"

text \<open>Reading a list of rows instead of scanning.\<close>

definition use_take :: "bool \<Rightarrow> ScanBind \<Rightarrow> u64 list \<Rightarrow> LanceScanGlobalState \<Rightarrow> exn + bool \<times> LanceScanGlobalState" where
  "use_take vane b rows s =
     (if limit_offset_pushed_down b then Inl (IOException ''Lance point lookup does not support limit/offset pushdown'')
      else
        let s = s\<lparr>lance_filter_ir := [], gs_filter_pushed_down := False, use_dataset_scanner := True,
                  use_dataset_take := True, max_threads := 1, gs_take_row_ids := rows\<rparr>
        in Inr (True, if vane then add_virtual_cardinality_column b s else s))"

definition take_stage :: "bool \<Rightarrow> ScanBind \<Rightarrow> stage" where
  "take_stage vane b s =
     (if take_row_ids b = [] then Inr (False, s)
      else if gs_sampling_pushed_down s then Inr (True, s)
      else use_take vane b (take_row_ids b) s)"

definition row_id_filter_stage :: "bool \<Rightarrow> ScanBind \<Rightarrow> ScanInput \<Rightarrow> stage" where
  "row_id_filter_stage vane b input s =
     (case (position ''_rowid'' (names b), filters input) of
        (Some row_id_col_idx, Some fs) \<Rightarrow>
          if vane \<and> distributed_splits_applied b then Inr (False, s)
          else (case TryExtractTakeRowIdsFromFilters vane fs row_id_col_idx of
              Raised x \<Rightarrow> Inl x
            | Refused \<Rightarrow> Inr (False, s)
            | Done rows \<Rightarrow> if gs_sampling_pushed_down s then Inr (False, s) else use_take vane b rows s)
      | _ \<Rightarrow> Inr (False, s))"

definition no_filters :: "ScanInput \<Rightarrow> bool" where
  "no_filters input \<longleftrightarrow> (case filters input of None \<Rightarrow> True | Some fs \<Rightarrow> fs = [])"

text \<open>The number of rows, \<open>None\<close> when the fragments of a worker have no statistics.\<close>

definition count_scan_rows :: "bool \<Rightarrow> scan_ffi \<Rightarrow> ScanBind \<Rightarrow> LanceScanGlobalState \<Rightarrow> exn + nat option" where
  "count_scan_rows vane ffi b s =
     (if vane \<and> distributed_splits_applied b then
        (case TryGetSelectedFragmentRowCount (list_fragment_stats ffi) (LanceScanBind.truncate b) (gs_dataset s) of
           Some n \<Rightarrow> Inr (Some n)
         | None \<Rightarrow>
             if scan_error_text ffi \<noteq> [] then
               Inl (IOException (''Failed to count assigned Lance fragments (Lance error: '' @
                 (if private_diagnostics ffi then ''details redacted'' else scan_error_text ffi) @ '')''))
             else Inr None)
      else if count_rows ffi (gs_dataset s) < 0 then Inl (IOException (''Failed to count Lance rows'' @ scan_error_suffix ffi))
      else Inr (Some (nat (count_rows ffi (gs_dataset s)))))"

definition limited_rows :: "bool \<Rightarrow> nat option \<Rightarrow> nat \<Rightarrow> nat \<Rightarrow> nat" where
  "limited_rows limited lim off all_rows =
     (if \<not> limited then all_rows
      else if off \<ge> all_rows then 0
      else case lim of Some n \<Rightarrow> min (all_rows - off) n | None \<Rightarrow> all_rows - off)"

definition count_stage :: "bool \<Rightarrow> scan_ffi \<Rightarrow> ScanBind \<Rightarrow> ScanInput \<Rightarrow> stage" where
  "count_stage vane ffi b input s =
     (if scan_column_names s = [] \<and> no_filters input \<and> lance_filter_ir s = [] then
        res_bind (count_scan_rows vane ffi b s) (\<lambda>rows.
          case rows of
            None \<Rightarrow> Inr (False, s)
          | Some n \<Rightarrow>
              let all_rows = (if gs_sampling_pushed_down s then sampled_rows ffi (gs_sample_percentage s) n else n)
              in Inr (True, s\<lparr>count_only := True, max_threads := 1,
                   count_only_total_rows := limited_rows (gs_limit_offset_pushed_down s) (gs_pushed_limit s) (gs_pushed_offset s) all_rows\<rparr>))
      else Inr (False, s))"

definition cardinality_stage :: "bool \<Rightarrow> ScanBind \<Rightarrow> stage" where
  "cardinality_stage vane b s =
     Inr (False, if vane \<and> distributed_splits_applied b then add_virtual_cardinality_column b s else s)"


section \<open>Deferred columns\<close>

definition DEFERRED_AVG_BYTES_THRESHOLD :: nat where
  "DEFERRED_AVG_BYTES_THRESHOLD = 1024"

definition filter_referenced_columns :: "ScanBind \<Rightarrow> ScanInput \<Rightarrow> TableFilterSet \<Rightarrow> string list" where
  "filter_referenced_columns b input fs =
     List.map_filter (\<lambda>(i, f).
       if i < length (column_ids input) \<and> column_ids input ! i < length (names b)
       then Some (names b ! (column_ids input ! i)) else None) fs"

definition heavy_columns :: "scan_ffi \<Rightarrow> ScanBind \<Rightarrow> ScanInput \<Rightarrow> TableFilterSet \<Rightarrow> LanceScanGlobalState \<Rightarrow> string list" where
  "heavy_columns ffi b input fs s =
     (let all_rows = count_rows ffi (gs_dataset s)
      in if all_rows \<le> 0 then []
         else
           let stats = List.map_filter (\<lambda>(n, v). map_option (\<lambda>n. (n, v)) n)
                         (case list_named_field_stats ffi (gs_dataset s) of Some l \<Rightarrow> l | None \<Rightarrow> []);
               by_stats = map fst (filter (\<lambda>(n, v). unat v div nat all_rows > DEFERRED_AVG_BYTES_THRESHOLD) stats);
               by_type = map fst (filter (\<lambda>(n, t). n \<notin> set (map fst stats) \<and> IsLikelyHeavyColumnType ffi t)
                           (zip (scan_column_names s) (scan_converted_types s)))
           in filter (\<lambda>n. n \<notin> set (filter_referenced_columns b input fs) \<and> n \<noteq> LANCE_ROW_ID_COLUMN_NAME)
                (by_stats @ by_type))"

text \<open>
  The indices of the scan columns that stay and of those that are read later, the row id after the
  ones that stay, and the new place of every output.
\<close>

definition defer_columns :: "ScanBind \<Rightarrow> nat list \<Rightarrow> nat list \<Rightarrow> LanceScanGlobalState \<Rightarrow> LanceScanGlobalState" where
  "defer_columns b light heavy s =
     (let ids = map (nth (scan_column_ids s)) light;
          nms = map (nth (scan_column_names s)) light;
          tys = map (nth (scan_converted_types s)) light;
          has_rowid = (LANCE_ROW_ID_COLUMN_NAME \<in> set nms)
      in s\<lparr>deferred_materialization := True,
           deferred_column_names := map (nth (scan_column_names s)) heavy,
           deferred_column_types := map (nth (scan_converted_types s)) heavy,
           rowid_scan_converted_idx := (if has_rowid then position LANCE_ROW_ID_COLUMN_NAME nms else Some (length nms)),
           scan_includes_virtual_rowid := scan_includes_virtual_rowid s \<or> \<not> has_rowid,
           scan_column_ids := (if has_rowid then ids else ids @ [length (types b)]),
           scan_column_names := (if has_rowid then nms else nms @ [LANCE_ROW_ID_COLUMN_NAME]),
           scan_converted_types := (if has_rowid then tys else tys @ [SimpleType UBIGINT]),
           output_to_scan_converted_idx := map (\<lambda>i. Option.bind i (\<lambda>i. position i light)) (output_to_scan_converted_idx s),
           output_to_deferred_idx := map (\<lambda>i. Option.bind i (\<lambda>i. position i heavy)) (output_to_scan_converted_idx s)\<rparr>)"

definition defer_stage :: "scan_ffi \<Rightarrow> ScanBind \<Rightarrow> ScanInput \<Rightarrow> stage" where
  "defer_stage ffi b input s =
     (case filters input of
        Some fs \<Rightarrow>
          if \<not> gs_sampling_pushed_down s \<and> \<not> gs_filter_pushed_down s \<and> scan_column_names s \<noteq> [] \<and> fs \<noteq> [] \<and>
             LanceDeferredMaterializationEnabled ffi then
            let is_heavy = (\<lambda>i. scan_column_names s ! i \<in> set (heavy_columns ffi b input fs s));
                heavy = filter is_heavy [0..<length (scan_column_names s)];
                light = filter (Not \<circ> is_heavy) [0..<length (scan_column_names s)]
            in Inr (False, if heavy = [] then s else defer_columns b light heavy s)
          else Inr (False, s)
      | None \<Rightarrow> Inr (False, s))"


section \<open>The way to read\<close>

definition limit_stage :: "ScanBind \<Rightarrow> ScanInput \<Rightarrow> stage" where
  "limit_stage b input s =
     (if \<not> gs_sampling_pushed_down s \<and> limit_offset_pushed_down b then
        if \<not> no_filters input \<and> \<not> gs_filter_pushed_down s then
          Inl (IOException ''Lance limit/offset pushdown requires filter pushdown'')
        else Inr (True, s\<lparr>use_dataset_scanner := True, max_threads := 1\<rparr>)
      else if gs_sampling_pushed_down s then Inr (True, s\<lparr>use_dataset_scanner := True, max_threads := 1\<rparr>)
      else Inr (False, s))"

text \<open>
  The path of a filtered column, from the column down to the field; the file has a copy of
  \<open>FormatLanceFieldPath\<close> that returns the empty text for no names.
\<close>

definition FormatScanFieldPath :: "string list \<Rightarrow> string" where
  "FormatScanFieldPath segments = format_segments segments"

fun index_path :: "LogicalType \<Rightarrow> ColumnIndex list \<Rightarrow> string list option" where
  "index_path t [] = Some []"
| "index_path (StructType fs) [ColumnIndex i v cs] =
     (if v \<or> i \<ge> length fs then None else map_option (Cons (fst (fs ! i))) (index_path (snd (fs ! i)) cs))"
| "index_path t cs = None"

definition TryBuildLanceColumnIndexPath :: "string list \<Rightarrow> LogicalType list \<Rightarrow> ColumnIndex \<Rightarrow> string option" where
  "TryBuildLanceColumnIndexPath nms tys c =
     (let i = GetPrimaryIndex c
      in if IsVirtualColumn c \<or> i \<ge> length nms \<or> i \<ge> length tys then None
         else (case index_path (tys ! i) (GetChildIndexes c) of
             None \<Rightarrow> None
           | Some segments \<Rightarrow> let p = FormatScanFieldPath (nms ! i # segments) in if p = [] then None else Some p))"

definition filtered_columns :: "ScanBind \<Rightarrow> ScanInput \<Rightarrow> string list" where
  "filtered_columns b input =
     List.map_filter (\<lambda>(i, f).
       if i \<ge> length (column_ids input) then None
       else
         case (if i < length (in_column_indexes input)
               then TryBuildLanceColumnIndexPath (names b) (types b) (in_column_indexes input ! i) else None) of
           Some p \<Rightarrow> Some p
         | None \<Rightarrow> if column_ids input ! i < length (names b) then Some (names b ! (column_ids input ! i)) else None)
       (case filters input of Some fs \<Rightarrow> fs | None \<Rightarrow> [])"

definition index_stage :: "bool \<Rightarrow> scan_ffi \<Rightarrow> ScanBind \<Rightarrow> ScanInput \<Rightarrow> stage" where
  "index_stage vane ffi b input s =
     (if lance_filter_ir s \<noteq> [] \<and> \<not> (vane \<and> distributed_splits_applied b) \<and>
         list_ex (\<lambda>c. c \<in> Some ` set (filtered_columns b input)) (list_scalar_indexed_columns ffi (gs_dataset s))
      then Inr (True, s\<lparr>use_dataset_scanner := True, max_threads := 1\<rparr>)
      else Inr (False, s))"

definition fragment_stage :: "bool \<Rightarrow> scan_ffi \<Rightarrow> ScanBind \<Rightarrow> stage" where
  "fragment_stage vane ffi b s =
     (case list_fragments ffi (gs_dataset s) of
        None \<Rightarrow> Inl (IOException (''Failed to list Lance fragments'' @ scan_error_suffix ffi))
      | Some available \<Rightarrow>
          if vane \<and> distributed_splits_applied b then
            if list_all (\<lambda>f. f \<in> set available) (selected_fragment_ids b) then
              Inr (True, s\<lparr>fragment_ids := selected_fragment_ids b,
                          max_threads := max 1 (min (NumberOfThreads ffi) (length (selected_fragment_ids b)))\<rparr>)
            else Inl (InvalidInputException ''Lance scan split references a fragment outside the fixed dataset snapshot'')
          else Inr (True, s\<lparr>fragment_ids := available, max_threads := max 1 (min (NumberOfThreads ffi) (length available))\<rparr>))"

definition LanceScanInitGlobal ::
  "bool \<Rightarrow> duckdb \<Rightarrow> scan_ffi \<Rightarrow> (LanceVaneFrozenSnapshot \<Rightarrow> exn + nat \<times> string list \<times> LogicalType list) \<Rightarrow> ScanBind \<Rightarrow> ScanInput \<Rightarrow> exn + LanceScanGlobalState" where
  "LanceScanInitGlobal vane db ffi reopen b input =
     res_bind (init_dataset vane reopen b) (\<lambda>d.
     res_bind (init_columns db b input d) (\<lambda>s.
     res_bind (init_filters db b input s) (\<lambda>s.
     res_bind
       ((and_then (namespace_stage b)
         (and_then (take_stage vane b)
         (and_then (row_id_filter_stage vane b input)
         (and_then (count_stage vane ffi b input)
         (and_then (cardinality_stage vane b)
         (and_then (defer_stage ffi b input)
         (and_then (limit_stage b input)
         (and_then (index_stage vane ffi b input) (fragment_stage vane ffi b))))))))) s)
       (\<lambda>(finished, s). Inr s))))"

end
