(* ===== verification/Scan_Run.thy ===== *)
theory Scan_Run
  imports Scan_Init "HOL-Library.Multiset"
begin

text \<open>
  A running scan (\<open>lance_scan.cpp\<close>): the stream a thread opens, the columns of a batch, the output
  made of them, and the threads that share the fragments of a scan.
\<close>

section \<open>Streams\<close>

text \<open>
  The requests to Lance, one constructor per FFI function, with the columns, the filter (\<open>None\<close> for a
  null pointer), the limit (\<open>-1\<close> for none) and the offset.  DuckDB's limits and offsets are at most
  \<open>2 ^ 62\<close>, so their casts to \<open>int64_t\<close> are exact.
\<close>

datatype stream_request =
    NamespaceScan "string list" "bytes option" int nat bool
  | SampleScan "string list" "64 word" i64 bool
  | TakeScan "string list" "u64 list"
  | DatasetScan "string list" "bytes option" int nat
  | FragmentScan "string list" u64 "bytes option"

definition limit_i64 :: "LanceScanGlobalState \<Rightarrow> int" where
  "limit_i64 s = (case gs_pushed_limit s of Some n \<Rightarrow> int n | None \<Rightarrow> - 1)"

definition filter_pointer :: "LanceScanGlobalState \<Rightarrow> bytes option" where
  "filter_pointer s = (if lance_filter_ir s = [] then None else Some (lance_filter_ir s))"

text \<open>What one attempt asks for, with or without the filter; \<open>None\<close> when no fragment is left.\<close>

definition request :: "LanceScanGlobalState \<Rightarrow> nat \<Rightarrow> bytes option \<Rightarrow> stream_request option" where
  "request s fragment_pos filter_ir =
     (if use_namespace_query s then
        Some (NamespaceScan (scan_column_names s) filter_ir (limit_i64 s) (gs_pushed_offset s) (scan_includes_virtual_rowid s))
      else if gs_sampling_pushed_down s then
        Some (SampleScan (scan_column_names s) (gs_sample_percentage s) (gs_sample_seed s) (gs_sample_repeatable s))
      else if use_dataset_take s then Some (TakeScan (scan_column_names s) (gs_take_row_ids s))
      else if use_dataset_scanner s then Some (DatasetScan (scan_column_names s) filter_ir (limit_i64 s) (gs_pushed_offset s))
      else if fragment_pos \<ge> length (fragment_ids s) then None
      else Some (FragmentScan (scan_column_names s) (fragment_ids s ! fragment_pos) filter_ir))"

text \<open>Whether a failed attempt with a filter may be repeated without it; a sample or a lookup has none.\<close>

definition may_retry :: "LanceScanGlobalState \<Rightarrow> bool \<Rightarrow> exn + bool" where
  "may_retry s pushed =
     (if use_namespace_query s then
        if gs_limit_offset_pushed_down s then Inl (IOException ''Lance namespace query_table filter pushdown failed'') else Inr True
      else if gs_sampling_pushed_down s \<or> use_dataset_take s then Inr False
      else if use_dataset_scanner s then
        if gs_limit_offset_pushed_down s \<and> pushed then Inl (IOException ''Lance dataset scan filter pushdown failed'') else Inr True
      else Inr True)"

definition stream_failed :: "LanceScanGlobalState \<Rightarrow> string \<Rightarrow> exn" where
  "stream_failed s sfx = IOException
     ((if use_namespace_query s then ''Failed to create Lance namespace query_table stream'' else ''Failed to create Lance scan stream'') @ sfx)"

text \<open>
  \<open>create\<close> is the FFI, which gives the stream for a request or a null pointer.  The result is the
  stream, whether it filters (\<open>local_state.filter_pushed_down\<close>), and the request that made it.
\<close>

definition LanceScanOpenStream ::
  "(stream_request \<Rightarrow> 'st option) \<Rightarrow> string \<Rightarrow> LanceScanGlobalState \<Rightarrow> nat \<Rightarrow> exn + ('st \<times> bool \<times> stream_request) option" where
  "LanceScanOpenStream create sfx s fragment_pos =
     (let filter_ir = filter_pointer s;
          pushed = gs_filter_pushed_down s \<and> filter_ir \<noteq> None \<and> (use_namespace_query s \<or> \<not> gs_sampling_pushed_down s)
      in case request s fragment_pos filter_ir of
           None \<Rightarrow> Inr None
         | Some req \<Rightarrow>
             (case create req of
                Some st \<Rightarrow> Inr (Some (st, pushed, req))
              | None \<Rightarrow>
                  if filter_ir = None then Inl (stream_failed s sfx)
                  else res_bind (may_retry s pushed) (\<lambda>retry.
                    if \<not> retry then Inl (stream_failed s sfx)
                    else (case request s fragment_pos None of
                        None \<Rightarrow> Inr None
                      | Some req \<Rightarrow> (case create req of Some st \<Rightarrow> Inr (Some (st, False, req)) | None \<Rightarrow> Inl (stream_failed s sfx))))))"


section \<open>Columns of a batch\<close>

text \<open>
  The children of a batch in the order of the scan's columns: found by name, the first of equal names,
  and written over the first children.  Unnamed children are passed over; with no expected columns, or
  without children, the batch stays.
\<close>

definition order_children :: "string list \<Rightarrow> string option list \<Rightarrow> 'a list \<Rightarrow> exn + 'a list" where
  "order_children expected child_names children =
     (if child_names = [] \<or> length children \<noteq> length child_names \<or> expected = [] then Inr children
      else res_bind (res_map (\<lambda>name.
        case position (Some name) child_names of
          None \<Rightarrow> Inl (IOException (''Missing expected column in Arrow batch: '' @ name))
        | Some i \<Rightarrow> Inr (children ! i)) expected) (\<lambda>out. Inr (out @ drop (length expected) children)))"

text \<open>
  One row of the output: the cells of the row that was read are \<open>cells\<close>, the row ids among them
  unsigned; the value read for \<open>rowid\<close> is checked and cast.
\<close>

datatype 'v cell = TrueCell | NullCell | RowIdCell u64 | DataCell 'v

definition cast_cell :: "'v cell \<Rightarrow> exn + 'v cell" where
  "cast_cell c =
     (case c of
        RowIdCell r \<Rightarrow> res_bind (CastRowIdToDuckDBRowType (SimpleType UBIGINT) ROW_TYPE [Some r]) (\<lambda>_. Inr (RowIdCell r))
      | _ \<Rightarrow> Inl (InternalException ''Invalid rowid cast types''))"

definition fill_cell :: "LanceScanGlobalState \<Rightarrow> 'v cell list \<Rightarrow> nat \<Rightarrow> exn + 'v cell" where
  "fill_cell s cells i =
     (if output_is_empty s ! i then Inr TrueCell
      else case output_to_scan_converted_idx s ! i of
        None \<Rightarrow>
          if deferred_materialization s \<and> i < length (output_to_deferred_idx s) \<and> output_to_deferred_idx s ! i \<noteq> None
          then Inr NullCell
          else Inl (InternalException ''Lance scan output references invalid column'')
      | Some scan_idx \<Rightarrow>
          if scan_idx \<ge> length cells then Inl (InternalException ''Lance scan output references invalid column'')
          else if output_is_duckdb_rowid s ! i then cast_cell (cells ! scan_idx)
          else Inr (cells ! scan_idx))"

definition fill_output_from_converted :: "LanceScanGlobalState \<Rightarrow> nat \<Rightarrow> 'v cell list \<Rightarrow> exn + 'v cell list" where
  "fill_output_from_converted s column_count cells =
     (if column_count \<noteq> length (output_to_scan_converted_idx s) then
        Inl (InternalException ''Lance scan output column count does not match mapping'')
      else res_map (fill_cell s cells) [0..<column_count])"

text \<open>
  The deferred columns of a row that passed the filters: \<open>later\<close> are the cells read for it by its row
  id, one per deferred column.
\<close>

definition later_cell :: "LanceScanGlobalState \<Rightarrow> 'v cell list \<Rightarrow> nat \<Rightarrow> 'v cell \<Rightarrow> exn + 'v cell" where
  "later_cell s later i c =
     (case output_to_deferred_idx s ! i of
        None \<Rightarrow> Inr c
      | Some d \<Rightarrow> if d \<ge> length later then Inl (InternalException ''Deferred column index out of range'') else Inr (later ! d))"

definition LanceFillDeferredColumns :: "LanceScanGlobalState \<Rightarrow> 'v cell list \<Rightarrow> 'v cell list \<Rightarrow> exn + 'v cell list" where
  "LanceFillDeferredColumns s later target =
     (if \<not> deferred_materialization s then Inr target
      else res_map (\<lambda>i. later_cell s later i (target ! i)) [0..<length target])"


section \<open>Counting\<close>

definition STANDARD_VECTOR_SIZE :: nat where
  "STANDARD_VECTOR_SIZE = 2048"

text \<open>The sizes of the chunks a count-only scan returns, from the shared offset on.\<close>

function count_chunks :: "nat \<Rightarrow> nat \<Rightarrow> nat list" where
  "count_chunks all_rows start =
     (if start \<ge> all_rows then [] else min STANDARD_VECTOR_SIZE (all_rows - start) # count_chunks all_rows (start + STANDARD_VECTOR_SIZE))"
  by pat_completeness auto
termination
  by (relation "measure (\<lambda>(n, start). n - start)") (auto simp: STANDARD_VECTOR_SIZE_def)

declare count_chunks.simps [simp del]


section \<open>Threads\<close>

text \<open>
  A thread of a fragment scan, by what it does next: take a position (\<open>LanceScanLocalInit\<close>), open the
  fragment at its position, read the batches that are left of it, or nothing.
\<close>

datatype 'b thread =
    Starting
  | Opening nat
  | Reading nat "'b list"
  | Stopped

text \<open>
  The shared state: \<open>next_fragment_idx\<close>, the threads, and the batches given out so far.  A turn of a
  thread is up to its next access of the shared counter.
\<close>

record 'b scan_threads =
  next_fragment_idx :: nat
  workers :: "'b thread list"
  given_batches :: "'b list"

definition fetch_add :: "'b scan_threads \<Rightarrow> nat \<times> 'b scan_threads" where
  "fetch_add st = (next_fragment_idx st, st\<lparr>next_fragment_idx := next_fragment_idx st + 1\<rparr>)"

definition set_thread :: "nat \<Rightarrow> 'b thread \<Rightarrow> 'b scan_threads \<Rightarrow> 'b scan_threads" where
  "set_thread i t st = st\<lparr>workers := (workers st)[i := t]\<rparr>"

text \<open>The turn of thread \<open>i\<close>; \<open>batches\<close> is what the stream of each fragment gives.\<close>

definition turn :: "(u64 \<Rightarrow> 'b list) \<Rightarrow> u64 list \<Rightarrow> nat \<Rightarrow> 'b scan_threads \<Rightarrow> 'b scan_threads" where
  "turn batches frags i st =
     (case workers st ! i of
        Starting \<Rightarrow> let (p, st) = fetch_add st in set_thread i (if p \<ge> length frags then Stopped else Opening p) st
      | Opening p \<Rightarrow> set_thread i (if p \<ge> length frags then Stopped else Reading p (batches (frags ! p))) st
      | Reading p (b # bs) \<Rightarrow> set_thread i (Reading p bs) (st\<lparr>given_batches := given_batches st @ [b]\<rparr>)
      | Reading p [] \<Rightarrow> let (q, st) = fetch_add st in set_thread i (Opening q) st
      | Stopped \<Rightarrow> st)"

inductive scan_step :: "(u64 \<Rightarrow> 'b list) \<Rightarrow> u64 list \<Rightarrow> 'b scan_threads \<Rightarrow> 'b scan_threads \<Rightarrow> bool"
  for batches frags where
  step: "\<lbrakk>i < length (workers st); workers st ! i \<noteq> Stopped\<rbrakk> \<Longrightarrow> scan_step batches frags st (turn batches frags i st)"

definition start_threads :: "nat \<Rightarrow> 'b scan_threads" where
  "start_threads n = \<lparr>next_fragment_idx = 0, workers = replicate n Starting, given_batches = []\<rparr>"

end
