(* ===== verification/Scan_Columns_Correct.thy ===== *)
theory Scan_Columns_Correct
  imports Scan_Run
begin

text \<open>
  The output of a scan has the columns DuckDB asked for, in their order, also when heavy columns are
  read only for the rows that pass the filters.
\<close>

section \<open>Positions\<close>

lemma position_Some: "position x xs = Some i \<Longrightarrow> i < length xs \<and> xs ! i = x"
  by (induction xs arbitrary: i) (auto split: if_splits)

lemma position_None [simp]: "position x xs = None \<longleftrightarrow> x \<notin> set xs"
  by (induction xs) auto

lemma position_in_set: "x \<in> set xs \<Longrightarrow> \<exists>i. position x xs = Some i \<and> i < length xs \<and> xs ! i = x"
  using position_Some [of x xs] by (cases "position x xs") auto


section \<open>Places of the outputs\<close>

text \<open>The name of a column that is not the empty one.\<close>

definition column_name :: "duckdb \<Rightarrow> ScanBind \<Rightarrow> nat \<Rightarrow> string" where
  "column_name db b c =
     (if c = COLUMN_IDENTIFIER_ROW_ID db \<or> IsLanceVirtualRowIdColumnId c then LANCE_ROW_ID_COLUMN_NAME else names b ! c)"

text \<open>Where output \<open>i\<close> for column \<open>c\<close> comes from: read with the scan, or deferred.\<close>

definition placed :: "duckdb \<Rightarrow> ScanBind \<Rightarrow> LanceScanGlobalState \<Rightarrow> nat \<Rightarrow> nat \<Rightarrow> bool" where
  "placed db b s i c \<longleftrightarrow>
     (\<exists>j. output_to_scan_converted_idx s ! i = Some j \<and> j < length (scan_column_names s) \<and>
          scan_column_names s ! j = column_name db b c \<and>
          (deferred_materialization s \<longrightarrow> output_to_deferred_idx s ! i = None)) \<or>
     (output_to_scan_converted_idx s ! i = None \<and> deferred_materialization s \<and>
      column_name db b c \<noteq> LANCE_ROW_ID_COLUMN_NAME \<and>
      (\<exists>d. output_to_deferred_idx s ! i = Some d \<and> d < length (deferred_column_names s) \<and>
           deferred_column_names s ! d = column_name db b c))"

definition output_ok :: "duckdb \<Rightarrow> ScanBind \<Rightarrow> LanceScanGlobalState \<Rightarrow> nat \<Rightarrow> nat \<Rightarrow> bool" where
  "output_ok db b s i c \<longleftrightarrow>
     (if c = COLUMN_IDENTIFIER_EMPTY db
      then output_is_empty s ! i \<and> output_to_scan_converted_idx s ! i = None \<and> (deferred_materialization s \<longrightarrow> output_to_deferred_idx s ! i = None)
      else \<not> output_is_empty s ! i \<and> output_is_duckdb_rowid s ! i = (c = COLUMN_IDENTIFIER_ROW_ID db) \<and> placed db b s i c)"

definition outputs_placed :: "duckdb \<Rightarrow> ScanBind \<Rightarrow> nat list \<Rightarrow> LanceScanGlobalState \<Rightarrow> bool" where
  "outputs_placed db b cols s \<longleftrightarrow>
     length (output_to_scan_converted_idx s) = length cols \<and> length (output_is_duckdb_rowid s) = length cols \<and>
     length (output_is_empty s) = length cols \<and> length (scan_column_ids s) = length (scan_column_names s) \<and>
     (deferred_materialization s \<longrightarrow> length (output_to_deferred_idx s) = length cols) \<and>
     (\<forall>i<length cols. output_ok db b s i (cols ! i))"

text \<open>The members that describe columns; the others do not matter here.\<close>

definition columns_of :: "LanceScanGlobalState \<Rightarrow> _" where
  "columns_of s = (output_to_scan_converted_idx s, output_is_duckdb_rowid s, output_is_empty s, scan_column_ids s,
     scan_column_names s, deferred_materialization s, deferred_column_names s, output_to_deferred_idx s)"

lemma outputs_placed_same:
  "columns_of s' = columns_of s \<Longrightarrow> outputs_placed db b cols s' \<longleftrightarrow> outputs_placed db b cols s"
  by (simp add: columns_of_def outputs_placed_def output_ok_def placed_def)

text \<open>A column added at the end moves none of the others.\<close>

lemma placed_append:
  "placed db b s i c \<Longrightarrow>
     placed db b (s\<lparr>scan_column_ids := x, scan_column_names := scan_column_names s @ ys, scan_converted_types := z\<rparr>) i c"
  by (auto simp: placed_def nth_append)

lemma add_scan_column_cases:
  assumes "add_scan_column c n t s = (j, s')"
  obtains (old) "s' = s" "position c (scan_column_ids s) = Some j"
  | (new) "c \<notin> set (scan_column_ids s)" "j = length (scan_column_ids s)"
      "s' = s\<lparr>scan_column_ids := scan_column_ids s @ [c], scan_column_names := scan_column_names s @ [n],
              scan_converted_types := scan_converted_types s @ [t]\<rparr>"
proof (cases "position c (scan_column_ids s)")
  case None
  with assms show thesis by (intro new) (simp_all add: add_scan_column_def)
next
  case (Some i)
  with assms show thesis by (intro old) (simp_all add: add_scan_column_def)
qed

lemma add_scan_column_placed:
  assumes "add_scan_column c n t s = (j, s')" and "outputs_placed db b cols s"
  shows "outputs_placed db b cols s'" and "j < length (scan_column_names s')"
    and "deferred_materialization s' = deferred_materialization s"
proof -
  from assms(1) have "outputs_placed db b cols s' \<and> j < length (scan_column_names s') \<and>
      deferred_materialization s' = deferred_materialization s"
  proof (cases rule: add_scan_column_cases)
    case new
    with assms(2) show ?thesis by (auto simp: outputs_placed_def output_ok_def placed_append)
  next
    case old
    with assms(2) show ?thesis using position_Some [OF old(2)] by (simp add: outputs_placed_def)
  qed
  then show "outputs_placed db b cols s'" "j < length (scan_column_names s')"
      "deferred_materialization s' = deferred_materialization s"
    by auto
qed

text \<open>The name under which a column id was added: every id has one.\<close>

definition ids_named :: "duckdb \<Rightarrow> ScanBind \<Rightarrow> LanceScanGlobalState \<Rightarrow> bool" where
  "ids_named db b s \<longleftrightarrow>
     list_all2 (\<lambda>c n. n = (if c < length (types b) then names b ! c else LANCE_ROW_ID_COLUMN_NAME))
       (scan_column_ids s) (scan_column_names s)"

lemma add_scan_column_named:
  assumes "add_scan_column c n t s = (j, s')" and "ids_named db b s"
    and n: "n = (if c < length (types b) then names b ! c else LANCE_ROW_ID_COLUMN_NAME)"
  shows "ids_named db b s'" and "scan_column_names s' ! j = n"
proof -
  from assms(1) have "ids_named db b s' \<and> scan_column_names s' ! j = n"
  proof (cases rule: add_scan_column_cases)
    case new
    with assms(2) n show ?thesis
      by (auto simp: ids_named_def list_all2_lengthD intro!: list_all2_appendI)
  next
    case old
    with assms(2) n show ?thesis
      using position_Some [OF old(2)] by (auto simp: ids_named_def list_all2_conv_all_nth)
  qed
  then show "ids_named db b s'" "scan_column_names s' ! j = n" by auto
qed

text \<open>One more output.\<close>

lemma push_output_placed:
  assumes "outputs_placed db b cols s" and "\<not> deferred_materialization s"
    and "output_ok db b (push_output t i is_rowid is_empty s) (length cols) c"
  shows "outputs_placed db b (cols @ [c]) (push_output t i is_rowid is_empty s)"
proof -
  have "output_ok db b (push_output t i is_rowid is_empty s) k ((cols @ [c]) ! k)" if "k < Suc (length cols)" for k
  proof (cases "k = length cols")
    case False
    with that have k: "k < length cols" by simp
    with assms(1) have "output_ok db b s k (cols ! k)" by (simp add: outputs_placed_def)
    with assms(1,2) k show ?thesis
      by (simp add: output_ok_def placed_def push_output_def outputs_placed_def nth_append split: if_splits)
  qed (use assms(3) in simp)
  with assms(1,2) show ?thesis
    by (simp add: outputs_placed_def push_output_def)
qed

lemma add_row_id_placed:
  assumes "add_row_id b s = (j, s')" and "outputs_placed db b cols s" and "ids_named db b s"
  shows "outputs_placed db b cols s'" and "ids_named db b s'" and "j < length (scan_column_names s')"
    and "scan_column_names s' ! j = LANCE_ROW_ID_COLUMN_NAME" and "deferred_materialization s' = deferred_materialization s"
proof -
  let ?s = "s\<lparr>scan_includes_virtual_rowid := True\<rparr>"
  have s: "add_scan_column (length (types b)) LANCE_ROW_ID_COLUMN_NAME (SimpleType UBIGINT) ?s = (j, s')"
      "outputs_placed db b cols ?s" "ids_named db b ?s"
    using assms outputs_placed_same [of ?s s db b cols] by (simp_all add: add_row_id_def columns_of_def ids_named_def)
  from add_scan_column_placed [OF s(1,2)] add_scan_column_named [OF s(1,3)]
  show "outputs_placed db b cols s'" "ids_named db b s'" "j < length (scan_column_names s')"
    "scan_column_names s' ! j = LANCE_ROW_ID_COLUMN_NAME" "deferred_materialization s' = deferred_materialization s"
    by simp_all
qed


section \<open>Stages keep the places\<close>

definition columns_ready :: "duckdb \<Rightarrow> ScanBind \<Rightarrow> nat list \<Rightarrow> LanceScanGlobalState \<Rightarrow> bool" where
  "columns_ready db b cols s \<longleftrightarrow> outputs_placed db b cols s \<and> ids_named db b s \<and> \<not> deferred_materialization s"

lemma pushed_output_ok:
  assumes "outputs_placed db b cols s" and "\<not> deferred_materialization s"
    and "c \<noteq> COLUMN_IDENTIFIER_EMPTY db" and "is_rowid = (c = COLUMN_IDENTIFIER_ROW_ID db)"
    and "j < length (scan_column_names s)" and "scan_column_names s ! j = column_name db b c"
  shows "output_ok db b (push_output t (Some j) is_rowid False s) (length cols) c"
  using assms by (simp add: output_ok_def placed_def push_output_def outputs_placed_def nth_append)

lemma add_column_ready:
  assumes "add_column db b s c = Inr s'" and ready: "columns_ready db b cols s"
  shows "columns_ready db b (cols @ [c]) s'"
proof -
  have pushed: ?thesis
    if s: "outputs_placed db b cols s0" "ids_named db b s0" "\<not> deferred_materialization s0"
      and "c \<noteq> COLUMN_IDENTIFIER_EMPTY db" "is_rowid = (c = COLUMN_IDENTIFIER_ROW_ID db)"
      and "j < length (scan_column_names s0)" "scan_column_names s0 ! j = column_name db b c"
      and "s' = push_output t (Some j) is_rowid False s0" for s0 j t is_rowid
    using push_output_placed [OF s(1,3) pushed_output_ok [OF s(1,3)]] that
    by (simp add: columns_ready_def ids_named_def push_output_def)
  note r = ready [unfolded columns_ready_def]
  show ?thesis
  proof (cases "c = COLUMN_IDENTIFIER_EMPTY db")
    case True
    with assms(1) have "s' = push_output (SimpleType BOOLEAN) None False True s" by (simp add: add_column_def)
    moreover have "output_ok db b (push_output (SimpleType BOOLEAN) None False True s) (length cols) c"
      using r True by (simp add: output_ok_def push_output_def outputs_placed_def nth_append)
    ultimately show ?thesis
      using r push_output_placed [of db b cols s] by (simp add: columns_ready_def ids_named_def push_output_def)
  next
    case False
    show ?thesis
    proof (cases "c = COLUMN_IDENTIFIER_ROW_ID db \<or> IsLanceVirtualRowIdColumnId c")
      case True
      obtain j s0 where s0: "add_row_id b s = (j, s0)" by force
      from add_row_id_placed [OF this] r assms(1) True False show ?thesis
        by (intro pushed [of s0 "c = COLUMN_IDENTIFIER_ROW_ID db" j "if c = COLUMN_IDENTIFIER_ROW_ID db then ROW_TYPE else SimpleType UBIGINT"])
          (auto simp: add_column_def s0 column_name_def split: if_splits)
    next
      case plain: False
      obtain j s0 where s0: "add_scan_column c (names b ! c) (types b ! c) s = (j, s0)" by force
      have c: "c < length (types b)" "s' = push_output (types b ! c) (Some j) False False s0"
        using assms(1) False plain s0 by (auto simp: add_column_def split: if_splits)
      from add_scan_column_placed [OF s0] add_scan_column_named [OF s0] r c False plain show ?thesis
        by (intro pushed [of s0 False j "types b ! c"]) (auto simp: column_name_def)
    qed
  qed
qed

lemma add_columns_ready:
  "\<lbrakk>res_foldl (add_column db b) s cs = Inr s'; columns_ready db b cols s\<rbrakk> \<Longrightarrow> columns_ready db b (cols @ cs) s'"
proof (induction cs arbitrary: s cols)
  case (Cons c cs)
  then obtain s0 where "add_column db b s c = Inr s0" "res_foldl (add_column db b) s0 cs = Inr s'"
    by (auto simp: res_bind_Inr_iff)
  with Cons show ?case using add_column_ready [of db b s c s0 cols] by fastforce
qed simp

lemma init_columns_ready: "init_columns db b input d = Inr s \<Longrightarrow> columns_ready db b (column_ids input) s"
  using add_columns_ready [of db b _ "column_ids input" s "[]"]
  by (simp add: init_columns_def columns_ready_def outputs_placed_def ids_named_def new_scan_state_def)

lemma columns_ready_same:
  "columns_of s' = columns_of s \<Longrightarrow> columns_ready db b cols s' \<longleftrightarrow> columns_ready db b cols s"
  using outputs_placed_same [of s' s] by (simp add: columns_ready_def ids_named_def columns_of_def)

lemma init_filters_columns: "init_filters db b input s = Inr s' \<Longrightarrow> columns_of s' = columns_of s"
  by (auto simp: init_filters_def columns_of_def res_bind_Inr_iff split: option.splits)

text \<open>
  What holds at the end: the outputs have their places, and the columns the filters refer to are read
  with the scan.
\<close>

definition filters_read :: "ScanBind \<Rightarrow> ScanInput \<Rightarrow> LanceScanGlobalState \<Rightarrow> bool" where
  "filters_read b input s \<longleftrightarrow>
     (\<forall>fs i f. filters input = Some fs \<and> (i, f) \<in> set fs \<and> i < length (column_ids input) \<and>
        column_ids input ! i < length (names b) \<and> \<not> output_is_empty s ! i \<longrightarrow> output_to_scan_converted_idx s ! i \<noteq> None)"

definition columns_settled :: "duckdb \<Rightarrow> ScanBind \<Rightarrow> ScanInput \<Rightarrow> LanceScanGlobalState \<Rightarrow> bool" where
  "columns_settled db b input s \<longleftrightarrow> outputs_placed db b (column_ids input) s \<and> filters_read b input s"

lemma settled_same:
  "columns_of s' = columns_of s \<Longrightarrow> columns_settled db b input s' \<longleftrightarrow> columns_settled db b input s"
  using outputs_placed_same [of s' s] by (simp add: columns_settled_def filters_read_def columns_of_def)

lemma placed_settled:
  assumes "outputs_placed db b (column_ids input) s" and "\<not> deferred_materialization s"
  shows "columns_settled db b input s"
  using assms by (auto simp: columns_settled_def filters_read_def outputs_placed_def output_ok_def placed_def split: if_splits)

lemma ready_settled: "columns_ready db b (column_ids input) s \<Longrightarrow> columns_settled db b input s"
  by (simp add: columns_ready_def placed_settled)

text \<open>A stage from states with \<open>P\<close>: it ends in a settled state, or goes on in one with \<open>Q\<close>.\<close>

definition stage_keeps ::
  "(LanceScanGlobalState \<Rightarrow> bool) \<Rightarrow> stage \<Rightarrow> (LanceScanGlobalState \<Rightarrow> bool) \<Rightarrow> (LanceScanGlobalState \<Rightarrow> bool) \<Rightarrow> bool" where
  "stage_keeps P f Q R \<longleftrightarrow> (\<forall>s fin s'. P s \<and> f s = Inr (fin, s') \<longrightarrow> (if fin then R s' else Q s'))"

lemma stage_keepsI:
  "(\<And>s fin s'. \<lbrakk>P s; f s = Inr (fin, s')\<rbrakk> \<Longrightarrow> (fin \<longrightarrow> R s') \<and> (\<not> fin \<longrightarrow> Q s')) \<Longrightarrow> stage_keeps P f Q R"
  unfolding stage_keeps_def by metis

lemma stage_keeps_then:
  "\<lbrakk>stage_keeps P f Q R; stage_keeps Q g S R\<rbrakk> \<Longrightarrow> stage_keeps P (and_then f g) S R"
  unfolding stage_keeps_def and_then_def by (fastforce simp: res_bind_Inr_iff split: if_splits)

lemma stage_same:
  assumes "\<And>s fin s'. f s = Inr (fin, s') \<Longrightarrow> columns_of s' = columns_of s"
  shows "stage_keeps (columns_ready db b (column_ids input)) f (columns_ready db b (column_ids input)) (columns_settled db b input)"
    and "stage_keeps (columns_settled db b input) f (columns_settled db b input) (columns_settled db b input)"
  unfolding stage_keeps_def
  using columns_ready_same [OF assms] settled_same [OF assms] ready_settled [of db b input] by auto

lemma cardinality_ready:
  assumes "columns_ready db b cols s"
  shows "columns_ready db b cols (add_virtual_cardinality_column b s)"
proof -
  obtain j s' where s': "add_row_id b s = (j, s')" by force
  show ?thesis
    using assms add_row_id_placed [OF s'] s' by (auto simp: add_virtual_cardinality_column_def columns_ready_def)
qed

lemma use_take_settled:
  assumes "use_take vane b rows s = Inr (fin, s')" and "columns_ready db b (column_ids input) s"
  shows "fin \<and> columns_settled db b input s'"
proof -
  let ?s = "s\<lparr>lance_filter_ir := [], gs_filter_pushed_down := False, use_dataset_scanner := True,
              use_dataset_take := True, max_threads := 1, gs_take_row_ids := rows\<rparr>"
  have "columns_ready db b (column_ids input) ?s"
    using assms(2) columns_ready_same [of ?s s] by (simp add: columns_of_def)
  then show ?thesis
    using assms(1) cardinality_ready [of db b "column_ids input" ?s]
    by (auto simp: use_take_def Let_def dest: ready_settled split: if_splits)
qed

lemma namespace_stage_keeps:
  "stage_keeps (columns_ready db b (column_ids input)) (namespace_stage b) (columns_ready db b (column_ids input)) (columns_settled db b input)"
proof (rule stage_keepsI)
  fix s fin s'
  assume s: "columns_ready db b (column_ids input) s" and s': "namespace_stage b s = Inr (fin, s')"
  let ?s = "s\<lparr>use_namespace_query := True, use_dataset_scanner := True, max_threads := 1\<rparr>"
  have ready: "columns_ready db b (column_ids input) ?s" "columns_ready db b (column_ids input) (?s\<lparr>count_only := True, count_only_total_rows := 0\<rparr>)"
    using s columns_ready_same [of ?s s] columns_ready_same [of "?s\<lparr>count_only := True, count_only_total_rows := 0\<rparr>" s]
    by (simp_all add: columns_of_def)
  obtain j t where t: "add_scan_column 0 (names b ! 0) (types b ! 0) ?s = (j, t)" by force
  have "columns_settled db b input t"
    using add_scan_column_placed [OF t, of db b "column_ids input"] ready(1) placed_settled [of db b input t]
    by (simp add: columns_ready_def)
  then show "(fin \<longrightarrow> columns_settled db b input s') \<and> (\<not> fin \<longrightarrow> columns_ready db b (column_ids input) s')"
    using s s' t ready by (auto simp: namespace_stage_def Let_def dest: ready_settled split: if_splits)
qed

lemma take_stage_keeps:
  "stage_keeps (columns_ready db b (column_ids input)) (take_stage vane b) (columns_ready db b (column_ids input)) (columns_settled db b input)"
  by (rule stage_keepsI) (auto simp: take_stage_def dest: use_take_settled ready_settled split: if_splits)

lemma row_id_filter_stage_cases:
  assumes "row_id_filter_stage vane b input s = Inr (fin, s')"
  shows "(\<not> fin \<and> s' = s) \<or> (\<exists>rows. use_take vane b rows s = Inr (fin, s'))"
  using assms by (auto simp: row_id_filter_stage_def split: if_splits option.splits outcome.splits)

lemma row_id_filter_stage_keeps:
  "stage_keeps (columns_ready db b (column_ids input)) (row_id_filter_stage vane b input) (columns_ready db b (column_ids input)) (columns_settled db b input)"
  by (rule stage_keepsI) (auto dest!: row_id_filter_stage_cases dest: use_take_settled)

lemma count_stage_same: "count_stage vane ffi b input s = Inr (fin, s') \<Longrightarrow> columns_of s' = columns_of s"
proof (cases "scan_column_names s = [] \<and> no_filters input \<and> lance_filter_ir s = []")
  case True
  assume "count_stage vane ffi b input s = Inr (fin, s')"
  with True obtain rows where "(case rows of None \<Rightarrow> Inr (False, s) | Some n \<Rightarrow> Inr (True, s\<lparr>count_only := True, max_threads := 1,
      count_only_total_rows := limited_rows (gs_limit_offset_pushed_down s) (gs_pushed_limit s) (gs_pushed_offset s)
        (if gs_sampling_pushed_down s then sampled_rows ffi (gs_sample_percentage s) n else n)\<rparr>)) = (Inr (fin, s') :: exn + _)"
    unfolding count_stage_def Let_def by (simp only: simp_thms if_True res_bind_Inr_iff) blast
  then show ?thesis by (cases rows) (auto simp: columns_of_def)
qed (auto simp: count_stage_def)

lemma other_stages_same:
  "limit_stage b input s = Inr (fin, s') \<Longrightarrow> columns_of s' = columns_of s"
  "index_stage vane ffi b input s = Inr (fin, s') \<Longrightarrow> columns_of s' = columns_of s"
  "fragment_stage vane ffi b s = Inr (fin, s') \<Longrightarrow> columns_of s' = columns_of s"
  by (auto simp: limit_stage_def index_stage_def fragment_stage_def columns_of_def split: if_splits option.splits)

lemma cardinality_stage_keeps:
  "stage_keeps (columns_ready db b (column_ids input)) (cardinality_stage vane b) (columns_ready db b (column_ids input)) (columns_settled db b input)"
  by (auto intro!: stage_keepsI simp: cardinality_stage_def cardinality_ready split: if_splits)


section \<open>Deferred columns\<close>

lemma defer_columns_simps:
  "scan_column_names (defer_columns b light heavy s) =
     map (nth (scan_column_names s)) light @
     (if LANCE_ROW_ID_COLUMN_NAME \<in> set (map (nth (scan_column_names s)) light) then [] else [LANCE_ROW_ID_COLUMN_NAME])"
  "length (scan_column_ids (defer_columns b light heavy s)) = length (scan_column_names (defer_columns b light heavy s))"
  "deferred_column_names (defer_columns b light heavy s) = map (nth (scan_column_names s)) heavy"
  "deferred_materialization (defer_columns b light heavy s)"
  "output_is_empty (defer_columns b light heavy s) = output_is_empty s"
  "output_is_duckdb_rowid (defer_columns b light heavy s) = output_is_duckdb_rowid s"
  "output_to_scan_converted_idx (defer_columns b light heavy s) =
     map (\<lambda>i. Option.bind i (\<lambda>i. position i light)) (output_to_scan_converted_idx s)"
  "output_to_deferred_idx (defer_columns b light heavy s) =
     map (\<lambda>i. Option.bind i (\<lambda>i. position i heavy)) (output_to_scan_converted_idx s)"
  by (simp_all add: defer_columns_def Let_def)

text \<open>Where a column that was read with the scan is afterwards.\<close>

lemma defer_place:
  assumes "j < n" and "light = filter (Not \<circ> h) [0..<n]" and "heavy = filter h [0..<n]"
  shows "h j \<Longrightarrow> \<exists>d. position j heavy = Some d \<and> d < length heavy \<and> heavy ! d = j \<and> position j light = None"
    and "\<not> h j \<Longrightarrow> \<exists>k. position j light = Some k \<and> k < length light \<and> light ! k = j \<and> position j heavy = None"
  using assms position_in_set [of j heavy] position_in_set [of j light] by auto

lemma defer_columns_settled:
  assumes ready: "columns_ready db b (column_ids input) s"
    and lh: "light = filter (Not \<circ> h) [0..<length (scan_column_names s)]" "heavy = filter h [0..<length (scan_column_names s)]"
    and light: "\<And>j. \<lbrakk>j < length (scan_column_names s); h j\<rbrakk> \<Longrightarrow>
      scan_column_names s ! j \<noteq> LANCE_ROW_ID_COLUMN_NAME \<and>
      (\<forall>fs i f. filters input = Some fs \<and> (i, f) \<in> set fs \<and> i < length (column_ids input) \<and>
         column_ids input ! i < length (names b) \<longrightarrow> scan_column_names s ! j \<noteq> names b ! (column_ids input ! i))"
  shows "columns_settled db b input (defer_columns b light heavy s)"
proof -
  let ?s = "defer_columns b light heavy s" and ?n = "length (scan_column_names s)"
  have placed: "\<exists>j<?n. output_to_scan_converted_idx s ! i = Some j \<and> scan_column_names s ! j = column_name db b (column_ids input ! i)"
    if "i < length (column_ids input)" "column_ids input ! i \<noteq> COLUMN_IDENTIFIER_EMPTY db" for i
  proof -
    have "output_ok db b s i (column_ids input ! i)" "\<not> deferred_materialization s"
      using ready that(1) by (simp_all add: columns_ready_def outputs_placed_def)
    with that(2) show ?thesis by (auto simp: output_ok_def placed_def)
  qed
  have len: "length (output_to_scan_converted_idx s) = length (column_ids input)"
    using ready by (simp add: columns_ready_def outputs_placed_def)
  have "output_ok db b ?s i (column_ids input ! i)" if i: "i < length (column_ids input)" for i
  proof (cases "column_ids input ! i = COLUMN_IDENTIFIER_EMPTY db")
    case True
    with ready i show ?thesis
      by (simp add: columns_ready_def outputs_placed_def output_ok_def defer_columns_simps)
  next
    case False
    from placed [OF i False] obtain j where j: "j < ?n" "output_to_scan_converted_idx s ! i = Some j"
        "scan_column_names s ! j = column_name db b (column_ids input ! i)" by auto
    have "placed db b ?s i (column_ids input ! i)"
    proof (cases "h j")
      case True
      from defer_place(1) [OF j(1) lh True] light [OF j(1) True] j i len show ?thesis
        by (auto simp: placed_def defer_columns_simps)
    next
      case False
      from defer_place(2) [OF j(1) lh False] j i len show ?thesis
        by (auto simp: placed_def defer_columns_simps nth_append)
    qed
    with ready i False show ?thesis
      by (simp add: columns_ready_def outputs_placed_def output_ok_def defer_columns_simps)
  qed
  moreover have "filters_read b input ?s"
    unfolding filters_read_def
  proof (intro allI impI, elim conjE)
    fix fs i f
    assume f: "filters input = Some fs" "(i, f) \<in> set fs" "i < length (column_ids input)"
        "column_ids input ! i < length (names b)" "\<not> output_is_empty ?s ! i"
    then have "column_ids input ! i \<noteq> COLUMN_IDENTIFIER_EMPTY db"
      using ready by (auto simp: columns_ready_def outputs_placed_def output_ok_def defer_columns_simps)
    from placed [OF f(3) this] obtain j where j: "j < ?n" "output_to_scan_converted_idx s ! i = Some j"
        "scan_column_names s ! j = column_name db b (column_ids input ! i)" by auto
    with f light [OF j(1)] have "\<not> h j" by (auto simp: column_name_def split: if_splits)
    from defer_place(2) [OF j(1) lh this] j f(3) len show "output_to_scan_converted_idx ?s ! i \<noteq> None"
      by (auto simp: defer_columns_simps)
  qed
  ultimately show ?thesis
    using ready by (simp add: columns_settled_def columns_ready_def outputs_placed_def defer_columns_simps(2,4,5,6,7,8))
qed

lemma heavy_columns_light:
  assumes "n \<in> set (heavy_columns ffi b input fs s)"
  shows "n \<noteq> LANCE_ROW_ID_COLUMN_NAME" and "n \<notin> set (filter_referenced_columns b input fs)"
  using assms by (auto simp: heavy_columns_def Let_def split: if_splits)

lemma filter_referenced:
  "\<lbrakk>(i, f) \<in> set fs; i < length (column_ids input); column_ids input ! i < length (names b)\<rbrakk> \<Longrightarrow>
     names b ! (column_ids input ! i) \<in> set (filter_referenced_columns b input fs)"
  by (force simp: filter_referenced_columns_def List.map_filter_def)

lemma defer_stage_keeps:
  "stage_keeps (columns_ready db b (column_ids input)) (defer_stage ffi b input) (columns_settled db b input) (columns_settled db b input)"
proof (rule stage_keepsI)
  fix s fin s'
  assume s: "columns_ready db b (column_ids input) s" and s': "defer_stage ffi b input s = Inr (fin, s')"
  have "columns_settled db b input s'"
  proof (cases "s' = s")
    case False
    with s' obtain fs where fs: "filters input = Some fs"
      by (auto simp: defer_stage_def split: option.splits)
    let ?h = "\<lambda>i. scan_column_names s ! i \<in> set (heavy_columns ffi b input fs s)"
    have "s' = defer_columns b (filter (Not \<circ> ?h) [0..<length (scan_column_names s)]) (filter ?h [0..<length (scan_column_names s)]) s"
      using s' False by (auto simp: defer_stage_def fs Let_def split: if_splits)
    then show ?thesis
      using heavy_columns_light [of _ ffi b input fs s] filter_referenced [of _ _ fs input b] fs
      by (auto intro!: defer_columns_settled [OF s refl refl]) blast
  qed (use s in \<open>simp add: ready_settled\<close>)
  moreover have "\<not> fin"
    using s' by (auto simp: defer_stage_def Let_def split: option.splits if_splits)
  ultimately show "(fin \<longrightarrow> columns_settled db b input s') \<and> (\<not> fin \<longrightarrow> columns_settled db b input s')" by simp
qed

lemma init_settled:
  assumes "LanceScanInitGlobal vane db ffi reopen b input = Inr s"
  shows "columns_settled db b input s"
proof -
  obtain d s0 s1 fin where s0: "init_columns db b input d = Inr s0" "init_filters db b input s0 = Inr s1"
      and st: "and_then (namespace_stage b) (and_then (take_stage vane b) (and_then (row_id_filter_stage vane b input)
        (and_then (count_stage vane ffi b input) (and_then (cardinality_stage vane b) (and_then (defer_stage ffi b input)
        (and_then (limit_stage b input) (and_then (index_stage vane ffi b input) (fragment_stage vane ffi b)))))))) s1 = Inr (fin, s)"
    using assms by (auto simp: LanceScanInitGlobal_def res_bind_Inr_iff)
  have "columns_ready db b (column_ids input) s1"
    using init_columns_ready [OF s0(1)] columns_ready_same [OF init_filters_columns [OF s0(2)]] by simp
  moreover have "stage_keeps (columns_ready db b (column_ids input)) (and_then (namespace_stage b) (and_then (take_stage vane b)
      (and_then (row_id_filter_stage vane b input) (and_then (count_stage vane ffi b input) (and_then (cardinality_stage vane b)
      (and_then (defer_stage ffi b input) (and_then (limit_stage b input) (and_then (index_stage vane ffi b input)
      (fragment_stage vane ffi b))))))))) (columns_settled db b input) (columns_settled db b input)"
    by (rule stage_keeps_then [OF namespace_stage_keeps stage_keeps_then [OF take_stage_keeps
        stage_keeps_then [OF row_id_filter_stage_keeps stage_keeps_then [OF stage_same(1) [OF count_stage_same]
        stage_keeps_then [OF cardinality_stage_keeps stage_keeps_then [OF defer_stage_keeps
        stage_keeps_then [OF stage_same(2) [OF other_stages_same(1)] stage_keeps_then [OF stage_same(2) [OF other_stages_same(2)]
          stage_same(2) [OF other_stages_same(3)]]]]]]]]])
  ultimately show ?thesis using st unfolding stage_keeps_def by metis
qed


section \<open>What is delivered\<close>

text \<open>The cell of a column in a row: \<open>vals\<close> its values by name, \<open>r\<close> its row id.\<close>

definition read_cell :: "(string \<Rightarrow> 'v) \<Rightarrow> u64 \<Rightarrow> string \<Rightarrow> 'v cell" where
  "read_cell vals r name = (if name = LANCE_ROW_ID_COLUMN_NAME then RowIdCell r else DataCell (vals name))"

text \<open>The cells asked for, and the cells of one row after both fills.\<close>

definition wanted :: "duckdb \<Rightarrow> ScanBind \<Rightarrow> (string \<Rightarrow> 'v) \<Rightarrow> u64 \<Rightarrow> nat \<Rightarrow> 'v cell" where
  "wanted db b vals r c = (if c = COLUMN_IDENTIFIER_EMPTY db then TrueCell else read_cell vals r (column_name db b c))"

definition delivered :: "LanceScanGlobalState \<Rightarrow> (string \<Rightarrow> 'v) \<Rightarrow> u64 \<Rightarrow> nat \<Rightarrow> exn + 'v cell list" where
  "delivered s vals r column_count =
     res_bind (fill_output_from_converted s column_count (map (read_cell vals r) (scan_column_names s)))
       (LanceFillDeferredColumns s (map (read_cell vals r) (deferred_column_names s)))"

lemma res_map_Inr_nth:
  "(\<And>x. x \<in> set xs \<Longrightarrow> f x = Inr (g x)) \<Longrightarrow> res_map f xs = Inr (map g xs)"
  by (induction xs) auto

text \<open>After the first fill, a deferred cell is NULL and every other is the one wanted.\<close>

definition first_cell :: "duckdb \<Rightarrow> ScanBind \<Rightarrow> LanceScanGlobalState \<Rightarrow> (string \<Rightarrow> 'v) \<Rightarrow> u64 \<Rightarrow> nat list \<Rightarrow> nat \<Rightarrow> 'v cell" where
  "first_cell db b s vals r cols i =
     (if \<not> output_is_empty s ! i \<and> output_to_scan_converted_idx s ! i = None then NullCell else wanted db b vals r (cols ! i))"

lemma fill_cell_wanted:
  assumes "outputs_placed db b cols s" and "i < length cols" and "r \<le> 0x7fffffffffffffff"
  shows "fill_cell s (map (read_cell vals r) (scan_column_names s)) i = Inr (first_cell db b s vals r cols i)"
proof -
  have ok: "output_ok db b s i (cols ! i)" and len: "deferred_materialization s \<longrightarrow> i < length (output_to_deferred_idx s)"
    using assms by (auto simp: outputs_placed_def)
  have cast: "cast_cell (RowIdCell r :: 'a cell) = Inr (RowIdCell r)"
    using assms(3) by (simp add: cast_cell_def CastRowIdToDuckDBRowType_def cast_row_id_def linorder_not_less)
  show ?thesis
  proof (cases "output_to_scan_converted_idx s ! i")
    case None
    with ok len show ?thesis
      by (auto simp: fill_cell_def first_cell_def output_ok_def placed_def wanted_def split: if_splits)
  next
    case (Some j)
    with ok have "cols ! i \<noteq> COLUMN_IDENTIFIER_EMPTY db" "\<not> output_is_empty s ! i" "j < length (scan_column_names s)"
        "scan_column_names s ! j = column_name db b (cols ! i)" "output_is_duckdb_rowid s ! i = (cols ! i = COLUMN_IDENTIFIER_ROW_ID db)"
      by (auto simp: output_ok_def placed_def split: if_splits)
    with Some cast show ?thesis
      by (auto simp: fill_cell_def first_cell_def wanted_def column_name_def read_cell_def)
  qed
qed

lemma later_cell_wanted:
  assumes "output_ok db b s i (cols ! i)" and "deferred_materialization s"
  shows "later_cell s (map (read_cell vals r) (deferred_column_names s)) i (first_cell db b s vals r cols i) =
    Inr (wanted db b vals r (cols ! i))"
proof (cases "cols ! i = COLUMN_IDENTIFIER_EMPTY db")
  case True
  with assms show ?thesis by (simp add: output_ok_def first_cell_def later_cell_def)
next
  case False
  with assms have "placed db b s i (cols ! i)" by (simp add: output_ok_def)
  then show ?thesis
    unfolding placed_def using False assms(2) by (elim disjE exE conjE) (simp_all add: first_cell_def wanted_def later_cell_def)
qed

lemma first_cell_wanted:
  assumes "output_ok db b s i (cols ! i)" and "\<not> deferred_materialization s"
  shows "first_cell db b s vals r cols i = wanted db b vals r (cols ! i)"
  using assms by (auto simp: output_ok_def placed_def first_cell_def split: if_splits)

lemma map_nth_upt: "map (\<lambda>i. f (xs ! i)) [0..<length xs] = map f xs"
  by (rule nth_equalityI) simp_all

lemma delivered_wanted:
  assumes placed: "outputs_placed db b cols s" and "r \<le> 0x7fffffffffffffff"
  shows "delivered s vals r (length cols) = Inr (map (wanted db b vals r) cols)"
proof -
  let ?first = "map (first_cell db b s vals r cols) [0..<length cols]"
    and ?later = "map (read_cell vals r) (deferred_column_names s)"
  have len: "length (output_to_scan_converted_idx s) = length cols" using placed by (simp add: outputs_placed_def)
  have fill: "fill_output_from_converted s (length cols) (map (read_cell vals r) (scan_column_names s)) = Inr ?first"
    unfolding fill_output_from_converted_def len
    by (simp only: simp_thms if_False) (rule res_map_Inr_nth, rule fill_cell_wanted [OF placed _ assms(2)], simp)
  have ok: "output_ok db b s i (cols ! i)" if "i < length cols" for i
    using placed that by (simp add: outputs_placed_def)
  have "LanceFillDeferredColumns s ?later ?first = Inr (map (\<lambda>i. wanted db b vals r (cols ! i)) [0..<length cols])"
  proof (cases "deferred_materialization s")
    case True
    have "res_map (\<lambda>i. later_cell s ?later i (?first ! i)) [0..<length cols] = Inr (map (\<lambda>i. wanted db b vals r (cols ! i)) [0..<length cols])"
    proof (rule res_map_Inr_nth)
      fix i
      assume "i \<in> set [0..<length cols]"
      then have "i < length cols" by simp
      with later_cell_wanted [OF ok [OF this] True]
      show "later_cell s ?later i (?first ! i) = Inr (wanted db b vals r (cols ! i))" by simp
    qed
    with True show ?thesis by (simp add: LanceFillDeferredColumns_def)
  next
    case False
    with ok show ?thesis by (simp add: LanceFillDeferredColumns_def first_cell_wanted)
  qed
  then show ?thesis by (simp add: delivered_def fill map_nth_upt)
qed

text \<open>A batch's children are put into the order of the scan's columns.\<close>

lemma order_children_named:
  assumes "order_children expected child_names children = Inr out" and "expected \<noteq> []" and "child_names \<noteq> []"
    and "length children = length child_names"
  shows "list_all2 (\<lambda>name c. \<exists>i. position (Some name) child_names = Some i \<and> c = children ! i) expected (take (length expected) out)"
proof -
  let ?f = "\<lambda>name. case position (Some name) child_names of
      None \<Rightarrow> Inl (IOException (''Missing expected column in Arrow batch: '' @ name)) | Some i \<Rightarrow> Inr (children ! i)"
  obtain cs where cs: "list_all2 (\<lambda>name c. ?f name = Inr c) expected cs" "out = cs @ drop (length expected) children"
    using assms by (auto simp: order_children_def res_bind_Inr_iff res_map_Inr_list_all2)
  then have "take (length expected) out = cs"
    using list_all2_lengthD [OF cs(1)] by simp
  with cs(1) show ?thesis by (auto elim!: list_all2_mono split: option.splits)
qed

end
