(* ===== verification/Scan_Limit_Correct.thy ===== *)
theory Scan_Limit_Correct
  imports Scan_Plan_Correct Scan_Columns_Correct Filter_Parts_Correct
begin

text \<open>
  A limit moves into the scan only where that keeps the rows, and a scan with a limit never reads
  without the filter that belongs below it.
\<close>

section \<open>Rows of a plan with limits\<close>

definition limited :: "nat option \<Rightarrow> nat \<Rightarrow> 'a list \<Rightarrow> 'a list" where
  "limited lim off xs = (case lim of Some n \<Rightarrow> take n (drop off xs) | None \<Rightarrow> drop off xs)"

lemma limited_rows_length: "limited_rows True lim off (length xs) = length (limited lim off xs)"
  by (auto simp: limited_rows_def limited_def min_def split: option.splits)

text \<open>
  What Lance evaluates for a scan: the parts of its table filters and those of the complex filters;
  \<open>lance\<close> tells the rows that pass a part.
\<close>

definition scan_parts :: "duckdb \<Rightarrow> ScanGet \<Rightarrow> ScanBind \<Rightarrow> bytes list" where
  "scan_parts db g b =
     (case ProbeLanceTableFilterIR db (logical_get g) (names b) (types b) of Inr p \<Rightarrow> parts p | Inl x \<Rightarrow> []) @
     map string_bytes (lance_pushed_filter_ir_parts b)"

definition lance_rows :: "duckdb \<Rightarrow> (u64 \<Rightarrow> bytes \<Rightarrow> bool) \<Rightarrow> u64 list \<Rightarrow> ScanGet \<Rightarrow> ScanBind \<Rightarrow> u64 list" where
  "lance_rows db lance rows g b = filter (\<lambda>r. list_all (lance r) (scan_parts db g b)) rows"

text \<open>
  The rows a scan returns, \<open>None\<close> when it fails or is no Lance scan.  \<open>rows\<close> are the rows of the dataset.
  A scan that samples asks Lance for a sample, \<open>sampler\<close>, without filter and limit, and fails on a namespace;
  a limit a namespace query cannot express fails there; a point lookup takes its rows without Lance's filter
  and fails with a limit; otherwise Lance filters, then limits.  DuckDB evaluates the table filters on
  what comes.
\<close>

type_synonym sampling = "SampleOptions \<Rightarrow> u64 list \<Rightarrow> u64 list"

definition read_rows ::
  "duckdb \<Rightarrow> (u64 \<Rightarrow> bytes \<Rightarrow> bool) \<Rightarrow> sampling \<Rightarrow> u64 list \<Rightarrow> ScanGet \<Rightarrow> ScanBind \<Rightarrow> u64 list option" where
  "read_rows db lance sampler rows g b =
     (case system_percentage (get_sample_options g) of
        Some so \<Rightarrow> if UsesNamespaceQuery b then None else Some (sampler so rows)
      | None \<Rightarrow>
          if UsesNamespaceQuery b then
            if limit_offset_pushed_down b \<and> pushed_limit b \<noteq> Some 0 \<and> beyond_query_range (pushed_limit b) (pushed_offset b)
            then None
            else Some (if limit_offset_pushed_down b
                       then limited (pushed_limit b) (pushed_offset b) (lance_rows db lance rows g b)
                       else lance_rows db lance rows g b)
          else if take_row_ids b \<noteq> [] then
            if limit_offset_pushed_down b then None else Some (filter (\<lambda>r. r \<in> set rows) (take_row_ids b))
          else Some (if limit_offset_pushed_down b
                     then limited (pushed_limit b) (pushed_offset b) (lance_rows db lance rows g b)
                     else lance_rows db lance rows g b))"

definition scan_rows ::
  "truth \<Rightarrow> duckdb \<Rightarrow> (u64 \<Rightarrow> bytes \<Rightarrow> bool) \<Rightarrow> sampling \<Rightarrow> u64 list \<Rightarrow> ScanGet \<Rightarrow> u64 list option" where
  "scan_rows tr db lance sampler rows g =
     Option.bind (lance_bind g) (\<lambda>b.
       map_option (filter (\<lambda>r. list_all (entry_holds tr db r) (table_filters (logical_get g))))
         (read_rows db lance sampler rows g b))"

definition below_row :: "duckdb \<Rightarrow> plan \<Rightarrow> Expression \<Rightarrow> bool" where
  "below_row db p e \<longleftrightarrow> (case scan_chain p of Some (g, fs) \<Rightarrow> is_row_id db (logical_get g) e | None \<Rightarrow> False)"

fun limit_number :: "LimitVal \<Rightarrow> nat option" where
  "limit_number (LimitConstant n) = Some n"
| "limit_number l = None"

definition offset_number :: "LimitVal \<Rightarrow> nat" where
  "offset_number l = (case limit_number l of Some n \<Rightarrow> n | None \<Rightarrow> 0)"

fun plan_rows ::
  "truth \<Rightarrow> duckdb \<Rightarrow> (u64 \<Rightarrow> bytes \<Rightarrow> bool) \<Rightarrow> sampling \<Rightarrow> u64 list \<Rightarrow> plan \<Rightarrow> u64 list option" where
  "plan_rows tr db lance sampler rows (ScanOp g cs est) = scan_rows tr db lance sampler rows g"
| "plan_rows tr db lance sampler rows (FilterOp es (Some c # cs) est) =
     map_option (filter (\<lambda>r. list_all (expression_holds tr (below_row db c) r) es)) (plan_rows tr db lance sampler rows c)"
| "plan_rows tr db lance sampler rows (ProjectionOp ti es (Some c # cs) est) = plan_rows tr db lance sampler rows c"
| "plan_rows tr db lance sampler rows (LimitOp l off (Some c # cs) est) =
     map_option (limited (limit_number l) (offset_number off)) (plan_rows tr db lance sampler rows c)"
| "plan_rows tr db lance sampler rows p = None"


section \<open>What is assumed of DuckDB and of Lance\<close>

text \<open>
  DuckDB's filter pushdown offers every filter to the scan's callback before it leaves it in the plan;
  the expression it offers is over the scan's columns then, and is written as the filter is now.  The
  callback passes over a few kinds of expressions; those are not among the filters.  A filter may
  instead have been offered to the pass for LIKE.
\<close>

definition offered_to_callback :: "duckdb \<Rightarrow> plan_host \<Rightarrow> ScanBind \<Rightarrow> plan \<Rightarrow> Expression \<Rightarrow> bool" where
  "offered_to_callback db h b c e \<longleftrightarrow>
     (\<exists>vane get es b0 b1 e'. LancePushdownComplexFilter vane db h get es b0 = Inr b1 \<and>
        names b0 = names b \<and> types b0 = types b \<and>
        set (lance_pushed_filter_ir_parts b1) \<subseteq> set (lance_pushed_filter_ir_parts b) \<and>
        Some e' \<in> set es \<and> \<not> HasParameter db e' \<and> \<not> IsVolatile db e' \<and> \<not> left_to_table_filters e' \<and>
        TryBuildLanceExprFilterIR db get (names b) (types b) False e' = TryBuildLanceFilterIRThroughProjections db h b c e)"

definition offered_to_like :: "duckdb \<Rightarrow> plan_host \<Rightarrow> ScanBind \<Rightarrow> plan \<Rightarrow> Expression \<Rightarrow> bool" where
  "offered_to_like db h b c e \<longleftrightarrow>
     (\<exists>get es b0 b1 t name cs. res_foldl (push_like db get) b0 es = Inr b1 \<and>
        names b0 = names b \<and> types b0 = types b \<and>
        set (lance_pushed_filter_ir_parts b1) \<subseteq> set (lance_pushed_filter_ir_parts b) \<and>
        Some (BoundFunction t name cs) \<in> set es \<and> like_variant name \<noteq> None \<and>
        \<not> HasParameter db (BoundFunction t name cs) \<and> \<not> IsVolatile db (BoundFunction t name cs) \<and>
        \<not> CanThrow db (BoundFunction t name cs) \<and>
        TryBuildLanceExprFilterIR db get (names b) (types b) False (BoundFunction t name cs) =
          TryBuildLanceFilterIRThroughProjections db h b c e)"

definition filters_offered :: "duckdb \<Rightarrow> plan_host \<Rightarrow> ScanBind \<Rightarrow> (Expression \<times> plan) list \<Rightarrow> bool" where
  "filters_offered db h b fs \<longleftrightarrow>
     (\<forall>(e, c) \<in> set fs. offered_to_callback db h b c e \<or> offered_to_like db h b c e)"

text \<open>
  Lance evaluates what is written for a filter as DuckDB evaluates the filter: a row for which it is
  true passes the filter.
\<close>

definition table_part :: "duckdb \<Rightarrow> ScanBind \<Rightarrow> nat \<times> TableFilter option \<Rightarrow> bytes option" where
  "table_part db b entry = written db (names b) (types b) [0..<Suc (fst entry)] False entry"

definition lance_evaluates ::
  "truth \<Rightarrow> duckdb \<Rightarrow> plan_host \<Rightarrow> (u64 \<Rightarrow> bytes \<Rightarrow> bool) \<Rightarrow> ScanGet \<Rightarrow> ScanBind \<Rightarrow> (Expression \<times> plan) list \<Rightarrow> bool" where
  "lance_evaluates tr db h lance g b fs \<longleftrightarrow>
     (\<forall>(e, c) \<in> set fs. \<forall>ir r. TryBuildLanceFilterIRThroughProjections db h b c e = Done ir \<and> lance r ir \<longrightarrow>
        row_truth (on_expression tr r) (is_row_id db (logical_get g)) r e = Some True) \<and>
     (\<forall>entry \<in> set (table_filters (logical_get g)). \<forall>ir r. table_part db b entry = Some ir \<and> lance r ir \<longrightarrow>
        entry_holds tr db r entry)"


section \<open>What the callbacks write\<close>

lemma string_bytes_bytes_string [simp]: "string_bytes (bytes_string bs) = bs"
proof -
  have "(of_char (char_of (unat b) :: char) :: byte) = b" for b :: byte
  proof -
    have "unat b < 256" using unsigned_less [where 'a = nat, of b] by simp
    then have "unat (of_char (char_of (unat b) :: char) :: byte) = unat b" by simp
    then show ?thesis by (rule unsigned_word_eqI)
  qed
  then show ?thesis by (simp add: string_bytes_def bytes_string_def comp_def map_idI)
qed

lemma push_filter_writes:
  assumes "push_filter db h get nms e b = Inr b'"
  shows "names b' = names b" "types b' = types b"
    "set (lance_pushed_filter_ir_parts b) \<subseteq> set (lance_pushed_filter_ir_parts b')"
    "\<not> left_to_table_filters e \<Longrightarrow> TryBuildLanceExprFilterIR db get (names b) (types b) False e = Done ir \<Longrightarrow>
       bytes_string ir \<in> set (lance_pushed_filter_ir_parts b')"
  using assms by (auto simp: push_filter_def res_bind_Inr_iff split: if_splits outcome.splits)

lemma push_lookup_writes:
  "push_lookup vane db get e b = Inr b' \<Longrightarrow>
     names b' = names b \<and> types b' = types b \<and> lance_pushed_filter_ir_parts b' = lance_pushed_filter_ir_parts b"
  by (auto simp: push_lookup_def set_take_def split: if_splits outcome.splits)

lemma complex_filter_step_writes:
  assumes "complex_filter_step vane db h get nms b expr = Inr b'"
  shows "names b' = names b \<and> types b' = types b \<and>
    set (lance_pushed_filter_ir_parts b) \<subseteq> set (lance_pushed_filter_ir_parts b')"
    and "\<lbrakk>expr = Some e; \<not> HasParameter db e; \<not> IsVolatile db e; \<not> left_to_table_filters e;
      TryBuildLanceExprFilterIR db get (names b) (types b) False e = Done ir\<rbrakk> \<Longrightarrow>
      bytes_string ir \<in> set (lance_pushed_filter_ir_parts b')"
proof -
  show "names b' = names b \<and> types b' = types b \<and>
      set (lance_pushed_filter_ir_parts b) \<subseteq> set (lance_pushed_filter_ir_parts b')"
    using assms push_lookup_writes [of vane db get _ b] push_filter_writes(1-3) [of db h get nms]
    by (fastforce simp: complex_filter_step_def res_bind_Inr_iff split: option.splits if_splits)
  show "bytes_string ir \<in> set (lance_pushed_filter_ir_parts b')"
    if e: "expr = Some e" "\<not> HasParameter db e" "\<not> IsVolatile db e" "\<not> left_to_table_filters e"
      and ir: "TryBuildLanceExprFilterIR db get (names b) (types b) False e = Done ir"
  proof -
    obtain b0 where b0: "push_lookup vane db get e b = Inr b0" "push_filter db h get nms e b0 = Inr b'"
      using assms e by (auto simp: complex_filter_step_def res_bind_Inr_iff)
    then show ?thesis
      using push_filter_writes(4) [OF b0(2) e(4)] push_lookup_writes [OF b0(1)] ir by simp
  qed
qed

text \<open>A loop that only adds parts has the parts each of its steps added.\<close>

lemma foldl_parts_kept:
  assumes "res_foldl f b es = Inr b'"
    and "\<And>b x b'. f b x = Inr b' \<Longrightarrow> names b' = names b \<and> types b' = types b \<and>
      set (lance_pushed_filter_ir_parts b) \<subseteq> set (lance_pushed_filter_ir_parts b')"
  shows "names b' = names b \<and> types b' = types b \<and>
    set (lance_pushed_filter_ir_parts b) \<subseteq> set (lance_pushed_filter_ir_parts b')"
  using assms(1) by (induction es arbitrary: b) (force simp: res_bind_Inr_iff dest: assms(2))+

lemma foldl_part_written:
  assumes "res_foldl f b es = Inr b'" and "x \<in> set es"
    and keeps: "\<And>b x b'. f b x = Inr b' \<Longrightarrow> names b' = names b \<and> types b' = types b \<and>
      set (lance_pushed_filter_ir_parts b) \<subseteq> set (lance_pushed_filter_ir_parts b')"
    and writes: "\<And>b0 b1. f b0 x = Inr b1 \<Longrightarrow> names b0 = names b \<Longrightarrow> types b0 = types b \<Longrightarrow>
      y \<in> set (lance_pushed_filter_ir_parts b1)"
  shows "y \<in> set (lance_pushed_filter_ir_parts b')"
  using assms(1,2) writes
proof (induction es arbitrary: b)
  case (Cons z es)
  then obtain b1 where b1: "f b z = Inr b1" and rest: "res_foldl f b1 es = Inr b'" by (auto simp: res_bind_Inr_iff)
  show ?case
  proof (cases "z = x")
    case True
    then have "y \<in> set (lance_pushed_filter_ir_parts b1)" using Cons.prems(3) [of b b1] b1 by simp
    moreover have "set (lance_pushed_filter_ir_parts b1) \<subseteq> set (lance_pushed_filter_ir_parts b')"
      using foldl_parts_kept [OF rest] keeps by blast
    ultimately show ?thesis by blast
  next
    case False
    then show ?thesis using Cons.prems keeps [OF b1] by (intro Cons.IH [OF rest]) auto
  qed
qed simp

lemma callback_writes:
  assumes "offered_to_callback db h b c e" and "TryBuildLanceFilterIRThroughProjections db h b c e = Done ir"
  shows "bytes_string ir \<in> set (lance_pushed_filter_ir_parts b)"
proof -
  obtain vane get es b0 b1 e' where run: "LancePushdownComplexFilter vane db h get es b0 = Inr b1"
    and b0: "names b0 = names b" "types b0 = types b"
    and sub: "set (lance_pushed_filter_ir_parts b1) \<subseteq> set (lance_pushed_filter_ir_parts b)"
    and e': "Some e' \<in> set es" "\<not> HasParameter db e'" "\<not> IsVolatile db e'" "\<not> left_to_table_filters e'"
    and eq: "TryBuildLanceExprFilterIR db get (names b) (types b) False e' = TryBuildLanceFilterIRThroughProjections db h b c e"
    using assms(1) unfolding offered_to_callback_def by (elim exE conjE) (rule that, assumption+)
  have ir: "TryBuildLanceExprFilterIR db get (names b) (types b) False e' = Done ir" by (rule trans [OF eq assms(2)])
  have "bytes_string ir \<in> set (lance_pushed_filter_ir_parts b1)"
    using run unfolding LancePushdownComplexFilter_def Let_def
  proof (rule foldl_part_written [OF _ e'(1)])
    fix b2 b3
    assume step: "complex_filter_step vane db h get (map (get_column_name db b0) (get_column_ids get)) b2 (Some e') = Inr b3"
      and "names b2 = names b0" "types b2 = types b0"
    then show "bytes_string ir \<in> set (lance_pushed_filter_ir_parts b3)"
      using complex_filter_step_writes(2) [OF step refl e'(2-4)] ir b0 by simp
  qed (rule complex_filter_step_writes(1))
  then show ?thesis using sub by blast
qed

lemma push_like_function:
  "push_like db get b (Some (BoundFunction t name cs)) =
     (if HasParameter db (BoundFunction t name cs) \<or> IsVolatile db (BoundFunction t name cs) \<or>
         CanThrow db (BoundFunction t name cs) \<or> like_variant name = None then Inr b
      else (case TryBuildLanceExprFilterIR db get (names b) (types b) False (BoundFunction t name cs) of
          Raised x \<Rightarrow> Inl x
        | Refused \<Rightarrow> Inr b
        | Done ir \<Rightarrow> Inr (b\<lparr>lance_pushed_filter_ir_parts := lance_pushed_filter_ir_parts b @ [bytes_string ir]\<rparr>)))"
  by (simp only: push_like_def Let_def option.case Expression.case)

lemma push_like_keeps:
  assumes "push_like db get b x = Inr b'"
  shows "names b' = names b \<and> types b' = types b \<and>
    set (lance_pushed_filter_ir_parts b) \<subseteq> set (lance_pushed_filter_ir_parts b')"
proof (cases "\<exists>t name cs. x = Some (BoundFunction t name cs)")
  case True
  then obtain t name cs where x: "x = Some (BoundFunction t name cs)" by blast
  have "b' = b \<or> (\<exists>ir. b' = b\<lparr>lance_pushed_filter_ir_parts := lance_pushed_filter_ir_parts b @ [bytes_string ir]\<rparr>)"
    using assms unfolding x push_like_function by (simp only: split: if_splits outcome.splits) blast+
  then show ?thesis by auto
next
  case False
  then have "b' = b"
    using assms by (cases x) (simp_all add: push_like_def split: Expression.split_asm)
  then show ?thesis by simp
qed

lemma like_writes:
  assumes "offered_to_like db h b c e" and "TryBuildLanceFilterIRThroughProjections db h b c e = Done ir"
  shows "bytes_string ir \<in> set (lance_pushed_filter_ir_parts b)"
proof -
  obtain get es b0 b1 t name cs where run: "res_foldl (push_like db get) b0 es = Inr b1"
    and b0: "names b0 = names b" "types b0 = types b"
    and sub: "set (lance_pushed_filter_ir_parts b1) \<subseteq> set (lance_pushed_filter_ir_parts b)"
    and f: "Some (BoundFunction t name cs) \<in> set es" "like_variant name \<noteq> None"
      "\<not> HasParameter db (BoundFunction t name cs)" "\<not> IsVolatile db (BoundFunction t name cs)"
      "\<not> CanThrow db (BoundFunction t name cs)"
    and eq: "TryBuildLanceExprFilterIR db get (names b) (types b) False (BoundFunction t name cs) =
      TryBuildLanceFilterIRThroughProjections db h b c e"
    using assms(1) unfolding offered_to_like_def by (elim exE conjE) (rule that, assumption+)
  have ir: "TryBuildLanceExprFilterIR db get (names b) (types b) False (BoundFunction t name cs) = Done ir"
    by (rule trans [OF eq assms(2)])
  have "bytes_string ir \<in> set (lance_pushed_filter_ir_parts b1)"
    using run
  proof (rule foldl_part_written [OF _ f(1)])
    fix b2 b3
    assume "push_like db get b2 (Some (BoundFunction t name cs)) = Inr b3" "names b2 = names b0" "types b2 = types b0"
    then show "bytes_string ir \<in> set (lance_pushed_filter_ir_parts b3)"
      unfolding push_like_function using f(2-5) ir b0 by (auto simp del: TryBuildLanceExprFilterIR.simps)
  qed (rule push_like_keeps)
  then show ?thesis using sub by blast
qed

text \<open>So a filter the limit's pass can write is among the parts of the scan.\<close>

lemma offered_written:
  assumes "filters_offered db h b fs" and "(e, c) \<in> set fs"
    and "TryBuildLanceFilterIRThroughProjections db h b c e = Done ir"
  shows "ir \<in> set (scan_parts db g b)"
proof -
  have "bytes_string ir \<in> set (lance_pushed_filter_ir_parts b)"
    using assms callback_writes like_writes unfolding filters_offered_def by blast
  then have "string_bytes (bytes_string ir) \<in> string_bytes ` set (lance_pushed_filter_ir_parts b)" by (rule imageI)
  then show ?thesis by (simp add: scan_parts_def)
qed

lemma all_pushable_True: "all_pushable db h b fs = Inr True \<Longrightarrow> (e, c) \<in> set fs \<Longrightarrow>
    \<exists>ir. TryBuildLanceFilterIRThroughProjections db h b c e = Done ir"
  by (induction db h b fs rule: all_pushable.induct) (auto split: outcome.splits)

text \<open>A table filter that the probe finds written is among the parts of the scan.\<close>

lemma probed_written:
  assumes db: "hugeint_exact db" "decimals_print db"
    and "ProbeLanceTableFilterIR db (logical_get g) (names b) (types b) = Inr p" and "all_filters_pushed p"
    and "entry \<in> set (table_filters (logical_get g))"
  shows "\<exists>ir. table_part db b entry = Some ir \<and> ir \<in> set (scan_parts db g b)"
proof -
  let ?fs = "table_filters (logical_get g)"
  let ?ids = "[0..<foldl max 0 (map fst ?fs) + 1]"
  have ne: "?fs \<noteq> []" using assms(5) by auto
  have probe: "BuildLanceTableFilterIRParts db (names b) (types b) \<lparr>column_ids = ?ids, filters = Some ?fs\<rparr> False = Inr p"
    using assms(3,4) ne by (auto simp: ProbeLanceTableFilterIR_def Let_def not_pushed_def split: if_splits)
  have fl: "filters \<lparr>column_ids = ?ids, filters = Some ?fs\<rparr> = Some ?fs" by (rule TableFunctionInitInput.select_convs)
  note spec = BuildLanceTableFilterIRParts_spec [OF db fl probe, unfolded TableFunctionInitInput.select_convs]
  obtain i f where entry: "entry = (i, f)" by (cases entry)
  have "i \<le> foldl max 0 (map fst ?fs)" using assms(5) entry by (intro foldl_max_ge) force
  then have "written db (names b) (types b) [0..<Suc i] False (i, f) = written db (names b) (types b) ?ids False (i, f)"
    using written_rekeyed [of i "[0..<Suc i]" ?ids] by (simp del: upt_Suc)
  then have part: "table_part db b entry = written db (names b) (types b) ?ids False entry"
    by (simp add: table_part_def entry del: upt_Suc)
  have "written db (names b) (types b) ?ids False entry \<noteq> None" using spec(2) assms(4,5) by blast
  then obtain ir where ir: "written db (names b) (types b) ?ids False entry = Some ir" by blast
  then have "ir \<in> set (parts p)" using spec(1) assms(5) by (force simp: List.map_filter_def simp del: upt_Suc)
  then show ?thesis using part ir assms(3) by (simp add: scan_parts_def)
qed

lemma set_limited: "set (limited lim off xs) \<subseteq> set xs"
  by (auto simp: limited_def split: option.splits dest: in_set_takeD in_set_dropD)

text \<open>Filters that hold for all rows of the scan leave them.\<close>

abbreviation passes_all :: "truth \<Rightarrow> duckdb \<Rightarrow> ScanGet \<Rightarrow> (Expression \<times> plan) list \<Rightarrow> u64 \<Rightarrow> bool" where
  "passes_all tr db g fs r \<equiv>
     list_all (\<lambda>(e, c). row_truth (on_expression tr r) (is_row_id db (logical_get g)) r e = Some True) fs"

lemma chain_rows_all:
  assumes "scan_chain p = Some (g, fs)" and "scan_rows tr db lance sampler rows g = Some R"
    and "\<forall>r \<in> set R. passes_all tr db g fs r"
  shows "plan_rows tr db lance sampler rows p = Some R"
  using assms
proof (induction p arbitrary: fs rule: scan_chain.induct)
  case (3 es c cs est)
  then obtain fs' where c: "scan_chain c = Some (g, fs')" and fs: "fs = map (\<lambda>e. (e, c)) (List.map_filter id es) @ fs'"
    by auto
  have "plan_rows tr db lance sampler rows c = Some R"
    using 3 c fs by (intro "3.IH" [OF c]) auto
  moreover have "list_all (expression_holds tr (below_row db c) r) es" if "r \<in> set R" for r
  proof -
    have "below_row db c = is_row_id db (logical_get g)" by (simp add: below_row_def c fun_eq_iff)
    moreover have "row_truth (on_expression tr r) (is_row_id db (logical_get g)) r e = Some True" if "Some e \<in> set es" for e
    proof -
      have "(e, c) \<in> set fs" using that by (force simp: fs List.map_filter_def)
      then show ?thesis using "3.prems"(3) \<open>r \<in> _\<close> by (auto simp: list_all_iff)
    qed
    ultimately show ?thesis by (auto simp: list_all_iff expression_holds_def)
  qed
  ultimately show ?case by (simp add: filter_id_conv)
qed auto

lemma update_chain_rows:
  assumes "scan_chain p = Some (g, fs)" and "logical_get (u g) = logical_get g"
  shows "\<exists>fs'. scan_chain (update_chain u p) = Some (u g, fs') \<and> map fst fs' = map fst fs"
  using assms by (induction p arbitrary: fs rule: scan_chain.induct) (force simp: comp_def)+

lemma estimate_rows [simp]:
  "plan_rows tr db lance sampler rows (set_estimate n p) = plan_rows tr db lance sampler rows p"
  by (cases "(tr, db, lance, sampler, rows, p)" rule: plan_rows.cases) auto


section \<open>Moving a limit\<close>

text \<open>What the pass has checked when it removes the limit.\<close>

lemma push_limit_cases:
  assumes "push_limit db h sh l off cs est = Inr q"
  obtains (kept) "q = LimitOp l off cs est"
  | (moved) child ds lim offset g fs b where "cs = Some child # ds" "TryParseConstantLimitOffset sh l off = Done (lim, offset)"
      "scan_chain child = Some (g, fs)" "lance_bind g = Some b" "limit_allowed db h lim offset g b fs = Inr True"
      "q = set_estimate est (update_chain (set_bind (set_limit lim offset b)) child)"
proof (cases "q = LimitOp l off cs est")
  case False
  from assms False obtain lim offset where d: "TryParseConstantLimitOffset sh l off = Done (lim, offset)"
    by (auto simp: push_limit_def split: outcome.splits)
  from assms False d obtain child ds where cs: "cs = Some child # ds"
    by (auto simp: push_limit_def split: list.splits option.splits)
  from assms False d cs obtain g fs where c: "scan_chain child = Some (g, fs)"
    by (auto simp: push_limit_def split: option.splits)
  from assms False d cs c obtain b where b: "lance_bind g = Some b"
    by (auto simp: push_limit_def split: option.splits)
  from assms False d cs c b have "limit_allowed db h lim offset g b fs = Inr True"
      "q = set_estimate est (update_chain (set_bind (set_limit lim offset b)) child)"
    by (auto simp: push_limit_def res_bind_Inr_iff split: if_splits)
  with moved [OF cs d c b] show thesis by blast
qed (use kept in blast)

lemma limit_allowed_True:
  assumes "limit_allowed db h lim off g b fs = Inr True"
  shows "get_sample_options g = None" and "take_row_ids b = []" and "all_pushable db h b fs = Inr True"
    and "\<exists>p. ProbeLanceTableFilterIR db (logical_get g) (names b) (types b) = Inr p \<and> all_filters_pushed p"
    and "UsesNamespaceQuery b \<Longrightarrow> \<not> beyond_query_range lim off"
  using assms by (auto simp: limit_allowed_def res_bind_Inr_iff split: if_splits)

text \<open>\<open>optional_idx\<close> keeps the number it is given, or throws.\<close>

definition optional_idx_exact :: "scan_host \<Rightarrow> bool" where
  "optional_idx_exact sh \<longleftrightarrow> (\<forall>n i. optional_idx sh n = Inr i \<longrightarrow> i = Some n)"

lemma limit_numbers:
  assumes "TryParseConstantLimitOffset sh l off = Done (lim, offset)" and "optional_idx_exact sh"
  shows "lim = limit_number l" and "offset = offset_number off"
  using assms
  by (cases l; cases off; auto simp: offset_number_def TryParseConstantLimitOffset_def try_bind_Done_iff optional_idx_exact_def split: sum.splits)+

text \<open>
  When the limit may move, the filters between it and the scan and the table filters reject no row
  that Lance keeps: each of them is written, and Lance evaluates it.
\<close>

lemma allowed_covers:
  assumes db: "hugeint_exact db" "decimals_print db"
    and allowed: "limit_allowed db h lim off g b fs = Inr True"
    and "filters_offered db h b fs" and "lance_evaluates tr db h lance g b fs"
    and r: "r \<in> set (lance_rows db lance rows g b)"
  shows "list_all (entry_holds tr db r) (table_filters (logical_get g))" and "passes_all tr db g fs r"
proof -
  have lance: "lance r ir" if "ir \<in> set (scan_parts db g b)" for ir
    using r that by (simp add: lance_rows_def list_all_iff)
  obtain p where p: "ProbeLanceTableFilterIR db (logical_get g) (names b) (types b) = Inr p" "all_filters_pushed p"
    using limit_allowed_True(4) [OF allowed] by blast
  have "entry_holds tr db r entry" if "entry \<in> set (table_filters (logical_get g))" for entry
    using probed_written [OF db p that] lance assms(5) that unfolding lance_evaluates_def by blast
  then show "list_all (entry_holds tr db r) (table_filters (logical_get g))" by (simp add: list_all_iff)
  have "row_truth (on_expression tr r) (is_row_id db (logical_get g)) r e = Some True" if e: "(e, c) \<in> set fs" for e c
  proof -
    obtain ir where "TryBuildLanceFilterIRThroughProjections db h b c e = Done ir"
      using all_pushable_True [OF limit_allowed_True(3) [OF allowed] e] by blast
    then show ?thesis
      using offered_written [OF assms(4) e] lance assms(5) e unfolding lance_evaluates_def by blast
  qed
  then show "passes_all tr db g fs r" by (auto simp: list_all_iff)
qed

lemma set_limit_lance_rows:
  "lance_rows db lance rows (set_bind (set_limit lim off b) g) (set_limit lim off b) = lance_rows db lance rows g b"
  by (simp add: lance_rows_def scan_parts_def set_limit_def)

text \<open>The scan before and after the limit has moved into it.\<close>

lemma allowed_scans:
  assumes bind: "lance_bind g = Some b" and allowed: "limit_allowed db h lim off g b fs = Inr True"
    and fresh: "\<not> limit_offset_pushed_down b"
    and tf: "\<And>r. r \<in> set (lance_rows db lance rows g b) \<Longrightarrow> list_all (entry_holds tr db r) (table_filters (logical_get g))"
  shows "scan_rows tr db lance sampler rows g = Some (lance_rows db lance rows g b)"
    and "scan_rows tr db lance sampler rows (set_bind (set_limit lim off b) g) =
      Some (limited lim off (lance_rows db lance rows g b))"
proof -
  let ?K = "lance_rows db lance rows g b" and ?b = "set_limit lim off b"
  note ok = limit_allowed_True(1,2,5) [OF allowed]
  have "read_rows db lance sampler rows g b = Some ?K"
    using ok(1,2) fresh by (simp add: read_rows_def system_percentage_def)
  then show "scan_rows tr db lance sampler rows g = Some ?K"
    using tf by (simp add: scan_rows_def bind filter_id_conv)
  have uses: "UsesNamespaceQuery ?b \<longleftrightarrow> UsesNamespaceQuery b" by (simp add: set_limit_def)
  have "get_sample_options (set_bind ?b g) = None" using ok(1) by (simp add: set_bind_def)
  then have "read_rows db lance sampler rows (set_bind ?b g) ?b = Some (limited lim off ?K)"
    using ok(2,3) uses
    by (simp add: read_rows_def system_percentage_def set_limit_lance_rows) (auto simp: set_limit_def)
  moreover have "list_all (entry_holds tr db r) (table_filters (logical_get g))" if "r \<in> set (limited lim off ?K)" for r
    using tf that set_limited [of lim off ?K] by blast
  ultimately show "scan_rows tr db lance sampler rows (set_bind ?b g) = Some (limited lim off ?K)"
    by (simp add: scan_rows_def lance_bind_set_bind [OF bind] filter_id_conv)
qed

lemma push_limit_rows:
  assumes db: "hugeint_exact db" "decimals_print db"
    and q: "push_limit db h sh l off cs est = Inr q" and "optional_idx_exact sh"
    and env: "\<And>child ds g fs b. \<lbrakk>cs = Some child # ds; scan_chain child = Some (g, fs); lance_bind g = Some b\<rbrakk> \<Longrightarrow>
      \<not> limit_offset_pushed_down b \<and> filters_offered db h b fs \<and> lance_evaluates tr db h lance g b fs"
  shows "plan_rows tr db lance sampler rows q = plan_rows tr db lance sampler rows (LimitOp l off cs est)"
  using q
proof (cases rule: push_limit_cases)
  case (moved child ds lim offset g fs b)
  let ?b = "set_limit lim offset b"
  let ?K = "lance_rows db lance rows g b"
  note now = env [OF moved(1,3,4)]
  have covers: "list_all (entry_holds tr db r) (table_filters (logical_get g))" "passes_all tr db g fs r" if "r \<in> set ?K" for r
    using allowed_covers [OF db moved(5) _ _ that, of tr] now by blast+
  have scans: "scan_rows tr db lance sampler rows g = Some ?K"
      "scan_rows tr db lance sampler rows (set_bind ?b g) = Some (limited lim offset ?K)"
    using allowed_scans [OF moved(4,5) conjunct1 [OF now], of lance rows tr sampler] covers(1) by blast+
  have "plan_rows tr db lance sampler rows child = Some ?K"
    using chain_rows_all [OF moved(3) scans(1)] covers(2) by blast
  moreover obtain fs' where fs': "scan_chain (update_chain (set_bind ?b) child) = Some (set_bind ?b g, fs')" "map fst fs' = map fst fs"
    using update_chain_rows [OF moved(3), of "set_bind ?b"] by auto
  moreover have "plan_rows tr db lance sampler rows (update_chain (set_bind ?b) child) = Some (limited lim offset ?K)"
  proof (rule chain_rows_all [OF fs'(1) scans(2)], intro ballI)
    fix r assume "r \<in> set (limited lim offset ?K)"
    then have "list_all (\<lambda>e. row_truth (on_expression tr r) (is_row_id db (logical_get g)) r e = Some True) (map fst fs')"
      using covers(2) set_limited [of lim offset ?K] unfolding fs'(2) by (force simp: list_all_iff)
    then show "passes_all tr db (set_bind ?b g) fs' r" by (simp add: list_all_iff case_prod_unfold)
  qed
  ultimately show ?thesis
    using limit_numbers [OF moved(2) assms(4)] by (simp add: moved(1,6))
qed simp

text \<open>Where the limit went.\<close>

lemma push_limit_where:
  assumes "push_limit db h sh l off cs est = Inr q" and "optional_idx_exact sh"
  shows "q = LimitOp l off cs est \<or>
    (\<exists>g fs b. scan_chain q = Some (g, fs) \<and> lance_bind g = Some b \<and> limit_offset_pushed_down b \<and>
       pushed_limit b = limit_number l \<and> pushed_offset b = offset_number off)"
  using assms(1)
proof (cases rule: push_limit_cases)
  case (moved child ds lim offset g fs b)
  let ?b = "set_limit lim offset b"
  obtain fs' where fs': "scan_chain (update_chain (set_bind ?b) child) = Some (set_bind ?b g, fs')"
    using update_chain_rows [OF moved(3), of "set_bind ?b"] by auto
  have "scan_chain (set_estimate est p) = scan_chain p" for p by (cases p rule: scan_chain.cases) auto
  with fs' moved(6) have "scan_chain q = Some (set_bind ?b g, fs')" by simp
  moreover have "limit_offset_pushed_down ?b" "pushed_limit ?b = limit_number l" "pushed_offset ?b = offset_number off"
    using limit_numbers [OF moved(2) assms(2)] by (simp_all add: set_limit_def)
  ultimately show ?thesis using lance_bind_set_bind [OF moved(4), of ?b] by blast
qed simp


section \<open>A limit is read with its filter\<close>

fun request_filter :: "stream_request \<Rightarrow> bytes option" where
  "request_filter (NamespaceScan cols f lim off row_id) = f"
| "request_filter (DatasetScan cols f lim off) = f"
| "request_filter (FragmentScan cols frag f) = f"
| "request_filter req = None"

fun request_limit :: "stream_request \<Rightarrow> (int \<times> nat) option" where
  "request_limit (NamespaceScan cols f lim off row_id) = Some (lim, off)"
| "request_limit (DatasetScan cols f lim off) = Some (lim, off)"
| "request_limit req = None"

text \<open>The filter a list of parts is sent as: none for no parts, and none if they cannot be put into one message.\<close>

definition sent_filter :: "bytes list \<Rightarrow> bytes option" where
  "sent_filter ps =
     (if ps = [] then None else case TryEncodeLanceFilterIRMessage ps of Done msg \<Rightarrow> Some msg | _ \<Rightarrow> None)"

lemma message_nonempty: "TryEncodeLanceFilterIRMessage ps = Done msg \<Longrightarrow> ps \<noteq> [] \<Longrightarrow> msg \<noteq> []"
  by (auto simp: TryEncodeLanceFilterIRMessage_def LanceFilterIREncodeMessage_def LANCE_FILTER_IR_MAGIC_def string_bytes_def try_bind_Done_iff
      split: list.splits)

lemma filter_message_sent: "filter_message ps = Inr msg \<Longrightarrow> (if msg = [] then None else Some msg) = sent_filter ps"
  using message_nonempty [of ps] by (auto simp: filter_message_def sent_filter_def split: if_splits outcome.splits)

text \<open>The parts of all filters of a scan: those of its table filters and those of the complex filters.\<close>

abbreviation all_parts :: "LanceFilterIRBuildResult \<Rightarrow> ScanBind \<Rightarrow> bytes list" where
  "all_parts r b \<equiv> parts r @ map string_bytes (lance_pushed_filter_ir_parts b)"

abbreviation build_filters :: "duckdb \<Rightarrow> ScanBind \<Rightarrow> ScanInput \<Rightarrow> exn + LanceFilterIRBuildResult" where
  "build_filters db b input \<equiv> BuildLanceTableFilterIRParts db (names b) (types b) (TableFunctionInitInput.truncate input) False"

definition filter_made :: "duckdb \<Rightarrow> ScanBind \<Rightarrow> ScanInput \<Rightarrow> LanceScanGlobalState \<Rightarrow> bool" where
  "filter_made db b input s \<longleftrightarrow>
     (\<exists>r. build_filters db b input = Inr r \<and> filter_message (all_parts r b) = Inr (lance_filter_ir s) \<and>
        gs_filter_pushed_down s = (all_filters_pushed r \<and> lance_filter_ir s \<noteq> []))"

text \<open>A scan that only counts: the limit is applied to the number of rows counted, or is zero.\<close>

definition count_limited :: "bool \<Rightarrow> scan_ffi \<Rightarrow> ScanBind \<Rightarrow> LanceScanGlobalState \<Rightarrow> bool" where
  "count_limited vane ffi b s \<longleftrightarrow>
     UsesNamespaceQuery b \<and> pushed_limit b = Some 0 \<and> count_only_total_rows s = 0 \<or>
     (\<exists>n. count_scan_rows vane ffi b s = Inr (Some n) \<and>
        count_only_total_rows s = limited_rows True (pushed_limit b) (pushed_offset b) n)"

text \<open>Before and after the stages; a limit that is left is read by a namespace query or the dataset scanner.\<close>

definition limit_ready :: "duckdb \<Rightarrow> ScanBind \<Rightarrow> ScanInput \<Rightarrow> LanceScanGlobalState \<Rightarrow> bool" where
  "limit_ready db b input s \<longleftrightarrow>
     (gs_limit_offset_pushed_down s \<longrightarrow>
        \<not> gs_sampling_pushed_down s \<and> limit_offset_pushed_down b \<and> gs_pushed_limit s = pushed_limit b \<and>
        gs_pushed_offset s = pushed_offset b \<and> filter_made db b input s) \<and>
     \<not> use_dataset_take s \<and> \<not> use_namespace_query s \<and> \<not> count_only s"

definition limit_settled :: "bool \<Rightarrow> duckdb \<Rightarrow> scan_ffi \<Rightarrow> ScanBind \<Rightarrow> ScanInput \<Rightarrow> LanceScanGlobalState \<Rightarrow> bool" where
  "limit_settled vane db ffi b input s \<longleftrightarrow>
     (gs_limit_offset_pushed_down s \<longrightarrow>
        gs_pushed_limit s = pushed_limit b \<and> gs_pushed_offset s = pushed_offset b \<and>
        (if count_only s then count_limited vane ffi b s
         else filter_made db b input s \<and>
           (use_namespace_query s \<or>
            use_dataset_scanner s \<and> \<not> gs_sampling_pushed_down s \<and> \<not> use_dataset_take s \<and> \<not> use_namespace_query s \<and>
            (no_filters input \<or> gs_filter_pushed_down s))))"

definition limit_part :: "LanceScanGlobalState \<Rightarrow> _" where
  "limit_part s = (gs_sampling_pushed_down s, gs_limit_offset_pushed_down s, gs_pushed_limit s, gs_pushed_offset s,
     lance_filter_ir s, gs_filter_pushed_down s, use_dataset_take s, use_namespace_query s, count_only s)"

lemma filter_made_same:
  "lance_filter_ir s' = lance_filter_ir s \<Longrightarrow> gs_filter_pushed_down s' = gs_filter_pushed_down s \<Longrightarrow>
     filter_made db b input s' \<longleftrightarrow> filter_made db b input s"
  by (simp add: filter_made_def)

lemma limit_ready_same: "limit_part s' = limit_part s \<Longrightarrow> limit_ready db b input s' \<longleftrightarrow> limit_ready db b input s"
  using filter_made_same [of s' s] by (simp add: limit_part_def limit_ready_def)

lemma add_scan_column_limit: "add_scan_column c n t s = (j, s') \<Longrightarrow> limit_part s' = limit_part s"
  by (auto simp: add_scan_column_def limit_part_def split: option.splits)

lemma add_row_id_limit: "add_row_id b s = (j, s') \<Longrightarrow> limit_part s' = limit_part s"
  using add_scan_column_limit by (fastforce simp: add_row_id_def limit_part_def)

lemma cardinality_limit: "limit_part (add_virtual_cardinality_column b s) = limit_part s"
  using add_row_id_limit [of b s] by (auto simp: add_virtual_cardinality_column_def intro: prod.exhaust_sel)

lemma add_column_limit: "add_column db b s c = Inr s' \<Longrightarrow> limit_part s' = limit_part s"
proof -
  have push: "limit_part (push_output t i x y s0) = limit_part s0" for t i x y and s0 :: LanceScanGlobalState
    by (simp add: push_output_def limit_part_def)
  obtain i s1 where 1: "add_row_id b s = (i, s1)" by force
  obtain j s2 where 2: "add_scan_column c (names b ! c) (types b ! c) s = (j, s2)" by force
  assume "add_column db b s c = Inr s'"
  then show ?thesis
    using add_row_id_limit [OF 1] add_scan_column_limit [OF 2] by (auto simp: add_column_def 1 2 push split: if_splits)
qed

lemma init_columns_limit:
  assumes "init_columns db b input d = Inr s"
  shows "gs_limit_offset_pushed_down s = limit_offset_pushed_down b" "gs_pushed_limit s = pushed_limit b"
    "gs_pushed_offset s = pushed_offset b" "\<not> use_dataset_take s" "\<not> use_namespace_query s"
    "\<not> gs_sampling_pushed_down s" "\<not> count_only s"
proof -
  let ?s = "new_scan_state\<lparr>gs_dataset := d, gs_limit_offset_pushed_down := limit_offset_pushed_down b,
          gs_pushed_limit := pushed_limit b, gs_pushed_offset := pushed_offset b, projection_ids := in_projection_ids input\<rparr>"
  have "res_foldl (add_column db b) s0 cs = Inr s \<Longrightarrow> limit_part s = limit_part s0" for s0 cs
    by (induction cs arbitrary: s0) (auto simp: res_bind_Inr_iff add_column_limit)
  from this [of ?s] assms show "gs_limit_offset_pushed_down s = limit_offset_pushed_down b" "gs_pushed_limit s = pushed_limit b"
      "gs_pushed_offset s = pushed_offset b" "\<not> use_dataset_take s" "\<not> use_namespace_query s"
      "\<not> gs_sampling_pushed_down s" "\<not> count_only s"
    by (simp_all add: init_columns_def limit_part_def new_scan_state_def)
qed

lemma no_filters_pushed:
  assumes "no_filters input" and "build_filters db b input = Inr r"
  shows "all_filters_pushed r"
  using assms
  by (cases "filters input") (auto simp: no_filters_def BuildLanceTableFilterIRParts_def TableFunctionInitInput.truncate_def empty_result_def)

lemma init_filters_limit:
  assumes "init_columns db b input d = Inr s0" and "init_filters db b input s0 = Inr s"
  shows "limit_ready db b input s"
proof (cases "system_percentage (in_sample_options input)")
  case None
  then show ?thesis
    using assms(2) init_columns_limit [OF assms(1)]
    by (auto simp: init_filters_def limit_ready_def filter_made_def res_bind_Inr_iff)
next
  case (Some so)
  then show ?thesis
    using assms(2) init_columns_limit [OF assms(1)]
    by (auto simp: init_filters_def limit_ready_def res_bind_Inr_iff)
qed

lemma unlimited_settled: "\<not> gs_limit_offset_pushed_down s \<Longrightarrow> limit_settled vane db ffi b input s"
  by (simp add: limit_settled_def)

lemma use_take_limit:
  assumes "limit_ready db b input s" and "use_take vane b rows s = Inr (fin, s')"
  shows "fin \<and> limit_settled v db ffi b input s'"
proof -
  let ?s = "s\<lparr>lance_filter_ir := [], gs_filter_pushed_down := False, use_dataset_scanner := True,
              use_dataset_take := True, max_threads := 1, gs_take_row_ids := rows\<rparr>"
  have "fin" "\<not> limit_offset_pushed_down b" "s' = (if vane then add_virtual_cardinality_column b ?s else ?s)"
    using assms(2) by (auto simp: use_take_def Let_def split: if_splits)
  with assms(1) cardinality_limit [of b ?s] have "\<not> gs_limit_offset_pushed_down s'"
    by (simp add: limit_ready_def limit_part_def split: if_splits)
  with \<open>fin\<close> show ?thesis by (simp add: unlimited_settled)
qed

lemma namespace_stage_limit:
  "stage_keeps (limit_ready db b input) (namespace_stage b) (limit_ready db b input) (limit_settled vane db ffi b input)"
proof (rule stage_keepsI)
  fix s fin s'
  assume s: "limit_ready db b input s" "namespace_stage b s = Inr (fin, s')"
  let ?s = "s\<lparr>use_namespace_query := True, use_dataset_scanner := True, max_threads := 1\<rparr>"
  obtain j t where t: "add_scan_column 0 (names b ! 0) (types b ! 0) ?s = (j, t)" by force
  have t': "limit_part t = limit_part ?s" by (rule add_scan_column_limit [OF t])
  have "limit_settled vane db ffi b input u" if "limit_part u = limit_part ?s" for u
    using s(1) that filter_made_same [of u s db b input]
    by (simp add: limit_ready_def limit_settled_def limit_part_def)
  moreover have "limit_settled vane db ffi b input (?s\<lparr>count_only := True, count_only_total_rows := 0\<rparr>)"
    if "UsesNamespaceQuery b" "gs_pushed_limit s = Some 0"
    using s(1) that by (auto simp: limit_ready_def limit_settled_def count_limited_def)
  ultimately show "(fin \<longrightarrow> limit_settled vane db ffi b input s') \<and> (\<not> fin \<longrightarrow> limit_ready db b input s')"
    using s t t' by (auto simp: namespace_stage_def Let_def split: if_splits)
qed

lemma take_stage_limit:
  "stage_keeps (limit_ready db b input) (take_stage vane b) (limit_ready db b input) (limit_settled v db ffi b input)"
proof (rule stage_keepsI)
  fix s fin s'
  assume s: "limit_ready db b input s" "take_stage vane b s = Inr (fin, s')"
  have "gs_sampling_pushed_down s \<Longrightarrow> limit_settled v db ffi b input s"
    using s(1) by (intro unlimited_settled) (auto simp: limit_ready_def)
  then show "(fin \<longrightarrow> limit_settled v db ffi b input s') \<and> (\<not> fin \<longrightarrow> limit_ready db b input s')"
    using s use_take_limit [OF s(1), of vane "take_row_ids b" fin s' v ffi] by (auto simp: take_stage_def split: if_splits)
qed

lemma row_id_filter_stage_limit:
  "stage_keeps (limit_ready db b input) (row_id_filter_stage vane b input) (limit_ready db b input) (limit_settled v db ffi b input)"
proof (rule stage_keepsI)
  fix s fin s'
  assume s: "limit_ready db b input s" "row_id_filter_stage vane b input s = Inr (fin, s')"
  show "(fin \<longrightarrow> limit_settled v db ffi b input s') \<and> (\<not> fin \<longrightarrow> limit_ready db b input s')"
    using row_id_filter_stage_cases [OF s(2)] s(1) use_take_limit [OF s(1)] by blast
qed

lemma count_stage_cases:
  assumes "count_stage vane ffi b input s = Inr (fin, s')"
  shows "(\<not> fin \<and> s' = s) \<or>
    (fin \<and> (\<exists>n. count_scan_rows vane ffi b s = Inr (Some n) \<and>
      s' = s\<lparr>count_only := True, max_threads := 1, count_only_total_rows :=
        limited_rows (gs_limit_offset_pushed_down s) (gs_pushed_limit s) (gs_pushed_offset s)
          (if gs_sampling_pushed_down s then sampled_rows ffi (gs_sample_percentage s) n else n)\<rparr>))"
proof (cases "scan_column_names s = [] \<and> no_filters input \<and> lance_filter_ir s = []")
  case True
  with assms obtain rows where "count_scan_rows vane ffi b s = Inr rows" by (auto simp: count_stage_def res_bind_Inr_iff)
  with assms True show ?thesis by (cases rows) (auto simp: count_stage_def Let_def)
qed (use assms in \<open>auto simp: count_stage_def\<close>)

lemma count_stage_limit:
  "stage_keeps (limit_ready db b input) (count_stage vane ffi b input) (limit_ready db b input) (limit_settled vane db ffi b input)"
proof (rule stage_keepsI)
  fix s fin s'
  assume s: "limit_ready db b input s" "count_stage vane ffi b input s = Inr (fin, s')"
  have same: "count_scan_rows vane ffi b (s\<lparr>count_only := x, max_threads := y, count_only_total_rows := z\<rparr>) =
      count_scan_rows vane ffi b s" for x y z
    by (simp add: count_scan_rows_def)
  show "(fin \<longrightarrow> limit_settled vane db ffi b input s') \<and> (\<not> fin \<longrightarrow> limit_ready db b input s')"
    using count_stage_cases [OF s(2)] s(1) same by (auto simp: limit_ready_def limit_settled_def count_limited_def)
qed

lemma cardinality_stage_limit:
  "stage_keeps (limit_ready db b input) (cardinality_stage vane b) (limit_ready db b input) (limit_settled v db ffi b input)"
  using limit_ready_same [OF cardinality_limit] by (auto intro!: stage_keepsI simp: cardinality_stage_def split: if_splits)

lemma defer_stage_limit:
  "stage_keeps (limit_ready db b input) (defer_stage ffi b input) (limit_ready db b input) (limit_settled v db ffi' b input)"
proof (rule stage_keepsI)
  fix s fin s'
  assume s: "limit_ready db b input s" "defer_stage ffi b input s = Inr (fin, s')"
  have "limit_part (defer_columns b light heavy s) = limit_part s" for light heavy
    by (simp add: defer_columns_def limit_part_def Let_def)
  then have "\<not> fin" "limit_part s' = limit_part s"
    using s(2) by (auto simp: defer_stage_def Let_def split: option.splits if_splits)
  with s(1) show "(fin \<longrightarrow> limit_settled v db ffi' b input s') \<and> (\<not> fin \<longrightarrow> limit_ready db b input s')"
    using limit_ready_same by blast
qed

lemma limit_stage_limit:
  "stage_keeps (limit_ready db b input) (limit_stage b input) (\<lambda>s. \<not> gs_limit_offset_pushed_down s) (limit_settled v db ffi b input)"
proof (rule stage_keepsI)
  fix s fin s'
  assume s: "limit_ready db b input s" "limit_stage b input s = Inr (fin, s')"
  then show "(fin \<longrightarrow> limit_settled v db ffi b input s') \<and> (\<not> fin \<longrightarrow> \<not> gs_limit_offset_pushed_down s')"
    using filter_made_same [of s' s db b input]
    by (auto simp: limit_stage_def limit_ready_def limit_settled_def split: if_splits)
qed

lemma last_stages_limit:
  "stage_keeps (\<lambda>s. \<not> gs_limit_offset_pushed_down s) (index_stage vane ffi b input) (\<lambda>s. \<not> gs_limit_offset_pushed_down s) (limit_settled v db ffi b input)"
  "stage_keeps (\<lambda>s. \<not> gs_limit_offset_pushed_down s) (fragment_stage vane ffi b) (\<lambda>s. \<not> gs_limit_offset_pushed_down s) (limit_settled v db ffi b input)"
  unfolding stage_keeps_def
  by (auto simp: index_stage_def fragment_stage_def intro!: unlimited_settled split: if_splits option.splits)

lemma init_limit_settled:
  assumes "LanceScanInitGlobal vane db ffi reopen b input = Inr s"
  shows "limit_settled vane db ffi b input s"
proof -
  obtain d s0 s1 fin where s0: "init_columns db b input d = Inr s0" "init_filters db b input s0 = Inr s1"
      and st: "and_then (namespace_stage b) (and_then (take_stage vane b) (and_then (row_id_filter_stage vane b input)
        (and_then (count_stage vane ffi b input) (and_then (cardinality_stage vane b) (and_then (defer_stage ffi b input)
        (and_then (limit_stage b input) (and_then (index_stage vane ffi b input) (fragment_stage vane ffi b)))))))) s1 = Inr (fin, s)"
    using assms by (auto simp: LanceScanInitGlobal_def res_bind_Inr_iff)
  note keeps = stage_keeps_then [OF namespace_stage_limit stage_keeps_then [OF take_stage_limit
        stage_keeps_then [OF row_id_filter_stage_limit stage_keeps_then [OF count_stage_limit
        stage_keeps_then [OF cardinality_stage_limit stage_keeps_then [OF defer_stage_limit
        stage_keeps_then [OF limit_stage_limit stage_keeps_then [OF last_stages_limit]]]]]]]]
  have "if fin then limit_settled vane db ffi b input s else \<not> gs_limit_offset_pushed_down s"
    using keeps [unfolded stage_keeps_def] init_filters_limit [OF s0] st by blast
  then show ?thesis by (auto intro: unlimited_settled split: if_splits)
qed

text \<open>A stream of a scan with a limit: it asks for the filter with the limit, retries included.\<close>

lemma made_pushed:
  assumes "filter_made db b input s" and "no_filters input \<or> gs_filter_pushed_down s" and "lance_filter_ir s \<noteq> []"
  shows "gs_filter_pushed_down s"
  using assms no_filters_pushed [of input db b] by (auto simp: filter_made_def)

lemma open_stream_limit:
  assumes s: "limit_settled vane db ffi b input s" "gs_limit_offset_pushed_down s" "\<not> count_only s"
    and open_st: "LanceScanOpenStream create sfx s fragment_pos = Inr (Some (st, pushed, req))"
  shows "request_filter req = filter_pointer s" and "request_limit req = Some (limit_i64 s, gs_pushed_offset s)"
proof -
  have kind: "use_namespace_query s \<or> use_dataset_scanner s \<and> \<not> gs_sampling_pushed_down s \<and> \<not> use_dataset_take s \<and>
      \<not> use_namespace_query s \<and> (lance_filter_ir s \<noteq> [] \<longrightarrow> gs_filter_pushed_down s)"
    using s made_pushed [of db b input s] by (auto simp: limit_settled_def)
  have "req \<in> set_option (request s fragment_pos (filter_pointer s))"
    using open_st s(2,3) kind
    by (auto simp: LanceScanOpenStream_def may_retry_def filter_pointer_def Let_def split: option.splits if_splits)
  then show "request_filter req = filter_pointer s" and "request_limit req = Some (limit_i64 s, gs_pushed_offset s)"
    using kind by (auto simp: request_def split: if_splits)
qed

text \<open>What is sent with a limit, in terms of the bind data and of what DuckDB asked for.\<close>

definition limit_read :: "duckdb \<Rightarrow> ScanBind \<Rightarrow> ScanInput \<Rightarrow> bool \<Rightarrow> stream_request \<Rightarrow> bool" where
  "limit_read db b input namespace_query req \<longleftrightarrow>
     request_limit req = Some (case pushed_limit b of Some n \<Rightarrow> int n | None \<Rightarrow> - 1, pushed_offset b) \<and>
     (\<exists>r. build_filters db b input = Inr r \<and> request_filter req = sent_filter (all_parts r b) \<and>
        (\<not> namespace_query \<and> \<not> no_filters input \<longrightarrow> all_filters_pushed r \<and> request_filter req \<noteq> None))"

lemma limited_stream:
  assumes "LanceScanInitGlobal vane db ffi reopen b input = Inr s" and "gs_limit_offset_pushed_down s" and "\<not> count_only s"
    and "LanceScanOpenStream create sfx s fragment_pos = Inr (Some (st, pushed, req))"
  shows "limit_read db b input (use_namespace_query s) req"
proof -
  note settled = init_limit_settled [OF assms(1)]
  note req = open_stream_limit [OF settled assms(2-4)]
  have numbers: "gs_pushed_limit s = pushed_limit b" "gs_pushed_offset s = pushed_offset b"
    and made: "filter_made db b input s"
    and kind: "use_namespace_query s \<or> no_filters input \<or> gs_filter_pushed_down s"
    using settled assms(2,3) by (auto simp: limit_settled_def)
  obtain r where r: "build_filters db b input = Inr r" "filter_message (all_parts r b) = Inr (lance_filter_ir s)"
      "gs_filter_pushed_down s = (all_filters_pushed r \<and> lance_filter_ir s \<noteq> [])"
    using made by (auto simp: filter_made_def)
  have "request_filter req = sent_filter (all_parts r b)"
    using req(1) filter_message_sent [OF r(2)] by (simp add: filter_pointer_def)
  moreover have "\<not> use_namespace_query s \<and> \<not> no_filters input \<longrightarrow> all_filters_pushed r \<and> request_filter req \<noteq> None"
    using kind r(3) req(1) by (auto simp: filter_pointer_def)
  ultimately show ?thesis
    using req(2) numbers r(1) by (auto simp: limit_read_def limit_i64_def)
qed

text \<open>The optimizer's probe answers for the scan.\<close>

lemma probed_scan:
  assumes "hugeint_exact db" and "decimals_print db" and "filters input = Some fs"
    and "rekeyed (column_ids input) fs (table_filters get)"
    and "ProbeLanceTableFilterIR db get (names b) (types b) = Inr p" and "all_filters_pushed p"
    and "build_filters db b input = Inr r"
  shows "all_filters_pushed r"
proof -
  have "filters (TableFunctionInitInput.truncate input) = Some fs" "column_ids (TableFunctionInitInput.truncate input) = column_ids input"
    using assms(3) by (simp_all add: TableFunctionInitInput.truncate_def)
  then show ?thesis using probe_agrees [OF assms(1,2) _ _ assms(5,7)] assms(4,6) by simp
qed

lemma limited_count:
  assumes "LanceScanInitGlobal vane db ffi reopen b input = Inr s" and "gs_limit_offset_pushed_down s" and "count_only s"
  shows "count_limited vane ffi b s"
  using init_limit_settled [OF assms(1)] assms(2,3) by (auto simp: limit_settled_def)

end
