(* ===== verification/Scan_Run_Correct.thy ===== *)
theory Scan_Run_Correct
  imports Scan_Run
begin

text \<open>
  Threads share the fragments of a scan without loss or repetition, in every order of their turns,
  and come to an end; the chunks of a count add up.
\<close>

section \<open>Threads share the fragments\<close>

text \<open>What a position, and a thread, still have to give.\<close>

definition at_position :: "(u64 \<Rightarrow> 'b list) \<Rightarrow> u64 list \<Rightarrow> nat \<Rightarrow> 'b list" where
  "at_position batches frags p = (if p < length frags then batches (frags ! p) else [])"

fun pending :: "(u64 \<Rightarrow> 'b list) \<Rightarrow> u64 list \<Rightarrow> 'b thread \<Rightarrow> 'b list" where
  "pending batches frags (Opening p) = at_position batches frags p"
| "pending batches frags (Reading p bs) = bs"
| "pending batches frags t = []"

text \<open>All that is given, about to be given, and not yet taken.\<close>

definition in_flight :: "(u64 \<Rightarrow> 'b list) \<Rightarrow> u64 list \<Rightarrow> 'b scan_threads \<Rightarrow> 'b multiset" where
  "in_flight batches frags st =
     mset (given_batches st) + mset (concat (map (pending batches frags) (workers st))) +
     mset (concat (map (at_position batches frags) [next_fragment_idx st..<length frags]))"

lemma mset_concat_update:
  "i < length ts \<Longrightarrow>
     mset (concat (map f (ts[i := t]))) + mset (f (ts ! i)) = mset (concat (map f ts)) + mset (f t)"
proof (induction ts arbitrary: i)
  case (Cons x ts)
  then show ?case by (cases i) (auto simp: ac_simps)
qed simp

lemma positions_from:
  "mset (concat (map (at_position batches frags) [p..<length frags])) =
     mset (at_position batches frags p) + mset (concat (map (at_position batches frags) [Suc p..<length frags]))"
  by (cases "p < length frags") (simp_all add: upt_conv_Cons at_position_def)

lemma turn_in_flight:
  assumes "i < length (workers st)"
  shows "in_flight batches frags (turn batches frags i st) = in_flight batches frags st"
proof -
  note upd = mset_concat_update [OF assms, of "pending batches frags"]
  show ?thesis
  proof (cases "workers st ! i")
    case Starting
    then show ?thesis
      using upd [of Stopped] upd [of "Opening (next_fragment_idx st)"] positions_from [of batches frags "next_fragment_idx st"]
      by (auto simp: turn_def fetch_add_def set_thread_def in_flight_def at_position_def ac_simps)
  next
    case (Opening p)
    then show ?thesis
      using upd [of Stopped] upd [of "Reading p (batches (frags ! p))"]
      by (auto simp: turn_def set_thread_def in_flight_def at_position_def ac_simps)
  next
    case (Reading p bs)
    then show ?thesis
      using upd [of "Reading p (tl bs)"] upd [of "Opening (next_fragment_idx st)"] positions_from [of batches frags "next_fragment_idx st"]
      by (cases bs) (auto simp: turn_def fetch_add_def set_thread_def in_flight_def ac_simps)
  qed (simp add: turn_def)
qed

text \<open>A thread stops, and takes a position, only behind the shared counter.\<close>

definition counted :: "u64 list \<Rightarrow> 'b scan_threads \<Rightarrow> bool" where
  "counted frags st \<longleftrightarrow>
     (Stopped \<in> set (workers st) \<longrightarrow> length frags \<le> next_fragment_idx st) \<and>
     (\<forall>p. Opening p \<in> set (workers st) \<longrightarrow> p < next_fragment_idx st)"

lemma turn_counted:
  assumes "i < length (workers st)" and "counted frags st"
  shows "counted frags (turn batches frags i st)"
proof -
  have i: "workers st ! i \<in> set (workers st)" using assms(1) by simp
  show ?thesis
  proof (cases "workers st ! i")
    case Starting
    with assms(2) show ?thesis
      by (auto simp: turn_def fetch_add_def set_thread_def counted_def dest!: set_update_subset_insert [THEN subsetD])
  next
    case (Opening p)
    with assms(2) i show ?thesis
      by (auto simp: turn_def set_thread_def counted_def dest!: set_update_subset_insert [THEN subsetD])
  next
    case (Reading p bs)
    with assms(2) show ?thesis
      by (cases bs) (auto simp: turn_def fetch_add_def set_thread_def counted_def
          dest!: set_update_subset_insert [THEN subsetD])
  qed (use assms(2) in \<open>simp add: turn_def\<close>)
qed

lemma length_turn [simp]: "length (workers (turn batches frags i st)) = length (workers st)"
  by (auto simp: turn_def fetch_add_def set_thread_def Let_def split: thread.splits list.splits)

lemma start_in_flight: "in_flight batches frags (start_threads n) = mset (concat (map batches frags))"
proof -
  have "map (at_position batches frags) [0..<length frags] = map batches frags"
    by (rule nth_equalityI) (auto simp: at_position_def)
  then show ?thesis by (simp add: in_flight_def start_threads_def)
qed

lemma reachable_threads:
  assumes "(scan_step batches frags)\<^sup>*\<^sup>* (start_threads n) st"
  shows "in_flight batches frags st = mset (concat (map batches frags))" and "counted frags st"
    and "length (workers st) = n"
  using assms
proof (induction rule: rtranclp_induct)
  case base
  {
    case 1
    show ?case by (rule start_in_flight)
  next
    case 2
    show ?case by (auto simp: counted_def start_threads_def)
  next
    case 3
    show ?case by (simp add: start_threads_def)
  }
next
  case (step y z)
  from step(2) obtain i where "i < length (workers y)" "z = turn batches frags i y"
    by cases
  with step show "in_flight batches frags z = mset (concat (map batches frags))" "counted frags z" "length (workers z) = n"
    by (simp_all add: turn_in_flight turn_counted)
qed

text \<open>Turns left: each one uses up some.\<close>

fun thread_work :: "(u64 \<Rightarrow> 'b list) \<Rightarrow> u64 list \<Rightarrow> 'b thread \<Rightarrow> nat" where
  "thread_work batches frags Starting = 2"
| "thread_work batches frags (Opening p) = (if p < length frags then length (batches (frags ! p)) + 3 else 1)"
| "thread_work batches frags (Reading p bs) = length bs + 2"
| "thread_work batches frags Stopped = 0"

definition position_work :: "(u64 \<Rightarrow> 'b list) \<Rightarrow> u64 list \<Rightarrow> nat \<Rightarrow> nat" where
  "position_work batches frags p = length (batches (frags ! p)) + 3"

definition work_left :: "(u64 \<Rightarrow> 'b list) \<Rightarrow> u64 list \<Rightarrow> 'b scan_threads \<Rightarrow> nat" where
  "work_left batches frags st =
     sum_list (map (thread_work batches frags) (workers st)) +
     sum_list (map (position_work batches frags) [next_fragment_idx st..<length frags])"

lemma sum_list_map_update:
  "i < length ts \<Longrightarrow> sum_list (map f (ts[i := t])) + f (ts ! i) = sum_list (map f ts) + (f t :: nat)"
proof (induction ts arbitrary: i)
  case (Cons x ts)
  then show ?case by (cases i) auto
qed simp

lemma position_work_from:
  "sum_list (map (position_work batches frags) [p..<length frags]) =
     (if p < length frags then position_work batches frags p else 0) +
     sum_list (map (position_work batches frags) [Suc p..<length frags])"
  by (simp add: upt_conv_Cons)

lemma turn_work:
  assumes "i < length (workers st)" and "workers st ! i \<noteq> Stopped"
  shows "work_left batches frags (turn batches frags i st) < work_left batches frags st"
proof -
  note upd = sum_list_map_update [OF assms(1), of "thread_work batches frags"]
  show ?thesis
  proof (cases "workers st ! i")
    case Starting
    then show ?thesis
      using upd [of Stopped] upd [of "Opening (next_fragment_idx st)"] position_work_from [of batches frags "next_fragment_idx st"]
      by (auto simp: turn_def fetch_add_def set_thread_def work_left_def position_work_def split: if_splits)
  next
    case (Opening p)
    then show ?thesis
      using upd [of Stopped] upd [of "Reading p (batches (frags ! p))"]
      by (auto simp: turn_def set_thread_def work_left_def)
  next
    case (Reading p bs)
    then show ?thesis
      using upd [of "Reading p (tl bs)"] upd [of "Opening (next_fragment_idx st)"] position_work_from [of batches frags "next_fragment_idx st"]
      by (cases bs) (auto simp: turn_def fetch_add_def set_thread_def work_left_def position_work_def split: if_splits)
  qed (use assms(2) in simp)
qed

lemma step_work: "scan_step batches frags st st' \<Longrightarrow> work_left batches frags st' < work_left batches frags st"
  by (auto elim: scan_step.cases intro: turn_work)

lemma all_stopped_given:
  assumes "(scan_step batches frags)\<^sup>*\<^sup>* (start_threads n) st" and "0 < n" and "set (workers st) \<subseteq> {Stopped}"
  shows "mset (given_batches st) = mset (concat (map batches frags))"
proof -
  note st = reachable_threads [OF assms(1)]
  have "workers st = replicate n Stopped"
    using assms(3) st(3) by (metis replicate_eqI singletonD subset_iff)
  moreover have "length frags \<le> next_fragment_idx st"
    using st(2) assms(2) calculation by (simp add: counted_def)
  ultimately show ?thesis
    using st(1) by (simp add: in_flight_def map_replicate_const)
qed

lemma scan_completes:
  obtains st' where "(scan_step batches frags)\<^sup>*\<^sup>* st st'" and "set (workers st') \<subseteq> {Stopped}"
proof (induction "work_left batches frags st" arbitrary: st thesis rule: less_induct)
  case less
  show ?case
  proof (cases "set (workers st) \<subseteq> {Stopped}")
    case True
    then show ?thesis using less(2) [of st] by simp
  next
    case False
    then obtain t where "t \<in> set (workers st)" "t \<noteq> Stopped" by auto
    then obtain i where i: "i < length (workers st)" "workers st ! i \<noteq> Stopped"
      by (auto simp: in_set_conv_nth)
    then have "scan_step batches frags st (turn batches frags i st)" by (rule scan_step.step)
    moreover obtain st' where "(scan_step batches frags)\<^sup>*\<^sup>* (turn batches frags i st) st'" "set (workers st') \<subseteq> {Stopped}"
      using less(1) [OF turn_work [OF i]] by blast
    ultimately show ?thesis using less(2) by (meson converse_rtranclp_into_rtranclp)
  qed
qed


section \<open>Counts\<close>

lemma count_chunks_sum: "sum_list (count_chunks n start) = n - start"
proof (induction n start rule: count_chunks.induct)
  case (1 n start)
  then show ?case by (subst count_chunks.simps) (auto simp: STANDARD_VECTOR_SIZE_def)
qed

lemma count_chunks_nonempty: "0 \<notin> set (count_chunks n start)"
proof (induction n start rule: count_chunks.induct)
  case (1 n start)
  then show ?case by (subst count_chunks.simps) (auto simp: STANDARD_VECTOR_SIZE_def)
qed

end
