(* ===== verification/Splits_Codec.thy ===== *)
theory Splits_Codec
  imports Scan_Splits
begin

text \<open>
  The split payloads: the two encodings can be told apart and read back, and whatever is read is the
  encoding of what it is read as.
\<close>

section \<open>Little-endian words\<close>

text \<open>Byte \<open>i\<close> of a word.\<close>

definition byte_at :: "u64 \<Rightarrow> nat \<Rightarrow> u64" where
  "byte_at v i = drop_bit (i * 8) v AND 0xff"

lemma mask_8: "(0xff :: u64) = mask 8"
  by (simp add: mask_eq_exp_minus_1)

lemma byte_at_less: "unat (byte_at v i) < 256"
proof -
  have "byte_at v i \<le> 0xff"
    by (simp add: byte_at_def word_and_le1)
  then have "unat (byte_at v i) \<le> unat (0xff :: u64)"
    by (simp only: word_le_nat_alt)
  then show ?thesis
    by simp
qed

lemma byte_through_char: "word_of_nat (of_char (char_of (unat (byte_at v i)) :: char)) = byte_at v i"
  using byte_at_less [of v i] by simp

lemma bit_byte_at: "bit (byte_at v i) n \<longleftrightarrow> n < 8 \<and> bit v (i * 8 + n)"
  by (auto simp: byte_at_def mask_8 bit_simps)

lemma bit_or_bytes:
  "bit (fold (\<lambda>i v. v OR push_bit (i * 8) (f i)) is w) n \<longleftrightarrow>
     bit w n \<or> (\<exists>i\<in>set is. bit (push_bit (i * 8) (f i :: u64)) n)"
  by (induction "is" arbitrary: w) (auto simp: bit_or_iff)

lemma bytes_make_word: "fold (\<lambda>i v. v OR push_bit (i * 8) (byte_at w i)) [0..<8] 0 = w"
proof (rule bit_word_eqI)
  fix n assume n: "n < LENGTH(64)"
  have "bit (fold (\<lambda>i v. v OR push_bit (i * 8) (byte_at w i)) [0..<8] 0) n \<longleftrightarrow>
      (\<exists>i\<in>{0..<8}. i * 8 \<le> n \<and> n - i * 8 < 8 \<and> bit w n)"
    using n unfolding bit_or_bytes by (auto simp: bit_simps bit_byte_at)
  also have "\<dots> \<longleftrightarrow> bit w n"
    using n by (auto intro!: bexI [of _ "n div 8"])
  finally show "bit (fold (\<lambda>i v. v OR push_bit (i * 8) (byte_at w i)) [0..<8] 0) n \<longleftrightarrow> bit w n" .
qed

definition le_bytes :: "u64 \<Rightarrow> string" where
  "le_bytes v = map (\<lambda>i. char_of (unat (byte_at v i))) [0..<8]"

lemma AppendUint64_le_bytes: "AppendUint64LittleEndian out v = out @ le_bytes v"
  by (simp add: AppendUint64LittleEndian_def le_bytes_def byte_at_def)

lemma length_le_bytes [simp]: "length (le_bytes v) = 8"
  by (simp add: le_bytes_def)

lemma le_bytes_nth: "i < 8 \<Longrightarrow> le_bytes v ! i = char_of (unat (byte_at v i))"
  by (simp add: le_bytes_def)

lemma read_le_bytes:
  assumes "offset = length out"
  shows "TryReadUint64LittleEndian (out @ le_bytes v @ rest) offset = Some v"
proof -
  have "fold (\<lambda>i w. w OR push_bit (i * 8) (word_of_nat (of_char ((out @ le_bytes v @ rest) ! (offset + i))))) [0..<8] 0 =
      fold (\<lambda>i w. w OR push_bit (i * 8) (byte_at v i)) [0..<8] 0"
    using assms by (intro fold_cong) (simp_all add: nth_append le_bytes_nth byte_at_less)
  then show ?thesis
    using assms by (simp add: TryReadUint64LittleEndian_def bytes_make_word)
qed

lemma numeral_power_256: "(2 :: nat) ^ 8 = 256"
  by simp

lemma of_char_less: "of_char c < (256 :: nat)"
  by (cases c) (simp only: of_char_Char, rule horner_sum_of_bool_2_less [THEN order_less_le_trans], simp)

lemma read_byte:
  assumes "TryReadUint64LittleEndian input offset = Some v" and "i < 8"
  shows "char_of (unat (byte_at v i)) = input ! (offset + i)"
proof -
  let ?b = "\<lambda>i. word_of_nat (of_char (input ! (offset + i))) :: u64"
  have v: "v = fold (\<lambda>i w. w OR push_bit (i * 8) (?b i)) [0..<8] 0"
    using assms(1) by (simp add: TryReadUint64LittleEndian_def split: if_splits)
  have small: "\<not> bit (?b j) n" if "n \<ge> 8" for j n
  proof -
    have "of_char (input ! (offset + j)) < (2 :: nat) ^ n"
      using of_char_less that power_increasing [of 8 n "2 :: nat"] by (metis numeral_power_256 one_le_numeral order_less_le_trans)
    then have "\<not> bit (of_char (input ! (offset + j)) :: nat) n"
      by (simp add: bit_iff_odd)
    then show ?thesis
      by (simp add: bit_of_nat_iff)
  qed
  have "byte_at v i = ?b i"
  proof (rule bit_word_eqI)
    fix n assume "n < LENGTH(64)"
    show "bit (byte_at v i) n \<longleftrightarrow> bit (?b i) n"
    proof (cases "n < 8")
      case True
      have "bit v (i * 8 + n) \<longleftrightarrow> (\<exists>j\<in>{0..<8}. j * 8 \<le> i * 8 + n \<and> bit (?b j) (i * 8 + n - j * 8))"
        using True assms(2) unfolding v bit_or_bytes by (auto simp: bit_simps)
      also have "\<dots> \<longleftrightarrow> bit (?b i) n"
      proof -
        have "j * 8 \<le> i * 8 + n \<and> bit (?b j) (i * 8 + n - j * 8) \<longleftrightarrow> j = i \<and> bit (?b i) n" for j
          using small [of "i * 8 + n - j * 8" j] True by (cases "j = i") (simp, linarith)
        then show ?thesis
          using assms(2) by simp
      qed
      finally show ?thesis
        using True by (simp add: bit_byte_at)
    qed (simp add: bit_byte_at small)
  qed
  moreover have "unat (?b i) = of_char (input ! (offset + i))"
    unfolding unat_of_nat by (rule mod_less, rule order_less_trans [OF of_char_less]) simp
  ultimately show ?thesis
    by simp
qed

lemma read_is_le_bytes:
  assumes "TryReadUint64LittleEndian input offset = Some v"
  shows "take 8 (drop offset input) = le_bytes v"
proof (rule nth_equalityI)
  have "offset \<le> length input" and "8 \<le> length input - offset"
    using assms by (simp_all add: TryReadUint64LittleEndian_def split: if_splits)
  then show "length (take 8 (drop offset input)) = length (le_bytes v)"
      and "i < length (take 8 (drop offset input)) \<Longrightarrow> take 8 (drop offset input) ! i = le_bytes v ! i" for i
    using read_byte [OF assms] by (simp_all add: le_bytes_nth)
qed


section \<open>Fragment payloads\<close>

lemma token_length [simp]: "IsValidLanceScanToken h token \<Longrightarrow> length token = 36"
  by (simp add: IsValidLanceScanToken_def LANCE_SCAN_TOKEN_SIZE_def)

lemmas payload_defs = LANCE_SPLIT_MAGIC_SIZE_def LANCE_SCAN_TOKEN_SIZE_def LANCE_FRAGMENT_SPLIT_MAGIC_def
  LANCE_TAKE_SPLIT_MAGIC_def AppendUint64_le_bytes

lemma EncodeLanceFragmentSplit_payload:
  "EncodeLanceFragmentSplit h token fragment_id = Inr p \<longleftrightarrow>
     IsValidLanceScanToken h token \<and> p = ''LFS1'' @ token @ le_bytes fragment_id"
  by (auto simp: EncodeLanceFragmentSplit_def payload_defs)

lemma decode_fragment_payload:
  assumes "IsValidLanceScanToken h token"
  shows "DecodeLanceFragmentSplit h (''LFS1'' @ token @ le_bytes fragment_id) = Some (token, fragment_id)"
  using assms read_le_bytes [of 40 "''LFS1'' @ token" fragment_id "[]"]
  by (simp add: DecodeLanceFragmentSplit_def payload_defs)

lemma take_drop_join: "take n (drop i xs) @ drop (i + n) xs = drop i xs"
  by (metis add.commute append_take_drop_id drop_drop)

lemma DecodeLanceFragmentSplit_encodes:
  assumes "DecodeLanceFragmentSplit h p = Some (token, fragment_id)"
  shows "IsValidLanceScanToken h token \<and> p = ''LFS1'' @ token @ le_bytes fragment_id"
proof -
  have len: "length p = 48" and magic: "take 4 p = ''LFS1''" and token: "token = take 36 (drop 4 p)"
      and valid: "IsValidLanceScanToken h token" and id: "TryReadUint64LittleEndian p 40 = Some fragment_id"
    using assms by (auto simp: DecodeLanceFragmentSplit_def payload_defs Let_def split: if_splits)
  have "p = take 4 p @ take 36 (drop 4 p) @ take 8 (drop 40 p)"
    using len take_drop_join [of 36 4 p] by simp
  then show ?thesis
    using magic token valid read_is_le_bytes [OF id] by simp
qed

lemma decode_fragment_iff:
  "DecodeLanceFragmentSplit h p = Some (token, fragment_id) \<longleftrightarrow> EncodeLanceFragmentSplit h token fragment_id = Inr p"
  using DecodeLanceFragmentSplit_encodes decode_fragment_payload by (auto simp: EncodeLanceFragmentSplit_payload)


section \<open>Take payloads\<close>

lemma append_all: "foldl AppendUint64LittleEndian out vs = out @ concat (map le_bytes vs)"
  by (induction vs arbitrary: out) (simp_all add: AppendUint64_le_bytes)

lemma length_le_bytes_all [simp]: "length (concat (map le_bytes vs)) = 8 * length vs"
  by (induction vs) simp_all

lemma EncodeLanceTakeSplit_payload:
  "EncodeLanceTakeSplit h token row_ids b e = Inr p \<longleftrightarrow>
     IsValidLanceScanToken h token \<and>
     p = ''LTS1'' @ token @ le_bytes (word_of_nat b) @ concat (map le_bytes (take (e - b) (drop b row_ids)))"
  by (auto simp: EncodeLanceTakeSplit_def payload_defs append_all)

lemma read_row_ids_bytes:
  "offset = length out \<Longrightarrow> read_row_ids (out @ concat (map le_bytes vs)) offset (length vs) = Some vs"
proof (induction vs arbitrary: out offset)
  case (Cons v vs)
  then have "read_row_ids ((out @ le_bytes v) @ concat (map le_bytes vs)) (offset + 8) (length vs) = Some vs"
    by (intro Cons.IH) simp
  then show ?case
    using Cons.prems by (simp add: read_le_bytes)
qed simp

lemma decode_take_payload:
  assumes "IsValidLanceScanToken h token" and "vs \<noteq> []"
  shows "DecodeLanceTakeSplit h (''LTS1'' @ token @ le_bytes b @ concat (map le_bytes vs)) = Some (token, b, vs)"
  using assms read_le_bytes [of 40 "''LTS1'' @ token" b "concat (map le_bytes vs)"]
    read_row_ids_bytes [of 48 "''LTS1'' @ token @ le_bytes b" vs]
  by (simp add: DecodeLanceTakeSplit_def payload_defs Let_def)

lemma take_payload_not_fragment: "DecodeLanceFragmentSplit h (''LTS1'' @ r) = None"
  by (simp add: DecodeLanceFragmentSplit_def payload_defs Let_def)

lemma read_row_ids_is_bytes:
  assumes "read_row_ids p offset n = Some vs"
  shows "length vs = n \<and> take (8 * n) (drop offset p) = concat (map le_bytes vs)"
  using assms
proof (induction p offset n arbitrary: vs rule: read_row_ids.induct)
  case (2 p offset n)
  then obtain v ws where v: "TryReadUint64LittleEndian p offset = Some v"
      and ws: "read_row_ids p (offset + 8) n = Some ws" and vs: "vs = v # ws"
    by (auto split: option.splits)
  have "take (8 * Suc n) (drop offset p) = take 8 (drop offset p) @ take (8 * n) (drop (offset + 8) p)"
    using take_add [of 8 "8 * n" "drop offset p"] by (simp add: add.commute)
  then show ?case
    using 2(1) [OF v ws] read_is_le_bytes [OF v] vs by simp
qed simp

lemma DecodeLanceTakeSplit_encodes:
  assumes "DecodeLanceTakeSplit h p = Some (token, b, vs)"
  shows "IsValidLanceScanToken h token \<and> vs \<noteq> [] \<and> p = ''LTS1'' @ token @ le_bytes b @ concat (map le_bytes vs)"
proof -
  define n where "n = (length p - 48) div 8"
  have len: "length p > 48" and dvd: "(length p - 48) mod 8 = 0" and magic: "take 4 p = ''LTS1''"
      and token: "token = take 36 (drop 4 p)" and valid: "IsValidLanceScanToken h token"
      and first: "TryReadUint64LittleEndian p 40 = Some b" and rows: "read_row_ids p 48 n = Some vs"
    using assms by (auto simp: DecodeLanceTakeSplit_def payload_defs Let_def n_def split: if_splits option.splits)
  have n: "8 * n = length p - 48"
    using dvd by (auto simp: n_def)
  have "p = take 4 p @ take 36 (drop 4 p) @ take 8 (drop 40 p) @ take (8 * n) (drop 48 p)"
    using n len take_drop_join [of 36 4 p] take_drop_join [of 8 40 p] by simp
  then show ?thesis
    using magic token valid read_is_le_bytes [OF first] read_row_ids_is_bytes [OF rows] n len by auto
qed

end
