(* ===== verification/Splits_Correct.thy ===== *)
theory Splits_Correct
  imports Splits_Codec "HOL-Library.Multiset"
begin

text \<open>
  Distributed scans: which splits a worker accepts, what it selects for them, and that a plan given
  out in any parts is scanned exactly once.
\<close>

section \<open>What one split asks for\<close>

text \<open>
  The fragment, or the first row and the row ids, of a split that \<open>w\<close> accepts by itself; they depend on
  its identifier and payload, and on its validity.
\<close>

definition named :: "DistributedScanSplit \<Rightarrow> string \<times> string" where
  "named s = (split_id s, payload s)"

definition fragment_named :: "scan_host \<Rightarrow> LanceScanBind \<Rightarrow> string \<times> string \<Rightarrow> u64 option" where
  "fragment_named h w a =
     (case DecodeLanceFragmentSplit h (snd a) of
        Some (token, i) \<Rightarrow>
          if token = distributed_scan_token w \<and> fst a = ''fragment:'' @ word_text i \<and>
             (distributed_authorization_restricted w \<or> take_row_ids w = []) then Some i else None
      | None \<Rightarrow> None)"

definition rows_named :: "scan_host \<Rightarrow> LanceScanBind \<Rightarrow> string \<times> string \<Rightarrow> (u64 \<times> u64 list) option" where
  "rows_named h w a =
     (case (DecodeLanceFragmentSplit h (snd a), DecodeLanceTakeSplit h (snd a)) of
        (None, Some (token, b, vs)) \<Rightarrow>
          if token = distributed_scan_token w \<and> fst a = ''take:'' @ word_text b \<and>
             unat b + length vs < 2 ^ 64 \<and>
             (distributed_authorization_restricted w \<or>
              take_row_ids w \<noteq> [] \<and> unat b + length vs \<le> length (take_row_ids w) \<and>
              vs = take (length vs) (drop (unat b) (take_row_ids w)))
          then Some (b, vs) else None
      | _ \<Rightarrow> None)"

definition fragment_of :: "scan_host \<Rightarrow> LanceScanBind \<Rightarrow> DistributedScanSplit \<Rightarrow> u64 option" where
  "fragment_of h w s = (case ValidateSplit h s of Inr _ \<Rightarrow> fragment_named h w (named s) | Inl _ \<Rightarrow> None)"

definition rows_of :: "scan_host \<Rightarrow> LanceScanBind \<Rightarrow> DistributedScanSplit \<Rightarrow> (u64 \<times> u64 list) option" where
  "rows_of h w s = (case ValidateSplit h s of Inr _ \<Rightarrow> rows_named h w (named s) | Inl _ \<Rightarrow> None)"

lemmas split_defs = fragment_of_def rows_of_def fragment_named_def rows_named_def named_def

lemma not_both: "fragment_of h w s = Some i \<Longrightarrow> rows_of h w s = None"
  by (auto simp: split_defs split: sum.splits option.splits)

lemma rows_of_nonempty: "rows_of h w s = Some (b, vs) \<Longrightarrow> vs \<noteq> []"
  using DecodeLanceTakeSplit_encodes [of h "payload s"]
  by (auto simp: split_defs split: sum.splits option.splits if_splits)

definition range_of :: "u64 \<times> u64 list \<Rightarrow> u64 \<times> u64" where
  "range_of r = (fst r, fst r + word_of_nat (length (snd r)))"

lemma fits_word: "18446744073709551615 - unat (b :: u64) < n \<longleftrightarrow> \<not> unat b + n < 18446744073709551616"
proof -
  have "unat b < 2 ^ LENGTH(64)"
    by (rule unsigned_less)
  then show ?thesis
    by auto
qed

lemma apply_split_fragment:
  "apply_split h w st s = Inr st' \<Longrightarrow> DecodeLanceFragmentSplit h (payload s) \<noteq> None \<Longrightarrow>
     \<exists>i. fragment_of h w s = Some i \<and> mode st \<noteq> TAKE \<and> i \<notin> set (st_fragment_ids st) \<and>
        st' = st\<lparr>mode := FRAGMENT, st_fragment_ids := st_fragment_ids st @ [i]\<rparr>"
  by (auto simp: apply_split_def apply_fragment_def split_defs res_bind_Inr_iff split: if_splits)

lemma fragment_applies:
  "fragment_of h w s = Some i \<Longrightarrow> mode st \<noteq> TAKE \<Longrightarrow> i \<notin> set (st_fragment_ids st) \<Longrightarrow>
     apply_split h w st s = Inr (st\<lparr>mode := FRAGMENT, st_fragment_ids := st_fragment_ids st @ [i]\<rparr>)"
  by (auto simp: apply_split_def apply_fragment_def split_defs split: sum.splits option.splits if_splits)

lemma apply_split_take:
  "apply_split h w st s = Inr st' \<Longrightarrow> DecodeLanceFragmentSplit h (payload s) = None \<Longrightarrow>
     \<exists>r. rows_of h w s = Some r \<and> mode st \<noteq> FRAGMENT \<and>
        st' = st\<lparr>mode := TAKE, take_ranges := take_ranges st @ [range_of r],
                 st_take_row_ids := st_take_row_ids st @ snd r\<rparr>"
  by (auto simp: apply_split_def apply_take_def split_defs range_of_def Let_def res_bind_Inr_iff fits_word
      split: if_splits option.splits)

lemma rows_apply:
  "rows_of h w s = Some r \<Longrightarrow> mode st \<noteq> FRAGMENT \<Longrightarrow>
     apply_split h w st s =
       Inr (st\<lparr>mode := TAKE, take_ranges := take_ranges st @ [range_of r], st_take_row_ids := st_take_row_ids st @ snd r\<rparr>)"
  by (auto simp: apply_split_def apply_take_def split_defs range_of_def Let_def fits_word
      split: sum.splits option.splits if_splits)

text \<open>What a whole list of splits asks for.\<close>

definition all_fragments :: "scan_host \<Rightarrow> LanceScanBind \<Rightarrow> DistributedScanSplit list \<Rightarrow> u64 list \<Rightarrow> bool" where
  "all_fragments h w splits ids \<longleftrightarrow> map (fragment_of h w) splits = map Some ids"

definition all_rows :: "scan_host \<Rightarrow> LanceScanBind \<Rightarrow> DistributedScanSplit list \<Rightarrow> (u64 \<times> u64 list) list \<Rightarrow> bool" where
  "all_rows h w splits rs \<longleftrightarrow> map (rows_of h w) splits = map Some rs"

lemma fold_fragments:
  assumes "all_fragments h w splits ids" and "mode st = FRAGMENT" and "distinct (st_fragment_ids st @ ids)"
  shows "res_foldl (apply_split h w) st splits = Inr (st\<lparr>st_fragment_ids := st_fragment_ids st @ ids\<rparr>)"
  using assms
proof (induction splits arbitrary: st ids)
  case (Cons s splits)
  then obtain i js where "ids = i # js" and "fragment_of h w s = Some i" and "all_fragments h w splits js"
    by (auto simp: all_fragments_def)
  then show ?case
    using Cons.prems Cons.IH [of js "st\<lparr>mode := FRAGMENT, st_fragment_ids := st_fragment_ids st @ [i]\<rparr>"]
    by (simp add: fragment_applies)
qed (simp add: all_fragments_def)

lemma fold_rows:
  assumes "all_rows h w splits rs" and "mode st = TAKE"
  shows "res_foldl (apply_split h w) st splits =
    Inr (st\<lparr>take_ranges := take_ranges st @ map range_of rs, st_take_row_ids := st_take_row_ids st @ concat (map snd rs)\<rparr>)"
  using assms
proof (induction splits arbitrary: st rs)
  case (Cons s splits)
  then obtain r js where "rs = r # js" and "rows_of h w s = Some r" and "all_rows h w splits js"
    by (auto simp: all_rows_def)
  then show ?case
    using Cons.prems Cons.IH [of js "st\<lparr>mode := TAKE, take_ranges := take_ranges st @ [range_of r],
        st_take_row_ids := st_take_row_ids st @ snd r\<rparr>"]
    by (simp add: rows_apply)
qed (simp add: all_rows_def)

lemma foldl_fragments:
  assumes "res_foldl (apply_split h w) st splits = Inr st'" and "mode st = FRAGMENT" and "distinct (st_fragment_ids st)"
  shows "\<exists>ids. all_fragments h w splits ids \<and> distinct (st_fragment_ids st @ ids)"
  using assms
proof (induction splits arbitrary: st)
  case (Cons s splits)
  then obtain st1 where st1: "apply_split h w st s = Inr st1" and rest: "res_foldl (apply_split h w) st1 splits = Inr st'"
    by (auto simp: res_bind_Inr_iff)
  then have "DecodeLanceFragmentSplit h (payload s) \<noteq> None"
    using apply_split_take [OF st1] Cons.prems(2) by blast
  then obtain i where i: "fragment_of h w s = Some i" "i \<notin> set (st_fragment_ids st)"
      "st1 = st\<lparr>mode := FRAGMENT, st_fragment_ids := st_fragment_ids st @ [i]\<rparr>"
    using apply_split_fragment [OF st1] by auto
  then obtain ids where "all_fragments h w splits ids" and "distinct (st_fragment_ids st1 @ ids)"
    using Cons.IH [OF rest] Cons.prems(3) by auto
  then show ?case
    using i by (intro exI [of _ "i # ids"]) (simp add: all_fragments_def)
qed (simp add: all_fragments_def)

lemma foldl_rows:
  assumes "res_foldl (apply_split h w) st splits = Inr st'" and "mode st = TAKE"
  shows "\<exists>rs. all_rows h w splits rs"
  using assms
proof (induction splits arbitrary: st)
  case (Cons s splits)
  then obtain st1 where st1: "apply_split h w st s = Inr st1" and rest: "res_foldl (apply_split h w) st1 splits = Inr st'"
    by (auto simp: res_bind_Inr_iff)
  then have "DecodeLanceFragmentSplit h (payload s) = None"
    using apply_split_fragment [OF st1] Cons.prems(2) by metis
  then obtain r where r: "rows_of h w s = Some r" "mode st1 = TAKE"
    using apply_split_take [OF st1] by auto
  then obtain rs where "all_rows h w splits rs"
    using Cons.IH [OF rest] by auto
  then show ?case
    using r by (intro exI [of _ "r # rs"]) (simp add: all_rows_def)
qed (auto simp: all_rows_def)

definition fragments_state :: "u64 list \<Rightarrow> apply_state" where
  "fragments_state ids = \<lparr>mode = FRAGMENT, st_fragment_ids = ids, st_take_row_ids = [], take_ranges = []\<rparr>"

definition rows_state :: "(u64 \<times> u64 list) list \<Rightarrow> apply_state" where
  "rows_state rs = \<lparr>mode = TAKE, st_fragment_ids = [], st_take_row_ids = concat (map snd rs), take_ranges = map range_of rs\<rparr>"

lemma fold_from_start_fragments:
  "all_fragments h w splits ids \<Longrightarrow> distinct ids \<Longrightarrow> splits \<noteq> [] \<Longrightarrow>
     res_foldl (apply_split h w) start_state splits = Inr (fragments_state ids)"
  by (cases splits; cases ids)
    (auto simp: all_fragments_def start_state_def fragment_applies fragments_state_def fold_fragments)

lemma fold_from_start_rows:
  "all_rows h w splits rs \<Longrightarrow> splits \<noteq> [] \<Longrightarrow>
     res_foldl (apply_split h w) start_state splits = Inr (rows_state rs)"
  by (cases splits; cases rs)
    (auto simp: all_rows_def start_state_def rows_apply rows_state_def fold_rows)

text \<open>A list of splits is taken when all of them are fragments, each once, or all of them are rows.\<close>

lemma fold_from_start_iff:
  assumes "splits \<noteq> []"
  shows "res_foldl (apply_split h w) start_state splits = Inr st \<longleftrightarrow>
    (\<exists>ids. all_fragments h w splits ids \<and> distinct ids \<and> st = fragments_state ids) \<or>
    (\<exists>rs. all_rows h w splits rs \<and> st = rows_state rs)" (is "?L \<longleftrightarrow> ?F \<or> ?R")
proof
  assume L: ?L
  obtain s ss where splits: "splits = s # ss"
    using assms by (cases splits) auto
  then obtain st1 where st1: "apply_split h w start_state s = Inr st1" and rest: "res_foldl (apply_split h w) st1 ss = Inr st"
    using L by (auto simp: res_bind_Inr_iff)
  show "?F \<or> ?R"
  proof (cases "DecodeLanceFragmentSplit h (payload s)")
    case None
    then obtain r where "rows_of h w s = Some r" and "mode st1 = TAKE"
      using apply_split_take [OF st1] by auto
    then obtain rs where "all_rows h w splits (r # rs)"
      using foldl_rows [OF rest] splits by (auto simp: all_rows_def)
    then show ?thesis
      using L fold_from_start_rows [OF _ assms] by auto
  next
    case (Some f)
    then obtain i where i: "fragment_of h w s = Some i" "mode st1 = FRAGMENT" "st_fragment_ids st1 = [i]"
      using apply_split_fragment [OF st1] by (auto simp: start_state_def)
    then obtain ids where "all_fragments h w splits (i # ids)" and "distinct (i # ids)"
      using foldl_fragments [OF rest] splits by (auto simp: all_fragments_def)
    then show ?thesis
      using L fold_from_start_fragments [OF _ _ assms] by auto
  qed
qed (auto simp: fold_from_start_fragments [OF _ _ assms] fold_from_start_rows [OF _ assms])


section \<open>Applying a list of splits\<close>

definition authorization :: "DistributedScanSplit list \<Rightarrow> (string \<times> string) list" where
  "authorization splits = sort (map named splits)"

definition authorized :: "LanceScanBind \<Rightarrow> DistributedScanSplit list \<Rightarrow> bool" where
  "authorized w splits \<longleftrightarrow> map fst (authorization splits) = distributed_authorized_split_ids w \<and>
     map snd (authorization splits) = distributed_authorized_split_payloads w"

definition assigned :: "LanceScanBind \<Rightarrow> DistributedScanSplit list \<Rightarrow> apply_state \<Rightarrow> LanceScanBind" where
  "assigned w splits st = w\<lparr>distributed_authorization_restricted := True,
     distributed_authorized_split_ids := map fst (authorization splits),
     distributed_authorized_split_payloads := map snd (authorization splits),
     selected_fragment_ids := st_fragment_ids st, take_row_ids := st_take_row_ids st,
     distributed_splits_applied := True\<rparr>"

lemma apply_splits_iff:
  assumes "splits \<noteq> []"
  shows "LanceApplyDistributedScanSplits h w splits = Inr w' \<longleftrightarrow>
    distributed_worker w \<and> (distributed_authorization_restricted w \<longrightarrow> authorized w splits) \<and>
    (\<exists>st. res_foldl (apply_split h w) start_state splits = Inr st \<and> \<not> overlapping (sort (take_ranges st)) \<and>
       w' = assigned w splits st)"
  using assms
  by (auto simp: LanceApplyDistributedScanSplits_def authorized_def authorization_def assigned_def Let_def named_def [abs_def]
      res_bind_Inr_iff split: if_splits)

lemma apply_no_splits:
  "LanceApplyDistributedScanSplits h w [] = Inr w' \<longleftrightarrow>
    distributed_worker w \<and> (distributed_authorization_restricted w \<longrightarrow> authorized w []) \<and>
    w' = assigned w [] start_state"
  by (auto simp: LanceApplyDistributedScanSplits_def authorized_def authorization_def assigned_def start_state_def Let_def)


section \<open>Work\<close>

datatype scan_work = Fragment u64 | Row u64

definition selected_work :: "LanceScanBind \<Rightarrow> scan_work list" where
  "selected_work w = map Fragment (selected_fragment_ids w) @ map Row (take_row_ids w)"

definition split_work :: "scan_host \<Rightarrow> LanceScanBind \<Rightarrow> DistributedScanSplit \<Rightarrow> scan_work list" where
  "split_work h w s =
     (case fragment_of h w s of
        Some i \<Rightarrow> [Fragment i]
      | None \<Rightarrow> (case rows_of h w s of Some r \<Rightarrow> map Row (snd r) | None \<Rightarrow> []))"

lemma fragments_split_work: "all_fragments h w splits ids \<Longrightarrow> concat (map (split_work h w) splits) = map Fragment ids"
  by (induction splits arbitrary: ids) (auto simp: all_fragments_def split_work_def)

lemma fragments_work:
  "all_fragments h w splits ids \<Longrightarrow>
     selected_work (assigned w ss (fragments_state ids)) = concat (map (split_work h w) splits)"
  by (simp add: fragments_split_work selected_work_def assigned_def fragments_state_def)

lemma rows_split_work:
  assumes "all_rows h w splits rs"
  shows "concat (map (split_work h w) splits) = map Row (concat (map snd rs))"
proof -
  have no: "fragment_of h w s = None" if "rows_of h w s = Some r" for s r
    using not_both [of h w s] that by (cases "fragment_of h w s") auto
  show ?thesis
    using assms by (induction splits arbitrary: rs) (auto simp: all_rows_def split_work_def no)
qed

lemma rows_work:
  "all_rows h w splits rs \<Longrightarrow>
     selected_work (assigned w ss (rows_state rs)) = concat (map (split_work h w) splits)"
  by (simp add: rows_split_work selected_work_def assigned_def rows_state_def)

lemma no_work: "selected_work (assigned w ss start_state) = []"
  by (simp add: selected_work_def assigned_def start_state_def)

text \<open>Options that are all present, and parts of such a list.\<close>

lemma all_some_iff: "map f xs = map Some ys \<longleftrightarrow> (\<forall>x\<in>set xs. f x \<noteq> None) \<and> ys = map (the \<circ> f) xs"
  by (induction xs arbitrary: ys) (auto simp: Cons_eq_map_conv)

lemma all_some_part:
  assumes "map f xs = map Some ys" and "mset xs' \<subseteq># mset xs"
  shows "\<exists>ys'. map f xs' = map Some ys' \<and> mset ys' \<subseteq># mset ys"
proof -
  have "set xs' \<subseteq> set xs"
    using set_mset_mono [OF assms(2)] by simp
  moreover have "mset (map (the \<circ> f) xs') \<subseteq># mset (map (the \<circ> f) xs)"
    using image_mset_subseteq_mono [OF assms(2)] by simp
  ultimately show ?thesis
    using assms(1) by (intro exI [of _ "map (the \<circ> f) xs'"]) (auto simp: all_some_iff)
qed

lemma distinct_part: "mset xs \<subseteq># mset ys \<Longrightarrow> distinct ys \<Longrightarrow> distinct xs"
proof -
  assume part: "mset xs \<subseteq># mset ys" and ys: "distinct ys"
  obtain M where "mset ys = mset xs + M"
    using part by (auto simp: subset_mset.le_iff_add)
  moreover obtain zs where "mset zs = M"
    using ex_mset [of M] by auto
  ultimately have "mset ys = mset (xs @ zs)"
    by simp
  then show ?thesis
    using ys mset_eq_imp_distinct_iff by fastforce
qed

lemma mset_concat_map: "mset xs = mset ys \<Longrightarrow> mset (concat (map f xs)) = mset (concat (map f ys))"
proof -
  have "mset (concat (map f zs)) = (\<Sum>z\<in>#mset zs. mset (f z))" for zs
    by (induction zs) simp_all
  then show "mset xs = mset ys \<Longrightarrow> ?thesis"
    by simp
qed

lemma part_of_concat: "part \<in> set parts \<Longrightarrow> mset part \<subseteq># mset (concat parts)"
  by (drule split_list) auto


section \<open>Giving out a plan\<close>

text \<open>
  A client of a scheduler: \<open>assign\<close> gives a part of the splits to a copy of the scan.  When every part
  of what is offered is accepted and selects the work of its splits, parts that make up the plan
  select the work of the plan, each piece once.
\<close>

locale split_scheduling =
  fixes offered :: "'x \<Rightarrow> 's list \<Rightarrow> bool"
    and assign :: "'x \<Rightarrow> 's list \<Rightarrow> 'e + 'c"
    and work :: "'x \<Rightarrow> 's \<Rightarrow> 'w list"
    and selected :: "'c \<Rightarrow> 'w list"
  assumes offered_part: "offered x plan \<Longrightarrow> mset part \<subseteq># mset plan \<Longrightarrow> offered x part"
    and assign_offered: "offered x part \<Longrightarrow>
      \<exists>c. assign x part = Inr c \<and> mset (selected c) = mset (concat (map (work x) part))"
begin

lemma parts_assigned:
  assumes "\<forall>part\<in>set parts. offered x part"
  shows "\<exists>cs. res_map (assign x) parts = Inr cs \<and>
    mset (concat (map selected cs)) = mset (concat (map (work x) (concat parts)))"
  using assms
proof (induction parts)
  case (Cons part parts)
  then obtain c cs where "assign x part = Inr c" and "mset (selected c) = mset (concat (map (work x) part))"
      and "res_map (assign x) parts = Inr cs"
      and "mset (concat (map selected cs)) = mset (concat (map (work x) (concat parts)))"
    using assign_offered by force
  then show ?case
    by simp
qed simp

lemma exactly_once:
  assumes "offered x plan" and "mset (concat parts) = mset plan"
  shows "\<exists>cs. res_map (assign x) parts = Inr cs \<and>
    mset (concat (map selected cs)) = mset (concat (map (work x) plan))"
proof -
  have "mset part \<subseteq># mset plan" if "part \<in> set parts" for part
    using part_of_concat [OF that] assms(2) by simp
  then have "\<forall>part\<in>set parts. offered x part"
    using offered_part [OF assms(1)] by blast
  moreover have "mset (concat (map (work x) (concat parts))) = mset (concat (map (work x) plan))"
    using assms(2) by (rule mset_concat_map)
  ultimately show ?thesis
    using parts_assigned by metis
qed

end


section \<open>Ranges of rows\<close>

definition apart :: "(u64 \<times> u64) list \<Rightarrow> bool" where
  "apart rs \<longleftrightarrow> distinct rs \<and> (\<forall>r\<in>set rs. fst r < snd r) \<and>
     (\<forall>r\<in>set rs. \<forall>s\<in>set rs. r \<noteq> s \<longrightarrow> snd r \<le> fst s \<or> snd s \<le> fst r)"

lemma apart_part: "apart rs \<Longrightarrow> mset ss \<subseteq># mset rs \<Longrightarrow> apart ss"
proof -
  assume rs: "apart rs" and part: "mset ss \<subseteq># mset rs"
  then have "set ss \<subseteq> set rs" and "distinct ss"
    using set_mset_mono [OF part] distinct_part [OF part] by (simp_all add: apart_def)
  then show ?thesis
    using rs unfolding apart_def by blast
qed

lemma apart_no_overlap:
  assumes "apart rs"
  shows "\<not> overlapping (sort rs)"
proof -
  have "\<not> overlapping ss" if "sorted ss" and "apart ss" for ss
    using that
  proof (induction ss rule: overlapping.induct)
    case (1 r s rs)
    then have "r \<noteq> s" and "fst r \<le> fst s" and "fst s < snd s" and "snd r \<le> fst s \<or> snd s \<le> fst r"
      by (auto simp: apart_def less_eq_prod_def)
    moreover have "\<not> overlapping (s # rs)"
      using 1 by (auto simp: apart_def)
    ultimately show ?case
      by auto
  qed simp_all
  then show ?thesis
    using assms apart_part [of rs "sort rs"] by simp
qed

definition row_slice :: "'a list \<Rightarrow> u64 \<times> u64 \<Rightarrow> 'a list" where
  "row_slice xs r = take (unat (snd r) - unat (fst r)) (drop (unat (fst r)) xs)"

lemma slice_drop:
  assumes "k \<le> unat (fst r)" and "fst r \<le> snd r"
  shows "mset (row_slice xs r) + mset (drop (unat (snd r)) xs) \<subseteq># mset (drop k xs)"
proof -
  have "unat (fst r) \<le> unat (snd r)"
    using assms(2) by (simp add: word_le_nat_alt)
  then have "drop k xs = take (unat (fst r) - k) (drop k xs) @ row_slice xs r @ drop (unat (snd r)) xs"
    using assms(1) take_drop_join [of "unat (snd r) - unat (fst r)" "unat (fst r)" xs]
      take_drop_join [of "unat (fst r) - k" k xs] by (simp add: row_slice_def)
  then show ?thesis
    by (metis mset_append mset_subset_eq_add_right)
qed

lemma slices_once:
  assumes "\<not> overlapping rs" and "\<forall>r\<in>set rs. fst r \<le> snd r" and "rs \<noteq> [] \<longrightarrow> k \<le> unat (fst (hd rs))"
  shows "mset (concat (map (row_slice xs) rs)) \<subseteq># mset (drop k xs)"
  using assms
proof (induction rs arbitrary: k rule: overlapping.induct [case_names two none one])
  case (two r s rs)
  then have "mset (concat (map (row_slice xs) (s # rs))) \<subseteq># mset (drop (unat (snd r)) xs)"
    by (intro two.IH) (auto simp: word_le_nat_alt not_less)
  moreover have "mset (row_slice xs r) + mset (drop (unat (snd r)) xs) \<subseteq># mset (drop k xs)"
    using two by (intro slice_drop) auto
  ultimately show ?case
    by (simp add: subset_mset.dual_order.trans subset_mset.add_left_mono)
next
  case (one r)
  then have "mset (row_slice xs r) + mset (drop (unat (snd r)) xs) \<subseteq># mset (drop k xs)"
    by (intro slice_drop) auto
  then show ?case
    by (simp add: subset_mset.order_trans [OF mset_subset_eq_add_left])
qed simp_all

lemma rows_of_slice:
  assumes "rows_of h w s = Some r" and "\<not> distributed_authorization_restricted w"
  shows "snd r = row_slice (take_row_ids w) (range_of r)" and "fst (range_of r) < snd (range_of r)"
proof -
  obtain b vs where r: "r = (b, vs)" and len: "unat b + length vs < 2 ^ 64"
      and vs: "vs = take (length vs) (drop (unat b) (take_row_ids w))"
    using assms by (auto simp: split_defs split: sum.splits option.splits if_splits)
  have "unat (b + word_of_nat (length vs)) = unat b + length vs"
    using len by (simp add: unat_word_ariths unat_of_nat)
  then show "snd r = row_slice (take_row_ids w) (range_of r)" and "fst (range_of r) < snd (range_of r)"
    using vs rows_of_nonempty [of h w s b vs] assms(1) by (simp_all add: r row_slice_def range_of_def word_less_nat_alt)
qed

lemma accepted_rows_once:
  assumes "all_rows h w splits rs" and "\<not> distributed_authorization_restricted w"
    and "\<not> overlapping (sort (map range_of rs))"
  shows "mset (concat (map snd rs)) \<subseteq># mset (take_row_ids w)"
proof -
  have some: "\<exists>s. rows_of h w s = Some r" if "r \<in> set rs" for r
    using assms(1) that by (auto simp: all_rows_def all_some_iff)
  have forward: "fst (range_of r) \<le> snd (range_of r)" if "r \<in> set rs" for r
    using some [OF that] rows_of_slice(2) [OF _ assms(2)] by (blast intro: less_imp_le)
  have "concat (map snd rs) = concat (map (row_slice (take_row_ids w)) (map range_of rs))"
    using some rows_of_slice(1) [OF _ assms(2)] by (force intro!: arg_cong [where f = concat])
  moreover have "mset (concat (map (row_slice (take_row_ids w)) (map range_of rs))) =
      mset (concat (map (row_slice (take_row_ids w)) (sort (map range_of rs))))"
    by (rule mset_concat_map) simp
  moreover have "mset (concat (map (row_slice (take_row_ids w)) (sort (map range_of rs)))) \<subseteq># mset (drop 0 (take_row_ids w))"
    by (rule slices_once [OF assms(3)]) (simp_all add: forward)
  ultimately show ?thesis
    by simp
qed


section \<open>The two kinds of plan\<close>

definition fragments_offered :: "scan_host \<times> LanceScanBind \<Rightarrow> DistributedScanSplit list \<Rightarrow> bool" where
  "fragments_offered x splits \<longleftrightarrow>
     distributed_worker (snd x) \<and> \<not> distributed_authorization_restricted (snd x) \<and>
     (\<exists>ids. all_fragments (fst x) (snd x) splits ids \<and> distinct ids)"

definition rows_offered :: "scan_host \<times> LanceScanBind \<Rightarrow> DistributedScanSplit list \<Rightarrow> bool" where
  "rows_offered x splits \<longleftrightarrow>
     distributed_worker (snd x) \<and> \<not> distributed_authorization_restricted (snd x) \<and>
     (\<exists>rs. all_rows (fst x) (snd x) splits rs \<and> apart (map range_of rs))"

lemma fragments_assigned:
  assumes "fragments_offered (h, w) splits"
  shows "\<exists>w'. LanceApplyDistributedScanSplits h w splits = Inr w' \<and>
    mset (selected_work w') = mset (concat (map (split_work h w) splits))"
proof (cases "splits = []")
  case True
  then show ?thesis
    using assms by (simp add: apply_no_splits fragments_offered_def no_work)
next
  case False
  obtain ids where ids: "all_fragments h w splits ids" "distinct ids"
    using assms by (auto simp: fragments_offered_def)
  then have "LanceApplyDistributedScanSplits h w splits = Inr (assigned w splits (fragments_state ids))"
    using assms False by (auto simp: apply_splits_iff fragments_offered_def fold_from_start_fragments)
      (simp add: fragments_state_def)
  then show ?thesis
    using fragments_work [OF ids(1)] by auto
qed

lemma rows_assigned:
  assumes "rows_offered (h, w) splits"
  shows "\<exists>w'. LanceApplyDistributedScanSplits h w splits = Inr w' \<and>
    mset (selected_work w') = mset (concat (map (split_work h w) splits))"
proof (cases "splits = []")
  case True
  then show ?thesis
    using assms by (simp add: apply_no_splits rows_offered_def no_work)
next
  case False
  obtain rs where rs: "all_rows h w splits rs" "apart (map range_of rs)"
    using assms by (auto simp: rows_offered_def)
  then have "LanceApplyDistributedScanSplits h w splits = Inr (assigned w splits (rows_state rs))"
    using assms False apart_no_overlap [OF rs(2)]
    by (auto simp: apply_splits_iff rows_offered_def fold_from_start_rows) (simp add: rows_state_def)
  then show ?thesis
    using rows_work [OF rs(1)] by auto
qed

interpretation fragment_plan: split_scheduling fragments_offered "\<lambda>x. LanceApplyDistributedScanSplits (fst x) (snd x)"
    "\<lambda>x. split_work (fst x) (snd x)" selected_work
proof
  show "fragments_offered x part" if "fragments_offered x plan" and "mset part \<subseteq># mset plan" for x plan part
    using that all_some_part [OF _ that(2)] distinct_part unfolding fragments_offered_def all_fragments_def by metis
qed (metis fragments_assigned prod.collapse)

interpretation row_plan: split_scheduling rows_offered "\<lambda>x. LanceApplyDistributedScanSplits (fst x) (snd x)"
    "\<lambda>x. split_work (fst x) (snd x)" selected_work
proof
  show "rows_offered x part" if offered: "rows_offered x plan" and part: "mset part \<subseteq># mset plan" for x plan part
  proof -
    obtain rs where "all_rows (fst x) (snd x) plan rs" and apart: "apart (map range_of rs)"
      using offered by (auto simp: rows_offered_def)
    then obtain ss where ss: "all_rows (fst x) (snd x) part ss" "mset ss \<subseteq># mset rs"
      using all_some_part [OF _ part] unfolding all_rows_def by metis
    have "apart (map range_of ss)"
      using image_mset_subseteq_mono [OF ss(2), of range_of] by (intro apart_part [OF apart]) simp
    then show ?thesis
      using ss(1) offered by (auto simp: rows_offered_def)
  qed
qed (metis rows_assigned prod.collapse)

end
