(* ===== verification/Splits_Plan.thy ===== *)
theory Splits_Plan
  imports Splits_Correct
begin

text \<open>
  The coordinator's plan is what the workers accept, a restricted worker repeats its assignment and
  no other, and a serialised scan is the worker's copy of it.
\<close>

section \<open>Plans\<close>

lemma worker_bind:
  assumes "LanceCreateDistributedScanWorkerBind h ffi err sf list_stats b = Inr w"
  shows "distributed_worker w"
    and "distributed_authorization_restricted w = distributed_authorization_restricted b"
    and "distributed_scan_token w = distributed_scan_token b"
    and "take_row_ids w = take_row_ids b"
  using assms
  by (auto simp: LanceCreateDistributedScanWorkerBind_def res_bind_Inr_iff Let_def NewLanceScanBindData_def
      split: if_splits)

lemma fragment_split_of:
  assumes "fragment_split h token f = Inr s" and "ValidateSplit h s = Inr ()"
    and "distributed_scan_token w = token" and "take_row_ids w = []"
  shows "fragment_of h w s = Some (fst f)"
  using assms
  by (auto simp: fragment_split_def split_defs res_bind_Inr_iff EncodeLanceFragmentSplit_payload
      decode_fragment_payload [simplified] split: prod.splits)

lemma fragment_splits_offered:
  assumes "res_map (fragment_split h (distributed_scan_token w)) fs = Inr splits"
    and "\<forall>s\<in>set splits. ValidateSplit h s = Inr ()" and "take_row_ids w = []"
  shows "all_fragments h w splits (map fst fs)"
proof -
  have "list_all2 (\<lambda>f s. fragment_split h (distributed_scan_token w) f = Inr s) fs splits"
    using assms(1) by (simp add: res_map_Inr_list_all2)
  then have "list_all2 (\<lambda>f s. fragment_of h w s = Some (fst f)) fs splits"
    using assms(2,3) by (auto simp: list_all2_conv_all_nth intro!: fragment_split_of)
  then show ?thesis
    unfolding all_fragments_def by (induction rule: list_all2_induct) simp_all
qed

lemma small_word: "b < 2 ^ 64 \<Longrightarrow> unat (word_of_nat b :: u64) = b"
  by (simp add: unat_of_nat)

lemma take_split_of:
  assumes "EncodeLanceTakeSplit h (distributed_scan_token w) (take_row_ids w) b e = Inr (payload s)"
    and "split_id s = ''take:'' @ nat_to_string b" and "ValidateSplit h s = Inr ()"
    and "b < e" and "e \<le> length (take_row_ids w)" and "length (take_row_ids w) < 2 ^ 64"
  shows "rows_of h w s = Some (word_of_nat b, take (e - b) (drop b (take_row_ids w)))"
proof -
  let ?vs = "take (e - b) (drop b (take_row_ids w))"
  have len: "length ?vs = e - b" and ne: "?vs \<noteq> []" and b: "unat (word_of_nat b :: u64) = b"
    using assms(4-6) by (auto intro!: small_word)
  have payload: "IsValidLanceScanToken h (distributed_scan_token w)"
      "payload s = ''LTS1'' @ distributed_scan_token w @ le_bytes (word_of_nat b) @ concat (map le_bytes ?vs)"
    using assms(1) unfolding EncodeLanceTakeSplit_payload by auto
  then have "DecodeLanceTakeSplit h (payload s) = Some (distributed_scan_token w, word_of_nat b, ?vs)"
      and "DecodeLanceFragmentSplit h (payload s) = None"
    using decode_take_payload ne take_payload_not_fragment by metis+
  moreover have "split_id s = ''take:'' @ word_text (word_of_nat b)"
    using assms(2) b by (simp add: word_text_def)
  ultimately show ?thesis
    using assms(3-6) len b by (auto simp: split_defs)
qed

lemma take_splits_offered:
  assumes "take_splits h (distributed_scan_token w) (take_row_ids w) n b = Inr splits" and "n > 0"
    and "\<forall>s\<in>set splits. ValidateSplit h s = Inr ()" and "length (take_row_ids w) < 2 ^ 64"
  shows "\<exists>rs. all_rows h w splits rs \<and> apart (map range_of rs) \<and> (\<forall>r\<in>set rs. b \<le> unat (fst r)) \<and>
    concat (map snd rs) = drop b (take_row_ids w)"
  using assms
proof (induction "length (take_row_ids w) - b" arbitrary: b splits rule: less_induct)
  case less
  let ?T = "take_row_ids w"
  show ?case
  proof (cases "b \<ge> length ?T")
    case True
    then have "splits = []"
      using less.prems by (simp add: take_splits.simps [of _ _ _ _ b])
    then show ?thesis
      using True by (simp add: all_rows_def apart_def)
  next
    case False
    define e where "e = min (length ?T) (b + n)"
    obtain p rows ss where splits': "splits = \<lparr>split_id = ''take:'' @ nat_to_string b, payload = p,
          estimated_cardinality = rows, estimated_bytes = None\<rparr> # ss"
        and p: "EncodeLanceTakeSplit h (distributed_scan_token w) ?T b e = Inr p"
        and ss: "take_splits h (distributed_scan_token w) ?T n (b + n) = Inr ss"
      using less.prems(1) [unfolded take_splits.simps [of _ _ _ _ b]] less.prems(2) False
      by (auto simp: Let_def res_bind_Inr_iff e_def)
    define s where "s = hd splits"
    have splits: "splits = s # ss" and s: "EncodeLanceTakeSplit h (distributed_scan_token w) ?T b e = Inr (payload s)"
        "split_id s = ''take:'' @ nat_to_string b"
      using splits' p by (simp_all add: s_def)
    let ?r = "(word_of_nat b :: u64, take (e - b) (drop b ?T))"
    have e: "b < e" "e \<le> length ?T"
      using False less.prems(2) by (auto simp: e_def)
    have r: "rows_of h w s = Some ?r"
      using less.prems(3,4) splits e by (intro take_split_of [OF s]) auto
    have shorter: "length ?T - (b + n) < length ?T - b"
      using less.prems(2) False by simp
    obtain rs where rs: "all_rows h w ss rs" "apart (map range_of rs)" "\<forall>r\<in>set rs. b + n \<le> unat (fst r)"
        "concat (map snd rs) = drop (b + n) ?T"
      using less.hyps [OF shorter ss] less.prems(2-4) splits False by auto
    have range: "unat (fst (range_of ?r)) = b" "unat (snd (range_of ?r)) = e"
      using e less.prems(4) by (simp_all add: range_of_def small_word)
    have "apart (map range_of (?r # rs))"
      using rs(2,3) range e by (auto simp: apart_def word_le_nat_alt word_less_nat_alt range_of_def e_def)
    moreover have "take (e - b) (drop b ?T) @ drop (b + n) ?T = drop b ?T"
      by (cases "b + n \<le> length ?T") (use take_drop_join [of n b ?T] in \<open>simp_all add: e_def\<close>)
    ultimately show ?thesis
      using rs r splits range
      by (intro exI [of _ "?r # rs"]) (auto simp: all_rows_def range_of_def)
  qed
qed


text \<open>The work of a scan: its fragments, or the rows it takes.\<close>

definition planned_work :: "u64 list \<Rightarrow> LanceScanBind \<Rightarrow> scan_work list" where
  "planned_work ids b = (if take_row_ids b = [] then map Fragment ids else map Row (take_row_ids b))"

lemma plan_stats:
  assumes "LancePlanDistributedScanSplits h ffi err list_stats b n = Inr splits"
    and "portable_stats ffi err list_stats b = Inr (ids, counts, sizes)"
    and "\<not> distributed_authorization_restricted b" and "take_row_ids b = []"
  shows "res_map (fragment_split h (distributed_scan_token b)) (zip ids (zip counts sizes)) = Inr splits"
    and "length ids = length counts" and "length ids = length sizes"
proof -
  have "planning_dataset b = (if resolved_rest b then pc_dataset (distributed_rest_candidate b) else bound_dataset b)"
    using assms(1) by (auto simp: LancePlanDistributedScanSplits_def planning_dataset_def resolved_rest_def
        res_bind_Inr_iff split: if_splits)
  then show "res_map (fragment_split h (distributed_scan_token b)) (zip ids (zip counts sizes)) = Inr splits"
      and "length ids = length counts" and "length ids = length sizes"
    using assms by (auto simp: LancePlanDistributedScanSplits_def portable_stats_def res_bind_Inr_iff split: if_splits)
qed

lemma plan_rows:
  assumes "LancePlanDistributedScanSplits h ffi err list_stats b n = Inr splits"
    and "\<not> distributed_authorization_restricted b" and "take_row_ids b \<noteq> []"
  shows "\<exists>m>0. take_splits h (distributed_scan_token b) (take_row_ids b) m 0 = Inr splits"
  using assms by (auto simp: LancePlanDistributedScanSplits_def res_bind_Inr_iff Let_def split: if_splits)

lemma plan_offered:
  assumes plan: "LancePlanDistributedScanSplits h ffi err list_stats b n = Inr splits"
    and worker: "LanceCreateDistributedScanWorkerBind h ffi err sf list_stats b = Inr w"
    and stats: "portable_stats ffi err list_stats b = Inr (ids, counts, sizes)" and "distinct ids"
    and unrestricted: "\<not> distributed_authorization_restricted b" and "length (take_row_ids b) < 2 ^ 64"
    and valid: "\<forall>s\<in>set splits. ValidateSplit h s = Inr ()"
  shows "(fragments_offered (h, w) splits \<or> rows_offered (h, w) splits) \<and>
    concat (map (split_work h w) splits) = planned_work ids b"
proof (cases "take_row_ids b = []")
  case True
  note w = worker_bind [OF worker]
  have "all_fragments h w splits (map fst (zip ids (zip counts sizes)))"
    using plan_stats(1) [OF plan stats unrestricted True] valid True w by (intro fragment_splits_offered) simp_all
  then have "all_fragments h w splits ids"
    using plan_stats(2,3) [OF plan stats unrestricted True] by simp
  then show ?thesis
    using assms(4) unrestricted w True
    by (auto simp: fragments_offered_def planned_work_def fragments_split_work)
next
  case False
  note w = worker_bind [OF worker]
  obtain m where "m > 0" and "take_splits h (distributed_scan_token w) (take_row_ids w) m 0 = Inr splits"
    using plan_rows [OF plan unrestricted False] w by auto
  then obtain rs where "all_rows h w splits rs" and "apart (map range_of rs)"
      and "concat (map snd rs) = take_row_ids b"
    using take_splits_offered [of h w m 0 splits] valid assms(6) w by auto
  then show ?thesis
    using unrestricted w False by (auto simp: rows_offered_def planned_work_def rows_split_work)
qed

text \<open>The plan, in any parts and any order.\<close>

lemma plan_scanned_once:
  assumes "LancePlanDistributedScanSplits h ffi err list_stats b n = Inr splits"
    and "LanceCreateDistributedScanWorkerBind h ffi err sf list_stats b = Inr w"
    and "portable_stats ffi err list_stats b = Inr (ids, counts, sizes)" and "distinct ids"
    and "\<not> distributed_authorization_restricted b" and "length (take_row_ids b) < 2 ^ 64"
    and "\<forall>s\<in>set splits. ValidateSplit h s = Inr ()" and "mset (concat parts) = mset splits"
  shows "\<exists>ws. res_map (LanceApplyDistributedScanSplits h w) parts = Inr ws \<and>
    mset (concat (map selected_work ws)) = mset (planned_work ids b)"
  using plan_offered [OF assms(1-7)] fragment_plan.exactly_once [OF _ assms(8), of "(h, w)"]
    row_plan.exactly_once [OF _ assms(8), of "(h, w)"] by auto


section \<open>What is accepted\<close>

lemma accepted_tokens:
  "fragment_of h w s = Some i \<Longrightarrow> take 36 (drop 4 (payload s)) = distributed_scan_token w"
  "rows_of h w s = Some r \<Longrightarrow> take 36 (drop 4 (payload s)) = distributed_scan_token w"
  using DecodeLanceFragmentSplit_encodes [of h "payload s"] DecodeLanceTakeSplit_encodes [of h "payload s"]
  by (auto simp: split_defs split: sum.splits option.splits if_splits)

lemma accepted_splits:
  assumes "LanceApplyDistributedScanSplits h w splits = Inr w'"
  shows "distributed_authorization_restricted w'" and "distinct (selected_fragment_ids w')"
    and "selected_fragment_ids w' = [] \<or> take_row_ids w' = []"
    and "\<not> distributed_authorization_restricted w \<Longrightarrow> mset (take_row_ids w') \<subseteq># mset (take_row_ids w)"
    and "\<forall>s\<in>set splits. take 36 (drop 4 (payload s)) = distributed_scan_token w"
proof -
  have "distributed_authorization_restricted w' \<and> distinct (selected_fragment_ids w') \<and>
      (selected_fragment_ids w' = [] \<or> take_row_ids w' = []) \<and>
      (\<not> distributed_authorization_restricted w \<longrightarrow> mset (take_row_ids w') \<subseteq># mset (take_row_ids w)) \<and>
      (\<forall>s\<in>set splits. take 36 (drop 4 (payload s)) = distributed_scan_token w)"
  proof (cases "splits = []")
    case True
    then show ?thesis
      using assms by (auto simp: apply_no_splits assigned_def start_state_def)
  next
    case False
    then obtain st where st: "res_foldl (apply_split h w) start_state splits = Inr st"
        "\<not> overlapping (sort (take_ranges st))" "w' = assigned w splits st"
      using assms by (auto simp: apply_splits_iff)
    then consider ids where "all_fragments h w splits ids" "distinct ids" "st = fragments_state ids"
      | rs where "all_rows h w splits rs" "st = rows_state rs"
      using fold_from_start_iff [OF False] by metis
    then show ?thesis
    proof cases
      case 1
      then show ?thesis
        using st(3) accepted_tokens(1)
        by (fastforce simp: assigned_def fragments_state_def all_fragments_def all_some_iff)
    next
      case 2
      then show ?thesis
        using st(2,3) accepted_tokens(2) accepted_rows_once [OF 2(1)]
        by (fastforce simp: assigned_def rows_state_def all_rows_def all_some_iff)
    qed
  qed
  then show "distributed_authorization_restricted w'" and "distinct (selected_fragment_ids w')"
      and "selected_fragment_ids w' = [] \<or> take_row_ids w' = []"
      and "\<not> distributed_authorization_restricted w \<Longrightarrow> mset (take_row_ids w') \<subseteq># mset (take_row_ids w)"
      and "\<forall>s\<in>set splits. take 36 (drop 4 (payload s)) = distributed_scan_token w"
    by blast+
qed


section \<open>Replaying an assignment\<close>

lemma sort_eq_iff: "sort xs = sort ys \<longleftrightarrow> mset xs = mset ys"
proof
  show "mset xs = mset ys" if "sort xs = sort ys"
    using arg_cong [OF that, of mset] by simp
  show "sort xs = sort ys" if "mset xs = mset ys"
    by (rule properties_for_sort) (simp_all add: that)
qed

lemma authorization_eq_iff: "authorization ss = authorization ts \<longleftrightarrow> mset (map named ss) = mset (map named ts)"
  unfolding authorization_def by (rule sort_eq_iff)

text \<open>A clone of the worker that was given \<open>splits\<close>.\<close>

definition clone_of :: "LanceScanBind \<Rightarrow> DistributedScanSplit list \<Rightarrow> LanceScanBind \<Rightarrow> bool" where
  "clone_of w splits c \<longleftrightarrow> distributed_worker c \<and> distributed_authorization_restricted c \<and>
     distributed_scan_token c = distributed_scan_token w \<and>
     distributed_authorized_split_ids c = map fst (authorization splits) \<and>
     distributed_authorized_split_payloads c = map snd (authorization splits)"

lemma clone_authorized:
  assumes "clone_of w splits c"
  shows "authorized c ss \<longleftrightarrow> mset (map named ss) = mset (map named splits)"
proof -
  have "map fst xs = map fst ys \<and> map snd xs = map snd ys \<longleftrightarrow> xs = ys" for xs ys :: "(string \<times> string) list"
    by (metis zip_map_fst_snd)
  then show ?thesis
    using assms by (simp add: authorized_def clone_of_def authorization_eq_iff)
qed

lemma all_some_perm:
  assumes "map f xs = map Some ys" and "mset xs' = mset xs"
  shows "\<exists>ys'. map f xs' = map Some ys' \<and> mset ys' = mset ys"
proof -
  have "set xs' = set xs"
    using assms(2) by (metis set_mset_mset)
  then show ?thesis
    using assms by (intro exI [of _ "map (the \<circ> f) xs'"]) (auto simp: all_some_iff)
qed

lemma all_some_map:
  "map f xs = map Some ys \<Longrightarrow> (\<And>x y. f x = Some y \<Longrightarrow> g' (k x) = Some y) \<Longrightarrow> (\<And>a y. g' a = Some y \<Longrightarrow> g a = Some y)
     \<Longrightarrow> map g (map k xs) = map Some ys"
  by (induction xs arbitrary: ys) auto

lemma clone_names:
  "clone_of w splits c \<Longrightarrow> fragment_named h w a = Some i \<Longrightarrow> fragment_named h c a = Some i"
  "clone_of w splits c \<Longrightarrow> rows_named h w a = Some r \<Longrightarrow> rows_named h c a = Some r"
  by (auto simp: clone_of_def fragment_named_def rows_named_def split: option.splits if_splits)

lemma valid_of:
  "ValidateSplit h s = Inr () \<Longrightarrow> fragment_of h w s = fragment_named h w (named s)"
  "ValidateSplit h s = Inr () \<Longrightarrow> rows_of h w s = rows_named h w (named s)"
  "fragment_of h w s = Some i \<Longrightarrow> fragment_named h w (named s) = Some i"
  "rows_of h w s = Some r \<Longrightarrow> rows_named h w (named s) = Some r"
  by (auto simp: fragment_of_def rows_of_def split: sum.splits)

lemma clone_fragments:
  assumes "clone_of w splits c" and "all_fragments h w splits ids"
    and "\<forall>s\<in>set ss. ValidateSplit h s = Inr ()" and "mset (map named ss) = mset (map named splits)"
  shows "\<exists>js. all_fragments h c ss js \<and> mset js = mset ids"
proof -
  have "map (fragment_named h c) (map named splits) = map Some ids"
    using assms(2) valid_of(3) clone_names(1) [OF assms(1)] unfolding all_fragments_def by (rule all_some_map)
  then obtain js where "map (fragment_named h c) (map named ss) = map Some js" and "mset js = mset ids"
    using all_some_perm [OF _ assms(4)] by blast
  moreover have "map (fragment_of h c) ss = map (fragment_named h c) (map named ss)"
    using assms(3) by (simp add: valid_of(1))
  ultimately show ?thesis
    by (auto simp: all_fragments_def)
qed

lemma clone_rows:
  assumes "clone_of w splits c" and "all_rows h w splits rs"
    and "\<forall>s\<in>set ss. ValidateSplit h s = Inr ()" and "mset (map named ss) = mset (map named splits)"
  shows "\<exists>js. all_rows h c ss js \<and> mset js = mset rs"
proof -
  have "map (rows_named h c) (map named splits) = map Some rs"
    using assms(2) valid_of(4) clone_names(2) [OF assms(1)] unfolding all_rows_def by (rule all_some_map)
  then obtain js where "map (rows_named h c) (map named ss) = map Some js" and "mset js = mset rs"
    using all_some_perm [OF _ assms(4)] by blast
  moreover have "map (rows_of h c) ss = map (rows_named h c) (map named ss)"
    using assms(3) by (simp add: valid_of(2))
  ultimately show ?thesis
    by (auto simp: all_rows_def)
qed

lemma clone_accepts:
  assumes applied: "LanceApplyDistributedScanSplits h w splits = Inr w'" and clone: "clone_of w splits c"
    and valid: "\<forall>s\<in>set ss. ValidateSplit h s = Inr ()" and same: "mset (map named ss) = mset (map named splits)"
  shows "\<exists>c'. LanceApplyDistributedScanSplits h c ss = Inr c' \<and> mset (selected_work c') = mset (selected_work w')"
proof (cases "splits = []")
  case True
  then show ?thesis
    using applied same clone_authorized [OF clone, of "[]"] clone
    by (auto simp: apply_no_splits no_work clone_of_def)
next
  case False
  then have ss: "ss \<noteq> []"
    using same by auto
  obtain st where st: "res_foldl (apply_split h w) start_state splits = Inr st"
      "\<not> overlapping (sort (take_ranges st))" "w' = assigned w splits st"
    using applied False by (auto simp: apply_splits_iff)
  have c: "distributed_worker c" "authorized c ss"
    using clone same by (simp_all add: clone_authorized [OF clone]) (simp add: clone_of_def)
  consider ids where "all_fragments h w splits ids" "distinct ids" "st = fragments_state ids"
    | rs where "all_rows h w splits rs" "st = rows_state rs"
    using fold_from_start_iff [OF False] st(1) by metis
  then show ?thesis
  proof cases
    case 1
    obtain js where js: "all_fragments h c ss js" "mset js = mset ids"
      using clone_fragments [OF clone 1(1) valid same] by blast
    then have "distinct js"
      using 1(2) mset_eq_imp_distinct_iff by blast
    then have "LanceApplyDistributedScanSplits h c ss = Inr (assigned c ss (fragments_state js))"
      using c by (auto simp: apply_splits_iff [OF ss] fold_from_start_fragments [OF js(1) _ ss])
        (simp add: fragments_state_def)
    then show ?thesis
      using js(2) 1(3) st(3) by (auto simp: selected_work_def assigned_def fragments_state_def)
  next
    case 2
    obtain js where js: "all_rows h c ss js" "mset js = mset rs"
      using clone_rows [OF clone 2(1) valid same] by blast
    then have "mset (map range_of js) = mset (map range_of rs)"
      by simp
    then have "sort (map range_of js) = sort (map range_of rs)"
      by (simp only: sort_eq_iff)
    then have "LanceApplyDistributedScanSplits h c ss = Inr (assigned c ss (rows_state js))"
      using c st(2) 2(2) by (auto simp: apply_splits_iff [OF ss] fold_from_start_rows [OF js(1) ss])
        (simp add: rows_state_def)
    moreover have "mset (concat (map snd js)) = mset (concat (map snd rs))"
      using js(2) by (rule mset_concat_map)
    ultimately show ?thesis
      using 2(2) st(3) by (auto simp: selected_work_def assigned_def rows_state_def)
  qed
qed

lemma clone_only_replays:
  assumes "LanceApplyDistributedScanSplits h c ss = Inr c'" and "clone_of w splits c"
  shows "mset (map named ss) = mset (map named splits)"
proof -
  have "authorized c ss"
    using assms by (cases "ss = []") (auto simp: apply_splits_iff apply_no_splits clone_of_def)
  then show ?thesis
    by (simp add: clone_authorized [OF assms(2)])
qed

end
