(* ===== verification/Snapshots_Correct.thy ===== *)
theory Snapshots_Correct
  imports Snapshots Cache_Correct
begin

text \<open>
  Frozen snapshots: what the coordinator freezes is valid for the worker, and whatever was opened
  before, a lookup returns a dataset of the version, generation and schema it was asked for.
\<close>

section \<open>Freezing\<close>

text \<open>The digests of the Rust library fill their buffers.\<close>

definition fixed_digests :: "snapshot_ffi \<Rightarrow> bool" where
  "fixed_digests sf \<longleftrightarrow>
     (\<forall>bytes digest. lance_vane_sha256 sf bytes = Some digest \<longrightarrow> length digest = LANCE_VANE_FROZEN_SNAPSHOT_DIGEST_SIZE) \<and>
     (\<forall>d digest. lance_vane_dataset_schema_fingerprint sf d = Some digest \<longrightarrow>
        length digest = LANCE_VANE_FROZEN_SNAPSHOT_DIGEST_SIZE)"

lemma frozen_is_valid:
  assumes "fixed_digests sf" and "LanceVaneFreezeSnapshot ffi err sf d path private_diagnostics = Inr s"
  shows "LanceVaneValidateFrozenSnapshot sf s = None"
  using assms
  by (auto simp: LanceVaneFreezeSnapshot_def LanceVaneValidateFrozenSnapshot_def fixed_digests_def LanceVaneSha256_def
      LanceVaneDatasetSchemaFingerprint_def Let_def split: option.splits if_splits)


section \<open>Keys\<close>

definition path_key :: "string \<Rightarrow> bool" where
  "path_key key \<longleftrightarrow> (\<exists>n kvs. key = ''path|'' @ part n @ part (nat_to_string (length kvs)) @
     concat (map (\<lambda>(k, v). part k @ part v) kvs))"

lemma LanceBuildPathDatasetCacheKey_path_key:
  assumes "LanceBuildPathDatasetCacheKey cn path = Inr key"
  shows "path_key key"
proof -
  obtain p os where "LanceBuildResolvedPathDatasetCacheKey (duck cn) (path_fns cn) p os = Inr key"
    using assms by (auto simp: LanceBuildPathDatasetCacheKey_def res_bind_Inr_iff)
  then obtain n where "in_step os" and "key = ''path|'' @ part n @ part (nat_to_string (length (fst os))) @
      concat (map (\<lambda>(k, v). part k @ part v) (pairs os))"
    by (auto simp: path_key_eq)
  then show ?thesis
    unfolding path_key_def by (intro exI [of _ n] exI [of _ "pairs os"]) (simp add: in_step_def pairs_def)
qed

lemma option_parts_prefix:
  "length kvs = length kvs' \<Longrightarrow>
     concat (map (\<lambda>(k, v). part k @ part v) kvs) @ r = concat (map (\<lambda>(k, v). part k @ part v) kvs') @ r' \<Longrightarrow> r = r'"
proof (induction kvs arbitrary: kvs')
  case (Cons kv kvs)
  then obtain k' v' kvs'' where "kvs' = (k', v') # kvs''" by (cases kvs') auto
  with Cons show ?case by (cases kv) (auto simp: part_inject)
qed simp

lemma path_key_prefix:
  assumes "path_key k" and "path_key k'" and "k @ r = k' @ r'"
  shows "r = r'"
proof -
  obtain n kvs n' kvs' where k: "k = ''path|'' @ part n @ part (nat_to_string (length kvs)) @
        concat (map (\<lambda>(k, v). part k @ part v) kvs)"
      and k': "k' = ''path|'' @ part n' @ part (nat_to_string (length kvs')) @
        concat (map (\<lambda>(k, v). part k @ part v) kvs')"
    using assms(1,2) unfolding path_key_def by blast
  have "length kvs = length kvs'"
      "concat (map (\<lambda>(k, v). part k @ part v) kvs) @ r = concat (map (\<lambda>(k, v). part k @ part v) kvs') @ r'"
    using assms(3) unfolding k k' by (simp_all add: part_inject)
  then show ?thesis
    by (rule option_parts_prefix)
qed

lemma key_field_inject: "key_field s @ r = key_field t @ r' \<longleftrightarrow> s = t \<and> r = r'"
proof
  assume eq: "key_field s @ r = key_field t @ r'"
  then have eq': "nat_to_string (length s) @ CHR '':'' # (s @ r) = nat_to_string (length t) @ CHR '':'' # (t @ r')"
    by (simp add: key_field_def)
  then have "length s = length t"
    by (metis takeWhile_digits nat_to_string_inj)
  moreover from eq' have "s @ r = t @ r'"
    by (metis dropWhile_digits list.inject)
  ultimately show "s = t \<and> r = r'" by simp
qed simp

lemma version_field_inject:
  assumes "word_text v @ CHR ''|'' # r = word_text v' @ CHR ''|'' # r'"
  shows "v = v' \<and> r = r'"
proof -
  have digits: "list_all is_digit (word_text w)" for w :: u64
    using nat_to_string_digits by (simp add: word_text_def is_digit_def list_all_iff)
  have tw: "takeWhile is_digit (word_text w @ CHR ''|'' # q) = word_text w" for w :: u64 and q
    using digits [of w] by (simp add: takeWhile_append list_all_iff is_digit_def)
  have "word_text v = word_text v'"
    using assms tw by metis
  then show ?thesis
    using assms by simp
qed

text \<open>The key of a pinned dataset, with what follows the generation.\<close>

definition pinned_key :: "string \<Rightarrow> u64 \<Rightarrow> string \<Rightarrow> string \<Rightarrow> string" where
  "pinned_key base version generation rest =
     base @ ''|fixed-snapshot|'' @ word_text version @ ''|'' @ key_field generation @ rest"

definition frozen_fields :: "string \<Rightarrow> string \<Rightarrow> string \<Rightarrow> string" where
  "frozen_fields sha fingerprint rest =
     ''|manifest-sha256|'' @ key_field sha @ ''|schema-fingerprint|'' @ key_field fingerprint @ rest"

lemma pinned_key_inject:
  assumes "path_key b" and "path_key b'" and "pinned_key b v g r = pinned_key b' v' g' r'"
  shows "v = v' \<and> g = g' \<and> r = r'"
proof -
  have "''|fixed-snapshot|'' @ word_text v @ ''|'' @ key_field g @ r = ''|fixed-snapshot|'' @ word_text v' @ ''|'' @ key_field g' @ r'"
    using path_key_prefix [OF assms(1,2)] assms(3) unfolding pinned_key_def by blast
  then have "word_text v @ CHR ''|'' # key_field g @ r = word_text v' @ CHR ''|'' # key_field g' @ r'"
    by simp
  from version_field_inject [OF this] show ?thesis
    by (simp add: key_field_inject)
qed

lemma frozen_fields_inject: "frozen_fields s f r = frozen_fields s' f' r' \<Longrightarrow> s = s' \<and> f = f' \<and> r = r'"
  by (simp add: frozen_fields_def key_field_inject)

lemma no_frozen_fields: "frozen_fields s f r \<noteq> []"
  by (simp add: frozen_fields_def)


section \<open>Pinned datasets\<close>

definition pinned :: "snapshot_ffi \<Rightarrow> string \<Rightarrow> LanceDatasetCacheEntry \<Rightarrow> bool" where
  "pinned sf key e \<longleftrightarrow>
     (\<forall>base version generation rest. path_key base \<longrightarrow> key = pinned_key base version generation rest \<longrightarrow>
        lance_dataset_version sf (dataset e) = version \<and> lance_dataset_generation_id sf (dataset e) = Some generation \<and>
        (\<forall>sha fingerprint after. rest = frozen_fields sha fingerprint after \<longrightarrow>
           lance_vane_dataset_schema_fingerprint sf (dataset e) = Some fingerprint))"

definition snapshots_pinned :: "snapshot_ffi \<Rightarrow> snapshot_ctx \<Rightarrow> bool" where
  "snapshots_pinned sf ctx \<longleftrightarrow>
     (\<forall>st key e. snapshot_cache ctx = Some st \<longrightarrow> map_of (snapshot_entries st) key = Some e \<longrightarrow> pinned sf key e)"

lemma pinned_plain:
  assumes "path_key base" and "lance_dataset_version sf (dataset e) = version"
    and "lance_dataset_generation_id sf (dataset e) = Some generation"
  shows "pinned sf (pinned_key base version generation []) e"
  unfolding pinned_def using assms pinned_key_inject no_frozen_fields by metis

lemma pinned_frozen:
  assumes "path_key base" and "lance_dataset_version sf (dataset e) = version"
    and "lance_dataset_generation_id sf (dataset e) = Some generation"
    and "lance_vane_dataset_schema_fingerprint sf (dataset e) = Some fingerprint"
  shows "pinned sf (pinned_key base version generation (frozen_fields sha fingerprint after)) e"
  unfolding pinned_def using assms pinned_key_inject frozen_fields_inject by metis

lemma checks:
  "check_version sf version m d = Inr u \<Longrightarrow> lance_dataset_version sf d = version"
  "check_generation ffi err sf path private_diagnostics generation m d = Inr u \<Longrightarrow>
     lance_dataset_generation_id sf d = Some generation"
  "check_fingerprint ffi err sf path private_diagnostics fingerprint m d = Inr u \<Longrightarrow>
     lance_vane_dataset_schema_fingerprint sf d = Some fingerprint"
  by (auto simp: check_version_def check_generation_def check_fingerprint_def LanceVaneDatasetGenerationId_def
      LanceVaneDatasetSchemaFingerprint_def res_bind_Inr_iff split: if_splits option.splits)

definition snapshot_cached :: "LanceVaneSnapshotCacheState \<Rightarrow> string \<Rightarrow> LanceDatasetCacheEntry option" where
  "snapshot_cached st = map_of (snapshot_entries st)"

interpretation snapshot_store: keeps_first snapshot_cached SnapshotPutOrGetExisting
  by unfold_locales
    (auto simp: snapshot_cached_def SnapshotPutOrGetExisting_def update_conv' map_upd_triv split: option.splits)

lemma snapshot_lookup_pinned:
  assumes "snapshots_pinned sf ctx" and "snapshot_lookup key open_dataset failed check path ctx = (r, ctx')"
    and "\<And>d u. check d = Inr u \<Longrightarrow> pinned sf key \<lparr>dataset = d, entry_display_uri = path\<rparr>"
  shows "snapshots_pinned sf ctx' \<and> (\<forall>e. r = Inr e \<longrightarrow> pinned sf key e)"
proof -
  define cache where "cache = (case snapshot_cache ctx of None \<Rightarrow> empty_snapshot_cache | Some st \<Rightarrow> st)"
  obtain found cache1 where get: "SnapshotGet key cache = (found, cache1)"
    by fastforce
  have cache: "pinned sf k e" if "snapshot_cached cache1 k = Some e" for k e
    using assms(1) get that
    by (auto simp: snapshots_pinned_def cache_def empty_snapshot_cache_def snapshot_cached_def SnapshotGet_def
        split: option.splits)
  have found: "pinned sf key e" if "found = Some e" for e
    using get that cache by (auto simp: SnapshotGet_def snapshot_cached_def split: option.splits)
  have put: "pinned sf key e1 \<and> (\<forall>k x. snapshot_cached c1 k = Some x \<longrightarrow> pinned sf k x)"
    if "pinned sf key e" and "SnapshotPutOrGetExisting key e cache1 = (e1, c1)" for e e1 c1
    using snapshot_store.put_keeps_all [of cache1 "pinned sf" key e] cache that by simp
  show ?thesis
  proof (cases found)
    case (Some e)
    then show ?thesis
      using assms(2) get cache found
      by (auto simp: snapshot_lookup_def Let_def cache_def [symmetric] snapshots_pinned_def snapshot_cached_def)
  next
    case None
    obtain r1 conn1 where opened: "open_dataset (snapshot_conn ctx) = (r1, conn1)"
      by fastforce
    note run = assms(2) [unfolded snapshot_lookup_def, folded cache_def, unfolded Let_def get None prod.case option.case opened]
    show ?thesis
    proof (cases "\<exists>d u. r1 = Inr (Some d) \<and> check d = Inr u")
      case True
      then obtain d u e1 c1 where d: "r1 = Inr (Some d)" "check d = Inr u"
          "SnapshotPutOrGetExisting key \<lparr>dataset = d, entry_display_uri = path\<rparr> cache1 = (e1, c1)"
        by fastforce
      then show ?thesis
        using run put [OF assms(3) d(3)] by (auto simp: snapshots_pinned_def snapshot_cached_def)
    next
      case False
      then have "isl r \<and> snapshot_cache ctx' = Some cache1"
        using run by (auto simp: isl_def split: sum.splits option.splits)
      then show ?thesis
        using cache by (auto simp: snapshots_pinned_def snapshot_cached_def isl_def)
    qed
  qed
qed

lemma snapshot_key_pinned:
  assumes "LanceVaneSnapshotCacheKey cn path version generation = Inr key"
  shows "\<exists>base. path_key base \<and> key = pinned_key base version generation []"
  using assms LanceBuildPathDatasetCacheKey_path_key
  by (auto simp: LanceVaneSnapshotCacheKey_def res_bind_Inr_iff pinned_key_def)

lemma pinned_key_append: "pinned_key base version generation [] @ r = pinned_key base version generation r"
  by (simp add: pinned_key_def)

lemma frozen_append:
  "''|manifest-sha256|'' @ key_field sha @ ''|schema-fingerprint|'' @ key_field fingerprint @ r = frozen_fields sha fingerprint r"
  "''|manifest-sha256|'' @ key_field sha @ ''|schema-fingerprint|'' @ key_field fingerprint = frozen_fields sha fingerprint []"
  by (simp_all add: frozen_fields_def)

definition is_snapshot :: "snapshot_ffi \<Rightarrow> u64 \<Rightarrow> string \<Rightarrow> LanceDatasetCacheEntry \<Rightarrow> bool" where
  "is_snapshot sf version generation e \<longleftrightarrow>
     lance_dataset_version sf (dataset e) = version \<and> lance_dataset_generation_id sf (dataset e) = Some generation"

definition has_schema :: "snapshot_ffi \<Rightarrow> string \<Rightarrow> LanceDatasetCacheEntry \<Rightarrow> bool" where
  "has_schema sf fingerprint e \<longleftrightarrow> lance_vane_dataset_schema_fingerprint sf (dataset e) = Some fingerprint"

lemma pinned_is_snapshot:
  assumes "path_key base"
  shows "pinned sf (pinned_key base version generation rest) e \<Longrightarrow> is_snapshot sf version generation e"
    and "pinned sf (pinned_key base version generation (frozen_fields sha fingerprint rest)) e \<Longrightarrow> has_schema sf fingerprint e"
  using assms unfolding pinned_def is_snapshot_def has_schema_def by blast+

text \<open>Each lookup fails before it reaches the cache, or is a lookup of a pinned key whose checks are right.\<close>

lemma plain_shape:
  assumes "LanceVaneGetOrOpenSnapshot cn err vf sf path version generation private_diagnostics ctx = (r, ctx')"
  shows "isl r \<and> ctx' = ctx \<or>
    (\<exists>base open_dataset failed check. path_key base \<and>
       snapshot_lookup (pinned_key base version generation []) open_dataset failed check path ctx = (r, ctx') \<and>
       (\<forall>d u. check d = Inr u \<longrightarrow> is_snapshot sf version generation \<lparr>dataset = d, entry_display_uri = path\<rparr>))"
proof (cases "version = 0 \<or> generation = []")
  case False
  show ?thesis
  proof (cases "LanceVaneSnapshotCacheKey cn path version generation")
    case (Inr key)
    then obtain base where base: "path_key base" "key = pinned_key base version generation []"
      using snapshot_key_pinned by blast
    note run = assms [unfolded LanceVaneGetOrOpenSnapshot_def if_not_P [OF False] Inr sum.case base(2)]
    show ?thesis
      by (intro disjI2 exI conjI, rule base(1), rule run) (auto simp: is_snapshot_def res_bind_Inr_iff dest!: checks)
  qed (use assms False in \<open>auto simp: LanceVaneGetOrOpenSnapshot_def\<close>)
qed (use assms in \<open>auto simp: LanceVaneGetOrOpenSnapshot_def\<close>)

lemma frozen_shape:
  assumes "LanceVaneGetOrOpenFrozenSnapshot cn err vf sf path version generation s private_diagnostics ctx = (r, ctx')"
  shows "isl r \<and> ctx' = ctx \<or>
    (\<exists>base open_dataset failed check. path_key base \<and>
       snapshot_lookup (pinned_key base version generation (frozen_fields (manifest_sha256 s) (schema_fingerprint s) []))
         open_dataset failed check path ctx = (r, ctx') \<and>
       (\<forall>d u. check d = Inr u \<longrightarrow> is_snapshot sf version generation \<lparr>dataset = d, entry_display_uri = path\<rparr> \<and>
          has_schema sf (schema_fingerprint s) \<lparr>dataset = d, entry_display_uri = path\<rparr>))"
proof (cases "version = 0 \<or> generation = []")
  case False
  show ?thesis
  proof (cases "LanceVaneSnapshotCacheKey cn path version generation")
    case (Inr key)
    then obtain base where base: "path_key base" "key = pinned_key base version generation []"
      using snapshot_key_pinned by blast
    note run = assms [unfolded LanceVaneGetOrOpenFrozenSnapshot_def if_not_P [OF False] Inr sum.case base(2)
        frozen_append pinned_key_append]
    show ?thesis
      by (intro disjI2 exI conjI, rule base(1), rule run)
        (auto simp: is_snapshot_def has_schema_def res_bind_Inr_iff dest!: checks)
  qed (use assms False in \<open>auto simp: LanceVaneGetOrOpenFrozenSnapshot_def\<close>)
qed (use assms in \<open>auto simp: LanceVaneGetOrOpenFrozenSnapshot_def\<close>)

lemma search_shape:
  assumes "LanceVaneGetOrOpenFrozenSearchSnapshot cn err vf sf path version generation s index_section digest
    private_diagnostics ctx = (r, ctx')"
  shows "isl r \<and> ctx' = ctx \<or>
    (\<exists>base open_dataset failed check rest. path_key base \<and>
       snapshot_lookup (pinned_key base version generation (frozen_fields (manifest_sha256 s) (schema_fingerprint s) rest))
         open_dataset failed check path ctx = (r, ctx') \<and>
       (\<forall>d u. check d = Inr u \<longrightarrow> is_snapshot sf version generation \<lparr>dataset = d, entry_display_uri = path\<rparr> \<and>
          has_schema sf (schema_fingerprint s) \<lparr>dataset = d, entry_display_uri = path\<rparr>))"
proof (cases "version = 0 \<or> generation = [] \<or> length (manifest_sha256 s) \<noteq> LANCE_VANE_FROZEN_SNAPSHOT_DIGEST_SIZE \<or>
    length (schema_fingerprint s) \<noteq> LANCE_VANE_FROZEN_SNAPSHOT_DIGEST_SIZE \<or>
    length digest \<noteq> LANCE_VANE_FROZEN_SNAPSHOT_DIGEST_SIZE")
  case False
  show ?thesis
  proof (cases "LanceVaneSnapshotCacheKey cn path version generation")
    case (Inr key)
    then obtain base where base: "path_key base" "key = pinned_key base version generation []"
      using snapshot_key_pinned by blast
    note run = assms [unfolded LanceVaneGetOrOpenFrozenSearchSnapshot_def if_not_P [OF False] Inr sum.case base(2)
        frozen_append pinned_key_append]
    show ?thesis
      by (intro disjI2 exI conjI, rule base(1), rule run)
        (auto simp: is_snapshot_def has_schema_def res_bind_Inr_iff dest!: checks)
  qed (use assms False in \<open>auto simp: LanceVaneGetOrOpenFrozenSearchSnapshot_def\<close>)
qed (use assms in \<open>auto simp: LanceVaneGetOrOpenFrozenSearchSnapshot_def\<close>)

lemma plain_lookup_pinned:
  assumes "snapshots_pinned sf ctx"
    and "LanceVaneGetOrOpenSnapshot cn err vf sf path version generation private_diagnostics ctx = (r, ctx')"
  shows "snapshots_pinned sf ctx' \<and> (\<forall>e. r = Inr e \<longrightarrow> is_snapshot sf version generation e)"
  using plain_shape [OF assms(2)]
proof (elim disjE exE conjE)
  fix base open_dataset failed check
  assume base: "path_key base"
    and run: "snapshot_lookup (pinned_key base version generation []) open_dataset failed check path ctx = (r, ctx')"
    and check: "\<forall>d u. check d = Inr u \<longrightarrow> is_snapshot sf version generation \<lparr>dataset = d, entry_display_uri = path\<rparr>"
  show ?thesis
    using snapshot_lookup_pinned [OF assms(1) run] check pinned_is_snapshot(1) [OF base] pinned_plain [OF base]
    by (auto simp: is_snapshot_def)
qed (use assms(1) in auto)

lemma frozen_key_lookup_pinned:
  assumes "snapshots_pinned sf ctx" and "path_key base"
    and "snapshot_lookup (pinned_key base version generation (frozen_fields sha fingerprint rest))
      open_dataset failed check path ctx = (r, ctx')"
    and "\<forall>d u. check d = Inr u \<longrightarrow> is_snapshot sf version generation \<lparr>dataset = d, entry_display_uri = path\<rparr> \<and>
      has_schema sf fingerprint \<lparr>dataset = d, entry_display_uri = path\<rparr>"
  shows "snapshots_pinned sf ctx' \<and>
    (\<forall>e. r = Inr e \<longrightarrow> is_snapshot sf version generation e \<and> has_schema sf fingerprint e)"
  using snapshot_lookup_pinned [OF assms(1,3)] assms(4) pinned_is_snapshot [OF assms(2)] pinned_frozen [OF assms(2)]
  by (auto simp: is_snapshot_def has_schema_def)

lemma frozen_lookup_pinned:
  assumes "snapshots_pinned sf ctx"
    and "LanceVaneGetOrOpenFrozenSnapshot cn err vf sf path version generation s private_diagnostics ctx = (r, ctx')"
  shows "snapshots_pinned sf ctx' \<and>
    (\<forall>e. r = Inr e \<longrightarrow> is_snapshot sf version generation e \<and> has_schema sf (schema_fingerprint s) e)"
  using frozen_shape [OF assms(2)]
  by (elim disjE exE conjE, use assms(1) in \<open>fastforce simp: isl_def\<close>) (erule (2) frozen_key_lookup_pinned [OF assms(1)])

lemma search_lookup_pinned:
  assumes "snapshots_pinned sf ctx"
    and "LanceVaneGetOrOpenFrozenSearchSnapshot cn err vf sf path version generation s index_section digest
      private_diagnostics ctx = (r, ctx')"
  shows "snapshots_pinned sf ctx' \<and>
    (\<forall>e. r = Inr e \<longrightarrow> is_snapshot sf version generation e \<and> has_schema sf (schema_fingerprint s) e)"
  using search_shape [OF assms(2)]
  by (elim disjE exE conjE, use assms(1) in \<open>fastforce simp: isl_def\<close>) (erule (2) frozen_key_lookup_pinned [OF assms(1)])

text \<open>What a connection does with its snapshots, query by query.\<close>

inductive snapshot_run :: "snapshot_ffi \<Rightarrow> snapshot_ctx \<Rightarrow> bool" for sf where
  run_start: "snapshot_cache ctx = None \<Longrightarrow> snapshot_run sf ctx"
| run_plain: "snapshot_run sf ctx \<Longrightarrow>
    LanceVaneGetOrOpenSnapshot cn err vf sf path version generation private_diagnostics ctx = (r, ctx') \<Longrightarrow>
    snapshot_run sf ctx'"
| run_frozen: "snapshot_run sf ctx \<Longrightarrow>
    LanceVaneGetOrOpenFrozenSnapshot cn err vf sf path version generation s private_diagnostics ctx = (r, ctx') \<Longrightarrow>
    snapshot_run sf ctx'"
| run_search: "snapshot_run sf ctx \<Longrightarrow>
    LanceVaneGetOrOpenFrozenSearchSnapshot cn err vf sf path version generation s index_section digest
      private_diagnostics ctx = (r, ctx') \<Longrightarrow>
    snapshot_run sf ctx'"
| run_begin: "snapshot_run sf ctx \<Longrightarrow>
    snapshot_run sf (ctx\<lparr>snapshot_cache := map_option SnapshotQueryBegin (snapshot_cache ctx)\<rparr>)"
| run_end: "snapshot_run sf ctx \<Longrightarrow>
    snapshot_run sf (ctx\<lparr>snapshot_cache := map_option SnapshotQueryEnd (snapshot_cache ctx)\<rparr>)"
| run_other: "snapshot_run sf ctx \<Longrightarrow> snapshot_run sf (ctx\<lparr>snapshot_conn := conn\<rparr>)"

lemma snapshot_run_pinned: "snapshot_run sf ctx \<Longrightarrow> snapshots_pinned sf ctx"
proof (induction rule: snapshot_run.induct)
  case (run_plain ctx cn err vf path version generation private_diagnostics r ctx')
  then show ?case using plain_lookup_pinned by blast
next
  case (run_frozen ctx cn err vf path version generation s private_diagnostics r ctx')
  then show ?case using frozen_lookup_pinned by blast
next
  case (run_search ctx cn err vf path version generation s index_section digest private_diagnostics r ctx')
  then show ?case using search_lookup_pinned by blast
qed (auto simp: snapshots_pinned_def SnapshotQueryBegin_def SnapshotQueryEnd_def)

end
