(* ===== verification/Splits_Transport.thy ===== *)
theory Splits_Transport
  imports Splits_Plan Snapshots_Correct
begin

text \<open>
  A worker's copy of a scan: the clone a worker makes repeats its assignment, and the serialised scan
  is read back as the copy \<open>LanceCreateDistributedScanWorkerBind\<close> makes.
\<close>

section \<open>Clones\<close>

lemma applied_worker:
  assumes "LanceApplyDistributedScanSplits h w splits = Inr w'"
  shows "\<exists>st. w' = assigned w splits st"
  using assms by (cases "splits = []") (auto simp: apply_splits_iff apply_no_splits)

lemma worker_bind_authorized:
  assumes "LanceCreateDistributedScanWorkerBind h ffi err sf list_stats b = Inr w"
    and "distributed_authorization_restricted b"
  shows "distributed_authorized_split_ids w = distributed_authorized_split_ids b"
    and "distributed_authorized_split_payloads w = distributed_authorized_split_payloads b"
  using assms
  by (auto simp: LanceCreateDistributedScanWorkerBind_def res_bind_Inr_iff Let_def NewLanceScanBindData_def
      split: if_splits)

lemma clone_bind:
  assumes "LanceApplyDistributedScanSplits h w splits = Inr w'"
    and "LanceCreateDistributedScanWorkerBind h ffi err sf list_stats w' = Inr c"
  shows "clone_of w splits c"
proof -
  obtain st where "w' = assigned w splits st"
    using applied_worker [OF assms(1)] by blast
  then show ?thesis
    using worker_bind [OF assms(2)] worker_bind_authorized [OF assms(2)] by (simp add: clone_of_def assigned_def)
qed

text \<open>A copied bind, as the optimiser makes them, forgets nothing that takes part.\<close>

lemma copied_bind_same: "LanceScanBindData_Copy ffi err True b = Inr b"
  by (cases b) (simp add: LanceScanBindData_Copy_def NewLanceScanBindData_def)

lemma authorized_splits_named:
  "authorized_splits h ips = Inr ss \<Longrightarrow> map named ss = ips \<and> (\<forall>s\<in>set ss. ValidateSplit h s = Inr ())"
  by (induction ips arbitrary: ss) (auto simp: res_bind_Inr_iff Let_def named_def)

lemma restricted_plan:
  assumes "LanceApplyDistributedScanSplits h w splits = Inr w'"
    and "LancePlanDistributedScanSplits h ffi err list_stats w' n = Inr ss"
  shows "mset (map named ss) = mset (map named splits)" and "\<forall>s\<in>set ss. ValidateSplit h s = Inr ()"
proof -
  obtain st where "w' = assigned w splits st"
    using applied_worker [OF assms(1)] by blast
  then have "authorized_splits h (authorization splits) = Inr ss"
    using assms(2) by (auto simp: LancePlanDistributedScanSplits_def assigned_def res_bind_Inr_iff zip_map_fst_snd
        split: if_splits)
  then have ss: "map named ss = authorization splits" "\<forall>s\<in>set ss. ValidateSplit h s = Inr ()"
    using authorized_splits_named by blast+
  then show "mset (map named ss) = mset (map named splits)" and "\<forall>s\<in>set ss. ValidateSplit h s = Inr ()"
    by (simp_all add: authorization_def del: mset_map)
qed


section \<open>Serialisation\<close>

text \<open>What binding leaves in a scan that was resolved through a REST namespace.\<close>

definition rest_bound :: "LanceScanBind \<Rightarrow> bool" where
  "rest_bound b \<longleftrightarrow>
     (let c = distributed_rest_candidate b
      in UsesNamespaceQuery b \<longrightarrow>
           dataset_version b = pc_dataset_version c \<and> dataset_generation_id b = pc_dataset_generation_id c \<and>
           distributed_scan_token b = search_node_uuid c \<and> \<not> replay_path_restricted b)"

definition replay_path :: "LanceScanBind \<Rightarrow> string" where
  "replay_path b = (if resolved_rest b then physical_uri (distributed_rest_candidate b) else file_path b)"

text \<open>What can be read back: the worker refuses a copy with anything else.\<close>

definition portable :: "LanceScanBind \<Rightarrow> bool" where
  "portable b \<longleftrightarrow>
     CHR 0x00 \<notin> set (replay_path b) \<and> CHR 0x00 \<notin> set (dataset_generation_id b) \<and>
     names b \<noteq> [] \<and> length (names b) = length (types b) \<and>
     length (distributed_authorized_split_ids b) = length (distributed_authorized_split_payloads b) \<and>
     (distributed_authorization_restricted b \<or> distributed_authorized_split_ids b = [])"

text \<open>What is written of a scan, and the copy of it.\<close>

definition scan_properties ::
    "LanceScanBind \<Rightarrow> u64 list \<times> i64 list \<times> u64 list \<Rightarrow> LanceVaneFrozenSnapshot \<Rightarrow> properties" where
  "scan_properties b stats snapshot =
     [(100, PText (replay_path b)), (101, PNumber (dataset_version b)), (102, PText (dataset_generation_id b)),
      (103, PBool (explain_verbose b)), (104, PTexts (lance_pushed_filter_ir_parts b)),
      (105, PBool (distributed_authorization_restricted b)), (106, PTexts (distributed_authorized_split_ids b)),
      (107, PTexts (distributed_authorized_split_payloads b)),
      (108, PNumbers (if distributed_authorization_restricted b then [] else take_row_ids b)),
      (109, PText (distributed_scan_token b)), (110, PTexts (names b)), (111, PTypes (types b)),
      (112, PNumbers (fst stats)), (113, PNumbers (fst (snd stats))), (114, PNumbers (snd (snd stats))),
      (115, PNumber LANCE_VANE_FROZEN_SNAPSHOT_VERSION), (116, PText (serialized_manifest snapshot)),
      (117, PText (manifest_sha256 snapshot)), (118, PText (schema_fingerprint snapshot))]"

definition scan_copy ::
    "LanceScanBind \<Rightarrow> u64 list \<times> i64 list \<times> u64 list \<Rightarrow> LanceVaneFrozenSnapshot \<Rightarrow> LanceScanBind" where
  "scan_copy b stats snapshot = NewLanceScanBindData\<lparr>
     file_path := replay_path b, dataset_version := dataset_version b, dataset_generation_id := dataset_generation_id b,
     explain_verbose := explain_verbose b, lance_pushed_filter_ir_parts := lance_pushed_filter_ir_parts b,
     distributed_authorization_restricted := distributed_authorization_restricted b,
     distributed_authorized_split_ids := distributed_authorized_split_ids b,
     distributed_authorized_split_payloads := distributed_authorized_split_payloads b,
     take_row_ids := (if distributed_authorization_restricted b then [] else take_row_ids b),
     distributed_scan_token := distributed_scan_token b, names := names b, types := types b,
     distributed_fragment_ids := fst stats, distributed_fragment_row_counts := fst (snd stats),
     distributed_fragment_bytes_on_disk := snd (snd stats), distributed_replayable := True,
     distributed_frozen_snapshot := Some snapshot, distributed_snapshot_payload_validated := True,
     distributed_worker := True\<rparr>"

definition replayable_scan :: "scan_host \<Rightarrow> LanceScanBind \<Rightarrow> bool" where
  "replayable_scan h b \<longleftrightarrow>
     check_credentials b = Inr () \<and> (UsesNamespaceQuery b \<longrightarrow> resolved_rest b) \<and> distributed_replayable b \<and>
     \<not> replay_path_restricted b \<and> replay_path b \<noteq> [] \<and> dataset_version b \<noteq> 0 \<and> dataset_generation_id b \<noteq> [] \<and>
     IsValidLanceScanToken h (distributed_scan_token b)"

lemma written_scan:
  assumes "LanceScanSerialize h ffi err sf list_stats b = Inr ps" and "rest_bound b"
    and "portable_stats ffi err list_stats b = Inr stats"
    and "GetLanceDistributedSnapshotPayload ffi err sf b = Inr snapshot"
  shows "ps = scan_properties b stats snapshot \<and> replayable_scan h b"
proof (cases "resolved_rest b")
  case True
  then have "UsesNamespaceQuery b"
    by (simp add: resolved_rest_def)
  then show ?thesis
    using assms True
    by (cases stats) (auto simp: LanceScanSerialize_def rest_bound_def Let_def res_bind_Inr_iff replayable_scan_def
        replay_path_def scan_properties_def split: if_splits)
next
  case False
  then show ?thesis
    using assms
    by (cases stats) (auto simp: LanceScanSerialize_def LanceScanHasNonReplayablePrivateState_def Let_def res_bind_Inr_iff
        replayable_scan_def replay_path_def scan_properties_def split: if_splits)
qed

text \<open>A scan marked as validated holds a valid snapshot, so what is sent is always valid.\<close>

definition marked_valid :: "snapshot_ffi \<Rightarrow> LanceScanBind \<Rightarrow> bool" where
  "marked_valid sf b \<longleftrightarrow>
     (\<forall>s. distributed_snapshot_payload_validated b \<longrightarrow> distributed_frozen_snapshot b = Some s \<longrightarrow>
        LanceVaneValidateFrozenSnapshot sf s = None)"

lemma payload_valid:
  assumes "GetLanceDistributedSnapshotPayload ffi err sf b = Inr s" and "fixed_digests sf" and "marked_valid sf b"
  shows "LanceVaneValidateFrozenSnapshot sf s = None"
proof (cases "distributed_frozen_snapshot b")
  case None
  then obtain d path private_diagnostics where "LanceVaneFreezeSnapshot ffi err sf d path private_diagnostics = Inr s"
    using assms(1)
    by (auto simp: GetLanceDistributedSnapshotPayload_def Let_def res_bind_Inr_iff split: option.splits if_splits)
  then show ?thesis
    using frozen_is_valid [OF assms(2)] by blast
next
  case (Some s')
  then show ?thesis
    using assms(1,3) by (auto simp: GetLanceDistributedSnapshotPayload_def marked_valid_def split: if_splits option.splits)
qed

lemma worker_marked_valid:
  assumes "LanceCreateDistributedScanWorkerBind h ffi err sf list_stats b = Inr w" and "fixed_digests sf" and "marked_valid sf b"
  shows "marked_valid sf w"
  using assms(1) payload_valid [OF _ assms(2,3)]
  by (auto simp: LanceCreateDistributedScanWorkerBind_def res_bind_Inr_iff Let_def NewLanceScanBindData_def marked_valid_def
      split: if_splits)

lemmas reading = ReadProperty_def as_text_def as_number_def as_bool_def as_texts_def as_numbers_def as_types_def

lemma read_scan:
  assumes "replayable_scan h b" and "portable b" and "LanceVaneValidateFrozenSnapshot sf snapshot = None"
    and "length (fst stats) = length (fst (snd stats))" and "length (fst stats) = length (snd (snd stats))"
  shows "LanceScanDeserialize h sf (scan_properties b stats snapshot) = Inr (scan_copy b stats snapshot)"
  using assms
  by (cases snapshot) (auto simp: LanceScanDeserialize_def scan_properties_def reading replayable_scan_def portable_def
      scan_copy_def Let_def)

lemma copied_scan:
  assumes "replayable_scan h b" and "rest_bound b" and "portable b"
    and "portable_stats ffi err list_stats b = Inr stats"
    and "GetLanceDistributedSnapshotPayload ffi err sf b = Inr snapshot"
  shows "LanceCreateDistributedScanWorkerBind h ffi err sf list_stats b =
    Inr ((scan_copy b stats snapshot)\<lparr>take_row_ids := take_row_ids b\<rparr>)"
proof -
  have "UsesNamespaceQuery b" if "resolved_rest b"
    using that by (simp add: resolved_rest_def)
  then show ?thesis
    using assms
    by (cases stats) (auto simp: LanceCreateDistributedScanWorkerBind_def replayable_scan_def rest_bound_def portable_def
        replay_path_def scan_copy_def NewLanceScanBindData_def Let_def)
qed

end
