(* ===== verification/Transactions.thy ===== *)
theory Transactions
  imports Dataset_Cache Lance_Paths "HOL-Library.Multiset"
begin

text \<open>
  The transaction manager of an attached Lance database (\<open>lance_storage.cpp\<close>).  A statement that
  writes hands over an uncommitted Lance transaction, which waits here until DuckDB commits or rolls
  back.  The manager is shared by the connections of the database; each operation on
  \<open>pending_appends\<close> holds its lock.
\<close>

section \<open>The manager\<close>

record LancePendingAppend =
  append_path :: string
  append_options :: options
  append_cache_key :: string
  append_transaction :: nat

text \<open>
  The calls that take over an uncommitted transaction, and those of the base class.  A commit takes the
  transaction whether it succeeds or not.
\<close>

datatype tm_call =
    CommitCall string options nat nat
  | FreeCall nat
  | DuckCommit u64
  | DuckRollback u64

text \<open>\<open>unordered_map\<close> as a list with distinct keys; the calls made so far are the trace.\<close>

record LanceTransactionManager =
  pending_appends :: "(u64 \<times> LancePendingAppend list) list"
  tm_trace :: "tm_call list"

definition new_manager :: LanceTransactionManager where
  "new_manager = \<lparr>pending_appends = [], tm_trace = []\<rparr>"

text \<open>
  The results of the calls depend on what happened before: the code of
  \<open>lance_commit_transaction_with_storage_options\<close>, and the error of the base class's commit.
\<close>

record tm_host =
  commit_rc :: "tm_call list \<Rightarrow> string \<Rightarrow> options \<Rightarrow> nat \<Rightarrow> nat \<Rightarrow> int"
  duck_commit_error :: "tm_call list \<Rightarrow> u64 \<Rightarrow> string option"

definition pending_of :: "LanceTransactionManager \<Rightarrow> u64 \<Rightarrow> LancePendingAppend list" where
  "pending_of tm tid = (case map_of (pending_appends tm) tid of None \<Rightarrow> [] | Some appends \<Rightarrow> appends)"

definition RegisterPendingAppend ::
    "u64 \<Rightarrow> LancePendingAppend \<Rightarrow> LanceTransactionManager \<Rightarrow> LanceTransactionManager" where
  "RegisterPendingAppend tid pending tm =
     tm\<lparr>pending_appends := AList.update tid (pending_of tm tid @ [pending]) (pending_appends tm)\<rparr>"

text \<open>The appends are moved out and the entry is erased, under the lock.\<close>

definition take_pending ::
    "u64 \<Rightarrow> LanceTransactionManager \<Rightarrow> LancePendingAppend list \<times> LanceTransactionManager" where
  "take_pending tid tm =
     (pending_of tm tid, tm\<lparr>pending_appends := AList.delete tid (pending_appends tm)\<rparr>)"

definition free_call :: "LancePendingAppend \<Rightarrow> tm_call" where
  "free_call p = FreeCall (append_transaction p)"

text \<open>
  The loop of \<open>CommitTransaction\<close>: the error of the append that fails, after the others are freed and
  DuckDB's transaction is rolled back.
\<close>

fun commit_appends ::
    "connection \<Rightarrow> tm_host \<Rightarrow> last_error \<Rightarrow> u64 \<Rightarrow> LancePendingAppend list \<Rightarrow> tm_call list \<Rightarrow> conn_state
       \<Rightarrow> (exn + string option) \<times> tm_call list \<times> conn_state" where
  "commit_appends cn th err tid [] tr ctx = (Inr None, tr, ctx)"
| "commit_appends cn th err tid (pending # appends) tr ctx =
     (case BuildStorageOptionPointerArrays (append_options pending) of
        Inl x \<Rightarrow> (Inl x, tr, ctx)
      | Inr os \<Rightarrow>
          (case session_handle cn ctx of
             (Inl x, ctx) \<Rightarrow> (Inl x, tr, ctx)
           | (Inr h, ctx) \<Rightarrow>
               let tr' = tr @ [CommitCall (append_path pending) os h (append_transaction pending)]
               in if commit_rc th tr (append_path pending) os h (append_transaction pending) \<noteq> 0
                  then (Inr (Some (''Failed to commit Lance append transaction for '' @ [CHR 0x27] @
                                   append_path pending @ [CHR 0x27] @ LanceFormatErrorSuffix err)),
                        tr' @ map free_call appends @ [DuckRollback tid], ctx)
                  else commit_appends cn th err tid appends tr' ctx))"

definition CommitTransaction ::
    "connection \<Rightarrow> tm_host \<Rightarrow> last_error \<Rightarrow> u64 \<Rightarrow> LanceTransactionManager \<Rightarrow> conn_state
       \<Rightarrow> (exn + string option) \<times> LanceTransactionManager \<times> conn_state" where
  "CommitTransaction cn th err tid tm ctx =
     (case take_pending tid tm of (appends, tm) \<Rightarrow>
       (case commit_appends cn th err tid appends (tm_trace tm) ctx of
          (Inr None, tr, ctx) \<Rightarrow>
            (case duck_commit_error th tr tid of
               Some e \<Rightarrow> (Inr (Some e), tm\<lparr>tm_trace := tr @ [DuckCommit tid]\<rparr>, ctx)
             | None \<Rightarrow> (Inr None, tm\<lparr>tm_trace := tr @ [DuckCommit tid]\<rparr>,
                        fold (\<lambda>p. LanceInvalidateDatasetCache (append_cache_key p)) appends ctx))
        | (r, tr, ctx) \<Rightarrow> (r, tm\<lparr>tm_trace := tr\<rparr>, ctx)))"

definition RollbackTransaction :: "u64 \<Rightarrow> LanceTransactionManager \<Rightarrow> LanceTransactionManager" where
  "RollbackTransaction tid tm =
     (case take_pending tid tm of (appends, tm) \<Rightarrow>
        tm\<lparr>tm_trace := tm_trace tm @ map free_call appends @ [DuckRollback tid]\<rparr>)"

text \<open>The entry point of the writing statements; the catalog may belong to another kind of database.\<close>

definition RegisterLancePendingAppend ::
    "bool \<Rightarrow> u64 \<Rightarrow> string \<Rightarrow> options \<Rightarrow> string \<Rightarrow> nat \<Rightarrow> LanceTransactionManager
       \<Rightarrow> (exn + unit) \<times> LanceTransactionManager" where
  "RegisterLancePendingAppend lance_manager tid dataset_uri os cache_key lance_transaction tm =
     (if \<not> lance_manager
      then (Inl (InternalException ''RegisterLancePendingAppend requires LanceTransactionManager''),
            tm\<lparr>tm_trace := tm_trace tm @ [FreeCall lance_transaction]\<rparr>)
      else (Inr (), RegisterPendingAppend tid
              \<lparr>append_path = dataset_uri, append_options = os, append_cache_key = cache_key,
               append_transaction = lance_transaction\<rparr> tm))"


section \<open>Runs\<close>

text \<open>What connections ask of the manager; a commit comes with the connection and its state.\<close>

datatype tm_op =
    Register bool u64 string options string nat
  | Commit connection last_error u64 conn_state
  | Rollback u64

definition run_op_tm :: "tm_host \<Rightarrow> tm_op \<Rightarrow> LanceTransactionManager \<Rightarrow> bool \<times> LanceTransactionManager" where
  "run_op_tm th op tm =
     (case op of
        Register b tid path os key t \<Rightarrow> (True, snd (RegisterLancePendingAppend b tid path os key t tm))
      | Commit cn err tid ctx \<Rightarrow>
          (case CommitTransaction cn th err tid tm ctx of (r, tm, ctx) \<Rightarrow> (\<not> isl r, tm))
      | Rollback tid \<Rightarrow> (True, RollbackTransaction tid tm))"

text \<open>Whether no commit threw, and the manager afterwards.\<close>

fun run_tm :: "tm_host \<Rightarrow> tm_op list \<Rightarrow> LanceTransactionManager \<Rightarrow> bool \<times> LanceTransactionManager" where
  "run_tm th [] tm = (True, tm)"
| "run_tm th (op # ops) tm =
     (case run_op_tm th op tm of (ok, tm) \<Rightarrow> (case run_tm th ops tm of (ok', tm) \<Rightarrow> (ok \<and> ok', tm)))"

fun consumed :: "tm_call \<Rightarrow> nat list" where
  "consumed (CommitCall path os h t) = [t]"
| "consumed (FreeCall t) = [t]"
| "consumed _ = []"

definition consumed_handles :: "LanceTransactionManager \<Rightarrow> nat multiset" where
  "consumed_handles tm = mset (concat (map consumed (tm_trace tm)))"

definition held_handles :: "LanceTransactionManager \<Rightarrow> nat multiset" where
  "held_handles tm = mset (map append_transaction (concat (map snd (pending_appends tm))))"

fun received :: "tm_op \<Rightarrow> nat list" where
  "received (Register b tid path os key t) = [t]"
| "received _ = []"

definition manager_ok :: "LanceTransactionManager \<Rightarrow> bool" where
  "manager_ok tm \<longleftrightarrow> distinct (map fst (pending_appends tm))"


section \<open>Ownership\<close>

lemma held_parts:
  assumes "manager_ok tm"
  shows "held_handles tm = mset (map append_transaction (pending_of tm tid)) +
    held_handles (snd (take_pending tid tm))"
proof -
  have "mset (map append_transaction (concat (map snd ps))) =
      mset (map append_transaction (case map_of ps tid of None \<Rightarrow> [] | Some a \<Rightarrow> a)) +
      mset (map append_transaction (concat (map snd (AList.delete tid ps))))" if "distinct (map fst ps)" for ps
    using that
  proof (induction ps)
    case (Cons p ps)
    then show ?case
      by (cases "fst p = tid") (auto simp: map_of_eq_None_iff split: option.splits)
  qed simp
  then show ?thesis
    using assms by (simp add: held_handles_def pending_of_def take_pending_def manager_ok_def)
qed

lemma take_pending_ok: "manager_ok tm \<Longrightarrow> manager_ok (snd (take_pending tid tm))"
  by (simp add: manager_ok_def take_pending_def distinct_delete)

lemma RegisterPendingAppend_ok: "manager_ok tm \<Longrightarrow> manager_ok (RegisterPendingAppend tid p tm)"
  by (simp add: manager_ok_def RegisterPendingAppend_def distinct_update)

lemma RegisterPendingAppend_held:
  assumes "manager_ok tm"
  shows "held_handles (RegisterPendingAppend tid p tm) = add_mset (append_transaction p) (held_handles tm)"
proof -
  let ?tm = "RegisterPendingAppend tid p tm"
  have "pending_of ?tm tid = pending_of tm tid @ [p]"
    by (simp add: RegisterPendingAppend_def pending_of_def update_conv)
  moreover have "snd (take_pending tid ?tm) = snd (take_pending tid tm)"
    by (simp add: RegisterPendingAppend_def take_pending_def delete_update_same)
  ultimately show ?thesis
    using held_parts [OF assms, of tid] held_parts [OF RegisterPendingAppend_ok [OF assms], of tid p tid]
    by simp
qed

lemma consumed_free [simp]: "concat (map (consumed \<circ> free_call) ps) = map append_transaction ps"
  by (induction ps) (simp_all add: free_call_def)

lemma commit_appends_consumed:
  "commit_appends cn th err tid appends tr ctx = (r, tr', ctx') \<Longrightarrow>
     (\<exists>lost. concat (map consumed tr) @ map append_transaction appends = concat (map consumed tr') @ lost \<and>
        (\<not> isl r \<longrightarrow> lost = []))"
proof (induction appends arbitrary: tr ctx)
  case (Cons p ps)
  consider x where "r = Inl x" "tr' = tr"
    | os h ctx1 where "BuildStorageOptionPointerArrays (append_options p) = Inr os" "session_handle cn ctx = (Inr h, ctx1)"
    using Cons.prems by (auto split: sum.splits prod.splits)
  then show ?case
  proof cases
    case 2
    then show ?thesis
      using Cons.prems Cons.IH [of "tr @ [CommitCall (append_path p) os h (append_transaction p)]" ctx1]
      by (fastforce simp: Let_def split: if_splits)
  qed auto
qed simp

lemma CommitTransaction_handles:
  assumes "manager_ok tm" and "CommitTransaction cn th err tid tm ctx = (r, tm', ctx')"
  shows "manager_ok tm'" and "map_of (pending_appends tm') tid = None"
    and "held_handles tm' + consumed_handles tm' \<subseteq># held_handles tm + consumed_handles tm"
    and "\<not> isl r \<Longrightarrow> held_handles tm' + consumed_handles tm' = held_handles tm + consumed_handles tm"
proof -
  let ?t = "snd (take_pending tid tm)"
  obtain r1 tr ctx1 where run: "commit_appends cn th err tid (pending_of tm tid) (tm_trace tm) ctx = (r1, tr, ctx1)"
    by (metis prod_cases3)
  have "(tm' = ?t\<lparr>tm_trace := tr @ []\<rparr> \<or> tm' = ?t\<lparr>tm_trace := tr @ [DuckCommit tid]\<rparr>) \<and> isl r = isl r1"
    using assms(2) run
    by (cases r1) (auto simp: CommitTransaction_def take_pending_def split: option.splits)
  then obtain last where tm': "tm' = ?t\<lparr>tm_trace := tr @ last\<rparr>" and dk: "concat (map consumed last) = []"
      and r: "isl r = isl r1"
    using that [of "[]"] that [of "[DuckCommit tid]"] by auto
  obtain lost where lost: "concat (map consumed (tm_trace tm)) @ map append_transaction (pending_of tm tid) =
      concat (map consumed tr) @ lost" "\<not> isl r1 \<longrightarrow> lost = []"
    using commit_appends_consumed [OF run] by blast
  have "consumed_handles tm + mset (map append_transaction (pending_of tm tid)) = consumed_handles tm' + mset lost"
    using arg_cong [OF lost(1), of mset] tm' dk by (simp add: consumed_handles_def)
  moreover have "held_handles tm = mset (map append_transaction (pending_of tm tid)) + held_handles tm'"
    using held_parts [OF assms(1), of tid] tm' by (simp add: held_handles_def)
  ultimately have "held_handles tm + consumed_handles tm = held_handles tm' + consumed_handles tm' + mset lost"
    by (simp add: ac_simps)
  then show "held_handles tm' + consumed_handles tm' \<subseteq># held_handles tm + consumed_handles tm"
      and "\<not> isl r \<Longrightarrow> held_handles tm' + consumed_handles tm' = held_handles tm + consumed_handles tm"
    using lost(2) r by simp_all
  show "manager_ok tm'" and "map_of (pending_appends tm') tid = None"
    using take_pending_ok [OF assms(1), of tid] tm' by (simp_all add: manager_ok_def take_pending_def delete_conv)
qed

lemma RollbackTransaction_handles:
  assumes "manager_ok tm"
  shows "manager_ok (RollbackTransaction tid tm)" and "map_of (pending_appends (RollbackTransaction tid tm)) tid = None"
    and "held_handles (RollbackTransaction tid tm) + consumed_handles (RollbackTransaction tid tm) =
      held_handles tm + consumed_handles tm"
proof -
  let ?t = "snd (take_pending tid tm)"
  have tm': "RollbackTransaction tid tm =
      ?t\<lparr>tm_trace := tm_trace tm @ map free_call (pending_of tm tid) @ [DuckRollback tid]\<rparr>"
    by (simp add: RollbackTransaction_def take_pending_def)
  show "manager_ok (RollbackTransaction tid tm)" and "map_of (pending_appends (RollbackTransaction tid tm)) tid = None"
    using take_pending_ok [OF assms, of tid] tm' by (simp_all add: manager_ok_def take_pending_def delete_conv)
  show "held_handles (RollbackTransaction tid tm) + consumed_handles (RollbackTransaction tid tm) =
      held_handles tm + consumed_handles tm"
    using held_parts [OF assms, of tid] tm' by (simp add: held_handles_def consumed_handles_def ac_simps)
qed

lemma RegisterLancePendingAppend_handles:
  assumes "manager_ok tm"
  shows "manager_ok (snd (RegisterLancePendingAppend b tid path os key t tm))"
    and "held_handles (snd (RegisterLancePendingAppend b tid path os key t tm)) +
      consumed_handles (snd (RegisterLancePendingAppend b tid path os key t tm)) =
      add_mset t (held_handles tm + consumed_handles tm)"
proof -
  have trace: "tm_trace (RegisterPendingAppend tid p tm) = tm_trace tm" for p
    by (simp add: RegisterPendingAppend_def)
  show "manager_ok (snd (RegisterLancePendingAppend b tid path os key t tm))"
    using assms RegisterPendingAppend_ok [OF assms] by (simp add: RegisterLancePendingAppend_def) (simp add: manager_ok_def)
  show "held_handles (snd (RegisterLancePendingAppend b tid path os key t tm)) +
      consumed_handles (snd (RegisterLancePendingAppend b tid path os key t tm)) =
      add_mset t (held_handles tm + consumed_handles tm)"
    using RegisterPendingAppend_held [OF assms] trace
    by (simp add: RegisterLancePendingAppend_def consumed_handles_def) (simp add: held_handles_def)
qed

text \<open>No transaction is taken twice; without exceptions each is waiting or was taken once.\<close>

lemma run_op_handles:
  assumes "manager_ok tm" and "run_op_tm th op tm = (ok, tm')"
  shows "manager_ok tm' \<and>
    held_handles tm' + consumed_handles tm' \<subseteq># mset (received op) + (held_handles tm + consumed_handles tm) \<and>
    (ok \<longrightarrow> held_handles tm' + consumed_handles tm' = mset (received op) + (held_handles tm + consumed_handles tm))"
proof (cases op)
  case (Register b tid path os key t)
  then show ?thesis
    using assms(2) RegisterLancePendingAppend_handles [OF assms(1), of b tid path os key t]
    by (auto simp: run_op_tm_def)
next
  case (Commit cn err tid ctx)
  obtain r tm1 ctx1 where run: "CommitTransaction cn th err tid tm ctx = (r, tm1, ctx1)"
    by (metis prod_cases3)
  show ?thesis
    using assms(2) run Commit CommitTransaction_handles [OF assms(1) run] by (simp add: run_op_tm_def)
next
  case (Rollback tid)
  then show ?thesis
    using assms(2) RollbackTransaction_handles [OF assms(1)] by (auto simp: run_op_tm_def)
qed

lemma run_handles:
  assumes "manager_ok tm" and "run_tm th ops tm = (ok, tm')"
  shows "manager_ok tm' \<and>
    held_handles tm' + consumed_handles tm' \<subseteq># mset (concat (map received ops)) + (held_handles tm + consumed_handles tm) \<and>
    (ok \<longrightarrow> held_handles tm' + consumed_handles tm' =
       mset (concat (map received ops)) + (held_handles tm + consumed_handles tm))"
  using assms
proof (induction ops arbitrary: tm ok)
  case (Cons op ops)
  obtain ok1 tm1 where op: "run_op_tm th op tm = (ok1, tm1)"
    by fastforce
  obtain ok2 where ops: "run_tm th ops tm1 = (ok2, tm')" "ok = (ok1 \<and> ok2)"
    using Cons.prems(2) op by (auto split: prod.splits)
  note step = run_op_handles [OF Cons.prems(1) op]
  note rest = Cons.IH [OF conjunct1 [OF step] ops(1)]
  have "mset (concat (map received ops)) + (held_handles tm1 + consumed_handles tm1) \<subseteq>#
      mset (concat (map received ops)) + (mset (received op) + (held_handles tm + consumed_handles tm))"
    using step by (intro subset_mset.add_left_mono) blast
  with rest have "held_handles tm' + consumed_handles tm' \<subseteq>#
      mset (concat (map received ops)) + (mset (received op) + (held_handles tm + consumed_handles tm))"
    using subset_mset.order_trans by blast
  moreover have "ok \<longrightarrow> held_handles tm' + consumed_handles tm' =
      mset (concat (map received ops)) + (mset (received op) + (held_handles tm + consumed_handles tm))"
    using step rest ops(2) by simp
  ultimately show ?case
    using rest by (simp add: ac_simps)
qed auto


section \<open>Outcomes\<close>

text \<open>
  Calls, made after a trace, that commit a list of appends: one call each, in order, with the
  append's path, options and transaction, and the library answered each of them with 0.
\<close>

fun commits_appends :: "tm_host \<Rightarrow> tm_call list \<Rightarrow> tm_call list \<Rightarrow> LancePendingAppend list \<Rightarrow> bool" where
  "commits_appends th tr [] [] \<longleftrightarrow> True"
| "commits_appends th tr (CommitCall path os h t # cs) (p # ps) \<longleftrightarrow>
     path = append_path p \<and> os = append_options p \<and> t = append_transaction p \<and>
     commit_rc th tr path os h t = 0 \<and> commits_appends th (tr @ [CommitCall path os h t]) cs ps"
| "commits_appends th tr _ _ \<longleftrightarrow> False"

lemma pointer_arrays: "BuildStorageOptionPointerArrays os = Inr os' \<Longrightarrow> os' = os"
  by (simp add: BuildStorageOptionPointerArrays_def split: if_splits)

lemma committed_appends:
  assumes "commit_appends cn th err tid appends tr ctx = (Inr None, tr', ctx')"
  shows "\<exists>cs. tr' = tr @ cs \<and> commits_appends th tr cs appends"
  using assms
proof (induction appends arbitrary: tr ctx)
  case (Cons p ps)
  obtain os h ctx1 where os: "BuildStorageOptionPointerArrays (append_options p) = Inr os"
      and rc: "commit_rc th tr (append_path p) os h (append_transaction p) = 0"
      and rest: "commit_appends cn th err tid ps (tr @ [CommitCall (append_path p) os h (append_transaction p)]) ctx1 =
        (Inr None, tr', ctx')"
    using Cons.prems by (auto simp: Let_def split: sum.splits prod.splits if_splits)
  obtain cs where "tr' = (tr @ [CommitCall (append_path p) os h (append_transaction p)]) @ cs"
      and "commits_appends th (tr @ [CommitCall (append_path p) os h (append_transaction p)]) cs ps"
    using Cons.IH [OF rest] by blast
  then show ?case
    using pointer_arrays [OF os] rc
    by (intro exI [of _ "CommitCall (append_path p) os h (append_transaction p) # cs"]) simp
qed auto

text \<open>A failed append: those before it are committed, those after it freed, DuckDB rolled back.\<close>

definition fails_at ::
    "tm_host \<Rightarrow> u64 \<Rightarrow> tm_call list \<Rightarrow> LancePendingAppend list \<Rightarrow> tm_call list \<Rightarrow> bool" where
  "fails_at th tid tr appends cs \<longleftrightarrow>
     (\<exists>ps p qs done h. appends = ps @ p # qs \<and> commits_appends th tr done ps \<and>
        commit_rc th (tr @ done) (append_path p) (append_options p) h (append_transaction p) \<noteq> 0 \<and>
        cs = done @ CommitCall (append_path p) (append_options p) h (append_transaction p) #
          map free_call qs @ [DuckRollback tid])"

lemma fails_at_later:
  assumes "fails_at th tid (tr @ [CommitCall (append_path p) (append_options p) h (append_transaction p)]) ps cs"
    and "commit_rc th tr (append_path p) (append_options p) h (append_transaction p) = 0"
  shows "fails_at th tid tr (p # ps) (CommitCall (append_path p) (append_options p) h (append_transaction p) # cs)"
proof -
  let ?c = "CommitCall (append_path p) (append_options p) h (append_transaction p)"
  obtain qs q rs cs1 h1 where "ps = qs @ q # rs" "commits_appends th (tr @ [?c]) cs1 qs"
    "commit_rc th (tr @ ?c # cs1) (append_path q) (append_options q) h1 (append_transaction q) \<noteq> 0"
    "cs = cs1 @ CommitCall (append_path q) (append_options q) h1 (append_transaction q) # map free_call rs @ [DuckRollback tid]"
    using assms(1) unfolding fails_at_def by auto
  then show ?thesis
    unfolding fails_at_def using assms(2)
    by (intro exI [of _ "p # qs"] exI [of _ q] exI [of _ rs] exI [of _ "?c # cs1"] exI [of _ h1]) simp
qed

lemma failed_appends:
  assumes "commit_appends cn th err tid appends tr ctx = (Inr (Some e), tr', ctx')"
  shows "\<exists>cs. tr' = tr @ cs \<and> fails_at th tid tr appends cs"
  using assms
proof (induction appends arbitrary: tr ctx)
  case (Cons p ps)
  obtain os h ctx1 where os: "BuildStorageOptionPointerArrays (append_options p) = Inr os"
      and h: "session_handle cn ctx = (Inr h, ctx1)"
    using Cons.prems by (auto split: sum.splits prod.splits)
  note eq = pointer_arrays [OF os]
  let ?c = "CommitCall (append_path p) (append_options p) h (append_transaction p)"
  show ?case
  proof (cases "commit_rc th tr (append_path p) (append_options p) h (append_transaction p) = 0")
    case True
    then have "commit_appends cn th err tid ps (tr @ [?c]) ctx1 = (Inr (Some e), tr', ctx')"
      using Cons.prems os h eq by (simp add: Let_def)
    then obtain cs where "tr' = (tr @ [?c]) @ cs" "fails_at th tid (tr @ [?c]) ps cs"
      using Cons.IH by blast
    then show ?thesis using fails_at_later [OF _ True] by (intro exI [of _ "?c # cs"]) simp
  next
    case False
    then have "tr' = tr @ ?c # map free_call ps @ [DuckRollback tid]"
      using Cons.prems os h eq by (simp add: Let_def)
    moreover have "fails_at th tid tr (p # ps) (?c # map free_call ps @ [DuckRollback tid])"
      unfolding fails_at_def using False
      by (intro exI [of _ "[]"] exI [of _ p] exI [of _ ps] exI [of _ h]) simp
    ultimately show ?thesis by blast
  qed
qed simp

lemma invalidated_keys:
  assumes "registered_cache ctx = Some c" and "fold (\<lambda>p. LanceInvalidateDatasetCache (append_cache_key p)) ps ctx = ctx'"
  shows "\<exists>c'. registered_cache ctx' = Some c' \<and>
    (\<forall>key. map_of (entries c') key = (if key \<in> append_cache_key ` set ps then None else map_of (entries c) key))"
  using assms
proof (induction ps arbitrary: ctx c)
  case (Cons p ps)
  have "registered_cache (LanceInvalidateDatasetCache (append_cache_key p) ctx) = Some (Invalidate (append_cache_key p) c)"
    using Cons.prems(1) by (simp add: LanceInvalidateDatasetCache_def)
  from Cons.IH [OF this] Cons.prems(2) show ?case
    by (auto simp: Invalidate_def delete_conv)
qed auto

lemma commit_success:
  assumes "CommitTransaction cn th err tid tm ctx = (Inr None, tm', ctx')"
  shows "\<exists>tr ctx1. commit_appends cn th err tid (pending_of tm tid) (tm_trace tm) ctx = (Inr None, tr, ctx1) \<and>
    tm_trace tm' = tr @ [DuckCommit tid] \<and>
    fold (\<lambda>p. LanceInvalidateDatasetCache (append_cache_key p)) (pending_of tm tid) ctx1 = ctx'"
proof -
  obtain r tr ctx1 where run: "commit_appends cn th err tid (pending_of tm tid) (tm_trace tm) ctx = (r, tr, ctx1)"
    by (metis prod_cases3)
  then show ?thesis
    using assms
    by (cases r) (auto simp: CommitTransaction_def take_pending_def split: option.splits)
qed

text \<open>
  A commit that reports an error: either an append failed, or all appends were committed and
  DuckDB's own commit failed.
\<close>

lemma commit_failure:
  assumes "CommitTransaction cn th err tid tm ctx = (Inr (Some e), tm', ctx')"
  shows "\<exists>cs. tm_trace tm' = tm_trace tm @ cs \<and>
    (fails_at th tid (tm_trace tm) (pending_of tm tid) cs \<or>
     (\<exists>cs'. cs = cs' @ [DuckCommit tid] \<and> commits_appends th (tm_trace tm) cs' (pending_of tm tid) \<and>
        duck_commit_error th (tm_trace tm @ cs') tid = Some e))"
proof -
  obtain r tr ctx1 where run: "commit_appends cn th err tid (pending_of tm tid) (tm_trace tm) ctx = (r, tr, ctx1)"
    by (metis prod_cases3)
  consider x where "r = Inl x" | x where "r = Inr (Some x)" | "r = Inr None"
    by (metis option.exhaust sumE)
  then show ?thesis
  proof cases
    case 2
    then have "tm_trace tm' = tr"
      using assms run by (auto simp: CommitTransaction_def take_pending_def)
    then show ?thesis using failed_appends [OF run [unfolded 2]] by blast
  next
    case 3
    then have "tm_trace tm' = tr @ [DuckCommit tid]" "duck_commit_error th tr tid = Some e"
      using assms run by (auto simp: CommitTransaction_def take_pending_def split: option.splits)
    then show ?thesis using committed_appends [OF run [unfolded 3]] by auto
  qed (use assms run in \<open>simp add: CommitTransaction_def take_pending_def\<close>)
qed

lemma commit_appends_cache:
  "commit_appends cn th err tid appends tr ctx = (r, tr', ctx') \<Longrightarrow> registered_cache ctx' = registered_cache ctx"
proof (induction appends arbitrary: tr ctx)
  case (Cons p ps)
  have "registered_cache ctx1 = registered_cache ctx" if "session_handle cn ctx = (r1, ctx1)" for r1 ctx1
    using that by (auto simp: session_handle_def split: prod.splits)
  then show ?case
    using Cons.prems Cons.IH by (auto simp: Let_def split: sum.splits prod.splits if_splits)
qed simp

end
