(* ===== verification/Splits_Samples.thy ===== *)
theory Splits_Samples
  imports Splits_Transport Transactions Host_Samples
begin

text \<open>A distributed scan of two fragments, and a database with one append waiting.\<close>

section \<open>A scan\<close>

definition sample_token :: string where
  "sample_token = replicate 36 (CHR ''a'')"

definition sample_scan_host :: scan_host where
  "sample_scan_host = \<lparr>UuidFromString = (\<lambda>_. True),
     ValidateSplit = (\<lambda>s. if split_id s = [] then Inl (InvalidInputException []) else Inr ()),
     optional_idx = (\<lambda>n. Inr (Some n))\<rparr>"

definition sample_stats :: stats_ffi where
  "sample_stats d = (case d of None \<Rightarrow> None | Some _ \<Rightarrow> Some [(3, 10, 0), (5, 20, 0)])"

definition sample_snapshot :: LanceVaneFrozenSnapshot where
  "sample_snapshot = \<lparr>serialized_manifest = ''m'', manifest_sha256 = replicate 32 (CHR ''s''),
     schema_fingerprint = replicate 32 (CHR ''f'')\<rparr>"

definition sample_snapshot_fns :: snapshot_ffi where
  "sample_snapshot_fns = \<lparr>lance_vane_sha256 = (\<lambda>_. Some (replicate 32 (CHR ''s''))),
     lance_vane_dataset_schema_fingerprint = (\<lambda>_. Some (replicate 32 (CHR ''f''))),
     lance_vane_serialize_dataset_manifest = (\<lambda>_. Some ''m''), lance_dataset_version = (\<lambda>_. 4),
     lance_dataset_generation_id = (\<lambda>_. Some ''g'')\<rparr>"

definition sample_scan :: LanceScanBind where
  "sample_scan = NewLanceScanBindData\<lparr>names := [''x''], types := [SimpleType BIGINT], file_path := ''/data/t.lance'',
     bound_dataset := Some 1, dataset_version := 4, dataset_generation_id := ''g'',
     distributed_scan_token := sample_token, distributed_replayable := True\<rparr>"

definition no_error :: last_error where
  "no_error = \<lparr>lance_last_error_code = 0, lance_last_error_message = None\<rparr>"

definition sample_split :: "u64 \<Rightarrow> nat \<Rightarrow> DistributedScanSplit" where
  "sample_split i n = \<lparr>split_id = ''fragment:'' @ word_text i, payload = ''LFS1'' @ sample_token @ le_bytes i,
     estimated_cardinality = Some n, estimated_bytes = None\<rparr>"

lemma sample_token_valid: "IsValidLanceScanToken sample_scan_host sample_token"
  by (simp add: IsValidLanceScanToken_def sample_scan_host_def sample_token_def LANCE_SCAN_TOKEN_SIZE_def)

lemma sample_encode: "EncodeLanceFragmentSplit sample_scan_host sample_token i = Inr (''LFS1'' @ sample_token @ le_bytes i)"
  using sample_token_valid EncodeLanceFragmentSplit_payload by blast

lemma sample_portable_stats:
  "portable_stats sample_ffi no_error sample_stats sample_scan = Inr ([3, 5], [10, 20], [0, 0])"
  by (simp add: portable_stats_def ReadLanceDistributedFragmentStats_def sample_scan_def NewLanceScanBindData_def
      sample_stats_def resolved_rest_def)

lemma sample_plan:
  "LancePlanDistributedScanSplits sample_scan_host sample_ffi no_error sample_stats sample_scan 2 =
     Inr [sample_split 3 10, sample_split 5 20]"
  by (simp add: LancePlanDistributedScanSplits_def check_credentials_def sample_scan_def NewLanceScanBindData_def
      ReadLanceDistributedFragmentStats_def planning_dataset_def sample_stats_def fragment_split_def sample_encode
      sample_split_def) (simp add: sample_scan_host_def)

lemma sample_valid: "ValidateSplit sample_scan_host (sample_split i n) = Inr ()"
  by (simp add: sample_scan_host_def sample_split_def)

lemma sample_payload:
  "GetLanceDistributedSnapshotPayload sample_ffi no_error sample_snapshot_fns sample_scan = Inr sample_snapshot"
  by (simp add: GetLanceDistributedSnapshotPayload_def sample_scan_def NewLanceScanBindData_def sample_snapshot_fns_def
      resolved_rest_def no_candidate_def LanceVaneFreezeSnapshot_def LanceVaneSha256_def
      LanceVaneDatasetSchemaFingerprint_def LANCE_VANE_MAX_SERIALIZED_MANIFEST_BYTES_def sample_snapshot_def Let_def)

lemma sample_snapshot_valid: "LanceVaneValidateFrozenSnapshot sample_snapshot_fns sample_snapshot = None"
  by (simp add: LanceVaneValidateFrozenSnapshot_def LanceVaneSha256_def sample_snapshot_def sample_snapshot_fns_def
      LANCE_VANE_MAX_SERIALIZED_MANIFEST_BYTES_def LANCE_VANE_FROZEN_SNAPSHOT_DIGEST_SIZE_def)

lemma sample_digests: "fixed_digests sample_snapshot_fns" "marked_valid sample_snapshot_fns sample_scan"
  by (simp_all add: fixed_digests_def marked_valid_def sample_snapshot_fns_def LANCE_VANE_FROZEN_SNAPSHOT_DIGEST_SIZE_def
      sample_scan_def NewLanceScanBindData_def)

definition sample_version_ffi :: version_ffi where
  "sample_version_ffi = \<lparr>lance_vane_open_dataset_version_with_session = (\<lambda>_ _ _. Some 1),
     lance_vane_open_dataset_version_with_storage_options_and_session = (\<lambda>_ _ _ _. Some 1)\<rparr>"

definition sample_snapshot_ctx :: snapshot_ctx where
  "sample_snapshot_ctx = \<lparr>snapshot_conn = sample_ctx, snapshot_cache = None\<rparr>"

lemma sample_open_snapshot:
  "\<exists>e ctx. OpenLanceDistributedSnapshot sample_connection no_error sample_version_ffi sample_snapshot_fns ''/data/t'' 4 ''g''
     sample_snapshot sample_snapshot_ctx = (Inr e, ctx)"
proof -
  have cn: "duck sample_connection = sample_duckdb" "path_fns sample_connection = sample_ffi"
      "client_of sample_connection = plain_client" "vane_build sample_connection"
    by (simp_all add: sample_connection_def)
  have "resolve_for_read True sample_duckdb sample_ffi plain_client ''/data/t'' = Inr (''/data/t'', no_options)"
    by (rule sample_resolve_read)
  then have read: "ResolveLanceStorageOptionsForDistributedRead sample_duckdb sample_ffi plain_client ''/data/t'' =
      Inr (''/data/t'', no_options)"
    by (simp add: resolve_for_read_def)
  have redaction: "LanceVanePathRequiresRedaction sample_duckdb sample_ffi plain_client ''/data/t'' = Inr False"
    using read by (simp add: LanceVanePathRequiresRedaction_def LanceVaneClassifyPath_def sample_ffi_def path_flags no_options_def)
  obtain key where key: "LanceBuildPathDatasetCacheKey sample_connection ''/data/t'' = Inr key"
    using sample_key sample_resolve_read(1) by (auto simp: LanceBuildPathDatasetCacheKey_def cn)
  obtain ctx' where session: "session_handle sample_connection sample_ctx = (Inr 7, ctx')"
    using sample_session(1) by blast
  show ?thesis
    using redaction read key session
    by (simp add: OpenLanceDistributedSnapshot_def LanceVaneGetOrOpenFrozenSnapshot_def cn LanceVaneSnapshotCacheKey_def
        snapshot_lookup_def sample_snapshot_ctx_def empty_snapshot_cache_def SnapshotGet_def SnapshotPutOrGetExisting_def
        LanceOpenDatasetVersionFromManifestForDistributedScan_def open_pinned_def no_options_def sample_version_ffi_def
        check_version_def check_generation_def check_fingerprint_def LanceVaneDatasetGenerationId_def
        LanceVaneDatasetSchemaFingerprint_def sample_snapshot_fns_def sample_snapshot_def Let_def)
qed

definition sample_worker :: LanceScanBind where
  "sample_worker = (scan_copy sample_scan ([3, 5], [10, 20], [0, 0]) sample_snapshot)\<lparr>take_row_ids := []\<rparr>"

lemma sample_replayable:
  "replayable_scan sample_scan_host sample_scan" "rest_bound sample_scan" "portable sample_scan"
  by (simp_all add: replayable_scan_def rest_bound_def portable_def check_credentials_def replay_path_def resolved_rest_def
      sample_token_valid sample_scan_def NewLanceScanBindData_def)

lemma sample_worker_bind:
  "LanceCreateDistributedScanWorkerBind sample_scan_host sample_ffi no_error sample_snapshot_fns sample_stats sample_scan =
     Inr sample_worker"
  using copied_scan [OF sample_replayable sample_portable_stats sample_payload]
  by (simp add: sample_worker_def) (simp add: sample_scan_def NewLanceScanBindData_def)

lemma sample_written:
  "\<exists>ps. LanceScanSerialize sample_scan_host sample_ffi no_error sample_snapshot_fns sample_stats sample_scan = Inr ps"
  using sample_replayable(1) sample_portable_stats sample_payload
  by (simp add: LanceScanSerialize_def LanceScanHasNonReplayablePrivateState_def Let_def)
    (simp add: replayable_scan_def check_credentials_def LanceVanePathHasPrivateUriComponents_def LanceVaneClassifyPath_def
      sample_ffi_def path_flags sample_scan_def NewLanceScanBindData_def resolved_rest_def no_candidate_def)


text \<open>One worker's part, and the clone it makes.\<close>

lemma sample_fragment: "fragment_of sample_scan_host sample_worker (sample_split i n) = Some i"
proof -
  have "distributed_scan_token sample_worker = sample_token" "take_row_ids sample_worker = []"
    by (simp_all add: sample_worker_def scan_copy_def sample_scan_def)
  then show ?thesis
    using decode_fragment_payload [OF sample_token_valid, of i] sample_valid [of i n]
    by (simp add: split_defs) (simp add: sample_split_def)
qed

lemma sample_applied:
  "LanceApplyDistributedScanSplits sample_scan_host sample_worker [sample_split i n] =
     Inr (assigned sample_worker [sample_split i n] (fragments_state [i]))"
proof -
  have "all_fragments sample_scan_host sample_worker [sample_split i n] [i]"
    by (simp add: all_fragments_def sample_fragment)
  then have "res_foldl (apply_split sample_scan_host sample_worker) start_state [sample_split i n] = Inr (fragments_state [i])"
    by (rule fold_from_start_fragments) simp_all
  then show ?thesis
    by (simp only: apply_splits_iff list.distinct not_False_eq_True)
      (simp add: sample_worker_def scan_copy_def sample_scan_def NewLanceScanBindData_def fragments_state_def)
qed

lemma sample_assignment:
  "\<exists>w' c ss. LanceApplyDistributedScanSplits sample_scan_host sample_worker [sample_split 5 20] = Inr w' \<and>
     mset (selected_work w') = {#Fragment 5#} \<and>
     LanceCreateDistributedScanWorkerBind sample_scan_host sample_ffi no_error sample_snapshot_fns sample_stats w' = Inr c \<and>
     LancePlanDistributedScanSplits sample_scan_host sample_ffi no_error sample_stats w' 2 = Inr ss"
proof -
  let ?w = "assigned sample_worker [sample_split 5 20] (fragments_state [5])"
  have w: "check_credentials ?w = Inr ()" "\<not> UsesNamespaceQuery ?w" "distributed_replayable ?w" "dataset_version ?w \<noteq> 0"
      "dataset_generation_id ?w \<noteq> []" "distributed_scan_token ?w = sample_token" "distributed_worker ?w"
      "distributed_authorization_restricted ?w" "distributed_frozen_snapshot ?w = Some sample_snapshot"
      "distributed_snapshot_payload_validated ?w"
      "distributed_authorized_split_ids ?w = [split_id (sample_split 5 20)]"
      "distributed_authorized_split_payloads ?w = [payload (sample_split 5 20)]"
    by (simp_all add: assigned_def sample_worker_def scan_copy_def sample_scan_def NewLanceScanBindData_def
        check_credentials_def authorization_def named_def)
  have "\<exists>c. LanceCreateDistributedScanWorkerBind sample_scan_host sample_ffi no_error sample_snapshot_fns sample_stats ?w = Inr c"
    using w sample_token_valid
    by (simp add: LanceCreateDistributedScanWorkerBind_def GetLanceDistributedSnapshotPayload_def portable_stats_def Let_def)
  moreover have "\<exists>ss. LancePlanDistributedScanSplits sample_scan_host sample_ffi no_error sample_stats ?w 2 = Inr ss"
    using w by (simp add: LancePlanDistributedScanSplits_def Let_def) (simp add: sample_scan_host_def sample_split_def)
  moreover have "mset (selected_work ?w) = {#Fragment 5#}"
    by (simp add: selected_work_def assigned_def fragments_state_def)
  ultimately show ?thesis
    using sample_applied by blast
qed


section \<open>A transaction\<close>

definition sample_tm_host :: tm_host where
  "sample_tm_host = \<lparr>commit_rc = (\<lambda>_ _ _ _ t. if t = 21 then 0 else 1), duck_commit_error = (\<lambda>_ _. None)\<rparr>"

definition sample_cached_ctx :: conn_state where
  "sample_cached_ctx = sample_ctx\<lparr>registered_cache :=
     Some (empty_cache\<lparr>entries := [(''k'', \<lparr>dataset = 1, entry_display_uri = []\<rparr>)]\<rparr>)\<rparr>"

definition sample_manager :: LanceTransactionManager where
  "sample_manager = snd (RegisterLancePendingAppend True 9 ''/data/t.lance'' no_options ''k'' 21 new_manager)"

lemma sample_commit:
  "\<exists>tm ctx. CommitTransaction sample_connection sample_tm_host no_error 9 sample_manager sample_cached_ctx = (Inr None, tm, ctx)"
proof -
  obtain ctx where "session_handle sample_connection sample_cached_ctx = (Inr 7, ctx)"
    using sample_session(2) unfolding sample_cached_ctx_def by blast
  then show ?thesis
    by (simp add: CommitTransaction_def take_pending_def pending_of_def sample_manager_def RegisterLancePendingAppend_def
        RegisterPendingAppend_def new_manager_def BuildStorageOptionPointerArrays_def no_options_def sample_tm_host_def Let_def)
qed

lemma sample_manager_pending:
  "tm_trace sample_manager = []"
  "pending_of sample_manager 9 =
     [\<lparr>append_path = ''/data/t.lance'', append_options = no_options, append_cache_key = ''k'', append_transaction = 21\<rparr>]"
  by (simp_all add: sample_manager_def RegisterLancePendingAppend_def RegisterPendingAppend_def pending_of_def new_manager_def)

lemma commits_one:
  "commits_appends th tr cs [p] \<longleftrightarrow>
     (\<exists>h. cs = [CommitCall (append_path p) (append_options p) h (append_transaction p)] \<and>
        commit_rc th tr (append_path p) (append_options p) h (append_transaction p) = 0)"
  by (cases "(th, tr, cs, [p])" rule: commits_appends.cases) (auto split: list.splits elim: commits_appends.elims)

end
