(* ===== verification/Scan_Samples.thy ===== *)
theory Scan_Samples
  imports Scan_Limit_Correct Scan_Run_Correct Splits_Samples Samples
begin

text \<open>Plans over a scan of one column and the row id, on which the optimizer passes run.\<close>

section \<open>Plans\<close>

definition sample_scan_bind :: ScanBind where
  "sample_scan_bind = LanceScanBind.extend
     (NewLanceScanBindData\<lparr>names := [''x''], types := [SimpleType BIGINT], bound_dataset := Some 7\<rparr>)
     (ScanBind.fields [] False 0 (- 1) False False None 0)"

definition sample_scan_get :: "TableFilterSet \<Rightarrow> ScanGet" where
  "sample_scan_get fs =
     \<lparr>logical_get = \<lparr>get_table_index = 0,
        get_column_ids = [ColumnIndex 0 False [], ColumnIndex LANCE_COLUMN_IDENTIFIER_ROW_ID False []], table_filters = fs\<rparr>,
      function_name = ''__lance_scan'', get_bind_data = Some sample_scan_bind, get_sample_options = None\<rparr>"

definition sample_row_id :: Expression where
  "sample_row_id = BoundColumnRef (SimpleType UBIGINT) \<lparr>table_index = 0, column_index = 1\<rparr> 0"

definition row_eq :: "u64 \<Rightarrow> Expression" where
  "row_eq r = BoundComparison COMPARE_EQUAL (Some sample_row_id) (Some (BoundConstant (UBigIntValue r)))"

definition any_row :: "u64 list \<Rightarrow> Expression" where
  "any_row rows = BoundConjunction CONJUNCTION_OR (map (\<lambda>r. Some (row_eq r)) rows)"

definition sample_lookup :: "TableFilterSet \<Rightarrow> u64 list \<Rightarrow> plan" where
  "sample_lookup fs rows = FilterOp [Some (any_row rows)] [Some (ScanOp (sample_scan_get fs) [] 100)] 10"

definition rows_in :: "u64 list \<Rightarrow> TableFilterSet" where
  "rows_in rows = [(LANCE_COLUMN_IDENTIFIER_ROW_ID, Some (InFilter (map UBigIntValue rows)))]"

definition sample_limits :: plan where
  "sample_limits = LimitOp (LimitConstant 10) LimitUnset
     [Some (LimitOp (LimitConstant 5) LimitUnset [Some (ScanOp (sample_scan_get []) [] 100)] 5)] 10"

text \<open>DuckDB's translation of filters, and a truth that leaves all other predicates unknown.\<close>

fun as_expression :: "TableFilter \<Rightarrow> Expression \<Rightarrow> Expression" where
  "as_expression (InFilter vs) col = BoundOperator (SimpleType BOOLEAN) COMPARE_IN (Some col # map (\<lambda>v. Some (BoundConstant v)) vs)"
| "as_expression (ConstantFilter k v) col = BoundComparison k (Some col) (Some (BoundConstant v))"
| "as_expression (OptionalFilter (Some f)) col = as_expression f col"
| "as_expression f col = BoundConjunction CONJUNCTION_AND []"

definition sample_plan_host :: plan_host where
  "sample_plan_host = \<lparr>ToExpression = as_expression, EnumerateExpression = (\<lambda>e. []),
     ExpressionToString = (\<lambda>column e. []), VisitExpressionMutable = (\<lambda>f e. Done e)\<rparr>"

definition unknown :: truth where
  "unknown = \<lparr>on_expression = (\<lambda>r e. None), on_filter = (\<lambda>r c f. None)\<rparr>"

lemma row_constants_mixed:
  "row_constants (map (\<lambda>v. Some (BoundConstant v)) vs) = (if list_all comparable vs then Some vs else None)"
  by (induction vs) auto

lemma sample_as_expressions: "filters_as_expressions unknown db sample_plan_host"
proof -
  have "row_truth (\<lambda>e. None) (is_row_id db get) r (as_expression f col) = filter_truth (\<lambda>f. None) r f"
    if "is_row_id db get col" for get r f col
    using that by (induction f col rule: as_expression.induct) (auto simp: row_constants_mixed)
  then show ?thesis by (simp add: filters_as_expressions_def unknown_def sample_plan_host_def)
qed


section \<open>Rewrites\<close>

lemma sample_identifiers:
  "COLUMN_IDENTIFIER_ROW_ID sample_duckdb = 18446744073709551615"
  "COLUMN_IDENTIFIER_EMPTY sample_duckdb = 18446744073709551614"
  by (simp_all add: sample_duckdb_def)

lemmas sample_plan_defs = sample_lookup_def sample_scan_get_def sample_scan_bind_def sample_row_id_def row_eq_def any_row_def
  rows_in_def sample_identifiers LANCE_COLUMN_IDENTIFIER_ROW_ID_def IsLanceVirtualRowIdColumnId_def lance_bind_def
  IsLanceScanTableFunction_def LanceScanBind.defs ScanBind.defs NewLanceScanBindData_def

lemmas sample_row_defs = IsLanceRowIdColumn_def row_id_position_def lookup_value_def lookup_equal_def

lemma sample_is_row_id: "is_row_id sample_duckdb (logical_get (sample_scan_get fs)) sample_row_id"
  by (simp add: sample_plan_defs sample_row_defs)

lemma sample_extract:
  "rows \<noteq> [] \<Longrightarrow> TryExtractTakeRowIdsFromExpression vane sample_duckdb (logical_get (sample_scan_get fs)) (any_row rows) = Done rows"
proof -
  have eq: "try_extract_equal vane sample_duckdb (logical_get (sample_scan_get fs)) (row_eq r) = Done r" for r
    by (simp add: row_eq_def sample_is_row_id lookup_equal_def lookup_value_def)
  have "extract_stack vane sample_duckdb (logical_get (sample_scan_get fs)) out (map (\<lambda>r. Some (row_eq r)) rows) =
      (if out @ rows = [] then Refused else Done (out @ rows))" for out
  proof (induction rows arbitrary: out)
    case (Cons r rows)
    have "extract_stack vane sample_duckdb (logical_get (sample_scan_get fs)) out (Some (row_eq r) # map (\<lambda>r. Some (row_eq r)) rows) =
        try_bind (try_extract_equal vane sample_duckdb (logical_get (sample_scan_get fs)) (row_eq r))
          (\<lambda>row. extract_stack vane sample_duckdb (logical_get (sample_scan_get fs)) (out @ [row]) (map (\<lambda>r. Some (row_eq r)) rows))"
      by (simp add: row_eq_def)
    also have "\<dots> = extract_stack vane sample_duckdb (logical_get (sample_scan_get fs)) (out @ [r]) (map (\<lambda>r. Some (row_eq r)) rows)"
      by (simp add: eq)
    finally show ?case using Cons.IH [of "out @ [r]"] by simp
  qed simp
  then show "rows \<noteq> [] \<Longrightarrow> ?thesis" by (simp add: any_row_def)
qed

text \<open>The plan after the rewrite.\<close>

definition sample_taken :: "u64 list \<Rightarrow> plan" where
  "sample_taken rows = ScanOp (set_bind (set_take rows sample_scan_bind) (sample_scan_get [])) [] 10"


lemma sample_bind_lance [simp]:
  "lance_bind (sample_scan_get fs) = Some sample_scan_bind"
  "\<not> UsesNamespaceQuery sample_scan_bind" "take_row_ids sample_scan_bind = []" "\<not> limit_offset_pushed_down sample_scan_bind"
  "table_filters (logical_get (sample_scan_get fs)) = fs" "get_sample_options (sample_scan_get fs) = None"
  by (simp_all add: sample_plan_defs)

lemma sample_set_bind [simp]: "set_filters fs' (sample_scan_get fs) = sample_scan_get fs'"
  by (simp add: set_filters_def sample_scan_get_def)

lemma sample_lookup_rewritten:
  assumes "rows \<noteq> []"
  shows "LanceRowIdInRewrite vane sample_duckdb h (sample_lookup [] rows) =
    Inr (sample_taken (if vane then NormalizeSqlTakeRowIds rows else rows))"
proof -
  have "NormalizeSqlTakeRowIds rows \<noteq> []" using assms set_NormalizeSqlTakeRowIds [of rows] by fastforce
  then show ?thesis
    using assms sample_extract [OF assms, of vane "[]"]
    by (simp add: sample_lookup_def rewrite_children_def rewrite_scan_def row_id_filter_def filter_at_def rewrite_filter_def
        erase_at_def sample_taken_def Let_def)
qed

lemma lookup_in_values: "lookup_values vane (map UBigIntValue rows) = Done rows"
  by (induction rows) (simp_all add: lookup_value_def)

text \<open>A filter of the row id below a filter of the row id: the second lookup replaces the first.\<close>

lemma sample_lookup_twice:
  assumes "rows \<noteq> []" and "others \<noteq> []"
  shows "LanceRowIdInRewrite vane sample_duckdb h (sample_lookup (rows_in others) rows) =
    Inr (sample_taken (if vane then NormalizeSqlTakeRowIds rows else rows))"
proof -
  have n: "NormalizeSqlTakeRowIds rows \<noteq> []" "NormalizeSqlTakeRowIds others \<noteq> []"
    using assms set_NormalizeSqlTakeRowIds [of rows] set_NormalizeSqlTakeRowIds [of others] by fastforce+
  have t: "take_of_filter vane sample_scan_bind (InFilter (map UBigIntValue others)) =
      Done (if vane then NormalizeSqlTakeRowIds others else others)"
    using assms n by (simp add: take_of_filter_def lookup_in_values)
  have bind: "lance_bind (set_bind b (sample_scan_get [])) = Some b" for b
    using lance_bind_set_bind by simp
  have "rewrite_scan vane sample_duckdb h (sample_scan_get (rows_in others)) [] 100 =
      Inr (ScanOp (set_bind (set_take (if vane then NormalizeSqlTakeRowIds others else others) sample_scan_bind) (sample_scan_get [])) [] 100)"
    by (simp add: rewrite_scan_def row_id_filter_def filter_at_def rows_in_def t erase_filter_def Let_def)
  then show ?thesis
    using assms n sample_extract [OF assms(1), of vane "[]"]
    by (simp add: sample_lookup_def rewrite_children_def rewrite_filter_def erase_at_def sample_taken_def bind Let_def)
      (simp add: set_take_def set_bind_def)
qed

lemma sample_any_row:
  "expression_holds unknown (is_row_id sample_duckdb (logical_get (sample_scan_get fs))) r (Some (any_row rows)) \<longleftrightarrow> r \<in> set rows"
proof (cases "rows = []")
  case False
  from expression_rows [OF sample_extract [OF this]] show ?thesis by (simp add: expression_holds_def)
qed (simp add: expression_holds_def any_row_def)

lemma sample_chain_row: "chain_row sample_duckdb (ScanOp (sample_scan_get fs) [] n) = is_row_id sample_duckdb (logical_get (sample_scan_get fs))"
  by (simp add: chain_row_def fun_eq_iff)

lemma sample_lookup_copies:
  "copies unknown sample_duckdb r (sample_lookup [] rows) = (if r \<in> set rows then 1 else 0)"
  "copies unknown sample_duckdb r (sample_lookup (rows_in others) rows) = (if r \<in> set rows \<inter> set others then 1 else 0)"
  "rows \<noteq> [] \<Longrightarrow> copies unknown sample_duckdb r (sample_taken rows) = count_list rows r"
proof -
  have others: "list_all (entry_holds unknown sample_duckdb r) (rows_in others) \<longleftrightarrow> r \<in> set others"
    using filter_rows [of False "InFilter (map UBigIntValue others)" others _ r]
    by (simp add: rows_in_def entry_holds_def table_filter_holds_def row_id_key_def lookup_in_values)
  show "copies unknown sample_duckdb r (sample_lookup [] rows) = (if r \<in> set rows then 1 else 0)"
    by (simp add: copies_def sample_lookup_def taken_def scan_take_def sample_chain_row sample_any_row)
  show "copies unknown sample_duckdb r (sample_lookup (rows_in others) rows) = (if r \<in> set rows \<inter> set others then 1 else 0)"
    by (simp add: copies_def sample_lookup_def taken_def scan_take_def sample_chain_row sample_any_row others)
  show "copies unknown sample_duckdb r (sample_taken rows) = count_list rows r" if "rows \<noteq> []"
    using that by (simp add: copies_def sample_taken_def taken_def scan_take_set)
qed

lemma sample_sites: "rows \<noteq> [] \<Longrightarrow> sites vane sample_duckdb (sample_lookup [] rows) = 1"
  by (simp add: sample_lookup_def scan_site_def row_id_filter_def filter_at_def lookup_expression_def sample_extract)


section \<open>Limits\<close>

definition sample_limited :: "nat option \<Rightarrow> nat \<Rightarrow> plan" where
  "sample_limited lim n = ScanOp (set_bind (set_limit lim 0 sample_scan_bind) (sample_scan_get [])) [] n"

lemma sample_no_probe: "ProbeLanceTableFilterIR db (logical_get (sample_scan_get [])) nms tys = Inr empty_result"
  by (simp add: ProbeLanceTableFilterIR_def)

lemma sample_limit_allowed:
  assumes "logical_get g = logical_get (sample_scan_get [])" and "get_sample_options g = None"
    and "\<not> UsesNamespaceQuery b" and "take_row_ids b = []"
  shows "limit_allowed sample_duckdb h lim 0 g b [] = Inr True"
  using assms by (simp add: limit_allowed_def sample_no_probe empty_result_def)

lemma sample_limit_pushed:
  "push_limit sample_duckdb h sample_scan_host (LimitConstant m) LimitUnset [Some (ScanOp (sample_scan_get []) [] k)] m =
     Inr (sample_limited (Some m) m)"
  "push_limit sample_duckdb h sample_scan_host (LimitConstant m) LimitUnset [Some (sample_limited (Some k) k)] m =
     Inr (sample_limited (Some m) m)"
proof -
  have parse: "TryParseConstantLimitOffset sample_scan_host (LimitConstant m) LimitUnset = Done (Some m, 0)"
    by (simp add: TryParseConstantLimitOffset_def sample_scan_host_def)
  show "push_limit sample_duckdb h sample_scan_host (LimitConstant m) LimitUnset [Some (ScanOp (sample_scan_get []) [] k)] m =
      Inr (sample_limited (Some m) m)"
    by (simp add: push_limit_def parse sample_limit_allowed sample_limited_def)
  have g: "lance_bind (set_bind b (sample_scan_get [])) = Some b" "get_sample_options (set_bind b (sample_scan_get [])) = None"
      "set_bind b' (set_bind b (sample_scan_get [])) = set_bind b' (sample_scan_get [])" for b b'
    using lance_bind_set_bind by (simp_all, simp_all add: set_bind_def sample_scan_get_def)
  have limit: "\<not> UsesNamespaceQuery (set_limit lim off sample_scan_bind)" "take_row_ids (set_limit lim off sample_scan_bind) = []"
      "set_limit lim off (set_limit lim' off' sample_scan_bind) = set_limit lim off sample_scan_bind" for lim lim' off off'
    by (simp_all add: set_limit_def)
  show "push_limit sample_duckdb h sample_scan_host (LimitConstant m) LimitUnset [Some (sample_limited (Some k) k)] m =
      Inr (sample_limited (Some m) m)"
    by (simp add: push_limit_def parse sample_limited_def g sample_limit_allowed limit)
qed

text \<open>The second limit replaces the first.\<close>

lemma sample_limit_rewritten:
  "LanceLimitOffsetPushdown sample_duckdb h sample_scan_host sample_limits = Inr (sample_limited (Some 10) 10)"
proof -
  have same: "sample_scan_bind\<lparr>sampling_pushed_down := False, sample_percentage := 0, sample_seed := - 1, sample_repeatable := False\<rparr> =
      sample_scan_bind" "set_bind sample_scan_bind (sample_scan_get []) = sample_scan_get []"
    by (simp_all add: sample_scan_bind_def LanceScanBind.defs ScanBind.defs set_bind_def sample_scan_get_def)
  have "push_sample sample_duckdb (sample_scan_get []) = Inr (sample_scan_get [])"
    by (simp add: push_sample_def same system_percentage_def Let_def)
  then show ?thesis
    by (simp add: sample_limits_def rewrite_children_def sample_limit_pushed)
qed

lemma sample_limit_rows:
  "plan_rows unknown sample_duckdb lance sampler rows (ScanOp (sample_scan_get []) [] n) = Some rows"
  "plan_rows unknown sample_duckdb lance sampler rows (sample_limited (Some m) n) = Some (take m rows)"
  "plan_rows unknown sample_duckdb lance sampler rows sample_limits = Some (take 5 rows)"
proof -
  have plain: "lance_pushed_filter_ir_parts sample_scan_bind = []" "\<not> limit_offset_pushed_down sample_scan_bind"
      "get_sample_options (sample_scan_get []) = None" "get_sample_options (set_bind b (sample_scan_get [])) = None" for b
    by (simp_all add: sample_plan_defs set_bind_def)
  have bind: "lance_bind (set_bind b (sample_scan_get [])) = Some b" for b
    using lance_bind_set_bind by simp
  show scan: "plan_rows unknown sample_duckdb lance sampler rows (ScanOp (sample_scan_get []) [] n) = Some rows" for n
    by (simp add: scan_rows_def read_rows_def lance_rows_def scan_parts_def sample_no_probe empty_result_def plain system_percentage_def)
  show "plan_rows unknown sample_duckdb lance sampler rows (sample_limited (Some m) n) = Some (take m rows)"
    by (simp add: scan_rows_def read_rows_def lance_rows_def scan_parts_def sample_no_probe empty_result_def plain system_percentage_def
        sample_limited_def bind)
      (simp add: set_limit_def limited_def plain)
  show "plan_rows unknown sample_duckdb lance sampler rows sample_limits = Some (take 5 rows)"
    using scan by (simp add: sample_limits_def limited_def offset_number_def min_def)
qed

text \<open>
  A limit above a filter \<open>x IS NOT NULL\<close> that the callback has written; Lance and DuckDB find it true
  of the rows 8, 9, 10 and 11.
\<close>

definition not_null :: Expression where
  "not_null = BoundOperator (SimpleType BOOLEAN) OPERATOR_IS_NOT_NULL
     [Some (BoundColumnRef (SimpleType BIGINT) \<lparr>table_index = 0, column_index = 0\<rparr> 0)]"

definition not_null_ir :: bytes where
  "not_null_ir = (case TryBuildLanceExprFilterIR sample_duckdb (logical_get (sample_scan_get [])) [''x''] [SimpleType BIGINT] False not_null of
     Done ir \<Rightarrow> ir | _ \<Rightarrow> [])"

definition filtered_bind :: ScanBind where
  "filtered_bind = sample_scan_bind\<lparr>lance_pushed_filter_ir_parts := [bytes_string not_null_ir], duckdb_pushed_filter_sql_parts := [[]]\<rparr>"

definition filtered_get :: ScanGet where
  "filtered_get = set_bind filtered_bind (sample_scan_get [])"

definition filtered_plan :: plan where
  "filtered_plan = FilterOp [Some not_null] [Some (ScanOp filtered_get [] 100)] 50"

definition known_rows :: "u64 list" where
  "known_rows = [8, 9, 10, 11]"

definition known :: truth where
  "known = \<lparr>on_expression = (\<lambda>r e. Some (r \<in> set known_rows)), on_filter = (\<lambda>r c f. None)\<rparr>"

definition known_lance :: "u64 \<Rightarrow> bytes \<Rightarrow> bool" where
  "known_lance r p \<longleftrightarrow> r \<in> set known_rows"

lemma not_null_written:
  "TryBuildLanceExprFilterIR sample_duckdb (logical_get (sample_scan_get [])) [''x''] [SimpleType BIGINT] False not_null = Done not_null_ir"
proof -
  have "filter_ir sample_duckdb (column_ir sample_duckdb (logical_get (sample_scan_get [])) [''x''] [SimpleType BIGINT] False) True not_null =
      Some (IRIsNotNull (IRColumn [''x'']))"
    by (simp add: not_null_def column_ir_def sample_scan_get_def column_segments_def LanceFilterIRSupportsLogicalType_def)
  then have "\<exists>bs. TryBuildLanceExprFilterIR sample_duckdb (logical_get (sample_scan_get [])) [''x''] [SimpleType BIGINT] False not_null = Done bs"
    using try_realisesD [OF TryBuildLanceExprFilterIR_realises [OF sample_hugeint sample_decimals]] by (simp add: byte_defs)
  then show ?thesis by (auto simp: not_null_ir_def)
qed

lemma filtered_facts [simp]:
  "lance_bind filtered_get = Some filtered_bind" "logical_get filtered_get = logical_get (sample_scan_get [])"
  "get_sample_options filtered_get = None" "names filtered_bind = [''x'']" "types filtered_bind = [SimpleType BIGINT]"
  "lance_pushed_filter_ir_parts filtered_bind = [bytes_string not_null_ir]" "\<not> limit_offset_pushed_down filtered_bind"
  "\<not> UsesNamespaceQuery filtered_bind" "take_row_ids filtered_bind = []"
  by (simp_all add: filtered_get_def filtered_bind_def lance_bind_def IsLanceScanTableFunction_def set_bind_def sample_scan_bind_def
      LanceScanBind.defs ScanBind.defs NewLanceScanBindData_def sample_scan_get_def)

lemma filtered_chain: "scan_chain filtered_plan = Some (filtered_get, [(not_null, ScanOp filtered_get [] 100)])"
  by (simp add: filtered_plan_def List.map_filter_def)

lemma filtered_offered: "filters_offered sample_duckdb sample_plan_host filtered_bind [(not_null, ScanOp filtered_get [] 100)]"
proof -
  have lookup: "push_lookup False sample_duckdb (logical_get (sample_scan_get [])) not_null sample_scan_bind = Inr sample_scan_bind"
    by (simp add: push_lookup_def not_null_def)
  have nms: "names sample_scan_bind = [''x'']" "types sample_scan_bind = [SimpleType BIGINT]"
      "lance_pushed_filter_ir_parts sample_scan_bind = []" "duckdb_pushed_filter_sql_parts sample_scan_bind = []"
    by (simp_all add: sample_scan_bind_def LanceScanBind.defs ScanBind.defs NewLanceScanBindData_def)
  have plain: "\<not> HasParameter sample_duckdb not_null" "\<not> IsVolatile sample_duckdb not_null" "\<not> left_to_table_filters not_null"
    by (simp_all add: sample_duckdb_def not_null_def)
  have "push_filter sample_duckdb sample_plan_host (logical_get (sample_scan_get [])) cols not_null sample_scan_bind = Inr filtered_bind" for cols
    using plain(3) not_null_written
    by (simp add: push_filter_def nms filtered_bind_def filter_sql_def sample_plan_host_def)
  then have "LancePushdownComplexFilter False sample_duckdb sample_plan_host (logical_get (sample_scan_get [])) [Some not_null] sample_scan_bind =
      Inr filtered_bind"
    using plain lookup by (simp add: LancePushdownComplexFilter_def Let_def complex_filter_step_def)
  then have "offered_to_callback sample_duckdb sample_plan_host filtered_bind (ScanOp filtered_get [] 100) not_null"
    unfolding offered_to_callback_def using plain nms
    by (intro exI [of _ False] exI [of _ "logical_get (sample_scan_get [])"] exI [of _ "[Some not_null]"] exI [of _ sample_scan_bind]
        exI [of _ filtered_bind] exI [of _ not_null]) simp
  then show ?thesis by (simp add: filters_offered_def)
qed

lemma filtered_evaluates:
  "lance_evaluates known sample_duckdb sample_plan_host known_lance filtered_get filtered_bind [(not_null, ScanOp filtered_get [] 100)]"
  by (simp add: lance_evaluates_def known_lance_def known_def not_null_def sample_scan_get_def)

lemma filtered_limit:
  "push_limit sample_duckdb sample_plan_host sample_scan_host (LimitConstant 2) LimitUnset [Some filtered_plan] 2 =
     Inr (set_estimate 2 (update_chain (set_bind (set_limit (Some 2) 0 filtered_bind)) filtered_plan))"
proof -
  have parse: "TryParseConstantLimitOffset sample_scan_host (LimitConstant 2) LimitUnset = Done (Some 2, 0)"
    by (simp add: TryParseConstantLimitOffset_def sample_scan_host_def)
  have "limit_allowed sample_duckdb sample_plan_host (Some 2) 0 filtered_get filtered_bind [(not_null, ScanOp filtered_get [] 100)] = Inr True"
    by (simp add: limit_allowed_def sample_no_probe empty_result_def not_null_written)
  then show ?thesis by (simp add: push_limit_def parse filtered_chain)
qed

lemma filtered_limit_rows:
  "plan_rows known sample_duckdb known_lance sampler [7, 8, 9, 10] (LimitOp (LimitConstant 2) LimitUnset [Some filtered_plan] 2) = Some [8, 9]"
proof -
  have "scan_rows known sample_duckdb known_lance sampler [7, 8, 9, 10] filtered_get = Some [8, 9, 10]"
    by (simp add: scan_rows_def read_rows_def system_percentage_def lance_rows_def scan_parts_def sample_no_probe empty_result_def
        known_lance_def known_rows_def)
  then have "plan_rows known sample_duckdb known_lance sampler [7, 8, 9, 10] filtered_plan = Some [8, 9, 10]"
    by (simp add: filtered_plan_def expression_holds_def not_null_def known_def known_rows_def)
  then show ?thesis by (simp add: limited_def offset_number_def numeral_2_eq_2)
qed

lemma sample_idx: "optional_idx_exact sample_scan_host"
  by (simp add: optional_idx_exact_def sample_scan_host_def)


section \<open>A scan that is started\<close>

text \<open>A scan of two columns of which one is heavy, with a filter Lance cannot evaluate.\<close>

definition sample_scan_ffi :: scan_ffi where
  "sample_scan_ffi = \<lparr>count_rows = (\<lambda>d. 10), list_fragments = (\<lambda>d. Some [3, 5]), list_fragment_stats = (\<lambda>d. None),
     list_named_field_stats = (\<lambda>d. Some [(Some ''body'', 1000000), (Some ''x'', 80)]),
     list_scalar_indexed_columns = (\<lambda>d. []), scan_error_text = [], scan_error_suffix = [], private_diagnostics = False,
     sampled_rows = (\<lambda>p n. n), IsLikelyHeavyColumnType = (\<lambda>t. False), LanceDeferredMaterializationEnabled = True,
     NumberOfThreads = 4\<rparr>"

definition sample_wide_bind :: ScanBind where
  "sample_wide_bind = sample_scan_bind\<lparr>names := [''x'', ''body''], types := [SimpleType BIGINT, SimpleType VARCHAR]\<rparr>"

definition sample_scan_input :: "TableFilterSet option \<Rightarrow> ScanInput" where
  "sample_scan_input fs = \<lparr>column_ids = [1, LANCE_COLUMN_IDENTIFIER_ROW_ID, 0], filters = fs, in_projection_ids = [],
     in_column_indexes = [], in_sample_options = None\<rparr>"

lemma sample_wide_fields [simp]:
  "names sample_wide_bind = [''x'', ''body'']" "types sample_wide_bind = [SimpleType BIGINT, SimpleType VARCHAR]"
  "bound_dataset sample_wide_bind = Some 7" "\<not> UsesNamespaceQuery sample_wide_bind" "take_row_ids sample_wide_bind = []"
  "\<not> distributed_worker sample_wide_bind" "\<not> distributed_splits_applied sample_wide_bind"
  "lance_pushed_filter_ir_parts sample_wide_bind = []" "\<not> limit_offset_pushed_down sample_wide_bind"
  "pushed_limit sample_wide_bind = None" "pushed_offset sample_wide_bind = 0"
  by (simp_all add: sample_wide_bind_def sample_scan_bind_def LanceScanBind.defs ScanBind.defs NewLanceScanBindData_def)

lemma sample_scan_input_fields [simp]:
  "column_ids (sample_scan_input fs) = [1, LANCE_COLUMN_IDENTIFIER_ROW_ID, 0]" "filters (sample_scan_input fs) = fs"
  "in_projection_ids (sample_scan_input fs) = []" "in_sample_options (sample_scan_input fs) = None"
  by (simp_all add: sample_scan_input_def)

definition sample_columns :: "nat option \<Rightarrow> nat \<Rightarrow> bool \<Rightarrow> LanceScanGlobalState" where
  "sample_columns lim off is_limited = new_scan_state\<lparr>gs_dataset := Some 7, scan_includes_virtual_rowid := True,
     gs_limit_offset_pushed_down := is_limited, gs_pushed_limit := lim, gs_pushed_offset := off,
     scanned_types := [SimpleType VARCHAR, SimpleType UBIGINT, SimpleType BIGINT],
     scan_converted_types := [SimpleType VARCHAR, SimpleType UBIGINT, SimpleType BIGINT],
     output_to_scan_converted_idx := [Some 0, Some 1, Some 2], output_is_duckdb_rowid := [False, False, False],
     output_is_empty := [False, False, False], scan_column_ids := [1, 2, 0], scan_column_names := [''body'', ''_rowid'', ''x'']\<rparr>"

lemma sample_init_columns:
  assumes "names b = names sample_wide_bind" and "types b = types sample_wide_bind"
  shows "init_columns sample_duckdb b (sample_scan_input fs) (Some 7) =
    Inr (sample_columns (pushed_limit b) (pushed_offset b) (limit_offset_pushed_down b))"
  by (simp add: init_columns_def add_column_def add_row_id_def add_scan_column_def push_output_def sample_identifiers assms
      LANCE_COLUMN_IDENTIFIER_ROW_ID_def IsLanceVirtualRowIdColumnId_def LANCE_ROW_ID_COLUMN_NAME_def new_scan_state_def
      sample_columns_def)

abbreviation sample_unpushable :: TableFilterSet where
  "sample_unpushable \<equiv> [(2, Some (OtherFilter 0))]"

lemma column_ref_total: "TryEncodeLanceExprIRColumnRefName name \<noteq> Raised x"
  by (cases "EncodeColumnRefName name") (simp_all add: TryEncodeLanceExprIRColumnRefName_def)

lemma sample_init_filters:
  "init_filters sample_duckdb sample_wide_bind (sample_scan_input (Some sample_unpushable)) s =
     Inr (s\<lparr>lance_filter_ir := [], gs_filter_pushed_down := False\<rparr>)"
  by (cases "TryEncodeLanceExprIRColumnRefName ''x''") (simp_all add: column_ref_total init_filters_def system_percentage_def BuildLanceTableFilterIRParts_def sample_scan_input_def
      TableFunctionInitInput.defs build_part_def TryEncodeLanceFilterIRColumnRefName_def filter_message_def not_pushed_def
      empty_result_def)

lemma sample_heavy:
  "heavy_columns sample_scan_ffi sample_wide_bind (sample_scan_input (Some sample_unpushable)) sample_unpushable s = [''body'']"
  by (simp add: heavy_columns_def sample_scan_ffi_def filter_referenced_columns_def DEFERRED_AVG_BYTES_THRESHOLD_def
      LANCE_ROW_ID_COLUMN_NAME_def)

lemma sample_start:
  "\<exists>s. LanceScanInitGlobal vane sample_duckdb sample_scan_ffi reopen sample_wide_bind (sample_scan_input (Some sample_unpushable)) = Inr s \<and>
     deferred_column_names s = [''body''] \<and> scan_column_names s = [''_rowid'', ''x''] \<and> fragment_ids s = [3, 5]"
proof -
  let ?s = "(sample_columns None 0 False)\<lparr>lance_filter_ir := [], gs_filter_pushed_down := False\<rparr>"
  have heavy: "defer_stage sample_scan_ffi sample_wide_bind (sample_scan_input (Some sample_unpushable)) ?s =
      Inr (False, defer_columns sample_wide_bind [Suc 0, 2] [0] ?s)"
    by (simp add: defer_stage_def sample_heavy Let_def)
      (simp add: sample_columns_def new_scan_state_def sample_scan_ffi_def upt_rec numeral_2_eq_2)
  have plain: "gs_sampling_pushed_down ?s = False" "lance_filter_ir ?s = []" "scan_column_names ?s = [''body'', ''_rowid'', ''x'']"
    by (simp_all add: sample_columns_def new_scan_state_def)
  have deferred: "deferred_column_names (defer_columns sample_wide_bind [Suc 0, 2] [0] ?s) = [''body'']"
      "scan_column_names (defer_columns sample_wide_bind [Suc 0, 2] [0] ?s) = [''_rowid'', ''x'']"
      "gs_sampling_pushed_down (defer_columns sample_wide_bind [Suc 0, 2] [0] ?s) = False"
      "lance_filter_ir (defer_columns sample_wide_bind [Suc 0, 2] [0] ?s) = []"
    by (simp_all add: defer_columns_def sample_columns_def new_scan_state_def LANCE_ROW_ID_COLUMN_NAME_def Let_def)
  show ?thesis
    by (simp add: LanceScanInitGlobal_def init_dataset_def sample_init_columns sample_init_filters and_then_def
        namespace_stage_def take_stage_def row_id_filter_stage_def count_stage_def cardinality_stage_def limit_stage_def
        index_stage_def no_filters_def fragment_stage_def plain heavy deferred)
      (simp add: sample_scan_ffi_def deferred)
qed

text \<open>The same scan with a table filter and a complex filter that Lance evaluates, and a limit.\<close>

abbreviation sample_pushable :: TableFilterSet where
  "sample_pushable \<equiv> [(2, Some IsNotNullFilter)]"

definition sample_limited_bind :: ScanBind where
  "sample_limited_bind = set_limit (Some 10) 2 (sample_wide_bind\<lparr>lance_pushed_filter_ir_parts := [''p'']\<rparr>)"

lemma sample_limited_fields [simp]:
  "names sample_limited_bind = names sample_wide_bind" "types sample_limited_bind = types sample_wide_bind"
  "bound_dataset sample_limited_bind = Some 7" "\<not> UsesNamespaceQuery sample_limited_bind" "take_row_ids sample_limited_bind = []"
  "\<not> distributed_worker sample_limited_bind" "\<not> distributed_splits_applied sample_limited_bind"
  "lance_pushed_filter_ir_parts sample_limited_bind = [''p'']" "limit_offset_pushed_down sample_limited_bind"
  "pushed_limit sample_limited_bind = Some 10" "pushed_offset sample_limited_bind = 2"
  by (simp_all add: sample_limited_bind_def set_limit_def)

lemma sample_limited_parts:
  "\<exists>r msg. build_filters sample_duckdb sample_limited_bind (sample_scan_input (Some sample_pushable)) = Inr r \<and>
     all_filters_pushed r \<and> TryEncodeLanceFilterIRMessage (all_parts r sample_limited_bind) = Done msg"
  by (simp add: BuildLanceTableFilterIRParts_def build_part_def sample_scan_input_def TableFunctionInitInput.defs empty_result_def
      byte_defs filter_encoder_defs EncodeColumnRefName_def LanceFilterIRSupportsLogicalType_def TryEncodeLanceFilterIRMessage_def
      LanceFilterIREncodeMessage_def)

lemma sample_limited_start:
  "\<exists>s. LanceScanInitGlobal vane sample_duckdb sample_scan_ffi reopen sample_limited_bind (sample_scan_input (Some sample_pushable)) = Inr s \<and>
     gs_limit_offset_pushed_down s \<and> \<not> count_only s \<and> use_dataset_scanner s \<and> \<not> gs_sampling_pushed_down s \<and>
     \<not> use_namespace_query s \<and> \<not> use_dataset_take s"
proof -
  obtain r msg where r: "build_filters sample_duckdb sample_limited_bind (sample_scan_input (Some sample_pushable)) = Inr r"
      "all_filters_pushed r" and msg: "TryEncodeLanceFilterIRMessage (all_parts r sample_limited_bind) = Done msg"
    using sample_limited_parts by blast
  have ne: "msg \<noteq> []" using message_nonempty [OF msg] by simp
  have fs: "init_filters sample_duckdb sample_limited_bind (sample_scan_input (Some sample_pushable)) s =
      Inr (s\<lparr>lance_filter_ir := msg, gs_filter_pushed_down := True\<rparr>)" for s
    using r msg ne by (simp add: init_filters_def system_percentage_def filter_message_def)
  show ?thesis
    using ne
    by (simp add: LanceScanInitGlobal_def init_dataset_def sample_init_columns fs and_then_def
        namespace_stage_def take_stage_def row_id_filter_stage_def count_stage_def cardinality_stage_def defer_stage_def
        limit_stage_def no_filters_def)
      (simp add: sample_columns_def new_scan_state_def)
qed

end
