(* ===== verification/Spec2Isabelle.thy ===== *)
theory Spec2Isabelle
  imports Exec_Samples Statement_Samples Scan_Samples
begin

text \<open>
  \<^bold>\<open>The Lance extension for DuckDB.\<close>  The extension lets DuckDB query and change Lance datasets.  Its
  C++ part (\<open>src/src\<close>) runs inside DuckDB; a Rust library (\<open>src/rust\<close>) does the work on the datasets
  and is reached through a C interface.  This development models the logic of the C++ part, and the
  Rust readers of the messages it writes.

  \<^bold>\<open>The parts and how they interact.\<close>
  \<^item> A table scan hands its filters, an UPDATE its SET expressions and an aggregation its whole plan
    to the Rust side as binary messages.  \<open>lance_expr_ir.cpp\<close> writes the nodes of expressions,
    \<open>lance_filter_ir.cpp\<close> uses it for filters, \<open>lance_exec_ir.cpp\<close> writes plans;
    \<open>rust/expr_ir.rs\<close>, \<open>rust/filter_ir.rs\<close> and \<open>rust/exec_ir.rs\<close> read them and build DataFusion
    expressions and data frames.
  \<^item> Before a dataset is opened, \<open>lance_common.cpp\<close> normalises its path and resolves the storage
    options and credentials from secrets, settings and the environment; its diagnostics are redacted.
  \<^item> \<open>lance_session_state.cpp\<close> keeps one Lance session per database, \<open>lance_dataset_cache.cpp\<close> one
    cache of open datasets per connection: a lookup normalises the path, resolves the options, builds
    a key from both and opens the dataset on a miss.
  \<^item> Statements DuckDB's own parser does not know reach the parser extensions of \<open>lance_index.cpp\<close>,
    \<open>lance_maintenance.cpp\<close> and \<open>lance_truncate.cpp\<close>, which scan the SQL text by hand, plan a call of an
    internal table function, bind its arguments and run it against the Rust library.
    \<open>lance_metadata.cpp\<close> offers the configuration of a dataset as functions.
  \<^item> Names become datasets through the resolvers of \<open>lance_resolver.cpp\<close>; the rest of
    \<open>lance_common.cpp\<close> calls namespaces, opens datasets by path, version or table, and truncates them.
  \<^item> In the distributed build a coordinator freezes a snapshot of the dataset
    (\<open>lance_vane_snapshot.cpp\<close>), plans splits of the scan and sends workers a serialised copy with their
    splits (\<open>lance_scan.cpp\<close>); the workers check both and open the snapshot.
  \<^item> The scan of \<open>lance_scan.cpp\<close> takes part in planning: callbacks and optimizer passes move filters, row
    id lookups, samples and limits into its bind data; when it starts, it chooses the columns and the
    way to read; its threads then open streams and share the fragments.
  \<^item> Statements that write hand uncommitted Lance transactions to the transaction manager of the
    attached database (\<open>lance_storage.cpp\<close>), which commits or frees them with DuckDB's transaction.


  \<^bold>\<open>The theories.\<close>  Definitions are named as in the source and stand in its order.
  \<^item> \<open>Lance_Prelude\<close>: words and bytes, the result types (\<open>exn + 'a\<close>; \<open>outcome\<close> for functions that
    return \<open>true\<close>, \<open>false\<close> or throw), their sequencing, little-endian codecs, decimal text, UTF-8.
  \<^item> \<open>Duck_Types\<close>: what the extension reads of DuckDB's types, values, expressions, filters and plan
    operators.  DuckDB's functions are the fields of the record \<open>duckdb\<close>, an argument of the model.
  \<^item> \<open>Expr_IR\<close> (\<open>lance_expr_ir.cpp\<close>), \<open>Expr_IR_Decode\<close> (\<open>rust/expr_ir.rs\<close>, \<open>rust/filter_ir.rs\<close>),
    \<open>Filter_IR\<close> (\<open>lance_filter_ir.cpp\<close>), \<open>Exec_IR\<close> (\<open>lance_exec_ir.cpp\<close>), \<open>Exec_IR_Decode\<close>
    (\<open>rust/exec_ir.rs\<close> and the plan translation of \<open>rust/ffi/exec.rs\<close>): the operations.
  \<^item> \<open>Expr_IR_Wire\<close>, \<open>Exec_Wire\<close>: the reads of the cursor against the writes.  The locale \<open>wire_codec\<close>
    is their contract (reading the encoding of a value in front of any rest gives the value and the
    rest); it is interpreted for every field type, vectors are treated once inside it.  The locale
    \<open>appender\<close> is the contract of the writers of list elements.
  \<^item> \<open>Expr_IR_Spec\<close>: the abstract syntax \<open>ir\<close> of messages, its bytes and its DataFusion meaning.
    \<open>Literal_Correct\<close>, \<open>Update_Correct\<close>, \<open>Filter_Correct\<close>, \<open>Filter_Parts_Correct\<close>, \<open>Exec_Correct\<close>:
    which tree or plan each encoder writes, and that it is the one meant.
  \<^item> \<open>Lance_Paths\<close>, \<open>Storage_Options\<close> (\<open>lance_common.cpp\<close>), \<open>Session_State\<close>
    (\<open>lance_session_state.cpp\<close>), \<open>Dataset_Cache\<close> (\<open>lance_dataset_cache.cpp\<close>) with \<open>Paths_Correct\<close>,
    \<open>Options_Correct\<close> and \<open>Cache_Correct\<close>; the locale \<open>keeps_first\<close> is the contract of a store in
    which concurrent insertions agree, \<open>first_wins\<close> extends it with eviction, and the cache is its
    instance.
  \<^item> \<open>Sql_Text\<close>: the scanners the parser extensions share, \<open>WITH\<close> clauses and their JSON text; DuckDB's
    text functions are the record \<open>sql_host\<close>.  \<open>Sql_Text_Correct\<close>: how keywords, identifiers,
    literals and lists are read from a text put together from them.  \<open>Json_Correct\<close>: the JSON text
    against a reader of JSON.
  \<^item> \<open>Index_Parse\<close>, \<open>Index_Exec\<close> (\<open>lance_index.cpp\<close>) with \<open>Index_Correct\<close> and \<open>Index_Routes\<close>;
    \<open>Maintenance_Parse\<close>, \<open>Maintenance_Exec\<close> (\<open>lance_maintenance.cpp\<close>) and \<open>Metadata\<close>
    (\<open>lance_metadata.cpp\<close>, with the listing and updating of entries in
    \<open>rust/ffi/schema_evolution.rs\<close>) with \<open>Maintenance_Correct\<close>; \<open>Truncate\<close> (\<open>lance_truncate.cpp\<close>).
  \<^item> \<open>Lance_Services\<close> (the namespace calls, openers and truncation of \<open>lance_common.cpp\<close>) and \<open>Resolver\<close>
    (\<open>lance_resolver.cpp\<close>) with \<open>Services_Correct\<close>.
  \<^item> \<open>Snapshots\<close> (\<open>lance_vane_snapshot.cpp\<close>) with \<open>Snapshots_Correct\<close>, where the snapshot cache is the other
    instance of \<open>keeps_first\<close>; \<open>Scan_Splits\<close> (the distributed part of \<open>lance_scan.cpp\<close>) with \<open>Splits_Codec\<close>
    (the payloads), \<open>Splits_Correct\<close> (which splits are accepted; the locale \<open>split_scheduling\<close> is the
    contract of giving out a plan in parts, interpreted for fragments and for rows), \<open>Splits_Plan\<close> (the
    plan, and replaying an assignment) and \<open>Splits_Transport\<close> (clones and serialisation).
  \<^item> The scan itself (\<open>lance_scan.cpp\<close>): \<open>Row_Lookup\<close> (row ids of filters and expressions), \<open>Scan_Plan\<close> (the
    callback for complex filters and the passes over plans; a plan is a tree with the scan's bind data
    in it, DuckDB's functions on expressions are the record \<open>plan_host\<close>), \<open>Scan_Init\<close>
    (\<open>LanceScanInitGlobal\<close>, its early returns as stages; the Lance library is the record \<open>scan_ffi\<close>) and
    \<open>Scan_Run\<close> (streams, columns, output, and threads as the inductive relation \<open>scan_step\<close>).
    \<open>Row_Lookup_Correct\<close> gives predicates a three-valued truth per row; \<open>Scan_Plan_Correct\<close> counts how often
    a plan returns a row, \<open>Scan_Limit_Correct\<close> lists the rows of a plan with limits and follows a limit
    to its stream, \<open>Scan_Columns_Correct\<close> follows each output to its column, \<open>Scan_Run_Correct\<close> follows
    the batches through the threads.
  \<^item> \<open>Transactions\<close> (the transaction manager of \<open>lance_storage.cpp\<close>), with its own lemmas.
  \<^item> \<open>Sample_Host\<close>, \<open>Samples\<close>, \<open>Exec_Samples\<close>, \<open>Host_Samples\<close>, \<open>Statement_Samples\<close>, \<open>Splits_Samples\<close>,
    \<open>Scan_Samples\<close>: hosts that meet the hypotheses, and the concrete queries, plans and connections
    on which the witnesses run the code.

  \<^bold>\<open>State.\<close>  Output buffers are passed and returned.  The cache, the session registry and the
  connections are records; each operation that holds a lock throughout is one step, and interleavings
  of lookups are the inductive relation \<open>step\<close> over a shared cache and the threads' phases.
  Build and environment switches are arguments: \<open>vane\<close> for \<open>LANCE_VANE_DISTRIBUTED\<close>, \<open>ff\<close> for the
  fail-fast variable of the aggregation pushdown.

  \<^bold>\<open>What is shown.\<close>
  \<^item> C1--C3: UPDATE expressions are decoded as meant, are encoded exactly when they have a meaning, and
    decimals keep their value; besides, bytes determine the expression.
  \<^item> C4--C7: pushed filters decode to their conjunction; the flags that tell DuckDB which filters it
    must still apply are exact; the planner's probe and the scan agree; so do predicates.
  \<^item> C8--C11: plans are decoded as meant; the scan reads every column the plan refers to; where ORDER
    BY columns are outputs, and where a renaming projection makes them dangle; the reader ends on every
    input; besides, it accepts nothing after a plan.
  \<^item> C12--C13: scheme and path normalisation, and that secrets do not reach diagnostics.
  \<^item> C14--C16: option vectors, credentials never mixed across scopes, and (in)dependence of iteration
    order; besides, canonical names, precedence of sources and matching of namespace sessions.
  \<^item> C17--C22: one session per database, settings that agree with it, the cache as a first-wins map,
    its invariant, sharing and completion of concurrent lookups, unambiguous keys and isolation of
    lookups; besides, re-opening after invalidation.
  \<^item> C23--C26: the two routes to an index agree and its column path is read back; index statements are
    read back from their printed form; the options of a \<open>WITH\<close> clause arrive as JSON; what the
    automatic cleanup statements set is what is shown.
  \<^item> C27--C29: the registry of resolvers keeps its order and asks by priority; which errors of
    namespaces are kept private and which are not; unqualified TRUNCATE statements are refused, and
    the handles of the Rust library are given back.
  \<^item> C30--C33: a distributed scan reads every fragment or row exactly once however its splits are
    given out; a worker accepts only sound assignments and its clones repeat theirs; the serialised
    scan is the worker's copy; workers read exactly the snapshot that was frozen.
  \<^item> C34: uncommitted Lance transactions are committed or freed once, and a successful commit leaves
    no stale dataset in the cache.
  \<^item> C35--C37: row id lookups select what their predicates do, the rewrite into lookups and the pushdown
    of limits keep the rows of a plan, and which plans they change.
  \<^item> C38--C40: a limited scan never reads without its filter, a scan returns the columns asked for, and
    its threads give out every batch once and stop.


  \<^bold>\<open>Hypotheses.\<close>  Theorems assume of DuckDB only documented behaviour, by name: \<open>hugeint_exact\<close>
  (128-bit arithmetic is exact or reports overflow), \<open>decimals_print\<close> (decimals print as their value),
  \<open>string_util\<close> (ASCII case folding), \<open>casts_keep\<close> (a cast to the type a value has keeps it), \<open>text_util\<close>
  (trimming, upper case, replacing, joining), \<open>splits\<close> (splitting a text at a character), \<open>filters_as_expressions\<close> (a filter made into an
  expression means the same), \<open>optional_idx_exact\<close>; of \<open>std::sort\<close> its contract \<open>sorts\<close>, and of the Lance library that a committed configuration update
  changes its key only (\<open>commits\<close>) and that digests fill their buffers (\<open>fixed_digests\<close>).  Messages are shorter than \<open>2 ^ 64\<close> bytes, the
  limit of the length type; 32-bit length fields are checked where the code checks them.

  \<^bold>\<open>Loops and recursion.\<close>  No definition uses fuel: recursive encoders end by the size of the
  expression or the number of projections left, the readers by the number of bytes left, and loops
  over strings and vectors by what remains of them.

  \<^bold>\<open>Not modelled.\<close>  Operators and table functions that move Arrow arrays between DuckDB and Rust (search,
  insert, update, delete, merge, COPY, blobs, the rows of an index listing), the scan's conversion of
  Arrow batches, its blob columns, statistics and EXPLAIN texts, and its binding,
  \<open>ApplyDuckDBFilters\<close>, the distributed search planner and writer, ATTACH and the catalog, registration
  code, and the Rust library behind the C interface: they are sequences of host or Rust calls on
  pointers and streams.  Vane's scheduler, which carries splits to workers, is not part of the
  repository.  Not covered although they have logic of their own: the assignments of
  \<open>lance_vane_search.cpp\<close> and the fragment receipts of \<open>lance_distributed_write.cpp\<close>.
\<close>

section \<open>Expression messages\<close>

text \<open>
  C1.  What \<open>EncodeLanceExprIR\<close> writes for an UPDATE expression is read back by the Rust decoder as
  exactly the expression meant: the meaning \<open>lower_expr\<close> resolves column bindings through the
  projections and filters of the plan, and \<open>ir_df\<close> is the DataFusion expression of a tree.
\<close>

theorem update_expression_decodes:
  assumes "hugeint_exact db" and "decimals_print db"
    and "EncodeLanceExprIR db scan_get scan_bind scope expr = Inr bs" and "length bs < 2 ^ 64"
  shows "\<exists>n. lower_expr db scan_get scan_bind scope expr = Some n \<and>
    (ir_ok db n \<longrightarrow> parse_expr_ir df bs = ir_df db df n)"
proof -
  obtain n root where "lower_expr db scan_get scan_bind scope expr = Some n"
    and root: "ir_bytes db n = Inr root" and bs: "bs = EncodeMessage root"
    using assms(3) by (auto simp: EncodeLanceExprIR_iff [OF assms(1,2)])
  moreover have "length root < 2 ^ 64"
    using assms(4) by (simp add: bs EncodeMessage_def)
  ultimately show ?thesis
    using parse_expr_ir_message [OF root] by blast
qed

theorem update_expression_decodes_witness:
  "\<exists>bs. EncodeLanceExprIR sample_duckdb sample_get sample_bind sample_scope sample_set = Inr bs \<and>
     parse_expr_ir sample_df bs = ir_df sample_duckdb sample_df sample_set_ir"
proof -
  obtain root where root: "ir_bytes sample_duckdb sample_set_ir = Inr root" and len: "length root < 100"
    using sample_set_bytes by blast
  have enc: "EncodeLanceExprIR sample_duckdb sample_get sample_bind sample_scope sample_set
      = Inr (EncodeMessage root)"
    using root sample_set_lower by (auto simp: EncodeLanceExprIR_iff [OF sample_hugeint sample_decimals])
  have "length (EncodeMessage root) < 2 ^ 64"
    using len by (simp add: EncodeMessage_def LANCE_EXPR_IR_MAGIC_def)
  from update_expression_decodes [OF sample_hugeint sample_decimals enc this, of sample_df]
  show ?thesis using enc sample_set_lower sample_set_ok by auto
qed


text \<open>
  C2.  The UPDATE encoder is complete as well as sound: it returns a message exactly when the
  expression has a meaning as a tree whose bytes can be written, and the message is that tree's.
\<close>

theorem update_expression_complete:
  assumes "hugeint_exact db" and "decimals_print db"
  shows "EncodeLanceExprIR db g b scope e = Inr bs \<longleftrightarrow>
    (\<exists>n root. lower_expr db g b scope e = Some n \<and> ir_bytes db n = Inr root \<and> bs = EncodeMessage root)"
  using EncodeLanceExprIR_iff [OF assms] .

theorem update_expression_complete_witness:
  "\<exists>bs. EncodeLanceExprIR sample_duckdb sample_get sample_bind sample_scope sample_set = Inr bs"
  using update_expression_complete [OF sample_hugeint sample_decimals] sample_set_lower sample_set_bytes by blast

text \<open>
  C3.  A decimal constant reaches the wire with the value it has: the digits DuckDB prints, parsed
  back with 128-bit arithmetic that checks for overflow, give the unscaled integer at every scale,
  except for the one value whose negation does not fit.
\<close>

theorem decimal_constant_exact:
  assumes "hugeint_exact db" and "decimals_print db" and "v \<noteq> word_of_int (- (2 ^ 127))" and "s \<le> 127"
  shows "EncodeLiteral db (DecimalValue p s v) =
    Inr (AppendI128 (AppendU8 (AppendU8 (literal_head Lit_DECIMAL128) p) s) v)"
proof -
  have "literal_of db (DecimalValue p s v) = Some (LitDecimal128 p s v)"
    using decimal_recovered [OF assms(1,2,3), of s p] assms(4) by simp
  then show ?thesis
    using EncodeLiteral_iff [OF assms(1,2), of "DecimalValue p s v"] by simp
qed

theorem decimal_constant_exact_witness:
  "EncodeLiteral sample_duckdb (DecimalValue 38 37 (word_of_int (2 ^ 127 - 1))) =
     Inr (AppendI128 (AppendU8 (AppendU8 (literal_head Lit_DECIMAL128) 38) 37) (word_of_int (2 ^ 127 - 1)))"
  by (rule decimal_constant_exact [OF sample_hugeint sample_decimals]) simp_all

text \<open>
  Messages are unambiguous: two trees written as the same bytes are decoded as the same
  DataFusion expression.
\<close>

theorem expression_bytes_unambiguous:
  assumes "ir_bytes db n = Inr bs" and "ir_bytes db n' = Inr bs" and "ir_ok db n" and "ir_ok db n'"
    and "length bs < 2 ^ 64"
  shows "ir_df db df n = ir_df db df n' \<and> parse_expr_ir df (EncodeMessage bs) = ir_df db df n"
  using parse_expr_ir_message [OF assms(1,3,5)] parse_expr_ir_message [OF assms(2,4,5)] by metis

theorem expression_bytes_unambiguous_witness:
  "\<exists>bs. parse_expr_ir sample_df (EncodeMessage bs) = ir_df sample_duckdb sample_df sample_set_ir"
proof -
  obtain bs where bs: "ir_bytes sample_duckdb sample_set_ir = Inr bs" and len: "length bs < 100"
    using sample_set_bytes by blast
  then have "length bs < 2 ^ 64" by simp
  from expression_bytes_unambiguous [OF bs bs sample_set_ok sample_set_ok this] show ?thesis by blast
qed


section \<open>Table filters\<close>

text \<open>
  C4.  When every filter of the scan was pushed, the message holds exactly the filters of the
  scan, in order: the Rust side reads their conjunction, and it does not reject it.
\<close>

theorem pushed_filters_decode:
  assumes "hugeint_exact db" and "decimals_print db"
    and "filters input = Some fs" and "fs \<noteq> []"
    and "BuildLanceTableFilterIRParts db nms tys input exc = Inr r" and "all_filters_pushed r"
    and "TryEncodeLanceFilterIRMessage (parts r) = Done msg" and "length msg < 2 ^ 64"
  shows "\<exists>ns. map (entry_ir db nms tys (column_ids input) exc) fs = map Some ns \<and>
    (list_all (ir_ok db) ns \<longrightarrow>
      parse_filter_ir df msg = ir_df db (df\<lparr>registry := None\<rparr>) (message_ir ns) \<and>
      (lowers_builtins db \<longrightarrow> (\<exists>e. parse_filter_ir df msg = Inr e)))"
  using pushed_filters_message [OF assms] .

theorem pushed_filters_decode_witness:
  "\<exists>r msg e. BuildLanceTableFilterIRParts sample_duckdb (names sample_bind) (types sample_bind) sample_input False = Inr r \<and>
     TryEncodeLanceFilterIRMessage (parts r) = Done msg \<and> parse_filter_ir sample_df msg = Inr e"
proof -
  obtain r msg where r: "BuildLanceTableFilterIRParts sample_duckdb (names sample_bind) (types sample_bind) sample_input False = Inr r"
      "all_filters_pushed r" and msg: "TryEncodeLanceFilterIRMessage (parts r) = Done msg" "length msg < 200"
    using sample_filter_parts by blast
  have fs: "filters sample_input = Some (the (filters sample_input))" "the (filters sample_input) \<noteq> []"
    by (simp_all add: sample_input_def)
  have len: "length msg < 2 ^ 64" using msg(2) by simp
  obtain ns where "map (entry_ir sample_duckdb (names sample_bind) (types sample_bind) (column_ids sample_input) False)
      (the (filters sample_input)) = map Some ns"
    and ok: "list_all (ir_ok sample_duckdb) ns \<longrightarrow> lowers_builtins sample_duckdb \<longrightarrow> (\<exists>e. parse_filter_ir sample_df msg = Inr e)"
    using pushed_filters_decode [OF sample_hugeint sample_decimals fs r msg(1) len, of sample_df] by blast
  then have "map Some ns = map Some sample_filter_irs" using sample_filter_entries by simp
  then have "ns = sample_filter_irs" using inj_map_eq_map [of Some] by (simp add: inj_def)
  then show ?thesis using r msg ok sample_filter_ok sample_lowers by blast
qed

text \<open>
  C5.  What the flags of the filter builder mean: the parts are those of the filters that can be
  written, in order; all filters are reported as pushed exactly when each one was; and the
  prefilter flag tolerates, besides, the filters on computed search columns.
\<close>

theorem filter_flags_exact:
  assumes "hugeint_exact db" and "decimals_print db" and "filters input = Some fs"
    and "BuildLanceTableFilterIRParts db nms tys input exc = Inr r"
  shows "parts r = List.map_filter (written db nms tys (column_ids input) exc) fs \<and>
    (all_filters_pushed r \<longleftrightarrow> (\<forall>e \<in> set fs. written db nms tys (column_ids input) exc e \<noteq> None)) \<and>
    (all_prefilterable_filters_pushed r \<longleftrightarrow>
      (\<forall>e \<in> set fs. written db nms tys (column_ids input) exc e \<noteq> None \<or> on_computed nms tys (column_ids input) exc e))"
  using BuildLanceTableFilterIRParts_spec [OF assms] by blast

theorem filter_flags_exact_witness:
  "\<exists>r. BuildLanceTableFilterIRParts sample_duckdb (names sample_bind) (types sample_bind) sample_input False = Inr r \<and>
     length (parts r) = 2"
proof -
  obtain r where r: "BuildLanceTableFilterIRParts sample_duckdb (names sample_bind) (types sample_bind) sample_input False = Inr r"
      "all_filters_pushed r"
    using sample_filter_parts by blast
  have fs: "filters sample_input = Some (the (filters sample_input))" "length (the (filters sample_input)) = 2"
    by (simp_all add: sample_input_def)
  have all: "\<forall>e \<in> set (the (filters sample_input)).
      written sample_duckdb (names sample_bind) (types sample_bind) (column_ids sample_input) False e \<noteq> None"
    and parts: "parts r = List.map_filter
      (written sample_duckdb (names sample_bind) (types sample_bind) (column_ids sample_input) False) (the (filters sample_input))"
    using filter_flags_exact [OF sample_hugeint sample_decimals fs(1) r(1)] r(2) by blast+
  have "length (parts r) = length (the (filters sample_input))"
    unfolding parts by (rule length_map_filter [OF all])
  then show ?thesis using r(1) fs(2) by auto
qed

text \<open>
  C6.  The planner's probe predicts the scan: although the two number the columns differently, the
  probe finds that every filter of the plan can be pushed exactly when the scan pushes every one of
  its filters, and the same for the filters that can be applied before a search.  The parts are the
  same ones, unless a filter is on a column that does not exist: then both answer that not every
  filter is pushed, and the probe writes no part.
\<close>

theorem probe_predicts_scan:
  assumes "hugeint_exact db" and "decimals_print db"
    and "filters input = Some fs'" and "rekeyed (column_ids input) fs' (table_filters get)"
    and "ProbeLanceTableFilterIR db get nms tys = Inr p"
    and "BuildLanceTableFilterIRParts db nms tys input False = Inr r"
  shows "(all_filters_pushed p \<longleftrightarrow> all_filters_pushed r) \<and>
    (all_prefilterable_filters_pushed p \<longleftrightarrow> all_prefilterable_filters_pushed r) \<and>
    (keys_in_range nms tys (table_filters get) \<longrightarrow> mset (parts r) = mset (parts p)) \<and>
    (\<not> keys_in_range nms tys (table_filters get) \<longrightarrow> \<not> all_filters_pushed p \<and> parts p = [])"
  using probe_agrees [OF assms] probe_out_of_range [OF _ assms(5)] by blast

theorem probe_predicts_scan_witness:
  "(\<exists>p r. ProbeLanceTableFilterIR sample_duckdb sample_get (names sample_bind) (types sample_bind) = Inr p \<and>
     BuildLanceTableFilterIRParts sample_duckdb (names sample_bind) (types sample_bind) sample_input False = Inr r \<and>
     all_filters_pushed p \<and> all_filters_pushed r \<and> mset (parts r) = mset (parts p)) \<and>
   (\<exists>p r. ProbeLanceTableFilterIR sample_duckdb stray_get (names sample_bind) (types sample_bind) = Inr p \<and>
     BuildLanceTableFilterIRParts sample_duckdb (names sample_bind) (types sample_bind) stray_input False = Inr r \<and>
     \<not> all_filters_pushed p \<and> \<not> all_filters_pushed r)"
proof (intro conjI)
  obtain p where p: "ProbeLanceTableFilterIR sample_duckdb sample_get (names sample_bind) (types sample_bind) = Inr p"
      "all_filters_pushed p"
    using sample_probe by blast
  obtain r where r: "BuildLanceTableFilterIRParts sample_duckdb (names sample_bind) (types sample_bind) sample_input False = Inr r"
    using sample_filter_parts by blast
  have fs: "filters sample_input = Some (the (filters sample_input))" by (simp add: sample_input_def)
  have "rekeyed (column_ids sample_input) (the (filters sample_input)) (table_filters sample_get)"
    by (simp add: rekeyed_def sample_input_def sample_get_def)
  moreover have "keys_in_range (names sample_bind) (types sample_bind) (table_filters sample_get)"
    by (simp add: keys_in_range_def sample_bind_def sample_get_def)
  ultimately show "\<exists>p r. ProbeLanceTableFilterIR sample_duckdb sample_get (names sample_bind) (types sample_bind) = Inr p \<and>
     BuildLanceTableFilterIRParts sample_duckdb (names sample_bind) (types sample_bind) sample_input False = Inr r \<and>
     all_filters_pushed p \<and> all_filters_pushed r \<and> mset (parts r) = mset (parts p)"
    using probe_predicts_scan [OF sample_hugeint sample_decimals fs _ p(1) r] p r by blast
next
  obtain p where p: "ProbeLanceTableFilterIR sample_duckdb stray_get (names sample_bind) (types sample_bind) = Inr p"
      "\<not> all_filters_pushed p"
    using stray_probe by blast
  obtain r where r: "BuildLanceTableFilterIRParts sample_duckdb (names sample_bind) (types sample_bind) stray_input False = Inr r"
    using stray_filter_parts by blast
  have fs: "filters stray_input = Some (the (filters stray_input))" by (simp add: stray_input_def)
  have "rekeyed (column_ids stray_input) (the (filters stray_input)) (table_filters stray_get)"
    by (simp add: rekeyed_def stray_input_def stray_get_def sample_input_def sample_get_def)
  from probe_predicts_scan [OF sample_hugeint sample_decimals fs this p(1) r] p r
  show "\<exists>p r. ProbeLanceTableFilterIR sample_duckdb stray_get (names sample_bind) (types sample_bind) = Inr p \<and>
     BuildLanceTableFilterIRParts sample_duckdb (names sample_bind) (types sample_bind) stray_input False = Inr r \<and>
     \<not> all_filters_pushed p \<and> \<not> all_filters_pushed r" by blast
qed

text \<open>
  C7.  A predicate of the plan is pushed exactly when it has a meaning as a filter tree over the
  scanned columns, and then with that tree's bytes: a refusal never hides a writable predicate.
\<close>

theorem predicate_pushed_iff:
  assumes "hugeint_exact db" and "decimals_print db"
  shows "TryBuildLanceExprFilterIR db get nms tys exc e = Done bs \<longleftrightarrow>
    (\<exists>n. filter_ir db (column_ir db get nms tys exc) True e = Some n \<and> ir_bytes db n = Inr bs)"
  using TryBuildLanceExprFilterIR_realises [OF assms] by (rule try_realisesD)

theorem predicate_pushed_iff_witness:
  "\<exists>bs. TryBuildLanceExprFilterIR sample_duckdb sample_get (names sample_bind) (types sample_bind) False
     sample_predicate = Done bs"
  unfolding predicate_pushed_iff [OF sample_hugeint sample_decimals] sample_predicate_ir by (simp add: byte_defs)



section \<open>Aggregation plans\<close>

text \<open>
  C8.  What the aggregation encoder writes is read back by the Rust side as the plan meant: the
  filter message, the groups and aggregates with references resolved through the projections, and
  the ORDER BY entries.  The reader needs names and string constants in UTF-8.
\<close>

theorem aggregation_plan_decodes:
  assumes "TryEncodeLanceExecIRv1 db ff g b filter_ir_msg extra stack agg order post = Done bs"
    and "length bs < 2 ^ 64"
  shows "\<exists>x. exec_means db g b filter_ir_msg extra stack agg order post x \<and>
    (exec_utf8 x \<longrightarrow> parse_exec_ir_v1 bs = Inr x)"
proof -
  obtain x where "exec_means db g b filter_ir_msg extra stack agg order post x" "bs = exec_bytes x" "exec_small x"
    using TryEncodeLanceExecIRv1_means [OF assms(1)] by blast
  then show ?thesis using parse_exec_ir_v1_bytes exec_ok_small assms(2) by blast
qed

theorem aggregation_plan_decodes_witness:
  "\<exists>bs x. TryEncodeLanceExecIRv1 sample_names False sample_get sample_bind [] [] [] sample_agg
      (Some (sample_order 10)) None = Done bs \<and>
    exec_means sample_names sample_get sample_bind [] [] [] sample_agg (Some (sample_order 10)) None x"
proof -
  obtain bs where "TryEncodeLanceExecIRv1 sample_names False sample_get sample_bind [] [] [] sample_agg
      (Some (sample_order 10)) None = Done bs" and "length bs < 2 ^ 64"
    using sample_plan_encodes by blast
  with aggregation_plan_decodes [OF this] show ?thesis by blast
qed

text \<open>
  C9.  The columns a plan asks the scan for are the columns its groups and aggregates refer to and
  the extra columns requested, no other, each once and in the order of the table.
\<close>

theorem plan_scans_every_column:
  assumes "TryEncodeLanceExecIRv1 db ff g b filter_ir_msg extra stack agg order post = Done bs"
  shows "\<exists>x. bs = exec_bytes x \<and> exec_means db g b filter_ir_msg extra stack agg order post x \<and>
    set (x_scan_projection x) = exec_columns x \<union> (!) (names b) ` set extra \<and>
    (\<exists>idxs. sorted idxs \<and> distinct idxs \<and> set extra \<subseteq> set idxs \<and> (\<forall>i \<in> set idxs. i < length (names b)) \<and>
      x_scan_projection x = map ((!) (names b)) idxs)"
proof -
  obtain x where x: "exec_means db g b filter_ir_msg extra stack agg order post x" "bs = exec_bytes x"
    using TryEncodeLanceExecIRv1_means [OF assms] by blast
  then have "plan_parts db g b extra stack agg x" by (simp add: exec_means_def)
  with x plan_columns_exact [OF this] plan_extra_columns [OF this] show ?thesis by blast
qed

theorem plan_scans_every_column_witness:
  "\<exists>bs x. TryEncodeLanceExecIRv1 sample_names False sample_get sample_bind [] [0] [] sample_agg
      (Some (sample_order 10)) None = Done bs \<and> bs = exec_bytes x \<and>
    exec_columns x = {''name''} \<and> x_scan_projection x = [''price'', ''name'']"
proof -
  obtain bs where bs: "TryEncodeLanceExecIRv1 sample_names False sample_get sample_bind [] [0] [] sample_agg
      (Some (sample_order 10)) None = Done bs"
    using wide_plan_encodes by blast
  obtain x idxs where x: "bs = exec_bytes x"
      "exec_means sample_names sample_get sample_bind [] [0] [] sample_agg (Some (sample_order 10)) None x"
      "set (x_scan_projection x) = exec_columns x \<union> (!) (names sample_bind) ` set [0]"
    and idxs: "sorted idxs" "distinct idxs" "\<forall>i \<in> set idxs. i < length (names sample_bind)"
      "x_scan_projection x = map ((!) (names sample_bind)) idxs"
    using plan_scans_every_column [OF bs] by blast
  have cols: "exec_columns x = {''name''}" by (rule wide_plan_columns [OF x(2)])
  have "x_scan_projection x = [''price'', ''name'']"
    using both_columns [OF idxs(1-3)] x(3) cols idxs(4) by (simp add: sample_bind_def insert_commute)
  then show ?thesis using bs x(1) cols by blast
qed

text \<open>
  C10.  Without a projection above the aggregate, every ORDER BY column of the plan is the name of
  a group or an aggregate of the plan, the one the ORDER BY expression refers to.  With such a
  projection this fails: the groups and aggregates are written before the projection renames them,
  the ORDER BY entries after, and the query
  \<open>SELECT name AS k, count(*) \<dots> GROUP BY name ORDER BY k\<close> is encoded as a plan that sorts by a
  column that is the name of no group and no aggregate of the plan.
\<close>

theorem order_by_columns:
  assumes "TryEncodeLanceExecIRv1 db ff g b filter_ir_msg extra stack agg order None = Done bs"
  shows "(\<exists>x. bs = exec_bytes x \<and>
      (\<forall>ob \<in> set (x_order_by x). o_column ob \<in> g_output_name ` set (x_groups x) \<union> a_output_name ` set (x_aggs x))) \<and>
    (\<exists>bs x. TryEncodeLanceExecIRv1 sample_names False sample_get sample_bind [] [] [] sample_agg
        (Some (sample_order 12)) (Some renaming) = Done bs \<and> parse_exec_ir_v1 bs = Inr x \<and>
      (\<exists>ob \<in> set (x_order_by x). o_column ob \<notin> g_output_name ` set (x_groups x) \<union> a_output_name ` set (x_aggs x)))"
proof
  obtain x where x: "exec_means db g b filter_ir_msg extra stack agg order None x" "bs = exec_bytes x"
    using TryEncodeLanceExecIRv1_means [OF assms] by blast
  from order_columns_are_outputs [OF x(1)] x(2)
  show "\<exists>x. bs = exec_bytes x \<and>
      (\<forall>ob \<in> set (x_order_by x). o_column ob \<in> g_output_name ` set (x_groups x) \<union> a_output_name ` set (x_aggs x))"
    by (auto simp: output_columns_def)
qed (rule renamed_plan_dangles)

theorem order_by_columns_witness:
  "\<exists>bs x. TryEncodeLanceExecIRv1 sample_names False sample_get sample_bind [] [] [] sample_agg
      (Some (sample_order 10)) None = Done bs \<and> bs = exec_bytes x \<and>
    o_column ` set (x_order_by x) \<subseteq> g_output_name ` set (x_groups x) \<union> a_output_name ` set (x_aggs x)"
proof -
  obtain bs where bs: "TryEncodeLanceExecIRv1 sample_names False sample_get sample_bind [] [] [] sample_agg
      (Some (sample_order 10)) None = Done bs"
    using sample_plan_encodes by blast
  with order_by_columns [OF this] show ?thesis by (blast intro: image_subsetI)
qed

text \<open>
  The reader of plans accepts nothing after the plan, so two plans written as the same bytes
  are the same plan and no plan is a prefix of another.
\<close>

theorem plan_reader_exact:
  assumes "exec_ok x" and "length (exec_bytes x @ rest) < 2 ^ 64"
  shows "parse_exec_ir_v1 (exec_bytes x @ rest) = (if rest = [] then Inr x else Inl TrailingExecBytes)"
  using parse_exec_ir_v1_append [OF assms] .

theorem plan_reader_exact_witness:
  "parse_exec_ir_v1 (exec_bytes \<lparr>x_filter_ir = [], x_scan_projection = [], x_groups = [], x_aggs = [], x_order_by = []\<rparr> @ [0]) =
     Inl TrailingExecBytes"
  using plan_reader_exact [OF empty_plan_ok empty_plan_short] by simp

text \<open>
  C11.  The recursive reader of plan expressions ends on every input: each expression it accepts
  consumes at least one byte and stays within the message, whatever the nesting.
\<close>

theorem plan_expression_reader_advances:
  assumes "parse_exec_expr c = Inr (e, c')"
  shows "pos c < pos c' \<and> pos c' \<le> length (cur_bytes c) \<and> cur_bytes c' = cur_bytes c \<and>
    left_over c' < left_over c"
proof -
  have "advances c c'" using parse_exec_expr_advances [OF _ assms] parse_exec_expr_total by blast
  then show ?thesis using advances_left by (auto simp: advances_def)
qed

theorem plan_expression_reader_advances_witness:
  "\<exists>c'. parse_exec_expr (new_cursor [2, 0]) = Inr (Literal L_Null, c') \<and> pos c' \<le> 2"
proof -
  have run: "parse_exec_expr (new_cursor [2, 0]) = Inr (Literal L_Null, \<lparr>cur_bytes = [2, 0], pos = 2\<rparr>)"
    by (subst parse_exec_expr.simps) (simp add: new_cursor_def read_u8_def parse_exec_literal_def)
  from plan_expression_reader_advances [OF this] run show ?thesis by (auto simp: new_cursor_def)
qed



section \<open>Dataset paths and redaction\<close>

text \<open>
  C12.  The spelling of a URI scheme does not matter, and normalising is done once: schemes that
  differ in case give the same path, \<open>s3a\<close> and \<open>s3n\<close> are \<open>s3\<close>, what follows the scheme is kept,
  and a second normalisation changes nothing.  The normaliser that only rewrites S3 schemes is the
  general one on S3 paths and the identity elsewhere, so applying it after the general one has no
  effect.
\<close>

theorem scheme_normalisation:
  assumes "string_util db" and "valid_scheme s"
  shows "LanceNormalizeUriScheme (s @ ''://'' @ rest) = canonical_scheme s @ ''://'' @ rest \<and>
    LanceNormalizeUriScheme (LanceNormalizeUriScheme p) = LanceNormalizeUriScheme p \<and>
    (map ascii_lower s = map ascii_lower t \<longrightarrow>
      LanceNormalizeUriScheme (t @ ''://'' @ rest) = LanceNormalizeUriScheme (s @ ''://'' @ rest)) \<and>
    LanceNormalizeS3Scheme db p = (if is_s3_path p then LanceNormalizeUriScheme p else p) \<and>
    LanceNormalizeS3Scheme db (LanceNormalizeUriScheme p) = LanceNormalizeUriScheme p"
proof -
  have "valid_scheme t" if "map ascii_lower s = map ascii_lower t"
    using valid_scheme_lower [OF assms(2)] valid_scheme_unlower that by simp
  then have "LanceNormalizeUriScheme (t @ ''://'' @ rest) = LanceNormalizeUriScheme (s @ ''://'' @ rest)"
    if "map ascii_lower s = map ascii_lower t"
    using that LanceNormalizeUriScheme_ci [OF _ assms(2)] by metis
  then show ?thesis
    using LanceNormalizeUriScheme_scheme [OF assms(2)] LanceNormalizeUriScheme_idem
      LanceNormalizeS3Scheme_agrees [OF assms(1)] LanceNormalizeS3Scheme_after_uri [OF assms(1)] by blast
qed

theorem scheme_normalisation_witness: "LanceNormalizeUriScheme ''S3A://bucket'' = ''s3://bucket''"
proof -
  have "valid_scheme ''S3A''"
    by (simp add: IsLanceUriSchemeFirstChar_def IsLanceUriSchemeChar_def is_digit_def)
  then have "LanceNormalizeUriScheme (''S3A'' @ ''://'' @ ''bucket'') = canonical_scheme ''S3A'' @ ''://'' @ ''bucket''"
    using scheme_normalisation [OF sample_string_util] by blast
  moreover have "canonical_scheme ''S3A'' = ''s3''" by code_simp
  ultimately show ?thesis by simp
qed

text \<open>
  C13.  Diagnostics do not leak: for a remote path, or one with private components, or when
  redaction is forced, neither the path nor the text of the backend's error has any influence on
  what is shown.  For a table, exactly these make the diagnostics private: a sensitive path or
  dataset URI, a namespace that is not a directory, one that is restricted from replay, one opened
  with a secret of the coordinator, storage options, a sensitive namespace root or display URI.
  Then what is shown depends neither on the path nor on the table nor on the error's text;
  otherwise the path and the error are shown as they are.
\<close>

theorem diagnostics_redacted:
  assumes "force \<or> sensitive ffi path" and "force' \<or> sensitive ffi path'"
    and "(LanceConsumeLastError err = []) = (LanceConsumeLastError err' = [])"
  shows "LanceVaneDiagnosticPath ffi path force = LanceVaneDiagnosticPath ffi path' force' \<and>
    LanceVaneFormatErrorSuffix ffi err path force = LanceVaneFormatErrorSuffix ffi err' path' force' \<and>
    (\<forall>t p t' p'. private_table ffi t p \<longrightarrow> private_table ffi t' p' \<longrightarrow>
      LanceVaneTableDiagnosticPath ffi t p = LanceVaneTableDiagnosticPath ffi t' p' \<and>
      LanceVaneTableFormatErrorSuffix ffi err t p = LanceVaneTableFormatErrorSuffix ffi err' t' p') \<and>
    (\<forall>t p. LanceVaneTableDiagnosticPath ffi t p = (if private_table ffi t p then ''<redacted-private-uri>'' else p)) \<and>
    (\<forall>t p. LanceVaneTableFormatErrorSuffix ffi err t p =
      (if private_table ffi t p
       then if LanceConsumeLastError err = [] then '''' else '' (Lance error details redacted)''
       else LanceFormatErrorSuffix err))"
  using assms by (simp add: diagnostic_path error_suffix_redacted table_diagnostics)

theorem diagnostics_redacted_witness:
  "LanceVaneDiagnosticPath sample_ffi ''s3://secret/t'' False = LanceVaneDiagnosticPath sample_ffi ''s3://other/t'' False \<and>
   LanceVaneTableDiagnosticPath sample_ffi (sample_table\<lparr>NamespaceConfig := Some (sample_config
     \<lparr>uses_coordinator_storage_secret := True\<rparr>)\<rparr>) ''/data/t.lance'' = ''<redacted-private-uri>'' \<and>
   LanceVaneTableDiagnosticPath sample_ffi (sample_table\<lparr>NamespaceConfig := None\<rparr>) ''/data/t.lance'' = ''/data/t.lance''"
proof -
  have remote: "sensitive sample_ffi ''s3://secret/t''" "sensitive sample_ffi ''s3://other/t''"
    by (simp_all add: sensitive_def LanceVanePathIsRemote_def LanceVaneClassifyPath_def sample_ffi_def path_flags)
  have hidden: "private_table sample_ffi (sample_table\<lparr>NamespaceConfig := Some (sample_config
     \<lparr>uses_coordinator_storage_secret := True\<rparr>)\<rparr>) ''/data/t.lance''"
    by (simp add: private_table_def private_namespace_def)
  have open_table: "\<not> private_table sample_ffi (sample_table\<lparr>NamespaceConfig := None\<rparr>) ''/data/t.lance''"
    by (simp add: private_table_def sample_table_def sensitive_def LanceVanePathIsRemote_def
        LanceVanePathHasPrivateUriComponents_def LanceVaneClassifyPath_def sample_ffi_def path_flags)
  note law = diagnostics_redacted [OF disjI2 disjI2 refl, OF remote, of False False]
  note shown = law [THEN conjunct2, THEN conjunct2, THEN conjunct2, THEN conjunct1, rule_format]
  show ?thesis
    using law [THEN conjunct1] hidden open_table by (simp only: shown if_True if_False HOL.simp_thms)
qed


section \<open>Storage options and credentials\<close>



text \<open>
  C15.  Credentials of different scopes are not mixed: options are produced only when both keys of
  the pair are connection-local or neither is, local keys are not empty, and a session token
  inherited from the process is not combined with a local pair.
\<close>

theorem credentials_not_mixed:
  assumes "TryGetLanceS3Setting db cl ''s3_access_key_id'' False = Inr access"
    and "TryGetLanceS3Setting db cl ''s3_secret_access_key'' False = Inr secret"
    and "TryGetLanceS3Setting db cl ''s3_session_token'' True = Inr token"
    and "FillLanceStorageOptionsFromDuckDBS3Settings db cl no_options = Inr os"
  shows "(out_scope access = LOCAL \<longleftrightarrow> out_scope secret = LOCAL) \<and>
    (out_scope access = LOCAL \<longrightarrow> out_value access \<noteq> [] \<and> out_value secret \<noteq> []) \<and>
    (out_scope access = LOCAL \<longrightarrow> out_scope token = GLOBAL \<longrightarrow> ''aws_session_token'' \<notin> set (fst os))"
  using local_pair_needs_both [OF assms(1,2,4)] inherited_token_not_merged [OF assms(1-3) _ _ assms(4)] by blast

theorem credentials_not_mixed_witness:
  "\<exists>os. FillLanceStorageOptionsFromDuckDBS3Settings sample_duckdb sample_client no_options = Inr os \<and>
     ''aws_session_token'' \<notin> set (fst os)"
  using credentials_not_mixed [OF sample_settings(1-3) sample_fill] sample_fill by auto

text \<open>
  Where a distributed read takes its options from: a matching secret with entries decides
  alone; without one, the process environment is left in charge unless the connection's settings
  override it.
\<close>

theorem option_source_precedence:
  assumes "ResolveLanceStorageOptions db ffi cl path = Inr (open_path, os)" and "StartsWith open_path ''s3://''"
  shows "(fst (CanonicalizeLanceS3StorageOptions db os) \<noteq> [] \<longrightarrow>
      ResolveLanceStorageOptionsForDistributedRead db ffi cl path = Inr (open_path, CanonicalizeLanceS3StorageOptions db os)) \<and>
    (os = no_options \<and> ProcessHasLanceS3Environment cl \<and> LanceS3SettingsOverrideProcessEnvironment db cl = Inr False \<longrightarrow>
      ResolveLanceStorageOptionsForDistributedRead db ffi cl path = Inr (open_path, no_options))"
  using secret_takes_precedence [OF assms] environment_kept assms(1) by blast

theorem option_source_precedence_witness:
  "ResolveLanceStorageOptionsForDistributedRead sample_duckdb sample_ffi secret_client ''s3://b/t'' =
     Inr (''s3://b/t'', [''aws_region''], [''eu''])"
proof -
  have "CanonicalizeLanceS3StorageOptions sample_duckdb ([''region''], [''eu'']) = ([''aws_region''], [''eu''])"
    by (simp add: CanonicalizeLanceS3StorageOptions_def IsLanceS3StorageOptionAlias_def has_explicit_canonical_def
        CanonicalLanceS3StorageOptionKey_def no_options_def push_option_def sample_duckdb_def ascii_lower_def Let_def)
  with option_source_precedence [OF sample_resolve(5)] show ?thesis by (simp add: StartsWith_def)
qed

text \<open>
  A directory namespace is reused on a worker exactly when the worker's own resolution gives
  the same root and the same options with the same multiplicities, in whatever order.
\<close>

theorem session_match_exact:
  assumes "ResolveLanceStorageOptionsForDistributedRead db ffi cl (root config) = Inr (current_root, os)"
    and "length (option_keys config) = length (option_values config)"
  shows "LanceVaneDirectoryNamespaceSessionMatches db ffi cl config = Inr True \<longleftrightarrow>
    current_root = root config \<and> mset (pairs os) = mset (pairs (option_keys config, option_values config))"
  using session_matches_iff [OF assms(1)] assms(2) by (simp add: in_step_def)

theorem session_match_exact_witness:
  "LanceVaneDirectoryNamespaceSessionMatches sample_duckdb sample_ffi plain_client sample_config = Inr True"
proof -
  have root: "root sample_config = ''/data''" "option_keys sample_config = []" "option_values sample_config = []"
    by (simp_all add: sample_config_def)
  have "ResolveLanceStorageOptionsForDistributedRead sample_duckdb sample_ffi plain_client (root sample_config) =
      Inr (''/data'', no_options)"
    using sample_resolve_read(2) by (simp add: root)
  from session_match_exact [OF this] show ?thesis by (simp add: root no_options_def pairs_def)
qed

text \<open>
  C16.  The credential overrides of a namespace, for options given as texts in the order the
  iteration over the option map meets them (the map compares names exactly, the resolver ignores
  their case, so one name can occur in several spellings).  In the distributed build
  \<open>bearer_token\<close> wins over \<open>token\<close> wherever the two stand, each of them is the text met last under
  its name, and an empty text overrides nothing.  In the other build the last text that is not
  empty wins, whichever of the two names it has.  So in the distributed build the order does not
  matter as long as no credential is given in two spellings of the same name; with \<open>token\<close> and
  \<open>TOKEN\<close> together the one met last wins in both builds.
\<close>

theorem overrides_and_order:
  assumes "string_util db" and "text_casts db"
  shows "ResolveLanceNamespaceAuthOverrides True db (text_options es) auth =
      Inr (auth\<lparr>bearer_token := text_or (last_text es ''bearer_token'') (text_or (last_text es ''token'') (bearer_token auth)),
        api_key := text_or (last_text es ''api_key'') (api_key auth)\<rparr>) \<and>
    ResolveLanceNamespaceAuthOverrides False db (text_options es) auth =
      Inr (auth\<lparr>bearer_token := text_or (last_nonempty es {''token'', ''bearer_token''}) (bearer_token auth),
        api_key := text_or (last_nonempty es {''api_key''}) (api_key auth)\<rparr>) \<and>
    (\<forall>opts opts'. named_once opts \<longrightarrow> mset opts = mset opts' \<longrightarrow>
      ResolveLanceNamespaceAuthOverrides True db opts auth = ResolveLanceNamespaceAuthOverrides True db opts' auth)"
  using distributed_overrides [OF assms] other_build_overrides [OF assms] overrides_order_irrelevant [OF assms(1)]
  by blast

theorem overrides_and_order_witness:
  "ResolveLanceNamespaceAuthOverrides True sample_duckdb
     (text_options [(''bearer_token'', ''b''), (''token'', ''a''), (''TOKEN'', ''c'')]) \<lparr>bearer_token = [], api_key = []\<rparr>
     = Inr \<lparr>bearer_token = ''b'', api_key = []\<rparr> \<and>
   ResolveLanceNamespaceAuthOverrides True sample_duckdb
     (text_options [(''token'', ''a''), (''TOKEN'', ''c'')]) \<lparr>bearer_token = [], api_key = []\<rparr>
     = Inr \<lparr>bearer_token = ''c'', api_key = []\<rparr> \<and>
   ResolveLanceNamespaceAuthOverrides False sample_duckdb
     (text_options [(''bearer_token'', ''b''), (''token'', ''a'')]) \<lparr>bearer_token = [], api_key = []\<rparr>
     = Inr \<lparr>bearer_token = ''a'', api_key = []\<rparr>"
proof -
  have "text_casts sample_duckdb" by (simp add: text_casts_def sample_duckdb_def)
  note law = overrides_and_order [OF sample_string_util this]
  show ?thesis
    unfolding law [THEN conjunct1] law [THEN conjunct2, THEN conjunct1]
    by (simp add: text_or_def last_text_def last_value_def last_nonempty_def spelled_def ascii_lower_def) code_simp
qed


section \<open>The shared session\<close>

text \<open>
  C17.  All connections of a database use one Lance session: once a connection has a session
  handle, every later call of any connection that succeeds returns the same handle.  A cache-size
  setting accepted after that is the size the session was created with, and it was given globally.
\<close>

theorem one_shared_session:
  assumes "sessions_agree w" and "handle_call vane db ffi c cl err w = (Inr h, w1)"
    and "calls vane db ffi w1 w2" and "handle_call vane db ffi c' cl' err' w2 = (Inr h', w3)"
  shows "h' = h \<and>
    (\<forall>e dbi scope v name index. shared_session_entry dbi = Some e \<longrightarrow>
       ValidateLanceVaneSessionCacheSetting db dbi scope v name index = Inr () \<longrightarrow>
       (\<exists>n. cast_ubigint db v = Inr n \<and> n \<noteq> 0 \<and> (scope = GLOBAL_SCOPE \<or> scope = AUTOMATIC) \<and>
          n = (if index then index_cache_size_bytes e else metadata_cache_size_bytes e)))"
  using one_session [OF assms] accepted_setting by blast

theorem one_shared_session_witness:
  "\<exists>h h' w1 w2. handle_call True sample_duckdb sample_session_ffi 0 plain_client [] sample_world = (Inr h, w1) \<and>
     handle_call True sample_duckdb sample_session_ffi 1 plain_client [] w1 = (Inr h', w2) \<and> h' = h"
proof -
  obtain h h' w1 w2 where c1: "handle_call True sample_duckdb sample_session_ffi 0 plain_client [] sample_world = (Inr h, w1)"
    and c2: "handle_call True sample_duckdb sample_session_ffi 1 plain_client [] w1 = (Inr h', w2)"
    using sample_calls by blast
  from one_shared_session [OF sample_sessions_agree c1 calls_done c2] c1 c2 show ?thesis by blast
qed


section \<open>The dataset cache\<close>

text \<open>
  C18.  The cache refines a map with a set of keys to expire: for every sequence of operations,
  the results are those of the abstract cache, in which the first dataset stored under a key wins.
  Every operation keeps the cache's invariant: at most one entry per key, and each pending
  expiration listed once.
\<close>

theorem cache_refines_map:
  "run_ops evs st = spec_ops evs (cached st, set (expire_after_query st)) \<and>
   cache_ok (fold (\<lambda>ev st. snd (run_op ev st)) evs empty_cache)"
proof -
  have "cache_ok st \<Longrightarrow> cache_ok (fold (\<lambda>ev st. snd (run_op ev st)) evs st)" for st
    by (induction evs arbitrary: st) (simp_all add: run_op_ok)
  then show ?thesis
    using run_ops_refines by (simp add: abs_cache_def)
qed

text \<open>
  C19.  Threads that look up the same dataset at the same time share it: however their lookups,
  openings and insertions interleave, and whatever else happens to the cache, all that return a
  dataset for a key return the same one, as long as the key is not dropped in between.
\<close>

theorem concurrent_lookups_share:
  assumes "\<And>t r. threads s t \<noteq> Returned k r" and "run_keeping k s s'"
    and "threads s' t = Returned k (Some e)" and "threads s' t' = Returned k (Some e')"
  shows "e = e'"
  using threads_share_dataset [OF assms] .

theorem concurrent_lookups_share_witness:
  "\<exists>s s' e. run_keeping ''k'' s s' \<and> threads s' 0 = Returned ''k'' (Some e) \<and> threads s' 1 = Returned ''k'' (Some e) \<and>
     threads s 0 \<noteq> threads s' 0"
proof -
  obtain s s' e e' where run: "run_keeping ''k'' s s'" "\<And>t r. threads s t \<noteq> Returned ''k'' r"
    and ret: "threads s' 0 = Returned ''k'' (Some e)" "threads s' 1 = Returned ''k'' (Some e')"
    using sample_race by blast
  from concurrent_lookups_share [OF run(2) run(1) ret] ret run show ?thesis by metis
qed

text \<open>
  C20.  The steps of C19 are those of the code: \<open>GetOrOpenDatasetCacheEntry\<close>, run by a thread on the
  cache of a state, with any of the code's openers, is the run of that thread's steps that its
  findings determine (a lookup that hits; or a lookup that misses and then the step for what the
  opener returned), it leaves the cache of the run's last state, and it returns what the thread has
  returned there.  And a lookup that returned a dataset, repeated with whatever opener, returns the
  same dataset from the cache.
\<close>

theorem lookup_refines_steps:
  assumes "code_opener opn" and "registered_cache ctx = Some (cache s)" and "\<forall>k'. threads s t \<noteq> Missed k'"
    and "GetOrOpenDatasetCacheEntry key opn ctx = (r, ctx')"
  shows "(\<exists>s'. steps s (lookup_events t key (cached (cache s) key)
        (fst (opn (ctx\<lparr>registered_cache := Some (snd (Get key (cache s)))\<rparr>)))) s' \<and>
      registered_cache ctx' = Some (cache s') \<and> threads s' = (threads s)(t := Returned key (result_of r))) \<and>
    (\<forall>e opn'. result_of r = Some e \<longrightarrow>
      fst (GetOrOpenDatasetCacheEntry key opn' ctx') = Inr \<lparr>found_entry = Some e, out_cache_hit = Some True\<rparr>)"
  using lookup_as_steps [OF assms] lookup_again [OF assms(4)] by blast

theorem lookup_refines_steps_witness:
  "\<exists>key evs s'. steps \<lparr>cache = empty_cache, threads = (\<lambda>t. Idle)\<rparr> evs s' \<and> length evs = 2 \<and>
     threads s' 0 = Returned key (Some \<lparr>dataset = 11, entry_display_uri = ''/data/t''\<rparr>)"
proof -
  let ?s = "\<lparr>cache = empty_cache, threads = (\<lambda>t. Idle)\<rparr>"
  let ?opn = "path_opener sample_connection None ''/data/t'' ''/data/t'' no_options"
  obtain key r ctx' where call: "GetOrOpenDatasetCacheEntry key ?opn (sample_ctx\<lparr>registered_cache := Some empty_cache\<rparr>) = (r, ctx')"
    and r: "result_of r = Some \<lparr>dataset = 11, entry_display_uri = ''/data/t''\<rparr>"
    using sample_lookup_runs by blast
  have "code_opener ?opn" by (rule code_opener.intros)
  from lookup_refines_steps [OF this _ _ call, of ?s 0]
  obtain s' where "steps ?s (lookup_events 0 key None
      (fst (?opn (sample_ctx\<lparr>registered_cache := Some (snd (Get key empty_cache))\<rparr>)))) s'"
    and "threads s' 0 = Returned key (result_of r)"
    by (auto simp: empty_cache_def)
  moreover have "length (lookup_events 0 key None x) = 2" for x by (simp add: lookup_events_def)
  ultimately show ?thesis using r by metis
qed

text \<open>
  C21.  Cache keys are unambiguous: two path lookups share a key only if they normalise to the same
  path and have the same options in the same order, two namespace lookups only if endpoint, table
  and delimiter agree and the credentials have the same fingerprints, and a path never shares a
  key with a namespace.
\<close>

theorem cache_keys_unambiguous:
  assumes "LanceBuildResolvedPathDatasetCacheKey db ffi p os = Inr key"
  shows "(LanceBuildResolvedPathDatasetCacheKey db ffi p' os' = Inr key \<longrightarrow>
      LanceNormalizeDatasetPath db ffi p = LanceNormalizeDatasetPath db ffi p' \<and> os = os') \<and>
    key \<noteq> LanceBuildNamespaceDatasetCacheKey h e t b a d hs \<and>
    (LanceBuildNamespaceDatasetCacheKey h e t b a d hs = LanceBuildNamespaceDatasetCacheKey h e' t' b' a' d' hs' \<longleftrightarrow>
      e = e' \<and> t = t' \<and> h b = h b' \<and> h a = h a' \<and> d = d' \<and> h hs = h hs')"
proof (intro conjI impI)
  show "key \<noteq> LanceBuildNamespaceDatasetCacheKey h e t b a d hs" by (rule path_namespace_keys_differ [OF assms])
qed (use path_key_inject [OF assms] in blast, use path_key_inject [OF assms] in blast, rule namespace_key_inject)

theorem cache_keys_unambiguous_witness:
  "\<exists>key. LanceBuildResolvedPathDatasetCacheKey sample_duckdb sample_ffi ''/data/t'' no_options = Inr key \<and>
     key \<noteq> LanceBuildNamespaceDatasetCacheKey (\<lambda>s. 0) ''e'' ''t'' [] [] [] []"
proof -
  obtain key where key: "LanceBuildResolvedPathDatasetCacheKey sample_duckdb sample_ffi ''/data/t'' no_options = Inr key"
    using sample_key by blast
  from cache_keys_unambiguous [OF this, of "''/data/t''" no_options "\<lambda>s. 0" "''e''" "''t''" "[]" "[]" "[]" "[]"] key
  show ?thesis by blast
qed

text \<open>
  C22.  A lookup by path returns a dataset that was opened for it.  Whatever lookups by path, by
  namespace or by table, invalidations, expirations and queries went before, in whatever order and
  by whatever connections on the same Rust library, the dataset returned is one the library
  returned for a path of the same identity with exactly the options this connection resolves now:
  from the call without options if there are none, from the call with these options otherwise, or
  from the call for a table of a directory namespace of that identity with these options; or it is
  the binding dataset of a blob at such a path, which the library opens by the blob's own access.
  So an entry opened with other options is never returned.
\<close>

theorem lookups_isolated:
  assumes "cache_history db ffi fns h ctx" and "serves cn db ffi fns h"
    and "LanceGetOrOpenDatasetEntry cn path access ctx = (Inr l, ctx')" and "found_entry l = Some e"
  shows "\<exists>open_path os. resolve_for_read (vane_build cn) db ffi (client_of cn) path = Inr (open_path, os) \<and>
    opened_for db ffi fns open_path os e"
  using path_lookup_isolated [OF assms(3,4) history_sound [OF assms(1)] assms(2)] .

theorem lookups_isolated_witness:
  "\<exists>l ctx' e. LanceGetOrOpenDatasetEntry sample_connection ''/data/t'' None sample_ctx = (Inr l, ctx') \<and>
     found_entry l = Some e \<and> opened_for sample_duckdb sample_ffi sample_dataset_ffi ''/data/t'' no_options e \<and>
     \<not> opened_for sample_duckdb sample_ffi sample_dataset_ffi ''/data/t'' no_options
        \<lparr>dataset = 13, entry_display_uri = ''/data/t''\<rparr>"
proof -
  obtain l ctx' e where call: "LanceGetOrOpenDatasetEntry sample_connection ''/data/t'' None sample_ctx = (Inr l, ctx')"
    and e: "found_entry l = Some e"
    using sample_lookup by blast
  have "resolve_for_read (vane_build sample_connection) sample_duckdb sample_ffi (client_of sample_connection) ''/data/t''
      = Inr (''/data/t'', no_options)"
    using sample_resolve_read(1) by (simp add: sample_connection_def)
  with lookups_isolated [OF sample_history sample_serves call e] call e foreign_dataset show ?thesis by auto
qed

text \<open>
  Invalidating a table takes effect: the next lookup of the table, through whatever kind of
  namespace, is not answered from the cache.
\<close>

theorem invalidated_table_reopened:
  assumes "LanceInvalidateDatasetCacheForTable cn table ctx = Inr ctx1"
    and "LanceGetOrOpenDatasetEntryForTable cn table ctx1 = (Inr (l, uri), ctx2)"
  shows "out_cache_hit l \<noteq> Some True"
  using table_invalidation_effective [OF assms] .

theorem invalidated_table_reopened_witness:
  "\<exists>ctx1 l uri ctx2. LanceInvalidateDatasetCacheForTable sample_connection sample_table sample_ctx = Inr ctx1 \<and>
     LanceGetOrOpenDatasetEntryForTable sample_connection sample_table ctx1 = (Inr (l, uri), ctx2) \<and>
     out_cache_hit l \<noteq> Some True"
proof -
  obtain ctx1 l uri ctx2 where "LanceInvalidateDatasetCacheForTable sample_connection sample_table sample_ctx = Inr ctx1"
    and "LanceGetOrOpenDatasetEntryForTable sample_connection sample_table ctx1 = (Inr (l, uri), ctx2)"
    using sample_invalidation by blast
  with invalidated_table_reopened [OF this] show ?thesis by blast
qed


section \<open>Index statements\<close>

text \<open>
  C23.  The two ways to create an index on a table do the same.  A statement read by the parser
  extension, planned and bound, and a \<open>CREATE INDEX\<close> of DuckDB's parser with the same name, type and
  options, whose column reference has the names of the statement's column path, run alike: the same
  call on the same dataset, the same handles, the same invalidation of the cache.  Of the column's
  names the longest qualifier that is the table's is dropped, and the path given to the Lance library
  is read back as the names that remain.
\<close>

theorem create_index_routes_agree:
  assumes "string_util db" and "text_util h" and "casts_keep db"
    and parse: "LanceIndexParse db h query = Parsed d"
    and kind: "ix_kind d = Create" "\<not> ix_target_is_path d"
    and q: "qualified_target h (ix_target_sql d) = Inr q"
    and plan: "LanceIndexPlan db h d = Inr (f, params, ret)"
    and bind: "LanceCreateIndexTableBind db h get_entry params = Inr bd"
    and entry: "get_entry (qn_catalog q) (qn_schema q) (qn_name q) = Inr (LanceTable table)"
    and segs: "TryParseLanceFieldPathSegments h (ix_columns d ! 0) = Some segs"
    and info: "info_index_name info = ix_index_name d" "NormalizeIndexType h (info_index_type info) = ix_index_type d"
      "parsed_expressions info = [ColumnRefExpression segs]"
      "BuildLanceParamsJsonFromDuckdbWithOptions db h (info_options info) = Inr (ix_replace d, ix_train d, ix_params_json d)"
  shows "\<exists>op k. LanceBtreeCreatePlan db h (Some q) info = Inr op \<and>
    LanceCreateIndexFunc cn xf get_entry bd False ctx = PhysicalLanceCreateIndex_GetDataInternal cn xf table op ctx \<and>
    column_of q segs k \<and> TryParseLanceFieldPathSegments h (ci_column op) = Some (drop k segs)"
proof -
  obtain k path where column: "column_of q segs k" "NormalizeTableIndexColumnPath db h (ix_columns d ! 0) q = Inr path"
      "GetSingleColumnNameOrThrow db [ColumnRefExpression segs] q = Inr path"
      "TryParseLanceFieldPathSegments h path = Some (drop k segs)"
    using index_column [OF assms(1,2) segs] by blast
  let ?op = "\<lparr>ci_index_name = ix_index_name d, ci_column = path, ci_index_type = ix_index_type d,
    ci_params_json = ix_params_json d, ci_replace = ix_replace d, ci_train = ix_train d\<rparr>"
  have "NormalizeIndexType h (ix_index_type d) = ix_index_type d"
    using LanceIndexParse_ok [OF assms(2) parse] kind(1) by (simp add: stmt_ok_def)
  then have "bd = ddl_on_table (qn_catalog q) (qn_schema q) (qn_name q) (ix_index_name d) [path] (ix_index_type d)
      (ix_params_json d) (ix_replace d) (ix_train d)"
    using bound_create [OF assms(3)] bind planned_create [OF kind q column(2) plan] by blast
  then have "LanceCreateIndexFunc cn xf get_entry bd False ctx = PhysicalLanceCreateIndex_GetDataInternal cn xf table ?op ctx"
    using run_create [of get_entry, OF entry] by simp
  moreover have "LanceBtreeCreatePlan db h (Some q) info = Inr ?op"
    using column(3) info by (simp add: LanceBtreeCreatePlan_def Let_def)
  ultimately show ?thesis using column(1,4) by (intro exI [of _ ?op] exI [of _ k]) simp
qed

theorem create_index_routes_agree_witness:
  "\<exists>d f params ret bd op.
     LanceIndexParse statement_duckdb sample_sql '' create Index idx ON t ( t.`a,b` ) using btree ;'' = Parsed d \<and>
     LanceIndexPlan statement_duckdb sample_sql d = Inr (f, params, ret) \<and>
     LanceCreateIndexTableBind statement_duckdb sample_sql sample_entry params = Inr bd \<and>
     LanceBtreeCreatePlan statement_duckdb sample_sql (Some \<lparr>qn_catalog = ''memory'', qn_schema = ''main'', qn_name = ''t''\<rparr>)
       \<lparr>info_index_name = ''idx'', info_index_type = ''BTree'', info_options = [],
        parsed_expressions = [ColumnRefExpression [''t'', ''a,b'']]\<rparr> = Inr op \<and>
     LanceCreateIndexFunc sample_connection sample_indexes sample_entry bd False sample_ctx =
       PhysicalLanceCreateIndex_GetDataInternal sample_connection sample_indexes sample_table op sample_ctx"
proof -
  have facts: "ix_kind index_statement = Create" "\<not> ix_target_is_path index_statement"
    "TryParseLanceFieldPathSegments sample_sql (ix_columns index_statement ! 0) = Some [''t'', ''a,b'']"
    "''idx'' = ix_index_name index_statement" "NormalizeIndexType sample_sql ''BTree'' = ix_index_type index_statement"
    "BuildLanceParamsJsonFromDuckdbWithOptions statement_duckdb sample_sql [] =
       Inr (ix_replace index_statement, ix_train index_statement, ix_params_json index_statement)"
    by code_simp+
  from create_index_routes_agree [where info = "\<lparr>info_index_name = ''idx'', info_index_type = ''BTree'', info_options = [],
      parsed_expressions = [ColumnRefExpression [''t'', ''a,b'']]\<rparr>" and get_entry = sample_entry,
      OF statement_string_util sample_text_util statement_casts index_statement_parsed facts(1,2)
      index_statement_planned(2,1) index_statement_bound refl facts(3)] facts(4-6)
    index_statement_parsed index_statement_planned(1) index_statement_bound
  show ?thesis by fastforce
qed

text \<open>
  C24.  A parsed index statement is read back from its printed form, with the same kind, name,
  target, columns and type.  The printed form leaves the options out: they are those of a statement
  without a \<open>WITH\<close> clause.
\<close>

theorem index_statement_reparses:
  assumes "string_util db" and "text_util h" and "LanceIndexParse db h query = Parsed d"
  shows "LanceIndexParse db h (LanceIndexParseData_ToString h d) =
    Parsed (d\<lparr>ix_params_json := [], ix_replace := False, ix_train := True\<rparr>)"
  using LanceIndexParse_back [OF assms(1,2) LanceIndexParse_ok [OF assms(2,3)]]
  by (cases d) (simp add: NewLanceIndexParseData_def)

theorem index_statement_reparses_witness:
  "\<exists>d. LanceIndexParse statement_duckdb sample_sql
       '' create Index idx ON t ( `a,b` ) using ivf_pq with (replace = true) ;'' = Parsed d \<and>
     LanceIndexParse statement_duckdb sample_sql (LanceIndexParseData_ToString sample_sql d) =
       Parsed (d\<lparr>ix_params_json := [], ix_replace := False, ix_train := True\<rparr>)"
proof -
  have "case LanceIndexParse statement_duckdb sample_sql
      '' create Index idx ON t ( `a,b` ) using ivf_pq with (replace = true) ;'' of Parsed d \<Rightarrow> ix_replace d | _ \<Rightarrow> False"
    by code_simp
  then obtain d where d: "LanceIndexParse statement_duckdb sample_sql
      '' create Index idx ON t ( `a,b` ) using ivf_pq with (replace = true) ;'' = Parsed d"
    by (auto split: parse_result.splits)
  from d index_statement_reparses [OF statement_string_util sample_text_util d] show ?thesis by blast
qed

text \<open>
  C25.  The options of a \<open>WITH\<close> clause arrive: the JSON text handed to the Rust side is read, by a
  reader of JSON, as the members of the clause in their order with the values meant, provided their
  texts have no control character without a short escape and their numbers are numbers of JSON.
\<close>

theorem with_options_json:
  assumes "TryBuildOptionsJsonFromWithClause db h sql = Inr json" and "json \<noteq> []"
  shows "\<exists>kvs entries. with_entries db h False (TrimCopy h sql) = Inr kvs \<and>
    res_map (with_key_value h) kvs = Inr entries \<and>
    (list_all (\<lambda>(k, v). list_all writable k \<and> json_writable (option_meaning db h v)) entries \<longrightarrow>
       json_object json = Some (map (\<lambda>(k, v). (k, option_meaning db h v)) entries))"
  by (rule TryBuildOptionsJson_read [OF assms])

theorem with_options_json_witness:
  "\<exists>json. TryBuildOptionsJsonFromWithClause statement_duckdb sample_sql
       ''with (target_rows = 5, defer = TRUE, mode = fast)'' = Inr json \<and>
     json_object json = Some [(''target_rows'', JNumber ''5''), (''defer'', JBool True), (''mode'', JString ''fast'')]"
proof -
  let ?sql = "''with (target_rows = 5, defer = TRUE, mode = fast)''"
  have "case TryBuildOptionsJsonFromWithClause statement_duckdb sample_sql ?sql of Inr json \<Rightarrow> json \<noteq> [] | Inl _ \<Rightarrow> False"
    by code_simp
  then obtain json where json: "TryBuildOptionsJsonFromWithClause statement_duckdb sample_sql ?sql = Inr json" "json \<noteq> []"
    by (auto split: sum.splits)
  have entries: "with_entries statement_duckdb sample_sql False (TrimCopy sample_sql ?sql) =
      Inr [''target_rows = 5'', ''defer = TRUE'', ''mode = fast'']"
    "with_key_value sample_sql ''target_rows = 5'' = Inr (''target_rows'', ''5'')"
    "with_key_value sample_sql ''defer = TRUE'' = Inr (''defer'', ''TRUE'')"
    "with_key_value sample_sql ''mode = fast'' = Inr (''mode'', ''fast'')"
    by code_simp+
  let ?es = "[(''target_rows'', ''5''), (''defer'', ''TRUE''), (''mode'', ''fast'')]"
  let ?m = "option_meaning statement_duckdb sample_sql"
  obtain es where "res_map (with_key_value sample_sql) [''target_rows = 5'', ''defer = TRUE'', ''mode = fast''] = Inr es"
    and es: "list_all (\<lambda>(k, v). list_all writable k \<and> json_writable (?m v)) es \<longrightarrow>
      json_object json = Some (map (\<lambda>(k, v). (k, ?m v)) es)"
    using with_options_json [OF json] unfolding entries(1) by blast
  then have "es = ?es" by (simp add: entries)
  moreover have "list_all (\<lambda>(k, v). list_all writable k \<and> json_writable (?m v)) ?es"
    "map (\<lambda>(k, v). (k, ?m v)) ?es = [(''target_rows'', JNumber ''5''), (''defer'', JBool True), (''mode'', JString ''fast'')]"
    by code_simp+
  ultimately show ?thesis using es json(1) by metis
qed


section \<open>Maintenance statements\<close>

text \<open>
  C26.  What \<open>ALTER TABLE ... SET AUTO_CLEANUP\<close> sets is what \<open>SHOW MAINTENANCE\<close> shows, and after
  \<open>UNSET AUTO_CLEANUP\<close> it is shown as disabled: through the parser, the planner, the binder, the
  updates of the configuration and its listing as text.  The interval and the number of versions are
  positive 64-bit numbers.  The age must not contain a tab, a line feed or a NUL, which the listing
  does not escape.
\<close>

theorem auto_cleanup_shown:
  assumes "casts_keep db" and "commits cu" and "splits (StringSplit nf)" and "safe_store st"
    and parse: "LanceMaintenanceParse db h query = Parsed d"
    and kind: "mt_kind d \<in> {SET_AUTO_CLEANUP, UNSET_AUTO_CLEANUP}"
    and safe: "mt_kind d = SET_AUTO_CLEANUP \<longrightarrow> tsv_safe (auto_cleanup_older_than d)"
    and plan: "LanceMaintenancePlan h d = Inr (f, params, ret)"
    and bind: "LanceSetAutoCleanupBind db resolve params = Inr bd"
    and set: "LanceSetAutoCleanupFunc cn cat cu bd False (ctx, st) = (Inr row, fin, ctx', st')"
    and shw: "LanceShowAutoCleanupInitGlobal cn2 cat2 nf target (ctx2, st') = (Inr rows, ctx2')"
  shows "rows = expected_rows d \<and> settings_ok d"
proof -
  have ok: "settings_ok d" by (rule LanceMaintenanceParse_ok [OF parse])
  have bound: "if mt_kind d = SET_AUTO_CLEANUP
    then \<not> ac_unset bd \<and> ac_interval bd = auto_cleanup_interval d \<and>
      ac_older_than bd = auto_cleanup_older_than d \<and> ac_retain_versions bd = retained d
    else ac_unset bd"
    using set_bound [OF assms(1) ok _ plan bind] unset_bound [OF assms(1) _ plan bind] kind by auto
  then have "\<not> ac_unset bd \<Longrightarrow> tsv_safe (ac_older_than bd)" using safe by (auto split: if_splits)
  then have stored: "safe_store st'" "map_of st' = foldl (\<lambda>m (k, v). m(k := v)) (map_of st) (auto_cleanup_updates bd)"
    using auto_cleanup_stored [OF assms(2,4) _ set] by blast+
  have "rows = shown_rows (map_of st')" by (rule shown_rows_listed [OF assms(3) stored(1) shw])
  then show ?thesis
    using bound ok by (auto simp: stored(2) shown_after_updates expected_rows_def retained_def split: if_splits)
qed

theorem auto_cleanup_shown_witness:
  "\<exists>d f params ret bd row fin ctx' st' rows ctx2.
     LanceMaintenanceParse statement_duckdb sample_sql
       (''ALTER TABLE t SET AUTO_CLEANUP WITH (interval = 20, older_than = '' @ [apostrophe] @ ''14d'' @ [apostrophe] @ '')'')
       = Parsed d \<and>
     LanceMaintenancePlan sample_sql d = Inr (f, params, ret) \<and>
     LanceSetAutoCleanupBind statement_duckdb (\<lambda>v. Inr ''/data/t'') params = Inr bd \<and>
     LanceSetAutoCleanupFunc sample_connection sample_catalog sample_committer bd False (sample_ctx, [])
       = (Inr row, fin, ctx', st') \<and>
     LanceShowAutoCleanupInitGlobal sample_connection sample_catalog sample_namespace (''/data/t'', ''t'')
       (sample_ctx, st') = (Inr rows, ctx2) \<and>
     rows = [(''enabled'', ''true''), (''interval'', ''20''), (''older_than'', ''14d'')]"
proof -
  let ?d = "cleanup_statement"
  note parse = cleanup_statement_parsed and plan = cleanup_statement_planned and bind = cleanup_statement_bound
  obtain row fin ctx' st' where set: "LanceSetAutoCleanupFunc sample_connection sample_catalog sample_committer
      cleanup_bound False (sample_ctx, []) = (Inr row, fin, ctx', st')"
    using cleanup_statement_runs by blast
  obtain rows ctx2 where shw: "LanceShowAutoCleanupInitGlobal sample_connection sample_catalog sample_namespace
      (''/data/t'', ''t'') (sample_ctx, st') = (Inr rows, ctx2)"
    using cleanup_shown by blast
  have facts: "safe_store []" "mt_kind ?d \<in> {SET_AUTO_CLEANUP, UNSET_AUTO_CLEANUP}"
    "mt_kind ?d = SET_AUTO_CLEANUP \<longrightarrow> tsv_safe (auto_cleanup_older_than ?d)"
    by code_simp+
  have "expected_rows ?d = [(''enabled'', ''true''), (''interval'', ''20''), (''older_than'', ''14d'')]" by code_simp
  with auto_cleanup_shown [OF statement_casts sample_commits sample_splits facts(1) parse facts(2,3) plan bind set shw]
    parse plan bind set shw show ?thesis by blast
qed


section \<open>Resolvers, namespaces and truncation\<close>

text \<open>
  C27.  The registry of resolvers is in order, whatever resolvers are registered, replaced and
  removed, if \<open>std::sort\<close> sorts by the comparison it is given: its names are distinct and its
  priorities descend.  A name is resolved by a resolver that no other successful one exceeds in
  priority, under the strict policy whenever some resolver succeeds; when none does, the strict
  policy fails and the other one takes the name as a path.
\<close>

theorem resolver_registry:
  assumes "std_sorts std_sort" and "registry std_sort get_entry rs" and "s \<noteq> []"
  shows "distinct (GetResolverNames rs) \<and> by_priority rs \<and>
    (\<forall>uri. Resolve vane db ffi cl rs (VarcharValue s) STRICT fn = Inr uri \<longrightarrow> decides rs s uri) \<and>
    ((\<exists>uri. Resolve vane db ffi cl rs (VarcharValue s) STRICT fn = Inr uri) \<longleftrightarrow>
       \<not> list_all (\<lambda>r. \<not> rr_success (TryResolve r s)) rs) \<and>
    (\<exists>uri. Resolve vane db ffi cl rs (VarcharValue s) FALLBACK_TO_PATH fn = Inr uri \<and>
       (decides rs s uri \<or> uri = s \<and> list_all (\<lambda>r. \<not> rr_success (TryResolve r s)) rs))"
  using registry_invariant [OF assms(1,2)] Resolve_decides [OF _ assms(3)] by blast

theorem resolver_registry_witness:
  "Resolve True sample_duckdb sample_ffi plain_client sample_resolvers (VarcharValue ''t'') STRICT ''f'' =
     Inr ''strong.lance''"
proof -
  have "registry sample_sort (\<lambda>name. CatalogException []) sample_resolvers"
    unfolding sample_resolvers_def by (intro registry.intros)
  note law = resolver_registry [OF sample_sorts this, of "''t''" True sample_duckdb sample_ffi plain_client "''f''"]
  have "\<not> list_all (\<lambda>r. \<not> rr_success (TryResolve r ''t'')) sample_resolvers"
    by (simp add: sample_resolvers_eq strong_resolver_def LanceResolveResult_Success_def)
  then obtain uri where
    uri: "Resolve True sample_duckdb sample_ffi plain_client sample_resolvers (VarcharValue ''t'') STRICT ''f'' = Inr uri"
    using law by blast
  then have "decides sample_resolvers ''t'' uri" using law by blast
  then show ?thesis using uri by (simp add: sample_decides)
qed

text \<open>
  C28.  In the distributed build the text of a backend's error does not influence what listing and
  describing the tables of a REST namespace report, nor what listing a directory that is remote or
  has private components reports.  Creating and dropping tables do report it.
\<close>

theorem namespace_errors:
  assumes "LanceConsumeLastError err \<noteq> []" and "LanceConsumeLastError err' \<noteq> []"
    and "LanceVanePathHasPrivateUriComponents ffi dir \<or> LanceVanePathIsRemote ffi dir"
  shows "TryLanceNamespaceListTables True nf err args = TryLanceNamespaceListTables True nf err' args \<and>
    TryLanceNamespaceDescribeTable True nf err args = TryLanceNamespaceDescribeTable True nf err' args \<and>
    TryLanceDirNamespaceListTables True db ffi cl nf err dir = TryLanceDirNamespaceListTables True db ffi cl nf err' dir \<and>
    (\<not> lance_namespace_drop_table nf args \<longrightarrow>
       TryLanceNamespaceDropTable nf err args = Inl (LanceConsumeLastError err)) \<and>
    (lance_namespace_create_empty_table nf args = None \<longrightarrow>
       TryLanceNamespaceCreateEmptyTable nf err args = Inl (LanceConsumeLastError err))"
proof -
  have rest: "LanceVaneNamespaceError e = ''details redacted''"
    and dirs: "LanceVaneDirectoryNamespaceError ffi e dir keys = ''details redacted''"
    and raw: "last_error_text e = LanceConsumeLastError e"
    if "LanceConsumeLastError e \<noteq> []" for e keys
    using that assms(3) by (auto simp: LanceVaneNamespaceError_def LanceVaneDirectoryNamespaceError_def last_error_text_def)
  show ?thesis
    unfolding TryLanceNamespaceListTables_def TryLanceNamespaceDescribeTable_def TryLanceDirNamespaceListTables_def
      TryLanceNamespaceDropTable_def TryLanceNamespaceCreateEmptyTable_def if_True
      rest [OF assms(1)] rest [OF assms(2)] dirs [OF assms(1)] dirs [OF assms(2)] raw [OF assms(1)]
    by simp
qed

theorem namespace_errors_witness:
  "TryLanceNamespaceListTables True sample_namespace \<lparr>lance_last_error_code = 1, lance_last_error_message = Some ''secret''\<rparr>
       (namespace_args ''e'' ''t'' [] [] [] []) =
   TryLanceNamespaceListTables True sample_namespace \<lparr>lance_last_error_code = 2, lance_last_error_message = Some ''other''\<rparr>
       (namespace_args ''e'' ''t'' [] [] [] [])"
proof -
  have "LanceConsumeLastError \<lparr>lance_last_error_code = 1, lance_last_error_message = Some ''secret''\<rparr> \<noteq> []"
    "LanceConsumeLastError \<lparr>lance_last_error_code = 2, lance_last_error_message = Some ''other''\<rparr> \<noteq> []"
    by (simp_all add: LanceConsumeLastError_def)
  moreover have "LanceVanePathHasPrivateUriComponents sample_ffi ''s3://b'' \<or> LanceVanePathIsRemote sample_ffi ''s3://b''"
    by code_simp
  ultimately show ?thesis by (rule namespace_errors [THEN conjunct1])
qed

text \<open>
  C29.  A planned TRUNCATE statement can be bound only when the name was written with its catalog and
  schema: an unqualified one, which the planner has found in the catalog, is refused.  Every handle
  that truncation, or the creation or removal of an index, takes from the Rust library is given back,
  on every path through it.
\<close>

theorem truncate_statement:
  assumes "ParseQualifiedName h sql = Inr q" and "LanceTruncatePlan h get_entry sql = Inr params"
  shows "((\<exists>d. LanceTruncateBind params = Inr d) \<longleftrightarrow> qn_catalog q \<noteq> [] \<and> qn_schema q \<noteq> [] \<and> qn_name q \<noteq> []) \<and>
    in_use [] (fst (snd (LanceTruncateFunc cn nf err tf get_entry d finished ctx))) = Some [] \<and>
    in_use [] (fst (snd (LanceCreateIndexFunc cn xf get_entry bd finished ctx))) = Some [] \<and>
    in_use [] (fst (snd (LanceDropIndexFunc cn xf get_entry bd finished ctx))) = Some []"
  using assms LanceTruncateFunc_returns_handles ddl_returns_handles
  by (auto simp: LanceTruncatePlan_def LanceTruncateBind_def res_bind_Inr_iff)

theorem truncate_statement_witness:
  "\<exists>params. LanceTruncatePlan sample_sql (\<lambda>c s t. Inr (LanceTable sample_table)) ''t'' = Inr params \<and>
     (\<nexists>d. LanceTruncateBind params = Inr d)"
proof -
  have "ParseQualifiedName sample_sql ''t'' = Inr \<lparr>qn_catalog = [], qn_schema = [], qn_name = ''t''\<rparr>"
    and plan: "\<exists>params. LanceTruncatePlan sample_sql (\<lambda>c s t. Inr (LanceTable sample_table)) ''t'' = Inr params"
    by (simp_all add: sample_sql_def LanceTruncatePlan_def lance_entry_or_throw_def)
  with truncate_statement show ?thesis by fastforce
qed


section \<open>Distributed scans\<close>

text \<open>
  C30.  A distributed scan reads everything once.  However the splits the coordinator plans are given
  to workers, in any number of parts and any order, every worker accepts its part, and together the
  workers select exactly the fragments of the dataset, or exactly the rows to take, each as often as
  the scan has it.
\<close>

theorem scan_exactly_once:
  assumes "LancePlanDistributedScanSplits h ffi err list_stats b n = Inr plan"
    and "LanceCreateDistributedScanWorkerBind h ffi err sf list_stats b = Inr w"
    and "portable_stats ffi err list_stats b = Inr (ids, counts, sizes)" and "distinct ids"
    and "\<not> distributed_authorization_restricted b" and "length (take_row_ids b) < 2 ^ 64"
    and "\<forall>s\<in>set plan. ValidateSplit h s = Inr ()" and "mset (concat shares) = mset plan"
  shows "\<exists>ws. res_map (LanceApplyDistributedScanSplits h w) shares = Inr ws \<and>
    mset (concat (map selected_work ws)) = mset (planned_work ids b)"
  using plan_scanned_once [OF assms] .

theorem scan_exactly_once_witness:
  "\<exists>ws. res_map (LanceApplyDistributedScanSplits sample_scan_host sample_worker)
       [[sample_split 5 20], [], [sample_split 3 10]] = Inr ws \<and>
     mset (concat (map selected_work ws)) = {#Fragment 3, Fragment 5#}"
proof -
  have "planned_work [3, 5] sample_scan = [Fragment 3, Fragment 5]"
    by (simp add: planned_work_def sample_scan_def NewLanceScanBindData_def)
  moreover have "\<not> distributed_authorization_restricted sample_scan" "length (take_row_ids sample_scan) < 2 ^ 64"
    by (simp_all add: sample_scan_def NewLanceScanBindData_def)
  ultimately show ?thesis
    using scan_exactly_once [OF sample_plan sample_worker_bind sample_portable_stats, of "[[sample_split 5 20], [], [sample_split 3 10]]"]
    by (simp add: sample_valid)
qed

text \<open>
  C31.  What a worker accepts is sound, and binding: the splits carry the worker's token, fragments
  are selected once, fragments and rows are not mixed, and no row is selected more often than it was
  planned.  A clone of the worker plans the splits of that assignment, accepts them with the same
  work, and accepts no other assignment.
\<close>

theorem worker_assignment:
  assumes "LanceApplyDistributedScanSplits h w given = Inr w'"
    and "LanceCreateDistributedScanWorkerBind h ffi err sf list_stats w' = Inr c"
    and "LancePlanDistributedScanSplits h ffi err list_stats w' n = Inr ss"
  shows "(\<forall>s\<in>set given. take 36 (drop 4 (payload s)) = distributed_scan_token w) \<and>
    distinct (selected_fragment_ids w') \<and> (selected_fragment_ids w' = [] \<or> take_row_ids w' = []) \<and>
    (distributed_authorization_restricted w \<or> mset (take_row_ids w') \<subseteq># mset (take_row_ids w)) \<and>
    (\<exists>c'. LanceApplyDistributedScanSplits h c ss = Inr c' \<and> mset (selected_work c') = mset (selected_work w')) \<and>
    (\<forall>qs c'. LanceApplyDistributedScanSplits h c qs = Inr c' \<longrightarrow>
       mset (map named qs) = mset (map named given))"
  using accepted_splits [OF assms(1)] clone_accepts [OF assms(1) clone_bind [OF assms(1,2)]]
    clone_only_replays [OF _ clone_bind [OF assms(1,2)]] restricted_plan [OF assms(1,3)]
  by blast

theorem worker_assignment_witness:
  "\<exists>w' c ss c'. LanceApplyDistributedScanSplits sample_scan_host sample_worker [sample_split 5 20] = Inr w' \<and>
     LanceApplyDistributedScanSplits sample_scan_host c ss = Inr c' \<and> mset (selected_work c') = {#Fragment 5#}"
proof -
  obtain w' c ss where "LanceApplyDistributedScanSplits sample_scan_host sample_worker [sample_split 5 20] = Inr w'"
      and "mset (selected_work w') = {#Fragment 5#}"
      and "LanceCreateDistributedScanWorkerBind sample_scan_host sample_ffi no_error sample_snapshot_fns sample_stats w' = Inr c"
      and "LancePlanDistributedScanSplits sample_scan_host sample_ffi no_error sample_stats w' 2 = Inr ss"
    using sample_assignment by blast
  with worker_assignment [OF this(1,3,4)] show ?thesis by metis
qed

text \<open>
  C32.  A serialised scan is read back by a worker as the copy the coordinator would make of it; only
  the rows of a restricted scan are left out, since its splits carry them.  The worker accepts the
  frozen snapshot it is sent.
\<close>

theorem serialised_scan:
  assumes "LanceScanSerialize h ffi err sf list_stats b = Inr ps" and "rest_bound b" and "portable b"
    and "portable_stats ffi err list_stats b = Inr (ids, counts, sizes)"
    and "length ids = length counts" and "length ids = length sizes"
    and "GetLanceDistributedSnapshotPayload ffi err sf b = Inr snapshot" and "fixed_digests sf" and "marked_valid sf b"
  shows "\<exists>w. LanceScanDeserialize h sf ps = Inr w \<and>
    LanceCreateDistributedScanWorkerBind h ffi err sf list_stats b = Inr (w\<lparr>take_row_ids := take_row_ids b\<rparr>) \<and>
    take_row_ids w = (if distributed_authorization_restricted b then [] else take_row_ids b)"
proof -
  have "ps = scan_properties b (ids, counts, sizes) snapshot" and replayable: "replayable_scan h b"
    using written_scan [OF assms(1,2,4,7)] by blast+
  then show ?thesis
    using read_scan [OF replayable assms(3) payload_valid [OF assms(7-9)], of "(ids, counts, sizes)"] assms(5,6)
      copied_scan [OF replayable assms(2-4,7)] by (simp add: scan_copy_def)
qed

theorem serialised_scan_witness:
  "\<exists>ps w. LanceScanSerialize sample_scan_host sample_ffi no_error sample_snapshot_fns sample_stats sample_scan = Inr ps \<and>
     LanceScanDeserialize sample_scan_host sample_snapshot_fns ps = Inr w"
proof -
  obtain ps where "LanceScanSerialize sample_scan_host sample_ffi no_error sample_snapshot_fns sample_stats sample_scan = Inr ps"
    using sample_written by blast
  with serialised_scan [OF this sample_replayable(2,3) sample_portable_stats _ _ sample_payload sample_digests] show ?thesis
    by auto
qed


text \<open>
  C33.  A worker reads the snapshot the coordinator froze: whatever the connection opened before, in
  this query or earlier ones, a lookup that succeeds returns a dataset of exactly the version,
  generation and schema fingerprint it was asked for.
\<close>

theorem pinned_snapshots:
  assumes "snapshot_run sf ctx"
    and "OpenLanceDistributedSnapshot cn err vf sf path version generation s ctx = (Inr e, ctx')"
  shows "lance_dataset_version sf (dataset e) = version \<and>
    lance_dataset_generation_id sf (dataset e) = Some generation \<and>
    lance_vane_dataset_schema_fingerprint sf (dataset e) = Some (schema_fingerprint s) \<and> snapshot_run sf ctx'"
proof -
  obtain private_diagnostics
    where run: "LanceVaneGetOrOpenFrozenSnapshot cn err vf sf path version generation s private_diagnostics ctx = (Inr e, ctx')"
    using assms(2) by (auto simp: OpenLanceDistributedSnapshot_def split: sum.splits)
  then show ?thesis
    using frozen_lookup_pinned [OF snapshot_run_pinned [OF assms(1)] run] run_frozen [OF assms(1) run]
    by (simp add: is_snapshot_def has_schema_def)
qed

theorem pinned_snapshots_witness:
  "\<exists>e ctx. OpenLanceDistributedSnapshot sample_connection no_error sample_version_ffi sample_snapshot_fns ''/data/t'' 4 ''g''
       sample_snapshot sample_snapshot_ctx = (Inr e, ctx) \<and> lance_dataset_version sample_snapshot_fns (dataset e) = 4"
proof -
  have "snapshot_run sample_snapshot_fns sample_snapshot_ctx"
    by (rule run_start) (simp add: sample_snapshot_ctx_def)
  then show ?thesis
    using sample_open_snapshot pinned_snapshots by blast
qed


section \<open>Transactions\<close>

text \<open>
  C34.  Uncommitted Lance transactions have one owner.  Whatever the connections of a database ask of
  the manager, none is committed or freed more often than it was handed over; and as long as no
  commit throws, each is either waiting or was committed or freed exactly once.  A commit that
  reports success has committed every append of the transaction, in the order they were made and
  before DuckDB's own commit, and the library reported success for each of them; the connection's
  cache holds none of their datasets any more.  A commit that reports an error either met an append
  the library failed to commit, and then those before it are committed, those after it are freed
  and DuckDB's transaction is rolled back, or committed every append and was refused by DuckDB.
\<close>

theorem transactions:
  assumes "run_tm th ops new_manager = (ok, tm)"
    and "CommitTransaction cn th err tid tm ctx = (Inr None, tm', ctx')" and "registered_cache ctx = Some c"
  shows "held_handles tm + consumed_handles tm \<subseteq># mset (concat (map received ops)) \<and>
    (ok \<longrightarrow> held_handles tm + consumed_handles tm = mset (concat (map received ops))) \<and>
    (\<exists>cs. tm_trace tm' = tm_trace tm @ cs @ [DuckCommit tid] \<and>
      commits_appends th (tm_trace tm) cs (pending_of tm tid)) \<and>
    pending_of tm' tid = [] \<and>
    (\<exists>c'. registered_cache ctx' = Some c' \<and>
      (\<forall>key. map_of (entries c') key =
         (if key \<in> append_cache_key ` set (pending_of tm tid) then None else map_of (entries c) key))) \<and>
    (\<forall>cn err tid ctx e tm' ctx'. CommitTransaction cn th err tid tm ctx = (Inr (Some e), tm', ctx') \<longrightarrow>
      (\<exists>cs. tm_trace tm' = tm_trace tm @ cs \<and>
        (fails_at th tid (tm_trace tm) (pending_of tm tid) cs \<or>
         (\<exists>cs'. cs = cs' @ [DuckCommit tid] \<and> commits_appends th (tm_trace tm) cs' (pending_of tm tid) \<and>
            duck_commit_error th (tm_trace tm @ cs') tid = Some e))))"
proof -
  have new: "manager_ok new_manager" "held_handles new_manager = {#}" "consumed_handles new_manager = {#}"
    by (simp_all add: manager_ok_def new_manager_def held_handles_def consumed_handles_def)
  note owned = run_handles [OF new(1) assms(1)]
  obtain tr ctx1 where run: "commit_appends cn th err tid (pending_of tm tid) (tm_trace tm) ctx = (Inr None, tr, ctx1)"
      and tm': "tm_trace tm' = tr @ [DuckCommit tid]"
      and ctx': "fold (\<lambda>p. LanceInvalidateDatasetCache (append_cache_key p)) (pending_of tm tid) ctx1 = ctx'"
    using commit_success [OF assms(2)] by blast
  have reg: "registered_cache ctx1 = Some c"
    using commit_appends_cache [OF run] assms(3) by simp
  have "pending_of tm' tid = []"
    using CommitTransaction_handles(2) [OF _ assms(2)] owned by (simp add: pending_of_def)
  moreover have "\<exists>cs. tm_trace tm' = tm_trace tm @ cs @ [DuckCommit tid] \<and>
      commits_appends th (tm_trace tm) cs (pending_of tm tid)"
    using committed_appends [OF run] tm' by auto
  moreover have "held_handles tm + consumed_handles tm \<subseteq># mset (concat (map received ops)) \<and>
      (ok \<longrightarrow> held_handles tm + consumed_handles tm = mset (concat (map received ops)))"
    using owned new by simp
  moreover note invalidated_keys [OF reg ctx']
  ultimately show ?thesis
    by (intro conjI) (simp_all add: commit_failure)
qed

theorem transactions_witness:
  "\<exists>tm ctx c h. CommitTransaction sample_connection sample_tm_host no_error 9 sample_manager sample_cached_ctx = (Inr None, tm, ctx) \<and>
     tm_trace tm = [CommitCall ''/data/t.lance'' no_options h 21, DuckCommit 9] \<and>
     registered_cache ctx = Some c \<and> map_of (entries c) ''k'' = None"
proof -
  obtain tm ctx where commit: "CommitTransaction sample_connection sample_tm_host no_error 9 sample_manager sample_cached_ctx =
      (Inr None, tm, ctx)"
    using sample_commit by blast
  have run: "run_tm sample_tm_host [Register True 9 ''/data/t.lance'' no_options ''k'' 21] new_manager = (True, sample_manager)"
    by (simp add: run_op_tm_def sample_manager_def)
  have reg: "registered_cache sample_cached_ctx = Some (empty_cache\<lparr>entries := [(''k'', \<lparr>dataset = 1, entry_display_uri = []\<rparr>)]\<rparr>)"
    by (simp add: sample_cached_ctx_def)
  note law = transactions [OF run commit reg]
  obtain h where "tm_trace tm = [CommitCall ''/data/t.lance'' no_options h 21, DuckCommit 9]"
    using law by (auto simp: sample_manager_pending commits_one)
  moreover obtain c where "registered_cache ctx = Some c" "map_of (entries c) ''k'' = None"
    using law by (auto simp: sample_manager_pending)
  ultimately show ?thesis using commit by blast
qed

section \<open>Scans\<close>

text \<open>
  C35.  A point lookup takes what its predicate selects.  An IN list, an equality or a disjunction
  of equalities on the row id is true, in SQL's three-valued sense, for exactly the rows extracted
  from it, in both builds and for table filters as well; dropping repetitions keeps the rows and the
  order of their first occurrences.  The rows the callback for complex filters stores are those of
  one of the filters, so the filters, which stay in the plan, select no other row.  A NULL in the list
  is passed over in the distributed build only; in the other it is an error.
\<close>

theorem row_lookups:
  "(try_extract_rowids vane db get e = Done rows \<or> TryExtractTakeRowIdsFromExpression vane db get e = Done rows \<longrightarrow>
      (\<forall>r. row_truth other (is_row_id db get) r e = Some True \<longleftrightarrow> r \<in> set rows)) \<and>
   (TryExtractTakeRowIdsFromFilter vane f = Done rows \<longrightarrow> (\<forall>r. filter_truth other_filter r f = Some True \<longleftrightarrow> r \<in> set rows)) \<and>
   set (NormalizeSqlTakeRowIds rows) = set rows \<and> distinct (NormalizeSqlTakeRowIds rows) \<and> subseq (NormalizeSqlTakeRowIds rows) rows \<and>
   (LancePushdownComplexFilter vane db h get es b = Inr b' \<and> take_row_ids b = [] \<and> take_row_ids b' \<noteq> [] \<longrightarrow>
      take_from tr vane db get es b') \<and>
   TryExtractTakeRowIdsFromFilter True (InFilter [UBigIntValue 5, NullValue t]) = Done [5] \<and>
   (\<exists>x. TryExtractTakeRowIdsFromFilter False (InFilter [UBigIntValue 5, NullValue t]) = Raised x)"
proof -
  have "row_truth other (is_row_id db get) r e = Some True \<longleftrightarrow> r \<in> set rows"
    if "try_extract_rowids vane db get e = Done rows \<or> TryExtractTakeRowIdsFromExpression vane db get e = Done rows" for r
    using that try_extract_rows(1) expression_rows by blast
  moreover have "filter_truth other_filter r f = Some True \<longleftrightarrow> r \<in> set rows" if "TryExtractTakeRowIdsFromFilter vane f = Done rows" for r
    using that by (rule filter_rows)
  moreover have "TryExtractTakeRowIdsFromFilter True (InFilter [UBigIntValue 5, NullValue t]) = Done [5]"
    and "\<exists>x. TryExtractTakeRowIdsFromFilter False (InFilter [UBigIntValue 5, NullValue t]) = Raised x"
    by (simp_all add: lookup_value_def)
  moreover have "take_from tr vane db get es b'"
    if "LancePushdownComplexFilter vane db h get es b = Inr b' \<and> take_row_ids b = [] \<and> take_row_ids b' \<noteq> []"
    using that pushdown_take by blast
  ultimately show ?thesis
    using subseq_NormalizeSqlTakeRowIds [of rows] by (simp only: set_NormalizeSqlTakeRowIds distinct_NormalizeSqlTakeRowIds) blast
qed

theorem row_lookups_witness:
  "TryExtractTakeRowIdsFromExpression True sample_duckdb (logical_get (sample_scan_get [])) (any_row [5, 6, 5]) = Done [5, 6, 5] \<and>
   row_truth (\<lambda>e. None) (is_row_id sample_duckdb (logical_get (sample_scan_get []))) 6 (any_row [5, 6, 5]) = Some True \<and>
   distinct (NormalizeSqlTakeRowIds [5, 6, 5])"
  using row_lookups [of True sample_duckdb "logical_get (sample_scan_get [])" "any_row [5, 6, 5]" "[5, 6, 5]" "\<lambda>e. None"]
    sample_extract [of "[5, 6, 5]" True "[]"]
  by simp

text \<open>
  C36.  The rewrite of row id predicates into point lookups keeps the result of a scan under filters
  and projections, whatever else the filters say: a row is returned after the rewrite if it was
  before, and in the distributed build as often as before.  This needs that the plan has at most one
  such predicate, that DuckDB's translation of a row id filter into an expression means the same, and
  that rows to take which were set earlier are implied by the filters, as those of the callback for
  complex filters are.  The first is not checked by the code: of two predicates the second replaces
  the first, and rows that only the second selects are returned.  And without the distributed build
  a row that the predicate names twice is returned twice.
\<close>

theorem row_id_rewrite:
  assumes "LanceRowIdInRewrite vane db h p = Inr q" and "chain_scan p = Some g"
    and "distinct (map fst (table_filters (logical_get g)))" and "sites vane db p \<le> 1"
    and "filters_as_expressions tr db h" and "take_implied tr db vane p"
  shows "(\<forall>r. 0 < copies tr db r q \<longleftrightarrow> 0 < copies tr db r p) \<and> (vane \<longrightarrow> (\<forall>r. copies tr db r q = copies tr db r p)) \<and>
    (\<exists>p q. LanceRowIdInRewrite vane sample_duckdb sample_plan_host p = Inr q \<and>
       copies unknown sample_duckdb 5 p = 0 \<and> copies unknown sample_duckdb 5 q = 1) \<and>
    (\<exists>p q. sites False sample_duckdb p = 1 \<and> LanceRowIdInRewrite False sample_duckdb sample_plan_host p = Inr q \<and>
       copies unknown sample_duckdb 5 p = 1 \<and> copies unknown sample_duckdb 5 q = 2)"
proof -
  have "NormalizeSqlTakeRowIds [5, 6] = [5, 6]" by (simp add: NormalizeSqlTakeRowIds_def)
  then have "\<exists>p q. LanceRowIdInRewrite vane sample_duckdb sample_plan_host p = Inr q \<and>
      copies unknown sample_duckdb 5 p = 0 \<and> copies unknown sample_duckdb 5 q = 1"
    using sample_lookup_twice [of "[5, 6]" "[1, 2]" vane sample_plan_host]
    by (intro exI [of _ "sample_lookup (rows_in [1, 2]) [5, 6]"] exI [of _ "sample_taken [5, 6]"]) (simp add: sample_lookup_copies)
  moreover have "\<exists>p q. sites False sample_duckdb p = 1 \<and> LanceRowIdInRewrite False sample_duckdb sample_plan_host p = Inr q \<and>
      copies unknown sample_duckdb 5 p = 1 \<and> copies unknown sample_duckdb 5 q = 2"
    using sample_lookup_rewritten [of "[5, 6, 5]" False sample_plan_host]
    by (intro exI [of _ "sample_lookup [] [5, 6, 5]"] exI [of _ "sample_taken [5, 6, 5]"]) (simp add: sample_lookup_copies sample_sites)
  ultimately show ?thesis
    using rewritten_copies [OF rewrite_chain [OF assms(1-5)] assms(6)] by blast
qed

theorem row_id_rewrite_witness:
  "\<exists>q. LanceRowIdInRewrite True sample_duckdb sample_plan_host (sample_lookup [] [5, 6, 5]) = Inr q \<and> copies unknown sample_duckdb 5 q = 1"
proof -
  let ?p = "sample_lookup [] [5, 6, 5]"
  have p: "chain_scan ?p = Some (sample_scan_get [])" by (simp add: sample_lookup_def)
  obtain q where q: "LanceRowIdInRewrite True sample_duckdb sample_plan_host ?p = Inr q"
    using sample_lookup_rewritten [of "[5, 6, 5]" True sample_plan_host] by simp
  have "take_implied unknown sample_duckdb True ?p" by (simp add: take_implied_def taken_def p scan_take_def)
  then have "copies unknown sample_duckdb 5 q = copies unknown sample_duckdb 5 ?p"
    using row_id_rewrite [OF q p _ _ sample_as_expressions] by (simp add: sample_sites)
  with q show ?thesis by (simp add: sample_lookup_copies)
qed



text \<open>
  C38.  A scan with a limit never reads without its filter.  Whatever way the scan was started, and
  also when the first request failed, a stream of a scan that limits its rows was asked for with the
  limit of the bind data and with the message made of the parts of the scan's table filters and of
  its complex filters.  If the scan has table filters and is not a namespace query, every one of them
  is among these parts, and a message was sent; a scan of which that is not true does not start.  A
  namespace query starts without this check; it is the probe of the optimizer that answers for it:
  where the probe found every table filter written, they are all among the parts.  Complex filters
  alone whose parts cannot be put into one message are read without filter; a scan that only counts
  rows applies the limit to the number it counted.
\<close>

theorem limit_with_filter:
  assumes "LanceScanInitGlobal vane db ffi reopen b input = Inr s" and "gs_limit_offset_pushed_down s"
  shows "(\<not> count_only s \<and> LanceScanOpenStream create sfx s fragment_pos = Inr (Some (st, pushed, req)) \<longrightarrow>
      request_limit req = Some (case pushed_limit b of Some n \<Rightarrow> int n | None \<Rightarrow> - 1, pushed_offset b) \<and>
      (\<exists>r. build_filters db b input = Inr r \<and> request_filter req = sent_filter (all_parts r b) \<and>
        (\<not> use_namespace_query s \<and> \<not> no_filters input \<longrightarrow> all_filters_pushed r \<and> request_filter req \<noteq> None) \<and>
        (\<forall>get fs p. hugeint_exact db \<and> decimals_print db \<and> filters input = Some fs \<and>
           rekeyed (column_ids input) fs (table_filters get) \<and>
           ProbeLanceTableFilterIR db get (names b) (types b) = Inr p \<and> all_filters_pushed p \<longrightarrow> all_filters_pushed r))) \<and>
    (count_only s \<longrightarrow>
      UsesNamespaceQuery b \<and> pushed_limit b = Some 0 \<and> count_only_total_rows s = 0 \<or>
      (\<exists>n. count_scan_rows vane ffi b s = Inr (Some n) \<and>
        (\<forall>xs. length xs = n \<longrightarrow> count_only_total_rows s = length (limited (pushed_limit b) (pushed_offset b) xs))))"
proof (intro conjI impI)
  assume open_st: "\<not> count_only s \<and> LanceScanOpenStream create sfx s fragment_pos = Inr (Some (st, pushed, req))"
  have read: "limit_read db b input (use_namespace_query s) req"
    by (rule limited_stream [OF assms conjunct1 [OF open_st] conjunct2 [OF open_st]])
  then show "request_limit req = Some (case pushed_limit b of Some n \<Rightarrow> int n | None \<Rightarrow> - 1, pushed_offset b)"
    by (simp add: limit_read_def)
  show "\<exists>r. build_filters db b input = Inr r \<and> request_filter req = sent_filter (all_parts r b) \<and>
      (\<not> use_namespace_query s \<and> \<not> no_filters input \<longrightarrow> all_filters_pushed r \<and> request_filter req \<noteq> None) \<and>
      (\<forall>get fs p. hugeint_exact db \<and> decimals_print db \<and> filters input = Some fs \<and>
         rekeyed (column_ids input) fs (table_filters get) \<and>
         ProbeLanceTableFilterIR db get (names b) (types b) = Inr p \<and> all_filters_pushed p \<longrightarrow> all_filters_pushed r)"
    using read unfolding limit_read_def
  proof (elim conjE exE)
    fix r
    assume r: "build_filters db b input = Inr r" "request_filter req = sent_filter (all_parts r b)"
      and whole: "\<not> use_namespace_query s \<and> \<not> no_filters input \<longrightarrow> all_filters_pushed r \<and> request_filter req \<noteq> None"
    show ?thesis
      using r whole by (intro exI [of _ r] conjI allI impI) (simp_all, metis probed_scan [OF _ _ _ _ _ _ r(1)])
  qed
next
  assume "count_only s"
  from limited_count [OF assms this] show "UsesNamespaceQuery b \<and> pushed_limit b = Some 0 \<and> count_only_total_rows s = 0 \<or>
      (\<exists>n. count_scan_rows vane ffi b s = Inr (Some n) \<and>
        (\<forall>xs. length xs = n \<longrightarrow> count_only_total_rows s = length (limited (pushed_limit b) (pushed_offset b) xs)))"
    unfolding count_limited_def by (auto simp: limited_rows_length)
qed

theorem limit_with_filter_witness:
  "\<exists>s pushed req r msg. LanceScanInitGlobal True sample_duckdb sample_scan_ffi (\<lambda>_. Inl CastError) sample_limited_bind
       (sample_scan_input (Some sample_pushable)) = Inr s \<and>
     LanceScanOpenStream (\<lambda>req. Some ()) [] s 0 = Inr (Some ((), pushed, req)) \<and> request_limit req = Some (10, 2) \<and>
     build_filters sample_duckdb sample_limited_bind (sample_scan_input (Some sample_pushable)) = Inr r \<and>
     all_filters_pushed r \<and> TryEncodeLanceFilterIRMessage (all_parts r sample_limited_bind) = Done msg \<and>
     request_filter req = Some msg"
proof -
  let ?input = "sample_scan_input (Some sample_pushable)"
  obtain s where s: "LanceScanInitGlobal True sample_duckdb sample_scan_ffi (\<lambda>_. Inl CastError) sample_limited_bind ?input = Inr s"
      "gs_limit_offset_pushed_down s" "\<not> count_only s" "use_dataset_scanner s" "\<not> gs_sampling_pushed_down s"
      "\<not> use_namespace_query s" "\<not> use_dataset_take s"
    using sample_limited_start [of True "\<lambda>_. Inl CastError"] by blast
  obtain r msg where r: "build_filters sample_duckdb sample_limited_bind ?input = Inr r"
      "all_filters_pushed r" "TryEncodeLanceFilterIRMessage (all_parts r sample_limited_bind) = Done msg"
    using sample_limited_parts by blast
  obtain pushed req where req: "LanceScanOpenStream (\<lambda>req. Some ()) [] s 0 = Inr (Some ((), pushed, req))"
    using s by (simp add: LanceScanOpenStream_def request_def Let_def)
  note law = limit_with_filter [OF s(1,2), of "\<lambda>req. Some ()" "[]" 0 "()" pushed req]
  have lim: "request_limit req = Some (10, 2)" using law s(3) req by simp
  have filt: "request_filter req = Some msg"
    using law s(3) req r by (auto simp: sent_filter_def)
  then show ?thesis using s(1) req lim r by blast
qed

text \<open>
  C39.  A scan returns the columns it was asked for, in their order: for every row, each output is the
  value of its column, the row id, or a constant where DuckDB asks for no value, however the columns
  are shared, added or read later.  The columns of filters that DuckDB evaluates are never among those
  read later.
\<close>

theorem scan_output:
  assumes "LanceScanInitGlobal vane db ffi reopen b input = Inr s" and "r \<le> 0x7fffffffffffffff"
  shows "delivered s vals r (length (column_ids input)) = Inr (map (wanted db b vals r) (column_ids input)) \<and> filters_read b input s"
  using init_settled [OF assms(1)] delivered_wanted [OF _ assms(2), where vals = vals] by (simp add: columns_settled_def)

theorem scan_output_witness:
  "\<exists>s. LanceScanInitGlobal True sample_duckdb sample_scan_ffi (\<lambda>_. Inl CastError) sample_wide_bind
       (sample_scan_input (Some sample_unpushable)) = Inr s \<and> deferred_column_names s = [''body''] \<and>
     delivered s id 9 3 = Inr [DataCell ''body'', RowIdCell 9, DataCell ''x'']"
proof -
  let ?in = "sample_scan_input (Some sample_unpushable)"
  obtain s where s: "LanceScanInitGlobal True sample_duckdb sample_scan_ffi (\<lambda>_. Inl CastError) sample_wide_bind ?in = Inr s"
      "deferred_column_names s = [''body'']"
    using sample_start [of True "\<lambda>_. Inl CastError"] by blast
  have "map (wanted sample_duckdb sample_wide_bind id 9) (column_ids ?in) = [DataCell ''body'', RowIdCell 9, DataCell ''x'']"
    by (simp add: wanted_def column_name_def read_cell_def sample_identifiers LANCE_COLUMN_IDENTIFIER_ROW_ID_def
        IsLanceVirtualRowIdColumnId_def LANCE_ROW_ID_COLUMN_NAME_def)
  with scan_output [OF s(1), of 9 id] s show ?thesis by (auto simp: numeral_3_eq_3)
qed

text \<open>
  C40.  Threads that scan the fragments of a dataset share them out: in whatever order they take their
  turns, no batch is given out twice; when all have stopped, every batch of every fragment was given;
  and they do stop, since each turn uses up work that is left.  The chunks of a scan that only counts
  add up to the number of rows.
\<close>

theorem fragments_shared:
  assumes "(scan_step batches frags)\<^sup>*\<^sup>* (start_threads n) st" and "0 < n"
  shows "mset (given_batches st) \<subseteq># mset (concat (map batches frags)) \<and>
    (set (workers st) \<subseteq> {Stopped} \<longrightarrow> mset (given_batches st) = mset (concat (map batches frags))) \<and>
    (\<exists>st'. (scan_step batches frags)\<^sup>*\<^sup>* st st' \<and> mset (given_batches st') = mset (concat (map batches frags))) \<and>
    (\<forall>st'. scan_step batches frags st st' \<longrightarrow> work_left batches frags st' < work_left batches frags st) \<and>
    sum_list (count_chunks rows 0) = rows \<and> 0 \<notin> set (count_chunks rows 0)"
proof -
  obtain st' where "(scan_step batches frags)\<^sup>*\<^sup>* st st'" "set (workers st') \<subseteq> {Stopped}"
    by (rule scan_completes)
  moreover then have "mset (given_batches st') = mset (concat (map batches frags))"
    using all_stopped_given [OF _ assms(2)] rtranclp_trans [OF assms(1)] by blast
  moreover have "mset (given_batches st) \<subseteq># mset (concat (map batches frags))"
    using reachable_threads(1) [OF assms(1)] by (metis in_flight_def mset_subset_eq_add_left union_assoc)
  ultimately show ?thesis
    using all_stopped_given [OF assms] step_work count_chunks_sum [of rows 0] count_chunks_nonempty [of rows 0] by (metis diff_zero)
qed

theorem fragments_shared_witness:
  "\<exists>st. (scan_step (\<lambda>f. [f, f + 1]) [10, 20, 30])\<^sup>*\<^sup>* (start_threads 2) st \<and>
     mset (given_batches st) = mset [10, 11, 20, 21, 30, 31 :: u64]"
  using fragments_shared [of "\<lambda>f. [f, f + 1]" "[10, 20, 30]" 2 "start_threads 2 :: u64 scan_threads"] by auto

end
